(* ===== verification/Prelude.thy ===== *)
theory Prelude
  imports Main "HOL-Library.AList" "HOL-Library.Product_Lexorder" "HOL-Library.Multiset"
begin

text \<open>
  What every component theory shares: JavaScript values, the insertion-ordered
  \<open>Map\<close> of the language as an association list, the array operations the code uses
  (\<open>splice\<close>, \<open>findIndex\<close>, \<open>slice\<close>), stable sorting, decimal printing of numbers, and the
  interface locales \<open>prio_insert\<close> (a list kept in priority order by an insertion) and
  \<open>bounded_log\<close> (an array that drops its oldest entry past a limit).

  Conventions. A \<open>Date\<close> is its \<open>getTime()\<close> value, an \<open>int\<close> of milliseconds; an operation
  that reads the clock takes the reading as an argument \<open>now\<close>, one reading for each
  stretch of code that runs without suspending. Counters are \<open>nat\<close> or \<open>int\<close>. An operation
  on a component's state returns the new state and either \<open>Inl\<close> of what it throws or
  \<open>Inr\<close> of what it returns: the state changes made before a throw are kept, as they are in
  the program.
\<close>

named_theorems model_simps \<open>characteristic equations of the components' operations\<close>
named_theorems inv_intros \<open>preservation lemmas of the components' invariants\<close>

section \<open>Values\<close>

datatype jsval =
    JUndefined
  | JNull
  | JBool bool
  | JNum int
  | JStr string
  | JDate int
  | JArr "jsval list"
  | JObj "(string \<times> jsval) list"

type_synonym js_record = "(string \<times> jsval) list"
type_synonym time_ms = int

text \<open>The truthiness of a value, as \<open>if (v)\<close> and \<open>v || d\<close> test it.\<close>

fun truthy :: "jsval \<Rightarrow> bool" where
  "truthy JUndefined = False"
| "truthy JNull = False"
| "truthy (JBool b) = b"
| "truthy (JNum n) = (n \<noteq> 0)"
| "truthy (JStr s) = (s \<noteq> [])"
| "truthy (JDate d) = True"
| "truthy (JArr xs) = True"
| "truthy (JObj fs) = True"

text \<open>\<open>typeof v === 'object'\<close>, for a value other than \<open>null\<close>.\<close>

fun is_object_value :: "jsval \<Rightarrow> bool" where
  "is_object_value (JObj fs) = True"
| "is_object_value (JArr vs) = True"
| "is_object_value (JDate t) = True"
| "is_object_value _ = False"

text \<open>An optional text as a value.\<close>

definition opt_text :: "string option \<Rightarrow> jsval" where
  "opt_text x = (case x of None \<Rightarrow> JUndefined | Some s \<Rightarrow> JStr s)"

definition str_or :: "string \<Rightarrow> string \<Rightarrow> string" where
  "str_or s d = (if s = [] then d else s)"

text \<open>
  The numbers of the code that may be infinite: \<open>Math.max()\<close> of no arguments is \<open>-Infinity\<close>.
\<close>

datatype js_num = MinusInf | Fin int

fun num_add :: "js_num \<Rightarrow> js_num \<Rightarrow> js_num" where
  "num_add (Fin a) (Fin b) = Fin (a + b)"
| "num_add _ _ = MinusInf"

text \<open>\<open>Math.max(...xs)\<close>.\<close>

fun math_max :: "int list \<Rightarrow> js_num" where
  "math_max [] = MinusInf"
| "math_max (x # xs) = (case math_max xs of MinusInf \<Rightarrow> Fin x | Fin y \<Rightarrow> Fin (max x y))"

lemma math_max_Fin: "xs \<noteq> [] \<Longrightarrow> math_max xs = Fin (Max (set xs))"
proof (induction xs)
  case (Cons x xs)
  then show ?case by (cases xs) auto
qed simp

section \<open>Maps in insertion order\<close>

text \<open>
  A JavaScript \<open>Map\<close> (or a plain object used as one) iterates its entries in the order their
  keys were first inserted; setting an existing key keeps its place. \<open>AList.update\<close> and
  \<open>AList.delete\<close> of the library are these operations.
\<close>

type_synonym ('k, 'v) js_map = "('k \<times> 'v) list"

definition js_get :: "('k, 'v) js_map \<Rightarrow> 'k \<Rightarrow> 'v option" where
  "js_get m k = map_of m k"

definition js_has :: "('k, 'v) js_map \<Rightarrow> 'k \<Rightarrow> bool" where
  "js_has m k = (map_of m k \<noteq> None)"

definition js_set :: "'k \<Rightarrow> 'v \<Rightarrow> ('k, 'v) js_map \<Rightarrow> ('k, 'v) js_map" where
  "js_set k v m = AList.update k v m"

definition js_delete :: "'k \<Rightarrow> ('k, 'v) js_map \<Rightarrow> ('k, 'v) js_map" where
  "js_delete k m = AList.delete k m"

definition js_keys :: "('k, 'v) js_map \<Rightarrow> 'k list" where
  "js_keys m = map fst m"

definition js_values :: "('k, 'v) js_map \<Rightarrow> 'v list" where
  "js_values m = map snd m"

text \<open>Object spread \<open>{...a, ...b}\<close>: the entries of \<open>b\<close> written over those of \<open>a\<close>, in order.\<close>

definition js_spread :: "('k, 'v) js_map \<Rightarrow> ('k, 'v) js_map \<Rightarrow> ('k, 'v) js_map" where
  "js_spread a b = fold (\<lambda>(k, v) m. js_set k v m) b a"

text \<open>A well-formed map has each key once; every operation keeps it so.\<close>

definition js_wf :: "('k, 'v) js_map \<Rightarrow> bool" where
  "js_wf m = distinct (map fst m)"

lemma js_get_set [simp]: "js_get (js_set k v m) k' = (if k' = k then Some v else js_get m k')"
  by (simp add: js_get_def js_set_def update_conv')

lemma js_get_delete [simp]: "js_get (js_delete k m) k' = (if k' = k then None else js_get m k')"
  by (simp add: js_get_def js_delete_def delete_conv')

lemma js_get_Nil [simp]: "js_get [] k = None"
  by (simp add: js_get_def)

lemma js_has_iff: "js_has m k \<longleftrightarrow> (\<exists>v. js_get m k = Some v)"
  by (auto simp: js_has_def js_get_def)

lemma js_has_set [simp]: "js_has (js_set k v m) k' \<longleftrightarrow> k' = k \<or> js_has m k'"
  by (auto simp: js_has_iff)

lemma js_has_delete [simp]: "js_has (js_delete k m) k' \<longleftrightarrow> k' \<noteq> k \<and> js_has m k'"
  by (auto simp: js_has_iff)

lemma js_has_Nil [simp]: "\<not> js_has [] k"
  by (simp add: js_has_iff)

lemma js_get_None_iff: "js_get m k = None \<longleftrightarrow> k \<notin> fst ` set m"
  by (simp add: js_get_def map_of_eq_None_iff)

lemma js_has_keys: "js_has m k \<longleftrightarrow> k \<in> fst ` set m"
  by (simp add: js_has_def map_of_eq_None_iff)

lemma js_get_in_set: "js_get m k = Some v \<Longrightarrow> (k, v) \<in> set m"
  by (simp add: js_get_def map_of_SomeD)

lemma js_get_wf: "js_wf m \<Longrightarrow> (k, v) \<in> set m \<longleftrightarrow> js_get m k = Some v"
  by (simp add: js_get_def js_wf_def map_of_eq_Some_iff)

lemma js_wf_Nil [simp, intro]: "js_wf []"
  by (simp add: js_wf_def)

lemma js_wf_set [simp, intro]: "js_wf m \<Longrightarrow> js_wf (js_set k v m)"
  by (simp add: js_wf_def js_set_def distinct_update)

lemma js_wf_delete [simp, intro]: "js_wf m \<Longrightarrow> js_wf (js_delete k m)"
  by (simp add: js_wf_def js_delete_def distinct_delete)

lemma js_keys_set:
  "map fst (js_set k v m) = (if js_has m k then map fst m else map fst m @ [k])"
  by (simp add: js_set_def js_has_keys update_keys)

lemma js_set_new: "\<not> js_has m k \<Longrightarrow> js_set k v m = m @ [(k, v)]"
  by (induction m) (auto simp: js_set_def js_has_def)

lemma js_delete_filter: "js_delete k m = filter (\<lambda>p. fst p \<noteq> k) m"
  by (auto simp: js_delete_def AList.delete_eq intro: filter_cong)

lemma js_keys_delete: "map fst (js_delete k m) = filter (\<lambda>x. x \<noteq> k) (map fst m)"
  by (induction m) (auto simp: js_delete_filter)

lemma length_js_set:
  "length (js_set k v m) = (if js_has m k then length m else Suc (length m))"
proof -
  have "length (map fst (js_set k v m)) = (if js_has m k then length m else Suc (length m))"
    by (simp add: js_keys_set)
  then show ?thesis by simp
qed

lemma length_js_delete_le: "length (js_delete k m) \<le> length m"
  by (simp add: js_delete_filter)

lemma length_js_delete_less: "js_has m k \<Longrightarrow> length (js_delete k m) < length m"
  by (auto simp: js_delete_filter js_has_keys intro: length_filter_less)

lemma set_js_delete: "set (js_delete k m) = {p \<in> set m. fst p \<noteq> k}"
  by (auto simp: js_delete_filter)

lemma set_js_set_subset: "set (js_set k v m) \<subseteq> insert (k, v) (set m)"
  by (induction m) (auto simp: js_set_def)

lemma js_get_filter:
  "js_wf m \<Longrightarrow> js_get (filter (\<lambda>(k, e). Q k e) m) k = Some e \<longleftrightarrow> js_get m k = Some e \<and> Q k e"
proof -
  assume m: "js_wf m"
  then have "js_wf (filter (\<lambda>(k, e). Q k e) m)" by (simp add: js_wf_def distinct_map_filter)
  then show ?thesis using m by (auto simp: js_get_wf [symmetric])
qed

lemma js_wf_filter [simp, intro]: "js_wf m \<Longrightarrow> js_wf (filter P m)"
  by (simp add: js_wf_def distinct_map_filter)

lemma js_get_spread:
  "js_get (js_spread a b) k = (case js_get (rev b) k of Some v \<Rightarrow> Some v | None \<Rightarrow> js_get a k)"
proof (induction b arbitrary: a)
  case Nil
  then show ?case by (simp add: js_spread_def)
next
  case (Cons p b)
  obtain k' v' where p: "p = (k', v')" by (cases p)
  have "js_spread a (p # b) = js_spread (js_set k' v' a) b"
    by (simp add: js_spread_def p)
  then show ?case using Cons.IH [of "js_set k' v' a"]
    by (auto simp: p js_get_def map_add_def js_set_def update_conv' split: option.splits)
qed

lemma mset_remove_one:
  "distinct xs \<Longrightarrow> k \<in> set xs \<Longrightarrow> mset xs = add_mset k (mset (filter (\<lambda>x. x \<noteq> k) xs))"
proof (induction xs)
  case (Cons x xs)
  show ?case
  proof (cases "x = k")
    case True
    then have "filter (\<lambda>x. x \<noteq> k) xs = xs" using Cons.prems by (auto simp: filter_id_conv)
    then show ?thesis using True by simp
  next
    case False
    then show ?thesis using Cons by simp
  qed
qed simp

lemma mset_keys_delete:
  "js_wf m \<Longrightarrow> js_has m k \<Longrightarrow> mset (map fst m) = add_mset k (mset (map fst (js_delete k m)))"
  unfolding js_keys_delete js_has_keys js_wf_def by (rule mset_remove_one) auto

section \<open>Arrays\<close>

text \<open>\<open>first_index P xs\<close> is the first index whose element satisfies \<open>P\<close>, or the length.\<close>

fun first_index :: "('a \<Rightarrow> bool) \<Rightarrow> 'a list \<Rightarrow> nat" where
  "first_index P [] = 0"
| "first_index P (x # xs) = (if P x then 0 else Suc (first_index P xs))"

text \<open>\<open>xs.findIndex(P)\<close>, with \<open>None\<close> for \<open>-1\<close>.\<close>

definition find_index :: "('a \<Rightarrow> bool) \<Rightarrow> 'a list \<Rightarrow> nat option" where
  "find_index P xs = (let i = first_index P xs in if i < length xs then Some i else None)"

text \<open>\<open>xs.splice(i, 0, x)\<close> and \<open>xs.splice(i, 1)\<close>, for an index within the array.\<close>

definition splice_in :: "nat \<Rightarrow> 'a \<Rightarrow> 'a list \<Rightarrow> 'a list" where
  "splice_in i x xs = take i xs @ x # drop i xs"

definition splice_out :: "nat \<Rightarrow> 'a list \<Rightarrow> 'a list" where
  "splice_out i xs = take i xs @ drop (Suc i) xs"

text \<open>\<open>xs.slice(-n)\<close>: the last \<open>n\<close> elements (all of them when \<open>n\<close> is \<open>0\<close>, as \<open>-0\<close> is \<open>0\<close>).\<close>

definition slice_last :: "nat \<Rightarrow> 'a list \<Rightarrow> 'a list" where
  "slice_last n xs = (if n = 0 then xs else drop (length xs - n) xs)"

lemma first_index_le: "first_index P xs \<le> length xs"
  by (induction xs) auto

lemma first_index_take: "x \<in> set (take (first_index P xs) xs) \<Longrightarrow> \<not> P x"
  by (induction xs) (auto split: if_splits)

lemma first_index_hit: "first_index P xs < length xs \<Longrightarrow> P (xs ! first_index P xs)"
  by (induction xs) auto

lemma first_index_none: "first_index P xs = length xs \<longleftrightarrow> (\<forall>x \<in> set xs. \<not> P x)"
  by (induction xs) auto

lemma find_index_Some:
  "find_index P xs = Some i \<Longrightarrow> i < length xs \<and> P (xs ! i) \<and> (\<forall>x \<in> set (take i xs). \<not> P x)"
  by (auto simp: find_index_def Let_def first_index_hit dest: first_index_take split: if_splits)

lemma find_index_before:
  assumes "find_index P xs = Some i" and "j < length xs" and "P (xs ! j)"
  shows "i \<le> j"
proof (rule ccontr)
  assume "\<not> i \<le> j"
  then have "xs ! j \<in> set (take i xs)" using assms(2) by (auto simp: in_set_conv_nth)
  then show False using find_index_Some [OF assms(1)] assms(3) by blast
qed

lemma find_index_None: "find_index P xs = None \<longleftrightarrow> (\<forall>x \<in> set xs. \<not> P x)"
  using first_index_le [of P xs] first_index_none [of P xs]
  by (auto simp: find_index_def Let_def)

lemma find_index_find: "List.find P xs = map_option (\<lambda>i. xs ! i) (find_index P xs)"
  by (induction xs) (auto simp: find_index_def Let_def)

lemma splice_in_split:
  "splice_in (first_index P xs) x xs = takeWhile (\<lambda>y. \<not> P y) xs @ x # dropWhile (\<lambda>y. \<not> P y) xs"
  by (induction xs) (auto simp: splice_in_def)

lemma length_splice_in [simp]: "i \<le> length xs \<Longrightarrow> length (splice_in i x xs) = Suc (length xs)"
  by (simp add: splice_in_def)

lemma set_splice_in [simp]: "set (splice_in i x xs) = insert x (set xs)"
proof -
  have "set xs = set (take i xs @ drop i xs)" by simp
  then show ?thesis unfolding splice_in_def set_append by auto
qed

lemma mset_splice_in [simp]: "mset (splice_in i x xs) = add_mset x (mset xs)"
proof -
  have "mset xs = mset (take i xs @ drop i xs)" by simp
  then show ?thesis unfolding splice_in_def mset_append by simp
qed

lemma mset_splice_out: "i < length xs \<Longrightarrow> add_mset (xs ! i) (mset (splice_out i xs)) = mset xs"
  unfolding splice_out_def
  by (subst (3) id_take_nth_drop [of i xs]) auto

lemma set_splice_out_subset: "set (splice_out i xs) \<subseteq> set xs"
  by (auto simp: splice_out_def dest: in_set_takeD in_set_dropD)

lemma set_splice_out: "i < length xs \<Longrightarrow> insert (xs ! i) (set (splice_out i xs)) = set xs"
  by (metis mset_splice_out set_mset_add_mset_insert set_mset_mset)

lemma length_splice_out: "i < length xs \<Longrightarrow> length (splice_out i xs) = length xs - 1"
  by (simp add: splice_out_def)

lemma map_splice_out: "map f (splice_out i xs) = splice_out i (map f xs)"
  by (simp add: splice_out_def take_map drop_map)

lemma map_splice_in: "map f (splice_in i x xs) = splice_in i (f x) (map f xs)"
  by (simp add: splice_in_def take_map drop_map)

lemma sorted_splice_out: "sorted xs \<Longrightarrow> sorted (splice_out i xs)"
  for xs :: "'a::linorder list"
proof -
  assume "sorted xs"
  then have "sorted (take i xs @ drop i xs)" by simp
  then have "sorted (take i xs)" "sorted (drop (Suc i) xs)"
    and "\<forall>x \<in> set (take i xs). \<forall>y \<in> set (drop i xs). x \<le> y"
    using sorted_wrt_drop [of "(\<le>)" xs "Suc i"] \<open>sorted xs\<close>
      sorted_append [of "take i xs" "drop i xs"]
    by (simp_all del: append_take_drop_id)
  moreover have "set (drop (Suc i) xs) \<subseteq> set (drop i xs)"
    by (rule set_drop_subset_set_drop) simp
  ultimately show ?thesis by (auto simp: splice_out_def sorted_append)
qed

lemma distinct_splice_out: "distinct xs \<Longrightarrow> distinct (splice_out i xs)"
  by (auto simp: splice_out_def set_take_disj_set_drop_if_distinct)

lemma splice_out_removed: "distinct xs \<Longrightarrow> i < length xs \<Longrightarrow> xs ! i \<notin> set (splice_out i xs)"
  using id_take_nth_drop [of i xs] by (metis distinct.simps(2) distinct_append Un_iff
      disjoint_iff list.set_intros(1) set_append splice_out_def)

section \<open>Stable sorting\<close>

text \<open>
  \<open>Array.prototype.sort\<close> is stable. For a comparator that is the difference of keys of a
  linear order (lexicographically for several keys) its result is the stable sort by key,
  the library's \<open>sort_key\<close>.
\<close>

definition js_sort_by :: "('a \<Rightarrow> 'k::linorder) \<Rightarrow> 'a list \<Rightarrow> 'a list" where
  "js_sort_by f xs = sort_key f xs"

lemma set_js_sort_by [simp]: "set (js_sort_by f xs) = set xs"
  by (simp add: js_sort_by_def)

lemma mset_js_sort_by [simp]: "mset (js_sort_by f xs) = mset xs"
  by (simp add: js_sort_by_def)

lemma length_js_sort_by [simp]: "length (js_sort_by f xs) = length xs"
  by (simp add: js_sort_by_def)

lemma sorted_js_sort_by: "sorted (map f (js_sort_by f xs))"
  by (simp add: js_sort_by_def)

lemma js_sort_by_stable: "filter (\<lambda>x. f x = k) (js_sort_by f xs) = filter (\<lambda>x. f x = k) xs"
  by (simp add: js_sort_by_def sort_key_stable)

section \<open>Products of doubles\<close>

text \<open>A natural number rounded to 53 significant bits, ties to even, as the product of two doubles is.\<close>

fun bit_count :: "nat \<Rightarrow> nat" where
  "bit_count n = (if n = 0 then 0 else Suc (bit_count (n div 2)))"

declare bit_count.simps [simp del]

definition round53 :: "nat \<Rightarrow> nat" where
  "round53 n =
     (let k = bit_count n - 53; u = 2 ^ k; q = n div u; r = n mod u
      in if 2 * r < u \<or> (2 * r = u \<and> even q) then q * u else (q + 1) * u)"

section \<open>Decimal numbers and joins in messages\<close>

fun nat_digits :: "nat \<Rightarrow> string" where
  "nat_digits n = (if n < 10 then [char_of (48 + n)] else nat_digits (n div 10) @ [char_of (48 + n mod 10)])"

declare nat_digits.simps [simp del]

definition int_str :: "int \<Rightarrow> string" where
  "int_str i = (if i < 0 then ''-'' @ nat_digits (nat (- i)) else nat_digits (nat i))"

text \<open>\<open>toLowerCase\<close> on the Latin letters.\<close>

definition lower_char :: "char \<Rightarrow> char" where
  "lower_char c = (let n = (of_char c :: nat) in if 65 \<le> n \<and> n \<le> 90 then char_of (n + 32) else c)"

definition to_lower :: "string \<Rightarrow> string" where
  "to_lower s = map lower_char s"

text \<open>\<open>s.includes(sub)\<close>.\<close>

fun contains_text :: "string \<Rightarrow> string \<Rightarrow> bool" where
  "contains_text sub [] = (sub = [])"
| "contains_text sub (c # cs) = (take (length sub) (c # cs) = sub \<or> contains_text sub cs)"

text \<open>A string between single quotes, as the messages quote names.\<close>

definition sq :: "string \<Rightarrow> string" where
  "sq s = CHR 0x27 # s @ [CHR 0x27]"

fun join_with :: "string \<Rightarrow> string list \<Rightarrow> string" where
  "join_with sep [] = []"
| "join_with sep [x] = x"
| "join_with sep (x # y # zs) = x @ sep @ join_with sep (y # zs)"

section \<open>Interface: a list kept in priority order by insertion\<close>

text \<open>
  Three components keep an array ordered by inserting each element before the first one with
  a larger key (the scheduler's ready queue, an agent's inbox and its outbox). The contract
  of such an insertion; a smaller key goes first, equal keys stay in arrival order.
\<close>

locale prio_insert =
  fixes key :: "'a \<Rightarrow> 'k::linorder"
    and ins :: "'a \<Rightarrow> 'a list \<Rightarrow> 'a list"
  assumes ins_split: "ins x q = takeWhile (\<lambda>y. key y \<le> key x) q @ x # dropWhile (\<lambda>y. key y \<le> key x) q"
begin

definition ordered :: "'a list \<Rightarrow> bool" where
  "ordered q = sorted (map key q)"

lemma mset_ins: "mset (ins x q) = add_mset x (mset q)"
  by (simp add: ins_split) (metis mset_append takeWhile_dropWhile_id)

lemma set_ins: "set (ins x q) = insert x (set q)"
  using arg_cong [OF mset_ins, of set_mset x q] by simp

lemma length_ins: "length (ins x q) = Suc (length q)"
  using arg_cong [OF mset_ins, of size x q] by simp

lemma ordered_ins:
  assumes "ordered q"
  shows "ordered (ins x q)"
proof -
  let ?t = "takeWhile (\<lambda>y. key y \<le> key x) q" and ?d = "dropWhile (\<lambda>y. key y \<le> key x) q"
  have td: "sorted (map key ?t @ map key ?d)"
    using assms by (simp add: ordered_def flip: map_append)
  have t: "\<forall>y \<in> set ?t. key y \<le> key x"
    by (auto dest: set_takeWhileD)
  have "\<forall>y \<in> set ?d. key x \<le> key y"
  proof (cases ?d)
    case (Cons z zs)
    then have "\<not> key z \<le> key x"
      using hd_dropWhile [of "\<lambda>y. key y \<le> key x" q] by auto
    moreover have "\<forall>y \<in> set ?d. key z \<le> key y"
      using td Cons by (auto simp: sorted_append)
    ultimately show ?thesis by (meson le_cases order_trans)
  next
    case Nil
    show ?thesis unfolding Nil by simp
  qed
  then have "\<forall>a \<in> set (map key ?t). \<forall>b \<in> set (map key (x # ?d)). a \<le> b"
    using t by (auto intro: order_trans)
  moreover have "sorted (map key ?t)" and "sorted (map key (x # ?d))"
    using td \<open>\<forall>y \<in> set ?d. key x \<le> key y\<close> by (simp_all add: sorted_append)
  ultimately have "sorted (map key ?t @ map key (x # ?d))"
    unfolding sorted_append by blast
  then show ?thesis by (simp add: ordered_def ins_split)
qed

lemma ins_after_equal:
  "filter (\<lambda>y. key y = k) (ins x q)
    = (if ordered q \<and> key x = k then filter (\<lambda>y. key y = k) q @ [x]
       else filter (\<lambda>y. key y = k) (ins x q))"
proof (cases "ordered q \<and> key x = k")
  case True
  let ?t = "takeWhile (\<lambda>y. key y \<le> key x) q" and ?d = "dropWhile (\<lambda>y. key y \<le> key x) q"
  have d: "\<forall>y \<in> set ?d. key x < key y"
  proof (cases ?d)
    case (Cons z zs)
    then have "key x < key z"
      using hd_dropWhile [of "\<lambda>y. key y \<le> key x" q] by auto
    moreover have "sorted (map key ?t @ map key ?d)"
      using True by (simp add: ordered_def flip: map_append)
    then have "\<forall>y \<in> set ?d. key z \<le> key y"
      using Cons by (auto simp: sorted_append)
    ultimately show ?thesis by force
  next
    case Nil
    show ?thesis unfolding Nil by simp
  qed
  then have e: "filter (\<lambda>y. key y = k) ?d = []"
    using True by (auto simp: filter_empty_conv)
  have "filter (\<lambda>y. key y = k) (?t @ ?d) = filter (\<lambda>y. key y = k) ?t @ filter (\<lambda>y. key y = k) ?d"
    by (rule filter_append)
  then have "filter (\<lambda>y. key y = k) q = filter (\<lambda>y. key y = k) ?t"
    using e by simp
  then show ?thesis using True e by (simp add: ins_split)
qed auto

lemma head_least: "ordered (x # q) \<Longrightarrow> y \<in> set (x # q) \<Longrightarrow> key x \<le> key y"
  by (auto simp: ordered_def)

lemma ordered_tail: "ordered (x # q) \<Longrightarrow> ordered q"
  by (simp add: ordered_def)

lemma ordered_Nil: "ordered []"
  by (simp add: ordered_def)

lemma ordered_splice_out: "ordered q \<Longrightarrow> ordered (splice_out i q)"
  by (simp add: ordered_def map_splice_out sorted_splice_out)

lemma ordered_fold_ins: "ordered q \<Longrightarrow> ordered (fold ins xs q)"
  by (induction xs arbitrary: q) (simp_all add: ordered_ins)

lemma mset_fold_ins: "mset (fold ins xs q) = mset xs + mset q"
  by (induction xs arbitrary: q) (simp_all add: mset_ins)

end

section \<open>Interface: an array that drops its oldest entry past a limit\<close>

locale bounded_log =
  fixes entries :: "'s \<Rightarrow> 'm list"
    and push :: "'m \<Rightarrow> 's \<Rightarrow> 's"
    and cap :: nat
  assumes push_entries:
    "entries (push m s)
      = (let l = entries s @ [m] in if length l > cap then tl l else l)"
    and cap_pos: "0 < cap"
begin

lemma push_bounded: "length (entries s) \<le> cap \<Longrightarrow> length (entries (push m s)) \<le> cap"
  by (simp add: push_entries Let_def)

lemma push_last: "last (entries (push m s)) = m"
  using cap_pos by (cases "entries s") (auto simp: push_entries Let_def)

lemma push_nonempty: "entries (push m s) \<noteq> []"
  using cap_pos by (cases "entries s") (auto simp: push_entries Let_def)

lemma push_run:
  "length (entries s) \<le> cap \<Longrightarrow>
     entries (fold push ms s) = drop (length (entries s) + length ms - cap) (entries s @ ms)"
proof (induction ms arbitrary: s)
  case Nil
  then show ?case by simp
next
  case (Cons m ms)
  let ?s = "push m s"
  have b: "length (entries ?s) \<le> cap" using Cons.prems by (rule push_bounded)
  have ih: "entries (fold push (m # ms) s)
      = drop (length (entries ?s) + length ms - cap) (entries ?s @ ms)"
    using Cons.IH [OF b] by simp
  show ?case
  proof (cases "length (entries s) = cap")
    case True
    then have e: "entries ?s = tl (entries s @ [m])"
      by (simp add: push_entries Let_def)
    have "entries ?s @ ms = tl (entries s @ m # ms)"
      using e by (cases "entries s") auto
    moreover have "length (entries ?s) = cap" using e True by simp
    ultimately have "entries (fold push (m # ms) s) = drop (length ms) (tl (entries s @ m # ms))"
      using ih by simp
    also have "\<dots> = drop (Suc (length ms)) (entries s @ m # ms)"
      by (rule drop_Suc [symmetric])
    finally show ?thesis using True by simp
  next
    case False
    then have "entries ?s = entries s @ [m]"
      using Cons.prems by (simp add: push_entries Let_def)
    then show ?thesis using ih by simp
  qed
qed

end

end
