(* ===== verification/Agent_Types.thy ===== *)
theory Agent_Types
  imports Prelude
begin

text \<open>
  The enumerations of \<open>agents/types/agent.types.ts\<close>, the agent interface of
  \<open>agents/interfaces/agent.interface.ts\<close>, and the exceptions of
  \<open>agents/exceptions/agent.exceptions.ts\<close> with their messages. \<open>agent_priority\<close> is an
  instance of \<open>linorder\<close> in the order the queues serve it (critical first).
\<close>

datatype agent_priority = Critical | High | Normal | Low

text \<open>The table \<open>{ 'critical': 0, 'high': 1, 'normal': 2, 'low': 3 }\<close> that the scheduler, the
  planner and the message queues share.\<close>

fun priorityOrder :: "agent_priority \<Rightarrow> nat" where
  "priorityOrder Critical = 0"
| "priorityOrder High = 1"
| "priorityOrder Normal = 2"
| "priorityOrder Low = 3"

lemma priorityOrder_inj [simp]: "priorityOrder p = priorityOrder q \<longleftrightarrow> p = q"
  by (cases p; cases q) auto

instantiation agent_priority :: linorder
begin

definition less_eq_agent_priority :: "agent_priority \<Rightarrow> agent_priority \<Rightarrow> bool" where
  "less_eq_agent_priority p q = (priorityOrder p \<le> priorityOrder q)"

definition less_agent_priority :: "agent_priority \<Rightarrow> agent_priority \<Rightarrow> bool" where
  "less_agent_priority p q = (priorityOrder p < priorityOrder q)"

instance
  by standard (auto simp: less_eq_agent_priority_def less_agent_priority_def)

end

fun priority_of_string :: "string \<Rightarrow> agent_priority option" where
  "priority_of_string s =
     (if s = ''critical'' then Some Critical else if s = ''high'' then Some High
      else if s = ''normal'' then Some Normal else if s = ''low'' then Some Low else None)"

datatype agent_lifecycle_state =
  Registered | Initializing | Ready | Running | Paused | Stopping | Stopped | Failed

fun lifecycle_str :: "agent_lifecycle_state \<Rightarrow> string" where
  "lifecycle_str Registered = ''registered''"
| "lifecycle_str Initializing = ''initializing''"
| "lifecycle_str Ready = ''ready''"
| "lifecycle_str Running = ''running''"
| "lifecycle_str Paused = ''paused''"
| "lifecycle_str Stopping = ''stopping''"
| "lifecycle_str Stopped = ''stopped''"
| "lifecycle_str Failed = ''failed''"

text \<open>\<open>Object.values(AgentType)\<close>: the strings \<open>validateAgent\<close> accepts.\<close>

definition agent_type_values :: "string list" where
  "agent_type_values = [''system'', ''workflow'', ''task'', ''service'', ''autonomous'', ''reactive'', ''collaborative'']"

datatype health_status = Healthy | Degraded | Unhealthy

record agent_health =
  h_status :: health_status
  h_uptime :: int
  h_lastHeartbeat :: time_ms
  h_errors :: "string list"
  h_warnings :: "string list"

record agent_capability =
  cap_id :: string
  cap_name :: string

text \<open>
  An agent as the registry and the managers see it: the read-only part of \<open>IAgent\<close>. The
  results of its asynchronous methods (\<open>initialize\<close>, \<open>shutdown\<close>, \<open>updateStatus\<close>, \<open>getHealth\<close>)
  differ from call to call; the operations that await them take each result as an argument
  (\<open>None\<close>: it resolved, \<open>Some m\<close>: it threw, with message \<open>m\<close>).
\<close>

record agent =
  ag_id :: string
  ag_name :: string
  ag_version :: string
  ag_type :: string
  ag_capabilities :: "agent_capability list"

definition hasCapability :: "agent \<Rightarrow> string \<Rightarrow> bool" where
  "hasCapability a c = list_ex (\<lambda>cap. cap_id cap = c) (ag_capabilities a)"

datatype agent_error =
    PlainError string
  | AgentNotFound string
  | DuplicateAgent string
  | AgentRegistration string "string option"
  | InvalidStateTransition string string string
  | AgentLifecycle string string string
  | AgentExecution string string string
  | ExecutionTimeout string int
  | ExecutionCancelled string
  | ExecutionNotFound string

text \<open>The \<open>message\<close> each exception's constructor gives its base class.\<close>

fun err_message :: "agent_error \<Rightarrow> string" where
  "err_message (PlainError m) = m"
| "err_message (AgentNotFound i) = ''Agent with ID '' @ sq i @ '' not found''"
| "err_message (DuplicateAgent i) = ''Agent with ID '' @ sq i @ '' already exists''"
| "err_message (AgentRegistration r i) = ''Agent registration failed: '' @ r
     @ (case i of None \<Rightarrow> [] | Some x \<Rightarrow> if x = [] then [] else '' (Agent ID: '' @ x @ '')'')"
| "err_message (InvalidStateTransition i f t) = ''Invalid state transition for agent '' @ sq i
     @ '': from '' @ sq f @ '' to '' @ sq t"
| "err_message (AgentLifecycle i op r) = ''Agent lifecycle operation '' @ sq op
     @ '' failed for agent '' @ sq i @ '': '' @ r"
| "err_message (AgentExecution i e r) = ''Agent execution failed for agent '' @ sq i
     @ '' (execution: '' @ e @ ''): '' @ r"
| "err_message (ExecutionTimeout e t) = ''Execution '' @ sq e @ '' timed out after '' @ int_str t @ ''ms''"
| "err_message (ExecutionCancelled e) = ''Execution '' @ sq e @ '' was cancelled''"
| "err_message (ExecutionNotFound e) = ''Execution '' @ sq e @ '' not found''"

end
