(* ===== verification/Agent_Registry.thy ===== *)
theory Agent_Registry
  imports Agent_Types
begin

text \<open>
  \<open>AgentRegistry\<close> (\<open>agents/registry/agent-registry.ts\<close>): the map of registered agents, its
  validation and queries; and the interface locale \<open>agent_lookup\<close>, what the registry
  promises the managers that look agents up in it.
\<close>

type_synonym agent_registry = "(string, agent) js_map"

section \<open>Operations\<close>

fun validateCapabilities_agent :: "agent_capability list \<Rightarrow> string option" where
  "validateCapabilities_agent [] = None"
| "validateCapabilities_agent (c # cs) =
     (if cap_id c = [] then Some ''Capability ID is required''
      else if cap_name c = [] then Some ''Capability name is required''
      else validateCapabilities_agent cs)"

text \<open>\<open>validateAgent\<close>: \<open>Some m\<close> is \<open>throw new Error(m)\<close>.\<close>

definition validateAgent :: "agent \<Rightarrow> string option" where
  "validateAgent a =
     (if ag_id a = [] then Some ''Agent ID is required''
      else if ag_name a = [] then Some ''Agent name is required''
      else if ag_version a = [] then Some ''Agent version is required''
      else if ag_type a = [] then Some ''Agent type is required''
      else if ag_type a \<notin> set agent_type_values then Some (''Invalid agent type: '' @ ag_type a)
      else validateCapabilities_agent (ag_capabilities a))"

definition register_agent :: "agent \<Rightarrow> agent_registry \<Rightarrow> agent_registry \<times> (agent_error + unit)" where
  "register_agent a reg =
     (if ag_id a = [] then (reg, Inl (AgentRegistration ''Agent ID is required'' None))
      else if js_has reg (ag_id a) then (reg, Inl (DuplicateAgent (ag_id a)))
      else case validateAgent a of
        Some m \<Rightarrow> (reg, Inl (AgentRegistration (''Failed to register agent: '' @ m) (Some (ag_id a))))
      | None \<Rightarrow> (js_set (ag_id a) a reg, Inr ()))"

text \<open>\<open>remove\<close> awaits the agent's \<open>shutdown\<close> and deletes the agent whatever came of it.\<close>

definition remove_agent :: "string option \<Rightarrow> string \<Rightarrow> agent_registry \<Rightarrow> agent_registry \<times> (agent_error + unit)" where
  "remove_agent shutdown_outcome i reg =
     (if \<not> js_has reg i then (reg, Inl (AgentNotFound i))
      else case shutdown_outcome of
        None \<Rightarrow> (js_delete i reg, Inr ())
      | Some m \<Rightarrow> (js_delete i reg, Inr ()))"

definition update_agent :: "agent \<Rightarrow> agent_registry \<Rightarrow> agent_registry \<times> (agent_error + unit)" where
  "update_agent a reg =
     (if \<not> js_has reg (ag_id a) then (reg, Inl (AgentNotFound (ag_id a)))
      else case validateAgent a of
        Some m \<Rightarrow> (reg, Inl (AgentRegistration (''Failed to update agent: '' @ m) (Some (ag_id a))))
      | None \<Rightarrow> (js_set (ag_id a) a reg, Inr ()))"

definition find_agent :: "agent_registry \<Rightarrow> string \<Rightarrow> agent option" where
  "find_agent reg i = js_get reg i"

definition list_agents :: "agent_registry \<Rightarrow> agent list" where
  "list_agents reg = js_values reg"

definition findByCapability :: "agent_registry \<Rightarrow> string \<Rightarrow> agent list" where
  "findByCapability reg c = filter (\<lambda>a. hasCapability a c) (js_values reg)"

definition findByType :: "agent_registry \<Rightarrow> string \<Rightarrow> agent list" where
  "findByType reg t = filter (\<lambda>a. ag_type a = t) (js_values reg)"

text \<open>The health a failing \<open>getHealth\<close> is replaced by, and the two health queries.\<close>

definition failed_health :: "time_ms \<Rightarrow> string \<Rightarrow> agent_health" where
  "failed_health now m = \<lparr>h_status = Unhealthy, h_uptime = 0, h_lastHeartbeat = now,
     h_errors = [m], h_warnings = []\<rparr>"

definition registry_health ::
  "(agent \<Rightarrow> string + agent_health) \<Rightarrow> time_ms \<Rightarrow> agent_registry \<Rightarrow> (string, agent_health) js_map" where
  "registry_health getHealth now reg =
     fold (\<lambda>(i, a) m. js_set i (case getHealth a of Inr h \<Rightarrow> h | Inl e \<Rightarrow> failed_health now e) m) reg []"

definition healthCheck ::
  "(agent \<Rightarrow> string + agent_health) \<Rightarrow> time_ms \<Rightarrow> agent_registry \<Rightarrow> string \<Rightarrow> agent_error + agent_health" where
  "healthCheck getHealth now reg i =
     (case js_get reg i of
        None \<Rightarrow> Inl (AgentNotFound i)
      | Some a \<Rightarrow> Inr (case getHealth a of Inr h \<Rightarrow> h | Inl e \<Rightarrow> failed_health now e))"

definition exists_agent :: "agent_registry \<Rightarrow> string \<Rightarrow> bool" where
  "exists_agent reg i = js_has reg i"

definition count_agents :: "agent_registry \<Rightarrow> nat" where
  "count_agents reg = length reg"

definition listCapabilities :: "agent_registry \<Rightarrow> agent_capability list" where
  "listCapabilities reg =
     js_values (fold (\<lambda>a m. fold (\<lambda>c m. js_set (cap_id c) c m) (ag_capabilities a) m) (js_values reg) [])"

section \<open>Invariant\<close>

text \<open>Each id once, each agent stored under its own id, and every stored agent validated.\<close>

definition registry_inv :: "agent_registry \<Rightarrow> bool" where
  "registry_inv reg \<longleftrightarrow> js_wf reg \<and>
     (\<forall>i a. js_get reg i = Some a \<longrightarrow> ag_id a = i \<and> validateAgent a = None)"

lemma registry_inv_Nil [simp]: "registry_inv []"
  by (simp add: registry_inv_def)

lemma register_agent_inv [inv_intros]: "registry_inv reg \<Longrightarrow> registry_inv (fst (register_agent a reg))"
  by (auto simp: registry_inv_def register_agent_def split: option.splits)

lemma update_agent_inv [inv_intros]: "registry_inv reg \<Longrightarrow> registry_inv (fst (update_agent a reg))"
  by (auto simp: registry_inv_def update_agent_def split: option.splits)

lemma remove_agent_inv [inv_intros]: "registry_inv reg \<Longrightarrow> registry_inv (fst (remove_agent out i reg))"
  by (auto simp: registry_inv_def remove_agent_def split: option.splits)

lemma validateCapabilities_agent_None:
  "validateCapabilities_agent cs = None \<longleftrightarrow> (\<forall>c \<in> set cs. cap_id c \<noteq> [] \<and> cap_name c \<noteq> [])"
  by (induction cs) auto

lemma validateAgent_None:
  "validateAgent a = None \<longleftrightarrow> ag_id a \<noteq> [] \<and> ag_name a \<noteq> [] \<and> ag_version a \<noteq> [] \<and>
     ag_type a \<in> set agent_type_values \<and>
     (\<forall>c \<in> set (ag_capabilities a). cap_id c \<noteq> [] \<and> cap_name c \<noteq> [])"
  by (auto simp: validateAgent_def validateCapabilities_agent_None agent_type_values_def)

lemma register_ok_iff:
  "snd (register_agent a reg) = Inr () \<longleftrightarrow> \<not> js_has reg (ag_id a) \<and> validateAgent a = None"
proof (cases "validateAgent a")
  case None
  then have "ag_id a \<noteq> []" by (simp add: validateAgent_None)
  with None show ?thesis by (simp add: register_agent_def)
next
  case (Some m)
  then show ?thesis by (simp add: register_agent_def)
qed

lemma register_error_unchanged: "snd (register_agent a reg) = Inl e \<Longrightarrow> fst (register_agent a reg) = reg"
  by (auto simp: register_agent_def split: if_splits option.splits)

lemma registered_iff:
  assumes "registry_inv reg"
  shows "a \<in> set (js_values reg) \<longleftrightarrow> find_agent reg (ag_id a) = Some a"
proof -
  have "a \<in> set (js_values reg) \<longleftrightarrow> (\<exists>i. (i, a) \<in> set reg)"
    by (force simp: js_values_def)
  also have "\<dots> \<longleftrightarrow> (\<exists>i. js_get reg i = Some a)"
    using assms by (simp add: registry_inv_def js_get_wf)
  also have "\<dots> \<longleftrightarrow> find_agent reg (ag_id a) = Some a"
    using assms by (auto simp: registry_inv_def find_agent_def)
  finally show ?thesis .
qed

lemma findByCapability_iff:
  assumes "registry_inv reg"
  shows "a \<in> set (findByCapability reg c) \<longleftrightarrow>
    find_agent reg (ag_id a) = Some a \<and> hasCapability a c"
  by (simp add: findByCapability_def registered_iff [OF assms])

lemma findByType_iff:
  assumes "registry_inv reg"
  shows "a \<in> set (findByType reg t) \<longleftrightarrow> find_agent reg (ag_id a) = Some a \<and> ag_type a = t"
  by (simp add: findByType_def registered_iff [OF assms])

lemma get_fold_map_values:
  "distinct (map fst m) \<Longrightarrow>
   js_get (fold (\<lambda>(i, a) m. js_set i (f a) m) m acc) k
     = (case js_get m k of Some a \<Rightarrow> Some (f a) | None \<Rightarrow> js_get acc k)"
proof (induction m arbitrary: acc)
  case Nil
  then show ?case by simp
next
  case (Cons p m)
  obtain i a where p: "p = (i, a)" by (cases p)
  have "js_get m i = None"
    using Cons.prems by (simp add: p js_get_None_iff)
  then show ?case using Cons.prems Cons.IH [of "js_set i (f a) acc"]
    by (auto simp: p js_get_def js_set_def update_conv' split: option.splits)
qed

lemma registry_health_get:
  "registry_inv reg \<Longrightarrow>
   js_get (registry_health gh now reg) i = map_option
     (\<lambda>a. case gh a of Inr h \<Rightarrow> h | Inl e \<Rightarrow> failed_health now e) (find_agent reg i)"
  by (simp add: registry_health_def registry_inv_def js_wf_def find_agent_def get_fold_map_values
      split: option.splits)

section \<open>Interface: looking agents up\<close>

text \<open>What \<open>IAgentRegistry\<close> promises a client that registers, removes and finds agents.\<close>

locale agent_lookup =
  fixes lookup :: "'r \<Rightarrow> string \<Rightarrow> agent option"
    and add_agent :: "agent \<Rightarrow> 'r \<Rightarrow> 'r \<times> (agent_error + unit)"
    and drop_agent :: "string option \<Rightarrow> string \<Rightarrow> 'r \<Rightarrow> 'r \<times> (agent_error + unit)"
    and wf :: "'r \<Rightarrow> bool"
  assumes lookup_add:
      "snd (add_agent a r) = Inr () \<Longrightarrow> lookup (fst (add_agent a r)) = (lookup r)(ag_id a \<mapsto> a)"
    and add_fails: "snd (add_agent a r) = Inl e \<Longrightarrow> fst (add_agent a r) = r"
    and lookup_drop: "lookup (fst (drop_agent out i r)) = (lookup r)(i := None)"
    and lookup_id: "wf r \<Longrightarrow> lookup r i = Some a \<Longrightarrow> ag_id a = i"
    and wf_add: "wf r \<Longrightarrow> wf (fst (add_agent a r))"
    and wf_drop: "wf r \<Longrightarrow> wf (fst (drop_agent out i r))"
begin

lemma lookup_added: "snd (add_agent a r) = Inr () \<Longrightarrow> lookup (fst (add_agent a r)) (ag_id a) = Some a"
  by (simp add: lookup_add)

lemma lookup_dropped: "lookup (fst (drop_agent out i r)) i = None"
  by (simp add: lookup_drop)

lemma add_frame: "j \<noteq> ag_id a \<Longrightarrow> lookup (fst (add_agent a r)) j = lookup r j"
  by (cases "snd (add_agent a r)") (auto simp: lookup_add dest: add_fails)

lemma drop_frame: "j \<noteq> i \<Longrightarrow> lookup (fst (drop_agent out i r)) j = lookup r j"
  by (simp add: lookup_drop)

end

interpretation reg: agent_lookup find_agent register_agent remove_agent registry_inv
proof (unfold_locales, goal_cases)
  case (1 a r)
  then show ?case
    by (auto simp: find_agent_def register_agent_def fun_eq_iff split: if_splits option.splits)
next
  case (2 a r e)
  then show ?case by (rule register_error_unchanged)
next
  case (3 out i r)
  then show ?case
    by (auto simp: find_agent_def remove_agent_def fun_eq_iff js_has_iff split: option.splits)
next
  case (4 r i a)
  then show ?case by (simp add: registry_inv_def find_agent_def)
next
  case (5 r a)
  then show ?case by (rule register_agent_inv)
next
  case (6 r out i)
  then show ?case by (rule remove_agent_inv)
qed

end
