(* ===== verification/Lifecycle.thy ===== *)
theory Lifecycle
  imports Agent_Registry
begin

text \<open>
  \<open>AgentLifecycleManager\<close> (\<open>agents/lifecycle/agent-lifecycle-manager.ts\<close>) and the bulk
  operations of \<open>AgentManager\<close> (\<open>agents/manager/agent-manager.ts\<close>). The manager's state is
  the map of tracked lifecycle states; \<open>fnd\<close> is the registry's lookup. Each awaited agent
  method contributes its outcome as an argument, \<open>None\<close> for a resolved call and \<open>Some m\<close> for
  one that throws with message \<open>m\<close>. An operation is modelled as it runs when no other
  operation on the same agent interleaves with its awaits.
\<close>

type_synonym lifecycle_map = "(string, agent_lifecycle_state) js_map"
type_synonym lookup_fn = "string \<Rightarrow> agent option"
type_synonym outcome = "string option"
type_synonym lc_result = "lifecycle_map \<times> (agent_error + unit)"

section \<open>Operations\<close>

fun validTransitions :: "agent_lifecycle_state \<Rightarrow> agent_lifecycle_state list" where
  "validTransitions Registered = [Initializing]"
| "validTransitions Initializing = [Ready, Failed]"
| "validTransitions Ready = [Running, Stopping]"
| "validTransitions Running = [Paused, Stopping]"
| "validTransitions Paused = [Running, Stopping]"
| "validTransitions Stopping = [Stopped, Failed]"
| "validTransitions Stopped = [Initializing]"
| "validTransitions Failed = [Initializing]"

definition isValidTransition :: "agent_lifecycle_state \<Rightarrow> agent_lifecycle_state \<Rightarrow> bool" where
  "isValidTransition f t = List.member (validTransitions f) t"

definition getAgentState :: "lifecycle_map \<Rightarrow> string \<Rightarrow> agent_lifecycle_state" where
  "getAgentState s i = (case js_get s i of Some x \<Rightarrow> x | None \<Rightarrow> Registered)"

definition setState :: "string \<Rightarrow> agent_lifecycle_state \<Rightarrow> lifecycle_map \<Rightarrow> lifecycle_map" where
  "setState i x s = js_set i x s"

definition getAgent :: "lookup_fn \<Rightarrow> string \<Rightarrow> agent_error + agent" where
  "getAgent fnd i = (case fnd i of None \<Rightarrow> Inl (AgentNotFound i) | Some a \<Rightarrow> Inr a)"

definition initialize :: "lookup_fn \<Rightarrow> outcome \<Rightarrow> string \<Rightarrow> lifecycle_map \<Rightarrow> lc_result" where
  "initialize fnd init_out i s =
     (case getAgent fnd i of
        Inl e \<Rightarrow> (s, Inl e)
      | Inr a \<Rightarrow>
          (let s1 = (if js_has s i then s else js_set i Registered s);
               cur = getAgentState s1 i
           in if \<not> isValidTransition cur Initializing
              then (s1, Inl (InvalidStateTransition i (lifecycle_str cur) (lifecycle_str Initializing)))
              else let s2 = setState i Initializing s1 in
                case init_out of
                  None \<Rightarrow> (setState i Ready s2, Inr ())
                | Some m \<Rightarrow> (setState i Failed s2, Inl (AgentLifecycle i ''initialize'' m))))"

definition start :: "lookup_fn \<Rightarrow> outcome \<Rightarrow> string \<Rightarrow> lifecycle_map \<Rightarrow> lc_result" where
  "start fnd upd_out i s =
     (case getAgent fnd i of
        Inl e \<Rightarrow> (s, Inl e)
      | Inr a \<Rightarrow>
          (let cur = getAgentState s i
           in if \<not> isValidTransition cur Running
              then (s, Inl (InvalidStateTransition i (lifecycle_str cur) (lifecycle_str Running)))
              else let s1 = setState i Running s in
                case upd_out of
                  None \<Rightarrow> (s1, Inr ())
                | Some m \<Rightarrow> (setState i Failed s1, Inl (AgentLifecycle i ''start'' m))))"

definition stop :: "lookup_fn \<Rightarrow> outcome \<Rightarrow> string \<Rightarrow> lifecycle_map \<Rightarrow> lc_result" where
  "stop fnd upd_out i s =
     (case getAgent fnd i of
        Inl e \<Rightarrow> (s, Inl e)
      | Inr a \<Rightarrow>
          (let cur = getAgentState s i
           in if \<not> isValidTransition cur Stopping
              then (s, Inl (InvalidStateTransition i (lifecycle_str cur) (lifecycle_str Stopping)))
              else let s1 = setState i Stopping s in
                case upd_out of
                  None \<Rightarrow> (setState i Stopped s1, Inr ())
                | Some m \<Rightarrow> (setState i Failed s1, Inl (AgentLifecycle i ''stop'' m))))"

definition pause :: "lookup_fn \<Rightarrow> outcome \<Rightarrow> string \<Rightarrow> lifecycle_map \<Rightarrow> lc_result" where
  "pause fnd upd_out i s =
     (case getAgent fnd i of
        Inl e \<Rightarrow> (s, Inl e)
      | Inr a \<Rightarrow>
          (let cur = getAgentState s i
           in if \<not> isValidTransition cur Paused
              then (s, Inl (InvalidStateTransition i (lifecycle_str cur) (lifecycle_str Paused)))
              else let s1 = setState i Paused s in
                case upd_out of
                  None \<Rightarrow> (s1, Inr ())
                | Some m \<Rightarrow> (setState i Failed s1, Inl (AgentLifecycle i ''pause'' m))))"

definition resume :: "lookup_fn \<Rightarrow> outcome \<Rightarrow> string \<Rightarrow> lifecycle_map \<Rightarrow> lc_result" where
  "resume fnd upd_out i s =
     (let cur = getAgentState s i
      in if cur \<noteq> Paused
         then (s, Inl (InvalidStateTransition i (lifecycle_str cur) (lifecycle_str Running)))
         else start fnd upd_out i s)"

text \<open>The leading part of \<open>restart\<close> and \<open>shutdown\<close>: stop the agent if it runs or is paused.\<close>

definition stop_if_active :: "lookup_fn \<Rightarrow> outcome \<Rightarrow> string \<Rightarrow> lifecycle_map \<Rightarrow> lc_result" where
  "stop_if_active fnd upd_out i s =
     (let cur = getAgentState s i
      in if cur = Running \<or> cur = Paused then stop fnd upd_out i s else (s, Inr ()))"

definition restart ::
  "lookup_fn \<Rightarrow> outcome \<Rightarrow> outcome \<Rightarrow> outcome \<Rightarrow> string \<Rightarrow> lifecycle_map \<Rightarrow> lc_result" where
  "restart fnd stop_out init_out start_out i s =
     (case stop_if_active fnd stop_out i s of
        (s1, Inl e) \<Rightarrow> (s1, Inl (AgentLifecycle i ''restart'' (err_message e)))
      | (s1, Inr _) \<Rightarrow>
          (case initialize fnd init_out i s1 of
             (s2, Inl e) \<Rightarrow> (s2, Inl (AgentLifecycle i ''restart'' (err_message e)))
           | (s2, Inr _) \<Rightarrow>
               (case start fnd start_out i s2 of
                  (s3, Inl e) \<Rightarrow> (s3, Inl (AgentLifecycle i ''restart'' (err_message e)))
                | (s3, Inr _) \<Rightarrow> (s3, Inr ()))))"

definition shutdown :: "lookup_fn \<Rightarrow> outcome \<Rightarrow> outcome \<Rightarrow> string \<Rightarrow> lifecycle_map \<Rightarrow> lc_result" where
  "shutdown fnd stop_out shut_out i s =
     (case getAgent fnd i of
        Inl e \<Rightarrow> (s, Inl e)
      | Inr a \<Rightarrow>
          (case stop_if_active fnd stop_out i s of
             (s1, Inl e) \<Rightarrow> (setState i Failed s1, Inl (AgentLifecycle i ''shutdown'' (err_message e)))
           | (s1, Inr _) \<Rightarrow>
               (case shut_out of
                  None \<Rightarrow> (js_delete i s1, Inr ())
                | Some m \<Rightarrow> (setState i Failed s1, Inl (AgentLifecycle i ''shutdown'' m)))))"

definition lifecycle_health ::
  "lookup_fn \<Rightarrow> (agent \<Rightarrow> string + agent_health) \<Rightarrow> string \<Rightarrow> agent_error + agent_health" where
  "lifecycle_health fnd getHealth i =
     (case getAgent fnd i of
        Inl e \<Rightarrow> Inl e
      | Inr a \<Rightarrow> (case getHealth a of Inl m \<Rightarrow> Inl (PlainError m) | Inr h \<Rightarrow> Inr h))"

definition getState :: "lookup_fn \<Rightarrow> string \<Rightarrow> lifecycle_map \<Rightarrow> agent_error + agent_lifecycle_state" where
  "getState fnd i s =
     (case getAgent fnd i of Inl e \<Rightarrow> Inl e | Inr a \<Rightarrow> Inr (getAgentState s i))"

section \<open>The bulk operations of the agent manager\<close>

text \<open>
  \<open>initializeAll\<close> and its siblings start one operation for each registered agent and wait
  for all of them, swallowing failures. Every operation touches only its own agent's entry
  and the registered ids differ, so running them one after the other gives the same map.
\<close>

definition safeLifecycleOperation :: "lc_result \<Rightarrow> lifecycle_map" where
  "safeLifecycleOperation r = (case r of (s, Inl e) \<Rightarrow> s | (s, Inr _) \<Rightarrow> s)"

definition initializeAll :: "(string \<Rightarrow> outcome) \<Rightarrow> agent_registry \<Rightarrow> lifecycle_map \<Rightarrow> lifecycle_map" where
  "initializeAll init_out reg s =
     fold (\<lambda>a s. safeLifecycleOperation (initialize (find_agent reg) (init_out (ag_id a)) (ag_id a) s))
       (list_agents reg) s"

definition shutdownAll ::
  "(string \<Rightarrow> outcome) \<Rightarrow> (string \<Rightarrow> outcome) \<Rightarrow> agent_registry \<Rightarrow> lifecycle_map \<Rightarrow> lifecycle_map" where
  "shutdownAll stop_out shut_out reg s =
     fold (\<lambda>a s. safeLifecycleOperation
         (shutdown (find_agent reg) (stop_out (ag_id a)) (shut_out (ag_id a)) (ag_id a) s))
       (list_agents reg) s"

definition startAll :: "(string \<Rightarrow> outcome) \<Rightarrow> agent_registry \<Rightarrow> lifecycle_map \<Rightarrow> lifecycle_map" where
  "startAll upd_out reg s =
     fold (\<lambda>a s. safeLifecycleOperation (start (find_agent reg) (upd_out (ag_id a)) (ag_id a) s))
       (list_agents reg) s"

definition stopAll :: "(string \<Rightarrow> outcome) \<Rightarrow> agent_registry \<Rightarrow> lifecycle_map \<Rightarrow> lifecycle_map" where
  "stopAll upd_out reg s =
     fold (\<lambda>a s. safeLifecycleOperation (stop (find_agent reg) (upd_out (ag_id a)) (ag_id a) s))
       (list_agents reg) s"

definition safeHealthCheck ::
  "lookup_fn \<Rightarrow> (agent \<Rightarrow> string + agent_health) \<Rightarrow> time_ms \<Rightarrow> string \<Rightarrow> string \<times> agent_health" where
  "safeHealthCheck fnd getHealth now i =
     (case lifecycle_health fnd getHealth i of
        Inr h \<Rightarrow> (i, h)
      | Inl e \<Rightarrow> (i, failed_health now (err_message e)))"

definition healthAll ::
  "(agent \<Rightarrow> string + agent_health) \<Rightarrow> time_ms \<Rightarrow> agent_registry \<Rightarrow> (string, agent_health) js_map" where
  "healthAll getHealth now reg =
     fold (\<lambda>a m. (case safeHealthCheck (find_agent reg) getHealth now (ag_id a) of (i, h) \<Rightarrow> js_set i h m))
       (list_agents reg) []"

section \<open>States and effects of the operations\<close>

lemma getAgentState_set [simp]:
  "getAgentState (setState i x s) j = (if j = i then x else getAgentState s j)"
  by (simp add: getAgentState_def setState_def)

lemma getAgentState_js_set [simp]:
  "getAgentState (js_set i x s) j = (if j = i then x else getAgentState s j)"
  by (simp add: getAgentState_def)

lemma getAgentState_delete [simp]:
  "getAgentState (js_delete i s) j = (if j = i then Registered else getAgentState s j)"
  by (simp add: getAgentState_def)

lemma getAgentState_untracked: "\<not> js_has s i \<Longrightarrow> getAgentState s i = Registered"
  by (auto simp: getAgentState_def js_has_iff split: option.splits)

lemma isValidTransition_simps [simp]:
  "isValidTransition x Initializing \<longleftrightarrow> x \<in> {Registered, Stopped, Failed}"
  "isValidTransition x Running \<longleftrightarrow> x \<in> {Ready, Paused}"
  "isValidTransition x Stopping \<longleftrightarrow> x \<in> {Ready, Running, Paused}"
  "isValidTransition x Paused \<longleftrightarrow> x = Running"
  by (cases x; simp add: isValidTransition_def)+

lemma has_setState [simp]: "js_has (setState i x s) j \<longleftrightarrow> j = i \<or> js_has s j"
  by (simp add: setState_def)

text \<open>The state of the agent itself after each operation, when the agent is registered.\<close>

lemma initialize_state:
  "fnd i = Some a \<Longrightarrow> getAgentState (fst (initialize fnd out i s)) i
     = (if getAgentState s i \<in> {Registered, Stopped, Failed}
        then (if out = None then Ready else Failed) else getAgentState s i)"
  by (auto simp: initialize_def getAgent_def Let_def getAgentState_untracked split: option.splits)

lemma start_state:
  "fnd i = Some a \<Longrightarrow> getAgentState (fst (start fnd out i s)) i
     = (if getAgentState s i \<in> {Ready, Paused}
        then (if out = None then Running else Failed) else getAgentState s i)"
  by (auto simp: start_def getAgent_def Let_def split: option.splits)

lemma stop_state:
  "fnd i = Some a \<Longrightarrow> getAgentState (fst (stop fnd out i s)) i
     = (if getAgentState s i \<in> {Ready, Running, Paused}
        then (if out = None then Stopped else Failed) else getAgentState s i)"
  by (auto simp: stop_def getAgent_def Let_def split: option.splits)

lemma pause_state:
  "fnd i = Some a \<Longrightarrow> getAgentState (fst (pause fnd out i s)) i
     = (if getAgentState s i = Running
        then (if out = None then Paused else Failed) else getAgentState s i)"
  by (auto simp: pause_def getAgent_def Let_def split: option.splits)

lemma initialize_ok:
  "fnd i = Some a \<Longrightarrow> snd (initialize fnd out i s) = Inr ()
     \<longleftrightarrow> getAgentState s i \<in> {Registered, Stopped, Failed} \<and> out = None"
  by (auto simp: initialize_def getAgent_def Let_def getAgentState_untracked split: option.splits)

lemma start_ok:
  "fnd i = Some a \<Longrightarrow> snd (start fnd out i s) = Inr ()
     \<longleftrightarrow> getAgentState s i \<in> {Ready, Paused} \<and> out = None"
  by (auto simp: start_def getAgent_def Let_def split: option.splits)

lemma stop_ok:
  "fnd i = Some a \<Longrightarrow> snd (stop fnd out i s) = Inr ()
     \<longleftrightarrow> getAgentState s i \<in> {Ready, Running, Paused} \<and> out = None"
  by (auto simp: stop_def getAgent_def Let_def split: option.splits)

text \<open>An operation on one agent leaves the others alone.\<close>

lemma initialize_frame: "j \<noteq> i \<Longrightarrow> js_get (fst (initialize fnd out i s)) j = js_get s j"
  by (auto simp: initialize_def getAgent_def setState_def Let_def split: option.splits)

lemma start_frame: "j \<noteq> i \<Longrightarrow> js_get (fst (start fnd out i s)) j = js_get s j"
  by (auto simp: start_def getAgent_def setState_def Let_def split: option.splits)

lemma stop_frame: "j \<noteq> i \<Longrightarrow> js_get (fst (stop fnd out i s)) j = js_get s j"
  by (auto simp: stop_def getAgent_def setState_def Let_def split: option.splits)

lemma pause_frame: "j \<noteq> i \<Longrightarrow> js_get (fst (pause fnd out i s)) j = js_get s j"
  by (auto simp: pause_def getAgent_def setState_def Let_def split: option.splits)

lemma stop_if_active_frame: "j \<noteq> i \<Longrightarrow> js_get (fst (stop_if_active fnd out i s)) j = js_get s j"
  by (auto simp: stop_if_active_def Let_def stop_frame)

lemma shutdown_frame: "j \<noteq> i \<Longrightarrow> js_get (fst (shutdown fnd so sh i s)) j = js_get s j"
  using stop_if_active_frame [of j i fnd so s]
  by (auto simp: shutdown_def setState_def split: prod.splits sum.splits option.splits)

lemma restart_frame: "j \<noteq> i \<Longrightarrow> js_get (fst (restart fnd so io sto i s)) j = js_get s j"
  using stop_if_active_frame [of j i fnd so s] initialize_frame [of j i fnd io] start_frame [of j i fnd sto]
  by (auto simp: restart_def split: prod.splits sum.splits) (metis fst_conv)+


section \<open>Runs of the manager\<close>

text \<open>
  One step is one operation, with any registry contents and any outcomes of the awaited
  agent methods.
\<close>

inductive lifecycle_step :: "lifecycle_map \<Rightarrow> lifecycle_map \<Rightarrow> bool" where
  step_initialize: "lifecycle_step s (fst (initialize fnd out i s))"
| step_start: "lifecycle_step s (fst (start fnd out i s))"
| step_stop: "lifecycle_step s (fst (stop fnd out i s))"
| step_pause: "lifecycle_step s (fst (pause fnd out i s))"
| step_resume: "lifecycle_step s (fst (resume fnd out i s))"
| step_restart: "lifecycle_step s (fst (restart fnd so io sto i s))"
| step_shutdown: "lifecycle_step s (fst (shutdown fnd so sh i s))"

inductive_cases lifecycle_stepE: "lifecycle_step s t"

inductive lifecycle_reachable :: "lifecycle_map \<Rightarrow> bool" where
  lifecycle_start: "lifecycle_reachable []"
| lifecycle_next: "lifecycle_reachable s \<Longrightarrow> lifecycle_step s t \<Longrightarrow> lifecycle_reachable t"

text \<open>Between operations no tracked agent is in a transient state.\<close>

definition stable_states :: "agent_lifecycle_state set" where
  "stable_states = {Ready, Running, Paused, Stopped, Failed}"

definition stable_map :: "lifecycle_map \<Rightarrow> bool" where
  "stable_map s \<longleftrightarrow> js_wf s \<and> (\<forall>i x. js_get s i = Some x \<longrightarrow> x \<in> stable_states)"

lemma stable_set: "stable_map s \<Longrightarrow> x \<in> stable_states \<Longrightarrow> stable_map (setState i x s)"
  by (auto simp: stable_map_def setState_def)

lemma setState_twice: "setState i y (setState i x s) = setState i y s"
  by (induction s) (auto simp: setState_def js_set_def)

lemma setState_registered: "setState i y (js_set i x s) = setState i y s"
  using setState_twice [of i y x s] by (simp add: setState_def)

lemmas lifecycle_collapse = setState_twice setState_registered

lemma initialize_stable [inv_intros]: "stable_map s \<Longrightarrow> stable_map (fst (initialize fnd out i s))"
  by (auto simp: initialize_def getAgent_def Let_def lifecycle_collapse getAgentState_untracked stable_states_def
      intro!: stable_set split: option.splits)

lemma start_stable [inv_intros]: "stable_map s \<Longrightarrow> stable_map (fst (start fnd out i s))"
  by (auto simp: start_def getAgent_def Let_def lifecycle_collapse stable_states_def
      intro!: stable_set split: option.splits)

lemma stop_stable [inv_intros]: "stable_map s \<Longrightarrow> stable_map (fst (stop fnd out i s))"
  by (auto simp: stop_def getAgent_def Let_def lifecycle_collapse stable_states_def
      intro!: stable_set split: option.splits)

lemma pause_stable [inv_intros]: "stable_map s \<Longrightarrow> stable_map (fst (pause fnd out i s))"
  by (auto simp: pause_def getAgent_def Let_def lifecycle_collapse stable_states_def
      intro!: stable_set split: option.splits)

lemma resume_stable [inv_intros]: "stable_map s \<Longrightarrow> stable_map (fst (resume fnd out i s))"
  by (auto simp: resume_def Let_def intro: inv_intros)

lemma stop_if_active_stable [inv_intros]:
  "stable_map s \<Longrightarrow> stable_map (fst (stop_if_active fnd out i s))"
  by (auto simp: stop_if_active_def Let_def intro: inv_intros)

lemma shutdown_stable [inv_intros]: "stable_map s \<Longrightarrow> stable_map (fst (shutdown fnd so sh i s))"
  using stop_if_active_stable [of s fnd so i]
  by (auto simp: shutdown_def stable_states_def intro!: stable_set
      split: prod.splits sum.splits option.splits) (auto simp: stable_map_def)

lemma restart_stable [inv_intros]: "stable_map s \<Longrightarrow> stable_map (fst (restart fnd so io sto i s))"
proof -
  assume s: "stable_map s"
  obtain s1 r1 where 1: "stop_if_active fnd so i s = (s1, r1)" by fastforce
  obtain s2 r2 where 2: "initialize fnd io i s1 = (s2, r2)" by fastforce
  obtain s3 r3 where 3: "start fnd sto i s2 = (s3, r3)" by fastforce
  have "stable_map s1" using stop_if_active_stable [OF s, of fnd so i] 1 by simp
  moreover from this have "stable_map s2" using initialize_stable [of s1 fnd io i] 2 by simp
  moreover from this have "stable_map s3" using start_stable [of s2 fnd sto i] 3 by simp
  ultimately show ?thesis by (simp add: restart_def 1 2 3 split: sum.splits)
qed

lemma lifecycle_step_stable: "lifecycle_step s t \<Longrightarrow> stable_map s \<Longrightarrow> stable_map t"
  by (induction rule: lifecycle_step.induct) (rule inv_intros; assumption)+

lemma lifecycle_reachable_stable: "lifecycle_reachable s \<Longrightarrow> stable_map s"
proof (induction rule: lifecycle_reachable.induct)
  case lifecycle_start
  show ?case by (simp add: stable_map_def)
next
  case (lifecycle_next s t)
  then show ?case by (blast intro: lifecycle_step_stable)
qed

text \<open>C4: in every run of the lifecycle manager, a tracked agent is never left initializing,
  stopping or merely registered between two operations, however the awaited agent methods end.\<close>

theorem lifecycle_no_transient_state:
  assumes "lifecycle_reachable s" and "js_get s i = Some x"
  shows "x \<in> {Ready, Running, Paused, Stopped, Failed}"
  using lifecycle_reachable_stable [OF assms(1)] assms(2)
  by (auto simp: stable_map_def stable_states_def)

definition demo_agent :: agent where
  "demo_agent = \<lparr>ag_id = ''a'', ag_name = ''n'', ag_version = ''1'', ag_type = ''task'', ag_capabilities = []\<rparr>"

definition demo_lookup :: lookup_fn where
  "demo_lookup = [''a'' \<mapsto> demo_agent]"

lemma demo_initialize:
  "fst (initialize demo_lookup None ''a'' []) = [(''a'', Ready)]"
  by (simp add: initialize_def demo_lookup_def getAgent_def Let_def getAgentState_def setState_def
      js_set_def js_get_def)

theorem lifecycle_no_transient_state_witness:
  "lifecycle_reachable [(''a'', Ready)] \<and> js_get [(''a'', Ready)] ''a'' = Some Ready
     \<and> Ready \<in> {Ready, Running, Paused, Stopped, Failed}"
proof -
  have r: "lifecycle_reachable [(''a'', Ready)]"
    using lifecycle_next [OF lifecycle_start step_initialize [of "[]" demo_lookup None "''a''"]]
    by (simp add: demo_initialize)
  have g: "js_get [(''a'', Ready)] ''a'' = Some Ready" by (simp add: js_get_def)
  show ?thesis using r g lifecycle_no_transient_state [OF r g] by blast
qed

section \<open>Operations against the transition table\<close>

text \<open>What may happen to the state of the one agent an operation is about.\<close>

definition table_path :: "agent_lifecycle_state \<Rightarrow> agent_lifecycle_state \<Rightarrow> bool" where
  "table_path = isValidTransition\<^sup>*\<^sup>*"

lemma table_path_refl [simp]: "table_path x x"
  by (simp add: table_path_def)

lemma table_path_step: "isValidTransition x y \<Longrightarrow> table_path y z \<Longrightarrow> table_path x z"
  unfolding table_path_def by (rule converse_rtranclp_into_rtranclp)

lemma isValidTransition_final [simp]:
  "isValidTransition Initializing Ready" "isValidTransition Stopping Stopped"
  by (simp_all add: isValidTransition_def)

lemma table_paths:
  "x \<in> {Registered, Stopped, Failed} \<Longrightarrow> table_path x Ready"
  "x \<in> {Ready, Paused} \<Longrightarrow> table_path x Running"
  "x \<in> {Ready, Running, Paused} \<Longrightarrow> table_path x Stopped"
  "table_path Running Paused"
  using table_path_step [of x Initializing, OF _ table_path_step [of Initializing Ready Ready]]
    table_path_step [of x Running Running] table_path_step [of Running Paused Paused]
    table_path_step [of x Stopping, OF _ table_path_step [of Stopping Stopped Stopped]]
  by auto

lemma table_path_trans: "table_path x y \<Longrightarrow> table_path y z \<Longrightarrow> table_path x z"
  unfolding table_path_def by (rule rtranclp_trans)

datatype lifecycle_op =
  DoInitialize outcome | DoStart outcome | DoStop outcome | DoPause outcome | DoResume outcome
  | DoRestart outcome outcome outcome | DoShutdown outcome outcome

text \<open>One operation of the manager on one agent; the public entry points side by side.\<close>

fun run_op :: "lookup_fn \<Rightarrow> lifecycle_op \<Rightarrow> string \<Rightarrow> lifecycle_map \<Rightarrow> lc_result" where
  "run_op fnd (DoInitialize out) i s = initialize fnd out i s"
| "run_op fnd (DoStart out) i s = start fnd out i s"
| "run_op fnd (DoStop out) i s = stop fnd out i s"
| "run_op fnd (DoPause out) i s = pause fnd out i s"
| "run_op fnd (DoResume out) i s = resume fnd out i s"
| "run_op fnd (DoRestart so io sto) i s = restart fnd so io sto i s"
| "run_op fnd (DoShutdown so sh) i s = shutdown fnd so sh i s"

lemma not_found_raises:
  "fnd i = None \<Longrightarrow> initialize fnd out i s = (s, Inl (AgentNotFound i))"
  "fnd i = None \<Longrightarrow> start fnd out i s = (s, Inl (AgentNotFound i))"
  "fnd i = None \<Longrightarrow> stop fnd out i s = (s, Inl (AgentNotFound i))"
  "fnd i = None \<Longrightarrow> pause fnd out i s = (s, Inl (AgentNotFound i))"
  "fnd i = None \<Longrightarrow> shutdown fnd so sh i s = (s, Inl (AgentNotFound i))"
  by (simp_all add: initialize_def start_def stop_def pause_def shutdown_def getAgent_def)

text \<open>The result pair of each operation on a registered agent, branch by branch.\<close>

lemma initialize_result:
  "fnd i = Some a \<Longrightarrow> initialize fnd out i s =
     (if getAgentState s i \<in> {Registered, Stopped, Failed}
      then (case out of None \<Rightarrow> (setState i Ready s, Inr ())
            | Some m \<Rightarrow> (setState i Failed s, Inl (AgentLifecycle i ''initialize'' m)))
      else (s, Inl (InvalidStateTransition i (lifecycle_str (getAgentState s i)) ''initializing'')))"
  by (auto simp: initialize_def getAgent_def Let_def lifecycle_collapse getAgentState_untracked
      split: option.splits)

lemma start_result:
  "fnd i = Some a \<Longrightarrow> start fnd out i s =
     (if getAgentState s i \<in> {Ready, Paused}
      then (case out of None \<Rightarrow> (setState i Running s, Inr ())
            | Some m \<Rightarrow> (setState i Failed s, Inl (AgentLifecycle i ''start'' m)))
      else (s, Inl (InvalidStateTransition i (lifecycle_str (getAgentState s i)) ''running'')))"
  by (auto simp: start_def getAgent_def Let_def lifecycle_collapse split: option.splits)

lemma stop_result:
  "fnd i = Some a \<Longrightarrow> stop fnd out i s =
     (if getAgentState s i \<in> {Ready, Running, Paused}
      then (case out of None \<Rightarrow> (setState i Stopped s, Inr ())
            | Some m \<Rightarrow> (setState i Failed s, Inl (AgentLifecycle i ''stop'' m)))
      else (s, Inl (InvalidStateTransition i (lifecycle_str (getAgentState s i)) ''stopping'')))"
  by (auto simp: stop_def getAgent_def Let_def lifecycle_collapse split: option.splits)

lemma pause_result:
  "fnd i = Some a \<Longrightarrow> pause fnd out i s =
     (if getAgentState s i = Running
      then (case out of None \<Rightarrow> (setState i Paused s, Inr ())
            | Some m \<Rightarrow> (setState i Failed s, Inl (AgentLifecycle i ''pause'' m)))
      else (s, Inl (InvalidStateTransition i (lifecycle_str (getAgentState s i)) ''paused'')))"
  by (auto simp: pause_def getAgent_def Let_def lifecycle_collapse split: option.splits)

lemmas op_results = initialize_result start_result stop_result pause_result

lemma shutdown_ok_untracks: "snd (shutdown fnd so sh i s) = Inr () \<Longrightarrow> \<not> js_has (fst (shutdown fnd so sh i s)) i"
  by (auto simp: shutdown_def split: prod.splits sum.splits option.splits)

text \<open>\<open>restart\<close> on a registered agent, when every awaited agent method succeeds.\<close>

lemma restart_clean:
  assumes "fnd i = Some a"
  shows "restart fnd None None None i s =
    (case getAgentState s i of
       Ready \<Rightarrow> (s, Inl (AgentLifecycle i ''restart''
         (err_message (InvalidStateTransition i ''ready'' ''initializing''))))
     | Initializing \<Rightarrow> (s, Inl (AgentLifecycle i ''restart''
         (err_message (InvalidStateTransition i ''initializing'' ''initializing''))))
     | Stopping \<Rightarrow> (s, Inl (AgentLifecycle i ''restart''
         (err_message (InvalidStateTransition i ''stopping'' ''initializing''))))
     | _ \<Rightarrow> (setState i Running s, Inr ()))"
  using assms
  by (cases "getAgentState s i")
    (simp_all add: restart_def stop_if_active_def Let_def op_results lifecycle_collapse)

lemma restart_ok_running:
  assumes "fnd i = Some a" and "snd (restart fnd so io sto i s) = Inr ()"
  shows "getAgentState (fst (restart fnd so io sto i s)) i = Running
    \<and> getAgentState s i \<in> {Registered, Running, Paused, Stopped, Failed}"
  using assms
  by (cases "getAgentState s i")
    (auto simp: restart_def stop_if_active_def Let_def op_results lifecycle_collapse
      split: option.splits if_splits)

lemma restart_error_state:
  assumes "fnd i = Some a" and "snd (restart fnd so io sto i s) = Inl e"
  shows "getAgentState (fst (restart fnd so io sto i s)) i \<in> {getAgentState s i, Failed}"
  using assms
  by (cases "getAgentState s i")
    (auto simp: restart_def stop_if_active_def Let_def op_results lifecycle_collapse
      split: option.splits if_splits)

text \<open>an operation that succeeds moves the agent along the documented transition table,
  except \<open>shutdown\<close>, which stops tracking it; an operation that throws leaves the agent's
  state as it was or marks it failed.\<close>

theorem lifecycle_ops_follow_table:
  assumes "fnd i = Some a"
  shows "(case snd (run_op fnd oper i s) of
      Inr _ \<Rightarrow> (if \<exists>so sh. oper = DoShutdown so sh then \<not> js_has (fst (run_op fnd oper i s)) i
              else table_path (getAgentState s i) (getAgentState (fst (run_op fnd oper i s)) i))
    | Inl _ \<Rightarrow> getAgentState (fst (run_op fnd oper i s)) i \<in> {getAgentState s i, Failed})"
proof (cases oper)
  case (DoInitialize out)
  then show ?thesis using assms by (auto simp: op_results table_paths split: option.splits)
next
  case (DoStart out)
  then show ?thesis using assms by (auto simp: op_results table_paths split: option.splits)
next
  case (DoStop out)
  then show ?thesis using assms by (auto simp: op_results table_paths split: option.splits)
next
  case (DoPause out)
  then show ?thesis using assms by (auto simp: op_results table_paths split: option.splits)
next
  case (DoResume out)
  then show ?thesis using assms
    by (auto simp: resume_def Let_def op_results table_paths split: option.splits)
next
  case (DoRestart so io sto)
  have p: "table_path x Running" if "x \<in> {Registered, Running, Paused, Stopped, Failed}" for x
    using that table_path_trans [OF table_paths(1) table_paths(2) [of Ready], of x] table_paths(2) [of x]
    by auto
  show ?thesis using DoRestart restart_ok_running [of fnd i a so io sto s]
      restart_error_state [of fnd i a so io sto s] assms p
    by (auto split: sum.splits)
next
  case (DoShutdown so sh)
  then show ?thesis using assms
    by (auto simp: shutdown_def stop_if_active_def getAgent_def Let_def op_results
        split: option.splits if_splits)
qed


theorem lifecycle_ops_follow_table_witness:
  "demo_lookup ''a'' = Some demo_agent \<and>
   table_path Registered (getAgentState (fst (run_op demo_lookup (DoInitialize None) ''a'' [])) ''a'') \<and>
   snd (run_op demo_lookup (DoInitialize None) ''a'' []) = Inr ()"
proof -
  have h: "demo_lookup ''a'' = Some demo_agent" by (simp add: demo_lookup_def)
  have r: "snd (run_op demo_lookup (DoInitialize None) ''a'' []) = Inr ()"
    using h by (simp add: initialize_ok getAgentState_def)
  show ?thesis
    using h r lifecycle_ops_follow_table [of demo_lookup "''a''" demo_agent "DoInitialize None" "[]", OF h]
    by (simp add: getAgentState_def)
qed

text \<open>restarting a registered agent whose methods all succeed ends with the agent running
  exactly when it was not already ready (and not in the middle of another operation): from
  the ready state the manager refuses its own transition back to initializing.\<close>

theorem restart_outcome:
  assumes "fnd i = Some a"
  shows "restart fnd None None None i s =
    (if getAgentState s i \<in> {Ready, Initializing, Stopping}
     then (s, Inl (AgentLifecycle i ''restart''
       (err_message (InvalidStateTransition i (lifecycle_str (getAgentState s i)) ''initializing''))))
     else (setState i Running s, Inr ()))"
  using restart_clean [of fnd i a s, OF assms] by (cases "getAgentState s i") simp_all

theorem restart_outcome_witness:
  "demo_lookup ''a'' = Some demo_agent \<and>
   snd (restart demo_lookup None None None ''a'' [(''a'', Ready)])
     = Inl (AgentLifecycle ''a'' ''restart''
         (err_message (InvalidStateTransition ''a'' ''ready'' ''initializing''))) \<and>
   restart demo_lookup None None None ''a'' [(''a'', Paused)] = ([(''a'', Running)], Inr ())"
proof -
  have h: "demo_lookup ''a'' = Some demo_agent" by (simp add: demo_lookup_def)
  show ?thesis
    using h restart_outcome [of demo_lookup "''a''" demo_agent "[(''a'', Ready)]", OF h]
      restart_outcome [of demo_lookup "''a''" demo_agent "[(''a'', Paused)]", OF h]
    by (simp add: getAgentState_def js_get_def setState_def js_set_def)
qed

text \<open>no agent is stuck. From every reachable map a registered agent is running after at
  most two operations whose agent methods succeed.\<close>

theorem lifecycle_can_run:
  assumes "lifecycle_reachable s" and "fnd i = Some a"
  shows "\<exists>ops. length ops \<le> 2 \<and>
    getAgentState (fold (\<lambda>oper s. fst (run_op fnd oper i s)) ops s) i = Running"
proof -
  let ?run = "\<lambda>ops. getAgentState (fold (\<lambda>oper s. fst (run_op fnd oper i s)) ops s) i"
  have st: "getAgentState s i \<in> insert Registered stable_states"
    using lifecycle_reachable_stable [OF assms(1)]
    by (auto simp: stable_map_def getAgentState_def split: option.splits)
  consider "getAgentState s i = Running" | "getAgentState s i \<in> {Ready, Paused}"
    | "getAgentState s i \<in> {Registered, Stopped, Failed}"
    using st by (auto simp: stable_states_def)
  then show ?thesis
  proof cases
    case 1
    then have "length [] \<le> (2::nat) \<and> ?run [] = Running" by simp
    then show ?thesis by blast
  next
    case 2
    then have "?run [DoStart None] = Running" using assms(2) by (simp add: op_results)
    then show ?thesis by (intro exI [of _ "[DoStart None]"]) simp
  next
    case 3
    then have "?run [DoInitialize None, DoStart None] = Running"
      using assms(2) by (simp add: op_results)
    then show ?thesis by (intro exI [of _ "[DoInitialize None, DoStart None]"]) simp
  qed
qed

theorem lifecycle_can_run_witness:
  "lifecycle_reachable [] \<and> demo_lookup ''a'' = Some demo_agent \<and>
   (\<exists>ops. length ops \<le> 2 \<and>
    getAgentState (fold (\<lambda>oper s. fst (run_op demo_lookup oper ''a'' s)) ops []) ''a'' = Running)"
proof -
  have h: "demo_lookup ''a'' = Some demo_agent" by (simp add: demo_lookup_def)
  show ?thesis using lifecycle_start h lifecycle_can_run [of "[]" demo_lookup "''a''" demo_agent, OF lifecycle_start h] by blast
qed

section \<open>The manager as a client of the registry\<close>

context agent_lookup
begin

text \<open>Once an agent is dropped, the manager refuses it and its map does not change.\<close>

lemma dropped_refused:
  assumes "\<nexists>o1. oper = DoResume o1" and "\<nexists>so io sto. oper = DoRestart so io sto"
  shows "run_op (lookup (fst (drop_agent out i r))) oper i s = (s, Inl (AgentNotFound i))"
  using assms lookup_dropped [of out i r] by (cases oper) (auto simp: not_found_raises)

lemma dropped_never_succeeds:
  "\<exists>e. run_op (lookup (fst (drop_agent out i r))) oper i s = (s, Inl e)"
  using lookup_dropped [of out i r]
  by (cases oper)
    (auto simp: not_found_raises resume_def restart_def stop_if_active_def Let_def)

text \<open>Re-adding an agent does not reset what the manager remembers of its id.\<close>

lemma readded_start:
  assumes "snd (add_agent a r) = Inr ()"
  shows "snd (start (lookup (fst (add_agent a r))) None (ag_id a) s) = Inr ()
    \<longleftrightarrow> getAgentState s (ag_id a) \<in> {Ready, Paused}"
  using start_ok [of "lookup (fst (add_agent a r))" "ag_id a" a None s] lookup_added [OF assms]
  by simp

lemma readded_initialize:
  assumes "snd (add_agent a r) = Inr ()"
  shows "snd (initialize (lookup (fst (add_agent a r))) None (ag_id a) s) = Inr ()
    \<longleftrightarrow> getAgentState s (ag_id a) \<in> {Registered, Stopped, Failed}"
  using initialize_ok [of "lookup (fst (add_agent a r))" "ag_id a" a None s] lookup_added [OF assms]
  by simp

end

text \<open>after an agent is removed from the registry every lifecycle operation on its id
  throws and changes nothing.\<close>

theorem removed_agent_refused:
  "\<exists>e. run_op (find_agent (fst (remove_agent out i reg))) oper i s = (s, Inl e)"
  by (rule reg.dropped_never_succeeds)

text \<open>an agent registered under an id whose lifecycle entry survived the removal of an
  earlier agent cannot be initialized while that entry says it runs: the new agent inherits
  the old one's state.\<close>

theorem reregistered_agent_inherits_state:
  assumes "snd (register_agent a reg) = Inr ()" and "js_get s (ag_id a) = Some Running"
  shows "snd (initialize (find_agent (fst (register_agent a reg))) None (ag_id a) s) \<noteq> Inr ()
    \<and> getState (find_agent (fst (register_agent a reg))) (ag_id a) s = Inr Running"
  using reg.readded_initialize [OF assms(1), of s] reg.lookup_added [OF assms(1)] assms(2)
  by (simp add: getAgentState_def getState_def getAgent_def)

theorem reregistered_agent_inherits_state_witness:
  "snd (register_agent demo_agent []) = Inr () \<and>
   snd (initialize (find_agent (fst (register_agent demo_agent []))) None ''a'' [(''a'', Running)]) \<noteq> Inr ()"
proof -
  have r: "snd (register_agent demo_agent []) = Inr ()"
    by (simp add: register_ok_iff validateAgent_None demo_agent_def agent_type_values_def)
  have g: "js_get [(''a'', Running)] (ag_id demo_agent) = Some Running"
    by (simp add: js_get_def demo_agent_def)
  show ?thesis using r reregistered_agent_inherits_state [OF r g] by (simp add: demo_agent_def)
qed

section \<open>Bulk operations\<close>

lemma safeLifecycleOperation_fst: "safeLifecycleOperation r = fst r"
  by (cases r; cases "snd r") (auto simp: safeLifecycleOperation_def)

text \<open>A fold of operations that each touch only their own agent.\<close>

lemma bulk_get:
  assumes "\<And>a s j. j \<noteq> ag_id a \<Longrightarrow> js_get (f a s) j = js_get s j"
    and "\<And>a s s'. js_get s (ag_id a) = js_get s' (ag_id a) \<Longrightarrow>
      js_get (f a s) (ag_id a) = js_get (f a s') (ag_id a)"
    and "distinct (map ag_id as)"
  shows "js_get (fold f as s) i =
    (case List.find (\<lambda>a. ag_id a = i) as of None \<Rightarrow> js_get s i | Some a \<Rightarrow> js_get (f a s) i)"
  using assms(3)
proof (induction as arbitrary: s)
  case Nil
  then show ?case by simp
next
  case (Cons b as)
  show ?case
  proof (cases "ag_id b = i")
    case True
    then have "List.find (\<lambda>a. ag_id a = i) as = None"
      using Cons.prems by (auto simp: find_None_iff) (metis image_eqI)
    then show ?thesis using Cons True by simp
  next
    case False
    have "js_get (f a (f b s)) i = js_get (f a s) i" if "ag_id a = i" for a
      using assms(2) [of "f b s" a s] assms(1) [of i b s] that False by auto
    then show ?thesis using Cons False assms(1) [of i b s]
      by (auto split: option.splits dest!: find_Some_iff [THEN iffD1])
  qed
qed

lemma registry_ids: "registry_inv reg \<Longrightarrow> map ag_id (js_values reg) = map fst reg"
  by (auto simp: registry_inv_def js_values_def js_get_wf [symmetric])

lemma registry_find_list:
  assumes "registry_inv reg"
  shows "List.find (\<lambda>a. ag_id a = i) (list_agents reg) = find_agent reg i"
proof (cases "find_agent reg i")
  case None
  then have "\<forall>a \<in> set (js_values reg). ag_id a \<noteq> i"
    using registered_iff [OF assms] by force
  then show ?thesis using None by (auto simp: list_agents_def find_None_iff)
next
  case (Some a)
  then have i: "ag_id a = i" and a: "a \<in> set (js_values reg)"
    using assms registered_iff [OF assms, of a] by (auto simp: registry_inv_def find_agent_def)
  obtain b where b: "List.find (\<lambda>a. ag_id a = i) (list_agents reg) = Some b"
    using a i by (cases "List.find (\<lambda>a. ag_id a = i) (list_agents reg)")
      (auto simp: find_None_iff list_agents_def)
  then have "ag_id b = i" "b \<in> set (js_values reg)"
    by (auto simp: find_Some_iff list_agents_def)
  then show ?thesis using registered_iff [OF assms, of b] Some b by simp
qed

lemma initialize_local:
  "js_get s i = js_get s' i \<Longrightarrow> js_get (fst (initialize fnd out i s)) i = js_get (fst (initialize fnd out i s')) i"
  by (auto simp: initialize_def getAgent_def Let_def getAgentState_def js_has_iff setState_def
      split: option.splits)

lemma stop_local:
  "js_get s i = js_get s' i \<Longrightarrow> js_get (fst (stop fnd out i s)) i = js_get (fst (stop fnd out i s')) i"
  by (auto simp: stop_def getAgent_def Let_def getAgentState_def setState_def split: option.splits)

lemma start_local:
  "js_get s i = js_get s' i \<Longrightarrow> js_get (fst (start fnd out i s)) i = js_get (fst (start fnd out i s')) i"
  by (auto simp: start_def getAgent_def Let_def getAgentState_def setState_def split: option.splits)

text \<open>\<open>initializeAll\<close> gives every registered agent exactly the state its own
  \<open>initialize\<close> would have given it, whatever happens to the other agents, and touches no
  other entry; \<open>startAll\<close> likewise.\<close>

theorem bulk_operations_independent:
  assumes "registry_inv reg"
  shows "js_get (initializeAll out reg s) i =
      (case find_agent reg i of
         None \<Rightarrow> js_get s i
       | Some a \<Rightarrow> js_get (fst (initialize (find_agent reg) (out i) i s)) i)
    \<and> js_get (startAll out reg s) i =
      (case find_agent reg i of
         None \<Rightarrow> js_get s i
       | Some a \<Rightarrow> js_get (fst (start (find_agent reg) (out i) i s)) i)"
    (is "?init \<and> ?start")
proof
  have d: "distinct (map ag_id (list_agents reg))"
    using assms registry_ids [OF assms] by (simp add: list_agents_def registry_inv_def js_wf_def)
  have id: "find_agent reg i = Some a \<Longrightarrow> ag_id a = i" for a
    using assms by (auto simp: registry_inv_def find_agent_def)
  show ?init
    unfolding initializeAll_def safeLifecycleOperation_fst
    by (subst bulk_get [OF _ _ d])
      (auto simp: registry_find_list [OF assms] initialize_frame intro: initialize_local
        split: option.splits dest: id)
  show ?start
    unfolding startAll_def safeLifecycleOperation_fst
    by (subst bulk_get [OF _ _ d])
      (auto simp: registry_find_list [OF assms] start_frame intro: start_local
        split: option.splits dest: id)
qed

theorem bulk_operations_independent_witness:
  "registry_inv [(''a'', demo_agent)] \<and>
   js_get (initializeAll (\<lambda>_. None) [(''a'', demo_agent)] []) ''a'' = Some Ready"
proof -
  have r: "registry_inv [(''a'', demo_agent)]"
    by (auto simp: registry_inv_def js_wf_def js_get_def validateAgent_None demo_agent_def
        agent_type_values_def split: if_splits)
  have f: "find_agent [(''a'', demo_agent)] ''a'' = Some demo_agent"
    by (simp add: find_agent_def js_get_def)
  show ?thesis using r bulk_operations_independent [OF r, of "\<lambda>_. None" "[]" "''a''"] f
    by (simp add: initialize_result getAgentState_def setState_def)
qed

end
