(* ===== verification/Agent_Task.thy ===== *)
theory Agent_Task
  imports Agent_Types
begin

text \<open>
  The task data of \<open>agents/planner/agent-task.ts\<close>: states, types, dependencies, metrics, the
  task record itself, and \<open>AgentTaskBuilder\<close>, whose partial task is a record of options.
\<close>

datatype task_state =
  TaskPending | TaskWaiting | TaskReady | TaskRunning | TaskSuccess | TaskFailed | TaskCancelled | TaskTimeout

datatype task_type = Execution | Communication | Memory | Analysis | Coordination

datatype dep_type = Blocking | Soft

record retry_strategy =
  maxAttempts :: int
  backoffMs :: int
  backoffMultiplier :: int
  maxBackoffMs :: int

record task_metrics =
  createdAt :: time_ms
  startedAt :: "time_ms option"
  completedAt :: "time_ms option"
  duration :: "int option"
  attempts :: nat
  lastError :: "string option"

record task_dependency =
  dep_taskId :: string
  dep_type :: dep_type
  dep_condition :: "string option"

record agent_task =
  taskId :: string
  task_agentId :: string
  task_workspaceId :: string
  task_requestId :: string
  task_traceId :: string
  task_name :: string
  task_description :: string
  task_type :: task_type
  task_state :: task_state
  priority :: agent_priority
  task_input :: jsval
  task_output :: jsval
  task_error :: "string option"
  dependencies :: "task_dependency list"
  timeoutMs :: int
  retryStrategy :: retry_strategy
  task_metadata :: js_record
  metrics :: task_metrics

section \<open>The builder\<close>

text \<open>\<open>Partial<AgentTask>\<close>: \<open>None\<close> is a field not set (or set to \<open>undefined\<close>).\<close>

record task_draft =
  d_taskId :: "string option"
  d_agentId :: "string option"
  d_workspaceId :: "string option"
  d_requestId :: "string option"
  d_traceId :: "string option"
  d_name :: "string option"
  d_description :: "string option"
  d_type :: "task_type option"
  d_state :: "task_state option"
  d_priority :: "agent_priority option"
  d_input :: jsval
  d_output :: jsval
  d_error :: "string option"
  d_dependencies :: "task_dependency list"
  d_timeoutMs :: int
  d_retryStrategy :: retry_strategy
  d_metadata :: js_record
  d_metrics :: task_metrics

definition default_retry :: retry_strategy where
  "default_retry = \<lparr>maxAttempts = 3, backoffMs = 1000, backoffMultiplier = 2, maxBackoffMs = 30000\<rparr>"

definition fresh_metrics :: "time_ms \<Rightarrow> task_metrics" where
  "fresh_metrics now = \<lparr>createdAt = now, startedAt = None, completedAt = None, duration = None,
     attempts = 0, lastError = None\<rparr>"

text \<open>\<open>AgentTaskBuilder.create()\<close>: the initial partial task.\<close>

definition task_create :: "time_ms \<Rightarrow> task_draft" where
  "task_create now = \<lparr>d_taskId = None, d_agentId = None, d_workspaceId = None, d_requestId = None,
     d_traceId = None, d_name = None, d_description = None, d_type = None, d_state = None,
     d_priority = None, d_input = JUndefined, d_output = JUndefined, d_error = None,
     d_dependencies = [], d_timeoutMs = 30000, d_retryStrategy = default_retry, d_metadata = [],
     d_metrics = fresh_metrics now\<rparr>"

definition set_task_ids :: "string \<Rightarrow> string \<Rightarrow> string \<Rightarrow> string \<Rightarrow> string \<Rightarrow> task_draft \<Rightarrow> task_draft" where
  "set_task_ids tid aid wid rid trid d = d\<lparr>d_taskId := Some tid, d_agentId := Some aid,
     d_workspaceId := Some wid, d_requestId := Some rid, d_traceId := Some trid\<rparr>"

definition set_task_name :: "string \<Rightarrow> task_draft \<Rightarrow> task_draft" where
  "set_task_name n d = d\<lparr>d_name := Some n\<rparr>"

definition set_task_description :: "string \<Rightarrow> task_draft \<Rightarrow> task_draft" where
  "set_task_description x d = d\<lparr>d_description := Some x\<rparr>"

definition set_task_type :: "task_type \<Rightarrow> task_draft \<Rightarrow> task_draft" where
  "set_task_type x d = d\<lparr>d_type := Some x\<rparr>"

definition set_task_state :: "task_state \<Rightarrow> task_draft \<Rightarrow> task_draft" where
  "set_task_state x d = d\<lparr>d_state := Some x\<rparr>"

definition set_task_priority :: "agent_priority \<Rightarrow> task_draft \<Rightarrow> task_draft" where
  "set_task_priority x d = d\<lparr>d_priority := Some x\<rparr>"

definition set_task_input :: "jsval \<Rightarrow> task_draft \<Rightarrow> task_draft" where
  "set_task_input x d = d\<lparr>d_input := x\<rparr>"

definition addDependency :: "string \<Rightarrow> dep_type \<Rightarrow> string option \<Rightarrow> task_draft \<Rightarrow> task_draft" where
  "addDependency i t c d = d\<lparr>d_dependencies := d_dependencies d
     @ [\<lparr>dep_taskId = i, dep_type = t, dep_condition = c\<rparr>]\<rparr>"

definition set_task_timeout :: "int \<Rightarrow> task_draft \<Rightarrow> task_draft" where
  "set_task_timeout x d = d\<lparr>d_timeoutMs := x\<rparr>"

text \<open>\<open>Partial<RetryStrategy>\<close>: the fields given override those the draft has.\<close>

record retry_patch =
  p_maxAttempts :: "int option"
  p_backoffMs :: "int option"
  p_backoffMultiplier :: "int option"
  p_maxBackoffMs :: "int option"

definition set_task_retry :: "retry_patch \<Rightarrow> task_draft \<Rightarrow> task_draft" where
  "set_task_retry x d = d\<lparr>d_retryStrategy := (let r = d_retryStrategy d in
     \<lparr>maxAttempts = (case p_maxAttempts x of Some v \<Rightarrow> v | None \<Rightarrow> maxAttempts r),
      backoffMs = (case p_backoffMs x of Some v \<Rightarrow> v | None \<Rightarrow> backoffMs r),
      backoffMultiplier = (case p_backoffMultiplier x of Some v \<Rightarrow> v | None \<Rightarrow> backoffMultiplier r),
      maxBackoffMs = (case p_maxBackoffMs x of Some v \<Rightarrow> v | None \<Rightarrow> maxBackoffMs r)\<rparr>)\<rparr>"

text \<open>Passing a complete strategy, as the planner does.\<close>

definition full_patch :: "retry_strategy \<Rightarrow> retry_patch" where
  "full_patch r = \<lparr>p_maxAttempts = Some (maxAttempts r), p_backoffMs = Some (backoffMs r),
     p_backoffMultiplier = Some (backoffMultiplier r), p_maxBackoffMs = Some (maxBackoffMs r)\<rparr>"

lemma set_task_retry_full: "d_retryStrategy (set_task_retry (full_patch r) d) = r"
  by (simp add: set_task_retry_def full_patch_def Let_def)

definition add_task_metadata :: "js_record \<Rightarrow> task_draft \<Rightarrow> task_draft" where
  "add_task_metadata m d = d\<lparr>d_metadata := js_spread (d_metadata d) m\<rparr>"

text \<open>The first required field that is still undefined, in the order \<open>build\<close> checks them.\<close>

definition task_missing :: "task_draft \<Rightarrow> string option" where
  "task_missing d =
     (if d_taskId d = None then Some ''taskId''
      else if d_agentId d = None then Some ''agentId''
      else if d_workspaceId d = None then Some ''workspaceId''
      else if d_requestId d = None then Some ''requestId''
      else if d_traceId d = None then Some ''traceId''
      else if d_name d = None then Some ''name''
      else if d_type d = None then Some ''type''
      else if d_state d = None then Some ''state''
      else if d_priority d = None then Some ''priority''
      else if d_input d = JUndefined then Some ''input''
      else None)"

definition task_build :: "task_draft \<Rightarrow> agent_error + agent_task" where
  "task_build d =
     (case task_missing d of
        Some f \<Rightarrow> Inl (PlainError (''Task field '' @ sq f @ '' is required''))
      | None \<Rightarrow> Inr \<lparr>taskId = the (d_taskId d), task_agentId = the (d_agentId d),
          task_workspaceId = the (d_workspaceId d), task_requestId = the (d_requestId d),
          task_traceId = the (d_traceId d), task_name = the (d_name d),
          task_description = (case d_description d of Some x \<Rightarrow> x | None \<Rightarrow> []),
          task_type = the (d_type d), task_state = the (d_state d), priority = the (d_priority d),
          task_input = d_input d, task_output = d_output d, task_error = d_error d,
          dependencies = d_dependencies d, timeoutMs = d_timeoutMs d,
          retryStrategy = d_retryStrategy d, task_metadata = d_metadata d, metrics = d_metrics d\<rparr>)"

lemmas task_setters = set_task_ids_def set_task_name_def set_task_description_def set_task_type_def
  set_task_state_def set_task_priority_def set_task_input_def addDependency_def
  set_task_timeout_def set_task_retry_def add_task_metadata_def

lemma task_build_ok_iff: "(\<exists>t. task_build d = Inr t) \<longleftrightarrow> task_missing d = None"
  by (auto simp: task_build_def split: option.splits)

text \<open>Ids of the tasks a task waits for.\<close>

definition blocking_ids :: "agent_task \<Rightarrow> string list" where
  "blocking_ids t = map dep_taskId (filter (\<lambda>d. dep_type d = Blocking) (dependencies t))"

end
