(* ===== verification/Scheduler.thy ===== *)
theory Scheduler
  imports Complex_Main Agent_Task
begin

text \<open>
  \<open>AgentScheduler\<close> (\<open>agents/scheduler/agent-scheduler.ts\<close>). Task objects are shared between
  the queues, the running map and the caller, and the scheduler mutates them, so the state
  has an explicit store: \<open>heap\<close> maps references to tasks and the queues hold references.
  \<open>schedule\<close> takes the reference of a task the caller has built.
\<close>

section \<open>State\<close>

datatype scheduling_strategy = ByPriority | ByFifo | ByFair | ByDependency

record running_info =
  ri_task :: nat
  ri_startedAt :: time_ms
  ri_timeoutAt :: time_ms
  ri_attempts :: nat

record sched =
  heap :: "nat \<Rightarrow> agent_task"
  priorityQueue :: "nat list"
  executionQueue :: "nat list"
  waitingQueue :: "nat list"
  completedQueue :: "nat list"
  failedQueue :: "nat list"
  runningTasksMap :: "(string, running_info) js_map"
  taskDependencies :: "(string, string list) js_map"
  maxConcurrency :: int
  strategy :: scheduling_strategy
  startTime :: time_ms
  isPaused :: bool
  totalExecutionTime :: int
  completedCount :: nat
  sched_errors :: "string list"
  sched_warnings :: "string list"

definition new_scheduler :: "(nat \<Rightarrow> agent_task) \<Rightarrow> int \<Rightarrow> scheduling_strategy \<Rightarrow> time_ms \<Rightarrow> sched" where
  "new_scheduler h n st now = \<lparr>heap = h, priorityQueue = [], executionQueue = [], waitingQueue = [],
     completedQueue = [], failedQueue = [], runningTasksMap = [], taskDependencies = [],
     maxConcurrency = n, strategy = st, startTime = now, isPaused = False, totalExecutionTime = 0,
     completedCount = 0, sched_errors = [], sched_warnings = []\<rparr>"

abbreviation task_at :: "sched \<Rightarrow> nat \<Rightarrow> agent_task" where
  "task_at s r \<equiv> heap s r"

text \<open>Assigning to fields of a task object: an update of the store at its reference.\<close>

definition set_state :: "nat \<Rightarrow> task_state \<Rightarrow> sched \<Rightarrow> sched" where
  "set_state r x s = s\<lparr>heap := (heap s)(r := (heap s r)\<lparr>task_state := x\<rparr>)\<rparr>"

definition set_priority :: "nat \<Rightarrow> agent_priority \<Rightarrow> sched \<Rightarrow> sched" where
  "set_priority r x s = s\<lparr>heap := (heap s)(r := (heap s r)\<lparr>priority := x\<rparr>)\<rparr>"

definition set_metrics :: "nat \<Rightarrow> (task_metrics \<Rightarrow> task_metrics) \<Rightarrow> sched \<Rightarrow> sched" where
  "set_metrics r f s = s\<lparr>heap := (heap s)(r := (heap s r)\<lparr>metrics := f (metrics (heap s r))\<rparr>)\<rparr>"

definition set_result :: "nat \<Rightarrow> jsval \<Rightarrow> string option \<Rightarrow> sched \<Rightarrow> sched" where
  "set_result r out err s =
     s\<lparr>heap := (heap s)(r := (heap s r)\<lparr>task_output := out, task_error := err\<rparr>)\<rparr>"

definition push_error :: "string \<Rightarrow> sched \<Rightarrow> sched" where
  "push_error m s = s\<lparr>sched_errors := sched_errors s @ [m]\<rparr>"

section \<open>Looking tasks up\<close>

definition has_id :: "sched \<Rightarrow> string \<Rightarrow> nat \<Rightarrow> bool" where
  "has_id s i r = (taskId (heap s r) = i)"

fun find_in_queues :: "(nat \<Rightarrow> bool) \<Rightarrow> nat list list \<Rightarrow> nat option" where
  "find_in_queues P [] = None"
| "find_in_queues P (q # qs) =
     (case List.find P q of Some r \<Rightarrow> Some r | None \<Rightarrow> find_in_queues P qs)"

definition findTaskInQueues :: "string \<Rightarrow> sched \<Rightarrow> nat option" where
  "findTaskInQueues i s =
     (case find_in_queues (has_id s i)
        [priorityQueue s, executionQueue s, waitingQueue s, completedQueue s, failedQueue s] of
        Some r \<Rightarrow> Some r
      | None \<Rightarrow> map_option ri_task (js_get (runningTasksMap s) i))"

definition removeTaskFromQueues :: "string \<Rightarrow> sched \<Rightarrow> sched \<times> nat option" where
  "removeTaskFromQueues i s =
     (case find_index (has_id s i) (priorityQueue s) of
        Some k \<Rightarrow> (s\<lparr>priorityQueue := splice_out k (priorityQueue s)\<rparr>, Some (priorityQueue s ! k))
      | None \<Rightarrow>
     (case find_index (has_id s i) (executionQueue s) of
        Some k \<Rightarrow> (s\<lparr>executionQueue := splice_out k (executionQueue s)\<rparr>, Some (executionQueue s ! k))
      | None \<Rightarrow>
     (case find_index (has_id s i) (waitingQueue s) of
        Some k \<Rightarrow> (s\<lparr>waitingQueue := splice_out k (waitingQueue s)\<rparr>, Some (waitingQueue s ! k))
      | None \<Rightarrow>
     (case find_index (has_id s i) (completedQueue s) of
        Some k \<Rightarrow> (s\<lparr>completedQueue := splice_out k (completedQueue s)\<rparr>, Some (completedQueue s ! k))
      | None \<Rightarrow>
     (case find_index (has_id s i) (failedQueue s) of
        Some k \<Rightarrow> (s\<lparr>failedQueue := splice_out k (failedQueue s)\<rparr>, Some (failedQueue s ! k))
      | None \<Rightarrow> (s, None))))))"

definition canExecuteNow :: "nat \<Rightarrow> sched \<Rightarrow> bool" where
  "canExecuteNow r s = list_all
     (\<lambda>d. dep_type d = Blocking \<longrightarrow>
        (case findTaskInQueues (dep_taskId d) s of
           None \<Rightarrow> False
         | Some t \<Rightarrow> task_state (heap s t) = TaskSuccess))
     (dependencies (heap s r))"

section \<open>Queue operations\<close>

definition insert_by_priority :: "(nat \<Rightarrow> agent_task) \<Rightarrow> nat \<Rightarrow> nat list \<Rightarrow> nat list" where
  "insert_by_priority h r q =
     splice_in (first_index (\<lambda>e. priorityOrder (priority (h r)) < priorityOrder (priority (h e))) q) r q"

definition addToPriorityQueue :: "nat \<Rightarrow> sched \<Rightarrow> sched" where
  "addToPriorityQueue r s =
     (let s1 = set_state r TaskReady s
      in s1\<lparr>priorityQueue := insert_by_priority (heap s1) r (priorityQueue s1)\<rparr>)"

text \<open>The backwards loop of \<open>promoteWaitingTasks\<close>: \<open>i\<close> counts the indices still to visit.\<close>

fun promote_scan :: "nat \<Rightarrow> sched \<Rightarrow> nat list \<Rightarrow> sched \<times> nat list" where
  "promote_scan 0 s toPromote = (s, toPromote)"
| "promote_scan (Suc i) s toPromote =
     (let r = waitingQueue s ! i
      in if canExecuteNow r s
         then promote_scan i (s\<lparr>waitingQueue := splice_out i (waitingQueue s)\<rparr>) (toPromote @ [r])
         else promote_scan i s toPromote)"

definition promoteWaitingTasks :: "sched \<Rightarrow> sched" where
  "promoteWaitingTasks s =
     (case promote_scan (length (waitingQueue s)) s [] of
        (s1, toPromote) \<Rightarrow> fold addToPriorityQueue toPromote s1)"

definition dequeueByPriority :: "sched \<Rightarrow> sched \<times> nat option" where
  "dequeueByPriority s =
     (case priorityQueue s of
        [] \<Rightarrow> (s, None)
      | r # q \<Rightarrow> (s\<lparr>priorityQueue := q\<rparr>, Some r))"

text \<open>The scan of \<open>dequeueByFIFO\<close> and \<open>dequeueByFairness\<close>: the first index with the least
  value of \<open>f\<close>, starting from index \<open>0\<close>.\<close>

fun argmin_scan :: "(nat \<Rightarrow> int) \<Rightarrow> nat list \<Rightarrow> nat \<Rightarrow> nat \<Rightarrow> int \<Rightarrow> nat" where
  "argmin_scan f [] i best bestVal = best"
| "argmin_scan f (r # q) i best bestVal =
     (if f r < bestVal then argmin_scan f q (Suc i) i (f r) else argmin_scan f q (Suc i) best bestVal)"

definition dequeue_min :: "(nat \<Rightarrow> int) \<Rightarrow> sched \<Rightarrow> sched \<times> nat option" where
  "dequeue_min f s =
     (case priorityQueue s of
        [] \<Rightarrow> (s, None)
      | r # q \<Rightarrow>
          (let k = argmin_scan f q 1 0 (f r)
           in (s\<lparr>priorityQueue := splice_out k (priorityQueue s)\<rparr>, Some (priorityQueue s ! k))))"

definition dequeueByFIFO :: "sched \<Rightarrow> sched \<times> nat option" where
  "dequeueByFIFO s = dequeue_min (\<lambda>r. createdAt (metrics (heap s r))) s"

definition agentCounts :: "sched \<Rightarrow> (string, int) js_map" where
  "agentCounts s = fold
     (\<lambda>info m. let a = task_agentId (heap s (ri_task info));
                   c = (case js_get m a of Some n \<Rightarrow> n | None \<Rightarrow> 0)
               in js_set a (c + 1) m)
     (js_values (runningTasksMap s)) []"

definition dequeueByFairness :: "sched \<Rightarrow> sched \<times> nat option" where
  "dequeueByFairness s =
     (let counts = agentCounts s
      in dequeue_min (\<lambda>r. case js_get counts (task_agentId (heap s r)) of Some n \<Rightarrow> n | None \<Rightarrow> 0) s)"

definition dequeueByDependency :: "sched \<Rightarrow> sched \<times> nat option" where
  "dequeueByDependency s = dequeueByPriority s"

definition next_by_strategy :: "sched \<Rightarrow> sched \<times> nat option" where
  "next_by_strategy s =
     (case strategy s of
        ByPriority \<Rightarrow> dequeueByPriority s
      | ByFifo \<Rightarrow> dequeueByFIFO s
      | ByFair \<Rightarrow> dequeueByFairness s
      | ByDependency \<Rightarrow> dequeueByDependency s)"

text \<open>A JavaScript \<open>Set\<close> filled from a list: first occurrences, in order.\<close>

definition updateDependencyTracking :: "nat \<Rightarrow> sched \<Rightarrow> sched" where
  "updateDependencyTracking r s =
     (let deps = foldl (\<lambda>acc d. if List.member acc (dep_taskId d) then acc else acc @ [dep_taskId d])
                   [] (dependencies (heap s r))
      in s\<lparr>taskDependencies := js_set (taskId (heap s r)) deps (taskDependencies s)\<rparr>)"

section \<open>Public operations\<close>

definition schedule_fail :: "nat \<Rightarrow> string \<Rightarrow> sched \<Rightarrow> sched \<times> (agent_error + unit)" where
  "schedule_fail r m s =
     (let msg = ''Failed to schedule task '' @ taskId (heap s r) @ '': '' @ m
      in (push_error msg s, Inl (PlainError msg)))"

definition schedule :: "nat \<Rightarrow> sched \<Rightarrow> sched \<times> (agent_error + unit)" where
  "schedule r s =
     (let i = taskId (heap s r)
      in if i = [] then schedule_fail r ''Task must have a valid taskId'' s
         else if findTaskInQueues i s \<noteq> None
         then schedule_fail r (''Task '' @ i @ '' already scheduled'') s
         else let s1 = updateDependencyTracking r s
              in if canExecuteNow r s1 then (addToPriorityQueue r s1, Inr ())
                 else let s2 = set_state r TaskWaiting s1
                      in (s2\<lparr>waitingQueue := waitingQueue s2 @ [r]\<rparr>, Inr ()))"

fun enqueue :: "nat list \<Rightarrow> sched \<Rightarrow> sched \<times> (agent_error + unit)" where
  "enqueue [] s = (s, Inr ())"
| "enqueue (r # rs) s =
     (case schedule r s of (s1, Inl e) \<Rightarrow> (s1, Inl e) | (s1, Inr _) \<Rightarrow> enqueue rs s1)"

text \<open>The part of \<open>dequeue\<close> that moves the chosen task to the running state.\<close>

definition start_task :: "time_ms \<Rightarrow> nat \<Rightarrow> sched \<Rightarrow> sched" where
  "start_task now r s =
     (let s1 = set_state r TaskRunning s;
          s2 = set_metrics r (\<lambda>m. m\<lparr>startedAt := Some now, attempts := Suc (attempts m)\<rparr>) s1;
          t = heap s2 r;
          info = \<lparr>ri_task = r, ri_startedAt = now, ri_timeoutAt = now + timeoutMs t,
                  ri_attempts = attempts (metrics t)\<rparr>
      in s2\<lparr>runningTasksMap := js_set (taskId t) info (runningTasksMap s2),
            executionQueue := executionQueue s2 @ [r]\<rparr>)"

definition dequeue :: "time_ms \<Rightarrow> sched \<Rightarrow> sched \<times> nat option" where
  "dequeue now s =
     (if isPaused s \<or> int (length (runningTasksMap s)) \<ge> maxConcurrency s then (s, None)
      else case next_by_strategy (promoteWaitingTasks s) of
        (s1, None) \<Rightarrow> (s1, None)
      | (s1, Some r) \<Rightarrow> (start_task now r s1, Some r))"

definition mark_cancelled :: "time_ms \<Rightarrow> nat \<Rightarrow> sched \<Rightarrow> sched" where
  "mark_cancelled now r s =
     set_metrics r (\<lambda>m. m\<lparr>completedAt := Some now\<rparr>) (set_state r TaskCancelled s)"

definition cancel :: "time_ms \<Rightarrow> string \<Rightarrow> sched \<Rightarrow> sched \<times> bool" where
  "cancel now i s =
     (case js_get (runningTasksMap s) i of
        Some info \<Rightarrow>
          (let s1 = mark_cancelled now (ri_task info) s
           in (s1\<lparr>runningTasksMap := js_delete i (runningTasksMap s1),
                  failedQueue := failedQueue s1 @ [ri_task info]\<rparr>, True))
      | None \<Rightarrow>
          (case removeTaskFromQueues i s of
             (s1, Some r) \<Rightarrow>
               (let s2 = mark_cancelled now r s1
                in (s2\<lparr>failedQueue := failedQueue s2 @ [r]\<rparr>, True))
           | (s1, None) \<Rightarrow> (s1, False)))"

definition sched_pause :: "sched \<Rightarrow> sched" where
  "sched_pause s = s\<lparr>isPaused := True\<rparr>"

definition sched_resume :: "sched \<Rightarrow> sched" where
  "sched_resume s = s\<lparr>isPaused := False\<rparr>"

definition reschedule :: "string \<Rightarrow> string option \<Rightarrow> sched \<Rightarrow> sched \<times> (agent_error + bool)" where
  "reschedule i newPriority s =
     (case findTaskInQueues i s of
        None \<Rightarrow> (s, Inr False)
      | Some r \<Rightarrow>
          (let s1 = (case newPriority of
                       None \<Rightarrow> s
                     | Some p \<Rightarrow> (case priority_of_string p of None \<Rightarrow> s | Some q \<Rightarrow> set_priority r q s));
               s2 = fst (removeTaskFromQueues i s1)
           in case schedule r s2 of
                (s3, Inl e) \<Rightarrow>
                  (let msg = ''Failed to reschedule task '' @ i @ '': '' @ err_message e
                   in (push_error msg s3, Inl (PlainError msg)))
              | (s3, Inr _) \<Rightarrow> (s3, Inr True)))"

definition completeTask :: "time_ms \<Rightarrow> string \<Rightarrow> bool \<Rightarrow> jsval \<Rightarrow> string option \<Rightarrow> sched \<Rightarrow> sched" where
  "completeTask now i success output err s =
     (case js_get (runningTasksMap s) i of
        None \<Rightarrow> s
      | Some info \<Rightarrow>
          (let r = ri_task info;
               dur = now - ri_startedAt info;
               s1 = set_state r (if success then TaskSuccess else TaskFailed) s;
               s2 = set_result r output err s1;
               s3 = set_metrics r (\<lambda>m. m\<lparr>completedAt := Some now, duration := Some dur\<rparr>) s2;
               s4 = s3\<lparr>totalExecutionTime := totalExecutionTime s3 + dur,
                       completedCount := (if success then Suc (completedCount s3) else completedCount s3),
                       runningTasksMap := js_delete i (runningTasksMap s3)\<rparr>;
               s5 = (case find_index (has_id s4 i) (executionQueue s4) of
                       Some k \<Rightarrow> s4\<lparr>executionQueue := splice_out k (executionQueue s4)\<rparr>
                     | None \<Rightarrow> s4)
           in if success
              then promoteWaitingTasks (s5\<lparr>completedQueue := completedQueue s5 @ [r]\<rparr>)
              else s5\<lparr>failedQueue := failedQueue s5 @ [r]\<rparr>))"

section \<open>Reports\<close>

record queue_sizes =
  qs_priority :: nat
  qs_execution :: nat
  qs_waiting :: nat
  qs_completed :: nat
  qs_failed :: nat

record scheduler_health =
  sh_status :: health_status
  sh_queueSizes :: queue_sizes
  sh_runningTasks :: nat
  sh_maxConcurrency :: int
  sh_errors :: "string list"
  sh_warnings :: "string list"
  sh_lastActivity :: time_ms

record scheduler_metrics =
  sm_totalTasks :: nat
  sm_completedTasks :: nat
  sm_failedTasks :: nat
  sm_cancelledTasks :: nat
  sm_averageExecutionTime :: real
  sm_totalExecutionTime :: int
  sm_uptime :: int
  sm_throughput :: real

definition queueSizes :: "sched \<Rightarrow> queue_sizes" where
  "queueSizes s = \<lparr>qs_priority = length (priorityQueue s), qs_execution = length (executionQueue s),
     qs_waiting = length (waitingQueue s), qs_completed = length (completedQueue s),
     qs_failed = length (failedQueue s)\<rparr>"

text \<open>The loop over the running map: it warns of each stale task and sets the status.\<close>

fun stale_scan :: "time_ms \<Rightarrow> (string, running_info) js_map \<Rightarrow> health_status \<times> string list \<Rightarrow> health_status \<times> string list" where
  "stale_scan now [] acc = acc"
| "stale_scan now ((i, info) # m) (st, w) =
     (if now > ri_timeoutAt info
      then stale_scan now m (Degraded, w @ [''Task '' @ i @ '' has exceeded timeout''])
      else stale_scan now m (st, w))"

definition scheduler_health :: "time_ms \<Rightarrow> sched \<Rightarrow> sched \<times> scheduler_health" where
  "scheduler_health now s =
     (let sizes = queueSizes s;
          runningCount = length (runningTasksMap s);
          st0 = (if sched_errors s \<noteq> [] then Unhealthy
                 else if sched_warnings s \<noteq> [] \<or> runningCount = 0 then Degraded else Healthy)
      in case stale_scan now (runningTasksMap s) (st0, sched_warnings s) of
           (st, w) \<Rightarrow> (s\<lparr>sched_warnings := w\<rparr>,
             \<lparr>sh_status = st, sh_queueSizes = sizes, sh_runningTasks = runningCount,
              sh_maxConcurrency = maxConcurrency s, sh_errors = sched_errors s, sh_warnings = w,
              sh_lastActivity = now\<rparr>))"

definition getTotalTaskCount :: "sched \<Rightarrow> nat" where
  "getTotalTaskCount s = length (priorityQueue s) + length (executionQueue s) + length (waitingQueue s)
     + length (completedQueue s) + length (failedQueue s) + length (runningTasksMap s)"

definition scheduler_metrics :: "time_ms \<Rightarrow> sched \<Rightarrow> scheduler_metrics" where
  "scheduler_metrics now s =
     (let uptime = now - startTime s
      in \<lparr>sm_totalTasks = getTotalTaskCount s,
          sm_completedTasks = length (completedQueue s),
          sm_failedTasks = length (failedQueue s),
          sm_cancelledTasks = length (filter (\<lambda>r. task_state (heap s r) = TaskCancelled) (failedQueue s)),
          sm_averageExecutionTime =
            (if completedCount s > 0 then of_int (totalExecutionTime s) / of_nat (completedCount s) else 0),
          sm_totalExecutionTime = totalExecutionTime s,
          sm_uptime = uptime,
          sm_throughput =
            (if uptime > 0 then of_nat (completedCount s) / (of_int uptime / 60000) else 0)\<rparr>)"

definition runningTasks :: "sched \<Rightarrow> running_info list" where
  "runningTasks s = js_values (runningTasksMap s)"

end
