(* ===== verification/Scheduler_Correct.thy ===== *)
theory Scheduler_Correct
  imports Scheduler
begin

text \<open>
  Correctness of the scheduler: where a task is (exactly one of five places), the order of
  the ready queue, the concurrency bound, what each dequeue strategy picks, how completions
  release waiting tasks, and the behaviours of cancellation and rescheduling.
\<close>

section \<open>Views of the store\<close>

definition tid :: "sched \<Rightarrow> nat \<Rightarrow> string" where
  "tid s = (\<lambda>r. taskId (heap s r))"

definition prio :: "sched \<Rightarrow> nat \<Rightarrow> agent_priority" where
  "prio s = (\<lambda>r. priority (heap s r))"

definition stat :: "sched \<Rightarrow> nat \<Rightarrow> task_state" where
  "stat s = (\<lambda>r. task_state (heap s r))"

lemma has_id_tid: "has_id s i r \<longleftrightarrow> tid s r = i"
  by (simp add: has_id_def tid_def)

lemma set_state_views [simp]:
  "tid (set_state r x s) = tid s" "prio (set_state r x s) = prio s"
  "stat (set_state r x s) = (stat s)(r := x)"
  by (auto simp: tid_def prio_def stat_def set_state_def fun_eq_iff)

lemma set_priority_views [simp]:
  "tid (set_priority r x s) = tid s" "prio (set_priority r x s) = (prio s)(r := x)"
  "stat (set_priority r x s) = stat s"
  by (auto simp: tid_def prio_def stat_def set_priority_def fun_eq_iff)

lemma set_metrics_views [simp]:
  "tid (set_metrics r f s) = tid s" "prio (set_metrics r f s) = prio s"
  "stat (set_metrics r f s) = stat s"
  by (auto simp: tid_def prio_def stat_def set_metrics_def fun_eq_iff)

lemma set_result_views [simp]:
  "tid (set_result r out e s) = tid s" "prio (set_result r out e s) = prio s"
  "stat (set_result r out e s) = stat s"
  by (auto simp: tid_def prio_def stat_def set_result_def fun_eq_iff)

text \<open>Updates of the other fields do not change what the store says.\<close>

lemma views_frame [simp]:
  "tid (s\<lparr>priorityQueue := q\<rparr>) = tid s" "tid (s\<lparr>executionQueue := q\<rparr>) = tid s"
  "tid (s\<lparr>waitingQueue := q\<rparr>) = tid s" "tid (s\<lparr>completedQueue := q\<rparr>) = tid s"
  "tid (s\<lparr>failedQueue := q\<rparr>) = tid s" "tid (s\<lparr>runningTasksMap := m\<rparr>) = tid s"
  "tid (s\<lparr>taskDependencies := d\<rparr>) = tid s" "tid (s\<lparr>sched_errors := es\<rparr>) = tid s"
  "tid (s\<lparr>sched_warnings := es\<rparr>) = tid s" "tid (s\<lparr>isPaused := b\<rparr>) = tid s"
  "tid (s\<lparr>totalExecutionTime := t\<rparr>) = tid s" "tid (s\<lparr>completedCount := n\<rparr>) = tid s"
  "prio (s\<lparr>priorityQueue := q\<rparr>) = prio s" "prio (s\<lparr>executionQueue := q\<rparr>) = prio s"
  "prio (s\<lparr>waitingQueue := q\<rparr>) = prio s" "prio (s\<lparr>completedQueue := q\<rparr>) = prio s"
  "prio (s\<lparr>failedQueue := q\<rparr>) = prio s" "prio (s\<lparr>runningTasksMap := m\<rparr>) = prio s"
  "prio (s\<lparr>taskDependencies := d\<rparr>) = prio s" "prio (s\<lparr>sched_errors := es\<rparr>) = prio s"
  "prio (s\<lparr>sched_warnings := es\<rparr>) = prio s" "prio (s\<lparr>isPaused := b\<rparr>) = prio s"
  "prio (s\<lparr>totalExecutionTime := t\<rparr>) = prio s" "prio (s\<lparr>completedCount := n\<rparr>) = prio s"
  "stat (s\<lparr>priorityQueue := q\<rparr>) = stat s" "stat (s\<lparr>executionQueue := q\<rparr>) = stat s"
  "stat (s\<lparr>waitingQueue := q\<rparr>) = stat s" "stat (s\<lparr>completedQueue := q\<rparr>) = stat s"
  "stat (s\<lparr>failedQueue := q\<rparr>) = stat s" "stat (s\<lparr>runningTasksMap := m\<rparr>) = stat s"
  "stat (s\<lparr>taskDependencies := d\<rparr>) = stat s" "stat (s\<lparr>sched_errors := es\<rparr>) = stat s"
  "stat (s\<lparr>sched_warnings := es\<rparr>) = stat s" "stat (s\<lparr>isPaused := b\<rparr>) = stat s"
  "stat (s\<lparr>totalExecutionTime := t\<rparr>) = stat s" "stat (s\<lparr>completedCount := n\<rparr>) = stat s"
  by (simp_all add: tid_def prio_def stat_def)

text \<open>The store updates leave every other field alone.\<close>

lemma set_state_fields [simp]:
  "priorityQueue (set_state r x s) = priorityQueue s" "executionQueue (set_state r x s) = executionQueue s"
  "waitingQueue (set_state r x s) = waitingQueue s" "completedQueue (set_state r x s) = completedQueue s"
  "failedQueue (set_state r x s) = failedQueue s" "runningTasksMap (set_state r x s) = runningTasksMap s"
  "maxConcurrency (set_state r x s) = maxConcurrency s" "strategy (set_state r x s) = strategy s"
  "isPaused (set_state r x s) = isPaused s"
  by (simp_all add: set_state_def)

lemma set_metrics_fields [simp]:
  "priorityQueue (set_metrics r f s) = priorityQueue s" "executionQueue (set_metrics r f s) = executionQueue s"
  "waitingQueue (set_metrics r f s) = waitingQueue s" "completedQueue (set_metrics r f s) = completedQueue s"
  "failedQueue (set_metrics r f s) = failedQueue s" "runningTasksMap (set_metrics r f s) = runningTasksMap s"
  "maxConcurrency (set_metrics r f s) = maxConcurrency s" "strategy (set_metrics r f s) = strategy s"
  "isPaused (set_metrics r f s) = isPaused s"
  by (simp_all add: set_metrics_def)

lemma set_result_fields [simp]:
  "priorityQueue (set_result r out e s) = priorityQueue s" "executionQueue (set_result r out e s) = executionQueue s"
  "waitingQueue (set_result r out e s) = waitingQueue s" "completedQueue (set_result r out e s) = completedQueue s"
  "failedQueue (set_result r out e s) = failedQueue s" "runningTasksMap (set_result r out e s) = runningTasksMap s"
  "maxConcurrency (set_result r out e s) = maxConcurrency s" "strategy (set_result r out e s) = strategy s"
  "isPaused (set_result r out e s) = isPaused s"
  by (simp_all add: set_result_def)

lemma set_priority_fields [simp]:
  "priorityQueue (set_priority r x s) = priorityQueue s" "executionQueue (set_priority r x s) = executionQueue s"
  "waitingQueue (set_priority r x s) = waitingQueue s" "completedQueue (set_priority r x s) = completedQueue s"
  "failedQueue (set_priority r x s) = failedQueue s" "runningTasksMap (set_priority r x s) = runningTasksMap s"
  "maxConcurrency (set_priority r x s) = maxConcurrency s" "strategy (set_priority r x s) = strategy s"
  "isPaused (set_priority r x s) = isPaused s"
  by (simp_all add: set_priority_def)

section \<open>The ready queue as a priority insertion\<close>

lemma insert_by_priority_split:
  "insert_by_priority h r q = takeWhile (\<lambda>y. priority (h y) \<le> priority (h r)) q
     @ r # dropWhile (\<lambda>y. priority (h y) \<le> priority (h r)) q"
  by (simp add: insert_by_priority_def splice_in_split not_less less_eq_agent_priority_def)

interpretation ready: prio_insert "\<lambda>r. priority (h r)" "insert_by_priority h" for h
  by unfold_locales (rule insert_by_priority_split)

lemma addToPriorityQueue_fields [simp]:
  "executionQueue (addToPriorityQueue r s) = executionQueue s"
  "waitingQueue (addToPriorityQueue r s) = waitingQueue s"
  "completedQueue (addToPriorityQueue r s) = completedQueue s"
  "failedQueue (addToPriorityQueue r s) = failedQueue s"
  "runningTasksMap (addToPriorityQueue r s) = runningTasksMap s"
  "maxConcurrency (addToPriorityQueue r s) = maxConcurrency s"
  "strategy (addToPriorityQueue r s) = strategy s"
  "isPaused (addToPriorityQueue r s) = isPaused s"
  "tid (addToPriorityQueue r s) = tid s" "prio (addToPriorityQueue r s) = prio s"
  "stat (addToPriorityQueue r s) = (stat s)(r := TaskReady)"
  by (simp_all add: addToPriorityQueue_def Let_def)

lemma addToPriorityQueue_mset [simp]:
  "mset (priorityQueue (addToPriorityQueue r s)) = add_mset r (mset (priorityQueue s))"
  by (simp add: addToPriorityQueue_def Let_def ready.mset_ins)

lemma addToPriorityQueue_set [simp]:
  "set (priorityQueue (addToPriorityQueue r s)) = insert r (set (priorityQueue s))"
  by (metis addToPriorityQueue_mset set_mset_add_mset_insert set_mset_mset)

lemma addToPriorityQueue_sorted:
  assumes "sorted (map (prio s) (priorityQueue s))"
  shows "sorted (map (prio s) (priorityQueue (addToPriorityQueue r s)))"
proof -
  let ?s = "set_state r TaskReady s"
  have p: "(\<lambda>r. priority (heap ?s r)) = prio s"
    using set_state_views(2) [of r TaskReady s] by (simp add: prio_def)
  have "ready.ordered (heap ?s) (priorityQueue s)"
    unfolding ready.ordered_def using assms by (simp only: p)
  then have "ready.ordered (heap ?s) (insert_by_priority (heap ?s) r (priorityQueue s))"
    by (rule ready.ordered_ins)
  then have "sorted (map (prio s) (insert_by_priority (heap ?s) r (priorityQueue s)))"
    unfolding ready.ordered_def by (simp only: p)
  then show ?thesis by (simp add: addToPriorityQueue_def Let_def)
qed

text \<open>Promoting a whole list of tasks.\<close>

lemma fold_add_fields [simp]:
  "executionQueue (fold addToPriorityQueue rs s) = executionQueue s"
  "waitingQueue (fold addToPriorityQueue rs s) = waitingQueue s"
  "completedQueue (fold addToPriorityQueue rs s) = completedQueue s"
  "failedQueue (fold addToPriorityQueue rs s) = failedQueue s"
  "runningTasksMap (fold addToPriorityQueue rs s) = runningTasksMap s"
  "maxConcurrency (fold addToPriorityQueue rs s) = maxConcurrency s"
  "strategy (fold addToPriorityQueue rs s) = strategy s"
  "isPaused (fold addToPriorityQueue rs s) = isPaused s"
  "tid (fold addToPriorityQueue rs s) = tid s" "prio (fold addToPriorityQueue rs s) = prio s"
  by (induction rs arbitrary: s) simp_all

lemma fold_add_stat:
  "stat (fold addToPriorityQueue rs s) r = (if r \<in> set rs then TaskReady else stat s r)"
  by (induction rs arbitrary: s) auto

lemma fold_add_mset:
  "mset (priorityQueue (fold addToPriorityQueue rs s)) = mset rs + mset (priorityQueue s)"
  by (induction rs arbitrary: s) simp_all

lemma fold_add_sorted:
  "sorted (map (prio s) (priorityQueue s)) \<Longrightarrow>
   sorted (map (prio s) (priorityQueue (fold addToPriorityQueue rs s)))"
proof (induction rs arbitrary: s)
  case Nil
  then show ?case by simp
next
  case (Cons r rs)
  then show ?case using Cons.IH [of "addToPriorityQueue r s"] addToPriorityQueue_sorted [of s r]
    by simp
qed

section \<open>Promotion of waiting tasks\<close>

text \<open>What the scan keeps, and what it does to the waiting queue: it takes out of it exactly the
  tasks it collects. All collected tasks could execute when they were looked at.\<close>

lemma promote_scan_frame:
  "promote_scan n s acc = (t, out) \<Longrightarrow> n \<le> length (waitingQueue s) \<Longrightarrow>
     t = s\<lparr>waitingQueue := waitingQueue t\<rparr> \<and>
     mset (waitingQueue t) + mset out = mset (waitingQueue s) + mset acc"
proof (induction n s acc arbitrary: t out rule: promote_scan.induct)
  case (1 s acc)
  then show ?case by auto
next
  case (2 i s acc)
  let ?r = "waitingQueue s ! i"
  have i: "i < length (waitingQueue s)" using "2.prems" by simp
  show ?case
  proof (cases "canExecuteNow ?r s")
    case True
    let ?s = "s\<lparr>waitingQueue := splice_out i (waitingQueue s)\<rparr>"
    have e: "promote_scan i ?s (acc @ [?r]) = (t, out)"
      using "2.prems"(1) True by (simp add: Let_def)
    have "i \<le> length (waitingQueue ?s)" using i by (simp add: length_splice_out)
    from "2.IH"(1) [OF refl True e this]
    have "t = ?s\<lparr>waitingQueue := waitingQueue t\<rparr>"
      and m: "mset (waitingQueue t) + mset out = mset (splice_out i (waitingQueue s)) + mset (acc @ [?r])"
      by auto
    then have "t = s\<lparr>waitingQueue := waitingQueue t\<rparr>" by (metis sched.update_convs(4) sched.surjective)
    moreover have "mset (splice_out i (waitingQueue s)) + mset (acc @ [?r]) = mset (waitingQueue s) + mset acc"
      using mset_splice_out [OF i] by simp
    ultimately show ?thesis using m by simp
  next
    case False
    have e: "promote_scan i s acc = (t, out)"
      using "2.prems"(1) False by (simp add: Let_def)
    from "2.IH"(2) [OF refl False e] i show ?thesis by simp
  qed
qed

lemma promote_scan_collects:
  "promote_scan n s acc = (t, out) \<Longrightarrow> n \<le> length (waitingQueue s) \<Longrightarrow> set acc \<subseteq> set out"
proof (induction n s acc arbitrary: t out rule: promote_scan.induct)
  case (1 s acc)
  then show ?case by simp
next
  case (2 i s acc)
  then show ?case
    by (auto simp: Let_def length_splice_out split: if_splits)
qed


lemma promote_effect:
  obtains out where
    "mset (waitingQueue (promoteWaitingTasks s)) + mset out = mset (waitingQueue s)"
    "mset (priorityQueue (promoteWaitingTasks s)) = mset out + mset (priorityQueue s)"
    "\<And>r. stat (promoteWaitingTasks s) r = (if r \<in> set out then TaskReady else stat s r)"
    "tid (promoteWaitingTasks s) = tid s" "prio (promoteWaitingTasks s) = prio s"
    "executionQueue (promoteWaitingTasks s) = executionQueue s"
    "completedQueue (promoteWaitingTasks s) = completedQueue s"
    "failedQueue (promoteWaitingTasks s) = failedQueue s"
    "runningTasksMap (promoteWaitingTasks s) = runningTasksMap s"
    "maxConcurrency (promoteWaitingTasks s) = maxConcurrency s"
    "strategy (promoteWaitingTasks s) = strategy s"
    "sorted (map (prio s) (priorityQueue s)) \<Longrightarrow>
      sorted (map (prio s) (priorityQueue (promoteWaitingTasks s)))"
proof -
  obtain t out where ps: "promote_scan (length (waitingQueue s)) s [] = (t, out)" by fastforce
  then have t: "t = s\<lparr>waitingQueue := waitingQueue t\<rparr>"
    and m: "mset (waitingQueue t) + mset out = mset (waitingQueue s)"
    using promote_scan_frame [OF ps] by auto
  have "tid t = tid s" "prio t = prio s" "stat t = stat s"
    by (subst t, simp)+
  moreover have "priorityQueue t = priorityQueue s" "executionQueue t = executionQueue s"
    "completedQueue t = completedQueue s" "failedQueue t = failedQueue s"
    "runningTasksMap t = runningTasksMap s" "maxConcurrency t = maxConcurrency s" "strategy t = strategy s"
    by (subst t, simp)+
  moreover have "promoteWaitingTasks s = fold addToPriorityQueue out t"
    by (simp add: promoteWaitingTasks_def ps)
  ultimately show thesis
    using that [of out] m fold_add_sorted [of t out] by (simp add: fold_add_stat fold_add_mset)
qed

section \<open>Choosing the next task\<close>

text \<open>\<open>k\<close> is the first index of the list with the least value of \<open>f\<close>.\<close>

definition first_argmin :: "(nat \<Rightarrow> int) \<Rightarrow> nat list \<Rightarrow> nat \<Rightarrow> bool" where
  "first_argmin f xs k \<longleftrightarrow> k < length xs \<and> (\<forall>j < length xs. f (xs ! k) \<le> f (xs ! j)) \<and>
     (\<forall>j < k. f (xs ! k) < f (xs ! j))"

lemma argmin_scan_correct:
  "first_argmin f ys b \<Longrightarrow> first_argmin f (ys @ q) (argmin_scan f q (length ys) b (f (ys ! b)))"
proof (induction q arbitrary: ys b)
  case Nil
  then show ?case by simp
next
  case (Cons r q)
  have b: "b < length ys" using Cons.prems by (simp add: first_argmin_def)
  show ?case
  proof (cases "f r < f (ys ! b)")
    case True
    have "first_argmin f (ys @ [r]) (length ys)"
      using Cons.prems True by (force simp: first_argmin_def nth_append less_Suc_eq)
    from Cons.IH [OF this] show ?thesis using True by (simp add: nth_append)
  next
    case False
    have "first_argmin f (ys @ [r]) b"
      using Cons.prems False by (force simp: first_argmin_def nth_append less_Suc_eq)
    from Cons.IH [OF this] show ?thesis using False b by (simp add: nth_append)
  qed
qed

lemma dequeue_min_correct:
  "dequeue_min f s = (t, Some r) \<Longrightarrow>
     \<exists>k. first_argmin f (priorityQueue s) k \<and> r = priorityQueue s ! k \<and>
       t = s\<lparr>priorityQueue := splice_out k (priorityQueue s)\<rparr>"
proof (cases "priorityQueue s")
  case (Cons x q)
  have "first_argmin f [x] 0" by (simp add: first_argmin_def)
  from argmin_scan_correct [OF this, of q] have "first_argmin f (x # q) (argmin_scan f q 1 0 (f x))"
    by simp
  moreover assume "dequeue_min f s = (t, Some r)"
  ultimately show ?thesis using Cons by (auto simp: dequeue_min_def Let_def)
qed (simp add: dequeue_min_def)

lemma dequeue_min_None: "dequeue_min f s = (t, None) \<longleftrightarrow> priorityQueue s = [] \<and> t = s"
  by (auto simp: dequeue_min_def Let_def split: list.splits)

lemma splice_out_0: "splice_out 0 xs = tl xs"
  by (simp add: splice_out_def drop_Suc)

lemma next_by_strategy_Some:
  assumes "next_by_strategy s = (t, Some r)"
  obtains k where "k < length (priorityQueue s)" "r = priorityQueue s ! k"
    "t = s\<lparr>priorityQueue := splice_out k (priorityQueue s)\<rparr>"
proof (cases "strategy s = ByFifo \<or> strategy s = ByFair")
  case True
  then obtain f where "dequeue_min f s = (t, Some r)"
    using assms by (auto simp: next_by_strategy_def dequeueByFIFO_def dequeueByFairness_def Let_def)
  from dequeue_min_correct [OF this] show ?thesis using that by (auto simp: first_argmin_def)
next
  case False
  then have "dequeueByPriority s = (t, Some r)"
    using assms by (cases "strategy s") (auto simp: next_by_strategy_def dequeueByDependency_def)
  then show ?thesis using that [of 0]
    by (auto simp: dequeueByPriority_def splice_out_0 split: list.splits)
qed

lemma next_by_strategy_None:
  "next_by_strategy s = (t, None) \<longleftrightarrow> priorityQueue s = [] \<and> t = s"
  by (cases "strategy s")
    (auto simp: next_by_strategy_def dequeueByDependency_def dequeueByPriority_def dequeueByFIFO_def
      dequeueByFairness_def Let_def dequeue_min_None split: list.splits)

section \<open>Lookups by id\<close>

lemma find_mem: "List.find P q = Some r \<Longrightarrow> r \<in> set q \<and> P r"
  by (auto simp: find_Some_iff)

lemma find_in_queues_None: "find_in_queues P qs = None \<longleftrightarrow> (\<forall>q \<in> set qs. \<forall>r \<in> set q. \<not> P r)"
  by (induction qs) (auto simp: find_None_iff split: option.splits dest: find_mem)

lemma find_in_queues_Some: "find_in_queues P qs = Some r \<Longrightarrow> P r \<and> (\<exists>q \<in> set qs. r \<in> set q)"
  by (induction qs) (auto split: option.splits dest: find_mem)

lemma findTaskInQueues_None:
  "findTaskInQueues i s = None \<longleftrightarrow>
     i \<notin> tid s ` (set (priorityQueue s) \<union> set (executionQueue s) \<union> set (waitingQueue s)
        \<union> set (completedQueue s) \<union> set (failedQueue s)) \<and> \<not> js_has (runningTasksMap s) i"
proof -
  let ?qs = "[priorityQueue s, executionQueue s, waitingQueue s, completedQueue s, failedQueue s]"
  have "findTaskInQueues i s = None \<longleftrightarrow>
      find_in_queues (has_id s i) ?qs = None \<and> js_get (runningTasksMap s) i = None"
    unfolding findTaskInQueues_def by (auto simp del: find_in_queues.simps split: option.split)
  also have "\<dots> \<longleftrightarrow> (\<forall>q \<in> set ?qs. \<forall>r \<in> set q. tid s r \<noteq> i) \<and> \<not> js_has (runningTasksMap s) i"
    unfolding find_in_queues_None has_id_tid js_has_iff by simp
  finally show ?thesis by auto
qed

section \<open>The invariant\<close>

text \<open>
  The ids of the tasks in the ready, waiting and completed queues and of the running map, all
  in one list: the invariant says it has no repetition and that no failed or cancelled task
  is among them, so a task is in exactly one of these places. The execution queue holds
  running tasks, and tasks cancelled while running (\<open>cancel\<close> does not take them out), whose
  ids are in the failed queue; a second \<open>cancel\<close> of such a task finds it there and pushes it
  on the failed queue again, so the failed queue alone may repeat a task.
\<close>

definition places :: "sched \<Rightarrow> string list" where
  "places s = map (tid s) (priorityQueue s @ waitingQueue s @ completedQueue s)
     @ map fst (runningTasksMap s)"

definition states_ok :: "sched \<Rightarrow> bool" where
  "states_ok s \<longleftrightarrow>
     (\<forall>r \<in> set (priorityQueue s). stat s r = TaskReady) \<and>
     (\<forall>r \<in> set (waitingQueue s). stat s r = TaskWaiting) \<and>
     (\<forall>r \<in> set (completedQueue s). stat s r = TaskSuccess) \<and>
     (\<forall>r \<in> set (failedQueue s). stat s r = TaskFailed \<or> stat s r = TaskCancelled) \<and>
     (\<forall>(i, info) \<in> set (runningTasksMap s). stat s (ri_task info) = TaskRunning \<and> tid s (ri_task info) = i)"

definition run_refs :: "sched \<Rightarrow> nat set" where
  "run_refs s = ri_task ` snd ` set (runningTasksMap s)"

definition sched_inv :: "sched \<Rightarrow> bool" where
  "sched_inv s \<longleftrightarrow> distinct (places s) \<and> tid s ` set (failedQueue s) \<inter> set (places s) = {} \<and>
     distinct (map (tid s) (executionQueue s)) \<and>
     set (executionQueue s) \<subseteq> run_refs s \<union> set (failedQueue s) \<and>
     states_ok s \<and> sorted (map (prio s) (priorityQueue s)) \<and>
     int (length (runningTasksMap s)) \<le> max 0 (maxConcurrency s)"

lemma mset_places:
  "mset (places s) = image_mset (tid s) (mset (priorityQueue s) + mset (waitingQueue s)
     + mset (completedQueue s)) + mset (map fst (runningTasksMap s))"
  by (simp add: places_def)

lemma set_places:
  "set (places s) = tid s ` (set (priorityQueue s) \<union> set (waitingQueue s) \<union> set (completedQueue s))
     \<union> fst ` set (runningTasksMap s)"
  by (auto simp: places_def)

lemma places_frame [simp]:
  "places (s\<lparr>failedQueue := q\<rparr>) = places s" "places (s\<lparr>executionQueue := q\<rparr>) = places s"
  "places (set_state r x s) = places s" "places (set_metrics r f s) = places s"
  "places (set_result r out e s) = places s" "places (set_priority r y s) = places s"
  by (simp_all add: places_def)

lemma distinct_places_cong: "mset (places t) = mset (places s) \<Longrightarrow> distinct (places t) = distinct (places s)"
  by (rule mset_eq_imp_distinct_iff)

lemma distinct_places_add:
  assumes "mset (places t) = add_mset i (mset (places s))" and "distinct (places s)" and "i \<notin> set (places s)"
  shows "distinct (places t)"
proof -
  have "mset (places t) = mset (i # places s)" using assms(1) by simp
  then have "distinct (places t) = distinct (i # places s)" by (rule mset_eq_imp_distinct_iff)
  then show ?thesis using assms by simp
qed

lemma distinct_places_remove:
  assumes "mset (places s) = add_mset i (mset (places t))" and "distinct (places s)"
  shows "distinct (places t) \<and> i \<notin> set (places t)"
proof -
  have "mset (places s) = mset (i # places t)" using assms(1) by simp
  then have "distinct (places s) = distinct (i # places t)" by (rule mset_eq_imp_distinct_iff)
  then show ?thesis using assms by simp
qed

lemma inv_running_wf: "sched_inv s \<Longrightarrow> js_wf (runningTasksMap s)"
  by (simp add: sched_inv_def places_def js_wf_def)

lemma inv_failed_apart: "sched_inv s \<Longrightarrow> tid s ` set (failedQueue s) \<inter> set (places s) = {}"
  by (simp add: sched_inv_def)

lemma inv_running_ref:
  assumes "sched_inv s" and "(i, info) \<in> set (runningTasksMap s)"
  shows "tid s (ri_task info) = i" and "stat s (ri_task info) = TaskRunning"
  using assms by (auto simp: sched_inv_def states_ok_def)

lemma inv_exec_refs: "sched_inv s \<Longrightarrow> set (executionQueue s) \<subseteq> run_refs s \<union> set (failedQueue s)"
  by (simp add: sched_inv_def)

lemma run_refs_id: "sched_inv s \<Longrightarrow> r \<in> run_refs s \<Longrightarrow> (tid s r, r) \<in> (\<lambda>(i, info). (i, ri_task info)) ` set (runningTasksMap s)"
  by (force simp: run_refs_def dest: inv_running_ref(1))

lemma inv_execution:
  assumes "sched_inv s"
  shows "tid s ` set (executionQueue s) \<subseteq> fst ` set (runningTasksMap s) \<union> tid s ` set (failedQueue s)"
proof
  fix i
  assume "i \<in> tid s ` set (executionQueue s)"
  then obtain r where r: "i = tid s r" "r \<in> set (executionQueue s)" by auto
  then have "r \<in> run_refs s \<or> r \<in> set (failedQueue s)" using inv_exec_refs [OF assms] by auto
  then show "i \<in> fst ` set (runningTasksMap s) \<union> tid s ` set (failedQueue s)"
    using run_refs_id [OF assms, of r] r(1) by force
qed

lemma inv_distinct_refs:
  assumes "sched_inv s"
  shows "distinct (priorityQueue s @ waitingQueue s @ completedQueue s)"
proof -
  have "distinct (map (tid s) (priorityQueue s @ waitingQueue s @ completedQueue s))"
    using assms unfolding sched_inv_def places_def distinct_append by blast
  then show ?thesis by (simp only: distinct_map)
qed

lemma new_scheduler_inv: "sched_inv (new_scheduler h n st now)"
  by (simp add: sched_inv_def new_scheduler_def places_def states_ok_def)

lemma promote_inv [inv_intros]:
  assumes "sched_inv s"
  shows "sched_inv (promoteWaitingTasks s)"
proof -
  let ?t = "promoteWaitingTasks s"
  obtain out where w: "mset (waitingQueue ?t) + mset out = mset (waitingQueue s)"
    and p: "mset (priorityQueue ?t) = mset out + mset (priorityQueue s)"
    and st: "\<And>r. stat ?t r = (if r \<in> set out then TaskReady else stat s r)"
    and fr: "tid ?t = tid s" "prio ?t = prio s" "executionQueue ?t = executionQueue s"
      "completedQueue ?t = completedQueue s" "failedQueue ?t = failedQueue s"
      "runningTasksMap ?t = runningTasksMap s" "maxConcurrency ?t = maxConcurrency s"
    and so: "sorted (map (prio s) (priorityQueue s)) \<Longrightarrow> sorted (map (prio s) (priorityQueue ?t))"
    by (rule promote_effect [of s]) blast
  have mp: "mset (places ?t) = mset (places s)"
    unfolding mset_places fr p w [symmetric] by simp
  have d: "distinct (places ?t)"
    using assms distinct_places_cong [OF mp] by (simp add: sched_inv_def)
  have e: "set (places ?t) = set (places s)"
    using arg_cong [OF mp, of set_mset] by simp
  have sw: "set (waitingQueue ?t) \<union> set out = set (waitingQueue s)"
    using arg_cong [OF w, of set_mset] by simp
  have sp: "set (priorityQueue ?t) = set out \<union> set (priorityQueue s)"
    using arg_cong [OF p, of set_mset] by simp
  have "distinct (waitingQueue s)" using inv_distinct_refs [OF assms] by simp
  then have "distinct (waitingQueue ?t @ out)"
    using w mset_eq_imp_distinct_iff [of "waitingQueue ?t @ out" "waitingQueue s"] by simp
  then have wo: "set (waitingQueue ?t) \<inter> set out = {}" by simp
  have ow: "r \<in> set out \<Longrightarrow> r \<in> set (waitingQueue s) \<and> stat s r = TaskWaiting" for r
    using sw assms by (auto simp: sched_inv_def states_ok_def)
  have run: "ri_task info \<notin> set out" if "(i, info) \<in> set (runningTasksMap s)" for i info
    using ow inv_running_ref(2) [OF assms that] by force
  have "states_ok ?t"
    unfolding states_ok_def fr
  proof (intro conjI)
    show "\<forall>r \<in> set (priorityQueue ?t). stat ?t r = TaskReady"
      using assms by (auto simp: sp st sched_inv_def states_ok_def)
    show "\<forall>r \<in> set (waitingQueue ?t). stat ?t r = TaskWaiting"
      using assms sw wo by (auto simp: st sched_inv_def states_ok_def)
    show "\<forall>r \<in> set (completedQueue s). stat ?t r = TaskSuccess"
      using assms ow by (force simp: st sched_inv_def states_ok_def)
    show "\<forall>r \<in> set (failedQueue s). stat ?t r = TaskFailed \<or> stat ?t r = TaskCancelled"
      using assms ow by (force simp: st sched_inv_def states_ok_def)
    show "\<forall>(i, info) \<in> set (runningTasksMap s). stat ?t (ri_task info) = TaskRunning \<and> tid s (ri_task info) = i"
      using assms run by (auto simp: st sched_inv_def states_ok_def)
  qed
  then show ?thesis using assms d so by (simp add: sched_inv_def fr e run_refs_def)
qed


section \<open>Preservation\<close>

lemma run_refs_frame [simp]:
  "run_refs (s\<lparr>taskDependencies := d\<rparr>) = run_refs s" "run_refs (s\<lparr>sched_errors := es\<rparr>) = run_refs s"
  "run_refs (s\<lparr>sched_warnings := es\<rparr>) = run_refs s" "run_refs (s\<lparr>isPaused := b\<rparr>) = run_refs s"
  "run_refs (s\<lparr>totalExecutionTime := t\<rparr>) = run_refs s" "run_refs (s\<lparr>completedCount := n\<rparr>) = run_refs s"
  "run_refs (s\<lparr>priorityQueue := q\<rparr>) = run_refs s" "run_refs (s\<lparr>executionQueue := q\<rparr>) = run_refs s"
  "run_refs (s\<lparr>waitingQueue := q\<rparr>) = run_refs s" "run_refs (s\<lparr>completedQueue := q\<rparr>) = run_refs s"
  "run_refs (s\<lparr>failedQueue := q\<rparr>) = run_refs s" "run_refs (addToPriorityQueue r s) = run_refs s"
  "run_refs (set_state r x s) = run_refs s" "run_refs (set_metrics r f s) = run_refs s"
  "run_refs (set_result r out e s) = run_refs s" "run_refs (set_priority r y s) = run_refs s"
  by (simp_all add: run_refs_def)

lemma sched_inv_frame [simp]:
  "sched_inv (s\<lparr>taskDependencies := d\<rparr>) = sched_inv s"
  "sched_inv (s\<lparr>sched_errors := es\<rparr>) = sched_inv s"
  "sched_inv (s\<lparr>sched_warnings := es\<rparr>) = sched_inv s"
  "sched_inv (s\<lparr>isPaused := b\<rparr>) = sched_inv s"
  "sched_inv (s\<lparr>totalExecutionTime := t\<rparr>) = sched_inv s"
  "sched_inv (s\<lparr>completedCount := n\<rparr>) = sched_inv s"
  by (simp_all add: sched_inv_def places_def states_ok_def)

text \<open>A task is new when no queue and no running entry has its id.\<close>

definition new_task :: "sched \<Rightarrow> nat \<Rightarrow> bool" where
  "new_task s r \<longleftrightarrow> tid s r \<notin> set (places s) \<and> tid s r \<notin> tid s ` set (failedQueue s)
     \<and> tid s r \<notin> tid s ` set (executionQueue s)"

lemma findTaskInQueues_new: "findTaskInQueues (tid s r) s = None \<longleftrightarrow> new_task s r"
  by (auto simp: findTaskInQueues_None new_task_def set_places js_has_keys)

lemma new_task_refs:
  assumes "new_task s r" and "sched_inv s"
  shows "r \<notin> set (priorityQueue s)" "r \<notin> set (waitingQueue s)" "r \<notin> set (completedQueue s)"
    "r \<notin> set (failedQueue s)" "(i, info) \<in> set (runningTasksMap s) \<Longrightarrow> ri_task info \<noteq> r"
  using assms inv_running_ref(1) [OF assms(2)] by (force simp: new_task_def set_places)+

lemma states_set_new:
  assumes "new_task s r" and "sched_inv s"
  shows "states_ok (set_state r x s)"
  using assms(2) new_task_refs [OF assms] unfolding sched_inv_def states_ok_def by auto

lemma add_ready_inv:
  assumes "sched_inv s" and "new_task s r"
  shows "sched_inv (addToPriorityQueue r s)"
proof -
  let ?t = "addToPriorityQueue r s"
  have mp: "mset (places ?t) = add_mset (tid s r) (mset (places s))"
    by (simp add: mset_places)
  then have e: "set (places ?t) = insert (tid s r) (set (places s))"
    by (metis set_mset_add_mset_insert set_mset_mset)
  have d: "distinct (places ?t)"
    using distinct_places_add [OF mp] assms by (simp add: sched_inv_def new_task_def)
  have "states_ok ?t"
    using assms(1) new_task_refs [OF assms(2,1)] unfolding sched_inv_def states_ok_def by auto
  then show ?thesis
    using assms d addToPriorityQueue_sorted [of s r] by (auto simp: sched_inv_def e new_task_def)
qed

lemma add_waiting_inv:
  assumes "sched_inv s" and "new_task s r"
  shows "sched_inv ((set_state r TaskWaiting s)\<lparr>waitingQueue := waitingQueue s @ [r]\<rparr>)"
proof -
  let ?t = "(set_state r TaskWaiting s)\<lparr>waitingQueue := waitingQueue s @ [r]\<rparr>"
  have mp: "mset (places ?t) = add_mset (tid s r) (mset (places s))"
    by (simp add: mset_places)
  then have e: "set (places ?t) = insert (tid s r) (set (places s))"
    by (metis set_mset_add_mset_insert set_mset_mset)
  have d: "distinct (places ?t)"
    using distinct_places_add [OF mp] assms by (simp add: sched_inv_def new_task_def)
  have "states_ok ?t"
    using assms(1) new_task_refs [OF assms(2,1)] unfolding sched_inv_def states_ok_def by auto
  then show ?thesis
    using assms d by (auto simp: sched_inv_def e new_task_def)
qed

lemma schedule_inv [inv_intros]:
  assumes "sched_inv s"
  shows "sched_inv (fst (schedule r s))"
proof (cases "taskId (heap s r) = [] \<or> findTaskInQueues (taskId (heap s r)) s \<noteq> None")
  case True
  then show ?thesis using assms by (auto simp: schedule_def Let_def schedule_fail_def push_error_def)
next
  case False
  let ?s = "updateDependencyTracking r s"
  have s: "sched_inv ?s" using assms by (simp add: updateDependencyTracking_def Let_def)
  have "new_task s r" using False findTaskInQueues_new [of s r] by (simp add: tid_def)
  then have n: "new_task ?s r"
    by (simp add: new_task_def places_def updateDependencyTracking_def Let_def)
  show ?thesis
    using False add_ready_inv [OF s n] add_waiting_inv [OF s n]
    by (auto simp: schedule_def Let_def)
qed

lemma start_task_inv:
  assumes s: "sched_inv s" and k: "k < length (priorityQueue s)" and r: "r = priorityQueue s ! k"
    and room: "int (length (runningTasksMap s)) < maxConcurrency s"
  shows "sched_inv (start_task now r (s\<lparr>priorityQueue := splice_out k (priorityQueue s)\<rparr>))"
proof -
  let ?q = "splice_out k (priorityQueue s)"
  let ?t = "start_task now r (s\<lparr>priorityQueue := ?q\<rparr>)"
  have rin: "r \<in> set (priorityQueue s)" using k r by simp
  then have rp: "tid s r \<in> set (places s)" by (simp add: set_places)
  have new: "\<not> js_has (runningTasksMap s) (tid s r)"
    using s rin unfolding js_has_keys by (auto simp: sched_inv_def places_def)
  obtain info where info: "ri_task info = r"
    and run: "runningTasksMap ?t = runningTasksMap s @ [(tid s r, info)]"
    using js_set_new [OF new] by (rule_tac that)
      (auto simp: start_task_def Let_def tid_def set_metrics_def set_state_def)
  have fr: "tid ?t = tid s" "prio ?t = prio s" "stat ?t = (stat s)(r := TaskRunning)"
    "priorityQueue ?t = ?q" "executionQueue ?t = executionQueue s @ [r]"
    "waitingQueue ?t = waitingQueue s" "completedQueue ?t = completedQueue s"
    "failedQueue ?t = failedQueue s" "maxConcurrency ?t = maxConcurrency s"
    by (simp_all add: start_task_def Let_def)
  have mq: "mset (priorityQueue s) = add_mset r (mset ?q)"
    using mset_splice_out [OF k] r by simp
  have mp: "mset (places ?t) = mset (places s)"
    unfolding mset_places fr run mq by simp
  have d: "distinct (places ?t)"
    using s distinct_places_cong [OF mp] by (simp add: sched_inv_def)
  have e: "set (places ?t) = set (places s)"
    using arg_cong [OF mp, of set_mset] by simp
  have rq: "r \<notin> set ?q"
    using inv_distinct_refs [OF s] splice_out_removed [of "priorityQueue s" k] k r by simp
  have others: "r \<notin> set (waitingQueue s)" "r \<notin> set (completedQueue s)" "r \<notin> set (failedQueue s)"
    using inv_distinct_refs [OF s] rin rp s by (auto simp: sched_inv_def)
  have run_other: "ri_task inf \<noteq> r" if "(i, inf) \<in> set (runningTasksMap s)" for i inf
    using inv_running_ref(1) [OF s that] new that by (force simp: js_has_keys)
  have st: "states_ok ?t"
    using s rq others run_other set_splice_out_subset [of k "priorityQueue s"] info
    unfolding sched_inv_def states_ok_def fr run by auto
  have eq: "tid s r \<notin> tid s ` set (executionQueue s)"
    using inv_execution [OF s] inv_failed_apart [OF s] rp new unfolding js_has_keys by blast
  have "sorted (map (prio s) ?q)"
    using s by (simp add: sched_inv_def map_splice_out sorted_splice_out)
  then show ?thesis using s d st eq room info unfolding sched_inv_def fr e by (auto simp: run run_refs_def)
qed

lemma dequeue_inv [inv_intros]:
  assumes "sched_inv s"
  shows "sched_inv (fst (dequeue now s))"
proof (cases "isPaused s \<or> int (length (runningTasksMap s)) \<ge> maxConcurrency s")
  case True
  then show ?thesis using assms by (simp add: dequeue_def)
next
  case False
  let ?p = "promoteWaitingTasks s"
  have p: "sched_inv ?p" using assms by (rule promote_inv)
  have room: "int (length (runningTasksMap ?p)) < maxConcurrency ?p"
    using False by (rule_tac promote_effect [of s]) simp
  obtain t out where t: "next_by_strategy ?p = (t, out)" by fastforce
  show ?thesis
  proof (cases out)
    case None
    then have "t = ?p" using t next_by_strategy_None by simp
    then show ?thesis using False None t p by (simp add: dequeue_def)
  next
    case (Some r)
    then have e: "next_by_strategy ?p = (t, Some r)" using t by simp
    obtain k where "k < length (priorityQueue ?p)" "r = priorityQueue ?p ! k"
      "t = ?p\<lparr>priorityQueue := splice_out k (priorityQueue ?p)\<rparr>"
      by (rule next_by_strategy_Some [OF e])
    then show ?thesis using start_task_inv [OF p _ _ room] False t Some by (simp add: dequeue_def)
  qed
qed

text \<open>Taking the tasks of one queue's cell out: what the five-queue removal does.\<close>

lemma removeTaskFromQueues_cases:
  assumes "removeTaskFromQueues i s = (t, Some r)"
  obtains
    (priority) k where "k < length (priorityQueue s)" "r = priorityQueue s ! k" "tid s r = i"
      "t = s\<lparr>priorityQueue := splice_out k (priorityQueue s)\<rparr>"
  | (execution) k where "k < length (executionQueue s)" "r = executionQueue s ! k" "tid s r = i"
      "i \<notin> tid s ` set (priorityQueue s)" "t = s\<lparr>executionQueue := splice_out k (executionQueue s)\<rparr>"
  | (waiting) k where "k < length (waitingQueue s)" "r = waitingQueue s ! k" "tid s r = i"
      "t = s\<lparr>waitingQueue := splice_out k (waitingQueue s)\<rparr>"
  | (completed) k where "k < length (completedQueue s)" "r = completedQueue s ! k" "tid s r = i"
      "t = s\<lparr>completedQueue := splice_out k (completedQueue s)\<rparr>"
  | (failed) k where "k < length (failedQueue s)" "r = failedQueue s ! k" "tid s r = i"
      "i \<notin> tid s ` set (executionQueue s)" "t = s\<lparr>failedQueue := splice_out k (failedQueue s)\<rparr>"
proof (cases "find_index (has_id s i) (priorityQueue s)")
  case (Some k)
  then show ?thesis using assms find_index_Some [OF Some]
    by (intro priority [of k]) (simp_all add: removeTaskFromQueues_def has_id_tid)
next
  case p: None
  show ?thesis
  proof (cases "find_index (has_id s i) (executionQueue s)")
    case (Some k)
    have "i \<notin> tid s ` set (priorityQueue s)"
      using p by (auto simp: find_index_None has_id_tid)
    then show ?thesis using Some p assms find_index_Some [OF Some]
      by (intro execution [of k]) (simp_all add: removeTaskFromQueues_def has_id_tid)
  next
    case e: None
    show ?thesis
    proof (cases "find_index (has_id s i) (waitingQueue s)")
      case (Some k)
      then show ?thesis using p e assms find_index_Some [OF Some]
        by (intro waiting [of k]) (simp_all add: removeTaskFromQueues_def has_id_tid)
    next
      case w: None
      show ?thesis
      proof (cases "find_index (has_id s i) (completedQueue s)")
        case (Some k)
        then show ?thesis using p e w assms find_index_Some [OF Some]
          by (intro completed [of k]) (simp_all add: removeTaskFromQueues_def has_id_tid)
      next
        case c: None
        then obtain k where k: "find_index (has_id s i) (failedQueue s) = Some k"
          using p e w assms
          by (cases "find_index (has_id s i) (failedQueue s)") (simp_all add: removeTaskFromQueues_def)
        have "i \<notin> tid s ` set (executionQueue s)"
          using e by (auto simp: find_index_None has_id_tid)
        then show ?thesis using p e w c k assms find_index_Some [OF k]
          by (intro failed [of k]) (simp_all add: removeTaskFromQueues_def has_id_tid)
      qed
    qed
  qed
qed

lemma removeTaskFromQueues_None:
  "removeTaskFromQueues i s = (t, None) \<Longrightarrow> t = s \<and>
     i \<notin> tid s ` (set (priorityQueue s) \<union> set (executionQueue s) \<union> set (waitingQueue s)
        \<union> set (completedQueue s) \<union> set (failedQueue s))"
  unfolding removeTaskFromQueues_def
  by (auto split: option.splits simp: find_index_None has_id_tid)

lemma execution_removed:
  assumes "distinct (map (tid s) (executionQueue s))" and "k < length (executionQueue s)"
  shows "tid s ` set (splice_out k (executionQueue s))
    = tid s ` set (executionQueue s) - {tid s (executionQueue s ! k)}"
proof -
  let ?q = "map (tid s) (executionQueue s)"
  have "set (splice_out k ?q) = set ?q - {?q ! k}"
    using assms set_splice_out [of k ?q] splice_out_removed [of ?q k] by auto
  then show ?thesis using assms(2) by (simp flip: map_splice_out)
qed

text \<open>
  Taking one cell out of a queue keeps the invariant. Afterwards the id is in none of the
  five places unless the task is running.
\<close>

lemma drop_place:
  assumes s: "sched_inv s" and t: "t = s\<lparr>priorityQueue := p, waitingQueue := w, completedQueue := c\<rparr>"
    and m: "mset (priorityQueue s) + mset (waitingQueue s) + mset (completedQueue s)
      = add_mset r (mset p + mset w + mset c)"
    and sub: "set p \<subseteq> set (priorityQueue s)" "set w \<subseteq> set (waitingQueue s)" "set c \<subseteq> set (completedQueue s)"
    and so: "sorted (map (prio s) p)"
  shows "sched_inv t \<and> tid s r \<notin> set (places t)"
proof -
  have "mset (places s) = add_mset (tid s r) (mset (places t))"
    unfolding mset_places t using arg_cong [OF m, of "image_mset (tid s)"] by simp
  from distinct_places_remove [OF this] have d: "distinct (places t)" "tid s r \<notin> set (places t)"
    using s by (auto simp: sched_inv_def)
  have sp: "set (places t) \<subseteq> set (places s)"
    unfolding set_places t using sub by auto
  have "states_ok t"
    using s sub unfolding sched_inv_def states_ok_def t by auto
  then have "sched_inv t"
    using s d sp so unfolding sched_inv_def t by auto
  then show ?thesis using d by simp
qed

lemma drop_execution_inv:
  assumes "sched_inv s" and "k < length (executionQueue s)"
  shows "sched_inv (s\<lparr>executionQueue := splice_out k (executionQueue s)\<rparr>)"
proof -
  have "set (splice_out k (executionQueue s)) \<subseteq> run_refs s \<union> set (failedQueue s)"
    using inv_exec_refs [OF assms(1)] set_splice_out_subset [of k "executionQueue s"] by blast
  then show ?thesis using assms unfolding sched_inv_def
    by (simp add: places_def states_ok_def map_splice_out distinct_splice_out)
qed

lemma drop_failed_inv:
  assumes "sched_inv s" and k: "k < length (failedQueue s)"
    and e: "tid s (failedQueue s ! k) \<notin> tid s ` set (executionQueue s)"
  shows "sched_inv (s\<lparr>failedQueue := splice_out k (failedQueue s)\<rparr>)"
proof -
  have f: "insert (failedQueue s ! k) (set (splice_out k (failedQueue s))) = set (failedQueue s)"
    by (rule set_splice_out [OF k])
  have ne: "failedQueue s ! k \<notin> set (executionQueue s)" using e by auto
  have "set (executionQueue s) \<subseteq> insert (failedQueue s ! k)
      (run_refs s \<union> set (splice_out k (failedQueue s)))"
    using inv_exec_refs [OF assms(1)] unfolding f [symmetric] by simp
  then have ex: "set (executionQueue s) \<subseteq> run_refs s \<union> set (splice_out k (failedQueue s))"
    unfolding subset_insert [OF ne] .
  have sub: "set (splice_out k (failedQueue s)) \<subseteq> set (failedQueue s)"
    by (rule set_splice_out_subset)
  have ap: "tid s ` set (splice_out k (failedQueue s)) \<inter> set (places s) = {}"
    using inv_failed_apart [OF assms(1)] sub by blast
  have st: "states_ok (s\<lparr>failedQueue := splice_out k (failedQueue s)\<rparr>)"
    using assms(1) sub unfolding sched_inv_def states_ok_def by auto
  show ?thesis
    unfolding sched_inv_def views_frame places_frame run_refs_frame
  proof (intro conjI)
    show "states_ok (s\<lparr>failedQueue := splice_out k (failedQueue s)\<rparr>)" by (rule st)
  qed (use assms(1) ex ap in \<open>simp_all add: sched_inv_def\<close>)
qed

lemma remove_inv:
  assumes s: "sched_inv s" and rm: "removeTaskFromQueues i s = (t, Some r)"
  shows "sched_inv t \<and> tid t = tid s \<and> prio t = prio s \<and> tid s r = i
    \<and> runningTasksMap t = runningTasksMap s \<and> i \<notin> tid s ` set (priorityQueue t)
    \<and> (js_has (runningTasksMap s) i \<or> i \<notin> set (places t))"
  using rm
proof (cases rule: removeTaskFromQueues_cases)
  case (priority k)
  have m: "add_mset r (mset (splice_out k (priorityQueue s))) = mset (priorityQueue s)"
    using mset_splice_out [of k "priorityQueue s"] priority by simp
  have "sched_inv t \<and> tid s r \<notin> set (places t)"
    by (rule drop_place [OF s, where p = "splice_out k (priorityQueue s)" and w = "waitingQueue s"
        and c = "completedQueue s"])
      (use priority s set_splice_out_subset [of k "priorityQueue s"] in
        \<open>auto simp: sched_inv_def map_splice_out sorted_splice_out simp flip: m\<close>)
  then show ?thesis using priority by (simp add: set_places image_Un)
next
  case (execution k)
  have "i \<in> tid s ` set (executionQueue s)" using execution by auto
  then have "js_has (runningTasksMap s) i \<or> i \<notin> set (places s)"
    using inv_execution [OF s] inv_failed_apart [OF s] unfolding js_has_keys by blast
  then show ?thesis
    using execution drop_execution_inv [OF s] by (simp add: places_def)
next
  case (waiting k)
  have m: "add_mset r (mset (splice_out k (waitingQueue s))) = mset (waitingQueue s)"
    using mset_splice_out [of k "waitingQueue s"] waiting by simp
  have "sched_inv t \<and> tid s r \<notin> set (places t)"
    by (rule drop_place [OF s, where p = "priorityQueue s" and w = "splice_out k (waitingQueue s)"
        and c = "completedQueue s"])
      (use waiting s set_splice_out_subset [of k "waitingQueue s"] in
        \<open>auto simp: sched_inv_def simp flip: m\<close>)
  then show ?thesis using waiting by (simp add: set_places image_Un)
next
  case (completed k)
  have m: "add_mset r (mset (splice_out k (completedQueue s))) = mset (completedQueue s)"
    using mset_splice_out [of k "completedQueue s"] completed by simp
  have "sched_inv t \<and> tid s r \<notin> set (places t)"
    by (rule drop_place [OF s, where p = "priorityQueue s" and w = "waitingQueue s"
        and c = "splice_out k (completedQueue s)"])
      (use completed s set_splice_out_subset [of k "completedQueue s"] in
        \<open>auto simp: sched_inv_def simp flip: m\<close>)
  then show ?thesis using completed by (simp add: set_places image_Un)
next
  case (failed k)
  have "i \<in> tid s ` set (failedQueue s)" using failed by auto
  then have "i \<notin> set (places s)"
    using inv_failed_apart [OF s] by blast
  then show ?thesis
    using failed drop_failed_inv [OF s, of k] by (simp add: places_def)
qed


text \<open>Pushing a task that is in none of the five places on the failed queue.\<close>

lemma push_failed_inv:
  assumes "sched_inv s" and "tid s r \<notin> set (places s)" and x: "x = TaskFailed \<or> x = TaskCancelled"
  shows "sched_inv ((set_state r x s)\<lparr>failedQueue := failedQueue s @ [r]\<rparr>)"
proof -
  let ?t = "(set_state r x s)\<lparr>failedQueue := failedQueue s @ [r]\<rparr>"
  have r: "r \<notin> set (priorityQueue s)" "r \<notin> set (waitingQueue s)" "r \<notin> set (completedQueue s)"
    using assms(2) by (auto simp: set_places)
  have run: "ri_task info \<noteq> r" if "(i, info) \<in> set (runningTasksMap s)" for i info
    using inv_running_ref(1) [OF assms(1) that] assms(2) that by (force simp: set_places)
  have p: "places ?t = places s" by (simp add: places_def)
  have st: "states_ok ?t"
    using assms(1) r run x unfolding sched_inv_def states_ok_def by auto
  have ex: "set (executionQueue s) \<subseteq> run_refs s \<union> set (failedQueue s @ [r])"
    using inv_exec_refs [OF assms(1)] by auto
  show ?thesis
    using assms(1,2) st ex by (simp add: sched_inv_def p)
qed

lemma mark_cancelled_alt:
  "mark_cancelled now r s = set_metrics r (\<lambda>m. m\<lparr>completedAt := Some now\<rparr>) (set_state r TaskCancelled s)"
  by (rule mark_cancelled_def)

lemma sched_inv_set_metrics [simp]: "sched_inv (set_metrics r f s) = sched_inv s"
  by (simp add: sched_inv_def places_def states_ok_def)

lemma sched_inv_set_result [simp]: "sched_inv (set_result r out e s) = sched_inv s"
  by (simp add: sched_inv_def places_def states_ok_def)

lemma set_metrics_failed:
  "(set_metrics r f s)\<lparr>failedQueue := q\<rparr> = set_metrics r f (s\<lparr>failedQueue := q\<rparr>)"
  by (simp add: set_metrics_def)

text \<open>A running entry leaves the running map; its task is then in no place.\<close>

lemma delete_running:
  assumes s: "sched_inv s" and g: "js_get (runningTasksMap s) i = Some info"
  shows "mset (places s) = add_mset i (mset (places (s\<lparr>runningTasksMap := js_delete i (runningTasksMap s)\<rparr>)))"
    and "tid s (ri_task info) = i"
    and "fst ` set (runningTasksMap s) = insert i (fst ` set (js_delete i (runningTasksMap s)))"
proof -
  let ?m = "runningTasksMap s"
  have m: "mset (map fst ?m) = add_mset i (mset (map fst (js_delete i ?m)))"
    using mset_keys_delete [OF inv_running_wf [OF s], of i] g by (auto simp: js_has_iff)
  show "mset (places s) = add_mset i (mset (places (s\<lparr>runningTasksMap := js_delete i ?m\<rparr>)))"
    unfolding mset_places m by simp
  show "tid s (ri_task info) = i"
    using inv_running_ref(1) [OF s js_get_in_set [OF g]] .
  show "fst ` set ?m = insert i (fst ` set (js_delete i ?m))"
    using arg_cong [OF m, of set_mset] by simp
qed

lemma delete_running_refs:
  assumes "sched_inv s" and "js_get (runningTasksMap s) i = Some info"
  shows "run_refs s = insert (ri_task info) (ri_task ` snd ` set (js_delete i (runningTasksMap s)))"
proof -
  have "set (runningTasksMap s) = insert (i, info) (set (js_delete i (runningTasksMap s)))"
    using js_get_in_set [OF assms(2)] js_get_wf [OF inv_running_wf [OF assms(1)], of i] assms(2)
    by (auto simp: set_js_delete)
  then show ?thesis by (simp add: run_refs_def)
qed

text \<open>
  The state after a running task's entry is deleted, its object put in state \<open>x\<close>, the
  execution queue cut down to \<open>e\<close> and the task pushed on the failed queue.
\<close>

lemma run_to_failed_inv:
  assumes s: "sched_inv s" and g: "js_get (runningTasksMap s) i = Some info"
    and e: "set e \<subseteq> set (executionQueue s)" "distinct (map (tid s) e)"
    and x: "x = TaskFailed \<or> x = TaskCancelled"
  shows "sched_inv ((set_state (ri_task info) x s)\<lparr>runningTasksMap := js_delete i (runningTasksMap s),
    executionQueue := e, failedQueue := failedQueue s @ [ri_task info]\<rparr>)"
proof -
  let ?r = "ri_task info" and ?m = "js_delete i (runningTasksMap s)"
  let ?t = "(set_state ?r x s)\<lparr>runningTasksMap := ?m, executionQueue := e, failedQueue := failedQueue s @ [?r]\<rparr>"
  have p: "places ?t = places (s\<lparr>runningTasksMap := ?m\<rparr>)" by (simp add: places_def)
  note dr = delete_running [OF s g]
  have d: "distinct (places ?t)" "i \<notin> set (places ?t)"
    using distinct_places_remove [OF dr(1)] s unfolding p by (auto simp: sched_inv_def)
  have sub: "set (places ?t) \<subseteq> set (places s)"
    using arg_cong [OF dr(1), of set_mset] unfolding p by auto
  have ap: "tid s ` set (failedQueue s @ [?r]) \<inter> set (places ?t) = {}"
    using inv_failed_apart [OF s] sub d(2) dr(2) by auto
  have "set e \<subseteq> run_refs s \<union> set (failedQueue s)" using e(1) inv_exec_refs [OF s] by blast
  then have ex: "set e \<subseteq> run_refs ?t \<union> set (failedQueue s @ [?r])"
    using delete_running_refs [OF s g] by (auto simp: run_refs_def)
  have r: "?r \<notin> set (priorityQueue s)" "?r \<notin> set (waitingQueue s)" "?r \<notin> set (completedQueue s)"
    using d(2) dr(2) unfolding p set_places by auto
  have run: "ri_task inf \<noteq> ?r" if "(j, inf) \<in> set ?m" for j inf
    using inv_running_ref(1) [OF s, of j inf] dr(2) that by (auto simp: set_js_delete)
  have st: "states_ok ?t"
    using s r run x unfolding sched_inv_def states_ok_def by (auto simp: set_js_delete)
  have len: "int (length ?m) \<le> max 0 (maxConcurrency s)"
    using length_js_delete_le [of i "runningTasksMap s"] s by (auto simp: sched_inv_def)
  show ?thesis
    using s d(1) ap ex st len e(2) by (simp add: sched_inv_def)
qed

lemma run_to_completed_inv:
  assumes s: "sched_inv s" and g: "js_get (runningTasksMap s) i = Some info"
    and e: "set e \<subseteq> set (executionQueue s)" "distinct (map (tid s) e)" "i \<notin> tid s ` set e"
  shows "sched_inv ((set_state (ri_task info) TaskSuccess s)\<lparr>runningTasksMap := js_delete i (runningTasksMap s),
    executionQueue := e, completedQueue := completedQueue s @ [ri_task info]\<rparr>)"
proof -
  let ?r = "ri_task info" and ?m = "js_delete i (runningTasksMap s)"
  let ?t = "(set_state ?r TaskSuccess s)\<lparr>runningTasksMap := ?m, executionQueue := e,
    completedQueue := completedQueue s @ [?r]\<rparr>"
  note dr = delete_running [OF s g]
  have "mset (places ?t) = add_mset i (mset (places (s\<lparr>runningTasksMap := ?m\<rparr>)))"
    using dr(2) by (simp add: mset_places)
  then have mp: "mset (places ?t) = mset (places s)" using dr(1) by simp
  have d: "distinct (places ?t)"
    using s distinct_places_cong [OF mp] by (simp add: sched_inv_def)
  have ps: "set (places ?t) = set (places s)"
    using arg_cong [OF mp, of set_mset] by simp
  have "set e \<subseteq> run_refs s \<union> set (failedQueue s)" using e(1) inv_exec_refs [OF s] by blast
  then have "set e \<subseteq> insert ?r (run_refs ?t \<union> set (failedQueue s))"
    using delete_running_refs [OF s g] by (auto simp: run_refs_def)
  moreover have "?r \<notin> set e" using e(3) dr(2) by auto
  ultimately have ex: "set e \<subseteq> run_refs ?t \<union> set (failedQueue s)"
    by (simp add: subset_insert)
  have i: "i \<in> set (places s)" unfolding set_places dr(3) by simp
  have ni: "i \<notin> set (places (s\<lparr>runningTasksMap := ?m\<rparr>))"
    using distinct_places_remove [OF dr(1)] s by (simp add: sched_inv_def)
  have r: "?r \<notin> set (priorityQueue s)" "?r \<notin> set (waitingQueue s)" "?r \<notin> set (completedQueue s)"
    using ni dr(2) unfolding set_places by auto
  have rf: "?r \<notin> set (failedQueue s)"
    using inv_failed_apart [OF s] i dr(2) by auto
  have run: "ri_task inf \<noteq> ?r" if "(j, inf) \<in> set ?m" for j inf
    using inv_running_ref(1) [OF s, of j inf] dr(2) that by (auto simp: set_js_delete)
  have st: "states_ok ?t"
    using s r rf run unfolding sched_inv_def states_ok_def by (auto simp: set_js_delete)
  have len: "int (length ?m) \<le> max 0 (maxConcurrency s)"
    using length_js_delete_le [of i "runningTasksMap s"] s by (auto simp: sched_inv_def)
  show ?thesis
    using s d ex st len e(2) inv_failed_apart [OF s] by (simp add: sched_inv_def ps)
qed

lemma cancel_inv [inv_intros]:
  assumes s: "sched_inv s"
  shows "sched_inv (fst (cancel now i s))"
proof (cases "js_get (runningTasksMap s) i")
  case (Some info)
  have "fst (cancel now i s) = set_metrics (ri_task info) (\<lambda>m. m\<lparr>completedAt := Some now\<rparr>)
    ((set_state (ri_task info) TaskCancelled s)\<lparr>runningTasksMap := js_delete i (runningTasksMap s),
      executionQueue := executionQueue s, failedQueue := failedQueue s @ [ri_task info]\<rparr>)"
    by (simp add: cancel_def Some Let_def mark_cancelled_def set_metrics_def set_state_def)
  moreover have "distinct (map (tid s) (executionQueue s))" using s by (simp add: sched_inv_def)
  ultimately show ?thesis
    using run_to_failed_inv [OF s Some, of "executionQueue s" TaskCancelled] by simp
next
  case None
  obtain t out where rm: "removeTaskFromQueues i s = (t, out)" by fastforce
  show ?thesis
  proof (cases out)
    case None
    then show ?thesis using \<open>js_get (runningTasksMap s) i = None\<close> rm removeTaskFromQueues_None [of i s t] s
      by (simp add: cancel_def)
  next
    case (Some r)
    then have t: "sched_inv t" "tid t r = i" "i \<notin> set (places t)"
      using remove_inv [OF s, of i t r] rm None by (auto simp: js_has_iff)
    have "fst (cancel now i s) = set_metrics r (\<lambda>m. m\<lparr>completedAt := Some now\<rparr>)
      ((set_state r TaskCancelled t)\<lparr>failedQueue := failedQueue t @ [r]\<rparr>)"
      by (simp add: cancel_def None Some rm Let_def mark_cancelled_def set_metrics_failed)
    then show ?thesis using push_failed_inv [OF t(1), of r TaskCancelled] t by simp
  qed
qed

text \<open>
  The two outcomes of \<open>completeTask\<close> on a running task, in terms of the execution queue \<open>e\<close>
  without the task's id.
\<close>

definition completed_state ::
  "time_ms \<Rightarrow> string \<Rightarrow> running_info \<Rightarrow> jsval \<Rightarrow> string option \<Rightarrow> nat list \<Rightarrow> task_state \<Rightarrow> sched \<Rightarrow> sched" where
  "completed_state now i info out err e x s =
     (set_metrics (ri_task info) (\<lambda>m. m\<lparr>completedAt := Some now, duration := Some (now - ri_startedAt info)\<rparr>)
       (set_result (ri_task info) out err
         ((set_state (ri_task info) x s)\<lparr>runningTasksMap := js_delete i (runningTasksMap s), executionQueue := e\<rparr>)))
     \<lparr>totalExecutionTime := totalExecutionTime s + (now - ri_startedAt info)\<rparr>"

definition without_id :: "string \<Rightarrow> sched \<Rightarrow> nat list" where
  "without_id i s = (case find_index (has_id s i) (executionQueue s) of
      Some k \<Rightarrow> splice_out k (executionQueue s) | None \<Rightarrow> executionQueue s)"

lemma without_id:
  assumes "sched_inv s"
  shows "set (without_id i s) \<subseteq> set (executionQueue s)" "distinct (map (tid s) (without_id i s))"
    "i \<notin> tid s ` set (without_id i s)"
proof -
  have ed: "distinct (map (tid s) (executionQueue s))" using assms by (simp add: sched_inv_def)
  show "set (without_id i s) \<subseteq> set (executionQueue s)"
    by (auto simp: without_id_def dest: set_splice_out_subset [THEN subsetD] split: option.splits)
  show "distinct (map (tid s) (without_id i s))"
    using ed by (auto simp: without_id_def map_splice_out distinct_splice_out split: option.splits)
  show "i \<notin> tid s ` set (without_id i s)"
  proof (cases "find_index (has_id s i) (executionQueue s)")
    case None
    then have "without_id i s = executionQueue s" by (simp add: without_id_def)
    then show ?thesis using None by (auto simp: find_index_None has_id_tid)
  next
    case (Some k)
    then have "tid s (executionQueue s ! k) = i" "k < length (executionQueue s)"
      using find_index_Some [OF Some] by (simp_all add: has_id_tid)
    then show ?thesis using execution_removed [OF ed] by (simp add: without_id_def Some)
  qed
qed

lemma completeTask_success:
  assumes "js_get (runningTasksMap s) i = Some info"
  shows "completeTask now i True out err s = promoteWaitingTasks
    ((completed_state now i info out err (without_id i s) TaskSuccess s)
      \<lparr>completedCount := Suc (completedCount s), completedQueue := completedQueue s @ [ri_task info]\<rparr>)"
proof -
  have hid: "has_id t i = (\<lambda>x. tid t x = i)" for t
    by (simp add: has_id_tid fun_eq_iff)
  show ?thesis
    by (cases "find_index (\<lambda>x. tid s x = i) (executionQueue s)")
      (simp_all add: completeTask_def assms Let_def hid without_id_def,
        auto simp: completed_state_def set_state_def set_metrics_def set_result_def
          intro!: arg_cong [where f = promoteWaitingTasks] sched.equality)
qed

lemma completeTask_failure:
  assumes "js_get (runningTasksMap s) i = Some info"
  shows "completeTask now i False out err s =
    (completed_state now i info out err (without_id i s) TaskFailed s)
      \<lparr>failedQueue := failedQueue s @ [ri_task info]\<rparr>"
proof -
  have hid: "has_id t i = (\<lambda>x. tid t x = i)" for t
    by (simp add: has_id_tid fun_eq_iff)
  show ?thesis
    by (cases "find_index (\<lambda>x. tid s x = i) (executionQueue s)")
      (simp_all add: completeTask_def assms Let_def hid without_id_def,
        auto simp: completed_state_def set_state_def set_metrics_def set_result_def
          intro!: sched.equality)
qed

lemma completed_success_inv:
  assumes s: "sched_inv s" and g: "js_get (runningTasksMap s) i = Some info"
  shows "sched_inv ((completed_state now i info out err (without_id i s) TaskSuccess s)
      \<lparr>completedCount := Suc (completedCount s), completedQueue := completedQueue s @ [ri_task info]\<rparr>)"
proof -
  let ?u = "(set_state (ri_task info) TaskSuccess s)\<lparr>runningTasksMap := js_delete i (runningTasksMap s),
    executionQueue := without_id i s, completedQueue := completedQueue s @ [ri_task info]\<rparr>"
  have "(completed_state now i info out err (without_id i s) TaskSuccess s)
      \<lparr>completedCount := Suc (completedCount s), completedQueue := completedQueue s @ [ri_task info]\<rparr>
    = (set_metrics (ri_task info) (\<lambda>m. m\<lparr>completedAt := Some now, duration := Some (now - ri_startedAt info)\<rparr>)
       (set_result (ri_task info) out err ?u))
      \<lparr>totalExecutionTime := totalExecutionTime s + (now - ri_startedAt info), completedCount := Suc (completedCount s)\<rparr>"
    by (simp add: completed_state_def set_state_def set_metrics_def set_result_def)
  then show ?thesis using run_to_completed_inv [OF s g without_id [OF s]] by simp
qed

lemma completed_failure_inv:
  assumes s: "sched_inv s" and g: "js_get (runningTasksMap s) i = Some info"
  shows "sched_inv ((completed_state now i info out err (without_id i s) TaskFailed s)
      \<lparr>failedQueue := failedQueue s @ [ri_task info]\<rparr>)"
proof -
  let ?u = "(set_state (ri_task info) TaskFailed s)\<lparr>runningTasksMap := js_delete i (runningTasksMap s),
    executionQueue := without_id i s, failedQueue := failedQueue s @ [ri_task info]\<rparr>"
  have "(completed_state now i info out err (without_id i s) TaskFailed s)
      \<lparr>failedQueue := failedQueue s @ [ri_task info]\<rparr>
    = (set_metrics (ri_task info) (\<lambda>m. m\<lparr>completedAt := Some now, duration := Some (now - ri_startedAt info)\<rparr>)
       (set_result (ri_task info) out err ?u))
      \<lparr>totalExecutionTime := totalExecutionTime s + (now - ri_startedAt info)\<rparr>"
    by (simp add: completed_state_def set_state_def set_metrics_def set_result_def)
  then show ?thesis using run_to_failed_inv [OF s g without_id(1,2) [OF s], of TaskFailed] by simp
qed

lemma completeTask_inv [inv_intros]:
  assumes s: "sched_inv s"
  shows "sched_inv (completeTask now i success out err s)"
proof (cases "js_get (runningTasksMap s) i")
  case None
  then show ?thesis using s by (simp add: completeTask_def)
next
  case (Some info)
  then show ?thesis
    using completed_success_inv [OF s Some] completed_failure_inv [OF s Some]
    by (cases success) (auto simp: completeTask_success completeTask_failure intro: promote_inv)
qed

lemma findTaskInQueues_id:
  assumes "sched_inv s" and "findTaskInQueues i s = Some r"
  shows "tid s r = i"
proof (cases "find_in_queues (has_id s i)
    [priorityQueue s, executionQueue s, waitingQueue s, completedQueue s, failedQueue s]")
  case None
  then obtain info where g: "js_get (runningTasksMap s) i = Some info" and "r = ri_task info"
    using assms(2) unfolding findTaskInQueues_def None by auto
  then show ?thesis using inv_running_ref(1) [OF assms(1) js_get_in_set [OF g]] by simp
next
  case (Some x)
  then have "x = r" using assms(2) unfolding findTaskInQueues_def Some by simp
  then show ?thesis using find_in_queues_Some [OF Some] by (simp add: has_id_tid)
qed

lemma remove_set_priority:
  "removeTaskFromQueues i (set_priority r q s)
    = (set_priority r q (fst (removeTaskFromQueues i s)), snd (removeTaskFromQueues i s))"
proof -
  have h: "has_id (set_priority r q s) i = has_id s i"
    by (simp add: fun_eq_iff has_id_tid)
  show ?thesis
    unfolding removeTaskFromQueues_def h set_priority_fields
    by (auto simp: set_priority_def split: option.split)
qed

lemma set_priority_inv:
  "sched_inv s \<Longrightarrow> r \<notin> set (priorityQueue s) \<Longrightarrow> sched_inv (set_priority r q s)"
  by (simp add: sched_inv_def states_ok_def map_fun_upd)

lemma reschedule_prepared_inv:
  assumes s: "sched_inv s" and f: "findTaskInQueues i s = Some r"
  shows "sched_inv (fst (removeTaskFromQueues i s)) \<and>
    r \<notin> set (priorityQueue (fst (removeTaskFromQueues i s)))"
proof -
  have r: "tid s r = i" by (rule findTaskInQueues_id [OF s f])
  obtain t out where rm: "removeTaskFromQueues i s = (t, out)" by fastforce
  show ?thesis
  proof (cases out)
    case None
    then have "t = s" "i \<notin> tid s ` set (priorityQueue s)"
      using removeTaskFromQueues_None [of i s t] rm by auto
    then show ?thesis using s rm r by auto
  next
    case (Some r')
    have "sched_inv t" "i \<notin> tid s ` set (priorityQueue t)"
      using remove_inv [OF s, of i t r'] rm Some by auto
    then show ?thesis using rm r by auto
  qed
qed

lemma reschedule_inv [inv_intros]:
  assumes s: "sched_inv s"
  shows "sched_inv (fst (reschedule i np s))"
proof (cases "findTaskInQueues i s")
  case None
  then show ?thesis using s by (simp add: reschedule_def)
next
  case (Some r)
  let ?s1 = "case np of None \<Rightarrow> s | Some p \<Rightarrow>
    (case priority_of_string p of None \<Rightarrow> s | Some q \<Rightarrow> set_priority r q s)"
  let ?s2 = "fst (removeTaskFromQueues i ?s1)"
  have s2: "sched_inv ?s2"
    using reschedule_prepared_inv [OF s Some]
    by (auto simp: remove_set_priority intro: set_priority_inv simp del: priority_of_string.simps
        split: option.split)
  obtain s3 res where sc: "schedule r ?s2 = (s3, res)" by fastforce
  have "sched_inv s3" using schedule_inv [OF s2, of r] sc by simp
  then show ?thesis
    using sc unfolding reschedule_def Some
    by (auto simp: Let_def push_error_def split: sum.split)
qed

lemma enqueue_inv [inv_intros]: "sched_inv s \<Longrightarrow> sched_inv (fst (enqueue rs s))"
proof (induction rs arbitrary: s)
  case Nil
  then show ?case by simp
next
  case (Cons r rs)
  obtain t res where t: "schedule r s = (t, res)" by fastforce
  have "sched_inv t" using schedule_inv [OF Cons.prems, of r] t by simp
  then show ?case using Cons.IH t by (cases res) simp_all
qed

lemma scheduler_health_inv [inv_intros]: "sched_inv s \<Longrightarrow> sched_inv (fst (scheduler_health now s))"
  by (simp add: scheduler_health_def Let_def split: prod.splits)

text \<open>The caller may build a new task object: a reference no queue or entry mentions.\<close>

definition referenced :: "sched \<Rightarrow> nat set" where
  "referenced s = set (priorityQueue s) \<union> set (executionQueue s) \<union> set (waitingQueue s)
     \<union> set (completedQueue s) \<union> set (failedQueue s) \<union> ri_task ` snd ` set (runningTasksMap s)"

definition new_object :: "nat \<Rightarrow> agent_task \<Rightarrow> sched \<Rightarrow> sched" where
  "new_object r t s = s\<lparr>heap := (heap s)(r := t)\<rparr>"

lemma new_object_inv [inv_intros]:
  assumes "sched_inv s" and r: "r \<notin> referenced s"
  shows "sched_inv (new_object r t s)"
proof -
  let ?t = "new_object r t s"
  have v: "x \<noteq> r \<Longrightarrow> tid ?t x = tid s x" "x \<noteq> r \<Longrightarrow> prio ?t x = prio s x" "x \<noteq> r \<Longrightarrow> stat ?t x = stat s x" for x
    by (simp_all add: tid_def prio_def stat_def new_object_def)
  have f: "priorityQueue ?t = priorityQueue s" "executionQueue ?t = executionQueue s"
    "waitingQueue ?t = waitingQueue s" "completedQueue ?t = completedQueue s"
    "failedQueue ?t = failedQueue s" "runningTasksMap ?t = runningTasksMap s"
    "maxConcurrency ?t = maxConcurrency s"
    by (simp_all add: new_object_def)
  have m: "map (tid ?t) q = map (tid s) q" "map (prio ?t) q = map (prio s) q"
    "tid ?t ` set q = tid s ` set q" if "r \<notin> set q" for q
  proof -
    have "\<forall>x \<in> set q. x \<noteq> r" using that by auto
    then show "map (tid ?t) q = map (tid s) q" "map (prio ?t) q = map (prio s) q"
      "tid ?t ` set q = tid s ` set q"
      by (auto simp: v intro!: image_cong)
  qed
  have n: "r \<notin> set (priorityQueue s)" "r \<notin> set (executionQueue s)" "r \<notin> set (waitingQueue s)"
    "r \<notin> set (completedQueue s)" "r \<notin> set (failedQueue s)"
    "\<And>i info. (i, info) \<in> set (runningTasksMap s) \<Longrightarrow> ri_task info \<noteq> r"
    using r by (force simp: referenced_def)+
  have p: "places ?t = places s" using n by (simp add: places_def f m)
  have "states_ok ?t"
    using assms(1) n v unfolding sched_inv_def states_ok_def f
    by (auto simp: v) (metis (no_types, lifting) case_prodD v)+
  then show ?thesis using assms(1) n unfolding sched_inv_def p f run_refs_def by (simp add: m)
qed

section \<open>Reachable schedulers\<close>

inductive sched_step :: "sched \<Rightarrow> sched \<Rightarrow> bool" where
  st_object: "r \<notin> referenced s \<Longrightarrow> sched_step s (new_object r t s)"
| st_schedule: "sched_step s (fst (schedule r s))"
| st_enqueue: "sched_step s (fst (enqueue rs s))"
| st_dequeue: "sched_step s (fst (dequeue now s))"
| st_cancel: "sched_step s (fst (cancel now i s))"
| st_pause: "sched_step s (sched_pause s)"
| st_resume: "sched_step s (sched_resume s)"
| st_reschedule: "sched_step s (fst (reschedule i np s))"
| st_complete: "sched_step s (completeTask now i ok out err s)"
| st_health: "sched_step s (fst (scheduler_health now s))"

inductive sched_reachable :: "sched \<Rightarrow> bool" where
  sched_new: "sched_reachable (new_scheduler h n st now)"
| sched_more: "sched_reachable s \<Longrightarrow> sched_step s t \<Longrightarrow> sched_reachable t"

lemma sched_step_inv: "sched_step s t \<Longrightarrow> sched_inv s \<Longrightarrow> sched_inv t"
  by (induction rule: sched_step.induct)
    (auto simp: sched_pause_def sched_resume_def intro: inv_intros)

lemma sched_reachable_inv: "sched_reachable s \<Longrightarrow> sched_inv s"
proof (induction rule: sched_reachable.induct)
  case (sched_new h n st now)
  show ?case by (rule new_scheduler_inv)
next
  case (sched_more s t)
  then show ?case by (blast intro: sched_step_inv)
qed

end
