(* ===== verification/Scheduler_Props.thy ===== *)
theory Scheduler_Props
  imports Scheduler_Correct
begin

text \<open>The scheduler's properties, on reachable states, over the invariant of \<open>Scheduler_Correct\<close>.\<close>

section \<open>Dependencies\<close>

lemma find_completed:
  assumes s: "sched_inv s"
  shows "(case findTaskInQueues i s of None \<Rightarrow> False | Some t \<Rightarrow> stat s t = TaskSuccess)
    \<longleftrightarrow> i \<in> tid s ` set (completedQueue s)"
proof
  assume a: "case findTaskInQueues i s of None \<Rightarrow> False | Some t \<Rightarrow> stat s t = TaskSuccess"
  then obtain t where f: "findTaskInQueues i s = Some t" and st: "stat s t = TaskSuccess"
    by (auto split: option.splits)
  have ti: "tid s t = i" by (rule findTaskInQueues_id [OF s f])
  have run: "stat s r = TaskRunning" if "r \<in> run_refs s" for r
    using that inv_running_ref(2) [OF s] by (force simp: run_refs_def)
  have "t \<notin> run_refs s" using run st by auto
  moreover have "t \<notin> set (priorityQueue s)" "t \<notin> set (waitingQueue s)" "t \<notin> set (failedQueue s)"
    using s st by (auto simp: sched_inv_def states_ok_def)
  moreover from this have "t \<notin> set (executionQueue s)"
    using inv_exec_refs [OF s] \<open>t \<notin> run_refs s\<close> by auto
  moreover have "t \<in> set (priorityQueue s) \<union> set (executionQueue s) \<union> set (waitingQueue s)
      \<union> set (completedQueue s) \<union> set (failedQueue s) \<union> run_refs s"
  proof (cases "find_in_queues (has_id s i)
      [priorityQueue s, executionQueue s, waitingQueue s, completedQueue s, failedQueue s]")
    case None
    then obtain info where "js_get (runningTasksMap s) i = Some info" "t = ri_task info"
      using f unfolding findTaskInQueues_def None by auto
    then show ?thesis by (force simp: run_refs_def dest: js_get_in_set)
  next
    case (Some x)
    then have "x = t" using f unfolding findTaskInQueues_def Some by simp
    then show ?thesis using find_in_queues_Some [OF Some] by auto
  qed
  ultimately have "t \<in> set (completedQueue s)" by auto
  then show "i \<in> tid s ` set (completedQueue s)" using ti by auto
next
  assume i: "i \<in> tid s ` set (completedQueue s)"
  then have "findTaskInQueues i s \<noteq> None"
    unfolding findTaskInQueues_None by blast
  then obtain t where f: "findTaskInQueues i s = Some t" by auto
  have ti: "tid s t = i" by (rule findTaskInQueues_id [OF s f])
  have pl: "i \<in> set (places s)" using i by (auto simp: set_places)
  have d: "i \<notin> tid s ` set (priorityQueue s)" "i \<notin> tid s ` set (waitingQueue s)"
    "i \<notin> fst ` set (runningTasksMap s)"
    using s i by (auto simp: sched_inv_def places_def)
  have fa: "i \<notin> tid s ` set (failedQueue s)" using inv_failed_apart [OF s] pl by auto
  have ex: "i \<notin> tid s ` set (executionQueue s)" using inv_execution [OF s] d(3) fa by blast
  have "t \<in> set (completedQueue s)"
  proof (cases "find_in_queues (has_id s i)
      [priorityQueue s, executionQueue s, waitingQueue s, completedQueue s, failedQueue s]")
    case None
    then show ?thesis using i unfolding find_in_queues_None by (auto simp: has_id_tid)
  next
    case (Some x)
    then have "x = t" using f unfolding findTaskInQueues_def Some by simp
    then show ?thesis using find_in_queues_Some [OF Some] d fa ex ti by auto
  qed
  then have "stat s t = TaskSuccess" using s by (auto simp: sched_inv_def states_ok_def)
  then show "case findTaskInQueues i s of None \<Rightarrow> False | Some t \<Rightarrow> stat s t = TaskSuccess"
    by (simp add: f)
qed

lemma canExecuteNow_iff:
  assumes "sched_inv s"
  shows "canExecuteNow r s \<longleftrightarrow> set (blocking_ids (heap s r)) \<subseteq> tid s ` set (completedQueue s)"
proof -
  have "canExecuteNow r s \<longleftrightarrow> (\<forall>d \<in> set (dependencies (heap s r)). dep_type d = Blocking \<longrightarrow>
      dep_taskId d \<in> tid s ` set (completedQueue s))"
    unfolding canExecuteNow_def list_all_iff find_completed [OF assms, unfolded stat_def] ..
  then show ?thesis by (auto simp: blocking_ids_def)
qed

lemma drop_waiting_inv:
  assumes s: "sched_inv s" and i: "i < length (waitingQueue s)"
  shows "sched_inv (s\<lparr>waitingQueue := splice_out i (waitingQueue s)\<rparr>)"
proof -
  have m: "add_mset (waitingQueue s ! i) (mset (splice_out i (waitingQueue s))) = mset (waitingQueue s)"
    by (rule mset_splice_out [OF i])
  show ?thesis
    using drop_place [OF s, where p = "priorityQueue s" and w = "splice_out i (waitingQueue s)"
        and c = "completedQueue s" and r = "waitingQueue s ! i"] s
      set_splice_out_subset [of i "waitingQueue s"]
    by (simp add: sched_inv_def flip: m)
qed

lemma canExecuteNow_waiting:
  assumes s: "sched_inv s" and i: "i < length (waitingQueue s)"
  shows "canExecuteNow r (s\<lparr>waitingQueue := splice_out i (waitingQueue s)\<rparr>) = canExecuteNow r s"
  using canExecuteNow_iff [OF s] canExecuteNow_iff [OF drop_waiting_inv [OF s i]] by simp

text \<open>The scan splits the waiting queue exactly: the executable tasks leave it, in reverse order.\<close>

lemma promote_scan_exact:
  "sched_inv s \<Longrightarrow> n \<le> length (waitingQueue s) \<Longrightarrow> promote_scan n s acc =
     (s\<lparr>waitingQueue := filter (\<lambda>r. \<not> canExecuteNow r s) (take n (waitingQueue s)) @ drop n (waitingQueue s)\<rparr>,
      acc @ rev (filter (\<lambda>r. canExecuteNow r s) (take n (waitingQueue s))))"
proof (induction n s acc rule: promote_scan.induct)
  case (1 s acc)
  then show ?case by simp
next
  case (2 i s acc)
  let ?w = "waitingQueue s" and ?s = "s\<lparr>waitingQueue := splice_out i (waitingQueue s)\<rparr>"
  have i: "i < length ?w" using "2.prems" by simp
  have tk: "take (Suc i) ?w = take i ?w @ [?w ! i]" using i by (rule take_Suc_conv_app_nth)
  have dr: "drop i ?w = ?w ! i # drop (Suc i) ?w" using i by (simp add: Cons_nth_drop_Suc)
  show ?case
  proof (cases "canExecuteNow (?w ! i) s")
    case True
    have sp: "take i (splice_out i ?w) = take i ?w" "drop i (splice_out i ?w) = drop (Suc i) ?w"
      using i by (simp_all add: splice_out_def)
    have "i \<le> length (waitingQueue ?s)" using i by (simp add: length_splice_out)
    from "2.IH"(1) [OF refl True drop_waiting_inv [OF "2.prems"(1) i] this]
    show ?thesis using True by (simp add: Let_def tk sp canExecuteNow_waiting [OF "2.prems"(1) i])
  next
    case False
    from "2.IH"(2) [OF refl False "2.prems"(1)] i
    show ?thesis using False by (simp add: Let_def tk dr)
  qed
qed

lemma promote_exact:
  assumes "sched_inv s"
  shows "promoteWaitingTasks s = fold addToPriorityQueue
    (rev (filter (\<lambda>r. canExecuteNow r s) (waitingQueue s)))
    (s\<lparr>waitingQueue := filter (\<lambda>r. \<not> canExecuteNow r s) (waitingQueue s)\<rparr>)"
  by (simp add: promoteWaitingTasks_def promote_scan_exact [OF assms])

lemma set_state_deps [simp]: "dependencies (heap (set_state r x s) q) = dependencies (heap s q)"
  by (simp add: set_state_def)

lemma add_deps [simp]: "dependencies (heap (addToPriorityQueue r s) q) = dependencies (heap s q)"
  by (simp add: addToPriorityQueue_def Let_def)

lemma fold_add_deps [simp]:
  "dependencies (heap (fold addToPriorityQueue rs s) q) = dependencies (heap s q)"
  by (induction rs arbitrary: s) simp_all

lemma canExecuteNow_promote:
  assumes "sched_inv s"
  shows "canExecuteNow r (promoteWaitingTasks s) = canExecuteNow r s"
proof -
  let ?p = "promoteWaitingTasks s"
  have c: "completedQueue ?p = completedQueue s" "tid ?p = tid s"
    by (rule promote_effect [of s]; simp)+
  have "blocking_ids (heap ?p r) = blocking_ids (heap s r)"
    unfolding promote_exact [OF assms] blocking_ids_def by simp
  then show ?thesis
    unfolding canExecuteNow_iff [OF assms] canExecuteNow_iff [OF promote_inv [OF assms]] by (simp add: c)
qed

lemma promote_waiting_queue:
  assumes "sched_inv s"
  shows "waitingQueue (promoteWaitingTasks s) = filter (\<lambda>r. \<not> canExecuteNow r s) (waitingQueue s)"
  unfolding promote_exact [OF assms] by simp

section \<open>Concrete schedulers\<close>

definition mk_task :: "string \<Rightarrow> string \<Rightarrow> agent_priority \<Rightarrow> string list \<Rightarrow> time_ms \<Rightarrow> agent_task" where
  "mk_task i a p deps now = \<lparr>taskId = i, task_agentId = a, task_workspaceId = ''w'', task_requestId = ''r'',
     task_traceId = ''t'', task_name = i, task_description = [], task_type = Execution,
     task_state = TaskPending, priority = p, task_input = JNull, task_output = JUndefined,
     task_error = None, dependencies = map (\<lambda>d. \<lparr>dep_taskId = d, dep_type = Blocking, dep_condition = None\<rparr>) deps,
     timeoutMs = 1000, retryStrategy = default_retry, task_metadata = [], metrics = fresh_metrics now\<rparr>"

text \<open>Four tasks: \<open>a\<close> first, then \<open>b\<close> and \<open>c\<close> which wait for it, and a critical \<open>d\<close>.\<close>

definition demo_heap :: "nat \<Rightarrow> agent_task" where
  "demo_heap r = (if r = 0 then mk_task ''a'' ''x'' Normal [] 3
     else if r = 1 then mk_task ''b'' ''y'' Normal [''a''] 2
     else if r = 2 then mk_task ''c'' ''x'' Normal [''a''] 1
     else mk_task ''d'' ''x'' Critical [] 0)"

definition demo_new :: sched where
  "demo_new = new_scheduler demo_heap 2 ByPriority 0"

definition demo_loaded :: sched where
  "demo_loaded = fst (enqueue [0, 1, 2, 3] demo_new)"

definition demo_running :: sched where
  "demo_running = fst (dequeue 20 (fst (dequeue 10 demo_loaded)))"

lemma demo_new_reachable: "sched_reachable demo_new"
  unfolding demo_new_def by (rule sched_new)

lemma demo_loaded_reachable: "sched_reachable demo_loaded"
  unfolding demo_loaded_def by (rule sched_more [OF demo_new_reachable st_enqueue])

lemma demo_running_reachable: "sched_reachable demo_running"
  unfolding demo_running_def
  by (rule sched_more [OF sched_more [OF demo_loaded_reachable st_dequeue] st_dequeue])

lemma demo_loaded_queues:
  "priorityQueue demo_loaded = [3, 0] \<and> waitingQueue demo_loaded = [1, 2]"
  by code_simp

lemma demo_running_queues:
  "priorityQueue demo_running = [] \<and> waitingQueue demo_running = [1, 2] \<and>
   executionQueue demo_running = [3, 0] \<and> map fst (runningTasksMap demo_running) = [''d'', ''a'']"
  by code_simp


section \<open>Where tasks are\<close>

text \<open>C1: in every reachable scheduler the ready, waiting and completed queues and the running
  map hold pairwise different task ids, none of them failed or cancelled, so a task is in one
  of these places only; and each queue holds tasks in the matching state.\<close>

theorem task_in_one_place:
  assumes "sched_reachable s"
  shows "distinct (map (tid s) (priorityQueue s @ waitingQueue s @ completedQueue s)
      @ js_keys (runningTasksMap s))
    \<and> tid s ` set (failedQueue s) \<inter> set (map (tid s) (priorityQueue s @ waitingQueue s @ completedQueue s)
      @ js_keys (runningTasksMap s)) = {}
    \<and> states_ok s"
  using sched_reachable_inv [OF assms] unfolding sched_inv_def places_def js_keys_def by simp

theorem task_in_one_place_witness:
  "sched_reachable demo_running \<and> states_ok demo_running \<and>
   distinct (map (tid demo_running) (priorityQueue demo_running @ waitingQueue demo_running
     @ completedQueue demo_running) @ js_keys (runningTasksMap demo_running))"
  using demo_running_reachable task_in_one_place [OF demo_running_reachable] by blast

text \<open>a scheduler never runs more tasks than its concurrency limit, whatever sequence of
  operations it has seen.\<close>

theorem concurrency_bounded:
  assumes "sched_reachable s"
  shows "int (length (runningTasks s)) \<le> max 0 (maxConcurrency s)"
  using sched_reachable_inv [OF assms] by (simp add: sched_inv_def runningTasks_def js_values_def)

theorem concurrency_bounded_witness:
  "sched_reachable demo_running \<and> int (length (runningTasks demo_running)) \<le> max 0 (maxConcurrency demo_running)"
  using demo_running_reachable concurrency_bounded [OF demo_running_reachable] by blast

section \<open>Dequeue\<close>

lemma dequeue_Some:
  assumes "dequeue now s = (t, Some r)"
  obtains u where "\<not> isPaused s" "int (length (runningTasksMap s)) < maxConcurrency s"
    "next_by_strategy (promoteWaitingTasks s) = (u, Some r)" "t = start_task now r u"
  using assms by (auto simp: dequeue_def split: if_splits prod.splits option.splits)

lemma start_task_running:
  "stat (start_task now r s) r = TaskRunning \<and>
   js_get (runningTasksMap (start_task now r s)) (tid s r)
     = Some \<lparr>ri_task = r, ri_startedAt = now, ri_timeoutAt = now + timeoutMs (heap s r),
         ri_attempts = Suc (attempts (metrics (heap s r)))\<rparr>"
  by (simp add: start_task_def Let_def tid_def stat_def set_metrics_def set_state_def)

lemma running_promote:
  "runningTasksMap (promoteWaitingTasks s) = runningTasksMap s"
  "strategy (promoteWaitingTasks s) = strategy s" "tid (promoteWaitingTasks s) = tid s"
  "prio (promoteWaitingTasks s) = prio s"
  by (rule promote_effect [of s]; simp)+



lemma agentCounts_fold:
  "js_get (fold (\<lambda>info m. let a = task_agentId (heap s (ri_task info));
       c = (case js_get m a of Some n \<Rightarrow> n | None \<Rightarrow> 0) in js_set a (c + 1) m) infos m) a
   = (let n = length (filter (\<lambda>info. task_agentId (heap s (ri_task info)) = a) infos)
      in if n = 0 then js_get m a
         else Some ((case js_get m a of Some k \<Rightarrow> k | None \<Rightarrow> 0) + int n))"
  by (induction infos arbitrary: m) (auto simp: Let_def split: option.splits)

definition running_of_agent :: "sched \<Rightarrow> string \<Rightarrow> int" where
  "running_of_agent s a =
     int (length (filter (\<lambda>info. task_agentId (heap s (ri_task info)) = a) (runningTasks s)))"

lemma agentCounts_correct:
  "(case js_get (agentCounts s) a of Some n \<Rightarrow> n | None \<Rightarrow> 0) = running_of_agent s a"
  unfolding agentCounts_def agentCounts_fold running_of_agent_def runningTasks_def
  by (auto simp: Let_def)

text \<open>the FIFO strategy picks the first of the ready tasks created earliest, and the fair
  strategy the first of the ready tasks whose agent has the fewest running tasks; both take
  exactly that task out of the ready queue.\<close>

theorem dequeue_fifo_and_fair:
  assumes "next_by_strategy s = (t, Some r)" and "strategy s = ByFifo \<or> strategy s = ByFair"
  shows "\<exists>k. first_argmin (if strategy s = ByFifo then (\<lambda>x. createdAt (metrics (heap s x)))
        else (\<lambda>x. running_of_agent s (task_agentId (heap s x)))) (priorityQueue s) k
      \<and> r = priorityQueue s ! k \<and> t = s\<lparr>priorityQueue := splice_out k (priorityQueue s)\<rparr>"
  using assms(2)
proof
  assume "strategy s = ByFifo"
  then show ?thesis using assms(1) dequeue_min_correct [of _ s t r]
    by (auto simp: next_by_strategy_def dequeueByFIFO_def)
next
  assume "strategy s = ByFair"
  then show ?thesis using assms(1) dequeue_min_correct [of _ s t r]
    by (auto simp: next_by_strategy_def dequeueByFairness_def Let_def agentCounts_correct)
qed

definition demo_fifo :: sched where
  "demo_fifo = demo_loaded\<lparr>strategy := ByFifo\<rparr>"

theorem dequeue_fifo_and_fair_witness:
  "snd (next_by_strategy demo_fifo) = Some 3 \<and>
   (\<exists>k. first_argmin (\<lambda>x. createdAt (metrics (heap demo_fifo x))) (priorityQueue demo_fifo) k
     \<and> 3 = priorityQueue demo_fifo ! k)"
proof -
  have sn: "snd (next_by_strategy demo_fifo) = Some 3" by code_simp
  then have d: "next_by_strategy demo_fifo = (fst (next_by_strategy demo_fifo), Some 3)"
    by (metis prod.collapse)
  have st: "strategy demo_fifo = ByFifo \<or> strategy demo_fifo = ByFair"
    by (simp add: demo_fifo_def)
  show ?thesis using sn dequeue_fifo_and_fair [OF d st] by (auto simp: demo_fifo_def)
qed

section \<open>Releasing waiting tasks\<close>

text \<open>promotion takes out of the waiting queue exactly the tasks whose blocking dependencies
  have all completed, and enters them in the ready queue last-in first: of two tasks of equal
  priority that become ready together, the one that waited longer is entered later.\<close>

theorem promotion_exact:
  assumes "sched_reachable s"
  shows "promoteWaitingTasks s = fold addToPriorityQueue
      (rev (filter (\<lambda>r. set (blocking_ids (heap s r)) \<subseteq> tid s ` set (completedQueue s)) (waitingQueue s)))
      (s\<lparr>waitingQueue := filter (\<lambda>r. \<not> set (blocking_ids (heap s r)) \<subseteq> tid s ` set (completedQueue s))
           (waitingQueue s)\<rparr>)"
  using promote_exact [OF sched_reachable_inv [OF assms]]
  unfolding canExecuteNow_iff [OF sched_reachable_inv [OF assms]] .

definition demo_released :: sched where
  "demo_released = completeTask 30 ''a'' True JNull None demo_running"

text \<open>In the demonstration \<open>b\<close> waited before \<open>c\<close>; when \<open>a\<close> completes they are served \<open>c\<close>, \<open>b\<close>.\<close>

theorem promotion_exact_witness:
  "sched_reachable demo_running \<and> waitingQueue demo_running = [1, 2] \<and>
   priorityQueue demo_released = [2, 1] \<and>
   waitingQueue (promoteWaitingTasks demo_running) = [1, 2]"
proof -
  have w: "waitingQueue (promoteWaitingTasks demo_running) = [1, 2]"
    unfolding promotion_exact [OF demo_running_reachable] by code_simp
  have "priorityQueue demo_released = [2, 1]" by code_simp
  then show ?thesis using w demo_running_reachable demo_running_queues by blast
qed

lemma completed_state_views:
  "tid (completed_state now i info out err e x s) = tid s"
  "waitingQueue (completed_state now i info out err e x s) = waitingQueue s"
  "dependencies (heap (completed_state now i info out err e x s) r) = dependencies (heap s r)"
  "runningTasksMap (completed_state now i info out err e x s) = js_delete i (runningTasksMap s)"
  by (simp_all add: completed_state_def) (simp_all add: set_state_def set_metrics_def set_result_def)

text \<open>C5: when a running task completes successfully it stops running and is recorded as
  completed, every waiting task all of whose blocking dependencies are now completed becomes
  ready, and no task that could execute is left waiting.\<close>

theorem completion_releases_waiting:
  assumes "sched_reachable s" and "js_has (runningTasksMap s) i"
    and "t = completeTask now i True out err s"
  shows "\<not> js_has (runningTasksMap t) i \<and> i \<in> tid t ` set (completedQueue t)
    \<and> (\<forall>w \<in> set (waitingQueue s). set (blocking_ids (heap s w)) \<subseteq> insert i (tid s ` set (completedQueue s))
         \<longrightarrow> w \<in> set (priorityQueue t))
    \<and> (\<forall>w \<in> set (waitingQueue t). \<not> canExecuteNow w t)"
proof -
  have s: "sched_inv s" by (rule sched_reachable_inv [OF assms(1)])
  obtain info where g: "js_get (runningTasksMap s) i = Some info" using assms(2) by (auto simp: js_has_iff)
  define u where "u = (completed_state now i info out err (without_id i s) TaskSuccess s)
      \<lparr>completedCount := Suc (completedCount s), completedQueue := completedQueue s @ [ri_task info]\<rparr>"
  have t: "t = promoteWaitingTasks u"
    unfolding u_def assms(3) by (rule completeTask_success [OF g])
  have u: "sched_inv u" unfolding u_def by (rule completed_success_inv [OF s g])
  have ut: "tid u = tid s" "waitingQueue u = waitingQueue s" "runningTasksMap u = js_delete i (runningTasksMap s)"
    "completedQueue u = completedQueue s @ [ri_task info]"
    by (simp_all add: u_def completed_state_views)
  have b: "blocking_ids (heap u w) = blocking_ids (heap s w)" for w
    by (simp add: u_def completed_state_views blocking_ids_def)
  have i: "tid s (ri_task info) = i" by (rule delete_running(2) [OF s g])
  have tt: "tid t = tid s" "completedQueue t = completedQueue u" "runningTasksMap t = runningTasksMap u"
    unfolding t using ut by (rule_tac [!] promote_effect [of u]) simp_all
  have "w \<in> set (priorityQueue t)"
    if "w \<in> set (waitingQueue s)" "set (blocking_ids (heap s w)) \<subseteq> insert i (tid s ` set (completedQueue s))" for w
  proof -
    have "canExecuteNow w u"
      unfolding canExecuteNow_iff [OF u] b ut using that(2) i by auto
    then show ?thesis
      unfolding t promote_exact [OF u] using that(1) ut(2) set_mset_mset
      by (auto simp: fold_add_mset simp flip: set_mset_mset)
  qed
  moreover have "\<not> canExecuteNow w t" if "w \<in> set (waitingQueue t)" for w
    using that unfolding t promote_waiting_queue [OF u] canExecuteNow_promote [OF u] by simp
  ultimately show ?thesis using i by (simp add: tt ut)
qed

theorem completion_releases_waiting_witness:
  "sched_reachable demo_running \<and> js_has (runningTasksMap demo_running) ''a'' \<and>
   1 \<in> set (waitingQueue demo_running) \<and> 1 \<in> set (priorityQueue demo_released) \<and>
   \<not> js_has (runningTasksMap demo_released) ''a''"
proof -
  have h: "js_has (runningTasksMap demo_running) ''a''" by code_simp
  have w: "1 \<in> set (waitingQueue demo_running)" using demo_running_queues by simp
  have "blocking_ids (heap demo_running 1) = [''a'']" by code_simp
  then have d: "set (blocking_ids (heap demo_running 1))
      \<subseteq> insert ''a'' (tid demo_running ` set (completedQueue demo_running))" by simp
  show ?thesis
    using demo_running_reachable h w d
      completion_releases_waiting [OF demo_running_reachable h demo_released_def] by blast
qed

section \<open>Cancelling and rescheduling running tasks\<close>

lemma running_not_ready:
  assumes "sched_inv s" and "js_get (runningTasksMap s) i = Some info"
  shows "i \<notin> tid s ` set (priorityQueue s)"
proof -
  have "i \<in> fst ` set (runningTasksMap s)"
    using js_get_in_set [OF assms(2)] by (metis fst_conv image_eqI)
  moreover have "distinct (places s)" using assms(1) by (simp add: sched_inv_def)
  ultimately show ?thesis unfolding places_def by auto
qed

text \<open>cancelling a running task does not take it out of the execution queue; cancelling it a
  second time finds that stale entry, reports success again and puts the task on the failed
  queue twice.\<close>

theorem double_cancel_duplicates:
  assumes "sched_reachable s" and "js_get (runningTasksMap s) i = Some info"
    and "ri_task info \<in> set (executionQueue s)"
  shows "ri_task info \<in> set (executionQueue (fst (cancel now i s)))
    \<and> snd (cancel now' i (fst (cancel now i s))) = True
    \<and> failedQueue (fst (cancel now' i (fst (cancel now i s)))) = failedQueue s @ [ri_task info, ri_task info]"
proof -
  have s: "sched_inv s" by (rule sched_reachable_inv [OF assms(1)])
  let ?r = "ri_task info" and ?t = "fst (cancel now i s)"
  have ti: "tid s ?r = i" by (rule delete_running(2) [OF s assms(2)])
  have t: "tid ?t = tid s" "runningTasksMap ?t = js_delete i (runningTasksMap s)"
    "executionQueue ?t = executionQueue s" "failedQueue ?t = failedQueue s @ [?r]"
    "priorityQueue ?t = priorityQueue s"
    by (simp_all add: cancel_def assms(2) Let_def mark_cancelled_def)
  have np: "i \<notin> tid s ` set (priorityQueue s)" by (rule running_not_ready [OF s assms(2)])
  have p: "find_index (has_id ?t i) (priorityQueue ?t) = None"
    using np by (auto simp: find_index_None has_id_tid t)
  obtain k where k: "find_index (has_id ?t i) (executionQueue ?t) = Some k"
    using assms(3) ti
    by (cases "find_index (has_id ?t i) (executionQueue ?t)") (auto simp: find_index_None has_id_tid t)
  have kr: "executionQueue s ! k = ?r"
  proof -
    have "tid s (executionQueue s ! k) = i" "k < length (executionQueue s)"
      using find_index_Some [OF k] by (simp_all add: has_id_tid t)
    moreover have "distinct (map (tid s) (executionQueue s))" using s by (simp add: sched_inv_def)
    ultimately show ?thesis using assms(3) ti by (metis distinct_map inj_onD nth_mem)
  qed
  have g: "js_get (runningTasksMap ?t) i = None" by (simp add: t)
  have rm: "removeTaskFromQueues i ?t = (?t\<lparr>executionQueue := splice_out k (executionQueue ?t)\<rparr>, Some ?r)"
    unfolding removeTaskFromQueues_def p k by (simp add: t kr)
  show ?thesis using assms(3)
    by (simp add: cancel_def [of now' i ?t] g rm Let_def mark_cancelled_def t)
qed

theorem double_cancel_duplicates_witness:
  "sched_reachable demo_running \<and>
   failedQueue (fst (cancel 50 ''a'' (fst (cancel 40 ''a'' demo_running)))) = [0, 0]"
proof -
  have "map_option ri_task (js_get (runningTasksMap demo_running) ''a'') = Some 0" by code_simp
  then obtain info where g: "js_get (runningTasksMap demo_running) ''a'' = Some info" and r: "ri_task info = 0"
    by auto
  have e: "ri_task info \<in> set (executionQueue demo_running)" using demo_running_queues r by simp
  have f: "failedQueue demo_running = []" by code_simp
  have "failedQueue (fst (cancel 50 ''a'' (fst (cancel 40 ''a'' demo_running))))
      = failedQueue demo_running @ [ri_task info, ri_task info]"
    using double_cancel_duplicates [of demo_running "''a''" info 40 50] demo_running_reachable g e by blast
  then show ?thesis using demo_running_reachable r f by simp
qed

lemma schedule_running_fails:
  assumes "js_has (runningTasksMap s) (tid s r)"
  shows "\<exists>m e. schedule r s = (push_error m s, Inl e)"
  using assms findTaskInQueues_None [of "taskId (heap s r)" s]
  by (auto simp: schedule_def schedule_fail_def Let_def tid_def)

lemma remove_running:
  assumes s: "sched_inv s" and g: "js_get (runningTasksMap s) i = Some info"
    and x: "ri_task info \<in> set (executionQueue s)"
    and u: "tid u = tid s" "priorityQueue u = priorityQueue s" "executionQueue u = executionQueue s"
  shows "\<exists>k < length (executionQueue s). tid s (executionQueue s ! k) = i \<and>
    fst (removeTaskFromQueues i u) = u\<lparr>executionQueue := splice_out k (executionQueue s)\<rparr>"
proof -
  have ti: "tid s (ri_task info) = i" by (rule delete_running(2) [OF s g])
  have "i \<notin> tid s ` set (priorityQueue s)" by (rule running_not_ready [OF s g])
  then have p: "find_index (has_id u i) (priorityQueue u) = None"
    by (auto simp: find_index_None has_id_tid u)
  obtain k where k: "find_index (has_id u i) (executionQueue u) = Some k"
    using x ti by (cases "find_index (has_id u i) (executionQueue u)") (auto simp: find_index_None has_id_tid u)
  have "k < length (executionQueue s)" "tid s (executionQueue s ! k) = i"
    using find_index_Some [OF k] by (simp_all add: has_id_tid u)
  then show ?thesis unfolding removeTaskFromQueues_def p k by (auto simp: u)
qed

text \<open>rescheduling a task that is running always throws, and the task is no longer in the
  execution queue afterwards although it is still running.\<close>

theorem reschedule_running_fails:
  assumes "sched_reachable s" and "js_get (runningTasksMap s) i = Some info"
    and "ri_task info \<in> set (executionQueue s)"
  shows "\<exists>e. snd (reschedule i np s) = Inl e
    \<and> i \<notin> tid s ` set (executionQueue (fst (reschedule i np s)))
    \<and> js_has (runningTasksMap (fst (reschedule i np s))) i"
proof -
  have s: "sched_inv s" by (rule sched_reachable_inv [OF assms(1)])
  have h: "js_has (runningTasksMap s) i" using assms(2) by (auto simp: js_has_iff)
  then obtain r where f: "findTaskInQueues i s = Some r"
    using findTaskInQueues_None [of i s] by (cases "findTaskInQueues i s") auto
  have ri: "tid s r = i" by (rule findTaskInQueues_id [OF s f])
  define u where "u = (case np of None \<Rightarrow> s
    | Some p \<Rightarrow> (case priority_of_string p of None \<Rightarrow> s | Some q \<Rightarrow> set_priority r q s))"
  have u: "tid u = tid s" "priorityQueue u = priorityQueue s" "executionQueue u = executionQueue s"
    "runningTasksMap u = runningTasksMap s"
    by (auto simp: u_def split: option.splits)
  obtain k where k: "k < length (executionQueue s)" "tid s (executionQueue s ! k) = i"
    and rm: "fst (removeTaskFromQueues i u) = u\<lparr>executionQueue := splice_out k (executionQueue s)\<rparr>"
    using remove_running [OF s assms(2,3) u(1-3)] by auto
  let ?v = "u\<lparr>executionQueue := splice_out k (executionQueue s)\<rparr>"
  obtain m e where sc: "schedule r ?v = (push_error m ?v, Inl e)"
    using schedule_running_fails [of ?v r] h by (auto simp: u ri)
  have "distinct (map (tid s) (executionQueue s))" using s by (simp add: sched_inv_def)
  from execution_removed [OF this k(1)]
  have gone: "i \<notin> tid s ` set (splice_out k (executionQueue s))" by (simp add: k(2))
  show ?thesis
    using gone h by (simp add: reschedule_def f rm sc Let_def u push_error_def flip: u_def)
qed

theorem reschedule_running_fails_witness:
  "sched_reachable demo_running \<and>
   (\<exists>e. snd (reschedule ''a'' (Some ''HIGH'') demo_running) = Inl e) \<and>
   ''a'' \<notin> tid demo_running ` set (executionQueue (fst (reschedule ''a'' (Some ''HIGH'') demo_running)))"
proof -
  have "map_option ri_task (js_get (runningTasksMap demo_running) ''a'') = Some 0" by code_simp
  then obtain info where g: "js_get (runningTasksMap demo_running) ''a'' = Some info" and r: "ri_task info = 0"
    by auto
  have e: "ri_task info \<in> set (executionQueue demo_running)" using demo_running_queues r by simp
  show ?thesis
    using reschedule_running_fails [of demo_running "''a''" info "Some ''HIGH''"] demo_running_reachable g e
    by blast
qed

section \<open>Reports\<close>

lemma stale_scan_status:
  "fst (stale_scan now m (st, w)) =
     (if \<exists>(i, info) \<in> set m. now > ri_timeoutAt info then Degraded else st)"
  by (induction m arbitrary: st w) auto

text \<open>the scheduler's status. With no running task past its timeout it is unhealthy exactly
  when an error is recorded, healthy exactly when there is neither error nor warning and some
  task runs; one stale task makes it degraded, also when errors had made it unhealthy.\<close>

theorem health_status_rule:
  "sh_status (snd (scheduler_health now s)) =
     (if \<exists>(i, info) \<in> set (runningTasksMap s). now > ri_timeoutAt info then Degraded
      else if sched_errors s \<noteq> [] then Unhealthy
      else if sched_warnings s = [] \<and> runningTasks s \<noteq> [] then Healthy else Degraded)"
proof -
  let ?st = "if sched_errors s \<noteq> [] then Unhealthy
    else if sched_warnings s \<noteq> [] \<or> length (runningTasksMap s) = 0 then Degraded else Healthy"
  have "sh_status (snd (scheduler_health now s))
      = fst (stale_scan now (runningTasksMap s) (?st, sched_warnings s))"
    unfolding scheduler_health_def Let_def
    by (cases "stale_scan now (runningTasksMap s) (?st, sched_warnings s)") simp
  then show ?thesis unfolding stale_scan_status by (simp add: runningTasks_def js_values_def)
qed

text \<open>on a reachable scheduler whose running tasks are all in the execution queue, the total
  reported by the metrics counts every running task at least twice.\<close>

theorem total_counts_running_twice:
  assumes "sched_reachable s"
    and "\<forall>(i, info) \<in> set (runningTasksMap s). ri_task info \<in> set (executionQueue s)"
  shows "sm_totalTasks (scheduler_metrics now s) \<ge> length (priorityQueue s) + length (waitingQueue s)
    + length (completedQueue s) + length (failedQueue s) + 2 * length (runningTasks s)"
proof -
  have s: "sched_inv s" by (rule sched_reachable_inv [OF assms(1)])
  have "js_keys (runningTasksMap s) = map (tid s) (map ri_task (runningTasks s))"
    using inv_running_ref(1) [OF s] by (auto simp: js_keys_def runningTasks_def js_values_def)
  then have "distinct (map ri_task (runningTasks s))"
    using inv_running_wf [OF s] by (metis distinct_map js_keys_def js_wf_def)
  then have "length (runningTasks s) = card (ri_task ` set (runningTasks s))"
    by (metis distinct_card length_map set_map)
  also have "\<dots> \<le> card (set (executionQueue s))"
    using assms(2) by (intro card_mono) (auto simp: runningTasks_def js_values_def)
  also have "\<dots> \<le> length (executionQueue s)" by (rule card_length)
  finally show ?thesis
    by (simp add: scheduler_metrics_def Let_def getTotalTaskCount_def runningTasks_def js_values_def)
qed

theorem total_counts_running_twice_witness:
  "sched_reachable demo_running \<and> length (runningTasks demo_running) = 2 \<and>
   sm_totalTasks (scheduler_metrics 30 demo_running) \<ge> 6"
proof -
  have l: "length (runningTasks demo_running) = 2" "length (waitingQueue demo_running) = 2" by code_simp+
  have "list_all (\<lambda>p. List.member (executionQueue demo_running) (ri_task (snd p))) (runningTasksMap demo_running)"
    by code_simp
  then have e: "\<forall>(i, info) \<in> set (runningTasksMap demo_running). ri_task info \<in> set (executionQueue demo_running)"
    by (auto simp: list_all_iff)
  show ?thesis
    using demo_running_reachable l total_counts_running_twice [OF demo_running_reachable e, of 30] by simp
qed

text \<open>Scheduling starts nothing.\<close>

lemma schedule_running [simp]:
  "runningTasksMap (fst (schedule r s)) = runningTasksMap s" "maxConcurrency (fst (schedule r s)) = maxConcurrency s"
  by (simp_all add: schedule_def schedule_fail_def updateDependencyTracking_def push_error_def Let_def)

lemma enqueue_running [simp]:
  "runningTasksMap (fst (enqueue rs s)) = runningTasksMap s" "maxConcurrency (fst (enqueue rs s)) = maxConcurrency s"
  by (induction rs s rule: enqueue.induct)
    (auto split: prod.splits sum.splits, (metis fst_conv schedule_running)+)

end
