(* ===== verification/Agent_Plan.thy ===== *)
theory Agent_Plan
  imports Agent_Task
begin

text \<open>
  The plan data of \<open>agents/planner/agent-plan.ts\<close> and \<open>AgentPlanBuilder\<close>, whose partial plan
  is a record of options.
\<close>

datatype plan_state = PlanDraft | PlanValidated | PlanExecuting | PlanCompleted | PlanFailed | PlanCancelled

datatype execution_mode = Sequential | Parallel | Mixed

record plan_metrics =
  pm_createdAt :: time_ms
  pm_validatedAt :: "time_ms option"
  pm_startedAt :: "time_ms option"
  pm_completedAt :: "time_ms option"
  pm_totalTasks :: nat
  pm_completedTasks :: nat
  pm_failedTasks :: nat
  pm_estimatedDurationMs :: js_num
  pm_actualDurationMs :: "int option"

record agent_plan =
  pl_planId :: string
  pl_agentId :: string
  pl_workspaceId :: string
  pl_requestId :: string
  pl_traceId :: string
  pl_name :: string
  pl_description :: string
  pl_state :: plan_state
  pl_priority :: agent_priority
  pl_executionMode :: execution_mode
  pl_tasks :: "agent_task list"
  pl_taskOrder :: "string list"
  pl_parallelGroups :: "string list list"
  pl_timeoutMs :: int
  pl_maxConcurrency :: int
  pl_metadata :: js_record
  pl_metrics :: plan_metrics

section \<open>The builder\<close>

record plan_draft =
  pd_planId :: "string option"
  pd_agentId :: "string option"
  pd_workspaceId :: "string option"
  pd_requestId :: "string option"
  pd_traceId :: "string option"
  pd_name :: "string option"
  pd_description :: "string option"
  pd_state :: "plan_state option"
  pd_priority :: "agent_priority option"
  pd_executionMode :: execution_mode
  pd_tasks :: "agent_task list"
  pd_taskOrder :: "string list"
  pd_parallelGroups :: "string list list"
  pd_timeoutMs :: int
  pd_maxConcurrency :: int
  pd_metadata :: js_record
  pd_metrics :: plan_metrics

definition plan_create :: "time_ms \<Rightarrow> plan_draft" where
  "plan_create now = \<lparr>pd_planId = None, pd_agentId = None, pd_workspaceId = None, pd_requestId = None,
     pd_traceId = None, pd_name = None, pd_description = None, pd_state = None, pd_priority = None,
     pd_executionMode = Sequential, pd_tasks = [], pd_taskOrder = [], pd_parallelGroups = [],
     pd_timeoutMs = 300000, pd_maxConcurrency = 5, pd_metadata = [],
     pd_metrics = \<lparr>pm_createdAt = now, pm_validatedAt = None, pm_startedAt = None, pm_completedAt = None,
       pm_totalTasks = 0, pm_completedTasks = 0, pm_failedTasks = 0, pm_estimatedDurationMs = Fin 0,
       pm_actualDurationMs = None\<rparr>\<rparr>"

definition set_plan_ids :: "string \<Rightarrow> string \<Rightarrow> string \<Rightarrow> string \<Rightarrow> string \<Rightarrow> plan_draft \<Rightarrow> plan_draft" where
  "set_plan_ids pid aid wid rid trid d = d\<lparr>pd_planId := Some pid, pd_agentId := Some aid,
     pd_workspaceId := Some wid, pd_requestId := Some rid, pd_traceId := Some trid\<rparr>"

definition set_plan_name :: "string \<Rightarrow> plan_draft \<Rightarrow> plan_draft" where
  "set_plan_name n d = d\<lparr>pd_name := Some n\<rparr>"

definition set_plan_description :: "string \<Rightarrow> plan_draft \<Rightarrow> plan_draft" where
  "set_plan_description x d = d\<lparr>pd_description := Some x\<rparr>"

definition set_plan_state :: "plan_state \<Rightarrow> plan_draft \<Rightarrow> plan_draft" where
  "set_plan_state x d = d\<lparr>pd_state := Some x\<rparr>"

definition set_plan_priority :: "agent_priority \<Rightarrow> plan_draft \<Rightarrow> plan_draft" where
  "set_plan_priority x d = d\<lparr>pd_priority := Some x\<rparr>"

definition set_plan_mode :: "execution_mode \<Rightarrow> plan_draft \<Rightarrow> plan_draft" where
  "set_plan_mode x d = d\<lparr>pd_executionMode := x\<rparr>"

definition addTasks :: "agent_task list \<Rightarrow> plan_draft \<Rightarrow> plan_draft" where
  "addTasks ts d = (let all = pd_tasks d @ ts
     in d\<lparr>pd_tasks := all, pd_metrics := (pd_metrics d)\<lparr>pm_totalTasks := length all\<rparr>\<rparr>)"

definition addTask :: "agent_task \<Rightarrow> plan_draft \<Rightarrow> plan_draft" where
  "addTask t d = (let all = pd_tasks d @ [t]
     in d\<lparr>pd_tasks := all, pd_metrics := (pd_metrics d)\<lparr>pm_totalTasks := length all\<rparr>\<rparr>)"

definition setTaskOrder :: "string list \<Rightarrow> plan_draft \<Rightarrow> plan_draft" where
  "setTaskOrder ids d = d\<lparr>pd_taskOrder := ids\<rparr>"

definition addParallelGroup :: "string list \<Rightarrow> plan_draft \<Rightarrow> plan_draft" where
  "addParallelGroup ids d = d\<lparr>pd_parallelGroups := pd_parallelGroups d @ [ids]\<rparr>"

definition set_plan_timeout :: "int \<Rightarrow> plan_draft \<Rightarrow> plan_draft" where
  "set_plan_timeout x d = d\<lparr>pd_timeoutMs := x\<rparr>"

definition set_plan_concurrency :: "int \<Rightarrow> plan_draft \<Rightarrow> plan_draft" where
  "set_plan_concurrency x d = d\<lparr>pd_maxConcurrency := x\<rparr>"

definition estimatedDuration :: "js_num \<Rightarrow> plan_draft \<Rightarrow> plan_draft" where
  "estimatedDuration x d = d\<lparr>pd_metrics := (pd_metrics d)\<lparr>pm_estimatedDurationMs := x\<rparr>\<rparr>"

definition add_plan_metadata :: "js_record \<Rightarrow> plan_draft \<Rightarrow> plan_draft" where
  "add_plan_metadata m d = d\<lparr>pd_metadata := js_spread (pd_metadata d) m\<rparr>"

definition plan_missing :: "plan_draft \<Rightarrow> string option" where
  "plan_missing d =
     (if pd_planId d = None then Some ''planId''
      else if pd_agentId d = None then Some ''agentId''
      else if pd_workspaceId d = None then Some ''workspaceId''
      else if pd_requestId d = None then Some ''requestId''
      else if pd_traceId d = None then Some ''traceId''
      else if pd_name d = None then Some ''name''
      else if pd_state d = None then Some ''state''
      else if pd_priority d = None then Some ''priority''
      else None)"

text \<open>The first id of a list that no task of the plan has.\<close>

definition first_unknown :: "agent_task list \<Rightarrow> string list \<Rightarrow> string option" where
  "first_unknown ts ids = List.find (\<lambda>i. \<not> List.member (map taskId ts) i) ids"

definition plan_build :: "plan_draft \<Rightarrow> agent_error + agent_plan" where
  "plan_build d =
     (case plan_missing d of
        Some f \<Rightarrow> Inl (PlainError (''Plan field '' @ sq f @ '' is required''))
      | None \<Rightarrow>
     (case first_unknown (pd_tasks d) (pd_taskOrder d) of
        Some i \<Rightarrow> Inl (PlainError (''Task '' @ sq i @ '' in task order not found in tasks''))
      | None \<Rightarrow>
     (case first_unknown (pd_tasks d) (concat (pd_parallelGroups d)) of
        Some i \<Rightarrow> Inl (PlainError (''Task '' @ sq i @ '' in parallel group not found in tasks''))
      | None \<Rightarrow> Inr \<lparr>pl_planId = the (pd_planId d), pl_agentId = the (pd_agentId d),
          pl_workspaceId = the (pd_workspaceId d), pl_requestId = the (pd_requestId d),
          pl_traceId = the (pd_traceId d), pl_name = the (pd_name d),
          pl_description = (case pd_description d of Some x \<Rightarrow> x | None \<Rightarrow> []),
          pl_state = the (pd_state d), pl_priority = the (pd_priority d),
          pl_executionMode = pd_executionMode d, pl_tasks = pd_tasks d, pl_taskOrder = pd_taskOrder d,
          pl_parallelGroups = pd_parallelGroups d, pl_timeoutMs = pd_timeoutMs d,
          pl_maxConcurrency = pd_maxConcurrency d, pl_metadata = pd_metadata d,
          pl_metrics = pd_metrics d\<rparr>)))"

lemmas plan_setters = set_plan_ids_def set_plan_name_def set_plan_description_def set_plan_state_def
  set_plan_priority_def set_plan_mode_def addTasks_def addTask_def setTaskOrder_def addParallelGroup_def
  set_plan_timeout_def set_plan_concurrency_def estimatedDuration_def add_plan_metadata_def

lemma first_unknown_None: "first_unknown ts ids = None \<longleftrightarrow> set ids \<subseteq> taskId ` set ts"
  by (auto simp: first_unknown_def find_None_iff)

lemma plan_build_ok_iff:
  "(\<exists>p. plan_build d = Inr p) \<longleftrightarrow> plan_missing d = None \<and> set (pd_taskOrder d) \<subseteq> taskId ` set (pd_tasks d)
     \<and> (\<forall>g \<in> set (pd_parallelGroups d). set g \<subseteq> taskId ` set (pd_tasks d))"
proof -
  have "(\<exists>p. plan_build d = Inr p) \<longleftrightarrow> plan_missing d = None \<and>
      first_unknown (pd_tasks d) (pd_taskOrder d) = None \<and>
      first_unknown (pd_tasks d) (concat (pd_parallelGroups d)) = None"
    by (auto simp: plan_build_def split: option.splits)
  then show ?thesis by (auto simp: first_unknown_None)
qed

end
