(* ===== verification/Planner.thy ===== *)
theory Planner
  imports Agent_Plan
begin

text \<open>
  \<open>AgentPlanner\<close> (\<open>agents/planner/agent-planner.ts\<close>): building plans from partial tasks, the
  depth-first topological sort, validation, estimates, splitting, prioritising and merging.
  \<open>randomUUID\<close> is the argument \<open>uuid\<close> and the clock the argument \<open>now\<close>.
\<close>

section \<open>Topological order\<close>

text \<open>The closure's two sets and its result array; a \<open>Set\<close> is the list of its elements.\<close>

record topo =
  visited :: "string list"
  visiting :: "string list"
  topo_result :: "string list"

datatype topo_error = Circular | OutOfFuel

type_synonym task_map = "(string, agent_task) js_map"

definition task_map_of :: "agent_task list \<Rightarrow> task_map" where
  "task_map_of ts = fold (\<lambda>t m. js_set (taskId t) t m) ts []"

definition dep_ids :: "task_map \<Rightarrow> string \<Rightarrow> string list" where
  "dep_ids m i = (case js_get m i of Some t \<Rightarrow> map dep_taskId (dependencies t) | None \<Rightarrow> [])"

fun each :: "(string \<Rightarrow> topo \<Rightarrow> topo_error + topo) \<Rightarrow> string list \<Rightarrow> topo \<Rightarrow> topo_error + topo" where
  "each f [] s = Inr s"
| "each f (i # is) s = (case f i s of Inl e \<Rightarrow> Inl e | Inr t \<Rightarrow> each f is t)"

text \<open>The first argument bounds the depth of the recursion.\<close>

primrec visit :: "nat \<Rightarrow> task_map \<Rightarrow> string \<Rightarrow> topo \<Rightarrow> topo_error + topo" where
  "visit 0 m i s = Inl OutOfFuel"
| "visit (Suc n) m i s =
     (if List.member (visited s) i then Inr s
      else if List.member (visiting s) i then Inl Circular
      else case each (visit n m) (dep_ids m i) (s\<lparr>visiting := visiting s @ [i]\<rparr>) of
          Inl e \<Rightarrow> Inl e
        | Inr t \<Rightarrow> Inr (t\<lparr>visiting := remove1 i (visiting t), visited := visited t @ [i],
                          topo_result := topo_result t @ [i]\<rparr>))"

definition topo_start :: topo where
  "topo_start = \<lparr>visited = [], visiting = [], topo_result = []\<rparr>"

definition topologicalSort :: "agent_task list \<Rightarrow> topo_error + string list" where
  "topologicalSort ts =
     (case each (visit (length ts + 2) (task_map_of ts)) (map taskId ts) topo_start of
        Inl e \<Rightarrow> Inl e
      | Inr t \<Rightarrow> Inr (topo_result t))"

definition hasCircularDependencies :: "agent_task list \<Rightarrow> bool" where
  "hasCircularDependencies ts = (case topologicalSort ts of Inl _ \<Rightarrow> True | Inr _ \<Rightarrow> False)"

definition hasConflictingDependencies :: "agent_task list \<Rightarrow> bool" where
  "hasConflictingDependencies ts = list_ex (\<lambda>t. list_ex
     (\<lambda>d. List.member (map taskId ts) (dep_taskId d) \<and> dep_type d = Blocking) (dependencies t)) ts"

fun topo_message :: "topo_error \<Rightarrow> agent_error" where
  "topo_message Circular = PlainError ''Circular dependency detected''"
| "topo_message OutOfFuel = PlainError ''Maximum call stack size exceeded''"

definition buildExecutionPlan ::
  "agent_task list \<Rightarrow> execution_mode option \<Rightarrow> agent_error + string list \<times> string list list" where
  "buildExecutionPlan ts mode =
     (if mode = Some Parallel then Inr ([], [map taskId ts])
      else case topologicalSort ts of Inl e \<Rightarrow> Inl (topo_message e) | Inr order \<Rightarrow> Inr (order, []))"

section \<open>Estimates\<close>

text \<open>
  \<open>Math.ceil(x * 1.1)\<close> in double arithmetic: the literal \<open>1.1\<close> is \<open>2476979795053773 / 2^51\<close>, and
  the product is rounded to 53 bits, ties to even. \<open>x\<close> is an integer, exact as a double.
\<close>

definition ceil_times_1_1 :: "int \<Rightarrow> int" where
  "ceil_times_1_1 x =
     (let p = int (round53 (nat \<bar>x\<bar> * 2476979795053773))
      in if 0 \<le> x then - ((- p) div 2 ^ 51) else - (p div 2 ^ 51))"

definition add_overhead :: "js_num \<Rightarrow> js_num" where
  "add_overhead x = (case x of MinusInf \<Rightarrow> MinusInf | Fin n \<Rightarrow> Fin (ceil_times_1_1 n))"

definition sum_timeouts :: "agent_task list \<Rightarrow> int" where
  "sum_timeouts ts = foldl (\<lambda>acc t. acc + timeoutMs t) 0 ts"

text \<open>
  \<open>estimate\<close> reads three fields of the plan; \<open>createPlan\<close> calls it with an object that has no
  \<open>parallelGroups\<close> (\<open>None\<close>), on which mixed mode throws.
\<close>

definition estimate ::
  "agent_task list \<Rightarrow> execution_mode \<Rightarrow> string list list option \<Rightarrow> agent_error + js_num" where
  "estimate ts mode groups =
     (case mode of
        Sequential \<Rightarrow> Inr (add_overhead (Fin (sum_timeouts ts)))
      | Parallel \<Rightarrow> Inr (add_overhead (math_max (map timeoutMs ts)))
      | Mixed \<Rightarrow>
          (case groups of
             None \<Rightarrow> Inl (PlainError ''Cannot read properties of undefined (reading 'flat')'')
           | Some gs \<Rightarrow>
               (let sequential = filter (\<lambda>t. \<not> List.member (concat gs) (taskId t)) ts
                in Inr (add_overhead (foldl
                     (\<lambda>acc g. num_add acc (math_max (map timeoutMs (filter (\<lambda>t. List.member g (taskId t)) ts))))
                     (Fin (sum_timeouts sequential)) gs)))))"

section \<open>Creating a plan\<close>

text \<open>\<open>Partial<AgentTask>\<close> as a planning request gives it.\<close>

record partial_task =
  pt_taskId :: "string option"
  pt_name :: "string option"
  pt_description :: "string option"
  pt_type :: "task_type option"
  pt_state :: "task_state option"
  pt_priority :: "agent_priority option"
  pt_input :: jsval
  pt_dependencies :: "task_dependency list option"
  pt_timeoutMs :: "int option"
  pt_metadata :: "js_record option"

record planning_request =
  pr_agentId :: string
  pr_workspaceId :: string
  pr_requestId :: string
  pr_traceId :: string
  pr_name :: string
  pr_description :: "string option"
  pr_priority :: agent_priority
  pr_tasks :: "partial_task list"
  pr_executionMode :: "execution_mode option"
  pr_maxConcurrency :: "int option"
  pr_timeoutMs :: "int option"
  pr_metadata :: "js_record option"

text \<open>\<open>v || d\<close> for an optional string, an optional number and an option of an always truthy value.\<close>

definition or_str :: "string option \<Rightarrow> string \<Rightarrow> string" where
  "or_str v d = (case v of Some s \<Rightarrow> str_or s d | None \<Rightarrow> d)"

definition or_int :: "int option \<Rightarrow> int \<Rightarrow> int" where
  "or_int v d = (case v of Some n \<Rightarrow> (if n = 0 then d else n) | None \<Rightarrow> d)"

definition or_else :: "'a option \<Rightarrow> 'a \<Rightarrow> 'a" where
  "or_else v d = (case v of Some x \<Rightarrow> x | None \<Rightarrow> d)"

definition plan_task ::
  "string \<Rightarrow> time_ms \<Rightarrow> planning_request \<Rightarrow> nat \<Rightarrow> partial_task \<Rightarrow> agent_error + agent_task" where
  "plan_task planId now req index td =
     (let i = or_str (pt_taskId td) (planId @ ''_task_'' @ nat_digits index)
      in task_build
          (add_task_metadata (or_else (pt_metadata td) [])
          (set_task_timeout (or_int (pt_timeoutMs td) 300000)
          (set_task_input (pt_input td)
          (set_task_priority (or_else (pt_priority td) (pr_priority req))
          (set_task_state (or_else (pt_state td) TaskPending)
          (set_task_type (or_else (pt_type td) Execution)
          (set_task_description (or_str (pt_description td) [])
          (set_task_name (or_str (pt_name td) (''Task '' @ nat_digits (Suc index)))
          (set_task_ids i (pr_agentId req) (pr_workspaceId req) (pr_requestId req) (pr_traceId req)
             (task_create now)))))))))))"

fun plan_tasks ::
  "string \<Rightarrow> time_ms \<Rightarrow> planning_request \<Rightarrow> nat \<Rightarrow> partial_task list \<Rightarrow> agent_error + agent_task list" where
  "plan_tasks pid now req k [] = Inr []"
| "plan_tasks pid now req k (td # tds) =
     (case plan_task pid now req k td of
        Inl e \<Rightarrow> Inl e
      | Inr t \<Rightarrow> (case plan_tasks pid now req (Suc k) tds of Inl e \<Rightarrow> Inl e | Inr ts \<Rightarrow> Inr (t # ts)))"

definition createPlan :: "string \<Rightarrow> time_ms \<Rightarrow> planning_request \<Rightarrow> agent_error + agent_plan" where
  "createPlan uuid now req =
     (case plan_tasks uuid now req 0 (pr_tasks req) of
        Inl e \<Rightarrow> Inl e
      | Inr ts \<Rightarrow>
     (case buildExecutionPlan ts (pr_executionMode req) of
        Inl e \<Rightarrow> Inl e
      | Inr (order, groups) \<Rightarrow>
     (case estimate ts (or_else (pr_executionMode req) Sequential) None of
        Inl e \<Rightarrow> Inl e
      | Inr est \<Rightarrow>
     (case plan_build
        (add_plan_metadata (or_else (pr_metadata req) [])
        (estimatedDuration est
        (set_plan_concurrency (or_int (pr_maxConcurrency req) 5)
        (set_plan_timeout (or_int (pr_timeoutMs req) 300000)
        (setTaskOrder order
        (addTasks ts
        (set_plan_mode (or_else (pr_executionMode req) Sequential)
        (set_plan_priority (pr_priority req)
        (set_plan_state PlanDraft
        (set_plan_description (or_str (pr_description req) [])
        (set_plan_name (pr_name req)
        (set_plan_ids uuid (pr_agentId req) (pr_workspaceId req) (pr_requestId req) (pr_traceId req)
           (plan_create now))))))))))))) of
        Inl e \<Rightarrow> Inl e
      | Inr p \<Rightarrow> Inr (p\<lparr>pl_parallelGroups := pl_parallelGroups p @ groups\<rparr>)))))"

section \<open>Validation\<close>

record validation_result =
  vr_valid :: bool
  vr_errors :: "string list"
  vr_warnings :: "string list"
  vr_estimatedDurationMs :: js_num

definition dep_errors :: "agent_task list \<Rightarrow> string list" where
  "dep_errors ts = concat (map (\<lambda>t. map
       (\<lambda>d. ''Task '' @ sq (taskId t) @ '' has dependency on non-existent task '' @ sq (dep_taskId d))
       (filter (\<lambda>d. \<not> List.member (map taskId ts) (dep_taskId d)) (dependencies t))) ts)"

definition unknown_errors :: "string \<Rightarrow> agent_task list \<Rightarrow> string list \<Rightarrow> string list" where
  "unknown_errors what ts ids = map (\<lambda>i. what @ '' contains non-existent task '' @ sq i)
     (filter (\<lambda>i. \<not> List.member (map taskId ts) i) ids)"

definition timeout_errors :: "agent_task list \<Rightarrow> string list" where
  "timeout_errors ts = map (\<lambda>t. ''Task '' @ sq (taskId t) @ '' timeout must be positive'')
     (filter (\<lambda>t. timeoutMs t \<le> 0) ts)"

definition plan_errors :: "agent_plan \<Rightarrow> string list" where
  "plan_errors p =
     (if pl_tasks p = [] then [''Plan must contain at least one task''] else [])
     @ dep_errors (pl_tasks p)
     @ (if hasCircularDependencies (pl_tasks p) then [''Plan contains circular dependencies''] else [])
     @ unknown_errors ''Task order'' (pl_tasks p) (pl_taskOrder p)
     @ concat (map (unknown_errors ''Parallel group'' (pl_tasks p)) (pl_parallelGroups p))
     @ (if pl_timeoutMs p \<le> 0 then [''Plan timeout must be positive''] else [])
     @ timeout_errors (pl_tasks p)"

definition plan_warnings :: "agent_plan \<Rightarrow> string list" where
  "plan_warnings p =
     map (\<lambda>g. ''Parallel group contains tasks with conflicting dependencies: '' @ join_with '', '' g)
       (filter (\<lambda>g. hasConflictingDependencies (filter (\<lambda>t. List.member g (taskId t)) (pl_tasks p)))
         (pl_parallelGroups p))
     @ map (\<lambda>t. ''Task '' @ sq (taskId t) @ '' timeout ('' @ int_str (timeoutMs t)
           @ ''ms) exceeds plan timeout ('' @ int_str (pl_timeoutMs p) @ ''ms)'')
         (filter (\<lambda>t. timeoutMs t > pl_timeoutMs p) (pl_tasks p))"

definition validatePlan :: "agent_plan \<Rightarrow> agent_error + validation_result" where
  "validatePlan p =
     (case estimate (pl_tasks p) (pl_executionMode p) (Some (pl_parallelGroups p)) of
        Inl e \<Rightarrow> Inl e
      | Inr est \<Rightarrow> Inr \<lparr>vr_valid = (plan_errors p = []), vr_errors = plan_errors p,
          vr_warnings = plan_warnings p, vr_estimatedDurationMs = est\<rparr>)"

section \<open>Splitting a task\<close>

record split_result =
  sr_originalTaskId :: string
  sr_subtasks :: "agent_task list"
  sr_parallelGroups :: "string list list"

text \<open>\<open>Math.ceil(n / 3)\<close>; the double quotient rounds to an integer only when it is one.\<close>

definition ceil_third :: "int \<Rightarrow> int" where
  "ceil_third n = - ((- n) div 3)"

definition createSubtask :: "time_ms \<Rightarrow> agent_task \<Rightarrow> string \<times> string \<Rightarrow> agent_error + agent_task" where
  "createSubtask now par x =
     (case x of (suffix, nm) \<Rightarrow> task_build
        (add_task_metadata (js_spread (task_metadata par)
             [(''parentTaskId'', JStr (taskId par)), (''subtask'', JBool True)])
        (set_task_retry (full_patch (retryStrategy par))
        (set_task_timeout (ceil_third (timeoutMs par))
        (set_task_input (task_input par)
        (set_task_priority (priority par)
        (set_task_state TaskPending
        (set_task_type (task_type par)
        (set_task_description (''Subtask of '' @ task_name par)
        (set_task_name nm
        (set_task_ids (taskId par @ ''_'' @ suffix) (task_agentId par) (task_workspaceId par)
           (task_requestId par) (task_traceId par) (task_create now))))))))))))"

fun subtasks_of :: "time_ms \<Rightarrow> agent_task \<Rightarrow> (string \<times> string) list \<Rightarrow> agent_error + agent_task list" where
  "subtasks_of now par [] = Inr []"
| "subtasks_of now par (x # xs) =
     (case createSubtask now par x of
        Inl e \<Rightarrow> Inl e
      | Inr t \<Rightarrow> (case subtasks_of now par xs of Inl e \<Rightarrow> Inl e | Inr ts \<Rightarrow> Inr (t # ts)))"

text \<open>The suffixes and names of the subtasks, by the type of the task.\<close>

definition split_names :: "task_type \<Rightarrow> int \<Rightarrow> (string \<times> string) list" where
  "split_names ty maxSubtasks =
     (case ty of
        Execution \<Rightarrow> [(''prepare'', ''Preparation phase''), (''execute'', ''Main execution phase''),
                      (''cleanup'', ''Cleanup phase'')]
      | Communication \<Rightarrow> [(''send'', ''Send message''), (''receive'', ''Receive response'')]
      | Analysis \<Rightarrow> [(''collect'', ''Data collection''), (''process'', ''Data processing''),
                     (''report'', ''Generate report'')]
      | _ \<Rightarrow> map (\<lambda>i. (''step_'' @ nat_digits (i + 1), ''Step '' @ nat_digits (i + 1)))
               [0..<nat (min maxSubtasks 3)])"

definition splitTasks :: "time_ms \<Rightarrow> agent_task \<Rightarrow> int \<Rightarrow> agent_error + split_result" where
  "splitTasks now t maxSubtasks =
     (case subtasks_of now t (split_names (task_type t) maxSubtasks) of
        Inl e \<Rightarrow> Inl e
      | Inr subs \<Rightarrow> Inr \<lparr>sr_originalTaskId = taskId t, sr_subtasks = subs,
          sr_parallelGroups = (if task_type t = Analysis \<and> length subs \<ge> 2
            then [[taskId (subs ! 0), taskId (subs ! 1)]] else [])\<rparr>)"

section \<open>Prioritising and merging\<close>

definition prioritize :: "agent_task list \<Rightarrow> agent_task list" where
  "prioritize ts =
     js_sort_by (\<lambda>t. (priorityOrder (priority t), length (dependencies t), createdAt (metrics t))) ts"

definition getHighestPriority :: "agent_priority list \<Rightarrow> agent_priority" where
  "getHighestPriority ps =
     (case ps of
        [] \<Rightarrow> Normal
      | p # qs \<Rightarrow>
          (let idx = fold (\<lambda>q m. min m (priorityOrder q)) qs (priorityOrder p)
           in case List.find (\<lambda>q. priorityOrder q = idx) [Critical, High, Normal, Low] of
                Some q \<Rightarrow> q | None \<Rightarrow> Normal))"

definition sum_durations :: "agent_plan list \<Rightarrow> js_num" where
  "sum_durations ps = foldl (\<lambda>acc p. num_add acc (pm_estimatedDurationMs (pl_metrics p))) (Fin 0) ps"

definition max_int :: "int \<Rightarrow> int list \<Rightarrow> int" where
  "max_int x xs = fold (\<lambda>y m. max m y) xs x"

definition merge_plans :: "string \<Rightarrow> time_ms \<Rightarrow> agent_plan list \<Rightarrow> agent_error + agent_plan" where
  "merge_plans uuid now plans =
     (case plans of
        [] \<Rightarrow> Inl (PlainError ''Cannot merge empty plans array'')
      | base # others \<Rightarrow>
          if others = [] then Inr base
          else let unique = js_values (task_map_of (concat (map pl_tasks plans)));
                   prioritized = prioritize unique;
                   groups = concat (map pl_parallelGroups plans)
               in case buildExecutionPlan prioritized (Some Mixed) of
                    Inl e \<Rightarrow> Inl e
                  | Inr (order, _) \<Rightarrow>
                 (case plan_build
                    (add_plan_metadata [(''mergedFrom'', JArr (map (\<lambda>p. JStr (pl_planId p)) plans)),
                                        (''mergedAt'', JDate now)]
                    (estimatedDuration (sum_durations plans)
                    (set_plan_concurrency (max_int (pl_maxConcurrency base) (map pl_maxConcurrency others))
                    (set_plan_timeout (max_int (pl_timeoutMs base) (map pl_timeoutMs others))
                    (setTaskOrder order
                    (addTasks prioritized
                    (set_plan_mode Mixed
                    (set_plan_priority (getHighestPriority (map pl_priority plans))
                    (set_plan_state PlanDraft
                    (set_plan_description (''Merged from '' @ nat_digits (length plans) @ '' plans'')
                    (set_plan_name (''Merged Plan: '' @ join_with '', '' (map pl_name plans))
                    (set_plan_ids (''merged_'' @ uuid) (pl_agentId base) (pl_workspaceId base)
                        (pl_requestId base) (pl_traceId base) (plan_create now))))))))))))) of
                    Inl e \<Rightarrow> Inl e
                  | Inr p \<Rightarrow> Inr (p\<lparr>pl_parallelGroups := pl_parallelGroups p @ groups\<rparr>)))"

end
