(* ===== verification/Planner_Props.thy ===== *)
theory Planner_Props
  imports Planner
begin

text \<open>
  The planner's properties. The dependency graph of a task list is the relation \<open>dep_rel\<close>; the
  depth-first visit keeps \<open>topo_good\<close>, finds a cycle exactly when there is one, and never
  exhausts its depth bound.
\<close>

section \<open>The dependency graph\<close>

definition dep_rel :: "task_map \<Rightarrow> (string \<times> string) set" where
  "dep_rel m = {(i, d). d \<in> set (dep_ids m i)}"

definition topo_ordered :: "task_map \<Rightarrow> string list \<Rightarrow> bool" where
  "topo_ordered m xs \<longleftrightarrow> (\<forall>ys i zs. xs = ys @ i # zs \<longrightarrow> set (dep_ids m i) \<subseteq> set ys)"

lemma topo_ordered_Nil [simp]: "topo_ordered m []"
  by (simp add: topo_ordered_def)

lemma topo_ordered_snoc:
  "topo_ordered m (xs @ [i]) \<longleftrightarrow> topo_ordered m xs \<and> set (dep_ids m i) \<subseteq> set xs"
proof
  assume a: "topo_ordered m (xs @ [i])"
  have "set (dep_ids m j) \<subseteq> set ys" if "xs = ys @ j # zs" for ys j zs
    using a that unfolding topo_ordered_def by (metis append_Cons append_assoc)
  moreover have "set (dep_ids m i) \<subseteq> set xs" using a unfolding topo_ordered_def by blast
  ultimately show "topo_ordered m xs \<and> set (dep_ids m i) \<subseteq> set xs" by (auto simp: topo_ordered_def)
next
  assume a: "topo_ordered m xs \<and> set (dep_ids m i) \<subseteq> set xs"
  have "set (dep_ids m j) \<subseteq> set ys" if e: "xs @ [i] = ys @ j # zs" for ys j zs
  proof (cases zs rule: rev_cases)
    case Nil
    then show ?thesis using a e by simp
  next
    case (snoc us u)
    then have "xs = ys @ j # us" using e by simp
    then show ?thesis using a unfolding topo_ordered_def by blast
  qed
  then show "topo_ordered m (xs @ [i])" by (simp add: topo_ordered_def)
qed

definition list_pos :: "string list \<Rightarrow> string \<Rightarrow> nat" where
  "list_pos xs i = length (takeWhile (\<lambda>x. x \<noteq> i) xs)"

lemma list_pos_split: "i \<notin> set ys \<Longrightarrow> list_pos (ys @ i # zs) i = length ys"
  unfolding list_pos_def by (induction ys) auto

lemma list_pos_prefix: "d \<in> set ys \<Longrightarrow> list_pos (ys @ zs) d < length ys"
  unfolding list_pos_def by (induction ys) auto

lemma topo_ordered_pos:
  assumes "topo_ordered m xs" and "distinct xs" and "i \<in> set xs" and "d \<in> set (dep_ids m i)"
  shows "list_pos xs d < list_pos xs i"
proof -
  obtain ys zs where x: "xs = ys @ i # zs" using assms(3) by (meson split_list)
  have "d \<in> set ys" using assms(1,4) x unfolding topo_ordered_def by blast
  moreover have "i \<notin> set ys" using assms(2) x by simp
  ultimately show ?thesis using list_pos_prefix [of d ys "i # zs"] list_pos_split [of i ys zs] x by simp
qed

lemma topo_ordered_acyclic:
  assumes o: "topo_ordered m xs" "distinct xs" and k: "fst ` set m \<subseteq> set xs"
  shows "(i, i) \<notin> (dep_rel m)\<^sup>+"
proof
  have src: "i \<in> set xs" if "(i, d) \<in> dep_rel m" for i d
  proof -
    have "js_get m i \<noteq> None" using that by (cases "js_get m i") (auto simp: dep_rel_def dep_ids_def)
    then show ?thesis using k by (auto simp: js_get_None_iff)
  qed
  have "list_pos xs k < list_pos xs j" if "(j, k) \<in> (dep_rel m)\<^sup>+" for j k
    using that
  proof (induction rule: trancl_induct)
    case (base y)
    then show ?case using topo_ordered_pos [OF o src [OF base]] by (simp add: dep_rel_def)
  next
    case (step y z)
    have "list_pos xs z < list_pos xs y"
      using topo_ordered_pos [OF o src [OF step(2)]] step(2) by (simp add: dep_rel_def)
    then show ?case using step(3) by simp
  qed
  moreover assume "(i, i) \<in> (dep_rel m)\<^sup>+"
  ultimately show False by blast
qed

section \<open>The visit\<close>

definition topo_good :: "task_map \<Rightarrow> topo \<Rightarrow> bool" where
  "topo_good m s \<longleftrightarrow> distinct (visited s) \<and> topo_ordered m (visited s) \<and> topo_result s = visited s \<and>
     distinct (visiting s) \<and> set (visiting s) \<inter> set (visited s) = {}"

text \<open>What visiting \<open>is\<close> from \<open>s\<close> to \<open>t\<close> has done.\<close>

definition topo_step :: "task_map \<Rightarrow> string list \<Rightarrow> topo \<Rightarrow> topo \<Rightarrow> bool" where
  "topo_step m is s t \<longleftrightarrow> topo_good m t \<and> visiting t = visiting s \<and> set is \<subseteq> set (visited t) \<and>
     set (visited s) \<subseteq> set (visited t) \<and> set (visited t) \<subseteq> set (visited s) \<union> (dep_rel m)\<^sup>* `` set is"

lemma topo_step_Nil: "topo_good m s \<Longrightarrow> topo_step m [] s s"
  by (simp add: topo_step_def)

lemma topo_step_Cons:
  "topo_step m [i] s u \<Longrightarrow> topo_step m is u t \<Longrightarrow> topo_step m (i # is) s t"
  unfolding topo_step_def by (auto 0 3)

lemma each_step:
  assumes "\<And>i s t. f i s = Inr t \<Longrightarrow> topo_good m s \<Longrightarrow> topo_step m [i] s t"
  shows "each f is s = Inr t \<Longrightarrow> topo_good m s \<Longrightarrow> topo_step m is s t"
proof (induction "is" arbitrary: s)
  case Nil
  then show ?case by (simp add: topo_step_Nil)
next
  case (Cons i "is")
  obtain u where u: "f i s = Inr u" and t: "each f is u = Inr t"
    using Cons.prems(1) by (cases "f i s") auto
  have s: "topo_step m [i] s u" by (rule assms [OF u Cons.prems(2)])
  then have "topo_good m u" by (simp add: topo_step_def)
  from topo_step_Cons [OF s Cons.IH [OF t this]] show ?case .
qed

definition enter :: "string \<Rightarrow> topo \<Rightarrow> topo" where
  "enter i s = s\<lparr>visiting := visiting s @ [i]\<rparr>"

lemma enter_good:
  "topo_good m s \<Longrightarrow> i \<notin> set (visited s) \<Longrightarrow> i \<notin> set (visiting s) \<Longrightarrow> topo_good m (enter i s)"
  by (simp add: topo_good_def enter_def)

lemma visit_step: "visit n m i s = Inr t \<Longrightarrow> topo_good m s \<Longrightarrow> topo_step m [i] s t"
proof (induction n arbitrary: i s t)
  case 0
  then show ?case by simp
next
  case (Suc n)
  show ?case
  proof (cases "i \<in> set (visited s)")
    case True
    then show ?thesis using Suc.prems by (auto simp: topo_step_def)
  next
    case nv: False
    then have ng: "i \<notin> set (visiting s)" using Suc.prems(1) by (auto split: if_splits)
    obtain u where e: "each (visit n m) (dep_ids m i) (enter i s) = Inr u"
      and t: "t = u\<lparr>visiting := remove1 i (visiting u), visited := visited u @ [i],
                 topo_result := topo_result u @ [i]\<rparr>"
      using Suc.prems(1) nv ng by (auto simp: enter_def split: sum.splits)
    have u: "topo_step m (dep_ids m i) (enter i s) u"
      by (rule each_step [OF Suc.IH e enter_good [OF Suc.prems(2) nv ng]])
    then have vu: "visiting u = visiting s @ [i]" and gu: "topo_good m u"
      by (simp_all add: topo_step_def enter_def)
    have iu: "i \<notin> set (visited u)" using gu vu by (auto simp: topo_good_def)
    have vt: "visiting t = visiting s" using vu ng by (simp add: t remove1_append)
    have gt: "topo_good m t"
      using gu u vu ng iu vt Suc.prems(2)
      by (auto simp: topo_good_def topo_step_def t topo_ordered_snoc)
    define R where "R = (dep_rel m)\<^sup>* `` {i}"
    have "(dep_rel m)\<^sup>* `` set (dep_ids m i) \<subseteq> R"
      by (auto simp: R_def dep_rel_def intro: converse_rtrancl_into_rtrancl)
    moreover have "set (visited u) \<subseteq> set (visited s) \<union> (dep_rel m)\<^sup>* `` set (dep_ids m i)"
      "set (visited s) \<subseteq> set (visited u)"
      using u by (simp_all add: topo_step_def enter_def)
    moreover have vi: "set (visited t) = insert i (set (visited u))" by (simp add: t)
    moreover have "i \<in> R" by (simp add: R_def)
    ultimately have "set (visited t) \<subseteq> set (visited s) \<union> R" "set (visited s) \<subseteq> set (visited t)"
      by (fast, fast)
    then show ?thesis using gt vt vi by (simp add: topo_step_def R_def)
  qed
qed

text \<open>A reported cycle is one.\<close>

lemma each_circular:
  assumes "\<And>i s. f i s = Inl Circular \<Longrightarrow> topo_good m s \<Longrightarrow>
      (\<forall>v \<in> set (visiting s). (v, i) \<in> (dep_rel m)\<^sup>+) \<Longrightarrow> \<exists>j. (j, j) \<in> (dep_rel m)\<^sup>+"
    and "\<And>i s t. f i s = Inr t \<Longrightarrow> topo_good m s \<Longrightarrow> topo_step m [i] s t"
  shows "each f is s = Inl Circular \<Longrightarrow> topo_good m s \<Longrightarrow>
      (\<forall>i \<in> set is. \<forall>v \<in> set (visiting s). (v, i) \<in> (dep_rel m)\<^sup>+) \<Longrightarrow> \<exists>j. (j, j) \<in> (dep_rel m)\<^sup>+"
proof (induction "is" arbitrary: s)
  case Nil
  then show ?case by simp
next
  case (Cons i "is")
  show ?case
  proof (cases "f i s")
    case (Inl e)
    then have "f i s = Inl Circular" using Cons.prems(1) by simp
    then show ?thesis using assms(1) Cons.prems(2,3) by simp
  next
    case (Inr u)
    then have "topo_step m [i] s u" using assms(2) Cons.prems(2) by blast
    then have "topo_good m u" "visiting u = visiting s" by (simp_all add: topo_step_def)
    then show ?thesis using Cons.IH [of u] Cons.prems Inr by simp
  qed
qed

lemma visit_circular:
  "visit n m i s = Inl Circular \<Longrightarrow> topo_good m s \<Longrightarrow>
     (\<forall>v \<in> set (visiting s). (v, i) \<in> (dep_rel m)\<^sup>+) \<Longrightarrow> \<exists>j. (j, j) \<in> (dep_rel m)\<^sup>+"
proof (induction n arbitrary: i s)
  case 0
  then show ?case by simp
next
  case (Suc n)
  have nv: "i \<notin> set (visited s)" using Suc.prems(1) by auto
  show ?case
  proof (cases "i \<in> set (visiting s)")
    case True
    then show ?thesis using Suc.prems(3) by blast
  next
    case ng: False
    have e: "each (visit n m) (dep_ids m i) (enter i s) = Inl Circular"
      using Suc.prems(1) nv ng by (auto simp: enter_def split: sum.splits)
    have "(v, d) \<in> (dep_rel m)\<^sup>+" if "d \<in> set (dep_ids m i)" "v \<in> set (visiting (enter i s))" for v d
    proof -
      have "(i, d) \<in> dep_rel m" using that(1) by (simp add: dep_rel_def)
      then have "(w, d) \<in> (dep_rel m)\<^sup>+" if "(w, i) \<in> (dep_rel m)\<^sup>+" for w
        using that by (rule trancl_into_trancl [rotated])
      then show ?thesis using that(2) Suc.prems(3) \<open>(i, d) \<in> dep_rel m\<close> by (auto simp: enter_def)
    qed
    then have path: "\<forall>d \<in> set (dep_ids m i). \<forall>v \<in> set (visiting (enter i s)). (v, d) \<in> (dep_rel m)\<^sup>+"
      by blast
    show ?thesis
    proof (rule each_circular [OF _ _ e enter_good [OF Suc.prems(2) nv ng] path])
      show "\<exists>j. (j, j) \<in> (dep_rel m)\<^sup>+" if "visit n m k r = Inl Circular" "topo_good m r"
        "\<forall>v \<in> set (visiting r). (v, k) \<in> (dep_rel m)\<^sup>+" for k r
        using Suc.IH that by blast
      show "topo_step m [k] r q" if "visit n m k r = Inr q" "topo_good m r" for k r q
        using that by (rule visit_step)
    qed
  qed
qed

text \<open>The depth bound: each nested visit adds a task of the map to the path.\<close>

lemma each_fuel:
  assumes "\<And>i s. topo_good m s \<Longrightarrow> visiting s = vs \<Longrightarrow> f i s \<noteq> Inl OutOfFuel"
    and "\<And>i s t. f i s = Inr t \<Longrightarrow> topo_good m s \<Longrightarrow> topo_step m [i] s t"
  shows "topo_good m s \<Longrightarrow> visiting s = vs \<Longrightarrow> each f is s \<noteq> Inl OutOfFuel"
proof (induction "is" arbitrary: s)
  case (Cons i "is")
  show ?case
  proof (cases "f i s")
    case (Inl e)
    then show ?thesis using assms(1) [OF Cons.prems, of i] by simp
  next
    case (Inr u)
    then have "topo_step m [i] s u" using assms(2) Cons.prems(1) by blast
    then show ?thesis using Cons.IH [of u] Cons.prems(2) Inr by (simp add: topo_step_def)
  qed
qed simp

lemma visit_fuel:
  "topo_good m s \<Longrightarrow> card (fst ` set m - set (visiting s)) < n \<Longrightarrow> visit n m i s \<noteq> Inl OutOfFuel"
proof (induction n arbitrary: i s)
  case 0
  then show ?case by simp
next
  case (Suc n)
  show ?case
  proof (cases "i \<in> set (visited s) \<or> i \<in> set (visiting s) \<or> js_get m i = None")
    case True
    then show ?thesis by (auto simp: dep_ids_def)
  next
    case False
    then have k: "i \<in> fst ` set m" by (auto simp: js_get_None_iff)
    have "fst ` set m - set (visiting (enter i s)) = (fst ` set m - set (visiting s)) - {i}"
      by (auto simp: enter_def)
    moreover have "i \<in> fst ` set m - set (visiting s)" using k False by simp
    ultimately have c: "card (fst ` set m - set (visiting (enter i s))) < n"
      using Suc.prems(2) by (metis List.finite_set Suc_less_eq card_Suc_Diff1 finite_Diff finite_imageI)
    have "each (visit n m) (dep_ids m i) (enter i s) \<noteq> Inl OutOfFuel"
      using each_fuel [where f = "visit n m" and m = m and vs = "visiting (enter i s)"]
        Suc.IH visit_step c enter_good [OF Suc.prems(1)] False by simp
    then show ?thesis using False by (auto simp: enter_def split: sum.splits)
  qed
qed

section \<open>Topological sort\<close>

lemma task_map_get:
  "js_get (fold (\<lambda>t m. js_set (taskId t) t m) ts m) i =
     (case List.find (\<lambda>t. taskId t = i) (rev ts) of Some t \<Rightarrow> Some t | None \<Rightarrow> js_get m i)"
proof (induction ts rule: rev_induct)
  case (snoc t ts)
  then show ?case by auto
qed simp

lemma task_map_of_get: "js_get (task_map_of ts) i = List.find (\<lambda>t. taskId t = i) (rev ts)"
  by (simp add: task_map_of_def task_map_get split: option.splits)

lemma task_map_of_unique:
  assumes "distinct (map taskId ts)" and "t \<in> set ts"
  shows "js_get (task_map_of ts) (taskId t) = Some t"
proof (cases "List.find (\<lambda>x. taskId x = taskId t) (rev ts)")
  case None
  then show ?thesis using assms(2) by (auto simp: find_None_iff)
next
  case (Some x)
  then have "x \<in> set ts" "taskId x = taskId t"
    by (auto simp: find_Some_iff) (metis length_rev nth_mem set_rev)
  then have "x = t" using assms by (metis distinct_map inj_onD)
  then show ?thesis using Some by (simp add: task_map_of_get)
qed

lemma task_map_of_keys: "fst ` set (task_map_of ts) = taskId ` set ts"
proof -
  have "i \<in> fst ` set (task_map_of ts) \<longleftrightarrow> i \<in> taskId ` set ts" for i
  proof -
    have "i \<in> fst ` set (task_map_of ts) \<longleftrightarrow> js_get (task_map_of ts) i \<noteq> None"
      by (simp add: js_get_None_iff)
    also have "\<dots> \<longleftrightarrow> i \<in> taskId ` set ts" by (auto simp: task_map_of_get find_None_iff)
    finally show ?thesis .
  qed
  then show ?thesis by blast
qed

lemma topo_start_good: "topo_good m topo_start"
  by (simp add: topo_good_def topo_start_def)

lemma topologicalSort_step:
  assumes "topologicalSort ts = Inr order"
  shows "\<exists>t. topo_step (task_map_of ts) (map taskId ts) topo_start t \<and> order = visited t"
proof -
  obtain t where e: "each (visit (length ts + 2) (task_map_of ts)) (map taskId ts) topo_start = Inr t"
    and o: "order = topo_result t"
    using assms by (auto simp: topologicalSort_def split: sum.splits)
  have "topo_step (task_map_of ts) (map taskId ts) topo_start t"
    by (rule each_step [OF visit_step e topo_start_good])
  then show ?thesis using o by (auto simp: topo_step_def topo_good_def)
qed

lemma topologicalSort_order:
  assumes "topologicalSort ts = Inr order"
  shows "distinct order" "topo_ordered (task_map_of ts) order" "taskId ` set ts \<subseteq> set order"
    "set order \<subseteq> (dep_rel (task_map_of ts))\<^sup>* `` (taskId ` set ts)"
proof -
  obtain t where t: "topo_step (task_map_of ts) (map taskId ts) topo_start t" "order = visited t"
    using topologicalSort_step [OF assms] by blast
  show "distinct order" "topo_ordered (task_map_of ts) order" "taskId ` set ts \<subseteq> set order"
    using t by (simp_all add: topo_step_def topo_good_def)
  show "set order \<subseteq> (dep_rel (task_map_of ts))\<^sup>* `` (taskId ` set ts)"
    using t by (simp add: topo_step_def topo_start_def)
qed

lemma topologicalSort_no_fuel: "topologicalSort ts \<noteq> Inl OutOfFuel"
proof -
  let ?m = "task_map_of ts"
  have "card (fst ` set ?m) \<le> length ts"
    unfolding task_map_of_keys by (metis card_length length_map set_map)
  then have c: "card (fst ` set ?m - set []) < length ts + 2" by simp
  have "each (visit (length ts + 2) ?m) (map taskId ts) topo_start \<noteq> Inl OutOfFuel"
  proof (rule each_fuel [where m = ?m and vs = "[]"])
    show "visit (length ts + 2) ?m i s \<noteq> Inl OutOfFuel" if "topo_good ?m s" "visiting s = []" for i s
      by (rule visit_fuel [OF that(1)]) (use c that(2) in simp)
    show "topo_step ?m [i] s t" if "visit (length ts + 2) ?m i s = Inr t" "topo_good ?m s" for i s t
      using that by (rule visit_step)
  qed (simp_all add: topo_start_good, simp add: topo_start_def)
  then show ?thesis by (auto simp: topologicalSort_def split: sum.splits)
qed

lemma topologicalSort_cycle:
  assumes "topologicalSort ts = Inl Circular"
  shows "\<exists>i. (i, i) \<in> (dep_rel (task_map_of ts))\<^sup>+"
proof -
  let ?m = "task_map_of ts"
  have e: "each (visit (length ts + 2) ?m) (map taskId ts) topo_start = Inl Circular"
    using assms by (simp add: topologicalSort_def split: sum.splits)
  show ?thesis
  proof (rule each_circular [OF _ _ e topo_start_good])
    show "\<exists>j. (j, j) \<in> (dep_rel ?m)\<^sup>+" if "visit (length ts + 2) ?m k r = Inl Circular" "topo_good ?m r"
      "\<forall>v \<in> set (visiting r). (v, k) \<in> (dep_rel ?m)\<^sup>+" for k r
      using visit_circular that by blast
    show "topo_step ?m [k] r q" if "visit (length ts + 2) ?m k r = Inr q" "topo_good ?m r" for k r q
      using that by (rule visit_step)
  qed (simp add: topo_start_def)
qed

lemma topologicalSort_ok_iff:
  "(\<exists>order. topologicalSort ts = Inr order) \<longleftrightarrow> (\<forall>i. (i, i) \<notin> (dep_rel (task_map_of ts))\<^sup>+)"
proof
  assume "\<exists>order. topologicalSort ts = Inr order"
  then obtain order where o: "topologicalSort ts = Inr order" by blast
  have "fst ` set (task_map_of ts) \<subseteq> set order"
    using topologicalSort_order(3) [OF o] by (simp add: task_map_of_keys)
  then show "\<forall>i. (i, i) \<notin> (dep_rel (task_map_of ts))\<^sup>+"
    using topo_ordered_acyclic [OF topologicalSort_order(2,1) [OF o]] by blast
next
  assume a: "\<forall>i. (i, i) \<notin> (dep_rel (task_map_of ts))\<^sup>+"
  show "\<exists>order. topologicalSort ts = Inr order"
  proof (cases "topologicalSort ts")
    case (Inl e)
    then have "topologicalSort ts = Inl Circular"
      using topologicalSort_no_fuel [of ts] by (cases e) auto
    then show ?thesis using topologicalSort_cycle a by blast
  qed blast
qed

text \<open>C3: the topological sort of tasks with different ids, when it returns, lists every task
  exactly once with all the task's dependencies, blocking or soft, before it.\<close>

theorem topological_order_correct:
  assumes "distinct (map taskId ts)" and "topologicalSort ts = Inr order"
  shows "distinct order \<and> taskId ` set ts \<subseteq> set order \<and>
    (\<forall>t \<in> set ts. \<exists>before after. order = before @ taskId t # after \<and>
        dep_taskId ` set (dependencies t) \<subseteq> set before)"
proof -
  note o = topologicalSort_order [OF assms(2)]
  have "\<exists>before after. order = before @ taskId t # after \<and> dep_taskId ` set (dependencies t) \<subseteq> set before"
    if t: "t \<in> set ts" for t
  proof -
    have "taskId t \<in> set order" using o(3) t by auto
    then obtain before after where s: "order = before @ taskId t # after" by (meson split_list)
    then have "set (dep_ids (task_map_of ts) (taskId t)) \<subseteq> set before"
      using o(2) unfolding topo_ordered_def by blast
    then show ?thesis using s task_map_of_unique [OF assms(1) t] by (auto simp: dep_ids_def)
  qed
  then show ?thesis using o(1,3) by blast
qed

definition plan_demo_task :: "string \<Rightarrow> (string \<times> dep_type) list \<Rightarrow> agent_task" where
  "plan_demo_task i deps = \<lparr>taskId = i, task_agentId = ''a'', task_workspaceId = ''w'', task_requestId = ''r'',
     task_traceId = ''t'', task_name = i, task_description = [], task_type = Execution,
     task_state = TaskPending, priority = Normal, task_input = JNull, task_output = JUndefined,
     task_error = None,
     dependencies = map (\<lambda>(d, ty). \<lparr>dep_taskId = d, dep_type = ty, dep_condition = None\<rparr>) deps,
     timeoutMs = 3000, retryStrategy = default_retry, task_metadata = [], metrics = fresh_metrics 0\<rparr>"

definition plan_demo_tasks :: "agent_task list" where
  "plan_demo_tasks = [plan_demo_task ''c'' [(''b'', Blocking), (''a'', Soft)],
     plan_demo_task ''b'' [(''a'', Blocking)], plan_demo_task ''a'' []]"

lemma plan_demo_sorts:
  "distinct (map taskId plan_demo_tasks)" "topologicalSort plan_demo_tasks = Inr [''a'', ''b'', ''c'']"
  by code_simp+

theorem topological_order_correct_witness:
  "topologicalSort plan_demo_tasks = Inr [''a'', ''b'', ''c''] \<and> distinct [''a'', ''b'', ''c''] \<and>
   taskId ` set plan_demo_tasks \<subseteq> set [''a'', ''b'', ''c'']"
  using topological_order_correct [OF plan_demo_sorts] plan_demo_sorts(2) by blast

text \<open>C13: the sort throws exactly when the dependency graph has a cycle, and the recursion is
  never deeper than the number of tasks plus two.\<close>

theorem topological_sort_fails_iff_cyclic:
  "(topologicalSort ts = Inl Circular \<longleftrightarrow> (\<exists>i. (i, i) \<in> (dep_rel (task_map_of ts))\<^sup>+)) \<and>
   topologicalSort ts \<noteq> Inl OutOfFuel"
proof (cases "topologicalSort ts")
  case (Inl e)
  then have "e = Circular" using topologicalSort_no_fuel [of ts] by (cases e) auto
  then show ?thesis using Inl topologicalSort_cycle [of ts] by simp
next
  case (Inr order)
  then have "\<forall>i. (i, i) \<notin> (dep_rel (task_map_of ts))\<^sup>+" using topologicalSort_ok_iff by blast
  then show ?thesis using Inr by simp
qed

end
