(* ===== verification/Planner_Plans.thy ===== *)
theory Planner_Plans
  imports Planner_Props
begin

text \<open>
  The properties of plans: what validation accepts, the accuracy of estimates, when a plan is
  created or merged and what it then holds, and how a task is split.
\<close>

section \<open>Validation\<close>

lemma dep_errors_Nil: "dep_errors ts = [] \<longleftrightarrow> (\<forall>t \<in> set ts. dep_taskId ` set (dependencies t) \<subseteq> taskId ` set ts)"
  by (force simp: dep_errors_def filter_empty_conv)

lemma unknown_errors_Nil: "unknown_errors w ts ids = [] \<longleftrightarrow> set ids \<subseteq> taskId ` set ts"
  by (force simp: unknown_errors_def filter_empty_conv)

lemma timeout_errors_Nil: "timeout_errors ts = [] \<longleftrightarrow> (\<forall>t \<in> set ts. 0 < timeoutMs t)"
  by (auto simp: timeout_errors_def filter_empty_conv not_le)

lemma hasCircular_iff: "hasCircularDependencies ts \<longleftrightarrow> \<not> (\<exists>order. topologicalSort ts = Inr order)"
  by (auto simp: hasCircularDependencies_def split: sum.splits)

lemma plan_errors_Nil:
  "plan_errors p = [] \<longleftrightarrow> pl_tasks p \<noteq> []
    \<and> (\<forall>t \<in> set (pl_tasks p). dep_taskId ` set (dependencies t) \<subseteq> taskId ` set (pl_tasks p))
    \<and> (\<forall>i. (i, i) \<notin> (dep_rel (task_map_of (pl_tasks p)))\<^sup>+)
    \<and> set (pl_taskOrder p) \<union> \<Union> (set ` set (pl_parallelGroups p)) \<subseteq> taskId ` set (pl_tasks p)
    \<and> 0 < pl_timeoutMs p \<and> (\<forall>t \<in> set (pl_tasks p). 0 < timeoutMs t)"
  by (simp add: plan_errors_def dep_errors_Nil unknown_errors_Nil timeout_errors_Nil hasCircular_iff
      topologicalSort_ok_iff not_le) blast

lemma dep_rel_in_tasks:
  "(i, d) \<in> dep_rel (task_map_of ts) \<Longrightarrow> \<exists>t \<in> set ts. taskId t = i \<and> d \<in> dep_taskId ` set (dependencies t)"
proof -
  assume a: "(i, d) \<in> dep_rel (task_map_of ts)"
  then obtain t where t: "js_get (task_map_of ts) i = Some t"
    by (cases "js_get (task_map_of ts) i") (auto simp: dep_rel_def dep_ids_def)
  then have "t \<in> set ts" "taskId t = i"
    by (auto simp: task_map_of_get find_Some_iff) (metis length_rev nth_mem set_rev)
  then show ?thesis using a t by (auto simp: dep_rel_def dep_ids_def)
qed

lemma order_of_closed:
  assumes "topologicalSort ts = Inr order"
    and "\<forall>t \<in> set ts. dep_taskId ` set (dependencies t) \<subseteq> taskId ` set ts"
  shows "set order = taskId ` set ts"
proof -
  have "y \<in> taskId ` set ts" if "(x, y) \<in> (dep_rel (task_map_of ts))\<^sup>*" "x \<in> taskId ` set ts" for x y
    using that
  proof (induction rule: rtrancl_induct)
    case (step y z)
    obtain t where "t \<in> set ts" "z \<in> dep_taskId ` set (dependencies t)"
      using dep_rel_in_tasks [OF step(2)] by blast
    then show ?case using assms(2) by blast
  qed
  then have "(dep_rel (task_map_of ts))\<^sup>* `` (taskId ` set ts) \<subseteq> taskId ` set ts" by (auto elim!: ImageE)
  from subset_trans [OF topologicalSort_order(4) [OF assms(1)] this] show ?thesis
    using topologicalSort_order(3) [OF assms(1)] by (rule equalityI)
qed

text \<open>C17: validation always returns; it accepts a plan exactly when the plan has tasks, every
  dependency, ordered id and grouped id names one of them, the dependencies are acyclic and
  all timeouts are positive; and the tasks of an accepted plan have an execution order of
  exactly their ids.\<close>

theorem plan_validation:
  "\<exists>r. validatePlan p = Inr r
    \<and> (vr_valid r \<longleftrightarrow> pl_tasks p \<noteq> []
        \<and> (\<forall>t \<in> set (pl_tasks p). dep_taskId ` set (dependencies t) \<subseteq> taskId ` set (pl_tasks p))
        \<and> (\<forall>i. (i, i) \<notin> (dep_rel (task_map_of (pl_tasks p)))\<^sup>+)
        \<and> set (pl_taskOrder p) \<union> \<Union> (set ` set (pl_parallelGroups p)) \<subseteq> taskId ` set (pl_tasks p)
        \<and> 0 < pl_timeoutMs p \<and> (\<forall>t \<in> set (pl_tasks p). 0 < timeoutMs t))
    \<and> (vr_valid r \<longrightarrow> (\<exists>order. topologicalSort (pl_tasks p) = Inr order
        \<and> distinct order \<and> set order = taskId ` set (pl_tasks p)))"
proof -
  have "\<exists>est. estimate (pl_tasks p) (pl_executionMode p) (Some (pl_parallelGroups p)) = Inr est"
    by (cases "pl_executionMode p") (simp_all add: estimate_def Let_def)
  then obtain est where e: "estimate (pl_tasks p) (pl_executionMode p) (Some (pl_parallelGroups p)) = Inr est" ..
  have "\<exists>order. topologicalSort (pl_tasks p) = Inr order \<and> distinct order \<and> set order = taskId ` set (pl_tasks p)"
    if v: "plan_errors p = []"
  proof -
    obtain order where o: "topologicalSort (pl_tasks p) = Inr order"
      using v topologicalSort_ok_iff [of "pl_tasks p"] by (auto simp: plan_errors_Nil)
    have "set order = taskId ` set (pl_tasks p)"
      by (rule order_of_closed [OF o]) (use v in \<open>simp add: plan_errors_Nil\<close>)
    then show ?thesis using o topologicalSort_order(1) [OF o] by blast
  qed
  then show ?thesis
    by (simp only: validatePlan_def e plan_errors_Nil [symmetric] sum.case) simp
qed

definition plan_demo :: agent_plan where
  "plan_demo = \<lparr>pl_planId = ''p'', pl_agentId = ''a'', pl_workspaceId = ''w'', pl_requestId = ''r'',
     pl_traceId = ''t'', pl_name = ''demo'', pl_description = [], pl_state = PlanDraft, pl_priority = Normal,
     pl_executionMode = Sequential, pl_tasks = plan_demo_tasks, pl_taskOrder = [''a'', ''b'', ''c''],
     pl_parallelGroups = [], pl_timeoutMs = 10000, pl_maxConcurrency = 5, pl_metadata = [],
     pl_metrics = pd_metrics (plan_create 0)\<rparr>"

lemma plan_demo_valid: "plan_errors plan_demo = []"
  unfolding plan_errors_def by code_simp

theorem plan_validation_witness:
  "\<exists>order. topologicalSort (pl_tasks plan_demo) = Inr order \<and> set order = taskId ` set (pl_tasks plan_demo)"
proof -
  obtain r where r: "validatePlan plan_demo = Inr r" and
    o: "vr_valid r \<longrightarrow> (\<exists>order. topologicalSort (pl_tasks plan_demo) = Inr order
        \<and> distinct order \<and> set order = taskId ` set (pl_tasks plan_demo))"
    using plan_validation [of plan_demo] by (elim exE conjE) (rule that)
  have "vr_valid r" using r plan_demo_valid by (auto simp: validatePlan_def split: sum.splits)
  then show ?thesis using o by blast
qed

section \<open>Estimates\<close>

lemma bit_count_le: "n < 2 ^ k \<Longrightarrow> bit_count n \<le> k"
proof (induction n arbitrary: k rule: bit_count.induct)
  case (1 n)
  show ?case
  proof (cases "n = 0")
    case True
    then show ?thesis by (simp add: bit_count.simps)
  next
    case False
    then obtain j where k: "k = Suc j" using "1.prems" by (cases k) auto
    then have "n div 2 < 2 ^ j" using "1.prems" by simp
    then show ?thesis using "1.IH" [OF False] False k by (simp add: bit_count.simps [of n])
  qed
qed

lemma round53_error:
  assumes "n < 2 ^ 92"
  shows "2 * round53 n \<le> 2 * n + 2 ^ 39 \<and> 2 * n \<le> 2 * round53 n + 2 ^ 39"
proof -
  define u :: nat where "u = 2 ^ (bit_count n - 53)"
  have "bit_count n - 53 \<le> 39" using bit_count_le [OF assms] by simp
  then have u: "u \<le> 2 ^ 39" unfolding u_def by (rule power_increasing) simp
  have n: "n = (n div u) * u + n mod u" by simp
  have r: "n mod u < u" by (simp add: u_def)
  have q: "(n div u + 1) * u = (n div u) * u + u" by simp
  show ?thesis
  proof (cases "2 * (n mod u) < u \<or> (2 * (n mod u) = u \<and> even (n div u))")
    case True
    then have "round53 n = (n div u) * u" by (simp add: round53_def Let_def u_def)
    moreover have "2 * (n mod u) \<le> u" using True by auto
    ultimately show ?thesis using n u by linarith
  next
    case False
    then have "round53 n = (n div u) * u + u" unfolding q [symmetric] by (simp add: round53_def Let_def u_def)
    moreover have "u \<le> 2 * (n mod u)" using False by auto
    ultimately show ?thesis using n u r by linarith
  qed
qed

text \<open>Ten per cent more, rounded up to a whole millisecond, or one millisecond beyond that.\<close>

lemma ceil_times_bounds:
  assumes "0 \<le> x" and "x \<le> 2 ^ 40"
  shows "11 * x \<le> 10 * ceil_times_1_1 x \<and> 10 * ceil_times_1_1 x \<le> 11 * x + 10"
proof -
  define n where "n = nat \<bar>x\<bar> * 2476979795053773"
  define p where "p = int (round53 n)"
  have ni: "int n = x * 2476979795053773" using assms(1) by (simp add: n_def)
  then have "int n < 2 ^ 92" using assms(2) by simp
  then have "n < 2 ^ 92" by (metis numeral_power_less_of_nat_cancel_iff of_nat_less_numeral_power_cancel_iff)
  from round53_error [OF this] have p: "2 * p \<le> 2 * int n + 2 ^ 39" "2 * int n \<le> 2 * p + 2 ^ 39"
    by (simp_all add: p_def)
  define e where "e = ceil_times_1_1 x"
  have e: "e = - ((- p) div 2 ^ 51)" using assms(1) by (simp add: e_def ceil_times_1_1_def Let_def p_def n_def)
  have "- p = (- p) div 2 ^ 51 * 2 ^ 51 + (- p) mod 2 ^ 51" by (rule div_mult_mod_eq [symmetric])
  moreover have "0 \<le> (- p) mod 2 ^ 51" "(- p) mod 2 ^ 51 < 2 ^ 51" by simp_all
  ultimately have "p \<le> e * 2 ^ 51" "e * 2 ^ 51 < p + 2 ^ 51" unfolding e by linarith+
  then have "11 * x \<le> 10 * e" "10 * e \<le> 11 * x + 10"
    using p assms unfolding ni by simp_all
  then show ?thesis by (simp add: e_def)
qed

lemma sum_timeouts_eq: "sum_timeouts ts = sum_list (map timeoutMs ts)"
proof -
  have "foldl (\<lambda>acc t. acc + timeoutMs t) a ts = a + sum_list (map timeoutMs ts)" for a
    by (induction ts arbitrary: a) simp_all
  then show ?thesis by (simp add: sum_timeouts_def)
qed

text \<open>What a plan of the mode takes without overhead.\<close>

definition plan_load :: "execution_mode \<Rightarrow> agent_task list \<Rightarrow> int" where
  "plan_load mode ts =
     (if mode = Parallel then Max (timeoutMs ` set ts) else sum_list (map timeoutMs ts))"

text \<open>the estimate of a sequential or parallel plan is the sum or the maximum of its task
  timeouts plus ten per cent, at least rounded up to the millisecond and at most one
  millisecond above that, the error of the double arithmetic included.\<close>

theorem estimate_accuracy:
  assumes "mode \<noteq> Mixed" and "ts \<noteq> []" and "0 \<le> plan_load mode ts" and "plan_load mode ts \<le> 2 ^ 40"
  shows "\<exists>e. estimate ts mode groups = Inr (Fin e)
    \<and> 11 * plan_load mode ts \<le> 10 * e \<and> 10 * e \<le> 11 * plan_load mode ts + 10"
proof -
  have "estimate ts mode groups = Inr (add_overhead (Fin (plan_load mode ts)))"
    using assms(1,2)
    by (cases mode) (simp_all add: estimate_def plan_load_def sum_timeouts_eq math_max_Fin)
  then show ?thesis using ceil_times_bounds [OF assms(3,4)] by (simp add: add_overhead_def)
qed

text \<open>\<open>3000 * 1.1\<close> is slightly above 3300 in double arithmetic.\<close>

lemma ceil_times_3000: "ceil_times_1_1 3000 = 3301"
  by (simp add: ceil_times_1_1_def round53_def bit_count.simps Let_def)

theorem estimate_accuracy_witness:
  "plan_load Parallel plan_demo_tasks = 3000 \<and> estimate plan_demo_tasks Parallel None = Inr (Fin 3301) \<and>
   (\<exists>e. estimate plan_demo_tasks Sequential None = Inr (Fin e) \<and> 99000 \<le> 10 * e \<and> 10 * e \<le> 99010)"
proof -
  have l: "plan_load Sequential plan_demo_tasks = 9000" by code_simp
  have "plan_load Parallel plan_demo_tasks = 3000" by code_simp
  moreover have "estimate plan_demo_tasks Parallel None = Inr (Fin 3301)"
    by (simp add: plan_demo_tasks_def plan_demo_task_def estimate_def add_overhead_def ceil_times_3000)
  moreover have "plan_demo_tasks \<noteq> []" by (simp add: plan_demo_tasks_def)
  ultimately show ?thesis using estimate_accuracy [of Sequential plan_demo_tasks None] l by simp
qed

section \<open>Created plans\<close>

lemma plan_task_ok: "(\<exists>t. plan_task pid now req k td = Inr t) \<longleftrightarrow> pt_input td \<noteq> JUndefined"
  unfolding plan_task_def Let_def task_build_ok_iff
  by (simp add: task_missing_def task_setters task_create_def)

lemma plan_task_fields:
  assumes "plan_task pid now req k td = Inr t"
  shows "dependencies t = []" "task_agentId t = pr_agentId req" "retryStrategy t = default_retry"
  using assms unfolding plan_task_def Let_def
  by (auto simp: task_build_def task_setters task_create_def split: option.splits)

lemma plan_tasks_ok:
  "(\<exists>ts. plan_tasks pid now req k tds = Inr ts) \<longleftrightarrow> (\<forall>td \<in> set tds. pt_input td \<noteq> JUndefined)"
proof (induction tds arbitrary: k)
  case (Cons td tds)
  show ?case
    using Cons.IH [of "Suc k"] plan_task_ok [of pid now req k td]
    by (auto split: sum.splits)
qed simp

lemma plan_tasks_fields:
  "plan_tasks pid now req k tds = Inr ts \<Longrightarrow> length ts = length tds \<and> (\<forall>t \<in> set ts. dependencies t = [])"
  by (induction tds arbitrary: k ts) (auto split: sum.splits dest: plan_task_fields(1))

lemma no_deps_acyclic:
  assumes "\<forall>t \<in> set ts. dependencies t = []"
  shows "dep_rel (task_map_of ts) = {}"
proof -
  have False if "(i, d) \<in> dep_rel (task_map_of ts)" for i d
    using dep_rel_in_tasks [OF that] assms by auto
  then show ?thesis by auto
qed

lemma build_order:
  assumes "\<forall>t \<in> set ts. dependencies t = []"
  shows "\<exists>order groups. buildExecutionPlan ts mode = Inr (order, groups)
    \<and> (if mode = Some Parallel then order = [] \<and> groups = [map taskId ts]
       else distinct order \<and> set order = taskId ` set ts \<and> groups = [])"
proof -
  have "\<forall>i. (i, i) \<notin> (dep_rel (task_map_of ts))\<^sup>+" by (simp add: no_deps_acyclic [OF assms])
  then obtain order where o: "topologicalSort ts = Inr order" using topologicalSort_ok_iff by blast
  have "set order = taskId ` set ts" by (rule order_of_closed [OF o]) (use assms in simp)
  then show ?thesis using o topologicalSort_order(1) [OF o] by (simp add: buildExecutionPlan_def)
qed

lemma estimate_without_groups: "(\<exists>e. estimate ts mode None = Inr e) \<longleftrightarrow> mode \<noteq> Mixed"
  by (cases mode) (simp_all add: estimate_def)

text \<open>Everything \<open>createPlan\<close> does once the tasks are built.\<close>

lemma createPlan_shape:
  assumes ts: "plan_tasks uuid now req 0 (pr_tasks req) = Inr ts" and m: "pr_executionMode req \<noteq> Some Mixed"
  shows "\<exists>p. createPlan uuid now req = Inr p \<and> pl_tasks p = ts \<and> pl_state p = PlanDraft \<and>
    pm_totalTasks (pl_metrics p) = length ts \<and>
    (if pr_executionMode req = Some Parallel
     then pl_taskOrder p = [] \<and> pl_parallelGroups p = [map taskId ts]
     else distinct (pl_taskOrder p) \<and> set (pl_taskOrder p) = taskId ` set ts \<and> pl_parallelGroups p = [])"
proof -
  have d: "\<forall>t \<in> set ts. dependencies t = []" using plan_tasks_fields [OF ts] by blast
  obtain order groups where b: "buildExecutionPlan ts (pr_executionMode req) = Inr (order, groups)"
    and og: "if pr_executionMode req = Some Parallel then order = [] \<and> groups = [map taskId ts]
       else distinct order \<and> set order = taskId ` set ts \<and> groups = []"
    using build_order [OF d] by blast
  have "or_else (pr_executionMode req) Sequential \<noteq> Mixed" using m by (auto simp: or_else_def split: option.splits)
  then obtain est where e: "estimate ts (or_else (pr_executionMode req) Sequential) None = Inr est"
    using estimate_without_groups by blast
  have "first_unknown ts order = None" using og by (auto simp: first_unknown_None split: if_splits)
  moreover have "first_unknown ts [] = None" by (simp add: first_unknown_None)
  ultimately have "\<exists>p. createPlan uuid now req = Inr p \<and> pl_tasks p = ts \<and> pl_state p = PlanDraft \<and>
      pm_totalTasks (pl_metrics p) = length ts \<and> pl_taskOrder p = order \<and> pl_parallelGroups p = groups"
    by (simp add: createPlan_def ts b e plan_build_def plan_missing_def plan_setters plan_create_def Let_def)
  then show ?thesis using og by auto
qed

text \<open>a plan is created exactly when every requested task has an input and the mode is not
  mixed: in mixed mode the duration estimate reads parallel groups that are not there yet.\<close>

theorem create_plan_succeeds_iff:
  "(\<exists>p. createPlan uuid now req = Inr p) \<longleftrightarrow>
     (\<forall>td \<in> set (pr_tasks req). pt_input td \<noteq> JUndefined) \<and> pr_executionMode req \<noteq> Some Mixed"
proof (cases "\<exists>ts. plan_tasks uuid now req 0 (pr_tasks req) = Inr ts")
  case True
  then obtain ts where ts: "plan_tasks uuid now req 0 (pr_tasks req) = Inr ts" ..
  have "(\<exists>p. createPlan uuid now req = Inr p) \<longleftrightarrow> pr_executionMode req \<noteq> Some Mixed"
  proof
    assume "\<exists>p. createPlan uuid now req = Inr p"
    then have "\<exists>e. estimate ts (or_else (pr_executionMode req) Sequential) None = Inr e"
      unfolding createPlan_def ts by (auto split: sum.splits)
    then show "pr_executionMode req \<noteq> Some Mixed" unfolding estimate_without_groups by (auto simp: or_else_def)
  next
    assume "pr_executionMode req \<noteq> Some Mixed"
    then show "\<exists>p. createPlan uuid now req = Inr p" using createPlan_shape [OF ts] by blast
  qed
  then show ?thesis using True plan_tasks_ok by blast
next
  case False
  then obtain e where "plan_tasks uuid now req 0 (pr_tasks req) = Inl e"
    by (cases "plan_tasks uuid now req 0 (pr_tasks req)") auto
  then have "\<not> (\<exists>p. createPlan uuid now req = Inr p)" by (simp add: createPlan_def)
  then show ?thesis using False plan_tasks_ok by blast
qed

definition demo_request :: "execution_mode option \<Rightarrow> planning_request" where
  "demo_request mode = \<lparr>pr_agentId = ''a'', pr_workspaceId = ''w'', pr_requestId = ''r'', pr_traceId = ''t'',
     pr_name = ''n'', pr_description = None, pr_priority = Normal,
     pr_tasks = [\<lparr>pt_taskId = Some ''x'', pt_name = None, pt_description = None, pt_type = None, pt_state = None,
        pt_priority = None, pt_input = JNum 1,
        pt_dependencies = Some [\<lparr>dep_taskId = ''y'', dep_type = Blocking, dep_condition = None\<rparr>],
        pt_timeoutMs = None, pt_metadata = None\<rparr>],
     pr_executionMode = mode, pr_maxConcurrency = None, pr_timeoutMs = None, pr_metadata = None\<rparr>"

theorem create_plan_succeeds_iff_witness:
  "(\<exists>p. createPlan ''u'' 0 (demo_request None) = Inr p) \<and>
   \<not> (\<exists>p. createPlan ''u'' 0 (demo_request (Some Mixed)) = Inr p)"
  unfolding create_plan_succeeds_iff by (simp add: demo_request_def)

text \<open>a created plan is a draft with one task for each requested one, in an order (or, in
  parallel mode, one group) of exactly their ids, and none of its tasks has a dependency:
  those of the request are lost.\<close>

theorem created_plan_has_no_dependencies:
  assumes "createPlan uuid now req = Inr p"
  shows "length (pl_tasks p) = length (pr_tasks req) \<and> pl_state p = PlanDraft
    \<and> (\<forall>t \<in> set (pl_tasks p). dependencies t = [])
    \<and> set (pl_taskOrder p) \<union> \<Union> (set ` set (pl_parallelGroups p)) = taskId ` set (pl_tasks p)"
proof -
  obtain ts where ts: "plan_tasks uuid now req 0 (pr_tasks req) = Inr ts"
    using assms by (cases "plan_tasks uuid now req 0 (pr_tasks req)") (auto simp: createPlan_def)
  have "pr_executionMode req \<noteq> Some Mixed" using create_plan_succeeds_iff assms by blast
  from createPlan_shape [OF ts this] show ?thesis
    using assms plan_tasks_fields [OF ts] by (auto split: if_splits)
qed

theorem created_plan_has_no_dependencies_witness:
  "\<exists>p. createPlan ''u'' 0 (demo_request None) = Inr p \<and> length (pl_tasks p) = 1 \<and>
     list_all (\<lambda>t. dependencies t = []) (pl_tasks p) \<and> pt_dependencies (hd (pr_tasks (demo_request None))) \<noteq> None"
proof -
  have "(\<forall>td \<in> set (pr_tasks (demo_request None)). pt_input td \<noteq> JUndefined)
      \<and> pr_executionMode (demo_request None) \<noteq> Some Mixed" by (simp add: demo_request_def)
  then have "\<exists>ts. plan_tasks ''u'' 0 (demo_request None) 0 (pr_tasks (demo_request None)) = Inr ts"
    unfolding plan_tasks_ok by blast
  then obtain ts where "plan_tasks ''u'' 0 (demo_request None) 0 (pr_tasks (demo_request None)) = Inr ts" ..
  from createPlan_shape [OF this] obtain p where p: "createPlan ''u'' 0 (demo_request None) = Inr p"
    by (auto simp: demo_request_def)
  have "length (pr_tasks (demo_request None)) = 1" "pt_dependencies (hd (pr_tasks (demo_request None))) \<noteq> None"
    by (simp_all add: demo_request_def)
  then show ?thesis using p created_plan_has_no_dependencies [OF p] by (auto simp: list_all_iff)
qed

section \<open>Merged plans\<close>

lemma task_map_wf: "js_wf (task_map_of ts)"
proof -
  have "js_wf m \<Longrightarrow> js_wf (fold (\<lambda>t m. js_set (taskId t) t m) ts m)" for m
    by (induction ts arbitrary: m) simp_all
  then show ?thesis by (simp add: task_map_of_def)
qed

lemma task_map_entry:
  assumes "(i, t) \<in> set (task_map_of ts)"
  shows "taskId t = i" "js_get (task_map_of ts) i = Some t"
proof -
  show g: "js_get (task_map_of ts) i = Some t" using assms js_get_wf [OF task_map_wf] by blast
  show "taskId t = i" using g by (auto simp: task_map_of_get find_Some_iff)
qed

lemma task_map_values_ids: "map taskId (js_values (task_map_of ts)) = map fst (task_map_of ts)"
  using task_map_entry(1) by (fastforce simp: js_values_def)

text \<open>The distinct tasks, prioritised, have the same lookup as the map they came from.\<close>

lemma prioritized_map:
  fixes all :: "agent_task list"
  defines "pr \<equiv> prioritize (js_values (task_map_of all))"
  shows "distinct (map taskId pr)" "taskId ` set pr = taskId ` set all"
    "js_get (task_map_of pr) = js_get (task_map_of all)"
    "t \<in> set pr \<Longrightarrow> js_get (task_map_of all) (taskId t) = Some t"
proof -
  have mp: "mset pr = mset (js_values (task_map_of all))" by (simp add: pr_def prioritize_def)
  have "mset (map taskId pr) = mset (map fst (task_map_of all))"
    by (simp add: mp flip: task_map_values_ids)
  then show d: "distinct (map taskId pr)"
    using task_map_wf [of all] by (metis distinct_count_atmost_1 js_wf_def mset_eq_setD)
  have sp: "set pr = snd ` set (task_map_of all)"
    using mset_eq_setD [OF mp] by (simp add: js_values_def)
  show get: "js_get (task_map_of all) (taskId t) = Some t" if "t \<in> set pr" for t
    using that task_map_entry unfolding sp by fastforce
  have "taskId ` set pr = fst ` set (task_map_of all)"
    using arg_cong [OF task_map_values_ids [of all], of set] by (simp add: sp js_values_def image_image)
  then show ids: "taskId ` set pr = taskId ` set all" by (simp add: task_map_of_keys)
  show "js_get (task_map_of pr) = js_get (task_map_of all)"
  proof
    fix i
    show "js_get (task_map_of pr) i = js_get (task_map_of all) i"
    proof (cases "i \<in> taskId ` set all")
      case True
      then obtain t where "t \<in> set pr" "taskId t = i" using ids by (metis imageE)
      then show ?thesis using task_map_of_unique [OF d, of t] get by auto
    next
      case False
      then show ?thesis using ids by (metis js_get_None_iff task_map_of_keys)
    qed
  qed
qed

lemma dep_rel_cong: "js_get m = js_get m' \<Longrightarrow> dep_rel m = dep_rel m'"
  by (simp add: dep_rel_def dep_ids_def)

lemma order_within_ids:
  assumes "topologicalSort ts = Inr order" and d: "distinct (map taskId ts)"
  shows "set order \<subseteq> taskId ` set ts \<longleftrightarrow> (\<forall>t \<in> set ts. dep_taskId ` set (dependencies t) \<subseteq> taskId ` set ts)"
proof
  assume a: "set order \<subseteq> taskId ` set ts"
  have "dep_taskId ` set (dependencies t) \<subseteq> set order" if t: "t \<in> set ts" for t
  proof -
    have "taskId t \<in> set order" using topologicalSort_order(3) [OF assms(1)] t by auto
    then obtain ys zs where "order = ys @ taskId t # zs" by (meson split_list)
    moreover from this have "set (dep_ids (task_map_of ts) (taskId t)) \<subseteq> set ys"
      using topologicalSort_order(2) [OF assms(1)] unfolding topo_ordered_def by blast
    ultimately show ?thesis using task_map_of_unique [OF d t] by (auto simp: dep_ids_def)
  qed
  then show "\<forall>t \<in> set ts. dep_taskId ` set (dependencies t) \<subseteq> taskId ` set ts" using a by blast
next
  assume "\<forall>t \<in> set ts. dep_taskId ` set (dependencies t) \<subseteq> taskId ` set ts"
  then show "set order \<subseteq> taskId ` set ts" using order_of_closed [OF assms(1)] by simp
qed

definition merged_tasks :: "agent_plan list \<Rightarrow> agent_task list" where
  "merged_tasks plans = prioritize (js_values (task_map_of (concat (map pl_tasks plans))))"

lemma merge_build:
  assumes "length plans \<ge> 2"
  shows "merge_plans uuid now plans = (case topologicalSort (merged_tasks plans) of
     Inl e \<Rightarrow> Inl (topo_message e)
   | Inr order \<Rightarrow>
      (case first_unknown (merged_tasks plans) order of
         Some i \<Rightarrow> Inl (PlainError (''Task '' @ sq i @ '' in task order not found in tasks''))
       | None \<Rightarrow> merge_plans uuid now plans))"
proof -
  obtain b c ps where p: "plans = b # c # ps"
    using assms by (cases plans; cases "tl plans") auto
  show ?thesis
    unfolding p merge_plans_def merged_tasks_def
    by (auto simp: Let_def buildExecutionPlan_def plan_build_def plan_missing_def plan_setters plan_create_def
        split: sum.splits option.splits)
qed

lemma merge_ok:
  assumes "length plans \<ge> 2" and o: "topologicalSort (merged_tasks plans) = Inr order"
    and f: "first_unknown (merged_tasks plans) order = None"
  shows "\<exists>p. merge_plans uuid now plans = Inr p \<and> pl_tasks p = merged_tasks plans \<and> pl_taskOrder p = order
    \<and> pl_parallelGroups p = concat (map pl_parallelGroups plans) \<and> pl_executionMode p = Mixed"
proof -
  obtain b c ps where p: "plans = b # c # ps"
    using assms(1) by (cases plans; cases "tl plans") auto
  have "first_unknown (merged_tasks plans) [] = None" by (simp add: first_unknown_None)
  then show ?thesis using o f
    unfolding p merge_plans_def merged_tasks_def
    by (simp add: Let_def buildExecutionPlan_def plan_build_def plan_missing_def plan_setters plan_create_def)
qed

text \<open>merging two or more plans succeeds exactly when the tasks that survive (for each id
  the last plan's) have acyclic dependencies that all name surviving tasks; a dependency on a
  task outside the plans makes it throw. The merged plan has each id once, ordered.\<close>

theorem merge_plans_spec:
  assumes "length plans \<ge> 2" and "all = concat (map pl_tasks plans)"
    and "M = task_map_of all"
  shows "((\<exists>p. merge_plans uuid now plans = Inr p) \<longleftrightarrow> (\<forall>i. (i, i) \<notin> (dep_rel M)\<^sup>+) \<and>
        (\<forall>i d. (i, d) \<in> dep_rel M \<longrightarrow> d \<in> taskId ` set all))
    \<and> (\<forall>p. merge_plans uuid now plans = Inr p \<longrightarrow> distinct (map taskId (pl_tasks p))
        \<and> (\<forall>t \<in> set (pl_tasks p). js_get M (taskId t) = Some t)
        \<and> distinct (pl_taskOrder p) \<and> set (pl_taskOrder p) = taskId ` set all)"
proof -
  let ?ts = "merged_tasks plans"
  have ts: "distinct (map taskId ?ts)" "taskId ` set ?ts = taskId ` set all"
    "js_get (task_map_of ?ts) = js_get M" "\<And>t. t \<in> set ?ts \<Longrightarrow> js_get M (taskId t) = Some t"
    unfolding merged_tasks_def assms(2,3) by (rule prioritized_map; assumption?)+
  have rel: "dep_rel (task_map_of ?ts) = dep_rel M" by (rule dep_rel_cong [OF ts(3)])
  have deps: "(\<forall>i d. (i, d) \<in> dep_rel M \<longrightarrow> d \<in> taskId ` set all)
      \<longleftrightarrow> (\<forall>t \<in> set ?ts. dep_taskId ` set (dependencies t) \<subseteq> taskId ` set ?ts)" (is "?l \<longleftrightarrow> ?r")
  proof
    assume l: ?l
    have "dep_taskId ` set (dependencies t) \<subseteq> taskId ` set ?ts" if "t \<in> set ?ts" for t
    proof -
      have "(taskId t, d) \<in> dep_rel M" if "d \<in> dep_taskId ` set (dependencies t)" for d
        using ts(4) [OF \<open>t \<in> set ?ts\<close>] that by (simp add: dep_rel_def dep_ids_def)
      then show ?thesis using l ts(2) by blast
    qed
    then show ?r by blast
  next
    assume r: ?r
    have "d \<in> taskId ` set all" if "(i, d) \<in> dep_rel M" for i d
    proof -
      have "(i, d) \<in> dep_rel (task_map_of ?ts)" using that by (simp add: rel)
      from dep_rel_in_tasks [OF this] obtain t
        where "t \<in> set ?ts" "d \<in> dep_taskId ` set (dependencies t)" by blast
      then show ?thesis using r ts(2) by blast
    qed
    then show ?l by blast
  qed
  show ?thesis
  proof (cases "topologicalSort ?ts")
    case (Inl e)
    then have "\<not> (\<exists>order. topologicalSort ?ts = Inr order)" by simp
    then have "\<not> (\<forall>i. (i, i) \<notin> (dep_rel M)\<^sup>+)" unfolding topologicalSort_ok_iff rel .
    moreover have "merge_plans uuid now plans = Inl (topo_message e)"
      using merge_build [OF assms(1), of uuid now] Inl by simp
    ultimately show ?thesis by simp
  next
    case (Inr order)
    then have "\<exists>order. topologicalSort ?ts = Inr order" ..
    then have acy: "\<forall>i. (i, i) \<notin> (dep_rel M)\<^sup>+" unfolding topologicalSort_ok_iff rel .
    have fu: "first_unknown ?ts order = None \<longleftrightarrow> (\<forall>i d. (i, d) \<in> dep_rel M \<longrightarrow> d \<in> taskId ` set all)"
      unfolding deps first_unknown_None by (rule order_within_ids [OF Inr ts(1)])
    show ?thesis
    proof (cases "first_unknown ?ts order")
      case None
      then have sub: "set order \<subseteq> taskId ` set all" unfolding first_unknown_None ts(2) .
      have "set order = taskId ` set all" using topologicalSort_order(3) [OF Inr] sub ts(2) by auto
      then show ?thesis
        using merge_ok [OF assms(1) Inr None, of uuid now] acy fu None ts(1,4) topologicalSort_order(1) [OF Inr]
        by auto
    next
      case (Some i)
      then have "merge_plans uuid now plans = Inl (PlainError (''Task '' @ sq i @ '' in task order not found in tasks''))"
        using merge_build [OF assms(1), of uuid now] Inr by simp
      then show ?thesis using fu Some by auto
    qed
  qed
qed

theorem merge_plans_spec_witness:
  "length [plan_demo, plan_demo\<lparr>pl_tasks := [plan_demo_task ''z'' [(''q'', Soft)]]\<rparr>] \<ge> 2 \<and>
   \<not> (\<exists>p. merge_plans ''u'' 0 [plan_demo, plan_demo\<lparr>pl_tasks := [plan_demo_task ''z'' [(''q'', Soft)]]\<rparr>] = Inr p)"
proof -
  let ?ps = "[plan_demo, plan_demo\<lparr>pl_tasks := [plan_demo_task ''z'' [(''q'', Soft)]]\<rparr>]"
  let ?all = "concat (map pl_tasks ?ps)"
  have l: "length ?ps \<ge> 2" by simp
  have "List.member (dep_ids (task_map_of ?all) ''z'') ''q''" by code_simp
  then have "(''z'', ''q'') \<in> dep_rel (task_map_of ?all)" by (simp add: dep_rel_def)
  moreover have "''q'' \<notin> taskId ` set ?all"
    by (simp add: plan_demo_def plan_demo_tasks_def plan_demo_task_def)
  ultimately show ?thesis using l merge_plans_spec [OF l refl refl, of "''u''" 0] by blast
qed

section \<open>Split tasks\<close>

lemma createSubtask_ok:
  assumes "task_input par \<noteq> JUndefined"
  shows "\<exists>s. createSubtask now par (suffix, nm) = Inr s \<and> taskId s = taskId par @ ''_'' @ suffix \<and>
     task_agentId s = task_agentId par \<and> priority s = priority par \<and> task_state s = TaskPending \<and>
     retryStrategy s = retryStrategy par \<and> task_input s = task_input par \<and>
     timeoutMs s = ceil_third (timeoutMs par)"
proof -
  have r: "d_retryStrategy (set_task_retry (full_patch x) d) = x" for x d by (rule set_task_retry_full)
  show ?thesis
    using assms r by (simp add: createSubtask_def task_build_def task_missing_def task_setters task_create_def
        full_patch_def Let_def)
qed

lemma subtasks_ok:
  assumes "task_input par \<noteq> JUndefined"
  shows "\<exists>ss. subtasks_of now par xs = Inr ss \<and> map taskId ss = map (\<lambda>x. taskId par @ ''_'' @ fst x) xs \<and>
     (\<forall>s \<in> set ss. task_agentId s = task_agentId par \<and> priority s = priority par \<and> task_state s = TaskPending
       \<and> retryStrategy s = retryStrategy par \<and> task_input s = task_input par
       \<and> timeoutMs s = ceil_third (timeoutMs par))"
proof (induction xs)
  case (Cons x xs)
  obtain s where "createSubtask now par x = Inr s" "taskId s = taskId par @ ''_'' @ fst x"
     "task_agentId s = task_agentId par \<and> priority s = priority par \<and> task_state s = TaskPending \<and>
     retryStrategy s = retryStrategy par \<and> task_input s = task_input par \<and>
     timeoutMs s = ceil_third (timeoutMs par)"
    using createSubtask_ok [OF assms, of now "fst x" "snd x"] by auto
  then show ?case using Cons.IH by auto
qed simp

lemma split_names_distinct: "distinct (map fst (split_names ty n))"
proof -
  let ?f = "\<lambda>i. ''step_'' @ nat_digits (i + 1)"
  have "distinct (map ?f [0..<3])" by (simp add: upt_rec nat_digits.simps)
  then have "distinct (take (nat (min n 3)) (map ?f [0..<3]))" by (rule distinct_take)
  moreover have "take (nat (min n 3)) (map ?f [0..<3]) = map ?f [0..<nat (min n 3)]"
    by (simp add: take_map)
  ultimately have "distinct (map ?f [0..<nat (min n 3)])" by simp
  then show ?thesis by (cases ty) (simp_all add: split_names_def comp_def)
qed

lemma ceil_third_covers: "n \<le> 3 * ceil_third n"
  unfolding ceil_third_def by linarith

text \<open>a task with an input is split into pending subtasks with different ids that inherit
  its agent, priority, retry strategy and input; the parts of an execution or analysis task
  together have at least its timeout.\<close>

theorem split_task_parts:
  assumes "task_input t \<noteq> JUndefined"
  shows "\<exists>r. splitTasks now t n = Inr r \<and> distinct (map taskId (sr_subtasks r))
    \<and> (\<forall>s \<in> set (sr_subtasks r). task_agentId s = task_agentId t \<and> priority s = priority t
        \<and> task_state s = TaskPending \<and> retryStrategy s = retryStrategy t \<and> task_input s = task_input t)
    \<and> (task_type t = Execution \<or> task_type t = Analysis \<longrightarrow>
        timeoutMs t \<le> sum_list (map timeoutMs (sr_subtasks r)))"
proof -
  let ?ns = "split_names (task_type t) n"
  obtain ss where ss: "subtasks_of now t ?ns = Inr ss" "map taskId ss = map (\<lambda>x. taskId t @ ''_'' @ fst x) ?ns"
    and inh: "\<forall>s \<in> set ss. task_agentId s = task_agentId t \<and> priority s = priority t \<and> task_state s = TaskPending
       \<and> retryStrategy s = retryStrategy t \<and> task_input s = task_input t \<and> timeoutMs s = ceil_third (timeoutMs t)"
    using subtasks_ok [OF assms] by blast
  have "map taskId ss = map (\<lambda>y. taskId t @ ''_'' @ y) (map fst ?ns)" by (simp add: ss(2))
  then have d: "distinct (map taskId ss)"
    using split_names_distinct [of "task_type t" n] by (simp add: distinct_map inj_on_def)
  have "map timeoutMs ss = replicate (length ss) (ceil_third (timeoutMs t))"
    using inh by (auto intro: replicate_eqI)
  then have "sum_list (map timeoutMs ss) = int (length ss) * ceil_third (timeoutMs t)"
    by (simp add: sum_list_replicate)
  moreover have "length ss = length ?ns" using arg_cong [OF ss(2), of length] by simp
  ultimately have "timeoutMs t \<le> sum_list (map timeoutMs ss)" if "task_type t = Execution \<or> task_type t = Analysis"
    using that ceil_third_covers [of "timeoutMs t"] by (auto simp: split_names_def)
  then show ?thesis using ss(1) d inh by (simp add: splitTasks_def)
qed

theorem split_task_parts_witness:
  "task_input (plan_demo_task ''a'' []) \<noteq> JUndefined \<and>
   (\<exists>r. splitTasks 0 (plan_demo_task ''a'' []) 5 = Inr r \<and> distinct (map taskId (sr_subtasks r)))"
proof -
  have h: "task_input (plan_demo_task ''a'' []) \<noteq> JUndefined" by (simp add: plan_demo_task_def)
  obtain r where "splitTasks 0 (plan_demo_task ''a'' []) 5 = Inr r" "distinct (map taskId (sr_subtasks r))"
    using split_task_parts [OF h, of 0 5] by (elim exE conjE) (rule that)
  then show ?thesis using h by simp
qed

end
