(* ===== verification/Agent_Message.thy ===== *)
theory Agent_Message
  imports Agent_Types
begin

text \<open>
  The messages of \<open>agents/communication/agent-message.ts\<close> and \<open>AgentMessageBuilder\<close>, and the
  key by which both mailboxes keep their messages: priority, then age.
\<close>

datatype message_type = MsgRequest | MsgResponse | MsgNotification | MsgBroadcast | MsgError

datatype message_status = MsgPending | MsgSent | MsgDelivered | MsgProcessed | MsgFailed

record agent_message =
  messageId :: string
  senderAgentId :: string
  receiverAgentId :: "string option"
  conversationId :: "string option"
  msg_workspaceId :: string
  msg_requestId :: string
  msg_traceId :: string
  timestamp :: time_ms
  msg_priority :: agent_priority
  msg_type :: message_type
  msg_status :: message_status
  payload :: jsval
  msg_metadata :: js_record

text \<open>The receiver as the code tests it: \<open>undefined\<close> and the empty string are both falsy.\<close>

definition addressee :: "agent_message \<Rightarrow> string option" where
  "addressee m = (case receiverAgentId m of Some r \<Rightarrow> (if r = [] then None else Some r) | None \<Rightarrow> None)"

definition add_msg_metadata :: "js_record \<Rightarrow> agent_message \<Rightarrow> agent_message" where
  "add_msg_metadata fs m = m\<lparr>msg_metadata := js_spread (msg_metadata m) fs\<rparr>"

section \<open>The builder\<close>

record message_draft =
  md_messageId :: "string option"
  md_senderAgentId :: "string option"
  md_receiverAgentId :: "string option"
  md_conversationId :: "string option"
  md_workspaceId :: "string option"
  md_requestId :: "string option"
  md_traceId :: "string option"
  md_timestamp :: "time_ms option"
  md_priority :: "agent_priority option"
  md_type :: "message_type option"
  md_status :: "message_status option"
  md_payload :: jsval
  md_metadata :: js_record

definition message_create :: message_draft where
  "message_create = \<lparr>md_messageId = None, md_senderAgentId = None, md_receiverAgentId = None,
     md_conversationId = None, md_workspaceId = None, md_requestId = None, md_traceId = None,
     md_timestamp = None, md_priority = None, md_type = None, md_status = None,
     md_payload = JUndefined, md_metadata = []\<rparr>"

definition set_msg_id :: "string \<Rightarrow> message_draft \<Rightarrow> message_draft" where
  "set_msg_id x d = d\<lparr>md_messageId := Some x\<rparr>"

definition set_msg_sender :: "string \<Rightarrow> message_draft \<Rightarrow> message_draft" where
  "set_msg_sender x d = d\<lparr>md_senderAgentId := Some x\<rparr>"

definition set_msg_receiver :: "string \<Rightarrow> message_draft \<Rightarrow> message_draft" where
  "set_msg_receiver x d = d\<lparr>md_receiverAgentId := Some x\<rparr>"

definition set_msg_conversation :: "string \<Rightarrow> message_draft \<Rightarrow> message_draft" where
  "set_msg_conversation x d = d\<lparr>md_conversationId := Some x\<rparr>"

definition set_msg_workspace :: "string \<Rightarrow> message_draft \<Rightarrow> message_draft" where
  "set_msg_workspace x d = d\<lparr>md_workspaceId := Some x\<rparr>"

definition set_msg_request :: "string \<Rightarrow> message_draft \<Rightarrow> message_draft" where
  "set_msg_request x d = d\<lparr>md_requestId := Some x\<rparr>"

definition set_msg_trace :: "string \<Rightarrow> message_draft \<Rightarrow> message_draft" where
  "set_msg_trace x d = d\<lparr>md_traceId := Some x\<rparr>"

definition set_msg_timestamp :: "time_ms \<Rightarrow> message_draft \<Rightarrow> message_draft" where
  "set_msg_timestamp x d = d\<lparr>md_timestamp := Some x\<rparr>"

definition set_msg_priority :: "agent_priority \<Rightarrow> message_draft \<Rightarrow> message_draft" where
  "set_msg_priority x d = d\<lparr>md_priority := Some x\<rparr>"

definition set_msg_type :: "message_type \<Rightarrow> message_draft \<Rightarrow> message_draft" where
  "set_msg_type x d = d\<lparr>md_type := Some x\<rparr>"

definition set_msg_status :: "message_status \<Rightarrow> message_draft \<Rightarrow> message_draft" where
  "set_msg_status x d = d\<lparr>md_status := Some x\<rparr>"

definition set_msg_payload :: "jsval \<Rightarrow> message_draft \<Rightarrow> message_draft" where
  "set_msg_payload x d = d\<lparr>md_payload := x\<rparr>"

definition merge_msg_metadata :: "js_record \<Rightarrow> message_draft \<Rightarrow> message_draft" where
  "merge_msg_metadata fs d = d\<lparr>md_metadata := js_spread (md_metadata d) fs\<rparr>"

definition message_missing :: "message_draft \<Rightarrow> string option" where
  "message_missing d =
     (if md_messageId d = None then Some ''messageId''
      else if md_senderAgentId d = None then Some ''senderAgentId''
      else if md_workspaceId d = None then Some ''workspaceId''
      else if md_requestId d = None then Some ''requestId''
      else if md_traceId d = None then Some ''traceId''
      else if md_timestamp d = None then Some ''timestamp''
      else if md_priority d = None then Some ''priority''
      else if md_type d = None then Some ''type''
      else if md_status d = None then Some ''status''
      else if md_payload d = JUndefined then Some ''payload''
      else None)"

definition message_build :: "message_draft \<Rightarrow> agent_error + agent_message" where
  "message_build d =
     (case message_missing d of
        Some f \<Rightarrow> Inl (PlainError (''Message field '' @ sq f @ '' is required''))
      | None \<Rightarrow> Inr \<lparr>messageId = the (md_messageId d), senderAgentId = the (md_senderAgentId d),
          receiverAgentId = md_receiverAgentId d, conversationId = md_conversationId d,
          msg_workspaceId = the (md_workspaceId d), msg_requestId = the (md_requestId d),
          msg_traceId = the (md_traceId d), timestamp = the (md_timestamp d),
          msg_priority = the (md_priority d), msg_type = the (md_type d), msg_status = the (md_status d),
          payload = md_payload d, msg_metadata = md_metadata d\<rparr>)"

lemma message_build_ok_iff: "(\<exists>m. message_build d = Inr m) \<longleftrightarrow> message_missing d = None"
  by (auto simp: message_build_def split: option.splits)

section \<open>Mailbox order\<close>

definition msg_key :: "agent_message \<Rightarrow> agent_priority \<times> time_ms" where
  "msg_key m = (msg_priority m, timestamp m)"

text \<open>
  The loop of both \<open>insertByPriority\<close> methods over the stored elements, where \<open>msg\<close> reads an
  element's message: it stops at the first one of lower priority, or of equal priority and
  later timestamp.
\<close>

fun insert_index :: "('a \<Rightarrow> agent_message) \<Rightarrow> agent_message \<Rightarrow> 'a list \<Rightarrow> nat \<Rightarrow> nat" where
  "insert_index msg m [] i = i"
| "insert_index msg m (x # q) i =
     (if priorityOrder (msg_priority m) < priorityOrder (msg_priority (msg x)) then i
      else if priorityOrder (msg_priority m) = priorityOrder (msg_priority (msg x))
              \<and> timestamp m < timestamp (msg x) then i
      else insert_index msg m q (Suc i))"

definition insertByPriority :: "('a \<Rightarrow> agent_message) \<Rightarrow> 'a \<Rightarrow> 'a list \<Rightarrow> 'a list" where
  "insertByPriority msg x q = splice_in (insert_index msg (msg x) q 0) x q"

lemma msg_key_less:
  "msg_key m < msg_key m' \<longleftrightarrow> priorityOrder (msg_priority m) < priorityOrder (msg_priority m')
     \<or> (msg_priority m = msg_priority m' \<and> timestamp m < timestamp m')"
  by (auto simp: msg_key_def less_agent_priority_def less_eq_agent_priority_def less_prod_def')

lemma insert_index_first:
  "insert_index msg m q i = i + first_index (\<lambda>x. msg_key m < msg_key (msg x)) q"
  by (induction q arbitrary: i) (auto simp: msg_key_less)

lemma insertByPriority_split:
  "insertByPriority msg x q = takeWhile (\<lambda>y. msg_key (msg y) \<le> msg_key (msg x)) q
     @ x # dropWhile (\<lambda>y. msg_key (msg y) \<le> msg_key (msg x)) q"
  unfolding insertByPriority_def insert_index_first
  by (simp add: splice_in_split not_less)

interpretation mailbox: prio_insert "\<lambda>x. msg_key (msg x)" "insertByPriority msg" for msg
  by unfold_locales (rule insertByPriority_split)

end
