(* ===== verification/Mailboxes.thy ===== *)
theory Mailboxes
  imports Agent_Message
begin

text \<open>
  \<open>AgentInbox\<close> and \<open>AgentOutbox\<close> (\<open>agents/communication/agent-inbox.ts\<close>,
  \<open>agents/communication/agent-outbox.ts\<close>), their invariants and what their operations promise.
\<close>

section \<open>Inbox\<close>

record inbox =
  ib_agentId :: string
  ib_messages :: "agent_message list"

definition mailbox_max :: nat where
  "mailbox_max = 1000"

definition new_inbox :: "string \<Rightarrow> inbox" where
  "new_inbox a = \<lparr>ib_agentId = a, ib_messages = []\<rparr>"

text \<open>\<open>push\<close> refuses a message with another receiver; one without a receiver is accepted.\<close>

definition misaddressed :: "inbox \<Rightarrow> agent_message \<Rightarrow> bool" where
  "misaddressed b m = (case addressee m of Some r \<Rightarrow> r \<noteq> ib_agentId b | None \<Rightarrow> False)"

definition delivered_copy :: "time_ms \<Rightarrow> string \<Rightarrow> agent_message \<Rightarrow> agent_message" where
  "delivered_copy now a m = add_msg_metadata [(''deliveredAt'', JDate now), (''deliveredToAgent'', JStr a)]
     (m\<lparr>msg_status := MsgDelivered\<rparr>)"

definition inbox_push :: "time_ms \<Rightarrow> agent_message \<Rightarrow> inbox \<Rightarrow> inbox \<times> (agent_error + unit)" where
  "inbox_push now m b =
     (if misaddressed b m
      then (b, Inl (PlainError (''Message not addressed to agent '' @ ib_agentId b)))
      else if length (ib_messages b) \<ge> mailbox_max
      then (b, Inl (PlainError (''Inbox full: maximum '' @ nat_digits mailbox_max @ '' messages'')))
      else (b\<lparr>ib_messages := insertByPriority (\<lambda>x. x) (delivered_copy now (ib_agentId b) m) (ib_messages b)\<rparr>,
            Inr ()))"

definition inbox_pop :: "time_ms \<Rightarrow> inbox \<Rightarrow> inbox \<times> agent_message option" where
  "inbox_pop now b =
     (case ib_messages b of
        [] \<Rightarrow> (b, None)
      | m # q \<Rightarrow> (b\<lparr>ib_messages := q\<rparr>,
          Some (add_msg_metadata [(''processedAt'', JDate now), (''processedByAgent'', JStr (ib_agentId b))]
            (m\<lparr>msg_status := MsgProcessed\<rparr>))))"

definition inbox_peek :: "inbox \<Rightarrow> agent_message option" where
  "inbox_peek b = (case ib_messages b of [] \<Rightarrow> None | m # q \<Rightarrow> Some m)"

definition inbox_size :: "inbox \<Rightarrow> nat" where
  "inbox_size b = length (ib_messages b)"

definition inbox_clear :: "inbox \<Rightarrow> inbox" where
  "inbox_clear b = b\<lparr>ib_messages := []\<rparr>"

definition inbox_isEmpty :: "inbox \<Rightarrow> bool" where
  "inbox_isEmpty b = (length (ib_messages b) = 0)"

definition inbox_isFull :: "inbox \<Rightarrow> bool" where
  "inbox_isFull b = (length (ib_messages b) \<ge> mailbox_max)"

definition inbox_byPriority :: "agent_priority \<Rightarrow> inbox \<Rightarrow> agent_message list" where
  "inbox_byPriority p b = filter (\<lambda>m. msg_priority m = p) (ib_messages b)"

definition inbox_byType :: "message_type \<Rightarrow> inbox \<Rightarrow> agent_message list" where
  "inbox_byType ty b = filter (\<lambda>m. msg_type m = ty) (ib_messages b)"

definition inbox_bySender :: "string \<Rightarrow> inbox \<Rightarrow> agent_message list" where
  "inbox_bySender a b = filter (\<lambda>m. senderAgentId m = a) (ib_messages b)"

subsection \<open>Invariant\<close>

definition inbox_inv :: "inbox \<Rightarrow> bool" where
  "inbox_inv b \<longleftrightarrow> length (ib_messages b) \<le> mailbox_max \<and> sorted (map msg_key (ib_messages b)) \<and>
     (\<forall>m \<in> set (ib_messages b). \<not> misaddressed b m \<and> msg_status m = MsgDelivered)"

lemma msg_key_delivered [simp]: "msg_key (delivered_copy now a m) = msg_key m"
  by (simp add: msg_key_def delivered_copy_def add_msg_metadata_def)

lemma msg_key_metadata [simp]: "msg_key (add_msg_metadata fs m) = msg_key m"
  by (simp add: msg_key_def add_msg_metadata_def)

lemma msg_key_status [simp]: "msg_key (m\<lparr>msg_status := st\<rparr>) = msg_key m"
  by (simp add: msg_key_def)

lemma delivered_fields [simp]:
  "msg_status (delivered_copy now a m) = MsgDelivered" "receiverAgentId (delivered_copy now a m) = receiverAgentId m"
  "messageId (delivered_copy now a m) = messageId m" "senderAgentId (delivered_copy now a m) = senderAgentId m"
  "payload (delivered_copy now a m) = payload m"
  by (simp_all add: delivered_copy_def add_msg_metadata_def)

lemma misaddressed_delivered [simp]: "misaddressed b (delivered_copy now a m) = misaddressed b m"
  by (simp add: misaddressed_def addressee_def)

lemma misaddressed_frame [simp]: "misaddressed (b\<lparr>ib_messages := q\<rparr>) = misaddressed b"
  by (rule ext) (simp add: misaddressed_def split: option.split)

lemma new_inbox_inv: "inbox_inv (new_inbox a)"
  by (simp add: inbox_inv_def new_inbox_def)

lemma inbox_push_inv [inv_intros]:
  assumes "inbox_inv b"
  shows "inbox_inv (fst (inbox_push now m b))"
proof (cases "misaddressed b m \<or> length (ib_messages b) \<ge> mailbox_max")
  case False
  let ?c = "delivered_copy now (ib_agentId b) m"
  let ?q = "insertByPriority (\<lambda>x. x) ?c (ib_messages b)"
  have "fst (inbox_push now m b) = b\<lparr>ib_messages := ?q\<rparr>"
    using False by (simp add: inbox_push_def)
  moreover have "sorted (map msg_key ?q)"
    using assms mailbox.ordered_ins [of "\<lambda>x. x" "ib_messages b" ?c]
    by (simp add: inbox_inv_def mailbox.ordered_def)
  moreover have "length ?q \<le> mailbox_max" "set ?q = insert ?c (set (ib_messages b))"
    using False by (simp_all add: mailbox.length_ins mailbox.set_ins)
  ultimately show ?thesis using assms False by (simp add: inbox_inv_def)
qed (use assms in \<open>auto simp: inbox_push_def\<close>)

lemma inbox_pop_inv [inv_intros]: "inbox_inv b \<Longrightarrow> inbox_inv (fst (inbox_pop now b))"
  by (auto simp: inbox_inv_def inbox_pop_def split: list.splits)

lemma inbox_clear_inv [inv_intros]: "inbox_inv b \<Longrightarrow> inbox_inv (inbox_clear b)"
  by (simp add: inbox_inv_def inbox_clear_def)

inductive inbox_step :: "inbox \<Rightarrow> inbox \<Rightarrow> bool" where
  ib_push: "inbox_step b (fst (inbox_push now m b))"
| ib_pop: "inbox_step b (fst (inbox_pop now b))"
| ib_clear: "inbox_step b (inbox_clear b)"

inductive_cases inbox_stepE: "inbox_step b c"

inductive inbox_reachable :: "inbox \<Rightarrow> bool" where
  ib_new: "inbox_reachable (new_inbox a)"
| ib_more: "inbox_reachable b \<Longrightarrow> inbox_step b c \<Longrightarrow> inbox_reachable c"

lemma inbox_reachable_inv: "inbox_reachable b \<Longrightarrow> inbox_inv b"
  by (induction rule: inbox_reachable.induct) (auto intro: new_inbox_inv inv_intros elim!: inbox_stepE)

text \<open>C39: an inbox, whatever was pushed and popped, holds at most a thousand messages, all for
  its agent or for anyone; popping returns one of the most urgent and, among those, oldest
  ones, and a message pushed into it waits behind every stored message of its own priority
  and timestamp.\<close>

theorem inbox_serves_in_order:
  assumes "inbox_reachable b"
  shows "length (ib_messages b) \<le> 1000
    \<and> (\<forall>m \<in> set (ib_messages b). addressee m = None \<or> addressee m = Some (ib_agentId b))
    \<and> (\<forall>p. snd (inbox_pop now b) = Some p \<longrightarrow> (\<forall>m \<in> set (ib_messages b). msg_key p \<le> msg_key m))
    \<and> (snd (inbox_push now x b) = Inr () \<longrightarrow>
        filter (\<lambda>m. msg_key m = msg_key x) (ib_messages (fst (inbox_push now x b)))
          = filter (\<lambda>m. msg_key m = msg_key x) (ib_messages b) @ [delivered_copy now (ib_agentId b) x])"
proof -
  have b: "inbox_inv b" by (rule inbox_reachable_inv [OF assms])
  then have so: "mailbox.ordered (\<lambda>x. x) (ib_messages b)" by (simp add: inbox_inv_def mailbox.ordered_def)
  have addr: "addressee m = None \<or> addressee m = Some (ib_agentId b)" if "m \<in> set (ib_messages b)" for m
    using b that by (cases "addressee m") (auto simp: inbox_inv_def misaddressed_def)
  have pop: "msg_key p \<le> msg_key m" if p: "snd (inbox_pop now b) = Some p" and m: "m \<in> set (ib_messages b)" for p m
  proof (cases "ib_messages b")
    case (Cons y q)
    then have "msg_key p = msg_key y" using p by (auto simp: inbox_pop_def)
    then show ?thesis using mailbox.head_least [of "\<lambda>x. x" y q m] so m Cons by simp
  qed (use m in simp)
  have push: "filter (\<lambda>m. msg_key m = msg_key x) (ib_messages (fst (inbox_push now x b)))
      = filter (\<lambda>m. msg_key m = msg_key x) (ib_messages b) @ [delivered_copy now (ib_agentId b) x]"
    if "snd (inbox_push now x b) = Inr ()"
    using that so mailbox.ins_after_equal [of "\<lambda>x. x" "msg_key x" "delivered_copy now (ib_agentId b) x" "ib_messages b"]
    by (simp add: inbox_push_def split: if_splits)
  show ?thesis using b addr pop push by (auto simp: inbox_inv_def mailbox_max_def)
qed

definition demo_msg :: "string \<Rightarrow> agent_priority \<Rightarrow> time_ms \<Rightarrow> agent_message" where
  "demo_msg i p ts = \<lparr>messageId = i, senderAgentId = ''s'', receiverAgentId = Some ''r'', conversationId = None,
     msg_workspaceId = ''w'', msg_requestId = ''q'', msg_traceId = ''t'', timestamp = ts, msg_priority = p,
     msg_type = MsgRequest, msg_status = MsgPending, payload = JNull, msg_metadata = []\<rparr>"

definition demo_inbox :: inbox where
  "demo_inbox = fst (inbox_push 9 (demo_msg ''2'' High 2) (fst (inbox_push 8 (demo_msg ''1'' Normal 1) (new_inbox ''r''))))"

lemma demo_inbox_reachable: "inbox_reachable demo_inbox"
  unfolding demo_inbox_def by (rule ib_more [OF ib_more [OF ib_new ib_push] ib_push])

theorem inbox_serves_in_order_witness:
  "inbox_reachable demo_inbox \<and> map_option messageId (snd (inbox_pop 10 demo_inbox)) = Some ''2'' \<and>
   length (ib_messages demo_inbox) \<le> 1000"
proof -
  have "map_option messageId (snd (inbox_pop 10 demo_inbox)) = Some ''2''" by code_simp
  then show ?thesis using demo_inbox_reachable inbox_serves_in_order [OF demo_inbox_reachable] by blast
qed

section \<open>Outbox\<close>

record outbox_message =
  om_message :: agent_message
  om_attempts :: nat
  om_maxAttempts :: nat
  om_nextRetry :: "time_ms option"
  om_lastError :: "string option"

record outbox =
  ob_agentId :: string
  ob_messages :: "outbox_message list"
  ob_failed :: "outbox_message list"

definition new_outbox :: "string \<Rightarrow> outbox" where
  "new_outbox a = \<lparr>ob_agentId = a, ob_messages = [], ob_failed = []\<rparr>"

definition retryDelay :: int where
  "retryDelay = 5000"

definition outbox_enqueue :: "agent_message \<Rightarrow> outbox \<Rightarrow> outbox \<times> (agent_error + unit)" where
  "outbox_enqueue m b =
     (if senderAgentId m \<noteq> ob_agentId b
      then (b, Inl (PlainError (''Message not from agent '' @ ob_agentId b)))
      else if length (ob_messages b) \<ge> mailbox_max
      then (b, Inl (PlainError (''Outbox full: maximum '' @ nat_digits mailbox_max @ '' messages'')))
      else let om = \<lparr>om_message = m\<lparr>msg_status := MsgPending\<rparr>, om_attempts = 0, om_maxAttempts = 3,
                     om_nextRetry = None, om_lastError = None\<rparr>
           in (b\<lparr>ob_messages := insertByPriority om_message om (ob_messages b)\<rparr>, Inr ()))"

definition retry_due :: "time_ms \<Rightarrow> outbox_message \<Rightarrow> bool" where
  "retry_due now om = (case om_nextRetry om of None \<Rightarrow> True | Some t \<Rightarrow> t \<le> now)"

text \<open>\<open>dequeue\<close> counts the attempt on the element it has just removed.\<close>

definition outbox_dequeue :: "time_ms \<Rightarrow> outbox \<Rightarrow> outbox \<times> agent_message option" where
  "outbox_dequeue now b =
     (case find_index (retry_due now) (ob_messages b) of
        None \<Rightarrow> (b, None)
      | Some k \<Rightarrow>
          (let om = ob_messages b ! k;
               att = Suc (om_attempts om)
           in (b\<lparr>ob_messages := splice_out k (ob_messages b)\<rparr>,
               Some (add_msg_metadata [(''sentAt'', JDate now), (''attempt'', JNum (int att)),
                       (''sentFromAgent'', JStr (ob_agentId b))]
                 ((om_message om)\<lparr>msg_status := MsgSent\<rparr>)))))"

definition has_msg_id :: "string \<Rightarrow> outbox_message \<Rightarrow> bool" where
  "has_msg_id i om = (messageId (om_message om) = i)"

definition outbox_retry :: "time_ms \<Rightarrow> string \<Rightarrow> outbox \<Rightarrow> outbox \<times> bool" where
  "outbox_retry now i b =
     (case find_index (has_msg_id i) (ob_failed b) of
        None \<Rightarrow> (b, False)
      | Some k \<Rightarrow>
          (let om = ob_failed b ! k;
               rest = splice_out k (ob_failed b)
           in if om_attempts om \<ge> om_maxAttempts om
              then (b\<lparr>ob_failed := rest @ [om]\<rparr>, False)
              else let om' = om\<lparr>om_nextRetry := Some (now + retryDelay * int (om_attempts om)),
                       om_message := add_msg_metadata [(''retryScheduledAt'', JDate now),
                           (''retryAttempt'', JNum (int (om_attempts om) + 1))]
                         ((om_message om)\<lparr>msg_status := MsgPending\<rparr>)\<rparr>
                   in (b\<lparr>ob_failed := rest, ob_messages := insertByPriority om_message om' (ob_messages b)\<rparr>, True)))"

definition outbox_clear :: "outbox \<Rightarrow> outbox" where
  "outbox_clear b = b\<lparr>ob_messages := [], ob_failed := []\<rparr>"

definition outbox_markAsFailed :: "time_ms \<Rightarrow> string \<Rightarrow> string \<Rightarrow> outbox \<Rightarrow> outbox" where
  "outbox_markAsFailed now i err b =
     (case find_index (has_msg_id i) (ob_messages b) of
        None \<Rightarrow> b
      | Some k \<Rightarrow>
          (let om = ob_messages b ! k;
               om' = om\<lparr>om_lastError := Some err,
                  om_message := add_msg_metadata [(''failedAt'', JDate now), (''error'', JStr err)]
                    ((om_message om)\<lparr>msg_status := MsgFailed\<rparr>)\<rparr>
           in b\<lparr>ob_messages := splice_out k (ob_messages b), ob_failed := ob_failed b @ [om']\<rparr>))"

definition outbox_size :: "outbox \<Rightarrow> nat" where
  "outbox_size b = length (ob_messages b)"

definition outbox_failedCount :: "outbox \<Rightarrow> nat" where
  "outbox_failedCount b = length (ob_failed b)"

definition outbox_pending :: "outbox \<Rightarrow> agent_message list" where
  "outbox_pending b = map om_message (ob_messages b)"

definition outbox_failedMessages :: "outbox \<Rightarrow> agent_message list" where
  "outbox_failedMessages b = map om_message (ob_failed b)"

definition outbox_byPriority :: "agent_priority \<Rightarrow> outbox \<Rightarrow> agent_message list" where
  "outbox_byPriority p b = map om_message (filter (\<lambda>om. msg_priority (om_message om) = p) (ob_messages b))"

subsection \<open>Invariant\<close>

abbreviation out_key :: "outbox_message \<Rightarrow> agent_priority \<times> time_ms" where
  "out_key om \<equiv> msg_key (om_message om)"

definition outbox_inv :: "outbox \<Rightarrow> bool" where
  "outbox_inv b \<longleftrightarrow> sorted (map out_key (ob_messages b)) \<and>
     (\<forall>om \<in> set (ob_messages b) \<union> set (ob_failed b).
        senderAgentId (om_message om) = ob_agentId b \<and> om_attempts om = 0 \<and> om_maxAttempts om = 3) \<and>
     (\<forall>om \<in> set (ob_messages b). msg_status (om_message om) = MsgPending) \<and>
     (\<forall>om \<in> set (ob_failed b). msg_status (om_message om) = MsgFailed)"

lemma add_metadata_fields [simp]:
  "senderAgentId (add_msg_metadata fs m) = senderAgentId m" "msg_status (add_msg_metadata fs m) = msg_status m"
  "messageId (add_msg_metadata fs m) = messageId m" "receiverAgentId (add_msg_metadata fs m) = receiverAgentId m"
  by (simp_all add: add_msg_metadata_def)

lemma new_outbox_inv: "outbox_inv (new_outbox a)"
  by (simp add: outbox_inv_def new_outbox_def)

lemma insert_pending_inv:
  assumes "outbox_inv b" and "senderAgentId (om_message om) = ob_agentId b" "om_attempts om = 0"
    "om_maxAttempts om = 3" "msg_status (om_message om) = MsgPending"
  shows "outbox_inv (b\<lparr>ob_messages := insertByPriority om_message om (ob_messages b)\<rparr>)"
proof -
  let ?q = "insertByPriority om_message om (ob_messages b)"
  have "sorted (map out_key ?q)"
    using assms(1) mailbox.ordered_ins [of om_message "ob_messages b" om]
    by (simp add: outbox_inv_def mailbox.ordered_def)
  then show ?thesis using assms by (simp add: outbox_inv_def mailbox.set_ins)
qed

lemma splice_messages_inv:
  "outbox_inv b \<Longrightarrow> outbox_inv (b\<lparr>ob_messages := splice_out k (ob_messages b)\<rparr>)"
  using set_splice_out_subset [of k "ob_messages b"]
  by (auto simp: outbox_inv_def map_splice_out sorted_splice_out)

lemma splice_failed_inv:
  "outbox_inv b \<Longrightarrow> outbox_inv (b\<lparr>ob_failed := splice_out k (ob_failed b)\<rparr>)"
  using set_splice_out_subset [of k "ob_failed b"] by (auto simp: outbox_inv_def)

lemma outbox_enqueue_inv [inv_intros]: "outbox_inv b \<Longrightarrow> outbox_inv (fst (outbox_enqueue m b))"
  by (auto simp: outbox_enqueue_def Let_def intro!: insert_pending_inv)

lemma outbox_dequeue_inv [inv_intros]: "outbox_inv b \<Longrightarrow> outbox_inv (fst (outbox_dequeue now b))"
  by (auto simp: outbox_dequeue_def Let_def intro!: splice_messages_inv split: option.splits)

lemma outbox_clear_inv [inv_intros]: "outbox_inv b \<Longrightarrow> outbox_inv (outbox_clear b)"
  by (simp add: outbox_inv_def outbox_clear_def)

lemma outbox_markAsFailed_inv [inv_intros]:
  assumes "outbox_inv b"
  shows "outbox_inv (outbox_markAsFailed now i err b)"
proof (cases "find_index (has_msg_id i) (ob_messages b)")
  case (Some k)
  then have k: "k < length (ob_messages b)" by (simp add: find_index_Some)
  then have m: "ob_messages b ! k \<in> set (ob_messages b)" by simp
  from splice_messages_inv [OF assms, of k] show ?thesis
    using assms m by (auto simp: outbox_markAsFailed_def Some Let_def outbox_inv_def)
qed (use assms in \<open>simp add: outbox_markAsFailed_def\<close>)

lemma outbox_retry_found:
  assumes "outbox_inv b" and "find_index (has_msg_id i) (ob_failed b) = Some k"
  shows "outbox_retry now i b = (b\<lparr>ob_failed := splice_out k (ob_failed b),
      ob_messages := insertByPriority om_message ((ob_failed b ! k)\<lparr>om_nextRetry := Some now,
        om_message := add_msg_metadata [(''retryScheduledAt'', JDate now), (''retryAttempt'', JNum 1)]
          ((om_message (ob_failed b ! k))\<lparr>msg_status := MsgPending\<rparr>)\<rparr>) (ob_messages b)\<rparr>, True)"
proof -
  have "ob_failed b ! k \<in> set (ob_failed b)" using find_index_Some [OF assms(2)] by simp
  then have "om_attempts (ob_failed b ! k) = 0" "om_maxAttempts (ob_failed b ! k) = 3"
    using assms(1) by (auto simp: outbox_inv_def)
  then show ?thesis by (simp add: outbox_retry_def assms(2) Let_def)
qed

lemma outbox_retry_inv [inv_intros]:
  assumes "outbox_inv b"
  shows "outbox_inv (fst (outbox_retry now i b))"
proof (cases "find_index (has_msg_id i) (ob_failed b)")
  case None
  then show ?thesis using assms by (simp add: outbox_retry_def)
next
  case (Some k)
  let ?b = "b\<lparr>ob_failed := splice_out k (ob_failed b)\<rparr>"
  have m: "ob_failed b ! k \<in> set (ob_failed b)" using find_index_Some [OF Some] by simp
  have "outbox_inv ?b" by (rule splice_failed_inv [OF assms])
  from insert_pending_inv [OF this, of "(ob_failed b ! k)\<lparr>om_nextRetry := Some now,
        om_message := add_msg_metadata [(''retryScheduledAt'', JDate now), (''retryAttempt'', JNum 1)]
          ((om_message (ob_failed b ! k))\<lparr>msg_status := MsgPending\<rparr>)\<rparr>"]
  show ?thesis
    using assms m unfolding outbox_retry_found [OF assms Some] by (simp add: outbox_inv_def)
qed

inductive outbox_step :: "outbox \<Rightarrow> outbox \<Rightarrow> bool" where
  ob_enqueue: "outbox_step b (fst (outbox_enqueue m b))"
| ob_dequeue: "outbox_step b (fst (outbox_dequeue now b))"
| ob_retry: "outbox_step b (fst (outbox_retry now i b))"
| ob_fail: "outbox_step b (outbox_markAsFailed now i err b)"
| ob_clear: "outbox_step b (outbox_clear b)"

inductive_cases outbox_stepE: "outbox_step b c"

inductive outbox_reachable :: "outbox \<Rightarrow> bool" where
  ob_new: "outbox_reachable (new_outbox a)"
| ob_more: "outbox_reachable b \<Longrightarrow> outbox_step b c \<Longrightarrow> outbox_reachable c"

lemma outbox_reachable_inv: "outbox_reachable b \<Longrightarrow> outbox_inv b"
  by (induction rule: outbox_reachable.induct) (auto intro: new_outbox_inv inv_intros elim!: outbox_stepE)

text \<open>a failed message can be retried without limit and without delay: the stored attempt
  counter is always zero, so the maximum of three attempts is never reached and the scheduled
  time is the present.\<close>

theorem outbox_retry_unlimited:
  assumes "outbox_reachable b" and "i \<in> (\<lambda>om. messageId (om_message om)) ` set (ob_failed b)"
  shows "snd (outbox_retry now i b) = True
    \<and> length (ob_failed (fst (outbox_retry now i b))) < length (ob_failed b)
    \<and> (\<exists>om \<in> set (ob_messages (fst (outbox_retry now i b))).
          messageId (om_message om) = i \<and> om_attempts om = 0 \<and> retry_due now om)"
proof -
  have b: "outbox_inv b" by (rule outbox_reachable_inv [OF assms(1)])
  obtain k where k: "find_index (has_msg_id i) (ob_failed b) = Some k"
    using assms(2) by (cases "find_index (has_msg_id i) (ob_failed b)")
      (auto simp: find_index_None has_msg_id_def)
  note f = find_index_Some [OF k]
  have "ob_failed b ! k \<in> set (ob_failed b)" using f by simp
  then have "om_attempts (ob_failed b ! k) = 0" using b by (auto simp: outbox_inv_def)
  moreover have "length (splice_out k (ob_failed b)) < length (ob_failed b)"
    using f by (cases "ob_failed b") (auto simp: length_splice_out)
  ultimately show ?thesis
    unfolding outbox_retry_found [OF b k]
    using f by (simp add: mailbox.set_ins has_msg_id_def retry_due_def)
qed

definition demo_outbox :: outbox where
  "demo_outbox = fst (outbox_enqueue (demo_msg ''2'' High 2)
     (fst (outbox_enqueue (demo_msg ''1'' Normal 1) (new_outbox ''s''))))"

definition demo_outbox_failed :: outbox where
  "demo_outbox_failed = outbox_markAsFailed 5 ''1'' ''down'' demo_outbox"

lemma demo_outbox_reachable: "outbox_reachable demo_outbox"
  unfolding demo_outbox_def by (rule ob_more [OF ob_more [OF ob_new ob_enqueue] ob_enqueue])

lemma demo_outbox_failed_reachable: "outbox_reachable demo_outbox_failed"
  unfolding demo_outbox_failed_def by (rule ob_more [OF demo_outbox_reachable ob_fail])

theorem outbox_retry_unlimited_witness:
  "outbox_reachable demo_outbox_failed \<and> length (ob_failed demo_outbox_failed) = 1 \<and>
   snd (outbox_retry 6 ''1'' demo_outbox_failed) = True"
proof -
  have l: "map (\<lambda>om. messageId (om_message om)) (ob_failed demo_outbox_failed) = [''1'']" by code_simp
  then have "''1'' \<in> (\<lambda>om. messageId (om_message om)) ` set (ob_failed demo_outbox_failed)"
    by (metis list.set_intros(1) set_map)
  from outbox_retry_unlimited [OF demo_outbox_failed_reachable this, of 6]
  show ?thesis using demo_outbox_failed_reachable arg_cong [OF l, of length] by simp
qed

text \<open>\<open>dequeue\<close> takes the most urgent, oldest message whose retry time has come; the outbox
  then no longer knows the message, so marking it failed afterwards does nothing.\<close>

theorem outbox_dequeue_forgets:
  assumes "outbox_reachable b" and "distinct (map (\<lambda>om. messageId (om_message om)) (ob_messages b))"
    and "outbox_dequeue now b = (c, Some m)"
  shows "(\<forall>om \<in> set (ob_messages b). retry_due now om \<longrightarrow> msg_key m \<le> out_key om)
    \<and> msg_status m = MsgSent \<and> length (ob_messages c) < length (ob_messages b)
    \<and> outbox_markAsFailed now' (messageId m) err c = c"
proof -
  have b: "outbox_inv b" by (rule outbox_reachable_inv [OF assms(1)])
  obtain k where k: "find_index (retry_due now) (ob_messages b) = Some k"
    using assms(3) by (cases "find_index (retry_due now) (ob_messages b)") (auto simp: outbox_dequeue_def)
  note f = find_index_Some [OF k]
  let ?om = "ob_messages b ! k"
  have c: "c = b\<lparr>ob_messages := splice_out k (ob_messages b)\<rparr>"
    and m: "msg_key m = out_key ?om" "msg_status m = MsgSent" "messageId m = messageId (om_message ?om)"
    using assms(3) by (auto simp: outbox_dequeue_def k Let_def)
  have so: "sorted (map out_key (ob_messages b))" using b by (simp add: outbox_inv_def)
  have least: "msg_key m \<le> out_key om" if om: "om \<in> set (ob_messages b)" and due: "retry_due now om" for om
  proof -
    obtain j where j: "j < length (ob_messages b)" "ob_messages b ! j = om" using om by (metis in_set_conv_nth)
    have "k \<le> j" using find_index_before [OF k j(1)] j(2) due by simp
    then show ?thesis using sorted_nth_mono [OF so, of k j] j m(1) by auto
  qed
  have "map (\<lambda>om. messageId (om_message om)) (splice_out k (ob_messages b))
      = splice_out k (map (\<lambda>om. messageId (om_message om)) (ob_messages b))" by (rule map_splice_out)
  then have "messageId m \<notin> (\<lambda>om. messageId (om_message om)) ` set (splice_out k (ob_messages b))"
    using splice_out_removed [OF assms(2), of k] f m(3) by (metis length_map nth_map set_map)
  then have n: "find_index (has_msg_id (messageId m)) (ob_messages c) = None"
    unfolding find_index_None has_msg_id_def c by (simp add: image_iff) metis
  have "length (ob_messages c) < length (ob_messages b)"
    using f by (cases "ob_messages b") (auto simp: c length_splice_out)
  then show ?thesis using least m(2) by (auto simp: outbox_markAsFailed_def n)
qed

theorem outbox_dequeue_forgets_witness:
  "outbox_reachable demo_outbox \<and> map_option messageId (snd (outbox_dequeue 7 demo_outbox)) = Some ''2'' \<and>
   outbox_markAsFailed 8 ''2'' ''late'' (fst (outbox_dequeue 7 demo_outbox)) = fst (outbox_dequeue 7 demo_outbox)"
proof -
  have d: "distinct (map (\<lambda>om. messageId (om_message om)) (ob_messages demo_outbox))" by code_simp
  have i: "map_option messageId (snd (outbox_dequeue 7 demo_outbox)) = Some ''2''" by code_simp
  then obtain m where m: "snd (outbox_dequeue 7 demo_outbox) = Some m" "messageId m = ''2''" by auto
  then have "outbox_dequeue 7 demo_outbox = (fst (outbox_dequeue 7 demo_outbox), Some m)"
    by (metis prod.collapse)
  from outbox_dequeue_forgets [OF demo_outbox_reachable d this, of 8 "''late''"]
  show ?thesis using demo_outbox_reachable i m(2) by simp
qed

end
