(* ===== verification/Message_Bus.thy ===== *)
theory Message_Bus
  imports Mailboxes
begin

text \<open>
  \<open>AgentChannel\<close> and \<open>AgentBus\<close> (\<open>agents/communication/agent-channel.ts\<close>,
  \<open>agents/communication/agent-bus.ts\<close>). A subscription's handler is foreign code; publishing
  returns the subscriptions whose handlers are called with the message, in order. The bus owns
  the mailboxes of its agents; each operation runs to its end before the next one.
\<close>

section \<open>Channel\<close>

record subscription =
  sub_id :: string
  sub_agentId :: string
  sub_handler :: nat
  sub_filter :: "(agent_message \<Rightarrow> bool) option"
  sub_createdAt :: time_ms

record channel =
  ch_id :: string
  ch_subscriptions :: "(string, subscription) js_map"
  ch_history :: "agent_message list"

definition new_channel :: "string \<Rightarrow> channel" where
  "new_channel i = \<lparr>ch_id = i, ch_subscriptions = [], ch_history = []\<rparr>"

definition addToHistory :: "agent_message \<Rightarrow> channel \<Rightarrow> channel" where
  "addToHistory m c =
     (let h = ch_history c @ [m]
      in c\<lparr>ch_history := (if length h > 100 then tl h else h)\<rparr>)"

definition wants :: "agent_message \<Rightarrow> subscription \<Rightarrow> bool" where
  "wants m sub =
     (if (case sub_filter sub of Some f \<Rightarrow> \<not> f m | None \<Rightarrow> False) then False
      else case addressee m of
        Some r \<Rightarrow> sub_agentId sub = r
      | None \<Rightarrow> sub_agentId sub \<noteq> senderAgentId m)"

definition channel_publish :: "agent_message \<Rightarrow> channel \<Rightarrow> channel \<times> (subscription \<times> agent_message) list" where
  "channel_publish m c =
     (let c1 = addToHistory m c
      in (c1, map (\<lambda>sub. (sub, m)) (filter (wants m) (js_values (ch_subscriptions c1)))))"

text \<open>The id ends in the clock and a random suffix, here the argument \<open>suffix\<close>.\<close>

definition channel_subscribe ::
  "string \<Rightarrow> time_ms \<Rightarrow> string \<Rightarrow> nat \<Rightarrow> (agent_message \<Rightarrow> bool) option \<Rightarrow> channel \<Rightarrow> channel \<times> string" where
  "channel_subscribe suffix now a hdl flt c =
     (let i = a @ ''_'' @ int_str now @ ''_'' @ suffix
      in (c\<lparr>ch_subscriptions := js_set i
             \<lparr>sub_id = i, sub_agentId = a, sub_handler = hdl, sub_filter = flt, sub_createdAt = now\<rparr>
             (ch_subscriptions c)\<rparr>, i))"

definition channel_unsubscribe :: "string \<Rightarrow> channel \<Rightarrow> channel \<times> bool" where
  "channel_unsubscribe i c =
     (c\<lparr>ch_subscriptions := js_delete i (ch_subscriptions c)\<rparr>, js_has (ch_subscriptions c) i)"

definition channel_broadcast :: "time_ms \<Rightarrow> agent_message \<Rightarrow> channel \<Rightarrow> channel \<times> (subscription \<times> agent_message) list" where
  "channel_broadcast now m c =
     channel_publish (add_msg_metadata [(''broadcast'', JBool True), (''broadcastAt'', JDate now)]
       (m\<lparr>receiverAgentId := None\<rparr>)) c"

definition getSubscriberCount :: "channel \<Rightarrow> nat" where
  "getSubscriberCount c = length (ch_subscriptions c)"

definition getSubscribers :: "channel \<Rightarrow> string list" where
  "getSubscribers c = foldl (\<lambda>acc a. if List.member acc a then acc else acc @ [a]) []
     (map sub_agentId (js_values (ch_subscriptions c)))"

definition getSubscriptionsByAgent :: "string \<Rightarrow> channel \<Rightarrow> subscription list" where
  "getSubscriptionsByAgent a c = filter (\<lambda>sub. sub_agentId sub = a) (js_values (ch_subscriptions c))"

definition last_entries :: "int option \<Rightarrow> 'a list \<Rightarrow> 'a list" where
  "last_entries limit xs =
     (case limit of Some n \<Rightarrow> (if n > 0 then slice_last (nat n) xs else xs) | None \<Rightarrow> xs)"

definition getMessageHistory :: "int option \<Rightarrow> channel \<Rightarrow> agent_message list" where
  "getMessageHistory limit c = last_entries limit (ch_history c)"

definition clearHistory :: "channel \<Rightarrow> channel" where
  "clearHistory c = c\<lparr>ch_history := []\<rparr>"

definition isSubscribed :: "string \<Rightarrow> channel \<Rightarrow> bool" where
  "isSubscribed a c = list_ex (\<lambda>sub. sub_agentId sub = a) (js_values (ch_subscriptions c))"

definition unsubscribeAgent :: "string \<Rightarrow> channel \<Rightarrow> channel \<times> nat" where
  "unsubscribeAgent a c =
     (let ids = map fst (filter (\<lambda>(i, sub). sub_agentId sub = a) (ch_subscriptions c))
      in (c\<lparr>ch_subscriptions := fold js_delete ids (ch_subscriptions c)\<rparr>, length ids))"

interpretation history: bounded_log ch_history addToHistory 100
  by unfold_locales (simp_all add: addToHistory_def Let_def)

section \<open>Bus\<close>

record registered_agent =
  ra_agentId :: string
  ra_inbox :: inbox
  ra_outbox :: outbox
  ra_registeredAt :: time_ms
  ra_lastActivity :: time_ms
  ra_metadata :: js_record

record bus =
  bus_agents :: "(string, registered_agent) js_map"
  bus_messageLog :: "agent_message list"

definition new_bus :: bus where
  "new_bus = \<lparr>bus_agents = [], bus_messageLog = []\<rparr>"

definition addToMessageLog :: "agent_message \<Rightarrow> bus \<Rightarrow> bus" where
  "addToMessageLog m b =
     (let l = bus_messageLog b @ [m]
      in b\<lparr>bus_messageLog := (if length l > 1000 then tl l else l)\<rparr>)"

definition put_agent :: "string \<Rightarrow> registered_agent \<Rightarrow> bus \<Rightarrow> bus" where
  "put_agent i a b = b\<lparr>bus_agents := js_set i a (bus_agents b)\<rparr>"

definition not_registered :: "string \<Rightarrow> agent_error" where
  "not_registered i = PlainError (''Sender agent '' @ sq i @ '' not registered'')"

text \<open>One step of the broadcast loop: a full inbox throws, which the loop swallows.\<close>

definition deliver_copy :: "time_ms \<Rightarrow> agent_message \<Rightarrow> string \<Rightarrow> registered_agent \<Rightarrow> registered_agent \<times> bool" where
  "deliver_copy now bm i a =
     (case inbox_push now (bm\<lparr>receiverAgentId := Some i\<rparr>) (ra_inbox a) of
        (ib, Inl e) \<Rightarrow> (a, False)
      | (ib, Inr _) \<Rightarrow> (a\<lparr>ra_inbox := ib, ra_lastActivity := now\<rparr>, True))"

definition deliver_one :: "time_ms \<Rightarrow> agent_message \<Rightarrow> string \<Rightarrow> bus \<times> nat \<Rightarrow> bus \<times> nat" where
  "deliver_one now bm i bn =
     (case bn of (b, n) \<Rightarrow>
        (case js_get (bus_agents b) i of
           None \<Rightarrow> (b, n)
         | Some a \<Rightarrow> (case deliver_copy now bm i a of
             (a', ok) \<Rightarrow> (put_agent i a' b, if ok then Suc n else n))))"

definition broadcast_copy :: "time_ms \<Rightarrow> agent_message \<Rightarrow> agent_message" where
  "broadcast_copy now m = add_msg_metadata [(''broadcast'', JBool True), (''broadcastAt'', JDate now)]
     (m\<lparr>msg_type := MsgBroadcast, receiverAgentId := None\<rparr>)"

definition bus_broadcast :: "time_ms \<Rightarrow> agent_message \<Rightarrow> bus \<Rightarrow> bus \<times> (agent_error + nat)" where
  "bus_broadcast now m b =
     (let b1 = addToMessageLog m b
      in case js_get (bus_agents b1) (senderAgentId m) of
           None \<Rightarrow> (b1, Inl (not_registered (senderAgentId m)))
         | Some s \<Rightarrow>
             (let b2 = put_agent (senderAgentId m) (s\<lparr>ra_lastActivity := now\<rparr>) b1;
                  ids = filter (\<lambda>i. i \<noteq> senderAgentId m) (js_keys (bus_agents b2))
              in case fold (deliver_one now (broadcast_copy now m)) ids (b2, 0) of
                   (b3, n) \<Rightarrow> (b3, Inr n)))"

text \<open>Marking a message failed in the outbox of an agent, if the agent is registered.\<close>

definition mark_failed_at :: "time_ms \<Rightarrow> string \<Rightarrow> string \<Rightarrow> string \<Rightarrow> bus \<Rightarrow> bus" where
  "mark_failed_at now a i err b =
     (case js_get (bus_agents b) a of
        None \<Rightarrow> b
      | Some s \<Rightarrow> put_agent a (s\<lparr>ra_outbox := outbox_markAsFailed now i err (ra_outbox s)\<rparr>) b)"

definition bus_send :: "time_ms \<Rightarrow> agent_message \<Rightarrow> bus \<Rightarrow> bus \<times> bool" where
  "bus_send now m b =
     (let b1 = addToMessageLog m b; me = senderAgentId m
      in case js_get (bus_agents b1) me of
           None \<Rightarrow> (b1, False)
         | Some s \<Rightarrow>
             (let b2 = put_agent me (s\<lparr>ra_lastActivity := now\<rparr>) b1
              in if addressee m = None \<or> msg_type m = MsgBroadcast
                 then (case bus_broadcast now m b2 of
                         (b3, Inr n) \<Rightarrow> (b3, n > 0)
                       | (b3, Inl e) \<Rightarrow> (mark_failed_at now me (messageId m) (err_message e) b3, False))
                 else let r = the (addressee m)
                      in case js_get (bus_agents b2) r of
                           None \<Rightarrow> (mark_failed_at now me (messageId m) (''Receiver not found: '' @ r) b2, False)
                         | Some a \<Rightarrow>
                             (case inbox_push now m (ra_inbox a) of
                                (ib, Inl e) \<Rightarrow> (mark_failed_at now me (messageId m) (err_message e) b2, False)
                              | (ib, Inr _) \<Rightarrow> (put_agent r (a\<lparr>ra_inbox := ib, ra_lastActivity := now\<rparr>) b2, True))))"

definition bus_register :: "time_ms \<Rightarrow> string \<Rightarrow> js_record \<Rightarrow> bus \<Rightarrow> bus \<times> (agent_error + unit)" where
  "bus_register now i md b =
     (if js_has (bus_agents b) i
      then (b, Inl (PlainError (''Agent '' @ sq i @ '' is already registered'')))
      else (put_agent i \<lparr>ra_agentId = i, ra_inbox = new_inbox i, ra_outbox = new_outbox i,
              ra_registeredAt = now, ra_lastActivity = now, ra_metadata = md\<rparr> b, Inr ()))"

definition bus_unregister :: "string \<Rightarrow> bus \<Rightarrow> bus \<times> bool" where
  "bus_unregister i b =
     (if \<not> js_has (bus_agents b) i then (b, False)
      else (b\<lparr>bus_agents := js_delete i (bus_agents b)\<rparr>, True))"

definition bus_findAgent :: "string \<Rightarrow> bus \<Rightarrow> registered_agent option" where
  "bus_findAgent i b = js_get (bus_agents b) i"

definition bus_listAgents :: "bus \<Rightarrow> string list" where
  "bus_listAgents b = js_keys (bus_agents b)"

definition bus_getRegisteredAgents :: "bus \<Rightarrow> registered_agent list" where
  "bus_getRegisteredAgents b = js_values (bus_agents b)"

definition bus_isRegistered :: "string \<Rightarrow> bus \<Rightarrow> bool" where
  "bus_isRegistered i b = js_has (bus_agents b) i"

definition bus_getAgentCount :: "bus \<Rightarrow> nat" where
  "bus_getAgentCount b = length (bus_agents b)"

definition bus_getMessageLog :: "int option \<Rightarrow> bus \<Rightarrow> agent_message list" where
  "bus_getMessageLog limit b = last_entries limit (bus_messageLog b)"

definition bus_clearMessageLog :: "bus \<Rightarrow> bus" where
  "bus_clearMessageLog b = b\<lparr>bus_messageLog := []\<rparr>"

definition bus_getAgentInbox :: "string \<Rightarrow> bus \<Rightarrow> inbox option" where
  "bus_getAgentInbox i b = map_option ra_inbox (js_get (bus_agents b) i)"

definition bus_getAgentOutbox :: "string \<Rightarrow> bus \<Rightarrow> outbox option" where
  "bus_getAgentOutbox i b = map_option ra_outbox (js_get (bus_agents b) i)"

text \<open>An agent using a mailbox it was given by the bus: the mailbox is the registered one.\<close>

definition use_inbox :: "string \<Rightarrow> (inbox \<Rightarrow> inbox) \<Rightarrow> bus \<Rightarrow> bus" where
  "use_inbox i f b =
     (case js_get (bus_agents b) i of None \<Rightarrow> b | Some a \<Rightarrow> put_agent i (a\<lparr>ra_inbox := f (ra_inbox a)\<rparr>) b)"

definition use_outbox :: "string \<Rightarrow> (outbox \<Rightarrow> outbox) \<Rightarrow> bus \<Rightarrow> bus" where
  "use_outbox i f b =
     (case js_get (bus_agents b) i of None \<Rightarrow> b | Some a \<Rightarrow> put_agent i (a\<lparr>ra_outbox := f (ra_outbox a)\<rparr>) b)"

interpretation bus_log: bounded_log bus_messageLog addToMessageLog 1000
  by unfold_locales (simp_all add: addToMessageLog_def Let_def)

end
