(* ===== verification/Communication_Manager.thy ===== *)
theory Communication_Manager
  imports Complex_Main Message_Bus
begin

text \<open>\<open>CommunicationManager\<close> (\<open>agents/communication/communication-manager.ts\<close>): the channels, the bus
  and the error and message counters over both.\<close>

record comm =
  cm_channels :: "(string, channel) js_map"
  cm_bus :: bus
  cm_errors :: "string list"
  cm_warnings :: "string list"
  cm_startTime :: time_ms
  cm_messageCount :: nat

definition new_comm :: "time_ms \<Rightarrow> comm" where
  "new_comm now = \<lparr>cm_channels = [], cm_bus = new_bus, cm_errors = [], cm_warnings = [],
     cm_startTime = now, cm_messageCount = 0\<rparr>"

definition createChannel :: "string \<Rightarrow> comm \<Rightarrow> comm \<times> (agent_error + channel)" where
  "createChannel i c =
     (if js_has (cm_channels c) i
      then (c, Inl (PlainError (''Channel '' @ sq i @ '' already exists'')))
      else (c\<lparr>cm_channels := js_set i (new_channel i) (cm_channels c)\<rparr>, Inr (new_channel i)))"

definition removeChannel :: "string \<Rightarrow> comm \<Rightarrow> comm \<times> bool" where
  "removeChannel i c =
     (if \<not> js_has (cm_channels c) i then (c, False)
      else (c\<lparr>cm_channels := js_delete i (cm_channels c)\<rparr>, True))"

definition listChannels :: "comm \<Rightarrow> string list" where
  "listChannels c = js_keys (cm_channels c)"

definition getChannel :: "string \<Rightarrow> comm \<Rightarrow> channel option" where
  "getChannel i c = js_get (cm_channels c) i"

definition hasChannel :: "string \<Rightarrow> comm \<Rightarrow> bool" where
  "hasChannel i c = js_has (cm_channels c) i"

definition getChannelCount :: "comm \<Rightarrow> nat" where
  "getChannelCount c = length (cm_channels c)"

text \<open>The manager's \<open>catch\<close>: record the message and throw it.\<close>

definition comm_fail :: "string \<Rightarrow> string \<Rightarrow> agent_error \<Rightarrow> comm \<Rightarrow> comm \<times> (agent_error + 'a)" where
  "comm_fail what i e c =
     (let msg = what @ sq i @ '': '' @ err_message e
      in (c\<lparr>cm_errors := cm_errors c @ [msg]\<rparr>, Inl (PlainError msg)))"

definition comm_registerAgent :: "time_ms \<Rightarrow> string \<Rightarrow> js_record \<Rightarrow> comm \<Rightarrow> comm \<times> (agent_error + unit)" where
  "comm_registerAgent now i md c =
     (case bus_register now i md (cm_bus c) of
        (b, Inr _) \<Rightarrow> (c\<lparr>cm_bus := b\<rparr>, Inr ())
      | (b, Inl e) \<Rightarrow> comm_fail ''Failed to register agent '' i e (c\<lparr>cm_bus := b\<rparr>))"

definition comm_unregisterAgent :: "string \<Rightarrow> comm \<Rightarrow> comm \<times> bool" where
  "comm_unregisterAgent i c =
     (let chans = map (\<lambda>(k, ch). (k, fst (unsubscribeAgent i ch))) (cm_channels c)
      in case bus_unregister i (cm_bus c) of (b, ok) \<Rightarrow> (c\<lparr>cm_channels := chans, cm_bus := b\<rparr>, ok))"

definition sendMessage :: "time_ms \<Rightarrow> agent_message \<Rightarrow> comm \<Rightarrow> comm \<times> bool" where
  "sendMessage now m c =
     (case bus_send now m (cm_bus c) of
        (b, ok) \<Rightarrow> (c\<lparr>cm_messageCount := Suc (cm_messageCount c), cm_bus := b\<rparr>, ok))"

definition broadcastMessage :: "time_ms \<Rightarrow> agent_message \<Rightarrow> comm \<Rightarrow> comm \<times> (agent_error + nat)" where
  "broadcastMessage now m c =
     (let c1 = c\<lparr>cm_messageCount := Suc (cm_messageCount c)\<rparr>
      in case bus_broadcast now m (cm_bus c1) of
           (b, Inr n) \<Rightarrow> (c1\<lparr>cm_bus := b\<rparr>, Inr n)
         | (b, Inl e) \<Rightarrow> comm_fail ''Failed to broadcast message '' (messageId m) e (c1\<lparr>cm_bus := b\<rparr>))"

record comm_health =
  chl_status :: health_status
  chl_channelCount :: nat
  chl_registeredAgents :: nat
  chl_totalMessages :: nat
  chl_errors :: "string list"
  chl_warnings :: "string list"
  chl_lastActivity :: time_ms
  chl_uptime :: int
  chl_averageMessagesPerMinute :: real

definition comm_health_of :: "time_ms \<Rightarrow> comm \<Rightarrow> comm_health" where
  "comm_health_of now c =
     (let uptime = now - cm_startTime c;
          agents = bus_getAgentCount (cm_bus c)
      in \<lparr>chl_status = (if cm_errors c \<noteq> [] then Unhealthy
            else if cm_warnings c \<noteq> [] \<or> agents = 0 then Degraded else Healthy),
          chl_channelCount = length (cm_channels c), chl_registeredAgents = agents,
          chl_totalMessages = cm_messageCount c, chl_errors = cm_errors c, chl_warnings = cm_warnings c,
          chl_lastActivity = now, chl_uptime = uptime,
          chl_averageMessagesPerMinute =
            (if uptime > 0 then of_nat (cm_messageCount c) / (of_int uptime / 60000) else 0)\<rparr>)"

definition clearErrors :: "comm \<Rightarrow> comm" where
  "clearErrors c = c\<lparr>cm_errors := []\<rparr>"

definition clearWarnings :: "comm \<Rightarrow> comm" where
  "clearWarnings c = c\<lparr>cm_warnings := []\<rparr>"

record comm_stats =
  st_channels :: nat
  st_agents :: nat
  st_messages :: nat
  st_uptime :: int
  st_errors :: nat
  st_warnings :: nat

definition getStats :: "time_ms \<Rightarrow> comm \<Rightarrow> comm_stats" where
  "getStats now c = \<lparr>st_channels = length (cm_channels c), st_agents = bus_getAgentCount (cm_bus c),
     st_messages = cm_messageCount c, st_uptime = now - cm_startTime c,
     st_errors = length (cm_errors c), st_warnings = length (cm_warnings c)\<rparr>"

definition comm_shutdown :: "comm \<Rightarrow> comm" where
  "comm_shutdown c =
     (let c1 = fold (\<lambda>i c. fst (removeChannel i c)) (js_keys (cm_channels c)) c
      in c1\<lparr>cm_bus := bus_clearMessageLog (cm_bus c1), cm_messageCount := 0, cm_errors := [], cm_warnings := []\<rparr>)"

end
