(* ===== verification/Bus_Props.thy ===== *)
theory Bus_Props
  imports Communication_Manager
begin

text \<open>The invariant of the bus and what sending, broadcasting, publishing and unregistering do.\<close>

section \<open>Invariant\<close>

definition agent_ok :: "string \<Rightarrow> registered_agent \<Rightarrow> bool" where
  "agent_ok i a \<longleftrightarrow> ra_agentId a = i \<and> ib_agentId (ra_inbox a) = i \<and> ob_agentId (ra_outbox a) = i
     \<and> inbox_inv (ra_inbox a) \<and> outbox_inv (ra_outbox a)"

definition bus_inv :: "bus \<Rightarrow> bool" where
  "bus_inv b \<longleftrightarrow> js_wf (bus_agents b) \<and> (\<forall>i a. js_get (bus_agents b) i = Some a \<longrightarrow> agent_ok i a)
     \<and> length (bus_messageLog b) \<le> 1000"

lemma put_agent_get [simp]:
  "js_get (bus_agents (put_agent i a b)) j = (if j = i then Some a else js_get (bus_agents b) j)"
  by (simp add: put_agent_def)

lemma put_agent_log [simp]: "bus_messageLog (put_agent i a b) = bus_messageLog b"
  by (simp add: put_agent_def)

lemma put_agent_keys: "js_has (bus_agents b) i \<Longrightarrow> js_keys (bus_agents (put_agent i a b)) = js_keys (bus_agents b)"
  by (auto simp: put_agent_def js_keys_def js_set_def js_has_keys update_keys)

lemma addToMessageLog_agents [simp]: "bus_agents (addToMessageLog m b) = bus_agents b"
  by (simp add: addToMessageLog_def Let_def)

lemma put_agent_inv: "bus_inv b \<Longrightarrow> agent_ok i a \<Longrightarrow> bus_inv (put_agent i a b)"
  by (auto simp: bus_inv_def put_agent_def split: if_splits)

lemma log_inv: "bus_inv b \<Longrightarrow> bus_inv (addToMessageLog m b)"
  using bus_log.push_bounded [of b m] by (simp add: bus_inv_def)

lemma inbox_push_id [simp]: "ib_agentId (fst (inbox_push now m b)) = ib_agentId b"
  by (simp add: inbox_push_def)

lemma inbox_push_snd: "inbox_push now m b = (c, x) \<Longrightarrow> c = fst (inbox_push now m b)"
  by simp

lemma deliver_copy_ok: "agent_ok i a \<Longrightarrow> agent_ok i (fst (deliver_copy now bm i a))"
  by (auto simp: deliver_copy_def agent_ok_def split: prod.splits sum.splits
      dest!: inbox_push_snd intro: inv_intros)

lemma deliver_one_inv:
  assumes "bus_inv (fst bn)"
  shows "bus_inv (fst (deliver_one now bm i bn))"
proof (cases "js_get (bus_agents (fst bn)) i")
  case None
  then show ?thesis using assms by (cases bn) (simp add: deliver_one_def)
next
  case (Some a)
  have "agent_ok i (fst (deliver_copy now bm i a))"
    using assms Some by (intro deliver_copy_ok) (simp add: bus_inv_def)
  from put_agent_inv [OF assms this] show ?thesis
    using Some by (cases bn; cases "deliver_copy now bm i a") (simp add: deliver_one_def)
qed

lemma fold_deliver_inv: "bus_inv (fst bn) \<Longrightarrow> bus_inv (fst (fold (deliver_one now bm) ids bn))"
  by (induction ids arbitrary: bn) (simp_all add: deliver_one_inv)

lemma touch_inv: "bus_inv b \<Longrightarrow> js_get (bus_agents b) i = Some s \<Longrightarrow> bus_inv (put_agent i (s\<lparr>ra_lastActivity := now\<rparr>) b)"
  by (rule put_agent_inv) (auto simp: bus_inv_def agent_ok_def)

lemma bus_broadcast_inv [inv_intros]:
  assumes "bus_inv b"
  shows "bus_inv (fst (bus_broadcast now m b))"
proof (cases "js_get (bus_agents b) (senderAgentId m)")
  case None
  then show ?thesis using log_inv [OF assms] by (simp add: bus_broadcast_def Let_def)
next
  case (Some s)
  let ?b = "put_agent (senderAgentId m) (s\<lparr>ra_lastActivity := now\<rparr>) (addToMessageLog m b)"
  have "bus_inv ?b" by (rule touch_inv [OF log_inv [OF assms]]) (simp add: Some)
  then have "bus_inv (fst (?b, 0 :: nat))" by simp
  from fold_deliver_inv [OF this] show ?thesis
    using Some by (simp add: bus_broadcast_def Let_def split: prod.splits) (metis fst_conv)
qed

lemma mark_failed_inv [inv_intros]:
  assumes "bus_inv b"
  shows "bus_inv (mark_failed_at now a i err b)"
proof (cases "js_get (bus_agents b) a")
  case (Some s)
  have "ob_agentId (outbox_markAsFailed now i err (ra_outbox s)) = ob_agentId (ra_outbox s)"
    by (simp add: outbox_markAsFailed_def Let_def split: option.splits)
  then have "agent_ok a (s\<lparr>ra_outbox := outbox_markAsFailed now i err (ra_outbox s)\<rparr>)"
    using assms Some by (simp add: bus_inv_def agent_ok_def inv_intros)
  then show ?thesis using put_agent_inv [OF assms] by (simp add: mark_failed_at_def Some)
qed (use assms in \<open>simp add: mark_failed_at_def\<close>)

lemma bus_send_inv [inv_intros]:
  assumes "bus_inv b"
  shows "bus_inv (fst (bus_send now m b))"
proof (cases "js_get (bus_agents b) (senderAgentId m)")
  case None
  then show ?thesis using log_inv [OF assms] by (simp add: bus_send_def Let_def)
next
  case (Some s)
  let ?b = "put_agent (senderAgentId m) (s\<lparr>ra_lastActivity := now\<rparr>) (addToMessageLog m b)"
  have b: "bus_inv ?b" by (rule touch_inv [OF log_inv [OF assms]]) (simp add: Some)
  show ?thesis
  proof (cases "addressee m = None \<or> msg_type m = MsgBroadcast")
    case True
    then show ?thesis using Some bus_broadcast_inv [OF b, of now m]
      by (cases "bus_broadcast now m ?b"; cases "snd (bus_broadcast now m ?b)")
        (auto simp: bus_send_def Let_def intro: mark_failed_inv)
  next
    case False
    then obtain r where r: "addressee m = Some r" by auto
    show ?thesis
    proof (cases "js_get (bus_agents ?b) r")
      case None
      then show ?thesis using False Some r b
        by (auto simp: bus_send_def Let_def intro: mark_failed_inv split: if_splits)
    next
      case a: (Some a)
      have "agent_ok r a" using b a by (auto simp: bus_inv_def)
      then have ok: "agent_ok r (a\<lparr>ra_inbox := fst (inbox_push now m (ra_inbox a)), ra_lastActivity := now\<rparr>)"
        by (simp add: agent_ok_def inv_intros)
      have "fst (bus_send now m b) =
          (case snd (inbox_push now m (ra_inbox a)) of
             Inl e \<Rightarrow> mark_failed_at now (senderAgentId m) (messageId m) (err_message e) ?b
           | Inr _ \<Rightarrow> put_agent r (a\<lparr>ra_inbox := fst (inbox_push now m (ra_inbox a)), ra_lastActivity := now\<rparr>) ?b)"
        using Some False r a by (simp add: bus_send_def Let_def split: prod.splits sum.splits)
      then show ?thesis using b ok by (auto intro: mark_failed_inv put_agent_inv split: sum.splits)
    qed
  qed
qed

lemma bus_register_inv [inv_intros]: "bus_inv b \<Longrightarrow> bus_inv (fst (bus_register now i md b))"
  by (auto simp: bus_register_def agent_ok_def new_inbox_inv new_outbox_inv new_inbox_def new_outbox_def
      intro!: put_agent_inv new_inbox_inv [unfolded new_inbox_def] new_outbox_inv [unfolded new_outbox_def])

lemma bus_unregister_inv [inv_intros]: "bus_inv b \<Longrightarrow> bus_inv (fst (bus_unregister i b))"
  by (auto simp: bus_unregister_def bus_inv_def)

lemma bus_clear_inv [inv_intros]: "bus_inv b \<Longrightarrow> bus_inv (bus_clearMessageLog b)"
  by (simp add: bus_clearMessageLog_def bus_inv_def)

lemma inbox_step_id: "inbox_step x y \<Longrightarrow> ib_agentId y = ib_agentId x"
  by (erule inbox_stepE) (auto simp: inbox_pop_def inbox_clear_def split: list.splits)

lemma inbox_step_inv: "inbox_step x y \<Longrightarrow> inbox_inv x \<Longrightarrow> inbox_inv y"
  by (erule inbox_stepE) (auto intro: inv_intros)

lemma outbox_step_id: "outbox_step x y \<Longrightarrow> ob_agentId y = ob_agentId x"
  by (erule outbox_stepE) (auto simp: outbox_enqueue_def outbox_dequeue_def outbox_retry_def
      outbox_markAsFailed_def outbox_clear_def Let_def split: option.splits)

lemma outbox_step_inv: "outbox_step x y \<Longrightarrow> outbox_inv x \<Longrightarrow> outbox_inv y"
  by (erule outbox_stepE) (auto intro: inv_intros)

inductive bus_step :: "bus \<Rightarrow> bus \<Rightarrow> bool" where
  bs_send: "bus_step b (fst (bus_send now m b))"
| bs_broadcast: "bus_step b (fst (bus_broadcast now m b))"
| bs_register: "bus_step b (fst (bus_register now i md b))"
| bs_unregister: "bus_step b (fst (bus_unregister i b))"
| bs_clear: "bus_step b (bus_clearMessageLog b)"
| bs_inbox: "js_get (bus_agents b) i = Some a \<Longrightarrow> inbox_step (ra_inbox a) x \<Longrightarrow>
    bus_step b (put_agent i (a\<lparr>ra_inbox := x\<rparr>) b)"
| bs_outbox: "js_get (bus_agents b) i = Some a \<Longrightarrow> outbox_step (ra_outbox a) y \<Longrightarrow>
    bus_step b (put_agent i (a\<lparr>ra_outbox := y\<rparr>) b)"

inductive_cases bus_stepE: "bus_step b c"

inductive bus_reachable :: "bus \<Rightarrow> bool" where
  bs_new: "bus_reachable new_bus"
| bs_more: "bus_reachable b \<Longrightarrow> bus_step b c \<Longrightarrow> bus_reachable c"

lemma use_inbox_inv:
  assumes "bus_inv b" and "js_get (bus_agents b) i = Some a" and "inbox_step (ra_inbox a) x"
  shows "bus_inv (put_agent i (a\<lparr>ra_inbox := x\<rparr>) b)"
proof (rule put_agent_inv [OF assms(1)])
  have "agent_ok i a" using assms(1,2) by (simp add: bus_inv_def)
  then show "agent_ok i (a\<lparr>ra_inbox := x\<rparr>)"
    using inbox_step_id [OF assms(3)] inbox_step_inv [OF assms(3)] by (simp add: agent_ok_def)
qed

lemma use_outbox_inv:
  assumes "bus_inv b" and "js_get (bus_agents b) i = Some a" and "outbox_step (ra_outbox a) y"
  shows "bus_inv (put_agent i (a\<lparr>ra_outbox := y\<rparr>) b)"
proof (rule put_agent_inv [OF assms(1)])
  have "agent_ok i a" using assms(1,2) by (simp add: bus_inv_def)
  then show "agent_ok i (a\<lparr>ra_outbox := y\<rparr>)"
    using outbox_step_id [OF assms(3)] outbox_step_inv [OF assms(3)] by (simp add: agent_ok_def)
qed

lemma bus_step_inv: "bus_step b c \<Longrightarrow> bus_inv b \<Longrightarrow> bus_inv c"
  by (erule bus_stepE) (simp_all add: inv_intros use_inbox_inv use_outbox_inv)

lemma bus_reachable_inv: "bus_reachable b \<Longrightarrow> bus_inv b"
proof (induction rule: bus_reachable.induct)
  case bs_new
  show ?case by (simp add: bus_inv_def new_bus_def)
qed (rule bus_step_inv)

section \<open>Sending to one agent\<close>

definition has_room :: "bus \<Rightarrow> string \<Rightarrow> bool" where
  "has_room b i = (case js_get (bus_agents b) i of
     Some a \<Rightarrow> length (ib_messages (ra_inbox a)) < 1000 | None \<Rightarrow> False)"

lemma inbox_push_ok_iff:
  "(\<exists>c. inbox_push now m b = (c, Inr ())) \<longleftrightarrow> \<not> misaddressed b m \<and> length (ib_messages b) < 1000"
  by (auto simp: inbox_push_def mailbox_max_def)

lemma mark_failed_inbox [simp]: "bus_getAgentInbox j (mark_failed_at now a i err b) = bus_getAgentInbox j b"
  by (auto simp: mark_failed_at_def bus_getAgentInbox_def split: option.splits)

lemma mark_failed_log [simp]: "bus_messageLog (mark_failed_at now a i err b) = bus_messageLog b"
  by (simp add: mark_failed_at_def split: option.splits)

lemma touch_inbox [simp]:
  "js_get (bus_agents b) i = Some s \<Longrightarrow> bus_getAgentInbox j (put_agent i (s\<lparr>ra_lastActivity := now\<rparr>) b) = bus_getAgentInbox j b"
  by (simp add: bus_getAgentInbox_def)

lemma log_inbox [simp]: "bus_getAgentInbox j (addToMessageLog m b) = bus_getAgentInbox j b"
  by (simp add: bus_getAgentInbox_def)

text \<open>C8: a direct message is delivered exactly when sender and receiver are registered and the
  receiver's inbox has room; then the receiver's inbox gains it, in every case no other
  agent's inbox changes, and the message is logged once.\<close>

theorem bus_send_direct:
  assumes "bus_reachable b" and "addressee m = Some r" and "msg_type m \<noteq> MsgBroadcast"
  shows "(snd (bus_send now m b) \<longleftrightarrow> bus_isRegistered (senderAgentId m) b \<and> has_room b r)
    \<and> (\<forall>j. bus_getAgentInbox j (fst (bus_send now m b)) =
         (if j = r \<and> snd (bus_send now m b)
          then map_option (\<lambda>ib. fst (inbox_push now m ib)) (bus_getAgentInbox r b)
          else bus_getAgentInbox j b))
    \<and> bus_messageLog (fst (bus_send now m b)) = bus_messageLog (addToMessageLog m b)"
proof (cases "js_get (bus_agents b) (senderAgentId m)")
  case None
  then show ?thesis by (simp add: bus_send_def Let_def bus_isRegistered_def js_has_iff)
next
  case (Some s)
  let ?b = "put_agent (senderAgentId m) (s\<lparr>ra_lastActivity := now\<rparr>) (addToMessageLog m b)"
  have reg: "bus_isRegistered (senderAgentId m) b" by (simp add: bus_isRegistered_def js_has_iff Some)
  have same: "bus_getAgentInbox j ?b = bus_getAgentInbox j b" for j using Some by (simp add: bus_getAgentInbox_def)
  show ?thesis
  proof (cases "js_get (bus_agents b) r")
    case None
    then have "r \<noteq> senderAgentId m" using Some by auto
    then have "bus_send now m b
        = (mark_failed_at now (senderAgentId m) (messageId m) (''Receiver not found: '' @ r) ?b, False)"
      using None Some assms(2,3) by (simp add: bus_send_def Let_def)
    then show ?thesis using None same by (simp add: has_room_def)
  next
    case a: (Some a)
    have "bus_inv b" by (rule bus_reachable_inv [OF assms(1)])
    then have "ib_agentId (ra_inbox a) = r" using a by (auto simp: bus_inv_def agent_ok_def)
    then have addr: "\<not> misaddressed (ra_inbox a) m" by (simp add: misaddressed_def assms(2))
    obtain a' where a': "js_get (bus_agents ?b) r = Some a'" "ra_inbox a' = ra_inbox a"
      using a Some by (cases "r = senderAgentId m") auto
    have ia: "bus_getAgentInbox r b = Some (ra_inbox a)" by (simp add: bus_getAgentInbox_def a)
    show ?thesis
    proof (cases "length (ib_messages (ra_inbox a)) < 1000")
      case True
      then obtain c where c: "inbox_push now m (ra_inbox a) = (c, Inr ())"
        using inbox_push_ok_iff addr by blast
      then have "bus_send now m b = (put_agent r (a'\<lparr>ra_inbox := c, ra_lastActivity := now\<rparr>) ?b, True)"
        using Some assms(2,3) a' by (simp add: bus_send_def Let_def)
      then show ?thesis using reg a True c same ia by (auto simp: has_room_def bus_getAgentInbox_def)
    next
      case False
      then obtain c e where c: "inbox_push now m (ra_inbox a) = (c, Inl e)"
        using inbox_push_ok_iff [of now m "ra_inbox a"]
        by (cases "inbox_push now m (ra_inbox a)"; cases "snd (inbox_push now m (ra_inbox a))") auto
      then have "bus_send now m b
          = (mark_failed_at now (senderAgentId m) (messageId m) (err_message e) ?b, False)"
        using Some assms(2,3) a' by (simp add: bus_send_def Let_def)
      then show ?thesis using a False same by (simp add: has_room_def)
    qed
  qed
qed

definition demo_bus :: bus where
  "demo_bus = fst (bus_register 3 ''o'' [] (fst (bus_register 2 ''r'' [] (fst (bus_register 1 ''s'' [] new_bus)))))"

lemma demo_bus_reachable: "bus_reachable demo_bus"
  unfolding demo_bus_def
  by (rule bs_more [OF bs_more [OF bs_more [OF bs_new bs_register] bs_register] bs_register])

theorem bus_send_direct_witness:
  "bus_reachable demo_bus \<and> snd (bus_send 5 (demo_msg ''1'' High 4) demo_bus) \<and>
   bus_getAgentInbox ''o'' (fst (bus_send 5 (demo_msg ''1'' High 4) demo_bus)) = bus_getAgentInbox ''o'' demo_bus"
proof -
  let ?m = "demo_msg ''1'' High 4"
  have a: "addressee ?m = Some ''r''" and t: "msg_type ?m \<noteq> MsgBroadcast"
    by (simp_all add: demo_msg_def addressee_def)
  note d = bus_send_direct [OF demo_bus_reachable a t, of 5]
  have "senderAgentId ?m = ''s''" by (simp add: demo_msg_def)
  moreover have "bus_isRegistered ''s'' demo_bus" "has_room demo_bus ''r''" by code_simp+
  ultimately have "snd (bus_send 5 ?m demo_bus)" using d by simp
  moreover have "bus_getAgentInbox ''o'' (fst (bus_send 5 ?m demo_bus)) = bus_getAgentInbox ''o'' demo_bus"
    using d by simp
  ultimately show ?thesis using demo_bus_reachable by blast
qed

section \<open>Broadcasting\<close>

lemma fold_deliver:
  assumes "distinct ids"
  shows "js_get (bus_agents (fst (fold (deliver_one now bm) ids (b, n)))) i =
      (if i \<in> set ids then map_option (\<lambda>a. fst (deliver_copy now bm i a)) (js_get (bus_agents b) i)
       else js_get (bus_agents b) i)"
    and "bus_messageLog (fst (fold (deliver_one now bm) ids (b, n))) = bus_messageLog b"
    and "snd (fold (deliver_one now bm) ids (b, n)) = n + length (filter
      (\<lambda>i. case js_get (bus_agents b) i of Some a \<Rightarrow> snd (deliver_copy now bm i a) | None \<Rightarrow> False) ids)"
proof -
  have "js_get (bus_agents (fst (fold (deliver_one now bm) ids (b, n)))) i =
      (if i \<in> set ids then map_option (\<lambda>a. fst (deliver_copy now bm i a)) (js_get (bus_agents b) i)
       else js_get (bus_agents b) i) \<and>
    bus_messageLog (fst (fold (deliver_one now bm) ids (b, n))) = bus_messageLog b \<and>
    snd (fold (deliver_one now bm) ids (b, n)) = n + length (filter
      (\<lambda>i. case js_get (bus_agents b) i of Some a \<Rightarrow> snd (deliver_copy now bm i a) | None \<Rightarrow> False) ids)"
    using assms
  proof (induction ids arbitrary: b n)
    case (Cons k ks)
    show ?case
    proof (cases "js_get (bus_agents b) k")
      case None
      then have "deliver_one now bm k (b, n) = (b, n)" by (simp add: deliver_one_def)
      then show ?thesis using Cons None by simp
    next
      case (Some a)
      obtain a' ok where d: "deliver_copy now bm k a = (a', ok)" by fastforce
      have e: "deliver_one now bm k (b, n) = (put_agent k a' b, if ok then Suc n else n)"
        by (simp add: deliver_one_def Some d)
      have f: "filter (\<lambda>i. case js_get (bus_agents (put_agent k a' b)) i of
            Some a \<Rightarrow> snd (deliver_copy now bm i a) | None \<Rightarrow> False) ks
          = filter (\<lambda>i. case js_get (bus_agents b) i of
            Some a \<Rightarrow> snd (deliver_copy now bm i a) | None \<Rightarrow> False) ks"
        using Cons.prems by (intro filter_cong) auto
      have ih: "js_get (bus_agents (fst (fold (deliver_one now bm) ks (put_agent k a' b, if ok then Suc n else n)))) i =
          (if i \<in> set ks then map_option (\<lambda>a. fst (deliver_copy now bm i a)) (js_get (bus_agents (put_agent k a' b)) i)
           else js_get (bus_agents (put_agent k a' b)) i) \<and>
        bus_messageLog (fst (fold (deliver_one now bm) ks (put_agent k a' b, if ok then Suc n else n)))
          = bus_messageLog (put_agent k a' b) \<and>
        snd (fold (deliver_one now bm) ks (put_agent k a' b, if ok then Suc n else n))
          = (if ok then Suc n else n) + length (filter (\<lambda>i. case js_get (bus_agents (put_agent k a' b)) i of
            Some a \<Rightarrow> snd (deliver_copy now bm i a) | None \<Rightarrow> False) ks)"
        by (rule Cons.IH) (use Cons.prems in simp)
      show ?thesis using ih Cons.prems unfolding f by (simp add: e Some d)
    qed
  qed simp
  then show "js_get (bus_agents (fst (fold (deliver_one now bm) ids (b, n)))) i =
      (if i \<in> set ids then map_option (\<lambda>a. fst (deliver_copy now bm i a)) (js_get (bus_agents b) i)
       else js_get (bus_agents b) i)"
    and "bus_messageLog (fst (fold (deliver_one now bm) ids (b, n))) = bus_messageLog b"
    and "snd (fold (deliver_one now bm) ids (b, n)) = n + length (filter
      (\<lambda>i. case js_get (bus_agents b) i of Some a \<Rightarrow> snd (deliver_copy now bm i a) | None \<Rightarrow> False) ids)"
    by blast+
qed

lemma deliver_copy_result:
  assumes "agent_ok i a"
  shows "snd (deliver_copy now bm i a) \<longleftrightarrow> length (ib_messages (ra_inbox a)) < 1000"
    and "ra_inbox (fst (deliver_copy now bm i a)) = fst (inbox_push now (bm\<lparr>receiverAgentId := Some i\<rparr>) (ra_inbox a))"
proof -
  have "ib_agentId (ra_inbox a) = i" using assms by (simp add: agent_ok_def)
  then have m: "\<not> misaddressed (ra_inbox a) (bm\<lparr>receiverAgentId := Some i\<rparr>)"
    by (simp add: misaddressed_def addressee_def)
  show "snd (deliver_copy now bm i a) \<longleftrightarrow> length (ib_messages (ra_inbox a)) < 1000"
    and "ra_inbox (fst (deliver_copy now bm i a)) = fst (inbox_push now (bm\<lparr>receiverAgentId := Some i\<rparr>) (ra_inbox a))"
    using m by (auto simp: deliver_copy_def inbox_push_def mailbox_max_def)
qed

text \<open>The agents a broadcast of the message reaches.\<close>

definition reached :: "agent_message \<Rightarrow> bus \<Rightarrow> string list" where
  "reached m b = filter (\<lambda>i. i \<noteq> senderAgentId m \<and> has_room b i) (bus_listAgents b)"

lemma bus_broadcast_effect:
  assumes b: "bus_inv b" and s: "js_get (bus_agents b) (senderAgentId m) = Some s"
  shows "snd (bus_broadcast now m b) = Inr (length (reached m b))"
    and "bus_getAgentInbox j (fst (bus_broadcast now m b)) =
      (if j \<noteq> senderAgentId m
       then map_option (\<lambda>ib. fst (inbox_push now ((broadcast_copy now m)\<lparr>receiverAgentId := Some j\<rparr>) ib))
         (bus_getAgentInbox j b)
       else bus_getAgentInbox j b)"
    and "bus_messageLog (fst (bus_broadcast now m b)) = bus_messageLog (addToMessageLog m b)"
proof -
  let ?me = "senderAgentId m"
  let ?b = "put_agent ?me (s\<lparr>ra_lastActivity := now\<rparr>) (addToMessageLog m b)"
  let ?ids = "filter (\<lambda>i. i \<noteq> ?me) (js_keys (bus_agents ?b))"
  let ?r = "fold (deliver_one now (broadcast_copy now m)) ?ids (?b, 0)"
  have e: "bus_broadcast now m b = (fst ?r, Inr (snd ?r))"
    using s by (simp add: bus_broadcast_def Let_def split: prod.splits)
  have inv: "bus_inv ?b" by (rule touch_inv [OF log_inv [OF b]]) (simp add: s)
  have keys: "js_keys (bus_agents ?b) = js_keys (bus_agents b)"
    using put_agent_keys [of "addToMessageLog m b"] s by (simp add: js_has_iff)
  have dist: "distinct ?ids" using b unfolding keys by (simp add: bus_inv_def js_wf_def js_keys_def)
  note f = fold_deliver [OF dist, of now "broadcast_copy now m" ?b 0]
  have get: "js_get (bus_agents ?b) i = js_get (bus_agents b) i" if "i \<noteq> ?me" for i using that by simp
  have "filter (\<lambda>i. case js_get (bus_agents ?b) i of
        Some a \<Rightarrow> snd (deliver_copy now (broadcast_copy now m) i a) | None \<Rightarrow> False) ?ids
      = filter (has_room b) ?ids"
  proof (rule filter_cong [OF refl])
    fix i
    assume "i \<in> set ?ids"
    then have "i \<noteq> ?me" by simp
    then show "(case js_get (bus_agents ?b) i of
        Some a \<Rightarrow> snd (deliver_copy now (broadcast_copy now m) i a) | None \<Rightarrow> False) = has_room b i"
      using b get deliver_copy_result(1) by (auto simp: has_room_def bus_inv_def split: option.splits)
  qed
  then show "snd (bus_broadcast now m b) = Inr (length (reached m b))"
    using f(3) unfolding e keys by (simp add: reached_def bus_listAgents_def conj_commute)
  show "bus_messageLog (fst (bus_broadcast now m b)) = bus_messageLog (addToMessageLog m b)"
    using f(2) unfolding e by simp
  show "bus_getAgentInbox j (fst (bus_broadcast now m b)) =
      (if j \<noteq> ?me
       then map_option (\<lambda>ib. fst (inbox_push now ((broadcast_copy now m)\<lparr>receiverAgentId := Some j\<rparr>) ib))
         (bus_getAgentInbox j b)
       else bus_getAgentInbox j b)"
  proof (cases "j \<noteq> ?me")
    case True
    have "j \<in> set ?ids \<longleftrightarrow> js_get (bus_agents b) j \<noteq> None"
      using True unfolding keys by (simp add: js_keys_def js_get_None_iff)
    then show ?thesis
      using f(1) [of j] True b deliver_copy_result(2) [of j] unfolding e
      by (cases "js_get (bus_agents b) j") (auto simp: bus_getAgentInbox_def bus_inv_def)
  next
    case False
    then show ?thesis using f(1) [of j] s unfolding e by (simp add: bus_getAgentInbox_def)
  qed
qed

text \<open>What sending a broadcast does, for the theorems about it.\<close>

lemma bus_send_broadcast_effect:
  assumes "bus_reachable b" and "bus_isRegistered (senderAgentId m) b"
    and "addressee m = None \<or> msg_type m = MsgBroadcast"
  shows "(snd (bus_send now m b) \<longleftrightarrow> reached m b \<noteq> [])
    \<and> (\<forall>j. bus_getAgentInbox j (fst (bus_send now m b)) =
         (if j = senderAgentId m then bus_getAgentInbox j b
          else map_option (\<lambda>ib. fst (inbox_push now ((broadcast_copy now m)\<lparr>receiverAgentId := Some j\<rparr>) ib))
                 (bus_getAgentInbox j b)))
    \<and> bus_messageLog (fst (bus_send now m b)) = bus_messageLog (addToMessageLog m (addToMessageLog m b))"
proof -
  have b: "bus_inv b" by (rule bus_reachable_inv [OF assms(1)])
  obtain s where s: "js_get (bus_agents b) (senderAgentId m) = Some s"
    using assms(2) by (auto simp: bus_isRegistered_def js_has_iff)
  let ?b = "put_agent (senderAgentId m) (s\<lparr>ra_lastActivity := now\<rparr>) (addToMessageLog m b)"
  have inv: "bus_inv ?b" by (rule touch_inv [OF log_inv [OF b]]) (simp add: s)
  have gs: "js_get (bus_agents ?b) (senderAgentId m) = Some (s\<lparr>ra_lastActivity := now\<rparr>)" by simp
  note eff = bus_broadcast_effect [where now = now, OF inv gs]
  have "has_room ?b = has_room b" using s by (intro ext) (simp add: has_room_def)
  moreover have "bus_listAgents ?b = bus_listAgents b"
    using put_agent_keys [of "addToMessageLog m b"] s by (simp add: js_has_iff bus_listAgents_def)
  ultimately have re: "reached m ?b = reached m b" by (simp add: reached_def)
  have same: "bus_getAgentInbox j ?b = bus_getAgentInbox j b" for j using s by (simp add: bus_getAgentInbox_def)
  have "bus_send now m b = (fst (bus_broadcast now m ?b), 0 < length (reached m b))"
    using s assms(3) eff(1) unfolding re
    by (cases "bus_broadcast now m ?b") (auto simp: bus_send_def Let_def)
  moreover have "bus_messageLog (addToMessageLog m ?b) = bus_messageLog (addToMessageLog m (addToMessageLog m b))"
    by (simp add: addToMessageLog_def Let_def)
  ultimately show ?thesis using eff(2,3) same by simp
qed

text \<open>a broadcast from a registered agent puts one copy in the inbox of every other agent that
  has room and none in the sender's; sending succeeds exactly when some agent was reached; and
  the message is in the log twice.\<close>

theorem bus_send_broadcast:
  assumes "bus_reachable b" and "bus_isRegistered (senderAgentId m) b"
    and "addressee m = None \<or> msg_type m = MsgBroadcast"
  shows "(snd (bus_send now m b) \<longleftrightarrow> reached m b \<noteq> [])
    \<and> (\<forall>j. bus_getAgentInbox j (fst (bus_send now m b)) =
         (if j = senderAgentId m then bus_getAgentInbox j b
          else map_option (\<lambda>ib. fst (inbox_push now ((broadcast_copy now m)\<lparr>receiverAgentId := Some j\<rparr>) ib))
                 (bus_getAgentInbox j b)))
    \<and> bus_messageLog (fst (bus_send now m b)) = bus_messageLog (addToMessageLog m (addToMessageLog m b))"
  by (rule bus_send_broadcast_effect [OF assms])

definition demo_bcast :: agent_message where
  "demo_bcast = (demo_msg ''1'' High 4)\<lparr>msg_type := MsgBroadcast\<rparr>"

theorem bus_send_broadcast_witness:
  "bus_reachable demo_bus \<and> reached demo_bcast demo_bus = [''r'', ''o''] \<and>
   snd (bus_send 5 demo_bcast demo_bus) \<and>
   bus_messageLog (fst (bus_send 5 demo_bcast demo_bus)) = [demo_bcast, demo_bcast]"
proof -
  have s: "bus_isRegistered (senderAgentId demo_bcast) demo_bus" by code_simp
  have t: "addressee demo_bcast = None \<or> msg_type demo_bcast = MsgBroadcast" by (simp add: demo_bcast_def)
  have r: "reached demo_bcast demo_bus = [''r'', ''o'']" by code_simp
  have "bus_messageLog demo_bus = []" by code_simp
  then have l: "bus_messageLog (addToMessageLog demo_bcast (addToMessageLog demo_bcast demo_bus)) = [demo_bcast, demo_bcast]"
    by (simp add: addToMessageLog_def)
  show ?thesis
    using bus_send_broadcast [OF demo_bus_reachable s t, of 5] demo_bus_reachable r l by simp
qed

section \<open>Channels and unregistering\<close>

text \<open>publishing any sequence of messages on a channel keeps the last hundred of them (after
  what the history held) and calls, for each, exactly the subscribers whose filter passes and
  that are its addressee, or, without an addressee, are not its sender.\<close>

theorem channel_publish_spec:
  assumes "length (ch_history c) \<le> 100"
  shows "ch_history (fold (\<lambda>m c. fst (channel_publish m c)) ms c)
      = drop (length (ch_history c) + length ms - 100) (ch_history c @ ms)
    \<and> snd (channel_publish m c) = map (\<lambda>sub. (sub, m)) (filter
        (\<lambda>sub. (case sub_filter sub of Some f \<Rightarrow> f m | None \<Rightarrow> True) \<and>
           (case addressee m of Some r \<Rightarrow> sub_agentId sub = r | None \<Rightarrow> sub_agentId sub \<noteq> senderAgentId m))
        (js_values (ch_subscriptions c)))"
proof -
  have p: "(\<lambda>m c. fst (channel_publish m c)) = addToHistory"
    by (intro ext) (simp add: channel_publish_def Let_def)
  have w: "wants m = (\<lambda>sub. (case sub_filter sub of Some f \<Rightarrow> f m | None \<Rightarrow> True) \<and>
      (case addressee m of Some r \<Rightarrow> sub_agentId sub = r | None \<Rightarrow> sub_agentId sub \<noteq> senderAgentId m))"
    by (rule ext) (simp add: wants_def split: option.split)
  show ?thesis
    unfolding p using history.push_run [OF assms] w
    by (simp add: channel_publish_def addToHistory_def Let_def)
qed

theorem channel_publish_spec_witness:
  "ch_history (fold (\<lambda>m c. fst (channel_publish m c)) (replicate 101 demo_bcast) (new_channel ''c''))
     = replicate 100 demo_bcast"
  using channel_publish_spec [of "new_channel ''c''" "replicate 101 demo_bcast" demo_bcast]
  by (simp add: new_channel_def)

lemma get_fold_delete: "js_get (fold js_delete ks m) k = (if k \<in> set ks then None else js_get m k)"
  by (induction ks arbitrary: m) auto

lemma wf_fold_delete: "js_wf m \<Longrightarrow> js_wf (fold js_delete ks m)"
  by (induction ks arbitrary: m) auto

lemma unsubscribeAgent_isSubscribed:
  assumes "js_wf (ch_subscriptions c)"
  shows "isSubscribed j (fst (unsubscribeAgent i c)) \<longleftrightarrow> j \<noteq> i \<and> isSubscribed j c"
proof -
  let ?ids = "map fst (filter (\<lambda>(k, sub). sub_agentId sub = i) (ch_subscriptions c))"
  let ?m = "fold js_delete ?ids (ch_subscriptions c)"
  have wf: "js_wf ?m" by (rule wf_fold_delete [OF assms])
  have "(k, sub) \<in> set ?m \<longleftrightarrow> (k, sub) \<in> set (ch_subscriptions c) \<and> sub_agentId sub \<noteq> i" for k sub
  proof -
    have "k \<in> set ?ids \<longleftrightarrow> sub_agentId sub = i" if "(k, sub) \<in> set (ch_subscriptions c)"
      using that js_get_wf [OF assms] by force
    then show ?thesis unfolding js_get_wf [OF wf] js_get_wf [OF assms] get_fold_delete
      using js_get_wf [OF assms] by auto
  qed
  then show ?thesis
    by (fastforce simp: isSubscribed_def list_ex_iff unsubscribeAgent_def Let_def js_values_def)
qed

text \<open>Channels of a manager hold each subscription id once.\<close>

definition channels_ok :: "comm \<Rightarrow> bool" where
  "channels_ok c \<longleftrightarrow> js_wf (cm_channels c) \<and> (\<forall>k ch. js_get (cm_channels c) k = Some ch \<longrightarrow> js_wf (ch_subscriptions ch))"

lemma get_map_channels:
  "js_get (map (\<lambda>(k, ch). (k, f ch)) m) k = map_option f (js_get m k)"
  by (induction m) (auto simp: js_get_def)

text \<open>after an agent is unregistered through the manager it is subscribed to no channel and
  not on the bus, and the subscriptions and registrations of the others are as before.\<close>

theorem unregister_agent_complete:
  assumes "channels_ok c"
  shows "\<not> bus_isRegistered i (cm_bus (fst (comm_unregisterAgent i c)))
    \<and> (j \<noteq> i \<longrightarrow> bus_findAgent j (cm_bus (fst (comm_unregisterAgent i c))) = bus_findAgent j (cm_bus c))
    \<and> js_keys (cm_channels (fst (comm_unregisterAgent i c))) = js_keys (cm_channels c)
    \<and> (\<forall>k ch. getChannel k (fst (comm_unregisterAgent i c)) = Some ch \<longrightarrow> \<not> isSubscribed i ch
        \<and> (j \<noteq> i \<longrightarrow> isSubscribed j ch = isSubscribed j (the (getChannel k c))))"
proof -
  let ?c = "fst (comm_unregisterAgent i c)"
  have bus: "cm_bus ?c = fst (bus_unregister i (cm_bus c))"
    and ch: "cm_channels ?c = map (\<lambda>(k, ch). (k, fst (unsubscribeAgent i ch))) (cm_channels c)"
    by (simp_all add: comm_unregisterAgent_def Let_def split: prod.splits)
  have "\<not> bus_isRegistered i (cm_bus ?c)" "j \<noteq> i \<longrightarrow> bus_findAgent j (cm_bus ?c) = bus_findAgent j (cm_bus c)"
    unfolding bus by (simp_all add: bus_unregister_def bus_isRegistered_def bus_findAgent_def)
  moreover have "js_keys (cm_channels ?c) = js_keys (cm_channels c)"
    unfolding ch by (auto simp: js_keys_def)
  moreover have "\<not> isSubscribed i ch' \<and> (j \<noteq> i \<longrightarrow> isSubscribed j ch' = isSubscribed j (the (getChannel k c)))"
    if g: "getChannel k ?c = Some ch'" for k ch'
  proof -
    obtain ch0 where ch0: "js_get (cm_channels c) k = Some ch0" "ch' = fst (unsubscribeAgent i ch0)"
      using g by (auto simp: getChannel_def ch get_map_channels)
    then have "js_wf (ch_subscriptions ch0)" using assms by (auto simp: channels_ok_def)
    from unsubscribeAgent_isSubscribed [OF this] show ?thesis using ch0 by (simp add: getChannel_def)
  qed
  ultimately show ?thesis by blast
qed

definition demo_comm :: comm where
  "demo_comm = (fst (createChannel ''k'' (new_comm 0)))\<lparr>cm_bus := demo_bus\<rparr>"

theorem unregister_agent_complete_witness:
  "channels_ok demo_comm \<and> bus_isRegistered ''r'' (cm_bus demo_comm) \<and>
   \<not> bus_isRegistered ''r'' (cm_bus (fst (comm_unregisterAgent ''r'' demo_comm)))"
proof -
  have "channels_ok demo_comm"
    by (auto simp: channels_ok_def demo_comm_def createChannel_def new_comm_def new_channel_def split: if_splits)
  moreover have "bus_isRegistered ''r'' (cm_bus demo_comm)" by code_simp
  ultimately show ?thesis using unregister_agent_complete by blast
qed

end
