(* ===== verification/Workflow_Types.thy ===== *)
theory Workflow_Types
  imports Agent_Types
begin

text \<open>
  The data of \<open>agents/workflow/workflow.types.ts\<close> and the exceptions of
  \<open>agents/workflow/workflow.exceptions.ts\<close>. Steps nest, so a step is a datatype: its own
  fields, a record, and its nested steps, if it has any.
\<close>

datatype workflow_state = WfCreated | WfValidated | WfRunning | WfPaused | WfFailed | WfCompleted | WfCancelled

datatype step_type = StTask | StSequence | StParallel | StConditional | StLoop | StCompensation

datatype workflow_mode = WfSequential | WfParallel | WfMixed

datatype loop_type = LoopWhile | LoopFor | LoopForEach

record workflow_condition =
  wc_expression :: string
  wc_variables :: "string list"

record workflow_loop =
  wl_type :: loop_type
  wl_condition :: workflow_condition
  wl_maxIterations :: int
  wl_breakOnError :: bool

record retry_policy =
  rp_maxAttempts :: int
  rp_backoffMs :: int
  rp_backoffMultiplier :: int
  rp_maxBackoffMs :: int

record timeout_policy =
  tp_stepTimeoutMs :: int
  tp_workflowTimeoutMs :: int
  tp_enableGlobalTimeout :: bool

record failure_policy =
  fp_continueOnError :: bool
  fp_maxFailures :: int
  fp_failFast :: bool
  fp_compensationRequired :: bool

record step_info =
  stepId :: string
  step_name :: string
  step_type :: step_type
  step_agentId :: "string option"
  step_taskName :: "string option"
  step_condition :: "workflow_condition option"
  step_loop :: "workflow_loop option"
  step_maxAttempts :: "int option"
  dependsOn :: "string list"
  step_metadata :: js_record

datatype workflow_step = Step (step_info: step_info) (nested: "workflow_step list option")

abbreviation step_id :: "workflow_step \<Rightarrow> string" where
  "step_id st \<equiv> stepId (step_info st)"

record workflow_definition =
  workflowId :: string
  wf_name :: string
  wf_version :: string
  wf_executionMode :: workflow_mode
  wf_steps :: "workflow_step list"
  wf_retryPolicy :: retry_policy
  wf_timeoutPolicy :: timeout_policy
  wf_failurePolicy :: failure_policy
  wf_metadata :: js_record
  wf_updatedAt :: time_ms

record workflow_execution =
  executionId :: string
  we_workflowId :: string
  we_state :: workflow_state
  we_variables :: js_record
  currentStepId :: "string option"
  completedSteps :: "string list"
  failedSteps :: "string list"
  compensatedSteps :: "string list"
  we_input :: jsval
  we_output :: jsval
  we_error :: "string option"
  we_startedAt :: time_ms
  we_completedAt :: "time_ms option"
  stepCount :: nat
  failureCount :: nat
  we_metadata :: js_record
  compensationErrors :: "string list"

record step_execution =
  se_stepId :: string
  se_state :: workflow_state
  se_input :: jsval
  se_output :: jsval
  se_error :: "string option"
  se_maxAttempts :: int

section \<open>Exceptions\<close>

text \<open>The last argument of a constructor is the message, where the class takes one.\<close>

datatype wf_error =
    WfError string
  | WorkflowNotFound string
  | DuplicateWorkflow string
  | WorkflowValidation string "string list"
  | WorkflowExecutionError string string "string option" string
  | WorkflowStepError string string string "string option"
  | WorkflowCancelled string
  | WorkflowConditionError string string string

fun wf_message :: "wf_error \<Rightarrow> string" where
  "wf_message (WfError m) = m"
| "wf_message (WorkflowNotFound i) = ''Workflow with ID '' @ sq i @ '' not found''"
| "wf_message (DuplicateWorkflow i) = ''Workflow with ID '' @ sq i @ '' already exists''"
| "wf_message (WorkflowValidation i es) = ''Workflow '' @ sq i @ '' validation failed: '' @ join_with '', '' es"
| "wf_message (WorkflowExecutionError e w s m) =
     str_or m (''Workflow execution failed: '' @ e @ '' (workflow: '' @ w
       @ (case s of Some x \<Rightarrow> (if x = [] then [] else '', step: '' @ x) | None \<Rightarrow> []) @ '')'')"
| "wf_message (WorkflowStepError s e t m) =
     str_or (case m of Some x \<Rightarrow> x | None \<Rightarrow> [])
       (''Workflow step '' @ sq s @ '' (type: '' @ t @ '') failed in execution '' @ sq e)"
| "wf_message (WorkflowCancelled e) = ''Workflow execution '' @ sq e @ '' was cancelled''"
| "wf_message (WorkflowConditionError c e m) =
     str_or m (''Condition evaluation failed: '' @ sq c @ '' in execution '' @ sq e)"

section \<open>Trees of steps\<close>

text \<open>The ids of a list of steps and everything nested in them, in preorder.\<close>

fun all_ids :: "workflow_step list \<Rightarrow> string list" where
  "all_ids [] = []"
| "all_ids (Step i ns # sts) =
     stepId i # (case ns of Some xs \<Rightarrow> all_ids xs | None \<Rightarrow> []) @ all_ids sts"

text \<open>\<open>findStep\<close>: the first match in preorder.\<close>

fun findStep :: "string \<Rightarrow> workflow_step list \<Rightarrow> workflow_step option" where
  "findStep k [] = None"
| "findStep k (Step i ns # sts) =
     (if stepId i = k then Some (Step i ns)
      else case (case ns of Some xs \<Rightarrow> findStep k xs | None \<Rightarrow> None) of
          Some st \<Rightarrow> Some st
        | None \<Rightarrow> findStep k sts)"

fun countTotalSteps :: "workflow_step list \<Rightarrow> nat" where
  "countTotalSteps [] = 0"
| "countTotalSteps (Step i ns # sts) =
     Suc ((case ns of Some xs \<Rightarrow> countTotalSteps xs | None \<Rightarrow> 0) + countTotalSteps sts)"

end
