(* ===== verification/Workflow_Registry.thy ===== *)
theory Workflow_Registry
  imports Workflow_Types
begin

text \<open>
  \<open>WorkflowRegistry\<close> (\<open>agents/workflow/workflow-registry.ts\<close>) and the validation part of
  \<open>WorkflowEngine\<close> (\<open>agents/workflow/workflow-engine.ts\<close>): what each accepts, and the
  registry's two maps.
\<close>

section \<open>Structural validation at registration\<close>

fun isStepIdInNestedSteps :: "string \<Rightarrow> workflow_step list \<Rightarrow> bool" where
  "isStepIdInNestedSteps k [] = False"
| "isStepIdInNestedSteps k (Step i ns # sts) =
     (stepId i = k \<or> (case ns of Some xs \<Rightarrow> isStepIdInNestedSteps k xs | None \<Rightarrow> False)
        \<or> isStepIdInNestedSteps k sts)"

text \<open>\<open>validateNestedSteps\<close>: \<open>seen\<close> is the closure's \<open>nestedStepIds\<close>. \<open>Some m\<close> is a throw.\<close>

fun validateNestedSteps :: "workflow_step list \<Rightarrow> string list \<Rightarrow> string list \<Rightarrow> string option" where
  "validateNestedSteps [] parents seen = None"
| "validateNestedSteps (Step i ns # sts) parents seen =
     (if stepId i = [] then Some ''Nested step ID is required''
      else if List.member seen (stepId i) \<or> List.member parents (stepId i)
      then Some (''Duplicate step ID in nested steps: '' @ stepId i)
      else let seen' = seen @ [stepId i]
           in case (case ns of Some xs \<Rightarrow> validateNestedSteps xs (parents @ seen') [] | None \<Rightarrow> None) of
                Some m \<Rightarrow> Some m
              | None \<Rightarrow> validateNestedSteps sts parents seen')"

text \<open>The loop over the root steps; \<open>all\<close> are the workflow's steps.\<close>

fun validate_roots :: "workflow_step list \<Rightarrow> string list \<Rightarrow> workflow_step list \<Rightarrow> string option" where
  "validate_roots all seen [] = None"
| "validate_roots all seen (Step i ns # sts) =
     (if stepId i = [] then Some ''Step ID is required for all steps''
      else if List.member seen (stepId i) then Some (''Duplicate step ID: '' @ stepId i)
      else let seen' = seen @ [stepId i]
           in if step_name i = [] then Some (''Step name is required for step '' @ stepId i)
              else case List.find (\<lambda>d. \<not> List.member seen' d \<and> \<not> isStepIdInNestedSteps d all) (dependsOn i) of
                Some d \<Rightarrow> Some (''Step '' @ stepId i @ '' depends on non-existent step: '' @ d)
              | None \<Rightarrow>
             (case (case ns of Some xs \<Rightarrow> validateNestedSteps xs seen' [] | None \<Rightarrow> None) of
                Some m \<Rightarrow> Some m
              | None \<Rightarrow> validate_roots all seen' sts))"

definition validateRetryPolicy :: "retry_policy \<Rightarrow> string option" where
  "validateRetryPolicy p =
     (if rp_maxAttempts p < 1 then Some ''Retry policy maxAttempts must be at least 1''
      else if rp_backoffMs p < 0 then Some ''Retry policy backoffMs must be non-negative''
      else if rp_backoffMultiplier p \<le> 0 then Some ''Retry policy backoffMultiplier must be positive''
      else if rp_maxBackoffMs p < rp_backoffMs p then Some ''Retry policy maxBackoffMs must be >= backoffMs''
      else None)"

definition validateTimeoutPolicy :: "timeout_policy \<Rightarrow> string option" where
  "validateTimeoutPolicy p =
     (if tp_stepTimeoutMs p \<le> 0 then Some ''Timeout policy stepTimeoutMs must be positive''
      else if tp_workflowTimeoutMs p \<le> 0 then Some ''Timeout policy workflowTimeoutMs must be positive''
      else if tp_stepTimeoutMs p > tp_workflowTimeoutMs p then Some ''Step timeout cannot exceed workflow timeout''
      else None)"

definition validateFailurePolicy :: "failure_policy \<Rightarrow> string option" where
  "validateFailurePolicy p =
     (if fp_maxFailures p < 0 then Some ''Failure policy maxFailures must be non-negative''
      else if fp_maxFailures p = 0 \<and> \<not> fp_continueOnError p
      then Some ''Failure policy must allow either maxFailures > 0 or continueOnError = true''
      else None)"

definition first_some :: "'a option list \<Rightarrow> 'a option" where
  "first_some xs = (case List.find (\<lambda>x. x \<noteq> None) xs of Some x \<Rightarrow> x | None \<Rightarrow> None)"

definition validateWorkflowStructure :: "workflow_definition \<Rightarrow> string option" where
  "validateWorkflowStructure w =
     (if workflowId w = [] then Some ''Workflow ID is required''
      else if wf_name w = [] then Some ''Workflow name is required''
      else if wf_version w = [] then Some ''Workflow version is required''
      else if wf_steps w = [] then Some ''Workflow must have at least one step''
      else first_some [validate_roots (wf_steps w) [] (wf_steps w), validateRetryPolicy (wf_retryPolicy w),
             validateTimeoutPolicy (wf_timeoutPolicy w), validateFailurePolicy (wf_failurePolicy w)])"

section \<open>The registry\<close>

record workflow_registry =
  workflows :: "(string, workflow_definition) js_map"
  workflowsByName :: "(string, workflow_definition list) js_map"

definition new_registry :: workflow_registry where
  "new_registry = \<lparr>workflows = [], workflowsByName = []\<rparr>"

definition by_name :: "workflow_registry \<Rightarrow> string \<Rightarrow> workflow_definition list" where
  "by_name r k = (case js_get (workflowsByName r) k of Some ws \<Rightarrow> ws | None \<Rightarrow> [])"

definition register_workflow ::
  "workflow_definition \<Rightarrow> workflow_registry \<Rightarrow> workflow_registry \<times> (wf_error + unit)" where
  "register_workflow w r =
     (if workflowId w = [] then (r, Inl (WfError ''Workflow ID is required''))
      else if js_has (workflows r) (workflowId w) then (r, Inl (DuplicateWorkflow (workflowId w)))
      else case validateWorkflowStructure w of
        Some m \<Rightarrow> (r, Inl (WfError (''Failed to register workflow '' @ sq (workflowId w) @ '': '' @ m)))
      | None \<Rightarrow>
          (let k = to_lower (wf_name w)
           in (r\<lparr>workflows := js_set (workflowId w) w (workflows r),
                 workflowsByName := js_set k (by_name r k @ [w]) (workflowsByName r)\<rparr>, Inr ())))"

definition remove_workflow :: "string \<Rightarrow> workflow_registry \<Rightarrow> workflow_registry \<times> bool" where
  "remove_workflow i r =
     (case js_get (workflows r) i of
        None \<Rightarrow> (r, False)
      | Some w \<Rightarrow>
          (let k = to_lower (wf_name w);
               rest = filter (\<lambda>x. workflowId x \<noteq> i) (by_name r k)
           in (r\<lparr>workflows := js_delete i (workflows r),
                 workflowsByName := (if rest = [] then js_delete k (workflowsByName r)
                                     else js_set k rest (workflowsByName r))\<rparr>, True)))"

definition find_workflow :: "workflow_registry \<Rightarrow> string \<Rightarrow> workflow_definition option" where
  "find_workflow r i = js_get (workflows r) i"

definition list_workflows :: "workflow_registry \<Rightarrow> workflow_definition list" where
  "list_workflows r = js_values (workflows r)"

definition exists_workflow :: "workflow_registry \<Rightarrow> string \<Rightarrow> bool" where
  "exists_workflow r i = js_has (workflows r) i"

definition findByName :: "workflow_registry \<Rightarrow> string \<Rightarrow> workflow_definition list" where
  "findByName r n = by_name r (to_lower n)"

definition count_workflows :: "workflow_registry \<Rightarrow> nat" where
  "count_workflows r = length (workflows r)"

text \<open>
  Sorting with a comparator, here by stable insertion. \<open>listByVersion\<close> sorts the array that the
  index holds in place, so it changes the index; \<open>cmp\<close> is the locale's string comparison.
\<close>

fun cmp_insert :: "('a \<Rightarrow> 'a \<Rightarrow> int) \<Rightarrow> 'a \<Rightarrow> 'a list \<Rightarrow> 'a list" where
  "cmp_insert c x [] = [x]"
| "cmp_insert c x (y # ys) = (if c y x \<le> 0 then y # cmp_insert c x ys else x # y # ys)"

definition cmp_sort :: "('a \<Rightarrow> 'a \<Rightarrow> int) \<Rightarrow> 'a list \<Rightarrow> 'a list" where
  "cmp_sort c xs = fold (cmp_insert c) xs []"

definition listByVersion ::
  "(string \<Rightarrow> string \<Rightarrow> int) \<Rightarrow> string \<Rightarrow> workflow_registry \<Rightarrow> workflow_registry \<times> workflow_definition list" where
  "listByVersion cmp n r =
     (let k = to_lower n;
          sorted = cmp_sort (\<lambda>a b. cmp (wf_version b) (wf_version a)) (by_name r k)
      in (if js_has (workflowsByName r) k
          then r\<lparr>workflowsByName := js_set k sorted (workflowsByName r)\<rparr> else r, sorted))"

definition getLatestVersion ::
  "(string \<Rightarrow> string \<Rightarrow> int) \<Rightarrow> string \<Rightarrow> workflow_registry \<Rightarrow> workflow_registry \<times> workflow_definition option" where
  "getLatestVersion cmp n r =
     (case listByVersion cmp n r of (r', ws) \<Rightarrow> (r', if length ws > 0 then Some (ws ! 0) else None))"

definition clear_workflows :: "workflow_registry \<Rightarrow> workflow_registry" where
  "clear_workflows r = r\<lparr>workflows := [], workflowsByName := []\<rparr>"

section \<open>Validation by the engine\<close>

text \<open>The sets and arrays that \<open>validateStep\<close> fills: known ids, errors, warnings.\<close>

type_synonym step_report = "string list \<times> string list \<times> string list"

definition note_step :: "step_info \<Rightarrow> step_report \<Rightarrow> step_report" where
  "note_step i acc = (case acc of (ids, errs, warns) \<Rightarrow>
     (if List.member ids (stepId i) then ids else ids @ [stepId i],
      errs @ (if List.member ids (stepId i) then [''Duplicate step ID: '' @ stepId i] else [])
        @ (if step_name i = [] then [''Step name is required for step '' @ stepId i] else []),
      warns @ (if step_type i = StTask \<and> str_or (case step_agentId i of Some a \<Rightarrow> a | None \<Rightarrow> []) [] = []
        then [''Task step '' @ stepId i @ '' has no agent ID specified''] else [])))"

definition note_missing_id :: "step_report \<Rightarrow> step_report" where
  "note_missing_id acc = (case acc of (ids, errs, warns) \<Rightarrow> (ids, errs @ [''Step ID is required''], warns))"

fun validateSteps :: "workflow_step list \<Rightarrow> step_report \<Rightarrow> step_report" where
  "validateSteps [] acc = acc"
| "validateSteps (Step i ns # sts) acc =
     validateSteps sts
       (if stepId i = [] then note_missing_id acc
        else case ns of Some xs \<Rightarrow> validateSteps xs (note_step i acc) | None \<Rightarrow> note_step i acc)"

definition collectAllStepIds :: "workflow_step list \<Rightarrow> string list" where
  "collectAllStepIds sts = remdups (all_ids sts)"

definition connectivity_errors :: "workflow_step list \<Rightarrow> string list" where
  "connectivity_errors sts = concat (map (\<lambda>st. map
       (\<lambda>d. ''Step '' @ step_id st @ '' depends on non-existent step: '' @ d)
       (filter (\<lambda>d. \<not> List.member (collectAllStepIds sts) d) (dependsOn (step_info st)))) sts)"

definition policy_errors :: "workflow_definition \<Rightarrow> string list" where
  "policy_errors w =
     (if rp_maxAttempts (wf_retryPolicy w) < 1 then [''Retry policy maxAttempts must be at least 1''] else [])
     @ (if tp_stepTimeoutMs (wf_timeoutPolicy w) \<le> 0 then [''Step timeout must be positive''] else [])
     @ (if tp_workflowTimeoutMs (wf_timeoutPolicy w) \<le> 0 then [''Workflow timeout must be positive''] else [])"

record wf_validation =
  wv_valid :: bool
  wv_errors :: "string list"
  wv_warnings :: "string list"

definition validate_workflow :: "workflow_definition \<Rightarrow> wf_validation" where
  "validate_workflow w =
     (let e0 = (if workflowId w = [] then [''Workflow ID is required''] else [])
            @ (if wf_name w = [] then [''Workflow name is required''] else [])
            @ (if wf_steps w = [] then [''Workflow must have at least one step''] else [])
      in case validateSteps (wf_steps w) ([], e0, []) of
           (ids, e1, warns) \<Rightarrow>
             (let errs = e1 @ connectivity_errors (wf_steps w) @ policy_errors w
              in \<lparr>wv_valid = (errs = []), wv_errors = errs, wv_warnings = warns\<rparr>))"

definition compile_workflow :: "time_ms \<Rightarrow> workflow_definition \<Rightarrow> wf_error + workflow_definition" where
  "compile_workflow now w =
     (let v = validate_workflow w
      in if \<not> wv_valid v then Inl (WorkflowValidation (workflowId w) (wv_errors v))
         else Inr (w\<lparr>wf_updatedAt := now, wf_metadata := js_spread (wf_metadata w)
             [(''compiled'', JBool True), (''compiledAt'', JDate now),
              (''stepCount'', JNum (int (countTotalSteps (wf_steps w))))]\<rparr>))"

end
