(* ===== verification/Workflow_Runner.thy ===== *)
theory Workflow_Runner
  imports Workflow_Types
begin

text \<open>
  \<open>WorkflowRunner\<close> (\<open>agents/workflow/workflow-runner.ts\<close>) over its executor interface. The
  executor is an argument: \<open>exec\<close> runs a step on the execution object and returns the object
  as the step left it (other operations that ran meanwhile, a pause or a cancellation,
  included) with the step execution or what the call threw. The executor's condition
  evaluation is \<open>evalc\<close>.
\<close>

type_synonym 'z exec_fn = "string \<Rightarrow> 'z workflow_execution_scheme \<Rightarrow> 'z workflow_execution_scheme \<times> (wf_error + step_execution)"
type_synonym 'z cond_fn = "string \<Rightarrow> 'z workflow_execution_scheme \<Rightarrow> wf_error + bool"

definition lookup_var :: "js_record \<Rightarrow> string \<Rightarrow> jsval" where
  "lookup_var fs k = (case js_get fs k of Some v \<Rightarrow> v | None \<Rightarrow> JUndefined)"

text \<open>\<open>v as number || 0\<close>, where the code's cast says that \<open>v\<close> is a number if it is set.\<close>

definition num_or_zero :: "jsval \<Rightarrow> int" where
  "num_or_zero v = (case v of JNum n \<Rightarrow> n | _ \<Rightarrow> 0)"

definition shouldContinueOnFailure :: "'z workflow_execution_scheme \<Rightarrow> bool" where
  "shouldContinueOnFailure e =
     (let cont = truthy (lookup_var (we_metadata e) ''continueOnError'');
          maxF = num_or_zero (lookup_var (we_metadata e) ''maxFailures'')
      in if \<not> cont then False
         else if maxF > 0 \<and> int (failureCount e) \<ge> maxF then False
         else True)"

definition push_completed :: "string \<Rightarrow> 'z workflow_execution_scheme \<Rightarrow> 'z workflow_execution_scheme" where
  "push_completed i e = e\<lparr>completedSteps := completedSteps e @ [i]\<rparr>"

definition count_failed :: "string \<Rightarrow> 'z workflow_execution_scheme \<Rightarrow> 'z workflow_execution_scheme" where
  "count_failed i e = e\<lparr>failedSteps := failedSteps e @ [i], failureCount := Suc (failureCount e)\<rparr>"

text \<open>The body of the loop's \<open>try\<close> for one step: \<open>Inl\<close> is what the \<open>catch\<close> receives.\<close>

definition try_step :: "'z exec_fn \<Rightarrow> string \<Rightarrow> 'z workflow_execution_scheme \<Rightarrow> 'z workflow_execution_scheme \<times> (wf_error + unit)" where
  "try_step exec i e =
     (case exec i (e\<lparr>currentStepId := Some i\<rparr>) of
        (e1, Inl err) \<Rightarrow> (e1, Inl err)
      | (e1, Inr se) \<Rightarrow>
          (if se_state se = WfCompleted then (push_completed i e1, Inr ())
           else if se_state se = WfFailed
           then (let e2 = count_failed i e1
                 in if \<not> shouldContinueOnFailure e2
                    then (e2, Inl (WorkflowStepError i (executionId e2) ''sequential'' None))
                    else (e2, Inr ()))
           else (e1, Inr ())))"

fun runSequential :: "'z exec_fn \<Rightarrow> string list \<Rightarrow> 'z workflow_execution_scheme \<Rightarrow> 'z workflow_execution_scheme \<times> (wf_error + unit)" where
  "runSequential exec [] e = (e, Inr ())"
| "runSequential exec (i # is) e =
     (if we_state e = WfCancelled then (e, Inl (WorkflowCancelled (executionId e)))
      else if we_state e = WfPaused then (e, Inr ())
      else case try_step exec i e of
          (e1, Inr _) \<Rightarrow> runSequential exec is e1
        | (e1, Inl err) \<Rightarrow>
            (let e2 = count_failed i e1
             in if \<not> shouldContinueOnFailure e2
                then (e2, Inl (WorkflowExecutionError (executionId e2) (we_workflowId e2) (Some i) (wf_message err)))
                else runSequential exec is e2))"

text \<open>
  \<open>runParallel\<close> starts every step and then handles the results in the order in which they
  settle. An interleaving is the list of settlements: the step, what happened to the execution
  object since the previous one, and the executor's result.
\<close>

type_synonym 'z settlement = "string \<times> ('z workflow_execution_scheme \<Rightarrow> 'z workflow_execution_scheme) \<times> (wf_error + step_execution)"

definition settle :: "'z settlement \<Rightarrow> 'z workflow_execution_scheme \<Rightarrow> 'z workflow_execution_scheme" where
  "settle x e = (case x of (i, f, res) \<Rightarrow>
     (case res of
        Inl err \<Rightarrow> count_failed i (f e)
      | Inr se \<Rightarrow> (if se_state se = WfCompleted then push_completed i (f e)
                   else if se_state se = WfFailed then count_failed i (f e) else f e)))"

definition parallel_error :: "string \<Rightarrow> 'z workflow_execution_scheme \<Rightarrow> wf_error" where
  "parallel_error m e = WorkflowExecutionError (executionId e) (we_workflowId e) None m"

definition runParallel ::
  "'z settlement list \<Rightarrow> string list \<Rightarrow> 'z workflow_execution_scheme \<Rightarrow> 'z workflow_execution_scheme \<times> (wf_error + unit)" where
  "runParallel sets stepIds e =
     (let cancelled = (we_state e = WfCancelled);
          e1 = (if cancelled then e else fold settle sets e);
          hasFailures = (if cancelled then stepIds \<noteq> [] else list_ex (\<lambda>(i, f, res). case res of Inl _ \<Rightarrow> True | Inr _ \<Rightarrow> False) sets)
      in if hasFailures \<and> \<not> shouldContinueOnFailure e1
         then (e1, Inl (parallel_error (''Parallel execution error: ''
                @ wf_message (parallel_error ''Parallel execution failed'' e1)) e1))
         else (e1, Inr ()))"

definition runConditional ::
  "'z exec_fn \<Rightarrow> 'z cond_fn \<Rightarrow> string \<Rightarrow> string list \<Rightarrow> string list \<Rightarrow> 'z workflow_execution_scheme
    \<Rightarrow> 'z workflow_execution_scheme \<times> (wf_error + unit)" where
  "runConditional exec evalc c thenSteps elseSteps e =
     (let fail = (\<lambda>e1 err. (e1, Inl (WorkflowConditionError c (executionId e1)
            (''Conditional execution failed: '' @ wf_message err))))
      in case evalc c e of
           Inl err \<Rightarrow> fail e err
         | Inr b \<Rightarrow>
             (let steps = (if b then thenSteps else elseSteps)
              in if length steps > 0
                 then (case runSequential exec steps e of
                         (e1, Inl err) \<Rightarrow> fail e1 err
                       | (e1, Inr _) \<Rightarrow> (e1, Inr ()))
                 else (e, Inr ())))"

text \<open>The loop's condition; for \<open>forEach\<close> the index variable is read, never written.\<close>

definition evaluateLoopCondition :: "'z cond_fn \<Rightarrow> workflow_loop \<Rightarrow> 'z workflow_execution_scheme \<Rightarrow> wf_error + bool" where
  "evaluateLoopCondition evalc l e =
     (case wl_type l of
        LoopWhile \<Rightarrow> evalc (wc_expression (wl_condition l)) e
      | LoopFor \<Rightarrow> Inr (num_or_zero (lookup_var (we_variables e) ''loopIteration'') < wl_maxIterations l)
      | LoopForEach \<Rightarrow>
          (let name = (case wc_variables (wl_condition l) of [] \<Rightarrow> ''undefined'' | v # vs \<Rightarrow> v);
               idx = num_or_zero (lookup_var (we_variables e) ''forEachIndex'')
           in Inr (case lookup_var (we_variables e) name of JArr xs \<Rightarrow> idx < int (length xs) | _ \<Rightarrow> False)))"

text \<open>The loop, with \<open>n\<close> iterations left of \<open>maxI\<close>; every pass through the body counts one.\<close>

fun loop_run ::
  "'z exec_fn \<Rightarrow> 'z cond_fn \<Rightarrow> workflow_loop \<Rightarrow> string list \<Rightarrow> int \<Rightarrow> nat \<Rightarrow> 'z workflow_execution_scheme
    \<Rightarrow> 'z workflow_execution_scheme \<times> (wf_error + unit)" where
  "loop_run exec evalc l steps maxI 0 e =
     (e, Inl (WorkflowExecutionError (executionId e) (we_workflowId e) None
            (''Loop exceeded maximum iterations: '' @ int_str maxI)))"
| "loop_run exec evalc l steps maxI (Suc n) e =
     (if we_state e = WfCancelled then (e, Inl (WorkflowCancelled (executionId e)))
      else case evaluateLoopCondition evalc l e of
        Inl err \<Rightarrow> (e, Inl (WorkflowConditionError (wc_expression (wl_condition l)) (executionId e)
                     (''Loop condition evaluation failed: '' @ wf_message err)))
      | Inr False \<Rightarrow> (e, Inr ())
      | Inr True \<Rightarrow>
          (let e1 = e\<lparr>we_variables := js_spread (we_variables e)
                 [(''loopIteration'', JNum (maxI - int (Suc n))), (''loopMaxIterations'', JNum maxI)]\<rparr>
           in case runSequential exec steps e1 of
                (e2, Inr _) \<Rightarrow> loop_run exec evalc l steps maxI n e2
              | (e2, Inl err) \<Rightarrow>
                  (if wl_breakOnError l then (e2, Inl err)
                   else loop_run exec evalc l steps maxI n (e2\<lparr>failureCount := Suc (failureCount e2)\<rparr>))))"

definition max_iterations :: "workflow_loop \<Rightarrow> int" where
  "max_iterations l = (if wl_maxIterations l = 0 then 100 else wl_maxIterations l)"

definition runLoop ::
  "'z exec_fn \<Rightarrow> 'z cond_fn \<Rightarrow> workflow_loop \<Rightarrow> string list \<Rightarrow> 'z workflow_execution_scheme
    \<Rightarrow> 'z workflow_execution_scheme \<times> (wf_error + unit)" where
  "runLoop exec evalc l steps e =
     (case loop_run exec evalc l steps (max_iterations l) (nat (max_iterations l)) e of
        (e1, Inr _) \<Rightarrow> (e1, Inr ())
      | (e1, Inl err) \<Rightarrow> (e1, Inl (WorkflowExecutionError (executionId e1) (we_workflowId e1) None
            (''Loop execution failed: '' @ wf_message err))))"

text \<open>\<open>cstep\<close> is the executor's \<open>compensateStep\<close>.\<close>

definition compensate_one ::
  "(string \<Rightarrow> 'z workflow_execution_scheme \<Rightarrow> wf_error option) \<Rightarrow> string \<Rightarrow> 'z workflow_execution_scheme \<Rightarrow> 'z workflow_execution_scheme" where
  "compensate_one cstep i e =
     (case cstep i e of
        None \<Rightarrow> e\<lparr>compensatedSteps := compensatedSteps e @ [i]\<rparr>
      | Some err \<Rightarrow> e\<lparr>compensationErrors := compensationErrors e
          @ [''Failed to compensate step '' @ i @ '': '' @ wf_message err]\<rparr>)"

definition runCompensation ::
  "(string \<Rightarrow> 'z workflow_execution_scheme \<Rightarrow> wf_error option) \<Rightarrow> string list \<Rightarrow> 'z workflow_execution_scheme \<Rightarrow> 'z workflow_execution_scheme" where
  "runCompensation cstep stepIds e = fold (compensate_one cstep) (rev stepIds) e"

section \<open>Mixed groups\<close>

text \<open>
  \<open>runMixed\<close> runs its sequential groups one after the other, then all parallel groups at once. What happens
  then is a list of events: a step settles, or the promises of a group have all settled and the group decides.
\<close>

datatype 'z mixed_event = StepSettles nat "'z settlement" | GroupDecides nat

definition step_rejected :: "'z settlement \<Rightarrow> bool" where
  "step_rejected x = (case x of (i, f, res) \<Rightarrow> (case res of Inl _ \<Rightarrow> True | Inr _ \<Rightarrow> False))"

fun mixed_events ::
  "(nat \<Rightarrow> bool) \<Rightarrow> 'z mixed_event list \<Rightarrow> 'z workflow_execution_scheme \<Rightarrow> 'z workflow_execution_scheme \<times> bool" where
  "mixed_events rejected [] e = (e, False)"
| "mixed_events rejected (StepSettles g x # evs) e =
     mixed_events (rejected(g := rejected g \<or> step_rejected x)) evs (settle x e)"
| "mixed_events rejected (GroupDecides g # evs) e =
     (case mixed_events rejected evs e of
        (e1, b) \<Rightarrow> (e1, b \<or> (rejected g \<and> \<not> shouldContinueOnFailure e)))"

fun run_groups ::
  "'z exec_fn \<Rightarrow> string list list \<Rightarrow> 'z workflow_execution_scheme \<Rightarrow> 'z workflow_execution_scheme \<times> (wf_error + unit)" where
  "run_groups exec [] e = (e, Inr ())"
| "run_groups exec (g # gs) e =
     (case runSequential exec g e of (e1, Inl err) \<Rightarrow> (e1, Inl err) | (e1, Inr _) \<Rightarrow> run_groups exec gs e1)"

text \<open>The steps of a group of a cancelled execution all reject before anything settles.\<close>

definition runMixed ::
  "'z exec_fn \<Rightarrow> 'z mixed_event list \<Rightarrow> string list list \<Rightarrow> string list list \<Rightarrow> 'z workflow_execution_scheme
    \<Rightarrow> 'z workflow_execution_scheme \<times> (wf_error + unit)" where
  "runMixed exec events seqs pars e =
     (case run_groups exec seqs e of
        (e1, Inl err) \<Rightarrow> (e1, Inl err)
      | (e1, Inr _) \<Rightarrow>
          (let cancelled = (we_state e1 = WfCancelled);
               (e2, failed) = mixed_events (\<lambda>g. cancelled \<and> g < length pars \<and> pars ! g \<noteq> []) events e1
           in if failed \<and> \<not> shouldContinueOnFailure e2
              then (e2, Inl (parallel_error ''Mixed execution failed in parallel groups'' e2)) else (e2, Inr ())))"

end
