(* ===== verification/Workflow_Props.thy ===== *)
theory Workflow_Props
  imports Workflow_Registry Workflow_Runner
begin

text \<open>Properties of the workflow registry, of validation and of the runner.\<close>

section \<open>The registry's name index\<close>

definition wreg_inv :: "workflow_registry \<Rightarrow> bool" where
  "wreg_inv r \<longleftrightarrow> js_wf (workflows r) \<and> js_wf (workflowsByName r) \<and>
     (\<forall>i w. js_get (workflows r) i = Some w \<longrightarrow> workflowId w = i \<and> validateWorkflowStructure w = None) \<and>
     (\<forall>k ws. js_get (workflowsByName r) k = Some ws \<longrightarrow> ws \<noteq> []) \<and>
     (\<forall>k. distinct (map workflowId (by_name r k))) \<and>
     (\<forall>k w. w \<in> set (by_name r k) \<longleftrightarrow> to_lower (wf_name w) = k \<and> js_get (workflows r) (workflowId w) = Some w)"

lemma by_name_set:
  "by_name (r\<lparr>workflows := m, workflowsByName := js_set k ws (workflowsByName r)\<rparr>) k' =
     (if k' = k then ws else by_name r k')"
  by (simp add: by_name_def)

lemma by_name_delete:
  "by_name (r\<lparr>workflows := m, workflowsByName := js_delete k (workflowsByName r)\<rparr>) k' =
     (if k' = k then [] else by_name r k')"
  by (simp add: by_name_def)

lemma new_registry_inv: "wreg_inv new_registry"
  by (simp add: wreg_inv_def new_registry_def by_name_def)

lemma register_workflow_inv [inv_intros]:
  assumes r: "wreg_inv r"
  shows "wreg_inv (fst (register_workflow w r))"
proof (cases "workflowId w = [] \<or> js_has (workflows r) (workflowId w) \<or> validateWorkflowStructure w \<noteq> None")
  case True
  then have "fst (register_workflow w r) = r" by (auto simp: register_workflow_def)
  then show ?thesis using r by simp
next
  case False
  let ?k = "to_lower (wf_name w)"
  let ?t = "r\<lparr>workflows := js_set (workflowId w) w (workflows r),
    workflowsByName := js_set ?k (by_name r ?k @ [w]) (workflowsByName r)\<rparr>"
  have t: "fst (register_workflow w r) = ?t" using False by (simp add: register_workflow_def Let_def)
  have fresh: "js_get (workflows r) (workflowId w) = None" using False by (auto simp: js_has_iff)
  have not_in: "workflowId w \<notin> workflowId ` set (by_name r k)" for k
    using r fresh by (auto simp: wreg_inv_def)
  have "x \<in> set (by_name ?t k) \<longleftrightarrow> to_lower (wf_name x) = k \<and> js_get (workflows ?t) (workflowId x) = Some x" for x k
  proof (cases "workflowId x = workflowId w")
    case True
    then have "x \<notin> set (by_name r k)" for k using not_in by (metis image_eqI)
    then show ?thesis using True by (auto simp: by_name_set)
  next
    case False
    then show ?thesis using r by (auto simp: by_name_set wreg_inv_def)
  qed
  moreover have "distinct (map workflowId (by_name ?t k))" for k
    using r not_in by (auto simp: by_name_set wreg_inv_def)
  ultimately show ?thesis unfolding t using r False by (auto simp: wreg_inv_def split: if_splits)
qed

lemma remove_workflow_inv [inv_intros]:
  assumes r: "wreg_inv r"
  shows "wreg_inv (fst (remove_workflow i r))"
proof (cases "js_get (workflows r) i")
  case None
  then show ?thesis using r by (simp add: remove_workflow_def)
next
  case (Some w)
  let ?k = "to_lower (wf_name w)"
  let ?rest = "filter (\<lambda>x. workflowId x \<noteq> i) (by_name r ?k)"
  let ?t = "fst (remove_workflow i r)"
  have wf: "workflows ?t = js_delete i (workflows r)"
    and idx: "workflowsByName ?t = (if ?rest = [] then js_delete ?k (workflowsByName r) else js_set ?k ?rest (workflowsByName r))"
    by (simp_all add: remove_workflow_def Some Let_def)
  have bn: "by_name ?t k = (if k = ?k then ?rest else by_name r k)" for k
    unfolding by_name_def idx by (auto simp: by_name_def)
  have wi: "workflowId w = i" using r Some by (auto simp: wreg_inv_def)
  have "x \<in> set (by_name ?t k) \<longleftrightarrow> to_lower (wf_name x) = k \<and> js_get (workflows ?t) (workflowId x) = Some x" for x k
  proof -
    have "x \<in> set (by_name r k) \<longleftrightarrow> to_lower (wf_name x) = k \<and> js_get (workflows r) (workflowId x) = Some x"
      using r by (simp add: wreg_inv_def)
    then show ?thesis unfolding bn wf using Some by auto
  qed
  moreover have "distinct (map workflowId (by_name ?t k))" for k
    unfolding bn using r by (auto simp: wreg_inv_def distinct_map_filter)
  moreover have "js_wf (workflowsByName ?t)" "js_wf (workflows ?t)" unfolding wf idx using r by (auto simp: wreg_inv_def)
  moreover have "ws \<noteq> []" if "js_get (workflowsByName ?t) k = Some ws" for k ws
    using that r unfolding idx by (auto simp: wreg_inv_def split: if_splits)
  ultimately show ?thesis using r unfolding wreg_inv_def wf by (auto split: if_splits)
qed

lemma mset_cmp_sort: "mset (cmp_sort c xs) = mset xs"
proof -
  have i: "mset (cmp_insert c x ys) = add_mset x (mset ys)" for x and ys :: "'a list"
    by (induction ys) auto
  have "mset (fold (cmp_insert c) xs ys) = mset xs + mset ys" for ys
    by (induction xs arbitrary: ys) (simp_all add: i)
  then show ?thesis by (simp add: cmp_sort_def)
qed

lemma listByVersion_inv [inv_intros]:
  assumes r: "wreg_inv r"
  shows "wreg_inv (fst (listByVersion cmp n r))"
proof (cases "js_has (workflowsByName r) (to_lower n)")
  case False
  then show ?thesis using r by (simp add: listByVersion_def Let_def)
next
  case True
  let ?k = "to_lower n"
  let ?ws = "cmp_sort (\<lambda>a b. cmp (wf_version b) (wf_version a)) (by_name r ?k)"
  let ?t = "r\<lparr>workflowsByName := js_set ?k ?ws (workflowsByName r)\<rparr>"
  have t: "fst (listByVersion cmp n r) = ?t" using True by (simp add: listByVersion_def Let_def)
  have bn: "by_name ?t k = (if k = ?k then ?ws else by_name r k)" for k by (simp add: by_name_def)
  have m: "mset ?ws = mset (by_name r ?k)" by (rule mset_cmp_sort)
  have "set (by_name ?t k) = set (by_name r k)" for k unfolding bn using mset_eq_setD [OF m] by simp
  moreover have "distinct (map workflowId (by_name ?t k))" for k
  proof -
    have "distinct (map workflowId ?ws) \<longleftrightarrow> distinct (map workflowId (by_name r ?k))"
      using m by (intro mset_eq_imp_distinct_iff) simp
    then show ?thesis unfolding bn using r by (simp add: wreg_inv_def)
  qed
  moreover have "?ws \<noteq> []"
  proof -
    have "by_name r ?k \<noteq> []" using True r by (auto simp: by_name_def js_has_iff wreg_inv_def)
    then show ?thesis using m by force
  qed
  ultimately show ?thesis unfolding t using r by (auto simp: wreg_inv_def split: if_splits)
qed

inductive wreg_step :: "workflow_registry \<Rightarrow> workflow_registry \<Rightarrow> bool" where
  wr_register: "wreg_step r (fst (register_workflow w r))"
| wr_remove: "wreg_step r (fst (remove_workflow i r))"
| wr_list: "wreg_step r (fst (listByVersion cmp n r))"
| wr_clear: "wreg_step r (clear_workflows r)"

inductive_cases wreg_stepE: "wreg_step r s"

inductive wreg_reachable :: "workflow_registry \<Rightarrow> bool" where
  wr_new: "wreg_reachable new_registry"
| wr_more: "wreg_reachable r \<Longrightarrow> wreg_step r s \<Longrightarrow> wreg_reachable s"

lemma clear_workflows_inv [inv_intros]: "wreg_inv (clear_workflows r)"
  by (simp add: wreg_inv_def clear_workflows_def by_name_def)

lemma wreg_reachable_inv: "wreg_reachable r \<Longrightarrow> wreg_inv r"
  by (induction rule: wreg_reachable.induct) (auto intro: new_registry_inv inv_intros elim!: wreg_stepE)

text \<open>whatever was registered, removed and listed, looking workflows up by name returns, once
  each, exactly the registered workflows whose name is the given one up to case; and every
  registered workflow passed the structural validation.\<close>

theorem workflow_index_consistent:
  assumes "wreg_reachable r"
  shows "distinct (map workflowId (findByName r n))
    \<and> set (findByName r n) = {w \<in> set (list_workflows r). to_lower (wf_name w) = to_lower n}
    \<and> (\<forall>w \<in> set (list_workflows r). find_workflow r (workflowId w) = Some w \<and> validateWorkflowStructure w = None)"
proof -
  have r: "wreg_inv r" by (rule wreg_reachable_inv [OF assms])
  have mem: "w \<in> set (list_workflows r) \<longleftrightarrow> js_get (workflows r) (workflowId w) = Some w" for w
  proof
    assume "w \<in> set (list_workflows r)"
    then obtain i where "(i, w) \<in> set (workflows r)" by (auto simp: list_workflows_def js_values_def)
    then have "js_get (workflows r) i = Some w" using r js_get_wf [of "workflows r" i w] by (simp add: wreg_inv_def)
    then show "js_get (workflows r) (workflowId w) = Some w" using r by (auto simp: wreg_inv_def)
  next
    assume "js_get (workflows r) (workflowId w) = Some w"
    then show "w \<in> set (list_workflows r)" using js_get_in_set by (force simp: list_workflows_def js_values_def)
  qed
  have "set (findByName r n) = {w \<in> set (list_workflows r). to_lower (wf_name w) = to_lower n}"
  proof -
    have "w \<in> set (by_name r k) \<longleftrightarrow> to_lower (wf_name w) = k \<and> js_get (workflows r) (workflowId w) = Some w" for w k
      using r unfolding wreg_inv_def by blast
    then show ?thesis unfolding findByName_def mem by blast
  qed
  moreover have "distinct (map workflowId (findByName r n))" using r by (simp add: wreg_inv_def findByName_def)
  moreover have "find_workflow r (workflowId w) = Some w \<and> validateWorkflowStructure w = None"
    if "w \<in> set (list_workflows r)" for w
  proof -
    have "js_get (workflows r) (workflowId w) = Some w" using that mem by blast
    then show ?thesis using r unfolding find_workflow_def wreg_inv_def by blast
  qed
  ultimately show ?thesis by blast
qed

definition demo_step :: "string \<Rightarrow> workflow_step list option \<Rightarrow> workflow_step" where
  "demo_step i ns = Step \<lparr>stepId = i, step_name = i, step_type = (if ns = None then StTask else StSequence),
     step_agentId = Some ''ag'', step_taskName = None, step_condition = None, step_loop = None,
     step_maxAttempts = None, dependsOn = [], step_metadata = []\<rparr> ns"

definition demo_workflow :: "string \<Rightarrow> string \<Rightarrow> workflow_step list \<Rightarrow> workflow_definition" where
  "demo_workflow i n sts = \<lparr>workflowId = i, wf_name = n, wf_version = ''1'', wf_executionMode = WfSequential,
     wf_steps = sts,
     wf_retryPolicy = \<lparr>rp_maxAttempts = 1, rp_backoffMs = 0, rp_backoffMultiplier = 1, rp_maxBackoffMs = 0\<rparr>,
     wf_timeoutPolicy = \<lparr>tp_stepTimeoutMs = 1, tp_workflowTimeoutMs = 2, tp_enableGlobalTimeout = False\<rparr>,
     wf_failurePolicy = \<lparr>fp_continueOnError = True, fp_maxFailures = 0, fp_failFast = False, fp_compensationRequired = False\<rparr>,
     wf_metadata = [], wf_updatedAt = 0\<rparr>"

definition demo_wreg :: workflow_registry where
  "demo_wreg = fst (register_workflow (demo_workflow ''2'' ''BUILD'' [demo_step ''s'' None])
     (fst (register_workflow (demo_workflow ''1'' ''Build'' [demo_step ''s'' None]) new_registry)))"

lemma demo_wreg_reachable: "wreg_reachable demo_wreg"
  unfolding demo_wreg_def by (rule wr_more [OF wr_more [OF wr_new wr_register] wr_register])

theorem workflow_index_consistent_witness:
  "wreg_reachable demo_wreg \<and> map workflowId (findByName demo_wreg ''build'') = [''1'', ''2''] \<and>
   distinct (map workflowId (findByName demo_wreg ''build''))"
proof -
  have "map workflowId (findByName demo_wreg ''build'') = [''1'', ''2'']" by code_simp
  then show ?thesis using demo_wreg_reachable workflow_index_consistent [OF demo_wreg_reachable] by blast
qed

section \<open>Validation\<close>

lemma isStepId_all_ids: "isStepIdInNestedSteps k sts \<longleftrightarrow> k \<in> set (all_ids sts)"
  by (induction k sts rule: isStepIdInNestedSteps.induct) (auto split: option.splits)

lemma findStep_all_ids: "findStep k sts = None \<longleftrightarrow> k \<notin> set (all_ids sts)"
  by (induction k sts rule: findStep.induct) (auto split: option.splits)

lemma countTotalSteps_all_ids: "countTotalSteps sts = length (all_ids sts)"
  by (induction sts rule: countTotalSteps.induct) (auto split: option.splits)

lemma note_missing_errs: "fst (snd (note_missing_id acc)) \<noteq> []"
  by (simp add: note_missing_id_def split: prod.splits)

lemma note_step_ok:
  assumes "fst (snd (note_step i acc)) = []"
  shows "fst (snd acc) = []" "stepId i \<notin> set (fst acc)" "fst (note_step i acc) = fst acc @ [stepId i]" "step_name i \<noteq> []"
  using assms by (auto simp: note_step_def split: prod.splits if_splits)

text \<open>If validation ends without an error, there was none before, and the collected ids are the
  given ones followed by those of the steps, all different and none empty.\<close>

lemma validateSteps_ok:
  "fst (snd (validateSteps sts acc)) = [] \<Longrightarrow> distinct (fst acc) \<Longrightarrow>
     fst (snd acc) = [] \<and> fst (validateSteps sts acc) = fst acc @ all_ids sts \<and>
     distinct (fst acc @ all_ids sts) \<and> [] \<notin> set (all_ids sts)"
proof (induction sts acc rule: validateSteps.induct)
  case (1 acc)
  then show ?case by simp
next
  case (2 i ns sts acc)
  show ?case
  proof (cases "stepId i = []")
    case True
    let ?a = "note_missing_id acc"
    have "fst ?a = fst acc" by (simp add: note_missing_id_def split: prod.splits)
    then have "fst (snd ?a) = []" using "2.IH"(2) "2.prems" True by simp
    then show ?thesis using note_missing_errs by blast
  next
    case ne: False
    let ?n = "note_step i acc"
    define mid where "mid = (case ns of Some xs \<Rightarrow> validateSteps xs ?n | None \<Rightarrow> ?n)"
    have e: "validateSteps (Step i ns # sts) acc = validateSteps sts mid" using ne by (simp add: mid_def)
    have "fst (snd mid) = [] \<and> (distinct (fst mid) \<longrightarrow> fst (validateSteps sts mid) = fst mid @ all_ids sts \<and>
        distinct (fst mid @ all_ids sts) \<and> [] \<notin> set (all_ids sts)) \<or> \<not> distinct (fst mid)"
      using "2.IH"(2) "2.prems"(1) ne unfolding e mid_def by auto
    have dn: "distinct (fst ?n)" using "2.prems"(2) by (auto simp: note_step_def split: prod.splits)
    have ids: "distinct (fst mid)"
    proof (cases ns)
      case None
      then show ?thesis using dn by (simp add: mid_def)
    next
      case (Some xs)
      have "distinct (fst (validateSteps ys a))" if "distinct (fst a)" for ys a
        using that
      proof (induction ys a rule: validateSteps.induct)
        case (2 i ns sts acc)
        have "distinct (fst (note_step i acc))" using "2.prems" by (auto simp: note_step_def split: prod.splits)
        moreover have "distinct (fst (note_missing_id acc))"
          using "2.prems" by (cases acc) (simp add: note_missing_id_def)
        ultimately show ?case using "2.IH" by (auto split: option.splits)
      qed simp
      then show ?thesis using dn Some by (simp add: mid_def)
    qed
    have m: "fst (snd mid) = []" "fst (validateSteps sts mid) = fst mid @ all_ids sts"
      "distinct (fst mid @ all_ids sts)" "[] \<notin> set (all_ids sts)"
      using "2.IH"(2) "2.prems"(1) ne ids unfolding e mid_def by auto
    have n: "fst (snd ?n) = [] \<and> fst mid = fst ?n @ (case ns of Some xs \<Rightarrow> all_ids xs | None \<Rightarrow> []) \<and>
        [] \<notin> set (case ns of Some xs \<Rightarrow> all_ids xs | None \<Rightarrow> [])"
      using "2.IH"(1) [OF ne] m(1) dn by (cases ns) (auto simp: mid_def)
    then have "fst (snd ?n) = []" by simp
    note ok = note_step_ok [OF this]
    show ?thesis using ne ok n m unfolding e by simp
  qed
qed

text \<open>a workflow that the engine's validation accepts has at least one step, all step ids in its
  tree are different and non-empty, the dependencies of its root steps exist, and compiling it
  records the number of its steps.\<close>

theorem validated_workflow_ids:
  assumes "wv_valid (validate_workflow w)"
  shows "wf_steps w \<noteq> [] \<and> distinct (all_ids (wf_steps w)) \<and> [] \<notin> set (all_ids (wf_steps w))
    \<and> (\<forall>st \<in> set (wf_steps w). set (dependsOn (step_info st)) \<subseteq> set (all_ids (wf_steps w)))
    \<and> (\<exists>c. compile_workflow now w = Inr c \<and> wf_steps c = wf_steps w
        \<and> js_get (wf_metadata c) ''stepCount'' = Some (JNum (int (length (all_ids (wf_steps w))))))"
proof -
  define e0 where "e0 = (if workflowId w = [] then [''Workflow ID is required''] else [])
      @ (if wf_name w = [] then [''Workflow name is required''] else [])
      @ (if wf_steps w = [] then [''Workflow must have at least one step''] else [])"
  let ?r = "validateSteps (wf_steps w) ([], e0, [])"
  have v: "fst (snd ?r) @ connectivity_errors (wf_steps w) @ policy_errors w = []"
    using assms by (cases ?r) (simp add: validate_workflow_def Let_def e0_def)
  then have er: "fst (snd ?r) = []" and con: "connectivity_errors (wf_steps w) = []" by simp_all
  have ids: "e0 = []" "distinct (all_ids (wf_steps w))" "[] \<notin> set (all_ids (wf_steps w))"
    using validateSteps_ok [OF er] by simp_all
  have ne: "wf_steps w \<noteq> []" using ids(1) by (auto simp: e0_def split: if_splits)
  have deps: "set (dependsOn (step_info st)) \<subseteq> set (all_ids (wf_steps w))" if "st \<in> set (wf_steps w)" for st
    using con that by (auto simp: connectivity_errors_def collectAllStepIds_def filter_empty_conv)
  have "\<exists>c. compile_workflow now w = Inr c \<and> wf_steps c = wf_steps w
        \<and> js_get (wf_metadata c) ''stepCount'' = Some (JNum (int (length (all_ids (wf_steps w)))))"
  proof -
    let ?n = "JNum (int (length (all_ids (wf_steps w))))"
    have "js_get [(''compiled'', JBool True), (''compiledAt'', JDate now), (''stepCount'', ?n)] ''stepCount'' = Some ?n"
      by (simp add: js_get_def)
    then have "js_get (js_spread (wf_metadata w)
        [(''compiled'', JBool True), (''compiledAt'', JDate now), (''stepCount'', ?n)]) ''stepCount'' = Some ?n"
      by (simp add: js_spread_def)
    then show ?thesis using assms by (simp add: compile_workflow_def Let_def countTotalSteps_all_ids)
  qed
  then show ?thesis using ids ne deps by blast
qed

text \<open>A workflow with the same id under two different parents.\<close>

definition cousins_workflow :: workflow_definition where
  "cousins_workflow = demo_workflow ''w'' ''n''
     [demo_step ''a'' (Some [demo_step ''x'' None]), demo_step ''b'' (Some [demo_step ''x'' None])]"

theorem validated_workflow_ids_witness:
  "wv_valid (validate_workflow (demo_workflow ''w'' ''n'' [demo_step ''a'' (Some [demo_step ''x'' None])])) \<and>
   distinct (all_ids (wf_steps (demo_workflow ''w'' ''n'' [demo_step ''a'' (Some [demo_step ''x'' None])]))) \<and>
   \<not> wv_valid (validate_workflow cousins_workflow)"
proof -
  have v: "wv_valid (validate_workflow (demo_workflow ''w'' ''n'' [demo_step ''a'' (Some [demo_step ''x'' None])]))"
    by code_simp
  have "\<not> distinct (all_ids (wf_steps cousins_workflow))" by code_simp
  then have "\<not> wv_valid (validate_workflow cousins_workflow)" using validated_workflow_ids by blast
  then show ?thesis using v validated_workflow_ids [OF v] by blast
qed

text \<open>The registry's own check compares nested ids with those of earlier roots and of ancestors
  only: it accepts the workflow above, of whose two steps \<open>x\<close> only the first can be found.\<close>

lemma registry_accepts_duplicate_ids:
  "snd (register_workflow cousins_workflow new_registry) = Inr () \<and> \<not> distinct (all_ids (wf_steps cousins_workflow))"
proof
  show "snd (register_workflow cousins_workflow new_registry) = Inr ()" by code_simp
  show "\<not> distinct (all_ids (wf_steps cousins_workflow))" by code_simp
qed

section \<open>Running steps in sequence\<close>

text \<open>An executor that only reports: it leaves the execution object as it is.\<close>

definition reports_only :: "unit exec_fn \<Rightarrow> bool" where
  "reports_only exec \<longleftrightarrow> (\<forall>i e. fst (exec i e) = e)"

definition step_result :: "unit exec_fn \<Rightarrow> string \<Rightarrow> workflow_execution \<Rightarrow> workflow_state option" where
  "step_result exec i e = (case snd (exec i (e\<lparr>currentStepId := Some i\<rparr>)) of Inl _ \<Rightarrow> None | Inr se \<Rightarrow> Some (se_state se))"

lemma try_step_completed:
  assumes "reports_only exec" and "step_result exec i e = Some WfCompleted"
  shows "try_step exec i e = (push_completed i (e\<lparr>currentStepId := Some i\<rparr>), Inr ())"
proof -
  obtain se where "snd (exec i (e\<lparr>currentStepId := Some i\<rparr>)) = Inr se" "se_state se = WfCompleted"
    using assms(2) by (auto simp: step_result_def split: sum.splits)
  moreover have "fst (exec i (e\<lparr>currentStepId := Some i\<rparr>)) = e\<lparr>currentStepId := Some i\<rparr>"
    using assms(1) by (simp add: reports_only_def)
  ultimately have "exec i (e\<lparr>currentStepId := Some i\<rparr>) = (e\<lparr>currentStepId := Some i\<rparr>, Inr se)"
    by (metis prod.collapse)
  then show ?thesis using \<open>se_state se = WfCompleted\<close> by (simp add: try_step_def)
qed

lemma try_step_failed:
  assumes "reports_only exec" and "step_result exec i e = Some WfFailed" and "\<not> truthy (lookup_var (we_metadata e) ''continueOnError'')"
  shows "\<exists>err. try_step exec i e = (count_failed i (e\<lparr>currentStepId := Some i\<rparr>), Inl err)"
proof -
  obtain se where "snd (exec i (e\<lparr>currentStepId := Some i\<rparr>)) = Inr se" and se: "se_state se = WfFailed"
    using assms(2) by (auto simp: step_result_def split: sum.splits)
  moreover have "fst (exec i (e\<lparr>currentStepId := Some i\<rparr>)) = e\<lparr>currentStepId := Some i\<rparr>"
    using assms(1) by (simp add: reports_only_def)
  ultimately have "exec i (e\<lparr>currentStepId := Some i\<rparr>) = (e\<lparr>currentStepId := Some i\<rparr>, Inr se)"
    by (metis prod.collapse)
  then show ?thesis using se assms(3) by (simp add: try_step_def shouldContinueOnFailure_def count_failed_def)
qed

definition progressed :: "string list \<Rightarrow> workflow_execution \<Rightarrow> workflow_execution" where
  "progressed pre e = e\<lparr>completedSteps := completedSteps e @ pre,
     currentStepId := (if pre = [] then currentStepId e else Some (last pre))\<rparr>"

lemma progressed_Cons:
  "progressed (i # pre) e = progressed pre (push_completed i (e\<lparr>currentStepId := Some i\<rparr>))"
  by (simp add: progressed_def push_completed_def)

lemma runSequential_prefix:
  assumes "reports_only exec" and "\<And>e i. i \<in> set pre \<Longrightarrow> step_result exec i e = Some WfCompleted"
    and "we_state e \<noteq> WfCancelled" "we_state e \<noteq> WfPaused"
  shows "runSequential exec (pre @ post) e = runSequential exec post (progressed pre e)"
  using assms(2-)
proof (induction pre arbitrary: e)
  case Nil
  then show ?case by (simp add: progressed_def)
next
  case (Cons i pre)
  let ?e = "push_completed i (e\<lparr>currentStepId := Some i\<rparr>)"
  have "try_step exec i e = (?e, Inr ())"
    by (rule try_step_completed [OF assms(1)]) (use Cons.prems(1) in simp)
  then have "runSequential exec ((i # pre) @ post) e = runSequential exec (pre @ post) ?e"
    using Cons.prems by simp
  also have "\<dots> = runSequential exec post (progressed pre ?e)"
    by (rule Cons.IH) (use Cons.prems in \<open>simp_all add: push_completed_def\<close>)
  finally show ?case by (simp add: progressed_Cons)
qed

text \<open>running steps in sequence completes them in order up to the first that fails; when the
  policy does not continue on errors the run then throws, later steps are not run, and the
  failed step is counted twice: it is in \<open>failedSteps\<close> twice and \<open>failureCount\<close> grows by two.\<close>

theorem sequential_run_outcome:
  assumes "reports_only exec" and "\<And>e j. j \<in> set pre \<Longrightarrow> step_result exec j e = Some WfCompleted"
    and "\<And>e. step_result exec i e = Some WfFailed"
    and "we_state e \<noteq> WfCancelled" "we_state e \<noteq> WfPaused"
    and "\<not> truthy (lookup_var (we_metadata e) ''continueOnError'')"
  shows "runSequential exec pre e = (progressed pre e, Inr ())
    \<and> (\<exists>err. runSequential exec (pre @ i # post) e
         = ((progressed pre e)\<lparr>currentStepId := Some i, failedSteps := failedSteps e @ [i, i],
              failureCount := failureCount e + 2\<rparr>, Inl err))"
proof -
  have ok: "runSequential exec (pre @ xs) e = runSequential exec xs (progressed pre e)" for xs
    by (rule runSequential_prefix [OF assms(1,2,4,5)])
  let ?p = "progressed pre e"
  have p: "we_state ?p = we_state e" "we_metadata ?p = we_metadata e" "failedSteps ?p = failedSteps e"
    "failureCount ?p = failureCount e"
    by (simp_all add: progressed_def)
  obtain err where t: "try_step exec i ?p = (count_failed i (?p\<lparr>currentStepId := Some i\<rparr>), Inl err)"
    using try_step_failed [OF assms(1,3), of ?p] assms(6) p by auto
  have "\<not> shouldContinueOnFailure (count_failed i (count_failed i (?p\<lparr>currentStepId := Some i\<rparr>)))"
    using assms(6) p by (simp add: shouldContinueOnFailure_def count_failed_def)
  moreover have "count_failed i (count_failed i (?p\<lparr>currentStepId := Some i\<rparr>))
      = ?p\<lparr>currentStepId := Some i, failedSteps := failedSteps e @ [i, i], failureCount := failureCount e + 2\<rparr>"
    by (simp add: count_failed_def p)
  ultimately have "\<exists>err. runSequential exec (i # post) ?p = (?p\<lparr>currentStepId := Some i,
      failedSteps := failedSteps e @ [i, i], failureCount := failureCount e + 2\<rparr>, Inl err)"
    using t assms(4,5) p by (auto simp: Let_def)
  then show ?thesis using ok [of "[]"] ok [of "i # post"] by simp
qed

definition demo_exec :: "unit exec_fn" where
  "demo_exec i e = (e, Inr \<lparr>se_stepId = i, se_state = (if i = ''bad'' then WfFailed else WfCompleted),
     se_input = JNull, se_output = JNull, se_error = None, se_maxAttempts = 1\<rparr>)"

definition demo_execution :: workflow_execution where
  "demo_execution = \<lparr>executionId = ''e'', we_workflowId = ''w'', we_state = WfRunning, we_variables = [],
     currentStepId = None, completedSteps = [], failedSteps = [], compensatedSteps = [], we_input = JNull,
     we_output = JUndefined, we_error = None, we_startedAt = 0, we_completedAt = None, stepCount = 3,
     failureCount = 0, we_metadata = [(''continueOnError'', JBool False)], compensationErrors = []\<rparr>"

lemma demo_exec_reports: "reports_only demo_exec"
  by (simp add: reports_only_def demo_exec_def)

theorem sequential_run_outcome_witness:
  "\<exists>err. runSequential demo_exec [''ok'', ''bad'', ''never''] demo_execution
     = (demo_execution\<lparr>completedSteps := [''ok''], currentStepId := Some ''bad'',
          failedSteps := [''bad'', ''bad''], failureCount := 2\<rparr>, Inl err)"
proof -
  have a: "\<And>e j. j \<in> set [''ok''] \<Longrightarrow> step_result demo_exec j e = Some WfCompleted"
    and b: "\<And>e. step_result demo_exec ''bad'' e = Some WfFailed"
    by (auto simp: step_result_def demo_exec_def)
  have c: "\<not> truthy (lookup_var (we_metadata demo_execution) ''continueOnError'')"
    by (simp add: lookup_var_def demo_execution_def js_get_def)
  have d: "we_state demo_execution \<noteq> WfCancelled" "we_state demo_execution \<noteq> WfPaused"
    by (simp_all add: demo_execution_def)
  have "\<exists>err. runSequential demo_exec ([''ok''] @ ''bad'' # [''never'']) demo_execution
      = ((progressed [''ok''] demo_execution)\<lparr>currentStepId := Some ''bad'',
           failedSteps := failedSteps demo_execution @ [''bad'', ''bad''],
           failureCount := failureCount demo_execution + 2\<rparr>, Inl err)"
    using sequential_run_outcome [where pre = "[''ok'']" and post = "[''never'']", OF demo_exec_reports a b d c]
    by blast
  then have r: "\<exists>err. runSequential demo_exec [''ok'', ''bad'', ''never''] demo_execution
      = ((progressed [''ok''] demo_execution)\<lparr>currentStepId := Some ''bad'',
           failedSteps := failedSteps demo_execution @ [''bad'', ''bad''],
           failureCount := failureCount demo_execution + 2\<rparr>, Inl err)"
    by (simp del: runSequential.simps)
  have "progressed [''ok''] demo_execution = demo_execution\<lparr>completedSteps := [''ok''], currentStepId := Some ''ok''\<rparr>"
    "failedSteps demo_execution = []" "failureCount demo_execution = 0"
    by (simp_all add: progressed_def demo_execution_def)
  then show ?thesis using r by (simp del: runSequential.simps add: numeral_2_eq_2)
qed

section \<open>Running steps in parallel\<close>

lemma settle_failures:
  assumes "\<forall>(i, f, res) \<in> set sets. f = (\<lambda>e. e) \<and> res \<in> range Inr"
  shows "failedSteps (fold settle sets e) = failedSteps e
    @ map fst (filter (\<lambda>(i, f, res). case res of Inr se \<Rightarrow> se_state se = WfFailed | Inl _ \<Rightarrow> False) sets)"
  using assms by (induction sets arbitrary: e) (auto simp: settle_def count_failed_def push_completed_def)

text \<open>a parallel run throws only for steps whose executor call throws. Steps that end in the
  failed state are recorded as failed, but the run as a whole succeeds whatever the failure
  policy says and in whatever order the steps settle.\<close>

theorem parallel_ignores_failed_steps:
  assumes "we_state e \<noteq> WfCancelled"
    and "\<forall>(i, f, res) \<in> set sets. f = (\<lambda>e. e) \<and> res \<in> range Inr"
  shows "snd (runParallel sets (map fst sets) e) = Inr ()
    \<and> failedSteps (fst (runParallel sets (map fst sets) e)) = failedSteps e
        @ map fst (filter (\<lambda>(i, f, res). case res of Inr se \<Rightarrow> se_state se = WfFailed | Inl _ \<Rightarrow> False) sets)"
proof -
  have "\<not> list_ex (\<lambda>(i, f, res). case res of Inl _ \<Rightarrow> True | Inr _ \<Rightarrow> False) sets"
    using assms(2) by (fastforce simp: list_ex_iff split: sum.splits)
  then show ?thesis using assms(1) settle_failures [OF assms(2)] by (simp add: runParallel_def Let_def)
qed

theorem parallel_ignores_failed_steps_witness:
  "\<not> shouldContinueOnFailure demo_execution \<and>
   snd (runParallel [(''bad'', \<lambda>e. e, snd (demo_exec ''bad'' demo_execution))] [''bad''] demo_execution) = Inr ()"
proof -
  let ?sets = "[(''bad'', \<lambda>e. e, snd (demo_exec ''bad'' demo_execution))]"
  have s: "we_state demo_execution \<noteq> WfCancelled" by (simp add: demo_execution_def)
  have a: "\<forall>(i, f, res) \<in> set ?sets. f = (\<lambda>e. e) \<and> res \<in> range Inr" by (simp add: demo_exec_def)
  have c: "\<not> shouldContinueOnFailure demo_execution" by code_simp
  show ?thesis using parallel_ignores_failed_steps [OF s a] c by simp
qed

section \<open>Loops\<close>

lemma try_step_variables:
  assumes "\<And>i e. we_variables (fst (exec i e)) = we_variables e"
  shows "we_variables (fst (try_step exec i e)) = we_variables e"
proof -
  have "we_variables (fst (exec i (e\<lparr>currentStepId := Some i\<rparr>))) = we_variables e"
    using assms [of i "e\<lparr>currentStepId := Some i\<rparr>"] by simp
  then show ?thesis
    by (cases "exec i (e\<lparr>currentStepId := Some i\<rparr>)")
      (auto simp: try_step_def push_completed_def count_failed_def Let_def split: sum.splits)
qed

lemma runSequential_variables:
  assumes "\<And>i e. we_variables (fst (exec i e)) = we_variables e"
  shows "we_variables (fst (runSequential exec is e)) = we_variables e"
proof (induction "is" arbitrary: e)
  case Nil
  then show ?case by simp
next
  case (Cons i "is")
  obtain e1 r where t: "try_step exec i e = (e1, r)" by fastforce
  then have v: "we_variables e1 = we_variables e"
    using try_step_variables [of exec i e] assms by (metis fst_conv)
  have c: "we_variables (count_failed i e1) = we_variables e1" by (simp add: count_failed_def)
  show ?case
    using Cons.IH [of e1] Cons.IH [of "count_failed i e1"] v c t by (simp add: Let_def split: sum.splits)
qed

text \<open>The state in which a counted loop's condition holds for ever.\<close>

definition never_done :: "workflow_loop \<Rightarrow> js_record \<Rightarrow> bool" where
  "never_done l vars \<longleftrightarrow>
     (case wl_type l of
        LoopWhile \<Rightarrow> False
      | LoopFor \<Rightarrow> num_or_zero (lookup_var vars ''loopIteration'') < wl_maxIterations l
      | LoopForEach \<Rightarrow> (\<exists>v vs xs. wc_variables (wl_condition l) = v # vs \<and> lookup_var vars v = JArr xs
           \<and> v \<noteq> ''loopIteration'' \<and> v \<noteq> ''loopMaxIterations''
           \<and> num_or_zero (lookup_var vars ''forEachIndex'') < int (length xs)))"

lemma never_done_continues:
  "never_done l (we_variables e) \<Longrightarrow> evaluateLoopCondition evalc l e = Inr True"
  by (cases "wl_type l") (auto simp: never_done_def evaluateLoopCondition_def Let_def)

lemma lookup_spread_loop:
  "lookup_var (js_spread vars [(''loopIteration'', a), (''loopMaxIterations'', b)]) k =
     (if k = ''loopMaxIterations'' then b else if k = ''loopIteration'' then a else lookup_var vars k)"
  by (simp add: lookup_var_def js_spread_def)

lemma never_done_next:
  assumes "never_done l vars" and "a < wl_maxIterations l"
  shows "never_done l (js_spread vars [(''loopIteration'', JNum a), (''loopMaxIterations'', b)])"
  using assms by (cases "wl_type l") (auto simp: never_done_def lookup_spread_loop num_or_zero_def)

lemma loop_run_fails:
  assumes v: "\<And>i e. we_variables (fst (exec i e)) = we_variables e"
    and m: "maxI = wl_maxIterations l"
  shows "never_done l (we_variables e) \<Longrightarrow> \<exists>err. snd (loop_run exec evalc l steps maxI n e) = Inl err"
proof (induction n arbitrary: e)
  case 0
  then show ?case by simp
next
  case (Suc n)
  show ?case
  proof (cases "we_state e = WfCancelled")
    case True
    then show ?thesis by simp
  next
    case False
    define e1 where "e1 = e\<lparr>we_variables := js_spread (we_variables e)
       [(''loopIteration'', JNum (maxI - int (Suc n))), (''loopMaxIterations'', JNum maxI)]\<rparr>"
    have n1: "never_done l (we_variables e1)"
      unfolding e1_def using never_done_next [OF Suc.prems, of "maxI - int (Suc n)" "JNum maxI"] m by simp
    obtain e2 r where sq: "runSequential exec steps e1 = (e2, r)" by fastforce
    then have "we_variables e2 = we_variables e1"
      using runSequential_variables [of exec steps e1] v by (metis fst_conv)
    then have n2: "never_done l (we_variables e2)" "never_done l (we_variables (e2\<lparr>failureCount := k\<rparr>))" for k
      using n1 by simp_all
    have ev: "evaluateLoopCondition evalc l e = Inr True" by (rule never_done_continues [OF Suc.prems])
    show ?thesis
      using Suc.IH [OF n2(1)] Suc.IH [OF n2(2)] False sq
      by (simp only: loop_run.simps ev if_False sum.case bool.case Let_def e1_def [symmetric])
        (simp split: sum.splits)
  qed
qed

text \<open>a \<open>for\<close> loop, and a \<open>forEach\<close> loop over a non-empty array, never ends normally: unless a
  step changes the loop variables itself, the condition stays true until the iteration limit,
  and reaching the limit throws.\<close>

theorem counted_loops_always_fail:
  assumes "\<And>i e. we_variables (fst (exec i e)) = we_variables e"
    and "wl_maxIterations l \<noteq> 0" and "never_done l (we_variables e)"
  shows "\<exists>err. snd (runLoop exec evalc l steps e) = Inl err"
proof -
  have "\<exists>err. snd (loop_run exec evalc l steps (max_iterations l) (nat (max_iterations l)) e) = Inl err"
    by (rule loop_run_fails [OF assms(1) _ assms(3)]) (simp add: max_iterations_def assms(2))
  then obtain err where "snd (loop_run exec evalc l steps (max_iterations l) (nat (max_iterations l)) e) = Inl err" ..
  then show ?thesis
    by (cases "loop_run exec evalc l steps (max_iterations l) (nat (max_iterations l)) e") (simp add: runLoop_def)
qed

definition demo_loop :: workflow_loop where
  "demo_loop = \<lparr>wl_type = LoopFor, wl_condition = \<lparr>wc_expression = [], wc_variables = []\<rparr>,
     wl_maxIterations = 3, wl_breakOnError = True\<rparr>"

theorem counted_loops_always_fail_witness:
  "\<exists>err. snd (runLoop demo_exec (\<lambda>c e. Inr True) demo_loop [''ok''] demo_execution) = Inl err"
proof (rule counted_loops_always_fail)
  show "we_variables (fst (demo_exec i e)) = we_variables e" for i e by (simp add: demo_exec_def)
  show "wl_maxIterations demo_loop \<noteq> 0" by (simp add: demo_loop_def)
  show "never_done demo_loop (we_variables demo_execution)"
    by (simp add: never_done_def demo_loop_def demo_execution_def lookup_var_def num_or_zero_def)
qed

end
