(* ===== verification/Ttl_Store.thy ===== *)
theory Ttl_Store
  imports Prelude
begin

text \<open>
  The interface shared by the caches of the MCP layer: entries under string keys, each with a
  time after which it is no longer served. \<open>entry now k x\<close> is the entry stored for the
  arguments \<open>x\<close>, \<open>view\<close> what a hit returns. The laws leave a store free to drop other
  entries when it stores one. What follows from them: a hit is never expired, and it is always
  the value stored last under its key.
\<close>

locale ttl_store =
  fixes store :: "'s \<Rightarrow> (string, 'e) js_map"
    and expiry :: "'e \<Rightarrow> time_ms"
    and view :: "'e \<Rightarrow> 'r"
    and entry :: "'s \<Rightarrow> time_ms \<Rightarrow> string \<Rightarrow> 'x \<Rightarrow> 'e"
    and lookup :: "time_ms \<Rightarrow> string \<Rightarrow> 's \<Rightarrow> 's \<times> 'r option"
    and put :: "time_ms \<Rightarrow> string \<Rightarrow> 'x \<Rightarrow> 's \<Rightarrow> 's"
    and forget :: "time_ms \<Rightarrow> ('e \<Rightarrow> bool) \<Rightarrow> 's \<Rightarrow> 's"
  assumes lookup_none: "js_get (store s) k = None \<Longrightarrow> snd (lookup now k s) = None \<and> store (fst (lookup now k s)) = store s"
    and lookup_live: "js_get (store s) k = Some e \<Longrightarrow> now \<le> expiry e
      \<Longrightarrow> snd (lookup now k s) = Some (view e) \<and> store (fst (lookup now k s)) = store s"
    and lookup_stale: "js_get (store s) k = Some e \<Longrightarrow> expiry e < now
      \<Longrightarrow> snd (lookup now k s) = None \<and> store (fst (lookup now k s)) = js_delete k (store s)"
    and put_self: "js_get (store (put now k x s)) k = Some (entry s now k x)"
    and put_other: "j \<noteq> k \<Longrightarrow> js_get (store (put now k x s)) j = Some e \<Longrightarrow> js_get (store s) j = Some e"
    and forget_sub: "js_get (store (forget now P s)) j = Some e \<Longrightarrow> js_get (store s) j = Some e \<and> \<not> P e"
begin

lemma hit_iff:
  "snd (lookup now k s) = Some r \<longleftrightarrow> (\<exists>e. js_get (store s) k = Some e \<and> now \<le> expiry e \<and> view e = r)"
  using lookup_none [of s k now] lookup_live [of s k _ now] lookup_stale [of s k _ now]
  by (cases "js_get (store s) k") (force simp: not_le)+

lemma lookup_keeps: "js_get (store (fst (lookup now k s))) j = Some e \<Longrightarrow> js_get (store s) j = Some e"
  using lookup_none [of s k now] lookup_live [of s k _ now] lookup_stale [of s k _ now]
  by (cases "js_get (store s) k") (force simp: not_le split: if_splits)+

lemma put_then_hit: "now' \<le> expiry (entry s now k x) \<Longrightarrow> snd (lookup now' k (put now k x s)) = Some (view (entry s now k x))"
  using put_self by (auto simp: hit_iff)

lemma forgotten: "P e \<Longrightarrow> js_get (store s) k = Some e \<Longrightarrow> snd (lookup now' k (forget now P s)) = None"
  by (metis forget_sub hit_iff not_None_eq option.inject)

text \<open>
  A property of entries that storing establishes and that concerns one key holds of every
  entry of a store built by these operations.
\<close>

lemma all_entries_put:
  assumes "\<forall>j e. js_get (store s) j = Some e \<longrightarrow> Q j e" and "Q k (entry s now k x)"
  shows "\<forall>j e. js_get (store (put now k x s)) j = Some e \<longrightarrow> Q j e"
  using assms put_self [of now k x s] put_other [of _ k now x s] by (metis option.inject)

lemma all_entries_lookup:
  assumes "\<forall>j e. js_get (store s) j = Some e \<longrightarrow> Q j e"
  shows "\<forall>j e. js_get (store (fst (lookup now k s))) j = Some e \<longrightarrow> Q j e"
  using assms lookup_keeps by blast

lemma all_entries_forget:
  assumes "\<forall>j e. js_get (store s) j = Some e \<longrightarrow> \<not> P e \<longrightarrow> Q j e"
  shows "\<forall>j e. js_get (store (forget now P s)) j = Some e \<longrightarrow> Q j e"
  using assms forget_sub by blast

end

section \<open>Removing the entries of a list of keys\<close>

text \<open>
  The loops of the caches first collect the keys to delete and then delete them one by one,
  reporting each deletion. \<open>remove_keys\<close> is the second loop; \<open>report\<close> is the event of an
  entry.
\<close>

fun remove_keys :: "(string \<Rightarrow> 'e \<Rightarrow> 'ev) \<Rightarrow> string list \<Rightarrow> (string, 'e) js_map \<times> 'ev list \<Rightarrow> (string, 'e) js_map \<times> 'ev list" where
  "remove_keys report [] s = s"
| "remove_keys report (k # ks) (m, evs) =
     (case js_get m k of
        None \<Rightarrow> remove_keys report ks (m, evs)
      | Some e \<Rightarrow> remove_keys report ks (js_delete k m, evs @ [report k e]))"

definition keys_where :: "('e \<Rightarrow> bool) \<Rightarrow> (string, 'e) js_map \<Rightarrow> string list" where
  "keys_where P m = map fst (filter (\<lambda>(k, e). P e) m)"

lemma remove_keys_map: "fst (remove_keys report ks (m, evs)) = filter (\<lambda>p. fst p \<notin> set ks) m"
proof (induction ks arbitrary: m evs)
  case (Cons k ks)
  have "filter (\<lambda>p. fst p \<notin> set ks) (js_delete k m) = filter (\<lambda>p. fst p \<noteq> k \<and> fst p \<notin> set ks) m"
    by (simp add: js_delete_filter conj_commute)
  moreover have "filter (\<lambda>p. fst p \<notin> set ks) m = filter (\<lambda>p. fst p \<noteq> k \<and> fst p \<notin> set ks) m"
    if "js_get m k = None"
    using that by (intro filter_cong) (auto simp: js_get_None_iff)
  ultimately show ?case using Cons.IH by (auto split: option.split)
qed simp

lemma keys_where_hit: "js_get m k = Some e \<Longrightarrow> P e \<Longrightarrow> k \<in> set (keys_where P m)"
  using js_get_in_set [of m k e] by (force simp: keys_where_def)

lemma keys_where_iff: "js_wf m \<Longrightarrow> k \<in> set (keys_where P m) \<longleftrightarrow> (\<exists>e. js_get m k = Some e \<and> P e)"
  by (force simp: keys_where_def js_get_wf [symmetric])

lemma remove_keys_where: "js_wf m \<Longrightarrow> fst (remove_keys report (keys_where P m) (m, evs)) = filter (\<lambda>(k, e). \<not> P e) m"
  unfolding remove_keys_map
  by (rule filter_cong) (auto simp: keys_where_iff js_get_wf)

lemma js_wf_remove_keys [simp, intro]: "js_wf m \<Longrightarrow> js_wf (fst (remove_keys report ks (m, evs)))"
  by (simp add: remove_keys_map)

lemma get_remove_keys:
  "js_get (fst (remove_keys report ks (m, evs))) j = (if j \<in> set ks then None else js_get m j)"
  unfolding remove_keys_map by (induction m) (auto simp: js_get_def)

lemma remove_keys_events:
  assumes "distinct ks" and "\<forall>k \<in> set ks. js_has m k"
  shows "snd (remove_keys report ks (m, evs)) = evs @ map (\<lambda>k. report k (the (js_get m k))) ks"
  using assms
proof (induction ks arbitrary: m evs)
  case (Cons k ks)
  obtain e where e: "js_get m k = Some e" using Cons.prems by (auto simp: js_has_iff)
  have "\<forall>j \<in> set ks. js_has (js_delete k m) j" using Cons.prems by auto
  moreover have "map (\<lambda>j. report j (the (js_get (js_delete k m) j))) ks = map (\<lambda>j. report j (the (js_get m j))) ks"
    using Cons.prems by (intro map_cong) auto
  ultimately show ?case using Cons.IH [of "js_delete k m"] Cons.prems by (simp add: e)
qed simp

end
