(* ===== verification/Permission_Cache.thy ===== *)
theory Permission_Cache
  imports Ttl_Store
begin

text \<open>
  The data of \<open>mcp/security/types.ts\<close> and the class \<open>PermissionCache\<close> of
  \<open>mcp/security/permission-cache.ts\<close>: authorization results under string keys, each with a
  time to live. The events the class emits are appended to \<open>pc_emitted\<close>. \<open>permission_cache\<close>
  interprets the interface \<open>ttl_store\<close>.
\<close>

section \<open>Types\<close>

datatype security_role = RoleAdmin | RoleUser | RoleViewer | RoleService

datatype permission_action = ActRead | ActWrite | ActExecute | ActDelete | ActCreate | ActUpdate

datatype resource_type = ResTool | ResPrompt | ResResource | ResTemplate | ResServer | ResWorkspace

fun action_str :: "permission_action \<Rightarrow> string" where
  "action_str ActRead = ''read''"
| "action_str ActWrite = ''write''"
| "action_str ActExecute = ''execute''"
| "action_str ActDelete = ''delete''"
| "action_str ActCreate = ''create''"
| "action_str ActUpdate = ''update''"

fun resource_str :: "resource_type \<Rightarrow> string" where
  "resource_str ResTool = ''tool''"
| "resource_str ResPrompt = ''prompt''"
| "resource_str ResResource = ''resource''"
| "resource_str ResTemplate = ''template''"
| "resource_str ResServer = ''server''"
| "resource_str ResWorkspace = ''workspace''"

record permission =
  p_resource :: resource_type
  p_action :: permission_action
  p_resourceId :: "string option"
  p_conditions :: jsval

record security_context =
  sc_userId :: string
  sc_workspaceId :: string
  sc_sessionId :: string
  sc_serverId :: string
  sc_roles :: "security_role list"
  sc_permissions :: "permission list"
  sc_metadata :: jsval

record authorization_request =
  rq_context :: security_context
  rq_resource :: resource_type
  rq_action :: permission_action
  rq_resourceId :: "string option"
  rq_metadata :: jsval

text \<open>\<open>grantedBy\<close>: the first role or the first permission that grants.\<close>

datatype granted_by = ByRole "security_role option" | ByPermission "permission option"

record authorization_result =
  ar_granted :: bool
  ar_reason :: string
  ar_required :: "permission list"
  ar_grantedBy :: "granted_by option"
  ar_checkedAt :: time_ms
  ar_duration :: int
  ar_cached :: bool

record cache_entry =
  ce_key :: string
  ce_result :: authorization_result
  ce_context :: security_context
  ce_cachedAt :: time_ms
  ce_expiresAt :: time_ms
  ce_ttl :: int

text \<open>The events of the cache and of the service, with the fields their payloads carry.\<close>

datatype security_event =
    CacheUpdated security_context string time_ms
  | CacheInvalidated security_context string time_ms
  | Decided authorization_request bool string time_ms
  | PermissionUpdated string string time_ms

record permission_cache =
  pc_cache :: "(string, cache_entry) js_map"
  pc_defaultTtl :: int
  pc_maxSize :: nat
  pc_emitted :: "security_event list"

text \<open>A string is present when it is neither undefined nor empty, as \<open>if (s)\<close> tests it.\<close>

definition present :: "string option \<Rightarrow> bool" where
  "present s = (case s of None \<Rightarrow> False | Some x \<Rightarrow> x \<noteq> [])"

section \<open>Operations\<close>

definition new_permission_cache :: "int \<Rightarrow> nat \<Rightarrow> permission_cache" where
  "new_permission_cache ttl n = \<lparr>pc_cache = [], pc_defaultTtl = ttl, pc_maxSize = n, pc_emitted = []\<rparr>"

definition ce_expired :: "time_ms \<Rightarrow> cache_entry \<Rightarrow> bool" where
  "ce_expired now e = (now > ce_expiresAt e)"

definition invalidated :: "time_ms \<Rightarrow> string \<Rightarrow> cache_entry \<Rightarrow> security_event" where
  "invalidated now k e = CacheInvalidated (ce_context e) k now"

definition with_entries :: "(string, cache_entry) js_map \<times> security_event list \<Rightarrow> permission_cache \<Rightarrow> permission_cache" where
  "with_entries r c = c\<lparr>pc_cache := fst r, pc_emitted := snd r\<rparr>"

definition as_cached :: "cache_entry \<Rightarrow> authorization_result" where
  "as_cached e = (ce_result e)\<lparr>ar_cached := True\<rparr>"

definition cache_get :: "time_ms \<Rightarrow> string \<Rightarrow> permission_cache \<Rightarrow> permission_cache \<times> authorization_result option" where
  "cache_get now k c =
     (case js_get (pc_cache c) k of
        None \<Rightarrow> (c, None)
      | Some e \<Rightarrow>
          (if ce_expired now e
           then (c\<lparr>pc_cache := js_delete k (pc_cache c), pc_emitted := pc_emitted c @ [invalidated now k e]\<rparr>, None)
           else (c, Some (as_cached e))))"

text \<open>The keys sorted by the time they were cached, and the removal of the first \<open>n\<close>.\<close>

definition evictOldestEntries :: "time_ms \<Rightarrow> nat \<Rightarrow> permission_cache \<Rightarrow> permission_cache" where
  "evictOldestEntries now n c =
     with_entries (remove_keys (invalidated now)
       (map fst (take n (js_sort_by (\<lambda>(k, e). ce_cachedAt e) (pc_cache c)))) (pc_cache c, pc_emitted c)) c"

text \<open>
  \<open>Math.floor(maxSize * 0.1)\<close> is \<open>maxSize div 10\<close> for every size below \<open>2 ^ 53\<close>: the double 0.1
  is a tenth times \<open>1 + 2 ^ -54\<close>, so a product of a multiple of ten rounds back to the tenth.
  \<open>ttl || defaultTtl\<close> takes the default for an absent or zero time.
\<close>

definition new_entry :: "permission_cache \<Rightarrow> time_ms \<Rightarrow> string \<Rightarrow> authorization_result \<times> security_context \<times> int option \<Rightarrow> cache_entry" where
  "new_entry c now k x = (case x of (r, ctx, ttl) \<Rightarrow>
     (let t = (case ttl of Some t \<Rightarrow> if t = 0 then pc_defaultTtl c else t | None \<Rightarrow> pc_defaultTtl c)
      in \<lparr>ce_key = k, ce_result = r, ce_context = ctx, ce_cachedAt = now, ce_expiresAt = now + t, ce_ttl = t\<rparr>))"

definition cache_set ::
  "time_ms \<Rightarrow> string \<Rightarrow> authorization_result \<times> security_context \<times> int option \<Rightarrow> permission_cache \<Rightarrow> permission_cache" where
  "cache_set now k x c =
     (let c1 = (if length (pc_cache c) \<ge> pc_maxSize c then evictOldestEntries now (pc_maxSize c div 10) c else c);
          e = new_entry c now k x
      in c1\<lparr>pc_cache := js_set k e (pc_cache c1), pc_emitted := pc_emitted c1 @ [CacheUpdated (ce_context e) k now]\<rparr>)"

definition cache_invalidate :: "time_ms \<Rightarrow> string \<Rightarrow> permission_cache \<Rightarrow> permission_cache \<times> bool" where
  "cache_invalidate now k c =
     (case js_get (pc_cache c) k of
        None \<Rightarrow> (c, False)
      | Some e \<Rightarrow> (c\<lparr>pc_cache := js_delete k (pc_cache c), pc_emitted := pc_emitted c @ [invalidated now k e]\<rparr>, True))"

text \<open>The two loops of \<open>invalidateUser\<close>, \<open>invalidateWorkspace\<close>, \<open>invalidateServer\<close> and \<open>cleanupExpired\<close>.\<close>

definition invalidate_where :: "time_ms \<Rightarrow> (cache_entry \<Rightarrow> bool) \<Rightarrow> permission_cache \<Rightarrow> permission_cache \<times> nat" where
  "invalidate_where now P c =
     (let ks = keys_where P (pc_cache c)
      in (with_entries (remove_keys (invalidated now) ks (pc_cache c, pc_emitted c)) c, length ks))"

definition invalidateUser :: "time_ms \<Rightarrow> string \<Rightarrow> permission_cache \<Rightarrow> permission_cache \<times> nat" where
  "invalidateUser now u = invalidate_where now (\<lambda>e. sc_userId (ce_context e) = u)"

definition invalidateWorkspace :: "time_ms \<Rightarrow> string \<Rightarrow> permission_cache \<Rightarrow> permission_cache \<times> nat" where
  "invalidateWorkspace now w = invalidate_where now (\<lambda>e. sc_workspaceId (ce_context e) = w)"

definition invalidateServer :: "time_ms \<Rightarrow> string \<Rightarrow> permission_cache \<Rightarrow> permission_cache \<times> nat" where
  "invalidateServer now s = invalidate_where now (\<lambda>e. sc_serverId (ce_context e) = s)"

definition cleanupExpired :: "time_ms \<Rightarrow> permission_cache \<Rightarrow> permission_cache \<times> nat" where
  "cleanupExpired now = invalidate_where now (ce_expired now)"

definition cache_clear :: "time_ms \<Rightarrow> permission_cache \<Rightarrow> permission_cache" where
  "cache_clear now c = c\<lparr>pc_cache := [],
     pc_emitted := pc_emitted c @ map (\<lambda>(k, e). invalidated now k e) (pc_cache c)\<rparr>"

definition generateCacheKey ::
  "string \<Rightarrow> string \<Rightarrow> resource_type \<Rightarrow> permission_action \<Rightarrow> string option \<Rightarrow> string option \<Rightarrow> string" where
  "generateCacheKey u w res act rid sid =
     join_with '':'' ([u, w, resource_str res, action_str act]
       @ (if present rid then [the rid] else []) @ (if present sid then [the sid] else []))"

section \<open>Statistics\<close>

text \<open>\<open>averageTtl\<close> is kept as the sum and the number it is divided by.\<close>

record cache_stats =
  st_totalEntries :: nat
  st_expiredEntries :: nat
  st_entriesByUser :: "(string, nat) js_map"
  st_entriesByWorkspace :: "(string, nat) js_map"
  st_entriesByServer :: "(string, nat) js_map"
  st_oldestEntry :: "time_ms option"
  st_newestEntry :: "time_ms option"
  st_ttlSum :: int

definition bump :: "string \<Rightarrow> (string, nat) js_map \<Rightarrow> (string, nat) js_map" where
  "bump k m = js_set k (Suc (case js_get m k of Some n \<Rightarrow> n | None \<Rightarrow> 0)) m"

definition note_entry :: "time_ms \<Rightarrow> cache_entry \<Rightarrow> cache_stats \<Rightarrow> cache_stats" where
  "note_entry now e s =
     s\<lparr>st_expiredEntries := st_expiredEntries s + (if ce_expired now e then 1 else 0),
       st_entriesByUser := bump (sc_userId (ce_context e)) (st_entriesByUser s),
       st_entriesByWorkspace := bump (sc_workspaceId (ce_context e)) (st_entriesByWorkspace s),
       st_entriesByServer := bump (sc_serverId (ce_context e)) (st_entriesByServer s),
       st_oldestEntry := (case st_oldestEntry s of None \<Rightarrow> Some (ce_cachedAt e) | Some t \<Rightarrow> Some (if ce_cachedAt e < t then ce_cachedAt e else t)),
       st_newestEntry := (case st_newestEntry s of None \<Rightarrow> Some (ce_cachedAt e) | Some t \<Rightarrow> Some (if ce_cachedAt e > t then ce_cachedAt e else t)),
       st_ttlSum := st_ttlSum s + ce_ttl e\<rparr>"

definition cache_getStats :: "time_ms \<Rightarrow> permission_cache \<Rightarrow> cache_stats" where
  "cache_getStats now c = fold (note_entry now) (js_values (pc_cache c))
     \<lparr>st_totalEntries = length (pc_cache c), st_expiredEntries = 0, st_entriesByUser = [], st_entriesByWorkspace = [],
      st_entriesByServer = [], st_oldestEntry = None, st_newestEntry = None, st_ttlSum = 0\<rparr>"

section \<open>The cache as a store with expiry\<close>

text \<open>The map of a cache never holds a key twice.\<close>

definition pc_wf :: "permission_cache \<Rightarrow> bool" where
  "pc_wf c = js_wf (pc_cache c)"

lemma pc_cache_with_entries [simp]:
  "pc_cache (with_entries r c) = fst r" "pc_maxSize (with_entries r c) = pc_maxSize c"
  "pc_defaultTtl (with_entries r c) = pc_defaultTtl c"
  by (simp_all add: with_entries_def)

lemma pc_cache_evict:
  "pc_cache (evictOldestEntries now n c) =
     filter (\<lambda>p. fst p \<notin> set (map fst (take n (js_sort_by (\<lambda>(k, e). ce_cachedAt e) (pc_cache c))))) (pc_cache c)"
  "pc_maxSize (evictOldestEntries now n c) = pc_maxSize c"
  "pc_defaultTtl (evictOldestEntries now n c) = pc_defaultTtl c"
  by (simp_all add: evictOldestEntries_def remove_keys_map)

lemma get_evict: "js_get (pc_cache (evictOldestEntries now n c)) j = Some e \<Longrightarrow> js_get (pc_cache c) j = Some e"
  by (auto simp: evictOldestEntries_def get_remove_keys split: if_splits)

lemma cache_set_get:
  "js_get (pc_cache (cache_set now k x c)) k = Some (new_entry c now k x)"
  "j \<noteq> k \<Longrightarrow> js_get (pc_cache (cache_set now k x c)) j = Some e \<Longrightarrow> js_get (pc_cache c) j = Some e"
  by (auto simp: cache_set_def Let_def dest: get_evict split: if_splits)

lemma get_forget:
  assumes "js_get (pc_cache (fst (invalidate_where now P c))) j = Some e"
  shows "js_get (pc_cache c) j = Some e \<and> \<not> P e"
proof -
  have j: "j \<notin> set (keys_where P (pc_cache c))" and e: "js_get (pc_cache c) j = Some e"
    using assms by (simp_all add: invalidate_where_def Let_def get_remove_keys split: if_splits)
  then show ?thesis using keys_where_hit [OF e] by blast
qed

lemma cache_get_cases:
  "js_get (pc_cache c) k = None \<Longrightarrow> cache_get now k c = (c, None)"
  "js_get (pc_cache c) k = Some e \<Longrightarrow> now \<le> ce_expiresAt e \<Longrightarrow> cache_get now k c = (c, Some (as_cached e))"
  "js_get (pc_cache c) k = Some e \<Longrightarrow> ce_expiresAt e < now \<Longrightarrow> cache_get now k c =
     (c\<lparr>pc_cache := js_delete k (pc_cache c), pc_emitted := pc_emitted c @ [invalidated now k e]\<rparr>, None)"
  by (simp_all add: cache_get_def ce_expired_def)

interpretation permission_store: ttl_store pc_cache ce_expiresAt as_cached new_entry cache_get cache_set
  "\<lambda>now P c. fst (invalidate_where now P c)"
proof
  show "js_get (pc_cache (cache_set now k x s)) k = Some (new_entry s now k x)" for now k x s
    by (rule cache_set_get)
  show "js_get (pc_cache s) j = Some e" if "j \<noteq> k" "js_get (pc_cache (cache_set now k x s)) j = Some e" for j k now x s e
    using that by (rule cache_set_get)
qed (auto simp: cache_get_cases dest: get_forget)

lemma pc_wf_ops [inv_intros]:
  "pc_wf (new_permission_cache ttl n)"
  "pc_wf c \<Longrightarrow> pc_wf (fst (cache_get now k c))"
  "pc_wf c \<Longrightarrow> pc_wf (cache_set now k x c)"
  "pc_wf c \<Longrightarrow> pc_wf (fst (cache_invalidate now k c))"
  "pc_wf c \<Longrightarrow> pc_wf (fst (invalidate_where now P c))"
  "pc_wf c \<Longrightarrow> pc_wf (cache_clear now c)"
  by (auto simp: pc_wf_def new_permission_cache_def cache_get_def cache_set_def cache_invalidate_def
      invalidate_where_def cache_clear_def evictOldestEntries_def Let_def split: option.splits)

lemma invalidate_where_exact:
  "pc_wf c \<Longrightarrow> js_get (pc_cache (fst (invalidate_where now P c))) j = Some e \<longleftrightarrow> js_get (pc_cache c) j = Some e \<and> \<not> P e"
  by (simp add: invalidate_where_def Let_def remove_keys_where pc_wf_def js_get_filter)

end
