(* ===== verification/Permission_Service.thy ===== *)
theory Permission_Service
  imports Permission_Cache
begin

text \<open>
  The class \<open>PermissionService\<close> of \<open>mcp/security/permission-service.ts\<close> and the class
  \<open>MCPSecurityManager\<close> of \<open>mcp/security/mcp-security-manager.ts\<close>, which only checks its
  arguments and calls the service. \<open>ps_emitted\<close> lists the events of the service, the
  forwarded ones of its cache included; the manager forwards all of them.

  \<open>authorize\<close> suspends once, between computing a decision and storing it: it is
  \<open>authorize_begin\<close> followed by \<open>authorize_commit\<close>, and other operations may run in between.
\<close>

section \<open>Data\<close>

record security_config =
  sf_cacheTtl :: int
  sf_enableWorkspaceIsolation :: bool
  sf_defaultRoles :: "security_role list"
  sf_strictPermissionChecking :: bool
  sf_sessionTimeout :: int

record workspace_permissions =
  wp_workspaceId :: string
  wp_userId :: string
  wp_roles :: "security_role list"
  wp_permissions :: "permission list"
  wp_inherit :: bool
  wp_expiresAt :: "time_ms option"

record user_permissions =
  up_userId :: string
  up_globalRoles :: "security_role list"
  up_globalPermissions :: "permission list"
  up_workspacePermissions :: "(string, workspace_permissions) js_map"

record tool_restrictions =
  tr_maxExecutionsPerHour :: "int option"
  tr_allowedWorkspaces :: "string list option"
  tr_blockedUsers :: "string list option"

record tool_permissions =
  tp_toolName :: string
  tp_serverId :: string
  tp_allowedRoles :: "security_role list"
  tp_requiredPermissions :: "permission list"
  tp_restrictions :: "tool_restrictions option"

record server_permissions =
  sp_serverId :: string
  sp_allowedRoles :: "security_role list"
  sp_requiredPermissions :: "permission list"
  sp_workspaceRestrictions :: "string list option"
  sp_userRestrictions :: "string list option"
  sp_connectionLimits :: "(int \<times> int) option"

record permission_service =
  ps_cache :: permission_cache
  ps_config :: security_config
  ps_workspaces :: "(string, workspace_permissions) js_map"
  ps_users :: "(string, user_permissions) js_map"
  ps_tools :: "(string, tool_permissions) js_map"
  ps_servers :: "(string, server_permissions) js_map"
  ps_emitted :: "security_event list"

text \<open>\<open>WorkspaceIsolation\<close>, \<open>AuthorizationFailed\<close> and \<open>AuthenticationFailed\<close> are the exceptions of \<open>exceptions.ts\<close>.\<close>

datatype security_error =
    WorkspaceIsolation string string string resource_type "string option"
  | AuthorizationFailed string string resource_type permission_action "permission list" "string option" string
  | AuthenticationFailed string "string option" "string option"

section \<open>The decision\<close>

text \<open>\<open>Array.from(new Set(xs))\<close>: the first occurrence of each element.\<close>

definition first_occurrences :: "'a list \<Rightarrow> 'a list" where
  "first_occurrences xs = rev (remdups (rev xs))"

definition getUserEffectivePermissions ::
  "security_context \<Rightarrow> permission_service \<Rightarrow> security_role list \<times> permission list" where
  "getUserEffectivePermissions ctx s =
     (let up = js_get (ps_users s) (sc_userId ctx);
          wp = js_get (ps_workspaces s) (sc_workspaceId ctx);
          (r1, p1) = (case up of None \<Rightarrow> ([], []) | Some u \<Rightarrow> (up_globalRoles u, up_globalPermissions u));
          (r2, p2) = (case up of None \<Rightarrow> ([], []) | Some u \<Rightarrow>
            (case js_get (up_workspacePermissions u) (sc_workspaceId ctx) of
               None \<Rightarrow> ([], []) | Some w \<Rightarrow> (wp_roles w, wp_permissions w)));
          (r3, p3) = (case wp of None \<Rightarrow> ([], []) | Some w \<Rightarrow>
            if sc_userId ctx = wp_userId w then (wp_roles w, wp_permissions w) else ([], []))
      in (first_occurrences (sf_defaultRoles (ps_config s) @ r1 @ r2 @ r3), p1 @ p2 @ p3))"

definition default_access :: "security_role list \<times> permission list" where
  "default_access = ([RoleAdmin, RoleUser], [])"

definition getResourcePermissions ::
  "resource_type \<Rightarrow> string option \<Rightarrow> string \<Rightarrow> permission_service \<Rightarrow> security_role list \<times> permission list" where
  "getResourcePermissions res rid sid s =
     (case res of
        ResTool \<Rightarrow>
          (if present rid \<and> sid \<noteq> []
           then (case js_get (ps_tools s) (sid @ '':'' @ the rid) of
                   Some t \<Rightarrow> (tp_allowedRoles t, tp_requiredPermissions t) | None \<Rightarrow> default_access)
           else default_access)
      | ResServer \<Rightarrow>
          (if sid \<noteq> []
           then (case js_get (ps_servers s) sid of
                   Some t \<Rightarrow> (sp_allowedRoles t, sp_requiredPermissions t) | None \<Rightarrow> default_access)
           else default_access)
      | _ \<Rightarrow> default_access)"

definition checkRoleBasedAccess :: "security_role list \<Rightarrow> security_role list \<Rightarrow> bool" where
  "checkRoleBasedAccess userRoles allowed = list_ex (\<lambda>r. List.member allowed r) userRoles"

definition permission_applies :: "resource_type \<Rightarrow> permission_action \<Rightarrow> string option \<Rightarrow> permission \<Rightarrow> bool" where
  "permission_applies res act rid p =
     (p_resource p = res \<and> p_action p = act \<and> (\<not> present (p_resourceId p) \<or> p_resourceId p = rid))"

definition checkPermissionBasedAccess ::
  "permission list \<Rightarrow> resource_type \<Rightarrow> permission_action \<Rightarrow> string option \<Rightarrow> bool" where
  "checkPermissionBasedAccess ps res act rid = list_ex (permission_applies res act rid) ps"

definition getRequiredPermissions :: "resource_type \<Rightarrow> permission_action \<Rightarrow> string option \<Rightarrow> permission list" where
  "getRequiredPermissions res act rid =
     [\<lparr>p_resource = res, p_action = act, p_resourceId = rid, p_conditions = JUndefined\<rparr>]"

definition performAuthorization :: "time_ms \<Rightarrow> authorization_request \<Rightarrow> permission_service \<Rightarrow> authorization_result" where
  "performAuthorization now rq s =
     (let ctx = rq_context rq; res = rq_resource rq; act = rq_action rq; rid = rq_resourceId rq;
          (roles, perms) = getUserEffectivePermissions ctx s;
          allowed = fst (getResourcePermissions res rid (sc_serverId ctx) s);
          roleAccess = checkRoleBasedAccess roles allowed;
          granted = (roleAccess \<or> checkPermissionBasedAccess perms res act rid);
          by = (if roleAccess then ByRole (List.find (\<lambda>r. List.member allowed r) roles)
                else ByPermission (List.find (permission_applies res act rid) perms))
      in \<lparr>ar_granted = granted,
          ar_reason = (if granted then ''Access granted'' else ''Insufficient permissions''),
          ar_required = (if granted then [] else getRequiredPermissions res act rid),
          ar_grantedBy = (if granted then Some by else None),
          ar_checkedAt = now, ar_duration = 0, ar_cached = False\<rparr>)"

section \<open>Authorization through the cache\<close>

definition request_key :: "authorization_request \<Rightarrow> string" where
  "request_key rq = generateCacheKey (sc_userId (rq_context rq)) (sc_workspaceId (rq_context rq))
     (rq_resource rq) (rq_action rq) (rq_resourceId rq) (Some (sc_serverId (rq_context rq)))"

text \<open>The events a cache operation emits are forwarded (\<open>setupCacheEvents\<close>).\<close>

definition set_cache :: "permission_cache \<Rightarrow> permission_service \<Rightarrow> permission_service" where
  "set_cache c s = s\<lparr>ps_cache := c,
     ps_emitted := ps_emitted s @ drop (length (pc_emitted (ps_cache s))) (pc_emitted c)\<rparr>"

definition ps_emit :: "security_event \<Rightarrow> permission_service \<Rightarrow> permission_service" where
  "ps_emit ev s = s\<lparr>ps_emitted := ps_emitted s @ [ev]\<rparr>"

definition enforceWorkspaceIsolation :: "authorization_request \<Rightarrow> security_error option" where
  "enforceWorkspaceIsolation rq =
     (let ctx = rq_context rq; rid = rq_resourceId rq
      in if rq_resource rq = ResWorkspace \<and> present rid \<and> rid \<noteq> Some (sc_workspaceId ctx)
         then Some (WorkspaceIsolation (sc_userId ctx) (sc_workspaceId ctx) (the rid) (rq_resource rq) rid)
         else None)"

datatype auth_step = Answered authorization_result | Pending authorization_result

definition authorize_begin ::
  "time_ms \<Rightarrow> authorization_request \<Rightarrow> permission_service \<Rightarrow> permission_service \<times> (security_error + auth_step)" where
  "authorize_begin now rq s =
     (case cache_get now (request_key rq) (ps_cache s) of
        (c, Some r) \<Rightarrow> (set_cache c s, Inr (Answered r))
      | (c, None) \<Rightarrow>
          (let s1 = set_cache c s
           in case (if sf_enableWorkspaceIsolation (ps_config s1) then enforceWorkspaceIsolation rq else None) of
                Some e \<Rightarrow> (s1, Inl e)
              | None \<Rightarrow> (s1, Inr (Pending (performAuthorization now rq s1)))))"

definition authorize_commit :: "time_ms \<Rightarrow> authorization_request \<Rightarrow> authorization_result \<Rightarrow> permission_service \<Rightarrow> permission_service" where
  "authorize_commit now rq r s =
     ps_emit (Decided rq (ar_granted r) (ar_reason r) now)
       (set_cache (cache_set now (request_key rq) (r, rq_context rq, Some (sf_cacheTtl (ps_config s))) (ps_cache s)) s)"

text \<open>\<open>authorize\<close> when nothing runs at its suspension point.\<close>

definition authorize ::
  "time_ms \<Rightarrow> authorization_request \<Rightarrow> permission_service \<Rightarrow> permission_service \<times> (security_error + authorization_result)" where
  "authorize now rq s =
     (case authorize_begin now rq s of
        (s1, Inl e) \<Rightarrow> (s1, Inl e)
      | (s1, Inr (Answered r)) \<Rightarrow> (s1, Inr r)
      | (s1, Inr (Pending r)) \<Rightarrow> (authorize_commit now rq r s1, Inr r))"

section \<open>Updates\<close>

definition setWorkspacePermissions :: "time_ms \<Rightarrow> string \<Rightarrow> workspace_permissions \<Rightarrow> permission_service \<Rightarrow> permission_service" where
  "setWorkspacePermissions now w p s =
     ps_emit (PermissionUpdated ''workspace'' w now)
       (set_cache (fst (invalidateWorkspace now w (ps_cache s))) (s\<lparr>ps_workspaces := js_set w p (ps_workspaces s)\<rparr>))"

definition setUserPermissions :: "time_ms \<Rightarrow> string \<Rightarrow> user_permissions \<Rightarrow> permission_service \<Rightarrow> permission_service" where
  "setUserPermissions now u p s =
     ps_emit (PermissionUpdated ''user'' u now)
       (set_cache (fst (invalidateUser now u (ps_cache s))) (s\<lparr>ps_users := js_set u p (ps_users s)\<rparr>))"

definition setToolPermissions :: "time_ms \<Rightarrow> string \<Rightarrow> tool_permissions \<Rightarrow> permission_service \<Rightarrow> permission_service" where
  "setToolPermissions now k p s =
     ps_emit (PermissionUpdated ''tool'' k now)
       (set_cache (fst (invalidateServer now (tp_serverId p) (ps_cache s))) (s\<lparr>ps_tools := js_set k p (ps_tools s)\<rparr>))"

definition setServerPermissions :: "time_ms \<Rightarrow> string \<Rightarrow> server_permissions \<Rightarrow> permission_service \<Rightarrow> permission_service" where
  "setServerPermissions now i p s =
     ps_emit (PermissionUpdated ''server'' i now)
       (set_cache (fst (invalidateServer now i (ps_cache s))) (s\<lparr>ps_servers := js_set i p (ps_servers s)\<rparr>))"

definition invalidateCache ::
  "time_ms \<Rightarrow> string option \<Rightarrow> string option \<Rightarrow> string option \<Rightarrow> permission_service \<Rightarrow> permission_service" where
  "invalidateCache now u w i s =
     set_cache (if present u then fst (invalidateUser now (the u) (ps_cache s))
       else if present w then fst (invalidateWorkspace now (the w) (ps_cache s))
       else if present i then fst (invalidateServer now (the i) (ps_cache s))
       else cache_clear now (ps_cache s)) s"

definition getWorkspacePermissions :: "string \<Rightarrow> permission_service \<Rightarrow> workspace_permissions option" where
  "getWorkspacePermissions w s = js_get (ps_workspaces s) w"

definition getUserPermissions :: "string \<Rightarrow> permission_service \<Rightarrow> user_permissions option" where
  "getUserPermissions u s = js_get (ps_users s) u"

definition getToolPermissions :: "string \<Rightarrow> permission_service \<Rightarrow> tool_permissions option" where
  "getToolPermissions k s = js_get (ps_tools s) k"

definition getServerPermissions :: "string \<Rightarrow> permission_service \<Rightarrow> server_permissions option" where
  "getServerPermissions i s = js_get (ps_servers s) i"

definition new_permission_service :: "security_config \<Rightarrow> nat \<Rightarrow> permission_service" where
  "new_permission_service cfg n = \<lparr>ps_cache = new_permission_cache (sf_cacheTtl cfg) n, ps_config = cfg,
     ps_workspaces = [], ps_users = [], ps_tools = [], ps_servers = [], ps_emitted = []\<rparr>"

text \<open>The values \<open>config.x ?? default\<close> of an empty configuration.\<close>

definition default_config :: security_config where
  "default_config = \<lparr>sf_cacheTtl = 300000, sf_enableWorkspaceIsolation = True, sf_defaultRoles = [RoleUser],
     sf_strictPermissionChecking = True, sf_sessionTimeout = 3600000\<rparr>"

section \<open>The security manager\<close>

text \<open>Of a request's metadata the decision reads nothing; the fields the manager builds are kept.\<close>

definition createSecurityContext ::
  "time_ms \<Rightarrow> string \<Rightarrow> string \<Rightarrow> string \<Rightarrow> string \<Rightarrow> js_record \<Rightarrow> security_context" where
  "createSecurityContext now u w sess srv md =
     \<lparr>sc_userId = u, sc_workspaceId = w, sc_sessionId = sess, sc_serverId = srv, sc_roles = [], sc_permissions = [],
      sc_metadata = JObj (js_spread [(''timestamp'', JDate now), (''source'', JStr ''security_manager'')] md)\<rparr>"

definition validateSecurityContext :: "security_context \<Rightarrow> security_error option" where
  "validateSecurityContext ctx =
     (if sc_userId ctx = [] then Some (AuthenticationFailed ''Missing userId in security context'' None None)
      else if sc_workspaceId ctx = [] then Some (AuthenticationFailed ''Missing workspaceId in security context'' None None)
      else if sc_sessionId ctx = [] then Some (AuthenticationFailed ''Missing sessionId in security context'' None None)
      else if sc_serverId ctx = [] then Some (AuthenticationFailed ''Missing serverId in security context'' None None)
      else None)"

definition validateWorkspaceAccess :: "security_context \<Rightarrow> security_error option" where
  "validateWorkspaceAccess ctx =
     (case validateSecurityContext ctx of
        Some e \<Rightarrow> Some e
      | None \<Rightarrow> if sc_workspaceId ctx = []
                then Some (WorkspaceIsolation (sc_userId ctx) (sc_workspaceId ctx) ''unknown'' ResWorkspace None) else None)"

text \<open>A refused request throws with the reason of the entry point.\<close>

definition require_granted ::
  "authorization_request \<Rightarrow> string \<Rightarrow> authorization_result \<Rightarrow> security_error + authorization_result" where
  "require_granted rq why r =
     (if ar_granted r then Inr r
      else Inl (AuthorizationFailed (sc_userId (rq_context rq)) (sc_workspaceId (rq_context rq)) (rq_resource rq)
             (rq_action rq) (ar_required r) (rq_resourceId rq) why))"

definition authorize_checked ::
  "time_ms \<Rightarrow> authorization_request \<Rightarrow> string \<Rightarrow> permission_service \<Rightarrow> permission_service \<times> (security_error + authorization_result)" where
  "authorize_checked now rq why s =
     (case validateWorkspaceAccess (rq_context rq) of
        Some e \<Rightarrow> (s, Inl e)
      | None \<Rightarrow> (case authorize now rq s of
            (s1, Inl e) \<Rightarrow> (s1, Inl e)
          | (s1, Inr r) \<Rightarrow> (s1, require_granted rq why r)))"

definition authorizeTool where
  "authorizeTool now ctx tool params s = authorize_checked now
     \<lparr>rq_context = ctx, rq_resource = ResTool, rq_action = ActExecute, rq_resourceId = Some tool,
      rq_metadata = JObj [(''toolParameters'', params), (''authorizationType'', JStr ''tool_execution'')]\<rparr>
     ''Tool execution not authorized'' s"

definition authorizePrompt where
  "authorizePrompt now ctx prompt params s = authorize_checked now
     \<lparr>rq_context = ctx, rq_resource = ResPrompt, rq_action = ActRead, rq_resourceId = Some prompt,
      rq_metadata = JObj [(''promptParameters'', params), (''authorizationType'', JStr ''prompt_access'')]\<rparr>
     ''Prompt access not authorized'' s"

definition authorizeResource where
  "authorizeResource now ctx uri act s = authorize_checked now
     \<lparr>rq_context = ctx, rq_resource = ResResource, rq_action = act, rq_resourceId = Some uri,
      rq_metadata = JObj [(''authorizationType'', JStr ''resource_access'')]\<rparr>
     ''Resource access not authorized'' s"

definition authorizeTemplate where
  "authorizeTemplate now ctx template params s = authorize_checked now
     \<lparr>rq_context = ctx, rq_resource = ResTemplate, rq_action = ActRead, rq_resourceId = Some template,
      rq_metadata = JObj [(''templateParameters'', params), (''authorizationType'', JStr ''template_access'')]\<rparr>
     ''Template access not authorized'' s"

text \<open>
  A connection is authorized without the check of the context; an isolation error is turned into
  an authentication failure.
\<close>

definition authorizeConnection ::
  "time_ms \<Rightarrow> string \<Rightarrow> string \<Rightarrow> string \<Rightarrow> string \<Rightarrow> js_record \<Rightarrow> permission_service
    \<Rightarrow> permission_service \<times> (security_error + authorization_result)" where
  "authorizeConnection now u w srv sess md s =
     (let rq = \<lparr>rq_context = \<lparr>sc_userId = u, sc_workspaceId = w, sc_sessionId = sess, sc_serverId = srv, sc_roles = [],
                  sc_permissions = [], sc_metadata = JObj (js_spread [(''timestamp'', JDate now),
                    (''source'', JStr ''connection_authorization'')] md)\<rparr>,
                rq_resource = ResServer, rq_action = ActRead, rq_resourceId = Some srv, rq_metadata = JObj md\<rparr>
      in case authorize now rq s of
           (s1, Inl e) \<Rightarrow> (s1, Inl (AuthenticationFailed ''Connection authorization failed'' (Some u) (Some sess)))
         | (s1, Inr r) \<Rightarrow> (s1, require_granted rq ''Server connection not authorized'' r))"

definition mgr_setToolPermissions :: "time_ms \<Rightarrow> string \<Rightarrow> string \<Rightarrow> tool_permissions \<Rightarrow> permission_service \<Rightarrow> permission_service" where
  "mgr_setToolPermissions now srv tool p = setToolPermissions now (srv @ '':'' @ tool) p"

definition invalidateUserCache :: "time_ms \<Rightarrow> string \<Rightarrow> permission_service \<Rightarrow> permission_service" where
  "invalidateUserCache now u = invalidateCache now (Some u) None None"

definition invalidateWorkspaceCache :: "time_ms \<Rightarrow> string \<Rightarrow> permission_service \<Rightarrow> permission_service" where
  "invalidateWorkspaceCache now w = invalidateCache now None (Some w) None"

definition invalidateServerCache :: "time_ms \<Rightarrow> string \<Rightarrow> permission_service \<Rightarrow> permission_service" where
  "invalidateServerCache now i = invalidateCache now None None (Some i)"

definition clearAllCache :: "time_ms \<Rightarrow> permission_service \<Rightarrow> permission_service" where
  "clearAllCache now = invalidateCache now None None None"

section \<open>How the operations act on the parts of the state\<close>

lemma set_cache_simps [simp]:
  "ps_cache (set_cache c s) = c" "ps_config (set_cache c s) = ps_config s"
  "ps_workspaces (set_cache c s) = ps_workspaces s" "ps_users (set_cache c s) = ps_users s"
  "ps_tools (set_cache c s) = ps_tools s" "ps_servers (set_cache c s) = ps_servers s"
  by (simp_all add: set_cache_def)

lemma ps_emit_simps [simp]:
  "ps_cache (ps_emit e s) = ps_cache s" "ps_config (ps_emit e s) = ps_config s"
  "ps_workspaces (ps_emit e s) = ps_workspaces s" "ps_users (ps_emit e s) = ps_users s"
  "ps_tools (ps_emit e s) = ps_tools s" "ps_servers (ps_emit e s) = ps_servers s"
  by (simp_all add: ps_emit_def)

lemma set_first_occurrences [simp]: "set (first_occurrences xs) = set xs"
  by (simp add: first_occurrences_def)

lemma distinct_first_occurrences: "distinct (first_occurrences xs)"
  by (simp add: first_occurrences_def)

end
