(* ===== verification/Permission_Props.thy ===== *)
theory Permission_Props
  imports Permission_Service
begin

text \<open>
  What authorization decides, why the cache does not change it, and where it can: the abstract
  policy (\<open>has_role\<close>, \<open>has_permission\<close>), the decoding of cache keys, the coherence of the
  cache over all sequences of uninterrupted operations, the two ways around it (a key built from
  an absent server, an update at the suspension point of \<open>authorize\<close>), and the size of the cache.
\<close>

section \<open>The policy\<close>

inductive has_role :: "permission_service \<Rightarrow> security_context \<Rightarrow> security_role \<Rightarrow> bool" for s ctx where
  "r \<in> set (sf_defaultRoles (ps_config s)) \<Longrightarrow> has_role s ctx r"
| "js_get (ps_users s) (sc_userId ctx) = Some u \<Longrightarrow> r \<in> set (up_globalRoles u) \<Longrightarrow> has_role s ctx r"
| "js_get (ps_users s) (sc_userId ctx) = Some u \<Longrightarrow> js_get (up_workspacePermissions u) (sc_workspaceId ctx) = Some w
    \<Longrightarrow> r \<in> set (wp_roles w) \<Longrightarrow> has_role s ctx r"
| "js_get (ps_workspaces s) (sc_workspaceId ctx) = Some w \<Longrightarrow> wp_userId w = sc_userId ctx
    \<Longrightarrow> r \<in> set (wp_roles w) \<Longrightarrow> has_role s ctx r"

inductive has_permission :: "permission_service \<Rightarrow> security_context \<Rightarrow> permission \<Rightarrow> bool" for s ctx where
  "js_get (ps_users s) (sc_userId ctx) = Some u \<Longrightarrow> p \<in> set (up_globalPermissions u) \<Longrightarrow> has_permission s ctx p"
| "js_get (ps_users s) (sc_userId ctx) = Some u \<Longrightarrow> js_get (up_workspacePermissions u) (sc_workspaceId ctx) = Some w
    \<Longrightarrow> p \<in> set (wp_permissions w) \<Longrightarrow> has_permission s ctx p"
| "js_get (ps_workspaces s) (sc_workspaceId ctx) = Some w \<Longrightarrow> wp_userId w = sc_userId ctx
    \<Longrightarrow> p \<in> set (wp_permissions w) \<Longrightarrow> has_permission s ctx p"

text \<open>The roles a resource admits: those configured for the tool or the server, else admins and users.\<close>

definition admits :: "permission_service \<Rightarrow> authorization_request \<Rightarrow> security_role set" where
  "admits s rq = set (fst (getResourcePermissions (rq_resource rq) (rq_resourceId rq) (sc_serverId (rq_context rq)) s))"

definition policy :: "permission_service \<Rightarrow> authorization_request \<Rightarrow> bool" where
  "policy s rq = ((\<exists>r. has_role s (rq_context rq) r \<and> r \<in> admits s rq)
     \<or> (\<exists>p. has_permission s (rq_context rq) p \<and> permission_applies (rq_resource rq) (rq_action rq) (rq_resourceId rq) p))"

lemma effective_roles: "r \<in> set (fst (getUserEffectivePermissions ctx s)) \<longleftrightarrow> has_role s ctx r"
  by (auto simp: getUserEffectivePermissions_def Let_def has_role.simps split: option.splits if_splits)

lemma effective_permissions: "p \<in> set (snd (getUserEffectivePermissions ctx s)) \<longleftrightarrow> has_permission s ctx p"
  by (auto simp: getUserEffectivePermissions_def Let_def has_permission.simps split: option.splits if_splits)

lemma granted_policy: "ar_granted (performAuthorization now rq s) \<longleftrightarrow> policy s rq"
  unfolding policy_def performAuthorization_def Let_def admits_def
  by (cases "getUserEffectivePermissions (rq_context rq) s")
    (auto simp: checkRoleBasedAccess_def checkPermissionBasedAccess_def list_ex_iff
      simp flip: effective_roles effective_permissions)

text \<open>The configurations that the decision does not look at.\<close>

definition unrestricted :: "permission_service \<Rightarrow> permission_service" where
  "unrestricted s = s\<lparr>
     ps_tools := map (\<lambda>(k, t). (k, t\<lparr>tp_requiredPermissions := [], tp_restrictions := None\<rparr>)) (ps_tools s),
     ps_servers := map (\<lambda>(k, t). (k, t\<lparr>sp_requiredPermissions := [], sp_workspaceRestrictions := None,
        sp_userRestrictions := None, sp_connectionLimits := None\<rparr>)) (ps_servers s),
     ps_workspaces := map (\<lambda>(k, w). (k, w\<lparr>wp_expiresAt := None\<rparr>)) (ps_workspaces s)\<rparr>"

lemma js_get_map: "js_get (map (\<lambda>(k, v). (k, f v)) m) k = map_option f (js_get m k)"
  by (induction m) (auto simp: js_get_def)

lemma unrestricted_same: "policy (unrestricted s) rq = policy s rq"
proof -
  have "has_role (unrestricted s) ctx r = has_role s ctx r" for ctx r
    by (auto simp: has_role.simps unrestricted_def js_get_map)
  moreover have "has_permission (unrestricted s) ctx p = has_permission s ctx p" for ctx p
    by (auto simp: has_permission.simps unrestricted_def js_get_map)
  moreover have "admits (unrestricted s) rq = admits s rq"
    by (auto simp: admits_def getResourcePermissions_def unrestricted_def js_get_map split: resource_type.splits option.splits)
  ultimately show ?thesis by (simp add: policy_def)
qed

text \<open>C12: A request is granted exactly when a role of the user (a default one, a global one, one
  of the user's or the workspace's entry for this workspace) is admitted by the resource, or one
  of the user's permissions applies to it. The restrictions, required permissions, limits and
  expiry times configured for tools, servers and workspaces take no part in the decision, and
  under the default configuration every request for a prompt, a resource, a template or a
  workspace is granted.\<close>
theorem authorization_decision:
  "(ar_granted (performAuthorization now rq s) \<longleftrightarrow> policy s rq)
   \<and> (ar_granted (performAuthorization now rq (unrestricted s)) \<longleftrightarrow> policy s rq)
   \<and> (ps_config s = default_config \<and> rq_resource rq \<notin> {ResTool, ResServer} \<longrightarrow> policy s rq)"
proof -
  have "policy s rq" if "ps_config s = default_config" "rq_resource rq \<notin> {ResTool, ResServer}"
  proof -
    have "has_role s (rq_context rq) RoleUser" using that(1) by (auto simp: default_config_def intro: has_role.intros(1))
    moreover have "RoleUser \<in> admits s rq"
      using that(2) by (cases "rq_resource rq") (auto simp: admits_def getResourcePermissions_def default_access_def)
    ultimately show ?thesis by (auto simp: policy_def)
  qed
  then show ?thesis by (simp add: granted_policy unrestricted_same)
qed

definition demo_context :: "string \<Rightarrow> string \<Rightarrow> string \<Rightarrow> security_context" where
  "demo_context u w srv = \<lparr>sc_userId = u, sc_workspaceId = w, sc_sessionId = ''s'', sc_serverId = srv,
     sc_roles = [], sc_permissions = [], sc_metadata = JUndefined\<rparr>"

definition demo_ask :: "string \<Rightarrow> string \<Rightarrow> string \<Rightarrow> resource_type \<Rightarrow> string option \<Rightarrow> authorization_request" where
  "demo_ask u w srv res rid = \<lparr>rq_context = demo_context u w srv, rq_resource = res, rq_action = ActRead,
     rq_resourceId = rid, rq_metadata = JUndefined\<rparr>"

theorem authorization_decision_witness:
  "ar_granted (performAuthorization 0 (demo_ask ''u'' ''w'' ''srv'' ResPrompt (Some ''p''))
     (new_permission_service default_config 100))"
  using authorization_decision [of 0 "demo_ask ''u'' ''w'' ''srv'' ResPrompt (Some ''p'')" "new_permission_service default_config 100"]
  by (simp add: new_permission_service_def demo_ask_def)

section \<open>Cache keys\<close>

definition colon_free :: "string \<Rightarrow> bool" where
  "colon_free s = (CHR '':'' \<notin> set s)"

text \<open>The text before and after the first colon; the text before and after the last one.\<close>

definition cut :: "string \<Rightarrow> string \<times> string" where
  "cut s = (takeWhile (\<lambda>c. c \<noteq> CHR '':'') s, tl (dropWhile (\<lambda>c. c \<noteq> CHR '':'') s))"

definition cut_last :: "string \<Rightarrow> string option \<times> string" where
  "cut_last s = (if colon_free s then (None, s)
     else (case cut (rev s) of (b, a) \<Rightarrow> (Some (rev a), rev b)))"

definition decode_key :: "string \<Rightarrow> string \<times> string \<times> string \<times> string \<times> string option \<times> string" where
  "decode_key k = (let (u, k1) = cut k; (w, k2) = cut k1; (res, k3) = cut k2; (act, k4) = cut k3
     in (u, w, res, act, cut_last k4))"

lemma cut_append: "colon_free a \<Longrightarrow> cut (a @ '':'' @ b) = (a, b)"
  by (induction a) (auto simp: cut_def colon_free_def)

lemma cut_last_simps:
  "colon_free b \<Longrightarrow> cut_last b = (None, b)"
  "colon_free b \<Longrightarrow> cut_last (a @ '':'' @ b) = (Some a, b)"
proof -
  assume b: "colon_free b"
  then show "cut_last b = (None, b)" by (simp add: cut_last_def)
  have "cut (rev b @ '':'' @ rev a) = (rev b, rev a)" using b by (intro cut_append) (simp add: colon_free_def)
  then show "cut_last (a @ '':'' @ b) = (Some a, b)" by (simp add: cut_last_def colon_free_def)
qed

lemma colon_free_names: "colon_free (resource_str res)" "colon_free (action_str act)"
  by (cases res; simp add: colon_free_def) (cases act; simp add: colon_free_def)

lemma resource_str_inj: "resource_str a = resource_str b \<Longrightarrow> a = b"
  by (cases a; cases b) auto

lemma action_str_inj: "action_str a = action_str b \<Longrightarrow> a = b"
  by (cases a; cases b) auto

lemma generateCacheKey_shape:
  "sid \<noteq> [] \<Longrightarrow> generateCacheKey u w res act rid (Some sid) =
     u @ '':'' @ w @ '':'' @ resource_str res @ '':'' @ action_str act @ '':''
       @ (if present rid then the rid @ '':'' @ sid else sid)"
  by (simp add: generateCacheKey_def present_def split: option.split)

lemma cache_key_roundtrip_raw:
  assumes "colon_free u" and "colon_free w" and "colon_free sid" and "sid \<noteq> []"
  shows "decode_key (generateCacheKey u w res act rid (Some sid))
    = (u, w, resource_str res, action_str act, (if present rid then rid else None), sid)"
proof -
  have "cut_last (if present rid then the rid @ '':'' @ sid else sid) = (if present rid then rid else None, sid)"
    using cut_last_simps(1) [OF assms(3)] cut_last_simps(2) [OF assms(3), of "the rid"]
    by (cases rid) (simp_all add: present_def)
  then show ?thesis
    unfolding generateCacheKey_shape [OF assms(4)] decode_key_def Let_def
    by (simp add: cut_append assms colon_free_names del: append.simps)
qed




section \<open>Coherence\<close>

text \<open>A request whose ids a key determines.\<close>

definition clean :: "authorization_request \<Rightarrow> bool" where
  "clean rq = (colon_free (sc_userId (rq_context rq)) \<and> colon_free (sc_workspaceId (rq_context rq))
     \<and> colon_free (sc_serverId (rq_context rq)) \<and> sc_serverId (rq_context rq) \<noteq> [])"

definition same_ask :: "authorization_request \<Rightarrow> authorization_request \<Rightarrow> bool" where
  "same_ask rq rq' = (sc_userId (rq_context rq) = sc_userId (rq_context rq')
     \<and> sc_workspaceId (rq_context rq) = sc_workspaceId (rq_context rq')
     \<and> sc_serverId (rq_context rq) = sc_serverId (rq_context rq')
     \<and> rq_resource rq = rq_resource rq' \<and> rq_action rq = rq_action rq'
     \<and> (if present (rq_resourceId rq) then rq_resourceId rq else None)
       = (if present (rq_resourceId rq') then rq_resourceId rq' else None))"

lemma decode_request:
  "clean rq \<Longrightarrow> decode_key (request_key rq) = (sc_userId (rq_context rq), sc_workspaceId (rq_context rq),
     resource_str (rq_resource rq), action_str (rq_action rq),
     (if present (rq_resourceId rq) then rq_resourceId rq else None), sc_serverId (rq_context rq))"
  unfolding request_key_def clean_def by (rule cache_key_roundtrip_raw) simp_all

lemma request_key_inj:
  assumes "clean rq" and "clean rq'" and "request_key rq = request_key rq'"
  shows "same_ask rq rq'"
  using decode_request [OF assms(1)] decode_request [OF assms(2)] resource_str_inj action_str_inj
  unfolding assms(3) same_ask_def by simp

lemma present_normal:
  "(if present a then a else None) = (if present b then b else None) \<Longrightarrow> present a = present b \<and> (present a \<longrightarrow> a = b)"
  by (auto simp: present_def split: if_splits option.splits)

lemma permission_applies_same:
  assumes "(if present a then a else None) = (if present b then b else None)"
  shows "permission_applies res act a p = permission_applies res act b p"
  using present_normal [OF assms] unfolding permission_applies_def by metis

text \<open>What a decision depends on.\<close>

lemma policy_cong:
  assumes "same_ask rq rq'" and "ps_config s = ps_config s'"
    and "js_get (ps_users s) (sc_userId (rq_context rq)) = js_get (ps_users s') (sc_userId (rq_context rq))"
    and "js_get (ps_workspaces s) (sc_workspaceId (rq_context rq)) = js_get (ps_workspaces s') (sc_workspaceId (rq_context rq))"
    and "\<And>n. js_get (ps_tools s) (sc_serverId (rq_context rq) @ '':'' @ n) = js_get (ps_tools s') (sc_serverId (rq_context rq) @ '':'' @ n)"
    and "js_get (ps_servers s) (sc_serverId (rq_context rq)) = js_get (ps_servers s') (sc_serverId (rq_context rq))"
  shows "policy s rq = policy s' rq'"
proof -
  have n: "(if present (rq_resourceId rq) then rq_resourceId rq else None)
      = (if present (rq_resourceId rq') then rq_resourceId rq' else None)"
    using assms(1) by (simp add: same_ask_def)
  have r: "has_role s (rq_context rq) r = has_role s' (rq_context rq') r" for r
    using assms(1-4) by (simp add: has_role.simps same_ask_def)
  have p: "has_permission s (rq_context rq) q = has_permission s' (rq_context rq') q" for q
    using assms(1-4) by (simp add: has_permission.simps same_ask_def)
  have e: "rq_resource rq = rq_resource rq'" "sc_serverId (rq_context rq) = sc_serverId (rq_context rq')"
    using assms(1) by (simp_all add: same_ask_def)
  have T: "js_get (ps_tools s) (sc_serverId (rq_context rq') @ '':'' @ m) = js_get (ps_tools s') (sc_serverId (rq_context rq') @ '':'' @ m)" for m
    using assms(5) [of m] unfolding e .
  have S: "js_get (ps_servers s) (sc_serverId (rq_context rq')) = js_get (ps_servers s') (sc_serverId (rq_context rq'))"
    using assms(6) unfolding e .
  have pr: "present (rq_resourceId rq) = present (rq_resourceId rq')" "present (rq_resourceId rq') \<Longrightarrow> rq_resourceId rq = rq_resourceId rq'"
    using present_normal [OF n] by simp_all
  have "getResourcePermissions (rq_resource rq) (rq_resourceId rq) (sc_serverId (rq_context rq)) s
      = getResourcePermissions (rq_resource rq') (rq_resourceId rq') (sc_serverId (rq_context rq')) s'"
    unfolding getResourcePermissions_def e pr(1) T S by (cases "present (rq_resourceId rq')") (simp_all add: pr(2) split: resource_type.split)
  then have "admits s rq = admits s' rq'" by (simp add: admits_def)
  moreover have "permission_applies (rq_resource rq) (rq_action rq) (rq_resourceId rq) q
      = permission_applies (rq_resource rq') (rq_action rq') (rq_resourceId rq') q" for q
    using permission_applies_same [OF n] assms(1) by (simp add: same_ask_def)
  ultimately show ?thesis by (simp add: policy_def r p)
qed

text \<open>What a caller sees of an authorization, with and without the cache.\<close>

definition isolation_error :: "permission_service \<Rightarrow> authorization_request \<Rightarrow> security_error option" where
  "isolation_error s rq = (if sf_enableWorkspaceIsolation (ps_config s) then enforceWorkspaceIsolation rq else None)"

definition uncached :: "permission_service \<Rightarrow> authorization_request \<Rightarrow> security_error + bool" where
  "uncached s rq = (case isolation_error s rq of Some e \<Rightarrow> Inl e | None \<Rightarrow> Inr (policy s rq))"

definition observed :: "security_error + authorization_result \<Rightarrow> security_error + bool" where
  "observed r = map_sum id ar_granted r"

lemma isolation_none:
  "isolation_error s rq = None \<longleftrightarrow> (sf_enableWorkspaceIsolation (ps_config s) \<longrightarrow>
     rq_resource rq \<noteq> ResWorkspace \<or> \<not> present (rq_resourceId rq) \<or> rq_resourceId rq = Some (sc_workspaceId (rq_context rq)))"
  by (simp add: isolation_error_def enforceWorkspaceIsolation_def Let_def)

lemma isolation_same:
  assumes "same_ask rq rq'"
  shows "isolation_error s rq = None \<longleftrightarrow> isolation_error s rq' = None"
proof -
  have "present (rq_resourceId rq) = present (rq_resourceId rq')" "present (rq_resourceId rq) \<longrightarrow> rq_resourceId rq = rq_resourceId rq'"
    using present_normal [of "rq_resourceId rq" "rq_resourceId rq'"] assms unfolding same_ask_def by blast+
  then show ?thesis using assms by (auto simp: isolation_none same_ask_def)
qed

definition justified :: "permission_service \<Rightarrow> string \<Rightarrow> cache_entry \<Rightarrow> bool" where
  "justified s k e = (\<exists>rq. clean rq \<and> request_key rq = k \<and> ce_context e = rq_context rq
     \<and> isolation_error s rq = None \<and> ar_granted (ce_result e) = policy s rq)"

definition coherent :: "permission_service \<Rightarrow> bool" where
  "coherent s = (\<forall>k e. js_get (pc_cache (ps_cache s)) k = Some e \<longrightarrow> justified s k e)"

lemma justified_keep:
  assumes "justified s k e" and "ps_config s' = ps_config s"
    and "js_get (ps_users s) (sc_userId (ce_context e)) = js_get (ps_users s') (sc_userId (ce_context e))"
    and "js_get (ps_workspaces s) (sc_workspaceId (ce_context e)) = js_get (ps_workspaces s') (sc_workspaceId (ce_context e))"
    and "\<And>n. colon_free (sc_serverId (ce_context e)) \<Longrightarrow> js_get (ps_tools s) (sc_serverId (ce_context e) @ '':'' @ n) = js_get (ps_tools s') (sc_serverId (ce_context e) @ '':'' @ n)"
    and "js_get (ps_servers s) (sc_serverId (ce_context e)) = js_get (ps_servers s') (sc_serverId (ce_context e))"
  shows "justified s' k e"
proof -
  obtain rq where rq: "clean rq" "request_key rq = k" "ce_context e = rq_context rq"
      "isolation_error s rq = None" "ar_granted (ce_result e) = policy s rq"
    using assms(1) unfolding justified_def by blast
  have "policy s rq = policy s' rq"
    using assms(2-6) rq(1,3) by (intro policy_cong) (simp_all add: same_ask_def clean_def)
  moreover have "isolation_error s' rq = isolation_error s rq" by (simp add: isolation_error_def assms(2))
  ultimately show ?thesis using rq unfolding justified_def by metis
qed

lemma justified_same:
  "ps_config s' = ps_config s \<Longrightarrow> ps_users s' = ps_users s \<Longrightarrow> ps_workspaces s' = ps_workspaces s
    \<Longrightarrow> ps_tools s' = ps_tools s \<Longrightarrow> ps_servers s' = ps_servers s \<Longrightarrow> justified s' k e = justified s k e"
  by (auto intro: justified_keep)

text \<open>The steps of a service whose operations are not interrupted. Tools are configured as the
  security manager does it, under the server their permissions name.\<close>

inductive service_reachable :: "permission_service \<Rightarrow> bool" where
  start: "service_reachable (new_permission_service cfg n)"
| ask: "service_reachable s \<Longrightarrow> clean rq \<Longrightarrow> service_reachable (fst (authorize now rq s))"
| workspace: "service_reachable s \<Longrightarrow> service_reachable (setWorkspacePermissions now w wp s)"
| user: "service_reachable s \<Longrightarrow> service_reachable (setUserPermissions now u up s)"
| tool: "service_reachable s \<Longrightarrow> colon_free srv \<Longrightarrow> tp_serverId tp = srv \<Longrightarrow> service_reachable (mgr_setToolPermissions now srv t tp s)"
| server: "service_reachable s \<Longrightarrow> service_reachable (setServerPermissions now srv sp s)"
| invalidate: "service_reachable s \<Longrightarrow> service_reachable (invalidateCache now ou ow os s)"

lemma coherent_forget:
  assumes "coherent s" and "ps_cache s' = fst (invalidate_where now P (ps_cache s))"
    and "\<And>k e. justified s k e \<Longrightarrow> \<not> P e \<Longrightarrow> justified s' k e"
  shows "coherent s'"
proof -
  have "\<forall>k e. js_get (pc_cache (ps_cache s)) k = Some e \<longrightarrow> \<not> P e \<longrightarrow> justified s' k e"
    using assms(1,3) by (auto simp: coherent_def)
  from permission_store.all_entries_forget [OF this] show ?thesis by (simp add: coherent_def assms(2))
qed

lemma tool_key_other: "colon_free a \<Longrightarrow> colon_free b \<Longrightarrow> a \<noteq> b \<Longrightarrow> a @ '':'' @ n \<noteq> b @ '':'' @ m"
  by (metis cut_append prod.inject)

lemma coherent_updates [inv_intros]:
  assumes "coherent s"
  shows "coherent (setWorkspacePermissions now w wp s)" "coherent (setUserPermissions now u up s)"
    "coherent (setServerPermissions now srv sp s)"
    "colon_free srv \<Longrightarrow> tp_serverId tp = srv \<Longrightarrow> coherent (mgr_setToolPermissions now srv t tp s)"
    "coherent (invalidateCache now ou ow os s)"
proof -
  show "coherent (setWorkspacePermissions now w wp s)"
    by (rule coherent_forget [where P = "\<lambda>e. sc_workspaceId (ce_context e) = w", OF assms])
      (simp add: setWorkspacePermissions_def invalidateWorkspace_def, erule justified_keep, simp_all add: setWorkspacePermissions_def)
  show "coherent (setUserPermissions now u up s)"
    by (rule coherent_forget [where P = "\<lambda>e. sc_userId (ce_context e) = u", OF assms])
      (simp add: setUserPermissions_def invalidateUser_def, erule justified_keep, simp_all add: setUserPermissions_def)
  show "coherent (setServerPermissions now srv sp s)"
    by (rule coherent_forget [where P = "\<lambda>e. sc_serverId (ce_context e) = srv", OF assms])
      (simp add: setServerPermissions_def invalidateServer_def, erule justified_keep, simp_all add: setServerPermissions_def)
  show "coherent (mgr_setToolPermissions now srv t tp s)" if "colon_free srv" "tp_serverId tp = srv"
    by (rule coherent_forget [where P = "\<lambda>e. sc_serverId (ce_context e) = srv", OF assms])
      (simp add: mgr_setToolPermissions_def setToolPermissions_def invalidateServer_def that, erule justified_keep,
        simp_all add: mgr_setToolPermissions_def setToolPermissions_def tool_key_other [OF _ that(1), simplified])
  have sub: "\<And>j e. js_get (pc_cache (ps_cache (invalidateCache now ou ow os s))) j = Some e \<Longrightarrow> js_get (pc_cache (ps_cache s)) j = Some e"
    by (auto simp: invalidateCache_def invalidateUser_def invalidateWorkspace_def invalidateServer_def cache_clear_def
        dest: get_forget split: if_splits)
  have "justified (invalidateCache now ou ow os s) k e = justified s k e" for k e
    by (rule justified_same) (simp_all add: invalidateCache_def)
  then show "coherent (invalidateCache now ou ow os s)" using assms sub unfolding coherent_def by blast
qed


lemma authorize_hit:
  "cache_get now (request_key rq) (ps_cache s) = (c, Some r) \<Longrightarrow> authorize now rq s = (set_cache c s, Inr r)"
  by (simp add: authorize_def authorize_begin_def)

lemma authorize_miss:
  assumes "cache_get now (request_key rq) (ps_cache s) = (c, None)"
  shows "authorize now rq s = (case isolation_error s rq of
      Some e \<Rightarrow> (set_cache c s, Inl e)
    | None \<Rightarrow> (let r = performAuthorization now rq (set_cache c s) in (authorize_commit now rq r (set_cache c s), Inr r)))"
  using assms by (simp add: authorize_def authorize_begin_def isolation_error_def Let_def split: option.splits)

lemma authorize_same [simp]:
  "ps_config (fst (authorize now rq s)) = ps_config s" "ps_users (fst (authorize now rq s)) = ps_users s"
  "ps_workspaces (fst (authorize now rq s)) = ps_workspaces s" "ps_tools (fst (authorize now rq s)) = ps_tools s"
  "ps_servers (fst (authorize now rq s)) = ps_servers s"
  by (auto simp: authorize_def authorize_begin_def authorize_commit_def Let_def split: prod.splits option.splits)

lemma policy_set_cache [simp]: "policy (set_cache c s) rq = policy s rq"
  by (rule policy_cong) (simp_all add: same_ask_def)

lemma hit_entry:
  "cache_get now k c = (c', Some r) \<Longrightarrow> \<exists>e. js_get (pc_cache c) k = Some e \<and> now \<le> ce_expiresAt e \<and> as_cached e = r"
  using permission_store.hit_iff [of now k c r] by simp

lemma coherent_authorize [inv_intros]:
  assumes "coherent s" and "clean rq"
  shows "coherent (fst (authorize now rq s))"
proof -
  let ?k = "request_key rq"
  obtain c o' where g: "cache_get now ?k (ps_cache s) = (c, o')" by (cases "cache_get now ?k (ps_cache s)")
  have cs: "\<forall>k e. js_get (pc_cache c) k = Some e \<longrightarrow> justified s k e"
    using permission_store.all_entries_lookup [of "ps_cache s" "justified s" now ?k] assms(1) g by (simp add: coherent_def)
  have j: "justified (fst (authorize now rq s)) k e = justified s k e" for k e
    by (rule justified_same) simp_all
  have "\<forall>k e. js_get (pc_cache (ps_cache (fst (authorize now rq s)))) k = Some e \<longrightarrow> justified s k e"
  proof (cases o')
    case (Some r)
    then show ?thesis using cs g by (simp add: authorize_hit)
  next
    case None
    show ?thesis
    proof (cases "isolation_error s rq")
      case iso: None
      let ?r = "performAuthorization now rq (set_cache c s)"
      let ?x = "(?r, rq_context rq, Some (sf_cacheTtl (ps_config s)))"
      have "justified s ?k (new_entry c now ?k ?x)"
        using assms(2) iso by (auto simp: justified_def new_entry_def Let_def granted_policy intro!: exI [of _ rq])
      from permission_store.all_entries_put [OF cs this] show ?thesis
        using g None iso by (simp add: authorize_miss authorize_commit_def Let_def)
    qed (use cs g None in \<open>simp add: authorize_miss\<close>)
  qed
  then show ?thesis unfolding coherent_def j by simp
qed

lemma service_coherent: "service_reachable s \<Longrightarrow> coherent s"
proof (induction rule: service_reachable.induct)
  case (start cfg n)
  then show ?case by (simp add: coherent_def new_permission_service_def new_permission_cache_def)
qed (auto intro: coherent_authorize coherent_updates)


definition demo_grants :: user_permissions where
  "demo_grants = \<lparr>up_userId = ''u'', up_globalRoles = [RoleAdmin], up_globalPermissions = [], up_workspacePermissions = []\<rparr>"

definition demo_revoked :: user_permissions where
  "demo_revoked = demo_grants\<lparr>up_globalRoles := []\<rparr>"

definition demo_tool :: tool_permissions where
  "demo_tool = \<lparr>tp_toolName = ''t'', tp_serverId = ''srv'', tp_allowedRoles = [RoleAdmin], tp_requiredPermissions = [], tp_restrictions = None\<rparr>"

text \<open>A tool for admins only, asked for by an admin.\<close>

definition demo_service :: permission_service where
  "demo_service = setUserPermissions 1 ''u'' demo_grants
     (mgr_setToolPermissions 0 ''srv'' ''t'' demo_tool (new_permission_service default_config 100))"

definition demo_tool_ask :: authorization_request where
  "demo_tool_ask = demo_ask ''u'' ''w'' ''srv'' ResTool (Some ''t'')"

lemma demo_reachable: "service_reachable demo_service"
  unfolding demo_service_def
  by (intro service_reachable.intros) (simp_all add: colon_free_def demo_tool_def)

lemma demo_clean: "clean demo_tool_ask"
  by (simp add: clean_def demo_tool_ask_def demo_ask_def demo_context_def colon_free_def)



section \<open>An update while a decision is being stored\<close>

lemma hit_after_commit:
  assumes "0 < sf_cacheTtl (ps_config s)" and "t2 \<le> t1 + sf_cacheTtl (ps_config s)" and "request_key rq' = request_key rq"
  shows "snd (authorize t2 rq' (authorize_commit t1 rq r s)) = Inr (r\<lparr>ar_cached := True\<rparr>)"
proof -
  let ?x = "(r, rq_context rq, Some (sf_cacheTtl (ps_config s)))"
  have "snd (cache_get t2 (request_key rq) (cache_set t1 (request_key rq) ?x (ps_cache s))) = Some (r\<lparr>ar_cached := True\<rparr>)"
    using permission_store.put_then_hit [of t2 "ps_cache s" t1 "request_key rq" ?x] assms(1,2)
    by (simp add: new_entry_def as_cached_def Let_def)
  then show ?thesis
    by (cases "cache_get t2 (request_key rq) (cache_set t1 (request_key rq) ?x (ps_cache s))")
      (simp add: authorize_hit authorize_commit_def assms(3))
qed

lemma begin_pending:
  assumes "snd (authorize_begin t rq s) = Inr (Pending r)"
  shows "ar_granted r = policy s rq \<and> isolation_error s rq = None"
  using assms by (auto simp: authorize_begin_def isolation_error_def Let_def granted_policy split: prod.splits option.splits)

text \<open>If anything else runs between the computation of a decision and its storing, the stored
  decision is the one of the old permissions whatever the new ones say, and it is the answer to
  the same request until it expires: an update of permissions in that gap, which removed the
  user's cached entries, is undone for this request.\<close>
theorem authorize_update_race:
  assumes "snd (authorize_begin t rq s) = Inr (Pending r)" and "ps_config s2 = ps_config s"
    and "0 < sf_cacheTtl (ps_config s)" and "t2 \<le> t1 + sf_cacheTtl (ps_config s)"
  shows "observed (snd (authorize t2 rq (authorize_commit t1 rq r s2))) = uncached s rq
    \<and> uncached (authorize_commit t1 rq r s2) rq = uncached s2 rq"
proof -
  have "uncached (authorize_commit t1 rq r s2) rq = uncached s2 rq"
    using policy_cong [of rq rq "authorize_commit t1 rq r s2" s2]
    by (simp add: uncached_def isolation_error_def same_ask_def authorize_commit_def split: option.split)
  then show ?thesis
    using begin_pending [OF assms(1)] hit_after_commit [of s2 t2 t1 rq rq r] assms(2-4)
    by (simp add: observed_def uncached_def)
qed

text \<open>The admin's role is revoked in the gap; the next request is still granted.\<close>

theorem authorize_update_race_witness:
  "\<exists>r. observed (snd (authorize 4 demo_tool_ask (authorize_commit 3 demo_tool_ask r
        (setUserPermissions 2 ''u'' demo_revoked (fst (authorize_begin 1 demo_tool_ask demo_service)))))) = Inr True
    \<and> uncached (authorize_commit 3 demo_tool_ask r
        (setUserPermissions 2 ''u'' demo_revoked (fst (authorize_begin 1 demo_tool_ask demo_service)))) demo_tool_ask = Inr False"
proof -
  let ?s2 = "setUserPermissions 2 ''u'' demo_revoked (fst (authorize_begin 1 demo_tool_ask demo_service))"
  let ?r = "performAuthorization 1 demo_tool_ask demo_service"
  have b: "snd (authorize_begin 1 demo_tool_ask demo_service) = Inr (Pending ?r)" by code_simp
  have c: "ps_config ?s2 = ps_config demo_service" "0 < sf_cacheTtl (ps_config demo_service)" "4 \<le> 3 + sf_cacheTtl (ps_config demo_service)"
    by code_simp+
  have "uncached demo_service demo_tool_ask = Inr True" "uncached ?s2 demo_tool_ask = Inr False"
    unfolding uncached_def granted_policy [of 0, symmetric] by code_simp+
  then show ?thesis using authorize_update_race [OF b c] by (intro exI [of _ ?r]) simp
qed

section \<open>A key that stands for two requests\<close>

definition workspace_ask :: "security_context \<Rightarrow> permission_action \<Rightarrow> string option \<Rightarrow> authorization_request" where
  "workspace_ask ctx act rid = \<lparr>rq_context = ctx, rq_resource = ResWorkspace, rq_action = act, rq_resourceId = rid, rq_metadata = JUndefined\<rparr>"

text \<open>A key does not tell a resource id from a server id. A user who asks for workspaces in
  general through a server named like another workspace and then asks for that workspace without
  a server gets the decision of the first request, although the second one violates the workspace
  isolation, which is enforced only when the cache has no answer.\<close>
theorem isolation_bypass_by_key:
  assumes "sc_serverId ctx = w" and "w \<noteq> []" and "w \<noteq> sc_workspaceId ctx"
    and "snd (authorize_begin t (workspace_ask ctx act None) s) = Inr (Pending r)"
    and "0 < sf_cacheTtl (ps_config s)" and "t2 \<le> t1 + sf_cacheTtl (ps_config s)"
  shows "enforceWorkspaceIsolation (workspace_ask (ctx\<lparr>sc_serverId := []\<rparr>) act (Some w)) \<noteq> None
    \<and> observed (snd (authorize t2 (workspace_ask (ctx\<lparr>sc_serverId := []\<rparr>) act (Some w))
        (authorize_commit t1 (workspace_ask ctx act None) r (fst (authorize_begin t (workspace_ask ctx act None) s)))))
      = Inr (policy s (workspace_ask ctx act None))"
proof -
  let ?q = "workspace_ask ctx act None" and ?q2 = "workspace_ask (ctx\<lparr>sc_serverId := []\<rparr>) act (Some w)"
  let ?s = "fst (authorize_begin t ?q s)"
  have k: "request_key ?q2 = request_key ?q"
    using assms(1,2) by (simp add: request_key_def workspace_ask_def generateCacheKey_def present_def)
  have cfg: "ps_config ?s = ps_config s"
    by (simp add: authorize_begin_def Let_def split: prod.splits option.splits)
  have "snd (authorize t2 ?q2 (authorize_commit t1 ?q r ?s)) = Inr (r\<lparr>ar_cached := True\<rparr>)"
    by (rule hit_after_commit) (use assms(5,6) k cfg in simp_all)
  then show ?thesis
    using begin_pending [OF assms(4)] assms(2,3)
    by (simp add: observed_def enforceWorkspaceIsolation_def workspace_ask_def present_def Let_def)
qed

theorem isolation_bypass_by_key_witness:
  "\<exists>s. observed (snd (authorize 2 (workspace_ask (demo_context ''u'' ''mine'' []) ActDelete (Some ''theirs'')) s)) = Inr True
    \<and> enforceWorkspaceIsolation (workspace_ask (demo_context ''u'' ''mine'' []) ActDelete (Some ''theirs'')) \<noteq> None"
proof -
  let ?ctx = "demo_context ''u'' ''mine'' ''theirs''"
  let ?q = "workspace_ask ?ctx ActDelete None" and ?n = "new_permission_service default_config 100"
  have e: "?ctx\<lparr>sc_serverId := []\<rparr> = demo_context ''u'' ''mine'' []" by (simp add: demo_context_def)
  have b: "snd (authorize_begin 1 ?q ?n) = Inr (Pending (performAuthorization 1 ?q ?n))" by code_simp
  have c: "0 < sf_cacheTtl (ps_config ?n)" "2 \<le> 1 + sf_cacheTtl (ps_config ?n)" by code_simp+
  have "policy ?n ?q" unfolding granted_policy [of 0, symmetric] by code_simp
  then show ?thesis
    using isolation_bypass_by_key [OF _ _ _ b c] unfolding e by (force simp: demo_context_def)
qed

section \<open>The size of the cache\<close>

inductive cache_reachable :: "int \<Rightarrow> nat \<Rightarrow> permission_cache \<Rightarrow> bool" for ttl n where
  "cache_reachable ttl n (new_permission_cache ttl n)"
| "cache_reachable ttl n c \<Longrightarrow> cache_reachable ttl n (fst (cache_get now k c))"
| "cache_reachable ttl n c \<Longrightarrow> cache_reachable ttl n (cache_set now k x c)"
| "cache_reachable ttl n c \<Longrightarrow> cache_reachable ttl n (fst (cache_invalidate now k c))"
| "cache_reachable ttl n c \<Longrightarrow> cache_reachable ttl n (fst (invalidate_where now P c))"
| "cache_reachable ttl n c \<Longrightarrow> cache_reachable ttl n (cache_clear now c)"

lemma evict_shrinks:
  assumes "0 < m" and "pc_cache c \<noteq> []"
  shows "length (pc_cache (evictOldestEntries now m c)) < length (pc_cache c)"
proof -
  let ?sorted = "js_sort_by (\<lambda>(k, e). ce_cachedAt e) (pc_cache c)"
  have "?sorted \<noteq> []" using assms(2) by (metis length_0_conv length_js_sort_by)
  then obtain p ps where s: "?sorted = p # ps" by (cases ?sorted) auto
  then have "p \<in> set (pc_cache c)" by (metis list.set_intros(1) set_js_sort_by)
  moreover have "p \<in> set (take m ?sorted)" using s assms(1) by (cases m) auto
  ultimately show ?thesis unfolding pc_cache_evict by (intro length_filter_less [of p]) auto
qed

lemma evict_nothing: "pc_cache (evictOldestEntries now 0 c) = pc_cache c"
  by (simp add: pc_cache_evict)

lemma length_cache_set:
  "length (pc_cache (cache_set now k x c)) \<le>
     Suc (length (pc_cache (if length (pc_cache c) \<ge> pc_maxSize c then evictOldestEntries now (pc_maxSize c div 10) c else c)))"
  by (simp add: cache_set_def Let_def length_js_set)

lemma cache_bound:
  assumes "cache_reachable ttl n c"
  shows "pc_maxSize c = n \<and> (10 \<le> n \<longrightarrow> length (pc_cache c) \<le> n)"
  using assms
proof induction
  case (3 c now k x)
  have "length (pc_cache (cache_set now k x c)) \<le> n" if n: "10 \<le> n"
  proof (cases "length (pc_cache c) \<ge> n")
    case True
    then have "length (pc_cache c) = n" "pc_cache c \<noteq> []" using 3 n by auto
    moreover have "0 < n div 10" using n by simp
    ultimately have "length (pc_cache (evictOldestEntries now (n div 10) c)) < n" using evict_shrinks by metis
    then show ?thesis using length_cache_set [of now k x c] True 3 by simp
  next
    case False
    then show ?thesis using length_cache_set [of now k x c] 3 by simp
  qed
  then show ?case using 3 by (auto simp: cache_set_def Let_def pc_cache_evict)
next
  case (2 c now k)
  then show ?case using length_js_delete_le [of k "pc_cache c"]
    by (auto simp: cache_get_def split: option.split)
next
  case (4 c now k)
  then show ?case using length_js_delete_le [of k "pc_cache c"]
    by (auto simp: cache_invalidate_def split: option.split)
next
  case (5 c now P)
  have "length (pc_cache (fst (invalidate_where now P c))) \<le> length (pc_cache c)"
    "pc_maxSize (fst (invalidate_where now P c)) = pc_maxSize c"
    by (simp_all add: invalidate_where_def Let_def remove_keys_map)
  then show ?case using 5 by auto
qed (auto simp: new_permission_cache_def cache_clear_def)

text \<open>A cache configured for ten entries or more never holds more than its maximum, whatever
  is read, stored, invalidated or cleared. One configured for fewer evicts a tenth of it, which is
  no entry at all, so that it grows by one with every new key.\<close>
theorem permission_cache_bound:
  assumes "cache_reachable ttl n c"
  shows "(if 10 \<le> n then length (pc_cache c) \<le> n
     else js_has (pc_cache c) k = False \<longrightarrow> length (pc_cache (cache_set now k x c)) = Suc (length (pc_cache c)))"
proof -
  have "length (pc_cache (cache_set now k x c)) = Suc (length (pc_cache c))" if "\<not> 10 \<le> n" "\<not> js_has (pc_cache c) k"
  proof -
    have "pc_maxSize c div 10 = 0" using cache_bound [OF assms] that(1) by simp
    then show ?thesis using that(2) by (simp add: cache_set_def Let_def length_js_set evict_nothing)
  qed
  then show ?thesis using cache_bound [OF assms] by simp
qed

theorem permission_cache_bound_witness:
  "length (pc_cache (cache_set 1 ''b'' (performAuthorization 0 demo_tool_ask demo_service, demo_context [] [] [], None)
     (cache_set 0 ''a'' (performAuthorization 0 demo_tool_ask demo_service, demo_context [] [] [], None)
       (new_permission_cache 5 1)))) = 2"
proof -
  let ?x = "(performAuthorization 0 demo_tool_ask demo_service, demo_context [] [] [], None)"
  have r: "cache_reachable 5 1 (cache_set 0 ''a'' ?x (new_permission_cache 5 1))"
    by (intro cache_reachable.intros)
  have "js_has (pc_cache (cache_set 0 ''a'' ?x (new_permission_cache 5 1))) ''b'' = False"
    "length (pc_cache (cache_set 0 ''a'' ?x (new_permission_cache 5 1))) = 1"
    by (simp_all add: cache_set_def new_permission_cache_def Let_def length_js_set evict_nothing)
  then show ?thesis using permission_cache_bound [OF r, of "''b''" 1 ?x] by simp
qed

end
