(* ===== verification/Discovery_Cache.thy ===== *)
theory Discovery_Cache
  imports Ttl_Store
begin

text \<open>
  The class \<open>DiscoveryCache\<close> of \<open>mcp/discovery/discovery-cache.ts\<close>: what a server offers
  (capabilities, tools, prompts, resources, templates), per server and kind, with an expiry and
  a hint for refreshing an entry before it expires. The discovered items are of any type \<open>'a\<close>.
  \<open>discovery_store\<close> interprets the interface \<open>ttl_store\<close>.
\<close>

section \<open>Data\<close>

datatype discovery_type = DiscCapabilities | DiscTools | DiscPrompts | DiscResources | DiscTemplates

fun discovery_str :: "discovery_type \<Rightarrow> string" where
  "discovery_str DiscCapabilities = ''capabilities''"
| "discovery_str DiscTools = ''tools''"
| "discovery_str DiscPrompts = ''prompts''"
| "discovery_str DiscResources = ''resources''"
| "discovery_str DiscTemplates = ''templates''"

record 'a discovery_entry =
  de_data :: "'a list"
  de_cachedAt :: time_ms
  de_expiresAt :: time_ms
  de_serverId :: string
  de_type :: discovery_type
  de_count :: nat
  de_discoveredAt :: time_ms
  de_duration :: int

datatype discovery_event =
    DiscUpdated string discovery_type time_ms nat
  | DiscInvalidated string discovery_type time_ms
  | DiscRefreshNeeded string discovery_type time_ms

text \<open>The threshold is a fraction, numerator and positive denominator (4 and 5 for 0.8).\<close>

record 'a discovery_cache =
  dc_cache :: "(string, 'a discovery_entry) js_map"
  dc_defaultTtl :: int
  dc_threshold :: "int \<times> int"
  dc_emitted :: "discovery_event list"

section \<open>Operations\<close>

definition new_discovery_cache :: "int \<Rightarrow> int \<times> int \<Rightarrow> 'a discovery_cache" where
  "new_discovery_cache ttl thr = \<lparr>dc_cache = [], dc_defaultTtl = ttl, dc_threshold = thr, dc_emitted = []\<rparr>"

definition getCacheKey :: "string \<Rightarrow> discovery_type \<Rightarrow> string" where
  "getCacheKey srv ty = srv @ '':'' @ discovery_str ty"

definition de_expired :: "time_ms \<Rightarrow> 'a discovery_entry \<Rightarrow> bool" where
  "de_expired now e = (now > de_expiresAt e)"

text \<open>\<open>elapsed / totalTtl >= threshold\<close>; a division by zero gives infinity or NaN.\<close>

definition shouldLazyRefresh :: "time_ms \<Rightarrow> int \<times> int \<Rightarrow> 'a discovery_entry \<Rightarrow> bool" where
  "shouldLazyRefresh now thr e =
     (let total = de_expiresAt e - de_cachedAt e; elapsed = now - de_cachedAt e
      in if total = 0 then elapsed > 0
         else if total > 0 then elapsed * snd thr \<ge> fst thr * total
         else elapsed * snd thr \<le> fst thr * total)"

definition disc_invalidated :: "time_ms \<Rightarrow> string \<Rightarrow> 'a discovery_entry \<Rightarrow> discovery_event" where
  "disc_invalidated now k e = DiscInvalidated (de_serverId e) (de_type e) now"

text \<open>\<open>get\<close> at the key of a server and a kind.\<close>

definition disc_get_at :: "time_ms \<Rightarrow> (string \<times> discovery_type) \<Rightarrow> string \<Rightarrow> 'a discovery_cache \<Rightarrow> 'a discovery_cache \<times> 'a list option" where
  "disc_get_at now st k c =
     (case js_get (dc_cache c) k of
        None \<Rightarrow> (c, None)
      | Some e \<Rightarrow>
          (if de_expired now e
           then (c\<lparr>dc_cache := js_delete k (dc_cache c), dc_emitted := dc_emitted c @ [DiscInvalidated (fst st) (snd st) now]\<rparr>, None)
           else ((if shouldLazyRefresh now (dc_threshold c) e
                  then c\<lparr>dc_emitted := dc_emitted c @ [DiscRefreshNeeded (fst st) (snd st) now]\<rparr> else c), Some (de_data e))))"

definition disc_get :: "time_ms \<Rightarrow> string \<Rightarrow> discovery_type \<Rightarrow> 'a discovery_cache \<Rightarrow> 'a discovery_cache \<times> 'a list option" where
  "disc_get now srv ty c = disc_get_at now (srv, ty) (getCacheKey srv ty) c"

text \<open>\<open>metadata?.discoveredAt || now\<close> and \<open>metadata?.duration || 0\<close> of the optional metadata.\<close>

definition new_disc_entry ::
  "'a discovery_cache \<Rightarrow> time_ms \<Rightarrow> (string \<times> discovery_type) \<times> 'a list \<times> int option \<times> (time_ms \<times> int) option \<Rightarrow> 'a discovery_entry" where
  "new_disc_entry c now x = (case x of (st, d, ttl, md) \<Rightarrow>
     \<lparr>de_data = d, de_cachedAt = now,
      de_expiresAt = now + (case ttl of Some t \<Rightarrow> if t = 0 then dc_defaultTtl c else t | None \<Rightarrow> dc_defaultTtl c),
      de_serverId = fst st, de_type = snd st, de_count = length d,
      de_discoveredAt = (case md of Some m \<Rightarrow> fst m | None \<Rightarrow> now),
      de_duration = (case md of Some m \<Rightarrow> snd m | None \<Rightarrow> 0)\<rparr>)"

definition disc_put ::
  "time_ms \<Rightarrow> string \<Rightarrow> (string \<times> discovery_type) \<times> 'a list \<times> int option \<times> (time_ms \<times> int) option \<Rightarrow> 'a discovery_cache \<Rightarrow> 'a discovery_cache" where
  "disc_put now k x c =
     (let e = new_disc_entry c now x
      in c\<lparr>dc_cache := js_set k e (dc_cache c),
           dc_emitted := dc_emitted c @ [DiscUpdated (de_serverId e) (de_type e) now (de_count e)]\<rparr>)"

definition disc_set ::
  "time_ms \<Rightarrow> string \<Rightarrow> discovery_type \<Rightarrow> 'a list \<Rightarrow> int option \<Rightarrow> (time_ms \<times> int) option \<Rightarrow> 'a discovery_cache \<Rightarrow> 'a discovery_cache" where
  "disc_set now srv ty d ttl md c = disc_put now (getCacheKey srv ty) ((srv, ty), d, ttl, md) c"

definition disc_invalidate :: "time_ms \<Rightarrow> string \<Rightarrow> discovery_type \<Rightarrow> 'a discovery_cache \<Rightarrow> 'a discovery_cache \<times> bool" where
  "disc_invalidate now srv ty c =
     (let k = getCacheKey srv ty
      in if js_has (dc_cache c) k
         then (c\<lparr>dc_cache := js_delete k (dc_cache c), dc_emitted := dc_emitted c @ [DiscInvalidated srv ty now]\<rparr>, True)
         else (c, False))"

text \<open>The two loops of \<open>invalidateServer\<close> and \<open>cleanupExpired\<close>.\<close>

definition disc_forget :: "time_ms \<Rightarrow> ('a discovery_entry \<Rightarrow> bool) \<Rightarrow> 'a discovery_cache \<Rightarrow> 'a discovery_cache \<times> nat" where
  "disc_forget now P c =
     (let ks = keys_where P (dc_cache c); r = remove_keys (disc_invalidated now) ks (dc_cache c, dc_emitted c)
      in (c\<lparr>dc_cache := fst r, dc_emitted := snd r\<rparr>, length ks))"

definition disc_invalidateServer :: "time_ms \<Rightarrow> string \<Rightarrow> 'a discovery_cache \<Rightarrow> 'a discovery_cache \<times> nat" where
  "disc_invalidateServer now srv = disc_forget now (\<lambda>e. de_serverId e = srv)"

definition disc_cleanupExpired :: "time_ms \<Rightarrow> 'a discovery_cache \<Rightarrow> 'a discovery_cache \<times> nat" where
  "disc_cleanupExpired now = disc_forget now (de_expired now)"

text \<open>\<open>clear\<close> reports every pair of a cached server and a cached kind.\<close>

definition in_order :: "'b list \<Rightarrow> 'b list" where
  "in_order xs = rev (remdups (rev xs))"

definition disc_clear :: "time_ms \<Rightarrow> 'a discovery_cache \<Rightarrow> 'a discovery_cache" where
  "disc_clear now c =
     (let es = js_values (dc_cache c); servers = in_order (map de_serverId es); types = in_order (map de_type es)
      in c\<lparr>dc_cache := [], dc_emitted := dc_emitted c
             @ concat (map (\<lambda>srv. map (\<lambda>ty. DiscInvalidated srv ty now) types) servers)\<rparr>)"

definition getServerEntries :: "string \<Rightarrow> 'a discovery_cache \<Rightarrow> 'a discovery_entry list" where
  "getServerEntries srv c = filter (\<lambda>e. de_serverId e = srv) (js_values (dc_cache c))"

definition hasValidEntry :: "time_ms \<Rightarrow> string \<Rightarrow> discovery_type \<Rightarrow> 'a discovery_cache \<Rightarrow> bool" where
  "hasValidEntry now srv ty c =
     (case js_get (dc_cache c) (getCacheKey srv ty) of None \<Rightarrow> False | Some e \<Rightarrow> \<not> de_expired now e)"

record discovery_stats =
  ds_totalEntries :: nat
  ds_expiredEntries :: nat
  ds_entriesByServer :: "(string, nat) js_map"
  ds_entriesByType :: "(discovery_type, nat) js_map"
  ds_oldestEntry :: "time_ms option"
  ds_newestEntry :: "time_ms option"

definition tally :: "'k \<Rightarrow> ('k, nat) js_map \<Rightarrow> ('k, nat) js_map" where
  "tally k m = js_set k (Suc (case js_get m k of Some n \<Rightarrow> n | None \<Rightarrow> 0)) m"

definition note_discovered :: "time_ms \<Rightarrow> 'a discovery_entry \<Rightarrow> discovery_stats \<Rightarrow> discovery_stats" where
  "note_discovered now e s =
     s\<lparr>ds_expiredEntries := ds_expiredEntries s + (if de_expired now e then 1 else 0),
       ds_entriesByServer := tally (de_serverId e) (ds_entriesByServer s),
       ds_entriesByType := tally (de_type e) (ds_entriesByType s),
       ds_oldestEntry := (case ds_oldestEntry s of None \<Rightarrow> Some (de_cachedAt e) | Some t \<Rightarrow> Some (min (de_cachedAt e) t)),
       ds_newestEntry := (case ds_newestEntry s of None \<Rightarrow> Some (de_cachedAt e) | Some t \<Rightarrow> Some (max (de_cachedAt e) t))\<rparr>"

definition disc_getStats :: "time_ms \<Rightarrow> 'a discovery_cache \<Rightarrow> discovery_stats" where
  "disc_getStats now c = fold (note_discovered now) (js_values (dc_cache c))
     \<lparr>ds_totalEntries = length (dc_cache c), ds_expiredEntries = 0, ds_entriesByServer = [], ds_entriesByType = [],
      ds_oldestEntry = None, ds_newestEntry = None\<rparr>"

section \<open>The cache as a store with expiry\<close>

lemma get_disc_forget:
  assumes "js_get (dc_cache (fst (disc_forget now P c))) j = Some e"
  shows "js_get (dc_cache c) j = Some e \<and> \<not> P e"
proof -
  have j: "j \<notin> set (keys_where P (dc_cache c))" and e: "js_get (dc_cache c) j = Some e"
    using assms by (simp_all add: disc_forget_def Let_def get_remove_keys split: if_splits)
  then show ?thesis using keys_where_hit [OF e] by blast
qed

interpretation discovery_store: ttl_store dc_cache de_expiresAt de_data "\<lambda>c now k x. new_disc_entry c now x"
  "\<lambda>now k c. disc_get_at now st k c" disc_put "\<lambda>now P c. fst (disc_forget now P c)" for st
  by unfold_locales
    (auto simp: disc_get_at_def de_expired_def disc_put_def Let_def dest: get_disc_forget)

lemma discovery_str_inj: "discovery_str a = discovery_str b \<longleftrightarrow> a = b"
  by (cases a; cases b) auto

lemma discovery_str_colon: "CHR '':'' \<notin> set (discovery_str ty)"
  by (cases ty) auto

text \<open>Unlike the keys of the permission cache these are unambiguous, colons in server ids included.\<close>

lemma getCacheKey_inj: "getCacheKey a t = getCacheKey b u \<longleftrightarrow> a = b \<and> t = u"
proof -
  have last: "takeWhile (\<lambda>c. c \<noteq> CHR '':'') (rev (getCacheKey x v)) = rev (discovery_str v)" for x v
    by (cases v) (simp_all add: getCacheKey_def)
  show ?thesis
  proof
    assume e: "getCacheKey a t = getCacheKey b u"
    then have "discovery_str t = discovery_str u" using last [of a t] last [of b u] by simp
    then show "a = b \<and> t = u" using e by (simp add: getCacheKey_def discovery_str_inj)
  qed simp
qed

section \<open>What a hit means\<close>

datatype 'a disc_op =
    DSet time_ms string discovery_type "'a list" "int option" "(time_ms \<times> int) option"
  | DGet time_ms string discovery_type
  | DDrop time_ms string discovery_type
  | DDropServer time_ms string
  | DClean time_ms
  | DClear time_ms

fun disc_do :: "'a disc_op \<Rightarrow> 'a discovery_cache \<Rightarrow> 'a discovery_cache" where
  "disc_do (DSet now srv ty d ttl md) c = disc_set now srv ty d ttl md c"
| "disc_do (DGet now srv ty) c = fst (disc_get now srv ty c)"
| "disc_do (DDrop now srv ty) c = fst (disc_invalidate now srv ty c)"
| "disc_do (DDropServer now srv) c = fst (disc_invalidateServer now srv c)"
| "disc_do (DClean now) c = fst (disc_cleanupExpired now c)"
| "disc_do (DClear now) c = disc_clear now c"

text \<open>Does an operation set, or may it remove, the entry of a server and kind?\<close>

fun sets_entry :: "string \<Rightarrow> discovery_type \<Rightarrow> 'a disc_op \<Rightarrow> bool" where
  "sets_entry srv ty (DSet now s t d ttl md) = (s = srv \<and> t = ty)"
| "sets_entry srv ty _ = False"

fun drops_entry :: "string \<Rightarrow> discovery_type \<Rightarrow> 'a disc_op \<Rightarrow> bool" where
  "drops_entry srv ty (DDrop now s t) = (s = srv \<and> t = ty)"
| "drops_entry srv ty (DDropServer now s) = (s = srv)"
| "drops_entry srv ty (DClear now) = True"
| "drops_entry srv ty _ = False"

lemma disc_do_keeps:
  assumes "\<not> sets_entry srv ty op" and "js_get (dc_cache (disc_do op c)) (getCacheKey srv ty) = Some e"
  shows "js_get (dc_cache c) (getCacheKey srv ty) = Some e"
  using assms
  by (cases op) (auto simp: disc_set_def disc_put_def disc_get_def disc_invalidate_def disc_invalidateServer_def
      disc_cleanupExpired_def disc_clear_def Let_def getCacheKey_inj
      dest: discovery_store.lookup_keeps get_disc_forget split: if_splits)

lemma disc_get_hit:
  "snd (disc_get now srv ty c) = Some d \<longleftrightarrow> (\<exists>e. js_get (dc_cache c) (getCacheKey srv ty) = Some e \<and> now \<le> de_expiresAt e \<and> de_data e = d)"
  unfolding disc_get_def by (rule discovery_store.hit_iff)

text \<open>Every entry is filed under its own server and kind.\<close>

definition filed :: "'a discovery_cache \<Rightarrow> bool" where
  "filed c = (\<forall>k e. js_get (dc_cache c) k = Some e \<longrightarrow> k = getCacheKey (de_serverId e) (de_type e))"

lemma filed_do: "filed c \<Longrightarrow> filed (disc_do op c)"
  unfolding filed_def
  by (cases op) (auto simp: disc_set_def disc_put_def disc_get_def disc_invalidate_def disc_invalidateServer_def
      disc_cleanupExpired_def disc_clear_def Let_def new_disc_entry_def
      dest: discovery_store.lookup_keeps get_disc_forget split: if_splits)

lemma disc_do_drops:
  assumes "filed c" and "drops_entry srv ty op"
  shows "js_get (dc_cache (disc_do op c)) (getCacheKey srv ty) = None"
proof (cases op)
  case (DDropServer now s)
  show ?thesis
  proof (rule ccontr)
    assume "js_get (dc_cache (disc_do op c)) (getCacheKey srv ty) \<noteq> None"
    then obtain e where "js_get (dc_cache (fst (disc_invalidateServer now s c))) (getCacheKey srv ty) = Some e"
      using DDropServer by auto
    then have "js_get (dc_cache c) (getCacheKey srv ty) = Some e" "de_serverId e \<noteq> s"
      using get_disc_forget unfolding disc_invalidateServer_def by blast+
    moreover from this(1) have "getCacheKey srv ty = getCacheKey (de_serverId e) (de_type e)"
      using assms(1) unfolding filed_def by blast
    ultimately show False using assms(2) DDropServer by (simp add: getCacheKey_inj)
  qed
qed (use assms(2) in \<open>auto simp: disc_invalidate_def disc_clear_def Let_def js_has_iff split: if_splits\<close>)

lemma disc_do_ttl [simp]: "dc_defaultTtl (disc_do op c) = dc_defaultTtl c"
  by (cases op) (simp_all add: disc_set_def disc_put_def disc_get_def disc_get_at_def disc_invalidate_def disc_invalidateServer_def
      disc_cleanupExpired_def disc_forget_def disc_clear_def Let_def split: option.split)

definition effective_ttl :: "int \<Rightarrow> int option \<Rightarrow> int" where
  "effective_ttl dflt ttl = (case ttl of Some t \<Rightarrow> if t = 0 then dflt else t | None \<Rightarrow> dflt)"

lemma run_entry:
  assumes "js_get (dc_cache (fold disc_do ops (new_discovery_cache dflt thr))) (getCacheKey srv ty) = Some e"
  shows "\<exists>pre now ttl md post. ops = pre @ DSet now srv ty (de_data e) ttl md # post
    \<and> de_expiresAt e = now + effective_ttl dflt ttl
    \<and> (\<forall>op \<in> set post. \<not> sets_entry srv ty op \<and> \<not> drops_entry srv ty op)"
  using assms
proof (induction ops rule: rev_induct)
  case Nil
  then show ?case by (simp add: new_discovery_cache_def)
next
  case (snoc op ops)
  let ?c = "fold disc_do ops (new_discovery_cache dflt thr)"
  have f: "filed ?c"
    by (induction ops rule: rev_induct) (simp_all add: filed_do, simp add: filed_def new_discovery_cache_def)
  have dt: "dc_defaultTtl ?c = dflt"
    by (induction ops rule: rev_induct) (simp_all add: new_discovery_cache_def)
  show ?case
  proof (cases "sets_entry srv ty op")
    case True
    then obtain now d ttl md where op: "op = DSet now srv ty d ttl md" by (cases op) auto
    then have "e = new_disc_entry ?c now ((srv, ty), d, ttl, md)"
      using snoc.prems by (simp add: disc_set_def disc_put_def Let_def)
    then have "de_data e = d" "de_expiresAt e = now + effective_ttl dflt ttl"
      using dt by (simp_all add: new_disc_entry_def effective_ttl_def split: option.split)
    then show ?thesis using op by (intro exI [of _ ops]) auto
  next
    case False
    have nd: "\<not> drops_entry srv ty op" using disc_do_drops [OF f] snoc.prems by auto
    have k: "js_get (dc_cache ?c) (getCacheKey srv ty) = Some e"
      by (rule disc_do_keeps [OF False]) (use snoc.prems in simp)
    from snoc.IH [OF k] obtain pre now ttl md post where o: "ops = pre @ DSet now srv ty (de_data e) ttl md # post"
        "de_expiresAt e = now + effective_ttl dflt ttl"
        "\<forall>op \<in> set post. \<not> sets_entry srv ty op \<and> \<not> drops_entry srv ty op"
      by (elim exE conjE) (rule that)
    have "ops @ [op] = pre @ DSet now srv ty (de_data e) ttl md # (post @ [op])" using o(1) by simp
    moreover have "\<forall>x \<in> set (post @ [op]). \<not> sets_entry srv ty x \<and> \<not> drops_entry srv ty x" using o(3) False nd by simp
    ultimately have "ops @ [op] = pre @ DSet now srv ty (de_data e) ttl md # (post @ [op])
        \<and> de_expiresAt e = now + effective_ttl dflt ttl
        \<and> (\<forall>x \<in> set (post @ [op]). \<not> sets_entry srv ty x \<and> \<not> drops_entry srv ty x)"
      using o(2) by (intro conjI)
    then show ?thesis by (intro exI)
  qed
qed

text \<open>After any sequence of operations a hit of the discovery cache returns the items stored
  last for this server and kind; nothing has invalidated them since, and they have not expired.\<close>
theorem discovery_hit_is_latest:
  assumes "snd (disc_get t srv ty (fold disc_do ops (new_discovery_cache dflt thr))) = Some d"
  shows "\<exists>pre now ttl md post. ops = pre @ DSet now srv ty d ttl md # post
    \<and> filter (\<lambda>op. sets_entry srv ty op \<or> drops_entry srv ty op) post = [] \<and> t \<le> now + effective_ttl dflt ttl"
proof -
  obtain e where e: "js_get (dc_cache (fold disc_do ops (new_discovery_cache dflt thr))) (getCacheKey srv ty) = Some e"
      "t \<le> de_expiresAt e" "de_data e = d"
    using assms unfolding disc_get_hit by blast
  from run_entry [OF e(1)] show ?thesis using e(2,3) by (fastforce simp: filter_empty_conv)
qed

theorem discovery_hit_is_latest_witness:
  "\<exists>pre now ttl md post. [DSet 0 ''s'' DiscTools [1::nat] None None, DSet 5 ''s'' DiscTools [2] (Some 10) None, DClean 7]
     = pre @ DSet now ''s'' DiscTools [2] ttl md # post
   \<and> filter (\<lambda>op. sets_entry ''s'' DiscTools op \<or> drops_entry ''s'' DiscTools op) post = [] \<and> 15 \<le> now + effective_ttl 100 ttl"
  by (rule discovery_hit_is_latest [of 15 "''s''" DiscTools _ 100 "(4, 5)"]) code_simp

end
