(* ===== verification/Memory_Base.thy ===== *)
theory Memory_Base
  imports Agent_Types "HOL-Library.Sublist"
begin

text \<open>
  The context of a memory operation (\<open>agents/memory/memory-context.ts\<close>), the base class
  \<open>BaseAgentMemory\<close> of \<open>agents/memory/agent-memory.ts\<close> (a map from full keys to values,
  each key starting with the prefix of its context), \<open>ConversationMemory\<close> of
  \<open>conversation-memory.ts\<close>, and the interface \<open>scoped_store\<close> that the two memories with a
  map per scope share.

  The operations of the base class cannot throw on the values of the model, so their
  \<open>catch\<close> branches are not entered. A stored value is never \<open>undefined\<close>.
\<close>

section \<open>The context and its builder\<close>

record memory_context =
  mc_requestId :: string
  mc_traceId :: string
  mc_workspaceId :: string
  mc_userId :: string
  mc_conversationId :: "string option"
  mc_agentId :: string
  mc_executionId :: string
  mc_metadata :: js_record

record context_draft =
  cd_requestId :: "string option"
  cd_traceId :: "string option"
  cd_workspaceId :: "string option"
  cd_userId :: "string option"
  cd_conversationId :: "string option"
  cd_agentId :: "string option"
  cd_executionId :: "string option"
  cd_metadata :: "js_record option"

definition context_create :: context_draft where
  "context_create = \<lparr>cd_requestId = None, cd_traceId = None, cd_workspaceId = None, cd_userId = None,
     cd_conversationId = None, cd_agentId = None, cd_executionId = None, cd_metadata = None\<rparr>"

definition ctx_requestId :: "string \<Rightarrow> context_draft \<Rightarrow> context_draft" where
  "ctx_requestId x d = d\<lparr>cd_requestId := Some x\<rparr>"

definition ctx_traceId :: "string \<Rightarrow> context_draft \<Rightarrow> context_draft" where
  "ctx_traceId x d = d\<lparr>cd_traceId := Some x\<rparr>"

definition ctx_workspaceId :: "string \<Rightarrow> context_draft \<Rightarrow> context_draft" where
  "ctx_workspaceId x d = d\<lparr>cd_workspaceId := Some x\<rparr>"

definition ctx_userId :: "string \<Rightarrow> context_draft \<Rightarrow> context_draft" where
  "ctx_userId x d = d\<lparr>cd_userId := Some x\<rparr>"

definition ctx_conversationId :: "string \<Rightarrow> context_draft \<Rightarrow> context_draft" where
  "ctx_conversationId x d = d\<lparr>cd_conversationId := Some x\<rparr>"

definition ctx_agentId :: "string \<Rightarrow> context_draft \<Rightarrow> context_draft" where
  "ctx_agentId x d = d\<lparr>cd_agentId := Some x\<rparr>"

definition ctx_executionId :: "string \<Rightarrow> context_draft \<Rightarrow> context_draft" where
  "ctx_executionId x d = d\<lparr>cd_executionId := Some x\<rparr>"

definition ctx_metadata :: "js_record \<Rightarrow> context_draft \<Rightarrow> context_draft" where
  "ctx_metadata m d = d\<lparr>cd_metadata := Some (js_spread (case cd_metadata d of Some x \<Rightarrow> x | None \<Rightarrow> []) m)\<rparr>"

text \<open>\<open>build\<close> throws for the first required field that is absent or empty.\<close>

definition context_missing :: "context_draft \<Rightarrow> string option" where
  "context_missing d = map_option fst (List.find (\<lambda>(n, v). v = None \<or> v = Some [])
     [(''requestId'', cd_requestId d), (''traceId'', cd_traceId d), (''workspaceId'', cd_workspaceId d),
      (''userId'', cd_userId d), (''agentId'', cd_agentId d), (''executionId'', cd_executionId d)])"

definition context_build :: "context_draft \<Rightarrow> agent_error + memory_context" where
  "context_build d =
     (case context_missing d of
        Some n \<Rightarrow> Inl (PlainError (''Memory context field '' @ sq n @ '' is required''))
      | None \<Rightarrow> Inr \<lparr>mc_requestId = the (cd_requestId d), mc_traceId = the (cd_traceId d),
          mc_workspaceId = the (cd_workspaceId d), mc_userId = the (cd_userId d),
          mc_conversationId = cd_conversationId d, mc_agentId = the (cd_agentId d),
          mc_executionId = the (cd_executionId d),
          mc_metadata = (case cd_metadata d of Some x \<Rightarrow> x | None \<Rightarrow> [])\<rparr>)"

section \<open>The base class\<close>

record 'v base_memory =
  bm_storage :: "(string, 'v) js_map"
  bm_accessLog :: "(string, time_ms) js_map"
  bm_errors :: "string list"
  bm_warnings :: "string list"

text \<open>\<open>pre\<close> is what the subclass's \<open>buildKeyPrefix\<close> returns for the context.\<close>

definition buildKey :: "string \<Rightarrow> string \<Rightarrow> string" where
  "buildKey pre k = pre @ '':'' @ k"

definition note_access :: "time_ms \<Rightarrow> string \<Rightarrow> ('v, 'z) base_memory_scheme \<Rightarrow> ('v, 'z) base_memory_scheme" where
  "note_access now k m = m\<lparr>bm_accessLog := js_set k now (bm_accessLog m)\<rparr>"

definition mem_load :: "time_ms \<Rightarrow> string \<Rightarrow> string \<Rightarrow> ('v, 'z) base_memory_scheme \<Rightarrow> ('v, 'z) base_memory_scheme \<times> 'v option" where
  "mem_load now pre k m =
     (case js_get (bm_storage m) (buildKey pre k) of
        None \<Rightarrow> (m, None)
      | Some v \<Rightarrow> (note_access now (buildKey pre k) m, Some v))"

definition mem_save :: "time_ms \<Rightarrow> string \<Rightarrow> string \<Rightarrow> 'v \<Rightarrow> ('v, 'z) base_memory_scheme \<Rightarrow> ('v, 'z) base_memory_scheme" where
  "mem_save now pre k v m =
     note_access now (buildKey pre k) (m\<lparr>bm_storage := js_set (buildKey pre k) v (bm_storage m)\<rparr>)"

definition mem_clear :: "string \<Rightarrow> ('v, 'z) base_memory_scheme \<Rightarrow> ('v, 'z) base_memory_scheme" where
  "mem_clear pre m =
     (let ks = filter (prefix pre) (js_keys (bm_storage m))
      in m\<lparr>bm_storage := fold js_delete ks (bm_storage m), bm_accessLog := fold js_delete ks (bm_accessLog m)\<rparr>)"

definition mem_exists :: "string \<Rightarrow> string \<Rightarrow> ('v, 'z) base_memory_scheme \<Rightarrow> bool" where
  "mem_exists pre k m = js_has (bm_storage m) (buildKey pre k)"

definition mem_size :: "string \<Rightarrow> ('v, 'z) base_memory_scheme \<Rightarrow> nat" where
  "mem_size pre m = length (filter (prefix pre) (js_keys (bm_storage m)))"

record memory_health =
  mh_status :: health_status
  mh_totalSize :: nat
  mh_usedSize :: nat
  mh_freeSize :: nat
  mh_errors :: "string list"
  mh_warnings :: "string list"
  mh_lastAccess :: time_ms
  mh_keysCount :: nat
  mh_accessLogCount :: nat

text \<open>
  \<open>usageRatio > 0.9\<close> is \<open>usedSize > 900000\<close>: the quotient by a million is correctly rounded and
  \<open>0.9\<close> is the rounding of nine tenths; the same for \<open>0.7\<close>. \<open>sz\<close> is the size of a value,
  twice the length of its JSON text.
\<close>

definition determineHealthStatus :: "nat \<Rightarrow> nat \<Rightarrow> ('v, 'z) base_memory_scheme \<Rightarrow> health_status" where
  "determineHealthStatus used n m =
     (if bm_errors m \<noteq> [] then Unhealthy
      else if n > 0 \<and> used > 900000 then Unhealthy
      else if (n > 0 \<and> used > 700000) \<or> bm_warnings m \<noteq> [] then Degraded
      else Healthy)"

definition mem_health :: "time_ms \<Rightarrow> (string \<Rightarrow> nat) \<Rightarrow> ('v \<Rightarrow> nat) \<Rightarrow> ('v, 'z) base_memory_scheme \<Rightarrow> memory_health" where
  "mem_health now ksz sz m =
     (let n = length (bm_storage m);
          used = sum_list (map (\<lambda>(k, v). ksz k + sz v) (bm_storage m))
      in \<lparr>mh_status = determineHealthStatus used n m, mh_totalSize = n, mh_usedSize = used,
          mh_freeSize = 1000000 - used, mh_errors = bm_errors m, mh_warnings = bm_warnings m,
          mh_lastAccess = (case math_max (js_values (bm_accessLog m)) of Fin t \<Rightarrow> t | MinusInf \<Rightarrow> now),
          mh_keysCount = n, mh_accessLogCount = length (bm_accessLog m)\<rparr>)"

lemma mem_load_simps [simp]:
  "snd (mem_load now pre k m) = js_get (bm_storage m) (buildKey pre k)"
  "bm_storage (fst (mem_load now pre k m)) = bm_storage m"
  "bm_errors (fst (mem_load now pre k m)) = bm_errors m"
  by (simp_all add: mem_load_def note_access_def split: option.split)

lemma mem_save_storage [simp]: "bm_storage (mem_save now pre k v m) = js_set (buildKey pre k) v (bm_storage m)"
  by (simp add: mem_save_def note_access_def)

lemma fold_delete_get: "js_get (fold js_delete ks m) k = (if k \<in> set ks then None else js_get m k)"
  by (induction ks arbitrary: m) auto

lemma mem_clear_get: "js_get (bm_storage (mem_clear pre m)) k = (if prefix pre k then None else js_get (bm_storage m) k)"
  by (auto simp: mem_clear_def Let_def fold_delete_get js_keys_def js_get_None_iff)

section \<open>Conversation memory\<close>

record conversation_message =
  cm_id :: string
  cm_role :: string
  cm_content :: string
  cm_timestamp :: time_ms
  cm_metadata :: js_record

type_synonym 'm conversation_memory = "'m list base_memory"

definition conversation_prefix :: "memory_context \<Rightarrow> string" where
  "conversation_prefix c = ''conversation:'' @ (case mc_conversationId c of
     Some i \<Rightarrow> (if i = [] then mc_requestId c else i) | None \<Rightarrow> mc_requestId c)"

definition maxHistorySize :: nat where
  "maxHistorySize = 1000"

text \<open>\<open>xs.slice(-n)\<close> for any integer: a negative count skips elements at the front.\<close>

definition slice_neg :: "int \<Rightarrow> 'a list \<Rightarrow> 'a list" where
  "slice_neg n xs = (if n < 0 then drop (nat (- n)) xs else slice_last (nat n) xs)"

definition conv_messages :: "time_ms \<Rightarrow> memory_context \<Rightarrow> 'm conversation_memory \<Rightarrow> 'm conversation_memory \<times> 'm list" where
  "conv_messages now c m = (case mem_load now (conversation_prefix c) ''messages'' m of
     (m1, None) \<Rightarrow> (m1, []) | (m1, Some ms) \<Rightarrow> (m1, ms))"

definition conv_append :: "time_ms \<Rightarrow> 'm \<Rightarrow> memory_context \<Rightarrow> 'm conversation_memory \<Rightarrow> 'm conversation_memory" where
  "conv_append now x c m =
     (case conv_messages now c m of (m1, ms) \<Rightarrow>
        (let ms1 = ms @ [x]; long = length ms1 > maxHistorySize;
             ms2 = (if long then slice_last maxHistorySize ms1 else ms1);
             m2 = (if long then m1\<lparr>bm_warnings := bm_warnings m1 @ [''Conversation history truncated to 1000 messages'']\<rparr> else m1)
         in mem_save now (conversation_prefix c) ''messages'' ms2 m2))"

definition conv_history :: "time_ms \<Rightarrow> int option \<Rightarrow> memory_context \<Rightarrow> 'm conversation_memory \<Rightarrow> 'm conversation_memory \<times> 'm list" where
  "conv_history now limit c m =
     (case conv_messages now c m of (m1, ms) \<Rightarrow>
        (m1, case limit of Some l \<Rightarrow> if l > 0 then slice_neg l ms else ms | None \<Rightarrow> ms))"

definition conv_last :: "time_ms \<Rightarrow> int \<Rightarrow> memory_context \<Rightarrow> 'm conversation_memory \<Rightarrow> 'm conversation_memory \<times> 'm list" where
  "conv_last now n c m = (case conv_messages now c m of (m1, ms) \<Rightarrow> (m1, slice_neg n ms))"

definition conv_clear :: "time_ms \<Rightarrow> memory_context \<Rightarrow> 'm conversation_memory \<Rightarrow> 'm conversation_memory" where
  "conv_clear now c m = mem_save now (conversation_prefix c) ''messages'' [] m"

definition getMessageById :: "time_ms \<Rightarrow> string \<Rightarrow> memory_context \<Rightarrow> conversation_message conversation_memory \<Rightarrow> conversation_message conversation_memory \<times> conversation_message option" where
  "getMessageById now i c m = (case conv_history now None c m of (m1, ms) \<Rightarrow> (m1, List.find (\<lambda>x. cm_id x = i) ms))"

definition getMessagesByRole :: "time_ms \<Rightarrow> string \<Rightarrow> memory_context \<Rightarrow> conversation_message conversation_memory \<Rightarrow> conversation_message conversation_memory \<times> conversation_message list" where
  "getMessagesByRole now r c m = (case conv_history now None c m of (m1, ms) \<Rightarrow> (m1, filter (\<lambda>x. cm_role x = r) ms))"

definition conv_size :: "time_ms \<Rightarrow> memory_context \<Rightarrow> 'm conversation_memory \<Rightarrow> 'm conversation_memory \<times> nat" where
  "conv_size now c m = (case conv_messages now c m of (m1, ms) \<Rightarrow> (m1, length ms))"

section \<open>Interface: a map per scope\<close>

text \<open>
  \<open>ScratchpadMemory\<close> keeps a map per execution, \<open>WorkspaceMemory\<close> one per workspace. The
  contract: what the operations do to the abstract state, which gives each scope its partial
  map. \<open>room s c k\<close> says whether the key may be stored.
\<close>

locale scoped_store =
  fixes content :: "'s \<Rightarrow> 'c \<Rightarrow> string \<Rightarrow> 'v option"
    and room :: "'s \<Rightarrow> 'c \<Rightarrow> string \<Rightarrow> bool"
    and put :: "time_ms \<Rightarrow> string \<Rightarrow> 'v \<Rightarrow> 'c \<Rightarrow> 's \<Rightarrow> 's \<times> (agent_error + unit)"
    and get :: "time_ms \<Rightarrow> string \<Rightarrow> 'c \<Rightarrow> 's \<Rightarrow> 's \<times> 'v option"
    and remove :: "string \<Rightarrow> 'c \<Rightarrow> 's \<Rightarrow> 's \<times> bool"
    and clear :: "'c \<Rightarrow> 's \<Rightarrow> 's"
    and same :: "'c \<Rightarrow> 'c \<Rightarrow> bool"
  assumes put_ok: "room s c k \<Longrightarrow> snd (put now k v c s) = Inr ()
      \<and> content (fst (put now k v c s)) d j = (if same c d \<and> j = k then Some v else content s d j)"
    and put_full: "\<not> room s c k \<Longrightarrow> (\<exists>e. snd (put now k v c s) = Inl e) \<and> content (fst (put now k v c s)) = content s"
    and get_content: "snd (get now k c s) = content s c k \<and> content (fst (get now k c s)) = content s"
    and remove_content: "snd (remove k c s) = (content s c k \<noteq> None)
      \<and> content (fst (remove k c s)) d j = (if same c d \<and> j = k then None else content s d j)"
    and clear_content: "content (clear c s) d j = (if same c d then None else content s d j)"
begin

datatype ('k, 'w) op = Put time_ms string 'w 'k | Get time_ms string 'k | Remove string 'k | Clear 'k

fun do_op :: "('c, 'v) op \<Rightarrow> 's \<Rightarrow> 's" where
  "do_op (Put now k v c) s = fst (put now k v c s)"
| "do_op (Get now k c) s = fst (get now k c s)"
| "do_op (Remove k c) s = fst (remove k c s)"
| "do_op (Clear c) s = clear c s"

fun touches :: "'c \<Rightarrow> ('c, 'v) op \<Rightarrow> bool" where
  "touches c (Put now k v d) = same d c"
| "touches c (Get now k d) = False"
| "touches c (Remove k d) = same d c"
| "touches c (Clear d) = same d c"

text \<open>Operations on other scopes leave a scope's map alone.\<close>

lemma do_op_other: "\<not> touches c op \<Longrightarrow> content (do_op op s) c = content s c"
  using put_ok put_full [of s] get_content remove_content clear_content
  by (cases op; cases "case op of Put now k v d \<Rightarrow> room s d k | _ \<Rightarrow> True") (auto simp: fun_eq_iff)

lemma isolation: "\<forall>op \<in> set ops. \<not> touches c op \<Longrightarrow> content (fold do_op ops s) c = content s c"
  by (induction ops arbitrary: s) (simp_all add: do_op_other)

lemma get_after_put: "room s c k \<Longrightarrow> same c c \<Longrightarrow> snd (get now' k c (fst (put now k v c s))) = Some v"
  using put_ok get_content by simp

lemma get_after_others:
  assumes "room s c k" and "same c c" and "\<forall>op \<in> set ops. \<not> touches c op"
  shows "snd (get now' k c (fold do_op ops (fst (put now k v c s)))) = Some v"
  using get_content [of now' k c] isolation [OF assms(3)] put_ok [OF assms(1)] assms(2) by simp

end

end
