(* ===== verification/Shared_Memory.thy ===== *)
theory Shared_Memory
  imports Memory_Base
begin

text \<open>
  The class \<open>SharedMemory\<close> of \<open>agents/memory/shared-memory.ts\<close>: versioned entries and locks
  with a time limit. \<open>write\<close>, \<open>lock\<close> and \<open>unlock\<close> each suspend once (at \<open>await this.load\<close>);
  each is modelled as the part before and the part after the suspension, and as their
  composition when nothing runs in between.
\<close>

record 'v shared_entry =
  se_value :: 'v
  se_version :: int
  se_lockedBy :: "string option"
  se_lockedAt :: "time_ms option"
  se_lastModified :: time_ms
  se_metadata :: js_record

record lock_info =
  li_lockId :: string
  li_agentId :: string
  li_timestamp :: time_ms

record 'v shared_memory = "'v shared_entry base_memory" +
  sm_locks :: "(string, lock_info) js_map"

record lock_result =
  lr_success :: bool
  lr_lockId :: "string option"
  lr_currentVersion :: int
  lr_message :: string

definition lockTimeout :: int where
  "lockTimeout = 30000"

definition new_shared_memory :: "'v shared_memory" where
  "new_shared_memory = \<lparr>bm_storage = [], bm_accessLog = [], bm_errors = [], bm_warnings = [], sm_locks = []\<rparr>"

definition shared_prefix :: "memory_context \<Rightarrow> string" where
  "shared_prefix c = ''shared:'' @ mc_workspaceId c"

definition shared_key :: "string \<Rightarrow> memory_context \<Rightarrow> string" where
  "shared_key k c = buildKey (shared_prefix c) k"

section \<open>Operations\<close>

definition shared_read :: "time_ms \<Rightarrow> string \<Rightarrow> memory_context \<Rightarrow> 'v shared_memory \<Rightarrow> 'v shared_memory \<times> 'v shared_entry option" where
  "shared_read now k c m = mem_load now (shared_prefix c) k m"

text \<open>The lock a write or a lock request finds: it blocks, it has expired, or there is none.\<close>

definition lock_valid :: "time_ms \<Rightarrow> lock_info \<Rightarrow> bool" where
  "lock_valid now li = (now - li_timestamp li < lockTimeout)"

definition new_version :: "time_ms \<Rightarrow> 'v \<Rightarrow> 'v shared_entry option \<Rightarrow> memory_context \<Rightarrow> 'v shared_entry" where
  "new_version now v cur c =
     \<lparr>se_value = v, se_version = (case cur of Some e \<Rightarrow> se_version e + 1 | None \<Rightarrow> 1),
      se_lockedBy = None, se_lockedAt = None, se_lastModified = now,
      se_metadata = js_spread (mc_metadata c) [(''modifiedBy'', JStr (mc_agentId c)),
        (''previousVersion'', JNum (case cur of Some e \<Rightarrow> se_version e | None \<Rightarrow> 0))]\<rparr>"

definition write_commit ::
  "time_ms \<Rightarrow> string \<Rightarrow> 'v \<Rightarrow> int \<Rightarrow> memory_context \<Rightarrow> 'v shared_entry option \<Rightarrow> 'v shared_memory \<Rightarrow> 'v shared_memory \<times> bool" where
  "write_commit now k v expected c cur m =
     (if (case cur of Some e \<Rightarrow> se_version e \<noteq> expected | None \<Rightarrow> False) then (m, False)
      else case js_get (sm_locks m) (shared_key k c) of
          None \<Rightarrow> (mem_save now (shared_prefix c) k (new_version now v cur c) m, True)
        | Some li \<Rightarrow>
            (if li_agentId li = mc_agentId c
             then (mem_save now (shared_prefix c) k (new_version now v cur c) m, True)
             else if lock_valid now li then (m, False)
             else (mem_save now (shared_prefix c) k (new_version now v cur c)
                     (m\<lparr>sm_locks := js_delete (shared_key k c) (sm_locks m)\<rparr>), True)))"

definition shared_write ::
  "time_ms \<Rightarrow> string \<Rightarrow> 'v \<Rightarrow> int \<Rightarrow> memory_context \<Rightarrow> 'v shared_memory \<Rightarrow> 'v shared_memory \<times> bool" where
  "shared_write now k v expected c m =
     (case shared_read now k c m of (m1, cur) \<Rightarrow> write_commit now k v expected c cur m1)"

text \<open>\<open>rnd\<close> is the random part of the lock id.\<close>

definition acquire_lock ::
  "time_ms \<Rightarrow> string \<Rightarrow> string \<Rightarrow> memory_context \<Rightarrow> 'v shared_entry option \<Rightarrow> 'v shared_memory \<Rightarrow> 'v shared_memory \<times> lock_result" where
  "acquire_lock now rnd k c cur m =
     (let i = mc_agentId c @ ''_'' @ int_str now @ ''_'' @ rnd;
          m1 = m\<lparr>sm_locks := js_set (shared_key k c) \<lparr>li_lockId = i, li_agentId = mc_agentId c, li_timestamp = now\<rparr> (sm_locks m)\<rparr>;
          m2 = (case cur of
                  None \<Rightarrow> m1
                | Some e \<Rightarrow> mem_save now (shared_prefix c) k (e\<lparr>se_lockedBy := Some (mc_agentId c), se_lockedAt := Some now\<rparr>) m1)
      in (m2, \<lparr>lr_success = True, lr_lockId = Some i, lr_currentVersion = (case cur of Some e \<Rightarrow> se_version e | None \<Rightarrow> 0),
               lr_message = ''Lock acquired successfully''\<rparr>))"

definition lock_commit ::
  "time_ms \<Rightarrow> string \<Rightarrow> string \<Rightarrow> memory_context \<Rightarrow> 'v shared_entry option \<Rightarrow> 'v shared_memory \<Rightarrow> 'v shared_memory \<times> lock_result" where
  "lock_commit now rnd k c cur m =
     (let ver = (case cur of Some e \<Rightarrow> se_version e | None \<Rightarrow> 0)
      in case js_get (sm_locks m) (shared_key k c) of
           None \<Rightarrow> acquire_lock now rnd k c cur m
         | Some li \<Rightarrow>
             (if lock_valid now li
              then (if li_agentId li = mc_agentId c
                    then (m, \<lparr>lr_success = True, lr_lockId = Some (li_lockId li), lr_currentVersion = ver,
                              lr_message = ''Already locked by this agent''\<rparr>)
                    else (m, \<lparr>lr_success = False, lr_lockId = None, lr_currentVersion = ver,
                              lr_message = ''Locked by agent '' @ li_agentId li\<rparr>))
              else acquire_lock now rnd k c cur (m\<lparr>sm_locks := js_delete (shared_key k c) (sm_locks m)\<rparr>)))"

definition shared_lock :: "time_ms \<Rightarrow> string \<Rightarrow> string \<Rightarrow> memory_context \<Rightarrow> 'v shared_memory \<Rightarrow> 'v shared_memory \<times> lock_result" where
  "shared_lock now rnd k c m = (case shared_read now k c m of (m1, cur) \<Rightarrow> lock_commit now rnd k c cur m1)"

text \<open>\<open>unlock\<close> drops the lock and loads the entry before it suspends; \<open>None\<close>: it has returned false.\<close>

definition unlock_begin ::
  "time_ms \<Rightarrow> string \<Rightarrow> string \<Rightarrow> memory_context \<Rightarrow> 'v shared_memory \<Rightarrow> 'v shared_memory \<times> 'v shared_entry option option" where
  "unlock_begin now k lockId c m =
     (case js_get (sm_locks m) (shared_key k c) of
        None \<Rightarrow> (m, None)
      | Some li \<Rightarrow>
          (if li_lockId li \<noteq> lockId \<or> li_agentId li \<noteq> mc_agentId c then (m, None)
           else (case shared_read now k c (m\<lparr>sm_locks := js_delete (shared_key k c) (sm_locks m)\<rparr>) of
                   (m1, cur) \<Rightarrow> (m1, Some cur))))"

definition unlock_commit :: "time_ms \<Rightarrow> string \<Rightarrow> memory_context \<Rightarrow> 'v shared_entry option \<Rightarrow> 'v shared_memory \<Rightarrow> 'v shared_memory" where
  "unlock_commit now k c cur m =
     (case cur of
        None \<Rightarrow> m
      | Some e \<Rightarrow> mem_save now (shared_prefix c) k (e\<lparr>se_lockedBy := None, se_lockedAt := None\<rparr>) m)"

definition shared_unlock :: "time_ms \<Rightarrow> string \<Rightarrow> string \<Rightarrow> memory_context \<Rightarrow> 'v shared_memory \<Rightarrow> 'v shared_memory \<times> bool" where
  "shared_unlock now k lockId c m =
     (case unlock_begin now k lockId c m of
        (m1, None) \<Rightarrow> (m1, False)
      | (m1, Some cur) \<Rightarrow> (unlock_commit now k c cur m1, True))"

definition isLocked :: "time_ms \<Rightarrow> string \<Rightarrow> memory_context \<Rightarrow> 'v shared_memory \<Rightarrow> 'v shared_memory \<times> bool" where
  "isLocked now k c m =
     (case js_get (sm_locks m) (shared_key k c) of
        None \<Rightarrow> (m, False)
      | Some li \<Rightarrow> (if lock_valid now li then (m, True)
                    else (m\<lparr>sm_locks := js_delete (shared_key k c) (sm_locks m)\<rparr>, False)))"

definition getLockInfo :: "string \<Rightarrow> memory_context \<Rightarrow> 'v shared_memory \<Rightarrow> lock_info option" where
  "getLockInfo k c m = js_get (sm_locks m) (shared_key k c)"

text \<open>The timer's sweep; it writes the entries of expired locks without noting an access.\<close>

definition clear_lock_info :: "string \<Rightarrow> 'v shared_memory \<Rightarrow> 'v shared_memory" where
  "clear_lock_info key m =
     (let m1 = m\<lparr>sm_locks := js_delete key (sm_locks m)\<rparr>
      in case js_get (bm_storage m1) key of
           None \<Rightarrow> m1
         | Some e \<Rightarrow> m1\<lparr>bm_storage := js_set key (e\<lparr>se_lockedBy := None, se_lockedAt := None\<rparr>) (bm_storage m1)\<rparr>)"

definition cleanupExpiredLocks :: "time_ms \<Rightarrow> 'v shared_memory \<Rightarrow> 'v shared_memory" where
  "cleanupExpiredLocks now m =
     (let ks = map fst (filter (\<lambda>(k, li). \<not> lock_valid now li) (sm_locks m));
          m1 = fold clear_lock_info ks m
      in if ks \<noteq> [] then m1\<lparr>bm_warnings := bm_warnings m1 @ [''Cleaned up '' @ int_str (int (length ks)) @ '' expired locks'']\<rparr>
         else m1)"

section \<open>Sequences of uninterrupted operations\<close>

datatype 'v shared_op =
    SRead time_ms string memory_context
  | SWrite time_ms string 'v int memory_context
  | SLock time_ms string string memory_context
  | SUnlock time_ms string string memory_context
  | SIsLocked time_ms string memory_context
  | SSweep time_ms

fun shared_do :: "'v shared_op \<Rightarrow> 'v shared_memory \<Rightarrow> 'v shared_memory \<times> bool" where
  "shared_do (SRead now k c) m = (fst (shared_read now k c m), True)"
| "shared_do (SWrite now k v n c) m = shared_write now k v n c m"
| "shared_do (SLock now rnd k c) m = (case shared_lock now rnd k c m of (m1, r) \<Rightarrow> (m1, lr_success r))"
| "shared_do (SUnlock now k i c) m = shared_unlock now k i c m"
| "shared_do (SIsLocked now k c) m = isLocked now k c m"
| "shared_do (SSweep now) m = (cleanupExpiredLocks now m, True)"

fun op_time :: "'v shared_op \<Rightarrow> time_ms" where
  "op_time (SRead now k c) = now"
| "op_time (SWrite now k v n c) = now"
| "op_time (SLock now rnd k c) = now"
| "op_time (SUnlock now k i c) = now"
| "op_time (SIsLocked now k c) = now"
| "op_time (SSweep now) = now"

fun op_agent :: "'v shared_op \<Rightarrow> string option" where
  "op_agent (SRead now k c) = Some (mc_agentId c)"
| "op_agent (SWrite now k v n c) = Some (mc_agentId c)"
| "op_agent (SLock now rnd k c) = Some (mc_agentId c)"
| "op_agent (SUnlock now k i c) = Some (mc_agentId c)"
| "op_agent (SIsLocked now k c) = Some (mc_agentId c)"
| "op_agent (SSweep now) = None"

fun writes_key :: "string \<Rightarrow> 'v shared_op \<Rightarrow> bool" where
  "writes_key key (SWrite now k v n c) = (shared_key k c = key)"
| "writes_key key _ = False"

text \<open>The state after a run, and how many writes of a key succeeded in it.\<close>

fun shared_run :: "'v shared_op list \<Rightarrow> 'v shared_memory \<Rightarrow> 'v shared_memory" where
  "shared_run [] m = m"
| "shared_run (op # ops) m = shared_run ops (fst (shared_do op m))"

fun good_writes :: "string \<Rightarrow> 'v shared_op list \<Rightarrow> 'v shared_memory \<Rightarrow> nat" where
  "good_writes key [] m = 0"
| "good_writes key (op # ops) m =
     (if writes_key key op \<and> snd (shared_do op m) then 1 else 0) + good_writes key ops (fst (shared_do op m))"

definition version_at :: "string \<Rightarrow> 'v shared_memory \<Rightarrow> int" where
  "version_at key m = (case js_get (bm_storage m) key of Some e \<Rightarrow> se_version e | None \<Rightarrow> 0)"

definition value_at :: "string \<Rightarrow> 'v shared_memory \<Rightarrow> 'v option" where
  "value_at key m = map_option se_value (js_get (bm_storage m) key)"

section \<open>One operation\<close>

lemma shared_read_simps [simp]:
  "snd (shared_read now k c m) = js_get (bm_storage m) (shared_key k c)"
  "bm_storage (fst (shared_read now k c m)) = bm_storage m"
  "sm_locks (fst (shared_read now k c m)) = sm_locks m"
  by (simp_all add: shared_read_def shared_key_def mem_load_def note_access_def split: option.split)

lemma mem_save_locks [simp]: "sm_locks (mem_save now pre k v m) = sm_locks m"
  by (simp add: mem_save_def note_access_def)

lemma save_key [simp]: "buildKey (shared_prefix c) k = shared_key k c"
  by (simp add: shared_key_def)

lemma shared_write_eq:
  "shared_write now k v n c m = write_commit now k v n c (js_get (bm_storage m) (shared_key k c)) (fst (shared_read now k c m))"
  by (simp add: shared_write_def case_prod_unfold)

lemma shared_lock_eq:
  "shared_lock now rnd k c m = lock_commit now rnd k c (js_get (bm_storage m) (shared_key k c)) (fst (shared_read now k c m))"
  by (simp add: shared_lock_def case_prod_unfold)

lemma clear_lock_info_simps [simp]:
  "sm_locks (clear_lock_info key m) = js_delete key (sm_locks m)"
  "version_at k (clear_lock_info key m) = version_at k m"
  "value_at k (clear_lock_info key m) = value_at k m"
  by (auto simp: clear_lock_info_def Let_def version_at_def value_at_def split: option.split)

lemma fold_clear_simps:
  "sm_locks (fold clear_lock_info ks m) = fold js_delete ks (sm_locks m)"
  "version_at k (fold clear_lock_info ks m) = version_at k m"
  "value_at k (fold clear_lock_info ks m) = value_at k m"
  by (induction ks arbitrary: m) auto

lemma keep_storage:
  "version_at k (m\<lparr>bm_warnings := w\<rparr>) = version_at k m"
  "value_at k (m\<lparr>bm_warnings := w\<rparr>) = value_at k m"
  by (simp_all add: version_at_def value_at_def)

lemma sweep_simps:
  "version_at k (cleanupExpiredLocks now m) = version_at k m"
  "value_at k (cleanupExpiredLocks now m) = value_at k m"
  by (simp_all add: cleanupExpiredLocks_def Let_def keep_storage(1) keep_storage(2) fold_clear_simps)

lemma version_step:
  "version_at key (fst (shared_do op m)) = version_at key m + (if writes_key key op \<and> snd (shared_do op m) then 1 else 0)"
proof (cases op)
  case (SWrite now k v n c)
  then show ?thesis
    by (auto simp: shared_write_eq write_commit_def new_version_def version_at_def split: option.splits if_splits)
next
  case (SLock now rnd k c)
  then show ?thesis
    by (auto simp: shared_lock_eq lock_commit_def acquire_lock_def version_at_def Let_def split: option.splits if_splits prod.splits)
next
  case (SUnlock now k i c)
  then show ?thesis
    by (auto simp: shared_unlock_def unlock_begin_def unlock_commit_def version_at_def case_prod_unfold split: option.splits if_splits)
next
  case (SIsLocked now k c)
  then show ?thesis by (auto simp: isLocked_def version_at_def split: option.splits)
qed (simp_all add: version_at_def, simp_all add: sweep_simps flip: version_at_def)

lemma version_run: "version_at key (shared_run ops m) = version_at key m + int (good_writes key ops m)"
  by (induction ops arbitrary: m) (simp_all add: version_step)

end

