(* ===== verification/Memory_Props.thy ===== *)
theory Memory_Props
  imports Shared_Memory
begin

text \<open>
  Locks and versions of the shared memory: what a valid lock protects, how versions count the
  writes, what is lost when two writers meet at the suspension point, what \<open>clear\<close> removes; and
  what a conversation keeps.
\<close>

section \<open>Locks\<close>

definition locks_wf :: "'v shared_memory \<Rightarrow> bool" where
  "locks_wf m = js_wf (sm_locks m)"

lemma fold_delete_wf: "js_wf m \<Longrightarrow> js_wf (fold js_delete ks m)"
  by (induction ks arbitrary: m) auto

lemma locks_wf_do [inv_intros]: "locks_wf m \<Longrightarrow> locks_wf (fst (shared_do op m))"
  by (cases op) (auto simp: locks_wf_def shared_write_eq write_commit_def shared_lock_eq lock_commit_def acquire_lock_def
      shared_unlock_def unlock_begin_def unlock_commit_def isLocked_def cleanupExpiredLocks_def Let_def case_prod_unfold
      fold_clear_simps fold_delete_wf split: option.splits)

lemma other_agent_step:
  assumes "locks_wf m" and "js_get (sm_locks m) key = Some li"
    and "op_agent op \<noteq> Some (li_agentId li)" and "lock_valid (op_time op) li"
  shows "js_get (sm_locks (fst (shared_do op m))) key = Some li
    \<and> value_at key (fst (shared_do op m)) = value_at key m \<and> version_at key (fst (shared_do op m)) = version_at key m"
proof (cases op)
  case (SRead now k c)
  then show ?thesis using assms(2) by (simp add: value_at_def version_at_def)
next
  case (SWrite now k v n c)
  then show ?thesis using assms
    by (auto simp: shared_write_eq write_commit_def value_at_def version_at_def split: option.splits)
next
  case (SLock now rnd k c)
  then show ?thesis using assms
    by (auto simp: shared_lock_eq lock_commit_def acquire_lock_def value_at_def version_at_def Let_def split: option.splits)
next
  case (SUnlock now k i c)
  then show ?thesis using assms
    by (auto simp: shared_unlock_def unlock_begin_def unlock_commit_def value_at_def version_at_def case_prod_unfold split: option.splits)
next
  case (SIsLocked now k c)
  then show ?thesis using assms by (auto simp: isLocked_def value_at_def version_at_def split: option.splits)
next
  case (SSweep now)
  have "lock_valid now l" if "(key, l) \<in> set (sm_locks m)" for l
    using assms that SSweep by (simp add: locks_wf_def js_get_wf)
  then have "key \<notin> set (map fst (filter (\<lambda>(k, li). \<not> lock_valid now li) (sm_locks m)))" by auto
  then show ?thesis using SSweep assms(2)
    by (auto simp: sweep_simps) (simp add: cleanupExpiredLocks_def Let_def fold_clear_simps fold_delete_get)
qed

lemma other_agents_run:
  assumes "locks_wf m" and "js_get (sm_locks m) key = Some li"
    and "\<forall>op \<in> set ops. op_agent op \<noteq> Some (li_agentId li) \<and> lock_valid (op_time op) li"
  shows "js_get (sm_locks (shared_run ops m)) key = Some li
    \<and> value_at key (shared_run ops m) = value_at key m \<and> version_at key (shared_run ops m) = version_at key m"
  using assms
proof (induction ops arbitrary: m)
  case (Cons op ops)
  note st = other_agent_step [OF Cons.prems(1,2), of op]
  show ?case using Cons.IH [OF locks_wf_do [OF Cons.prems(1)]] st Cons.prems(3) by simp
qed simp

text \<open>The shared memories that uninterrupted operations lead to.\<close>

definition shared_reachable :: "'v shared_memory \<Rightarrow> bool" where
  "shared_reachable m = (\<exists>ops. m = shared_run ops new_shared_memory)"

lemma shared_run_wf: "locks_wf m \<Longrightarrow> locks_wf (shared_run ops m)"
  by (induction ops arbitrary: m) (auto intro: locks_wf_do)

lemma shared_reachable_wf: "shared_reachable m \<Longrightarrow> locks_wf m"
  by (auto simp: shared_reachable_def locks_wf_def new_shared_memory_def intro: shared_run_wf [unfolded locks_wf_def])

lemma shared_run_append: "shared_run (xs @ ys) m = shared_run ys (shared_run xs m)"
  by (induction xs arbitrary: m) auto

lemma lock_success:
  assumes "lr_success (snd (shared_lock now rnd k c m))"
  shows "\<exists>li. js_get (sm_locks (fst (shared_lock now rnd k c m))) (shared_key k c) = Some li
    \<and> li_agentId li = mc_agentId c \<and> lr_lockId (snd (shared_lock now rnd k c m)) = Some (li_lockId li) \<and> lock_valid now li
    \<and> (js_get (sm_locks m) (shared_key k c) = None \<longrightarrow> li_timestamp li = now)"
  using assms
  by (auto simp: shared_lock_eq lock_commit_def acquire_lock_def Let_def lock_valid_def lockTimeout_def split: option.splits if_splits)

text \<open>C9: Once an agent holds the lock of a key, nothing that other agents and the sweep do before the
  lock runs out (thirty seconds after it was acquired) changes the value or the version of the key
  or takes the lock away, however many reads, writes, lock and unlock requests they make on
  whatever keys; and the holder can then release it with its id.\<close>
theorem shared_lock_excludes:
  assumes "shared_reachable m" and "lr_success (snd (shared_lock now rnd k c m))"
    and "js_get (sm_locks m) (shared_key k c) = None"
    and "\<forall>op \<in> set ops. op_agent op \<noteq> Some (mc_agentId c) \<and> op_time op < now + 30000"
  shows "let m1 = fst (shared_lock now rnd k c m); m2 = shared_run ops m1
    in value_at (shared_key k c) m2 = value_at (shared_key k c) m
      \<and> version_at (shared_key k c) m2 = version_at (shared_key k c) m
      \<and> snd (shared_unlock later k (the (lr_lockId (snd (shared_lock now rnd k c m)))) c m2)"
proof -
  let ?m1 = "fst (shared_lock now rnd k c m)" and ?key = "shared_key k c"
  obtain li where li: "js_get (sm_locks ?m1) ?key = Some li" "li_agentId li = mc_agentId c"
      "lr_lockId (snd (shared_lock now rnd k c m)) = Some (li_lockId li)" "li_timestamp li = now"
    using lock_success [OF assms(2)] assms(3) by blast
  have wf: "locks_wf ?m1"
    using locks_wf_do [OF shared_reachable_wf [OF assms(1)], of "SLock now rnd k c"] by (simp add: case_prod_unfold)
  have ops: "\<forall>op \<in> set ops. op_agent op \<noteq> Some (li_agentId li) \<and> lock_valid (op_time op) li"
    using assms(4) li(2,4) by (auto simp: lock_valid_def lockTimeout_def)
  note run = other_agents_run [OF wf li(1) ops]
  have "value_at ?key ?m1 = value_at ?key m" "version_at ?key ?m1 = version_at ?key m"
    using assms(3) by (auto simp: shared_lock_eq lock_commit_def acquire_lock_def value_at_def version_at_def Let_def split: option.splits)
  moreover have "snd (shared_unlock later k (li_lockId li) c (shared_run ops ?m1))"
    using run li(2) by (simp add: shared_unlock_def unlock_begin_def case_prod_unfold)
  ultimately show ?thesis using run li(3) by (simp add: Let_def)
qed

definition demo_mc :: "string \<Rightarrow> string \<Rightarrow> memory_context" where
  "demo_mc a w = \<lparr>mc_requestId = ''r'', mc_traceId = ''t'', mc_workspaceId = w, mc_userId = ''u'',
     mc_conversationId = None, mc_agentId = a, mc_executionId = ''e'', mc_metadata = []\<rparr>"

definition demo_shared :: "nat shared_memory" where
  "demo_shared = shared_run [SWrite 0 ''k'' 7 0 (demo_mc ''a'' ''w'')] new_shared_memory"

lemma demo_shared_reachable: "shared_reachable demo_shared"
  unfolding shared_reachable_def demo_shared_def by blast

theorem shared_lock_excludes_witness:
  "let m1 = fst (shared_lock 10 ''x'' ''k'' (demo_mc ''a'' ''w'') demo_shared);
       m2 = shared_run [SWrite 20 ''k'' 8 1 (demo_mc ''b'' ''w''), SLock 30 ''y'' ''k'' (demo_mc ''b'' ''w''), SSweep 40] m1
   in value_at ''shared:w:k'' m2 = Some 7 \<and> version_at ''shared:w:k'' m2 = 1"
proof -
  have l: "lr_success (snd (shared_lock 10 ''x'' ''k'' (demo_mc ''a'' ''w'') demo_shared))"
    "js_get (sm_locks demo_shared) (shared_key ''k'' (demo_mc ''a'' ''w'')) = None"
    "value_at ''shared:w:k'' demo_shared = Some 7" "version_at ''shared:w:k'' demo_shared = 1"
    "shared_key ''k'' (demo_mc ''a'' ''w'') = ''shared:w:k''"
    by (code_simp, code_simp, code_simp, code_simp, code_simp)
  show ?thesis
    using shared_lock_excludes [OF demo_shared_reachable l(1,2), of "[SWrite 20 ''k'' 8 1 (demo_mc ''b'' ''w''),
        SLock 30 ''y'' ''k'' (demo_mc ''b'' ''w''), SSweep 40]" 50]
    unfolding l(3-5) Let_def by (simp add: demo_mc_def)
qed

section \<open>Versions\<close>

lemma value_step_present:
  "js_get (bm_storage m) key \<noteq> None \<Longrightarrow> js_get (bm_storage (fst (shared_do op m))) key \<noteq> None"
proof (cases op)
  case (SSweep now)
  assume "js_get (bm_storage m) key \<noteq> None"
  then have "value_at key (cleanupExpiredLocks now m) \<noteq> None" unfolding sweep_simps by (simp add: value_at_def)
  then show ?thesis using SSweep by (simp add: value_at_def)
qed (auto simp: shared_write_eq write_commit_def shared_lock_eq lock_commit_def acquire_lock_def shared_unlock_def
    unlock_begin_def unlock_commit_def isLocked_def Let_def case_prod_unfold split: option.splits)

lemma present_run: "js_get (bm_storage m) key \<noteq> None \<Longrightarrow> js_get (bm_storage (shared_run ops m)) key \<noteq> None"
proof (induction ops arbitrary: m)
  case (Cons op ops)
  show ?case using Cons.IH [OF value_step_present [OF Cons.prems]] by simp
qed simp

text \<open>Over any run of uninterrupted reads, writes, locks, unlocks and sweeps, the version of a key
  is its version before plus the number of writes of it that succeeded; so of two writes that name
  the same version of an existing entry the second one fails, whatever happens in between.\<close>
theorem shared_versions_count_writes:
  assumes "js_get (bm_storage m) (shared_key k c) = Some e" and "snd (shared_write t k v n c m)"
    and "shared_key k' c' = shared_key k c"
  shows "version_at key (shared_run ops m0) = version_at key m0 + int (good_writes key ops m0)
    \<and> snd (shared_write t' k' v' n c' (shared_run ops (fst (shared_write t k v n c m)))) = False"
proof -
  let ?m1 = "fst (shared_write t k v n c m)"
  let ?m2 = "shared_run ops ?m1"
  have "se_version e = n" using assms(1,2) by (auto simp: shared_write_eq write_commit_def split: if_splits)
  moreover have "version_at (shared_key k c) ?m1 = se_version e + 1"
    using version_step [of "shared_key k c" "SWrite t k v n c" m] assms(1,2) by (simp add: version_at_def)
  ultimately have v: "version_at (shared_key k c) ?m2 > n" by (simp add: version_run)
  have "js_get (bm_storage ?m2) (shared_key k c) \<noteq> None"
    using value_step_present [of m "shared_key k c" "SWrite t k v n c"] assms(1) by (intro present_run) simp
  then have "snd (shared_write t' k' v' n c' ?m2) = False"
    using v by (auto simp: shared_write_eq write_commit_def assms(3) version_at_def)
  then show ?thesis using version_run by blast
qed

theorem shared_versions_count_writes_witness:
  "version_at ''shared:w:k'' (shared_run [SWrite 5 ''k'' 9 1 (demo_mc ''a'' ''w''), SWrite 6 ''k'' 3 1 (demo_mc ''b'' ''w'')] demo_shared) = 2
   \<and> snd (shared_write 6 ''k'' 3 1 (demo_mc ''b'' ''w'') (shared_run [] (fst (shared_write 5 ''k'' 9 1 (demo_mc ''a'' ''w'') demo_shared)))) = False"
proof -
  have d: "js_get (bm_storage demo_shared) (shared_key ''k'' (demo_mc ''a'' ''w'')) = Some (new_version 0 7 None (demo_mc ''a'' ''w''))"
    "snd (shared_write 5 ''k'' 9 1 (demo_mc ''a'' ''w'') demo_shared)"
    "shared_key ''k'' (demo_mc ''b'' ''w'') = shared_key ''k'' (demo_mc ''a'' ''w'')"
    "version_at ''shared:w:k'' demo_shared = 1"
    "good_writes ''shared:w:k'' [SWrite 5 ''k'' 9 1 (demo_mc ''a'' ''w''), SWrite 6 ''k'' 3 1 (demo_mc ''b'' ''w'')] demo_shared = 1"
    by (code_simp, code_simp, code_simp, code_simp, code_simp)
  have "version_at ''shared:w:k'' (shared_run [SWrite 5 ''k'' 9 1 (demo_mc ''a'' ''w''), SWrite 6 ''k'' 3 1 (demo_mc ''b'' ''w'')] demo_shared)
      = version_at ''shared:w:k'' demo_shared + int (good_writes ''shared:w:k'' [SWrite 5 ''k'' 9 1 (demo_mc ''a'' ''w''), SWrite 6 ''k'' 3 1 (demo_mc ''b'' ''w'')] demo_shared)"
    using shared_versions_count_writes [OF d(1-3)] by blast
  moreover have "snd (shared_write 6 ''k'' 3 1 (demo_mc ''b'' ''w'') (shared_run [] (fst (shared_write 5 ''k'' 9 1 (demo_mc ''a'' ''w'') demo_shared)))) = False"
    using shared_versions_count_writes [OF d(1-3)] by blast
  ultimately show ?thesis using d(4,5) by simp
qed

text \<open>\<open>write\<close> suspends between reading the entry and comparing its version. Two writers of an
  unlocked entry that both get as far as the suspension both succeed with the same expected
  version; the version counts one write and the first value is lost.\<close>
theorem shared_write_race:
  assumes "js_get (bm_storage m) (shared_key k c) = Some e" and "js_get (sm_locks m) (shared_key k c) = None"
    and "shared_key k c' = shared_key k c"
  shows "let (m1, curA) = shared_read t1 k c m; (m2, curB) = shared_read t2 k c' m1;
      (m3, okA) = write_commit t3 k v (se_version e) c curA m2; (m4, okB) = write_commit t4 k v' (se_version e) c' curB m3
    in okA \<and> okB \<and> value_at (shared_key k c) m4 = Some v' \<and> version_at (shared_key k c) m4 = se_version e + 1"
proof -
  obtain m1 where m1: "shared_read t1 k c m = (m1, Some e)" "bm_storage m1 = bm_storage m" "sm_locks m1 = sm_locks m"
    using shared_read_simps [of t1 k c m] assms(1) by (cases "shared_read t1 k c m") auto
  obtain m2 where m2: "shared_read t2 k c' m1 = (m2, Some e)" "bm_storage m2 = bm_storage m" "sm_locks m2 = sm_locks m"
    using shared_read_simps [of t2 k c' m1] m1 assms(1,3) by (cases "shared_read t2 k c' m1") auto
  show ?thesis
    using assms m2(2,3)
    by (simp add: m1(1) m2(1) write_commit_def value_at_def version_at_def new_version_def)
qed

theorem shared_write_race_witness:
  "\<exists>m4. value_at ''shared:w:k'' m4 = Some 9 \<and> version_at ''shared:w:k'' m4 = 2
    \<and> (let (m1, curA) = shared_read 1 ''k'' (demo_mc ''a'' ''w'') demo_shared; (m2, curB) = shared_read 2 ''k'' (demo_mc ''b'' ''w'') m1;
        (m3, okA) = write_commit 3 ''k'' 8 1 (demo_mc ''a'' ''w'') curA m2; (m, okB) = write_commit 4 ''k'' 9 1 (demo_mc ''b'' ''w'') curB m3
       in okA \<and> okB \<and> m = m4)"
proof -
  have d: "js_get (bm_storage demo_shared) (shared_key ''k'' (demo_mc ''a'' ''w'')) = Some (new_version 0 7 None (demo_mc ''a'' ''w''))"
    "js_get (sm_locks demo_shared) (shared_key ''k'' (demo_mc ''a'' ''w'')) = None"
    "shared_key ''k'' (demo_mc ''b'' ''w'') = shared_key ''k'' (demo_mc ''a'' ''w'')"
    "se_version (new_version 0 (7::nat) None (demo_mc ''a'' ''w'')) = 1" "shared_key ''k'' (demo_mc ''a'' ''w'') = ''shared:w:k''"
    by (code_simp, code_simp, code_simp, code_simp, code_simp)
  show ?thesis
    using shared_write_race [OF d(1-3), of 1 2 3 8 4 9] unfolding d(4,5)
    by (auto simp: Let_def case_prod_unfold)
qed

section \<open>Clearing a workspace\<close>

text \<open>\<open>clear\<close> and \<open>size\<close> work on the keys that start with the prefix of the context, and the
  prefix does not end in a separator: an entry of the same workspace is removed, and so is every
  entry of a workspace whose id merely starts with this one's; the entries of the others stay.\<close>
theorem shared_clear_by_prefix:
  "js_get (bm_storage (mem_clear (shared_prefix c) m)) (shared_key k d)
     = (if prefix (mc_workspaceId c) (mc_workspaceId d @ '':'' @ k) then None else js_get (bm_storage m) (shared_key k d))
   \<and> (mc_workspaceId d = mc_workspaceId c @ x \<longrightarrow> js_get (bm_storage (mem_clear (shared_prefix c) m)) (shared_key k d) = None)
   \<and> mem_size (shared_prefix c) (mem_clear (shared_prefix c) m) = 0"
proof -
  have "prefix (shared_prefix c) (shared_key k d) \<longleftrightarrow> prefix (mc_workspaceId c) (mc_workspaceId d @ '':'' @ k)"
    by (simp add: shared_prefix_def shared_key_def buildKey_def)
  moreover have "mem_size (shared_prefix c) (mem_clear (shared_prefix c) m) = 0"
  proof -
    have "\<not> prefix (shared_prefix c) key" if key: "key \<in> set (js_keys (bm_storage (mem_clear (shared_prefix c) m)))" for key
    proof -
      have "js_get (bm_storage (mem_clear (shared_prefix c) m)) key \<noteq> None"
        using key unfolding js_get_None_iff by (simp add: js_keys_def)
      then show ?thesis by (auto simp: mem_clear_get split: if_splits)
    qed
    then show ?thesis by (simp add: mem_size_def filter_empty_conv)
  qed
  ultimately show ?thesis by (auto simp: mem_clear_get)
qed

theorem shared_clear_by_prefix_witness:
  "js_get (bm_storage (mem_clear (shared_prefix (demo_mc ''a'' ''w1''))
     (fst (shared_write 0 ''k'' (5::nat) 0 (demo_mc ''b'' ''w10'') new_shared_memory)))) ''shared:w10:k'' = None"
  using shared_clear_by_prefix [of "demo_mc ''a'' ''w1''" "fst (shared_write 0 ''k'' (5::nat) 0 (demo_mc ''b'' ''w10'') new_shared_memory)"
      "''k''" "demo_mc ''b'' ''w10''" "''0''"]
  by (simp add: demo_mc_def shared_key_def buildKey_def shared_prefix_def)

section \<open>Conversations\<close>

lemma conv_append_history:
  "snd (conv_history t None c (conv_append now x c m)) =
     (let l = snd (conv_history t None c m) @ [x] in if length l > 1000 then drop (length l - 1000) l else l)"
  by (auto simp: conv_history_def conv_append_def conv_messages_def maxHistorySize_def slice_last_def Let_def case_prod_unfold mem_load_simps
      split: option.splits prod.splits)

end
