(* ===== verification/Scoped_Memory.thy ===== *)
theory Scoped_Memory
  imports Memory_Base
begin

text \<open>
  \<open>ScratchpadMemory\<close> (\<open>agents/memory/scratchpad-memory.ts\<close>: a map per execution, removed by a
  timer five minutes after its first entry) and \<open>WorkspaceMemory\<close>
  (\<open>workspace-memory.ts\<close>: a map per workspace of at most ten thousand keys). Both interpret the
  interface \<open>scoped_store\<close>. The base class's own storage, which these classes inherit and leave
  alone, is a part of the record.
\<close>

section \<open>The maps of a scope\<close>

type_synonym 'v scopes = "(string, (string, 'v) js_map) js_map"

definition scope_content :: "'v scopes \<Rightarrow> string \<Rightarrow> string \<Rightarrow> 'v option" where
  "scope_content ms sc k = (case js_get ms sc of None \<Rightarrow> None | Some m \<Rightarrow> js_get m k)"

definition scope_map :: "'v scopes \<Rightarrow> string \<Rightarrow> (string, 'v) js_map" where
  "scope_map ms sc = (case js_get ms sc of None \<Rightarrow> [] | Some m \<Rightarrow> m)"

definition log_key :: "string \<Rightarrow> string \<Rightarrow> string" where
  "log_key sc k = sc @ '':'' @ k"

section \<open>Workspace memory\<close>

record 'v workspace_memory = "'v base_memory" +
  wm_storage :: "'v scopes"

definition getWorkspaceKey :: "memory_context \<Rightarrow> string" where
  "getWorkspaceKey c = ''ws:'' @ mc_workspaceId c"

definition maxKeysPerWorkspace :: nat where
  "maxKeysPerWorkspace = 10000"

definition workspace_full :: "memory_context \<Rightarrow> string \<Rightarrow> 'v workspace_memory \<Rightarrow> bool" where
  "workspace_full c k m = (let w = scope_map (wm_storage m) (getWorkspaceKey c)
     in \<not> js_has w k \<and> length w \<ge> maxKeysPerWorkspace)"

text \<open>\<open>put\<close> creates the workspace's map, checks the limit and rethrows its error with a prefix.\<close>

definition ws_put :: "time_ms \<Rightarrow> string \<Rightarrow> 'v \<Rightarrow> memory_context \<Rightarrow> 'v workspace_memory \<Rightarrow> 'v workspace_memory \<times> (agent_error + unit)" where
  "ws_put now k v c m =
     (let sc = getWorkspaceKey c; w = scope_map (wm_storage m) sc;
          m1 = m\<lparr>wm_storage := js_set sc w (wm_storage m)\<rparr>
      in if workspace_full c k m
         then (let e = ''Failed to put workspace memory '' @ sq k @ '': Workspace memory limit reached: 10000 keys''
               in (m1\<lparr>bm_errors := bm_errors m1 @ [e]\<rparr>, Inl (PlainError e)))
         else (note_access now (log_key sc k) (m1\<lparr>wm_storage := js_set sc (js_set k v w) (wm_storage m1)\<rparr>), Inr ()))"

definition ws_get :: "time_ms \<Rightarrow> string \<Rightarrow> memory_context \<Rightarrow> 'v workspace_memory \<Rightarrow> 'v workspace_memory \<times> 'v option" where
  "ws_get now k c m =
     (case js_get (wm_storage m) (getWorkspaceKey c) of
        None \<Rightarrow> (m, None)
      | Some w \<Rightarrow> (case js_get w k of
            None \<Rightarrow> (m, None)
          | Some v \<Rightarrow> (note_access now (log_key (getWorkspaceKey c) k) m, Some v)))"

definition ws_remove :: "string \<Rightarrow> memory_context \<Rightarrow> 'v workspace_memory \<Rightarrow> 'v workspace_memory \<times> bool" where
  "ws_remove k c m =
     (let sc = getWorkspaceKey c
      in case js_get (wm_storage m) sc of
           None \<Rightarrow> (m, False)
         | Some w \<Rightarrow> (m\<lparr>wm_storage := js_set sc (js_delete k w) (wm_storage m),
                        bm_accessLog := js_delete (log_key sc k) (bm_accessLog m)\<rparr>, js_has w k))"

definition ws_keys :: "memory_context \<Rightarrow> 'v workspace_memory \<Rightarrow> string list" where
  "ws_keys c m = js_keys (scope_map (wm_storage m) (getWorkspaceKey c))"

definition ws_clear :: "memory_context \<Rightarrow> 'v workspace_memory \<Rightarrow> 'v workspace_memory" where
  "ws_clear c m =
     (let sc = getWorkspaceKey c
      in case js_get (wm_storage m) sc of
           None \<Rightarrow> m
         | Some w \<Rightarrow> m\<lparr>wm_storage := js_set sc [] (wm_storage m),
                       bm_accessLog := fold (\<lambda>k. js_delete (log_key sc k)) (js_keys w) (bm_accessLog m)\<rparr>)"

definition ws_size :: "memory_context \<Rightarrow> 'v workspace_memory \<Rightarrow> nat" where
  "ws_size c m = length (scope_map (wm_storage m) (getWorkspaceKey c))"

definition ws_entries :: "memory_context \<Rightarrow> 'v workspace_memory \<Rightarrow> (string \<times> 'v) list" where
  "ws_entries c m = scope_map (wm_storage m) (getWorkspaceKey c)"

definition ws_has :: "string \<Rightarrow> memory_context \<Rightarrow> 'v workspace_memory \<Rightarrow> bool" where
  "ws_has k c m = js_has (scope_map (wm_storage m) (getWorkspaceKey c)) k"

definition ws_content :: "'v workspace_memory \<Rightarrow> memory_context \<Rightarrow> string \<Rightarrow> 'v option" where
  "ws_content m c k = scope_content (wm_storage m) (getWorkspaceKey c) k"

definition same_workspace :: "memory_context \<Rightarrow> memory_context \<Rightarrow> bool" where
  "same_workspace c d = (mc_workspaceId c = mc_workspaceId d)"

lemma same_workspace_key [simp]: "same_workspace c d \<longleftrightarrow> getWorkspaceKey d = getWorkspaceKey c"
  by (auto simp: getWorkspaceKey_def same_workspace_def)

lemma note_access_wm [simp]: "wm_storage (note_access now k m) = wm_storage m"
  by (simp add: note_access_def)

lemmas scope_defs = scope_content_def scope_map_def

interpretation workspace: scoped_store ws_content "\<lambda>m c k. \<not> workspace_full c k m" ws_put ws_get ws_remove ws_clear same_workspace
proof
  show "snd (ws_put now k v c m) = Inr () \<and> ws_content (fst (ws_put now k v c m)) d j
      = (if same_workspace c d \<and> j = k then Some v else ws_content m d j)"
    if "\<not> workspace_full c k m" for m c k now v d j
    using that by (auto simp: ws_put_def ws_content_def scope_defs Let_def split: option.splits)
  show "(\<exists>e. snd (ws_put now k v c m) = Inl e) \<and> ws_content (fst (ws_put now k v c m)) = ws_content m"
    if "\<not> \<not> workspace_full c k m" for m c k now v
    using that by (auto simp: ws_put_def ws_content_def scope_defs Let_def fun_eq_iff split: option.splits)
  show "snd (ws_get now k c m) = ws_content m c k \<and> ws_content (fst (ws_get now k c m)) = ws_content m" for now k c m
    by (auto simp: ws_get_def ws_content_def scope_defs fun_eq_iff split: option.splits)
  show "snd (ws_remove k c m) = (ws_content m c k \<noteq> None) \<and> ws_content (fst (ws_remove k c m)) d j
      = (if same_workspace c d \<and> j = k then None else ws_content m d j)" for k c m d j
    by (auto simp: ws_remove_def ws_content_def scope_defs Let_def js_has_iff split: option.splits)
  show "ws_content (ws_clear c m) d j = (if same_workspace c d then None else ws_content m d j)" for c m d j
    by (auto simp: ws_clear_def ws_content_def scope_defs Let_def split: option.splits)
qed

section \<open>Scratchpad memory\<close>

text \<open>The timers, by execution key, with the time at which each fires.\<close>

record 'v scratchpad_memory = "'v base_memory" +
  sp_storage :: "'v scopes"
  sp_timers :: "(string, time_ms) js_map"

definition getExecutionKey :: "memory_context \<Rightarrow> string" where
  "getExecutionKey c = ''exec:'' @ mc_executionId c"

definition defaultTTL :: int where
  "defaultTTL = 300000"

definition scheduleCleanup :: "time_ms \<Rightarrow> string \<Rightarrow> 'v scratchpad_memory \<Rightarrow> 'v scratchpad_memory" where
  "scheduleCleanup now sc m = m\<lparr>sp_timers := js_set sc (now + defaultTTL) (sp_timers m)\<rparr>"

definition sp_put :: "time_ms \<Rightarrow> string \<Rightarrow> 'v \<Rightarrow> memory_context \<Rightarrow> 'v scratchpad_memory \<Rightarrow> 'v scratchpad_memory \<times> (agent_error + unit)" where
  "sp_put now k v c m =
     (let sc = getExecutionKey c;
          m1 = (if js_has (sp_storage m) sc then m
                else scheduleCleanup now sc (m\<lparr>sp_storage := js_set sc [] (sp_storage m)\<rparr>))
      in (note_access now (log_key sc k)
            (m1\<lparr>sp_storage := js_set sc (js_set k v (scope_map (sp_storage m1) sc)) (sp_storage m1)\<rparr>), Inr ()))"

definition sp_get :: "time_ms \<Rightarrow> string \<Rightarrow> memory_context \<Rightarrow> 'v scratchpad_memory \<Rightarrow> 'v scratchpad_memory \<times> 'v option" where
  "sp_get now k c m =
     (case js_get (sp_storage m) (getExecutionKey c) of
        None \<Rightarrow> (m, None)
      | Some w \<Rightarrow> (case js_get w k of
            None \<Rightarrow> (m, None)
          | Some v \<Rightarrow> (note_access now (log_key (getExecutionKey c) k) m, Some v)))"

definition sp_remove :: "string \<Rightarrow> memory_context \<Rightarrow> 'v scratchpad_memory \<Rightarrow> 'v scratchpad_memory \<times> bool" where
  "sp_remove k c m =
     (let sc = getExecutionKey c
      in case js_get (sp_storage m) sc of
           None \<Rightarrow> (m, False)
         | Some w \<Rightarrow> (m\<lparr>sp_storage := js_set sc (js_delete k w) (sp_storage m),
                        bm_accessLog := js_delete (log_key sc k) (bm_accessLog m)\<rparr>, js_has w k))"

definition forget_log :: "string \<Rightarrow> (string, 'v) js_map \<Rightarrow> 'v scratchpad_memory \<Rightarrow> 'v scratchpad_memory" where
  "forget_log sc w m = m\<lparr>bm_accessLog := fold (\<lambda>k. js_delete (log_key sc k)) (js_keys w) (bm_accessLog m)\<rparr>"

definition sp_clear :: "memory_context \<Rightarrow> 'v scratchpad_memory \<Rightarrow> 'v scratchpad_memory" where
  "sp_clear c m =
     (let sc = getExecutionKey c
      in case js_get (sp_storage m) sc of
           None \<Rightarrow> m
         | Some w \<Rightarrow> (forget_log sc w m)\<lparr>sp_storage := js_set sc [] (sp_storage m)\<rparr>)"

definition sp_entries :: "memory_context \<Rightarrow> 'v scratchpad_memory \<Rightarrow> (string \<times> 'v) list" where
  "sp_entries c m = scope_map (sp_storage m) (getExecutionKey c)"

definition sp_size :: "memory_context \<Rightarrow> 'v scratchpad_memory \<Rightarrow> nat" where
  "sp_size c m = length (scope_map (sp_storage m) (getExecutionKey c))"

definition cleanupExecution :: "string \<Rightarrow> 'v scratchpad_memory \<Rightarrow> 'v scratchpad_memory" where
  "cleanupExecution i m =
     (let sc = ''exec:'' @ i;
          m1 = (case js_get (sp_storage m) sc of
                  None \<Rightarrow> m
                | Some w \<Rightarrow> (forget_log sc w m)\<lparr>sp_storage := js_delete sc (sp_storage m)\<rparr>)
      in m1\<lparr>sp_timers := js_delete sc (sp_timers m1)\<rparr>)"

text \<open>A timer of an execution fires: \<open>replace('exec:', '')\<close> gives back the id its key was made of.\<close>

definition timer_fires :: "time_ms \<Rightarrow> string \<Rightarrow> 'v scratchpad_memory \<Rightarrow> 'v scratchpad_memory" where
  "timer_fires now sc m =
     (case js_get (sp_timers m) sc of
        None \<Rightarrow> m
      | Some due \<Rightarrow> if due \<le> now then cleanupExecution (drop 5 sc) m else m)"

definition sp_content :: "'v scratchpad_memory \<Rightarrow> memory_context \<Rightarrow> string \<Rightarrow> 'v option" where
  "sp_content m c k = scope_content (sp_storage m) (getExecutionKey c) k"

definition same_execution :: "memory_context \<Rightarrow> memory_context \<Rightarrow> bool" where
  "same_execution c d = (mc_executionId c = mc_executionId d)"

lemma same_execution_key [simp]: "same_execution c d \<longleftrightarrow> getExecutionKey d = getExecutionKey c"
  by (auto simp: getExecutionKey_def same_execution_def)

lemma note_access_sp [simp]:
  "sp_storage (note_access now k m) = sp_storage m" "sp_timers (note_access now k m) = sp_timers m"
  by (simp_all add: note_access_def)

lemma forget_log_sp [simp]:
  "sp_storage (forget_log sc w m) = sp_storage m" "sp_timers (forget_log sc w m) = sp_timers m"
  by (simp_all add: forget_log_def)

interpretation scratchpad: scoped_store sp_content "\<lambda>m c k. True" sp_put sp_get sp_remove sp_clear same_execution
proof
  show "snd (sp_put now k v c m) = Inr () \<and> sp_content (fst (sp_put now k v c m)) d j
      = (if same_execution c d \<and> j = k then Some v else sp_content m d j)" for m c k now v d j
    by (auto simp: sp_put_def sp_content_def scope_defs scheduleCleanup_def Let_def js_has_iff split: option.splits)
  show "snd (sp_get now k c m) = sp_content m c k \<and> sp_content (fst (sp_get now k c m)) = sp_content m" for now k c m
    by (auto simp: sp_get_def sp_content_def scope_defs fun_eq_iff split: option.splits)
  show "snd (sp_remove k c m) = (sp_content m c k \<noteq> None) \<and> sp_content (fst (sp_remove k c m)) d j
      = (if same_execution c d \<and> j = k then None else sp_content m d j)" for k c m d j
    by (auto simp: sp_remove_def sp_content_def scope_defs Let_def js_has_iff split: option.splits)
  show "sp_content (sp_clear c m) d j = (if same_execution c d then None else sp_content m d j)" for c m d j
    by (auto simp: sp_clear_def sp_content_def scope_defs Let_def split: option.splits)
qed simp

section \<open>Isolation and bounds\<close>

text \<open>The size of every workspace stays within the limit.\<close>

definition ws_bounded :: "'v workspace_memory \<Rightarrow> bool" where
  "ws_bounded m = (\<forall>sc w. js_get (wm_storage m) sc = Some w \<longrightarrow> length w \<le> maxKeysPerWorkspace)"

lemma ws_bounded_op [inv_intros]: "ws_bounded m \<Longrightarrow> ws_bounded (workspace.do_op op m)"
proof (cases op)
  case (Put now k v c)
  assume b: "ws_bounded m"
  have "length (scope_map (wm_storage m) (getWorkspaceKey c)) \<le> maxKeysPerWorkspace"
    using b by (auto simp: ws_bounded_def scope_map_def split: option.split)
  then show ?thesis using b Put
    by (auto simp: ws_bounded_def ws_put_def workspace_full_def Let_def length_js_set split: if_splits)
next
  case (Get now k c)
  assume "ws_bounded m"
  then show ?thesis using Get by (auto simp: ws_bounded_def ws_get_def split: option.splits)
next
  case (Remove k c)
  assume "ws_bounded m"
  then show ?thesis using Remove
    by (auto simp: ws_bounded_def ws_remove_def Let_def intro: order_trans [OF length_js_delete_le] split: option.splits)
next
  case (Clear c)
  assume "ws_bounded m"
  then show ?thesis using Clear by (auto simp: ws_bounded_def ws_clear_def Let_def split: option.splits)
qed

lemma ws_bounded_run: "ws_bounded m \<Longrightarrow> ws_bounded (fold workspace.do_op ops m)"
  by (induction ops arbitrary: m) (auto intro: ws_bounded_op)

definition new_workspace_memory :: "'v workspace_memory" where
  "new_workspace_memory = \<lparr>bm_storage = [], bm_accessLog = [], bm_errors = [], bm_warnings = [], wm_storage = []\<rparr>"

text \<open>After any run of puts, gets, removals and clears a workspace holds at most ten thousand
  keys; a value that is put and fits is what a get returns, whatever operations of other
  workspaces run in between; and a put that does not fit fails and changes no content.\<close>
theorem workspace_memory_isolated:
  assumes "m = fold workspace.do_op ops0 new_workspace_memory"
    and "\<forall>op \<in> set ops. \<not> workspace.touches c op"
  shows "ws_size c m \<le> 10000
    \<and> (if ws_size c m < 10000 \<or> ws_has k c m
       then snd (ws_get t k c (fold workspace.do_op ops (fst (ws_put now k v c m)))) = Some v
       else snd (ws_get t k c (fold workspace.do_op ops (fst (ws_put now k v c m)))) = None
         \<and> (\<exists>e. snd (ws_put now k v c m) = Inl e))"
proof -
  have "ws_bounded m" unfolding assms(1)
    by (rule ws_bounded_run) (simp add: ws_bounded_def new_workspace_memory_def)
  then have "ws_size c m \<le> 10000"
    by (auto simp: ws_bounded_def ws_size_def scope_map_def maxKeysPerWorkspace_def split: option.split)
  moreover have "workspace_full c k m \<longleftrightarrow> \<not> (ws_size c m < 10000 \<or> ws_has k c m)"
    by (auto simp: workspace_full_def ws_size_def ws_has_def Let_def maxKeysPerWorkspace_def)
  moreover have "snd (ws_get t k c (fold workspace.do_op ops (fst (ws_put now k v c m)))) = Some v" if "\<not> workspace_full c k m"
    by (rule workspace.get_after_others [OF that _ assms(2)]) simp
  moreover have "snd (ws_get t k c (fold workspace.do_op ops (fst (ws_put now k v c m)))) = None
      \<and> (\<exists>e. snd (ws_put now k v c m) = Inl e)" if f: "workspace_full c k m"
  proof -
    have "ws_content m c k = None" using f
      by (auto simp: workspace_full_def ws_content_def scope_defs js_has_iff Let_def split: option.splits)
    then show ?thesis
      using workspace.put_full [of c k m now v] f workspace.isolation [OF assms(2), of "fst (ws_put now k v c m)"]
        workspace.get_content [of t k c "fold workspace.do_op ops (fst (ws_put now k v c m))"] by simp
  qed
  ultimately show ?thesis by simp
qed

definition demo_ctx :: "string \<Rightarrow> memory_context" where
  "demo_ctx w = \<lparr>mc_requestId = ''r'', mc_traceId = ''t'', mc_workspaceId = w, mc_userId = ''u'',
     mc_conversationId = None, mc_agentId = ''a'', mc_executionId = w, mc_metadata = []\<rparr>"

theorem workspace_memory_isolated_witness:
  "snd (ws_get 9 ''k'' (demo_ctx ''w'') (fold workspace.do_op [workspace.Put 2 ''k'' 8 (demo_ctx ''v''), workspace.Clear (demo_ctx ''x'')]
     (fst (ws_put 1 ''k'' (7::nat) (demo_ctx ''w'') new_workspace_memory)))) = Some 7"
  using workspace_memory_isolated [of new_workspace_memory "[]"
      "[workspace.Put 2 ''k'' (8::nat) (demo_ctx ''v''), workspace.Clear (demo_ctx ''x'')]" "demo_ctx ''w''" "''k''" 9 1 7]
  by (simp add: demo_ctx_def ws_size_def new_workspace_memory_def scope_map_def getWorkspaceKey_def)

text \<open>Put, remove, get and clear never touch a timer that is set; a timer is set by the first put.\<close>

lemma timer_kept:
  "js_get (sp_timers m) sc = Some due \<Longrightarrow> js_has (sp_storage m) sc
    \<Longrightarrow> js_get (sp_timers (scratchpad.do_op op m)) sc = Some due \<and> js_has (sp_storage (scratchpad.do_op op m)) sc"
  by (cases op) (auto simp: sp_put_def sp_get_def sp_remove_def sp_clear_def scheduleCleanup_def Let_def js_has_iff split: option.splits)

lemma timer_kept_run:
  "js_get (sp_timers m) sc = Some due \<Longrightarrow> js_has (sp_storage m) sc
    \<Longrightarrow> js_get (sp_timers (fold scratchpad.do_op ops m)) sc = Some due"
proof (induction ops arbitrary: m)
  case (Cons op ops)
  show ?case using Cons.IH [of "scratchpad.do_op op m"] timer_kept [OF Cons.prems] by simp
qed simp

text \<open>The scratchpad of an execution lives five minutes from its first entry: later puts, of this
  execution too, do not extend it, and when the timer fires every entry is gone, those put a
  moment before included; other executions keep theirs.\<close>
theorem scratchpad_lifetime:
  assumes "js_has (sp_storage m) (getExecutionKey c) = False" and "now + 300000 \<le> t"
  shows "let m1 = fold scratchpad.do_op ops (fst (sp_put now k v c m)); m2 = timer_fires t (getExecutionKey c) m1
    in snd (sp_get t' j c m2) = None \<and> sp_entries c m2 = []
      \<and> (if same_execution d c then True else snd (sp_get t' j d m2) = snd (sp_get t' j d m1))"
proof -
  let ?m0 = "fst (sp_put now k v c m)" and ?sc = "getExecutionKey c"
  let ?m1 = "fold scratchpad.do_op ops ?m0"
  have "js_get (sp_timers ?m0) ?sc = Some (now + 300000)" "js_has (sp_storage ?m0) ?sc"
    using assms(1) by (simp_all add: sp_put_def scheduleCleanup_def Let_def defaultTTL_def)
  then have "js_get (sp_timers ?m1) ?sc = Some (now + 300000)" by (rule timer_kept_run)
  then have f: "timer_fires t ?sc ?m1 = cleanupExecution (mc_executionId c) ?m1"
    using assms(2) by (simp add: timer_fires_def getExecutionKey_def)
  have g: "js_get (sp_storage (cleanupExecution (mc_executionId c) ?m1)) sc
      = (if sc = ?sc then None else js_get (sp_storage ?m1) sc)" for sc
    by (auto simp: cleanupExecution_def getExecutionKey_def Let_def split: option.split)
  show ?thesis
    by (auto simp: Let_def f scratchpad.get_content sp_content_def scope_defs g sp_entries_def same_execution_def)
qed

theorem scratchpad_lifetime_witness:
  "snd (sp_get 300001 ''b'' (demo_ctx ''e'') (timer_fires 300000 ''exec:e'' (fold scratchpad.do_op [scratchpad.Put 299999 ''b'' (2::nat) (demo_ctx ''e'')]
     (fst (sp_put 0 ''a'' 1 (demo_ctx ''e'') \<lparr>bm_storage = [], bm_accessLog = [], bm_errors = [], bm_warnings = [], sp_storage = [], sp_timers = []\<rparr>))))) = None"
  using scratchpad_lifetime [of "\<lparr>bm_storage = [], bm_accessLog = [], bm_errors = [], bm_warnings = [], sp_storage = [], sp_timers = []\<rparr>"
      "demo_ctx ''e''" 0 300000 "[scratchpad.Put 299999 ''b'' (2::nat) (demo_ctx ''e'')]" "''a''" 1 300001 "''b''"]
  by (simp add: getExecutionKey_def demo_ctx_def Let_def)

end
