(* ===== verification/Execution_Runtime.thy ===== *)
theory Execution_Runtime
  imports Agent_Registry
begin

text \<open>
  Running agents: \<open>ExecutionRegistry\<close> (\<open>agents/runtime/execution-registry.ts\<close>),
  \<open>AgentExecutor\<close> (\<open>agents/executor/agent-executor.ts\<close>) and \<open>AgentRuntime\<close>
  (\<open>agents/runtime/agent-runtime.ts\<close>).

  A call of \<open>executeAgent\<close> is three steps, with anything in between: \<open>rt_start\<close> (register the
  execution), \<open>rt_launch\<close> (look the agent up, mark it running, validate, hand it to the
  executor) and \<open>rt_finish\<close> (the executor's hundred milliseconds are over). \<open>rt_flights\<close> holds
  the suspended calls. \<open>randomUUID()\<close> is an argument of the step that calls it.
\<close>

section \<open>Data\<close>

datatype execution_status = ExPending | ExRunning | ExCompleted | ExCancelled | ExFailed | ExTimeout

record execution_usage =
  us_memoryUsed :: int
  us_cpuTime :: int
  us_tokensUsed :: int
  us_cost :: int

record execution_result =
  er_executionId :: string
  er_agentId :: string
  er_success :: bool
  er_output :: jsval
  er_startedAt :: time_ms
  er_finishedAt :: time_ms
  er_latency :: int
  er_usage :: "execution_usage option"
  er_errors :: "string list"
  er_metadata :: js_record
  er_status :: execution_status

text \<open>\<open>xc_aborted\<close>: is the caller's cancellation token already aborted when the execution begins?\<close>

record execution_context =
  xc_requestId :: string
  xc_workspaceId :: string
  xc_userId :: string
  xc_metadata :: js_record
  xc_timeout :: "int option"
  xc_aborted :: bool

record execution_request =
  xr_agentId :: string
  xr_input :: jsval
  xr_context :: execution_context
  xr_timeout :: "int option"

section \<open>The execution registry\<close>

record execution_registry =
  eg_executions :: "(string, execution_result) js_map"
  eg_active :: "string list"

definition new_execution_registry :: execution_registry where
  "new_execution_registry = \<lparr>eg_executions = [], eg_active = []\<rparr>"

definition is_live :: "execution_status \<Rightarrow> bool" where
  "is_live st = (st = ExRunning \<or> st = ExPending)"

text \<open>\<open>Set.add\<close> and \<open>Set.delete\<close>.\<close>

definition set_add :: "'a \<Rightarrow> 'a list \<Rightarrow> 'a list" where
  "set_add x xs = (if List.member xs x then xs else xs @ [x])"

definition set_remove :: "'a \<Rightarrow> 'a list \<Rightarrow> 'a list" where
  "set_remove x xs = filter (\<lambda>y. y \<noteq> x) xs"

definition eg_register :: "execution_result \<Rightarrow> execution_registry \<Rightarrow> execution_registry" where
  "eg_register r g = g\<lparr>eg_executions := js_set (er_executionId r) r (eg_executions g),
     eg_active := (if is_live (er_status r) then set_add (er_executionId r) (eg_active g) else eg_active g)\<rparr>"

definition eg_update :: "string \<Rightarrow> execution_result \<Rightarrow> execution_registry \<Rightarrow> execution_registry \<times> (agent_error + unit)" where
  "eg_update i r g =
     (if \<not> js_has (eg_executions g) i then (g, Inl (ExecutionNotFound i))
      else (g\<lparr>eg_executions := js_set i r (eg_executions g),
              eg_active := (if is_live (er_status r) then set_add i (eg_active g) else set_remove i (eg_active g))\<rparr>, Inr ()))"

definition eg_get :: "string \<Rightarrow> execution_registry \<Rightarrow> execution_result option" where
  "eg_get i g = js_get (eg_executions g) i"

definition eg_list :: "execution_registry \<Rightarrow> execution_result list" where
  "eg_list g = js_values (eg_executions g)"

definition eg_listByStatus :: "execution_status \<Rightarrow> execution_registry \<Rightarrow> execution_result list" where
  "eg_listByStatus st g = filter (\<lambda>e. er_status e = st) (eg_list g)"

definition eg_listByAgent :: "string \<Rightarrow> execution_registry \<Rightarrow> execution_result list" where
  "eg_listByAgent a g = filter (\<lambda>e. er_agentId e = a) (eg_list g)"

definition eg_remove :: "string \<Rightarrow> execution_registry \<Rightarrow> execution_registry" where
  "eg_remove i g = \<lparr>eg_executions = js_delete i (eg_executions g), eg_active = set_remove i (eg_active g)\<rparr>"

definition stale_execution :: "time_ms \<Rightarrow> int \<Rightarrow> execution_registry \<Rightarrow> string \<times> execution_result \<Rightarrow> bool" where
  "stale_execution now maxAge g p =
     (\<not> List.member (eg_active g) (fst p) \<and> er_finishedAt (snd p) < now - maxAge)"

definition eg_cleanup :: "time_ms \<Rightarrow> int \<Rightarrow> execution_registry \<Rightarrow> execution_registry \<times> nat" where
  "eg_cleanup now maxAge g =
     (let gone = filter (stale_execution now maxAge g) (eg_executions g)
      in (g\<lparr>eg_executions := filter (\<lambda>p. \<not> stale_execution now maxAge g p) (eg_executions g)\<rparr>, length gone))"

definition eg_count :: "execution_registry \<Rightarrow> nat" where
  "eg_count g = length (eg_executions g)"

record execution_metrics =
  em_total :: nat
  em_active :: nat
  em_completed :: nat
  em_failed :: nat
  em_cancelled :: nat
  em_timeout :: nat

definition eg_getMetrics :: "execution_registry \<Rightarrow> execution_metrics" where
  "eg_getMetrics g = \<lparr>em_total = length (eg_list g), em_active = length (eg_active g),
     em_completed = length (eg_listByStatus ExCompleted g), em_failed = length (eg_listByStatus ExFailed g),
     em_cancelled = length (eg_listByStatus ExCancelled g), em_timeout = length (eg_listByStatus ExTimeout g)\<rparr>"

definition eg_isActive :: "string \<Rightarrow> execution_registry \<Rightarrow> bool" where
  "eg_isActive i g = List.member (eg_active g) i"

section \<open>The executor\<close>

text \<open>
  \<open>ex_active\<close>: the abort controllers, with their aborted flag; \<open>ex_timers\<close>: the timers
  \<open>execute\<close> sets for a context's timeout and clears at its end; \<open>ex_extra\<close>: those of
  \<open>timeout\<close>, which are never cleared.
\<close>

record executor =
  ex_active :: "(string, bool) js_map"
  ex_timers :: "(string, time_ms) js_map"
  ex_extra :: "(string \<times> time_ms) list"

definition new_executor :: executor where
  "new_executor = \<lparr>ex_active = [], ex_timers = [], ex_extra = []\<rparr>"

text \<open>\<open>validate\<close>, with the agent's health as \<open>getHealth\<close> returns it.\<close>

definition exec_validate :: "agent_registry \<Rightarrow> agent_health \<Rightarrow> agent \<Rightarrow> agent_error option" where
  "exec_validate reg h a =
     (if ag_id a = [] then Some (AgentExecution ''unknown'' ''unknown'' ''Agent ID is required'')
      else if find_agent reg (ag_id a) = None then Some (AgentNotFound (ag_id a))
      else if h_status h = Unhealthy
           then Some (AgentExecution (ag_id a) ''unknown'' (''Agent is unhealthy: '' @ join_with '', '' (h_errors h)))
      else None)"

text \<open>\<open>Math.round(latency * 0.1)\<close>: halves round up.\<close>

definition calculateUsage :: "int \<Rightarrow> execution_usage" where
  "calculateUsage latency = \<lparr>us_memoryUsed = (latency + 5) div 10, us_cpuTime = latency, us_tokensUsed = 0, us_cost = 0\<rparr>"

definition agent_output :: "time_ms \<Rightarrow> agent \<Rightarrow> jsval \<Rightarrow> execution_context \<Rightarrow> jsval" where
  "agent_output now a inp c = JObj [(''agentId'', JStr (ag_id a)), (''processedAt'', JDate now), (''input'', inp),
     (''result'', JStr (''Processed by '' @ ag_name a @ '' ('' @ ag_type a @ '')'')),
     (''capabilities'', JArr (map (\<lambda>cap. JStr (cap_id cap)) (ag_capabilities a))),
     (''context'', JObj [(''workspaceId'', JStr (xc_workspaceId c)), (''userId'', JStr (xc_userId c)),
        (''requestId'', JStr (xc_requestId c))])]"

definition completed_result :: "string \<Rightarrow> time_ms \<Rightarrow> time_ms \<Rightarrow> agent \<Rightarrow> jsval \<Rightarrow> execution_context \<Rightarrow> execution_result" where
  "completed_result eid t0 now a inp c =
     \<lparr>er_executionId = eid, er_agentId = ag_id a, er_success = True, er_output = agent_output now a inp c,
      er_startedAt = t0, er_finishedAt = now, er_latency = now - t0, er_usage = Some (calculateUsage (now - t0)),
      er_errors = [], er_metadata = js_spread [(''agentType'', JStr (ag_type a)), (''agentVersion'', JStr (ag_version a))] (xc_metadata c),
      er_status = ExCompleted\<rparr>"

text \<open>The \<open>catch\<close> branch: the only exception the body can throw is the cancellation.\<close>

definition cancelled_result :: "string \<Rightarrow> time_ms \<Rightarrow> time_ms \<Rightarrow> agent \<Rightarrow> execution_context \<Rightarrow> execution_result" where
  "cancelled_result eid t0 now a c =
     \<lparr>er_executionId = eid, er_agentId = ag_id a, er_success = False, er_output = JUndefined,
      er_startedAt = t0, er_finishedAt = now, er_latency = now - t0, er_usage = None,
      er_errors = [''Execution was cancelled''],
      er_metadata = js_spread [(''agentType'', JStr (ag_type a)), (''agentVersion'', JStr (ag_version a)),
        (''error'', JStr ''ExecutionCancelledException'')] (xc_metadata c),
      er_status = ExCancelled\<rparr>"

text \<open>\<open>finally\<close>: the timer is cleared and the controller forgotten.\<close>

definition exec_cleanup :: "string \<Rightarrow> executor \<Rightarrow> executor" where
  "exec_cleanup eid ex = ex\<lparr>ex_active := js_delete eid (ex_active ex), ex_timers := js_delete eid (ex_timers ex)\<rparr>"

text \<open>From the creation of the controller to the simulated work; \<open>Some\<close>: it is already over.\<close>

definition exec_begin ::
  "time_ms \<Rightarrow> string \<Rightarrow> agent \<Rightarrow> execution_context \<Rightarrow> executor \<Rightarrow> executor \<times> execution_result option" where
  "exec_begin now eid a c ex =
     (let ex1 = ex\<lparr>ex_active := js_set eid False (ex_active ex)\<rparr>;
          ex2 = (case xc_timeout c of
                   Some t \<Rightarrow> if t = 0 then ex1 else ex1\<lparr>ex_timers := js_set eid (now + t) (ex_timers ex1)\<rparr>
                 | None \<Rightarrow> ex1)
      in if xc_aborted c then (exec_cleanup eid ex2, Some (cancelled_result eid now now a c)) else (ex2, None))"

text \<open>When the work is over only the executor's own signal is looked at.\<close>

definition exec_end ::
  "time_ms \<Rightarrow> string \<Rightarrow> time_ms \<Rightarrow> agent \<Rightarrow> jsval \<Rightarrow> execution_context \<Rightarrow> executor \<Rightarrow> executor \<times> execution_result" where
  "exec_end now eid t0 a inp c ex =
     (exec_cleanup eid ex,
      if js_get (ex_active ex) eid = Some True then cancelled_result eid t0 now a c
      else completed_result eid t0 now a inp c)"

definition exec_cancel :: "string \<Rightarrow> executor \<Rightarrow> executor" where
  "exec_cancel eid ex = (if js_has (ex_active ex) eid then ex\<lparr>ex_active := js_set eid True (ex_active ex)\<rparr> else ex)"

definition exec_timeout :: "time_ms \<Rightarrow> string \<Rightarrow> int \<Rightarrow> executor \<Rightarrow> executor" where
  "exec_timeout now eid ms ex = (if js_has (ex_active ex) eid then ex\<lparr>ex_extra := ex_extra ex @ [(eid, now + ms)]\<rparr> else ex)"

text \<open>Every timer that is due fires.\<close>

definition fire_timers :: "time_ms \<Rightarrow> executor \<Rightarrow> executor" where
  "fire_timers now ex =
     (let due = filter (\<lambda>(eid, t). t \<le> now) (ex_timers ex @ ex_extra ex)
      in (fold (\<lambda>(eid, t). exec_cancel eid) due ex)
           \<lparr>ex_timers := filter (\<lambda>(eid, t). now < t) (ex_timers ex), ex_extra := filter (\<lambda>(eid, t). now < t) (ex_extra ex)\<rparr>)"

definition collectMetrics :: "execution_result \<Rightarrow> (string, int) js_map" where
  "collectMetrics r =
     (let use = (\<lambda>f. case er_usage r of Some u \<Rightarrow> f u | None \<Rightarrow> 0)
      in [(''latency'', er_latency r), (''success'', if er_success r then 1 else 0), (''failure'', if er_success r then 0 else 1),
          (''memoryUsed'', use us_memoryUsed), (''cpuTime'', use us_cpuTime), (''tokensUsed'', use us_tokensUsed),
          (''cost'', use us_cost), (''errorCount'', int (length (er_errors r)))])"

section \<open>The runtime\<close>

text \<open>A suspended call: registered, or with the executor under its own id, start time and agent.\<close>

datatype stage = Started | Launched string time_ms agent

record flight =
  fl_request :: execution_request
  fl_initial :: execution_result
  fl_stage :: stage

record agent_runtime =
  rt_agents :: agent_registry
  rt_registry :: execution_registry
  rt_executor :: executor
  rt_flights :: "(string, flight) js_map"

definition new_agent_runtime :: "agent_registry \<Rightarrow> agent_runtime" where
  "new_agent_runtime reg = \<lparr>rt_agents = reg, rt_registry = new_execution_registry, rt_executor = new_executor, rt_flights = []\<rparr>"

definition initial_result :: "time_ms \<Rightarrow> string \<Rightarrow> execution_request \<Rightarrow> execution_result" where
  "initial_result now i rq = \<lparr>er_executionId = i, er_agentId = xr_agentId rq, er_success = False, er_output = JUndefined,
     er_startedAt = now, er_finishedAt = now, er_latency = 0, er_usage = None, er_errors = [],
     er_metadata = js_spread (xc_metadata (xr_context rq)) [(''requestId'', JStr (xc_requestId (xr_context rq)))],
     er_status = ExPending\<rparr>"

definition rt_start :: "time_ms \<Rightarrow> string \<Rightarrow> execution_request \<Rightarrow> agent_runtime \<Rightarrow> agent_runtime" where
  "rt_start now i rq s =
     (let r = initial_result now i rq
      in s\<lparr>rt_registry := eg_register r (rt_registry s),
           rt_flights := js_set i \<lparr>fl_request = rq, fl_initial = r, fl_stage = Started\<rparr> (rt_flights s)\<rparr>)"

text \<open>The end of a call, with what it throws or returns.\<close>

definition land :: "string \<Rightarrow> agent_runtime \<Rightarrow> agent_runtime" where
  "land i s = s\<lparr>rt_flights := js_delete i (rt_flights s)\<rparr>"

definition error_name :: "agent_error \<Rightarrow> string" where
  "error_name e = (case e of AgentNotFound _ \<Rightarrow> ''AgentNotFoundException'' | AgentExecution _ _ _ \<Rightarrow> ''AgentExecutionException''
     | ExecutionNotFound _ \<Rightarrow> ''ExecutionNotFoundException'' | _ \<Rightarrow> ''Error'')"

text \<open>The \<open>catch\<close> of \<open>executeAgent\<close>; its own update may throw in turn.\<close>

definition rt_fail :: "time_ms \<Rightarrow> string \<Rightarrow> flight \<Rightarrow> agent_error \<Rightarrow> agent_runtime \<Rightarrow> agent_runtime \<times> (agent_error + execution_result)" where
  "rt_fail now i fl err s =
     (let r0 = fl_initial fl;
          r = r0\<lparr>er_finishedAt := now, er_latency := now - er_startedAt r0, er_errors := [err_message err],
                er_metadata := js_spread (er_metadata r0) [(''error'', JStr (error_name err))], er_status := ExFailed\<rparr>
      in case eg_update i r (rt_registry s) of
           (g, Inl e) \<Rightarrow> (land i s, Inl e)
         | (g, Inr _) \<Rightarrow> (land i (s\<lparr>rt_registry := g\<rparr>), Inl err))"

definition rt_record :: "time_ms \<Rightarrow> string \<Rightarrow> flight \<Rightarrow> execution_result \<Rightarrow> agent_runtime \<Rightarrow> agent_runtime \<times> (agent_error + execution_result)" where
  "rt_record now i fl r s =
     (case eg_update i (r\<lparr>er_executionId := i\<rparr>) (rt_registry s) of
        (g, Inl e) \<Rightarrow> rt_fail now i fl e s
      | (g, Inr _) \<Rightarrow> (land i (s\<lparr>rt_registry := g\<rparr>), Inr (r\<lparr>er_executionId := i\<rparr>)))"

definition run_context :: "execution_request \<Rightarrow> execution_context" where
  "run_context rq = (xr_context rq)\<lparr>xc_timeout := xr_timeout rq\<rparr>"

text \<open>\<open>eid\<close> is the executor's own id, \<open>h\<close> the agent's health. \<open>None\<close>: the call is suspended again.\<close>

definition rt_launch ::
  "time_ms \<Rightarrow> string \<Rightarrow> string \<Rightarrow> agent_health \<Rightarrow> agent_runtime \<Rightarrow> agent_runtime \<times> (agent_error + execution_result) option" where
  "rt_launch now i eid h s =
     (case js_get (rt_flights s) i of
        None \<Rightarrow> (s, None)
      | Some fl \<Rightarrow>
          (let rq = fl_request fl
           in case find_agent (rt_agents s) (xr_agentId rq) of
                None \<Rightarrow> map_prod id Some (rt_fail now i fl (AgentNotFound (xr_agentId rq)) s)
              | Some a \<Rightarrow>
                  (case eg_update i ((fl_initial fl)\<lparr>er_status := ExRunning, er_startedAt := now\<rparr>) (rt_registry s) of
                     (g, Inl e) \<Rightarrow> map_prod id Some (rt_fail now i fl e s)
                   | (g, Inr _) \<Rightarrow>
                       (let s1 = s\<lparr>rt_registry := g\<rparr>
                        in case exec_validate (rt_agents s) h a of
                             Some e \<Rightarrow> map_prod id Some (rt_fail now i fl e s1)
                           | None \<Rightarrow>
                               (case exec_begin now eid a (run_context rq) (rt_executor s1) of
                                  (ex, Some r) \<Rightarrow> map_prod id Some (rt_record now i fl r (s1\<lparr>rt_executor := ex\<rparr>))
                                | (ex, None) \<Rightarrow> (s1\<lparr>rt_executor := ex,
                                     rt_flights := js_set i (fl\<lparr>fl_stage := Launched eid now a\<rparr>) (rt_flights s1)\<rparr>, None))))))"

definition rt_finish :: "time_ms \<Rightarrow> string \<Rightarrow> agent_runtime \<Rightarrow> agent_runtime \<times> (agent_error + execution_result) option" where
  "rt_finish now i s =
     (case js_get (rt_flights s) i of
        Some fl \<Rightarrow>
          (case fl_stage fl of
             Started \<Rightarrow> (s, None)
           | Launched eid t0 a \<Rightarrow>
               (case exec_end now eid t0 a (xr_input (fl_request fl)) (run_context (fl_request fl)) (rt_executor s) of
                  (ex, r) \<Rightarrow> map_prod id Some (rt_record now i fl r (s\<lparr>rt_executor := ex\<rparr>))))
      | None \<Rightarrow> (s, None))"

text \<open>A whole call of \<open>executeAgent\<close> that nothing interrupts, with its three clock readings.\<close>

definition run_call ::
  "time_ms \<times> time_ms \<times> time_ms \<Rightarrow> string \<Rightarrow> string \<Rightarrow> (string \<Rightarrow> agent_health) \<Rightarrow> execution_request \<Rightarrow> agent_runtime
    \<Rightarrow> agent_runtime \<times> (agent_error + execution_result) option" where
  "run_call = (\<lambda>(t0, t1, t2) i eid health rq s.
     case rt_launch t1 i eid (health (xr_agentId rq)) (rt_start t0 i rq s) of
       (s1, Some res) \<Rightarrow> (s1, Some res)
     | (s1, None) \<Rightarrow> rt_finish t2 i s1)"

text \<open>\<open>cancelExecution\<close> hands the executor the id of the runtime, under which it has no controller.\<close>

definition cancelExecution :: "time_ms \<Rightarrow> string \<Rightarrow> agent_runtime \<Rightarrow> agent_runtime \<times> (agent_error + unit)" where
  "cancelExecution now i s =
     (case eg_get i (rt_registry s) of
        None \<Rightarrow> (s, Inl (ExecutionNotFound i))
      | Some e \<Rightarrow>
          (if \<not> is_live (er_status e) then (s, Inr ())
           else (let s1 = s\<lparr>rt_executor := exec_cancel i (rt_executor s)\<rparr>;
                     r = e\<lparr>er_success := False, er_finishedAt := now, er_latency := now - er_startedAt e,
                           er_errors := [''Execution was cancelled''], er_status := ExCancelled\<rparr>
                 in case eg_update i r (rt_registry s1) of (g, res) \<Rightarrow> (s1\<lparr>rt_registry := g\<rparr>, res))))"

definition getExecution :: "string \<Rightarrow> agent_runtime \<Rightarrow> agent_error + execution_result" where
  "getExecution i s = (case eg_get i (rt_registry s) of None \<Rightarrow> Inl (ExecutionNotFound i) | Some e \<Rightarrow> Inr e)"

definition listExecutions :: "agent_runtime \<Rightarrow> execution_result list" where
  "listExecutions s = eg_list (rt_registry s)"

definition rt_cleanup :: "time_ms \<Rightarrow> int \<Rightarrow> agent_runtime \<Rightarrow> agent_runtime \<times> nat" where
  "rt_cleanup now maxAge s = (case eg_cleanup now maxAge (rt_registry s) of (g, n) \<Rightarrow> (s\<lparr>rt_registry := g\<rparr>, n))"

definition rt_getMetrics :: "agent_runtime \<Rightarrow> execution_metrics" where
  "rt_getMetrics s = eg_getMetrics (rt_registry s)"

definition listActiveExecutions :: "agent_runtime \<Rightarrow> execution_result list" where
  "listActiveExecutions s = eg_listByStatus ExRunning (rt_registry s)"

definition listExecutionsByAgent :: "string \<Rightarrow> agent_runtime \<Rightarrow> execution_result list" where
  "listExecutionsByAgent a s = eg_listByAgent a (rt_registry s)"

section \<open>The semaphore of a batch\<close>

text \<open>\<open>createSemaphore\<close>: a count and a queue of waiting requests, by their position in the batch.\<close>

record semaphore =
  sem_limit :: int
  sem_count :: int
  sem_queue :: "nat list"

definition createSemaphore :: "int \<Rightarrow> semaphore" where
  "createSemaphore limit = \<lparr>sem_limit = limit, sem_count = 0, sem_queue = []\<rparr>"

text \<open>\<open>True\<close>: acquired at once.\<close>

definition acquire :: "nat \<Rightarrow> semaphore \<Rightarrow> semaphore \<times> bool" where
  "acquire i s = (if sem_count s < sem_limit s then (s\<lparr>sem_count := sem_count s + 1\<rparr>, True)
     else (s\<lparr>sem_queue := sem_queue s @ [i]\<rparr>, False))"

text \<open>The request that is woken, which takes over the permit.\<close>

definition release :: "semaphore \<Rightarrow> semaphore \<times> nat option" where
  "release s = (case sem_queue s of [] \<Rightarrow> (s\<lparr>sem_count := sem_count s - 1\<rparr>, None) | i # q \<Rightarrow> (s\<lparr>sem_queue := q\<rparr>, Some i))"

section \<open>Batches\<close>

text \<open>
  \<open>executeBatch\<close>: \<open>bt_running\<close> are the requests between acquire and release, \<open>bt_done\<close> those
  whose promise has settled, in order.
\<close>

record batch =
  bt_failFast :: bool
  bt_sem :: semaphore
  bt_running :: "nat list"
  bt_done :: "nat list"
  bt_results :: "execution_result list"
  bt_errors :: "string list"

definition batch_acquire :: "nat \<Rightarrow> batch \<Rightarrow> batch" where
  "batch_acquire i b = (case acquire i (bt_sem b) of
     (s, True) \<Rightarrow> b\<lparr>bt_sem := s, bt_running := bt_running b @ [i]\<rparr> | (s, False) \<Rightarrow> b\<lparr>bt_sem := s\<rparr>)"

text \<open>\<open>request.maxConcurrency || 5\<close>; every request asks for a permit before anything runs.\<close>

definition batch_start :: "int option \<Rightarrow> bool \<Rightarrow> nat \<Rightarrow> batch" where
  "batch_start maxC failFast n =
     (let limit = (case maxC of Some c \<Rightarrow> if c = 0 then 5 else c | None \<Rightarrow> 5)
      in fold batch_acquire [0..<n] \<lparr>bt_failFast = failFast, bt_sem = createSemaphore limit, bt_running = [], bt_done = [],
           bt_results = [], bt_errors = []\<rparr>)"

text \<open>
  The rest of \<open>executeRequest\<close> once \<open>executeAgent\<close> has settled: with \<open>failFast\<close> an unsuccessful
  result is thrown, caught, recorded as an error and rethrown, into a promise that
  \<open>Promise.allSettled\<close> only waits for.
\<close>

definition batch_settle :: "nat \<Rightarrow> agent_error + execution_result \<Rightarrow> batch \<Rightarrow> batch" where
  "batch_settle i res b =
     (let b1 = (case res of
            Inr r \<Rightarrow> b\<lparr>bt_results := bt_results b @ [r],
                        bt_errors := (if bt_failFast b \<and> \<not> er_success r
                           then bt_errors b @ [err_message (AgentExecution (er_agentId r) (er_executionId r) (join_with '', '' (er_errors r)))]
                           else bt_errors b)\<rparr>
          | Inl e \<Rightarrow> b\<lparr>bt_errors := bt_errors b @ [err_message e]\<rparr>);
          b2 = b1\<lparr>bt_running := remove1 i (bt_running b1), bt_done := bt_done b1 @ [i]\<rparr>
      in case release (bt_sem b2) of
           (s, None) \<Rightarrow> b2\<lparr>bt_sem := s\<rparr>
         | (s, Some j) \<Rightarrow> b2\<lparr>bt_sem := s, bt_running := bt_running b2 @ [j]\<rparr>)"

record batch_result =
  br_results :: "execution_result list"
  br_success :: bool
  br_requestCount :: nat
  br_successCount :: nat
  br_failureCount :: nat
  br_errorCount :: nat

definition batch_result_of :: "nat \<Rightarrow> batch \<Rightarrow> batch_result" where
  "batch_result_of n b = \<lparr>br_results = bt_results b, br_success = (bt_errors b = [] \<and> list_all er_success (bt_results b)),
     br_requestCount = n, br_successCount = length (filter er_success (bt_results b)),
     br_failureCount = length (filter (\<lambda>r. \<not> er_success r) (bt_results b)), br_errorCount = length (bt_errors b)\<rparr>"

end
