(* ===== verification/Runtime_Props.thy ===== *)
theory Runtime_Props
  imports Execution_Runtime
begin

text \<open>
  The runtime's registry agrees with itself in every state that interleaved calls lead to; what
  cancelling and timing out do; how a batch uses its permits.
\<close>

section \<open>The registry of the runtime\<close>

definition eg_inv :: "execution_registry \<Rightarrow> bool" where
  "eg_inv g = (js_wf (eg_executions g) \<and> distinct (eg_active g)
     \<and> set (eg_active g) = {i. \<exists>r. js_get (eg_executions g) i = Some r \<and> is_live (er_status r)}
     \<and> (\<forall>i r. js_get (eg_executions g) i = Some r \<longrightarrow> er_executionId r = i))"

lemma set_add_simps [simp]: "set (set_add x xs) = insert x (set xs)" "distinct xs \<Longrightarrow> distinct (set_add x xs)"
  by (auto simp: set_add_def)

lemma set_remove_simps [simp]: "set (set_remove x xs) = set xs - {x}" "distinct xs \<Longrightarrow> distinct (set_remove x xs)"
  by (auto simp: set_remove_def)

lemma eg_register_inv [inv_intros]:
  "eg_inv g \<Longrightarrow> \<not> js_has (eg_executions g) (er_executionId r) \<Longrightarrow> eg_inv (eg_register r g)"
  by (auto simp: eg_inv_def eg_register_def js_has_iff)

lemma eg_update_inv [inv_intros]:
  "eg_inv g \<Longrightarrow> er_executionId r = i \<Longrightarrow> eg_inv (fst (eg_update i r g))"
  by (auto simp: eg_inv_def eg_update_def)

lemma eg_cleanup_get:
  "js_wf (eg_executions g) \<Longrightarrow> js_get (eg_executions (fst (eg_cleanup now a g))) i = Some r \<longleftrightarrow>
     js_get (eg_executions g) i = Some r \<and> \<not> stale_execution now a g (i, r)"
  using js_get_filter [of "eg_executions g" "\<lambda>k e. \<not> stale_execution now a g (k, e)" i r]
  by (simp add: eg_cleanup_def Let_def case_prod_unfold)

lemma eg_cleanup_inv [inv_intros]:
  assumes "eg_inv g"
  shows "eg_inv (fst (eg_cleanup now a g))"
proof -
  have w: "js_wf (eg_executions g)" using assms by (simp add: eg_inv_def)
  have act: "eg_active (fst (eg_cleanup now a g)) = eg_active g" by (simp add: eg_cleanup_def Let_def)
  have wf: "js_wf (eg_executions (fst (eg_cleanup now a g)))" using w by (simp add: eg_cleanup_def Let_def)
  have live: "\<not> stale_execution now a g (i, r)" if "js_get (eg_executions g) i = Some r" "is_live (er_status r)" for i r
  proof -
    have "i \<in> set (eg_active g)" using assms that unfolding eg_inv_def by blast
    then show ?thesis by (simp add: stale_execution_def)
  qed
  show ?thesis unfolding eg_inv_def act using assms live wf unfolding eg_inv_def eg_cleanup_get [OF w] by blast
qed

definition rt_inv :: "agent_runtime \<Rightarrow> bool" where
  "rt_inv s = (eg_inv (rt_registry s)
     \<and> (\<forall>i fl. js_get (rt_flights s) i = Some fl \<longrightarrow> er_executionId (fl_initial fl) = i))"

text \<open>The steps of interleaved calls. A fresh id has never been used (\<open>randomUUID\<close>).\<close>

inductive runtime_reachable :: "agent_runtime \<Rightarrow> bool" where
  start: "runtime_reachable (new_agent_runtime reg)"
| call: "runtime_reachable s \<Longrightarrow> \<not> js_has (eg_executions (rt_registry s)) i \<Longrightarrow> runtime_reachable (rt_start now i rq s)"
| launch: "runtime_reachable s \<Longrightarrow> runtime_reachable (fst (rt_launch now i eid h s))"
| finish: "runtime_reachable s \<Longrightarrow> runtime_reachable (fst (rt_finish now i s))"
| cancel: "runtime_reachable s \<Longrightarrow> runtime_reachable (fst (cancelExecution now i s))"
| clean: "runtime_reachable s \<Longrightarrow> runtime_reachable (fst (rt_cleanup now a s))"
| tick: "runtime_reachable s \<Longrightarrow> runtime_reachable (s\<lparr>rt_executor := fire_timers now (rt_executor s)\<rparr>)"

lemma land_inv: "rt_inv s \<Longrightarrow> rt_inv (land i s)"
  by (simp add: rt_inv_def land_def)

lemma rt_inv_registry: "rt_inv s \<Longrightarrow> eg_inv g \<Longrightarrow> rt_inv (s\<lparr>rt_registry := g\<rparr>)"
  by (simp add: rt_inv_def)

lemma rt_inv_executor: "rt_inv (s\<lparr>rt_executor := ex\<rparr>) = rt_inv s"
  by (simp add: rt_inv_def)

lemma eg_update_pair: "eg_inv g \<Longrightarrow> er_executionId r = i \<Longrightarrow> eg_update i r g = (g', x) \<Longrightarrow> eg_inv g'"
  using eg_update_inv [of g r i] by simp

lemma rt_fail_inv:
  assumes "rt_inv s" and "er_executionId (fl_initial fl) = i"
  shows "rt_inv (fst (rt_fail now i fl e s))"
proof -
  let ?r = "(fl_initial fl)\<lparr>er_finishedAt := now, er_latency := now - er_startedAt (fl_initial fl), er_errors := [err_message e],
      er_metadata := js_spread (er_metadata (fl_initial fl)) [(''error'', JStr (error_name e))], er_status := ExFailed\<rparr>"
  obtain g x where u: "eg_update i ?r (rt_registry s) = (g, x)" by fastforce
  have "eg_inv g" by (rule eg_update_pair [OF _ _ u]) (use assms in \<open>simp_all add: rt_inv_def\<close>)
  then show ?thesis using u assms by (cases x) (simp_all add: rt_fail_def Let_def rt_inv_def land_def)
qed

lemma rt_record_inv:
  assumes "rt_inv s" and "er_executionId (fl_initial fl) = i"
  shows "rt_inv (fst (rt_record now i fl r s))"
proof -
  obtain g x where u: "eg_update i (r\<lparr>er_executionId := i\<rparr>) (rt_registry s) = (g, x)" by fastforce
  have "eg_inv g" by (rule eg_update_pair [OF _ _ u]) (use assms in \<open>simp_all add: rt_inv_def\<close>)
  then show ?thesis using u assms rt_fail_inv [OF assms]
    by (cases x) (simp_all add: rt_record_def rt_inv_def land_def)
qed

lemma rt_launch_inv:
  assumes "rt_inv s"
  shows "rt_inv (fst (rt_launch now i eid h s))"
proof (cases "js_get (rt_flights s) i")
  case (Some fl)
  have id: "er_executionId (fl_initial fl) = i" using assms Some by (simp add: rt_inv_def)
  note fail = rt_fail_inv [OF _ id]
  show ?thesis
  proof (cases "find_agent (rt_agents s) (xr_agentId (fl_request fl))")
    case None
    then show ?thesis using Some fail [OF assms] by (simp add: rt_launch_def Let_def)
  next
    case a: (Some a)
    obtain g x where u: "eg_update i ((fl_initial fl)\<lparr>er_status := ExRunning, er_startedAt := now\<rparr>) (rt_registry s) = (g, x)"
      by fastforce
    have "eg_inv g" by (rule eg_update_pair [OF _ _ u]) (use assms id in \<open>simp_all add: rt_inv_def\<close>)
    then have s1: "rt_inv (s\<lparr>rt_registry := g\<rparr>)" by (rule rt_inv_registry [OF assms])
    have s2: "rt_inv (s\<lparr>rt_registry := g, rt_executor := ex\<rparr>)" for ex using s1 by (simp add: rt_inv_def)
    have s3: "rt_inv (s\<lparr>rt_registry := g, rt_executor := ex, rt_flights := js_set i (fl\<lparr>fl_stage := st\<rparr>) (rt_flights s)\<rparr>)" for ex st
      using s1 id by (simp add: rt_inv_def)
    show ?thesis
      using Some a u fail [OF assms] fail [OF s1] rt_record_inv [OF s2 id] s3
      by (auto simp: rt_launch_def Let_def split: sum.split option.split prod.split)
  qed
qed (use assms in \<open>simp add: rt_launch_def\<close>)

lemma rt_finish_inv:
  assumes "rt_inv s"
  shows "rt_inv (fst (rt_finish now i s))"
proof (cases "js_get (rt_flights s) i")
  case (Some fl)
  have id: "er_executionId (fl_initial fl) = i" using assms Some by (simp add: rt_inv_def)
  have "rt_inv (s\<lparr>rt_executor := ex\<rparr>)" for ex using assms by (simp add: rt_inv_executor)
  then show ?thesis using Some rt_record_inv [OF _ id] assms
    by (auto simp: rt_finish_def split: stage.split prod.split)
qed (use assms in \<open>simp add: rt_finish_def\<close>)

lemma cancelExecution_inv:
  assumes "rt_inv s"
  shows "rt_inv (fst (cancelExecution now i s))"
proof (cases "eg_get i (rt_registry s)")
  case (Some e)
  have e: "er_executionId e = i" using assms Some by (simp add: rt_inv_def eg_inv_def eg_get_def)
  let ?r = "e\<lparr>er_success := False, er_finishedAt := now, er_latency := now - er_startedAt e,
      er_errors := [''Execution was cancelled''], er_status := ExCancelled\<rparr>"
  obtain g x where u: "eg_update i ?r (rt_registry s) = (g, x)" by fastforce
  have "eg_inv g" by (rule eg_update_pair [OF _ _ u]) (use assms e in \<open>simp_all add: rt_inv_def\<close>)
  then show ?thesis using assms Some u by (simp add: cancelExecution_def Let_def rt_inv_def)
qed (use assms in \<open>simp add: cancelExecution_def\<close>)

lemma runtime_reachable_inv: "runtime_reachable s \<Longrightarrow> rt_inv s"
proof (induction rule: runtime_reachable.induct)
  case (start reg)
  then show ?case by (simp add: rt_inv_def eg_inv_def new_agent_runtime_def new_execution_registry_def)
next
  case (call s i now rq)
  then show ?case
    by (simp add: rt_inv_def rt_start_def Let_def eg_register_inv initial_result_def)
next
  case (clean s now a)
  then show ?case using eg_cleanup_inv [of "rt_registry s" now a]
    by (simp add: rt_inv_def rt_cleanup_def case_prod_unfold)
qed (simp_all add: rt_launch_inv rt_finish_inv cancelExecution_inv rt_inv_executor)

lemma length_active:
  assumes "eg_inv g"
  shows "length (eg_active g) = length (filter (\<lambda>r. is_live (er_status r)) (eg_list g))"
proof -
  let ?live = "\<lambda>p. is_live (er_status (snd p))"
  have w: "distinct (map fst (eg_executions g))" using assms by (simp add: eg_inv_def js_wf_def)
  have "i \<in> set (eg_active g) \<longleftrightarrow> (\<exists>r. (i, r) \<in> set (eg_executions g) \<and> is_live (er_status r))" for i
  proof -
    have "set (eg_active g) = {i. \<exists>r. js_get (eg_executions g) i = Some r \<and> is_live (er_status r)}" "js_wf (eg_executions g)"
      using assms unfolding eg_inv_def by blast+
    then show ?thesis by (simp add: js_get_wf)
  qed
  then have "set (eg_active g) = set (map fst (filter ?live (eg_executions g)))" by force
  moreover have "distinct (map fst (filter ?live (eg_executions g)))" using w by (simp add: distinct_map_filter)
  moreover have "distinct (eg_active g)" using assms by (simp add: eg_inv_def)
  ultimately have "length (eg_active g) = length (map fst (filter ?live (eg_executions g)))"
    by (metis distinct_card)
  also have "\<dots> = length (filter (\<lambda>r. is_live (er_status r)) (eg_list g))"
    by (simp add: eg_list_def js_values_def filter_map o_def)
  finally show ?thesis .
qed


definition demo_exec_agent :: agent where
  "demo_exec_agent = \<lparr>ag_id = ''a'', ag_name = ''A'', ag_version = ''1'', ag_type = ''task'', ag_capabilities = []\<rparr>"

definition demo_exec_request :: execution_request where
  "demo_exec_request = \<lparr>xr_agentId = ''a'', xr_input = JNull, xr_context = \<lparr>xc_requestId = ''q'', xc_workspaceId = ''w'',
     xc_userId = ''u'', xc_metadata = [], xc_timeout = None, xc_aborted = False\<rparr>, xr_timeout = Some 50\<rparr>"

definition demo_healthy :: agent_health where
  "demo_healthy = \<lparr>h_status = Healthy, h_uptime = 0, h_lastHeartbeat = 0, h_errors = [], h_warnings = []\<rparr>"

definition demo_launched :: agent_runtime where
  "demo_launched = fst (rt_launch 1 ''i'' ''x'' demo_healthy (rt_start 0 ''i'' demo_exec_request (new_agent_runtime [(''a'', demo_exec_agent)])))"

lemma demo_launched_reachable: "runtime_reachable demo_launched"
  unfolding demo_launched_def
  by (intro runtime_reachable.launch runtime_reachable.call runtime_reachable.start) (simp add: new_agent_runtime_def new_execution_registry_def)


section \<open>Cancelling and timing out\<close>

lemma exec_cancel_unknown: "\<not> js_has (ex_active ex) i \<Longrightarrow> exec_cancel i ex = ex"
  by (simp add: exec_cancel_def)

lemma rt_record_present:
  "js_has (eg_executions (rt_registry s)) i \<Longrightarrow> snd (rt_record now i fl r s) = Inr (r\<lparr>er_executionId := i\<rparr>)
     \<and> eg_get i (rt_registry (fst (rt_record now i fl r s))) = Some (r\<lparr>er_executionId := i\<rparr>)"
  by (simp add: rt_record_def eg_update_def land_def eg_get_def)

text \<open>\<open>cancelExecution\<close> marks a running execution cancelled but does not stop it: the executor
  knows the execution by another id, so it goes on, the call returns the very result it would have
  returned, and the registry's entry is overwritten with it.\<close>
theorem runtime_cancel_ignored:
  assumes "js_get (rt_flights s) i = Some fl" and "fl_stage fl = Launched eid t0 a"
    and "eg_get i (rt_registry s) = Some e" and "is_live (er_status e)"
    and "js_has (ex_active (rt_executor s)) i = False"
  shows "let s1 = fst (cancelExecution t i s)
    in map_option er_status (eg_get i (rt_registry s1)) = Some ExCancelled
      \<and> snd (rt_finish now i s1) = snd (rt_finish now i s)
      \<and> eg_get i (rt_registry (fst (rt_finish now i s1))) = eg_get i (rt_registry (fst (rt_finish now i s)))"
proof -
  let ?s1 = "fst (cancelExecution t i s)"
  have has: "js_has (eg_executions (rt_registry s)) i" using assms(3) by (auto simp: eg_get_def js_has_iff)
  have c: "rt_executor ?s1 = rt_executor s" "rt_flights ?s1 = rt_flights s" "js_has (eg_executions (rt_registry ?s1)) i"
    "map_option er_status (eg_get i (rt_registry ?s1)) = Some ExCancelled"
    using assms(3-5) has
    by (simp_all add: cancelExecution_def Let_def exec_cancel_unknown eg_update_def eg_get_def)
  obtain ex r where e: "exec_end now eid t0 a (xr_input (fl_request fl)) (run_context (fl_request fl)) (rt_executor s) = (ex, r)"
    by fastforce
  have f: "rt_finish now i x = map_prod id Some (rt_record now i fl r (x\<lparr>rt_executor := ex\<rparr>))"
    if "rt_executor x = rt_executor s" "rt_flights x = rt_flights s" for x
    using assms(1,2) that e by (simp add: rt_finish_def)
  have "snd (rt_finish now i x) = Some (Inr (r\<lparr>er_executionId := i\<rparr>))
      \<and> eg_get i (rt_registry (fst (rt_finish now i x))) = Some (r\<lparr>er_executionId := i\<rparr>)"
    if "rt_executor x = rt_executor s" "rt_flights x = rt_flights s" "js_has (eg_executions (rt_registry x)) i" for x
    using rt_record_present [of "x\<lparr>rt_executor := ex\<rparr>" i now fl r] f [OF that(1,2)] that(3) by simp
  from this [of s] this [of ?s1] show ?thesis using c has by (simp add: Let_def)
qed

theorem runtime_cancel_ignored_witness:
  "map_option (map_sum id er_status) (snd (rt_finish 101 ''i'' (fst (cancelExecution 50 ''i'' demo_launched)))) = Some (Inr ExCompleted)"
proof -
  let ?s = "rt_start 0 ''i'' demo_exec_request (new_agent_runtime [(''a'', demo_exec_agent)])"
  have d: "js_get (rt_flights demo_launched) ''i'' = Some ((the (js_get (rt_flights ?s) ''i''))\<lparr>fl_stage := Launched ''x'' 1 demo_exec_agent\<rparr>)"
    "fl_stage ((the (js_get (rt_flights ?s) ''i''))\<lparr>fl_stage := Launched ''x'' 1 demo_exec_agent\<rparr>) = Launched ''x'' 1 demo_exec_agent"
    "eg_get ''i'' (rt_registry demo_launched) = Some ((initial_result 0 ''i'' demo_exec_request)\<lparr>er_status := ExRunning, er_startedAt := 1\<rparr>)"
    "is_live (er_status ((initial_result 0 ''i'' demo_exec_request)\<lparr>er_status := ExRunning, er_startedAt := 1\<rparr>))"
    "js_has (ex_active (rt_executor demo_launched)) ''i'' = False" by code_simp+
  have "map_option (map_sum id er_status) (snd (rt_finish 101 ''i'' demo_launched)) = Some (Inr ExCompleted)" by code_simp
  then show ?thesis using runtime_cancel_ignored [OF d, of 50 101] by (simp add: Let_def)
qed

lemma in_fst_image: "x \<in> fst ` S \<longleftrightarrow> (\<exists>y. (x, y) \<in> S)"
  by force

lemma cancel_all:
  "js_get (ex_active (fold (\<lambda>(eid, t). exec_cancel eid) due ex)) i =
     (if i \<in> fst ` set due then map_option (\<lambda>_. True) (js_get (ex_active ex) i) else js_get (ex_active ex) i)"
proof (induction due arbitrary: ex)
  case (Cons p due)
  obtain k t where p: "p = (k, t)" by (cases p)
  have "js_get (ex_active (exec_cancel k ex)) i = (if i = k then map_option (\<lambda>_. True) (js_get (ex_active ex) i) else js_get (ex_active ex) i)"
    by (auto simp: exec_cancel_def js_has_iff)
  then show ?case using Cons.IH [of "exec_cancel k ex"] by (auto simp: p option.map_comp o_def)
qed simp

lemma exec_begin_None:
  "exec_begin now eid a c ex = (ex1, None) \<Longrightarrow> js_get (ex_active ex1) eid = Some False
     \<and> (\<forall>t. xc_timeout c = Some t \<and> t \<noteq> 0 \<longrightarrow> js_get (ex_timers ex1) eid = Some (now + t))"
  by (auto simp: exec_begin_def Let_def split: option.splits if_splits)

text \<open>An execution whose time runs out before it is done is reported as cancelled, with an
  unsuccessful result that is returned and not thrown; one whose time does not run out completes
  even if the caller's token has been aborted since it began; no execution ever gets the status
  timeout.\<close>
theorem timeout_reported_as_cancelled:
  assumes "exec_begin now eid a c ex = (ex1, None)" and "xc_timeout c = Some t" and "0 < t"
    and "filter (\<lambda>p. fst p = eid) (ex_extra ex1) = []" and "js_wf (ex_timers ex1)"
  shows "snd (exec_end now' eid now a inp c (fire_timers at ex1))
    = (if now + t \<le> at then cancelled_result eid now now' a c else completed_result eid now now' a inp c)
   \<and> er_status (snd (exec_end now' eid now a inp (c\<lparr>xc_aborted := ab\<rparr>) any)) \<in> {ExCompleted, ExCancelled}"
proof -
  have b: "js_get (ex_active ex1) eid = Some False" "js_get (ex_timers ex1) eid = Some (now + t)"
    using exec_begin_None [OF assms(1)] assms(2,3) by simp_all
  let ?due = "filter (\<lambda>(eid, t). t \<le> at) (ex_timers ex1 @ ex_extra ex1)"
  have x: "p \<notin> set (ex_extra ex1)" if "fst p = eid" for p using assms(4) that by (auto simp: filter_empty_conv)
  have "(eid, v) \<in> set (ex_timers ex1) \<longleftrightarrow> v = now + t" for v using b(2) js_get_wf [OF assms(5), of eid v] by auto
  then have "(eid, v) \<in> set ?due \<longleftrightarrow> v = now + t \<and> v \<le> at" for v using x [of "(eid, v)"] by simp
  then have "eid \<in> fst ` set ?due \<longleftrightarrow> now + t \<le> at" unfolding in_fst_image by simp
  then have "js_get (ex_active (fold (\<lambda>(eid, t). exec_cancel eid) ?due ex1)) eid = Some (now + t \<le> at)"
    by (auto simp: cancel_all b(1) simp del: set_filter set_append filter_append)
  then have "js_get (ex_active (fire_timers at ex1)) eid = Some (now + t \<le> at)"
    unfolding fire_timers_def Let_def by simp
  then show ?thesis by (simp add: exec_end_def completed_result_def cancelled_result_def)
qed

theorem timeout_reported_as_cancelled_witness:
  "er_status (snd (exec_end 101 ''x'' 1 demo_exec_agent JNull (run_context demo_exec_request)
     (fire_timers 60 (fst (exec_begin 1 ''x'' demo_exec_agent (run_context demo_exec_request) new_executor))))) = ExCancelled"
proof -
  let ?ex = "fst (exec_begin 1 ''x'' demo_exec_agent (run_context demo_exec_request) new_executor)"
  have d: "exec_begin 1 ''x'' demo_exec_agent (run_context demo_exec_request) new_executor = (?ex, None)"
    "xc_timeout (run_context demo_exec_request) = Some 50" "filter (\<lambda>p. fst p = ''x'') (ex_extra ?ex) = []" by code_simp+
  have w: "js_wf (ex_timers ?ex)"
    by (simp add: exec_begin_def new_executor_def run_context_def demo_exec_request_def Let_def)
  show ?thesis
    using timeout_reported_as_cancelled [OF d(1,2) _ d(3) w, of 101 JNull 60] by (simp add: cancelled_result_def)
qed


section \<open>Batches\<close>

definition batch_limit :: "int option \<Rightarrow> int" where
  "batch_limit maxC = (case maxC of Some c \<Rightarrow> if c = 0 then 5 else c | None \<Rightarrow> 5)"

inductive batch_reachable :: "int option \<Rightarrow> bool \<Rightarrow> nat \<Rightarrow> batch \<Rightarrow> bool" for maxC ff n where
  "batch_reachable maxC ff n (batch_start maxC ff n)"
| "batch_reachable maxC ff n b \<Longrightarrow> i \<in> set (bt_running b) \<Longrightarrow> batch_reachable maxC ff n (batch_settle i res b)"

text \<open>What the semaphore guarantees, for the requests of \<open>known\<close>.\<close>

definition batch_inv :: "int \<Rightarrow> nat list \<Rightarrow> batch \<Rightarrow> bool" where
  "batch_inv limit known b = (sem_limit (bt_sem b) = limit \<and> sem_count (bt_sem b) = int (length (bt_running b))
     \<and> int (length (bt_running b)) \<le> limit
     \<and> (sem_queue (bt_sem b) \<noteq> [] \<longrightarrow> int (length (bt_running b)) = limit)
     \<and> mset (bt_running b @ sem_queue (bt_sem b) @ bt_done b) = mset known)"

lemma batch_acquire_inv:
  assumes "batch_inv limit known b"
  shows "batch_inv limit (known @ [i]) (batch_acquire i b)"
proof (cases "int (length (bt_running b)) < limit")
  case True
  then have "sem_queue (bt_sem b) = []" using assms unfolding batch_inv_def by auto
  then show ?thesis using assms True by (auto simp: batch_inv_def batch_acquire_def acquire_def)
next
  case False
  then show ?thesis using assms by (auto simp: batch_inv_def batch_acquire_def acquire_def)
qed

lemma batch_start_inv:
  assumes "0 \<le> batch_limit maxC"
  shows "batch_inv (batch_limit maxC) [0..<n] (batch_start maxC ff n)"
proof -
  let ?b0 = "\<lparr>bt_failFast = ff, bt_sem = createSemaphore (batch_limit maxC), bt_running = [], bt_done = [],
       bt_results = [], bt_errors = []\<rparr>"
  have "batch_inv (batch_limit maxC) xs (fold batch_acquire xs ?b0)" for xs
  proof (induction xs rule: rev_induct)
    case Nil
    then show ?case using assms by (simp add: batch_inv_def createSemaphore_def)
  next
    case (snoc x xs)
    then show ?case using batch_acquire_inv by simp
  qed
  then show ?thesis by (simp add: batch_start_def batch_limit_def Let_def)
qed

lemma batch_settle_sem:
  "bt_sem (batch_settle i res b) = fst (release (bt_sem b))"
  "bt_running (batch_settle i res b) = remove1 i (bt_running b) @ (case snd (release (bt_sem b)) of None \<Rightarrow> [] | Some j \<Rightarrow> [j])"
  "bt_done (batch_settle i res b) = bt_done b @ [i]"
  by (auto simp: batch_settle_def Let_def split: sum.split prod.split option.split)

lemma batch_settle_inv:
  assumes "batch_inv limit known b" and "i \<in> set (bt_running b)"
  shows "batch_inv limit known (batch_settle i res b)"
proof -
  define R where "R = remove1 i (bt_running b)"
  have r: "length (bt_running b) = Suc (length R)"
    using assms(2) length_pos_if_in_set [OF assms(2)] by (simp add: R_def length_remove1)
  have m: "mset (bt_running b) = add_mset i (mset R)" using assms(2) by (simp add: R_def)
  show ?thesis
  proof (cases "sem_queue (bt_sem b)")
    case Nil
    then show ?thesis using assms(1) r m by (simp add: batch_inv_def batch_settle_sem release_def flip: R_def)
  next
    case (Cons j q)
    then have "int (length R) + 1 = limit" using assms(1) r by (simp add: batch_inv_def)
    then show ?thesis using assms(1) r m Cons by (simp add: batch_inv_def batch_settle_sem release_def flip: R_def)
  qed
qed

lemma batch_reachable_inv: "batch_reachable maxC ff n b \<Longrightarrow> 0 \<le> batch_limit maxC \<Longrightarrow> batch_inv (batch_limit maxC) [0..<n] b"
  by (induction rule: batch_reachable.induct) (auto intro: batch_start_inv batch_settle_inv)

text \<open>C6: In every state of a batch whose limit is positive, whatever order its requests end in: no more
  requests run than the limit allows; a request waits only while the limit is used up; each request
  is running, waiting or done, exactly one of them and once; and if nothing runs, all are done.
  With a negative limit (which counts as given) no request ever runs.\<close>
theorem batch_concurrency:
  assumes "batch_reachable maxC ff n b"
  shows "if 0 < batch_limit maxC
    then int (length (bt_running b)) \<le> batch_limit maxC
      \<and> (sem_queue (bt_sem b) = [] \<or> int (length (bt_running b)) = batch_limit maxC)
      \<and> mset (bt_running b) + mset (sem_queue (bt_sem b)) + mset (bt_done b) = mset [0..<n]
      \<and> (if bt_running b = [] then mset (bt_done b) = mset [0..<n] else True)
    else bt_running b = [] \<and> bt_done b = []"
proof (cases "0 < batch_limit maxC")
  case True
  then have inv: "batch_inv (batch_limit maxC) [0..<n] b" using batch_reachable_inv [OF assms] by simp
  have "sem_queue (bt_sem b) = []" if "bt_running b = []" using inv that True by (auto simp: batch_inv_def)
  then show ?thesis using inv True by (auto simp: batch_inv_def ac_simps)
next
  case False
  let ?b0 = "\<lparr>bt_failFast = ff, bt_sem = createSemaphore (batch_limit maxC), bt_running = [], bt_done = [],
       bt_results = [], bt_errors = []\<rparr>"
  have "bt_running (fold batch_acquire xs ?b0) = [] \<and> bt_done (fold batch_acquire xs ?b0) = []
      \<and> sem_count (bt_sem (fold batch_acquire xs ?b0)) = 0 \<and> sem_limit (bt_sem (fold batch_acquire xs ?b0)) = batch_limit maxC" for xs
    by (induction xs rule: rev_induct) (use False in \<open>simp_all add: createSemaphore_def batch_acquire_def acquire_def\<close>)
  then have "bt_running (batch_start maxC ff n) = [] \<and> bt_done (batch_start maxC ff n) = []"
    by (simp add: batch_start_def batch_limit_def Let_def)
  moreover have "bt_running b = [] \<and> bt_done b = []" if "bt_running (batch_start maxC ff n) = [] \<and> bt_done (batch_start maxC ff n) = []"
    using assms that by induction auto
  ultimately show ?thesis using False by simp
qed

theorem batch_concurrency_witness:
  "int (length (bt_running (batch_settle 0 (Inl (AgentNotFound ''a'')) (batch_start (Some 2) True 5)))) \<le> 2
   \<and> bt_running (batch_start (Some (-1)) True 5) = []"
proof -
  have r: "batch_reachable (Some 2) True 5 (batch_settle 0 (Inl (AgentNotFound ''a'')) (batch_start (Some 2) True 5))"
    by (intro batch_reachable.intros) (simp add: batch_start_def batch_acquire_def acquire_def createSemaphore_def upt_rec Let_def)
  have r2: "batch_reachable (Some (-1)) True 5 (batch_start (Some (-1)) True 5)" by (rule batch_reachable.intros)
  show ?thesis using batch_concurrency [OF r] batch_concurrency [OF r2] by (simp add: batch_limit_def)
qed

text \<open>A batch whose requests end in the order of \<open>xs\<close>, with these results.\<close>

definition batch_run :: "int option \<Rightarrow> bool \<Rightarrow> nat \<Rightarrow> (nat \<times> (agent_error + execution_result)) list \<Rightarrow> batch" where
  "batch_run maxC ff n xs = fold (\<lambda>(i, res). batch_settle i res) xs (batch_start maxC ff n)"

lemma batch_settle_results:
  "bt_results (batch_settle i res b) = bt_results b @ (case res of Inr r \<Rightarrow> [r] | Inl _ \<Rightarrow> [])"
  by (cases res) (simp_all add: batch_settle_def Let_def split: prod.split option.split)

lemma batch_settle_ff:
  assumes "bt_sem b = bt_sem b'" "bt_running b = bt_running b'" "bt_done b = bt_done b'" "bt_results b = bt_results b'"
  shows "bt_sem (batch_settle i res b) = bt_sem (batch_settle i res b') \<and> bt_running (batch_settle i res b) = bt_running (batch_settle i res b')
    \<and> bt_done (batch_settle i res b) = bt_done (batch_settle i res b') \<and> bt_results (batch_settle i res b) = bt_results (batch_settle i res b')"
  by (simp add: batch_settle_sem batch_settle_results assms)

lemma batch_acquire_ff:
  assumes "bt_sem b = bt_sem b'" "bt_running b = bt_running b'" "bt_done b = bt_done b'" "bt_results b = bt_results b'"
  shows "bt_sem (batch_acquire i b) = bt_sem (batch_acquire i b')" "bt_running (batch_acquire i b) = bt_running (batch_acquire i b')"
    "bt_done (batch_acquire i b) = bt_done (batch_acquire i b')" "bt_results (batch_acquire i b) = bt_results (batch_acquire i b')"
  by (simp_all add: batch_acquire_def assms split: prod.split bool.split)

lemma batch_start_ff:
  "bt_sem (batch_start maxC ff n) = bt_sem (batch_start maxC False n) \<and> bt_running (batch_start maxC ff n) = bt_running (batch_start maxC False n)
   \<and> bt_done (batch_start maxC ff n) = bt_done (batch_start maxC False n) \<and> bt_results (batch_start maxC ff n) = bt_results (batch_start maxC False n)"
proof -
  have "bt_sem (fold batch_acquire xs b) = bt_sem (fold batch_acquire xs b') \<and> bt_running (fold batch_acquire xs b) = bt_running (fold batch_acquire xs b')
      \<and> bt_done (fold batch_acquire xs b) = bt_done (fold batch_acquire xs b') \<and> bt_results (fold batch_acquire xs b) = bt_results (fold batch_acquire xs b')"
    if "bt_sem b = bt_sem b'" "bt_running b = bt_running b'" "bt_done b = bt_done b'" "bt_results b = bt_results b'" for xs b b'
    using that
  proof (induction xs arbitrary: b b')
    case Nil
    then show ?case by simp
  next
    case (Cons x xs)
    show ?case using Cons.IH [OF batch_acquire_ff [OF Cons.prems]] by simp
  qed
  then show ?thesis by (simp add: batch_start_def Let_def)
qed

text \<open>\<open>failFast\<close> stops nothing: with the same requests ending in the same way the batch runs the
  same requests at the same time, in the same order, and collects the same results as without it;
  only the list of errors differs.\<close>
theorem fail_fast_runs_everything:
  "bt_running (batch_run maxC True n xs) = bt_running (batch_run maxC False n xs)
   \<and> bt_done (batch_run maxC True n xs) = bt_done (batch_run maxC False n xs)
   \<and> bt_sem (batch_run maxC True n xs) = bt_sem (batch_run maxC False n xs)
   \<and> br_results (batch_result_of n (batch_run maxC True n xs)) = br_results (batch_result_of n (batch_run maxC False n xs))"
proof (induction xs rule: rev_induct)
  case Nil
  then show ?case using batch_start_ff [of maxC True n] by (simp add: batch_run_def batch_result_of_def)
next
  case (snoc x xs)
  then show ?case
    using batch_settle_ff [of "batch_run maxC True n xs" "batch_run maxC False n xs" "fst x" "snd x"]
    by (simp add: batch_run_def batch_result_of_def case_prod_unfold)
qed

end
