(* ===== verification/Coordinator.thy ===== *)
theory Coordinator
  imports Execution_Runtime Communication_Manager
begin

text \<open>
  The class \<open>AgentCoordinator\<close> of \<open>agents/coordinator/agent-coordinator.ts\<close>, with the types of
  \<open>coordinator.types.ts\<close> and the exceptions of \<open>coordinator.exceptions.ts\<close>.

  The registry, the health of an agent and the call of the runtime are the components the
  coordinator is given (\<open>coord_env\<close>); its broadcasts go through the bus of \<open>Message_Bus\<close> and its
  cancellations to the runtime of \<open>Execution_Runtime\<close>. A coordination is \<open>assign_begin\<close>, which
  files the task, the calls of \<open>delegate\<close> and \<open>note_result\<close> while it runs, and \<open>assign_end\<close>, which
  evaluates the strategy on the outcomes; \<open>collect\<close>, \<open>timeout\<close> and \<open>cancel\<close> may run in between.
  Task objects are shared by reference: \<open>co_tasks\<close> holds them under their own id, \<open>co_coordinations\<close>
  is the map of the class. Objects used as records of agents keep the order in which agents were
  entered (agent ids are not array indices); weights are whole numbers.
\<close>

section \<open>Data\<close>

datatype coordination_strategy = StParallel | StMajorityVoting | StFirstSuccess | StAllSuccess | StQuorum | StSequential

fun strategy_str :: "coordination_strategy \<Rightarrow> string" where
  "strategy_str StParallel = ''parallel''"
| "strategy_str StMajorityVoting = ''majority_voting''"
| "strategy_str StFirstSuccess = ''first_success''"
| "strategy_str StAllSuccess = ''all_success''"
| "strategy_str StQuorum = ''quorum''"
| "strategy_str StSequential = ''sequential''"

datatype coordination_status =
  CsPending | CsAssigned | CsDelegated | CsRunning | CsCollecting | CsSuccess | CsFailed | CsTimeout | CsCancelled

datatype voting_method = SimpleMajority | WeightedMajority | Unanimous | SuperMajority

record agent_assignment =
  as_agentId :: string
  as_taskId :: string
  as_assignedAt :: time_ms
  as_input :: jsval
  as_priority :: int
  as_weight :: int
  as_timeout :: "int option"
  as_metadata :: js_record

record coordination_task =
  ct_taskId :: string
  ct_coordinationId :: string
  ct_strategy :: coordination_strategy
  ct_assignments :: "agent_assignment list"
  ct_quorumSize :: "int option"
  ct_votingMethod :: "voting_method option"
  ct_weightThreshold :: "int option"
  ct_maxParallelism :: "int option"
  ct_status :: coordination_status
  ct_startedAt :: time_ms
  ct_completedAt :: "time_ms option"
  ct_duration :: "int option"
  ct_results :: "(string, execution_result) js_map"
  ct_timeoutMs :: "int option"
  ct_aborted :: bool
  ct_retryAttempts :: int
  ct_metadata :: js_record

record coordination_context =
  cc_coordinationId :: string
  cc_requestId :: string
  cc_traceId :: string
  cc_workspaceId :: string
  cc_userId :: string
  cc_conversationId :: "string option"
  cc_executionId :: string
  cc_startTime :: time_ms
  cc_timeout :: "int option"
  cc_aborted :: bool
  cc_metadata :: js_record

record coordination_request =
  cr_agentIds :: "string list"
  cr_input :: jsval
  cr_strategy :: "coordination_strategy option"
  cr_context :: "coordination_context option"
  cr_quorumSize :: "int option"
  cr_votingMethod :: "voting_method option"
  cr_weightThreshold :: "int option"
  cr_maxParallelism :: "int option"
  cr_agentWeights :: "(string, int) js_map"
  cr_agentTimeouts :: "(string, int) js_map"
  cr_agentPriorities :: "(string, int) js_map"
  cr_timeoutMs :: "int option"
  cr_retryAttempts :: "int option"
  cr_failFast :: bool
  cr_metadata :: js_record

record coordination_result =
  cd_coordinationId :: string
  cd_taskId :: string
  cd_status :: coordination_status
  cd_strategy :: coordination_strategy
  cd_finalResult :: jsval
  cd_agentResults :: "(string, execution_result) js_map"
  cd_successfulAgents :: "string list"
  cd_failedAgents :: "string list"
  cd_votes :: "(string, jsval) js_map"
  cd_winningVote :: jsval
  cd_voteDistribution :: "(jsval option, int) js_map"
  cd_startedAt :: time_ms
  cd_completedAt :: time_ms
  cd_duration :: int
  cd_agentCount :: nat
  cd_successCount :: nat
  cd_failureCount :: nat
  cd_errors :: "string list"
  cd_warnings :: "string list"
  cd_metadata :: js_record

text \<open>
  The exceptions with the arguments of their constructors; an empty message stands for none given.
  \<open>RunError\<close> is one of the framework's exceptions, \<open>NativeError\<close> one of the language with its name.
\<close>

datatype coord_error =
    CoordinatorError string string string
  | CoordinationNotFound string
  | InvalidCoordination string "string list"
  | CoordinationTimedOut string int
  | CoordinationCancelled string
  | AgentNotAvailable string string
  | InsufficientAgents int int string
  | HandoffError string string string
  | BroadcastError "string list" "string list" string
  | QuorumNotReached int nat
  | VotingError string string
  | RunError agent_error
  | NativeError string string

fun coord_message :: "coord_error \<Rightarrow> string" where
  "coord_message (CoordinatorError op i m) = (if m \<noteq> [] then m
     else ''Coordination operation '' @ sq op @ '' failed'' @ (if i = [] then [] else '' for coordination '' @ sq i))"
| "coord_message (CoordinationNotFound i) = ''Coordination '' @ sq i @ '' not found''"
| "coord_message (InvalidCoordination i es) = ''Invalid coordination '' @ sq i @ '': '' @ join_with '', '' es"
| "coord_message (CoordinationTimedOut i t) = ''Coordination '' @ sq i @ '' timed out after '' @ int_str t @ ''ms''"
| "coord_message (CoordinationCancelled i) = ''Coordination '' @ sq i @ '' was cancelled''"
| "coord_message (AgentNotAvailable a r) = ''Agent '' @ sq a @ '' not available for coordination: '' @ r"
| "coord_message (InsufficientAgents n k m) = (if m \<noteq> [] then m
     else ''Insufficient agents: required '' @ int_str n @ '', available '' @ int_str k)"
| "coord_message (HandoffError f t r) = ''Handoff from '' @ sq f @ '' to '' @ sq t @ '' failed: '' @ r"
| "coord_message (BroadcastError as fs m) = (if m \<noteq> [] then m else ''Broadcast failed for agents: '' @ join_with '', '' fs)"
| "coord_message (QuorumNotReached n k) = ''Quorum not reached: required '' @ int_str n @ '', actual '' @ int_str (int k)"
| "coord_message (VotingError v r) = ''Voting failed using method '' @ sq v @ '': '' @ r"
| "coord_message (RunError e) = err_message e"
| "coord_message (NativeError n m) = m"

record coordinator =
  co_coordinations :: "(string, string) js_map"
  co_tasks :: "(string, coordination_task) js_map"
  co_startTime :: time_ms
  co_errors :: "string list"
  co_warnings :: "string list"
  co_total :: nat
  co_successful :: nat
  co_failed :: nat
  co_totalTime :: int

definition new_coordinator :: "time_ms \<Rightarrow> coordinator" where
  "new_coordinator now = \<lparr>co_coordinations = [], co_tasks = [], co_startTime = now, co_errors = [], co_warnings = [],
     co_total = 0, co_successful = 0, co_failed = 0, co_totalTime = 0\<rparr>"

definition co_log :: "string \<Rightarrow> coordinator \<Rightarrow> coordinator" where
  "co_log e s = s\<lparr>co_errors := co_errors s @ [e]\<rparr>"

record coord_env =
  ce_agents :: agent_registry
  ce_health :: "string \<Rightarrow> agent_health"
  ce_run :: "execution_request \<Rightarrow> agent_error + execution_result"

section \<open>Delegation\<close>

definition delegate_request :: "string \<Rightarrow> jsval \<Rightarrow> coordination_context \<Rightarrow> execution_request" where
  "delegate_request a inp c = \<lparr>xr_agentId = a, xr_input = inp,
     xr_context = \<lparr>xc_requestId = cc_requestId c, xc_workspaceId = cc_workspaceId c, xc_userId = cc_userId c,
       xc_metadata = cc_metadata c, xc_timeout = cc_timeout c, xc_aborted = cc_aborted c\<rparr>,
     xr_timeout = cc_timeout c\<rparr>"

definition try_delegate :: "coord_env \<Rightarrow> string \<Rightarrow> jsval \<Rightarrow> coordination_context \<Rightarrow> coord_error + execution_result" where
  "try_delegate env a inp c =
     (case find_agent (ce_agents env) a of
        None \<Rightarrow> Inl (AgentNotAvailable a ''Agent not found'')
      | Some _ \<Rightarrow>
          (if h_status (ce_health env a) = Unhealthy
           then Inl (AgentNotAvailable a (''Agent unhealthy: '' @ join_with '', '' (h_errors (ce_health env a))))
           else case ce_run env (delegate_request a inp c) of Inl e \<Rightarrow> Inl (RunError e) | Inr r \<Rightarrow> Inr r))"

text \<open>What \<open>delegate\<close> throws or returns, and its log of a failure.\<close>

definition delegate_outcome :: "coord_env \<Rightarrow> string \<Rightarrow> jsval \<Rightarrow> coordination_context \<Rightarrow> coord_error + execution_result" where
  "delegate_outcome env a inp c =
     (case try_delegate env a inp c of
        Inr r \<Rightarrow> Inr r
      | Inl e \<Rightarrow> Inl (CoordinatorError ''delegate'' (cc_coordinationId c)
                   (''Failed to delegate task to agent '' @ sq a @ '': '' @ coord_message e)))"

definition delegate ::
  "coord_env \<Rightarrow> string \<Rightarrow> jsval \<Rightarrow> coordination_context \<Rightarrow> coordinator \<Rightarrow> coordinator \<times> (coord_error + execution_result)" where
  "delegate env a inp c s =
     (case delegate_outcome env a inp c of
        Inr r \<Rightarrow> (s, Inr r)
      | Inl e \<Rightarrow> (co_log (coord_message e) s, Inl e))"

definition assignment_context :: "time_ms \<Rightarrow> coordination_task \<Rightarrow> coordination_context \<Rightarrow> agent_assignment \<Rightarrow> coordination_context" where
  "assignment_context now t c a = \<lparr>cc_coordinationId = ct_coordinationId t, cc_requestId = cc_requestId c,
     cc_traceId = cc_traceId c, cc_workspaceId = cc_workspaceId c, cc_userId = cc_userId c,
     cc_conversationId = cc_conversationId c, cc_executionId = as_taskId a, cc_startTime = now, cc_timeout = as_timeout a,
     cc_aborted = ct_aborted t, cc_metadata = as_metadata a\<rparr>"

text \<open>The outcome of each assignment of a task, delegated at these times.\<close>

definition assignment_outcome ::
  "coord_env \<Rightarrow> (agent_assignment \<Rightarrow> time_ms) \<Rightarrow> coordination_task \<Rightarrow> coordination_context \<Rightarrow> agent_assignment \<Rightarrow> coord_error + execution_result" where
  "assignment_outcome env tm t c a =
     delegate_outcome env (as_agentId a) (as_input a) (assignment_context (tm a) t c a)"

section \<open>Validation and assignments\<close>

text \<open>A number that counts as given: not absent and not zero.\<close>

definition given_num :: "int option \<Rightarrow> int option" where
  "given_num x = (case x of Some n \<Rightarrow> if n = 0 then None else Some n | None \<Rightarrow> None)"

definition validateCoordinationRequest :: "coordination_request \<Rightarrow> string list" where
  "validateCoordinationRequest rq =
     (if cr_agentIds rq = [] then [''At least one agent ID is required''] else [])
   @ (if cr_strategy rq = None then [''Coordination strategy is required''] else [])
   @ (if cr_context rq = None then [''Coordination context is required''] else [])
   @ (if cr_strategy rq = Some StQuorum \<and> given_num (cr_quorumSize rq) = None
      then [''Quorum size is required for quorum strategy''] else [])
   @ (if cr_strategy rq = Some StMajorityVoting \<and> cr_votingMethod rq = None
      then [''Voting method is required for majority voting strategy''] else [])
   @ (case given_num (cr_quorumSize rq) of
        Some n \<Rightarrow> if n > int (length (cr_agentIds rq)) then [''Quorum size cannot exceed number of agents''] else []
      | None \<Rightarrow> [])"

definition unavailable :: "coord_env \<Rightarrow> string \<Rightarrow> bool" where
  "unavailable env a = (find_agent (ce_agents env) a = None \<or> h_status (ce_health env a) = Unhealthy)"

definition validateAgentAvailability :: "coord_env \<Rightarrow> string list \<Rightarrow> coord_error option" where
  "validateAgentAvailability env as =
     (let bad = filter (unavailable env) as
      in if bad = [] then None
         else Some (InsufficientAgents (int (length as)) (int (length as) - int (length bad))
                (''Agents not available: '' @ join_with '', '' bad)))"

definition num_or :: "(string, int) js_map \<Rightarrow> string \<Rightarrow> int \<Rightarrow> int" where
  "num_or m k d = (case given_num (js_get m k) of Some n \<Rightarrow> n | None \<Rightarrow> d)"

definition createAssignment :: "time_ms \<Rightarrow> string \<Rightarrow> coordination_request \<Rightarrow> nat \<times> string \<Rightarrow> agent_assignment" where
  "createAssignment now tid rq = (\<lambda>(i, a). \<lparr>as_agentId = a, as_taskId = tid @ ''_'' @ int_str (int i), as_assignedAt = now,
     as_input = cr_input rq, as_priority = num_or (cr_agentPriorities rq) a 1, as_weight = num_or (cr_agentWeights rq) a 1,
     as_timeout = (case given_num (js_get (cr_agentTimeouts rq) a) of Some t \<Rightarrow> Some t | None \<Rightarrow> cr_timeoutMs rq),
     as_metadata = js_spread [(''coordinationStrategy'',
       case cr_strategy rq of Some st \<Rightarrow> JStr (strategy_str st) | None \<Rightarrow> JUndefined)] (cr_metadata rq)\<rparr>)"

definition createAssignments :: "time_ms \<Rightarrow> string \<Rightarrow> coordination_request \<Rightarrow> agent_assignment list" where
  "createAssignments now tid rq = map (createAssignment now tid rq) (List.enumerate 0 (cr_agentIds rq))"

section \<open>Strategies\<close>

text \<open>
  \<open>out\<close> is the outcome of each delegation. \<open>reason_str\<close> is how a rejected promise's reason prints:
  the name of the exception and its message.
\<close>

type_synonym outcomes = "agent_assignment \<Rightarrow> coord_error + execution_result"

fun coord_name :: "coord_error \<Rightarrow> string" where
  "coord_name (CoordinatorError op i m) = ''CoordinatorException''"
| "coord_name (CoordinationNotFound i) = ''CoordinationNotFoundException''"
| "coord_name (InvalidCoordination i es) = ''InvalidCoordinationException''"
| "coord_name (CoordinationTimedOut i t) = ''CoordinationTimeoutException''"
| "coord_name (CoordinationCancelled i) = ''CoordinationCancelledException''"
| "coord_name (AgentNotAvailable a r) = ''AgentNotAvailableForCoordinationException''"
| "coord_name (InsufficientAgents n k m) = ''InsufficientAgentsException''"
| "coord_name (HandoffError f t r) = ''HandoffException''"
| "coord_name (BroadcastError as fs m) = ''BroadcastException''"
| "coord_name (QuorumNotReached n k) = ''QuorumNotReachedException''"
| "coord_name (VotingError v r) = ''VotingException''"
| "coord_name (RunError e) = error_name e"
| "coord_name (NativeError n m) = n"

definition reason_str :: "coord_error \<Rightarrow> string" where
  "reason_str e = coord_name e @ '': '' @ coord_message e"

definition fulfilled :: "coord_error + execution_result \<Rightarrow> bool" where
  "fulfilled r = (case r of Inr _ \<Rightarrow> True | Inl _ \<Rightarrow> False)"

text \<open>The results of the fulfilled assignments, filed under their agents in this order.\<close>

definition file_results :: "outcomes \<Rightarrow> agent_assignment list \<Rightarrow> (string, execution_result) js_map" where
  "file_results out as = fold (\<lambda>a m. case out a of Inr r \<Rightarrow> js_set (as_agentId a) r m | Inl _ \<Rightarrow> m) as []"

definition base_result ::
  "time_ms \<Rightarrow> coordination_task \<Rightarrow> coordination_status \<Rightarrow> (string, execution_result) js_map \<Rightarrow> string list \<Rightarrow> string list \<Rightarrow> string list \<Rightarrow> coordination_result" where
  "base_result now t st res good bad errs = \<lparr>cd_coordinationId = ct_coordinationId t, cd_taskId = ct_taskId t,
     cd_status = st, cd_strategy = ct_strategy t, cd_finalResult = JUndefined, cd_agentResults = res,
     cd_successfulAgents = good, cd_failedAgents = bad, cd_votes = [], cd_winningVote = JUndefined, cd_voteDistribution = [],
     cd_startedAt = ct_startedAt t, cd_completedAt = now, cd_duration = now - ct_startedAt t,
     cd_agentCount = length (ct_assignments t), cd_successCount = length good, cd_failureCount = length bad,
     cd_errors = errs, cd_warnings = [], cd_metadata = ct_metadata t\<rparr>"

text \<open>The assignments a parallel run starts: the first \<open>maxParallelism\<close>, the rest never run.\<close>

definition started :: "coordination_request \<Rightarrow> coordination_task \<Rightarrow> agent_assignment list" where
  "started rq t =
     (let n = length (ct_assignments t)
      in take (case given_num (cr_maxParallelism rq) of Some k \<Rightarrow> nat (min k (int n)) | None \<Rightarrow> n) (ct_assignments t))"

definition executeParallel :: "time_ms \<Rightarrow> coordination_task \<Rightarrow> coordination_request \<Rightarrow> outcomes \<Rightarrow> coordination_result" where
  "executeParallel now t rq out =
     (let run = started rq t;
          good = map as_agentId (filter (\<lambda>a. fulfilled (out a)) run);
          bad = filter (\<lambda>a. \<not> fulfilled (out a)) run;
          errs = map (\<lambda>a. ''Agent '' @ sq (as_agentId a) @ '': '' @ (case out a of Inl e \<Rightarrow> reason_str e | Inr _ \<Rightarrow> [])) bad
      in base_result now t (if bad = [] then CsSuccess else CsFailed) (file_results out run) good (map as_agentId bad) errs)"

text \<open>\<open>sequence\<close> is the state of the loop of \<open>executeSequential\<close>.\<close>

record sequence =
  sq_good :: "string list"
  sq_bad :: "string list"
  sq_results :: "(string, execution_result) js_map"
  sq_errors :: "string list"

fun run_sequence :: "bool \<Rightarrow> outcomes \<Rightarrow> agent_assignment list \<Rightarrow> sequence \<Rightarrow> sequence" where
  "run_sequence ff out [] q = q"
| "run_sequence ff out (a # as) q =
     (let i = as_agentId a
      in case out a of
           Inr r \<Rightarrow>
             (let q1 = q\<lparr>sq_good := sq_good q @ [i], sq_results := js_set i r (sq_results q)\<rparr>
              in if ff \<and> \<not> er_success r
                 then q1\<lparr>sq_bad := sq_bad q1 @ [i], sq_errors := sq_errors q1 @ [''Agent '' @ sq i @ '' failed'']\<rparr>
                 else run_sequence ff out as q1)
         | Inl e \<Rightarrow>
             (let q1 = q\<lparr>sq_bad := sq_bad q @ [i], sq_errors := sq_errors q @ [''Agent '' @ sq i @ '': '' @ coord_message e]\<rparr>
              in if ff then q1 else run_sequence ff out as q1))"

definition executeSequential :: "time_ms \<Rightarrow> coordination_task \<Rightarrow> coordination_request \<Rightarrow> outcomes \<Rightarrow> coordination_result" where
  "executeSequential now t rq out =
     (let q = run_sequence (cr_failFast rq) out (ct_assignments t) \<lparr>sq_good = [], sq_bad = [], sq_results = [], sq_errors = []\<rparr>
      in base_result now t (if sq_bad q = [] then CsSuccess else CsFailed) (sq_results q) (sq_good q) (sq_bad q) (sq_errors q))"

text \<open>
  \<open>order\<close> is the order in which the delegations settle. The first successful one resolves the
  promise with the results and errors there are by then (the objects go on growing afterwards).
\<close>

fun first_success ::
  "time_ms \<Rightarrow> coordination_task \<Rightarrow> outcomes \<Rightarrow> agent_assignment list \<Rightarrow> (string, execution_result) js_map \<Rightarrow> string list \<Rightarrow> coordination_result" where
  "first_success now t out [] res errs =
     (base_result now t CsFailed res [] (map as_agentId (ct_assignments t)) errs)"
| "first_success now t out (a # as) res errs =
     (let i = as_agentId a
      in case out a of
           Inr r \<Rightarrow>
             (if er_success r
              then (base_result now t CsSuccess (js_set i r res) [i] [] errs)\<lparr>cd_finalResult := er_output r\<rparr>
              else first_success now t out as (js_set i r res) errs)
         | Inl e \<Rightarrow> first_success now t out as res (errs @ [''Agent '' @ sq i @ '': '' @ coord_message e]))"

definition executeFirstSuccess ::
  "time_ms \<Rightarrow> coordination_task \<Rightarrow> outcomes \<Rightarrow> agent_assignment list \<Rightarrow> coordination_result" where
  "executeFirstSuccess now t out order = first_success now t out order [] []"

definition executeAllSuccess :: "time_ms \<Rightarrow> coordination_task \<Rightarrow> coordination_request \<Rightarrow> outcomes \<Rightarrow> coordination_result" where
  "executeAllSuccess now t rq out =
     (let r = executeParallel now t rq out
      in if cd_failureCount r > 0 then r\<lparr>cd_status := CsFailed\<rparr> else r)"

section \<open>Voting\<close>

text \<open>
  The value \<open>JSON.parse(JSON.stringify(v))\<close>, \<open>None\<close> where \<open>stringify\<close> gives \<open>undefined\<close>: two values
  have the same JSON text exactly when they agree here. \<open>isoText\<close> is the ISO text of a date.
\<close>

fun json_of :: "(time_ms \<Rightarrow> string) \<Rightarrow> jsval \<Rightarrow> jsval option"
  and json_items :: "(time_ms \<Rightarrow> string) \<Rightarrow> jsval list \<Rightarrow> jsval list"
  and json_fields :: "(time_ms \<Rightarrow> string) \<Rightarrow> (string \<times> jsval) list \<Rightarrow> (string \<times> jsval) list" where
  "json_of isoText JUndefined = None"
| "json_of isoText JNull = Some JNull"
| "json_of isoText (JBool b) = Some (JBool b)"
| "json_of isoText (JNum n) = Some (JNum n)"
| "json_of isoText (JStr x) = Some (JStr x)"
| "json_of isoText (JDate t) = Some (JStr (isoText t))"
| "json_of isoText (JArr xs) = Some (JArr (json_items isoText xs))"
| "json_of isoText (JObj fs) = Some (JObj (json_fields isoText fs))"
| "json_items isoText [] = []"
| "json_items isoText (x # xs) = (case json_of isoText x of None \<Rightarrow> JNull | Some y \<Rightarrow> y) # json_items isoText xs"
| "json_fields isoText [] = []"
| "json_fields isoText ((k, x) # fs) = (case json_of isoText x of None \<Rightarrow> json_fields isoText fs | Some y \<Rightarrow> (k, y) # json_fields isoText fs)"

text \<open>
  \<open>Object.entries\<close> lists the keys that are array indices first, in their order: here the texts of
  small natural numbers. A vote of \<open>undefined\<close> is filed under the text \<open>undefined\<close>.
\<close>

definition index_key :: "jsval option \<Rightarrow> int option" where
  "index_key k = (case k of Some (JNum n) \<Rightarrow> if 0 \<le> n \<and> n < 4294967295 then Some n else None | _ \<Rightarrow> None)"

definition object_entries :: "(jsval option, 'b) js_map \<Rightarrow> (jsval option \<times> 'b) list" where
  "object_entries m = js_sort_by (\<lambda>e. the (index_key (fst e))) (filter (\<lambda>e. index_key (fst e) \<noteq> None) m)
     @ filter (\<lambda>e. index_key (fst e) = None) m"

text \<open>\<open>0.67\<close> is the double \<open>6034823500676465 / 2^53\<close>, its product with the number of votes is rounded.\<close>

definition super_majority :: "int \<Rightarrow> nat \<Rightarrow> bool" where
  "super_majority c n = (c * 2 ^ 53 \<ge> int (round53 (n * 6034823500676465)))"

definition wins :: "voting_method \<Rightarrow> int \<Rightarrow> nat \<Rightarrow> bool" where
  "wins v c n = (case v of SimpleMajority \<Rightarrow> 2 * c > int n | SuperMajority \<Rightarrow> super_majority c n
     | Unanimous \<Rightarrow> c = int n | WeightedMajority \<Rightarrow> 2 * c > int n)"

text \<open>\<open>Inr JUndefined\<close>: no vote wins; parsing the text \<open>undefined\<close> is a syntax error.\<close>

definition determineWinningVote :: "(jsval option, int) js_map \<Rightarrow> voting_method \<Rightarrow> nat \<Rightarrow> coord_error + jsval" where
  "determineWinningVote tallies v n =
     (case js_sort_by (\<lambda>e. - snd e) (object_entries tallies) of
        [] \<Rightarrow> Inr JUndefined
      | (k, c) # _ \<Rightarrow>
          (if wins v c n
           then (case k of Some x \<Rightarrow> Inr x | None \<Rightarrow> Inl (NativeError ''SyntaxError'' ''\"undefined\" is not valid JSON''))
           else Inr JUndefined))"

definition weight_of :: "coordination_task \<Rightarrow> string \<Rightarrow> int" where
  "weight_of t a = (case List.find (\<lambda>x. as_agentId x = a) (ct_assignments t) of
     Some x \<Rightarrow> (if as_weight x = 0 then 1 else as_weight x) | None \<Rightarrow> 1)"

text \<open>The vote of an agent is the output filed under its id.\<close>

definition vote_of :: "coordination_result \<Rightarrow> string \<Rightarrow> jsval" where
  "vote_of r a = (case js_get (cd_agentResults r) a of Some x \<Rightarrow> er_output x | None \<Rightarrow> JUndefined)"

definition add_vote ::
  "(time_ms \<Rightarrow> string) \<Rightarrow> coordination_task \<Rightarrow> coordination_result \<Rightarrow> string \<Rightarrow> (jsval option, int) js_map \<Rightarrow> (jsval option, int) js_map" where
  "add_vote isoText t r a tallies =
     (let k = json_of isoText (vote_of r a);
          old = (case js_get tallies k of Some n \<Rightarrow> n | None \<Rightarrow> 0)
      in js_set k (old + weight_of t a) tallies)"

definition executeMajorityVoting ::
  "time_ms \<Rightarrow> (time_ms \<Rightarrow> string) \<Rightarrow> coordination_task \<Rightarrow> coordination_request \<Rightarrow> outcomes \<Rightarrow> coord_error + coordination_result" where
  "executeMajorityVoting now isoText t rq out =
     (let r = executeParallel now t rq out;
          votes = fold (\<lambda>a. js_set a (vote_of r a)) (cd_successfulAgents r) [];
          tallies = fold (add_vote isoText t r) (cd_successfulAgents r) [];
          meth = (case ct_votingMethod t of Some v \<Rightarrow> v | None \<Rightarrow> SimpleMajority)
      in case determineWinningVote tallies meth (cd_successCount r) of
           Inl e \<Rightarrow> Inl e
         | Inr w \<Rightarrow> Inr (r\<lparr>cd_votes := votes, cd_winningVote := w, cd_voteDistribution := tallies, cd_finalResult := w,
                            cd_status := (if w \<noteq> JUndefined then CsSuccess else CsFailed)\<rparr>))"

definition executeQuorum :: "time_ms \<Rightarrow> coordination_task \<Rightarrow> coordination_request \<Rightarrow> outcomes \<Rightarrow> coord_error + coordination_result" where
  "executeQuorum now t rq out =
     (let need = (case given_num (ct_quorumSize t) of Some n \<Rightarrow> n | None \<Rightarrow> int ((length (ct_assignments t) + 1) div 2));
          r = executeParallel now t rq out
      in if int (cd_successCount r) < need then Inl (QuorumNotReached need (cd_successCount r))
         else Inr (r\<lparr>cd_status := CsSuccess, cd_metadata := js_spread (cd_metadata r)
                [(''quorumRequired'', JNum need), (''quorumAchieved'', JNum (int (cd_successCount r)))]\<rparr>))"

definition executeCoordination ::
  "time_ms \<Rightarrow> (time_ms \<Rightarrow> string) \<Rightarrow> coordination_task \<Rightarrow> coordination_request \<Rightarrow> outcomes \<Rightarrow> agent_assignment list
    \<Rightarrow> coord_error + coordination_result" where
  "executeCoordination now isoText t rq out order =
     (case ct_strategy t of
        StParallel \<Rightarrow> Inr (executeParallel now t rq out)
      | StSequential \<Rightarrow> Inr (executeSequential now t rq out)
      | StFirstSuccess \<Rightarrow> Inr (executeFirstSuccess now t out order)
      | StAllSuccess \<Rightarrow> Inr (executeAllSuccess now t rq out)
      | StMajorityVoting \<Rightarrow> executeMajorityVoting now isoText t rq out
      | StQuorum \<Rightarrow> executeQuorum now t rq out)"

section \<open>A coordination\<close>

text \<open>
  Up to the first delegation; an invalid request throws before anything is counted. \<open>cid0\<close> and
  \<open>tid\<close> are the random ids. A task is returned with the coordination's id.
\<close>

definition assign_fail :: "string \<Rightarrow> coord_error \<Rightarrow> coordinator \<Rightarrow> coordinator" where
  "assign_fail cid e s = (co_log (''Coordination '' @ cid @ '' failed: '' @ coord_message e)
     (s\<lparr>co_failed := co_failed s + 1\<rparr>))\<lparr>co_coordinations := js_delete cid (co_coordinations s)\<rparr>"

definition new_task_of :: "time_ms \<Rightarrow> string \<Rightarrow> string \<Rightarrow> coordination_request \<Rightarrow> coordination_strategy \<Rightarrow> coordination_context \<Rightarrow> coordination_task" where
  "new_task_of now cid tid rq st ctx = \<lparr>ct_taskId = tid, ct_coordinationId = cid, ct_strategy = st,
     ct_assignments = createAssignments now tid rq, ct_quorumSize = cr_quorumSize rq, ct_votingMethod = cr_votingMethod rq,
     ct_weightThreshold = cr_weightThreshold rq, ct_maxParallelism = cr_maxParallelism rq, ct_status = CsRunning,
     ct_startedAt = now, ct_completedAt = None, ct_duration = None, ct_results = [], ct_timeoutMs = cr_timeoutMs rq,
     ct_aborted = cc_aborted ctx, ct_retryAttempts = (case cr_retryAttempts rq of Some n \<Rightarrow> n | None \<Rightarrow> 0),
     ct_metadata = cr_metadata rq\<rparr>"

definition assign_begin ::
  "time_ms \<Rightarrow> string \<Rightarrow> string \<Rightarrow> coord_env \<Rightarrow> coordination_request \<Rightarrow> coordinator \<Rightarrow> coordinator \<times> (coord_error + string)" where
  "assign_begin now cid0 tid env rq s =
     (let errs = validateCoordinationRequest rq
      in case (cr_context rq, cr_strategy rq) of
           (None, _) \<Rightarrow> (s, Inl (NativeError ''TypeError'' ''Cannot read properties of undefined''))
         | (Some ctx, None) \<Rightarrow> (s, Inl (InvalidCoordination (cc_coordinationId ctx) errs))
         | (Some ctx, Some st) \<Rightarrow>
             (if errs \<noteq> [] then (s, Inl (InvalidCoordination (cc_coordinationId ctx) errs))
              else let cid = str_or (cc_coordinationId ctx) cid0
                in case validateAgentAvailability env (cr_agentIds rq) of
                     Some e \<Rightarrow> (assign_fail cid e s, Inl e)
                   | None \<Rightarrow> (s\<lparr>co_coordinations := js_set cid tid (co_coordinations s),
                               co_tasks := js_set tid (new_task_of now cid tid rq st ctx) (co_tasks s),
                               co_total := co_total s + 1\<rparr>, Inr cid)))"

text \<open>The end of \<open>assign\<close> reads the task object it filed, which is never removed from \<open>co_tasks\<close>.
  A delegation that ends while the task runs enters its result in the task.\<close>

definition note_result :: "string \<Rightarrow> string \<Rightarrow> execution_result \<Rightarrow> coordinator \<Rightarrow> coordinator" where
  "note_result tid a r s =
     (case js_get (co_tasks s) tid of
        None \<Rightarrow> s
      | Some t \<Rightarrow> s\<lparr>co_tasks := js_set tid (t\<lparr>ct_results := js_set a r (ct_results t)\<rparr>) (co_tasks s)\<rparr>)"

definition assign_end ::
  "time_ms \<Rightarrow> (time_ms \<Rightarrow> string) \<Rightarrow> string \<Rightarrow> string \<Rightarrow> coordination_request \<Rightarrow> outcomes \<Rightarrow> agent_assignment list \<Rightarrow> coordinator
    \<Rightarrow> coordinator \<times> (coord_error + coordination_result)" where
  "assign_end now isoText cid tid rq out order s =
     (case js_get (co_tasks s) tid of
        None \<Rightarrow> (s, Inl (CoordinationNotFound cid))
      | Some t \<Rightarrow>
          (case executeCoordination now isoText t rq out order of
             Inl e \<Rightarrow> (assign_fail cid e s, Inl e)
           | Inr r \<Rightarrow> (s\<lparr>co_successful := co_successful s + 1,
                        co_coordinations := js_delete cid (co_coordinations s)\<rparr>, Inr r)))"

section \<open>Operations on a running coordination\<close>

text \<open>The task object the map holds under an id.\<close>

definition running_task :: "string \<Rightarrow> coordinator \<Rightarrow> coordination_task option" where
  "running_task cid s = (case js_get (co_coordinations s) cid of None \<Rightarrow> None | Some tid \<Rightarrow> js_get (co_tasks s) tid)"

definition put_task :: "coordination_task \<Rightarrow> coordinator \<Rightarrow> coordinator" where
  "put_task t s = s\<lparr>co_tasks := js_set (ct_taskId t) t (co_tasks s)\<rparr>"

definition stopped :: "time_ms \<Rightarrow> coordination_status \<Rightarrow> coordination_task \<Rightarrow> coordination_task" where
  "stopped now st t = t\<lparr>ct_status := st, ct_completedAt := Some now, ct_duration := Some (now - ct_startedAt t)\<rparr>"

definition collectResults :: "time_ms \<Rightarrow> coordination_task \<Rightarrow> coordination_result" where
  "collectResults now t =
     (let good = map fst (filter (\<lambda>(a, r). er_success r) (ct_results t));
          bad = map fst (filter (\<lambda>(a, r). \<not> er_success r) (ct_results t))
      in (base_result now t (ct_status t) (ct_results t) good bad [])
           \<lparr>cd_completedAt := (case ct_completedAt t of Some c \<Rightarrow> c | None \<Rightarrow> now),
            cd_duration := (case given_num (ct_duration t) of Some d \<Rightarrow> d | None \<Rightarrow> now - ct_startedAt t)\<rparr>)"

definition co_collect :: "time_ms \<Rightarrow> string \<Rightarrow> coordinator \<Rightarrow> coordinator \<times> (coord_error + coordination_result)" where
  "co_collect now cid s =
     (case running_task cid s of
        None \<Rightarrow> (s, Inl (CoordinationNotFound cid))
      | Some t \<Rightarrow>
          (let r = collectResults now (t\<lparr>ct_status := CsCollecting\<rparr>);
               s1 = put_task (stopped now CsSuccess t) s
           in (s1\<lparr>co_totalTime := co_totalTime s1 + (now - ct_startedAt t)\<rparr>, Inr r)))"

definition co_timeout :: "time_ms \<Rightarrow> string \<Rightarrow> coordinator \<Rightarrow> coordinator \<times> bool" where
  "co_timeout now cid s =
     (case running_task cid s of None \<Rightarrow> (s, False) | Some t \<Rightarrow> (put_task (stopped now CsTimeout t) s, True))"

text \<open>Each assignment's task id is handed to the runtime as the id of an execution.\<close>

definition cancel_assignment ::
  "time_ms \<Rightarrow> agent_assignment \<Rightarrow> coordinator \<times> agent_runtime \<Rightarrow> coordinator \<times> agent_runtime" where
  "cancel_assignment now a = (\<lambda>(s, rt).
     case cancelExecution now (as_taskId a) rt of
       (rt1, Inr _) \<Rightarrow> (s, rt1)
     | (rt1, Inl e) \<Rightarrow> (s\<lparr>co_warnings := co_warnings s
         @ [''Failed to cancel execution for agent '' @ sq (as_agentId a) @ '': '' @ err_message e]\<rparr>, rt1))"

definition co_cancel :: "time_ms \<Rightarrow> string \<Rightarrow> coordinator \<times> agent_runtime \<Rightarrow> (coordinator \<times> agent_runtime) \<times> bool" where
  "co_cancel now cid = (\<lambda>(s, rt).
     case running_task cid s of
       None \<Rightarrow> ((s, rt), False)
     | Some t \<Rightarrow> (fold (cancel_assignment now) (ct_assignments t) (put_task (stopped now CsCancelled t) s, rt), True))"

record coordinator_health =
  chh_status :: health_status
  chh_active :: nat
  chh_completed :: nat
  chh_failed :: nat
  chh_totalTime :: int
  chh_total :: nat
  chh_successful :: nat
  chh_errors :: "string list"
  chh_warnings :: "string list"
  chh_lastActivity :: time_ms
  chh_uptime :: int

text \<open>The average time and the success rate are kept as the numbers they are the quotients of.\<close>

definition co_health :: "time_ms \<Rightarrow> coordinator \<Rightarrow> coordinator_health" where
  "co_health now s =
     (let act = length (co_coordinations s)
      in \<lparr>chh_status = (if co_errors s \<noteq> [] \<or> co_failed s > co_successful s then Unhealthy
            else if co_warnings s \<noteq> [] \<or> act > 10 then Degraded else Healthy),
          chh_active = act, chh_completed = co_successful s + co_failed s, chh_failed = co_failed s,
          chh_totalTime = co_totalTime s, chh_total = co_total s, chh_successful = co_successful s,
          chh_errors = co_errors s, chh_warnings = co_warnings s, chh_lastActivity = now, chh_uptime = now - co_startTime s\<rparr>)"

section \<open>Handoff and broadcast\<close>

record handoff_request =
  hr_fromAgentId :: string
  hr_toAgentId :: string
  hr_taskId :: string
  hr_context :: js_record
  hr_input :: jsval
  hr_reason :: "string option"
  hr_timeout :: "int option"
  hr_metadata :: js_record

record handoff_result =
  hf_handoffId :: string
  hf_fromAgentId :: string
  hf_toAgentId :: string
  hf_taskId :: string
  hf_success :: bool
  hf_handoffAt :: time_ms
  hf_completedAt :: "time_ms option"
  hf_result :: "execution_result option"
  hf_error :: "string option"
  hf_metadata :: js_record

text \<open>A field of the context as a string; it is one or absent.\<close>

definition ctx_string :: "string \<Rightarrow> string \<Rightarrow> js_record \<Rightarrow> string" where
  "ctx_string k d c = (case js_get c k of Some (JStr x) \<Rightarrow> str_or x d | _ \<Rightarrow> d)"

definition handoff_execution :: "string \<Rightarrow> handoff_request \<Rightarrow> execution_request" where
  "handoff_execution rid rq = \<lparr>xr_agentId = hr_toAgentId rq, xr_input = hr_input rq,
     xr_context = \<lparr>xc_requestId = rid, xc_workspaceId = ctx_string ''workspaceId'' ''default'' (hr_context rq),
       xc_userId = ctx_string ''userId'' ''system'' (hr_context rq),
       xc_metadata = js_spread (js_spread [(''handoff'', JBool True), (''fromAgent'', JStr (hr_fromAgentId rq)),
         (''reason'', opt_text (hr_reason rq))] (hr_context rq)) (hr_metadata rq),
       xc_timeout = hr_timeout rq, xc_aborted = False\<rparr>,
     xr_timeout = hr_timeout rq\<rparr>"

definition try_handoff :: "coord_env \<Rightarrow> string \<Rightarrow> handoff_request \<Rightarrow> coord_error + execution_result" where
  "try_handoff env rid rq =
     (let f = hr_fromAgentId rq; t = hr_toAgentId rq
      in if find_agent (ce_agents env) f = None then Inl (HandoffError f t ''Source agent not found'')
         else if find_agent (ce_agents env) t = None then Inl (HandoffError f t ''Target agent not found'')
         else if h_status (ce_health env t) = Unhealthy
              then Inl (HandoffError f t (''Target agent unhealthy: '' @ join_with '', '' (h_errors (ce_health env t))))
         else case ce_run env (handoff_execution rid rq) of Inl e \<Rightarrow> Inl (RunError e) | Inr r \<Rightarrow> Inr r)"

text \<open>\<open>t0\<close> and \<open>now\<close>: before and after the execution.\<close>

definition handoff ::
  "time_ms \<Rightarrow> time_ms \<Rightarrow> string \<Rightarrow> string \<Rightarrow> coord_env \<Rightarrow> handoff_request \<Rightarrow> coordinator \<Rightarrow> coordinator \<times> handoff_result" where
  "handoff t0 now hid rid env rq s =
     (let h = \<lparr>hf_handoffId = hid, hf_fromAgentId = hr_fromAgentId rq, hf_toAgentId = hr_toAgentId rq,
               hf_taskId = hr_taskId rq, hf_success = False, hf_handoffAt = now, hf_completedAt = None, hf_result = None,
               hf_error = None, hf_metadata = hr_metadata rq\<rparr>
      in case try_handoff env rid rq of
           Inr r \<Rightarrow> (s, h\<lparr>hf_success := er_success r, hf_handoffAt := t0, hf_completedAt := Some now, hf_result := Some r\<rparr>)
         | Inl e \<Rightarrow> (co_log (''Handoff '' @ hid @ '' failed: '' @ coord_message e) s, h\<lparr>hf_error := Some (coord_message e)\<rparr>))"

record broadcast_request =
  br_agentIds :: "string list"
  br_message :: jsval
  br_context :: coordination_context
  br_requireAcknowledgment :: "bool option"
  br_metadata :: js_record

record broadcast_result =
  bc_broadcastId :: string
  bc_agentIds :: "string list"
  bc_acknowledged :: "string list"
  bc_failed :: "string list"
  bc_broadcastAt :: time_ms
  bc_completedAt :: time_ms
  bc_success :: bool
  bc_errors :: "string list"
  bc_metadata :: js_record

definition broadcast_message :: "time_ms \<Rightarrow> string \<Rightarrow> string \<Rightarrow> broadcast_request \<Rightarrow> string \<Rightarrow> agent_message" where
  "broadcast_message now bid mid rq a = \<lparr>messageId = mid, senderAgentId = ''coordinator'', receiverAgentId = Some a,
     conversationId = None, msg_workspaceId = cc_workspaceId (br_context rq), msg_requestId = cc_requestId (br_context rq),
     msg_traceId = cc_traceId (br_context rq), timestamp = now, msg_priority = Normal, msg_type = MsgBroadcast,
     msg_status = MsgSent, payload = br_message rq,
     msg_metadata = js_spread [(''broadcastId'', JStr bid), (''requireAcknowledgment'',
       case br_requireAcknowledgment rq of Some b \<Rightarrow> JBool b | None \<Rightarrow> JUndefined)] (br_metadata rq)\<rparr>"

record broadcast_state =
  bs_bus :: bus
  bs_acknowledged :: "string list"
  bs_failed :: "string list"
  bs_errors :: "string list"

definition refuse :: "string \<Rightarrow> string \<Rightarrow> broadcast_state \<Rightarrow> broadcast_state" where
  "refuse a e b = b\<lparr>bs_failed := bs_failed b @ [a], bs_errors := bs_errors b @ [e]\<rparr>"

text \<open>The loop's body for the agent at a position; \<open>mids\<close> are the random message ids. The manager of the
  framework always has a bus, and \<open>send\<close> reports failures without throwing.\<close>

definition broadcast_one ::
  "time_ms \<Rightarrow> string \<Rightarrow> (nat \<Rightarrow> string) \<Rightarrow> agent_registry \<Rightarrow> broadcast_request \<Rightarrow> nat \<times> string \<Rightarrow> broadcast_state \<Rightarrow> broadcast_state" where
  "broadcast_one now bid mids reg rq = (\<lambda>(i, a) b.
     if find_agent reg a = None then refuse a (''Agent '' @ sq a @ '' not found'') b
     else case bus_send now (broadcast_message now bid (mids i) rq a) (bs_bus b) of
            (b1, True) \<Rightarrow> b\<lparr>bs_bus := b1, bs_acknowledged := bs_acknowledged b @ [a]\<rparr>
          | (b1, False) \<Rightarrow> refuse a (''Failed to send message to agent '' @ sq a) (b\<lparr>bs_bus := b1\<rparr>))"

definition co_broadcast ::
  "time_ms \<Rightarrow> string \<Rightarrow> (nat \<Rightarrow> string) \<Rightarrow> agent_registry \<Rightarrow> broadcast_request \<Rightarrow> coordinator \<times> bus
    \<Rightarrow> (coordinator \<times> bus) \<times> (coord_error + broadcast_result)" where
  "co_broadcast now bid mids reg rq = (\<lambda>(s, bus).
     let b = fold (broadcast_one now bid mids reg rq) (List.enumerate 0 (br_agentIds rq))
               \<lparr>bs_bus = bus, bs_acknowledged = [], bs_failed = [], bs_errors = []\<rparr>
     in if bs_failed b \<noteq> [] \<and> length (bs_failed b) = length (br_agentIds rq)
        then ((co_log (''Broadcast '' @ bid @ '' failed: Broadcast failed for all agents'') s, bs_bus b),
              Inl (BroadcastError (br_agentIds rq) (bs_failed b) ''Broadcast failed for all agents''))
        else ((s, bs_bus b), Inr \<lparr>bc_broadcastId = bid, bc_agentIds = br_agentIds rq, bc_acknowledged = bs_acknowledged b,
                bc_failed = bs_failed b, bc_broadcastAt = now, bc_completedAt = now, bc_success = (bs_failed b = []),
                bc_errors = bs_errors b, bc_metadata = br_metadata rq\<rparr>))"

end
