(* ===== verification/Coordinator_Props.thy ===== *)
theory Coordinator_Props
  imports Coordinator Runtime_Props Bus_Props
begin

text \<open>
  What the strategies of the coordinator decide; the interface \<open>agent_runner\<close> of the runtime it
  delegates to, with the consequence that agents executed by it never agree in a vote; what
  cancelling and broadcasting through the coordinator do.
\<close>

section \<open>Parallel strategies\<close>

lemma base_result_simps [simp]:
  "cd_status (base_result now t st res good bad errs) = st"
  "cd_successfulAgents (base_result now t st res good bad errs) = good"
  "cd_failedAgents (base_result now t st res good bad errs) = bad"
  "cd_agentResults (base_result now t st res good bad errs) = res"
  "cd_successCount (base_result now t st res good bad errs) = length good"
  "cd_failureCount (base_result now t st res good bad errs) = length bad"
  "cd_errors (base_result now t st res good bad errs) = errs"
  "cd_finalResult (base_result now t st res good bad errs) = JUndefined"
  by (simp_all add: base_result_def)

lemma parallel_simps [simp]:
  "cd_successfulAgents (executeParallel now t rq out) = map as_agentId (filter (\<lambda>a. fulfilled (out a)) (started rq t))"
  "cd_failedAgents (executeParallel now t rq out) = map as_agentId (filter (\<lambda>a. \<not> fulfilled (out a)) (started rq t))"
  "cd_successCount (executeParallel now t rq out) = length (filter (\<lambda>a. fulfilled (out a)) (started rq t))"
  "cd_failureCount (executeParallel now t rq out) = length (filter (\<lambda>a. \<not> fulfilled (out a)) (started rq t))"
  "cd_agentResults (executeParallel now t rq out) = file_results out (started rq t)"
  by (simp_all add: executeParallel_def Let_def)

lemma parallel_status:
  "cd_status (executeParallel now t rq out) = (if \<forall>a \<in> set (started rq t). fulfilled (out a) then CsSuccess else CsFailed)"
  by (auto simp: executeParallel_def Let_def filter_empty_conv)

lemma started_length:
  "length (started rq t) = (case given_num (cr_maxParallelism rq) of
     None \<Rightarrow> length (ct_assignments t) | Some k \<Rightarrow> nat (min k (int (length (ct_assignments t)))))"
  by (auto simp: started_def Let_def min_def split: option.split)

lemma file_results_other:
  "as_agentId a \<notin> as_agentId ` set as \<Longrightarrow>
     js_get (fold (\<lambda>a m. case out a of Inr r \<Rightarrow> js_set (as_agentId a) r m | Inl _ \<Rightarrow> m) as m) (as_agentId a) = js_get m (as_agentId a)"
  by (induction as arbitrary: m) (auto split: sum.split)

lemma file_results_get:
  assumes "distinct (map as_agentId as)" and "a \<in> set as" and "out a = Inr r"
  shows "js_get (file_results out as) (as_agentId a) = Some r"
proof -
  obtain xs ys where s: "as = xs @ a # ys" using split_list [OF assms(2)] by blast
  then have "as_agentId a \<notin> as_agentId ` set ys" using assms(1) by auto
  then show ?thesis using assms(3) by (simp add: file_results_def s file_results_other)
qed

text \<open>The strategies that run agents in parallel only ask which delegations returned, never
  whether the agents succeeded: the status is success exactly when every started delegation
  returned, requiring all to succeed is the same function as running in parallel, and the quorum
  is met exactly when enough delegations returned. With a limit on parallelism only that many
  agents ever run.\<close>
theorem parallel_strategies_ignore_success:
  "executeAllSuccess now t rq out = executeParallel now t rq out
   \<and> cd_status (executeParallel now t rq out) = (if list_all (\<lambda>a. fulfilled (out a)) (started rq t) then CsSuccess else CsFailed)
   \<and> isl (executeQuorum now t rq out) =
       (int (length (filter (\<lambda>a. fulfilled (out a)) (started rq t)))
        < (case given_num (ct_quorumSize t) of Some n \<Rightarrow> n | None \<Rightarrow> int ((length (ct_assignments t) + 1) div 2)))
   \<and> length (started rq t) = (case given_num (cr_maxParallelism rq) of
       None \<Rightarrow> length (ct_assignments t) | Some k \<Rightarrow> nat (min k (int (length (ct_assignments t)))))"
proof -
  have "cd_failureCount (executeParallel now t rq out) > 0 \<Longrightarrow> cd_status (executeParallel now t rq out) = CsFailed"
    by (auto simp: parallel_status filter_empty_conv)
  then have "executeAllSuccess now t rq out = executeParallel now t rq out"
    by (simp add: executeAllSuccess_def Let_def)
  then show ?thesis
    by (auto simp: parallel_status list_all_iff executeQuorum_def Let_def fulfilled_def started_length split: option.split)
qed

section \<open>Sequential and first success\<close>

text \<open>A sequence stops at an assignment when it is to fail fast and the delegation failed or its agent did.\<close>

definition stops :: "bool \<Rightarrow> outcomes \<Rightarrow> agent_assignment \<Rightarrow> bool" where
  "stops ff out a = (ff \<and> (case out a of Inl _ \<Rightarrow> True | Inr r \<Rightarrow> \<not> er_success r))"

definition failed_in :: "bool \<Rightarrow> outcomes \<Rightarrow> agent_assignment \<Rightarrow> bool" where
  "failed_in ff out a = (if fulfilled (out a) then stops ff out a else True)"

definition ran :: "bool \<Rightarrow> outcomes \<Rightarrow> agent_assignment list \<Rightarrow> agent_assignment list" where
  "ran ff out as = takeWhile (\<lambda>a. \<not> stops ff out a) as @ take 1 (dropWhile (\<lambda>a. \<not> stops ff out a) as)"

lemma ran_simps [simp]:
  "ran ff out [] = []"
  "ran ff out (a # as) = (if stops ff out a then [a] else a # ran ff out as)"
  by (simp_all add: ran_def)

lemma run_sequence_lists:
  "sq_good (run_sequence ff out as q) = sq_good q @ map as_agentId (filter (\<lambda>a. fulfilled (out a)) (ran ff out as))
   \<and> sq_bad (run_sequence ff out as q) = sq_bad q @ map as_agentId (filter (failed_in ff out) (ran ff out as))"
proof (induction as arbitrary: q)
  case (Cons a as)
  show ?case
  proof (cases "out a")
    case (Inl e)
    then show ?thesis using Cons.IH by (cases ff) (auto simp: Let_def fulfilled_def stops_def failed_in_def)
  next
    case (Inr r)
    then show ?thesis using Cons.IH by (auto simp: Let_def fulfilled_def stops_def failed_in_def)
  qed
qed simp

lemma none_failed: "filter (failed_in ff out) (ran ff out as) = [] \<longleftrightarrow> list_all (\<lambda>a. failed_in ff out a = False) as"
  by (induction as) (auto simp: stops_def fulfilled_def failed_in_def split: sum.splits if_splits)

text \<open>C11: A sequential coordination runs its agents in order, all of them or, failing fast, up to the
  first whose delegation throws or whose agent does not succeed. It lists every agent whose
  delegation returned as successful, one that failed it fast included, which is then listed as
  failed too; its status is success exactly when no delegation threw and none failed it fast.\<close>
theorem sequential_coordination:
  "let r = executeSequential now t rq out; ff = cr_failFast rq; xs = ran ff out (ct_assignments t)
   in cd_successfulAgents r = map as_agentId (filter (\<lambda>a. fulfilled (out a)) xs)
    \<and> cd_failedAgents r = map as_agentId (filter (failed_in ff out) xs)
    \<and> cd_status r = (if list_all (\<lambda>a. failed_in ff out a = False) (ct_assignments t) then CsSuccess else CsFailed)"
  using run_sequence_lists [of "cr_failFast rq" out "ct_assignments t" "\<lparr>sq_good = [], sq_bad = [], sq_results = [], sq_errors = []\<rparr>"]
  by (simp add: executeSequential_def Let_def none_failed)

text \<open>The first delegation to return a success decides, whatever ran before it.\<close>

definition won :: "outcomes \<Rightarrow> agent_assignment \<Rightarrow> bool" where
  "won out a = (case out a of Inr r \<Rightarrow> er_success r | Inl _ \<Rightarrow> False)"

lemma first_success_outcome:
  "let r = first_success now t out as res errs
   in (case List.find (won out) as of
         Some a \<Rightarrow> cd_status r = CsSuccess \<and> cd_successfulAgents r = [as_agentId a] \<and> Inr (cd_finalResult r) = map_sum id er_output (out a)
       | None \<Rightarrow> cd_status r = CsFailed \<and> cd_successfulAgents r = [] \<and> cd_failedAgents r = map as_agentId (ct_assignments t))"
  by (induction as arbitrary: res errs) (auto simp: Let_def won_def split: sum.splits)

section \<open>Votes\<close>

lemma set_object_entries [simp]: "set (object_entries m) = set m"
  by (auto simp: object_entries_def)

lemma no_winner:
  assumes "\<And>k c. (k, c) \<in> set m \<Longrightarrow> \<not> wins v c n"
  shows "determineWinningVote m v n = Inr JUndefined"
proof (cases "js_sort_by (\<lambda>e. - snd e) (object_entries m)")
  case Nil
  then show ?thesis by (simp add: determineWinningVote_def)
next
  case (Cons e es)
  then have "e \<in> set (js_sort_by (\<lambda>e. - snd e) (object_entries m))" by simp
  then have m: "e \<in> set m" by simp
  obtain k c where e: "e = (k, c)" by (cases e)
  have "\<not> wins v c n" by (rule assms) (use m e in simp)
  then show ?thesis using Cons by (simp add: determineWinningVote_def e)
qed

lemma bit_count_Suc: "n > 0 \<Longrightarrow> bit_count n = Suc (bit_count (n div 2))"
  by (subst bit_count.simps) simp

lemma bit_count_pos: "n > 0 \<Longrightarrow> 2 ^ (bit_count n - 1) \<le> n"
proof (induction n rule: bit_count.induct)
  case (1 n)
  show ?case
  proof (cases "n = 1")
    case True
    then show ?thesis by (simp add: bit_count.simps)
  next
    case False
    then have h: "n div 2 > 0" using "1.prems" by simp
    then have "bit_count n - 1 = Suc (bit_count (n div 2) - 1)" using bit_count_Suc "1.prems" by simp
    then have "2 ^ (bit_count n - 1) = 2 * (2 :: nat) ^ (bit_count (n div 2) - 1)" by simp
    also have "\<dots> \<le> 2 * (n div 2)" using "1.IH" [OF _ h] "1.prems" by simp
    finally show ?thesis by simp
  qed
qed

lemma round53_ge:
  assumes "2 ^ 53 \<le> n"
  shows "2 ^ 52 * n \<le> 2 ^ 52 * round53 n + n"
proof -
  define u :: nat where "u = 2 ^ (bit_count n - 53)"
  have a: "2 ^ 52 * u \<le> n"
  proof (cases "53 \<le> bit_count n")
    case True
    then have "52 + (bit_count n - 53) = bit_count n - 1" by simp
    moreover have "2 ^ 52 * u = 2 ^ (52 + (bit_count n - 53))" by (simp only: u_def power_add)
    ultimately have "2 ^ 52 * u = 2 ^ (bit_count n - 1)" by simp
    then show ?thesis using bit_count_pos [of n] assms by simp
  next
    case False
    then show ?thesis using assms by (simp add: u_def)
  qed
  have b: "(n div u) * u \<le> round53 n" by (simp add: round53_def Let_def u_def)
  have "0 < u" by (simp add: u_def)
  then have c: "n \<le> (n div u) * u + u" using div_mult_mod_eq [of n u] mod_less_divisor [of u n] by linarith
  have "2 ^ 52 * n \<le> 2 ^ 52 * ((n div u) * u + u)" by (rule mult_le_mono2 [OF c])
  also have "\<dots> = 2 ^ 52 * ((n div u) * u) + 2 ^ 52 * u" by (rule distrib_left)
  also have "\<dots> \<le> 2 ^ 52 * round53 n + n" by (rule add_mono [OF mult_le_mono2 [OF b] a])
  finally show ?thesis .
qed

lemma one_vote_loses: "2 \<le> n \<Longrightarrow> \<not> wins v 1 n"
proof -
  assume n: "2 \<le> n"
  have "12069647001352930 \<le> n * 6034823500676465" using n by simp
  moreover from this have "(2 :: nat) ^ 53 \<le> n * 6034823500676465" by simp
  note round53_ge [OF this]
  ultimately have "\<not> super_majority 1 n" by (simp add: super_majority_def)
  then show ?thesis using n by (cases v) (simp_all add: wins_def)
qed

lemma votes_fold:
  assumes "distinct (map K as)" and "\<And>a. a \<in> set as \<Longrightarrow> \<not> js_has m (K a)"
    and "\<And>a. a \<in> set as \<Longrightarrow> weight_of t a = 1" and "\<And>a. K a = json_of isoText (vote_of r a)"
  shows "fold (add_vote isoText t r) as m = m @ map (\<lambda>a. (K a, 1)) as"
  using assms
proof (induction as arbitrary: m)
  case (Cons a as)
  have h: "\<not> js_has m (json_of isoText (vote_of r a))" using Cons.prems(2) [of a] Cons.prems(4) [of a] by simp
  then have g: "js_get m (json_of isoText (vote_of r a)) = None" by (simp add: js_has_iff)
  have "add_vote isoText t r a m = m @ [(K a, 1)]"
    using Cons.prems(3) [of a] Cons.prems(4) [of a] by (simp add: add_vote_def g js_set_new [OF h])
  moreover have "fold (add_vote isoText t r) as (m @ [(K a, 1)]) = (m @ [(K a, 1)]) @ map (\<lambda>a. (K a, 1)) as"
  proof (rule Cons.IH)
    show "\<not> js_has (m @ [(K a, 1)]) (K b)" if "b \<in> set as" for b
    proof -
      have "K b \<noteq> K a" using Cons.prems(1) that by (metis distinct.simps(2) image_eqI list.map(2) list.set_map)
      then show ?thesis using Cons.prems(2) [of b] that by (auto simp: js_has_keys)
    qed
  qed (use Cons.prems in auto)
  ultimately show ?case by simp
qed simp

lemma disjoint_votes_fail:
  assumes "distinct (map (\<lambda>a. json_of isoText (vote_of (executeParallel now t rq out) a)) (map as_agentId (filter (\<lambda>a. fulfilled (out a)) (started rq t))))"
    and "\<And>a. a \<in> set (ct_assignments t) \<Longrightarrow> as_weight a = 1"
    and "2 \<le> length (filter (\<lambda>a. fulfilled (out a)) (started rq t))"
  shows "\<exists>r. executeMajorityVoting now isoText t rq out = Inr r \<and> cd_status r = CsFailed \<and> cd_winningVote r = JUndefined"
proof -
  let ?r = "executeParallel now t rq out" and ?as = "map as_agentId (filter (\<lambda>a. fulfilled (out a)) (started rq t))"
  let ?K = "\<lambda>a. json_of isoText (vote_of ?r a)"
  have w: "weight_of t a = 1" for a
    using assms(2) by (auto simp: weight_of_def find_Some_iff split: option.split)
  have "fold (add_vote isoText t ?r) ?as [] = [] @ map (\<lambda>a. (?K a, 1)) ?as"
    by (rule votes_fold) (use assms(1) w in auto)
  then have f: "fold (add_vote isoText t ?r) ?as [] = map (\<lambda>a. (?K a, 1)) ?as" by simp
  have "determineWinningVote (map (\<lambda>a. (?K a, 1)) ?as) v (length ?as) = Inr JUndefined" for v
    by (rule no_winner) (use assms(3) one_vote_loses in auto)
  then show ?thesis by (simp add: executeMajorityVoting_def Let_def f)
qed

section \<open>Agents executed by the runtime\<close>

text \<open>
  The interface of the runtime the coordinator delegates to: a call that returns is one of a
  registered agent, and the output of a successful one starts with the agent's id.
\<close>

locale agent_runner =
  fixes agents :: agent_registry
    and run :: "execution_request \<Rightarrow> agent_error + execution_result"
  assumes run_agent: "run rq = Inr r \<Longrightarrow> \<exists>a. find_agent agents (xr_agentId rq) = Some a \<and> er_agentId r = ag_id a"
    and run_output: "run rq = Inr r \<Longrightarrow> er_success r \<Longrightarrow> \<exists>fs. er_output r = JObj ((''agentId'', JStr (er_agentId r)) # fs)"
begin

lemma outputs_differ:
  assumes "run rq = Inr r" "run rq' = Inr r'" "er_success r" "er_success r'" "er_agentId r \<noteq> er_agentId r'"
  shows "json_of isoText (er_output r) \<noteq> json_of isoText (er_output r')"
  using run_output [OF assms(1,3)] run_output [OF assms(2,4)] assms(5) by auto

lemma outcome_run:
  assumes "ce_run env = run" and "assignment_outcome env tm t c a = Inr r"
  shows "\<exists>rq. run rq = Inr r \<and> xr_agentId rq = as_agentId a"
  using assms
  by (auto simp: assignment_outcome_def delegate_outcome_def try_delegate_def delegate_request_def split: sum.splits option.splits if_splits)

text \<open>Votes of two agents filed under their ids differ.\<close>

lemma votes_never_agree:
  assumes env: "ce_run env = run" and out: "out = assignment_outcome env tm t c"
    and keyed: "\<And>i a. find_agent agents i = Some a \<Longrightarrow> ag_id a = i"
    and distinct: "distinct (map as_agentId (ct_assignments t))"
    and good: "\<And>a. a \<in> set (started rq t) \<Longrightarrow> \<exists>r. out a = Inr r \<and> er_success r"
  shows "distinct (map (\<lambda>a. json_of isoText (vote_of (executeParallel now t rq out) a))
    (map as_agentId (filter (\<lambda>a. fulfilled (out a)) (started rq t))))"
proof -
  let ?r = "executeParallel now t rq out" and ?run = "started rq t"
  have d: "distinct (map as_agentId ?run)"
    using distinct by (simp add: started_def Let_def distinct_take flip: take_map)
  have vote: "vote_of ?r (as_agentId a) = er_output r" if "a \<in> set ?run" "out a = Inr r" for a r
    using file_results_get [of ?run a out r] d that by (simp add: vote_of_def)
  have f: "filter (\<lambda>a. fulfilled (out a)) ?run = ?run"
    using good by (fastforce simp: fulfilled_def filter_id_conv)
  have "inj_on (\<lambda>a. json_of isoText (vote_of ?r (as_agentId a))) (set ?run)"
  proof (rule inj_onI)
    fix a b
    assume a: "a \<in> set ?run" and b: "b \<in> set ?run"
      and e: "json_of isoText (vote_of ?r (as_agentId a)) = json_of isoText (vote_of ?r (as_agentId b))"
    obtain ra rb where r: "out a = Inr ra" "er_success ra" "out b = Inr rb" "er_success rb"
      using good [OF a] good [OF b] by blast
    obtain qa where qa: "run qa = Inr ra" "xr_agentId qa = as_agentId a" using outcome_run [OF env] r(1) out by blast
    obtain qb where qb: "run qb = Inr rb" "xr_agentId qb = as_agentId b" using outcome_run [OF env] r(3) out by blast
    have ids: "er_agentId ra = as_agentId a" "er_agentId rb = as_agentId b"
      using run_agent [OF qa(1)] run_agent [OF qb(1)] keyed qa(2) qb(2) by fastforce+
    have "er_agentId ra = er_agentId rb"
      using outputs_differ [OF qa(1) qb(1) r(2,4)] e vote [OF a r(1)] vote [OF b r(3)] by metis
    then show "a = b" using ids d a b by (metis distinct_map inj_onD)
  qed
  moreover have "distinct ?run" using d by (simp add: distinct_map)
  ultimately show ?thesis unfolding f map_map comp_def by (subst distinct_map) simp
qed

end

text \<open>The runtime when nothing interrupts a call: each request with its clock readings and ids.\<close>

definition runtime_runner ::
  "(execution_request \<Rightarrow> time_ms \<times> time_ms \<times> time_ms) \<Rightarrow> (execution_request \<Rightarrow> string \<times> string) \<Rightarrow> (string \<Rightarrow> agent_health)
    \<Rightarrow> agent_runtime \<Rightarrow> execution_request \<Rightarrow> agent_error + execution_result" where
  "runtime_runner clock ids h s rq =
     (case run_call (clock rq) (fst (ids rq)) (snd (ids rq)) h rq s of
        (_, Some res) \<Rightarrow> res | (_, None) \<Rightarrow> Inl (ExecutionNotFound (fst (ids rq))))"

lemma eg_update_known: "js_has (eg_executions g) i \<Longrightarrow> \<exists>g1. eg_update i r g = (g1, Inr ()) \<and> js_has (eg_executions g1) i"
  by (simp add: eg_update_def)

lemma rt_fail_throws: "\<exists>e. snd (rt_fail now i fl err s) = Inl e"
  by (auto simp: rt_fail_def Let_def split: prod.split sum.split)

lemma rt_record_known:
  "js_has (eg_executions (rt_registry s)) i \<Longrightarrow> snd (rt_record now i fl r s) = Inr (r\<lparr>er_executionId := i\<rparr>)"
  using eg_update_known [of "rt_registry s" i "r\<lparr>er_executionId := i\<rparr>"] by (auto simp: rt_record_def)

text \<open>A result of this agent, whose output is the agent's when it succeeded.\<close>

definition result_of :: "agent \<Rightarrow> execution_result \<Rightarrow> bool" where
  "result_of a r = (er_agentId r = ag_id a \<and> (er_success r \<longrightarrow> (\<exists>now inp c. er_output r = agent_output now a inp c)))"

lemma result_of_simps [simp]:
  "result_of a (cancelled_result eid t0 now a c)" "result_of a (completed_result eid t0 now a inp c)"
  "result_of a (r\<lparr>er_executionId := i\<rparr>) = result_of a r"
  by (auto simp: result_of_def cancelled_result_def completed_result_def)

text \<open>An uninterrupted call always comes back, with an error or the result of the agent.\<close>

lemma launched_call:
  assumes "js_get (rt_flights s) i = Some fl" and "js_has (eg_executions (rt_registry s)) i"
    and "find_agent (rt_agents s) (xr_agentId (fl_request fl)) = Some a"
  shows "(\<exists>e. snd (rt_launch now i eid h s) = Some (Inl e))
    \<or> (\<exists>r. snd (rt_launch now i eid h s) = Some (Inr r) \<and> result_of a r)
    \<or> (\<exists>s1. rt_launch now i eid h s = (s1, None) \<and> js_has (eg_executions (rt_registry s1)) i
         \<and> js_get (rt_flights s1) i = Some (fl\<lparr>fl_stage := Launched eid now a\<rparr>))"
proof -
  obtain g1 where u: "eg_update i ((fl_initial fl)\<lparr>er_status := ExRunning, er_startedAt := now\<rparr>) (rt_registry s) = (g1, Inr ())"
    and g: "js_has (eg_executions g1) i" using eg_update_known [OF assms(2)] by blast
  show ?thesis
  proof (cases "exec_validate (rt_agents s) h a")
    case (Some e)
    then show ?thesis using assms(1,3) u rt_fail_throws by (simp add: rt_launch_def Let_def)
  next
    case None
    show ?thesis
    proof (cases "xc_aborted (run_context (fl_request fl))")
      case True
      then show ?thesis using assms(1,3) u g None by (simp add: rt_launch_def Let_def exec_begin_def rt_record_known)
    next
      case False
      then show ?thesis using assms(1,3) u g None by (simp add: rt_launch_def Let_def exec_begin_def)
    qed
  qed
qed

lemma finished_call:
  assumes "js_get (rt_flights s) i = Some fl" and "fl_stage fl = Launched eid t0 a" and "js_has (eg_executions (rt_registry s)) i"
  shows "\<exists>r. snd (rt_finish now i s) = Some (Inr r) \<and> result_of a r"
  using assms by (simp add: rt_finish_def exec_end_def rt_record_known)

lemma run_call_result:
  "(\<exists>e. snd (run_call ts i eid h rq s) = Some (Inl e))
   \<or> (\<exists>r a. snd (run_call ts i eid h rq s) = Some (Inr r) \<and> find_agent (rt_agents s) (xr_agentId rq) = Some a \<and> result_of a r)"
proof -
  obtain t0 t1 t2 where ts: "ts = (t0, t1, t2)" by (cases ts)
  let ?s = "rt_start t0 i rq s"
  let ?fl = "\<lparr>fl_request = rq, fl_initial = initial_result t0 i rq, fl_stage = Started\<rparr>"
  have fl: "js_get (rt_flights ?s) i = Some ?fl" by (simp add: rt_start_def Let_def)
  have known: "js_has (eg_executions (rt_registry ?s)) i"
    by (simp add: rt_start_def Let_def eg_register_def initial_result_def)
  have ag: "rt_agents ?s = rt_agents s" by (simp add: rt_start_def Let_def)
  show ?thesis
  proof (cases "find_agent (rt_agents s) (xr_agentId rq)")
    case None
    then have "\<exists>e. snd (rt_launch t1 i eid (h (xr_agentId rq)) ?s) = Some (Inl e)"
      using fl rt_fail_throws by (simp add: rt_launch_def Let_def ag)
    then show ?thesis by (auto simp: run_call_def ts split: prod.split option.split)
  next
    case (Some a)
    then have a: "find_agent (rt_agents ?s) (xr_agentId (fl_request ?fl)) = Some a" by (simp add: ag)
    from launched_call [OF fl known a, of t1 eid "h (xr_agentId rq)"] show ?thesis
    proof (elim disjE exE conjE)
      fix e
      assume "snd (rt_launch t1 i eid (h (xr_agentId rq)) ?s) = Some (Inl e)"
      then show ?thesis by (auto simp: run_call_def ts split: prod.split option.split)
    next
      fix r
      assume "snd (rt_launch t1 i eid (h (xr_agentId rq)) ?s) = Some (Inr r)" "result_of a r"
      then show ?thesis using Some by (auto simp: run_call_def ts split: prod.split option.split)
    next
      fix s1
      assume l: "rt_launch t1 i eid (h (xr_agentId rq)) ?s = (s1, None)" and k: "js_has (eg_executions (rt_registry s1)) i"
        and f: "js_get (rt_flights s1) i = Some (?fl\<lparr>fl_stage := Launched eid t1 a\<rparr>)"
      have "\<exists>r. snd (rt_finish t2 i s1) = Some (Inr r) \<and> result_of a r" by (rule finished_call [OF f _ k]) simp
      then show ?thesis using Some l by (simp add: run_call_def ts)
    qed
  qed
qed

lemma runtime_runner_result:
  assumes "runtime_runner clock ids h s rq = Inr r"
  shows "\<exists>a. find_agent (rt_agents s) (xr_agentId rq) = Some a \<and> result_of a r"
  using assms run_call_result [of "clock rq" "fst (ids rq)" "snd (ids rq)" h rq s]
  by (auto simp: runtime_runner_def split: prod.splits option.splits)

interpretation runtime: agent_runner "rt_agents s" "runtime_runner clock ids h s" for clock ids h s
  by unfold_locales (use runtime_runner_result in \<open>fastforce simp: result_of_def agent_output_def\<close>)+


definition demo_coord_request :: "coordination_strategy \<Rightarrow> coordination_request" where
  "demo_coord_request st = \<lparr>cr_agentIds = [''a'', ''b''], cr_input = JNull, cr_strategy = Some st,
     cr_context = Some \<lparr>cc_coordinationId = ''c'', cc_requestId = ''q'', cc_traceId = ''t'', cc_workspaceId = ''w'',
       cc_userId = ''u'', cc_conversationId = None, cc_executionId = ''e'', cc_startTime = 0, cc_timeout = None,
       cc_aborted = False, cc_metadata = []\<rparr>,
     cr_quorumSize = None, cr_votingMethod = Some SimpleMajority, cr_weightThreshold = None, cr_maxParallelism = None,
     cr_agentWeights = [], cr_agentTimeouts = [], cr_agentPriorities = [], cr_timeoutMs = None, cr_retryAttempts = None,
     cr_failFast = False, cr_metadata = []\<rparr>"

definition demo_context_of :: "coordination_request \<Rightarrow> coordination_context" where
  "demo_context_of rq = the (cr_context rq)"

definition demo_two_agents :: agent_runtime where
  "demo_two_agents = new_agent_runtime [(''a'', demo_exec_agent), (''b'', demo_exec_agent\<lparr>ag_id := ''b''\<rparr>)]"

definition demo_env :: coord_env where
  "demo_env = \<lparr>ce_agents = rt_agents demo_two_agents, ce_health = (\<lambda>_. demo_healthy),
     ce_run = runtime_runner (\<lambda>_. (0, 1, 101)) (\<lambda>_. (''i'', ''x'')) (\<lambda>_. demo_healthy) demo_two_agents\<rparr>"

definition demo_coord_task :: coordination_task where
  "demo_coord_task = new_task_of 0 ''c'' ''k'' (demo_coord_request StMajorityVoting) StMajorityVoting
     (demo_context_of (demo_coord_request StMajorityVoting))"

definition demo_outcomes :: outcomes where
  "demo_outcomes = assignment_outcome demo_env (\<lambda>_. 0) demo_coord_task (demo_context_of (demo_coord_request StMajorityVoting))"

lemma demo_outcomes_good: "list_all (\<lambda>a. case demo_outcomes a of Inr r \<Rightarrow> er_success r | Inl _ \<Rightarrow> False)
    (started (demo_coord_request StMajorityVoting) demo_coord_task)"
  by code_simp


end
