(* ===== verification/Coordinator_Steps.thy ===== *)
theory Coordinator_Steps
  imports Coordinator_Props
begin

text \<open>
  What the operations of the coordinator do to a coordination that runs, and its broadcasts over
  the bus.
\<close>

section \<open>Cancelling\<close>

lemma base_result_stopped [simp]: "base_result now (stopped n st t) = base_result now t"
  by (intro ext) (simp add: base_result_def stopped_def)

lemma started_stopped [simp]: "started rq (stopped n st t) = started rq t"
  by (simp add: started_def stopped_def)

lemma stopped_fields [simp]:
  "ct_assignments (stopped n st t) = ct_assignments t" "ct_strategy (stopped n st t) = ct_strategy t"
  "ct_quorumSize (stopped n st t) = ct_quorumSize t" "ct_votingMethod (stopped n st t) = ct_votingMethod t"
  "ct_taskId (stopped n st t) = ct_taskId t" "ct_status (stopped n st t) = st"
  by (simp_all add: stopped_def)

lemma parallel_stopped [simp]: "executeParallel now (stopped n st t) rq out = executeParallel now t rq out"
  by (simp add: executeParallel_def)

lemma first_success_stopped [simp]:
  "first_success now (stopped n st t) out as res errs = first_success now t out as res errs"
  by (induction as arbitrary: res errs) (auto simp: Let_def split: sum.split)

lemma add_vote_stopped [simp]: "add_vote isoText (stopped n st t) = add_vote isoText t"
  by (intro ext) (simp add: add_vote_def weight_of_def)

lemma quorum_stopped [simp]: "executeQuorum now (stopped n st t) rq out = executeQuorum now t rq out"
  by (cases "given_num (ct_quorumSize t)") (simp_all add: executeQuorum_def)

lemma strategy_ignores_status: "executeCoordination now isoText (stopped n st t) rq out order = executeCoordination now isoText t rq out order"
  by (cases "ct_strategy t")
    (simp_all add: executeCoordination_def executeSequential_def executeFirstSuccess_def executeAllSuccess_def
      executeMajorityVoting_def Let_def)

text \<open>The warning of a cancellation the runtime does not know.\<close>

definition unknown_warning :: "agent_assignment \<Rightarrow> string" where
  "unknown_warning a = ''Failed to cancel execution for agent '' @ sq (as_agentId a) @ '': '' @ err_message (ExecutionNotFound (as_taskId a))"

lemma cancel_unknown_assignments:
  "\<forall>a \<in> set as. \<not> js_has (eg_executions (rt_registry rt)) (as_taskId a) \<Longrightarrow>
     fold (cancel_assignment now) as (s, rt) = (s\<lparr>co_warnings := co_warnings s @ map unknown_warning as\<rparr>, rt)"
proof (induction as arbitrary: s)
  case (Cons a as)
  then have "cancelExecution now (as_taskId a) rt = (rt, Inl (ExecutionNotFound (as_taskId a)))"
    by (auto simp: cancelExecution_def eg_get_def js_has_iff split: option.split)
  then have "cancel_assignment now a (s, rt) = (s\<lparr>co_warnings := co_warnings s @ [unknown_warning a]\<rparr>, rt)"
    by (simp add: cancel_assignment_def unknown_warning_def)
  then show ?case using Cons by simp
qed simp

text \<open>Cancelling a running coordination marks its task cancelled and reports success, but stops
  nothing: the task ids it hands to the runtime are no executions there, so the runtime stays as it
  is and every agent leaves a warning; and \<open>assign\<close> still returns, or throws, exactly what it would
  have without the cancellation.\<close>
theorem coordination_cancel_ineffective:
  assumes "js_get (co_coordinations s) cid = Some (ct_taskId t)" and "js_get (co_tasks s) (ct_taskId t) = Some t"
    and "\<forall>a \<in> set (ct_assignments t). \<not> js_has (eg_executions (rt_registry rt)) (as_taskId a)"
  shows "let res = co_cancel now cid (s, rt); s1 = fst (fst res)
    in snd res \<and> snd (fst res) = rt \<and> map_option ct_status (running_task cid s1) = Some CsCancelled
     \<and> co_warnings s1 = co_warnings s @ map unknown_warning (ct_assignments t)
     \<and> snd (assign_end later isoText cid (ct_taskId t) rq out order s1) = snd (assign_end later isoText cid (ct_taskId t) rq out order s)"
proof -
  let ?s = "put_task (stopped now CsCancelled t) s"
  have r: "running_task cid s = Some t" using assms(1,2) by (simp add: running_task_def)
  have "co_cancel now cid (s, rt) = ((?s\<lparr>co_warnings := co_warnings ?s @ map unknown_warning (ct_assignments t)\<rparr>, rt), True)"
    using cancel_unknown_assignments [OF assms(3), of now ?s] by (simp add: co_cancel_def r)
  then show ?thesis using assms(1,2)
    by (simp add: running_task_def put_task_def assign_end_def strategy_ignores_status split: sum.split)
qed

text \<open>A coordination that has just begun.\<close>

definition demo_begun :: coordinator where
  "demo_begun = fst (assign_begin 0 ''x'' ''k'' demo_env (demo_coord_request StParallel) (new_coordinator 0))"

theorem coordination_cancel_ineffective_witness:
  "let res = co_cancel 5 ''c'' (demo_begun, demo_two_agents)
   in snd res \<and> length (co_warnings (fst (fst res))) = 2
    \<and> snd (assign_end 9 int_str ''c'' ''k'' (demo_coord_request StParallel) demo_outcomes [] (fst (fst res)))
      = snd (assign_end 9 int_str ''c'' ''k'' (demo_coord_request StParallel) demo_outcomes [] demo_begun)"
proof -
  obtain t where t: "js_get (co_coordinations demo_begun) ''c'' = Some (ct_taskId t)" "js_get (co_tasks demo_begun) (ct_taskId t) = Some t"
    "ct_taskId t = ''k''" "length (ct_assignments t) = 2"
  proof -
    have "case js_get (co_tasks demo_begun) ''k'' of None \<Rightarrow> False | Some t \<Rightarrow> ct_taskId t = ''k'' \<and> length (ct_assignments t) = 2"
      "js_get (co_coordinations demo_begun) ''c'' = Some ''k''" by code_simp+
    then show ?thesis using that by (cases "js_get (co_tasks demo_begun) ''k''") auto
  qed
  have "\<forall>a \<in> set (ct_assignments t). \<not> js_has (eg_executions (rt_registry demo_two_agents)) (as_taskId a)"
    by (simp add: demo_two_agents_def new_agent_runtime_def new_execution_registry_def)
  from coordination_cancel_ineffective [OF t(1,2) this, of 5 9 int_str "demo_coord_request StParallel" demo_outcomes "[]"]
  moreover have "co_warnings demo_begun = []" by code_simp
  ultimately show ?thesis using t(3,4) by (simp add: Let_def)
qed

section \<open>Broadcasting\<close>

lemma unregistered_send:
  "\<not> js_has (bus_agents b) (senderAgentId m) \<Longrightarrow> snd (bus_send now m b) = False \<and> bus_agents (fst (bus_send now m b)) = bus_agents b"
  by (simp add: bus_send_def addToMessageLog_def js_has_iff Let_def split: option.split)

lemma broadcast_sender [simp]: "senderAgentId (broadcast_message now bid mid rq a) = ''coordinator''"
  "msg_type (broadcast_message now bid mid rq a) = MsgBroadcast"
  by (simp_all add: broadcast_message_def)

lemma broadcast_unregistered_fold:
  assumes "\<not> js_has (bus_agents (bs_bus b)) ''coordinator''"
  shows "bs_failed (fold (broadcast_one now bid mids reg rq) xs b) = bs_failed b @ map snd xs
    \<and> bus_agents (bs_bus (fold (broadcast_one now bid mids reg rq) xs b)) = bus_agents (bs_bus b)"
  using assms
proof (induction xs arbitrary: b)
  case (Cons x xs)
  obtain i a where x: "x = (i, a)" by (cases x)
  obtain b1 ok where send: "bus_send now (broadcast_message now bid (mids i) rq a) (bs_bus b) = (b1, ok)" by fastforce
  have "\<not> ok" "bus_agents b1 = bus_agents (bs_bus b)"
    using unregistered_send [of "bs_bus b" "broadcast_message now bid (mids i) rq a" now] Cons.prems send by simp_all
  then have "bs_failed (broadcast_one now bid mids reg rq x b) = bs_failed b @ [a]
      \<and> bus_agents (bs_bus (broadcast_one now bid mids reg rq x b)) = bus_agents (bs_bus b)"
    by (simp add: broadcast_one_def x send refuse_def)
  then show ?case using Cons.IH [of "broadcast_one now bid mids reg rq x b"] Cons.prems by (simp add: x)
qed simp

text \<open>How many messages wait for an agent.\<close>

definition waiting_for :: "string \<Rightarrow> bus \<Rightarrow> nat" where
  "waiting_for j b = (case bus_getAgentInbox j b of Some ib \<Rightarrow> length (ib_messages ib) | None \<Rightarrow> 0)"

lemma broadcast_waiting:
  assumes "bus_reachable b" and "bus_isRegistered ''coordinator'' b" and "bus_isRegistered j b" and "j \<noteq> ''coordinator''"
    and "senderAgentId m = ''coordinator''" and "msg_type m = MsgBroadcast"
  shows "waiting_for j (fst (bus_send now m b)) = min 1000 (Suc (waiting_for j b))
    \<and> bus_isRegistered ''coordinator'' (fst (bus_send now m b)) \<and> bus_isRegistered j (fst (bus_send now m b))"
proof -
  obtain a where a: "js_get (bus_agents b) j = Some a" using assms(3) by (auto simp: bus_isRegistered_def js_has_iff)
  have ok: "agent_ok j a" using bus_reachable_inv [OF assms(1)] a by (simp add: bus_inv_def)
  then have len: "length (ib_messages (ra_inbox a)) \<le> 1000" by (simp add: agent_ok_def inbox_inv_def mailbox_max_def)
  let ?c = "(broadcast_copy now m)\<lparr>receiverAgentId := Some j\<rparr>"
  have mis: "\<not> misaddressed (ra_inbox a) ?c" using ok by (simp add: agent_ok_def misaddressed_def addressee_def)
  have push: "length (ib_messages (fst (inbox_push now ?c (ra_inbox a)))) = min 1000 (Suc (length (ib_messages (ra_inbox a))))"
    using mis len by (auto simp: inbox_push_def mailbox_max_def mailbox.length_ins)
  have eff: "bus_getAgentInbox i (fst (bus_send now m b)) = (if i = ''coordinator'' then bus_getAgentInbox i b
      else map_option (\<lambda>ib. fst (inbox_push now ((broadcast_copy now m)\<lparr>receiverAgentId := Some i\<rparr>) ib)) (bus_getAgentInbox i b))" for i
    using bus_send_broadcast_effect [of b m now] assms(1,2,5,6) by simp
  have reg: "bus_isRegistered i c \<longleftrightarrow> bus_getAgentInbox i c \<noteq> None" for i c
    by (auto simp: bus_isRegistered_def bus_getAgentInbox_def js_has_iff)
  have box: "bus_getAgentInbox j b = Some (ra_inbox a)" by (simp add: bus_getAgentInbox_def a)
  show ?thesis using eff [of j] eff [of "''coordinator''"] push assms(2-4) by (simp add: waiting_for_def reg box)
qed

lemma broadcast_fold_waiting:
  assumes "bus_reachable (bs_bus b)" and "bus_isRegistered ''coordinator'' (bs_bus b)" and "bus_isRegistered j (bs_bus b)"
    and "j \<noteq> ''coordinator''" and "waiting_for j (bs_bus b) \<le> 1000"
  shows "waiting_for j (bs_bus (fold (broadcast_one now bid mids reg rq) xs b))
    = min 1000 (waiting_for j (bs_bus b) + length (filter (\<lambda>x. find_agent reg (snd x) \<noteq> None) xs))"
  using assms
proof (induction xs arbitrary: b)
  case (Cons x xs)
  obtain i a where x: "x = (i, a)" by (cases x)
  let ?b = "broadcast_one now bid mids reg rq x b"
  show ?case
  proof (cases "find_agent reg a")
    case None
    then have "bs_bus ?b = bs_bus b" by (simp add: broadcast_one_def x refuse_def)
    then show ?thesis using Cons None by (simp add: x)
  next
    case (Some y)
    let ?m = "broadcast_message now bid (mids i) rq a"
    have e: "bs_bus ?b = fst (bus_send now ?m (bs_bus b))"
      using Some by (simp add: broadcast_one_def x refuse_def split: prod.split bool.split)
    note w = broadcast_waiting [OF Cons.prems(1-4), of ?m now]
    have "bus_reachable (fst (bus_send now ?m (bs_bus b)))" by (rule bs_more [OF Cons.prems(1) bs_send])
    then have "waiting_for j (bs_bus (fold (broadcast_one now bid mids reg rq) xs ?b))
        = min 1000 (waiting_for j (bs_bus ?b) + length (filter (\<lambda>x. find_agent reg (snd x) \<noteq> None) xs))"
      using w Cons.prems(4) by (intro Cons.IH) (simp_all add: e)
    then show ?thesis using w Some by (auto simp: e [unfolded x] x min_def)
  qed
qed simp

lemma length_filter_snd: "length (filter (\<lambda>x. P (snd x)) xs) = length (filter P (map snd xs))"
  by (induction xs) auto

text \<open>A broadcast of the coordinator to chosen agents is not one. If no agent called coordinator
  is on the bus every send fails, the whole broadcast throws and no inbox changes. If there is
  one, each send is itself a broadcast: every other agent on the bus, chosen or not, gets as many
  copies as chosen agents are registered, up to the bound of its inbox.\<close>
theorem coordinator_broadcast_multiplies:
  assumes "bus_reachable bus" and "br_agentIds rq \<noteq> []" and "bus_isRegistered j bus" and "j \<noteq> ''coordinator''"
  shows "let res = co_broadcast now bid mids reg rq (s, bus)
    in if bus_isRegistered ''coordinator'' bus
       then waiting_for j (snd (fst res)) = min 1000 (waiting_for j bus + length (filter (\<lambda>a. find_agent reg a \<noteq> None) (br_agentIds rq)))
       else bus_agents (snd (fst res)) = bus_agents bus
         \<and> snd res = Inl (BroadcastError (br_agentIds rq) (br_agentIds rq) ''Broadcast failed for all agents'')"
proof -
  let ?xs = "List.enumerate 0 (br_agentIds rq)"
  let ?b = "\<lparr>bs_bus = bus, bs_acknowledged = [], bs_failed = [], bs_errors = []\<rparr>"
  have bus: "snd (fst (co_broadcast now bid mids reg rq (s, bus))) = bs_bus (fold (broadcast_one now bid mids reg rq) ?xs ?b)"
    by (simp add: co_broadcast_def Let_def)
  have len: "length (filter (\<lambda>x. find_agent reg (snd x) \<noteq> None) ?xs) = length (filter (\<lambda>a. find_agent reg a \<noteq> None) (br_agentIds rq))"
    using length_filter_snd [of "\<lambda>a. find_agent reg a \<noteq> None" ?xs] by simp
  have bound: "waiting_for j bus \<le> 1000"
    using bus_reachable_inv [OF assms(1)]
    by (auto simp: waiting_for_def bus_getAgentInbox_def bus_inv_def agent_ok_def inbox_inv_def mailbox_max_def split: option.split)
  show ?thesis
  proof (cases "bus_isRegistered ''coordinator'' bus")
    case True
    then show ?thesis
      using broadcast_fold_waiting [of ?b j now bid mids reg rq ?xs] assms(1,3,4) bound by (simp add: Let_def bus len del: not_None_eq)
  next
    case False
    then have "\<not> js_has (bus_agents (bs_bus ?b)) ''coordinator''" by (simp add: bus_isRegistered_def)
    note f = broadcast_unregistered_fold [OF this, of now bid mids reg rq ?xs]
    then show ?thesis using False assms(2) by (simp add: Let_def bus) (simp add: co_broadcast_def Let_def)
  qed
qed

definition demo_coord_bus :: bus where
  "demo_coord_bus = fst (bus_register 4 ''coordinator'' [] demo_bus)"

definition demo_broadcast :: broadcast_request where
  "demo_broadcast = \<lparr>br_agentIds = [''a'', ''b''], br_message = JNull,
     br_context = demo_context_of (demo_coord_request StParallel), br_requireAcknowledgment = None, br_metadata = []\<rparr>"

theorem coordinator_broadcast_multiplies_witness:
  "waiting_for ''o'' (snd (fst (co_broadcast 5 ''x'' (\<lambda>i. int_str (int i)) (rt_agents demo_two_agents) demo_broadcast (new_coordinator 0, demo_coord_bus)))) = 2
   \<and> snd (co_broadcast 5 ''x'' (\<lambda>i. int_str (int i)) (rt_agents demo_two_agents) demo_broadcast (new_coordinator 0, demo_bus))
     = Inl (BroadcastError [''a'', ''b''] [''a'', ''b''] ''Broadcast failed for all agents'')"
proof -
  have r: "bus_reachable demo_coord_bus"
    unfolding demo_coord_bus_def by (rule bs_more [OF demo_bus_reachable bs_register])
  have ids: "br_agentIds demo_broadcast = [''a'', ''b'']" by (simp add: demo_broadcast_def)
  have f: "bus_isRegistered ''o'' demo_coord_bus" "bus_isRegistered ''coordinator'' demo_coord_bus"
    "bus_isRegistered ''coordinator'' demo_bus = False" "bus_isRegistered ''o'' demo_bus"
    "waiting_for ''o'' demo_coord_bus = 0"
    "find_agent (rt_agents demo_two_agents) ''a'' \<noteq> None" "find_agent (rt_agents demo_two_agents) ''b'' \<noteq> None"
    by code_simp+
  have j: "''o'' \<noteq> ''coordinator''" by simp
  show ?thesis
    using coordinator_broadcast_multiplies [OF r _ f(1) j, of demo_broadcast 5 "''x''" "\<lambda>i. int_str (int i)" "rt_agents demo_two_agents" "new_coordinator 0"]
      coordinator_broadcast_multiplies [OF demo_bus_reachable _ f(4) j, of demo_broadcast 5 "''x''" "\<lambda>i. int_str (int i)" "rt_agents demo_two_agents" "new_coordinator 0"]
    by (simp add: Let_def f(2,3,5-7) ids del: not_None_eq)
qed

section \<open>Two coordinations under one id\<close>

text \<open>
  Beginning a coordination under an id in use, with an agent that is not available, throws and takes
  the running one out of the map: it can no longer be cancelled, timed out or collected.
\<close>

lemma failed_assign_evicts:
  assumes "cr_context rq = Some ctx" and "cr_strategy rq = Some st" and "validateCoordinationRequest rq = []"
    and "cc_coordinationId ctx = cid" and "cid \<noteq> []" and "list_ex (unavailable env) (cr_agentIds rq)"
  shows "(\<exists>e. snd (assign_begin now cid0 tid env rq s) = Inl e)
    \<and> running_task cid (fst (assign_begin now cid0 tid env rq s)) = None
    \<and> snd (co_cancel now cid (fst (assign_begin now cid0 tid env rq s), rt)) = False
    \<and> snd (co_collect now cid (fst (assign_begin now cid0 tid env rq s))) = Inl (CoordinationNotFound cid)"
proof -
  obtain e where e: "validateAgentAvailability env (cr_agentIds rq) = Some e"
    using assms(6) by (auto simp: validateAgentAvailability_def Let_def list_ex_iff filter_empty_conv)
  have "assign_begin now cid0 tid env rq s = (assign_fail cid e s, Inl e)"
    using assms(1-5) e by (simp add: assign_begin_def str_or_def)
  then show ?thesis by (simp add: running_task_def assign_fail_def co_cancel_def co_collect_def)
qed

section \<open>Counting\<close>

text \<open>
  What has ended is what was begun and ended, and the requests whose agents were not available,
  which are counted as failed without ever being counted as begun.
\<close>

inductive coord_reachable :: "coordinator \<Rightarrow> nat \<Rightarrow> nat \<Rightarrow> bool" where
  cn_new: "coord_reachable (new_coordinator now) 0 0"
| cn_begin: "coord_reachable s k u \<Longrightarrow> assign_begin now cid0 tid env rq s = (s1, Inr cid) \<Longrightarrow> coord_reachable s1 (Suc k) u"
| cn_invalid: "coord_reachable s k u \<Longrightarrow> validateCoordinationRequest rq \<noteq> [] \<Longrightarrow> assign_begin now cid0 tid env rq s = (s1, Inl e)
    \<Longrightarrow> coord_reachable s1 k u"
| cn_refuse: "coord_reachable s k u \<Longrightarrow> validateCoordinationRequest rq = [] \<Longrightarrow> assign_begin now cid0 tid env rq s = (s1, Inl e)
    \<Longrightarrow> coord_reachable s1 k (Suc u)"
| cn_note: "coord_reachable s k u \<Longrightarrow> coord_reachable (note_result tid a r s) k u"
| cn_delegate: "coord_reachable s k u \<Longrightarrow> coord_reachable (fst (delegate env a inp c s)) k u"
| cn_end: "coord_reachable s (Suc k) u \<Longrightarrow> js_has (co_tasks s) tid \<Longrightarrow>
    coord_reachable (fst (assign_end now isoText cid tid rq out order s)) k u"
| cn_collect: "coord_reachable s k u \<Longrightarrow> coord_reachable (fst (co_collect now cid s)) k u"
| cn_timeout: "coord_reachable s k u \<Longrightarrow> coord_reachable (fst (co_timeout now cid s)) k u"
| cn_cancel: "coord_reachable s k u \<Longrightarrow> coord_reachable (fst (fst (co_cancel now cid (s, rt)))) k u"
| cn_handoff: "coord_reachable s k u \<Longrightarrow> coord_reachable (fst (handoff t0 now hid rid env hrq s)) k u"
| cn_broadcast: "coord_reachable s k u \<Longrightarrow> coord_reachable (fst (fst (co_broadcast now bid mids reg brq (s, bus)))) k u"

definition counts :: "coordinator \<Rightarrow> nat \<times> nat \<times> nat" where
  "counts s = (co_total s, co_successful s, co_failed s)"

lemma counts_simps [simp]:
  "counts (co_log e s) = counts s" "counts (put_task t s) = counts s" "counts (note_result tid a r s) = counts s"
  "counts (fst (delegate env a inp c s)) = counts s" "counts (fst (handoff t0 now hid rid env hrq s)) = counts s"
  "counts (fst (fst (co_broadcast now bid mids reg brq (s, bus)))) = counts s"
  "counts (fst (co_collect now cid s)) = counts s" "counts (fst (co_timeout now cid s)) = counts s"
  by (auto simp: counts_def co_log_def put_task_def note_result_def delegate_def handoff_def co_broadcast_def Let_def
      co_collect_def co_timeout_def split: option.split sum.split)

lemma cancel_counts: "counts (fst (fold (cancel_assignment now) as (s, rt))) = counts s"
proof (induction as arbitrary: s rt)
  case (Cons a as)
  obtain s1 rt1 where c: "cancel_assignment now a (s, rt) = (s1, rt1)" by fastforce
  then have "counts s1 = counts s" by (auto simp: cancel_assignment_def counts_def split: prod.splits sum.splits)
  then show ?case using Cons.IH [of s1 rt1] c by simp
qed simp

lemma counts_cancel [simp]: "counts (fst (fst (co_cancel now cid (s, rt)))) = counts s"
  by (auto simp: co_cancel_def cancel_counts split: option.split)

lemma assign_begin_counts:
  "assign_begin now cid0 tid env rq s = (s1, Inr cid) \<Longrightarrow> counts s1 = (co_total s + 1, co_successful s, co_failed s)"
  "validateCoordinationRequest rq \<noteq> [] \<Longrightarrow> assign_begin now cid0 tid env rq s = (s1, Inl e) \<Longrightarrow> counts s1 = counts s"
  "validateCoordinationRequest rq = [] \<Longrightarrow> assign_begin now cid0 tid env rq s = (s1, Inl e) \<Longrightarrow>
     counts s1 = (co_total s, co_successful s, co_failed s + 1)"
  by (auto simp: assign_begin_def counts_def assign_fail_def co_log_def Let_def validateCoordinationRequest_def
      split: option.splits if_splits)

lemma assign_end_counts:
  "js_has (co_tasks s) tid \<Longrightarrow> counts (fst (assign_end now isoText cid tid rq out order s)) \<in>
     {(co_total s, co_successful s + 1, co_failed s), (co_total s, co_successful s, co_failed s + 1)}"
  by (auto simp: assign_end_def counts_def assign_fail_def co_log_def js_has_iff split: option.split sum.split)

text \<open>C18: The counters of the coordinator add up: whatever was begun is running, succeeded or failed;
  but the failures also count the \<open>u\<close> requests refused for unavailable agents, so that more
  coordinations can have completed than were ever begun.\<close>
theorem coordinator_counts:
  assumes "coord_reachable s k u"
  shows "co_successful s + co_failed s + k = co_total s + u \<and> chh_completed (co_health now s) + k = chh_total (co_health now s) + u"
proof -
  have "fst (snd (counts s)) + snd (snd (counts s)) + k = fst (counts s) + u"
    using assms
  proof (induction rule: coord_reachable.induct)
    case (cn_new now)
    then show ?case by (simp add: counts_def new_coordinator_def)
  next
    case (cn_begin s k u now cid0 tid env rq s1 cid)
    then show ?case using assign_begin_counts(1) [OF cn_begin.hyps(2)] by (simp add: counts_def)
  next
    case (cn_invalid s k u rq now cid0 tid env s1 e)
    then show ?case using assign_begin_counts(2) [OF cn_invalid.hyps(2,3)] by simp
  next
    case (cn_refuse s k u rq now cid0 tid env s1 e)
    then show ?case using assign_begin_counts(3) [OF cn_refuse.hyps(2,3)] by (simp add: counts_def)
  next
    case (cn_end s k u tid now isoText cid rq out order)
    then show ?case using assign_end_counts [OF cn_end.hyps(2), of now isoText cid rq out order] by (auto simp: counts_def)
  qed simp_all
  then show ?thesis by (simp add: counts_def co_health_def Let_def)
qed

text \<open>A request whose second agent is unknown.\<close>

definition demo_refused :: "coordinator \<times> (coord_error + string)" where
  "demo_refused = assign_begin 0 ''x'' ''k'' demo_env ((demo_coord_request StParallel)\<lparr>cr_agentIds := [''a'', ''z'']\<rparr>) (new_coordinator 0)"

theorem coordinator_counts_witness:
  "chh_completed (co_health 9 (fst demo_refused)) = 1 \<and> chh_total (co_health 9 (fst demo_refused)) = 0"
proof -
  let ?rq = "(demo_coord_request StParallel)\<lparr>cr_agentIds := [''a'', ''z'']\<rparr>"
  have "validateCoordinationRequest ?rq = []" "case snd demo_refused of Inl e \<Rightarrow> True | Inr r \<Rightarrow> False" by code_simp+
  then obtain e where v: "validateCoordinationRequest ?rq = []" and
    d: "assign_begin 0 ''x'' ''k'' demo_env ?rq (new_coordinator 0) = (fst demo_refused, Inl e)"
    by (cases demo_refused) (auto simp: demo_refused_def split: sum.splits)
  have "coord_reachable (fst demo_refused) 0 (Suc 0)" by (rule cn_refuse [OF cn_new v d])
  moreover have "chh_total (co_health 9 (fst demo_refused)) = 0" by code_simp
  ultimately show ?thesis using coordinator_counts [of "fst demo_refused" 0 "Suc 0" 9] by simp
qed

end
