(* ===== verification/Mcp_Session.thy ===== *)
theory Mcp_Session
  imports Agent_Types
begin

text \<open>
  The class \<open>MCPSession\<close> (\<open>mcp/sessions/mcp-session.ts\<close>).

  The transport is foreign: the outcome of each awaited call of it is an argument (\<open>None\<close>: it
  resolves, \<open>Some e\<close>: it rejects with the message \<open>e\<close>), and its events are operations. A method that
  awaits is a beginning and an end, between which the session can change. \<open>sess_step\<close> is any step
  of a session in use.
\<close>

section \<open>Data\<close>

datatype session_status = SsIdle | SsConnecting | SsConnected | SsReconnecting | SsDisconnected | SsError

record session_config =
  sn_serverId :: string
  sn_transportType :: string
  sn_heartbeatInterval :: int
  sn_idleTimeout :: int
  sn_maxReconnectAttempts :: int
  sn_reconnectInterval :: int

text \<open>The timers are kept with the time they were set and the time they are due.\<close>

record mcp_session =
  ms_sessionId :: string
  ms_serverId :: string
  ms_connectedAt :: "time_ms option"
  ms_lastHeartbeat :: "time_ms option"
  ms_status :: session_status
  ms_heartbeatTimer :: "time_ms option"
  ms_idleTimer :: "time_ms option"
  ms_reconnectAttempts :: int
  ms_config :: session_config

definition new_session :: "time_ms \<Rightarrow> session_config \<Rightarrow> mcp_session" where
  "new_session now cfg = \<lparr>ms_sessionId = ''session-'' @ sn_serverId cfg @ ''-'' @ int_str now, ms_serverId = sn_serverId cfg,
     ms_connectedAt = None, ms_lastHeartbeat = None, ms_status = SsIdle, ms_heartbeatTimer = None, ms_idleTimer = None,
     ms_reconnectAttempts = 0, ms_config = cfg\<rparr>"

section \<open>Timers\<close>

definition sess_cleanup :: "mcp_session \<Rightarrow> mcp_session" where
  "sess_cleanup s = s\<lparr>ms_heartbeatTimer := None, ms_idleTimer := None\<rparr>"

definition startHeartbeat :: "time_ms \<Rightarrow> mcp_session \<Rightarrow> mcp_session" where
  "startHeartbeat now s = (sess_cleanup s)\<lparr>ms_heartbeatTimer := Some now\<rparr>"

definition resetIdleTimeout :: "time_ms \<Rightarrow> mcp_session \<Rightarrow> mcp_session" where
  "resetIdleTimeout now s = s\<lparr>ms_idleTimer := Some (now + sn_idleTimeout (ms_config s))\<rparr>"

definition sess_failed :: "mcp_session \<Rightarrow> mcp_session" where
  "sess_failed s = s\<lparr>ms_status := SsError\<rparr>"

text \<open>The timer fires if it is set and due; its callback does not look at the status.\<close>

definition handleIdleTimeout :: "time_ms \<Rightarrow> mcp_session \<Rightarrow> mcp_session" where
  "handleIdleTimeout now s =
     (case ms_idleTimer s of None \<Rightarrow> s | Some d \<Rightarrow> if d \<le> now then sess_cleanup (sess_failed s) else s)"

section \<open>Operations\<close>

definition sess_connect_begin :: "mcp_session \<Rightarrow> mcp_session \<times> agent_error option" where
  "sess_connect_begin s =
     (if ms_status s = SsConnected then (s, Some (PlainError ''Session already connected''))
      else (s\<lparr>ms_status := SsConnecting\<rparr>, None))"

definition sess_connect_end :: "time_ms \<Rightarrow> string option \<Rightarrow> mcp_session \<Rightarrow> mcp_session \<times> agent_error option" where
  "sess_connect_end now out s =
     (case out of
        Some e \<Rightarrow> (sess_failed s, Some (PlainError (''Failed to connect session: '' @ e)))
      | None \<Rightarrow> (resetIdleTimeout now (startHeartbeat now (s\<lparr>ms_status := SsConnected, ms_connectedAt := Some now,
                   ms_lastHeartbeat := Some now, ms_reconnectAttempts := 0\<rparr>)), None))"

definition sess_connect :: "time_ms \<Rightarrow> string option \<Rightarrow> mcp_session \<Rightarrow> mcp_session \<times> agent_error option" where
  "sess_connect now out s =
     (case sess_connect_begin s of (s1, Some e) \<Rightarrow> (s1, Some e) | (s1, None) \<Rightarrow> sess_connect_end now out s1)"

text \<open>The error of the transport's \<open>disconnect\<close> is ignored.\<close>

definition sess_disconnect_begin :: "mcp_session \<Rightarrow> mcp_session" where
  "sess_disconnect_begin s = (if ms_status s = SsDisconnected then s else sess_cleanup s)"

definition sess_disconnect_end :: "mcp_session \<Rightarrow> mcp_session" where
  "sess_disconnect_end s = s\<lparr>ms_status := SsDisconnected, ms_connectedAt := None, ms_lastHeartbeat := None\<rparr>"

definition sess_disconnect :: "mcp_session \<Rightarrow> mcp_session" where
  "sess_disconnect s = (if ms_status s = SsDisconnected then s else sess_disconnect_end (sess_disconnect_begin s))"

definition guard_connected :: "mcp_session \<Rightarrow> agent_error option" where
  "guard_connected s = (if ms_status s = SsConnected then None else Some (PlainError ''Session not connected''))"

definition heartbeat_end :: "time_ms \<Rightarrow> string option \<Rightarrow> mcp_session \<Rightarrow> mcp_session \<times> agent_error option" where
  "heartbeat_end now out s =
     (case out of
        None \<Rightarrow> (resetIdleTimeout now (s\<lparr>ms_lastHeartbeat := Some now\<rparr>), None)
      | Some e \<Rightarrow> (sess_cleanup (sess_failed s), Some (PlainError e)))"

definition heartbeat :: "time_ms \<Rightarrow> string option \<Rightarrow> mcp_session \<Rightarrow> mcp_session \<times> agent_error option" where
  "heartbeat now out s =
     (case guard_connected s of Some e \<Rightarrow> (s, Some e) | None \<Rightarrow> heartbeat_end now out s)"

definition handleRequestFailure :: "string \<Rightarrow> mcp_session \<Rightarrow> mcp_session" where
  "handleRequestFailure e s = (if contains_text ''not connected'' e then sess_failed s else s)"

text \<open>A request or the next item of a stream.\<close>

definition request_end :: "time_ms \<Rightarrow> string option \<Rightarrow> mcp_session \<Rightarrow> mcp_session \<times> agent_error option" where
  "request_end now out s =
     (case out of
        None \<Rightarrow> (resetIdleTimeout now s, None)
      | Some e \<Rightarrow> (handleRequestFailure e s, Some (PlainError e)))"

definition isHealthy :: "time_ms \<Rightarrow> mcp_session \<Rightarrow> bool" where
  "isHealthy now s = (ms_status s = SsConnected
     \<and> (case ms_lastHeartbeat s of None \<Rightarrow> False | Some t \<Rightarrow> now - t < sn_heartbeatInterval (ms_config s) * 2))"

definition shouldReconnect :: "mcp_session \<Rightarrow> bool" where
  "shouldReconnect s = (ms_status s = SsError \<and> ms_reconnectAttempts s < sn_maxReconnectAttempts (ms_config s))"

definition reconnect_begin :: "mcp_session \<Rightarrow> mcp_session \<times> agent_error option" where
  "reconnect_begin s =
     (if \<not> shouldReconnect s then (s, Some (PlainError ''Reconnection not allowed''))
      else (s\<lparr>ms_status := SsReconnecting, ms_reconnectAttempts := ms_reconnectAttempts s + 1\<rparr>, None))"

text \<open>The \<open>catch\<close> of \<open>attemptReconnect\<close>, for a failing \<open>close\<close> or a failing \<open>connect\<close>.\<close>

definition reconnect_fail :: "agent_error \<Rightarrow> mcp_session \<Rightarrow> mcp_session \<times> agent_error option" where
  "reconnect_fail e s =
     (if ms_reconnectAttempts s \<ge> sn_maxReconnectAttempts (ms_config s)
      then (sess_failed s, Some (PlainError (''Max reconnection attempts reached: '' @ err_message e)))
      else (s, Some e))"

text \<open>\<open>closed\<close> and \<open>out\<close>: the outcomes of the transport's \<open>close\<close> and \<open>connect\<close>; the wait is over at \<open>now\<close>.\<close>

definition reconnect_end :: "time_ms \<Rightarrow> string option \<Rightarrow> string option \<Rightarrow> mcp_session \<Rightarrow> mcp_session \<times> agent_error option" where
  "reconnect_end now closed out s =
     (case closed of
        Some e \<Rightarrow> reconnect_fail (PlainError e) s
      | None \<Rightarrow> (case sess_connect now out s of
                  (s1, Some e) \<Rightarrow> reconnect_fail e s1
                | (s1, None) \<Rightarrow> (s1, None)))"

definition attemptReconnect :: "time_ms \<Rightarrow> string option \<Rightarrow> string option \<Rightarrow> mcp_session \<Rightarrow> mcp_session \<times> agent_error option" where
  "attemptReconnect now closed out s =
     (case reconnect_begin s of (s1, Some e) \<Rightarrow> (s1, Some e) | (s1, None) \<Rightarrow> reconnect_end now closed out s1)"

section \<open>Events of the transport\<close>

definition on_transport_disconnect :: "mcp_session \<Rightarrow> mcp_session" where
  "on_transport_disconnect s = (if ms_status s = SsConnected then sess_cleanup (sess_failed s) else s)"

definition on_transport_error :: "mcp_session \<Rightarrow> mcp_session" where
  "on_transport_error s = (if ms_status s = SsConnected then sess_failed s else s)"

definition on_transport_connect :: "time_ms \<Rightarrow> mcp_session \<Rightarrow> mcp_session" where
  "on_transport_connect now s =
     (if ms_status s = SsReconnecting then resetIdleTimeout now (startHeartbeat now (s\<lparr>ms_status := SsConnected\<rparr>)) else s)"

text \<open>The fields of \<open>getSessionInfo\<close> that the manager passes on.\<close>

record session_info =
  si_sessionId :: string
  si_serverId :: string
  si_status :: session_status
  si_connectedAt :: "time_ms option"
  si_lastHeartbeat :: "time_ms option"
  si_isHealthy :: bool
  si_transportType :: string

definition getSessionInfo :: "time_ms \<Rightarrow> mcp_session \<Rightarrow> session_info" where
  "getSessionInfo now s = \<lparr>si_sessionId = ms_sessionId s, si_serverId = ms_serverId s, si_status = ms_status s,
     si_connectedAt = ms_connectedAt s, si_lastHeartbeat = ms_lastHeartbeat s, si_isHealthy = isHealthy now s,
     si_transportType = sn_transportType (ms_config s)\<rparr>"

section \<open>Steps\<close>

inductive sess_step :: "mcp_session \<Rightarrow> mcp_session \<Rightarrow> bool" where
  connect_begins: "sess_step s (fst (sess_connect_begin s))"
| connect_ends: "sess_step s (fst (sess_connect_end now out s))"
| disconnect_begins: "sess_step s (sess_disconnect_begin s)"
| disconnect_ends: "sess_step s (sess_disconnect_end s)"
| heartbeat_ends: "sess_step s (fst (heartbeat_end now out s))"
| request_ends: "sess_step s (fst (request_end now out s))"
| reconnect_begins: "sess_step s (fst (reconnect_begin s))"
| reconnect_ends: "sess_step s (fst (reconnect_end now closed out s))"
| idle: "sess_step s (handleIdleTimeout now s)"
| transport_disconnects: "sess_step s (on_transport_disconnect s)"
| transport_errs: "sess_step s (on_transport_error s)"
| transport_connects: "sess_step s (on_transport_connect now s)"

text \<open>What no step changes, and the bound of the attempts.\<close>

definition sess_ok :: "mcp_session \<Rightarrow> bool" where
  "sess_ok s = (0 \<le> ms_reconnectAttempts s \<and> ms_reconnectAttempts s \<le> max 0 (sn_maxReconnectAttempts (ms_config s)))"

lemmas session_defs =
  sess_cleanup_def startHeartbeat_def resetIdleTimeout_def sess_failed_def handleIdleTimeout_def
  sess_connect_begin_def sess_connect_end_def sess_connect_def sess_disconnect_begin_def
  sess_disconnect_end_def sess_disconnect_def guard_connected_def heartbeat_end_def heartbeat_def
  handleRequestFailure_def request_end_def shouldReconnect_def reconnect_begin_def reconnect_fail_def
  reconnect_end_def attemptReconnect_def on_transport_disconnect_def on_transport_error_def
  on_transport_connect_def

lemma sess_step_ok: "sess_step s s' \<Longrightarrow> sess_ok s \<Longrightarrow> sess_ok s'"
  by (induction rule: sess_step.induct) (auto simp: sess_ok_def session_defs split: option.splits prod.splits)

lemma sess_step_ids:
  "sess_step s s' \<Longrightarrow> ms_sessionId s' = ms_sessionId s \<and> ms_serverId s' = ms_serverId s \<and> ms_config s' = ms_config s"
  by (induction rule: sess_step.induct) (auto simp: session_defs split: option.splits prod.splits)

lemma new_session_ok [simp]: "sess_ok (new_session now cfg)"
  by (simp add: sess_ok_def new_session_def)

end
