(* ===== verification/Session_Manager.thy ===== *)
theory Session_Manager
  imports Mcp_Session
begin

text \<open>
  The class \<open>MCPSessionManager\<close> (\<open>mcp/sessions/mcp-session-manager.ts\<close>).

  The manager's map holds references: sessions live in a list of all the objects ever made, and the
  map leads from a session id to a position in it, so a session that has left the map is still there
  to be used by whoever holds it. \<open>create\<close> is two steps around the connection; the other operations
  run to their end, and a concurrent one takes the outcomes in the order in which they settle.
\<close>

section \<open>State\<close>

record session_manager =
  sm_objects :: "mcp_session list"
  sm_sessions :: "(string, nat) js_map"
  sm_healthTimer :: bool
  sm_reconnectTimer :: bool
  sm_healthCheckInterval :: int
  sm_reconnectInterval :: int
  sm_maxConcurrentSessions :: int
  sm_sessionTimeout :: int
  sm_shuttingDown :: bool

definition option_or :: "int option \<Rightarrow> int \<Rightarrow> int" where
  "option_or x d = (case x of None \<Rightarrow> d | Some i \<Rightarrow> i)"

definition new_session_manager :: "int option \<Rightarrow> int option \<Rightarrow> int option \<Rightarrow> int option \<Rightarrow> session_manager" where
  "new_session_manager check reconnect most timeout =
     \<lparr>sm_objects = [], sm_sessions = [], sm_healthTimer = True, sm_reconnectTimer = True,
      sm_healthCheckInterval = option_or check 30000, sm_reconnectInterval = option_or reconnect 10000,
      sm_maxConcurrentSessions = option_or most 50, sm_sessionTimeout = option_or timeout 300000, sm_shuttingDown = False\<rparr>"

definition object :: "session_manager \<Rightarrow> nat \<Rightarrow> mcp_session" where
  "object m a = sm_objects m ! a"

definition put_object :: "nat \<Rightarrow> mcp_session \<Rightarrow> session_manager \<Rightarrow> session_manager" where
  "put_object a s m = m\<lparr>sm_objects := (sm_objects m)[a := s]\<rparr>"

definition forget_session :: "string \<Rightarrow> session_manager \<Rightarrow> session_manager" where
  "forget_session sid m = m\<lparr>sm_sessions := js_delete sid (sm_sessions m)\<rparr>"

section \<open>Creation and lookup\<close>

definition sm_get :: "string \<Rightarrow> session_manager \<Rightarrow> nat option" where
  "sm_get sid m = js_get (sm_sessions m) sid"

definition getByServerId :: "string \<Rightarrow> session_manager \<Rightarrow> nat option" where
  "getByServerId srv m = List.find (\<lambda>a. ms_serverId (object m a) = srv) (js_values (sm_sessions m))"

text \<open>The optional settings of a session.\<close>

record session_options =
  so_heartbeatInterval :: "int option"
  so_idleTimeout :: "int option"
  so_maxReconnectAttempts :: "int option"
  so_reconnectInterval :: "int option"

definition session_config_of :: "string \<Rightarrow> string \<Rightarrow> session_options \<Rightarrow> session_manager \<Rightarrow> session_config" where
  "session_config_of srv tt ov m =
     \<lparr>sn_serverId = srv, sn_transportType = tt,
      sn_heartbeatInterval = option_or (so_heartbeatInterval ov) 30000,
      sn_idleTimeout = option_or (so_idleTimeout ov) (sm_sessionTimeout m),
      sn_maxReconnectAttempts = option_or (so_maxReconnectAttempts ov) 5,
      sn_reconnectInterval = option_or (so_reconnectInterval ov) (sm_reconnectInterval m)\<rparr>"

definition active_for :: "string \<Rightarrow> session_manager \<Rightarrow> bool" where
  "active_for srv m = (case getByServerId srv m of None \<Rightarrow> False | Some a \<Rightarrow> ms_status (object m a) = SsConnected)"

text \<open>To the connection: the new session is in the map and \<open>connecting\<close>.\<close>

definition create_begin ::
  "time_ms \<Rightarrow> string \<Rightarrow> string \<Rightarrow> session_options \<Rightarrow> session_manager \<Rightarrow> session_manager \<times> (agent_error + nat)" where
  "create_begin now srv tt ov m =
     (if sm_shuttingDown m then (m, Inl (PlainError ''Session manager is shutting down''))
      else if int (length (sm_sessions m)) \<ge> sm_maxConcurrentSessions m
      then (m, Inl (PlainError ''Maximum concurrent sessions reached''))
      else if active_for srv m
      then (m, Inl (PlainError (''Active session already exists for server '' @ srv)))
      else let s = new_session now (session_config_of srv tt ov m); a = length (sm_objects m)
           in (m\<lparr>sm_objects := sm_objects m @ [fst (sess_connect_begin s)],
                 sm_sessions := js_set (ms_sessionId s) a (sm_sessions m)\<rparr>, Inr a))"

definition create_end ::
  "time_ms \<Rightarrow> string option \<Rightarrow> nat \<Rightarrow> session_manager \<Rightarrow> session_manager \<times> (agent_error + nat)" where
  "create_end now out a m =
     (case sess_connect_end now out (object m a) of
        (s, None) \<Rightarrow> (put_object a s m, Inr a)
      | (s, Some e) \<Rightarrow> (forget_session (ms_sessionId s) (put_object a s m), Inl e))"

definition create_session ::
  "time_ms \<Rightarrow> time_ms \<Rightarrow> string option \<Rightarrow> string \<Rightarrow> string \<Rightarrow> session_options \<Rightarrow> session_manager \<Rightarrow> session_manager \<times> (agent_error + nat)" where
  "create_session now later out srv tt ov m =
     (case create_begin now srv tt ov m of
        (m1, Inl e) \<Rightarrow> (m1, Inl e)
      | (m1, Inr a) \<Rightarrow> create_end later out a m1)"

section \<open>Removal\<close>

definition remove_session :: "string \<Rightarrow> session_manager \<Rightarrow> session_manager \<times> bool" where
  "remove_session sid m =
     (case js_get (sm_sessions m) sid of
        None \<Rightarrow> (m, False)
      | Some a \<Rightarrow> (forget_session sid (put_object a (sess_disconnect (object m a)) m), True))"

definition removeByServerId :: "string \<Rightarrow> session_manager \<Rightarrow> session_manager \<times> bool" where
  "removeByServerId srv m =
     (case getByServerId srv m of
        None \<Rightarrow> (m, False)
      | Some a \<Rightarrow> remove_session (ms_sessionId (object m a)) m)"

definition stopMonitors :: "session_manager \<Rightarrow> session_manager" where
  "stopMonitors m = m\<lparr>sm_healthTimer := False, sm_reconnectTimer := False\<rparr>"

definition disconnect_one :: "nat \<Rightarrow> session_manager \<Rightarrow> session_manager" where
  "disconnect_one a m = put_object a (sess_disconnect (object m a)) m"

definition shutdown_sessions :: "session_manager \<Rightarrow> session_manager" where
  "shutdown_sessions m =
     (let m1 = fold disconnect_one (js_values (sm_sessions m)) (stopMonitors (m\<lparr>sm_shuttingDown := True\<rparr>))
      in m1\<lparr>sm_sessions := []\<rparr>)"

section \<open>Monitoring\<close>

text \<open>\<open>outs a\<close>: when the health call of the session at \<open>a\<close> settles, and how.\<close>

definition heartbeat_one ::
  "(nat \<Rightarrow> time_ms \<times> string option) \<Rightarrow> string \<times> nat \<Rightarrow> session_manager \<times> (string, bool) js_map \<Rightarrow> session_manager \<times> (string, bool) js_map" where
  "heartbeat_one outs e r =
     (case e of (sid, a) \<Rightarrow> case r of (m, res) \<Rightarrow>
        if ms_status (object m a) = SsConnected
        then (case outs a of (now, out) \<Rightarrow> case heartbeat now out (object m a) of
                (s, err) \<Rightarrow> (put_object a s m, js_set sid (err = None) res))
        else (m, js_set sid False res))"

definition heartbeatAll :: "(nat \<Rightarrow> time_ms \<times> string option) \<Rightarrow> session_manager \<Rightarrow> session_manager \<times> (string, bool) js_map" where
  "heartbeatAll outs m = fold (heartbeat_one outs) (sm_sessions m) (m, [])"

text \<open>
  Every session that may reconnect starts to; then each settles, in the order of the list, with the
  outcomes of its transport's \<open>close\<close> and \<open>connect\<close>.
\<close>

type_synonym settled = "nat \<times> time_ms \<times> string option \<times> string option"

definition start_reconnect :: "nat \<Rightarrow> session_manager \<Rightarrow> session_manager" where
  "start_reconnect a m = put_object a (fst (reconnect_begin (object m a))) m"

definition settle_reconnect :: "settled \<Rightarrow> session_manager \<times> string list \<Rightarrow> session_manager \<times> string list" where
  "settle_reconnect e r =
     (case e of (a, now, closed, out) \<Rightarrow> case r of (m, done_ids) \<Rightarrow>
        (case reconnect_end now closed out (object m a) of
           (s, None) \<Rightarrow> (put_object a s m, done_ids @ [ms_sessionId s])
         | (s, Some _) \<Rightarrow>
             (if ms_status s = SsError \<and> \<not> shouldReconnect s then forget_session (ms_sessionId s) (put_object a s m)
              else put_object a s m, done_ids)))"

definition dead_sessions :: "session_manager \<Rightarrow> nat list" where
  "dead_sessions m = filter (\<lambda>a. shouldReconnect (object m a)) (js_values (sm_sessions m))"

definition reconnectDeadSessions :: "settled list \<Rightarrow> session_manager \<Rightarrow> session_manager \<times> string list" where
  "reconnectDeadSessions settles m =
     (let dead = dead_sessions m
      in fold settle_reconnect (filter (\<lambda>e. fst e \<in> set dead) settles) (fold start_reconnect dead m, []))"

definition timed_out :: "time_ms \<Rightarrow> int \<Rightarrow> mcp_session \<Rightarrow> bool" where
  "timed_out now limit s =
     (case ms_lastHeartbeat s of
        Some t \<Rightarrow> now - t > limit
      | None \<Rightarrow> (case ms_connectedAt s of Some t \<Rightarrow> now - t > limit | None \<Rightarrow> False))"

definition cleanup_one :: "time_ms \<Rightarrow> string \<times> nat \<Rightarrow> session_manager \<times> string list \<Rightarrow> session_manager \<times> string list" where
  "cleanup_one now e r =
     (case e of (sid, a) \<Rightarrow> case r of (m, gone) \<Rightarrow>
        if timed_out now (sm_sessionTimeout m) (object m a)
        then (forget_session sid (disconnect_one a m), gone @ [sid])
        else (m, gone))"

definition cleanupTimedOutSessions :: "time_ms \<Rightarrow> session_manager \<Rightarrow> session_manager \<times> string list" where
  "cleanupTimedOutSessions now m = fold (cleanup_one now) (sm_sessions m) (m, [])"

text \<open>The callbacks of the two timers.\<close>

definition health_check :: "(nat \<Rightarrow> time_ms \<times> string option) \<Rightarrow> time_ms \<Rightarrow> session_manager \<Rightarrow> session_manager" where
  "health_check outs now m =
     (if \<not> sm_healthTimer m \<or> sm_shuttingDown m then m
      else fst (cleanupTimedOutSessions now (fst (heartbeatAll outs m))))"

definition reconnect_check :: "settled list \<Rightarrow> session_manager \<Rightarrow> session_manager" where
  "reconnect_check settles m =
     (if \<not> sm_reconnectTimer m \<or> sm_shuttingDown m then m else fst (reconnectDeadSessions settles m))"

section \<open>Reports\<close>

definition listSessions :: "time_ms \<Rightarrow> session_manager \<Rightarrow> session_info list" where
  "listSessions now m = map (\<lambda>a. getSessionInfo now (object m a)) (js_values (sm_sessions m))"

definition getHealthySessions :: "time_ms \<Rightarrow> session_manager \<Rightarrow> nat list" where
  "getHealthySessions now m = filter (\<lambda>a. isHealthy now (object m a)) (js_values (sm_sessions m))"

definition getUnhealthySessions :: "time_ms \<Rightarrow> session_manager \<Rightarrow> nat list" where
  "getUnhealthySessions now m = filter (\<lambda>a. \<not> isHealthy now (object m a)) (js_values (sm_sessions m))"

definition getSessionCount :: "session_manager \<Rightarrow> nat" where
  "getSessionCount m = length (sm_sessions m)"

definition getSessionsByStatus :: "session_status \<Rightarrow> session_manager \<Rightarrow> nat list" where
  "getSessionsByStatus st m = filter (\<lambda>a. ms_status (object m a) = st) (js_values (sm_sessions m))"

end
