(* ===== verification/Session_Props.thy ===== *)
theory Session_Props
  imports Session_Manager
begin

text \<open>
  What MCP sessions and their manager keep and what they do not: the bounds of the map and of the
  attempts, the one-session-per-server check, the reconnections a failing \<open>close\<close> ends, and the
  sessions that come back after they were disconnected or removed.
\<close>

section \<open>Using an object through a reference\<close>

text \<open>
  What the manager relies on in its sessions: no step of a session breaks its invariant or changes
  its id.
\<close>

locale session_object =
  fixes step :: "'s \<Rightarrow> 's \<Rightarrow> bool"
    and ok :: "'s \<Rightarrow> bool"
    and ident :: "'s \<Rightarrow> string"
  assumes step_ok: "step s t \<Longrightarrow> ok s \<Longrightarrow> ok t"
    and step_ident: "step s t \<Longrightarrow> ident t = ident s"
begin

lemma run_ok: "step\<^sup>*\<^sup>* s t \<Longrightarrow> ok s \<Longrightarrow> ok t"
  by (induction rule: rtranclp.induct) (auto dest: step_ok)

lemma run_ident: "step\<^sup>*\<^sup>* s t \<Longrightarrow> ident t = ident s"
  by (induction rule: rtranclp.induct) (auto dest: step_ident)

lemma update_run: "step\<^sup>*\<^sup>* (xs ! a) t \<Longrightarrow> step\<^sup>*\<^sup>* (xs ! i) (xs[a := t] ! i)"
  by (cases "i = a"; cases "a < length xs") (simp_all add: list_update_beyond)

end

interpretation session: session_object sess_step sess_ok ms_sessionId
  by unfold_locales (auto dest: sess_step_ok sess_step_ids)

lemma sess_disconnect_runs: "sess_step\<^sup>*\<^sup>* s (sess_disconnect s)"
  by (auto simp: sess_disconnect_def intro: sess_step.intros converse_rtranclp_into_rtranclp)

lemma heartbeat_runs: "sess_step\<^sup>*\<^sup>* s (fst (heartbeat now out s))"
  by (auto simp: heartbeat_def intro: sess_step.intros split: option.splits)

section \<open>Operations that create no session\<close>

text \<open>They only use sessions and drop entries of the map.\<close>

definition serves :: "session_manager \<Rightarrow> session_manager \<Rightarrow> bool" where
  "serves m m' = (length (sm_objects m') = length (sm_objects m)
     \<and> (\<forall>a. sess_step\<^sup>*\<^sup>* (object m a) (object m' a))
     \<and> (\<exists>P. sm_sessions m' = filter P (sm_sessions m))
     \<and> sm_maxConcurrentSessions m' = sm_maxConcurrentSessions m)"

lemma filter_id: "\<exists>P. xs = filter P xs"
  by (rule exI [of _ "\<lambda>_. True"]) simp

lemma serves_refl: "serves m m"
  by (simp add: serves_def filter_id)

lemma serves_trans: "serves m m1 \<Longrightarrow> serves m1 m2 \<Longrightarrow> serves m m2"
  unfolding serves_def by (metis (no_types, lifting) filter_filter rtranclp_trans)

lemma serves_put: "sess_step\<^sup>*\<^sup>* (object m a) s \<Longrightarrow> serves m (put_object a s m)"
  by (simp add: serves_def put_object_def object_def session.update_run filter_id)

lemma serves_forget: "serves m (forget_session sid m)"
  by (auto simp: serves_def forget_session_def object_def js_delete_filter)

lemma serves_put_forget: "sess_step\<^sup>*\<^sup>* (object m a) s \<Longrightarrow> serves m (forget_session sid (put_object a s m))"
  by (rule serves_trans [OF serves_put serves_forget])

lemma serves_fold:
  assumes "\<And>x r. serves (f r) (f (g x r))"
  shows "serves (f r) (f (fold g xs r))"
proof (induction xs arbitrary: r)
  case (Cons x xs)
  from serves_trans [OF assms [of r x] Cons.IH [of "g x r"]] show ?case by simp
qed (simp add: serves_refl)

lemma create_end_serves: "serves m (fst (create_end now out a m))"
proof -
  have "sess_step\<^sup>*\<^sup>* (object m a) (fst (sess_connect_end now out (object m a)))" by (auto intro: sess_step.intros)
  then show ?thesis
    by (auto simp: create_end_def intro: serves_put serves_put_forget split: prod.splits option.splits)
qed

lemma disconnect_one_serves: "serves m (disconnect_one a m)"
  by (simp add: disconnect_one_def serves_put sess_disconnect_runs)

lemma remove_serves: "serves m (fst (remove_session sid m))"
  by (simp add: remove_session_def serves_put_forget sess_disconnect_runs serves_refl split: option.split)

lemma removeByServerId_serves: "serves m (fst (removeByServerId srv m))"
  by (simp add: removeByServerId_def remove_serves serves_refl split: option.split)

lemma shutdown_serves: "serves m (shutdown_sessions m)"
proof -
  let ?m0 = "stopMonitors (m\<lparr>sm_shuttingDown := True\<rparr>)"
  have "serves m ?m0" by (simp add: serves_def stopMonitors_def object_def filter_id)
  moreover have "serves ?m0 (fold disconnect_one (js_values (sm_sessions m)) ?m0)"
    by (rule serves_fold [where f = "\<lambda>x. x"]) (rule disconnect_one_serves)
  moreover have "serves m1 (m1\<lparr>sm_sessions := []\<rparr>)" for m1
    by (auto simp: serves_def object_def intro: exI [of _ "\<lambda>_. False"])
  ultimately show ?thesis unfolding shutdown_sessions_def Let_def by (blast intro: serves_trans)
qed

lemma heartbeat_one_serves: "serves (fst r) (fst (heartbeat_one outs e r))"
proof (cases r; cases e)
  fix m res sid a
  assume "r = (m, res)" and "e = (sid, a)"
  then show ?thesis
    using serves_put [OF heartbeat_runs, of m a] by (auto simp: heartbeat_one_def serves_refl split_beta)
qed

lemma heartbeatAll_serves: "serves m (fst (heartbeatAll outs m))"
  using serves_fold [of fst "heartbeat_one outs" "(m, [])", OF heartbeat_one_serves] by (simp add: heartbeatAll_def)

lemma start_reconnect_serves: "serves m (start_reconnect a m)"
  by (auto simp: start_reconnect_def intro: serves_put sess_step.intros)

lemma settle_reconnect_serves: "serves (fst r) (fst (settle_reconnect e r))"
proof (cases r; cases e)
  fix m d a now closed out
  assume r: "r = (m, d)" and e: "e = (a, now, closed, out)"
  obtain s x where s: "reconnect_end now closed out (object m a) = (s, x)" by fastforce
  have "sess_step\<^sup>*\<^sup>* (object m a) s"
    using sess_step.reconnect_ends [of "object m a" now closed out] by (auto simp: s)
  then show ?thesis
    by (auto simp: settle_reconnect_def r e s serves_put serves_put_forget split: option.split)
qed

lemma reconnect_serves: "serves m (fst (reconnectDeadSessions settles m))"
proof -
  let ?dead = "dead_sessions m"
  let ?settles = "filter (\<lambda>e. fst e \<in> set ?dead) settles"
  have "serves m (fold start_reconnect ?dead m)"
    by (rule serves_fold [where f = "\<lambda>x. x"]) (rule start_reconnect_serves)
  moreover have "serves (fst (fold start_reconnect ?dead m, []::string list))
      (fst (fold settle_reconnect ?settles (fold start_reconnect ?dead m, [])))"
    by (rule serves_fold) (rule settle_reconnect_serves)
  ultimately show ?thesis unfolding reconnectDeadSessions_def Let_def fst_conv by (rule serves_trans)
qed

lemma cleanup_one_serves: "serves (fst r) (fst (cleanup_one now e r))"
  using serves_trans [OF disconnect_one_serves serves_forget]
  by (cases r; cases e) (auto simp: cleanup_one_def serves_refl)

lemma cleanup_serves: "serves m (fst (cleanupTimedOutSessions now m))"
  using serves_fold [of fst "cleanup_one now" "(m, [])", OF cleanup_one_serves]
  by (simp add: cleanupTimedOutSessions_def)

lemmas serves_intros =
  serves_refl serves_put create_end_serves remove_serves removeByServerId_serves shutdown_serves
  heartbeatAll_serves reconnect_serves cleanup_serves

section \<open>Reachable managers\<close>

inductive sm_step :: "session_manager \<Rightarrow> session_manager \<Rightarrow> bool" where
  create_begins: "sm_step m (fst (create_begin now srv tt ov m))"
| create_ends: "sm_step m (fst (create_end now out a m))"
| removes: "sm_step m (fst (remove_session sid m))"
| removes_server: "sm_step m (fst (removeByServerId srv m))"
| shuts_down: "sm_step m (shutdown_sessions m)"
| beats: "sm_step m (fst (heartbeatAll outs m))"
| reconnects: "sm_step m (fst (reconnectDeadSessions settles m))"
| cleans: "sm_step m (fst (cleanupTimedOutSessions now m))"
| uses: "sess_step (object m a) s \<Longrightarrow> sm_step m (put_object a s m)"

inductive sm_reachable :: "session_manager \<Rightarrow> bool" where
  start: "sm_reachable (new_session_manager check reconnect most timeout)"
| step: "sm_reachable m \<Longrightarrow> sm_step m m' \<Longrightarrow> sm_reachable m'"

definition entry_ok :: "session_manager \<Rightarrow> string \<times> nat \<Rightarrow> bool" where
  "entry_ok m e = (snd e < length (sm_objects m) \<and> ms_sessionId (object m (snd e)) = fst e)"

definition sm_ok :: "session_manager \<Rightarrow> bool" where
  "sm_ok m = (js_wf (sm_sessions m) \<and> list_all (entry_ok m) (sm_sessions m)
     \<and> int (length (sm_sessions m)) \<le> max 0 (sm_maxConcurrentSessions m) \<and> list_all sess_ok (sm_objects m))"

lemma serves_ok:
  assumes "serves m m'" and "sm_ok m"
  shows "sm_ok m'"
proof -
  from assms(1) obtain P where len: "length (sm_objects m') = length (sm_objects m)"
    and run: "\<And>a. sess_step\<^sup>*\<^sup>* (object m a) (object m' a)"
    and P: "sm_sessions m' = filter P (sm_sessions m)"
    and most: "sm_maxConcurrentSessions m' = sm_maxConcurrentSessions m"
    by (auto simp: serves_def)
  have "list_all (entry_ok m') (sm_sessions m')"
    using assms(2) by (auto simp: sm_ok_def P entry_ok_def list_all_iff len session.run_ident [OF run])
  moreover have "int (length (sm_sessions m')) \<le> max 0 (sm_maxConcurrentSessions m)"
    using assms(2) length_filter_le [of P "sm_sessions m"] unfolding sm_ok_def P by linarith
  moreover have "list_all sess_ok (sm_objects m')"
    using assms(2) session.run_ok [OF run] by (auto simp: sm_ok_def object_def list_all_length len)
  ultimately show ?thesis using assms(2) unfolding sm_ok_def most by (simp add: P js_wf_filter)
qed

lemma create_begin_ok:
  assumes "sm_ok m"
  shows "sm_ok (fst (create_begin now srv tt ov m))"
proof -
  let ?s = "new_session now (session_config_of srv tt ov m)" and ?a = "length (sm_objects m)"
  let ?t = "fst (sess_connect_begin ?s)"
  have t: "sess_ok ?t \<and> ms_sessionId ?t = ms_sessionId ?s"
    using sess_step_ok [OF sess_step.connect_begins] sess_step_ids [OF sess_step.connect_begins] by simp
  have "list_all (entry_ok (m\<lparr>sm_objects := sm_objects m @ [?t], sm_sessions := js_set (ms_sessionId ?s) ?a (sm_sessions m)\<rparr>))
      (js_set (ms_sessionId ?s) ?a (sm_sessions m))"
    using assms t set_js_set_subset [of "ms_sessionId ?s" ?a "sm_sessions m"]
    by (fastforce simp: sm_ok_def entry_ok_def list_all_iff object_def nth_append)
  moreover have "int (length (js_set (ms_sessionId ?s) ?a (sm_sessions m))) \<le> max 0 (sm_maxConcurrentSessions m)"
    if "int (length (sm_sessions m)) < sm_maxConcurrentSessions m"
    using that by (simp add: length_js_set)
  ultimately show ?thesis using assms t by (auto simp: create_begin_def Let_def sm_ok_def)
qed

lemma sm_step_ok: "sm_step m m' \<Longrightarrow> sm_ok m \<Longrightarrow> sm_ok m'"
proof (induction rule: sm_step.induct)
  case (uses m a s)
  then show ?case by (blast intro: serves_ok serves_put r_into_rtranclp)
qed (blast intro: create_begin_ok serves_ok serves_intros)+

lemma sm_reachable_ok: "sm_reachable m \<Longrightarrow> sm_ok m"
  by (induction rule: sm_reachable.induct) (auto simp: sm_ok_def new_session_manager_def dest: sm_step_ok)

text \<open>C29: 
  In every reachable manager the map has each id once and leads from it to the session of that id,
  holds no more sessions than the limit, and no session, in the map or not, has used more attempts
  to reconnect than it may.
\<close>

theorem session_manager_bounded:
  assumes "sm_reachable m"
  shows "js_wf (sm_sessions m) \<and> list_all (entry_ok m) (sm_sessions m)
    \<and> int (getSessionCount m) \<le> max 0 (sm_maxConcurrentSessions m)
    \<and> list_all (\<lambda>s. ms_reconnectAttempts s \<le> max 0 (sn_maxReconnectAttempts (ms_config s))) (sm_objects m)"
  using sm_reachable_ok [OF assms] by (auto simp: sm_ok_def getSessionCount_def sess_ok_def list_all_iff)

definition no_options :: session_options where
  "no_options = \<lparr>so_heartbeatInterval = None, so_idleTimeout = None, so_maxReconnectAttempts = None, so_reconnectInterval = None\<rparr>"

definition sample_manager :: session_manager where
  "sample_manager = fst (create_session 1 2 None ''a'' ''http'' no_options (new_session_manager None None (Some 2) None))"

lemma sample_manager_reachable: "sm_reachable sample_manager"
proof -
  let ?m = "new_session_manager None None (Some 2) None"
  have 1: "sm_reachable (fst (create_begin 1 ''a'' ''http'' no_options ?m))"
    by (rule sm_reachable.step [OF sm_reachable.start sm_step.create_begins])
  have "sm_reachable (fst (create_end 2 None 0 (fst (create_begin 1 ''a'' ''http'' no_options ?m))))"
    by (rule sm_reachable.step [OF 1 sm_step.create_ends])
  moreover have "sample_manager = fst (create_end 2 None 0 (fst (create_begin 1 ''a'' ''http'' no_options ?m)))"
    by code_simp
  ultimately show ?thesis by simp
qed

theorem session_manager_bounded_witness:
  "int (getSessionCount sample_manager) \<le> max 0 (sm_maxConcurrentSessions sample_manager) \<and> getSessionCount sample_manager = 1"
proof -
  have "getSessionCount sample_manager = 1" by code_simp
  then show ?thesis using session_manager_bounded [OF sample_manager_reachable] by simp
qed

section \<open>Creation\<close>

text \<open>
  A creation succeeds exactly when the manager runs, has room, the oldest session of the server is
  not connected, and the transport connects. Then the map has one entry more, which leads to a
  connected session with its timers set; otherwise the map is what it was. (The id is new, which it
  is unless the server got a session in the same millisecond.)
\<close>

theorem create_session_outcome:
  assumes "sm_get (ms_sessionId (new_session now (session_config_of srv tt ov m))) m = None"
  shows "case create_session now later out srv tt ov m of (m', r) \<Rightarrow>
      isl r = (sm_shuttingDown m \<or> sm_maxConcurrentSessions m \<le> int (getSessionCount m) \<or> active_for srv m \<or> out \<noteq> None)
      \<and> (case r of
           Inl e \<Rightarrow> sm_sessions m' = sm_sessions m
         | Inr a \<Rightarrow> getSessionCount m' = Suc (getSessionCount m) \<and> sm_get (ms_sessionId (object m' a)) m' = Some a
             \<and> ms_serverId (object m' a) = srv \<and> ms_status (object m' a) = SsConnected
             \<and> ms_heartbeatTimer (object m' a) = Some later \<and> ms_idleTimer (object m' a) \<noteq> None)"
proof -
  let ?s = "new_session now (session_config_of srv tt ov m)"
  let ?sid = "ms_sessionId ?s" and ?a = "length (sm_objects m)"
  have fresh: "js_delete ?sid (js_set ?sid ?a (sm_sessions m)) = sm_sessions m"
    using assms by (auto simp: sm_get_def js_set_new js_has_iff js_delete_filter js_get_None_iff filter_id_conv image_iff)
  have len: "length (js_set ?sid ?a (sm_sessions m)) = Suc (length (sm_sessions m))"
    using assms by (simp add: sm_get_def length_js_set js_has_iff)
  show ?thesis
    using fresh len
    by (auto simp: create_session_def create_begin_def create_end_def Let_def object_def put_object_def
        getSessionCount_def forget_session_def sm_get_def session_defs new_session_def session_config_of_def split: option.split)
qed

theorem create_session_outcome_witness:
  "isl (snd (create_session 5 6 None ''b'' ''http'' no_options sample_manager)) = False
   \<and> isl (snd (create_session 5 6 None ''a'' ''http'' no_options sample_manager)) = True"
proof -
  have new: "sm_get (ms_sessionId (new_session 5 (session_config_of srv ''http'' no_options sample_manager))) sample_manager = None"
    if "srv \<in> {''a'', ''b''}" for srv
    using that by (elim insertE) (simp_all, code_simp+)
  have vals: "sm_shuttingDown sample_manager = False" "getSessionCount sample_manager = 1" "sm_maxConcurrentSessions sample_manager = 2"
      "active_for ''a'' sample_manager = True" "active_for ''b'' sample_manager = False" by code_simp+
  show ?thesis
    using create_session_outcome [OF new, of "''b''" None 6] create_session_outcome [OF new, of "''a''" None 6]
    by (simp add: vals split_beta)
qed

section \<open>Reconnection\<close>

lemma fold_fixed:
  assumes "\<And>x r. x \<in> set xs \<Longrightarrow> Q r \<Longrightarrow> Q (f x r)"
  shows "Q r \<Longrightarrow> Q (fold f xs r)"
  using assms by (induction xs arbitrary: r) auto

text \<open>The entry \<open>sid\<close> leads to the session \<open>s\<close> at \<open>a\<close>, and every object keeps its id.\<close>

definition holds_at :: "string \<Rightarrow> nat \<Rightarrow> mcp_session \<Rightarrow> session_manager \<Rightarrow> bool" where
  "holds_at sid a s m = (js_get (sm_sessions m) sid = Some a \<and> object m a = s \<and> ms_sessionId s = sid)"

lemma holds_at_put: "holds_at sid a s m \<Longrightarrow> b \<noteq> a \<Longrightarrow> holds_at sid a s (put_object b t m)"
  by (simp add: holds_at_def put_object_def object_def)

lemma holds_at_forget: "holds_at sid a s m \<Longrightarrow> i \<noteq> sid \<Longrightarrow> holds_at sid a s (forget_session i m)"
  by (simp add: holds_at_def forget_session_def object_def)

lemma settle_reconnect_other:
  assumes "holds_at sid a s (fst r)" and "fst e \<noteq> a" and "ms_sessionId (object (fst r) (fst e)) \<noteq> sid"
  shows "holds_at sid a s (fst (settle_reconnect e r))"
proof (cases r; cases e)
  fix m d b now closed out
  assume r: "r = (m, d)" and e: "e = (b, now, closed, out)"
  obtain t x where t: "reconnect_end now closed out (object m b) = (t, x)" by fastforce
  have "ms_sessionId t = ms_sessionId (object m b)"
    using sess_step_ids [OF sess_step.reconnect_ends, of now closed out "object m b"] by (simp add: t)
  moreover have put: "holds_at sid a s (put_object b t m)"
    using assms holds_at_put by (simp add: r e)
  ultimately show ?thesis
    using assms(3) holds_at_forget [OF put] by (cases x) (simp_all add: settle_reconnect_def r e t)
qed

lemma holds_at_other:
  assumes "sm_ok m" and "holds_at sid a s m" and "b \<in> set (js_values (sm_sessions m))" and "b \<noteq> a"
  shows "ms_sessionId (object m b) \<noteq> sid"
proof
  assume id: "ms_sessionId (object m b) = sid"
  obtain i where i: "(i, b) \<in> set (sm_sessions m)" using assms(3) by (auto simp: js_values_def)
  then have "i = sid" using assms(1) id by (auto simp: sm_ok_def entry_ok_def list_all_iff)
  with i assms(1) have "js_get (sm_sessions m) sid = Some b" by (simp add: sm_ok_def js_get_wf)
  with assms(2,4) show False by (simp add: holds_at_def)
qed

text \<open>A session that is not to reconnect is left alone by a round of reconnections.\<close>

lemma reconnect_leaves:
  assumes ok: "sm_ok m" and held: "holds_at sid a s m" and no: "\<not> shouldReconnect s"
  shows "holds_at sid a s (fst (reconnectDeadSessions settles m))"
proof -
  let ?dead = "dead_sessions m"
  let ?others = "\<lambda>m'. \<forall>b \<in> set ?dead. ms_sessionId (object m' b) \<noteq> sid"
  have notin: "a \<notin> set ?dead" using held no by (simp add: dead_sessions_def holds_at_def)
  have others: "?others m" using holds_at_other [OF ok held] notin by (auto simp: dead_sessions_def)
  have keep: "?others m2" if "?others m1" and "serves m1 m2" for m1 m2
    using that session.run_ident by (metis serves_def)
  let ?Q = "\<lambda>m'. holds_at sid a s m' \<and> ?others m'"
  have "?Q (fold start_reconnect ?dead m)"
  proof (rule fold_fixed [where Q = ?Q])
    fix b m' assume b: "b \<in> set ?dead" and Q: "?Q m'"
    then have "b \<noteq> a" using notin by blast
    with Q show "?Q (start_reconnect b m')"
      using keep [OF _ start_reconnect_serves] holds_at_put by (auto simp: start_reconnect_def)
  qed (use held others in simp)
  then have "?Q (fst (fold settle_reconnect (filter (\<lambda>e. fst e \<in> set ?dead) settles) (fold start_reconnect ?dead m, [])))"
  proof (intro fold_fixed [where Q = "\<lambda>r. ?Q (fst r)"])
    fix e and r :: "session_manager \<times> string list"
    assume "e \<in> set (filter (\<lambda>e. fst e \<in> set ?dead) settles)" and Q: "?Q (fst r)"
    then have "fst e \<in> set ?dead" by simp
    moreover from this have "fst e \<noteq> a" using notin by blast
    ultimately show "?Q (fst (settle_reconnect e r))"
      using Q keep [OF _ settle_reconnect_serves] settle_reconnect_other by blast
  qed simp
  then show ?thesis by (simp add: reconnectDeadSessions_def Let_def)
qed

lemma heartbeat_one_other:
  assumes "holds_at sid a s (fst r)" and "ms_status s \<noteq> SsConnected"
  shows "holds_at sid a s (fst (heartbeat_one outs e r))"
proof (cases r; cases e)
  fix m res i b
  assume "r = (m, res)" and "e = (i, b)"
  then show ?thesis
    using assms holds_at_put [of sid a s m b] by (cases "b = a") (auto simp: heartbeat_one_def holds_at_def split_beta)
qed

lemma heartbeat_leaves:
  assumes "holds_at sid a s m" and "ms_status s \<noteq> SsConnected"
  shows "holds_at sid a s (fst (heartbeatAll outs m))"
  unfolding heartbeatAll_def
  by (rule fold_fixed [where Q = "\<lambda>r. holds_at sid a s (fst r)"]) (simp_all add: assms heartbeat_one_other)

text \<open>
  A session whose transport fails to close is not tried again: with an attempt left its status stays
  \<open>reconnecting\<close>, in which the reconnection monitor neither retries nor removes it, the heartbeats
  pass it over, and its own operations are refused.
\<close>

theorem failed_close_ends_reconnection:
  assumes "sm_reachable m" and "sm_get sid m = Some a"
    and "shouldReconnect (object m a)"
    and "ms_reconnectAttempts (object m a) + 1 < sn_maxReconnectAttempts (ms_config (object m a))"
  shows "case attemptReconnect now (Some e) out (object m a) of (s, r) \<Rightarrow>
      r = Some (PlainError e) \<and> ms_status s = SsReconnecting
      \<and> (case put_object a s m of m1 \<Rightarrow>
           sm_get sid (fst (reconnectDeadSessions settles m1)) = Some a
           \<and> object (fst (reconnectDeadSessions settles m1)) a = s
           \<and> sm_get sid (fst (heartbeatAll outs m1)) = Some a
           \<and> object (fst (heartbeatAll outs m1)) a = s)
      \<and> attemptReconnect later closed out' s = (s, Some (PlainError ''Reconnection not allowed''))
      \<and> heartbeat later out' s = (s, Some (PlainError ''Session not connected''))"
proof -
  let ?s = "fst (attemptReconnect now (Some e) out (object m a))"
  let ?m1 = "put_object a ?s m"
  have run: "sess_step\<^sup>*\<^sup>* (object m a) ?s"
    using sess_step.reconnect_begins [of "object m a"] sess_step.reconnect_ends
    by (auto simp: attemptReconnect_def split: prod.split option.split) (metis fst_conv converse_rtranclp_into_rtranclp r_into_rtranclp)+
  have ok: "sm_ok ?m1" using serves_ok [OF serves_put [OF run] sm_reachable_ok [OF assms(1)]] .
  have "(sid, a) \<in> set (sm_sessions m)" using assms(2) by (simp add: sm_get_def js_get_in_set)
  then have a: "a < length (sm_objects m)" and id: "ms_sessionId (object m a) = sid"
    using sm_reachable_ok [OF assms(1)] by (auto simp: sm_ok_def entry_ok_def list_all_iff)
  have s: "attemptReconnect now (Some e) out (object m a) = (?s, Some (PlainError e))" and st: "ms_status ?s = SsReconnecting"
    using assms(3,4) by (auto simp: session_defs)
  have held: "holds_at sid a ?s ?m1"
    using assms(2) a session.run_ident [OF run] id by (simp add: holds_at_def put_object_def object_def sm_get_def)
  have no: "\<not> shouldReconnect ?s" using st by (simp add: shouldReconnect_def)
  have "holds_at sid a ?s (fst (reconnectDeadSessions settles ?m1))" by (rule reconnect_leaves [OF ok held no])
  moreover have "holds_at sid a ?s (fst (heartbeatAll outs ?m1))" by (rule heartbeat_leaves [OF held]) (simp add: st)
  moreover have "attemptReconnect later closed out' ?s = (?s, Some (PlainError ''Reconnection not allowed''))"
    using no by (simp add: attemptReconnect_def reconnect_begin_def)
  moreover have "heartbeat later out' ?s = (?s, Some (PlainError ''Session not connected''))"
    by (simp add: heartbeat_def guard_connected_def st)
  ultimately show ?thesis using s st by (simp add: holds_at_def sm_get_def split: prod.split) auto
qed

definition dead_manager :: session_manager where
  "dead_manager = put_object 0 (on_transport_disconnect (object sample_manager 0)) sample_manager"

lemma dead_manager_reachable: "sm_reachable dead_manager"
  unfolding dead_manager_def
  by (rule sm_reachable.step [OF sample_manager_reachable sm_step.uses [OF sess_step.transport_disconnects]])

theorem failed_close_ends_reconnection_witness:
  "ms_status (fst (attemptReconnect 9 (Some ''busy'') None (object dead_manager 0))) = SsReconnecting"
proof -
  have 1: "sm_get ''session-a-1'' dead_manager = Some 0" and 2: "shouldReconnect (object dead_manager 0)"
    and 3: "ms_reconnectAttempts (object dead_manager 0) + 1 < sn_maxReconnectAttempts (ms_config (object dead_manager 0))"
    by code_simp+
  from failed_close_ends_reconnection [OF dead_manager_reachable 1 2 3, where now = 9 and e = "''busy''" and out = None]
  show ?thesis by (simp add: split_beta)
qed

section \<open>Sessions that come back\<close>

text \<open>
  Disconnecting is not final. A request that was under way sets the idle timer again; when that
  fires, the disconnected session is in error, the reconnection monitor takes it for a dead one, and
  it is connected again.
\<close>

theorem disconnected_session_revived:
  assumes "ms_reconnectAttempts s < sn_maxReconnectAttempts (ms_config s)"
    and "now + sn_idleTimeout (ms_config s) \<le> later"
  shows "case fst (request_end now None (sess_disconnect_end s)) of s1 \<Rightarrow>
      ms_status s1 = SsDisconnected
      \<and> (case handleIdleTimeout later s1 of s2 \<Rightarrow>
           ms_status s2 = SsError \<and> shouldReconnect s2
           \<and> (case attemptReconnect again None None s2 of (s3, r) \<Rightarrow> r = None \<and> ms_status s3 = SsConnected))"
  using assms by (auto simp: session_defs)

theorem disconnected_session_revived_witness:
  "shouldReconnect (handleIdleTimeout 300007 (fst (request_end 7 None (sess_disconnect_end (object sample_manager 0)))))"
proof -
  have "ms_reconnectAttempts (object sample_manager 0) < sn_maxReconnectAttempts (ms_config (object sample_manager 0))"
    and "7 + sn_idleTimeout (ms_config (object sample_manager 0)) \<le> (300007 :: int)" by code_simp+
  from disconnected_session_revived [OF this] show ?thesis by simp
qed

text \<open>
  A creation under way when the manager shuts down, or when its session is removed, succeeds all the
  same: its session ends connected, its heartbeat timer set, and outside the map.
\<close>

theorem creation_outlives_manager:
  assumes "create_begin now srv tt ov m = (m1, Inr a)"
  shows "case create_end later None a (shutdown_sessions m1) of (m2, r) \<Rightarrow>
      r = Inr a \<and> sm_sessions m2 = [] \<and> sm_shuttingDown m2
      \<and> ms_status (object m2 a) = SsConnected \<and> ms_heartbeatTimer (object m2 a) = Some later"
proof -
  let ?m = "shutdown_sessions m1"
  have "a < length (sm_objects m1)"
    using assms by (auto simp: create_begin_def Let_def split: if_splits)
  then have a: "a < length (sm_objects ?m)" using shutdown_serves [of m1] by (simp add: serves_def)
  have "sm_shuttingDown (fold disconnect_one xs m0) = sm_shuttingDown m0" for xs m0
    by (induction xs arbitrary: m0) (simp_all add: disconnect_one_def put_object_def)
  then have "sm_sessions ?m = []" and "sm_shuttingDown ?m"
    by (simp_all add: shutdown_sessions_def Let_def stopMonitors_def)
  with a show ?thesis by (simp add: create_end_def session_defs put_object_def object_def)
qed

theorem creation_outlives_manager_witness:
  "isl (snd (create_end 9 None 1 (shutdown_sessions (fst (create_begin 5 ''b'' ''http'' no_options sample_manager))))) = False"
proof -
  have "create_begin 5 ''b'' ''http'' no_options sample_manager
      = (fst (create_begin 5 ''b'' ''http'' no_options sample_manager), Inr 1)" by code_simp
  from creation_outlives_manager [OF this, of 9] show ?thesis by (simp add: split_beta)
qed

end
