(* ===== verification/Discovery_Service.thy ===== *)
theory Discovery_Service
  imports Discovery_Cache Session_Manager
begin

text \<open>
  The class \<open>DiscoveryService\<close> (\<open>mcp/discovery/discovery-service.ts\<close>): asks a server, through its
  session, for what it offers, with retries, and caches the answers. Answers and the items read off
  them are JavaScript values.

  A promise is settled or will settle at a time. The transport's answers, the sessions as the
  attempts find them and the clock are arguments (\<open>request_env\<close>); what an answered request does to
  its session is \<open>request_end\<close> of \<open>Mcp_Session\<close>. A discovery is a beginning, to its first wait, and an
  end.
\<close>

section \<open>Errors and promises\<close>

datatype discovery_error =
    DiscoveryTimeout string string int
  | DiscoveryFailed string string string
  | CapabilityNotFound string string "string list"
  | OtherError agent_error

fun discovery_message :: "discovery_error \<Rightarrow> string" where
  "discovery_message (DiscoveryTimeout srv ty t) = ''Discovery timeout for '' @ ty @ '' on server '' @ srv @ '' after '' @ int_str t @ ''ms''"
| "discovery_message (DiscoveryFailed srv ty m) = ''Discovery failed for '' @ ty @ '' on server '' @ srv @ '': '' @ m"
| "discovery_message (CapabilityNotFound srv c av) = ''Capability '' @ sq c @ '' not found on server '' @ srv @ ''. Available: '' @ join_with '', '' av"
| "discovery_message (OtherError e) = err_message e"

datatype ('e, 'v) promise = Fulfilled 'v | Rejected 'e | Pending time_ms "'e + 'v"

text \<open>\<open>new Promise(executor)\<close>: an executor that throws rejects the promise.\<close>

definition new_promise :: "'e + ('e, 'v) promise \<Rightarrow> ('e, 'v) promise" where
  "new_promise executed = (case executed of Inl e \<Rightarrow> Rejected e | Inr p \<Rightarrow> p)"

text \<open>\<open>Promise.race([p, q])\<close>: the first that is settled already, else the first that settles.\<close>

fun race :: "('e, 'v) promise \<Rightarrow> ('e, 'v) promise \<Rightarrow> 'e + 'v" where
  "race (Fulfilled v) _ = Inr v"
| "race (Rejected e) _ = Inl e"
| "race (Pending _ _) (Fulfilled v) = Inr v"
| "race (Pending _ _) (Rejected e) = Inl e"
| "race (Pending t r) (Pending u r') = (if t \<le> u then r else r')"

section \<open>Requests\<close>

record discovery_config =
  cf_cacheTtl :: int
  cf_timeout :: int
  cf_retries :: int
  cf_retryDelay :: int
  cf_enableLazyRefresh :: bool
  cf_refreshThreshold :: "int \<times> int"

text \<open>By attempt: the session at that time, the time, and when and how the transport answers.\<close>

record request_env =
  re_session :: "nat \<Rightarrow> mcp_session"
  re_started :: "nat \<Rightarrow> time_ms"
  re_answer :: "nat \<Rightarrow> time_ms \<times> (agent_error + jsval)"

text \<open>
  The executor of \<open>timeoutPromise\<close> sets a timer and then stores it in a field of \<open>timeoutPromise\<close>. It
  runs before that constant is initialised, and an access before the initialisation throws.
\<close>

definition timeout_executor ::
  "bool \<Rightarrow> string \<Rightarrow> string \<Rightarrow> time_ms \<Rightarrow> int \<Rightarrow> discovery_error + (discovery_error, jsval) promise" where
  "timeout_executor initialised srv method started limit =
     (if \<not> initialised
      then Inl (OtherError (PlainError (''Cannot access '' @ sq ''timeoutPromise'' @ '' before initialization'')))
      else Inr (Pending (started + limit) (Inl (DiscoveryTimeout srv method limit))))"

definition timeoutPromise :: "string \<Rightarrow> string \<Rightarrow> time_ms \<Rightarrow> int \<Rightarrow> (discovery_error, jsval) promise" where
  "timeoutPromise srv method started limit = new_promise (timeout_executor False srv method started limit)"

text \<open>\<open>session.request\<close> rejects at once when the session is not connected, and else waits.\<close>

definition requestPromise :: "mcp_session \<Rightarrow> time_ms \<times> (agent_error + jsval) \<Rightarrow> (discovery_error, jsval) promise" where
  "requestPromise s answer =
     (case guard_connected s of
        Some e \<Rightarrow> Rejected (OtherError e)
      | None \<Rightarrow> Pending (fst answer) (case snd answer of Inl e \<Rightarrow> Inl (OtherError e) | Inr v \<Rightarrow> Inr v))"

definition attempt_request :: "discovery_config \<Rightarrow> request_env \<Rightarrow> string \<Rightarrow> string \<Rightarrow> nat \<Rightarrow> discovery_error + jsval" where
  "attempt_request cfg env srv method n =
     race (requestPromise (re_session env n) (re_answer env n)) (timeoutPromise srv method (re_started env n) (cf_timeout cfg))"

text \<open>
  The loop over the attempts: \<open>n\<close> is the attempt, the last argument how many are left; the result
  comes with the number of attempts made. Before attempt \<open>n + 1\<close> it waits \<open>retryDelay * (n + 1)\<close>,
  a part of \<open>re_started\<close>.
\<close>

fun request_loop ::
  "discovery_config \<Rightarrow> request_env \<Rightarrow> string \<Rightarrow> string \<Rightarrow> discovery_error option \<Rightarrow> nat \<Rightarrow> nat \<Rightarrow> (discovery_error + jsval) \<times> nat" where
  "request_loop cfg env srv method lastError n 0 =
     (Inl (case lastError of Some e \<Rightarrow> e | None \<Rightarrow> OtherError (PlainError ''Max retries exceeded'')), n)"
| "request_loop cfg env srv method lastError n (Suc k) =
     (case attempt_request cfg env srv method n of
        Inr v \<Rightarrow> (Inr v, Suc n)
      | Inl (DiscoveryTimeout a b c) \<Rightarrow> (Inl (DiscoveryTimeout a b c), Suc n)
      | Inl e \<Rightarrow> request_loop cfg env srv method (Some e) (Suc n) k)"

definition makeRequestWithRetries :: "discovery_config \<Rightarrow> request_env \<Rightarrow> string \<Rightarrow> string \<Rightarrow> (discovery_error + jsval) \<times> nat" where
  "makeRequestWithRetries cfg env srv method = request_loop cfg env srv method None 0 (nat (cf_retries cfg + 1))"

section \<open>Reading the answers\<close>

text \<open>\<open>v.k\<close>, for names that are not inherited: only \<open>null\<close> and \<open>undefined\<close> throw.\<close>

fun read_field :: "jsval \<Rightarrow> string \<Rightarrow> agent_error + jsval" where
  "read_field JUndefined k = Inl (PlainError (''Cannot read properties of undefined (reading '' @ sq k @ '')''))"
| "read_field JNull k = Inl (PlainError (''Cannot read properties of null (reading '' @ sq k @ '')''))"
| "read_field (JObj fs) k = Inr (case map_of fs k of None \<Rightarrow> JUndefined | Some v \<Rightarrow> v)"
| "read_field _ k = Inr JUndefined"

definition value_or :: "jsval \<Rightarrow> jsval \<Rightarrow> jsval" where
  "value_or v d = (if truthy v then v else d)"

text \<open>An object built field by field: the name, and the default for a falsy value, if there is one.\<close>

fun build_item :: "(string \<times> jsval option) list \<Rightarrow> jsval \<Rightarrow> agent_error + js_record" where
  "build_item [] v = Inr []"
| "build_item ((k, d) # ks) v =
     (case read_field v k of
        Inl e \<Rightarrow> Inl e
      | Inr x \<Rightarrow> (case build_item ks v of
            Inl e \<Rightarrow> Inl e
          | Inr fs \<Rightarrow> Inr ((k, case d of None \<Rightarrow> x | Some y \<Rightarrow> value_or x y) # fs)))"

fun map_items :: "('a \<Rightarrow> 'e + 'b) \<Rightarrow> 'a list \<Rightarrow> 'e + 'b list" where
  "map_items f [] = Inr []"
| "map_items f (x # xs) =
     (case f x of Inl e \<Rightarrow> Inl e | Inr y \<Rightarrow> (case map_items f xs of Inl e \<Rightarrow> Inl e | Inr ys \<Rightarrow> Inr (y # ys)))"

definition item_fields :: "discovery_type \<Rightarrow> (string \<times> jsval option) list" where
  "item_fields ty = (case ty of
     DiscCapabilities \<Rightarrow> []
   | DiscTools \<Rightarrow> [(''name'', Some (JStr [])), (''description'', Some (JStr [])),
        (''inputSchema'', Some (JObj [(''type'', JStr ''object''), (''properties'', JObj [])])), (''metadata'', None)]
   | DiscPrompts \<Rightarrow> [(''name'', Some (JStr [])), (''description'', Some (JStr [])), (''arguments'', Some (JArr [])), (''metadata'', None)]
   | DiscResources \<Rightarrow> [(''uri'', Some (JStr [])), (''name'', Some (JStr [])), (''description'', None), (''mimeType'', None), (''metadata'', None)]
   | DiscTemplates \<Rightarrow> [(''name'', Some (JStr [])), (''description'', Some (JStr [])), (''arguments'', Some (JArr [])),
        (''content'', Some (JStr [])), (''metadata'', None)])"

definition normalize_array :: "discovery_type \<Rightarrow> jsval \<Rightarrow> agent_error + jsval list" where
  "normalize_array ty response =
     (if \<not> truthy response then Inr []
      else case read_field response (discovery_str ty) of
             Inr (JArr xs) \<Rightarrow> (case map_items (build_item (item_fields ty)) xs of
                Inl e \<Rightarrow> Inl e | Inr items \<Rightarrow> Inr (map JObj items))
           | _ \<Rightarrow> Inr [])"

definition normalizeCapabilities :: "jsval \<Rightarrow> agent_error + jsval list" where
  "normalizeCapabilities response =
     (if \<not> truthy response then Inr []
      else case read_field response ''capabilities'' of
             Inr c \<Rightarrow> Inr (if truthy c then [c] else [])
           | Inl e \<Rightarrow> Inl e)"

definition normalizeTools :: "jsval \<Rightarrow> agent_error + jsval list" where
  "normalizeTools = normalize_array DiscTools"

definition normalizePrompts :: "jsval \<Rightarrow> agent_error + jsval list" where
  "normalizePrompts = normalize_array DiscPrompts"

definition normalizeResources :: "jsval \<Rightarrow> agent_error + jsval list" where
  "normalizeResources = normalize_array DiscResources"

definition normalizeTemplates :: "jsval \<Rightarrow> agent_error + jsval list" where
  "normalizeTemplates = normalize_array DiscTemplates"

end
