(* ===== verification/Discovery_Manager.thy ===== *)
theory Discovery_Manager
  imports Discovery_Service
begin

text \<open>
  The state of \<open>DiscoveryService\<close> with its discoveries, and the class \<open>DiscoveryManager\<close>
  (\<open>mcp/discovery/discovery-manager.ts\<close>), which finds the session of a server, discovers its five
  kinds of items in parallel and answers queries from the results.
\<close>

section \<open>Discoveries\<close>

datatype service_event =
    DiscoveryStarted string discovery_type time_ms
  | DiscoveryCompleted string discovery_type time_ms int nat
  | DiscoveryFailedEvent string string time_ms int string
  | ServerRefreshed string time_ms

text \<open>The events of the cache, which the service forwards, stay with the cache.\<close>

record discovery_service =
  dv_cache :: "jsval discovery_cache"
  dv_config :: discovery_config
  dv_emitted :: "service_event list"

definition new_discovery_service :: "discovery_config \<Rightarrow> discovery_service" where
  "new_discovery_service cfg =
     \<lparr>dv_cache = new_discovery_cache (cf_cacheTtl cfg) (cf_refreshThreshold cfg), dv_config = cfg, dv_emitted = []\<rparr>"

record discovery_result =
  rs_data :: "jsval list"
  rs_serverId :: string
  rs_discoveredAt :: time_ms
  rs_duration :: int
  rs_count :: nat
  rs_cached :: bool

definition method_of :: "discovery_type \<Rightarrow> string" where
  "method_of ty = discovery_str ty @ ''/list''"

definition normalizer_of :: "discovery_type \<Rightarrow> jsval \<Rightarrow> agent_error + jsval list" where
  "normalizer_of ty = (case ty of
     DiscCapabilities \<Rightarrow> normalizeCapabilities | DiscTools \<Rightarrow> normalizeTools | DiscPrompts \<Rightarrow> normalizePrompts
   | DiscResources \<Rightarrow> normalizeResources | DiscTemplates \<Rightarrow> normalizeTemplates)"

definition dv_emit :: "service_event \<Rightarrow> discovery_service \<Rightarrow> discovery_service" where
  "dv_emit e sv = sv\<lparr>dv_emitted := dv_emitted sv @ [e]\<rparr>"

text \<open>To the first wait: a result from the cache, or the event that a discovery has started.\<close>

definition discover_begin :: "time_ms \<Rightarrow> string \<Rightarrow> discovery_type \<Rightarrow> bool \<Rightarrow> discovery_service \<Rightarrow> discovery_service \<times> discovery_result option" where
  "discover_begin now srv ty useCache sv =
     (case (if useCache then disc_get now srv ty (dv_cache sv) else (dv_cache sv, None)) of
        (c, Some d) \<Rightarrow> (sv\<lparr>dv_cache := c\<rparr>, Some \<lparr>rs_data = d, rs_serverId = srv, rs_discoveredAt = now, rs_duration = 0,
                          rs_count = length d, rs_cached = True\<rparr>)
      | (c, None) \<Rightarrow> (dv_emit (DiscoveryStarted srv ty now) (sv\<lparr>dv_cache := c\<rparr>), None))"

text \<open>The body of the \<open>try\<close>: the request and the normaliser.\<close>

definition discovered_data :: "discovery_config \<Rightarrow> request_env \<Rightarrow> string \<Rightarrow> discovery_type \<Rightarrow> discovery_error + jsval list" where
  "discovered_data cfg env srv ty =
     (case fst (makeRequestWithRetries cfg env srv (method_of ty)) of
        Inl e \<Rightarrow> Inl e
      | Inr response \<Rightarrow> (case normalizer_of ty response of Inl e \<Rightarrow> Inl (OtherError e) | Inr d \<Rightarrow> Inr d))"

definition wrap_failure :: "string \<Rightarrow> discovery_type \<Rightarrow> discovery_error \<Rightarrow> discovery_error" where
  "wrap_failure srv ty e = (case e of
     DiscoveryTimeout _ _ _ \<Rightarrow> e
   | DiscoveryFailed _ _ _ \<Rightarrow> e
   | _ \<Rightarrow> DiscoveryFailed srv (discovery_str ty) (discovery_message e))"

definition discover_end ::
  "time_ms \<Rightarrow> time_ms \<Rightarrow> request_env \<Rightarrow> string \<Rightarrow> discovery_type \<Rightarrow> bool \<Rightarrow> discovery_service \<Rightarrow> discovery_service \<times> (discovery_error + discovery_result)" where
  "discover_end started now env srv ty useCache sv =
     (let duration = now - started in
      case discovered_data (dv_config sv) env srv ty of
        Inr d \<Rightarrow>
          (dv_emit (DiscoveryCompleted srv ty now duration (length d))
             (if useCache then sv\<lparr>dv_cache := disc_set now srv ty d (Some (cf_cacheTtl (dv_config sv))) (Some (now, duration)) (dv_cache sv)\<rparr> else sv),
           Inr \<lparr>rs_data = d, rs_serverId = srv, rs_discoveredAt = now, rs_duration = duration, rs_count = length d, rs_cached = False\<rparr>)
      | Inl e \<Rightarrow> (dv_emit (DiscoveryFailedEvent srv (discovery_str ty) now duration (discovery_message e)) sv, Inl (wrap_failure srv ty e)))"

definition discover ::
  "time_ms \<Rightarrow> time_ms \<Rightarrow> request_env \<Rightarrow> string \<Rightarrow> discovery_type \<Rightarrow> bool \<Rightarrow> discovery_service \<Rightarrow> discovery_service \<times> (discovery_error + discovery_result)" where
  "discover now later env srv ty useCache sv =
     (case discover_begin now srv ty useCache sv of
        (sv1, Some r) \<Rightarrow> (sv1, Inr r)
      | (sv1, None) \<Rightarrow> discover_end now later env srv ty useCache sv1)"

definition dv_invalidateCache :: "time_ms \<Rightarrow> string \<Rightarrow> discovery_type option \<Rightarrow> discovery_service \<Rightarrow> discovery_service" where
  "dv_invalidateCache now srv ty sv =
     sv\<lparr>dv_cache := (case ty of Some t \<Rightarrow> fst (disc_invalidate now srv t (dv_cache sv)) | None \<Rightarrow> fst (disc_invalidateServer now srv (dv_cache sv)))\<rparr>"

section \<open>The manager\<close>

record discovery_manager =
  dm_service :: discovery_service
  dm_concurrentDiscoveries :: int
  dm_active :: "string list"
  dm_refreshTimer :: bool
  dm_emitted :: "service_event list"

definition new_discovery_manager :: "discovery_config \<Rightarrow> int \<Rightarrow> bool \<Rightarrow> discovery_manager" where
  "new_discovery_manager cfg limit autoRefresh = \<lparr>dm_service = new_discovery_service cfg, dm_concurrentDiscoveries = limit,
     dm_active = [], dm_refreshTimer = autoRefresh, dm_emitted = []\<rparr>"

definition getSession :: "time_ms \<Rightarrow> string \<Rightarrow> session_manager \<Rightarrow> discovery_error + nat" where
  "getSession now srv sm =
     (case getByServerId srv sm of
        None \<Rightarrow> Inl (DiscoveryFailed srv ''session'' ''Session not found'')
      | Some a \<Rightarrow> if isHealthy now (object sm a) then Inr a
                  else Inl (DiscoveryFailed srv ''session'' ''Session is not healthy''))"

definition discovery_kinds :: "discovery_type list" where
  "discovery_kinds = [DiscCapabilities, DiscTools, DiscPrompts, DiscResources, DiscTemplates]"

text \<open>
  The timing and the answers of one call of \<open>discoverServer\<close>: when it starts, when each kind settles
  and in which order, and the answers for each kind.
\<close>

record server_env =
  se_now :: time_ms
  se_settled :: "discovery_type \<Rightarrow> time_ms"
  se_order :: "discovery_type list"
  se_request :: "discovery_type \<Rightarrow> request_env"

type_synonym kind_outcome = "discovery_type \<times> (discovery_error + discovery_result)"

definition begin_kind :: "server_env \<Rightarrow> string \<Rightarrow> bool \<Rightarrow> discovery_type \<Rightarrow> discovery_service \<times> kind_outcome list \<Rightarrow> discovery_service \<times> kind_outcome list" where
  "begin_kind env srv useCache ty r =
     (case r of (sv, outs) \<Rightarrow> case discover_begin (se_now env) srv ty useCache sv of
        (sv1, Some x) \<Rightarrow> (sv1, outs @ [(ty, Inr x)])
      | (sv1, None) \<Rightarrow> (sv1, outs))"

definition end_kind :: "server_env \<Rightarrow> string \<Rightarrow> bool \<Rightarrow> discovery_type \<Rightarrow> discovery_service \<times> kind_outcome list \<Rightarrow> discovery_service \<times> kind_outcome list" where
  "end_kind env srv useCache ty r =
     (case r of (sv, outs) \<Rightarrow>
        if map_of outs ty \<noteq> None then r
        else (case discover_end (se_now env) (se_settled env ty) (se_request env ty) srv ty useCache sv of
                (sv1, out) \<Rightarrow> (sv1, outs @ [(ty, out)])))"

text \<open>\<open>Promise.all\<close>: the first rejection, or all the results.\<close>

fun first_failure :: "kind_outcome list \<Rightarrow> discovery_error option" where
  "first_failure [] = None"
| "first_failure ((ty, Inl e) # xs) = Some e"
| "first_failure ((ty, Inr r) # xs) = first_failure xs"

text \<open>
  \<open>discoverServer\<close> is two steps: to its first wait, with the outcomes that came from the cache, and
  the rest. Its id is active in between.
\<close>

definition discovery_id :: "string \<Rightarrow> time_ms \<Rightarrow> string" where
  "discovery_id srv now = srv @ '':server:'' @ int_str now"

definition discoverServer_begin ::
  "server_env \<Rightarrow> string \<Rightarrow> bool \<Rightarrow> session_manager \<Rightarrow> discovery_manager \<Rightarrow> discovery_manager \<times> (discovery_error + kind_outcome list)" where
  "discoverServer_begin env srv force sm dm =
     (case getSession (se_now env) srv sm of
        Inl e \<Rightarrow> (dm, Inl e)
      | Inr a \<Rightarrow>
          if int (length (dm_active dm)) \<ge> dm_concurrentDiscoveries dm
          then (dm, Inl (DiscoveryFailed srv ''server'' ''Concurrent discovery limit exceeded''))
          else (case fold (begin_kind env srv (\<not> force)) discovery_kinds (dm_service dm, []) of
                  (sv, outs) \<Rightarrow> (dm\<lparr>dm_service := sv, dm_active := List.insert (discovery_id srv (se_now env)) (dm_active dm)\<rparr>, Inr outs)))"

definition discoverServer_end ::
  "server_env \<Rightarrow> string \<Rightarrow> bool \<Rightarrow> kind_outcome list \<Rightarrow> discovery_manager \<Rightarrow> discovery_manager \<times> (discovery_error + kind_outcome list)" where
  "discoverServer_end env srv force cached dm =
     (case fold (end_kind env srv (\<not> force)) (se_order env @ discovery_kinds) (dm_service dm, cached) of
        (sv, outs) \<Rightarrow>
          (let dm1 = dm\<lparr>dm_service := sv, dm_active := removeAll (discovery_id srv (se_now env)) (dm_active dm)\<rparr>
           in case first_failure outs of
                Some e \<Rightarrow> (dm1, Inl e)
              | None \<Rightarrow> (dm1\<lparr>dm_emitted := dm_emitted dm1 @ [ServerRefreshed srv (se_now env)]\<rparr>, Inr outs)))"

definition discoverServer ::
  "server_env \<Rightarrow> string \<Rightarrow> bool \<Rightarrow> session_manager \<Rightarrow> discovery_manager \<Rightarrow> discovery_manager \<times> (discovery_error + kind_outcome list)" where
  "discoverServer env srv force sm dm =
     (case discoverServer_begin env srv force sm dm of
        (dm1, Inl e) \<Rightarrow> (dm1, Inl e)
      | (dm1, Inr cached) \<Rightarrow> discoverServer_end env srv force cached dm1)"

text \<open>The single discoveries; \<open>ty\<close> says which.\<close>

definition discover_one ::
  "time_ms \<Rightarrow> time_ms \<Rightarrow> request_env \<Rightarrow> string \<Rightarrow> discovery_type \<Rightarrow> bool \<Rightarrow> session_manager \<Rightarrow> discovery_manager \<Rightarrow> discovery_manager \<times> (discovery_error + discovery_result)" where
  "discover_one now later env srv ty force sm dm =
     (case getSession now srv sm of
        Inl e \<Rightarrow> (dm, Inl e)
      | Inr a \<Rightarrow> (case discover now later env srv ty (\<not> force) (dm_service dm) of (sv, r) \<Rightarrow> (dm\<lparr>dm_service := sv\<rparr>, r)))"

definition dm_refresh :: "server_env \<Rightarrow> string \<Rightarrow> session_manager \<Rightarrow> discovery_manager \<Rightarrow> discovery_manager \<times> (discovery_error + unit)" where
  "dm_refresh env srv sm dm =
     (case discoverServer env srv True sm dm of (dm1, Inl e) \<Rightarrow> (dm1, Inl e) | (dm1, Inr _) \<Rightarrow> (dm1, Inr ()))"

text \<open>\<open>refreshAll\<close> starts a refresh of each healthy session's server and turns the errors into events.\<close>

definition log_refresh_error :: "string \<Rightarrow> time_ms \<Rightarrow> discovery_error \<Rightarrow> discovery_manager \<Rightarrow> discovery_manager" where
  "log_refresh_error srv now e dm = dm\<lparr>dm_emitted := dm_emitted dm @ [DiscoveryFailedEvent srv ''refresh'' now 0 (discovery_message e)]\<rparr>"

definition start_refresh ::
  "(string \<Rightarrow> server_env) \<Rightarrow> session_manager \<Rightarrow> string \<Rightarrow> discovery_manager \<times> (string \<times> kind_outcome list) list \<Rightarrow> discovery_manager \<times> (string \<times> kind_outcome list) list" where
  "start_refresh envs sm srv r =
     (case r of (dm, flights) \<Rightarrow> case discoverServer_begin (envs srv) srv True sm dm of
        (dm1, Inl e) \<Rightarrow> (log_refresh_error srv (se_now (envs srv)) e dm1, flights)
      | (dm1, Inr cached) \<Rightarrow> (dm1, flights @ [(srv, cached)]))"

definition settle_refresh :: "(string \<Rightarrow> server_env) \<Rightarrow> string \<times> kind_outcome list \<Rightarrow> discovery_manager \<Rightarrow> discovery_manager" where
  "settle_refresh envs f dm =
     (case f of (srv, cached) \<Rightarrow> case discoverServer_end (envs srv) srv True cached dm of
        (dm1, Inl e) \<Rightarrow> log_refresh_error srv (se_now (envs srv)) e dm1
      | (dm1, Inr _) \<Rightarrow> dm1)"

definition dm_refreshAll :: "time_ms \<Rightarrow> (string \<Rightarrow> server_env) \<Rightarrow> session_manager \<Rightarrow> discovery_manager \<Rightarrow> discovery_manager" where
  "dm_refreshAll now envs sm dm =
     (case fold (start_refresh envs sm) (map (\<lambda>a. ms_serverId (object sm a)) (getHealthySessions now sm)) (dm, []) of
        (dm1, flights) \<Rightarrow> fold (settle_refresh envs) flights dm1)"

definition getServerCapabilities ::
  "time_ms \<Rightarrow> time_ms \<Rightarrow> request_env \<Rightarrow> string \<Rightarrow> session_manager \<Rightarrow> discovery_manager \<Rightarrow> discovery_manager \<times> (discovery_error + jsval option)" where
  "getServerCapabilities now later env srv sm dm =
     (case discover_one now later env srv DiscCapabilities False sm dm of
        (dm1, Inl e) \<Rightarrow> (dm1, Inl e)
      | (dm1, Inr r) \<Rightarrow> (dm1, Inr (case rs_data r of [] \<Rightarrow> None | c # _ \<Rightarrow> Some c)))"

text \<open>\<open>getToolByName\<close>, \<open>getPromptByName\<close>, \<open>getResourceByUri\<close> and \<open>getTemplateByName\<close>.\<close>

definition name_field :: "discovery_type \<Rightarrow> string" where
  "name_field ty = (if ty = DiscResources then ''uri'' else ''name'')"

definition find_item ::
  "time_ms \<Rightarrow> time_ms \<Rightarrow> request_env \<Rightarrow> string \<Rightarrow> discovery_type \<Rightarrow> string \<Rightarrow> session_manager \<Rightarrow> discovery_manager \<Rightarrow> discovery_manager \<times> (discovery_error + jsval option)" where
  "find_item now later env srv ty name sm dm =
     (case discover_one now later env srv ty False sm dm of
        (dm1, Inl e) \<Rightarrow> (dm1, Inl e)
      | (dm1, Inr r) \<Rightarrow> (dm1, Inr (List.find (\<lambda>v. read_field v (name_field ty) = Inr (JStr name)) (rs_data r))))"

definition dm_shutdown :: "discovery_manager \<Rightarrow> discovery_manager" where
  "dm_shutdown dm = dm\<lparr>dm_refreshTimer := False, dm_active := []\<rparr>"

section \<open>The names of the capabilities\<close>

text \<open>\<open>getAvailableCapabilities\<close>: the paths to the values that are there, parents first.\<close>

function paths :: "string \<Rightarrow> (string \<times> jsval) list \<Rightarrow> string list" where
  "paths prefix [] = []"
| "paths prefix ((k, v) # fs) =
     (let full = (if prefix = [] then k else prefix @ ''.'' @ k)
      in (if v = JNull \<or> v = JUndefined then []
          else full # (case v of JObj gs \<Rightarrow> paths full gs | _ \<Rightarrow> [])) @ paths prefix fs)"
  by pat_completeness auto
termination
  by (relation "measure (\<lambda>(p, fs). size_list (size_prod (\<lambda>_. 0) size) fs)") auto

definition getAvailableCapabilities :: "jsval \<Rightarrow> string list" where
  "getAvailableCapabilities v = (case v of JObj fs \<Rightarrow> paths [] fs | _ \<Rightarrow> [])"

end
