(* ===== verification/Server_Registry.thy ===== *)
theory Server_Registry
  imports Discovery_Manager
begin

text \<open>
  The class \<open>MCPServerRegistry\<close> (\<open>mcp/registry/mcp-server-registry.ts\<close>): the registered servers,
  what each offers, and an index from tool names to servers.

  The map of servers holds references (a list of all the objects and positions in it), because a
  refresh that waits for its discovery goes on with the object it has found, in the map or not. A
  refresh is its beginning and its end, which gets the outcome of the discovery; tools, prompts and
  templates are known by their name, resources by their uri.
\<close>

section \<open>State\<close>

record mcp_server =
  sv_id :: string
  sv_name :: string
  sv_version :: string
  sv_transport :: string

record discovered_item =
  it_name :: string
  it_value :: jsval

text \<open>The data of the five results of a discovery.\<close>

record server_data =
  sd_capabilities :: "jsval list"
  sd_tools :: "discovered_item list"
  sd_prompts :: "discovered_item list"
  sd_resources :: "discovered_item list"
  sd_templates :: "discovered_item list"

datatype server_status = SvActive | SvInactive | SvError

record registered_server =
  rg_server :: mcp_server
  rg_registeredAt :: time_ms
  rg_lastRefresh :: time_ms
  rg_capabilities :: "jsval option"
  rg_tools :: "discovered_item list"
  rg_prompts :: "discovered_item list"
  rg_resources :: "discovered_item list"
  rg_templates :: "discovered_item list"
  rg_status :: server_status
  rg_errorMessage :: "string option"

datatype registry_error =
    DuplicateTool string string string
  | ServerRegistration string string string

fun registry_message :: "registry_error \<Rightarrow> string" where
  "registry_message (DuplicateTool t old new) = ''Tool '' @ sq t @ '' already exists from server '' @ sq old
     @ '', cannot register from server '' @ sq new"
| "registry_message (ServerRegistration srv op m) = ''Server registration failed for '' @ sq srv @ '' during '' @ sq op @ '': '' @ m"

datatype registry_event =
    RegServerRegistered string
  | RegServerRemoved string
  | RegServerRefreshed string
  | RegServerError string "string option"
  | RegRefreshError string registry_error
  | RegistryRefreshed nat
  | RegistryCleared

record server_registry =
  sr_objects :: "registered_server list"
  sr_servers :: "(string, nat) js_map"
  sr_toolIndex :: "(string, string) js_map"
  sr_emitted :: "registry_event list"

definition new_server_registry :: server_registry where
  "new_server_registry = \<lparr>sr_objects = [], sr_servers = [], sr_toolIndex = [], sr_emitted = []\<rparr>"

definition server_at :: "server_registry \<Rightarrow> nat \<Rightarrow> registered_server" where
  "server_at r a = sr_objects r ! a"

definition put_server :: "nat \<Rightarrow> registered_server \<Rightarrow> server_registry \<Rightarrow> server_registry" where
  "put_server a s r = r\<lparr>sr_objects := (sr_objects r)[a := s]\<rparr>"

definition sr_emit :: "registry_event \<Rightarrow> server_registry \<Rightarrow> server_registry" where
  "sr_emit e r = r\<lparr>sr_emitted := sr_emitted r @ [e]\<rparr>"

section \<open>Refreshing\<close>

definition unindex :: "discovered_item list \<Rightarrow> (string, string) js_map \<Rightarrow> (string, string) js_map" where
  "unindex tools idx = fold (\<lambda>t. js_delete (it_name t)) tools idx"

text \<open>The loop that indexes the tools; it stops, with the index so far, at a tool of another server.\<close>

fun index_tools :: "string \<Rightarrow> discovered_item list \<Rightarrow> (string, string) js_map \<Rightarrow> (string, string) js_map \<times> registry_error option" where
  "index_tools srv [] idx = (idx, None)"
| "index_tools srv (t # ts) idx =
     (case js_get idx (it_name t) of
        Some owner \<Rightarrow> if owner \<noteq> [] \<and> owner \<noteq> srv then (idx, Some (DuplicateTool (it_name t) owner srv))
                      else index_tools srv ts (js_set (it_name t) srv idx)
      | None \<Rightarrow> index_tools srv ts (js_set (it_name t) srv idx))"

definition refresh_begin :: "string \<Rightarrow> server_registry \<Rightarrow> registry_error + nat" where
  "refresh_begin srv r =
     (case js_get (sr_servers r) srv of
        None \<Rightarrow> Inl (ServerRegistration srv ''refresh'' ''Server not found in registry'')
      | Some a \<Rightarrow> Inr a)"

text \<open>The \<open>catch\<close> of a refresh.\<close>

definition refresh_failed :: "time_ms \<Rightarrow> string \<Rightarrow> nat \<Rightarrow> string \<Rightarrow> server_registry \<Rightarrow> server_registry" where
  "refresh_failed now srv a msg r =
     sr_emit (RegServerError srv (Some msg))
       (put_server a ((server_at r a)\<lparr>rg_status := SvError, rg_errorMessage := Some msg, rg_lastRefresh := now\<rparr>) r)"

definition active_server :: "time_ms \<Rightarrow> server_data \<Rightarrow> registered_server \<Rightarrow> registered_server" where
  "active_server now d s =
     s\<lparr>rg_lastRefresh := now, rg_status := SvActive, rg_errorMessage := None,
       rg_capabilities := (case sd_capabilities d of [] \<Rightarrow> None | c # _ \<Rightarrow> Some c), rg_tools := sd_tools d\<rparr>"

definition refresh_end ::
  "time_ms \<Rightarrow> string \<Rightarrow> nat \<Rightarrow> discovery_error + server_data \<Rightarrow> server_registry \<Rightarrow> server_registry \<times> (registry_error + nat)" where
  "refresh_end now srv a out r =
     (case out of
        Inl e \<Rightarrow> (refresh_failed now srv a (discovery_message e) r, Inl (ServerRegistration srv ''refresh'' (discovery_message e)))
      | Inr d \<Rightarrow>
          (let r1 = put_server a (active_server now d (server_at r a)) r in
           case index_tools srv (sd_tools d) (unindex (rg_tools (server_at r a)) (sr_toolIndex r)) of
             (idx, Some e) \<Rightarrow> (refresh_failed now srv a (registry_message e) (r1\<lparr>sr_toolIndex := idx\<rparr>), Inl e)
           | (idx, None) \<Rightarrow>
               (sr_emit (RegServerRefreshed srv)
                  (put_server a ((server_at r1 a)\<lparr>rg_prompts := sd_prompts d, rg_resources := sd_resources d, rg_templates := sd_templates d\<rparr>)
                     (r1\<lparr>sr_toolIndex := idx\<rparr>)), Inr a)))"

definition refreshServer ::
  "time_ms \<Rightarrow> string \<Rightarrow> discovery_error + server_data \<Rightarrow> server_registry \<Rightarrow> server_registry \<times> (registry_error + nat)" where
  "refreshServer now srv out r =
     (case refresh_begin srv r of Inl e \<Rightarrow> (r, Inl e) | Inr a \<Rightarrow> refresh_end now srv a out r)"

section \<open>Registration\<close>

definition register_begin :: "time_ms \<Rightarrow> mcp_server \<Rightarrow> server_registry \<Rightarrow> server_registry \<times> (registry_error + nat)" where
  "register_begin now server r =
     (if js_has (sr_servers r) (sv_id server)
      then (r, Inl (ServerRegistration (sv_id server) ''register'' ''Server already registered''))
      else (r\<lparr>sr_objects := sr_objects r @ [\<lparr>rg_server = server, rg_registeredAt = now, rg_lastRefresh = now, rg_capabilities = None,
                 rg_tools = [], rg_prompts = [], rg_resources = [], rg_templates = [], rg_status = SvInactive, rg_errorMessage = None\<rparr>],
              sr_servers := js_set (sv_id server) (length (sr_objects r)) (sr_servers r)\<rparr>, Inr (length (sr_objects r))))"

definition register_end ::
  "time_ms \<Rightarrow> string \<Rightarrow> nat \<Rightarrow> discovery_error + server_data \<Rightarrow> server_registry \<Rightarrow> server_registry \<times> (registry_error + nat)" where
  "register_end now srv a out r =
     (case refresh_end now srv a out r of
        (r1, Inr _) \<Rightarrow> (sr_emit (RegServerRegistered srv) r1, Inr a)
      | (r1, Inl e) \<Rightarrow> (r1\<lparr>sr_servers := js_delete srv (sr_servers r1)\<rparr>, Inl (ServerRegistration srv ''register'' (registry_message e))))"

definition registerServer ::
  "time_ms \<Rightarrow> time_ms \<Rightarrow> mcp_server \<Rightarrow> discovery_error + server_data \<Rightarrow> server_registry \<Rightarrow> server_registry \<times> (registry_error + nat)" where
  "registerServer now later server out r =
     (case register_begin now server r of
        (r1, Inl e) \<Rightarrow> (r1, Inl e)
      | (r1, Inr a) \<Rightarrow> register_end later (sv_id server) a out r1)"

definition removeServer :: "string \<Rightarrow> server_registry \<Rightarrow> server_registry \<times> bool" where
  "removeServer srv r =
     (case js_get (sr_servers r) srv of
        None \<Rightarrow> (r, False)
      | Some a \<Rightarrow> (sr_emit (RegServerRemoved srv)
                    (r\<lparr>sr_toolIndex := unindex (rg_tools (server_at r a)) (sr_toolIndex r), sr_servers := js_delete srv (sr_servers r)\<rparr>), True))"

text \<open>\<open>refreshAll\<close>: the refreshes in the order in which their discoveries settle, with their outcomes.\<close>

definition settle_all ::
  "time_ms \<times> string \<times> nat \<times> (discovery_error + server_data) \<Rightarrow> server_registry \<times> (string, nat) js_map \<Rightarrow> server_registry \<times> (string, nat) js_map" where
  "settle_all e x =
     (case e of (now, srv, a, out) \<Rightarrow> case x of (r, results) \<Rightarrow>
        (case refresh_end now srv a out r of
           (r1, Inr b) \<Rightarrow> (r1, js_set srv b results)
         | (r1, Inl _) \<Rightarrow> (r1, case js_get (sr_servers r1) srv of Some b \<Rightarrow> js_set srv b results | None \<Rightarrow> results)))"

definition sr_refreshAll ::
  "(time_ms \<times> string \<times> (discovery_error + server_data)) list \<Rightarrow> server_registry \<Rightarrow> server_registry \<times> (string, nat) js_map" where
  "sr_refreshAll settles r =
     (case fold settle_all (concat (map (\<lambda>(now, srv, out). case js_get (sr_servers r) srv of None \<Rightarrow> [] | Some a \<Rightarrow> [(now, srv, a, out)]) settles)) (r, []) of
        (r1, results) \<Rightarrow> (sr_emit (RegistryRefreshed (length results)) r1, results))"

text \<open>The listener for the event \<open>server:refreshed\<close> of the discovery manager.\<close>

definition on_server_refreshed :: "time_ms \<Rightarrow> string \<Rightarrow> discovery_error + server_data \<Rightarrow> server_registry \<Rightarrow> server_registry" where
  "on_server_refreshed now srv out r =
     (if js_has (sr_servers r) srv
      then (case refreshServer now srv out r of (r1, Inl e) \<Rightarrow> sr_emit (RegRefreshError srv e) r1 | (r1, Inr _) \<Rightarrow> r1)
      else r)"

definition sr_clear :: "server_registry \<Rightarrow> server_registry" where
  "sr_clear r = sr_emit RegistryCleared (r\<lparr>sr_servers := [], sr_toolIndex := []\<rparr>)"

section \<open>Lookups\<close>

definition findServer :: "string \<Rightarrow> server_registry \<Rightarrow> nat option" where
  "findServer srv r = js_get (sr_servers r) srv"

text \<open>A lookup of a tool drops an index entry that leads nowhere.\<close>

definition findTool :: "string \<Rightarrow> server_registry \<Rightarrow> server_registry \<times> (string \<times> nat \<times> discovered_item) option" where
  "findTool t r =
     (case js_get (sr_toolIndex r) t of
        None \<Rightarrow> (r, None)
      | Some srv \<Rightarrow>
          if srv = [] then (r, None)
          else (let gone = (r\<lparr>sr_toolIndex := js_delete t (sr_toolIndex r)\<rparr>, None) in
                case js_get (sr_servers r) srv of
                  None \<Rightarrow> gone
                | Some a \<Rightarrow> (case List.find (\<lambda>i. it_name i = t) (rg_tools (server_at r a)) of
                      None \<Rightarrow> gone
                    | Some i \<Rightarrow> (r, Some (srv, a, i)))))"

fun find_in :: "(nat \<Rightarrow> discovered_item list) \<Rightarrow> string \<Rightarrow> (string \<times> nat) list \<Rightarrow> (string \<times> nat \<times> discovered_item) option" where
  "find_in items n [] = None"
| "find_in items n ((srv, a) # es) =
     (case List.find (\<lambda>i. it_name i = n) (items a) of Some i \<Rightarrow> Some (srv, a, i) | None \<Rightarrow> find_in items n es)"

definition findPrompt :: "string \<Rightarrow> server_registry \<Rightarrow> (string \<times> nat \<times> discovered_item) option" where
  "findPrompt n r = find_in (\<lambda>a. rg_prompts (server_at r a)) n (sr_servers r)"

definition findResource :: "string \<Rightarrow> server_registry \<Rightarrow> (string \<times> nat \<times> discovered_item) option" where
  "findResource n r = find_in (\<lambda>a. rg_resources (server_at r a)) n (sr_servers r)"

definition findTemplate :: "string \<Rightarrow> server_registry \<Rightarrow> (string \<times> nat \<times> discovered_item) option" where
  "findTemplate n r = find_in (\<lambda>a. rg_templates (server_at r a)) n (sr_servers r)"

definition listServers :: "server_registry \<Rightarrow> registered_server list" where
  "listServers r = map (server_at r) (js_values (sr_servers r))"

definition listActiveServers :: "server_registry \<Rightarrow> registered_server list" where
  "listActiveServers r = filter (\<lambda>s. rg_status s = SvActive) (listServers r)"

definition list_items :: "(registered_server \<Rightarrow> discovered_item list) \<Rightarrow> server_registry \<Rightarrow> (string \<times> discovered_item) list" where
  "list_items items r =
     concat (map (\<lambda>(srv, a). if rg_status (server_at r a) = SvActive then map (Pair srv) (items (server_at r a)) else []) (sr_servers r))"

definition listTools :: "server_registry \<Rightarrow> (string \<times> discovered_item) list" where
  "listTools = list_items rg_tools"

definition listPrompts :: "server_registry \<Rightarrow> (string \<times> discovered_item) list" where
  "listPrompts = list_items rg_prompts"

definition listResources :: "server_registry \<Rightarrow> (string \<times> discovered_item) list" where
  "listResources = list_items rg_resources"

definition listTemplates :: "server_registry \<Rightarrow> (string \<times> discovered_item) list" where
  "listTemplates = list_items rg_templates"

record registry_stats =
  st_totalServers :: nat
  st_activeServers :: nat
  st_inactiveServers :: nat
  st_errorServers :: nat
  st_totalTools :: nat
  st_totalPrompts :: nat
  st_totalResources :: nat
  st_totalTemplates :: nat
  st_toolIndex :: nat

definition count_server :: "registered_server \<Rightarrow> registry_stats \<Rightarrow> registry_stats" where
  "count_server s t = (case rg_status s of
     SvActive \<Rightarrow> t\<lparr>st_activeServers := st_activeServers t + 1, st_totalTools := st_totalTools t + length (rg_tools s),
        st_totalPrompts := st_totalPrompts t + length (rg_prompts s), st_totalResources := st_totalResources t + length (rg_resources s),
        st_totalTemplates := st_totalTemplates t + length (rg_templates s)\<rparr>
   | SvInactive \<Rightarrow> t\<lparr>st_inactiveServers := st_inactiveServers t + 1\<rparr>
   | SvError \<Rightarrow> t\<lparr>st_errorServers := st_errorServers t + 1\<rparr>)"

definition getRegistryStats :: "server_registry \<Rightarrow> registry_stats" where
  "getRegistryStats r = fold count_server (listServers r)
     \<lparr>st_totalServers = length (sr_servers r), st_activeServers = 0, st_inactiveServers = 0, st_errorServers = 0,
      st_totalTools = 0, st_totalPrompts = 0, st_totalResources = 0, st_totalTemplates = 0, st_toolIndex = length (sr_toolIndex r)\<rparr>"

end
