(* ===== verification/Registry_Props.thy ===== *)
theory Registry_Props
  imports Server_Registry
begin

text \<open>
  What holds of the discovery of MCP servers and of their registry: no discovery ever succeeds, so no
  server is ever registered; and, for whatever a discovery returns, what a refresh does to the index
  of the tools.
\<close>

section \<open>Discovery\<close>

text \<open>The timeout promise is rejected from the start, so the race is lost before any answer.\<close>

definition lost_race :: "mcp_session \<Rightarrow> discovery_error" where
  "lost_race s = OtherError (case guard_connected s of
     Some e \<Rightarrow> e
   | None \<Rightarrow> PlainError (''Cannot access '' @ sq ''timeoutPromise'' @ '' before initialization''))"

lemma attempt_lost: "attempt_request cfg env srv method n = Inl (lost_race (re_session env n))"
  by (simp add: attempt_request_def requestPromise_def timeoutPromise_def timeout_executor_def new_promise_def
      lost_race_def split: option.split)

lemma request_loop_lost:
  "request_loop cfg env srv method prev n k =
     (Inl (if k = 0 then (case prev of Some e \<Rightarrow> e | None \<Rightarrow> OtherError (PlainError ''Max retries exceeded''))
           else lost_race (re_session env (n + k - 1))), n + k)"
proof (induction k arbitrary: n prev)
  case (Suc k)
  then show ?case by (cases k) (simp_all add: attempt_lost lost_race_def)
qed simp

lemma request_lost:
  "\<exists>e. fst (makeRequestWithRetries cfg env srv method) = Inl (OtherError e)"
  by (simp add: makeRequestWithRetries_def request_loop_lost lost_race_def)

lemma requests_made: "snd (makeRequestWithRetries cfg env srv method) = nat (cf_retries cfg + 1)"
  by (simp add: makeRequestWithRetries_def request_loop_lost)

lemma discover_end_fails:
  "\<exists>m sv1. discover_end started now env srv ty useCache sv = (sv1, Inl (DiscoveryFailed srv (discovery_str ty) m))
     \<and> dv_cache sv1 = dv_cache sv"
  using request_lost [of "dv_config sv" env srv "method_of ty"]
  by (auto simp: discover_end_def discovered_data_def wrap_failure_def dv_emit_def)

inductive dv_step :: "discovery_service \<Rightarrow> discovery_service \<Rightarrow> bool" where
  begins: "dv_step sv (fst (discover_begin now srv ty useCache sv))"
| ends: "dv_step sv (fst (discover_end started now env srv ty useCache sv))"
| invalidates: "dv_step sv (dv_invalidateCache now srv ty sv)"

inductive dv_reachable :: "discovery_service \<Rightarrow> bool" where
  start: "dv_reachable (new_discovery_service cfg)"
| step: "dv_reachable sv \<Longrightarrow> dv_step sv sv' \<Longrightarrow> dv_reachable sv'"

lemma empty_cache_get: "dc_cache c = [] \<Longrightarrow> disc_get now srv ty c = (c, None)"
  by (simp add: disc_get_def disc_get_at_def)

lemma dv_step_empty: "dv_step sv sv' \<Longrightarrow> dc_cache (dv_cache sv) = [] \<Longrightarrow> dc_cache (dv_cache sv') = []"
proof (induction rule: dv_step.induct)
  case (ends sv started now env srv ty useCache)
  then show ?case using discover_end_fails [of started now env srv ty useCache sv] by auto
qed (auto simp: discover_begin_def dv_emit_def dv_invalidateCache_def disc_invalidate_def disc_invalidateServer_def
    disc_forget_def remove_keys_map empty_cache_get Let_def split: option.split)

lemma dv_reachable_empty: "dv_reachable sv \<Longrightarrow> dc_cache (dv_cache sv) = []"
  by (induction rule: dv_reachable.induct)
    (auto simp: new_discovery_service_def new_discovery_cache_def dest: dv_step_empty)

text \<open>
  No discovery ever succeeds, whatever the server answers and when, with or without the cache, which
  stays empty: each sends its request \<open>retries + 1\<close> times and then throws.
\<close>

theorem discovery_always_fails:
  assumes "dv_reachable sv"
  shows "(case discover now later env srv ty useCache sv of (sv1, out) \<Rightarrow>
       (\<exists>m. out = Inl (DiscoveryFailed srv (discovery_str ty) m)) \<and> dc_cache (dv_cache sv1) = [])
     \<and> snd (makeRequestWithRetries (dv_config sv) env srv (method_of ty)) = nat (cf_retries (dv_config sv) + 1)"
proof -
  let ?sv1 = "dv_emit (DiscoveryStarted srv ty now) sv"
  have empty: "dc_cache (dv_cache sv) = []" by (rule dv_reachable_empty [OF assms])
  then have "discover_begin now srv ty useCache sv = (?sv1, None)"
    by (simp add: discover_begin_def empty_cache_get)
  then show ?thesis
    using discover_end_fails [of now later env srv ty useCache ?sv1] empty
    by (auto simp: discover_def dv_emit_def requests_made)
qed

definition sample_discovery_config :: discovery_config where
  "sample_discovery_config = \<lparr>cf_cacheTtl = 300000, cf_timeout = 30000, cf_retries = 3, cf_retryDelay = 1000,
     cf_enableLazyRefresh = True, cf_refreshThreshold = (4, 5)\<rparr>"

definition sample_request_env :: request_env where
  "sample_request_env = \<lparr>re_session = \<lambda>_. fst (sess_connect 1 None (new_session 0 (session_config_of ''a'' ''http''
       \<lparr>so_heartbeatInterval = None, so_idleTimeout = None, so_maxReconnectAttempts = None, so_reconnectInterval = None\<rparr>
       (new_session_manager None None None None)))),
     re_started = int, re_answer = \<lambda>n. (int n, Inr (JObj [(''tools'', JArr [])]))\<rparr>"

theorem discovery_always_fails_witness:
  "isl (snd (discover 5 9 sample_request_env ''a'' DiscTools True (new_discovery_service sample_discovery_config)))
   \<and> snd (makeRequestWithRetries sample_discovery_config sample_request_env ''a'' (method_of DiscTools)) = 4"
  using discovery_always_fails [OF dv_reachable.start [of sample_discovery_config], where now = 5 and later = 9 and env = sample_request_env
      and srv = "''a''" and ty = DiscTools and useCache = True]
  by (auto simp: new_discovery_service_def sample_discovery_config_def)

section \<open>Servers\<close>

lemma failure_kept: "first_failure outs \<noteq> None \<Longrightarrow> first_failure (outs @ xs) \<noteq> None"
  by (induction outs rule: first_failure.induct) auto

lemma end_kind_keeps:
  "first_failure (snd r) \<noteq> None \<Longrightarrow> first_failure (snd (end_kind env srv useCache ty r)) \<noteq> None"
  using failure_kept by (auto simp: end_kind_def split_beta simp del: not_None_eq)

lemma end_kind_fails: "first_failure (snd (end_kind env srv useCache ty (sv, []))) \<noteq> None"
  using discover_end_fails [of "se_now env" "se_settled env ty" "se_request env ty" srv ty useCache sv]
  by (auto simp: end_kind_def)

lemma end_kinds_fail: "first_failure (snd (fold (end_kind env srv useCache) (ty # ks) (sv, []))) \<noteq> None"
proof -
  have "first_failure (snd (fold (end_kind env srv useCache) ks r)) \<noteq> None"
    if "first_failure (snd r) \<noteq> None" for ks r
    using that end_kind_keeps by (induction ks arbitrary: r) (simp_all del: not_None_eq)
  from this [OF end_kind_fails] show ?thesis by simp
qed

lemma begin_kinds_none: "snd (fold (begin_kind env srv False) ks (sv, outs)) = outs"
  by (induction ks arbitrary: sv) (simp_all add: begin_kind_def discover_begin_def)

lemma discoverServer_fails: "\<exists>e. snd (discoverServer env srv True sm dm) = Inl e"
proof -
  let ?r = "fold (begin_kind env srv False) discovery_kinds (dm_service dm, [])"
  obtain sv where r: "?r = (sv, [])" using begin_kinds_none [of env srv discovery_kinds "dm_service dm" "[]"] by (metis prod.collapse)
  obtain ty ks where ks: "se_order env @ discovery_kinds = ty # ks"
    by (cases "se_order env") (auto simp: discovery_kinds_def)
  obtain e where "first_failure (snd (fold (end_kind env srv False) (ty # ks) (sv, []))) = Some e"
    using end_kinds_fail by blast
  then show ?thesis
    by (auto simp: discoverServer_def discoverServer_begin_def discoverServer_end_def r ks Let_def split_beta split: sum.split)
qed

text \<open>What the registry gets from a discovery that never succeeds.\<close>

locale failing_discovery =
  fixes discover_all :: "'env \<Rightarrow> string \<Rightarrow> 'state \<Rightarrow> 'state \<times> (discovery_error + 'res)"
  assumes fails: "\<exists>e. snd (discover_all env srv st) = Inl e"
begin

lemma register_end_fails:
  assumes "js_get (sr_servers r) (sv_id server) = None"
    and "register_begin now server r = (r1, Inr a)"
    and "discover_all env srv st = (st1, out)"
  shows "\<exists>m. snd (register_end later (sv_id server) a (map_sum id read out) r1) = Inl (ServerRegistration (sv_id server) ''register'' m)"
    and "sr_servers (fst (register_end later (sv_id server) a (map_sum id read out) r1)) = sr_servers r"
    and "sr_toolIndex (fst (register_end later (sv_id server) a (map_sum id read out) r1)) = sr_toolIndex r"
proof -
  obtain e where "out = Inl e" using fails [of env srv st] assms(3) by auto
  moreover have "js_delete (sv_id server) (js_set (sv_id server) x (sr_servers r)) = sr_servers r" for x
    using assms(1) by (auto simp: js_set_new js_has_iff js_delete_filter js_get_None_iff filter_id_conv image_iff)
  ultimately show "\<exists>m. snd (register_end later (sv_id server) a (map_sum id read out) r1) = Inl (ServerRegistration (sv_id server) ''register'' m)"
    and "sr_servers (fst (register_end later (sv_id server) a (map_sum id read out) r1)) = sr_servers r"
    and "sr_toolIndex (fst (register_end later (sv_id server) a (map_sum id read out) r1)) = sr_toolIndex r"
    using assms(2)
    by (auto simp: register_end_def refresh_end_def register_begin_def refresh_failed_def sr_emit_def put_server_def split: if_splits)
qed

end

interpretation mcp_discovery: failing_discovery "\<lambda>(env, sm) srv dm. discoverServer env srv True sm dm"
  by unfold_locales (auto simp: discoverServer_fails)

text \<open>
  A registration with the discovery manager: \<open>read\<close> turns its results into the data of a server.
\<close>

definition register_discovered ::
  "(kind_outcome list \<Rightarrow> server_data) \<Rightarrow> time_ms \<Rightarrow> time_ms \<Rightarrow> mcp_server \<Rightarrow> server_env \<Rightarrow> session_manager \<Rightarrow>
     discovery_manager \<Rightarrow> server_registry \<Rightarrow> discovery_manager \<times> server_registry \<times> (registry_error + nat)" where
  "register_discovered read now later server env sm dm r =
     (case register_begin now server r of
        (r1, Inl e) \<Rightarrow> (dm, r1, Inl e)
      | (r1, Inr a) \<Rightarrow> (case discoverServer env (sv_id server) True sm dm of
            (dm1, out) \<Rightarrow> (dm1, register_end later (sv_id server) a (map_sum id read out) r1)))"

text \<open>C28: 
  No MCP server can be registered: every registration throws, and leaves the servers and the index of
  the tools as they were.
\<close>

theorem no_server_registers:
  "case register_discovered read now later server env sm dm r of (dm1, r1, out) \<Rightarrow>
     (\<exists>m. out = Inl (ServerRegistration (sv_id server) ''register'' m))
     \<and> sr_servers r1 = sr_servers r \<and> sr_toolIndex r1 = sr_toolIndex r"
proof (cases "register_begin now server r")
  case (Pair r1 x)
  show ?thesis
  proof (cases x)
    case (Inl e)
    then show ?thesis using Pair by (auto simp: register_discovered_def register_begin_def split: if_splits)
  next
    case (Inr a)
    then have new: "js_get (sr_servers r) (sv_id server) = None" and begun: "register_begin now server r = (r1, Inr a)"
      using Pair by (auto simp: register_begin_def js_has_iff split: if_splits)
    obtain dm1 out where "discoverServer env (sv_id server) True sm dm = (dm1, out)" by fastforce
    then show ?thesis
      using mcp_discovery.register_end_fails [OF new begun, of "(env, sm)" "sv_id server" dm dm1 out later read] begun
      by (auto simp: register_discovered_def split_beta)
  qed
qed

section \<open>The index of the tools\<close>

lemma js_get_unindex: "js_get (unindex ts idx) x = (if x \<in> it_name ` set ts then None else js_get idx x)"
  by (induction ts arbitrary: idx) (auto simp: unindex_def)

text \<open>The tools of the list that the index has for another server.\<close>

definition taken :: "string \<Rightarrow> (string, string) js_map \<Rightarrow> string \<Rightarrow> bool" where
  "taken srv idx x = (case js_get idx x of None \<Rightarrow> False | Some owner \<Rightarrow> owner \<noteq> [] \<and> owner \<noteq> srv)"

lemma taken_set: "taken srv (js_set y srv idx) x \<longleftrightarrow> x \<noteq> y \<and> taken srv idx x"
  by (simp add: taken_def)

lemma index_tools_Cons:
  "index_tools srv (t # ts) idx =
     (if taken srv idx (it_name t) then (idx, Some (DuplicateTool (it_name t) (the (js_get idx (it_name t))) srv))
      else index_tools srv ts (js_set (it_name t) srv idx))"
  by (simp add: taken_def split: option.split)

lemma index_tools_spec:
  "\<not> taken srv idx y \<Longrightarrow> (snd (index_tools srv ts (js_set y srv idx)) = None) = (\<forall>t \<in> set ts. \<not> taken srv idx (it_name t))"
proof (induction ts arbitrary: idx y)
  case (Cons t ts)
  show ?case
  proof (cases "taken srv idx (it_name t)")
    case True
    then show ?thesis using Cons.prems by (auto simp: index_tools_Cons taken_set simp del: index_tools.simps)
  next
    case False
    then have "\<not> taken srv (js_set y srv idx) (it_name t)" by (simp add: taken_set)
    then show ?thesis
      using Cons.IH [of "js_set y srv idx" "it_name t"] False Cons.prems
      by (auto simp: index_tools_Cons taken_set simp del: index_tools.simps)
  qed
qed simp

lemma index_tools_ok: "(snd (index_tools srv ts idx) = None) = list_all (\<lambda>t. \<not> taken srv idx (it_name t)) ts"
proof (cases ts)
  case (Cons t us)
  then show ?thesis
    using index_tools_spec [of srv idx "it_name t" us]
    by (auto simp: index_tools_Cons list_all_iff simp del: index_tools.simps)
qed simp

lemma index_tools_get:
  "snd (index_tools srv ts idx) = None \<Longrightarrow>
     js_get (fst (index_tools srv ts idx)) x = (if x \<in> it_name ` set ts then Some srv else js_get idx x)"
proof (induction ts arbitrary: idx)
  case (Cons t ts)
  then show ?case by (auto simp: index_tools_Cons image_iff simp del: index_tools.simps split: if_splits)
qed simp

lemma index_tools_keeps: "taken srv idx x \<Longrightarrow> js_get (fst (index_tools srv ts idx)) x = js_get idx x"
proof (induction ts arbitrary: idx)
  case (Cons t ts)
  then show ?case
    using Cons.IH [of "js_set (it_name t) srv idx"]
    by (cases "x = it_name t") (simp_all add: index_tools_Cons taken_set del: index_tools.simps)
qed simp

definition free_for :: "string \<Rightarrow> nat \<Rightarrow> server_registry \<Rightarrow> discovered_item \<Rightarrow> bool" where
  "free_for srv a r t = (\<not> taken srv (unindex (rg_tools (server_at r a)) (sr_toolIndex r)) (it_name t))"



text \<open>
  The tools of a failed refresh are the server's all the same. When one of them belongs to another
  server, which can be found by it before and after the refresh, removing the first server takes the
  index entry of the other: its tool is not found any more, though it still offers it.
\<close>

theorem failed_refresh_steals_tool:
  assumes "js_get (sr_servers r) srv = Some a" and "js_get (sr_servers r) other = Some b"
    and "a < length (sr_objects r)" and "a \<noteq> b" and "srv \<noteq> other" and "other \<noteq> []"
    and "js_get (sr_toolIndex r) (it_name t) = Some other" and "t \<in> set (rg_tools (server_at r b))"
    and "t \<in> set (sd_tools d)" and "it_name t \<notin> it_name ` set (rg_tools (server_at r a))"
  shows "case refreshServer now srv (Inr d) r of (r1, out) \<Rightarrow>
      isl out \<and> snd (findTool (it_name t) r1) \<noteq> None
      \<and> (case removeServer srv r1 of (r2, removed) \<Rightarrow>
           removed \<and> snd (findTool (it_name t) r2) = None
           \<and> js_get (sr_servers r2) other = Some b \<and> server_at r2 b = server_at r b)"
proof -
  let ?idx0 = "unindex (rg_tools (server_at r a)) (sr_toolIndex r)"
  have tk: "taken srv ?idx0 (it_name t)" using assms by (simp add: taken_def js_get_unindex)
  obtain idx x where ix: "index_tools srv (sd_tools d) ?idx0 = (idx, x)" by fastforce
  obtain e where x: "x = Some e"
    using index_tools_ok [of srv "sd_tools d" ?idx0] tk assms(9) by (auto simp: ix list_all_iff)
  have idx: "js_get idx (it_name t) = Some other"
    using index_tools_keeps [OF tk, of "sd_tools d"] assms by (simp add: ix js_get_unindex)
  obtain i where i: "List.find (\<lambda>i. it_name i = it_name t) (rg_tools (server_at r b)) = Some i"
    using assms(8) find_None_iff [of "\<lambda>i. it_name i = it_name t"] by (metis option.exhaust)
  let ?r1 = "fst (refreshServer now srv (Inr d) r)"
  have out: "isl (snd (refreshServer now srv (Inr d) r))"
    and r1: "sr_servers ?r1 = sr_servers r" "sr_toolIndex ?r1 = idx" "server_at ?r1 b = server_at r b"
      "rg_tools (server_at ?r1 a) = sd_tools d"
    using assms(1,3,4) ix [unfolded server_at_def] by (simp_all add: x refreshServer_def refresh_begin_def refresh_end_def Let_def refresh_failed_def
        put_server_def server_at_def sr_emit_def active_server_def)
  have "snd (findTool (it_name t) ?r1) \<noteq> None" using assms idx i by (simp add: findTool_def r1)
  moreover have "removeServer srv ?r1 = (sr_emit (RegServerRemoved srv)
      (?r1\<lparr>sr_toolIndex := unindex (sd_tools d) idx, sr_servers := js_delete srv (sr_servers r)\<rparr>), True)"
    using assms(1) by (simp add: removeServer_def r1)
  moreover have "js_get (unindex (sd_tools d) idx) (it_name t) = None" using assms(9) by (simp add: js_get_unindex)
  ultimately show ?thesis
    using out assms(2,5) r1(3) by (simp add: split_beta findTool_def sr_emit_def server_at_def)
qed

definition sample_data :: "string list \<Rightarrow> server_data" where
  "sample_data names = \<lparr>sd_capabilities = [], sd_tools = map (\<lambda>n. \<lparr>it_name = n, it_value = JNull\<rparr>) names,
     sd_prompts = [], sd_resources = [], sd_templates = []\<rparr>"

definition sample_server :: "string \<Rightarrow> mcp_server" where
  "sample_server i = \<lparr>sv_id = i, sv_name = i, sv_version = ''1'', sv_transport = ''http''\<rparr>"

definition sample_registry :: server_registry where
  "sample_registry = fst (registerServer 3 4 (sample_server ''b'') (Inr (sample_data []))
     (fst (registerServer 1 2 (sample_server ''a'') (Inr (sample_data [''t''])) new_server_registry)))"

theorem failed_refresh_steals_tool_witness:
  "isl (snd (refreshServer 5 ''b'' (Inr (sample_data [''t''])) sample_registry)) = True"
proof -
  let ?t = "\<lparr>it_name = ''t'', it_value = JNull\<rparr>"
  have "js_get (sr_servers sample_registry) ''b'' = Some 1" and "js_get (sr_servers sample_registry) ''a'' = Some 0"
    and "1 < length (sr_objects sample_registry)" and "(1::nat) \<noteq> 0" and "''b'' \<noteq> ''a''" and "''a'' \<noteq> []"
    and "js_get (sr_toolIndex sample_registry) (it_name ?t) = Some ''a''"
    and "?t \<in> set (rg_tools (server_at sample_registry 0))"
    and "?t \<in> set (sd_tools (sample_data [''t'']))"
    and "it_name ?t \<notin> it_name ` set (rg_tools (server_at sample_registry 1))"
    by code_simp+
  from failed_refresh_steals_tool [OF this, where now = 5] show ?thesis by (auto simp: split_beta)
qed

lemma registration_blocked:
  assumes "taken (sv_id server) (sr_toolIndex r) (it_name u)" and "u \<in> set (sd_tools d)"
  shows "isl (snd (registerServer n1 n2 server (Inr d) r))"
proof -
  have "snd (index_tools (sv_id server) (sd_tools d) (sr_toolIndex r)) \<noteq> None"
    using index_tools_ok [of "sv_id server" "sd_tools d"] assms by (auto simp: list_all_iff simp del: not_None_eq)
  then obtain idx e where "index_tools (sv_id server) (sd_tools d) (sr_toolIndex r) = (idx, Some e)"
    by (metis option.exhaust prod.collapse)
  then show ?thesis
    by (simp add: registerServer_def register_begin_def register_end_def refresh_end_def Let_def server_at_def unindex_def)
qed

text \<open>
  A registration that fails at a tool of another server leaves the tools before it in the index, for a
  server that is not registered: another server that offers one of them cannot be registered.
\<close>

theorem failed_registration_blocks:
  assumes "js_get (sr_servers r) (sv_id server) = None" and "sv_id server \<noteq> []" and "js_get (sr_toolIndex r) (it_name u) = None"
    and "taken (sv_id server) (sr_toolIndex r) (it_name t)" and "sd_tools d = [u, t]"
    and "sv_id later \<noteq> sv_id server" and "u \<in> set (sd_tools d')"
  shows "case registerServer n1 n2 server (Inr d) r of (r1, out1) \<Rightarrow>
      isl out1 \<and> findServer (sv_id server) r1 = None \<and> snd (findTool (it_name u) r1) = None
      \<and> isl (snd (registerServer n3 n4 later (Inr d') r1))"
proof -
  let ?s = "sv_id server" and ?r1 = "fst (registerServer n1 n2 server (Inr d) r)"
  have ut: "it_name u \<noteq> it_name t" using assms(3,4) by (auto simp: taken_def)
  have nu: "\<not> taken ?s (sr_toolIndex r) (it_name u)" using assms(3) by (simp add: taken_def)
  have ix: "index_tools ?s (sd_tools d) (sr_toolIndex r)
      = (js_set (it_name u) ?s (sr_toolIndex r), Some (DuplicateTool (it_name t) (the (js_get (sr_toolIndex r) (it_name t))) ?s))"
    using assms(4) ut nu by (simp add: assms(5) index_tools_Cons taken_set del: index_tools.simps)
  have un: "unindex [] idx = idx" for idx by (simp add: unindex_def)
  note defs = registerServer_def register_begin_def register_end_def refresh_end_def Let_def refresh_failed_def
    put_server_def server_at_def sr_emit_def active_server_def
  have out: "isl (snd (registerServer n1 n2 server (Inr d) r))" and idx: "sr_toolIndex ?r1 = js_set (it_name u) ?s (sr_toolIndex r)"
    and servers: "js_get (sr_servers ?r1) i = js_get (sr_servers r) i" for i
    using assms(1) ix by (auto simp: defs un js_has_iff)
  have "taken (sv_id later) (sr_toolIndex ?r1) (it_name u)" using assms(2,6) by (simp add: taken_def idx)
  then have "isl (snd (registerServer n3 n4 later (Inr d') ?r1))" by (rule registration_blocked [OF _ assms(7)])
  then show ?thesis
    using out servers [of ?s] assms(1,2) by (simp add: split_beta findServer_def findTool_def idx)
qed

theorem failed_registration_blocks_witness:
  "isl (snd (registerServer 9 10 (sample_server ''d'') (Inr (sample_data [''u'']))
      (fst (registerServer 7 8 (sample_server ''c'') (Inr (sample_data [''u'', ''t''])) sample_registry)))) = True"
proof -
  let ?u = "\<lparr>it_name = ''u'', it_value = JNull\<rparr>" and ?t = "\<lparr>it_name = ''t'', it_value = JNull\<rparr>"
  have "js_get (sr_servers sample_registry) (sv_id (sample_server ''c'')) = None" and "sv_id (sample_server ''c'') \<noteq> []"
    and "js_get (sr_toolIndex sample_registry) (it_name ?u) = None"
    and "taken (sv_id (sample_server ''c'')) (sr_toolIndex sample_registry) (it_name ?t)"
    and "sd_tools (sample_data [''u'', ''t'']) = [?u, ?t]"
    and "sv_id (sample_server ''d'') \<noteq> sv_id (sample_server ''c'')" and "?u \<in> set (sd_tools (sample_data [''u'']))"
    by code_simp+
  from failed_registration_blocks [OF this, where ?n1.0 = 7 and ?n2.0 = 8 and ?n3.0 = 9 and ?n4.0 = 10] show ?thesis by (auto simp: split_beta)
qed

end
