(* ===== verification/Execution_Metrics.thy ===== *)
theory Execution_Metrics
  imports Complex_Main Prelude
begin

text \<open>
  The class \<open>ExecutionMetricsCollector\<close> (\<open>mcp/runtime/execution-metrics.ts\<close>): totals per server and
  tool, and a bounded list of snapshots. Durations are whole milliseconds; averages and the rate are
  the exact quotients.
\<close>

section \<open>State\<close>

record execution_metric =
  mt_serverId :: string
  mt_toolName :: string
  mt_executionCount :: nat
  mt_successCount :: nat
  mt_failureCount :: nat
  mt_totalLatency :: int
  mt_averageLatency :: real
  mt_minLatency :: int
  mt_maxLatency :: int
  mt_timeoutCount :: nat
  mt_retryCount :: nat
  mt_lastExecution :: time_ms
  mt_firstExecution :: time_ms

record metric_snapshot =
  sp_timestamp :: time_ms
  sp_serverId :: string
  sp_toolName :: string
  sp_duration :: int
  sp_success :: bool
  sp_retryAttempt :: int
  sp_timedOut :: bool

record metrics_collector =
  mc_metrics :: "(string, execution_metric) js_map"
  mc_snapshots :: "metric_snapshot list"
  mc_maxSnapshots :: nat

definition new_metrics_collector :: "nat \<Rightarrow> metrics_collector" where
  "new_metrics_collector most = \<lparr>mc_metrics = [], mc_snapshots = [], mc_maxSnapshots = most\<rparr>"

definition metric_key :: "string \<Rightarrow> string \<Rightarrow> string" where
  "metric_key srv tool = srv @ '':'' @ tool"

section \<open>Recording\<close>

definition new_metric :: "time_ms \<Rightarrow> string \<Rightarrow> string \<Rightarrow> execution_metric" where
  "new_metric now srv tool = \<lparr>mt_serverId = srv, mt_toolName = tool, mt_executionCount = 0, mt_successCount = 0,
     mt_failureCount = 0, mt_totalLatency = 0, mt_averageLatency = 0, mt_minLatency = 9007199254740991, mt_maxLatency = 0,
     mt_timeoutCount = 0, mt_retryCount = 0, mt_lastExecution = now, mt_firstExecution = now\<rparr>"

definition update_metric :: "metric_snapshot \<Rightarrow> execution_metric \<Rightarrow> execution_metric" where
  "update_metric s m =
     m\<lparr>mt_executionCount := mt_executionCount m + 1,
       mt_successCount := mt_successCount m + (if sp_success s then 1 else 0),
       mt_failureCount := mt_failureCount m + (if sp_success s then 0 else 1),
       mt_timeoutCount := mt_timeoutCount m + (if sp_timedOut s then 1 else 0),
       mt_retryCount := mt_retryCount m + (if sp_retryAttempt s > 0 then 1 else 0),
       mt_totalLatency := mt_totalLatency m + sp_duration s,
       mt_averageLatency := real_of_int (mt_totalLatency m + sp_duration s) / real (mt_executionCount m + 1),
       mt_minLatency := min (mt_minLatency m) (sp_duration s),
       mt_maxLatency := max (mt_maxLatency m) (sp_duration s),
       mt_lastExecution := sp_timestamp s\<rparr>"

text \<open>\<open>slice(-maxSnapshots)\<close>, which for a limit of zero keeps everything.\<close>

definition record_snapshot :: "metric_snapshot \<Rightarrow> metrics_collector \<Rightarrow> metrics_collector" where
  "record_snapshot s c =
     (let ss = mc_snapshots c @ [s]
      in c\<lparr>mc_snapshots := (if length ss > mc_maxSnapshots c then slice_last (mc_maxSnapshots c) ss else ss)\<rparr>)"

definition record_metric :: "metric_snapshot \<Rightarrow> metrics_collector \<Rightarrow> metrics_collector" where
  "record_metric s c =
     (let k = metric_key (sp_serverId s) (sp_toolName s);
          m = (case js_get (mc_metrics c) k of Some m \<Rightarrow> m | None \<Rightarrow> new_metric (sp_timestamp s) (sp_serverId s) (sp_toolName s))
      in c\<lparr>mc_metrics := js_set k (update_metric s m) (mc_metrics c)\<rparr>)"

definition recordExecution ::
  "time_ms \<Rightarrow> string \<Rightarrow> string \<Rightarrow> int \<Rightarrow> bool \<Rightarrow> int \<Rightarrow> bool \<Rightarrow> metrics_collector \<Rightarrow> metrics_collector" where
  "recordExecution now srv tool duration success retry timedOut c =
     (let s = \<lparr>sp_timestamp = now, sp_serverId = srv, sp_toolName = tool, sp_duration = duration, sp_success = success,
               sp_retryAttempt = retry, sp_timedOut = timedOut\<rparr>
      in record_snapshot s (record_metric s c))"

section \<open>Queries\<close>

definition getMetric :: "string \<Rightarrow> string \<Rightarrow> metrics_collector \<Rightarrow> execution_metric option" where
  "getMetric srv tool c = js_get (mc_metrics c) (metric_key srv tool)"

definition getAllMetrics :: "metrics_collector \<Rightarrow> execution_metric list" where
  "getAllMetrics c = js_values (mc_metrics c)"

definition getServerMetrics :: "string \<Rightarrow> metrics_collector \<Rightarrow> execution_metric list" where
  "getServerMetrics srv c = filter (\<lambda>m. mt_serverId m = srv) (js_values (mc_metrics c))"

record metric_totals =
  tt_executions :: nat
  tt_successes :: nat
  tt_failures :: nat
  tt_latency :: int
  tt_timeouts :: nat
  tt_retries :: nat
  tt_servers :: "string list"

definition no_totals :: metric_totals where
  "no_totals = \<lparr>tt_executions = 0, tt_successes = 0, tt_failures = 0, tt_latency = 0, tt_timeouts = 0, tt_retries = 0, tt_servers = []\<rparr>"

definition add_metric :: "execution_metric \<Rightarrow> metric_totals \<Rightarrow> metric_totals" where
  "add_metric m t = \<lparr>tt_executions = tt_executions t + mt_executionCount m, tt_successes = tt_successes t + mt_successCount m,
     tt_failures = tt_failures t + mt_failureCount m, tt_latency = tt_latency t + mt_totalLatency m,
     tt_timeouts = tt_timeouts t + mt_timeoutCount m, tt_retries = tt_retries t + mt_retryCount m,
     tt_servers = List.insert (mt_serverId m) (tt_servers t)\<rparr>"

record aggregated_metrics =
  ag_totalExecutions :: nat
  ag_totalSuccesses :: nat
  ag_totalFailures :: nat
  ag_averageLatency :: real
  ag_totalTimeouts :: nat
  ag_totalRetries :: nat
  ag_toolCount :: nat

definition aggregated :: "metric_totals \<Rightarrow> nat \<Rightarrow> aggregated_metrics" where
  "aggregated t n = \<lparr>ag_totalExecutions = tt_executions t, ag_totalSuccesses = tt_successes t, ag_totalFailures = tt_failures t,
     ag_averageLatency = (if tt_executions t > 0 then real_of_int (tt_latency t) / real (tt_executions t) else 0),
     ag_totalTimeouts = tt_timeouts t, ag_totalRetries = tt_retries t, ag_toolCount = n\<rparr>"

definition getAggregatedServerMetrics :: "string \<Rightarrow> metrics_collector \<Rightarrow> string \<times> aggregated_metrics" where
  "getAggregatedServerMetrics srv c =
     (let ms = getServerMetrics srv c in (srv, aggregated (fold add_metric ms no_totals) (length ms)))"

record global_metrics = aggregated_metrics +
  gl_serverCount :: nat
  gl_successRate :: real

definition getGlobalMetrics :: "metrics_collector \<Rightarrow> global_metrics" where
  "getGlobalMetrics c =
     (let ms = getAllMetrics c; t = fold add_metric ms no_totals
      in aggregated_metrics.extend (aggregated t (length ms))
           (global_metrics.fields (length (tt_servers t))
              (if tt_executions t > 0 then real (tt_successes t) / real (tt_executions t) * 100 else 0)))"

definition getRecentSnapshots :: "nat \<Rightarrow> metrics_collector \<Rightarrow> metric_snapshot list" where
  "getRecentSnapshots limit c = slice_last limit (mc_snapshots c)"

definition getSnapshotsForServer :: "string \<Rightarrow> nat \<Rightarrow> metrics_collector \<Rightarrow> metric_snapshot list" where
  "getSnapshotsForServer srv limit c = slice_last limit (filter (\<lambda>s. sp_serverId s = srv) (mc_snapshots c))"

definition getSnapshotsForTool :: "string \<Rightarrow> string \<Rightarrow> nat \<Rightarrow> metrics_collector \<Rightarrow> metric_snapshot list" where
  "getSnapshotsForTool srv tool limit c =
     slice_last limit (filter (\<lambda>s. sp_serverId s = srv \<and> sp_toolName s = tool) (mc_snapshots c))"

section \<open>Resets\<close>

definition metrics_reset :: "metrics_collector \<Rightarrow> metrics_collector" where
  "metrics_reset c = c\<lparr>mc_metrics := [], mc_snapshots := []\<rparr>"

definition starts_with :: "string \<Rightarrow> string \<Rightarrow> bool" where
  "starts_with p s = (take (length p) s = p)"

definition resetServer :: "string \<Rightarrow> metrics_collector \<Rightarrow> metrics_collector" where
  "resetServer srv c =
     c\<lparr>mc_metrics := fold js_delete (filter (starts_with (srv @ '':'')) (js_keys (mc_metrics c))) (mc_metrics c),
       mc_snapshots := filter (\<lambda>s. sp_serverId s \<noteq> srv) (mc_snapshots c)\<rparr>"

definition resetTool :: "string \<Rightarrow> string \<Rightarrow> metrics_collector \<Rightarrow> metrics_collector" where
  "resetTool srv tool c =
     c\<lparr>mc_metrics := js_delete (metric_key srv tool) (mc_metrics c),
       mc_snapshots := filter (\<lambda>s. \<not> (sp_serverId s = srv \<and> sp_toolName s = tool)) (mc_snapshots c)\<rparr>"

definition export_metrics :: "time_ms \<Rightarrow> metrics_collector \<Rightarrow> execution_metric list \<times> metric_snapshot list \<times> time_ms" where
  "export_metrics now c = (getAllMetrics c, mc_snapshots c, now)"

section \<open>What the metrics say\<close>

definition record_one :: "metric_snapshot \<Rightarrow> metrics_collector \<Rightarrow> metrics_collector" where
  "record_one s c = record_snapshot s (record_metric s c)"

lemma recordExecution_one:
  "recordExecution now srv tool duration success retry timedOut = record_one \<lparr>sp_timestamp = now, sp_serverId = srv,
     sp_toolName = tool, sp_duration = duration, sp_success = success, sp_retryAttempt = retry, sp_timedOut = timedOut\<rparr>"
  by (simp add: fun_eq_iff recordExecution_def record_one_def Let_def)

lemma record_one_metrics [simp]: "mc_metrics (record_one s c) = mc_metrics (record_metric s c)"
  by (simp add: record_one_def record_snapshot_def Let_def)

lemma record_one_snapshots:
  "mc_maxSnapshots (record_one s c) = mc_maxSnapshots c"
  "mc_snapshots (record_one s c) = (if length (mc_snapshots c) \<ge> mc_maxSnapshots c then slice_last (mc_maxSnapshots c) (mc_snapshots c @ [s])
     else mc_snapshots c @ [s])"
  by (simp_all add: record_one_def record_snapshot_def record_metric_def Let_def)

text \<open>The metric of a key is a summary of the executions of that key.\<close>

definition snapshot_key :: "metric_snapshot \<Rightarrow> string" where
  "snapshot_key s = metric_key (sp_serverId s) (sp_toolName s)"

definition summarizes :: "execution_metric \<Rightarrow> metric_snapshot list \<Rightarrow> bool" where
  "summarizes m ss = (ss \<noteq> []
     \<and> mt_executionCount m = length ss
     \<and> mt_successCount m = length (filter sp_success ss)
     \<and> mt_failureCount m = length (filter (\<lambda>s. \<not> sp_success s) ss)
     \<and> mt_timeoutCount m = length (filter sp_timedOut ss)
     \<and> mt_retryCount m = length (filter (\<lambda>s. sp_retryAttempt s > 0) ss)
     \<and> mt_totalLatency m = sum_list (map sp_duration ss)
     \<and> mt_averageLatency m = real_of_int (sum_list (map sp_duration ss)) / real (length ss)
     \<and> mt_minLatency m = foldr min (map sp_duration ss) 9007199254740991
     \<and> mt_maxLatency m = foldr max (map sp_duration ss) 0
     \<and> mt_lastExecution m = sp_timestamp (last ss) \<and> mt_firstExecution m = sp_timestamp (hd ss))"

lemma foldr_min_start: "min (foldr min (xs :: int list) a) b = foldr min xs (min b a)"
  by (induction xs) (auto simp: min.left_commute min.commute min.assoc)

lemma foldr_max_start: "max (foldr max (xs :: int list) a) b = foldr max xs (max b a)"
  by (induction xs) (auto simp: max.left_commute max.commute max.assoc)

lemma summarizes_first: "summarizes (update_metric s (new_metric (sp_timestamp s) srv tool)) [s]"
  by (simp add: summarizes_def update_metric_def new_metric_def min.commute max.commute)

lemma summarizes_next: "summarizes m ss \<Longrightarrow> summarizes (update_metric s m) (ss @ [s])"
  by (auto simp: summarizes_def update_metric_def foldr_min_start foldr_max_start)

lemma metric_after:
  "case js_get (mc_metrics (fold record_one ss (new_metrics_collector most))) k of
     None \<Rightarrow> filter (\<lambda>s. snapshot_key s = k) ss = []
   | Some m \<Rightarrow> summarizes m (filter (\<lambda>s. snapshot_key s = k) ss)"
proof (induction ss rule: rev_induct)
  case (snoc s ss)
  then show ?case
    by (auto simp: record_metric_def Let_def snapshot_key_def summarizes_first summarizes_next split: option.splits)
qed (simp add: new_metrics_collector_def)

lemma snapshots_after:
  assumes "most > 0"
  shows "mc_snapshots (fold record_one ss (new_metrics_collector most)) = drop (length ss - most) ss
    \<and> mc_maxSnapshots (fold record_one ss (new_metrics_collector most)) = most"
proof (induction ss rule: rev_induct)
  case (snoc s ss)
  then show ?case
    using assms by (cases "most \<le> length ss") (auto simp: record_one_snapshots slice_last_def Suc_diff_le)
qed (simp add: new_metrics_collector_def)

text \<open>C33: 
  After any sequence of executions the metric of a server and a tool is the summary of those executed
  under its key (counts, total, average, extremes, first and last), there is one exactly when there
  was such an execution, and the snapshots are the last ones, as many as the limit.
\<close>

theorem metrics_summarize_executions:
  assumes "most > 0"
  shows "case fold record_one ss (new_metrics_collector most) of c \<Rightarrow>
     (case getMetric srv tool c of
        None \<Rightarrow> filter (\<lambda>s. snapshot_key s = metric_key srv tool) ss = []
      | Some m \<Rightarrow> summarizes m (filter (\<lambda>s. snapshot_key s = metric_key srv tool) ss))
     \<and> mc_snapshots c = drop (length ss - most) ss"
  using metric_after [where ss = ss and most = most and k = "metric_key srv tool"] snapshots_after [OF assms, of ss] by (simp add: getMetric_def)

definition sample_snapshots :: "metric_snapshot list" where
  "sample_snapshots =
     [\<lparr>sp_timestamp = 1, sp_serverId = ''a'', sp_toolName = ''t'', sp_duration = 4, sp_success = True, sp_retryAttempt = 0, sp_timedOut = False\<rparr>,
      \<lparr>sp_timestamp = 2, sp_serverId = ''a'', sp_toolName = ''t'', sp_duration = 6, sp_success = False, sp_retryAttempt = 1, sp_timedOut = True\<rparr>]"

theorem metrics_summarize_executions_witness:
  "mc_snapshots (fold record_one sample_snapshots (new_metrics_collector 1)) = drop 1 sample_snapshots"
  using metrics_summarize_executions [of 1 "''a''" "''t''" sample_snapshots] by (simp add: sample_snapshots_def)

section \<open>Totals\<close>

lemma add_metric_totals:
  "tt_executions (fold add_metric ms t) = tt_executions t + sum_list (map mt_executionCount ms)
   \<and> tt_successes (fold add_metric ms t) = tt_successes t + sum_list (map mt_successCount ms)
   \<and> tt_failures (fold add_metric ms t) = tt_failures t + sum_list (map mt_failureCount ms)
   \<and> tt_latency (fold add_metric ms t) = tt_latency t + sum_list (map mt_totalLatency ms)"
  by (induction ms arbitrary: t) (simp_all add: add_metric_def)

text \<open>What one entry of a map contributes to a sum.\<close>

lemma sum_js_set:
  "js_wf m \<Longrightarrow> sum_list (map f (js_values (js_set k v m))) + (case js_get m k of None \<Rightarrow> 0 | Some w \<Rightarrow> f w)
     = sum_list (map f (js_values m)) + (f v :: int)"
proof (induction m)
  case (Cons e m)
  then show ?case
    by (cases e) (auto simp: js_values_def js_set_def js_get_def js_wf_def split: option.splits dest: map_of_SomeD)
qed (simp add: js_values_def js_set_def)

lemma metrics_wf: "js_wf (mc_metrics (fold record_one ss (new_metrics_collector most)))"
  by (induction ss rule: rev_induct) (simp_all add: new_metrics_collector_def record_metric_def Let_def)

lemma sum_after:
  assumes "\<And>s m. f (update_metric s m) = f m + (g s :: int)" and "\<And>now srv tool. f (new_metric now srv tool) = 0"
  shows "sum_list (map f (getAllMetrics (fold record_one ss (new_metrics_collector most)))) = sum_list (map g ss)"
proof (induction ss rule: rev_induct)
  case (snoc s ss)
  let ?c = "fold record_one ss (new_metrics_collector most)" and ?k = "metric_key (sp_serverId s) (sp_toolName s)"
  show ?case
  proof (cases "js_get (mc_metrics ?c) ?k")
    case None
    then show ?thesis
      using snoc sum_js_set [OF metrics_wf [of ss most], of f ?k] assms by (simp add: getAllMetrics_def record_metric_def Let_def)
  next
    case (Some m)
    then show ?thesis
      using snoc sum_js_set [OF metrics_wf [of ss most], of f ?k "update_metric s m"] assms(1) [of s m]
      by (simp add: getAllMetrics_def record_metric_def Let_def)
  qed
qed (simp add: getAllMetrics_def new_metrics_collector_def js_values_def)

text \<open>
  The global totals count every execution once: all of them, the successful and the failed ones, and
  their time.
\<close>

theorem global_metrics_total:
  "case getGlobalMetrics (fold record_one ss (new_metrics_collector most)) of g \<Rightarrow>
     ag_totalExecutions g = length ss \<and> ag_totalSuccesses g = length (filter sp_success ss)
     \<and> ag_totalFailures g = length (filter (\<lambda>s. \<not> sp_success s) ss)
     \<and> ag_averageLatency g = (if ss = [] then 0 else real_of_int (sum_list (map sp_duration ss)) / real (length ss))"
proof -
  let ?ms = "getAllMetrics (fold record_one ss (new_metrics_collector most))"
  have len: "int (length (filter P ss)) = sum_list (map (\<lambda>s. if P s then 1 else 0) ss)" for P :: "metric_snapshot \<Rightarrow> bool"
    by (induction ss) auto
  have nat_sum: "int (sum_list (map f ms)) = sum_list (map (\<lambda>m. int (f m)) ms)" for f :: "execution_metric \<Rightarrow> nat" and ms
    by (induction ms) auto
  have "int (sum_list (map mt_executionCount ?ms)) = int (length (filter (\<lambda>_. True) ss))"
    unfolding nat_sum len by (rule sum_after) (simp_all add: update_metric_def new_metric_def)
  moreover have "int (sum_list (map mt_successCount ?ms)) = int (length (filter sp_success ss))"
    unfolding nat_sum len by (rule sum_after) (simp_all add: update_metric_def new_metric_def)
  moreover have "int (sum_list (map mt_failureCount ?ms)) = int (length (filter (\<lambda>s. \<not> sp_success s) ss))"
    unfolding nat_sum len by (rule sum_after) (simp_all add: update_metric_def new_metric_def)
  moreover have "sum_list (map mt_totalLatency ?ms) = sum_list (map sp_duration ss)"
    by (rule sum_after) (simp_all add: update_metric_def new_metric_def)
  ultimately show ?thesis
    by (simp add: getGlobalMetrics_def Let_def aggregated_def aggregated_metrics.defs global_metrics.defs add_metric_totals no_totals_def)
qed

end
