(* ===== verification/Mcp_Manager.thy ===== *)
theory Mcp_Manager
  imports Server_Registry
begin

text \<open>
  The classes \<open>MCPRegistry\<close> (\<open>mcp/registry/mcp-registry.ts\<close>) and \<open>MCPManager\<close>
  (\<open>mcp/manager/mcp-manager.ts\<close>): the connected servers and the calls of their tools. What a server's
  own methods return is an argument; an error is its message.
\<close>

section \<open>The registry\<close>

record server_info =
  in_server :: mcp_server
  in_registeredAt :: time_ms
  in_lastActivity :: time_ms

type_synonym mcp_registry = "(string, server_info) js_map"

definition mr_registerServer :: "time_ms \<Rightarrow> mcp_server \<Rightarrow> mcp_registry \<Rightarrow> mcp_registry" where
  "mr_registerServer now server r = js_set (sv_id server) \<lparr>in_server = server, in_registeredAt = now, in_lastActivity = now\<rparr> r"

definition mr_removeServer :: "string \<Rightarrow> mcp_registry \<Rightarrow> mcp_registry \<times> bool" where
  "mr_removeServer srv r = (js_delete srv r, js_has r srv)"

definition mr_findServer :: "time_ms \<Rightarrow> string \<Rightarrow> mcp_registry \<Rightarrow> mcp_registry \<times> mcp_server option" where
  "mr_findServer now srv r =
     (case js_get r srv of
        None \<Rightarrow> (r, None)
      | Some i \<Rightarrow> (js_set srv (i\<lparr>in_lastActivity := now\<rparr>) r, Some (in_server i)))"

text \<open>\<open>offers srv\<close>: what \<open>listTools\<close> of the server returns.\<close>

definition mr_findTool :: "(string \<Rightarrow> string + discovered_item list) \<Rightarrow> string \<Rightarrow> mcp_registry \<Rightarrow> (mcp_server \<times> discovered_item) list" where
  "mr_findTool offers tool r =
     concat (map (\<lambda>i. case offers (sv_id (in_server i)) of
        Inl e \<Rightarrow> []
      | Inr ts \<Rightarrow> (case List.find (\<lambda>t. it_name t = tool) ts of None \<Rightarrow> [] | Some t \<Rightarrow> [(in_server i, t)])) (js_values r))"

definition mr_listServers :: "mcp_registry \<Rightarrow> mcp_server list" where
  "mr_listServers r = map in_server (js_values r)"

definition mr_listTools :: "(string \<Rightarrow> string + discovered_item list) \<Rightarrow> mcp_registry \<Rightarrow> (mcp_server \<times> discovered_item list) list" where
  "mr_listTools offers r =
     map (\<lambda>i. (in_server i, case offers (sv_id (in_server i)) of Inl e \<Rightarrow> [] | Inr ts \<Rightarrow> ts)) (js_values r)"

text \<open>\<open>checks srv\<close>: when the health check of the server ends, and whether it succeeds.\<close>

definition mr_refresh :: "(string \<Rightarrow> time_ms \<times> bool) \<Rightarrow> mcp_registry \<Rightarrow> mcp_registry" where
  "mr_refresh checks r =
     map (\<lambda>(srv, i). (srv, case checks (sv_id (in_server i)) of (t, ok) \<Rightarrow> if ok then i\<lparr>in_lastActivity := t\<rparr> else i)) r"

definition getServerInfo :: "string \<Rightarrow> mcp_registry \<Rightarrow> server_info option" where
  "getServerInfo srv r = js_get r srv"

section \<open>The manager\<close>

datatype mcp_health = HealthHealthy | HealthUnhealthy | HealthUnknown

record server_health =
  hl_status :: mcp_health
  hl_lastCheck :: time_ms
  hl_error :: "string option"

definition mm_connect :: "time_ms \<Rightarrow> string option \<Rightarrow> mcp_server \<Rightarrow> mcp_registry \<Rightarrow> mcp_registry \<times> (agent_error + unit)" where
  "mm_connect now out server r =
     (case out of
        Some e \<Rightarrow> (r, Inl (PlainError (''Failed to connect to server '' @ sv_id server @ '': '' @ e)))
      | None \<Rightarrow> (mr_registerServer now server r, Inr ()))"

definition server_missing :: "string \<Rightarrow> agent_error" where
  "server_missing srv = PlainError (''Server with id '' @ srv @ '' not found'')"

text \<open>The entry goes, whether the server's \<open>disconnect\<close> succeeds or not.\<close>

definition mm_disconnect :: "time_ms \<Rightarrow> string option \<Rightarrow> string \<Rightarrow> mcp_registry \<Rightarrow> mcp_registry \<times> (agent_error + unit)" where
  "mm_disconnect now out srv r =
     (case mr_findServer now srv r of
        (r1, None) \<Rightarrow> (r1, Inl (server_missing srv))
      | (r1, Some s) \<Rightarrow> (fst (mr_removeServer srv r1), case out of None \<Rightarrow> Inr () | Some e \<Rightarrow> Inl (PlainError e)))"

definition mm_health :: "time_ms \<Rightarrow> string + server_health \<Rightarrow> string \<Rightarrow> mcp_registry \<Rightarrow> mcp_registry \<times> (agent_error + server_health)" where
  "mm_health now out srv r =
     (case mr_findServer now srv r of
        (r1, None) \<Rightarrow> (r1, Inl (server_missing srv))
      | (r1, Some s) \<Rightarrow> (r1, case out of
            Inr h \<Rightarrow> Inr h
          | Inl e \<Rightarrow> Inl (PlainError (''Health check failed for server '' @ srv @ '': '' @ e))))"

definition mm_healthAll :: "(string \<Rightarrow> time_ms \<times> (string + server_health)) \<Rightarrow> mcp_registry \<Rightarrow> (string, server_health) js_map" where
  "mm_healthAll checks r =
     fold (\<lambda>s. js_set (sv_id s) (case checks (sv_id s) of
         (t, Inr h) \<Rightarrow> h
       | (t, Inl e) \<Rightarrow> \<lparr>hl_status = HealthUnhealthy, hl_lastCheck = t, hl_error = Some e\<rparr>)) (mr_listServers r) []"

record tool_call_metadata =
  cm_executionTime :: int
  cm_serverId :: string
  cm_toolName :: string
  cm_timestamp :: time_ms

record tool_result =
  tr_success :: bool
  tr_data :: "jsval option"
  tr_error :: "(string \<times> string) option"
  tr_metadata :: "tool_call_metadata option"

definition refused :: "string \<Rightarrow> string \<Rightarrow> tool_result" where
  "refused code msg = \<lparr>tr_success = False, tr_data = None, tr_error = Some (code, msg), tr_metadata = None\<rparr>"

text \<open>
  \<open>executeTool\<close>: the answers of the server to the health check and to the call, which starts at
  \<open>started\<close> and settles at \<open>ended\<close>. A result that has metadata gets the manager's.
\<close>

definition mm_executeTool ::
  "time_ms \<Rightarrow> time_ms \<Rightarrow> time_ms \<Rightarrow> string + server_health \<Rightarrow> string + tool_result \<Rightarrow> string \<Rightarrow> string \<Rightarrow> mcp_registry \<Rightarrow> mcp_registry \<times> tool_result" where
  "mm_executeTool now started ended health out srv tool r =
     (let md = \<lparr>cm_executionTime = ended - started, cm_serverId = srv, cm_toolName = tool, cm_timestamp = ended\<rparr> in
      case mr_findServer now srv r of
        (r1, None) \<Rightarrow> (r1, refused ''SERVER_NOT_FOUND'' (err_message (server_missing srv)))
      | (r1, Some s) \<Rightarrow> (r1,
          case health of
            Inl e \<Rightarrow> refused ''HEALTH_CHECK_FAILED'' (''Health check failed for server '' @ srv @ '': '' @ e)
          | Inr h \<Rightarrow>
              if hl_status h \<noteq> HealthHealthy
              then refused ''SERVER_UNHEALTHY'' (''Server '' @ srv @ '' is not healthy: ''
                     @ str_or (case hl_error h of None \<Rightarrow> [] | Some e \<Rightarrow> e) ''Unknown health issue'')
              else (case out of
                      Inr res \<Rightarrow> (case tr_metadata res of None \<Rightarrow> res | Some _ \<Rightarrow> res\<lparr>tr_metadata := Some md\<rparr>)
                    | Inl e \<Rightarrow> (refused ''EXECUTION_FAILED'' (''Tool execution failed: '' @ e))\<lparr>tr_metadata := Some md\<rparr>)))"

definition mm_listTools ::
  "time_ms \<Rightarrow> string + discovered_item list \<Rightarrow> string \<Rightarrow> mcp_registry \<Rightarrow> mcp_registry \<times> (agent_error + (mcp_server \<times> discovered_item list) list)" where
  "mm_listTools now out srv r =
     (case mr_findServer now srv r of
        (r1, None) \<Rightarrow> (r1, Inl (server_missing srv))
      | (r1, Some s) \<Rightarrow> (r1, case out of
            Inr ts \<Rightarrow> Inr [(s, ts)]
          | Inl e \<Rightarrow> Inl (PlainError (''Failed to list tools for server '' @ srv @ '': '' @ e))))"

end
