(* ===== verification/Mcp_Execution.thy ===== *)
theory Mcp_Execution
  imports Execution_Metrics Mcp_Manager Permission_Service
begin

text \<open>
  Executing tools: the execution context (\<open>mcp/runtime/execution-context.ts\<close>), the class
  \<open>MCPExecutionManager\<close> (\<open>mcp/manager/mcp-execution-manager.ts\<close>) and the class \<open>MCPRuntime\<close>
  (\<open>mcp/runtime/mcp-runtime.ts\<close>).

  An execution is its beginning, to the first wait, and its end. How long an attempt takes and how it
  settles are arguments, and so is the time at which the execution is cancelled; from them the model
  computes when each attempt starts and which promise wins its race.
\<close>

section \<open>Contexts\<close>

record mcp_context =
  xc_requestId :: string
  xc_workspaceId :: string
  xc_userId :: string
  xc_traceId :: string
  xc_sessionId :: string
  xc_metadata :: js_record

text \<open>The fields of the builder that are still missing are empty strings, which \<open>build\<close> refuses too.\<close>

record mcp_context_draft =
  xd_context :: mcp_context
  xd_hasMetadata :: bool

definition xc_create :: mcp_context_draft where
  "xc_create = \<lparr>xd_context = \<lparr>xc_requestId = [], xc_workspaceId = [], xc_userId = [], xc_traceId = [], xc_sessionId = [],
     xc_metadata = []\<rparr>, xd_hasMetadata = False\<rparr>"

definition default_metadata :: "time_ms \<Rightarrow> js_record" where
  "default_metadata now = [(''startTime'', JDate now), (''source'', JStr ''mcp-runtime'')]"

definition xc_with_metadata :: "time_ms \<Rightarrow> js_record \<Rightarrow> mcp_context_draft \<Rightarrow> mcp_context_draft" where
  "xc_with_metadata now md d =
     \<lparr>xd_context = (xd_context d)\<lparr>xc_metadata := js_spread (js_spread (default_metadata now) (xc_metadata (xd_context d))) md\<rparr>,
      xd_hasMetadata = True\<rparr>"

text \<open>\<open>timeout\<close>, \<open>source\<close> and \<open>parentRequestId\<close>: one field, on the default metadata if there is none yet.\<close>

definition xc_set_metadata :: "time_ms \<Rightarrow> string \<Rightarrow> jsval \<Rightarrow> mcp_context_draft \<Rightarrow> mcp_context_draft" where
  "xc_set_metadata now k v d =
     (let md = (if xd_hasMetadata d then xc_metadata (xd_context d) else default_metadata now)
      in \<lparr>xd_context = (xd_context d)\<lparr>xc_metadata := js_set k v md\<rparr>, xd_hasMetadata = True\<rparr>)"

definition xc_build :: "time_ms \<Rightarrow> mcp_context_draft \<Rightarrow> agent_error + mcp_context" where
  "xc_build now d =
     (let c = xd_context d in
      if xc_requestId c = [] then Inl (PlainError ''requestId is required'')
      else if xc_workspaceId c = [] then Inl (PlainError ''workspaceId is required'')
      else if xc_userId c = [] then Inl (PlainError ''userId is required'')
      else if xc_traceId c = [] then Inl (PlainError ''traceId is required'')
      else if xc_sessionId c = [] then Inl (PlainError ''sessionId is required'')
      else Inr (c\<lparr>xc_metadata := js_spread (default_metadata now) (xc_metadata c)\<rparr>))"

definition generateExecutionId :: "mcp_context \<Rightarrow> string \<Rightarrow> time_ms \<Rightarrow> string" where
  "generateExecutionId c tool now = ''exec_'' @ xc_requestId c @ ''_'' @ tool @ ''_'' @ int_str now"

text \<open>A thrown error: its message and its code, if it has one.\<close>

record thrown =
  th_message :: string
  th_code :: "string option"

definition isRetryableError :: "thrown \<Rightarrow> bool" where
  "isRetryableError e =
     ((case th_code e of None \<Rightarrow> False | Some c \<Rightarrow> c \<in> {''ECONNREFUSED'', ''ENOTFOUND'', ''ETIMEDOUT'', ''ECONNRESET''})
      \<or> (let m = to_lower (th_message e)
         in contains_text ''timeout'' m \<or> contains_text ''connection'' m \<or> contains_text ''network'' m \<or> contains_text ''transport'' m))"

section \<open>The execution manager\<close>

record execution_options =
  xo_timeout :: int
  xo_retries :: int
  xo_retryDelay :: int

text \<open>The options of a request; those it does not have come from the configuration.\<close>

record option_overrides =
  ov_timeout :: "int option"
  ov_retries :: "int option"
  ov_retryDelay :: "int option"

record execution_request_mcp =
  xr_context :: mcp_context
  xr_serverId :: string
  xr_toolName :: string
  xr_parameters :: jsval
  xr_options :: option_overrides

record mcp_execution_metadata =
  xm_executionId :: string
  xm_serverId :: string
  xm_toolName :: string
  xm_requestId :: string
  xm_startTime :: time_ms
  xm_endTime :: time_ms
  xm_duration :: int
  xm_retryAttempt :: int

record mcp_execution_error =
  xe_code :: string
  xe_message :: string
  xe_retryable :: bool

record mcp_execution_result =
  xs_success :: bool
  xs_data :: "jsval option"
  xs_error :: "mcp_execution_error option"
  xs_metadata :: mcp_execution_metadata

datatype execution_event =
    ExecutionCompleted mcp_execution_result
  | ExecutionFailedEvent mcp_execution_result
  | BatchCompleted nat

text \<open>\<open>xg_active\<close>: the running executions, each with its abort controller, a position in \<open>xg_aborted\<close>.\<close>

record execution_manager =
  xg_defaults :: execution_options
  xg_maxConcurrent :: int
  xg_enableMetrics :: bool
  xg_enableSecurity :: bool
  xg_security :: "permission_service option"
  xg_metrics :: metrics_collector
  xg_active :: "(string, nat) js_map"
  xg_aborted :: "time_ms option list"
  xg_emitted :: "execution_event list"

definition new_execution_manager :: "permission_service option \<Rightarrow> execution_options \<Rightarrow> int \<Rightarrow> bool \<Rightarrow> bool \<Rightarrow> execution_manager" where
  "new_execution_manager ps defaults most metrics security =
     \<lparr>xg_defaults = defaults, xg_maxConcurrent = most, xg_enableMetrics = metrics, xg_enableSecurity = security, xg_security = ps,
      xg_metrics = new_metrics_collector 10000, xg_active = [], xg_aborted = [], xg_emitted = []\<rparr>"

definition or_default :: "int option \<Rightarrow> int \<Rightarrow> int" where
  "or_default x d = (case x of None \<Rightarrow> d | Some i \<Rightarrow> i)"

definition request_options :: "execution_options \<Rightarrow> option_overrides \<Rightarrow> execution_options" where
  "request_options d ov = \<lparr>xo_timeout = or_default (ov_timeout ov) (xo_timeout d), xo_retries = or_default (ov_retries ov) (xo_retries d),
     xo_retryDelay = or_default (ov_retryDelay ov) (xo_retryDelay d)\<rparr>"

definition execution_metadata ::
  "execution_request_mcp \<Rightarrow> string \<Rightarrow> time_ms \<Rightarrow> time_ms \<Rightarrow> int \<Rightarrow> mcp_execution_metadata" where
  "execution_metadata rq i started ended attempt =
     \<lparr>xm_executionId = i, xm_serverId = xr_serverId rq, xm_toolName = xr_toolName rq, xm_requestId = xc_requestId (xr_context rq),
      xm_startTime = started, xm_endTime = ended, xm_duration = ended - started, xm_retryAttempt = attempt\<rparr>"

definition limit_exceeded :: "execution_manager \<Rightarrow> execution_request_mcp \<Rightarrow> string \<Rightarrow> time_ms \<Rightarrow> mcp_execution_result" where
  "limit_exceeded m rq i now =
     \<lparr>xs_success = False, xs_data = None,
      xs_error = Some \<lparr>xe_code = ''EXECUTION_LIMIT_EXCEEDED'',
        xe_message = ''Maximum concurrent executions ('' @ int_str (xg_maxConcurrent m) @ '') exceeded'', xe_retryable = True\<rparr>,
      xs_metadata = execution_metadata rq i now now 0\<rparr>"

text \<open>\<open>Inr\<close>: the id and the position of the abort controller of the execution that has begun.\<close>

definition execute_begin ::
  "time_ms \<Rightarrow> execution_request_mcp \<Rightarrow> execution_manager \<Rightarrow> execution_manager \<times> (mcp_execution_result + string \<times> nat)" where
  "execute_begin now rq m =
     (let i = generateExecutionId (xr_context rq) (xr_toolName rq) now in
      if int (length (xg_active m)) \<ge> xg_maxConcurrent m then (m, Inl (limit_exceeded m rq i now))
      else (m\<lparr>xg_active := js_set i (length (xg_aborted m)) (xg_active m), xg_aborted := xg_aborted m @ [None]\<rparr>,
            Inr (i, length (xg_aborted m))))"

section \<open>One attempt\<close>

text \<open>
  \<open>executeInternal\<close>: authorization, when it is on and there is a security manager, then the call. \<open>call\<close>
  is the result of the manager's \<open>executeTool\<close>, or \<open>None\<close> for a manager that has no such method.
\<close>

definition security_context_of :: "execution_request_mcp \<Rightarrow> security_context" where
  "security_context_of rq = \<lparr>sc_userId = xc_userId (xr_context rq), sc_workspaceId = xc_workspaceId (xr_context rq),
     sc_sessionId = xc_sessionId (xr_context rq), sc_serverId = xr_serverId rq, sc_roles = [], sc_permissions = [],
     sc_metadata = JUndefined\<rparr>"

text \<open>The messages and codes of the security exceptions, which decide on retries.\<close>

definition quoted_id :: "string option \<Rightarrow> string" where
  "quoted_id i = (case i of None \<Rightarrow> [] | Some x \<Rightarrow> if x = [] then [] else '' '' @ sq x)"

fun security_thrown :: "security_error \<Rightarrow> thrown" where
  "security_thrown (AuthorizationFailed u w res act req i reason) =
     \<lparr>th_message = ''Authorization failed for user '' @ u @ '' in workspace '' @ w @ '' to '' @ action_str act @ '' '' @ resource_str res
        @ quoted_id i @ (if reason = [] then [] else '': '' @ reason), th_code = Some ''MCP_AUTHORIZATION_FAILED''\<rparr>"
| "security_thrown (WorkspaceIsolation u src target res i) =
     \<lparr>th_message = ''Workspace isolation violated: User '' @ u @ '' from workspace '' @ src @ '' attempted to access '' @ resource_str res
        @ quoted_id i @ '' in workspace '' @ target, th_code = Some ''WORKSPACE_ISOLATION_VIOLATED''\<rparr>"
| "security_thrown (AuthenticationFailed m u s) =
     \<lparr>th_message = ''Authentication failed: '' @ m, th_code = Some ''MCP_AUTHENTICATION_FAILED''\<rparr>"

definition not_a_function :: thrown where
  "not_a_function = \<lparr>th_message = ''this.mcpManager.executeTool is not a function'', th_code = None\<rparr>"

definition attempt_result :: "execution_request_mcp \<Rightarrow> string \<Rightarrow> time_ms \<Rightarrow> time_ms \<Rightarrow> nat \<Rightarrow> tool_result \<Rightarrow> mcp_execution_result" where
  "attempt_result rq i started ended n r =
     \<lparr>xs_success = tr_success r, xs_data = tr_data r,
      xs_error = (case tr_error r of None \<Rightarrow> None
        | Some (code, msg) \<Rightarrow> Some \<lparr>xe_code = code, xe_message = msg, xe_retryable = isRetryableError \<lparr>th_message = msg, th_code = Some code\<rparr>\<rparr>),
      xs_metadata = execution_metadata rq i started ended (int n)\<rparr>"

definition executeInternal ::
  "time_ms \<Rightarrow> time_ms \<Rightarrow> execution_request_mcp \<Rightarrow> string \<Rightarrow> nat \<Rightarrow> tool_result option \<Rightarrow> permission_service option
     \<Rightarrow> permission_service option \<times> (thrown + mcp_execution_result)" where
  "executeInternal started ended rq i n call ps =
     (let called = (case call of None \<Rightarrow> Inl not_a_function | Some r \<Rightarrow> Inr (attempt_result rq i started ended n r)) in
      case ps of
        None \<Rightarrow> (None, called)
      | Some s \<Rightarrow> (case authorizeTool started (security_context_of rq) (xr_toolName rq) (xr_parameters rq) s of
            (s1, Inl e) \<Rightarrow> (Some s1, Inl (security_thrown e))
          | (s1, Inr _) \<Rightarrow> (Some s1, called)))"

section \<open>The attempts\<close>

text \<open>How long each attempt takes and what the tool's manager returns.\<close>

record attempts_env =
  ae_duration :: "nat \<Rightarrow> int"
  ae_call :: "nat \<Rightarrow> tool_result option"

text \<open>
  The timeout promise, one for all the attempts: when it is rejected, and with what. The timer waits a
  millisecond at least.
\<close>

definition deadline :: "time_ms \<Rightarrow> int \<Rightarrow> time_ms option \<Rightarrow> time_ms \<times> thrown" where
  "deadline started timeout abort =
     (let t = started + max 1 timeout;
          timed = (t, \<lparr>th_message = ''Execution timeout after '' @ int_str timeout @ ''ms'', th_code = None\<rparr>)
      in case abort of
           None \<Rightarrow> timed
         | Some c \<Rightarrow> if c < t then (c, \<lparr>th_message = ''Execution cancelled'', th_code = None\<rparr>) else timed)"

text \<open>
  The race of an attempt that starts at \<open>t\<close> and takes \<open>d\<close>, and when it is decided. An attempt that throws
  before its first wait (\<open>at_once\<close>) wins; else the deadline wins if it has passed already.
\<close>

definition race_attempt :: "time_ms \<Rightarrow> int \<Rightarrow> bool \<Rightarrow> thrown + 'r \<Rightarrow> time_ms \<times> thrown \<Rightarrow> time_ms \<times> (thrown + 'r)" where
  "race_attempt t d at_once out dl =
     (if at_once then (t, out)
      else if fst dl \<le> t then (t, Inl (snd dl))
      else if t + d \<le> fst dl then (t + d, out)
      else (fst dl, Inl (snd dl)))"

text \<open>The state of the loop: the security manager, the results announced so far, the time, the attempts made.\<close>

record loop_state =
  ls_security :: "permission_service option"
  ls_events :: "mcp_execution_result list"
  ls_time :: time_ms
  ls_attempts :: nat

definition run_attempt ::
  "execution_request_mcp \<Rightarrow> string \<Rightarrow> attempts_env \<Rightarrow> time_ms \<times> thrown \<Rightarrow> loop_state \<Rightarrow> loop_state \<times> (thrown + mcp_execution_result)" where
  "run_attempt rq i env dl ls =
     (let n = ls_attempts ls; t = ls_time ls; d = ae_duration env n in
      case executeInternal t (t + d) rq i n (ae_call env n) (ls_security ls) of
        (ps, out) \<Rightarrow>
          (case race_attempt t d (ls_security ls = None \<and> ae_call env n = None) out dl of
             (t1, res) \<Rightarrow> (\<lparr>ls_security = ps, ls_events = ls_events ls @ (case out of Inr r \<Rightarrow> [r] | Inl _ \<Rightarrow> []),
                            ls_time = t1, ls_attempts = Suc n\<rparr>, res)))"

text \<open>The loop; the number is of the attempts left. A result of an attempt that lost its race is announced all the same.\<close>

fun exec_loop ::
  "execution_request_mcp \<Rightarrow> string \<Rightarrow> execution_options \<Rightarrow> attempts_env \<Rightarrow> time_ms \<times> thrown \<Rightarrow> time_ms option \<Rightarrow> nat
     \<Rightarrow> thrown option \<Rightarrow> loop_state \<Rightarrow> loop_state \<times> (thrown option + mcp_execution_result)" where
  "exec_loop rq i opts env dl abort 0 last_error ls = (ls, Inl last_error)"
| "exec_loop rq i opts env dl abort (Suc k) last_error ls =
     (case run_attempt rq i env dl ls of
        (ls1, Inr r) \<Rightarrow> (ls1, Inr r)
      | (ls1, Inl e) \<Rightarrow>
          if (case abort of None \<Rightarrow> False | Some c \<Rightarrow> c \<le> ls_time ls1) \<or> \<not> isRetryableError e then (ls1, Inl (Some e))
          else exec_loop rq i opts env dl abort k (Some e)
                 (if k = 0 then ls1 else ls1\<lparr>ls_time := ls_time ls1 + xo_retryDelay opts * 2 ^ ls_attempts ls\<rparr>))"

definition failure_result ::
  "execution_request_mcp \<Rightarrow> string \<Rightarrow> execution_options \<Rightarrow> time_ms \<Rightarrow> time_ms \<Rightarrow> thrown option \<Rightarrow> mcp_execution_result" where
  "failure_result rq i opts started ended e =
     (let timed = (case e of None \<Rightarrow> False | Some x \<Rightarrow> contains_text ''timeout'' (th_message x)) in
      \<lparr>xs_success = False, xs_data = None,
       xs_error = Some \<lparr>xe_code = (if timed then ''EXECUTION_TIMEOUT'' else ''EXECUTION_FAILED''),
         xe_message = str_or (case e of None \<Rightarrow> [] | Some x \<Rightarrow> th_message x) ''Execution failed after retries'',
         xe_retryable = (case e of None \<Rightarrow> False | Some x \<Rightarrow> isRetryableError x)\<rparr>,
       xs_metadata = execution_metadata rq i started ended (xo_retries opts)\<rparr>)"

definition note_metrics :: "execution_request_mcp \<Rightarrow> time_ms \<Rightarrow> time_ms \<Rightarrow> bool \<Rightarrow> int \<Rightarrow> bool \<Rightarrow> execution_manager \<Rightarrow> execution_manager" where
  "note_metrics rq started ended success attempt timed m =
     (if xg_enableMetrics m
      then m\<lparr>xg_metrics := recordExecution ended (xr_serverId rq) (xr_toolName rq) (ended - started) success attempt timed (xg_metrics m)\<rparr>
      else m)"

definition xg_emit :: "execution_event list \<Rightarrow> execution_manager \<Rightarrow> execution_manager" where
  "xg_emit es m = m\<lparr>xg_emitted := xg_emitted m @ es\<rparr>"

definition finish_execution :: "string \<Rightarrow> execution_manager \<Rightarrow> execution_manager" where
  "finish_execution i m = m\<lparr>xg_active := js_delete i (xg_active m)\<rparr>"

definition execution_attempts ::
  "time_ms \<Rightarrow> attempts_env \<Rightarrow> execution_request_mcp \<Rightarrow> string \<times> nat \<Rightarrow> execution_manager
     \<Rightarrow> loop_state \<times> (thrown option + mcp_execution_result)" where
  "execution_attempts started env rq c m =
     (let opts = request_options (xg_defaults m) (xr_options rq); abort = xg_aborted m ! snd c
      in exec_loop rq (fst c) opts env (deadline started (xo_timeout opts) abort) abort (nat (xo_retries opts + 1)) None
           \<lparr>ls_security = (if xg_enableSecurity m then xg_security m else None), ls_events = [], ls_time = started, ls_attempts = 0\<rparr>)"

definition execute_end ::
  "time_ms \<Rightarrow> attempts_env \<Rightarrow> execution_request_mcp \<Rightarrow> string \<times> nat \<Rightarrow> execution_manager
     \<Rightarrow> execution_manager \<times> mcp_execution_result" where
  "execute_end started env rq c m =
     (case execution_attempts started env rq c m of
        (ls, out) \<Rightarrow>
          (let m1 = xg_emit (map ExecutionCompleted (ls_events ls)) (if xg_enableSecurity m then m\<lparr>xg_security := ls_security ls\<rparr> else m); t = ls_time ls;
               opts = request_options (xg_defaults m) (xr_options rq) in
           case out of
             Inr r \<Rightarrow> (finish_execution (fst c) (note_metrics rq started t (xs_success r) (int (ls_attempts ls) - 1) False m1), r)
           | Inl e \<Rightarrow>
               (let r = failure_result rq (fst c) opts started t e;
                    timed = (case e of None \<Rightarrow> False | Some x \<Rightarrow> contains_text ''timeout'' (th_message x))
                in (finish_execution (fst c) (xg_emit [ExecutionFailedEvent r] (note_metrics rq started t False (xo_retries opts) timed m1)), r))))"

definition mcp_execute ::
  "time_ms \<Rightarrow> attempts_env \<Rightarrow> execution_request_mcp \<Rightarrow> execution_manager \<Rightarrow> execution_manager \<times> mcp_execution_result" where
  "mcp_execute now env rq m =
     (case execute_begin now rq m of
        (m1, Inl r) \<Rightarrow> (m1, r)
      | (m1, Inr c) \<Rightarrow> execute_end now env rq c m1)"

text \<open>A batch that is not parallel; each request comes with the time it starts and its environment.\<close>

fun sequential_batch ::
  "bool \<Rightarrow> (time_ms \<times> attempts_env \<times> execution_request_mcp) list \<Rightarrow> execution_manager
     \<Rightarrow> execution_manager \<times> mcp_execution_result list" where
  "sequential_batch continueOnError [] m = (m, [])"
| "sequential_batch continueOnError ((now, env, rq) # qs) m =
     (case mcp_execute now env rq m of
        (m1, r) \<Rightarrow>
          if \<not> xs_success r \<and> \<not> continueOnError then (m1, [r])
          else (case sequential_batch continueOnError qs m1 of (m2, rs) \<Rightarrow> (m2, r # rs)))"

section \<open>Cancellation\<close>

definition xg_cancel :: "time_ms \<Rightarrow> string \<Rightarrow> execution_manager \<Rightarrow> execution_manager \<times> bool" where
  "xg_cancel now i m =
     (case js_get (xg_active m) i of
        None \<Rightarrow> (m, False)
      | Some c \<Rightarrow> (m\<lparr>xg_aborted := (xg_aborted m)[c := Some (case xg_aborted m ! c of None \<Rightarrow> now | Some t \<Rightarrow> t)]\<rparr>, True))"

definition abort_at :: "time_ms \<Rightarrow> nat \<Rightarrow> time_ms option list \<Rightarrow> time_ms option list" where
  "abort_at now c cs = cs[c := Some (case cs ! c of None \<Rightarrow> now | Some t \<Rightarrow> t)]"

definition xg_cancelAll :: "time_ms \<Rightarrow> execution_manager \<Rightarrow> execution_manager \<times> nat" where
  "xg_cancelAll now m =
     (m\<lparr>xg_aborted := fold (abort_at now) (js_values (xg_active m)) (xg_aborted m), xg_active := []\<rparr>, length (xg_active m))"

definition getActiveExecutions :: "execution_manager \<Rightarrow> string list" where
  "getActiveExecutions m = js_keys (xg_active m)"

definition getExecutionCount :: "execution_manager \<Rightarrow> nat" where
  "getExecutionCount m = length (xg_active m)"

end
