(* ===== verification/Mcp_Runtime.thy ===== *)
theory Mcp_Runtime
  imports Mcp_Execution
begin

text \<open>
  The class \<open>MCPRuntime\<close> (\<open>mcp/runtime/mcp-runtime.ts\<close>): the sessions, the server registry and the
  execution manager behind one interface. The execution manager it makes has an empty object for its
  MCP manager, so its attempts are calls of \<open>executeInternal\<close> with no \<open>executeTool\<close>.
\<close>

datatype runtime_event = RuntimeInitialized | RuntimeShutdown

record mcp_runtime =
  rn_sessions :: session_manager
  rn_registry :: server_registry
  rn_executions :: execution_manager
  rn_autoRefresh :: bool
  rn_healthInterval :: int
  rn_healthTimer :: bool
  rn_initialized :: bool
  rn_shutdownInitiated :: bool
  rn_emitted :: "runtime_event list"

record runtime_config =
  rc_defaultTimeout :: "int option"
  rc_defaultRetries :: "int option"
  rc_maxConcurrent :: "int option"
  rc_enableMetrics :: bool
  rc_enableSecurity :: bool
  rc_healthInterval :: int
  rc_autoRefresh :: bool

definition new_mcp_runtime ::
  "runtime_config \<Rightarrow> permission_service option \<Rightarrow> session_manager \<Rightarrow> server_registry \<Rightarrow> mcp_runtime" where
  "new_mcp_runtime cfg ps sm sr =
     \<lparr>rn_sessions = sm, rn_registry = sr,
      rn_executions = new_execution_manager ps
        \<lparr>xo_timeout = or_default (rc_defaultTimeout cfg) 30000, xo_retries = or_default (rc_defaultRetries cfg) 3, xo_retryDelay = 1000\<rparr>
        (or_default (rc_maxConcurrent cfg) 10) (rc_enableMetrics cfg) (rc_enableSecurity cfg),
      rn_autoRefresh = rc_autoRefresh cfg, rn_healthInterval = rc_healthInterval cfg, rn_healthTimer = False,
      rn_initialized = False, rn_shutdownInitiated = False, rn_emitted = []\<rparr>"

definition rn_emit :: "runtime_event \<Rightarrow> mcp_runtime \<Rightarrow> mcp_runtime" where
  "rn_emit e rt = rt\<lparr>rn_emitted := rn_emitted rt @ [e]\<rparr>"

text \<open>\<open>settles\<close>: the outcomes of the refreshes of the registry, in the order in which they settle.\<close>

definition rn_initialize ::
  "(time_ms \<times> string \<times> (discovery_error + server_data)) list \<Rightarrow> mcp_runtime \<Rightarrow> mcp_runtime \<times> (agent_error + unit)" where
  "rn_initialize settles rt =
     (if rn_initialized rt then (rt, Inl (PlainError ''MCP Runtime is already initialized''))
      else (let rt1 = (if rn_healthInterval rt \<noteq> 0 then rt\<lparr>rn_healthTimer := True\<rparr> else rt);
                rt2 = (if rn_autoRefresh rt then rt1\<lparr>rn_registry := fst (sr_refreshAll settles (rn_registry rt1))\<rparr> else rt1)
            in (rn_emit RuntimeInitialized (rt2\<lparr>rn_initialized := True\<rparr>), Inr ())))"

definition rn_shutdown :: "time_ms \<Rightarrow> mcp_runtime \<Rightarrow> mcp_runtime" where
  "rn_shutdown now rt =
     (if rn_shutdownInitiated rt then rt
      else rn_emit RuntimeShutdown
             (rt\<lparr>rn_shutdownInitiated := True, rn_healthTimer := False,
                 rn_executions := fst (xg_cancelAll now (rn_executions rt)),
                 rn_sessions := shutdown_sessions (rn_sessions rt), rn_initialized := False\<rparr>))"

definition ensureInitialized :: "mcp_runtime \<Rightarrow> agent_error option" where
  "ensureInitialized rt =
     (if \<not> rn_initialized rt then Some (PlainError ''MCP Runtime is not initialized. Call initialize() first.'')
      else if rn_shutdownInitiated rt then Some (PlainError ''MCP Runtime is shutting down'') else None)"

text \<open>\<open>durations n\<close>: how long attempt \<open>n\<close> takes. There is no \<open>executeTool\<close> to call.\<close>

definition runtime_env :: "(nat \<Rightarrow> int) \<Rightarrow> attempts_env" where
  "runtime_env durations = \<lparr>ae_duration = durations, ae_call = \<lambda>_. None\<rparr>"

definition rn_execute ::
  "time_ms \<Rightarrow> (nat \<Rightarrow> int) \<Rightarrow> execution_request_mcp \<Rightarrow> mcp_runtime \<Rightarrow> mcp_runtime \<times> (agent_error + mcp_execution_result)" where
  "rn_execute now durations rq rt =
     (case ensureInitialized rt of
        Some e \<Rightarrow> (rt, Inl e)
      | None \<Rightarrow> (case mcp_execute now (runtime_env durations) rq (rn_executions rt) of
            (m, r) \<Rightarrow> (rt\<lparr>rn_executions := m\<rparr>, Inr r)))"

definition rn_cancelExecution :: "time_ms \<Rightarrow> string \<Rightarrow> mcp_runtime \<Rightarrow> mcp_runtime \<times> bool" where
  "rn_cancelExecution now i rt = (case xg_cancel now i (rn_executions rt) of (m, b) \<Rightarrow> (rt\<lparr>rn_executions := m\<rparr>, b))"

definition rn_cancelAllExecutions :: "time_ms \<Rightarrow> mcp_runtime \<Rightarrow> mcp_runtime \<times> nat" where
  "rn_cancelAllExecutions now rt = (case xg_cancelAll now (rn_executions rt) of (m, n) \<Rightarrow> (rt\<lparr>rn_executions := m\<rparr>, n))"

definition rn_refreshServer :: "time_ms \<Rightarrow> string \<Rightarrow> discovery_error + server_data \<Rightarrow> mcp_runtime \<Rightarrow> mcp_runtime \<times> (registry_error + unit)" where
  "rn_refreshServer now srv out rt =
     (case refreshServer now srv out (rn_registry rt) of (r, x) \<Rightarrow> (rt\<lparr>rn_registry := r\<rparr>, case x of Inl e \<Rightarrow> Inl e | Inr _ \<Rightarrow> Inr ()))"

section \<open>Health\<close>

datatype mcp_health_status = RnHealthy | RnDegraded | RnUnhealthy

text \<open>The issues, for the texts of the code; the last two print the rate and the latency.\<close>

datatype health_issue = NoActiveServers | NoActiveSessions | LowSuccessRate real | HighLatency real

record mcp_runtime_health =
  rh_status :: mcp_health_status
  rh_activeServers :: nat
  rh_activeSessions :: nat
  rh_activeExecutions :: nat
  rh_totalExecutions :: nat
  rh_errorRate :: real
  rh_averageLatency :: real
  rh_lastHealthCheck :: time_ms
  rh_issues :: "health_issue list"

definition health_issues :: "nat \<Rightarrow> nat \<Rightarrow> global_metrics \<Rightarrow> health_issue list" where
  "health_issues servers sessions g =
     (if servers = 0 then [NoActiveServers] else [])
     @ (if sessions = 0 \<and> servers > 0 then [NoActiveSessions] else [])
     @ (if gl_successRate g < 90 \<and> ag_totalExecutions g > 10 then [LowSuccessRate (gl_successRate g)] else [])
     @ (if ag_averageLatency g > 10000 then [HighLatency (ag_averageLatency g)] else [])"

fun is_serious :: "real \<Rightarrow> health_issue \<Rightarrow> bool" where
  "is_serious rate NoActiveServers = True"
| "is_serious rate NoActiveSessions = True"
| "is_serious rate (LowSuccessRate r) = (rate < 50)"
| "is_serious rate (HighLatency l) = False"

definition rn_health :: "time_ms \<Rightarrow> mcp_runtime \<Rightarrow> mcp_runtime_health" where
  "rn_health now rt =
     (let servers = length (listActiveServers (rn_registry rt)); sessions = getSessionCount (rn_sessions rt);
          g = getGlobalMetrics (xg_metrics (rn_executions rt)); issues = health_issues servers sessions g
      in \<lparr>rh_status = (if issues = [] then RnHealthy else if list_ex (is_serious (gl_successRate g)) issues then RnUnhealthy else RnDegraded),
          rh_activeServers = servers, rh_activeSessions = sessions, rh_activeExecutions = getExecutionCount (rn_executions rt),
          rh_totalExecutions = ag_totalExecutions g, rh_errorRate = 100 - gl_successRate g, rh_averageLatency = ag_averageLatency g,
          rh_lastHealthCheck = now, rh_issues = issues\<rparr>)"

record mcp_runtime_metrics =
  rm_global :: global_metrics
  rm_servers :: "(string \<times> aggregated_metrics) list"
  rm_registry :: registry_stats
  rm_sessions :: nat
  rm_healthy :: nat
  rm_unhealthy :: nat

definition rn_metrics :: "time_ms \<Rightarrow> mcp_runtime \<Rightarrow> agent_error + mcp_runtime_metrics" where
  "rn_metrics now rt =
     (case ensureInitialized rt of
        Some e \<Rightarrow> Inl e
      | None \<Rightarrow> Inr \<lparr>rm_global = getGlobalMetrics (xg_metrics (rn_executions rt)),
          rm_servers = map (\<lambda>s. getAggregatedServerMetrics (sv_id (rg_server s)) (xg_metrics (rn_executions rt))) (listActiveServers (rn_registry rt)),
          rm_registry = getRegistryStats (rn_registry rt), rm_sessions = getSessionCount (rn_sessions rt),
          rm_healthy = length (getHealthySessions now (rn_sessions rt)), rm_unhealthy = length (getUnhealthySessions now (rn_sessions rt))\<rparr>)"

end
