(* ===== verification/Mcp_Execution_Props.thy ===== *)
theory Mcp_Execution_Props
  imports Mcp_Runtime
begin

text \<open>
  What an execution of a tool ends with, how often the tool is called for it, what the metrics learn of
  it, how many executions are active, and what the runtime makes of all this.
\<close>

section \<open>Texts in texts\<close>

lemma contains_text_Nil: "contains_text [] s"
  by (cases s) simp_all

lemma contains_text_prefix: "contains_text sub (sub @ post)"
proof -
  have "contains_text sub s" if "take (length sub) s = sub" for s
    using that by (cases s) auto
  then show ?thesis by simp
qed

lemma contains_text_within: "contains_text sub (pre @ sub @ post)"
  by (induction pre) (simp_all add: contains_text_prefix)

lemma to_lower_append: "to_lower (a @ b) = to_lower a @ to_lower b"
  by (simp add: to_lower_def)

definition timeout_thrown :: "int \<Rightarrow> thrown" where
  "timeout_thrown t = \<lparr>th_message = ''Execution timeout after '' @ int_str t @ ''ms'', th_code = None\<rparr>"

lemma timeout_thrown_text: "contains_text ''timeout'' (th_message (timeout_thrown t))"
  using contains_text_within [of "''timeout''" "''Execution ''" "'' after '' @ int_str t @ ''ms''"]
  by (simp add: timeout_thrown_def)

lemma timeout_thrown_retryable: "isRetryableError (timeout_thrown t)"
proof -
  have low: "to_lower ''Execution timeout after '' = ''execution '' @ ''timeout'' @ '' after ''" by code_simp
  have "th_message (timeout_thrown t) = ''Execution timeout after '' @ (int_str t @ ''ms'')"
    by (simp only: timeout_thrown_def thrown.simps)
  then have "to_lower (th_message (timeout_thrown t)) = ''execution '' @ ''timeout'' @ '' after '' @ to_lower (int_str t @ ''ms'')"
    by (simp only: to_lower_append low append_assoc)
  then have "contains_text ''timeout'' (to_lower (th_message (timeout_thrown t)))"
    by (metis contains_text_within)
  then show ?thesis by (simp add: isRetryableError_def Let_def)
qed

section \<open>The attempts of one execution\<close>

text \<open>Once the deadline has passed every attempt is lost at once, and the tool is called all the same.\<close>

lemma exec_loop_late:
  assumes "ls_security ls = None" and "\<And>n. ae_call env n = Some (r n)" and "fst dl \<le> ls_time ls"
    and "isRetryableError (snd dl)" and "0 \<le> xo_retryDelay opts"
  shows "\<exists>ls1. exec_loop rq i opts env dl None k e ls = (ls1, Inl (if k = 0 then e else Some (snd dl)))
     \<and> ls_attempts ls1 = ls_attempts ls + k \<and> length (ls_events ls1) = length (ls_events ls) + k"
  using assms(1,3)
proof (induction k arbitrary: ls e)
  case (Suc k)
  let ?n = "ls_attempts ls"
  let ?ls1 = "\<lparr>ls_security = None, ls_events = ls_events ls @ [attempt_result rq i (ls_time ls) (ls_time ls + ae_duration env ?n) ?n (r ?n)],
     ls_time = ls_time ls, ls_attempts = Suc ?n\<rparr>"
  let ?ls2 = "if k = 0 then ?ls1 else ?ls1\<lparr>ls_time := ls_time ?ls1 + xo_retryDelay opts * 2 ^ ?n\<rparr>"
  have run: "run_attempt rq i env dl ls = (?ls1, Inl (snd dl))"
    using Suc.prems assms(2) by (simp add: run_attempt_def executeInternal_def race_attempt_def Let_def)
  have late: "fst dl \<le> ls_time ?ls2" "ls_security ?ls2 = None"
    using Suc.prems assms(5) by (auto intro: order_trans)
  obtain ls3 where "exec_loop rq i opts env dl None k (Some (snd dl)) ?ls2 = (ls3, Inl (Some (snd dl)))"
    and "ls_attempts ls3 = ls_attempts ?ls2 + k" and "length (ls_events ls3) = length (ls_events ?ls2) + k"
    using Suc.IH [OF late(2) late(1), of "Some (snd dl)"] by auto
  then show ?case using run assms(4) by simp
qed simp

text \<open>C31: 
  Without security the first call of the tool decides. When its answer comes before the deadline it is
  the result, a failure as well as a success, and there is no other call; otherwise the execution times
  out, and the tool is called \<open>retries + 1\<close> times for it, each call after the first for nothing.
\<close>

theorem execution_outcome:
  assumes "xg_enableSecurity m = False" and "xg_aborted m ! c = None" and "\<And>n. ae_call env n = Some (r n)"
    and "0 \<le> xo_retries (request_options (xg_defaults m) (xr_options rq))"
    and "0 \<le> xo_retryDelay (request_options (xg_defaults m) (xr_options rq))"
  shows "case execution_attempts t env rq (i, c) m of (ls, out) \<Rightarrow>
      case request_options (xg_defaults m) (xr_options rq) of opts \<Rightarrow>
        if ae_duration env 0 \<le> max 1 (xo_timeout opts)
        then out = Inr (attempt_result rq i t (t + ae_duration env 0) 0 (r 0)) \<and> ls_attempts ls = 1
        else out = Inl (Some (timeout_thrown (xo_timeout opts)))
             \<and> int (ls_attempts ls) = xo_retries opts + 1 \<and> int (length (ls_events ls)) = xo_retries opts + 1"
proof -
  let ?opts = "request_options (xg_defaults m) (xr_options rq)"
  let ?dl = "deadline t (xo_timeout ?opts) None"
  have dl: "fst ?dl = t + max 1 (xo_timeout ?opts)" "snd ?dl = timeout_thrown (xo_timeout ?opts)"
    by (simp_all add: deadline_def timeout_thrown_def Let_def)
  let ?ls0 = "\<lparr>ls_security = None, ls_events = [], ls_time = t, ls_attempts = 0\<rparr>"
  let ?r0 = "attempt_result rq i t (t + ae_duration env 0) 0 (r 0)"
  obtain k where k: "nat (xo_retries ?opts + 1) = Suc k" and k': "xo_retries ?opts = int k"
    using assms(4) by (metis Suc_eq_plus1 nat_0_le nat_int of_nat_1 of_nat_add add.commute nat_int_add)
  have run: "run_attempt rq i env ?dl ?ls0 =
      (let t1 = (if ae_duration env 0 \<le> max 1 (xo_timeout ?opts) then t + ae_duration env 0 else fst ?dl)
       in (\<lparr>ls_security = None, ls_events = [?r0], ls_time = t1, ls_attempts = 1\<rparr>,
           if ae_duration env 0 \<le> max 1 (xo_timeout ?opts) then Inr ?r0 else Inl (snd ?dl)))"
    using assms(3) by (simp add: run_attempt_def executeInternal_def race_attempt_def dl Let_def)
  have exec: "execution_attempts t env rq (i, c) m = exec_loop rq i ?opts env ?dl None (Suc k) None ?ls0"
    using assms(1,2) by (simp add: execution_attempts_def Let_def k)
  show ?thesis
  proof (cases "ae_duration env 0 \<le> max 1 (xo_timeout ?opts)")
    case True
    then show ?thesis by (simp add: exec run Let_def)
  next
    case False
    let ?ls1 = "\<lparr>ls_security = None, ls_events = [?r0], ls_time = fst ?dl, ls_attempts = Suc 0\<rparr>"
    let ?ls2 = "if k = 0 then ?ls1 else ?ls1\<lparr>ls_time := ls_time ?ls1 + xo_retryDelay ?opts\<rparr>"
    have late: "ls_security ?ls2 = None" "fst ?dl \<le> ls_time ?ls2" "isRetryableError (snd ?dl)"
      using assms(5) by (simp_all add: dl timeout_thrown_retryable)
    obtain ls3 where loop: "exec_loop rq i ?opts env ?dl None k (Some (snd ?dl)) ?ls2 = (ls3, Inl (Some (snd ?dl)))"
      and n: "ls_attempts ls3 = Suc k" "length (ls_events ls3) = Suc k"
      using exec_loop_late [OF late(1) assms(3) late(2,3) assms(5), of rq i k "Some (snd ?dl)"] by auto
    have "exec_loop rq i ?opts env ?dl None (Suc k) None ?ls0 = (ls3, Inl (Some (snd ?dl)))"
      using False late(3) loop by (cases "k = 0") (simp_all add: run Let_def)
    then show ?thesis using False n by (simp add: exec dl k')
  qed
qed

definition sample_context :: mcp_context where
  "sample_context = \<lparr>xc_requestId = ''r'', xc_workspaceId = ''w'', xc_userId = ''u'', xc_traceId = ''t'', xc_sessionId = ''s'', xc_metadata = []\<rparr>"

definition sample_request_mcp :: execution_request_mcp where
  "sample_request_mcp = \<lparr>xr_context = sample_context, xr_serverId = ''srv'', xr_toolName = ''tool'', xr_parameters = JNull,
     xr_options = \<lparr>ov_timeout = Some 100, ov_retries = None, ov_retryDelay = None\<rparr>\<rparr>"

definition sample_executions :: execution_manager where
  "sample_executions = new_execution_manager None \<lparr>xo_timeout = 30000, xo_retries = 3, xo_retryDelay = 1000\<rparr> 10 True False"

definition slow_tool :: attempts_env where
  "slow_tool = \<lparr>ae_duration = \<lambda>_. 500, ae_call = \<lambda>_. Some \<lparr>tr_success = True, tr_data = None, tr_error = None, tr_metadata = None\<rparr>\<rparr>"

theorem execution_outcome_witness:
  "int (ls_attempts (fst (execution_attempts 0 slow_tool sample_request_mcp (''i'', 0) (fst (execute_begin 0 sample_request_mcp sample_executions))))) = 4"
proof -
  let ?m = "fst (execute_begin 0 sample_request_mcp sample_executions)"
  have "xg_enableSecurity ?m = False" and "xg_aborted ?m ! 0 = None"
    and opts: "request_options (xg_defaults ?m) (xr_options sample_request_mcp) = \<lparr>xo_timeout = 100, xo_retries = 3, xo_retryDelay = 1000\<rparr>"
    by code_simp+
  moreover have "ae_call slow_tool n = Some \<lparr>tr_success = True, tr_data = None, tr_error = None, tr_metadata = None\<rparr>" for n
    by (simp add: slow_tool_def)
  ultimately show ?thesis
    using execution_outcome [of ?m 0 slow_tool "\<lambda>_. \<lparr>tr_success = True, tr_data = None, tr_error = None, tr_metadata = None\<rparr>"
        sample_request_mcp, where t = 0 and i = "''i''"]
    by (simp add: split_beta slow_tool_def)
qed

section \<open>The metrics of an execution\<close>

text \<open>
  With metrics on, an execution that has begun is recorded exactly once, with its duration and whether
  it succeeded, whatever happened on the way. One that failed is recorded with \<open>retries\<close> as its attempt,
  so that it counts as a retry even if there was a single attempt.
\<close>

theorem execution_recorded_once:
  assumes "xg_enableMetrics m"
  shows "case execute_end t env rq (i, c) m of (m1, r) \<Rightarrow> case execution_attempts t env rq (i, c) m of (ls, out) \<Rightarrow>
      \<exists>timed. xg_metrics m1 = record_one
        \<lparr>sp_timestamp = ls_time ls, sp_serverId = xr_serverId rq, sp_toolName = xr_toolName rq, sp_duration = ls_time ls - t,
         sp_success = xs_success r,
         sp_retryAttempt = (if isl out then xo_retries (request_options (xg_defaults m) (xr_options rq)) else int (ls_attempts ls) - 1),
         sp_timedOut = timed\<rparr> (xg_metrics m)"
  using assms
  by (auto simp: execute_end_def Let_def split_beta finish_execution_def xg_emit_def note_metrics_def recordExecution_one
      failure_result_def split: sum.split)

theorem execution_recorded_once_witness:
  "length (mc_snapshots (xg_metrics (fst (execute_end 0 slow_tool sample_request_mcp (''i'', 0)
     (fst (execute_begin 0 sample_request_mcp sample_executions)))))) = 1"
proof -
  let ?m = "fst (execute_begin 0 sample_request_mcp sample_executions)"
  have m: "xg_enableMetrics ?m" and c: "xg_metrics ?m = new_metrics_collector 10000"
    by (simp_all add: execute_begin_def sample_executions_def new_execution_manager_def Let_def)
  have "length (mc_snapshots (record_one s (new_metrics_collector 10000))) = 1" for s
    by (simp add: record_one_snapshots new_metrics_collector_def)
  then show ?thesis
    using execution_recorded_once [OF m, where t = 0 and env = slow_tool and rq = sample_request_mcp and i = "''i''" and c = 0] c by (auto simp: split_beta)
qed

section \<open>The active executions\<close>

inductive xg_step :: "execution_manager \<Rightarrow> execution_manager \<Rightarrow> bool" where
  begins: "xg_step m (fst (execute_begin now rq m))"
| ends: "xg_step m (fst (execute_end t env rq c m))"
| cancels: "xg_step m (fst (xg_cancel now i m))"
| cancels_all: "xg_step m (fst (xg_cancelAll now m))"

inductive xg_reachable :: "execution_manager \<Rightarrow> bool" where
  start: "xg_reachable (new_execution_manager ps defaults most metrics security)"
| step: "xg_reachable m \<Longrightarrow> xg_step m m' \<Longrightarrow> xg_reachable m'"

definition xg_ok :: "execution_manager \<Rightarrow> bool" where
  "xg_ok m = (js_wf (xg_active m) \<and> int (length (xg_active m)) \<le> max 0 (xg_maxConcurrent m)
     \<and> list_all (\<lambda>(i, c). c < length (xg_aborted m)) (xg_active m))"

lemma length_abort_all: "length (fold (abort_at now) cs bs) = length bs"
  by (induction cs arbitrary: bs) (simp_all add: abort_at_def)

lemma execute_end_active:
  "xg_active (fst (execute_end t env rq c m)) = js_delete (fst c) (xg_active m)
   \<and> xg_maxConcurrent (fst (execute_end t env rq c m)) = xg_maxConcurrent m
   \<and> xg_aborted (fst (execute_end t env rq c m)) = xg_aborted m"
  by (auto simp: execute_end_def Let_def split_beta finish_execution_def xg_emit_def note_metrics_def split: sum.split)

lemma xg_step_ok: "xg_step m m' \<Longrightarrow> xg_ok m \<Longrightarrow> xg_ok m'"
proof (induction rule: xg_step.induct)
  case (begins m now rq)
  then show ?case
    using set_js_set_subset
    by (auto simp: xg_ok_def execute_begin_def Let_def length_js_set list_all_iff dest!: subsetD [OF set_js_set_subset])
next
  case (ends m t env rq c)
  note e = execute_end_active [of t env rq c m]
  have "int (length (js_delete (fst c) (xg_active m))) \<le> int (length (xg_active m))" by (simp add: length_js_delete_le)
  then have "int (length (js_delete (fst c) (xg_active m))) \<le> max 0 (xg_maxConcurrent m)"
    using ends by (auto simp: xg_ok_def)
  then show ?case using ends by (simp add: xg_ok_def e list_all_iff set_js_delete)
next
  case (cancels m now i)
  then show ?case by (auto simp: xg_ok_def xg_cancel_def split: option.split)
qed (auto simp: xg_ok_def xg_cancelAll_def length_abort_all)

lemma xg_reachable_ok: "xg_reachable m \<Longrightarrow> xg_ok m"
  by (induction rule: xg_reachable.induct) (auto simp: xg_ok_def new_execution_manager_def dest: xg_step_ok)

text \<open>C32: 
  In every reachable execution manager no more executions are active than the limit, and each active
  id has an abort controller.
\<close>

theorem active_executions_bounded:
  assumes "xg_reachable m"
  shows "int (getExecutionCount m) \<le> max 0 (xg_maxConcurrent m) \<and> distinct (getActiveExecutions m)
    \<and> list_all (\<lambda>(i, c). c < length (xg_aborted m)) (xg_active m)"
  using xg_reachable_ok [OF assms] by (simp add: xg_ok_def getExecutionCount_def getActiveExecutions_def js_keys_def js_wf_def)

theorem active_executions_bounded_witness:
  "int (getExecutionCount (fst (execute_begin 0 sample_request_mcp sample_executions))) \<le> 10"
proof -
  have "xg_reachable (fst (execute_begin 0 sample_request_mcp sample_executions))"
    unfolding sample_executions_def by (rule xg_reachable.step [OF xg_reachable.start xg_step.begins])
  moreover have "xg_maxConcurrent (fst (execute_begin 0 sample_request_mcp sample_executions)) = 10" by code_simp
  ultimately show ?thesis using active_executions_bounded [of "fst (execute_begin 0 sample_request_mcp sample_executions)"] by simp
qed

section \<open>The runtime\<close>

lemma no_tool_no_result:
  assumes "\<And>n. ae_call env n = None"
  shows "\<exists>ls1 x. exec_loop rq i opts env dl abort k e ls = (ls1, Inl x)"
proof (induction k arbitrary: ls e)
  case (Suc k)
  have "\<exists>ls1 x. run_attempt rq i env dl ls = (ls1, Inl x)"
    by (auto simp: run_attempt_def executeInternal_def race_attempt_def assms Let_def split: option.split prod.split sum.split)
  then obtain ls1 x where "run_attempt rq i env dl ls = (ls1, Inl x)" by blast
  then show ?case using Suc.IH by (auto split: option.split)
qed simp

lemma failed_execution:
  "execution_attempts t env rq c m = (ls, Inl x) \<Longrightarrow> xs_success (snd (execute_end t env rq c m)) = False"
  by (simp add: execute_end_def failure_result_def Let_def)

text \<open>
  The runtime executes nothing: it gives its execution manager an empty object for an MCP manager, and
  every execution that is let in fails. After a shutdown nothing is let in any more, though the runtime
  can be initialised again, which reports success.
\<close>

theorem runtime_executes_nothing:
  "(case rn_execute now durations rq rt of (rt1, out) \<Rightarrow> case out of Inl e \<Rightarrow> rt1 = rt | Inr r \<Rightarrow> xs_success r = False)
   \<and> (case rn_initialize settles (rn_shutdown now rt) of (rt2, started) \<Rightarrow>
        \<exists>e. rn_execute later durations rq rt2 = (rt2, Inl e))"
proof
  have "xs_success (snd (mcp_execute now (runtime_env durations) rq m)) = False" for m
  proof -
    have none: "ae_call (runtime_env durations) n = None" for n by (simp add: runtime_env_def)
    have "\<exists>ls x. execution_attempts now (runtime_env durations) rq c m1 = (ls, Inl x)" for c m1
      unfolding execution_attempts_def Let_def by (rule no_tool_no_result [OF none])
    then have "xs_success (snd (execute_end now (runtime_env durations) rq c m1)) = False" for c m1
      using failed_execution by metis
    then show ?thesis
      by (auto simp: mcp_execute_def execute_begin_def limit_exceeded_def Let_def)
  qed
  then show "case rn_execute now durations rq rt of (rt1, out) \<Rightarrow> case out of Inl e \<Rightarrow> rt1 = rt | Inr r \<Rightarrow> xs_success r = False"
    by (simp add: rn_execute_def split_beta split: option.split)
  have "rn_shutdownInitiated (rn_shutdown now rt)" by (simp add: rn_shutdown_def rn_emit_def)
  then have "rn_shutdownInitiated (fst (rn_initialize settles (rn_shutdown now rt)))"
    by (simp add: rn_initialize_def rn_emit_def Let_def)
  then show "case rn_initialize settles (rn_shutdown now rt) of (rt2, started) \<Rightarrow> \<exists>e. rn_execute later durations rq rt2 = (rt2, Inl e)"
    by (auto simp: rn_execute_def ensureInitialized_def split_beta)
qed

end
