(* ===== verification/Plugin_Validator.thy ===== *)
theory Plugin_Validator
  imports Agent_Types
begin

text \<open>
  The data of \<open>agents/plugins/plugin.types.ts\<close>, the exceptions of \<open>agents/plugins/plugin.exceptions.ts\<close>
  and the class \<open>PluginValidator\<close> (\<open>agents/plugins/plugin-validator.ts\<close>).

  A plugin is what a module exports, whatever its types: the metadata and the capabilities are objects
  of arbitrary values, read by \<open>field_of\<close>. The ids and names of descriptors come from there. Texts that are
  built from such values are terms of \<open>plugin_message\<close>, one constructor per template.
\<close>

section \<open>Untyped values\<close>

definition field_of :: "js_record \<Rightarrow> string \<Rightarrow> jsval" where
  "field_of fs k = (case js_get fs k of None \<Rightarrow> JUndefined | Some v \<Rightarrow> v)"

fun typeof :: "jsval \<Rightarrow> string" where
  "typeof JUndefined = ''undefined''"
| "typeof (JBool b) = ''boolean''"
| "typeof (JNum n) = ''number''"
| "typeof (JStr s) = ''string''"
| "typeof JNull = ''object''"
| "typeof (JDate t) = ''object''"
| "typeof (JArr vs) = ''object''"
| "typeof (JObj fs) = ''object''"

fun is_array :: "jsval \<Rightarrow> bool" where
  "is_array (JArr vs) = True"
| "is_array _ = False"

fun is_date :: "jsval \<Rightarrow> bool" where
  "is_date (JDate t) = True"
| "is_date _ = False"

text \<open>A property of a value that is not null or undefined: only objects have any here.\<close>

fun member_of :: "jsval \<Rightarrow> string \<Rightarrow> jsval" where
  "member_of (JObj fs) k = field_of fs k"
| "member_of _ k = JUndefined"

definition nullish :: "jsval \<Rightarrow> bool" where
  "nullish v = (v = JUndefined \<or> v = JNull)"

definition string_given :: "jsval \<Rightarrow> bool" where
  "string_given v = (truthy v \<and> typeof v = ''string'')"

fun text_of :: "jsval \<Rightarrow> string" where
  "text_of (JStr s) = s"
| "text_of _ = []"

definition is_space :: "char \<Rightarrow> bool" where
  "is_space c = (let n = (of_char c :: nat) in (9 \<le> n \<and> n \<le> 13) \<or> n = 32 \<or> n = 160)"

definition is_digit :: "char \<Rightarrow> bool" where
  "is_digit c = (let n = (of_char c :: nat) in 48 \<le> n \<and> n \<le> 57)"

text \<open>The class \<open>[a-zA-Z0-9_-]\<close>.\<close>

definition is_id_char :: "char \<Rightarrow> bool" where
  "is_id_char c = (let n = (of_char c :: nat) in
     is_digit c \<or> (65 \<le> n \<and> n \<le> 90) \<or> (97 \<le> n \<and> n \<le> 122) \<or> n = 95 \<or> n = 45)"

text \<open>The start \<open>/^\d+\.\d+\.\d+/\<close> of a text.\<close>

definition after_number :: "string \<Rightarrow> string option" where
  "after_number s = (case s of [] \<Rightarrow> None | c # _ \<Rightarrow> if is_digit c then Some (dropWhile is_digit s) else None)"

definition after_dot :: "string \<Rightarrow> string option" where
  "after_dot s = (case s of [] \<Rightarrow> None | c # cs \<Rightarrow> if c = CHR ''.'' then Some cs else None)"

definition semver_start :: "string \<Rightarrow> bool" where
  "semver_start s =
     (Option.bind (Option.bind (Option.bind (Option.bind (after_number s) after_dot) after_number) after_dot) after_number \<noteq> None)"

section \<open>Data\<close>

datatype plugin_status =
  PlDiscovered | PlLoading | PlLoaded | PlActive | PlInactive | PlFailed | PlUnloading | PlUnloaded

fun plugin_status_str :: "plugin_status \<Rightarrow> string" where
  "plugin_status_str PlDiscovered = ''discovered''"
| "plugin_status_str PlLoading = ''loading''"
| "plugin_status_str PlLoaded = ''loaded''"
| "plugin_status_str PlActive = ''active''"
| "plugin_status_str PlInactive = ''inactive''"
| "plugin_status_str PlFailed = ''failed''"
| "plugin_status_str PlUnloading = ''unloading''"
| "plugin_status_str PlUnloaded = ''unloaded''"

datatype validation_status = VsValid | VsInvalid | VsWarning

datatype plugin_message =
    Msg string
  | BadDependency string jsval
  | ValidationFailed "plugin_message list"
  | DuplicateCapabilities jsval "jsval list"
  | InvalidPluginText jsval "plugin_message list"
  | NotFoundText jsval
  | LoadFailedText jsval string plugin_message
  | RegisterFailed jsval plugin_message
  | NotReadable

text \<open>\<open>NotReadable\<close> stands for the text of a \<open>TypeError\<close> of the language. Exceptions, and their messages.\<close>

datatype plugin_error =
    PluginException string "jsval option" plugin_message
  | InvalidPlugin jsval "plugin_message list"
  | PluginLoad jsval string plugin_message
  | DuplicatePlugin jsval string jsval plugin_message
  | PluginNotFound jsval
  | PluginState jsval string string plugin_message
  | PluginTypeError

fun plugin_error_message :: "plugin_error \<Rightarrow> plugin_message" where
  "plugin_error_message (PluginException op i m) = m"
| "plugin_error_message (InvalidPlugin i es) = InvalidPluginText i es"
| "plugin_error_message (PluginLoad i path m) = LoadFailedText i path m"
| "plugin_error_message (DuplicatePlugin i c e m) = m"
| "plugin_error_message (PluginNotFound i) = NotFoundText i"
| "plugin_error_message (PluginState i c e m) = m"
| "plugin_error_message PluginTypeError = NotReadable"

text \<open>
  A factory: a value that is no object, or the members of one. What a call of \<open>getDefaultConfig\<close> does is
  part of it, an error message or a value.
\<close>

datatype factory_member = NoFunction jsval | Function

datatype plugin_factory =
    NoFactory jsval
  | Factory (createAgent: factory_member) (validateConfig: factory_member) (getDefaultConfig: factory_member)
      (defaultConfig: "string + jsval")

record plugin_descriptor =
  pd_id :: jsval
  pd_name :: jsval
  pd_version :: jsval
  pd_status :: plugin_status
  pd_metadata :: js_record
  pd_capabilities :: js_record
  pd_factory :: plugin_factory
  pd_sourcePath :: string
  pd_sourceType :: string
  pd_loadedAt :: "time_ms option"
  pd_lastUsed :: "time_ms option"
  pd_usageCount :: nat
  pd_loadTime :: "int option"
  pd_errors :: "plugin_message list"
  pd_warnings :: "plugin_message list"
  pd_agentInstance :: "agent option"

record plugin_checks =
  ck_metadataValid :: bool
  ck_capabilitiesValid :: bool
  ck_factoryValid :: bool
  ck_configSchemaValid :: bool
  ck_dependenciesResolved :: bool
  ck_duplicateId :: bool
  ck_duplicateName :: bool
  ck_duplicateCapabilities :: "jsval list"

record plugin_validation =
  pv_status :: validation_status
  pv_isValid :: bool
  pv_errors :: "plugin_message list"
  pv_warnings :: "plugin_message list"
  pv_checks :: plugin_checks

section \<open>Validation\<close>

text \<open>A part of the validation: its errors and its warnings, in the order in which they are pushed.\<close>

definition complain :: "bool \<Rightarrow> string \<Rightarrow> plugin_message list" where
  "complain b m = (if b then [Msg m] else [])"

definition id_errors :: "jsval \<Rightarrow> plugin_message list" where
  "id_errors v =
     (if \<not> string_given v \<or> list_all is_space (text_of v)
      then [Msg ''Plugin ID is required and must be a non-empty string'']
      else complain (\<not> list_all is_id_char (text_of v))
             ''Plugin ID must contain only alphanumeric characters, hyphens, and underscores'')"

text \<open>\<open>is_url\<close>: whether the constructor of \<open>URL\<close> accepts a text.\<close>

definition validateMetadata :: "(string \<Rightarrow> bool) \<Rightarrow> js_record \<Rightarrow> plugin_message list \<times> plugin_message list" where
  "validateMetadata is_url m =
     (id_errors (field_of m ''id'')
        @ complain (\<not> string_given (field_of m ''name'') \<or> list_all is_space (text_of (field_of m ''name'')))
            ''Plugin name is required and must be a non-empty string''
        @ complain (\<not> string_given (field_of m ''version'')) ''Plugin version is required and must be a string''
        @ complain (\<not> truthy (field_of m ''agentType'')) ''Agent type is required''
        @ complain (\<not> truthy (field_of m ''priority'')) ''Agent priority is required''
        @ complain (\<not> is_date (field_of m ''createdAt'')) ''Plugin createdAt must be a valid Date''
        @ complain (\<not> is_date (field_of m ''updatedAt'')) ''Plugin updatedAt must be a valid Date'',
      complain (string_given (field_of m ''version'') \<and> \<not> semver_start (text_of (field_of m ''version'')))
          ''Plugin version should follow semantic versioning (x.y.z)''
        @ complain (\<not> string_given (field_of m ''description'')) ''Plugin description should be provided''
        @ complain (truthy (field_of m ''author'') \<and> typeof (field_of m ''author'') \<noteq> ''string'') ''Plugin author should be a string''
        @ complain (truthy (field_of m ''homepage'')
              \<and> (typeof (field_of m ''homepage'') \<noteq> ''string'' \<or> \<not> is_url (text_of (field_of m ''homepage''))))
            ''Plugin homepage should be a valid URL''
        @ complain (truthy (field_of m ''keywords'') \<and> \<not> is_array (field_of m ''keywords'')) ''Plugin keywords should be an array of strings'')"

definition capability_errors :: "nat \<Rightarrow> jsval \<Rightarrow> plugin_message list" where
  "capability_errors i c =
     (if \<not> truthy c \<or> typeof c \<noteq> ''object'' then [Msg (''Capability at index '' @ nat_digits i @ '' must be an object'')]
      else complain (\<not> string_given (member_of c ''name'')) (''Capability at index '' @ nat_digits i @ '' must have a valid name'')
         @ complain (\<not> string_given (member_of c ''description''))
             (''Capability at index '' @ nat_digits i @ '' must have a valid description''))"

fun each_capability :: "nat \<Rightarrow> jsval list \<Rightarrow> plugin_message list" where
  "each_capability i [] = []"
| "each_capability i (c # cs) = capability_errors i c @ each_capability (Suc i) cs"

text \<open>The check of an optional number: it is given, and no number or less than the least.\<close>

fun bad_number :: "int \<Rightarrow> jsval \<Rightarrow> bool" where
  "bad_number least JUndefined = False"
| "bad_number least (JNum n) = (n < least)"
| "bad_number least _ = True"

fun elements :: "jsval \<Rightarrow> jsval list" where
  "elements (JArr vs) = vs"
| "elements _ = []"

definition validateCapabilities :: "js_record \<Rightarrow> plugin_message list \<times> plugin_message list" where
  "validateCapabilities c =
     ((if is_array (field_of c ''capabilities'') then each_capability 0 (elements (field_of c ''capabilities''))
       else [Msg ''Plugin capabilities must be an array''])
        @ complain (\<not> is_array (field_of c ''supportedInputTypes'')) ''Supported input types must be an array''
        @ complain (\<not> is_array (field_of c ''supportedOutputTypes'')) ''Supported output types must be an array''
        @ complain (bad_number 1 (field_of c ''maxConcurrentExecutions'')) ''Max concurrent executions must be a positive number''
        @ complain (bad_number 0 (field_of c ''timeoutMs'')) ''Timeout must be a non-negative number''
        @ complain (bad_number 0 (field_of c ''retryAttempts'')) ''Retry attempts must be a non-negative number'',
      complain (field_of c ''capabilities'' = JArr []) ''Plugin has no capabilities defined''
        @ complain (field_of c ''supportedInputTypes'' = JArr []) ''Plugin has no supported input types''
        @ complain (field_of c ''supportedOutputTypes'' = JArr []) ''Plugin has no supported output types'')"

fun is_function :: "factory_member \<Rightarrow> bool" where
  "is_function Function = True"
| "is_function (NoFunction v) = False"

fun member_given :: "factory_member \<Rightarrow> bool" where
  "member_given Function = True"
| "member_given (NoFunction v) = truthy v"

text \<open>The call of \<open>getDefaultConfig\<close>: a member that is no function cannot be called.\<close>

definition default_config_warnings :: "factory_member \<Rightarrow> string + jsval \<Rightarrow> plugin_message list" where
  "default_config_warnings g out =
     (if \<not> member_given g then []
      else if \<not> is_function g then [Msg ''Factory getDefaultConfig threw an error: factory.getDefaultConfig is not a function'']
      else case out of
             Inl e \<Rightarrow> [Msg (''Factory getDefaultConfig threw an error: '' @ e)]
           | Inr v \<Rightarrow> complain (truthy v \<and> typeof v \<noteq> ''object'') ''Factory getDefaultConfig should return an object'')"

fun validateFactory :: "plugin_factory \<Rightarrow> plugin_message list \<times> plugin_message list" where
  "validateFactory (NoFactory v) = ([Msg ''Plugin factory must be an object''], [])"
| "validateFactory (Factory create check get out) =
     (complain (\<not> is_function create) ''Plugin factory must have a createAgent method'',
      complain (member_given check \<and> \<not> is_function check) ''Plugin factory validateConfig should be a function''
        @ complain (member_given get \<and> \<not> is_function get) ''Plugin factory getDefaultConfig should be a function''
        @ default_config_warnings get out)"

text \<open>\<open>Object.entries\<close> of the dependencies: an array has its indices as keys, and so has a text.\<close>

fun entries_of :: "jsval \<Rightarrow> (string \<times> jsval) list" where
  "entries_of (JObj fs) = fs"
| "entries_of (JArr vs) = map (\<lambda>(i, v). (nat_digits i, v)) (List.enumerate 0 vs)"
| "entries_of (JStr s) = map (\<lambda>(i, c). (nat_digits i, JStr [c])) (List.enumerate 0 s)"
| "entries_of _ = []"

definition dependency_errors :: "jsval \<Rightarrow> plugin_message list" where
  "dependency_errors d =
     (if truthy d
      then concat (map (\<lambda>(k, v). if \<not> string_given v then [BadDependency k v] else []) (entries_of d))
      else [])"

definition schema_errors :: "jsval \<Rightarrow> plugin_message list" where
  "schema_errors s = complain (truthy s \<and> typeof s \<noteq> ''object'') ''Configuration schema must be an object''"

definition plugin_validate :: "(string \<Rightarrow> bool) \<Rightarrow> plugin_descriptor \<Rightarrow> plugin_validation" where
  "plugin_validate is_url p =
     (let (me, mw) = validateMetadata is_url (pd_metadata p); (ce, cw) = validateCapabilities (pd_capabilities p);
          (fe, fw) = validateFactory (pd_factory p); se = schema_errors (field_of (pd_metadata p) ''configSchema'');
          de = dependency_errors (field_of (pd_metadata p) ''dependencies'');
          errors = me @ ce @ fe @ se @ de; warnings = mw @ cw @ fw
      in \<lparr>pv_status = (if errors = [] then (if warnings \<noteq> [] then VsWarning else VsValid) else VsInvalid),
          pv_isValid = (errors = []), pv_errors = errors, pv_warnings = warnings,
          pv_checks = \<lparr>ck_metadataValid = (me = []), ck_capabilitiesValid = (ce = []), ck_factoryValid = (fe = []),
             ck_configSchemaValid = (se = []), ck_dependenciesResolved = (de = []), ck_duplicateId = False,
             ck_duplicateName = False, ck_duplicateCapabilities = []\<rparr>\<rparr>)"

section \<open>Duplicates\<close>

text \<open>\<open>capabilities.capabilities.map(cap => cap.name)\<close>, \<open>None\<close>: a \<open>TypeError\<close>.\<close>

definition capability_names :: "js_record \<Rightarrow> jsval list option" where
  "capability_names c =
     (case field_of c ''capabilities'' of
        JArr vs \<Rightarrow> if list_ex nullish vs then None else Some (map (\<lambda>v. member_of v ''name'') vs)
      | _ \<Rightarrow> None)"

definition add_duplicates :: "jsval list \<Rightarrow> jsval list \<Rightarrow> jsval list \<Rightarrow> jsval list" where
  "add_duplicates existing new found =
     fold (\<lambda>c acc. if c \<in> set existing \<and> c \<notin> set acc then acc @ [c] else acc) new found"

record duplicate_check =
  dc_id :: bool
  dc_name :: bool
  dc_capabilities :: "jsval list"

definition no_duplicates :: duplicate_check where
  "no_duplicates = \<lparr>dc_id = False, dc_name = False, dc_capabilities = []\<rparr>"

fun check_duplicates :: "plugin_descriptor \<Rightarrow> plugin_descriptor list \<Rightarrow> duplicate_check \<Rightarrow> duplicate_check option" where
  "check_duplicates p [] d = Some d"
| "check_duplicates p (e # es) d =
     (if pd_id e = pd_id p \<and> pd_sourcePath e = pd_sourcePath p then check_duplicates p es d
      else case capability_names (pd_capabilities e) of
        None \<Rightarrow> None
      | Some theirs \<Rightarrow> (case capability_names (pd_capabilities p) of
            None \<Rightarrow> None
          | Some ours \<Rightarrow> check_duplicates p es
              \<lparr>dc_id = (dc_id d \<or> pd_id e = pd_id p), dc_name = (dc_name d \<or> pd_name e = pd_name p),
               dc_capabilities = add_duplicates theirs ours (dc_capabilities d)\<rparr>))"

definition checkDuplicates :: "plugin_descriptor \<Rightarrow> plugin_descriptor list \<Rightarrow> duplicate_check option" where
  "checkDuplicates p existing = check_duplicates p existing no_duplicates"

end
