(* ===== verification/Plugin_Registry.thy ===== *)
theory Plugin_Registry
  imports Plugin_Validator Complex_Main
begin

text \<open>
  The class \<open>PluginRegistry\<close> (\<open>agents/plugins/plugin-registry.ts\<close>).

  Descriptors are objects that the loader, its callers and the registry share, so the state has a list of
  all of them and the map of plugins holds positions in it. A registration reads the maps, waits for the
  validation, reads them again, waits, and writes: it is three steps, between which others may run.
\<close>

record plugin_registry =
  pr_objects :: "plugin_descriptor list"
  pr_plugins :: "(jsval, nat) js_map"
  pr_byName :: "(jsval, jsval) js_map"
  pr_errors :: "plugin_message list"
  pr_warnings :: "plugin_message list"

definition new_plugin_registry :: plugin_registry where
  "new_plugin_registry = \<lparr>pr_objects = [], pr_plugins = [], pr_byName = [], pr_errors = [], pr_warnings = []\<rparr>"

definition plugin_at :: "plugin_registry \<Rightarrow> nat \<Rightarrow> plugin_descriptor" where
  "plugin_at r a = pr_objects r ! a"

definition put_plugin :: "nat \<Rightarrow> plugin_descriptor \<Rightarrow> plugin_registry \<Rightarrow> plugin_registry" where
  "put_plugin a p r = r\<lparr>pr_objects := (pr_objects r)[a := p]\<rparr>"

definition all_plugins :: "plugin_registry \<Rightarrow> plugin_descriptor list" where
  "all_plugins r = map (plugin_at r) (js_values (pr_plugins r))"

section \<open>Registration\<close>

definition plugin_register_begin :: "nat \<Rightarrow> plugin_registry \<Rightarrow> plugin_error option" where
  "plugin_register_begin a r =
     (let p = plugin_at r a in
      if js_has (pr_plugins r) (pd_id p)
      then Some (DuplicatePlugin (pd_id p) ''id'' (pd_id p) (Msg ''Plugin with this ID already exists''))
      else case js_get (pr_byName r) (pd_name p) of
             Some i \<Rightarrow> Some (DuplicatePlugin (pd_name p) ''name'' (if truthy i then i else JStr ''unknown'')
                               (Msg ''Plugin with this name already exists''))
           | None \<Rightarrow> None)"

text \<open>The check that follows the validation, with the capabilities that others have too.\<close>

definition plugin_register_check :: "(string \<Rightarrow> bool) \<Rightarrow> nat \<Rightarrow> plugin_registry \<Rightarrow> plugin_error + jsval list" where
  "plugin_register_check is_url a r =
     (let p = plugin_at r a; v = plugin_validate is_url p in
      if \<not> pv_isValid v then Inl (DuplicatePlugin (pd_id p) ''id'' (pd_id p) (ValidationFailed (pv_errors v)))
      else case checkDuplicates p (all_plugins r) of
             None \<Rightarrow> Inl PluginTypeError
           | Some d \<Rightarrow> Inr (dc_capabilities d))"

definition plugin_register_commit :: "nat \<Rightarrow> jsval list \<Rightarrow> plugin_registry \<Rightarrow> plugin_registry" where
  "plugin_register_commit a caps r =
     (let p = plugin_at r a;
          r1 = (if caps \<noteq> [] then r\<lparr>pr_warnings := pr_warnings r @ [DuplicateCapabilities (pd_id p) caps]\<rparr> else r)
      in (put_plugin a (p\<lparr>pd_status := PlDiscovered\<rparr>) r1)
           \<lparr>pr_plugins := js_set (pd_id p) a (pr_plugins r), pr_byName := js_set (pd_name p) (pd_id p) (pr_byName r)\<rparr>)"

text \<open>A registration that nothing interrupts.\<close>

definition plugin_register ::
  "(string \<Rightarrow> bool) \<Rightarrow> nat \<Rightarrow> plugin_registry \<Rightarrow> plugin_registry \<times> (plugin_error + unit)" where
  "plugin_register is_url a r =
     (case plugin_register_begin a r of
        Some e \<Rightarrow> (r, Inl e)
      | None \<Rightarrow> (case plugin_register_check is_url a r of
            Inl e \<Rightarrow> (r, Inl e)
          | Inr caps \<Rightarrow> (plugin_register_commit a caps r, Inr ())))"

definition plugin_unregister :: "jsval \<Rightarrow> plugin_registry \<Rightarrow> plugin_registry \<times> (plugin_error + bool)" where
  "plugin_unregister i r =
     (case js_get (pr_plugins r) i of
        None \<Rightarrow> (r, Inr False)
      | Some a \<Rightarrow>
          if pd_status (plugin_at r a) = PlActive
          then (r, Inl (PluginState i ''active'' ''inactive'' (Msg ''Cannot unregister active plugin'')))
          else (r\<lparr>pr_byName := js_delete (pd_name (plugin_at r a)) (pr_byName r),
                  pr_plugins := js_delete i (pr_plugins r)\<rparr>, Inr True))"

definition plugin_clear :: "plugin_registry \<Rightarrow> plugin_registry \<times> (plugin_error + unit)" where
  "plugin_clear r =
     (let active = length (filter (\<lambda>p. pd_status p = PlActive) (all_plugins r)) in
      if active > 0
      then (r, Inl (PluginState (JStr ''registry'') ''has-active-plugins'' ''no-active-plugins''
              (Msg (''Cannot clear registry with '' @ nat_digits active @ '' active plugins''))))
      else (r\<lparr>pr_plugins := [], pr_byName := [], pr_errors := [], pr_warnings := []\<rparr>, Inr ()))"

section \<open>Queries\<close>

definition plugin_find :: "jsval \<Rightarrow> plugin_registry \<Rightarrow> nat option" where
  "plugin_find i r = js_get (pr_plugins r) i"

definition plugin_findByName :: "jsval \<Rightarrow> plugin_registry \<Rightarrow> nat option" where
  "plugin_findByName n r =
     (case js_get (pr_byName r) n of
        None \<Rightarrow> None
      | Some i \<Rightarrow> if truthy i then js_get (pr_plugins r) i else None)"

definition plugin_list :: "plugin_registry \<Rightarrow> nat list" where
  "plugin_list r = js_values (pr_plugins r)"

definition plugin_listByStatus :: "plugin_status \<Rightarrow> plugin_registry \<Rightarrow> nat list" where
  "plugin_listByStatus s r = filter (\<lambda>a. pd_status (plugin_at r a) = s) (js_values (pr_plugins r))"

definition plugin_exists :: "jsval \<Rightarrow> plugin_registry \<Rightarrow> bool" where
  "plugin_exists i r = js_has (pr_plugins r) i"

definition plugin_count :: "plugin_registry \<Rightarrow> nat" where
  "plugin_count r = length (pr_plugins r)"

section \<open>Status\<close>

definition with_status :: "time_ms \<Rightarrow> plugin_status \<Rightarrow> plugin_descriptor \<Rightarrow> plugin_descriptor" where
  "with_status now s p =
     (let p1 = p\<lparr>pd_status := s\<rparr>;
          p2 = (if s = PlLoaded \<and> pd_status p \<noteq> PlLoaded then p1\<lparr>pd_loadedAt := Some now\<rparr> else p1)
      in if s = PlActive \<and> pd_status p \<noteq> PlActive then p2\<lparr>pd_lastUsed := Some now\<rparr> else p2)"

definition plugin_updateStatus ::
  "time_ms \<Rightarrow> jsval \<Rightarrow> plugin_status \<Rightarrow> plugin_registry \<Rightarrow> plugin_registry \<times> (plugin_error + unit)" where
  "plugin_updateStatus now i s r =
     (case js_get (pr_plugins r) i of
        None \<Rightarrow> (r, Inl (PluginNotFound i))
      | Some a \<Rightarrow> (put_plugin a (with_status now s (plugin_at r a)) r, Inr ()))"

definition plugin_getStatus :: "jsval \<Rightarrow> plugin_registry \<Rightarrow> plugin_error + plugin_status" where
  "plugin_getStatus i r =
     (case js_get (pr_plugins r) i of
        None \<Rightarrow> Inl (PluginNotFound i)
      | Some a \<Rightarrow> Inr (pd_status (plugin_at r a)))"

definition plugin_getUsageStats :: "jsval \<Rightarrow> plugin_registry \<Rightarrow> plugin_error + (nat \<times> time_ms option \<times> int option)" where
  "plugin_getUsageStats i r =
     (case js_get (pr_plugins r) i of
        None \<Rightarrow> Inl (PluginNotFound i)
      | Some a \<Rightarrow> (let p = plugin_at r a in Inr (pd_usageCount p, pd_lastUsed p, pd_loadTime p)))"

definition plugin_incrementUsage :: "time_ms \<Rightarrow> jsval \<Rightarrow> plugin_registry \<Rightarrow> plugin_registry \<times> (plugin_error + unit)" where
  "plugin_incrementUsage now i r =
     (case js_get (pr_plugins r) i of
        None \<Rightarrow> (r, Inl (PluginNotFound i))
      | Some a \<Rightarrow>
          (let p = plugin_at r a in
           (put_plugin a (p\<lparr>pd_usageCount := pd_usageCount p + 1, pd_lastUsed := Some now\<rparr>) r, Inr ())))"

section \<open>Validation of registered plugins\<close>

definition plugin_revalidate :: "(string \<Rightarrow> bool) \<Rightarrow> jsval \<Rightarrow> plugin_registry \<Rightarrow> plugin_error + plugin_validation" where
  "plugin_revalidate is_url i r =
     (case js_get (pr_plugins r) i of
        None \<Rightarrow> Inl (PluginNotFound i)
      | Some a \<Rightarrow>
          (let p = plugin_at r a; v = plugin_validate is_url p in
           case checkDuplicates p (all_plugins r) of
             None \<Rightarrow> Inl PluginTypeError
           | Some d \<Rightarrow> Inr (v\<lparr>pv_checks := (pv_checks v)\<lparr>ck_duplicateId := dc_id d, ck_duplicateName := dc_name d,
                                ck_duplicateCapabilities := dc_capabilities d\<rparr>\<rparr>)))"

definition failed_validation :: "plugin_error \<Rightarrow> plugin_validation" where
  "failed_validation e =
     \<lparr>pv_status = VsInvalid, pv_isValid = False, pv_errors = [plugin_error_message e], pv_warnings = [],
      pv_checks = \<lparr>ck_metadataValid = False, ck_capabilitiesValid = False, ck_factoryValid = False,
         ck_configSchemaValid = False, ck_dependenciesResolved = False, ck_duplicateId = False,
         ck_duplicateName = False, ck_duplicateCapabilities = []\<rparr>\<rparr>"

definition plugin_validateAll :: "(string \<Rightarrow> bool) \<Rightarrow> plugin_registry \<Rightarrow> (jsval, plugin_validation) js_map" where
  "plugin_validateAll is_url r =
     fold (\<lambda>i. js_set i (case plugin_revalidate is_url i r of Inl e \<Rightarrow> failed_validation e | Inr v \<Rightarrow> v))
       (js_keys (pr_plugins r)) []"

section \<open>Health\<close>

record plugin_health =
  ph_status :: health_status
  ph_totalPlugins :: nat
  ph_loadedPlugins :: nat
  ph_activePlugins :: nat
  ph_failedPlugins :: nat
  ph_averageLoadTime :: real
  ph_totalUsageCount :: nat
  ph_recentErrors :: "plugin_message list"
  ph_recentWarnings :: "plugin_message list"
  ph_metadata :: "(string, nat) js_map"

definition count_status :: "plugin_status list \<Rightarrow> plugin_descriptor list \<Rightarrow> nat" where
  "count_status ss ps = length (filter (\<lambda>p. pd_status p \<in> set ss) ps)"

definition average_load_time :: "plugin_descriptor list \<Rightarrow> real" where
  "average_load_time ps =
     (let ts = concat (map (\<lambda>p. case pd_loadTime p of None \<Rightarrow> [] | Some t \<Rightarrow> [t]) ps) in
      if length ts > 0 then real_of_int (sum_list ts) / real (length ts) else 0)"

definition all_plugin_errors :: "plugin_registry \<Rightarrow> plugin_message list" where
  "all_plugin_errors r = concat (map pd_errors (all_plugins r)) @ pr_errors r"

definition all_plugin_warnings :: "plugin_registry \<Rightarrow> plugin_message list" where
  "all_plugin_warnings r = concat (map pd_warnings (all_plugins r)) @ pr_warnings r"

definition plugin_health_of :: "plugin_registry \<Rightarrow> plugin_health" where
  "plugin_health_of r =
     (let ps = all_plugins r; total = length ps; active = count_status [PlActive] ps;
          failed = count_status [PlFailed] ps; es = all_plugin_errors r; ws = all_plugin_warnings r
      in \<lparr>ph_status = (if failed > 0 \<or> es \<noteq> [] then Unhealthy
                       else if ws \<noteq> [] \<or> (total > 0 \<and> active = 0) then Degraded else Healthy),
          ph_totalPlugins = total, ph_loadedPlugins = count_status [PlLoaded, PlActive] ps,
          ph_activePlugins = active, ph_failedPlugins = failed, ph_averageLoadTime = average_load_time ps,
          ph_totalUsageCount = sum_list (map pd_usageCount ps),
          ph_recentErrors = slice_last 10 es, ph_recentWarnings = slice_last 10 ws,
          ph_metadata = [(''registrySize'', total), (''uniqueNames'', length (pr_byName r)),
                         (''errorCount'', length (pr_errors r)), (''warningCount'', length (pr_warnings r))]\<rparr>)"

end
