(* ===== verification/Plugin_Loader.thy ===== *)
theory Plugin_Loader
  imports Plugin_Registry Agent_Registry
begin

text \<open>
  The class \<open>PluginLoader\<close> (\<open>agents/plugins/plugin-loader.ts\<close>): discovery in the file system, loading
  and unloading.

  The file system, the path functions, the import of a module and the regular expressions of the
  language are the fields of \<open>file_system\<close>. An agent is created and shut down with outcomes that are arguments; what a
  load waits for does not touch the plugin unless somebody else does, so a load is one function.
\<close>

section \<open>State and surroundings\<close>

record plugin_exports =
  px_metadata :: js_record
  px_capabilities :: js_record
  px_factory :: plugin_factory

text \<open>What an import gives: an error, or the three exports, each absent or not.\<close>

type_synonym imported_module = "string + (js_record option \<times> js_record option \<times> plugin_factory option)"

datatype entry_kind = EntryFile | EntryDirectory | EntryLink | EntryOther

record file_system =
  fs_resolve :: "string \<Rightarrow> string"
  fs_join :: "string \<Rightarrow> string \<Rightarrow> string"
  fs_extname :: "string \<Rightarrow> string"
  fs_stat :: "string \<Rightarrow> string + entry_kind"
  fs_readdir :: "string \<Rightarrow> string + (string \<times> entry_kind) list"
  fs_realpath :: "string \<Rightarrow> string + string"
  fs_import :: "string \<Rightarrow> imported_module"
  fs_regex :: "string \<Rightarrow> string \<Rightarrow> string + bool"

record discovery_options =
  do_searchPaths :: "string list"
  do_includePatterns :: "string list option"
  do_excludePatterns :: "string list option"
  do_recursive :: "bool option"
  do_maxDepth :: "int option"
  do_followSymlinks :: bool
  do_validateOnDiscovery :: bool

record load_options =
  lo_validateBeforeLoad :: "bool option"
  lo_autoRegister :: "bool option"
  lo_overwriteExisting :: bool

record plugin_loader =
  pl_registry :: plugin_registry
  pl_agents :: "agent_registry option"
  pl_errors :: "plugin_message list"
  pl_warnings :: "plugin_message list"

definition new_plugin_loader :: "agent_registry option \<Rightarrow> plugin_loader" where
  "new_plugin_loader agents = \<lparr>pl_registry = new_plugin_registry, pl_agents = agents, pl_errors = [], pl_warnings = []\<rparr>"

definition warn :: "plugin_message \<Rightarrow> plugin_loader \<Rightarrow> plugin_loader" where
  "warn m l = l\<lparr>pl_warnings := pl_warnings l @ [m]\<rparr>"

definition blame :: "plugin_message \<Rightarrow> plugin_loader \<Rightarrow> plugin_loader" where
  "blame m l = l\<lparr>pl_errors := pl_errors l @ [m]\<rparr>"

definition loaded_plugin :: "plugin_loader \<Rightarrow> nat \<Rightarrow> plugin_descriptor" where
  "loaded_plugin l a = plugin_at (pl_registry l) a"

definition put_loaded :: "nat \<Rightarrow> plugin_descriptor \<Rightarrow> plugin_loader \<Rightarrow> plugin_loader" where
  "put_loaded a p l = l\<lparr>pl_registry := put_plugin a p (pl_registry l)\<rparr>"

section \<open>Patterns\<close>

definition pattern_char :: "char \<Rightarrow> string" where
  "pattern_char c = (if c = CHR ''.'' then [CHR 0x5C, CHR ''.''] else if c = CHR ''*'' then ''.*'' else if c = CHR ''?'' then ''.'' else [c])"

definition matchesPattern :: "file_system \<Rightarrow> string \<Rightarrow> string \<Rightarrow> string + bool" where
  "matchesPattern fs name pattern = fs_regex fs (CHR 0x5E # concat (map pattern_char pattern) @ ''$'') name"

text \<open>A loop over patterns that ends at the first that matches, or throws.\<close>

fun any_pattern :: "file_system \<Rightarrow> string \<Rightarrow> string list \<Rightarrow> string + bool" where
  "any_pattern fs name [] = Inr False"
| "any_pattern fs name (p # ps) =
     (case matchesPattern fs name p of
        Inl e \<Rightarrow> Inl e
      | Inr b \<Rightarrow> if b then Inr True else any_pattern fs name ps)"

definition matchesPatterns :: "file_system \<Rightarrow> string \<Rightarrow> string list option \<Rightarrow> string list option \<Rightarrow> string + bool" where
  "matchesPatterns fs name inc exc =
     (case any_pattern fs name (case exc of None \<Rightarrow> [] | Some ps \<Rightarrow> ps) of
        Inl e \<Rightarrow> Inl e
      | Inr True \<Rightarrow> Inr False
      | Inr False \<Rightarrow> (case inc of
            None \<Rightarrow> Inr True
          | Some ps \<Rightarrow> if ps = [] then Inr True else any_pattern fs name ps))"

section \<open>Discovery\<close>

definition loadPluginExports :: "file_system \<Rightarrow> string \<Rightarrow> string + plugin_exports" where
  "loadPluginExports fs path =
     (case fs_import fs path of
        Inl e \<Rightarrow> Inl (''Failed to load plugin exports: '' @ e)
      | Inr (Some m, Some c, Some f) \<Rightarrow> Inr \<lparr>px_metadata = m, px_capabilities = c, px_factory = f\<rparr>
      | Inr _ \<Rightarrow> Inl ''Failed to load plugin exports: Plugin must export metadata, capabilities, and factory'')"

definition new_descriptor :: "string \<Rightarrow> plugin_exports \<Rightarrow> plugin_descriptor" where
  "new_descriptor path x =
     \<lparr>pd_id = field_of (px_metadata x) ''id'', pd_name = field_of (px_metadata x) ''name'', pd_version = field_of (px_metadata x) ''version'',
      pd_status = PlDiscovered, pd_metadata = px_metadata x, pd_capabilities = px_capabilities x, pd_factory = px_factory x,
      pd_sourcePath = path, pd_sourceType = ''file'', pd_loadedAt = None, pd_lastUsed = None, pd_usageCount = 0,
      pd_loadTime = None, pd_errors = [], pd_warnings = [], pd_agentInstance = None\<rparr>"

text \<open>The plugins found so far are positions of the descriptors they got.\<close>

definition loadPluginFromFile :: "file_system \<Rightarrow> string \<Rightarrow> plugin_loader \<Rightarrow> plugin_loader \<times> nat list" where
  "loadPluginFromFile fs path l =
     (if fs_extname fs path \<notin> {''.js'', ''.mjs'', ''.ts''} then (l, [])
      else case loadPluginExports fs path of
             Inl e \<Rightarrow> (warn (Msg (''Failed to load plugin from '' @ sq path @ '': '' @ e)) l, [])
           | Inr x \<Rightarrow>
               (l\<lparr>pl_registry := (pl_registry l)\<lparr>pr_objects := pr_objects (pl_registry l) @ [new_descriptor path x]\<rparr>\<rparr>,
                [length (pr_objects (pl_registry l))]))"

text \<open>
  The loop over the entries of a directory. \<open>visit_path\<close> is the recursive call, whose result is \<open>None\<close>
  when it does not end; an exception of the loop is a message, beside what was found before it.
\<close>

type_synonym visit_result = "(plugin_loader \<times> nat list) option"

fun scan_entries ::
  "file_system \<Rightarrow> discovery_options \<Rightarrow> (string \<Rightarrow> plugin_loader \<Rightarrow> visit_result) \<Rightarrow> string \<Rightarrow> (string \<times> entry_kind) list
     \<Rightarrow> plugin_loader \<Rightarrow> nat list \<Rightarrow> (plugin_loader \<times> nat list \<times> string option) option" where
  "scan_entries fs opts visit_path dir [] l found = Some (l, found, None)"
| "scan_entries fs opts visit_path dir ((name, kind) # es) l found =
     (let path = fs_join fs dir name in
      case matchesPatterns fs name (do_includePatterns opts) (do_excludePatterns opts) of
        Inl e \<Rightarrow> Some (l, found, Some e)
      | Inr False \<Rightarrow> scan_entries fs opts visit_path dir es l found
      | Inr True \<Rightarrow>
          if kind = EntryFile
          then (case loadPluginFromFile fs path l of (l1, new) \<Rightarrow> scan_entries fs opts visit_path dir es l1 (found @ new))
          else if kind = EntryDirectory \<and> do_recursive opts \<noteq> Some False
          then (case visit_path path l of
                  None \<Rightarrow> None
                | Some (l1, new) \<Rightarrow> scan_entries fs opts visit_path dir es l1 (found @ new))
          else if kind = EntryLink \<and> do_followSymlinks opts
          then (case fs_realpath fs path of
                  Inl e \<Rightarrow> Some (l, found, Some e)
                | Inr target \<Rightarrow> (case visit_path target l of
                      None \<Rightarrow> None
                    | Some (l1, new) \<Rightarrow> scan_entries fs opts visit_path dir es l1 (found @ new)))
          else scan_entries fs opts visit_path dir es l found)"

definition access_warning :: "string \<Rightarrow> string \<Rightarrow> plugin_message" where
  "access_warning path e = Msg (''Failed to access path '' @ sq path @ '': '' @ e)"

text \<open>\<open>fuel\<close> bounds the nesting of the calls, \<open>None\<close> is no result within it.\<close>

primrec discoverInPath ::
  "nat \<Rightarrow> file_system \<Rightarrow> discovery_options \<Rightarrow> int \<Rightarrow> string \<Rightarrow> plugin_loader \<Rightarrow> visit_result" where
  "discoverInPath 0 fs opts depth path l = None"
| "discoverInPath (Suc n) fs opts depth path l =
     (if (case do_maxDepth opts of None \<Rightarrow> False | Some d \<Rightarrow> depth \<ge> d) then Some (l, [])
      else case fs_stat fs (fs_resolve fs path) of
             Inl e \<Rightarrow> Some (warn (access_warning path e) l, [])
           | Inr EntryFile \<Rightarrow> Some (loadPluginFromFile fs (fs_resolve fs path) l)
           | Inr EntryDirectory \<Rightarrow>
               (case fs_readdir fs (fs_resolve fs path) of
                  Inl e \<Rightarrow> Some (warn (access_warning path e) l, [])
                | Inr es \<Rightarrow>
                    (case scan_entries fs opts (\<lambda>p l. discoverInPath n fs opts (depth + 1) p l) (fs_resolve fs path) es l [] of
                       None \<Rightarrow> None
                     | Some (l1, found, None) \<Rightarrow> Some (l1, found)
                     | Some (l1, found, Some e) \<Rightarrow> Some (warn (access_warning path e) l1, found)))
           | Inr _ \<Rightarrow> Some (l, []))"

text \<open>The paths are searched first, then all that was found is registered.\<close>

fun search_paths :: "nat \<Rightarrow> file_system \<Rightarrow> discovery_options \<Rightarrow> string list \<Rightarrow> plugin_loader \<Rightarrow> nat list \<Rightarrow> visit_result" where
  "search_paths fuel fs opts [] l found = Some (l, found)"
| "search_paths fuel fs opts (p # ps) l found =
     (case discoverInPath fuel fs opts 0 p l of
        None \<Rightarrow> None
      | Some (l1, new) \<Rightarrow> search_paths fuel fs opts ps l1 (found @ new))"

fun register_found ::
  "(string \<Rightarrow> bool) \<Rightarrow> discovery_options \<Rightarrow> nat list \<Rightarrow> plugin_loader \<Rightarrow> plugin_loader \<times> (plugin_error + unit)" where
  "register_found is_url opts [] l = (l, Inr ())"
| "register_found is_url opts (a # as) l =
     (case plugin_register is_url a (pl_registry l) of
        (r1, Inr u) \<Rightarrow> register_found is_url opts as (l\<lparr>pl_registry := r1\<rparr>)
      | (r1, Inl e) \<Rightarrow>
          (let i = pd_id (loaded_plugin l a); m = RegisterFailed i (plugin_error_message e); l1 = blame m (l\<lparr>pl_registry := r1\<rparr>)
           in if do_validateOnDiscovery opts then (l1, Inl (PluginException ''register'' (Some i) m))
              else register_found is_url opts as l1))"

definition discover_plugins ::
  "nat \<Rightarrow> (string \<Rightarrow> bool) \<Rightarrow> file_system \<Rightarrow> discovery_options \<Rightarrow> plugin_loader \<Rightarrow> (plugin_loader \<times> (plugin_error + nat list)) option" where
  "discover_plugins fuel is_url fs opts l =
     (case search_paths fuel fs opts (do_searchPaths opts) l [] of
        None \<Rightarrow> None
      | Some (l1, found) \<Rightarrow> (case register_found is_url opts found l1 of
            (l2, Inl e) \<Rightarrow> Some (l2, Inl e)
          | (l2, Inr u) \<Rightarrow> Some (l2, Inr found)))"

section \<open>Unloading\<close>

definition set_plugin_status :: "time_ms \<Rightarrow> jsval \<Rightarrow> plugin_status \<Rightarrow> plugin_loader \<Rightarrow> plugin_loader \<times> (plugin_error + unit)" where
  "set_plugin_status now i s l =
     (case plugin_updateStatus now i s (pl_registry l) of (r, out) \<Rightarrow> (l\<lparr>pl_registry := r\<rparr>, out))"

text \<open>\<open>shut\<close>: the outcome of the \<open>shutdown\<close> of the plugin's agent.\<close>

definition drop_agent :: "string option \<Rightarrow> jsval \<Rightarrow> agent option \<Rightarrow> plugin_loader \<Rightarrow> plugin_loader" where
  "drop_agent shut i inst l =
     (case (inst, pl_agents l) of
        (Some ag, Some reg) \<Rightarrow> (case remove_agent shut (ag_id ag) reg of
            (reg1, Inr u) \<Rightarrow> l\<lparr>pl_agents := Some reg1\<rparr>
          | (reg1, Inl e) \<Rightarrow> warn (Msg (''Failed to unregister agent for plugin '' @ sq (text_of i) @ '': '' @ err_message e))
                                 (l\<lparr>pl_agents := Some reg1\<rparr>))
      | _ \<Rightarrow> l)"

text \<open>The plugin has just been found, so the updates of its status cannot fail.\<close>

definition plugin_unload :: "time_ms \<Rightarrow> string option \<Rightarrow> jsval \<Rightarrow> plugin_loader \<Rightarrow> plugin_loader \<times> bool" where
  "plugin_unload now shut i l =
     (case plugin_find i (pl_registry l) of
        None \<Rightarrow> (l, False)
      | Some a \<Rightarrow>
          (let l1 = fst (set_plugin_status now i PlUnloading l);
               l2 = drop_agent shut i (pd_agentInstance (loaded_plugin l1 a)) l1;
               l3 = put_loaded a ((loaded_plugin l2 a)\<lparr>pd_agentInstance := None\<rparr>) l2
           in (fst (set_plugin_status now i PlUnloaded l3), True)))"

section \<open>Loading\<close>

text \<open>What a load meets: clock readings, the shutdown of an old agent, and what \<open>createAgent\<close> does.\<close>

record load_env =
  ln_url :: "string \<Rightarrow> bool"
  ln_start :: time_ms
  ln_end :: time_ms
  ln_shutdown :: "string option"
  ln_created :: "string + agent"

definition call_createAgent :: "load_env \<Rightarrow> plugin_factory \<Rightarrow> string + agent" where
  "call_createAgent env f =
     (case f of
        Factory Function check get out \<Rightarrow> ln_created env
      | _ \<Rightarrow> Inl ''plugin.factory.createAgent is not a function'')"

definition agent_failed :: "jsval \<Rightarrow> string \<Rightarrow> plugin_message" where
  "agent_failed i e = Msg (''Plugin '' @ sq (text_of i) @ '' loaded but agent registration failed: '' @ e)"

text \<open>The creation of the agent and its registration; a failure leaves the plugin loaded, with a warning.\<close>

definition start_agent :: "load_env \<Rightarrow> jsval \<Rightarrow> nat \<Rightarrow> agent_registry \<Rightarrow> plugin_loader \<Rightarrow> plugin_loader" where
  "start_agent env i a reg l =
     (case call_createAgent env (pd_factory (loaded_plugin l a)) of
        Inl e \<Rightarrow> warn (agent_failed i e) (fst (set_plugin_status (ln_end env) i PlLoaded l))
      | Inr ag \<Rightarrow>
          (let l1 = put_loaded a ((loaded_plugin l a)\<lparr>pd_agentInstance := Some ag\<rparr>) l in
           case register_agent ag reg of
             (reg1, Inr u) \<Rightarrow> fst (set_plugin_status (ln_end env) i PlActive (l1\<lparr>pl_agents := Some reg1\<rparr>))
           | (reg1, Inl e) \<Rightarrow> warn (agent_failed i (err_message e))
                 (fst (set_plugin_status (ln_end env) i PlLoaded (l1\<lparr>pl_agents := Some reg1\<rparr>)))))"

definition with_exports :: "load_env \<Rightarrow> plugin_exports \<Rightarrow> plugin_descriptor \<Rightarrow> plugin_descriptor" where
  "with_exports env x p =
     p\<lparr>pd_metadata := js_spread (pd_metadata p) (px_metadata x), pd_capabilities := px_capabilities x,
       pd_factory := px_factory x, pd_loadTime := Some (ln_end env - ln_start env)\<rparr>"

text \<open>The body of the \<open>try\<close>, whose exceptions are messages.\<close>

definition load_body ::
  "load_env \<Rightarrow> file_system \<Rightarrow> load_options \<Rightarrow> jsval \<Rightarrow> nat \<Rightarrow> plugin_loader \<Rightarrow> plugin_loader \<times> (plugin_message + unit)" where
  "load_body env fs opts i a l =
     (let l1 = fst (set_plugin_status (ln_start env) i PlLoading l);
          v = plugin_validate (ln_url env) (loaded_plugin l1 a)
      in if lo_validateBeforeLoad opts \<noteq> Some False \<and> \<not> pv_isValid v
         then (l1, Inl (InvalidPluginText i (pv_errors v)))
         else case loadPluginExports fs (pd_sourcePath (loaded_plugin l1 a)) of
                Inl e \<Rightarrow> (l1, Inl (Msg e))
              | Inr x \<Rightarrow>
                  (let l2 = put_loaded a (with_exports env x (loaded_plugin l1 a)) l1 in
                   case pl_agents l2 of
                     Some reg \<Rightarrow>
                       if lo_autoRegister opts \<noteq> Some False then (start_agent env i a reg l2, Inr ())
                       else (fst (set_plugin_status (ln_end env) i PlLoaded l2), Inr ())
                   | None \<Rightarrow> (fst (set_plugin_status (ln_end env) i PlLoaded l2), Inr ())))"

definition load_found ::
  "load_env \<Rightarrow> file_system \<Rightarrow> load_options \<Rightarrow> jsval \<Rightarrow> nat \<Rightarrow> plugin_loader \<Rightarrow> plugin_loader \<times> (plugin_error + nat)" where
  "load_found env fs opts i a l =
     (case load_body env fs opts i a l of
        (l1, Inr u) \<Rightarrow> (l1, Inr a)
      | (l1, Inl m) \<Rightarrow>
          (let l2 = fst (set_plugin_status (ln_end env) i PlFailed l1); p = loaded_plugin l2 a
           in (put_loaded a (p\<lparr>pd_errors := pd_errors p @ [m]\<rparr>) l2, Inl (PluginLoad i (pd_sourcePath p) m))))"

definition plugin_load ::
  "load_env \<Rightarrow> file_system \<Rightarrow> load_options \<Rightarrow> jsval \<Rightarrow> plugin_loader \<Rightarrow> plugin_loader \<times> (plugin_error + nat)" where
  "plugin_load env fs opts i l =
     (case plugin_find i (pl_registry l) of
        None \<Rightarrow> (l, Inl (PluginNotFound i))
      | Some a \<Rightarrow>
          if pd_status (loaded_plugin l a) = PlLoaded \<or> pd_status (loaded_plugin l a) = PlActive
          then (if \<not> lo_overwriteExisting opts
                then (l, Inl (PluginState i (plugin_status_str (pd_status (loaded_plugin l a))) ''unloaded'' (Msg ''Plugin is already loaded'')))
                else load_found env fs opts i a (fst (plugin_unload (ln_start env) (ln_shutdown env) i l)))
          else load_found env fs opts i a l)"

definition plugin_reload ::
  "load_env \<Rightarrow> file_system \<Rightarrow> load_options \<Rightarrow> jsval \<Rightarrow> plugin_loader \<Rightarrow> plugin_loader \<times> (plugin_error + nat)" where
  "plugin_reload env fs opts i l =
     plugin_load env fs opts i (fst (plugin_unload (ln_start env) (ln_shutdown env) i l))"

section \<open>Queries\<close>

definition loader_validate :: "(string \<Rightarrow> bool) \<Rightarrow> jsval \<Rightarrow> plugin_loader \<Rightarrow> plugin_error + bool" where
  "loader_validate is_url i l =
     (case plugin_revalidate is_url i (pl_registry l) of Inl e \<Rightarrow> Inl e | Inr v \<Rightarrow> Inr (pv_isValid v))"

definition loader_health :: "plugin_loader \<Rightarrow> plugin_health" where
  "loader_health l =
     (let h = plugin_health_of (pl_registry l) in
      h\<lparr>ph_recentErrors := ph_recentErrors h @ slice_last 5 (pl_errors l),
        ph_recentWarnings := ph_recentWarnings h @ slice_last 5 (pl_warnings l),
        ph_metadata := js_spread (ph_metadata h)
          [(''loaderErrors'', length (pl_errors l)), (''loaderWarnings'', length (pl_warnings l))]\<rparr>)"

end
