(* ===== verification/Plugin_Props.thy ===== *)
theory Plugin_Props
  imports Plugin_Loader "HOL-Library.Sublist"
begin

text \<open>
  What holds of plugins: the maps of the registry agree as long as registrations do not overlap, and
  what two that do leave behind; what a load does to a plugin and what it does not check; the
  health after a failure; and when a discovery ends.
\<close>

section \<open>Descriptors\<close>

lemma plugin_at_put [simp]:
  "a < length (pr_objects r) \<Longrightarrow> plugin_at (put_plugin a p r) b = (if b = a then p else plugin_at r b)"
  by (simp add: plugin_at_def put_plugin_def)

lemma put_plugin_maps [simp]:
  "pr_plugins (put_plugin a p r) = pr_plugins r" "pr_byName (put_plugin a p r) = pr_byName r"
  "length (pr_objects (put_plugin a p r)) = length (pr_objects r)"
  by (simp_all add: put_plugin_def)

lemma with_status_fields [simp]:
  "pd_status (with_status now s p) = s" "pd_id (with_status now s p) = pd_id p" "pd_name (with_status now s p) = pd_name p"
  "pd_metadata (with_status now s p) = pd_metadata p" "pd_capabilities (with_status now s p) = pd_capabilities p"
  "pd_factory (with_status now s p) = pd_factory p" "pd_sourcePath (with_status now s p) = pd_sourcePath p"
  "pd_errors (with_status now s p) = pd_errors p"
  by (simp_all add: with_status_def Let_def)

section \<open>The maps of the registry\<close>

text \<open>Every plugin is stored under its id, and the index holds exactly the names of the plugins.\<close>

definition plugins_agree :: "plugin_registry \<Rightarrow> bool" where
  "plugins_agree r \<longleftrightarrow> js_wf (pr_plugins r) \<and> js_wf (pr_byName r)
     \<and> (\<forall>i a. js_get (pr_plugins r) i = Some a \<longrightarrow>
          a < length (pr_objects r) \<and> pd_id (plugin_at r a) = i \<and> js_get (pr_byName r) (pd_name (plugin_at r a)) = Some i)
     \<and> (\<forall>n i. js_get (pr_byName r) n = Some i \<longrightarrow> (\<exists>a. js_get (pr_plugins r) i = Some a \<and> pd_name (plugin_at r a) = n))"

text \<open>Steps that do not overlap; \<open>assigned\<close> are the assignments of the loader to fields of a plugin.\<close>

inductive plugin_step :: "plugin_registry \<Rightarrow> plugin_registry \<Rightarrow> bool" where
  created: "plugin_step r (r\<lparr>pr_objects := pr_objects r @ [p]\<rparr>)"
| registered: "a < length (pr_objects r) \<Longrightarrow> plugin_step r (fst (plugin_register is_url a r))"
| unregistered: "plugin_step r (fst (plugin_unregister i r))"
| cleared: "plugin_step r (fst (plugin_clear r))"
| updated: "plugin_step r (fst (plugin_updateStatus now i s r))"
| used: "plugin_step r (fst (plugin_incrementUsage now i r))"
| assigned: "\<lbrakk>a < length (pr_objects r); pd_id p = pd_id (plugin_at r a); pd_name p = pd_name (plugin_at r a)\<rbrakk>
     \<Longrightarrow> plugin_step r (put_plugin a p r)"

lemma plugins_agreeD:
  assumes "plugins_agree r" "js_get (pr_plugins r) i = Some a"
  shows "a < length (pr_objects r)" "pd_id (plugin_at r a) = i" "js_get (pr_byName r) (pd_name (plugin_at r a)) = Some i"
  using assms by (auto simp: plugins_agree_def)

lemma agree_assign:
  assumes "plugins_agree r" "a < length (pr_objects r)" "pd_id p = pd_id (plugin_at r a)" "pd_name p = pd_name (plugin_at r a)"
  shows "plugins_agree (put_plugin a p r)"
  using assms unfolding plugins_agree_def by (simp, metis)

lemma agree_create: "plugins_agree r \<Longrightarrow> plugins_agree (r\<lparr>pr_objects := pr_objects r @ [p]\<rparr>)"
  unfolding plugins_agree_def plugin_at_def by (auto simp: nth_append) (metis nth_append less_SucI)+

lemma agree_commit:
  assumes "plugins_agree r" "a < length (pr_objects r)" "plugin_register_begin a r = None"
  shows "plugins_agree (plugin_register_commit a caps r)"
proof -
  have new: "js_get (pr_plugins r) (pd_id (plugin_at r a)) = None" "js_get (pr_byName r) (pd_name (plugin_at r a)) = None"
    using assms(3) by (auto simp: plugin_register_begin_def js_has_iff Let_def split: if_splits option.splits)
  let ?r = "plugin_register_commit a caps r"
  have maps: "pr_plugins ?r = js_set (pd_id (plugin_at r a)) a (pr_plugins r)"
      "pr_byName ?r = js_set (pd_name (plugin_at r a)) (pd_id (plugin_at r a)) (pr_byName r)"
      "length (pr_objects ?r) = length (pr_objects r)"
      "\<And>b. pd_id (plugin_at ?r b) = pd_id (plugin_at r b)" "\<And>b. pd_name (plugin_at ?r b) = pd_name (plugin_at r b)"
    using assms(2) by (auto simp: plugin_register_commit_def put_plugin_def plugin_at_def nth_list_update Let_def)
  show ?thesis
    using assms(1) new assms(2) unfolding plugins_agree_def maps by (auto split: if_splits) (metis option.distinct(1))+
qed

lemma agree_unregister:
  assumes agree: "plugins_agree r" and found: "js_get (pr_plugins r) i = Some a"
  shows "plugins_agree (r\<lparr>pr_byName := js_delete (pd_name (plugin_at r a)) (pr_byName r), pr_plugins := js_delete i (pr_plugins r)\<rparr>)"
proof -
  note a = plugins_agreeD [OF agree found]
  have other: "j = i" if "js_get (pr_plugins r) j = Some b" "pd_name (plugin_at r b) = pd_name (plugin_at r a)" for j b
    using plugins_agreeD(3) [OF agree that(1)] that(2) a(3) by simp
  have named: "\<exists>b. js_get (pr_plugins r) j = Some b \<and> pd_name (plugin_at r b) = n" if "js_get (pr_byName r) n = Some j" for n j
    using agree that by (simp add: plugins_agree_def)
  have "j \<noteq> i" if "js_get (pr_byName r) n = Some j" "n \<noteq> pd_name (plugin_at r a)" for n j
    using named [OF that(1)] that(2) found by auto
  then show ?thesis
    using agree other named unfolding plugins_agree_def plugin_at_def by simp blast
qed

lemma agree_step: "plugin_step r r' \<Longrightarrow> plugins_agree r \<Longrightarrow> plugins_agree r'"
proof (induction rule: plugin_step.induct)
  case (registered a r is_url)
  then show ?case by (auto simp: plugin_register_def agree_commit split: option.split sum.split)
next
  case (unregistered r i)
  then show ?case by (auto simp: plugin_unregister_def agree_unregister split: option.split)
next
  case (updated r now i s)
  then show ?case
  proof (cases "js_get (pr_plugins r) i")
    case (Some a)
    have "plugins_agree (put_plugin a (with_status now s (plugin_at r a)) r)"
      by (rule agree_assign) (use updated plugins_agreeD [OF updated Some] in simp_all)
    then show ?thesis by (simp add: plugin_updateStatus_def Some)
  qed (simp add: plugin_updateStatus_def)
next
  case (used r now i)
  then show ?case
  proof (cases "js_get (pr_plugins r) i")
    case (Some a)
    let ?p = "(plugin_at r a)\<lparr>pd_usageCount := pd_usageCount (plugin_at r a) + 1, pd_lastUsed := Some now\<rparr>"
    have "plugins_agree (put_plugin a ?p r)"
      by (rule agree_assign) (use used plugins_agreeD [OF used Some] in simp_all)
    then show ?thesis by (simp add: plugin_incrementUsage_def Some Let_def)
  qed (simp add: plugin_incrementUsage_def)
next
  case (cleared r)
  then show ?case by (simp add: plugin_clear_def plugins_agree_def Let_def)
qed (simp_all add: agree_create agree_assign)

section \<open>Sample plugins\<close>

definition sample_metadata :: "string \<Rightarrow> string \<Rightarrow> js_record" where
  "sample_metadata i n = [(''id'', JStr i), (''name'', JStr n), (''version'', JStr ''1.0.0''), (''agentType'', JStr ''task''),
     (''priority'', JStr ''high''), (''createdAt'', JDate 0), (''updatedAt'', JDate 0)]"

definition sample_capabilities :: js_record where
  "sample_capabilities = [(''capabilities'', JArr []), (''supportedInputTypes'', JArr []), (''supportedOutputTypes'', JArr [])]"

definition sample_factory :: plugin_factory where
  "sample_factory = Factory Function (NoFunction JUndefined) (NoFunction JUndefined) (Inr JUndefined)"

definition sample_plugin :: "string \<Rightarrow> string \<Rightarrow> plugin_descriptor" where
  "sample_plugin i n = new_descriptor (i @ ''.js'')
     \<lparr>px_metadata = sample_metadata i n, px_capabilities = sample_capabilities, px_factory = sample_factory\<rparr>"

definition sample_registry :: plugin_registry where
  "sample_registry = \<lparr>pr_objects = [sample_plugin ''a'' ''n'', sample_plugin ''b'' ''n''], pr_plugins = [], pr_byName = [],
     pr_errors = [], pr_warnings = []\<rparr>"

definition sample_loader :: plugin_loader where
  "sample_loader = (new_plugin_loader None)\<lparr>pl_registry := fst (plugin_register (\<lambda>u. True) 0 sample_registry)\<rparr>"

text \<open>A file system of one directory \<open>d\<close> that holds a link to itself, with modules that give \<open>x\<close>.\<close>

definition sample_files :: "imported_module \<Rightarrow> file_system" where
  "sample_files x = \<lparr>fs_resolve = (\<lambda>p. p), fs_join = (\<lambda>p q. p @ q), fs_extname = (\<lambda>p. ''.js''), fs_stat = (\<lambda>p. Inr EntryDirectory),
     fs_readdir = (\<lambda>p. Inr [(''s'', EntryLink)]), fs_realpath = (\<lambda>p. Inr ''d''), fs_import = (\<lambda>p. x), fs_regex = (\<lambda>p s. Inr True)\<rparr>"

definition sample_search :: "int option \<Rightarrow> discovery_options" where
  "sample_search d = \<lparr>do_searchPaths = [''d''], do_includePatterns = None, do_excludePatterns = None, do_recursive = None,
     do_maxDepth = d, do_followSymlinks = True, do_validateOnDiscovery = False\<rparr>"

definition sample_load :: load_env where
  "sample_load = \<lparr>ln_url = (\<lambda>u. True), ln_start = 5, ln_end = 7, ln_shutdown = None, ln_created = Inl ''none''\<rparr>"

definition default_load :: load_options where
  "default_load = \<lparr>lo_validateBeforeLoad = None, lo_autoRegister = None, lo_overwriteExisting = False\<rparr>"

section \<open>Registrations that overlap\<close>

text \<open>Two registrations under one name that overlap: the second takes the entry of the first in the index.\<close>

lemma commit_maps [simp]:
  "pr_plugins (plugin_register_commit a caps r) = js_set (pd_id (plugin_at r a)) a (pr_plugins r)"
  "pr_byName (plugin_register_commit a caps r) = js_set (pd_name (plugin_at r a)) (pd_id (plugin_at r a)) (pr_byName r)"
  "length (pr_objects (plugin_register_commit a caps r)) = length (pr_objects r)"
  by (simp_all add: plugin_register_commit_def put_plugin_def Let_def)

lemma plugin_at_commit [simp]:
  "a < length (pr_objects r) \<Longrightarrow> plugin_at (plugin_register_commit a caps r) b
     = (if b = a then (plugin_at r a)\<lparr>pd_status := PlDiscovered\<rparr> else plugin_at r b)"
  by (simp add: plugin_register_commit_def put_plugin_def plugin_at_def Let_def)

theorem plugin_name_race:
  assumes "a < length (pr_objects r)" "b < length (pr_objects r)" "pd_id (plugin_at r a) \<noteq> pd_id (plugin_at r b)"
    and "pd_name (plugin_at r a) = pd_name (plugin_at r b)"
    and "plugin_register_begin a r = None" "plugin_register_begin b r = None"
    and "plugin_register_check is_url a r = Inr ca" "plugin_register_check is_url b r = Inr cb"
  shows "(let r2 = plugin_register_commit b cb (plugin_register_commit a ca r);
              (r3, out) = plugin_unregister (pd_id (plugin_at r b)) r2 in
          plugin_find (pd_id (plugin_at r a)) r2 = Some a \<and> plugin_find (pd_id (plugin_at r b)) r2 = Some b \<and> out = Inr True
          \<and> plugin_find (pd_id (plugin_at r a)) r3 = Some a \<and> plugin_findByName (pd_name (plugin_at r a)) r3 = None)"
proof -
  have ne: "a \<noteq> b" using assms(3) by auto
  show ?thesis
    using assms(1,2,3,4) ne by (simp add: plugin_unregister_def plugin_find_def plugin_findByName_def Let_def)
qed

theorem plugin_name_race_witness:
  "(let r2 = plugin_register_commit 1 [] (plugin_register_commit 0 [] sample_registry);
        (r3, out) = plugin_unregister (pd_id (plugin_at sample_registry 1)) r2 in
    plugin_find (pd_id (plugin_at sample_registry 0)) r2 = Some 0 \<and> plugin_find (pd_id (plugin_at sample_registry 1)) r2 = Some 1
    \<and> out = Inr True \<and> plugin_find (pd_id (plugin_at sample_registry 0)) r3 = Some 0
    \<and> plugin_findByName (pd_name (plugin_at sample_registry 0)) r3 = None)"
proof (rule plugin_name_race [where is_url = "\<lambda>u. True"])
  show "0 < length (pr_objects sample_registry)" "1 < length (pr_objects sample_registry)"
    "pd_id (plugin_at sample_registry 0) \<noteq> pd_id (plugin_at sample_registry 1)"
    "pd_name (plugin_at sample_registry 0) = pd_name (plugin_at sample_registry 1)"
    "plugin_register_begin 0 sample_registry = None" "plugin_register_begin 1 sample_registry = None"
    "plugin_register_check (\<lambda>u. True) 0 sample_registry = Inr []" "plugin_register_check (\<lambda>u. True) 1 sample_registry = Inr []"
    by code_simp+
qed

section \<open>What a load does\<close>

text \<open>The loader changes one plugin \<open>a\<close> only, not its id, name and path, and its errors only grow.\<close>

definition touches :: "nat \<Rightarrow> plugin_loader \<Rightarrow> plugin_loader \<Rightarrow> bool" where
  "touches a l l' \<longleftrightarrow> pr_plugins (pl_registry l') = pr_plugins (pl_registry l) \<and> pr_byName (pl_registry l') = pr_byName (pl_registry l)
     \<and> length (pr_objects (pl_registry l')) = length (pr_objects (pl_registry l))
     \<and> (\<forall>b. b \<noteq> a \<longrightarrow> loaded_plugin l' b = loaded_plugin l b)
     \<and> pd_id (loaded_plugin l' a) = pd_id (loaded_plugin l a) \<and> pd_name (loaded_plugin l' a) = pd_name (loaded_plugin l a)
     \<and> pd_sourcePath (loaded_plugin l' a) = pd_sourcePath (loaded_plugin l a)
     \<and> prefix (pd_errors (loaded_plugin l a)) (pd_errors (loaded_plugin l' a))"

definition registered_at :: "jsval \<Rightarrow> nat \<Rightarrow> plugin_loader \<Rightarrow> bool" where
  "registered_at i a l \<longleftrightarrow> js_get (pr_plugins (pl_registry l)) i = Some a \<and> a < length (pr_objects (pl_registry l))"

lemma touches_refl [simp, intro]: "touches a l l"
  by (simp add: touches_def)

lemma touches_trans [trans]: "touches a l l1 \<Longrightarrow> touches a l1 l2 \<Longrightarrow> touches a l l2"
  by (auto simp: touches_def intro: prefix_order.trans)

lemma touches_registered: "touches a l l' \<Longrightarrow> registered_at i b l \<Longrightarrow> registered_at i b l'"
  by (simp add: touches_def registered_at_def)

lemma loaded_put [simp]:
  "a < length (pr_objects (pl_registry l)) \<Longrightarrow> loaded_plugin (put_loaded a p l) b = (if b = a then p else loaded_plugin l b)"
  by (simp add: loaded_plugin_def put_loaded_def)

lemma put_loaded_fields [simp]:
  "pr_plugins (pl_registry (put_loaded a p l)) = pr_plugins (pl_registry l)"
  "pr_byName (pl_registry (put_loaded a p l)) = pr_byName (pl_registry l)"
  "length (pr_objects (pl_registry (put_loaded a p l))) = length (pr_objects (pl_registry l))"
  "pl_agents (put_loaded a p l) = pl_agents l" "registered_at i b (put_loaded a p l) = registered_at i b l"
  by (simp_all add: put_loaded_def registered_at_def)

lemma touches_put:
  assumes "registered_at i a l" "pd_id p = pd_id (loaded_plugin l a)" "pd_name p = pd_name (loaded_plugin l a)"
    and "pd_sourcePath p = pd_sourcePath (loaded_plugin l a)" "prefix (pd_errors (loaded_plugin l a)) (pd_errors p)"
  shows "touches a l (put_loaded a p l)"
  using assms by (simp add: touches_def registered_at_def)

lemma warn_fields [simp]:
  "pl_registry (warn m l) = pl_registry l" "pl_registry (l\<lparr>pl_agents := ags\<rparr>) = pl_registry l"
  "loaded_plugin (warn m l) = loaded_plugin l" "loaded_plugin (l\<lparr>pl_agents := ags\<rparr>) = loaded_plugin l"
  "registered_at i a (warn m l) = registered_at i a l" "registered_at i a (l\<lparr>pl_agents := ags\<rparr>) = registered_at i a l"
  "touches a l0 (warn m l) = touches a l0 l" "touches a l0 (l\<lparr>pl_agents := ags\<rparr>) = touches a l0 l"
  by (auto simp: warn_def loaded_plugin_def registered_at_def touches_def fun_eq_iff)

lemma registered_len: "registered_at i a l \<Longrightarrow> a < length (pr_objects (pl_registry l))"
  by (simp add: registered_at_def)

lemma set_status_found:
  "registered_at i a l \<Longrightarrow> fst (set_plugin_status now i s l) = put_loaded a (with_status now s (loaded_plugin l a)) l"
  by (simp add: registered_at_def set_plugin_status_def plugin_updateStatus_def put_loaded_def loaded_plugin_def)

lemma touches_status:
  "registered_at i a l \<Longrightarrow> touches a l (fst (set_plugin_status now i s l))"
  by (simp add: set_status_found touches_put)

lemma registered_status: "registered_at i a l \<Longrightarrow> registered_at i a (fst (set_plugin_status now i s l))"
  using touches_registered [OF touches_status] by blast

lemma status_set:
  "registered_at i a l \<Longrightarrow> pd_status (loaded_plugin (fst (set_plugin_status now i s l)) a) = s"
  by (simp add: set_status_found registered_len)

lemma drop_agent_keeps [simp]:
  "pl_registry (drop_agent shut i inst l) = pl_registry l" "loaded_plugin (drop_agent shut i inst l) = loaded_plugin l"
  by (auto simp: drop_agent_def loaded_plugin_def fun_eq_iff split: option.split prod.split sum.split)

lemma drop_agent_touches [simp]:
  "registered_at j b (drop_agent shut i inst l) = registered_at j b l" "touches a l0 (drop_agent shut i inst l) = touches a l0 l"
  by (simp_all add: registered_at_def touches_def)

lemma touches_unload: "registered_at i a l \<Longrightarrow> touches a l (fst (plugin_unload now shut i l))"
proof -
  assume r: "registered_at i a l"
  define l1 where "l1 = fst (set_plugin_status now i PlUnloading l)"
  define l2 where "l2 = drop_agent shut i (pd_agentInstance (loaded_plugin l1 a)) l1"
  define l3 where "l3 = put_loaded a ((loaded_plugin l2 a)\<lparr>pd_agentInstance := None\<rparr>) l2"
  have t1: "touches a l l1" and r1: "registered_at i a l1"
    using touches_status [OF r] registered_status [OF r] by (simp_all add: l1_def)
  have r2: "registered_at i a l2" and t2: "touches a l l2" using r1 t1 by (simp_all add: l2_def)
  have t3: "touches a l l3" using touches_trans [OF t2 touches_put [OF r2]] by (simp add: l3_def)
  then have "registered_at i a l3" using r by (rule touches_registered)
  moreover have "fst (plugin_unload now shut i l) = fst (set_plugin_status now i PlUnloaded l3)"
    using r by (simp add: plugin_unload_def plugin_find_def registered_at_def l1_def l2_def l3_def Let_def)
  ultimately show ?thesis using t3 touches_status touches_trans by metis
qed

definition is_up :: "plugin_descriptor \<Rightarrow> bool" where
  "is_up p \<longleftrightarrow> pd_status p = PlLoaded \<or> pd_status p = PlActive"

lemma start_agent_effect:
  assumes r: "registered_at i a l"
  shows "touches a l (start_agent env i a reg l)
    \<and> is_up (loaded_plugin (start_agent env i a reg l) a)
    \<and> pd_capabilities (loaded_plugin (start_agent env i a reg l) a) = pd_capabilities (loaded_plugin l a)"
proof (cases "call_createAgent env (pd_factory (loaded_plugin l a))")
  case (Inl e)
  then show ?thesis using touches_status [OF r] r by (simp add: is_up_def start_agent_def status_set set_status_found registered_len)
next
  case (Inr ag)
  define l1 where "l1 = put_loaded a ((loaded_plugin l a)\<lparr>pd_agentInstance := Some ag\<rparr>) l"
  have t: "touches a l l1" unfolding l1_def by (rule touches_put [OF r]) simp_all
  then have r1: "registered_at i a l1" using r by (rule touches_registered)
  have t2: "touches a l (fst (set_plugin_status n i s (l1\<lparr>pl_agents := g\<rparr>)))" for n s g
    using touches_trans [of a l "l1\<lparr>pl_agents := g\<rparr>"] touches_status [of i a "l1\<lparr>pl_agents := g\<rparr>"] t r1 by simp
  have st: "pd_status (loaded_plugin (fst (set_plugin_status n i s (l1\<lparr>pl_agents := g\<rparr>))) a) = s" for n s g
    using status_set [of i a "l1\<lparr>pl_agents := g\<rparr>"] r1 by simp
  have cp: "pd_capabilities (loaded_plugin (fst (set_plugin_status n i s (l1\<lparr>pl_agents := g\<rparr>))) a) = pd_capabilities (loaded_plugin l a)" for n s g
    using set_status_found [of i a "l1\<lparr>pl_agents := g\<rparr>"] r1 r by (simp add: registered_len l1_def)
  show ?thesis
    using Inr t2 st cp by (auto simp: is_up_def start_agent_def l1_def [symmetric] Let_def split: prod.split sum.split)
qed

lemma load_body_effect:
  assumes r: "registered_at i a l" and b: "load_body env fs opts i a l = (l1, out)"
  shows "touches a l l1" "registered_at i a l1"
    and "out = Inr () \<Longrightarrow> is_up (loaded_plugin l1 a)
           \<and> (\<exists>x. loadPluginExports fs (pd_sourcePath (loaded_plugin l a)) = Inr x
                \<and> pd_capabilities (loaded_plugin l1 a) = px_capabilities x)"
proof -
  define k where "k = fst (set_plugin_status (ln_start env) i PlLoading l)"
  have t: "touches a l k" and rk: "registered_at i a k"
    using touches_status [OF r] registered_status [OF r] by (simp_all add: k_def)
  have path: "pd_sourcePath (loaded_plugin k a) = pd_sourcePath (loaded_plugin l a)" using t by (simp add: touches_def)
  have main: "touches a l l1 \<and> (out = Inr () \<longrightarrow> is_up (loaded_plugin l1 a)
           \<and> (\<exists>x. loadPluginExports fs (pd_sourcePath (loaded_plugin l a)) = Inr x
                \<and> pd_capabilities (loaded_plugin l1 a) = px_capabilities x))"
  proof (cases "lo_validateBeforeLoad opts \<noteq> Some False \<and> \<not> pv_isValid (plugin_validate (ln_url env) (loaded_plugin k a))")
    case True
    then show ?thesis using b t by (auto simp: load_body_def k_def [symmetric] Let_def)
  next
    case valid: False
    show ?thesis
    proof (cases "loadPluginExports fs (pd_sourcePath (loaded_plugin k a))")
      case (Inl e)
      then show ?thesis using b t valid by (auto simp: load_body_def k_def [symmetric] Let_def)
    next
      case (Inr x)
      define m where "m = put_loaded a (with_exports env x (loaded_plugin k a)) k"
      have tm: "touches a l m"
        by (rule touches_trans [OF t]) (simp add: m_def with_exports_def touches_put [OF rk])
      then have rm: "registered_at i a m" using r by (rule touches_registered)
      have cm: "pd_capabilities (loaded_plugin m a) = px_capabilities x"
        using rk by (simp add: m_def with_exports_def registered_len)
      have end_load: "touches a l (fst (set_plugin_status n i PlLoaded m))"
          "is_up (loaded_plugin (fst (set_plugin_status n i PlLoaded m)) a)"
          "pd_capabilities (loaded_plugin (fst (set_plugin_status n i PlLoaded m)) a) = px_capabilities x" for n
        using touches_trans [OF tm touches_status [OF rm]] status_set [OF rm] set_status_found [OF rm] rm cm
        by (simp_all add: registered_len is_up_def)
      have start: "touches a l (start_agent env i a reg m)"
          "is_up (loaded_plugin (start_agent env i a reg m) a)"
          "pd_capabilities (loaded_plugin (start_agent env i a reg m) a) = px_capabilities x" for reg
        using start_agent_effect [OF rm, of env reg] touches_trans [OF tm] cm by simp_all
      show ?thesis
        using b valid Inr end_load start path
        by (auto simp: load_body_def k_def [symmetric] m_def [symmetric] Let_def split: option.splits if_splits)
    qed
  qed
  then show "touches a l l1" ..
  then show "registered_at i a l1" using r by (rule touches_registered)
  show "out = Inr () \<Longrightarrow> is_up (loaded_plugin l1 a)
           \<and> (\<exists>x. loadPluginExports fs (pd_sourcePath (loaded_plugin l a)) = Inr x
                \<and> pd_capabilities (loaded_plugin l1 a) = px_capabilities x)"
    using main by simp
qed

text \<open>A failed load, from the state in which its \<open>try\<close> gave up.\<close>

lemma load_failed_effect:
  fixes now :: time_ms
  assumes r: "registered_at i a l"
  defines "l2 \<equiv> fst (set_plugin_status now i PlFailed l)"
  defines "p \<equiv> loaded_plugin l2 a"
  shows "touches a l (put_loaded a (p\<lparr>pd_errors := pd_errors p @ [m]\<rparr>) l2)"
    "loaded_plugin (put_loaded a (p\<lparr>pd_errors := pd_errors p @ [m]\<rparr>) l2) a = p\<lparr>pd_errors := pd_errors p @ [m]\<rparr>"
    "pd_status p = PlFailed" "pd_sourcePath p = pd_sourcePath (loaded_plugin l a)"
proof -
  have t: "touches a l l2" and r2: "registered_at i a l2"
    using touches_status [OF r] registered_status [OF r] by (simp_all add: l2_def)
  show "touches a l (put_loaded a (p\<lparr>pd_errors := pd_errors p @ [m]\<rparr>) l2)"
    by (rule touches_trans [OF t]) (simp add: p_def touches_put [OF r2])
  show "loaded_plugin (put_loaded a (p\<lparr>pd_errors := pd_errors p @ [m]\<rparr>) l2) a = p\<lparr>pd_errors := pd_errors p @ [m]\<rparr>"
    using r2 by (simp add: registered_len)
  show "pd_status p = PlFailed" by (simp add: p_def l2_def status_set [OF r])
  show "pd_sourcePath p = pd_sourcePath (loaded_plugin l a)" using t by (simp add: p_def touches_def)
qed

lemma load_found_effect:
  assumes r: "registered_at i a l" and b: "load_found env fs opts i a l = (l1, out)"
  shows "touches a l l1"
    and "case out of
        Inr b \<Rightarrow> b = a \<and> is_up (loaded_plugin l1 a)
           \<and> (\<exists>x. loadPluginExports fs (pd_sourcePath (loaded_plugin l a)) = Inr x
                \<and> pd_capabilities (loaded_plugin l1 a) = px_capabilities x)
      | Inl e \<Rightarrow> pd_status (loaded_plugin l1 a) = PlFailed
           \<and> (\<exists>m es. e = PluginLoad i (pd_sourcePath (loaded_plugin l a)) m \<and> pd_errors (loaded_plugin l1 a) = es @ [m])"
proof -
  obtain k res where k: "load_body env fs opts i a l = (k, res)" by (rule prod.exhaust)
  note eff = load_body_effect [OF r k]
  have "touches a l l1 \<and> (case out of
        Inr b \<Rightarrow> b = a \<and> is_up (loaded_plugin l1 a)
           \<and> (\<exists>x. loadPluginExports fs (pd_sourcePath (loaded_plugin l a)) = Inr x
                \<and> pd_capabilities (loaded_plugin l1 a) = px_capabilities x)
      | Inl e \<Rightarrow> pd_status (loaded_plugin l1 a) = PlFailed
           \<and> (\<exists>m es. e = PluginLoad i (pd_sourcePath (loaded_plugin l a)) m \<and> pd_errors (loaded_plugin l1 a) = es @ [m]))"
  proof (cases res)
    case (Inr u)
    then show ?thesis using b k eff by (auto simp: load_found_def)
  next
    case (Inl m)
    have path: "pd_sourcePath (loaded_plugin k a) = pd_sourcePath (loaded_plugin l a)" using eff(1) by (simp add: touches_def)
    note f = load_failed_effect [OF eff(2), where now = "ln_end env"]
    have "l1 = put_loaded a ((loaded_plugin (fst (set_plugin_status (ln_end env) i PlFailed k)) a)
          \<lparr>pd_errors := pd_errors (loaded_plugin (fst (set_plugin_status (ln_end env) i PlFailed k)) a) @ [m]\<rparr>)
          (fst (set_plugin_status (ln_end env) i PlFailed k))"
      and "out = Inl (PluginLoad i (pd_sourcePath (loaded_plugin (fst (set_plugin_status (ln_end env) i PlFailed k)) a)) m)"
      using b k Inl by (simp_all add: load_found_def Let_def)
    then show ?thesis using f(2) [where m = m] f(3,4) touches_trans [OF eff(1) f(1) [where m = m]] path by simp
  qed
  then show "touches a l l1" and "case out of
        Inr b \<Rightarrow> b = a \<and> is_up (loaded_plugin l1 a)
           \<and> (\<exists>x. loadPluginExports fs (pd_sourcePath (loaded_plugin l a)) = Inr x
                \<and> pd_capabilities (loaded_plugin l1 a) = px_capabilities x)
      | Inl e \<Rightarrow> pd_status (loaded_plugin l1 a) = PlFailed
           \<and> (\<exists>m es. e = PluginLoad i (pd_sourcePath (loaded_plugin l a)) m \<and> pd_errors (loaded_plugin l1 a) = es @ [m])"
    by simp_all
qed

text \<open>The plugin a load works on: the one it found, unloaded before if it was loaded.\<close>

lemma plugin_load_cases:
  assumes r: "registered_at i a l"
  obtains (refused) e where "plugin_load env fs opts i l = (l, Inl e)" "\<exists>c. e = PluginState i c ''unloaded'' (Msg ''Plugin is already loaded'')"
      "is_up (loaded_plugin l a)" "\<not> lo_overwriteExisting opts"
  | (works) k where "touches a l k" "registered_at i a k" "plugin_load env fs opts i l = load_found env fs opts i a k"
proof -
  let ?k = "fst (plugin_unload (ln_start env) (ln_shutdown env) i l)"
  have k: "touches a l ?k" by (rule touches_unload [OF r])
  have rk: "registered_at i a ?k" by (rule touches_registered [OF k r])
  show thesis
    using r k rk refused works [of l] works [of ?k]
    by (cases "pd_status (loaded_plugin l a) = PlLoaded \<or> pd_status (loaded_plugin l a) = PlActive"; cases "lo_overwriteExisting opts")
      (auto simp: plugin_load_def plugin_find_def registered_at_def is_up_def)
qed

text \<open>C37: 
  A load that is not refused: it succeeds with the plugin loaded or active, its capabilities those its
  module exports, or it fails with the plugin failed and the reason the last of its errors. No other
  plugin changes, and the maps of the registry do not.
\<close>

theorem plugin_load_outcome:
  assumes "registered_at i a l" and "plugin_load env fs opts i l = (l1, out)"
    and "lo_overwriteExisting opts \<or> \<not> is_up (loaded_plugin l a)"
  shows "touches a l l1 \<and> (case out of
        Inr b \<Rightarrow> b = a \<and> is_up (loaded_plugin l1 a)
           \<and> (\<exists>x. loadPluginExports fs (pd_sourcePath (loaded_plugin l a)) = Inr x
                \<and> pd_capabilities (loaded_plugin l1 a) = px_capabilities x)
      | Inl e \<Rightarrow> pd_status (loaded_plugin l1 a) = PlFailed
           \<and> (\<exists>m es. e = PluginLoad i (pd_sourcePath (loaded_plugin l a)) m \<and> pd_errors (loaded_plugin l1 a) = es @ [m]))"
  using assms(1)
proof (cases rule: plugin_load_cases [where env = env and fs = fs and opts = opts])
  case (refused e)
  then show ?thesis using assms(3) by simp
next
  case (works k)
  then have found: "load_found env fs opts i a k = (l1, out)" using assms(2) by simp
  have path: "pd_sourcePath (loaded_plugin k a) = pd_sourcePath (loaded_plugin l a)" using works(1) by (simp add: touches_def)
  show ?thesis
    using load_found_effect [OF works(2) found, unfolded path] touches_trans [OF works(1)] by simp
qed

lemma sample_registered: "registered_at (JStr ''a'') 0 sample_loader" "is_up (loaded_plugin sample_loader 0) = False"
  "pd_sourcePath (loaded_plugin sample_loader 0) = ''a.js''"
  by code_simp+

theorem plugin_load_outcome_witness:
  "touches 0 sample_loader (fst (plugin_load sample_load (sample_files (Inl ''gone'')) default_load (JStr ''a'') sample_loader))
     \<and> (\<exists>m. snd (plugin_load sample_load (sample_files (Inl ''gone'')) default_load (JStr ''a'') sample_loader)
             = Inl (PluginLoad (JStr ''a'') ''a.js'' m))"
proof -
  obtain l1 out where l: "plugin_load sample_load (sample_files (Inl ''gone'')) default_load (JStr ''a'') sample_loader = (l1, out)"
    by (rule prod.exhaust)
  have "isl (snd (plugin_load sample_load (sample_files (Inl ''gone'')) default_load (JStr ''a'') sample_loader))" by code_simp
  then have "isl out" using l by simp
  then show ?thesis
    using plugin_load_outcome [OF sample_registered(1) l] sample_registered(2,3) l by (cases out) auto
qed

section \<open>Exports that nobody validates\<close>

text \<open>A plugin whose capabilities cannot be read stops the comparison of every other plugin with it.\<close>

lemma check_duplicates_blocked:
  assumes "e \<in> set es" "capability_names (pd_capabilities e) = None" "pd_id e \<noteq> pd_id p"
  shows "check_duplicates p es d = None"
  using assms(1)
proof (induction es arbitrary: d)
  case (Cons x es)
  then show ?case using assms(2,3) by (auto split: option.split)
qed simp

lemma register_blocked:
  assumes "registered_at i a l" "capability_names (pd_capabilities (loaded_plugin l a)) = None"
    and "pd_id (loaded_plugin l a) \<noteq> pd_id (loaded_plugin l b)"
  shows "\<exists>e. plugin_register is_url b (pl_registry l) = (pl_registry l, Inl e)"
proof -
  have "a \<in> set (js_values (pr_plugins (pl_registry l)))"
    using assms(1) js_get_in_set by (force simp: registered_at_def js_values_def)
  then have "checkDuplicates (loaded_plugin l b) (all_plugins (pl_registry l)) = None"
    unfolding checkDuplicates_def all_plugins_def using assms(2,3)
    by (intro check_duplicates_blocked [of "loaded_plugin l a"]) (auto simp: loaded_plugin_def)
  then show ?thesis
    by (auto simp: plugin_register_def plugin_register_check_def loaded_plugin_def Let_def split: option.split sum.split)
qed

text \<open>
  A load replaces the capabilities by those of the module without validating them. If they cannot be
  read as an array of objects the load succeeds, and from then on no plugin of another id can be
  registered.
\<close>

theorem unvalidated_exports_block_registration:
  assumes "registered_at i a l" and "plugin_load env fs opts i l = (l1, Inr a)"
    and "lo_overwriteExisting opts \<or> \<not> is_up (loaded_plugin l a)"
    and "loadPluginExports fs (pd_sourcePath (loaded_plugin l a)) = Inr x" and "capability_names (px_capabilities x) = None"
    and "pd_id (loaded_plugin l b) \<noteq> pd_id (loaded_plugin l a)"
  shows "is_up (loaded_plugin l1 a) \<and> (\<exists>e. plugin_register is_url b (pl_registry l1) = (pl_registry l1, Inl e))"
proof -
  note out = plugin_load_outcome [OF assms(1,2,3)]
  then have t: "touches a l l1" and caps: "pd_capabilities (loaded_plugin l1 a) = px_capabilities x" and up: "is_up (loaded_plugin l1 a)"
    using assms(4) by auto
  have "pd_id (loaded_plugin l1 a) \<noteq> pd_id (loaded_plugin l1 b)" using t assms(6) by (auto simp: touches_def)
  then show ?thesis
    using register_blocked [OF touches_registered [OF t assms(1)]] caps assms(5) up by simp
qed

definition broken_module :: imported_module where
  "broken_module = Inr (Some (sample_metadata ''a'' ''n''), Some [], Some sample_factory)"

theorem unvalidated_exports_block_registration_witness:
  "\<exists>e. plugin_register (\<lambda>u. True) 1 (pl_registry (fst (plugin_load sample_load (sample_files broken_module) default_load (JStr ''a'') sample_loader)))
     = (pl_registry (fst (plugin_load sample_load (sample_files broken_module) default_load (JStr ''a'') sample_loader)), Inl e)"
proof -
  let ?load = "plugin_load sample_load (sample_files broken_module) default_load (JStr ''a'') sample_loader"
  obtain l1 out where l: "?load = (l1, out)" by (rule prod.exhaust)
  have "snd ?load = Inr 0" by code_simp
  then have load: "?load = (l1, Inr 0)" using l by simp
  have "\<exists>x. loadPluginExports (sample_files broken_module) ''a.js'' = Inr x \<and> capability_names (px_capabilities x) = None"
    by (simp add: loadPluginExports_def sample_files_def broken_module_def capability_names_def field_of_def)
  then obtain x where x: "loadPluginExports (sample_files broken_module) (pd_sourcePath (loaded_plugin sample_loader 0)) = Inr x"
      "capability_names (px_capabilities x) = None"
    using sample_registered(3) by auto
  have ids: "pd_id (loaded_plugin sample_loader 1) \<noteq> pd_id (loaded_plugin sample_loader 0)" by code_simp
  show ?thesis
    using unvalidated_exports_block_registration [OF sample_registered(1) load _ x ids] sample_registered(2) load by simp
qed

section \<open>Discovery\<close>

text \<open>The search only adds descriptors.\<close>

definition grows :: "plugin_loader \<Rightarrow> plugin_loader \<Rightarrow> bool" where
  "grows l l' \<longleftrightarrow> pr_plugins (pl_registry l') = pr_plugins (pl_registry l) \<and> pr_byName (pl_registry l') = pr_byName (pl_registry l)
     \<and> prefix (pr_objects (pl_registry l)) (pr_objects (pl_registry l'))"

lemma grows_refl [simp, intro]: "grows l l"
  by (simp add: grows_def)

lemma grows_trans [trans]: "grows l l1 \<Longrightarrow> grows l1 l2 \<Longrightarrow> grows l l2"
  by (auto simp: grows_def intro: prefix_order.trans)

lemma grows_warn [simp]: "grows l (warn m l1) = grows l l1"
  by (simp add: grows_def)

lemma grows_file: "grows l (fst (loadPluginFromFile fs path l))"
  by (simp add: loadPluginFromFile_def grows_def warn_def split: sum.split)

lemma grows_scan:
  assumes "\<And>p l l1 new. visit_path p l = Some (l1, new) \<Longrightarrow> grows l l1"
  shows "scan_entries fs opts visit_path dir es l found = Some (l1, res) \<Longrightarrow> grows l l1"
proof (induction es arbitrary: l found)
  case (Cons e es)
  obtain name kind where e: "e = (name, kind)" by (rule prod.exhaust)
  have from_file: "grows l k" if "loadPluginFromFile fs path l = (k, new)" for path k new
    using grows_file [of l fs path] that by simp
  show ?case
    using Cons.prems Cons.IH unfolding e
    by (auto simp: Let_def split: sum.splits bool.splits if_splits option.splits prod.splits dest: assms from_file intro: grows_trans)
qed auto

lemma grows_discover: "discoverInPath n fs opts depth path l = Some (l1, new) \<Longrightarrow> grows l l1"
proof (induction n arbitrary: depth path l l1 new)
  case (Suc n)
  let ?visit = "\<lambda>p l. discoverInPath n fs opts (depth + 1) p l"
  have scan: "grows l k" if "scan_entries fs opts ?visit dir es l found = Some (k, res)" for dir es l found k res
    using grows_scan [of ?visit, OF _ that] Suc.IH by blast
  show ?case
    using Suc.prems grows_file [of l fs "fs_resolve fs path"]
    by (auto split: if_splits option.splits sum.splits entry_kind.splits prod.splits dest: scan)
qed simp

lemma grows_search: "search_paths fuel fs opts ps l found = Some (l1, res) \<Longrightarrow> grows l l1"
  by (induction ps arbitrary: l found)
    (auto split: option.splits dest: grows_discover intro: grows_trans)

text \<open>A limit of the depth is enough fuel.\<close>

lemma scan_ends:
  "(\<And>p l. visit_path p l \<noteq> None) \<Longrightarrow> scan_entries fs opts visit_path dir es l found \<noteq> None"
proof (induction es arbitrary: l found)
  case (Cons e es)
  obtain name kind where e: "e = (name, kind)" by (rule prod.exhaust)
  show ?case
    using Cons.IH [OF Cons.prems] Cons.prems unfolding e
    by (auto simp: Let_def simp del: not_None_eq split: sum.split bool.split option.split prod.split)
qed simp

lemma discover_ends:
  "do_maxDepth opts = Some d \<Longrightarrow> nat (d - depth) < n \<Longrightarrow> discoverInPath n fs opts depth path l \<noteq> None"
proof (induction n arbitrary: depth path l)
  case (Suc n)
  have "discoverInPath n fs opts (depth + 1) p k \<noteq> None" if "depth < d" for p k
    using Suc.IH [of "depth + 1"] Suc.prems that by simp
  then have "depth < d \<Longrightarrow> scan_entries fs opts (\<lambda>p l. discoverInPath n fs opts (depth + 1) p l) dir es k found \<noteq> None" for dir es k found
    using scan_ends by metis
  then show ?case
    using Suc.prems(1)
    by (cases "depth < d") (auto simp del: not_None_eq split: sum.split entry_kind.split option.split)
qed simp

theorem discovery_ends_within_depth:
  assumes "do_maxDepth opts = Some d" "nat d < fuel"
  shows "discover_plugins fuel is_url fs opts l \<noteq> None"
proof -
  have "search_paths fuel fs opts ps k found \<noteq> None" for ps k found
    using discover_ends [OF assms(1), of 0 fuel] assms(2)
    by (induction ps arbitrary: k found) (auto split: option.split)
  then show ?thesis
    by (auto simp: discover_plugins_def split: option.split prod.split sum.split)
qed

theorem discovery_ends_within_depth_witness:
  "discover_plugins 4 (\<lambda>u. True) (sample_files (Inl [])) (sample_search (Some 3)) sample_loader \<noteq> None"
  by (rule discovery_ends_within_depth [where d = 3]) (simp_all add: sample_search_def)

text \<open>C38: 
  Without a limit of the depth, a search of a directory whose first entry is a followed link back to it
  never ends: no nesting of calls is enough.
\<close>

theorem link_cycle_never_ends:
  assumes "do_maxDepth opts = None" "do_followSymlinks opts" "fs_stat fs (fs_resolve fs dir) = Inr EntryDirectory"
    and "fs_readdir fs (fs_resolve fs dir) = Inr ((name, EntryLink) # es)"
    and "matchesPatterns fs name (do_includePatterns opts) (do_excludePatterns opts) = Inr True"
    and "fs_realpath fs (fs_join fs (fs_resolve fs dir) name) = Inr dir"
    and "dir \<in> set (do_searchPaths opts)"
  shows "discover_plugins fuel is_url fs opts l = None"
proof -
  have never: "discoverInPath n fs opts depth dir k = None" for n depth k
    by (induction n arbitrary: depth k) (simp_all add: assms Let_def)
  have "dir \<in> set ps \<Longrightarrow> search_paths fuel fs opts ps k found = None" for ps k found
    by (induction ps arbitrary: k found) (auto simp: never split: option.split)
  then show ?thesis using assms(7) by (simp add: discover_plugins_def)
qed

theorem link_cycle_never_ends_witness:
  "discover_plugins 100 (\<lambda>u. True) (sample_files (Inl [])) (sample_search None) sample_loader = None"
  by (rule link_cycle_never_ends [where dir = "''d''" and name = "''s''" and es = "[]"])
    (simp_all add: sample_search_def sample_files_def matchesPatterns_def)

section \<open>Health\<close>

text \<open>A registered plugin with an error: nothing but its removal takes that back.\<close>

definition marked :: "jsval \<Rightarrow> nat \<Rightarrow> plugin_loader \<Rightarrow> bool" where
  "marked i a l \<longleftrightarrow> registered_at i a l \<and> pd_errors (loaded_plugin l a) \<noteq> []"

lemma marked_touches: "marked i a l \<Longrightarrow> touches b l l' \<Longrightarrow> marked i a l'"
  unfolding marked_def using touches_registered [of b l l' i a]
  by (cases "b = a") (auto simp: touches_def)

lemma marked_grows:
  assumes "marked i a l" "grows l l'"
  shows "marked i a l'"
proof -
  have "prefix (pr_objects (pl_registry l)) (pr_objects (pl_registry l'))" using assms(2) by (simp add: grows_def)
  then obtain xs where "pr_objects (pl_registry l') = pr_objects (pl_registry l) @ xs" by (auto simp: prefix_def)
  then show ?thesis
    using assms by (auto simp: marked_def grows_def registered_at_def loaded_plugin_def plugin_at_def nth_append)
qed

lemma marked_register:
  assumes "marked i a l" "plugin_register is_url b (pl_registry l) = (r, out)"
  shows "marked i a (l\<lparr>pl_registry := r\<rparr>)"
proof (cases "plugin_register_begin b (pl_registry l)")
  case None
  then have "pd_id (plugin_at (pl_registry l) b) \<noteq> i"
    using assms(1) by (auto simp: plugin_register_begin_def marked_def registered_at_def js_has_iff Let_def split: if_splits)
  then have "marked i a (l\<lparr>pl_registry := plugin_register_commit b caps (pl_registry l)\<rparr>)" for caps
    using assms(1)
    by (cases "b = a")
      (auto simp: marked_def registered_at_def loaded_plugin_def plugin_at_def plugin_register_commit_def put_plugin_def Let_def)
  then show ?thesis
    using assms None by (auto simp: plugin_register_def marked_def split: sum.splits)
qed (use assms in \<open>auto simp: plugin_register_def marked_def registered_at_def loaded_plugin_def\<close>)

lemma marked_blame [simp]: "marked i a (blame m l) = marked i a l"
  by (simp add: marked_def blame_def registered_at_def loaded_plugin_def)

lemma marked_register_found: "marked i a l \<Longrightarrow> marked i a (fst (register_found is_url opts as l))"
proof (induction as arbitrary: l)
  case (Cons b bs)
  obtain r out where reg: "plugin_register is_url b (pl_registry l) = (r, out)" by (rule prod.exhaust)
  then have "marked i a (l\<lparr>pl_registry := r\<rparr>)" using Cons.prems by (rule marked_register [rotated])
  then show ?case using Cons.IH reg by (cases out) (auto simp: Let_def)
qed simp

inductive loader_step :: "plugin_loader \<Rightarrow> plugin_loader \<Rightarrow> bool" where
  loads: "registered_at j b l \<Longrightarrow> loader_step l (fst (plugin_load env fs opts j l))"
| unloads: "registered_at j b l \<Longrightarrow> loader_step l (fst (plugin_unload now shut j l))"
| discovers: "discover_plugins fuel is_url fs opts l = Some (l', out) \<Longrightarrow> loader_step l l'"

lemma plugin_load_touches:
  assumes "registered_at i a l"
  shows "touches a l (fst (plugin_load env fs opts i l))"
  using assms
proof (cases rule: plugin_load_cases [where env = env and fs = fs and opts = opts])
  case (works k)
  then show ?thesis
    using load_found_effect(1) [OF works(2)] touches_trans [OF works(1)] by (metis prod.collapse)
qed auto

lemma marked_step: "loader_step l l' \<Longrightarrow> marked i a l \<Longrightarrow> marked i a l'"
proof (induction rule: loader_step.induct)
  case (discovers fuel is_url fs opts l l' out)
  obtain l1 found where s: "search_paths fuel fs opts (do_searchPaths opts) l [] = Some (l1, found)"
    using discovers(1) by (auto simp: discover_plugins_def split: option.splits)
  then have "marked i a (fst (register_found is_url opts found l1))"
    using marked_register_found marked_grows [OF discovers(2) grows_search] by blast
  then show ?case
    using discovers(1) s by (auto simp: discover_plugins_def split: prod.splits sum.splits)
qed (auto intro: marked_touches plugin_load_touches touches_unload)

lemma marked_unhealthy: "marked i a l \<Longrightarrow> ph_status (loader_health l) = Unhealthy"
proof -
  assume m: "marked i a l"
  then have "loaded_plugin l a \<in> set (all_plugins (pl_registry l))"
    using js_get_in_set by (force simp: marked_def registered_at_def js_values_def all_plugins_def loaded_plugin_def)
  then have "all_plugin_errors (pl_registry l) \<noteq> []"
    using m by (auto simp: all_plugin_errors_def marked_def)
  then show ?thesis by (simp add: loader_health_def plugin_health_of_def Let_def)
qed

text \<open>
  After a load has failed the health is unhealthy for good: no later loads, successful ones included,
  unloads and discoveries change that.
\<close>

theorem failed_load_is_final:
  assumes "registered_at i a l" and "plugin_load env fs opts i l = (l1, Inl e)"
    and "lo_overwriteExisting opts \<or> \<not> is_up (loaded_plugin l a)"
    and "loader_step\<^sup>*\<^sup>* l1 l2"
  shows "ph_status (loader_health l2) = Unhealthy"
proof -
  note out = plugin_load_outcome [OF assms(1,2,3)]
  then have "registered_at i a l1" using touches_registered assms(1) by blast
  then have "marked i a l1" using out by (auto simp: marked_def)
  with assms(4) have "marked i a l2" by (induction rule: rtranclp_induct) (auto intro: marked_step)
  then show ?thesis by (rule marked_unhealthy)
qed

definition good_module :: imported_module where
  "good_module = Inr (Some (sample_metadata ''a'' ''n''), Some sample_capabilities, Some sample_factory)"

theorem failed_load_is_final_witness:
  "ph_status (loader_health (fst (plugin_load sample_load (sample_files good_module) default_load (JStr ''a'')
      (fst (plugin_load sample_load (sample_files (Inl ''gone'')) default_load (JStr ''a'') sample_loader))))) = Unhealthy"
proof -
  obtain l1 out where l: "plugin_load sample_load (sample_files (Inl ''gone'')) default_load (JStr ''a'') sample_loader = (l1, out)"
    by (rule prod.exhaust)
  have "isl (snd (plugin_load sample_load (sample_files (Inl ''gone'')) default_load (JStr ''a'') sample_loader))" by code_simp
  then obtain e where e: "plugin_load sample_load (sample_files (Inl ''gone'')) default_load (JStr ''a'') sample_loader = (l1, Inl e)"
    using l by (cases out) auto
  have "registered_at (JStr ''a'') 0 l1"
    using plugin_load_touches [OF sample_registered(1)] touches_registered sample_registered(1) e by (metis fst_conv)
  then have "loader_step\<^sup>*\<^sup>* l1 (fst (plugin_load sample_load (sample_files good_module) default_load (JStr ''a'') l1))"
    by (intro r_into_rtranclp loader_step.loads)
  then show ?thesis
    using failed_load_is_final [OF sample_registered(1) e] sample_registered(2) e by simp
qed

end
