(* ===== verification/Builtin_Shell.thy ===== *)
theory Builtin_Shell
  imports Execution_Runtime Complex_Main "HOL-Library.Sublist"
begin

text \<open>
  What the ten built-in agents (\<open>agents/builtin\<close>) have in common, text for text: status, counters
  and latencies per operation, errors and warnings, and \<open>execute\<close>, which parses its input, counts the
  attempt, runs the operation and counts its success or error. The locale \<open>builtin_agent\<close> is the
  contract between that and what differs: the operations, the parser of the input and the operations' effect.

  An input is of any type \<open>'i\<close>; \<open>op_of\<close> gives its property \<open>operation\<close> when it is an object that has
  one. An agent's own state is \<open>'c\<close>, the value of an operation \<open>'r\<close>, an exception its message.
\<close>

section \<open>Counters\<close>

text \<open>A number of a record of counters; \<open>++\<close> of a counter that is not there gives \<open>NaN\<close>.\<close>

datatype js_count = Count nat | NotANumber

fun increment :: "js_count option \<Rightarrow> js_count" where
  "increment (Some (Count n)) = Count (Suc n)"
| "increment _ = NotANumber"

definition bump_count :: "string \<Rightarrow> (string, js_count) js_map \<Rightarrow> (string, js_count) js_map" where
  "bump_count op m = js_set op (increment (js_get m op)) m"

fun count_value :: "js_count \<Rightarrow> nat" where
  "count_value (Count n) = n"
| "count_value NotANumber = 0"

definition op_count :: "(string, js_count) js_map \<Rightarrow> string \<Rightarrow> nat" where
  "op_count m op = (case js_get m op of None \<Rightarrow> 0 | Some c \<Rightarrow> count_value c)"

definition total_count :: "(string, js_count) js_map \<Rightarrow> nat" where
  "total_count m = sum_list (map count_value (js_values m))"

text \<open>The key a value is as the index of an object; the number of a date stands for its text.\<close>

fun property_key :: "jsval \<Rightarrow> string" where
  "property_key JUndefined = ''undefined''"
| "property_key JNull = ''null''"
| "property_key (JBool b) = (if b then ''true'' else ''false'')"
| "property_key (JNum n) = int_str n"
| "property_key (JStr s) = s"
| "property_key (JDate t) = int_str t"
| "property_key (JArr vs) = join_with '','' (map (\<lambda>v. if v = JUndefined \<or> v = JNull then [] else property_key v) vs)"
| "property_key (JObj fs) = ''[object Object]''"

section \<open>State\<close>

datatype agent_status = AgIdle | AgRunning | AgBusy | AgPaused | AgStopped | AgError | AgInitializing | AgShuttingDown

record agent_shell =
  ah_status :: agent_status
  ah_startTime :: time_ms
  ah_counts :: "(string, js_count) js_map"
  ah_successes :: "(string, js_count) js_map"
  ah_failures :: "(string, js_count) js_map"
  ah_latencies :: "(string, int list) js_map"
  ah_errors :: "string list"
  ah_warnings :: "string list"
  ah_lastActivity :: "time_ms option"

text \<open>\<open>initializeMetrics\<close>, over the values of the enumeration of operations.\<close>

definition initialize_metrics :: "string list \<Rightarrow> agent_shell \<Rightarrow> agent_shell" where
  "initialize_metrics ops sh =
     sh\<lparr>ah_counts := fold (\<lambda>op. js_set op (Count 0)) ops (ah_counts sh),
        ah_successes := fold (\<lambda>op. js_set op (Count 0)) ops (ah_successes sh),
        ah_failures := fold (\<lambda>op. js_set op (Count 0)) ops (ah_failures sh),
        ah_latencies := fold (\<lambda>op. js_set op []) ops (ah_latencies sh)\<rparr>"

definition new_shell :: "string list \<Rightarrow> time_ms \<Rightarrow> agent_shell" where
  "new_shell ops now = initialize_metrics ops
     \<lparr>ah_status = AgIdle, ah_startTime = now, ah_counts = [], ah_successes = [], ah_failures = [], ah_latencies = [],
      ah_errors = [], ah_warnings = [], ah_lastActivity = None\<rparr>"

definition shell_blame :: "string \<Rightarrow> agent_shell \<Rightarrow> agent_shell" where
  "shell_blame m sh = sh\<lparr>ah_errors := ah_errors sh @ [m]\<rparr>"

definition set_status :: "agent_status \<Rightarrow> agent_shell \<Rightarrow> agent_shell" where
  "set_status s sh = sh\<lparr>ah_status := s\<rparr>"

section \<open>Recording\<close>

definition recordOperationAttempt :: "string \<Rightarrow> agent_shell \<Rightarrow> agent_shell" where
  "recordOperationAttempt op sh = sh\<lparr>ah_counts := bump_count op (ah_counts sh)\<rparr>"

text \<open>The last hundred durations.\<close>

definition push_latency :: "int \<Rightarrow> int list \<Rightarrow> int list" where
  "push_latency d ls = (if length (ls @ [d]) > 100 then tl (ls @ [d]) else ls @ [d])"

text \<open>The second part is whether \<open>push\<close> was a \<open>TypeError\<close>, for an operation without latencies.\<close>

definition record_latency :: "string \<Rightarrow> int \<Rightarrow> agent_shell \<Rightarrow> agent_shell \<times> bool" where
  "record_latency op d sh =
     (case js_get (ah_latencies sh) op of
        None \<Rightarrow> (sh, True)
      | Some ls \<Rightarrow> (sh\<lparr>ah_latencies := js_set op (push_latency d ls) (ah_latencies sh)\<rparr>, False))"

definition recordOperationSuccess :: "string \<Rightarrow> int \<Rightarrow> agent_shell \<Rightarrow> agent_shell \<times> bool" where
  "recordOperationSuccess op d sh = record_latency op d (sh\<lparr>ah_successes := bump_count op (ah_successes sh)\<rparr>)"

definition recordOperationError :: "string \<Rightarrow> int \<Rightarrow> agent_shell \<Rightarrow> agent_shell \<times> bool" where
  "recordOperationError op d sh = record_latency op d (sh\<lparr>ah_failures := bump_count op (ah_failures sh)\<rparr>)"

section \<open>Executing\<close>

text \<open>What the agents read of the context of a call.\<close>

record call_context =
  kx_requestId :: string
  kx_traceId :: string
  kx_workspaceId :: string
  kx_userId :: string
  kx_sessionId :: string
  kx_conversationId :: "string option"
  kx_metadata :: js_record

record 'r op_result =
  op_success :: bool
  op_error :: "string option"
  op_value :: 'r
  op_metadata :: js_record

record 'r agent_answer =
  aw_agentId :: string
  aw_success :: bool
  aw_output :: "'r option"
  aw_startedAt :: time_ms
  aw_finishedAt :: time_ms
  aw_latency :: int
  aw_errors :: "string list"
  aw_status :: execution_status
  aw_metadata :: js_record

definition good_answer :: "string \<Rightarrow> string \<Rightarrow> time_ms \<Rightarrow> time_ms \<Rightarrow> 'r op_result \<Rightarrow> 'r agent_answer" where
  "good_answer agent op started ended r =
     \<lparr>aw_agentId = agent, aw_success = op_success r, aw_output = Some (op_value r), aw_startedAt = started,
      aw_finishedAt = ended, aw_latency = ended - started,
      aw_errors = (case op_error r of None \<Rightarrow> [] | Some e \<Rightarrow> if e = [] then [] else [e]),
      aw_status = (if op_success r then ExCompleted else ExFailed),
      aw_metadata = js_spread [(''operation'', JStr op)] (op_metadata r)\<rparr>"

definition failed_answer :: "string \<Rightarrow> time_ms \<Rightarrow> time_ms \<Rightarrow> string \<Rightarrow> 'r agent_answer" where
  "failed_answer agent started ended m =
     \<lparr>aw_agentId = agent, aw_success = False, aw_output = None, aw_startedAt = started, aw_finishedAt = ended,
      aw_latency = ended - started, aw_errors = [m], aw_status = ExFailed, aw_metadata = [(''error'', JStr m)]\<rparr>"

text \<open>The \<open>catch\<close> of \<open>execute\<close>; without an answer, \<open>execute\<close> rejects with the \<open>TypeError\<close>.\<close>

definition catch_failure ::
  "string \<Rightarrow> jsval option \<Rightarrow> time_ms \<Rightarrow> time_ms \<Rightarrow> string \<Rightarrow> agent_shell \<Rightarrow> agent_shell \<times> 'r agent_answer option" where
  "catch_failure agent op started ended m sh =
     (case op of
        None \<Rightarrow> (shell_blame m sh, Some (failed_answer agent started ended m))
      | Some v \<Rightarrow> (case recordOperationError (property_key v) (ended - started) sh of
            (sh1, True) \<Rightarrow> (sh1, None)
          | (sh1, False) \<Rightarrow> (shell_blame m sh1, Some (failed_answer agent started ended m))))"

definition shell_execute ::
  "string \<Rightarrow> ('i \<Rightarrow> jsval option) \<Rightarrow> ('i \<Rightarrow> string + string) \<Rightarrow> (string \<Rightarrow> 'i \<Rightarrow> 'c \<Rightarrow> 'c \<times> (string + 'r op_result))
     \<Rightarrow> time_ms \<Rightarrow> time_ms \<Rightarrow> 'i \<Rightarrow> agent_shell \<times> 'c \<Rightarrow> (agent_shell \<times> 'c) \<times> 'r agent_answer option" where
  "shell_execute agent op_of parse run started ended input = (\<lambda>(sh, c).
     let sh0 = sh\<lparr>ah_lastActivity := Some started\<rparr> in
     case parse input of
       Inl m \<Rightarrow> (case catch_failure agent (op_of input) started ended m sh0 of (sh1, a) \<Rightarrow> ((sh1, c), a))
     | Inr op \<Rightarrow>
         (let sh1 = recordOperationAttempt op sh0 in
          case run op input c of
            (c1, Inl m) \<Rightarrow> (case catch_failure agent (op_of input) started ended m sh1 of (sh2, a) \<Rightarrow> ((sh2, c1), a))
          | (c1, Inr r) \<Rightarrow> (case recordOperationSuccess op (ended - started) sh1 of
                (sh2, False) \<Rightarrow> ((sh2, c1), Some (good_answer agent op started ended r))
              | (sh2, True) \<Rightarrow> (case catch_failure agent (op_of input) started ended ''Cannot read properties of undefined'' sh2 of
                    (sh3, a) \<Rightarrow> ((sh3, c1), a)))))"

text \<open>\<open>execute\<close> of an agent with operations that may not return (\<open>None\<close>).\<close>

definition shell_execute_partial ::
  "string \<Rightarrow> ('i \<Rightarrow> jsval option) \<Rightarrow> ('i \<Rightarrow> string + string) \<Rightarrow> (string \<Rightarrow> 'i \<Rightarrow> 'c \<Rightarrow> ('c \<times> (string + 'r op_result)) option)
     \<Rightarrow> time_ms \<Rightarrow> time_ms \<Rightarrow> 'i \<Rightarrow> agent_shell \<times> 'c \<Rightarrow> ((agent_shell \<times> 'c) \<times> 'r agent_answer option) option" where
  "shell_execute_partial agent op_of parse run started ended input st =
     (case parse input of
        Inl m \<Rightarrow> Some (shell_execute agent op_of parse (\<lambda>op i g. (g, Inl m)) started ended input st)
      | Inr op \<Rightarrow> map_option (\<lambda>out. shell_execute agent op_of parse (\<lambda>op i g. out) started ended input st) (run op input (snd st)))"

fun priority_str :: "agent_priority \<Rightarrow> string" where
  "priority_str Critical = ''critical''"
| "priority_str High = ''high''"
| "priority_str Normal = ''normal''"
| "priority_str Low = ''low''"

text \<open>The result of an operation that has succeeded.\<close>

definition completed_op :: "'r \<Rightarrow> js_record \<Rightarrow> string + 'r op_result" where
  "completed_op v md = Inr \<lparr>op_success = True, op_error = None, op_value = v, op_metadata = md\<rparr>"

section \<open>Start, stop, health and metrics\<close>


text \<open>
  \<open>initialize\<close> and \<open>shutdown\<close> of the agent called \<open>what\<close>; \<open>missing\<close> is the message of the exception for a
  component that is not there.
\<close>

definition shell_initialize :: "string \<Rightarrow> string option \<Rightarrow> agent_shell \<Rightarrow> agent_shell \<times> (string + unit)" where
  "shell_initialize what missing sh =
     (case missing of
        None \<Rightarrow> (set_status AgIdle (set_status AgInitializing sh), Inr ())
      | Some e \<Rightarrow> (let m = ''Failed to initialize '' @ what @ '' agent: '' @ e in
                   (shell_blame m (set_status AgError (set_status AgInitializing sh)), Inl m)))"

definition shell_shutdown :: "agent_shell \<Rightarrow> agent_shell" where
  "shell_shutdown sh = set_status AgStopped (set_status AgShuttingDown sh)"

definition shell_hasCapability :: "string \<Rightarrow> agent_capability list \<Rightarrow> bool" where
  "shell_hasCapability i caps = list_ex (\<lambda>c. cap_id c = i) caps"

definition shell_getCapability :: "string \<Rightarrow> agent_capability list \<Rightarrow> agent_capability option" where
  "shell_getCapability i caps = List.find (\<lambda>c. cap_id c = i) caps"

definition success_rate :: "agent_shell \<Rightarrow> real" where
  "success_rate sh =
     (let n = total_count (ah_counts sh) in if n > 0 then real (total_count (ah_successes sh)) / real n else 0)"

definition shell_health_status :: "bool \<Rightarrow> agent_shell \<Rightarrow> health_status" where
  "shell_health_status available sh =
     (if ah_errors sh \<noteq> [] \<or> \<not> available then Unhealthy else if ah_warnings sh \<noteq> [] then Degraded else Healthy)"

record shell_health =
  sl_status :: health_status
  sl_uptime :: int
  sl_lastHeartbeat :: time_ms
  sl_errors :: "string list"
  sl_warnings :: "string list"
  sl_metrics :: "(string, real) js_map"

text \<open>\<open>own\<close>: the entries of the agent before the two that all have.\<close>

definition shell_getHealth :: "time_ms \<Rightarrow> bool \<Rightarrow> (string, real) js_map \<Rightarrow> agent_shell \<Rightarrow> shell_health" where
  "shell_getHealth now available own sh =
     \<lparr>sl_status = shell_health_status available sh, sl_uptime = now - ah_startTime sh, sl_lastHeartbeat = now,
      sl_errors = ah_errors sh, sl_warnings = ah_warnings sh,
      sl_metrics = own @ [(''totalOperations'', real (total_count (ah_counts sh))), (''successRate'', success_rate sh)]\<rparr>"

record shell_metrics =
  sy_operationCounts :: "(string, js_count) js_map"
  sy_successCounts :: "(string, js_count) js_map"
  sy_errorCounts :: "(string, js_count) js_map"
  sy_averageLatencies :: "(string, real) js_map"
  sy_totalOperations :: nat
  sy_successRate :: real
  sy_uptime :: int

definition op_rate :: "string \<Rightarrow> agent_shell \<Rightarrow> real" where
  "op_rate op sh =
     (let n = op_count (ah_counts sh) op in if n > 0 then real (op_count (ah_successes sh) op) / real n else 0)"

definition average_of :: "int list \<Rightarrow> real" where
  "average_of ls = (if length ls > 0 then real_of_int (sum_list ls) / real (length ls) else 0)"

definition average_latency :: "string \<Rightarrow> shell_metrics \<Rightarrow> real" where
  "average_latency op m = (case js_get (sy_averageLatencies m) op of None \<Rightarrow> 0 | Some x \<Rightarrow> x)"

definition shell_getMetrics :: "time_ms \<Rightarrow> agent_shell \<Rightarrow> shell_metrics" where
  "shell_getMetrics now sh =
     \<lparr>sy_operationCounts = ah_counts sh, sy_successCounts = ah_successes sh, sy_errorCounts = ah_failures sh,
      sy_averageLatencies = map (\<lambda>(op, ls). (op, average_of ls)) (ah_latencies sh),
      sy_totalOperations = total_count (ah_counts sh), sy_successRate = success_rate sh, sy_uptime = now - ah_startTime sh\<rparr>"

text \<open>The common checks of \<open>validateAndParseRequest\<close>: \<open>given\<close> is the input's \<open>operation\<close>, \<open>None\<close> no object.\<close>

definition parse_operation :: "(string \<Rightarrow> string \<Rightarrow> string) \<Rightarrow> string list \<Rightarrow> jsval option option \<Rightarrow> string + string" where
  "parse_operation invalid ops given =
     (case given of
        None \<Rightarrow> Inl (invalid ''unknown'' ''Input must be an object'')
      | Some (Some (JStr op)) \<Rightarrow>
          if op = [] then Inl (invalid ''unknown'' ''Operation is required and must be a string'')
          else if op \<notin> set ops then Inl (invalid op ''Unsupported operation'')
          else Inr op
      | Some _ \<Rightarrow> Inl (invalid ''unknown'' ''Operation is required and must be a string''))"

text \<open>The further checks: the message of the first that fails.\<close>

fun first_violation :: "(bool \<times> string) list \<Rightarrow> string option" where
  "first_violation [] = None"
| "first_violation ((bad, m) # cs) = (if bad then Some m else first_violation cs)"

definition checked :: "(string \<Rightarrow> string \<Rightarrow> string) \<Rightarrow> string \<Rightarrow> (bool \<times> string) list \<Rightarrow> string + string" where
  "checked invalid op cs = (case first_violation cs of None \<Rightarrow> Inr op | Some m \<Rightarrow> Inl (invalid op m))"

fun not_string :: "jsval \<Rightarrow> bool" where
  "not_string (JStr s) = (s = [])"
| "not_string _ = True"

text \<open>The text of a checked field.\<close>

fun the_text :: "jsval \<Rightarrow> string" where
  "the_text (JStr s) = s"
| "the_text _ = []"

lemma parse_operation_known:
  "parse_operation invalid ops given = Inr op \<Longrightarrow> op \<in> set ops \<and> given = Some (Some (JStr op))"
  by (auto simp: parse_operation_def split: option.splits jsval.splits if_splits)

text \<open>\<open>validateAndParseRequest\<close> of an input that is an object with the given fields, or none.\<close>

definition shell_op_of :: "('q \<Rightarrow> jsval option) \<Rightarrow> 'q option \<Rightarrow> jsval option" where
  "shell_op_of operation input = Option.bind input operation"

definition shell_parse ::
  "(string \<Rightarrow> string \<Rightarrow> string) \<Rightarrow> string list \<Rightarrow> ('q \<Rightarrow> jsval option) \<Rightarrow> (string \<Rightarrow> 'q \<Rightarrow> (bool \<times> string) list)
     \<Rightarrow> 'q option \<Rightarrow> string + string" where
  "shell_parse invalid ops operation checks input =
     (case parse_operation invalid ops (map_option operation input) of
        Inl m \<Rightarrow> Inl m
      | Inr op \<Rightarrow> (case input of None \<Rightarrow> Inr op | Some i \<Rightarrow> checked invalid op (checks op i)))"

lemma shell_parse_known:
  assumes "shell_parse invalid ops operation checks input = Inr op"
  shows "op \<in> set ops \<and> shell_op_of operation input = Some (JStr op)"
proof -
  have "parse_operation invalid ops (map_option operation input) = Inr op"
    using assms by (auto simp: shell_parse_def checked_def split: sum.splits option.splits)
  from parse_operation_known [OF this] show ?thesis by (auto simp: shell_op_of_def)
qed

section \<open>Interface: a built-in agent\<close>

text \<open>A shell that has counted properly: what \<open>new_shell\<close> gives and every execution keeps.\<close>

definition shell_ok :: "string list \<Rightarrow> agent_shell \<Rightarrow> bool" where
  "shell_ok ops sh \<longleftrightarrow> (\<forall>op. js_has (ah_latencies sh) op \<longleftrightarrow> op \<in> set ops)
     \<and> (\<forall>op \<in> set ops. \<exists>a s f ls. js_get (ah_counts sh) op = Some (Count a) \<and> js_get (ah_successes sh) op = Some (Count s)
          \<and> js_get (ah_failures sh) op = Some (Count f) \<and> js_get (ah_latencies sh) op = Some ls
          \<and> s \<le> a \<and> a \<le> s + f \<and> length ls = min 100 (s + f))"

lemma js_get_fold_set: "js_get (fold (\<lambda>op. js_set op v) ops m) k = (if k \<in> set ops then Some v else js_get m k)"
  by (induction ops arbitrary: m) auto

lemma new_shell_ok: "shell_ok ops (new_shell ops now)"
  by (simp add: shell_ok_def new_shell_def initialize_metrics_def js_get_fold_set js_has_iff)

lemma push_latency_length: "length (push_latency d ls) = min 100 (Suc (length ls))" if "length ls \<le> 100"
  using that by (auto simp: push_latency_def)

lemma blame_ok [simp]: "shell_ok ops (shell_blame m sh) = shell_ok ops sh"
  "shell_ok ops (sh\<lparr>ah_lastActivity := t\<rparr>) = shell_ok ops sh" "shell_ok ops (set_status s sh) = shell_ok ops sh"
  by (simp_all add: shell_ok_def shell_blame_def set_status_def)

text \<open>An operation that is counted, and then ends.\<close>

lemma attempt_then_success_ok:
  assumes "shell_ok ops sh" "op \<in> set ops"
  shows "shell_ok ops (fst (recordOperationSuccess op d (recordOperationAttempt op sh)))"
    and "snd (recordOperationSuccess op d (recordOperationAttempt op sh)) = False"
proof -
  obtain a s f ls where op: "js_get (ah_counts sh) op = Some (Count a)" "js_get (ah_successes sh) op = Some (Count s)"
      "js_get (ah_failures sh) op = Some (Count f)" "js_get (ah_latencies sh) op = Some ls" "s \<le> a" "a \<le> s + f" "length ls = min 100 (s + f)"
    using assms by (fastforce simp: shell_ok_def)
  have "length (push_latency d ls) = min 100 (Suc (s + f))" using op(7) by (simp add: push_latency_length)
  then show "shell_ok ops (fst (recordOperationSuccess op d (recordOperationAttempt op sh)))"
    using assms op
    by (auto simp: shell_ok_def recordOperationSuccess_def record_latency_def recordOperationAttempt_def bump_count_def)
  show "snd (recordOperationSuccess op d (recordOperationAttempt op sh)) = False"
    using op by (simp add: recordOperationSuccess_def record_latency_def recordOperationAttempt_def)
qed

lemma error_ok:
  assumes "shell_ok ops sh" "op \<in> set ops"
  shows "shell_ok ops (fst (recordOperationError op d sh))" "shell_ok ops (fst (recordOperationError op d (recordOperationAttempt op sh)))"
    and "snd (recordOperationError op d sh) = False" "snd (recordOperationError op d (recordOperationAttempt op sh)) = False"
proof -
  obtain a s f ls where op: "js_get (ah_counts sh) op = Some (Count a)" "js_get (ah_successes sh) op = Some (Count s)"
      "js_get (ah_failures sh) op = Some (Count f)" "js_get (ah_latencies sh) op = Some ls" "s \<le> a" "a \<le> s + f" "length ls = min 100 (s + f)"
    using assms by (fastforce simp: shell_ok_def)
  have "length (push_latency d ls) = min 100 (Suc (s + f))" using op(7) by (simp add: push_latency_length)
  then show "shell_ok ops (fst (recordOperationError op d sh))" "shell_ok ops (fst (recordOperationError op d (recordOperationAttempt op sh)))"
    using assms op
    by (auto simp: shell_ok_def recordOperationError_def record_latency_def recordOperationAttempt_def bump_count_def)
  show "snd (recordOperationError op d sh) = False" "snd (recordOperationError op d (recordOperationAttempt op sh)) = False"
    using op by (simp_all add: recordOperationError_def record_latency_def recordOperationAttempt_def)
qed

text \<open>An operation that is not in the enumeration.\<close>

lemma unknown_error:
  assumes "shell_ok ops sh" "op \<notin> set ops"
  shows "recordOperationError op d sh = (sh\<lparr>ah_failures := bump_count op (ah_failures sh)\<rparr>, True)"
    and "shell_ok ops (sh\<lparr>ah_failures := bump_count op (ah_failures sh)\<rparr>)"
proof -
  have "js_get (ah_latencies sh) op = None" using assms by (auto simp: shell_ok_def js_has_iff)
  then show "recordOperationError op d sh = (sh\<lparr>ah_failures := bump_count op (ah_failures sh)\<rparr>, True)"
    by (simp add: recordOperationError_def record_latency_def)
  show "shell_ok ops (sh\<lparr>ah_failures := bump_count op (ah_failures sh)\<rparr>)"
    using assms by (auto simp: shell_ok_def bump_count_def)
qed

definition unknown_operation :: "string list \<Rightarrow> jsval option \<Rightarrow> bool" where
  "unknown_operation ops op = (case op of None \<Rightarrow> False | Some v \<Rightarrow> property_key v \<notin> set ops)"

lemma recording_keeps [simp]:
  "ah_errors (fst (recordOperationError op d sh)) = ah_errors sh" "ah_warnings (fst (recordOperationError op d sh)) = ah_warnings sh"
  "ah_errors (fst (recordOperationSuccess op d sh)) = ah_errors sh" "ah_warnings (fst (recordOperationSuccess op d sh)) = ah_warnings sh"
  "ah_errors (recordOperationAttempt op sh) = ah_errors sh" "ah_warnings (recordOperationAttempt op sh) = ah_warnings sh"
  by (simp_all add: recordOperationError_def recordOperationSuccess_def recordOperationAttempt_def record_latency_def split: option.split)

text \<open>The \<open>catch\<close> from a shell, and from one in which the failed operation has been counted.\<close>

lemma catch_parse_failure:
  assumes "shell_ok ops sh" "catch_failure agent op started ended m sh = (sh1, a)"
  shows "shell_ok ops sh1" "(a = None) = unknown_operation ops op" "ah_warnings sh1 = ah_warnings sh"
    "ah_errors sh1 = (if unknown_operation ops op then ah_errors sh else ah_errors sh @ [m])"
    "a \<noteq> None \<Longrightarrow> a = Some (failed_answer agent started ended m)"
proof -
  have "shell_ok ops sh1 \<and> (a = None) = unknown_operation ops op \<and> ah_warnings sh1 = ah_warnings sh
     \<and> ah_errors sh1 = (if unknown_operation ops op then ah_errors sh else ah_errors sh @ [m])
     \<and> (a \<noteq> None \<longrightarrow> a = Some (failed_answer agent started ended m))"
  proof (cases op)
    case None
    then show ?thesis using assms by (auto simp: catch_failure_def unknown_operation_def shell_blame_def shell_ok_def)
  next
    case (Some v)
    show ?thesis
    proof (cases "property_key v \<in> set ops")
      case True
      obtain k where k: "recordOperationError (property_key v) (ended - started) sh = (k, False)"
        using error_ok(3) [OF assms(1) True] by (metis prod.collapse)
      have "shell_ok ops k" "ah_errors k = ah_errors sh" "ah_warnings k = ah_warnings sh"
        using error_ok(1) [OF assms(1) True, of "ended - started"] recording_keeps(1,2) [of "property_key v" "ended - started" sh] k
        by simp_all
      then show ?thesis
        using Some True k assms(2) by (auto simp: catch_failure_def unknown_operation_def shell_blame_def shell_ok_def)
    next
      case False
      then show ?thesis
        using Some unknown_error [OF assms(1) False] assms(2) by (auto simp: catch_failure_def unknown_operation_def)
    qed
  qed
  then show "shell_ok ops sh1" "(a = None) = unknown_operation ops op" "ah_warnings sh1 = ah_warnings sh"
    "ah_errors sh1 = (if unknown_operation ops op then ah_errors sh else ah_errors sh @ [m])"
    "a \<noteq> None \<Longrightarrow> a = Some (failed_answer agent started ended m)"
    by auto
qed

lemma catch_run_failure:
  assumes "shell_ok ops sh" "op \<in> set ops" "catch_failure agent (Some (JStr op)) started ended m (recordOperationAttempt op sh) = (sh1, a)"
  shows "shell_ok ops sh1" "a = Some (failed_answer agent started ended m)" "ah_errors sh1 = ah_errors sh @ [m]" "ah_warnings sh1 = ah_warnings sh"
proof -
  let ?rec = "recordOperationError op (ended - started) (recordOperationAttempt op sh)"
  obtain k where k: "?rec = (k, False)" using error_ok(4) [OF assms(1,2)] by (metis prod.collapse)
  have "shell_ok ops k" "ah_errors k = ah_errors sh" "ah_warnings k = ah_warnings sh"
    using error_ok(2) [OF assms(1,2), of "ended - started"] recording_keeps(1,2) [of op "ended - started" "recordOperationAttempt op sh"] k
    by simp_all
  then show "shell_ok ops sh1" "a = Some (failed_answer agent started ended m)" "ah_errors sh1 = ah_errors sh @ [m]" "ah_warnings sh1 = ah_warnings sh"
    using k assms(3) by (auto simp: catch_failure_def shell_blame_def shell_ok_def)
qed

text \<open>What an execution does to the agent's own state, and a run of executions.\<close>

lemma shell_execute_state:
  "snd (fst (shell_execute agent op_of parse run started ended input (sh, c))) =
     (case parse input of Inl m \<Rightarrow> c | Inr op \<Rightarrow> fst (run op input c))"
  by (auto simp: shell_execute_def Let_def split: sum.splits prod.splits bool.splits)

type_synonym ('i, 'c, 'r) agent_call = "(string \<Rightarrow> 'i \<Rightarrow> 'c \<Rightarrow> 'c \<times> (string + 'r op_result)) \<times> time_ms \<times> time_ms \<times> 'i"

definition shell_executions ::
  "string \<Rightarrow> ('i \<Rightarrow> jsval option) \<Rightarrow> ('i \<Rightarrow> string + string) \<Rightarrow> ('i, 'c, 'r) agent_call list \<Rightarrow> agent_shell \<times> 'c \<Rightarrow> agent_shell \<times> 'c" where
  "shell_executions agent op_of parse = fold (\<lambda>(run, started, ended, input) st. fst (shell_execute agent op_of parse run started ended input st))"

locale builtin_agent =
  fixes operations :: "string list"
    and op_of :: "'i \<Rightarrow> jsval option"
    and parse :: "'i \<Rightarrow> string + string"
  assumes parse_known: "parse input = Inr op \<Longrightarrow> op \<in> set operations \<and> op_of input = Some (JStr op)"
begin

text \<open>
  One execution: it rejects exactly when the input names an operation that is not known, and then records no
  error; the counters stay in order; an operation that throws leaves its message among the errors.
\<close>

lemma execute_contract:
  assumes ok: "shell_ok operations sh"
    and ex: "shell_execute agent op_of parse run started ended input (sh, c) = ((sh1, c1), ans)"
  shows "shell_ok operations sh1" "(ans = None) = unknown_operation operations (op_of input)"
    "prefix (ah_errors sh) (ah_errors sh1)" "ah_warnings sh1 = ah_warnings sh"
    "ans = Some a \<Longrightarrow> aw_output a = None \<Longrightarrow> ah_errors sh1 = ah_errors sh @ aw_errors a \<and> aw_errors a \<noteq> []"
    "ans = Some a \<Longrightarrow> aw_output a = Some r \<Longrightarrow> ah_errors sh1 = ah_errors sh"
proof -
  let ?sh = "sh\<lparr>ah_lastActivity := Some started\<rparr>"
  have ok': "shell_ok operations ?sh" using ok by simp
  have "shell_ok operations sh1 \<and> (ans = None) = unknown_operation operations (op_of input)
    \<and> prefix (ah_errors sh) (ah_errors sh1) \<and> ah_warnings sh1 = ah_warnings sh
    \<and> (\<forall>a. ans = Some a \<longrightarrow> (case aw_output a of None \<Rightarrow> ah_errors sh1 = ah_errors sh @ aw_errors a \<and> aw_errors a \<noteq> []
         | Some r \<Rightarrow> ah_errors sh1 = ah_errors sh))"
  proof (cases "parse input")
    case (Inl m)
    then have "catch_failure agent (op_of input) started ended m ?sh = (sh1, ans)"
      using ex by (auto simp: shell_execute_def split: prod.splits)
    note c = catch_parse_failure [OF ok' this]
    then show ?thesis by (cases ans) (auto simp: failed_answer_def)
  next
    case (Inr op)
    have op: "op \<in> set operations" "op_of input = Some (JStr op)" using parse_known [OF Inr] by auto
    then have known: "unknown_operation operations (op_of input) = False" by (simp add: unknown_operation_def)
    obtain k res where run: "run op input c = (k, res)" by (rule prod.exhaust)
    show ?thesis
    proof (cases res)
      case (Inl m)
      then have "catch_failure agent (Some (JStr op)) started ended m (recordOperationAttempt op ?sh) = (sh1, ans)"
        using ex Inr op(2) run by (auto simp: shell_execute_def Let_def split: prod.splits)
      note c = catch_run_failure [OF ok' op(1) this]
      then show ?thesis using known by (auto simp: failed_answer_def)
    next
      case (Inr r)
      let ?rec = "recordOperationSuccess op (ended - started) (recordOperationAttempt op ?sh)"
      obtain sh2 where sh2: "?rec = (sh2, False)" using attempt_then_success_ok(2) [OF ok' op(1)] by (metis prod.collapse)
      have "shell_ok operations sh2" "ah_errors sh2 = ah_errors sh" "ah_warnings sh2 = ah_warnings sh"
        using attempt_then_success_ok(1) [OF ok' op(1), of "ended - started"]
          recording_keeps(3,4) [of op "ended - started" "recordOperationAttempt op ?sh"] sh2 by simp_all
      then show ?thesis
        using ex \<open>parse input = Inr op\<close> run Inr sh2 known by (auto simp: shell_execute_def good_answer_def Let_def)
    qed
  qed
  then show "shell_ok operations sh1" "(ans = None) = unknown_operation operations (op_of input)"
    "prefix (ah_errors sh) (ah_errors sh1)" "ah_warnings sh1 = ah_warnings sh"
    "ans = Some a \<Longrightarrow> aw_output a = None \<Longrightarrow> ah_errors sh1 = ah_errors sh @ aw_errors a \<and> aw_errors a \<noteq> []"
    "ans = Some a \<Longrightarrow> aw_output a = Some r \<Longrightarrow> ah_errors sh1 = ah_errors sh"
    by auto
qed

lemma rejects_iff:
  assumes "shell_ok operations sh"
  shows "(snd (shell_execute agent op_of parse run started ended input (sh, c)) = None) = unknown_operation operations (op_of input)"
proof -
  obtain sh1 c1 ans where ex: "shell_execute agent op_of parse run started ended input (sh, c) = ((sh1, c1), ans)"
    by (metis prod.collapse)
  then show ?thesis using execute_contract(2) [OF assms ex] by simp
qed

lemma rejects_iff_partial:
  assumes "shell_ok operations (fst st)" "shell_execute_partial agent op_of parse run started ended input st = Some out"
  shows "(snd out = None) = unknown_operation operations (op_of input)"
proof (cases "parse input")
  case (Inl m)
  then have eq: "out = shell_execute agent op_of parse (\<lambda>op i g. (g, Inl m)) started ended input (fst st, snd st)"
    using assms(2) by (simp add: shell_execute_partial_def)
  show ?thesis unfolding eq by (rule rejects_iff [OF assms(1)])
next
  case (Inr op)
  then obtain x where eq: "out = shell_execute agent op_of parse (\<lambda>op i g. x) started ended input (fst st, snd st)"
    using assms(2) by (auto simp: shell_execute_partial_def)
  show ?thesis unfolding eq by (rule rejects_iff [OF assms(1)])
qed

lemma rejects_partial:
  assumes "shell_ok operations (fst st)"
  shows "map_option (\<lambda>out. snd out = None) (shell_execute_partial agent op_of parse run started ended input st)
    \<in> {None, Some (unknown_operation operations (op_of input))}"
proof (cases "shell_execute_partial agent op_of parse run started ended input st")
  case (Some out)
  then show ?thesis by (simp only: rejects_iff_partial [OF assms Some] option.map insert_iff simp_thms)
qed simp

text \<open>An operation that succeeds, and a run of executions.\<close>

lemma execute_good:
  assumes "shell_ok operations sh" "parse input = Inr op" "run op input c = (c1, Inr r)"
  shows "\<exists>sh1. shell_execute agent op_of parse run started ended input (sh, c) = ((sh1, c1), Some (good_answer agent op started ended r))"
proof -
  have ok: "shell_ok operations (sh\<lparr>ah_lastActivity := Some started\<rparr>)" and op: "op \<in> set operations"
    using assms(1) parse_known [OF assms(2)] by simp_all
  then obtain sh2 where "recordOperationSuccess op (ended - started) (recordOperationAttempt op (sh\<lparr>ah_lastActivity := Some started\<rparr>)) = (sh2, False)"
    using attempt_then_success_ok(2) by (metis prod.collapse)
  then show ?thesis using assms(2,3) by (simp add: shell_execute_def Let_def)
qed

lemma execute_refused:
  fixes run :: "string \<Rightarrow> 'i \<Rightarrow> 'c \<Rightarrow> 'c \<times> (string + 'r op_result)"
  assumes "shell_ok operations sh" "parse input = Inl m" "\<not> unknown_operation operations (op_of input)"
  shows "\<exists>sh1. shell_execute agent op_of parse run started ended input (sh, c) = ((sh1, c), Some (failed_answer agent started ended m))"
proof -
  have ok: "shell_ok operations (sh\<lparr>ah_lastActivity := Some started\<rparr>)" using assms(1) by simp
  obtain sh1 and a :: "'r agent_answer option" where
    c: "catch_failure agent (op_of input) started ended m (sh\<lparr>ah_lastActivity := Some started\<rparr>) = (sh1, a)" by (rule prod.exhaust)
  have "a = Some (failed_answer agent started ended m)"
    using catch_parse_failure(2,5) [OF ok c] assms(3) by simp
  then show ?thesis using assms(2) c by (simp add: shell_execute_def)
qed

lemma executions_grow:
  assumes "shell_ok operations (fst st)"
  shows "shell_ok operations (fst (shell_executions agent op_of parse calls st))
    \<and> prefix (ah_errors (fst st)) (ah_errors (fst (shell_executions agent op_of parse calls st)))"
  using assms
proof (induction calls arbitrary: st)
  case Nil
  then show ?case by (simp add: shell_executions_def)
next
  case (Cons call calls)
  obtain run started ended input where call: "call = (run, started, ended, input)" by (rule prod_cases4)
  obtain sh1 c1 a where ex: "shell_execute agent op_of parse run started ended input (fst st, snd st) = ((sh1, c1), a)"
    by (metis prod.collapse)
  note step = execute_contract(1,3) [OF Cons.prems ex]
  have "shell_executions agent op_of parse (call # calls) st = shell_executions agent op_of parse calls (sh1, c1)"
    using ex call by (simp add: shell_executions_def)
  moreover have "shell_ok operations (fst (sh1, c1))" using step(1) by simp
  note Cons.IH [OF this]
  ultimately show ?case using step(2) by (metis fst_conv prefix_order.trans)
qed

end

end
