(* ===== verification/Planner_Agent.thy ===== *)
theory Planner_Agent
  imports Builtin_Shell Planner
begin

text \<open>
  The class \<open>PlannerAgent\<close> (\<open>agents/builtin/planner-agent\<close>): a built-in agent in front of the planner.

  The planner keeps nothing, so its model is called with a fresh id and a clock reading. A field of the
  input that the parser checks is any value or absent; the others have the types of the code.
\<close>

section \<open>Requests and results\<close>

record task_update =
  tu_taskId :: string
  tu_updates :: partial_task

record plan_modifications =
  pm_addTasks :: "partial_task list option"
  pm_removeTasks :: "string list option"
  pm_updateTasks :: "task_update list option"
  pm_changeMode :: "execution_mode option"
  pm_changePriority :: "agent_priority option"

record planner_input =
  pi_operation :: "jsval option"
  pi_agentId :: jsval
  pi_workspaceId :: jsval
  pi_name :: jsval
  pi_description :: "string option"
  pi_priority :: agent_priority
  pi_tasks :: "partial_task list option"
  pi_executionMode :: "execution_mode option"
  pi_maxConcurrency :: "int option"
  pi_timeoutMs :: "int option"
  pi_metadata :: js_record
  pi_existingPlan :: "agent_plan option"
  pi_modifications :: "plan_modifications option"
  pi_reason :: "string option"
  pi_plan :: "agent_plan option"
  pi_strict :: "bool option"
  pi_includeTaskBreakdown :: bool

record plan_changes =
  ch_tasksAdded :: nat
  ch_tasksRemoved :: nat
  ch_tasksUpdated :: nat
  ch_modeChanged :: bool
  ch_priorityChanged :: bool

record task_breakdown =
  tb_taskId :: string
  tb_taskName :: string
  tb_estimatedDuration :: int
  tb_dependencies :: "string list"

datatype planner_value =
    PlanCreated agent_plan nat js_num time_ms
  | PlanReplaced agent_plan string plan_changes js_num time_ms
  | PlanChecked string validation_result time_ms
  | PlanEstimated string js_num "task_breakdown list option" time_ms

definition planner_operations :: "string list" where
  "planner_operations = [''plan'', ''replan'', ''validate'', ''estimate'']"

text \<open>Messages of the exceptions.\<close>

definition invalid_planner_operation :: "string \<Rightarrow> string \<Rightarrow> string" where
  "invalid_planner_operation op reason = ''Invalid planner operation '' @ sq op @ '': '' @ reason"

definition planning_failed :: "string \<Rightarrow> string \<Rightarrow> string" where
  "planning_failed agent reason = ''Planning failed for agent '' @ sq agent @ '': '' @ reason"

definition replanning_failed :: "string \<Rightarrow> string \<Rightarrow> string" where
  "replanning_failed plan reason = ''Replanning failed for plan '' @ sq plan @ '': '' @ reason"

definition plan_validation_failed :: "string \<Rightarrow> string list \<Rightarrow> string" where
  "plan_validation_failed plan errors = ''Plan validation failed for '' @ sq plan @ '': '' @ join_with '', '' errors"

definition plan_estimation_failed :: "string \<Rightarrow> string \<Rightarrow> string" where
  "plan_estimation_failed plan reason = ''Plan estimation failed for '' @ sq plan @ '': '' @ reason"

section \<open>Parsing\<close>

definition planner_parse :: "planner_input option \<Rightarrow> string + string" where
  "planner_parse = shell_parse invalid_planner_operation planner_operations pi_operation
     (\<lambda>op i.
            [(op = ''plan'' \<and> not_string (pi_agentId i), ''Agent ID is required for plan operation''),
             (op = ''plan'' \<and> not_string (pi_workspaceId i), ''Workspace ID is required for plan operation''),
             (op = ''plan'' \<and> not_string (pi_name i), ''Name is required for plan operation''),
             (op = ''plan'' \<and> pi_tasks i = None, ''Tasks array is required for plan operation''),
             (op = ''replan'' \<and> pi_existingPlan i = None, ''Existing plan is required for replan operation''),
             ((op = ''validate'' \<or> op = ''estimate'') \<and> pi_plan i = None, ''Plan is required for validate/estimate operations'')])"

definition planner_op_of :: "planner_input option \<Rightarrow> jsval option" where
  "planner_op_of = shell_op_of pi_operation"

section \<open>State\<close>

record planner_agent =
  pg_activePlans :: "(string, agent_plan) js_map"
  pg_totalPlansCreated :: nat
  pg_totalReplans :: nat
  pg_totalValidations :: nat
  pg_validPlans :: nat
  pg_invalidPlans :: nat

definition new_planner_agent :: planner_agent where
  "new_planner_agent = \<lparr>pg_activePlans = [], pg_totalPlansCreated = 0, pg_totalReplans = 0, pg_totalValidations = 0,
     pg_validPlans = 0, pg_invalidPlans = 0\<rparr>"

definition planner_capabilities :: "agent_capability list" where
  "planner_capabilities =
     [\<lparr>cap_id = ''plan-creation'', cap_name = ''Plan Creation''\<rparr>, \<lparr>cap_id = ''plan-validation'', cap_name = ''Plan Validation''\<rparr>,
      \<lparr>cap_id = ''plan-estimation'', cap_name = ''Plan Estimation''\<rparr>, \<lparr>cap_id = ''plan-replanning'', cap_name = ''Plan Replanning''\<rparr>]"

definition planner_metadata :: agent where
  "planner_metadata = \<lparr>ag_id = ''planner-agent'', ag_name = ''Planner Agent'', ag_version = ''1.0.0'', ag_type = ''service'',
     ag_capabilities = planner_capabilities\<rparr>"

text \<open>A call: fresh ids (the first for the plan, \<open>taskIds\<close> for added tasks), a clock reading, the context.\<close>

record planner_call =
  pk_planId :: string
  pk_taskIds :: "nat \<Rightarrow> string"
  pk_now :: time_ms
  pk_context :: call_context

section \<open>Creating a plan\<close>

definition planning_request_of :: "call_context \<Rightarrow> planner_input \<Rightarrow> planning_request" where
  "planning_request_of ctx i =
     \<lparr>pr_agentId = the_text (pi_agentId i), pr_workspaceId = the_text (pi_workspaceId i),
      pr_requestId = kx_requestId ctx, pr_traceId = kx_traceId ctx, pr_name = the_text (pi_name i),
      pr_description = pi_description i, pr_priority = pi_priority i, pr_tasks = or_else (pi_tasks i) [],
      pr_executionMode = pi_executionMode i, pr_maxConcurrency = pi_maxConcurrency i, pr_timeoutMs = pi_timeoutMs i,
      pr_metadata = Some (js_spread (kx_metadata ctx) (pi_metadata i))\<rparr>"

fun mode_str :: "execution_mode \<Rightarrow> string" where
  "mode_str Sequential = ''sequential''"
| "mode_str Parallel = ''parallel''"
| "mode_str Mixed = ''mixed''"

definition estimate_plan :: "agent_plan \<Rightarrow> agent_error + js_num" where
  "estimate_plan p = estimate (pl_tasks p) (pl_executionMode p) (Some (pl_parallelGroups p))"

definition pa_createPlan :: "planner_call \<Rightarrow> planner_input \<Rightarrow> planner_agent \<Rightarrow> planner_agent \<times> (string + planner_value op_result)" where
  "pa_createPlan k i g =
     (let agent = the_text (pi_agentId i) in
      case createPlan (pk_planId k) (pk_now k) (planning_request_of (pk_context k) i) of
        Inl e \<Rightarrow> (g, Inl (planning_failed agent (err_message e)))
      | Inr p \<Rightarrow>
          (let g1 = g\<lparr>pg_activePlans := js_set (pl_planId p) p (pg_activePlans g), pg_totalPlansCreated := pg_totalPlansCreated g + 1\<rparr>
           in case estimate_plan p of
                Inl e \<Rightarrow> (g1, Inl (planning_failed agent (err_message e)))
              | Inr d \<Rightarrow> (g1, Inr \<lparr>op_success = True, op_error = None,
                    op_value = PlanCreated p (length (pl_tasks p)) d (pk_now k),
                    op_metadata = [(''agentId'', pi_agentId i), (''workspaceId'', pi_workspaceId i),
                       (''executionMode'', JStr (mode_str (pl_executionMode p))), (''priority'', JStr (priority_str (pl_priority p))),
                       (''timestamp'', JDate (pk_now k))]\<rparr>)))"

section \<open>Replanning\<close>

text \<open>A task of a plan as a partial task, and the task a template adds.\<close>

definition as_partial :: "agent_task \<Rightarrow> partial_task" where
  "as_partial t =
     \<lparr>pt_taskId = Some (taskId t), pt_name = Some (task_name t), pt_description = Some (task_description t),
      pt_type = Some (task_type t), pt_state = Some (task_state t), pt_priority = Some (priority t), pt_input = task_input t,
      pt_dependencies = Some (dependencies t), pt_timeoutMs = Some (timeoutMs t), pt_metadata = Some (task_metadata t)\<rparr>"

definition added_task :: "agent_plan \<Rightarrow> string \<Rightarrow> partial_task \<Rightarrow> partial_task" where
  "added_task p uuid tpl =
     \<lparr>pt_taskId = Some uuid, pt_name = Some (or_str (pt_name tpl) ''Unnamed Task''), pt_description = Some (or_str (pt_description tpl) []),
      pt_type = Some (or_else (pt_type tpl) Execution), pt_state = Some TaskPending,
      pt_priority = Some (or_else (pt_priority tpl) (pl_priority p)), pt_input = pt_input tpl,
      pt_dependencies = Some (or_else (pt_dependencies tpl) []), pt_timeoutMs = Some (or_int (pt_timeoutMs tpl) 30000),
      pt_metadata = Some (or_else (pt_metadata tpl) [])\<rparr>"

text \<open>\<open>{ ...task, ...updates }\<close>: the fields the updates have; an \<open>undefined\<close> counts as absent.\<close>

definition given_or :: "'a option \<Rightarrow> 'a option \<Rightarrow> 'a option" where
  "given_or new old = (case new of None \<Rightarrow> old | Some x \<Rightarrow> Some x)"

definition spread_task :: "partial_task \<Rightarrow> partial_task \<Rightarrow> partial_task" where
  "spread_task t u =
     \<lparr>pt_taskId = given_or (pt_taskId u) (pt_taskId t), pt_name = given_or (pt_name u) (pt_name t),
      pt_description = given_or (pt_description u) (pt_description t), pt_type = given_or (pt_type u) (pt_type t),
      pt_state = given_or (pt_state u) (pt_state t), pt_priority = given_or (pt_priority u) (pt_priority t),
      pt_input = (if pt_input u = JUndefined then pt_input t else pt_input u),
      pt_dependencies = given_or (pt_dependencies u) (pt_dependencies t), pt_timeoutMs = given_or (pt_timeoutMs u) (pt_timeoutMs t),
      pt_metadata = given_or (pt_metadata u) (pt_metadata t)\<rparr>"

text \<open>The tasks after each modification, and how many it counts.\<close>

definition add_tasks :: "agent_plan \<Rightarrow> (nat \<Rightarrow> string) \<Rightarrow> partial_task list \<Rightarrow> partial_task list \<Rightarrow> partial_task list" where
  "add_tasks p ids new ts = ts @ map (\<lambda>(n, tpl). added_task p (ids n) tpl) (List.enumerate 0 new)"

definition remove_tasks :: "string list \<Rightarrow> partial_task list \<Rightarrow> partial_task list" where
  "remove_tasks ids ts = filter (\<lambda>t. case pt_taskId t of None \<Rightarrow> True | Some i \<Rightarrow> i \<notin> set ids) ts"

fun update_tasks :: "task_update list \<Rightarrow> partial_task list \<Rightarrow> nat \<Rightarrow> partial_task list \<times> nat" where
  "update_tasks [] ts n = (ts, n)"
| "update_tasks (u # us) ts n =
     (case find_index (\<lambda>t. pt_taskId t = Some (tu_taskId u)) ts of
        None \<Rightarrow> update_tasks us ts n
      | Some j \<Rightarrow> update_tasks us (ts[j := spread_task (ts ! j) (tu_updates u)]) (Suc n))"

definition modify_tasks :: "planner_call \<Rightarrow> agent_plan \<Rightarrow> plan_modifications option \<Rightarrow> partial_task list \<times> plan_changes" where
  "modify_tasks k p mods =
     (let ts = map as_partial (pl_tasks p) in
      case mods of
        None \<Rightarrow> (ts, \<lparr>ch_tasksAdded = 0, ch_tasksRemoved = 0, ch_tasksUpdated = 0, ch_modeChanged = False, ch_priorityChanged = False\<rparr>)
      | Some m \<Rightarrow>
          (let new = or_else (pm_addTasks m) []; gone = or_else (pm_removeTasks m) [];
               (ts1, n) = update_tasks (or_else (pm_updateTasks m) []) (remove_tasks gone (add_tasks p (pk_taskIds k) new ts)) 0
           in (ts1, \<lparr>ch_tasksAdded = length new, ch_tasksRemoved = length gone, ch_tasksUpdated = n,
                 ch_modeChanged = (pm_changeMode m \<noteq> None), ch_priorityChanged = (pm_changePriority m \<noteq> None)\<rparr>)))"

definition replan_request :: "planner_call \<Rightarrow> planner_input \<Rightarrow> agent_plan \<Rightarrow> partial_task list \<Rightarrow> planning_request" where
  "replan_request k i p ts =
     \<lparr>pr_agentId = pl_agentId p, pr_workspaceId = pl_workspaceId p, pr_requestId = kx_requestId (pk_context k),
      pr_traceId = kx_traceId (pk_context k), pr_name = pl_name p @ '' (Replanned)'',
      pr_description = Some (''Replanned version of '' @ pl_name p
         @ (case pi_reason i of None \<Rightarrow> [] | Some r \<Rightarrow> if r = [] then [] else '' - '' @ r)),
      pr_priority = or_else (Option.bind (pi_modifications i) pm_changePriority) (pl_priority p), pr_tasks = ts,
      pr_executionMode = Some (or_else (Option.bind (pi_modifications i) pm_changeMode) (pl_executionMode p)),
      pr_maxConcurrency = Some (pl_maxConcurrency p), pr_timeoutMs = Some (pl_timeoutMs p),
      pr_metadata = Some (js_spread (pl_metadata p) [(''replanned'', JBool True), (''originalPlanId'', JStr (pl_planId p)),
         (''replanReason'', case pi_reason i of None \<Rightarrow> JUndefined | Some r \<Rightarrow> JStr r)])\<rparr>"

definition modified_fields :: "plan_modifications option \<Rightarrow> jsval list" where
  "modified_fields mods =
     (case mods of
        None \<Rightarrow> []
      | Some m \<Rightarrow> (if pm_addTasks m \<noteq> None then [JStr ''addTasks''] else [])
           @ (if pm_removeTasks m \<noteq> None then [JStr ''removeTasks''] else [])
           @ (if pm_updateTasks m \<noteq> None then [JStr ''updateTasks''] else [])
           @ (if pm_changeMode m \<noteq> None then [JStr ''changeMode''] else [])
           @ (if pm_changePriority m \<noteq> None then [JStr ''changePriority''] else []))"

definition pa_replan :: "planner_call \<Rightarrow> planner_input \<Rightarrow> agent_plan \<Rightarrow> planner_agent \<Rightarrow> planner_agent \<times> (string + planner_value op_result)" where
  "pa_replan k i p g =
     (case modify_tasks k p (pi_modifications i) of (ts, changes) \<Rightarrow>
      case createPlan (pk_planId k) (pk_now k) (replan_request k i p ts) of
        Inl e \<Rightarrow> (g, Inl (replanning_failed (pl_planId p) (err_message e)))
      | Inr p1 \<Rightarrow>
          (let g1 = g\<lparr>pg_activePlans := js_delete (pl_planId p) (js_set (pl_planId p1) p1 (pg_activePlans g)),
                      pg_totalReplans := pg_totalReplans g + 1\<rparr>
           in case estimate_plan p1 of
                Inl e \<Rightarrow> (g1, Inl (replanning_failed (pl_planId p) (err_message e)))
              | Inr d \<Rightarrow> (g1, Inr \<lparr>op_success = True, op_error = None,
                    op_value = PlanReplaced p1 (pl_planId p) changes d (pk_now k),
                    op_metadata = [(''reason'', case pi_reason i of None \<Rightarrow> JUndefined | Some r \<Rightarrow> JStr r),
                       (''modificationsApplied'', JArr (modified_fields (pi_modifications i))), (''timestamp'', JDate (pk_now k))]\<rparr>)))"

section \<open>Validating and estimating\<close>

definition pa_validatePlan :: "planner_call \<Rightarrow> planner_input \<Rightarrow> agent_plan \<Rightarrow> planner_agent \<Rightarrow> planner_agent \<times> (string + planner_value op_result)" where
  "pa_validatePlan k i p g =
     (case validatePlan p of
        Inl e \<Rightarrow> (g, Inl (plan_validation_failed (pl_planId p) [err_message e]))
      | Inr v \<Rightarrow>
          (let g1 = g\<lparr>pg_totalValidations := pg_totalValidations g + 1\<rparr>;
               g2 = (if vr_valid v then g1\<lparr>pg_validPlans := pg_validPlans g1 + 1\<rparr> else g1\<lparr>pg_invalidPlans := pg_invalidPlans g1 + 1\<rparr>)
           in (g2, Inr \<lparr>op_success = True, op_error = None, op_value = PlanChecked (pl_planId p) v (pk_now k),
                 op_metadata = [(''strict'', case pi_strict i of None \<Rightarrow> JUndefined | Some b \<Rightarrow> JBool b),
                    (''errorCount'', JNum (int (length (vr_errors v)))), (''warningCount'', JNum (int (length (vr_warnings v)))),
                    (''timestamp'', JDate (pk_now k))]\<rparr>)))"

definition breakdown_of :: "agent_task \<Rightarrow> task_breakdown" where
  "breakdown_of t = \<lparr>tb_taskId = taskId t, tb_taskName = task_name t,
     tb_estimatedDuration = (if timeoutMs t = 0 then 30000 else timeoutMs t), tb_dependencies = map dep_taskId (dependencies t)\<rparr>"

definition pa_estimatePlan :: "planner_call \<Rightarrow> planner_input \<Rightarrow> agent_plan \<Rightarrow> planner_agent \<Rightarrow> planner_agent \<times> (string + planner_value op_result)" where
  "pa_estimatePlan k i p g =
     (g, case estimate_plan p of
        Inl e \<Rightarrow> Inl (plan_estimation_failed (pl_planId p) (err_message e))
      | Inr d \<Rightarrow> Inr \<lparr>op_success = True, op_error = None,
          op_value = PlanEstimated (pl_planId p) d (if pi_includeTaskBreakdown i then Some (map breakdown_of (pl_tasks p)) else None) (pk_now k),
          op_metadata = [(''taskCount'', JNum (int (length (pl_tasks p)))), (''executionMode'', JStr (mode_str (pl_executionMode p))),
             (''includeTaskBreakdown'', JBool (pi_includeTaskBreakdown i)), (''timestamp'', JDate (pk_now k))]\<rparr>)"

section \<open>The agent\<close>

text \<open>The dispatch; the parser has made sure of the plans.\<close>

definition planner_run :: "planner_call \<Rightarrow> string \<Rightarrow> planner_input option \<Rightarrow> planner_agent \<Rightarrow> planner_agent \<times> (string + planner_value op_result)" where
  "planner_run k op input g =
     (case input of None \<Rightarrow> (g, Inl (invalid_planner_operation op ''Unsupported operation''))
      | Some i \<Rightarrow>
          if op = ''plan'' then pa_createPlan k i g
          else case (if op = ''replan'' then pi_existingPlan i else pi_plan i) of
                 None \<Rightarrow> (g, Inl (invalid_planner_operation op ''Unsupported operation''))
               | Some p \<Rightarrow> if op = ''replan'' then pa_replan k i p g
                           else if op = ''validate'' then pa_validatePlan k i p g
                           else if op = ''estimate'' then pa_estimatePlan k i p g
                           else (g, Inl (invalid_planner_operation op ''Unsupported operation'')))"

definition planner_execute ::
  "planner_call \<Rightarrow> time_ms \<Rightarrow> time_ms \<Rightarrow> planner_input option \<Rightarrow> agent_shell \<times> planner_agent
     \<Rightarrow> (agent_shell \<times> planner_agent) \<times> planner_value agent_answer option" where
  "planner_execute k = shell_execute ''planner-agent'' planner_op_of planner_parse (planner_run k)"

definition planner_initialize :: "bool \<Rightarrow> agent_shell \<Rightarrow> agent_shell \<times> (string + unit)" where
  "planner_initialize available sh = shell_initialize ''planner'' (if available then None else Some ''Planner is not available'') sh"

definition planner_shutdown :: "agent_shell \<times> planner_agent \<Rightarrow> agent_shell \<times> planner_agent" where
  "planner_shutdown = (\<lambda>(sh, g). (shell_shutdown sh, g\<lparr>pg_activePlans := []\<rparr>))"

definition planner_getHealth :: "time_ms \<Rightarrow> bool \<Rightarrow> agent_shell \<times> planner_agent \<Rightarrow> shell_health" where
  "planner_getHealth now available = (\<lambda>(sh, g). shell_getHealth now available
     [(''totalPlans'', real (pg_totalPlansCreated g)), (''activePlans'', real (length (pg_activePlans g)))] sh)"

section \<open>Reports\<close>

record planner_agent_health =
  pah_plannerAvailable :: bool
  pah_status :: health_status
  pah_activePlans :: nat
  pah_totalPlansCreated :: nat
  pah_averagePlanComplexity :: real
  pah_errors :: "string list"
  pah_warnings :: "string list"
  pah_lastActivity :: "time_ms option"
  pah_totalReplans :: nat
  pah_totalValidations :: nat
  pah_validationSuccessRate :: real

definition average_tasks :: "planner_agent \<Rightarrow> real" where
  "average_tasks g =
     (let ps = js_values (pg_activePlans g) in
      if ps = [] then 0 else real (sum_list (map (\<lambda>p. length (pl_tasks p)) ps)) / real (length ps))"

text \<open>Without active plans the average is \<open>NaN || 0\<close>.\<close>

definition getPlannerAgentHealth :: "bool \<Rightarrow> agent_shell \<times> planner_agent \<Rightarrow> planner_agent_health" where
  "getPlannerAgentHealth available = (\<lambda>(sh, g).
     \<lparr>pah_plannerAvailable = available, pah_status = shell_health_status available sh,
      pah_activePlans = length (pg_activePlans g), pah_totalPlansCreated = pg_totalPlansCreated g,
      pah_averagePlanComplexity = (if pg_totalPlansCreated g > 0 then average_tasks g else 0),
      pah_errors = ah_errors sh, pah_warnings = ah_warnings sh, pah_lastActivity = ah_lastActivity sh,
      pah_totalReplans = pg_totalReplans g, pah_totalValidations = pg_totalValidations g,
      pah_validationSuccessRate = (if pg_totalValidations g > 0 then real (pg_validPlans g) / real (pg_totalValidations g) else 0)\<rparr>)"

record planner_metrics =
  pym_shell :: shell_metrics
  pym_averageTasksPerPlan :: real
  pym_averagePlanDuration :: real
  pym_plansByMode :: "(execution_mode \<times> nat) list"
  pym_plansByPriority :: "(agent_priority \<times> nat) list"
  pym_averageValidationTime :: real
  pym_totalEstimates :: nat

definition planner_getMetrics :: "time_ms \<Rightarrow> agent_shell \<times> planner_agent \<Rightarrow> planner_metrics" where
  "planner_getMetrics now = (\<lambda>(sh, g).
     (let m = shell_getMetrics now sh; ps = js_values (pg_activePlans g)
      in \<lparr>pym_shell = m, pym_averageTasksPerPlan = average_tasks g, pym_averagePlanDuration = average_latency ''estimate'' m,
          pym_plansByMode = map (\<lambda>x. (x, length (filter (\<lambda>p. pl_executionMode p = x) ps))) [Sequential, Parallel, Mixed],
          pym_plansByPriority = map (\<lambda>x. (x, length (filter (\<lambda>p. pl_priority p = x) ps))) [Low, Normal, High, Critical],
          pym_averageValidationTime = average_latency ''validate'' m, pym_totalEstimates = op_count (ah_counts sh) ''estimate''\<rparr>))"

section \<open>The contract\<close>

interpretation planner: builtin_agent planner_operations planner_op_of planner_parse
  by unfold_locales (simp add: planner_parse_def planner_op_of_def shell_parse_known)

end
