(* ===== verification/Scheduler_Agent.thy ===== *)
theory Scheduler_Agent
  imports Builtin_Shell Scheduler
begin

text \<open>
  The class \<open>SchedulerAgent\<close> (\<open>agents/builtin/scheduler-agent\<close>): a built-in agent in front of the scheduler.
  Tasks of an input are references into the scheduler's heap.
\<close>

section \<open>Requests and results\<close>

record scheduler_input =
  si_operation :: "jsval option"
  si_task :: "nat option"
  si_tasks :: "nat list option"
  si_taskId :: jsval

datatype scheduler_value =
    TaskScheduled string time_ms
  | TasksEnqueued nat time_ms
  | TaskDequeued "nat option" time_ms
  | TaskCancelledAt string bool time_ms
  | SchedulerPaused time_ms
  | SchedulerResumed time_ms
  | SchedulerReport scheduler_metrics time_ms

definition scheduler_operations :: "string list" where
  "scheduler_operations = [''schedule'', ''enqueue'', ''dequeue'', ''cancel'', ''pause'', ''resume'', ''metrics'']"

text \<open>Messages of the exceptions.\<close>

definition invalid_scheduler_operation :: "string \<Rightarrow> string \<Rightarrow> string" where
  "invalid_scheduler_operation op reason = ''Invalid scheduler operation '' @ sq op @ '': '' @ reason"

definition scheduling_failed :: "string \<Rightarrow> string \<Rightarrow> string" where
  "scheduling_failed t reason = ''Task scheduling failed for '' @ sq t @ '': '' @ reason"

definition enqueue_failed :: "nat \<Rightarrow> string \<Rightarrow> string" where
  "enqueue_failed n reason = ''Task enqueue failed for '' @ nat_digits n @ '' tasks: '' @ reason"

definition invalid_task :: "string list \<Rightarrow> string" where
  "invalid_task missing = ''Invalid task - missing fields: '' @ join_with '', '' missing"

definition invalid_tasks_array :: "string \<Rightarrow> string" where
  "invalid_tasks_array reason = ''Invalid tasks array: '' @ reason"

section \<open>Parsing and validation\<close>

definition scheduler_parse :: "scheduler_input option \<Rightarrow> string + string" where
  "scheduler_parse = shell_parse invalid_scheduler_operation scheduler_operations si_operation
     (\<lambda>op i.
            [(op = ''schedule'' \<and> si_task i = None, ''Task is required for schedule operation''),
             (op = ''enqueue'' \<and> si_tasks i = None, ''Tasks array is required for enqueue operation''),
             (op = ''cancel'' \<and> not_string (si_taskId i), ''Task ID is required for cancel operation'')])"

definition scheduler_op_of :: "scheduler_input option \<Rightarrow> jsval option" where
  "scheduler_op_of = shell_op_of si_operation"

text \<open>\<open>validateTask\<close>: \<open>Some m\<close> is an exception. Of the required fields only \<open>input\<close> can be undefined in a task.\<close>

definition validateTask :: "agent_task \<Rightarrow> string option" where
  "validateTask t =
     (if task_input t = JUndefined then Some (invalid_task [''input''])
      else if taskId t = [] then Some (invalid_task [''taskId (must be non-empty string)''])
      else if task_agentId t = [] then Some (invalid_task [''agentId (must be non-empty string)''])
      else None)"

fun invalid_at :: "nat \<Rightarrow> agent_task list \<Rightarrow> string option" where
  "invalid_at i [] = None"
| "invalid_at i (t # ts) =
     (case validateTask t of
        Some m \<Rightarrow> Some (invalid_tasks_array (''Invalid task at index '' @ nat_digits i @ '': '' @ m))
      | None \<Rightarrow> invalid_at (Suc i) ts)"

definition validateTasksArray :: "agent_task list \<Rightarrow> string option" where
  "validateTasksArray ts =
     (if ts = [] then Some (invalid_tasks_array ''Tasks array must not be empty'')
      else case invalid_at 0 ts of
             Some m \<Rightarrow> Some m
           | None \<Rightarrow> if \<not> distinct (map taskId ts) then Some (invalid_tasks_array ''Duplicate task IDs found in tasks array'') else None)"

section \<open>State\<close>

record scheduler_agent =
  sg_scheduler :: sched
  sg_totalScheduled :: nat
  sg_totalEnqueued :: nat
  sg_totalDequeued :: nat
  sg_totalCancelled :: nat
  sg_totalPauses :: nat
  sg_totalResumes :: nat
  sg_totalTasksInEnqueue :: nat

definition new_scheduler_agent :: "sched \<Rightarrow> scheduler_agent" where
  "new_scheduler_agent s = \<lparr>sg_scheduler = s, sg_totalScheduled = 0, sg_totalEnqueued = 0, sg_totalDequeued = 0,
     sg_totalCancelled = 0, sg_totalPauses = 0, sg_totalResumes = 0, sg_totalTasksInEnqueue = 0\<rparr>"

definition scheduler_capabilities :: "agent_capability list" where
  "scheduler_capabilities =
     [\<lparr>cap_id = ''task-scheduling'', cap_name = ''Task Scheduling''\<rparr>, \<lparr>cap_id = ''batch-enqueueing'', cap_name = ''Batch Task Enqueueing''\<rparr>,
      \<lparr>cap_id = ''task-management'', cap_name = ''Task Management''\<rparr>, \<lparr>cap_id = ''scheduler-control'', cap_name = ''Scheduler Control''\<rparr>]"

definition scheduler_metadata :: agent where
  "scheduler_metadata = \<lparr>ag_id = ''scheduler-agent'', ag_name = ''Scheduler Agent'', ag_version = ''1.0.0'', ag_type = ''service'',
     ag_capabilities = scheduler_capabilities\<rparr>"

section \<open>Operations\<close>

fun task_state_str :: "task_state \<Rightarrow> string" where
  "task_state_str TaskPending = ''pending''"
| "task_state_str TaskReady = ''ready''"
| "task_state_str TaskRunning = ''running''"
| "task_state_str TaskWaiting = ''waiting''"
| "task_state_str TaskSuccess = ''success''"
| "task_state_str TaskFailed = ''failed''"
| "task_state_str TaskCancelled = ''cancelled''"
| "task_state_str TaskTimeout = ''timeout''"

definition with_scheduler :: "sched \<Rightarrow> scheduler_agent \<Rightarrow> scheduler_agent" where
  "with_scheduler s g = g\<lparr>sg_scheduler := s\<rparr>"

text \<open>The metadata of the result shows the state the scheduler has given to the task.\<close>

definition sa_scheduleTask :: "time_ms \<Rightarrow> nat \<Rightarrow> scheduler_agent \<Rightarrow> scheduler_agent \<times> (string + scheduler_value op_result)" where
  "sa_scheduleTask now r g =
     (let i = taskId (heap (sg_scheduler g) r) in
      case validateTask (heap (sg_scheduler g) r) of
        Some m \<Rightarrow> (g, Inl (scheduling_failed i m))
      | None \<Rightarrow> (case schedule r (sg_scheduler g) of
            (s, Inl e) \<Rightarrow> (with_scheduler s g, Inl (scheduling_failed i (err_message e)))
          | (s, Inr u) \<Rightarrow> ((with_scheduler s g)\<lparr>sg_totalScheduled := sg_totalScheduled g + 1\<rparr>,
               completed_op (TaskScheduled i now)
                 [(''taskId'', JStr i), (''agentId'', JStr (task_agentId (heap s r))), (''priority'', JStr (priority_str (priority (heap s r)))),
                  (''state'', JStr (task_state_str (task_state (heap s r)))), (''timestamp'', JDate now)])))"

definition sa_enqueueTasks :: "time_ms \<Rightarrow> nat list \<Rightarrow> scheduler_agent \<Rightarrow> scheduler_agent \<times> (string + scheduler_value op_result)" where
  "sa_enqueueTasks now rs g =
     (case validateTasksArray (map (heap (sg_scheduler g)) rs) of
        Some m \<Rightarrow> (g, Inl (enqueue_failed (length rs) m))
      | None \<Rightarrow> (case enqueue rs (sg_scheduler g) of
            (s, Inl e) \<Rightarrow> (with_scheduler s g, Inl (enqueue_failed (length rs) (err_message e)))
          | (s, Inr u) \<Rightarrow>
              ((with_scheduler s g)\<lparr>sg_totalEnqueued := sg_totalEnqueued g + 1, sg_totalTasksInEnqueue := sg_totalTasksInEnqueue g + length rs\<rparr>,
               completed_op (TasksEnqueued (length rs) now)
                 [(''taskCount'', JNum (int (length rs))), (''taskIds'', JArr (map (\<lambda>r. JStr (taskId (heap s r))) rs)),
                  (''timestamp'', JDate now)])))"

definition opt_field :: "string \<Rightarrow> nat option \<Rightarrow> (nat \<Rightarrow> string) \<Rightarrow> string \<times> jsval" where
  "opt_field k t f = (k, case t of None \<Rightarrow> JUndefined | Some r \<Rightarrow> JStr (f r))"

definition sa_dequeueTask :: "time_ms \<Rightarrow> scheduler_agent \<Rightarrow> scheduler_agent \<times> (string + scheduler_value op_result)" where
  "sa_dequeueTask now g =
     (case dequeue now (sg_scheduler g) of (s, t) \<Rightarrow>
        ((with_scheduler s g)\<lparr>sg_totalDequeued := sg_totalDequeued g + (if t = None then 0 else 1)\<rparr>,
         completed_op (TaskDequeued t now)
           [(''hasTask'', JBool (t \<noteq> None)), opt_field ''taskId'' t (\<lambda>r. taskId (heap s r)),
            opt_field ''agentId'' t (\<lambda>r. task_agentId (heap s r)), opt_field ''priority'' t (\<lambda>r. priority_str (priority (heap s r))),
            (''timestamp'', JDate now)]))"

definition sa_cancelTask :: "time_ms \<Rightarrow> string \<Rightarrow> scheduler_agent \<Rightarrow> scheduler_agent \<times> (string + scheduler_value op_result)" where
  "sa_cancelTask now i g =
     (case cancel now i (sg_scheduler g) of (s, b) \<Rightarrow>
        ((with_scheduler s g)\<lparr>sg_totalCancelled := sg_totalCancelled g + (if b then 1 else 0)\<rparr>,
         completed_op (TaskCancelledAt i b now) [(''taskId'', JStr i), (''cancelled'', JBool b), (''timestamp'', JDate now)]))"

definition sa_pauseScheduler :: "time_ms \<Rightarrow> scheduler_agent \<Rightarrow> scheduler_agent \<times> (string + scheduler_value op_result)" where
  "sa_pauseScheduler now g =
     ((with_scheduler (sched_pause (sg_scheduler g)) g)\<lparr>sg_totalPauses := sg_totalPauses g + 1\<rparr>,
      completed_op (SchedulerPaused now) [(''timestamp'', JDate now)])"

definition sa_resumeScheduler :: "time_ms \<Rightarrow> scheduler_agent \<Rightarrow> scheduler_agent \<times> (string + scheduler_value op_result)" where
  "sa_resumeScheduler now g =
     ((with_scheduler (sched_resume (sg_scheduler g)) g)\<lparr>sg_totalResumes := sg_totalResumes g + 1\<rparr>,
      completed_op (SchedulerResumed now) [(''timestamp'', JDate now)])"

text \<open>The average and the throughput, numbers with a fraction, are in the value and left out of the metadata.\<close>

definition sa_getSchedulerMetrics :: "time_ms \<Rightarrow> scheduler_agent \<Rightarrow> scheduler_agent \<times> (string + scheduler_value op_result)" where
  "sa_getSchedulerMetrics now g =
     (let m = scheduler_metrics now (sg_scheduler g) in
      (g, completed_op (SchedulerReport m now)
        [(''totalTasks'', JNum (int (sm_totalTasks m))), (''completedTasks'', JNum (int (sm_completedTasks m))),
         (''failedTasks'', JNum (int (sm_failedTasks m))), (''timestamp'', JDate now)]))"

section \<open>The agent\<close>

text \<open>The dispatch; the parser has made sure of the task and the tasks.\<close>

definition scheduler_run :: "time_ms \<Rightarrow> string \<Rightarrow> scheduler_input option \<Rightarrow> scheduler_agent \<Rightarrow> scheduler_agent \<times> (string + scheduler_value op_result)" where
  "scheduler_run now op input g =
     (case input of None \<Rightarrow> (g, Inl (invalid_scheduler_operation op ''Unsupported operation''))
      | Some i \<Rightarrow>
          if op = ''schedule'' then sa_scheduleTask now (the (si_task i)) g
          else if op = ''enqueue'' then sa_enqueueTasks now (the (si_tasks i)) g
          else if op = ''dequeue'' then sa_dequeueTask now g
          else if op = ''cancel'' then sa_cancelTask now (the_text (si_taskId i)) g
          else if op = ''pause'' then sa_pauseScheduler now g
          else if op = ''resume'' then sa_resumeScheduler now g
          else if op = ''metrics'' then sa_getSchedulerMetrics now g
          else (g, Inl (invalid_scheduler_operation op ''Unsupported operation'')))"

definition scheduler_execute ::
  "time_ms \<Rightarrow> time_ms \<Rightarrow> scheduler_input option \<Rightarrow> agent_shell \<times> scheduler_agent
     \<Rightarrow> (agent_shell \<times> scheduler_agent) \<times> scheduler_value agent_answer option" where
  "scheduler_execute started = shell_execute ''scheduler-agent'' scheduler_op_of scheduler_parse (scheduler_run started) started"

definition scheduler_initialize :: "bool \<Rightarrow> agent_shell \<Rightarrow> agent_shell \<times> (string + unit)" where
  "scheduler_initialize available sh = shell_initialize ''scheduler'' (if available then None else Some ''Agent scheduler is not available'') sh"

definition scheduler_shutdown :: "agent_shell \<Rightarrow> agent_shell" where
  "scheduler_shutdown sh = shell_shutdown sh"

definition scheduler_getHealth :: "time_ms \<Rightarrow> bool \<Rightarrow> agent_shell \<times> scheduler_agent \<Rightarrow> shell_health" where
  "scheduler_getHealth now available = (\<lambda>(sh, g). shell_getHealth now available [(''totalScheduled'', real (sg_totalScheduled g))] sh)"

section \<open>Reports\<close>

record scheduler_agent_health =
  sah_schedulerAvailable :: bool
  sah_status :: health_status
  sah_queueSizes :: queue_sizes
  sah_runningTasks :: nat
  sah_maxConcurrency :: int
  sah_totalTasks :: nat
  sah_completedTasks :: nat
  sah_failedTasks :: nat
  sah_errors :: "string list"
  sah_warnings :: "string list"
  sah_lastActivity :: "time_ms option"
  sah_averageTasksPerEnqueue :: real
  sah_throughput :: real
  sah_uptime :: int

definition tasks_per_enqueue :: "scheduler_agent \<Rightarrow> real" where
  "tasks_per_enqueue g =
     (if sg_totalEnqueued g > 0 then real (sg_totalTasksInEnqueue g) / real (sg_totalEnqueued g) else 0)"

text \<open>The health of the scheduler is asked first, and adds its warnings to the scheduler.\<close>

definition getSchedulerAgentHealth :: "time_ms \<Rightarrow> agent_shell \<times> scheduler_agent \<Rightarrow> scheduler_agent \<times> scheduler_agent_health" where
  "getSchedulerAgentHealth now = (\<lambda>(sh, g).
     (case scheduler_health now (sg_scheduler g) of (s, h) \<Rightarrow>
      let m = scheduler_metrics now s in
      (with_scheduler s g,
       \<lparr>sah_schedulerAvailable = True, sah_status = shell_health_status True sh, sah_queueSizes = queueSizes s,
        sah_runningTasks = sh_runningTasks h, sah_maxConcurrency = sh_maxConcurrency h, sah_totalTasks = sm_totalTasks m,
        sah_completedTasks = sm_completedTasks m, sah_failedTasks = sm_failedTasks m, sah_errors = ah_errors sh,
        sah_warnings = ah_warnings sh, sah_lastActivity = ah_lastActivity sh,
        sah_averageTasksPerEnqueue = tasks_per_enqueue g, sah_throughput = sm_throughput m, sah_uptime = sm_uptime m\<rparr>)))"

definition calculateOperationSuccessRate :: "string \<Rightarrow> agent_shell \<Rightarrow> real" where
  "calculateOperationSuccessRate op sh = op_rate op sh"

record scheduler_agent_metrics =
  sam_shell :: shell_metrics
  sam_averageTasksPerEnqueue :: real
  sam_schedulingSuccessRate :: real
  sam_cancellationSuccessRate :: real
  sam_dequeuingSuccessRate :: real
  sam_totalTasks :: nat

text \<open>The statistics of tasks are constants: the scheduler's own are only to be had asynchronously.\<close>

definition scheduler_getMetrics :: "time_ms \<Rightarrow> agent_shell \<times> scheduler_agent \<Rightarrow> scheduler_agent_metrics" where
  "scheduler_getMetrics now = (\<lambda>(sh, g).
     \<lparr>sam_shell = shell_getMetrics now sh, sam_averageTasksPerEnqueue = tasks_per_enqueue g,
      sam_schedulingSuccessRate = calculateOperationSuccessRate ''schedule'' sh,
      sam_cancellationSuccessRate = calculateOperationSuccessRate ''cancel'' sh,
      sam_dequeuingSuccessRate = calculateOperationSuccessRate ''dequeue'' sh, sam_totalTasks = 0\<rparr>)"

section \<open>The contract\<close>

interpretation scheduler: builtin_agent scheduler_operations scheduler_op_of scheduler_parse
  by unfold_locales (simp add: scheduler_parse_def scheduler_op_of_def shell_parse_known)

end
