(* ===== verification/Coordinator_Agent.thy ===== *)
theory Coordinator_Agent
  imports Builtin_Shell Coordinator
begin

text \<open>
  The class \<open>CoordinatorAgent\<close> (\<open>agents/builtin/coordinator-agent\<close>): a built-in agent in front of the
  coordinator. What an assignment meets while it waits (outcomes of the delegations and their order) is part
  of the call.
\<close>

section \<open>Requests and results\<close>

record coordinator_input =
  ci_operation :: "jsval option"
  ci_coordinationRequest :: "coordination_request option"
  ci_agentId :: jsval
  ci_task :: jsval
  ci_context :: "coordination_context option"
  ci_handoffRequest :: "handoff_request option"
  ci_broadcastRequest :: "broadcast_request option"
  ci_coordinationId :: jsval

datatype coordinator_value =
    CoordinationAssigned string nat coordination_result time_ms
  | TaskDelegated string string time_ms
  | AgentHandedOff string string handoff_result time_ms
  | MessageBroadcast nat broadcast_result time_ms
  | ResultsCollected string coordination_result time_ms
  | CoordinationCancelledAt string bool time_ms

definition coordinator_operations :: "string list" where
  "coordinator_operations = [''assign'', ''delegate'', ''handoff'', ''broadcast'', ''collect'', ''cancel'']"

text \<open>Messages of the exceptions.\<close>

definition invalid_coordinator_operation :: "string \<Rightarrow> string \<Rightarrow> string" where
  "invalid_coordinator_operation op reason = ''Invalid coordinator operation '' @ sq op @ '': '' @ reason"

definition assignment_failed :: "string list \<Rightarrow> string \<Rightarrow> string" where
  "assignment_failed agents reason = ''Coordination assignment failed for agents ['' @ join_with '', '' agents @ '']: '' @ reason"

definition delegation_failed :: "string \<Rightarrow> string \<Rightarrow> string" where
  "delegation_failed a reason = ''Task delegation failed for agent '' @ sq a @ '': '' @ reason"

definition broadcast_failed :: "nat \<Rightarrow> string \<Rightarrow> string" where
  "broadcast_failed n reason = ''Broadcast failed to '' @ nat_digits n @ '' recipients: '' @ reason"

definition handoff_failed :: "string \<Rightarrow> string \<Rightarrow> string \<Rightarrow> string" where
  "handoff_failed a b reason = ''Handoff failed from '' @ sq a @ '' to '' @ sq b @ '': '' @ reason"

definition collection_failed :: "string \<Rightarrow> string \<Rightarrow> string" where
  "collection_failed c reason = ''Result collection failed for coordination '' @ sq c @ '': '' @ reason"

definition invalid_context :: "string list \<Rightarrow> string" where
  "invalid_context missing = ''Invalid coordination context - missing fields: '' @ join_with '', '' missing"

section \<open>Parsing and validation\<close>

definition coordinator_parse :: "coordinator_input option \<Rightarrow> string + string" where
  "coordinator_parse = shell_parse invalid_coordinator_operation coordinator_operations ci_operation
     (\<lambda>op i.
            [(op = ''assign'' \<and> ci_coordinationRequest i = None, ''Coordination request is required for assign operation''),
             (op = ''delegate'' \<and> not_string (ci_agentId i), ''Agent ID is required for delegate operation''),
             (op = ''delegate'' \<and> ci_task i = JUndefined, ''Task is required for delegate operation''),
             (op = ''delegate'' \<and> ci_context i = None, ''Context is required for delegate operation''),
             (op = ''handoff'' \<and> ci_handoffRequest i = None, ''Handoff request is required for handoff operation''),
             (op = ''broadcast'' \<and> ci_broadcastRequest i = None, ''Broadcast request is required for broadcast operation''),
             ((op = ''collect'' \<or> op = ''cancel'') \<and> not_string (ci_coordinationId i), ''Coordination ID is required for control operations'')])"

definition coordinator_op_of :: "coordinator_input option \<Rightarrow> jsval option" where
  "coordinator_op_of = shell_op_of ci_operation"

text \<open>The required fields of a context that are empty; \<open>Some m\<close> is an exception.\<close>

definition missing_context_fields :: "coordination_context \<Rightarrow> string list" where
  "missing_context_fields c =
     map fst (filter (\<lambda>(k, v). v = [])
       [(''coordinationId'', cc_coordinationId c), (''requestId'', cc_requestId c), (''traceId'', cc_traceId c),
        (''workspaceId'', cc_workspaceId c), (''userId'', cc_userId c), (''executionId'', cc_executionId c)])"

definition check_context :: "coordination_context option \<Rightarrow> string option" where
  "check_context c =
     (case c of
        None \<Rightarrow> Some (invalid_context [''context''])
      | Some x \<Rightarrow> if missing_context_fields x \<noteq> [] then Some (invalid_context (missing_context_fields x)) else None)"

definition check_coordination :: "coordination_request \<Rightarrow> string option" where
  "check_coordination rq =
     (if cr_agentIds rq = [] then Some (invalid_context [''agentIds''])
      else if cr_input rq = JUndefined then Some (invalid_context [''input''])
      else if cr_strategy rq = None then Some (invalid_context [''strategy''])
      else check_context (cr_context rq))"

definition validateDelegationRequest :: "coordinator_input \<Rightarrow> string option" where
  "validateDelegationRequest i =
     (if not_string (ci_agentId i) then Some (invalid_context [''agentId''])
      else if ci_task i = JUndefined then Some (invalid_context [''task''])
      else check_context (ci_context i))"

definition validateHandoffRequest :: "handoff_request \<Rightarrow> string option" where
  "validateHandoffRequest rq =
     (if hr_fromAgentId rq = [] then Some (invalid_context [''fromAgentId''])
      else if hr_toAgentId rq = [] then Some (invalid_context [''toAgentId''])
      else None)"

definition validateBroadcastRequest :: "broadcast_request \<Rightarrow> string option" where
  "validateBroadcastRequest rq =
     (if br_agentIds rq = [] then Some (invalid_context [''agentIds''])
      else if \<not> is_object_value (br_message rq) then Some (invalid_context [''message''])
      else None)"

section \<open>State\<close>

record coordinator_agent =
  cg_coordinator :: coordinator
  cg_runtime :: agent_runtime
  cg_bus :: bus
  cg_totalCoordinations :: nat
  cg_parallel :: nat
  cg_sequential :: nat
  cg_voting :: nat
  cg_quorum :: nat
  cg_totalDelegations :: nat
  cg_totalHandoffs :: nat
  cg_totalBroadcasts :: nat
  cg_totalCollections :: nat
  cg_totalCancellations :: nat
  cg_agentParticipations :: nat

definition new_coordinator_agent :: "coordinator \<Rightarrow> agent_runtime \<Rightarrow> bus \<Rightarrow> coordinator_agent" where
  "new_coordinator_agent s rt b = \<lparr>cg_coordinator = s, cg_runtime = rt, cg_bus = b, cg_totalCoordinations = 0, cg_parallel = 0,
     cg_sequential = 0, cg_voting = 0, cg_quorum = 0, cg_totalDelegations = 0, cg_totalHandoffs = 0, cg_totalBroadcasts = 0,
     cg_totalCollections = 0, cg_totalCancellations = 0, cg_agentParticipations = 0\<rparr>"

definition coordinator_capabilities :: "agent_capability list" where
  "coordinator_capabilities =
     [\<lparr>cap_id = ''coordination-assignment'', cap_name = ''Coordination Assignment''\<rparr>,
      \<lparr>cap_id = ''task-delegation'', cap_name = ''Task Delegation''\<rparr>,
      \<lparr>cap_id = ''agent-communication'', cap_name = ''Agent Communication''\<rparr>,
      \<lparr>cap_id = ''coordination-control'', cap_name = ''Coordination Control''\<rparr>]"

definition coordinator_metadata :: agent where
  "coordinator_metadata = \<lparr>ag_id = ''coordinator-agent'', ag_name = ''Coordinator Agent'', ag_version = ''1.0.0'',
     ag_type = ''service'', ag_capabilities = coordinator_capabilities\<rparr>"

text \<open>A call: clock readings, random ids, and what the coordinator meets.\<close>

record coordinator_call =
  ck_start :: time_ms
  ck_end :: time_ms
  ck_id :: string
  ck_taskId :: string
  ck_messageIds :: "nat \<Rightarrow> string"
  ck_env :: coord_env
  ck_isoText :: "time_ms \<Rightarrow> string"
  ck_outcomes :: outcomes
  ck_order :: "agent_assignment list"

section \<open>Operations\<close>

text \<open>The whole of \<open>assign\<close>, uninterrupted.\<close>

definition assign_all :: "coordinator_call \<Rightarrow> coordination_request \<Rightarrow> coordinator \<Rightarrow> coordinator \<times> (coord_error + coordination_result)" where
  "assign_all k rq s =
     (case assign_begin (ck_start k) (ck_id k) (ck_taskId k) (ck_env k) rq s of
        (s1, Inl e) \<Rightarrow> (s1, Inl e)
      | (s1, Inr cid) \<Rightarrow> assign_end (ck_end k) (ck_isoText k) cid (ck_taskId k) rq (ck_outcomes k) (ck_order k) s1)"

definition count_strategy :: "coordination_strategy option \<Rightarrow> coordinator_agent \<Rightarrow> coordinator_agent" where
  "count_strategy st g =
     (case st of
        Some StParallel \<Rightarrow> g\<lparr>cg_parallel := cg_parallel g + 1\<rparr>
      | Some StSequential \<Rightarrow> g\<lparr>cg_sequential := cg_sequential g + 1\<rparr>
      | Some StQuorum \<Rightarrow> g\<lparr>cg_quorum := cg_quorum g + 1\<rparr>
      | Some _ \<Rightarrow> g\<lparr>cg_voting := cg_voting g + 1\<rparr>
      | None \<Rightarrow> g)"

definition ca_assignCoordination ::
  "coordinator_call \<Rightarrow> coordination_request \<Rightarrow> coordinator_agent \<Rightarrow> coordinator_agent \<times> (string + coordinator_value op_result)" where
  "ca_assignCoordination k rq g =
     (case check_coordination rq of
        Some m \<Rightarrow> (g, Inl (assignment_failed (cr_agentIds rq) m))
      | None \<Rightarrow> (case assign_all k rq (cg_coordinator g) of
            (s, Inl e) \<Rightarrow> (g\<lparr>cg_coordinator := s\<rparr>, Inl (assignment_failed (cr_agentIds rq) (coord_message e)))
          | (s, Inr r) \<Rightarrow>
              (count_strategy (cr_strategy rq) (g\<lparr>cg_coordinator := s, cg_totalCoordinations := cg_totalCoordinations g + 1,
                  cg_agentParticipations := cg_agentParticipations g + length (cr_agentIds rq)\<rparr>),
               completed_op (CoordinationAssigned (cd_coordinationId r) (length (cr_agentIds rq)) r (ck_start k))
                 [(''coordinationId'', JStr (cd_coordinationId r)),
                  (''strategy'', case cr_strategy rq of None \<Rightarrow> JUndefined | Some st \<Rightarrow> JStr (strategy_str st)),
                  (''agentCount'', JNum (int (length (cr_agentIds rq)))), (''timestamp'', JDate (ck_start k))])))"

definition ca_delegateTask ::
  "coordinator_call \<Rightarrow> coordinator_input \<Rightarrow> coordinator_agent \<Rightarrow> coordinator_agent \<times> (string + coordinator_value op_result)" where
  "ca_delegateTask k i g =
     (let a = the_text (ci_agentId i) in
      case (validateDelegationRequest i, ci_context i) of
        (None, Some ctx) \<Rightarrow>
          (case delegate (ck_env k) a (ci_task i) ctx (cg_coordinator g) of
             (s, Inl e) \<Rightarrow> (g\<lparr>cg_coordinator := s\<rparr>, Inl (delegation_failed a (coord_message e)))
           | (s, Inr r) \<Rightarrow> (g\<lparr>cg_coordinator := s, cg_totalDelegations := cg_totalDelegations g + 1\<rparr>,
               completed_op (TaskDelegated a (er_executionId r) (ck_start k))
                 [(''agentId'', ci_agentId i), (''executionId'', JStr (er_executionId r)), (''success'', JBool (er_success r)),
                  (''timestamp'', JDate (ck_start k))]))
      | (Some m, _) \<Rightarrow> (g, Inl (delegation_failed a m))
      | (None, None) \<Rightarrow> (g, Inl (delegation_failed a (invalid_context [''context'']))))"

definition ca_handoffAgent ::
  "coordinator_call \<Rightarrow> handoff_request \<Rightarrow> coordinator_agent \<Rightarrow> coordinator_agent \<times> (string + coordinator_value op_result)" where
  "ca_handoffAgent k rq g =
     (case validateHandoffRequest rq of
        Some m \<Rightarrow> (g, Inl (handoff_failed (hr_fromAgentId rq) (hr_toAgentId rq) m))
      | None \<Rightarrow> (case handoff (ck_start k) (ck_end k) (ck_id k) (ck_taskId k) (ck_env k) rq (cg_coordinator g) of
            (s, r) \<Rightarrow> (g\<lparr>cg_coordinator := s, cg_totalHandoffs := cg_totalHandoffs g + 1\<rparr>,
               completed_op (AgentHandedOff (hr_fromAgentId rq) (hr_toAgentId rq) r (ck_start k))
                 [(''fromAgentId'', JStr (hr_fromAgentId rq)), (''toAgentId'', JStr (hr_toAgentId rq)),
                  (''success'', JBool (hf_success r)), (''timestamp'', JDate (ck_start k))])))"

definition message_type_of :: "jsval \<Rightarrow> jsval" where
  "message_type_of m =
     (case m of
        JObj fs \<Rightarrow> (case js_get fs ''type'' of None \<Rightarrow> JStr ''unknown'' | Some v \<Rightarrow> v)
      | _ \<Rightarrow> JStr ''unknown'')"

definition ca_broadcastMessage ::
  "coordinator_call \<Rightarrow> broadcast_request \<Rightarrow> coordinator_agent \<Rightarrow> coordinator_agent \<times> (string + coordinator_value op_result)" where
  "ca_broadcastMessage k rq g =
     (let n = length (br_agentIds rq) in
      case validateBroadcastRequest rq of
        Some m \<Rightarrow> (g, Inl (broadcast_failed n m))
      | None \<Rightarrow> (case co_broadcast (ck_start k) (ck_id k) (ck_messageIds k) (ce_agents (ck_env k)) rq (cg_coordinator g, cg_bus g) of
            ((s, b), Inl e) \<Rightarrow> (g\<lparr>cg_coordinator := s, cg_bus := b\<rparr>, Inl (broadcast_failed n (coord_message e)))
          | ((s, b), Inr r) \<Rightarrow> (g\<lparr>cg_coordinator := s, cg_bus := b, cg_totalBroadcasts := cg_totalBroadcasts g + 1\<rparr>,
               completed_op (MessageBroadcast n r (ck_start k))
                 [(''recipientCount'', JNum (int n)), (''messageType'', message_type_of (br_message rq)),
                  (''timestamp'', JDate (ck_start k))])))"

definition ca_collectResults ::
  "coordinator_call \<Rightarrow> string \<Rightarrow> coordinator_agent \<Rightarrow> coordinator_agent \<times> (string + coordinator_value op_result)" where
  "ca_collectResults k cid g =
     (case co_collect (ck_start k) cid (cg_coordinator g) of
        (s, Inl e) \<Rightarrow> (g\<lparr>cg_coordinator := s\<rparr>, Inl (collection_failed cid (coord_message e)))
      | (s, Inr r) \<Rightarrow> (g\<lparr>cg_coordinator := s, cg_totalCollections := cg_totalCollections g + 1\<rparr>,
           completed_op (ResultsCollected cid r (ck_start k))
             [(''coordinationId'', JStr cid), (''resultCount'', JNum (int (length (cd_agentResults r)))),
              (''timestamp'', JDate (ck_start k))]))"

definition ca_cancelCoordination ::
  "coordinator_call \<Rightarrow> string \<Rightarrow> coordinator_agent \<Rightarrow> coordinator_agent \<times> (string + coordinator_value op_result)" where
  "ca_cancelCoordination k cid g =
     (case co_cancel (ck_start k) cid (cg_coordinator g, cg_runtime g) of
        ((s, rt), b) \<Rightarrow> (g\<lparr>cg_coordinator := s, cg_runtime := rt,
             cg_totalCancellations := cg_totalCancellations g + (if b then 1 else 0)\<rparr>,
           completed_op (CoordinationCancelledAt cid b (ck_start k))
             [(''coordinationId'', JStr cid), (''cancelled'', JBool b), (''timestamp'', JDate (ck_start k))]))"

section \<open>The agent\<close>

text \<open>The dispatch; the parser has made sure of the requests.\<close>

definition coordinator_run ::
  "coordinator_call \<Rightarrow> string \<Rightarrow> coordinator_input option \<Rightarrow> coordinator_agent \<Rightarrow> coordinator_agent \<times> (string + coordinator_value op_result)" where
  "coordinator_run k op input g =
     (case input of None \<Rightarrow> (g, Inl (invalid_coordinator_operation op ''Unsupported operation''))
      | Some i \<Rightarrow>
          if op = ''assign'' then ca_assignCoordination k (the (ci_coordinationRequest i)) g
          else if op = ''delegate'' then ca_delegateTask k i g
          else if op = ''handoff'' then ca_handoffAgent k (the (ci_handoffRequest i)) g
          else if op = ''broadcast'' then ca_broadcastMessage k (the (ci_broadcastRequest i)) g
          else if op = ''collect'' then ca_collectResults k (the_text (ci_coordinationId i)) g
          else if op = ''cancel'' then ca_cancelCoordination k (the_text (ci_coordinationId i)) g
          else (g, Inl (invalid_coordinator_operation op ''Unsupported operation'')))"

definition coordinator_execute ::
  "coordinator_call \<Rightarrow> coordinator_input option \<Rightarrow> agent_shell \<times> coordinator_agent
     \<Rightarrow> (agent_shell \<times> coordinator_agent) \<times> coordinator_value agent_answer option" where
  "coordinator_execute k =
     shell_execute ''coordinator-agent'' coordinator_op_of coordinator_parse (coordinator_run k) (ck_start k) (ck_end k)"

definition coordinator_initialize :: "bool \<Rightarrow> agent_shell \<Rightarrow> agent_shell \<times> (string + unit)" where
  "coordinator_initialize available sh =
     shell_initialize ''coordinator'' (if available then None else Some ''Agent coordinator is not available'') sh"

definition coordinator_shutdown :: "agent_shell \<Rightarrow> agent_shell" where
  "coordinator_shutdown sh = shell_shutdown sh"

definition coordinator_getHealth :: "time_ms \<Rightarrow> bool \<Rightarrow> agent_shell \<times> coordinator_agent \<Rightarrow> shell_health" where
  "coordinator_getHealth now available = (\<lambda>(sh, g).
     shell_getHealth now available [(''totalCoordinations'', real (cg_totalCoordinations g))] sh)"

section \<open>Reports\<close>

record coordinator_agent_health =
  cah_coordinatorAvailable :: bool
  cah_status :: health_status
  cah_totalCoordinations :: nat
  cah_activeCoordinations :: nat
  cah_completedCoordinations :: nat
  cah_failedCoordinations :: nat
  cah_errors :: "string list"
  cah_warnings :: "string list"
  cah_lastActivity :: "time_ms option"

definition getCoordinatorAgentHealth :: "time_ms \<Rightarrow> agent_shell \<times> coordinator_agent \<Rightarrow> coordinator_agent_health" where
  "getCoordinatorAgentHealth now = (\<lambda>(sh, g).
     \<lparr>cah_coordinatorAvailable = True, cah_status = shell_health_status True sh, cah_totalCoordinations = cg_totalCoordinations g,
      cah_activeCoordinations = chh_active (co_health now (cg_coordinator g)),
      cah_completedCoordinations = op_count (ah_successes sh) ''assign'', cah_failedCoordinations = op_count (ah_failures sh) ''assign'',
      cah_errors = ah_errors sh, cah_warnings = ah_warnings sh, cah_lastActivity = ah_lastActivity sh\<rparr>)"

record coordinator_agent_metrics =
  cam_shell :: shell_metrics
  cam_averageCoordinationTime :: real
  cam_successfulCoordinations :: nat
  cam_failedCoordinations :: nat
  cam_cancelledCoordinations :: nat
  cam_averageAgentsPerCoordination :: real
  cam_delegationSuccessRate :: real
  cam_handoffSuccessRate :: real
  cam_broadcastSuccessRate :: real

definition coordinator_success_rate :: "string \<Rightarrow> agent_shell \<Rightarrow> real" where
  "coordinator_success_rate op sh = op_rate op sh"

definition coordinator_getMetrics :: "time_ms \<Rightarrow> agent_shell \<times> coordinator_agent \<Rightarrow> coordinator_agent_metrics" where
  "coordinator_getMetrics now = (\<lambda>(sh, g).
     (let m = shell_getMetrics now sh in
      \<lparr>cam_shell = m,
       cam_averageCoordinationTime = average_latency ''assign'' m,
       cam_successfulCoordinations = op_count (ah_successes sh) ''assign'', cam_failedCoordinations = op_count (ah_failures sh) ''assign'',
       cam_cancelledCoordinations = cg_totalCancellations g,
       cam_averageAgentsPerCoordination = (if cg_totalCoordinations g > 0
          then real (cg_agentParticipations g) / real (cg_totalCoordinations g) else 0),
       cam_delegationSuccessRate = coordinator_success_rate ''delegate'' sh,
       cam_handoffSuccessRate = coordinator_success_rate ''handoff'' sh,
       cam_broadcastSuccessRate = coordinator_success_rate ''broadcast'' sh\<rparr>))"

section \<open>The contract\<close>

interpretation coordinator: builtin_agent coordinator_operations coordinator_op_of coordinator_parse
  by unfold_locales (simp add: coordinator_parse_def coordinator_op_of_def shell_parse_known)

end
