(* ===== verification/Execution_Agent.thy ===== *)
theory Execution_Agent
  imports Builtin_Shell
begin

text \<open>
  The class \<open>ExecutionAgent\<close> (\<open>agents/builtin/execution-agent\<close>): a built-in agent in front of the runtime.
  The calls of a batch settle in an order and with outcomes that are part of the call, as is the runtime
  they leave.
\<close>

section \<open>Requests and results\<close>

text \<open>A request, with the trace id its context has besides the fields the runtime reads.\<close>

record agent_request =
  ar_request :: execution_request
  ar_traceId :: string
  ar_hasContext :: bool

record agent_batch =
  ab_requests :: "agent_request list"
  ab_maxConcurrency :: "int option"
  ab_failFast :: "bool option"

record execution_input =
  ei_operation :: "jsval option"
  ei_executionRequest :: "agent_request option"
  ei_batchRequest :: "agent_batch option"
  ei_executionId :: jsval

datatype execution_value =
    AgentExecuted execution_result time_ms
  | BatchExecuted string nat batch_result time_ms
  | ExecutionStopped string time_ms
  | ExecutionFound string execution_result time_ms

definition execution_operations :: "string list" where
  "execution_operations = [''execute'', ''execute-batch'', ''cancel'', ''status'']"

text \<open>Messages of the exceptions.\<close>

definition invalid_execution_operation :: "string \<Rightarrow> string \<Rightarrow> string" where
  "invalid_execution_operation op reason = ''Invalid execution operation '' @ sq op @ '': '' @ reason"

definition agent_execution_failed :: "string \<Rightarrow> string \<Rightarrow> string" where
  "agent_execution_failed a reason = ''Agent execution failed for '' @ sq a @ '': '' @ reason"

definition batch_execution_failed :: "nat \<Rightarrow> string \<Rightarrow> string" where
  "batch_execution_failed n reason = ''Batch execution failed for '' @ nat_digits n @ '' requests: '' @ reason"

definition execution_cancellation_failed :: "string \<Rightarrow> string \<Rightarrow> string" where
  "execution_cancellation_failed i reason = ''Execution cancellation failed for '' @ sq i @ '': '' @ reason"

definition execution_status_failed :: "string \<Rightarrow> string \<Rightarrow> string" where
  "execution_status_failed i reason = ''Execution status retrieval failed for '' @ sq i @ '': '' @ reason"

definition invalid_execution_context :: "string list \<Rightarrow> string" where
  "invalid_execution_context missing = ''Invalid execution context - missing fields: '' @ join_with '', '' missing"

section \<open>Parsing and validation\<close>

definition execution_parse :: "execution_input option \<Rightarrow> string + string" where
  "execution_parse = shell_parse invalid_execution_operation execution_operations ei_operation
     (\<lambda>op i.
        [(op = ''execute'' \<and> ei_executionRequest i = None, ''Execution request is required for execute operation''),
         (op = ''execute-batch'' \<and> ei_batchRequest i = None, ''Batch request is required for execute-batch operation''),
         ((op = ''cancel'' \<or> op = ''status'') \<and> not_string (ei_executionId i), ''Execution ID is required for control operations'')])"

definition execution_op_of :: "execution_input option \<Rightarrow> jsval option" where
  "execution_op_of = shell_op_of ei_operation"

definition validateExecutionRequest :: "agent_request \<Rightarrow> string option" where
  "validateExecutionRequest r =
     (let rq = ar_request r; c = xr_context rq;
          missing = map fst (filter (\<lambda>(k, v). v = [])
            [(''requestId'', xc_requestId c), (''traceId'', ar_traceId r), (''workspaceId'', xc_workspaceId c), (''userId'', xc_userId c)])
      in if xr_agentId rq = [] then Some (invalid_execution_context [''agentId''])
         else if xr_input rq = JUndefined then Some (invalid_execution_context [''input''])
         else if \<not> ar_hasContext r then Some (invalid_execution_context [''context''])
         else if missing \<noteq> [] then Some (invalid_execution_context missing) else None)"

fun invalid_request_at :: "nat \<Rightarrow> agent_request list \<Rightarrow> string option" where
  "invalid_request_at i [] = None"
| "invalid_request_at i (r # rs) =
     (case validateExecutionRequest r of
        Some m \<Rightarrow> Some (invalid_execution_operation ''execute-batch'' (''Invalid request at index '' @ nat_digits i @ '': '' @ m))
      | None \<Rightarrow> invalid_request_at (Suc i) rs)"

definition validateBatchRequest :: "agent_batch \<Rightarrow> string option" where
  "validateBatchRequest b =
     (if ab_requests b = []
      then Some (invalid_execution_operation ''execute-batch'' ''Requests array is required and must not be empty'')
      else case invalid_request_at 0 (ab_requests b) of
             Some m \<Rightarrow> Some m
           | None \<Rightarrow> if (case ab_maxConcurrency b of None \<Rightarrow> False | Some n \<Rightarrow> n < 1)
                     then Some (invalid_execution_operation ''execute-batch'' ''Max concurrency must be a positive number'')
                     else None)"

section \<open>State\<close>

record execution_agent =
  eg_runtime :: agent_runtime
  eg_totalExecutions :: nat
  eg_singleExecutions :: nat
  eg_batchExecutions :: nat
  eg_totalCancellations :: nat
  eg_successfulCancellations :: nat
  eg_totalStatusQueries :: nat
  eg_batchRequests :: nat
  eg_batchMaxConcurrency :: int
  eg_failFastUsage :: nat

definition new_execution_agent :: "agent_runtime \<Rightarrow> execution_agent" where
  "new_execution_agent rt = \<lparr>eg_runtime = rt, eg_totalExecutions = 0, eg_singleExecutions = 0, eg_batchExecutions = 0,
     eg_totalCancellations = 0, eg_successfulCancellations = 0, eg_totalStatusQueries = 0, eg_batchRequests = 0,
     eg_batchMaxConcurrency = 0, eg_failFastUsage = 0\<rparr>"

definition execution_capabilities :: "agent_capability list" where
  "execution_capabilities =
     [\<lparr>cap_id = ''agent-execution'', cap_name = ''Agent Execution''\<rparr>, \<lparr>cap_id = ''batch-execution'', cap_name = ''Batch Execution''\<rparr>,
      \<lparr>cap_id = ''execution-control'', cap_name = ''Execution Control''\<rparr>]"

definition execution_agent_metadata :: agent where
  "execution_agent_metadata = \<lparr>ag_id = ''execution-agent'', ag_name = ''Execution Agent'', ag_version = ''1.0.0'',
     ag_type = ''service'', ag_capabilities = execution_capabilities\<rparr>"

text \<open>A call: the three clock readings of a run, random ids, the health of agents, and the course of a batch.\<close>

record execution_call =
  ek_times :: "time_ms \<times> time_ms \<times> time_ms"
  ek_executionId :: string
  ek_ownId :: string
  ek_health :: "string \<Rightarrow> agent_health"
  ek_settled :: "(nat \<times> (agent_error + execution_result)) list"
  ek_runtimeAfter :: agent_runtime

section \<open>Operations\<close>

definition ea_executeAgent :: "execution_call \<Rightarrow> agent_request \<Rightarrow> execution_agent \<Rightarrow> execution_agent \<times> (string + execution_value op_result)" where
  "ea_executeAgent k r g =
     (let fail = (\<lambda>m. Inl (agent_execution_failed (xr_agentId (ar_request r)) m)); now = fst (ek_times k) in
      case validateExecutionRequest r of
        Some m \<Rightarrow> (g, fail m)
      | None \<Rightarrow> (case run_call (ek_times k) (ek_executionId k) (ek_ownId k) (ek_health k) (ar_request r) (eg_runtime g) of
            (rt, Some (Inr x)) \<Rightarrow>
              (g\<lparr>eg_runtime := rt, eg_totalExecutions := eg_totalExecutions g + 1, eg_singleExecutions := eg_singleExecutions g + 1\<rparr>,
               completed_op (AgentExecuted x now)
                 [(''agentId'', JStr (er_agentId x)), (''executionId'', JStr (er_executionId x)), (''success'', JBool (er_success x)),
                  (''latency'', JNum (er_latency x)), (''timestamp'', JDate now)])
          | (rt, Some (Inl e)) \<Rightarrow> (g\<lparr>eg_runtime := rt\<rparr>, fail (err_message e))
          | (rt, None) \<Rightarrow> (g\<lparr>eg_runtime := rt\<rparr>, fail [])))"

text \<open>The batch of the runtime, from its start through the calls as they settle.\<close>

definition run_batch_calls :: "execution_call \<Rightarrow> agent_batch \<Rightarrow> batch_result" where
  "run_batch_calls k b =
     batch_result_of (length (ab_requests b))
       (fold (\<lambda>(i, out). batch_settle i out) (ek_settled k)
         (batch_start (ab_maxConcurrency b) (ab_failFast b = Some True) (length (ab_requests b))))"

definition note_batch :: "agent_batch \<Rightarrow> execution_agent \<Rightarrow> execution_agent" where
  "note_batch b g =
     g\<lparr>eg_totalExecutions := eg_totalExecutions g + 1, eg_batchExecutions := eg_batchExecutions g + 1,
       eg_batchRequests := eg_batchRequests g + length (ab_requests b),
       eg_batchMaxConcurrency := (case ab_maxConcurrency b of
          None \<Rightarrow> eg_batchMaxConcurrency g | Some n \<Rightarrow> if n \<noteq> 0 \<and> n > eg_batchMaxConcurrency g then n else eg_batchMaxConcurrency g),
       eg_failFastUsage := eg_failFastUsage g + (if ab_failFast b = Some True then 1 else 0)\<rparr>"

definition ea_executeBatch :: "execution_call \<Rightarrow> agent_batch \<Rightarrow> execution_agent \<Rightarrow> execution_agent \<times> (string + execution_value op_result)" where
  "ea_executeBatch k b g =
     (let n = length (ab_requests b); now = fst (ek_times k) in
      case validateBatchRequest b of
        Some m \<Rightarrow> (g, Inl (batch_execution_failed n m))
      | None \<Rightarrow>
          (let r = run_batch_calls k b in
           (note_batch b (g\<lparr>eg_runtime := ek_runtimeAfter k\<rparr>),
            completed_op (BatchExecuted (ek_executionId k) n r now)
              [(''batchId'', JStr (ek_executionId k)), (''totalRequests'', JNum (int n)), (''success'', JBool (br_success r)),
               (''maxConcurrency'', case ab_maxConcurrency b of None \<Rightarrow> JUndefined | Some c \<Rightarrow> JNum c),
               (''failFast'', case ab_failFast b of None \<Rightarrow> JUndefined | Some c \<Rightarrow> JBool c), (''timestamp'', JDate now)])))"

definition ea_cancelExecution :: "execution_call \<Rightarrow> string \<Rightarrow> execution_agent \<Rightarrow> execution_agent \<times> (string + execution_value op_result)" where
  "ea_cancelExecution k i g =
     (let now = fst (ek_times k); g1 = g\<lparr>eg_totalCancellations := eg_totalCancellations g + 1\<rparr> in
      case cancelExecution now i (eg_runtime g) of
        (rt, Inr u) \<Rightarrow> (g1\<lparr>eg_runtime := rt, eg_successfulCancellations := eg_successfulCancellations g + 1\<rparr>,
           completed_op (ExecutionStopped i now) [(''executionId'', JStr i), (''timestamp'', JDate now)])
      | (rt, Inl e) \<Rightarrow> (g1\<lparr>eg_runtime := rt\<rparr>, Inl (execution_cancellation_failed i (err_message e))))"

fun execution_status_str :: "execution_status \<Rightarrow> string" where
  "execution_status_str ExPending = ''pending''"
| "execution_status_str ExRunning = ''running''"
| "execution_status_str ExCompleted = ''completed''"
| "execution_status_str ExCancelled = ''cancelled''"
| "execution_status_str ExFailed = ''failed''"
| "execution_status_str ExTimeout = ''timeout''"

definition ea_getExecutionStatus :: "execution_call \<Rightarrow> string \<Rightarrow> execution_agent \<Rightarrow> execution_agent \<times> (string + execution_value op_result)" where
  "ea_getExecutionStatus k i g =
     (let now = fst (ek_times k) in
      case getExecution i (eg_runtime g) of
        Inl e \<Rightarrow> (g, Inl (execution_status_failed i (err_message e)))
      | Inr x \<Rightarrow> (g\<lparr>eg_totalStatusQueries := eg_totalStatusQueries g + 1\<rparr>,
           completed_op (ExecutionFound i x now)
             [(''executionId'', JStr i), (''found'', JBool True), (''status'', JStr (execution_status_str (er_status x))),
              (''timestamp'', JDate now)]))"

section \<open>The agent\<close>

text \<open>The dispatch; the parser has made sure of the requests.\<close>

definition execution_run ::
  "execution_call \<Rightarrow> string \<Rightarrow> execution_input option \<Rightarrow> execution_agent \<Rightarrow> execution_agent \<times> (string + execution_value op_result)" where
  "execution_run k op input g =
     (case input of None \<Rightarrow> (g, Inl (invalid_execution_operation op ''Unsupported operation''))
      | Some i \<Rightarrow>
          if op = ''execute'' then ea_executeAgent k (the (ei_executionRequest i)) g
          else if op = ''execute-batch'' then ea_executeBatch k (the (ei_batchRequest i)) g
          else if op = ''cancel'' then ea_cancelExecution k (the_text (ei_executionId i)) g
          else if op = ''status'' then ea_getExecutionStatus k (the_text (ei_executionId i)) g
          else (g, Inl (invalid_execution_operation op ''Unsupported operation'')))"

definition execution_execute ::
  "execution_call \<Rightarrow> execution_input option \<Rightarrow> agent_shell \<times> execution_agent
     \<Rightarrow> (agent_shell \<times> execution_agent) \<times> execution_value agent_answer option" where
  "execution_execute k =
     shell_execute ''execution-agent'' execution_op_of execution_parse (execution_run k) (fst (ek_times k)) (snd (snd (ek_times k)))"

definition execution_initialize :: "bool \<Rightarrow> agent_shell \<Rightarrow> agent_shell \<times> (string + unit)" where
  "execution_initialize available sh =
     shell_initialize ''execution'' (if available then None else Some ''Agent runtime is not available'') sh"

definition execution_shutdown :: "agent_shell \<Rightarrow> agent_shell" where
  "execution_shutdown sh = shell_shutdown sh"

definition execution_getHealth :: "time_ms \<Rightarrow> bool \<Rightarrow> agent_shell \<times> execution_agent \<Rightarrow> shell_health" where
  "execution_getHealth now available = (\<lambda>(sh, g).
     shell_getHealth now available [(''totalExecutions'', real (eg_totalExecutions g))] sh)"

section \<open>Reports\<close>

record execution_agent_health =
  eah_status :: health_status
  eah_totalExecutions :: nat
  eah_completedExecutions :: nat
  eah_failedExecutions :: nat
  eah_errors :: "string list"
  eah_warnings :: "string list"
  eah_lastActivity :: "time_ms option"

definition getExecutionAgentHealth :: "bool \<Rightarrow> agent_shell \<times> execution_agent \<Rightarrow> execution_agent_health" where
  "getExecutionAgentHealth available = (\<lambda>(sh, g).
     \<lparr>eah_status = shell_health_status available sh, eah_totalExecutions = eg_totalExecutions g,
      eah_completedExecutions = op_count (ah_successes sh) ''execute'', eah_failedExecutions = op_count (ah_failures sh) ''execute'',
      eah_errors = ah_errors sh, eah_warnings = ah_warnings sh, eah_lastActivity = ah_lastActivity sh\<rparr>)"

record execution_agent_metrics =
  eam_shell :: shell_metrics
  eam_averageExecutionTime :: real
  eam_successfulExecutions :: nat
  eam_failedExecutions :: nat
  eam_cancelledExecutions :: nat
  eam_averageRequests :: real

definition execution_getMetrics :: "time_ms \<Rightarrow> agent_shell \<times> execution_agent \<Rightarrow> execution_agent_metrics" where
  "execution_getMetrics now = (\<lambda>(sh, g).
     (let m = shell_getMetrics now sh in
      \<lparr>eam_shell = m, eam_averageExecutionTime = average_latency ''execute'' m,
       eam_successfulExecutions = op_count (ah_successes sh) ''execute'', eam_failedExecutions = op_count (ah_failures sh) ''execute'',
       eam_cancelledExecutions = eg_successfulCancellations g,
       eam_averageRequests = (if eg_batchExecutions g > 0 then real (eg_batchRequests g) / real (eg_batchExecutions g) else 0)\<rparr>))"

section \<open>The contract\<close>

interpretation execution: builtin_agent execution_operations execution_op_of execution_parse
  by unfold_locales (simp add: execution_parse_def execution_op_of_def shell_parse_known)

end
