(* ===== verification/Memory_Agent.thy ===== *)
theory Memory_Agent
  imports Builtin_Shell Shared_Memory Scoped_Memory
begin

text \<open>
  The class \<open>MemoryAgent\<close> (\<open>agents/builtin/memory-agent\<close>): a built-in agent in front of the four
  memories. Values are stored in the workspace and the scratchpad memory with \<open>load\<close> and \<open>save\<close> of the base
  class, which their own operations (\<open>clear\<close> and \<open>size\<close> among them) do not see. One operation runs at a time.
\<close>

section \<open>Requests and results\<close>

record memory_input =
  mi_operation :: "jsval option"
  mi_type :: jsval
  mi_key :: jsval
  mi_value :: jsval

text \<open>What is found: the messages of a conversation, a value, or an entry of the shared memory.\<close>

datatype remembered = Messages "jsval list" | Plain jsval | Entry "jsval shared_entry"

datatype memory_value =
    MemoryLoaded string string bool "remembered option"
  | MemorySaved string string "remembered option"
  | MemoryCleared string nat

definition memory_operations :: "string list" where
  "memory_operations =
     [''load_conversation'', ''save_conversation'', ''load_workspace'', ''save_workspace'', ''load_shared'', ''save_shared'',
      ''load_scratchpad'', ''save_scratchpad'', ''summary'', ''clear'']"

definition memory_types :: "string list" where
  "memory_types = [''conversation'', ''workspace'', ''scratchpad'', ''shared'']"

definition invalid_memory_operation :: "string \<Rightarrow> string \<Rightarrow> string" where
  "invalid_memory_operation op reason = ''Invalid memory operation '' @ sq op @ '': '' @ reason"

definition summary_unavailable :: string where
  "summary_unavailable = ''Summary generation requires an external summary service which is not available''"

definition invalid_memory_context :: "string list \<Rightarrow> string" where
  "invalid_memory_context missing = ''Invalid memory context - missing fields: '' @ join_with '', '' missing"

section \<open>Parsing and the context\<close>

definition is_load :: "string \<Rightarrow> bool" where
  "is_load op \<longleftrightarrow> op \<in> {''load_conversation'', ''load_workspace'', ''load_scratchpad'', ''load_shared''}"

definition is_save :: "string \<Rightarrow> bool" where
  "is_save op \<longleftrightarrow> op \<in> {''save_conversation'', ''save_workspace'', ''save_scratchpad'', ''save_shared''}"

definition memory_parse :: "memory_input option \<Rightarrow> string + string" where
  "memory_parse = shell_parse invalid_memory_operation memory_operations mi_operation
     (\<lambda>op i.
        [(is_load op \<and> not_string (mi_key i), ''Key is required for load operations''),
         (is_save op \<and> not_string (mi_key i), ''Key is required for save operations''),
         (is_save op \<and> mi_value i = JUndefined, ''Value is required for save operations''),
         ((op = ''summary'' \<or> op = ''clear'') \<and> mi_type i \<notin> JStr ` set memory_types, ''Valid memory type is required'')])"

definition memory_op_of :: "memory_input option \<Rightarrow> jsval option" where
  "memory_op_of = shell_op_of mi_operation"

definition draft_context :: "call_context \<Rightarrow> context_draft" where
  "draft_context c =
     (let d = ctx_metadata (kx_metadata c) (ctx_executionId (kx_sessionId c) (ctx_agentId ''memory-agent'' (ctx_userId (kx_userId c)
                (ctx_workspaceId (kx_workspaceId c) (ctx_traceId (kx_traceId c) (ctx_requestId (kx_requestId c) context_create))))))
      in case kx_conversationId c of None \<Rightarrow> d | Some i \<Rightarrow> if i = [] then d else ctx_conversationId i d)"

text \<open>Fields that are empty are reported together, except for the session, which the builder refuses.\<close>

definition buildMemoryContext :: "call_context \<Rightarrow> string + memory_context" where
  "buildMemoryContext c =
     (let missing = map fst (filter (\<lambda>(k, v). v = [])
            [(''requestId'', kx_requestId c), (''traceId'', kx_traceId c), (''workspaceId'', kx_workspaceId c), (''userId'', kx_userId c)])
      in if missing \<noteq> [] then Inl (invalid_memory_context missing)
         else case context_build (draft_context c) of Inl e \<Rightarrow> Inl (err_message e) | Inr x \<Rightarrow> Inr x)"

section \<open>State\<close>

record memory_agent =
  ma_conversation :: "jsval conversation_memory"
  ma_workspace :: "jsval workspace_memory"
  ma_scratchpad :: "jsval scratchpad_memory"
  ma_shared :: "jsval shared_memory"

definition memory_capabilities :: "agent_capability list" where
  "memory_capabilities =
     [\<lparr>cap_id = ''conversation-memory'', cap_name = ''Conversation Memory''\<rparr>, \<lparr>cap_id = ''workspace-memory'', cap_name = ''Workspace Memory''\<rparr>,
      \<lparr>cap_id = ''scratchpad'', cap_name = ''Scratchpad Memory''\<rparr>, \<lparr>cap_id = ''shared-memory'', cap_name = ''Shared Memory''\<rparr>]"

definition memory_metadata :: agent where
  "memory_metadata = \<lparr>ag_id = ''memory-agent'', ag_name = ''Memory Agent'', ag_version = ''1.0.0'', ag_type = ''service'',
     ag_capabilities = memory_capabilities\<rparr>"

record memory_call =
  mk_now :: time_ms
  mk_context :: call_context

definition workspace_prefix :: "memory_context \<Rightarrow> string" where
  "workspace_prefix c = ''workspace:'' @ mc_workspaceId c"

definition scratchpad_prefix :: "memory_context \<Rightarrow> string" where
  "scratchpad_prefix c = ''scratchpad:'' @ mc_executionId c"

section \<open>Operations\<close>

text \<open>Each builds the context first; its message is prefixed and thrown again.\<close>

definition in_context ::
  "string \<Rightarrow> memory_call \<Rightarrow> (memory_context \<Rightarrow> memory_agent \<times> (string + memory_value op_result)) \<Rightarrow> memory_agent
     \<Rightarrow> memory_agent \<times> (string + memory_value op_result)" where
  "in_context failed k body g =
     (case buildMemoryContext (mk_context k) of
        Inl m \<Rightarrow> (g, Inl (failed @ m))
      | Inr c \<Rightarrow> (case body c of (g1, Inl m) \<Rightarrow> (g1, Inl (failed @ m)) | (g1, Inr r) \<Rightarrow> (g1, Inr r)))"

definition stamp :: "memory_call \<Rightarrow> js_record" where
  "stamp k = [(''timestamp'', JDate (mk_now k))]"

definition loadConversation :: "memory_call \<Rightarrow> string \<Rightarrow> memory_agent \<Rightarrow> memory_agent \<times> (string + memory_value op_result)" where
  "loadConversation k key g = in_context ''Failed to load conversation: '' k
     (\<lambda>c. case conv_history (mk_now k) None c (ma_conversation g) of (m, ms) \<Rightarrow>
        (g\<lparr>ma_conversation := m\<rparr>,
         completed_op (MemoryLoaded ''conversation'' key (length ms > 0) (Some (Messages ms)))
           ((''itemCount'', JNum (int (length ms))) # stamp k))) g"

definition message_id :: "jsval \<Rightarrow> jsval" where
  "message_id v = (case v of JObj fs \<Rightarrow> (case js_get fs ''id'' of Some i \<Rightarrow> i | None \<Rightarrow> JUndefined) | _ \<Rightarrow> JUndefined)"

definition saveConversation :: "memory_call \<Rightarrow> string \<Rightarrow> jsval \<Rightarrow> memory_agent \<Rightarrow> memory_agent \<times> (string + memory_value op_result)" where
  "saveConversation k key v g = in_context ''Failed to save conversation: '' k
     (\<lambda>c. if \<not> is_object_value v then (g, Inl ''Invalid conversation message format'')
          else (g\<lparr>ma_conversation := conv_append (mk_now k) v c (ma_conversation g)\<rparr>,
                completed_op (MemorySaved ''conversation'' key None) ((''messageId'', message_id v) # stamp k))) g"

definition loadWorkspace :: "memory_call \<Rightarrow> string \<Rightarrow> memory_agent \<Rightarrow> memory_agent \<times> (string + memory_value op_result)" where
  "loadWorkspace k key g = in_context ''Failed to load workspace data: '' k
     (\<lambda>c. case mem_load (mk_now k) (workspace_prefix c) key (ma_workspace g) of (m, v) \<Rightarrow>
        (g\<lparr>ma_workspace := m\<rparr>, completed_op (MemoryLoaded ''workspace'' key (v \<noteq> None) (map_option Plain v)) (stamp k))) g"

definition saveWorkspace :: "memory_call \<Rightarrow> string \<Rightarrow> jsval \<Rightarrow> memory_agent \<Rightarrow> memory_agent \<times> (string + memory_value op_result)" where
  "saveWorkspace k key v g = in_context ''Failed to save workspace data: '' k
     (\<lambda>c. case mem_load (mk_now k) (workspace_prefix c) key (ma_workspace g) of (m, old) \<Rightarrow>
        (g\<lparr>ma_workspace := mem_save (mk_now k) (workspace_prefix c) key v m\<rparr>,
         completed_op (MemorySaved ''workspace'' key (map_option Plain old)) (stamp k))) g"

definition loadScratchpad :: "memory_call \<Rightarrow> string \<Rightarrow> memory_agent \<Rightarrow> memory_agent \<times> (string + memory_value op_result)" where
  "loadScratchpad k key g = in_context ''Failed to load scratchpad data: '' k
     (\<lambda>c. case mem_load (mk_now k) (scratchpad_prefix c) key (ma_scratchpad g) of (m, v) \<Rightarrow>
        (g\<lparr>ma_scratchpad := m\<rparr>, completed_op (MemoryLoaded ''scratchpad'' key (v \<noteq> None) (map_option Plain v)) (stamp k))) g"

definition saveScratchpad :: "memory_call \<Rightarrow> string \<Rightarrow> jsval \<Rightarrow> memory_agent \<Rightarrow> memory_agent \<times> (string + memory_value op_result)" where
  "saveScratchpad k key v g = in_context ''Failed to save scratchpad data: '' k
     (\<lambda>c. case mem_load (mk_now k) (scratchpad_prefix c) key (ma_scratchpad g) of (m, old) \<Rightarrow>
        (g\<lparr>ma_scratchpad := mem_save (mk_now k) (scratchpad_prefix c) key v m\<rparr>,
         completed_op (MemorySaved ''scratchpad'' key (map_option Plain old)) (stamp k))) g"

definition loadShared :: "memory_call \<Rightarrow> string \<Rightarrow> memory_agent \<Rightarrow> memory_agent \<times> (string + memory_value op_result)" where
  "loadShared k key g = in_context ''Failed to load shared data: '' k
     (\<lambda>c. case shared_read (mk_now k) key c (ma_shared g) of (m, e) \<Rightarrow>
        (g\<lparr>ma_shared := m\<rparr>, completed_op (MemoryLoaded ''shared'' key (e \<noteq> None) (map_option Entry e)) (stamp k))) g"

text \<open>The write expects version \<open>0\<close>; its answer is dropped.\<close>

definition saveShared :: "memory_call \<Rightarrow> string \<Rightarrow> jsval \<Rightarrow> memory_agent \<Rightarrow> memory_agent \<times> (string + memory_value op_result)" where
  "saveShared k key v g = in_context ''Failed to save shared data: '' k
     (\<lambda>c. case shared_read (mk_now k) key c (ma_shared g) of (m, old) \<Rightarrow>
        (case shared_write (mk_now k) key v 0 c m of (m1, written) \<Rightarrow>
           (g\<lparr>ma_shared := m1\<rparr>, completed_op (MemorySaved ''shared'' key (map_option Entry old)) (stamp k)))) g"

definition summarizeConversation :: "memory_agent \<Rightarrow> memory_agent \<times> (string + memory_value op_result)" where
  "summarizeConversation g = (g, Inl summary_unavailable)"

text \<open>
  \<open>size\<close> and \<open>clear\<close> are the operations of each memory's class: its own for the conversation, the
  workspace and the scratchpad, those of the base class for the shared memory.
\<close>

definition clearMemory :: "memory_call \<Rightarrow> string \<Rightarrow> memory_agent \<Rightarrow> memory_agent \<times> (string + memory_value op_result)" where
  "clearMemory k ty g = in_context (''Failed to clear '' @ ty @ '' memory: '') k
     (\<lambda>c. if ty = ''conversation'' then
            (case conv_size (mk_now k) c (ma_conversation g) of (m, n) \<Rightarrow>
               (g\<lparr>ma_conversation := conv_clear (mk_now k) c m\<rparr>, completed_op (MemoryCleared ty n) (stamp k)))
          else if ty = ''workspace'' then
            (g\<lparr>ma_workspace := ws_clear c (ma_workspace g)\<rparr>, completed_op (MemoryCleared ty (ws_size c (ma_workspace g))) (stamp k))
          else if ty = ''scratchpad'' then
            (g\<lparr>ma_scratchpad := sp_clear c (ma_scratchpad g)\<rparr>, completed_op (MemoryCleared ty (sp_size c (ma_scratchpad g))) (stamp k))
          else if ty = ''shared'' then
            (g\<lparr>ma_shared := mem_clear (shared_prefix c) (ma_shared g)\<rparr>,
             completed_op (MemoryCleared ty (mem_size (shared_prefix c) (ma_shared g))) (stamp k))
          else (g, Inl (''Unsupported memory type for clear operation: '' @ ty))) g"

definition clearConversation :: "memory_call \<Rightarrow> memory_agent \<Rightarrow> memory_agent \<times> (string + memory_value op_result)" where
  "clearConversation k = clearMemory k ''conversation''"

definition clearWorkspace :: "memory_call \<Rightarrow> memory_agent \<Rightarrow> memory_agent \<times> (string + memory_value op_result)" where
  "clearWorkspace k = clearMemory k ''workspace''"

section \<open>The agent\<close>

text \<open>The dispatch; the parser has made sure of the key, the value and the type.\<close>

definition memory_run :: "memory_call \<Rightarrow> string \<Rightarrow> memory_input option \<Rightarrow> memory_agent \<Rightarrow> memory_agent \<times> (string + memory_value op_result)" where
  "memory_run k op input g =
     (case input of None \<Rightarrow> (g, Inl (invalid_memory_operation op ''Unsupported operation''))
      | Some i \<Rightarrow>
          (let key = the_text (mi_key i) in
           if op = ''load_conversation'' then loadConversation k key g
           else if op = ''save_conversation'' then saveConversation k key (mi_value i) g
           else if op = ''load_workspace'' then loadWorkspace k key g
           else if op = ''save_workspace'' then saveWorkspace k key (mi_value i) g
           else if op = ''load_scratchpad'' then loadScratchpad k key g
           else if op = ''save_scratchpad'' then saveScratchpad k key (mi_value i) g
           else if op = ''load_shared'' then loadShared k key g
           else if op = ''save_shared'' then saveShared k key (mi_value i) g
           else if op = ''summary'' then summarizeConversation g
           else if op = ''clear'' then clearMemory k (the_text (mi_type i)) g
           else (g, Inl (invalid_memory_operation op ''Unsupported operation''))))"

definition memory_execute ::
  "memory_call \<Rightarrow> time_ms \<Rightarrow> memory_input option \<Rightarrow> agent_shell \<times> memory_agent
     \<Rightarrow> (agent_shell \<times> memory_agent) \<times> memory_value agent_answer option" where
  "memory_execute k ended = shell_execute ''memory-agent'' memory_op_of memory_parse (memory_run k) (mk_now k) ended"

text \<open>The constructor supplies every memory that is not given, so that none is missing.\<close>

definition memory_initialize :: "agent_shell \<Rightarrow> agent_shell \<times> (string + unit)" where
  "memory_initialize sh = shell_initialize ''memory'' None sh"

definition memory_shutdown :: "agent_shell \<Rightarrow> agent_shell" where
  "memory_shutdown sh = shell_shutdown sh"

section \<open>Reports\<close>

text \<open>The sizes of a key and of a value, and of the two other kinds of value, are arguments.\<close>

record sizes =
  sz_key :: "string \<Rightarrow> nat"
  sz_value :: "jsval \<Rightarrow> nat"
  sz_messages :: "jsval list \<Rightarrow> nat"
  sz_entry :: "jsval shared_entry \<Rightarrow> nat"

definition memory_healths :: "time_ms \<Rightarrow> sizes \<Rightarrow> memory_agent \<Rightarrow> memory_health list" where
  "memory_healths now z g =
     [mem_health now (sz_key z) (sz_messages z) (ma_conversation g), mem_health now (sz_key z) (sz_value z) (ma_workspace g),
      mem_health now (sz_key z) (sz_value z) (ma_scratchpad g), mem_health now (sz_key z) (sz_entry z) (ma_shared g)]"

definition overall_status :: "memory_health list \<Rightarrow> agent_shell \<Rightarrow> health_status" where
  "overall_status hs sh =
     (if (\<exists>h \<in> set hs. mh_status h = Unhealthy) \<or> ah_errors sh \<noteq> [] then Unhealthy
      else if \<not> (\<forall>h \<in> set hs. mh_status h = Healthy) \<or> ah_warnings sh \<noteq> [] then Degraded else Healthy)"

record memory_agent_health =
  mah_status :: health_status
  mah_uptime :: int
  mah_memoryUsage :: nat
  mah_cacheSizes :: "nat list"
  mah_errors :: "string list"
  mah_warnings :: "string list"

definition memory_getHealth :: "time_ms \<Rightarrow> sizes \<Rightarrow> agent_shell \<times> memory_agent \<Rightarrow> memory_agent_health" where
  "memory_getHealth now z = (\<lambda>(sh, g).
     (let hs = memory_healths now z g in
      \<lparr>mah_status = overall_status hs sh, mah_uptime = now - ah_startTime sh, mah_memoryUsage = sum_list (map mh_usedSize hs),
       mah_cacheSizes = map mh_totalSize hs, mah_errors = ah_errors sh, mah_warnings = ah_warnings sh\<rparr>))"

record memory_report =
  mrp_provider :: string
  mrp_cacheSizes :: "nat list"
  mrp_status :: health_status
  mrp_errors :: "string list"
  mrp_warnings :: "string list"
  mrp_lastActivity :: "time_ms option"
  mrp_healths :: "memory_health list"

definition getMemoryAgentHealth :: "time_ms \<Rightarrow> sizes \<Rightarrow> agent_shell \<times> memory_agent \<Rightarrow> memory_report" where
  "getMemoryAgentHealth now z = (\<lambda>(sh, g).
     (let hs = memory_healths now z g in
      \<lparr>mrp_provider = ''in-memory'', mrp_cacheSizes = map mh_totalSize hs, mrp_status = overall_status hs sh,
       mrp_errors = ah_errors sh, mrp_warnings = ah_warnings sh, mrp_lastActivity = ah_lastActivity sh, mrp_healths = hs\<rparr>))"

definition memory_getMetrics :: "time_ms \<Rightarrow> agent_shell \<times> memory_agent \<Rightarrow> shell_metrics" where
  "memory_getMetrics now = (\<lambda>(sh, g). shell_getMetrics now sh)"

section \<open>The contract\<close>

interpretation memory: builtin_agent memory_operations memory_op_of memory_parse
  by unfold_locales (simp add: memory_parse_def memory_op_of_def shell_parse_known)

end
