(* ===== verification/Workflow_Engine.thy ===== *)
theory Workflow_Engine
  imports Workflow_Registry Workflow_Runner
begin

text \<open>
  The executions of \<open>WorkflowEngine\<close> (\<open>agents/workflow/workflow-engine.ts\<close>): \<open>executeStep\<close> and the
  runner call each other, \<open>execute\<close>, \<open>pause\<close>, \<open>resume\<close> and \<open>cancel\<close> change the stored execution.

  An execution object carries its steps' executions (the engine's second map). \<open>executeStep\<close> recurses to a depth
  that is bounded by an argument; what would happen beyond is an argument too, and is shown not to matter.
  Nothing in the engine waits for real time, so that no timer fires during an execution; what other
  operations of the engine do to the execution while a step starts is an argument, as is the course of a
  parallel run.
\<close>

section \<open>State\<close>

record run = workflow_execution +
  run_steps :: "(string, step_execution) js_map"

record workflow_engine =
  en_executions :: "(string, run) js_map"
  en_timers :: "(string, time_ms) js_map"

definition new_engine :: workflow_engine where
  "new_engine = \<lparr>en_executions = [], en_timers = []\<rparr>"

datatype interruption = Pausing | Cancelling time_ms

text \<open>
  \<open>ee_eval\<close> is the language's \<open>eval\<close> (\<open>None\<close>: it throws), \<open>ee_inherited\<close> a property that a value has from its
  prototype.
\<close>

record engine_env =
  ee_started :: time_ms
  ee_ended :: time_ms
  ee_eval :: "string \<Rightarrow> js_record \<Rightarrow> jsval option"
  ee_inherited :: "jsval \<Rightarrow> string \<Rightarrow> jsval"
  ee_meanwhile :: "string \<Rightarrow> run \<Rightarrow> interruption list"
  ee_settled :: "string list \<Rightarrow> run \<Rightarrow> unit run_ext settlement list"

definition interrupt :: "interruption \<Rightarrow> run \<Rightarrow> run" where
  "interrupt x e =
     (case x of
        Pausing \<Rightarrow> if we_state e = WfRunning then e\<lparr>we_state := WfPaused\<rparr> else e
      | Cancelling now \<Rightarrow>
          if we_state e = WfRunning \<or> we_state e = WfPaused then e\<lparr>we_state := WfCancelled, we_completedAt := Some now\<rparr> else e)"

section \<open>Conditions and inputs\<close>

text \<open>\<open>s.replace(sub, "")\<close> and \<open>s.split(".")\<close>.\<close>

fun remove_first :: "string \<Rightarrow> string \<Rightarrow> string" where
  "remove_first sub [] = []"
| "remove_first sub (c # cs) = (if take (length sub) (c # cs) = sub then drop (length sub) (c # cs) else c # remove_first sub cs)"

fun split_dots :: "string \<Rightarrow> string list" where
  "split_dots [] = [[]]"
| "split_dots (c # cs) = (if c = CHR ''.'' then [] # split_dots cs
     else case split_dots cs of [] \<Rightarrow> [[c]] | w # ws \<Rightarrow> (c # w) # ws)"

definition property_of :: "(jsval \<Rightarrow> string \<Rightarrow> jsval) \<Rightarrow> jsval \<Rightarrow> string \<Rightarrow> jsval" where
  "property_of inherited v k =
     (case v of
        JObj fs \<Rightarrow> (case js_get fs k of Some x \<Rightarrow> x | None \<Rightarrow> inherited v k)
      | JArr xs \<Rightarrow> (if k = ''length'' then JNum (int (length xs))
                    else case List.find (\<lambda>n. nat_digits n = k) [0..<length xs] of Some n \<Rightarrow> xs ! n | None \<Rightarrow> inherited v k)
      | _ \<Rightarrow> inherited v k)"

definition getNestedValue :: "(jsval \<Rightarrow> string \<Rightarrow> jsval) \<Rightarrow> js_record \<Rightarrow> string \<Rightarrow> jsval" where
  "getNestedValue inherited vars path =
     foldl (\<lambda>v k. if is_object_value v then property_of inherited v k else JUndefined) (JObj vars) (split_dots path)"

text \<open>The condition of the runner: it never throws.\<close>

definition evaluateCondition :: "engine_env \<Rightarrow> string \<Rightarrow> run \<Rightarrow> wf_error + bool" where
  "evaluateCondition env c e =
     Inr (if contains_text ''variables.'' c
          then truthy (getNestedValue (ee_inherited env) (we_variables e) (remove_first ''variables.'' c))
          else case ee_eval env c (we_variables e) of None \<Rightarrow> False | Some v \<Rightarrow> truthy v)"

definition getStepInput :: "run \<Rightarrow> jsval" where
  "getStepInput e =
     (if completedSteps e = [] then we_input e
      else case js_get (run_steps e) (last (completedSteps e)) of
             None \<Rightarrow> we_input e
           | Some se \<Rightarrow> if truthy (se_output se) then se_output se else we_input e)"

section \<open>Executing a step\<close>

definition executeTaskStep :: "time_ms \<Rightarrow> step_info \<Rightarrow> jsval \<Rightarrow> jsval" where
  "executeTaskStep now i input =
     JObj [(''taskId'', JStr (stepId i)), (''agentId'', opt_text (step_agentId i)), (''taskName'', opt_text (step_taskName i)),
           (''executedAt'', JDate now), (''input'', input)]"

definition on_branch :: "string \<Rightarrow> workflow_step list \<Rightarrow> string list" where
  "on_branch b ns = map step_id (filter (\<lambda>st. js_get (step_metadata (step_info st)) ''branch'' = Some (JStr b)) ns)"

text \<open>A marker as output, once the nested steps have run.\<close>

definition nested_output :: "string \<Rightarrow> run \<times> (wf_error + unit) \<Rightarrow> run \<times> (wf_error + jsval)" where
  "nested_output mark r = (case r of (e, Inl err) \<Rightarrow> (e, Inl err) | (e, Inr _) \<Rightarrow> (e, Inr (JObj [(mark, JBool True)])))"

definition step_work ::
  "engine_env \<Rightarrow> unit run_ext exec_fn \<Rightarrow> workflow_step \<Rightarrow> jsval \<Rightarrow> run \<Rightarrow> run \<times> (wf_error + jsval)" where
  "step_work env again st input e =
     (let i = step_info st; skip = (e, Inr ()) in
      case step_type i of
        StTask \<Rightarrow> (e, Inr (executeTaskStep (ee_started env) i input))
      | StSequence \<Rightarrow> nested_output ''sequenceCompleted''
          (case nested st of None \<Rightarrow> skip | Some ns \<Rightarrow> runSequential again (map step_id ns) e)
      | StParallel \<Rightarrow> nested_output ''parallelCompleted''
          (case nested st of None \<Rightarrow> skip
           | Some ns \<Rightarrow> runParallel (ee_settled env (map step_id ns) e) (map step_id ns) e)
      | StConditional \<Rightarrow> nested_output ''conditionalCompleted''
          (case (step_condition i, nested st) of
             (Some c, Some ns) \<Rightarrow> runConditional again (evaluateCondition env) (wc_expression c) (on_branch ''then'' ns) (on_branch ''else'' ns) e
           | _ \<Rightarrow> skip)
      | StLoop \<Rightarrow> nested_output ''loopCompleted''
          (case (step_loop i, nested st) of
             (Some l, Some ns) \<Rightarrow> runLoop again (evaluateCondition env) l (map step_id ns) e
           | _ \<Rightarrow> skip)
      | StCompensation \<Rightarrow> (e, Inl (WfError ''Unsupported step type: compensation'')))"

text \<open>\<open>executeStep\<close>, whose calls of the runner execute further steps with \<open>again\<close>.\<close>

definition max_attempts :: "workflow_definition \<Rightarrow> step_info \<Rightarrow> int" where
  "max_attempts w i = (case step_maxAttempts i of None \<Rightarrow> rp_maxAttempts (wf_retryPolicy w)
     | Some n \<Rightarrow> if n = 0 then rp_maxAttempts (wf_retryPolicy w) else n)"

definition step_call :: "engine_env \<Rightarrow> workflow_registry \<Rightarrow> unit run_ext exec_fn \<Rightarrow> unit run_ext exec_fn" where
  "step_call env r again k e =
     (case find_workflow r (we_workflowId e) of
        None \<Rightarrow> (e, Inl (WorkflowNotFound (we_workflowId e)))
      | Some w \<Rightarrow> (case findStep k (wf_steps w) of
            None \<Rightarrow> (e, Inl (WorkflowStepError k (executionId e) ''unknown'' (Some ''Step not found'')))
          | Some st \<Rightarrow>
              (let e0 = fold interrupt (ee_meanwhile env k e) e; input = getStepInput e0;
                   se = \<lparr>se_stepId = k, se_state = WfRunning, se_input = input, se_output = JUndefined, se_error = None,
                         se_maxAttempts = max_attempts w (step_info st)\<rparr>
               in case step_work env again st input e0 of (e1, res) \<Rightarrow>
                  (let se1 = (case res of
                                Inl err \<Rightarrow> se\<lparr>se_state := WfFailed, se_error := Some (wf_message err)\<rparr>
                              | Inr v \<Rightarrow> se\<lparr>se_state := WfCompleted, se_output := v\<rparr>)
                   in (e1\<lparr>run_steps := js_set k se1 (run_steps e1)\<rparr>, Inr se1)))))"

primrec executeStep :: "engine_env \<Rightarrow> workflow_registry \<Rightarrow> unit run_ext exec_fn \<Rightarrow> nat \<Rightarrow> unit run_ext exec_fn" where
  "executeStep env r beyond 0 = beyond"
| "executeStep env r beyond (Suc n) = step_call env r (executeStep env r beyond n)"

text \<open>The depth the engine's executions are run with, and what is beyond it.\<close>

definition step_depth :: "workflow_definition \<Rightarrow> nat" where
  "step_depth w = Suc (countTotalSteps (wf_steps w))"

definition beyond_depth :: "unit run_ext exec_fn" where
  "beyond_depth k e = (e, Inl (WfError ''unreachable''))"

section \<open>Executing a workflow\<close>

definition executeWorkflowSteps :: "engine_env \<Rightarrow> workflow_registry \<Rightarrow> workflow_definition \<Rightarrow> run \<Rightarrow> run \<times> (wf_error + unit)" where
  "executeWorkflowSteps env r w e =
     (let ids = map step_id (wf_steps w) in
      case wf_executionMode w of
        WfParallel \<Rightarrow> runParallel (ee_settled env ids e) ids e
      | _ \<Rightarrow> runSequential (executeStep env r beyond_depth (step_depth w)) ids e)"

fun mode_text :: "workflow_mode \<Rightarrow> string" where
  "mode_text WfSequential = ''sequential''"
| "mode_text WfParallel = ''parallel''"
| "mode_text WfMixed = ''mixed''"

definition new_execution :: "engine_env \<Rightarrow> string \<Rightarrow> string \<Rightarrow> workflow_definition \<Rightarrow> jsval \<Rightarrow> js_record \<Rightarrow> run" where
  "new_execution env i wid w input vars =
     \<lparr>executionId = i, we_workflowId = wid, we_state = WfRunning, we_variables = vars, currentStepId = None,
      completedSteps = [], failedSteps = [], compensatedSteps = [], we_input = input, we_output = JUndefined, we_error = None,
      we_startedAt = ee_started env, we_completedAt = None, stepCount = countTotalSteps (wf_steps w), failureCount = 0,
      we_metadata = js_spread [(''workflowName'', JStr (wf_name w)), (''workflowVersion'', JStr (wf_version w)),
           (''executionMode'', JStr (mode_text (wf_executionMode w)))]
         [(''continueOnError'', JBool (fp_continueOnError (wf_failurePolicy w))), (''maxFailures'', JNum (fp_maxFailures (wf_failurePolicy w))),
          (''failFast'', JBool (fp_failFast (wf_failurePolicy w))), (''compensationRequired'', JBool (fp_compensationRequired (wf_failurePolicy w)))],
      compensationErrors = [], run_steps = []\<rparr>"

definition extractWorkflowOutput :: "run \<Rightarrow> jsval" where
  "extractWorkflowOutput e =
     (if run_steps e = [] then JNull
      else JObj (map (\<lambda>(k, se). (k, se_output se)) (filter (\<lambda>(k, se). se_state se = WfCompleted) (run_steps e))))"

record compensation_action =
  ca_stepId :: string
  ca_action :: string
  ca_executed :: bool
  ca_executedAt :: "time_ms option"

definition compensateStep :: "time_ms \<Rightarrow> string \<Rightarrow> compensation_action" where
  "compensateStep now k = \<lparr>ca_stepId = k, ca_action = ''rollback'', ca_executed = True, ca_executedAt = Some now\<rparr>"

text \<open>No compensation throws, and the runner ignores the action.\<close>

definition compensate_all :: "run \<Rightarrow> run" where
  "compensate_all e = runCompensation (\<lambda>k e. None) (completedSteps e) e"

definition put_run :: "run \<Rightarrow> workflow_engine \<Rightarrow> workflow_engine" where
  "put_run e en = en\<lparr>en_executions := js_set (executionId e) e (en_executions en)\<rparr>"

text \<open>The ends of \<open>execute\<close>.\<close>

definition run_finished :: "engine_env \<Rightarrow> run \<Rightarrow> run" where
  "run_finished env e =
     (let e1 = (if we_state e = WfRunning then e\<lparr>we_state := WfCompleted, we_output := extractWorkflowOutput e\<rparr> else e)
      in e1\<lparr>we_completedAt := Some (ee_ended env)\<rparr>)"

definition run_failed :: "engine_env \<Rightarrow> workflow_definition \<Rightarrow> wf_error \<Rightarrow> run \<Rightarrow> run" where
  "run_failed env w err e =
     (let e1 = e\<lparr>we_state := WfFailed, we_error := Some (wf_message err), we_completedAt := Some (ee_ended env)\<rparr>
      in if fp_compensationRequired (wf_failurePolicy w) then compensate_all e1 else e1)"

text \<open>The timer of a workflow is cleared only by an execution that does not throw.\<close>

definition set_timer :: "engine_env \<Rightarrow> string \<Rightarrow> workflow_definition \<Rightarrow> workflow_engine \<Rightarrow> workflow_engine" where
  "set_timer env i w en =
     (if tp_enableGlobalTimeout (wf_timeoutPolicy w)
      then en\<lparr>en_timers := js_set i (ee_started env + tp_workflowTimeoutMs (wf_timeoutPolicy w)) (en_timers en)\<rparr> else en)"

definition en_execute ::
  "engine_env \<Rightarrow> workflow_registry \<Rightarrow> string \<Rightarrow> string \<Rightarrow> jsval \<Rightarrow> js_record \<Rightarrow> workflow_engine \<Rightarrow> workflow_engine \<times> (wf_error + run)" where
  "en_execute env r i wid input vars en =
     (case find_workflow r wid of
        None \<Rightarrow> (en, Inl (WorkflowNotFound wid))
      | Some w \<Rightarrow>
          (case executeWorkflowSteps env r w (new_execution env i wid w input vars) of
             (e, Inr _) \<Rightarrow> (let e1 = run_finished env e in (put_run e1 en, Inr e1))
           | (e, Inl err) \<Rightarrow>
               (let e1 = run_failed env w err e
                in (set_timer env i w (put_run e1 en),
                    Inl (WorkflowExecutionError i wid (currentStepId e1) (wf_message err))))))"

text \<open>A timer that fires finds its execution in the map, from which nothing is removed.\<close>

definition timeout_message :: "int \<Rightarrow> string" where
  "timeout_message ms = ''Workflow timeout after '' @ int_str ms @ ''ms''"

definition en_timeout :: "time_ms \<Rightarrow> int \<Rightarrow> string \<Rightarrow> workflow_engine \<Rightarrow> workflow_engine" where
  "en_timeout now ms i en =
     (case (js_get (en_timers en) i, js_get (en_executions en) i) of
        (Some due, Some e) \<Rightarrow>
          if due \<le> now
          then (put_run (e\<lparr>we_state := WfFailed, we_error := Some (timeout_message ms), we_completedAt := Some now\<rparr>) en)
                 \<lparr>en_timers := js_delete i (en_timers en)\<rparr>
          else en
      | _ \<Rightarrow> en)"

section \<open>Control\<close>

definition en_cancel :: "time_ms \<Rightarrow> string \<Rightarrow> workflow_engine \<Rightarrow> workflow_engine \<times> bool" where
  "en_cancel now i en =
     (case js_get (en_executions en) i of
        None \<Rightarrow> (en, False)
      | Some e \<Rightarrow> if we_state e \<noteq> WfRunning \<and> we_state e \<noteq> WfPaused then (en, False)
                  else (put_run (e\<lparr>we_state := WfCancelled, we_completedAt := Some now\<rparr>) en, True))"

definition en_pause :: "string \<Rightarrow> workflow_engine \<Rightarrow> workflow_engine \<times> bool" where
  "en_pause i en =
     (case js_get (en_executions en) i of
        None \<Rightarrow> (en, False)
      | Some e \<Rightarrow> if we_state e \<noteq> WfRunning then (en, False) else (put_run (e\<lparr>we_state := WfPaused\<rparr>) en, True))"

definition en_resume :: "engine_env \<Rightarrow> workflow_registry \<Rightarrow> string \<Rightarrow> workflow_engine \<Rightarrow> workflow_engine \<times> bool" where
  "en_resume env r i en =
     (case js_get (en_executions en) i of
        None \<Rightarrow> (en, False)
      | Some e \<Rightarrow>
          if we_state e \<noteq> WfPaused then (en, False)
          else let e1 = e\<lparr>we_state := WfRunning\<rparr> in
            case find_workflow r (we_workflowId e1) of
              None \<Rightarrow> (put_run e1 en, True)
            | Some w \<Rightarrow> (case executeWorkflowSteps env r w e1 of
                  (e2, Inr _) \<Rightarrow> (put_run e2 en, True)
                | (e2, Inl err) \<Rightarrow> (put_run (e2\<lparr>we_state := WfFailed, we_error := Some (wf_message err)\<rparr>) en, True)))"

end
