(* ===== verification/Workflow_Agent.thy ===== *)
theory Workflow_Agent
  imports Builtin_Shell Workflow_Engine
begin

text \<open>
  The class \<open>WorkflowAgent\<close> (\<open>agents/builtin/workflow-agent\<close>): a built-in agent in front of the workflow
  engine and its registry. What goes on in the engine meanwhile is part of the call.
\<close>

section \<open>Requests and results\<close>

text \<open>The context of an execution request: its variables and its timeout.\<close>

record workflow_request_context =
  wq_variables :: "js_record option"
  wq_timeout :: jsval

record workflow_input =
  wi_operation :: "jsval option"
  wi_workflowId :: jsval
  wi_input :: jsval
  wi_context :: "workflow_request_context option"
  wi_workflow :: "workflow_definition option"
  wi_executionId :: jsval

datatype workflow_value =
    WorkflowExecuted string string run time_ms
  | WorkflowValidated string bool "string list" "string list" time_ms
  | WorkflowPaused string bool time_ms
  | WorkflowResumed string bool time_ms
  | WorkflowStopped string bool time_ms

definition workflow_operations :: "string list" where
  "workflow_operations = [''execute-workflow'', ''validate-workflow'', ''pause-workflow'', ''resume-workflow'', ''cancel-workflow'']"

text \<open>Messages of the exceptions.\<close>

definition invalid_workflow_operation :: "string \<Rightarrow> string \<Rightarrow> string" where
  "invalid_workflow_operation op reason = ''Invalid workflow operation '' @ sq op @ '': '' @ reason"

definition workflow_execution_failed :: "string \<Rightarrow> string \<Rightarrow> string" where
  "workflow_execution_failed w reason = ''Workflow execution failed for '' @ sq w @ '': '' @ reason"

section \<open>Parsing\<close>

definition workflow_parse :: "workflow_input option \<Rightarrow> string + string" where
  "workflow_parse = shell_parse invalid_workflow_operation workflow_operations wi_operation
     (\<lambda>op i.
        [(op = ''execute-workflow'' \<and> not_string (wi_workflowId i), ''Workflow ID is required for execute operation''),
         (op = ''execute-workflow'' \<and> wi_input i = JUndefined, ''Input is required for execute operation''),
         (op = ''execute-workflow'' \<and> wi_context i = None, ''Context is required for execute operation''),
         (op = ''validate-workflow'' \<and> wi_workflow i = None, ''Workflow is required for validate operation''),
         (op \<in> {''pause-workflow'', ''resume-workflow'', ''cancel-workflow''} \<and> not_string (wi_executionId i),
            ''Execution ID is required for control operations'')])"

definition workflow_op_of :: "workflow_input option \<Rightarrow> jsval option" where
  "workflow_op_of = shell_op_of wi_operation"

section \<open>State\<close>

record workflow_agent =
  wa_engine :: workflow_engine
  wa_registry :: workflow_registry
  wa_totalExecutions :: nat
  wa_totalValidations :: nat
  wa_validWorkflows :: nat
  wa_invalidWorkflows :: nat
  wa_totalPauses :: nat
  wa_totalResumes :: nat
  wa_totalCancellations :: nat

definition new_workflow_agent :: "workflow_engine \<Rightarrow> workflow_registry \<Rightarrow> workflow_agent" where
  "new_workflow_agent en r = \<lparr>wa_engine = en, wa_registry = r, wa_totalExecutions = 0, wa_totalValidations = 0,
     wa_validWorkflows = 0, wa_invalidWorkflows = 0, wa_totalPauses = 0, wa_totalResumes = 0, wa_totalCancellations = 0\<rparr>"

definition workflow_capabilities :: "agent_capability list" where
  "workflow_capabilities =
     [\<lparr>cap_id = ''workflow-execution'', cap_name = ''Workflow Execution''\<rparr>,
      \<lparr>cap_id = ''workflow-validation'', cap_name = ''Workflow Validation''\<rparr>,
      \<lparr>cap_id = ''workflow-control'', cap_name = ''Workflow Control''\<rparr>]"

definition workflow_metadata :: agent where
  "workflow_metadata = \<lparr>ag_id = ''workflow-agent'', ag_name = ''Workflow Agent'', ag_version = ''1.0.0'',
     ag_type = ''service'', ag_capabilities = workflow_capabilities\<rparr>"

text \<open>A call: its clock, the random id of an execution, and what the engine meets.\<close>

record workflow_call =
  wk_now :: time_ms
  wk_finished :: time_ms
  wk_executionId :: string
  wk_env :: engine_env

section \<open>Operations\<close>

definition request_variables :: "workflow_request_context \<Rightarrow> js_record" where
  "request_variables c =
     js_spread (case wq_variables c of None \<Rightarrow> [] | Some vs \<Rightarrow> vs)
       (if truthy (wq_timeout c) then [(''timeout'', wq_timeout c)] else [])"

definition wa_executeWorkflow ::
  "workflow_call \<Rightarrow> string \<Rightarrow> jsval \<Rightarrow> workflow_request_context \<Rightarrow> workflow_agent \<Rightarrow> workflow_agent \<times> (string + workflow_value op_result)" where
  "wa_executeWorkflow k wid v c g =
     (case en_execute (wk_env k) (wa_registry g) (wk_executionId k) wid v (request_variables c) (wa_engine g) of
        (en, Inl e) \<Rightarrow> (g\<lparr>wa_engine := en\<rparr>, Inl (workflow_execution_failed wid (wf_message e)))
      | (en, Inr e) \<Rightarrow>
          (g\<lparr>wa_engine := en, wa_totalExecutions := wa_totalExecutions g + 1\<rparr>,
           completed_op (WorkflowExecuted wid (executionId e) e (wk_now k))
             [(''workflowId'', JStr wid), (''executionId'', JStr (executionId e)), (''timestamp'', JDate (wk_now k))]))"

definition wa_validateWorkflow ::
  "workflow_call \<Rightarrow> workflow_definition \<Rightarrow> workflow_agent \<Rightarrow> workflow_agent \<times> (string + workflow_value op_result)" where
  "wa_validateWorkflow k w g =
     (let v = validate_workflow w; g1 = g\<lparr>wa_totalValidations := wa_totalValidations g + 1\<rparr> in
      (if wv_valid v then g1\<lparr>wa_validWorkflows := wa_validWorkflows g + 1\<rparr> else g1\<lparr>wa_invalidWorkflows := wa_invalidWorkflows g + 1\<rparr>,
       completed_op (WorkflowValidated (workflowId w) (wv_valid v) (wv_errors v) (wv_warnings v) (wk_now k))
         [(''workflowId'', JStr (workflowId w)), (''errorCount'', JNum (int (length (wv_errors v)))),
          (''warningCount'', JNum (int (length (wv_warnings v)))), (''timestamp'', JDate (wk_now k))]))"

text \<open>Pausing, resuming and cancelling: an operation that was not possible is a success that says so.\<close>

definition control_metadata :: "workflow_call \<Rightarrow> string \<Rightarrow> js_record" where
  "control_metadata k i = [(''executionId'', JStr i), (''timestamp'', JDate (wk_now k))]"

definition wa_pauseWorkflow :: "workflow_call \<Rightarrow> string \<Rightarrow> workflow_agent \<Rightarrow> workflow_agent \<times> (string + workflow_value op_result)" where
  "wa_pauseWorkflow k i g =
     (case en_pause i (wa_engine g) of (en, b) \<Rightarrow>
        (g\<lparr>wa_engine := en, wa_totalPauses := wa_totalPauses g + (if b then 1 else 0)\<rparr>,
         completed_op (WorkflowPaused i b (wk_now k)) (control_metadata k i)))"

definition wa_resumeWorkflow :: "workflow_call \<Rightarrow> string \<Rightarrow> workflow_agent \<Rightarrow> workflow_agent \<times> (string + workflow_value op_result)" where
  "wa_resumeWorkflow k i g =
     (case en_resume (wk_env k) (wa_registry g) i (wa_engine g) of (en, b) \<Rightarrow>
        (g\<lparr>wa_engine := en, wa_totalResumes := wa_totalResumes g + (if b then 1 else 0)\<rparr>,
         completed_op (WorkflowResumed i b (wk_now k)) (control_metadata k i)))"

definition wa_cancelWorkflow :: "workflow_call \<Rightarrow> string \<Rightarrow> workflow_agent \<Rightarrow> workflow_agent \<times> (string + workflow_value op_result)" where
  "wa_cancelWorkflow k i g =
     (case en_cancel (wk_now k) i (wa_engine g) of (en, b) \<Rightarrow>
        (g\<lparr>wa_engine := en, wa_totalCancellations := wa_totalCancellations g + (if b then 1 else 0)\<rparr>,
         completed_op (WorkflowStopped i b (wk_now k)) (control_metadata k i)))"

section \<open>The agent\<close>

text \<open>The dispatch; the parser has made sure of the requests.\<close>

definition workflow_run ::
  "workflow_call \<Rightarrow> string \<Rightarrow> workflow_input option \<Rightarrow> workflow_agent \<Rightarrow> workflow_agent \<times> (string + workflow_value op_result)" where
  "workflow_run k op input g =
     (case input of None \<Rightarrow> (g, Inl (invalid_workflow_operation op ''Unsupported operation''))
      | Some i \<Rightarrow>
          if op = ''execute-workflow'' then wa_executeWorkflow k (the_text (wi_workflowId i)) (wi_input i) (the (wi_context i)) g
          else if op = ''validate-workflow'' then wa_validateWorkflow k (the (wi_workflow i)) g
          else if op = ''pause-workflow'' then wa_pauseWorkflow k (the_text (wi_executionId i)) g
          else if op = ''resume-workflow'' then wa_resumeWorkflow k (the_text (wi_executionId i)) g
          else if op = ''cancel-workflow'' then wa_cancelWorkflow k (the_text (wi_executionId i)) g
          else (g, Inl (invalid_workflow_operation op ''Unsupported operation'')))"

definition workflow_execute ::
  "workflow_call \<Rightarrow> workflow_input option \<Rightarrow> agent_shell \<times> workflow_agent
     \<Rightarrow> (agent_shell \<times> workflow_agent) \<times> workflow_value agent_answer option" where
  "workflow_execute k =
     shell_execute ''workflow-agent'' workflow_op_of workflow_parse (workflow_run k) (wk_now k) (wk_finished k)"

definition workflow_initialize :: "bool \<Rightarrow> agent_shell \<Rightarrow> agent_shell \<times> (string + unit)" where
  "workflow_initialize available sh =
     shell_initialize ''workflow'' (if available then None else Some ''Workflow engine is not available'') sh"

definition workflow_shutdown :: "agent_shell \<Rightarrow> agent_shell" where
  "workflow_shutdown sh = shell_shutdown sh"

definition workflow_getHealth :: "time_ms \<Rightarrow> bool \<Rightarrow> agent_shell \<times> workflow_agent \<Rightarrow> shell_health" where
  "workflow_getHealth now available = (\<lambda>(sh, g).
     shell_getHealth now available [(''totalExecutions'', real (wa_totalExecutions g))] sh)"

section \<open>Reports\<close>

record workflow_agent_health =
  wah_workflowEngineAvailable :: bool
  wah_status :: health_status
  wah_totalWorkflows :: nat
  wah_runningExecutions :: nat
  wah_completedExecutions :: nat
  wah_failedExecutions :: nat
  wah_errors :: "string list"
  wah_warnings :: "string list"
  wah_lastActivity :: "time_ms option"
  wah_validationSuccessRate :: real

definition getWorkflowAgentHealth :: "bool \<Rightarrow> agent_shell \<times> workflow_agent \<Rightarrow> workflow_agent_health" where
  "getWorkflowAgentHealth available = (\<lambda>(sh, g).
     \<lparr>wah_workflowEngineAvailable = available, wah_status = shell_health_status available sh,
      wah_totalWorkflows = wa_totalExecutions g, wah_runningExecutions = 0,
      wah_completedExecutions = op_count (ah_successes sh) ''execute-workflow'',
      wah_failedExecutions = op_count (ah_failures sh) ''execute-workflow'',
      wah_errors = ah_errors sh, wah_warnings = ah_warnings sh, wah_lastActivity = ah_lastActivity sh,
      wah_validationSuccessRate =
        (if wa_totalValidations g > 0 then real (wa_validWorkflows g) / real (wa_totalValidations g) else 0)\<rparr>)"

record workflow_agent_metrics =
  wam_shell :: shell_metrics
  wam_currentlyRunning :: nat
  wam_averageExecutionTime :: real
  wam_successfulExecutions :: nat
  wam_failedExecutions :: nat

definition workflow_getMetrics :: "time_ms \<Rightarrow> agent_shell \<times> workflow_agent \<Rightarrow> workflow_agent_metrics" where
  "workflow_getMetrics now = (\<lambda>(sh, g).
     (let m = shell_getMetrics now sh in
      \<lparr>wam_shell = m, wam_currentlyRunning = 0, wam_averageExecutionTime = average_latency ''execute-workflow'' m,
       wam_successfulExecutions = op_count (ah_successes sh) ''execute-workflow'',
       wam_failedExecutions = op_count (ah_failures sh) ''execute-workflow''\<rparr>))"

section \<open>The contract\<close>

interpretation workflow: builtin_agent workflow_operations workflow_op_of workflow_parse
  by unfold_locales (simp add: workflow_parse_def workflow_op_of_def shell_parse_known)

end
