(* ===== verification/Communication_Agent.thy ===== *)
theory Communication_Agent
  imports Builtin_Shell Communication_Manager
begin

text \<open>
  The class \<open>CommunicationAgent\<close> (\<open>agents/builtin/communication-agent\<close>): a built-in agent in front of the
  communication manager, whose bus it uses directly. A field of a given message is missing or of its type.
\<close>

section \<open>Requests and results\<close>

record communication_input =
  mq_operation :: "jsval option"
  mq_message :: "message_draft option"
  mq_agentId :: jsval
  mq_channelId :: jsval

datatype communication_value =
    MessageSent string bool time_ms
  | MessageReceived string "agent_message option" nat time_ms
  | MessageBroadcast string nat time_ms
  | ChannelSubscribed string string time_ms
  | ChannelUnsubscribed string string bool time_ms

definition communication_operations :: "string list" where
  "communication_operations = [''send'', ''receive'', ''broadcast'', ''subscribe'', ''unsubscribe'']"

text \<open>Messages of the exceptions.\<close>

definition invalid_communication_operation :: "string \<Rightarrow> string \<Rightarrow> string" where
  "invalid_communication_operation op reason = ''Invalid communication operation '' @ sq op @ '': '' @ reason"

definition message_send_failed :: "string \<Rightarrow> string \<Rightarrow> string" where
  "message_send_failed i reason = ''Message send failed for '' @ sq i @ '': '' @ reason"

definition message_receive_failed :: "string \<Rightarrow> string \<Rightarrow> string" where
  "message_receive_failed a reason = ''Message receive failed for agent '' @ sq a @ '': '' @ reason"

definition message_broadcast_failed :: "string \<Rightarrow> string \<Rightarrow> string" where
  "message_broadcast_failed i reason = ''Message broadcast failed for '' @ sq i @ '': '' @ reason"

definition channel_subscription_failed :: "string \<Rightarrow> string \<Rightarrow> string \<Rightarrow> string" where
  "channel_subscription_failed a ch reason =
     ''Channel subscription failed for agent '' @ sq a @ '' to channel '' @ sq ch @ '': '' @ reason"

definition channel_unsubscription_failed :: "string \<Rightarrow> string \<Rightarrow> string \<Rightarrow> string" where
  "channel_unsubscription_failed a ch reason =
     ''Channel unsubscription failed for agent '' @ sq a @ '' from channel '' @ sq ch @ '': '' @ reason"

definition invalid_message :: "string list \<Rightarrow> string" where
  "invalid_message missing = ''Invalid message - missing fields: '' @ join_with '', '' missing"

definition invalid_channel :: "string \<Rightarrow> string \<Rightarrow> string" where
  "invalid_channel ch reason = ''Invalid channel '' @ sq ch @ '': '' @ reason"

section \<open>Parsing and validation\<close>

definition communication_parse :: "communication_input option \<Rightarrow> string + string" where
  "communication_parse = shell_parse invalid_communication_operation communication_operations mq_operation
     (\<lambda>op i.
        [(op = ''send'' \<and> mq_message i = None, ''Message is required for send operation''),
         (op = ''receive'' \<and> not_string (mq_agentId i), ''Agent ID is required for receive operation''),
         (op = ''broadcast'' \<and> mq_message i = None, ''Message is required for broadcast operation''),
         ((op = ''subscribe'' \<or> op = ''unsubscribe'') \<and> not_string (mq_agentId i), ''Agent ID is required for channel operations''),
         ((op = ''subscribe'' \<or> op = ''unsubscribe'') \<and> not_string (mq_channelId i), ''Channel ID is required for channel operations'')])"

definition communication_op_of :: "communication_input option \<Rightarrow> jsval option" where
  "communication_op_of = shell_op_of mq_operation"

definition missing_message_fields :: "message_draft \<Rightarrow> string list" where
  "missing_message_fields d =
     map fst (filter snd
       [(''messageId'', md_messageId d = None), (''senderAgentId'', md_senderAgentId d = None),
        (''workspaceId'', md_workspaceId d = None), (''requestId'', md_requestId d = None), (''traceId'', md_traceId d = None),
        (''timestamp'', md_timestamp d = None), (''priority'', md_priority d = None), (''type'', md_type d = None),
        (''status'', md_status d = None), (''payload'', md_payload d = JUndefined)])"

text \<open>\<open>Some m\<close> is an exception.\<close>

definition validateMessage :: "message_draft \<Rightarrow> string option" where
  "validateMessage d =
     (if missing_message_fields d \<noteq> [] then Some (invalid_message (missing_message_fields d))
      else if md_messageId d = Some [] then Some (invalid_message [''messageId (must be non-empty string)''])
      else if md_senderAgentId d = Some [] then Some (invalid_message [''senderAgentId (must be non-empty string)''])
      else if md_workspaceId d = Some [] then Some (invalid_message [''workspaceId (must be non-empty string)''])
      else if md_requestId d = Some [] then Some (invalid_message [''requestId (must be non-empty string)''])
      else None)"

text \<open>A valid message.\<close>

definition the_message :: "message_draft \<Rightarrow> agent_message" where
  "the_message d =
     \<lparr>messageId = the (md_messageId d), senderAgentId = the (md_senderAgentId d), receiverAgentId = md_receiverAgentId d,
      conversationId = md_conversationId d, msg_workspaceId = the (md_workspaceId d), msg_requestId = the (md_requestId d),
      msg_traceId = the (md_traceId d), timestamp = the (md_timestamp d), msg_priority = the (md_priority d),
      msg_type = the (md_type d), msg_status = the (md_status d), payload = md_payload d, msg_metadata = md_metadata d\<rparr>"

section \<open>State\<close>

record channel_usage =
  cu_subscriptionCount :: nat
  cu_messageCount :: nat
  cu_lastActivity :: "time_ms option"

record communication_agent =
  qa_manager :: comm
  qa_totalMessages :: nat
  qa_directMessages :: nat
  qa_broadcastMessages :: nat
  qa_failedMessages :: nat
  qa_totalSends :: nat
  qa_totalReceives :: nat
  qa_totalBroadcasts :: nat
  qa_totalSubscriptions :: nat
  qa_totalUnsubscriptions :: nat
  qa_broadcastRecipients :: nat
  qa_messagesByType :: "(message_type, nat) js_map"
  qa_messagesByStatus :: "(message_status, nat) js_map"
  qa_messagesByPriority :: "(agent_priority, nat) js_map"
  qa_channelUsage :: "(string, channel_usage) js_map"

definition new_communication_agent :: "comm \<Rightarrow> communication_agent" where
  "new_communication_agent c =
     \<lparr>qa_manager = c, qa_totalMessages = 0, qa_directMessages = 0, qa_broadcastMessages = 0, qa_failedMessages = 0,
      qa_totalSends = 0, qa_totalReceives = 0, qa_totalBroadcasts = 0, qa_totalSubscriptions = 0, qa_totalUnsubscriptions = 0,
      qa_broadcastRecipients = 0,
      qa_messagesByType = map (\<lambda>x. (x, 0)) [MsgRequest, MsgResponse, MsgNotification, MsgBroadcast, MsgError],
      qa_messagesByStatus = map (\<lambda>x. (x, 0)) [MsgPending, MsgSent, MsgDelivered, MsgProcessed, MsgFailed],
      qa_messagesByPriority = map (\<lambda>x. (x, 0)) [Low, Normal, High, Critical], qa_channelUsage = []\<rparr>"

definition communication_capabilities :: "agent_capability list" where
  "communication_capabilities =
     [\<lparr>cap_id = ''message-delivery'', cap_name = ''Message Delivery''\<rparr>,
      \<lparr>cap_id = ''message-broadcasting'', cap_name = ''Message Broadcasting''\<rparr>,
      \<lparr>cap_id = ''channel-management'', cap_name = ''Channel Management''\<rparr>,
      \<lparr>cap_id = ''message-reception'', cap_name = ''Message Reception''\<rparr>]"

definition communication_metadata :: agent where
  "communication_metadata = \<lparr>ag_id = ''communication-agent'', ag_name = ''Communication Agent'', ag_version = ''1.0.0'',
     ag_type = ''service'', ag_capabilities = communication_capabilities\<rparr>"

text \<open>\<open>trackMessageStats\<close>: \<open>(m[k] || 0) + 1\<close>.\<close>

definition one_more :: "'k \<Rightarrow> ('k, nat) js_map \<Rightarrow> ('k, nat) js_map" where
  "one_more k m = js_set k ((case js_get m k of None \<Rightarrow> 0 | Some n \<Rightarrow> n) + 1) m"

definition trackMessageStats :: "agent_message \<Rightarrow> communication_agent \<Rightarrow> communication_agent" where
  "trackMessageStats m g =
     g\<lparr>qa_messagesByType := one_more (msg_type m) (qa_messagesByType g),
       qa_messagesByStatus := one_more (msg_status m) (qa_messagesByStatus g),
       qa_messagesByPriority := one_more (msg_priority m) (qa_messagesByPriority g)\<rparr>"

text \<open>A call: its clock and the random suffix of a subscription's id.\<close>

record communication_call =
  mk_at :: time_ms
  mk_finished :: time_ms
  mk_suffix :: string

section \<open>Messages\<close>

fun message_type_str :: "message_type \<Rightarrow> string" where
  "message_type_str MsgRequest = ''request''"
| "message_type_str MsgResponse = ''response''"
| "message_type_str MsgNotification = ''notification''"
| "message_type_str MsgBroadcast = ''broadcast''"
| "message_type_str MsgError = ''error''"

text \<open>The id of a message that may have none, in a template string.\<close>

definition draft_id :: "message_draft \<Rightarrow> string" where
  "draft_id d = (case md_messageId d of None \<Rightarrow> ''undefined'' | Some i \<Rightarrow> i)"

definition set_bus :: "bus \<Rightarrow> communication_agent \<Rightarrow> communication_agent" where
  "set_bus b g = g\<lparr>qa_manager := (qa_manager g)\<lparr>cm_bus := b\<rparr>\<rparr>"

definition message_not_sent :: "communication_agent \<Rightarrow> communication_agent" where
  "message_not_sent g = g\<lparr>qa_failedMessages := qa_failedMessages g + 1\<rparr>"

definition qa_sendMessage ::
  "communication_call \<Rightarrow> message_draft \<Rightarrow> communication_agent \<Rightarrow> communication_agent \<times> (string + communication_value op_result)" where
  "qa_sendMessage k d g =
     (case validateMessage d of
        Some e \<Rightarrow> (message_not_sent g, Inl (message_send_failed (draft_id d) e))
      | None \<Rightarrow> (let m = the_message d in
          case bus_send (mk_at k) m (cm_bus (qa_manager g)) of (b, sent) \<Rightarrow>
            (trackMessageStats m ((set_bus b g)\<lparr>qa_totalMessages := qa_totalMessages g + 1, qa_totalSends := qa_totalSends g + 1,
               qa_directMessages := qa_directMessages g + 1\<rparr>),
             completed_op (MessageSent (messageId m) sent (mk_at k))
               [(''messageId'', JStr (messageId m)), (''senderAgentId'', JStr (senderAgentId m)),
                (''receiverAgentId'', opt_text (receiverAgentId m)), (''messageType'', JStr (message_type_str (msg_type m))),
                (''priority'', JStr (priority_str (msg_priority m))), (''deliverySent'', JBool sent), (''timestamp'', JDate (mk_at k))])))"

definition qa_receiveMessage ::
  "communication_call \<Rightarrow> string \<Rightarrow> communication_agent \<Rightarrow> communication_agent \<times> (string + communication_value op_result)" where
  "qa_receiveMessage k a g =
     (case bus_findAgent a (cm_bus (qa_manager g)) of
        None \<Rightarrow> (g, Inl (message_receive_failed a (message_receive_failed a ''Agent not registered'')))
      | Some ra \<Rightarrow>
          (let n = inbox_size (ra_inbox ra); got = (if n > 0 then snd (inbox_pop (mk_at k) (ra_inbox ra)) else None);
               g1 = (if n > 0
                     then (set_bus (use_inbox a (\<lambda>ib. fst (inbox_pop (mk_at k) ib)) (cm_bus (qa_manager g))) g)
                            \<lparr>qa_totalReceives := qa_totalReceives g + 1\<rparr>
                     else g)
           in (case got of None \<Rightarrow> g1 | Some m \<Rightarrow> trackMessageStats m g1,
               completed_op (MessageReceived a got n (mk_at k))
                 [(''agentId'', JStr a), (''messagesReceived'', JNum (int n)), (''messageReceived'', JBool (got \<noteq> None)),
                  (''messageId'', opt_text (map_option messageId got)),
                  (''messageType'', opt_text (map_option (\<lambda>m. message_type_str (msg_type m)) got)), (''timestamp'', JDate (mk_at k))])))"

definition qa_broadcastMessage ::
  "communication_call \<Rightarrow> message_draft \<Rightarrow> communication_agent \<Rightarrow> communication_agent \<times> (string + communication_value op_result)" where
  "qa_broadcastMessage k d0 g =
     (let d = d0\<lparr>md_type := Some MsgBroadcast, md_status := Some MsgPending\<rparr> in
      case validateMessage d of
        Some e \<Rightarrow> (message_not_sent g, Inl (message_broadcast_failed (draft_id d) e))
      | None \<Rightarrow> (let m = the_message d in
          case bus_broadcast (mk_at k) m (cm_bus (qa_manager g)) of
            (b, Inl e) \<Rightarrow> (message_not_sent (set_bus b g), Inl (message_broadcast_failed (draft_id d) (err_message e)))
          | (b, Inr n) \<Rightarrow>
              (trackMessageStats m ((set_bus b g)\<lparr>qa_totalMessages := qa_totalMessages g + 1,
                 qa_totalBroadcasts := qa_totalBroadcasts g + 1, qa_broadcastMessages := qa_broadcastMessages g + 1,
                 qa_broadcastRecipients := qa_broadcastRecipients g + n\<rparr>),
               completed_op (MessageBroadcast (messageId m) n (mk_at k))
                 [(''messageId'', JStr (messageId m)), (''senderAgentId'', JStr (senderAgentId m)),
                  (''messageType'', JStr (message_type_str (msg_type m))), (''priority'', JStr (priority_str (msg_priority m))),
                  (''recipientCount'', JNum (int n)), (''timestamp'', JDate (mk_at k))])))"

section \<open>Channels\<close>

definition usage_of :: "string \<Rightarrow> communication_agent \<Rightarrow> channel_usage" where
  "usage_of ch g = (case js_get (qa_channelUsage g) ch of Some u \<Rightarrow> u
     | None \<Rightarrow> \<lparr>cu_subscriptionCount = 0, cu_messageCount = 0, cu_lastActivity = None\<rparr>)"

definition put_channel :: "channel \<Rightarrow> comm \<Rightarrow> comm" where
  "put_channel c m = m\<lparr>cm_channels := js_set (ch_id c) c (cm_channels m)\<rparr>"

definition subscribeToChannel ::
  "communication_call \<Rightarrow> string \<Rightarrow> string \<Rightarrow> communication_agent \<Rightarrow> communication_agent \<times> (string + communication_value op_result)" where
  "subscribeToChannel k a ch g =
     (let fail = (\<lambda>e. Inl (channel_subscription_failed a ch e)) in
      if ch = [] then (g, fail (invalid_channel ch ''Channel ID must be a non-empty string''))
      else case createChannel ch (qa_manager g) of
        (m, Inl e) \<Rightarrow> (g\<lparr>qa_manager := m\<rparr>, fail (err_message e))
      | (m, Inr c) \<Rightarrow>
          (let c1 = fst (channel_subscribe (mk_suffix k) (mk_at k) a 0 None c); u = usage_of ch g
           in (g\<lparr>qa_manager := put_channel c1 m, qa_totalSubscriptions := qa_totalSubscriptions g + 1,
                 qa_channelUsage := js_set ch (u\<lparr>cu_subscriptionCount := cu_subscriptionCount u + 1, cu_lastActivity := Some (mk_at k)\<rparr>)
                   (qa_channelUsage g)\<rparr>,
               completed_op (ChannelSubscribed a ch (mk_at k))
                 [(''agentId'', JStr a), (''channelId'', JStr ch), (''timestamp'', JDate (mk_at k))])))"

definition note_unsubscribed :: "communication_call \<Rightarrow> string \<Rightarrow> communication_agent \<Rightarrow> communication_agent" where
  "note_unsubscribed k ch g =
     (let g1 = g\<lparr>qa_totalUnsubscriptions := qa_totalUnsubscriptions g + 1\<rparr> in
      case js_get (qa_channelUsage g) ch of
        None \<Rightarrow> g1
      | Some u \<Rightarrow> g1\<lparr>qa_channelUsage := js_set ch (u\<lparr>cu_subscriptionCount := cu_subscriptionCount u - 1,
            cu_lastActivity := Some (mk_at k)\<rparr>) (qa_channelUsage g)\<rparr>)"

definition unsubscribeFromChannel ::
  "communication_call \<Rightarrow> string \<Rightarrow> string \<Rightarrow> communication_agent \<Rightarrow> communication_agent \<times> (string + communication_value op_result)" where
  "unsubscribeFromChannel k a ch g =
     (let fail = (\<lambda>e. Inl (channel_unsubscription_failed a ch e)) in
      if ch = [] then (g, fail (invalid_channel ch ''Channel ID must be a non-empty string''))
      else if ch \<notin> set (listChannels (qa_manager g)) then (g, fail (invalid_channel ch ''Channel does not exist''))
      else case createChannel ch (qa_manager g) of
        (m, Inl e) \<Rightarrow> (g\<lparr>qa_manager := m\<rparr>, fail (err_message e))
      | (m, Inr c) \<Rightarrow>
          (case unsubscribeAgent a c of (c1, n) \<Rightarrow>
            (let g1 = g\<lparr>qa_manager := put_channel c1 m\<rparr>
             in (if n > 0 then note_unsubscribed k ch g1 else g1,
                 completed_op (ChannelUnsubscribed a ch (n > 0) (mk_at k))
                   [(''agentId'', JStr a), (''channelId'', JStr ch), (''unsubscribed'', JBool (n > 0)), (''timestamp'', JDate (mk_at k))]))))"

section \<open>The agent\<close>

text \<open>The dispatch; the parser has made sure of the requests.\<close>

definition communication_run ::
  "communication_call \<Rightarrow> string \<Rightarrow> communication_input option \<Rightarrow> communication_agent \<Rightarrow> communication_agent \<times> (string + communication_value op_result)" where
  "communication_run k op input g =
     (case input of None \<Rightarrow> (g, Inl (invalid_communication_operation op ''Unsupported operation''))
      | Some i \<Rightarrow>
          if op = ''send'' then qa_sendMessage k (the (mq_message i)) g
          else if op = ''receive'' then qa_receiveMessage k (the_text (mq_agentId i)) g
          else if op = ''broadcast'' then qa_broadcastMessage k (the (mq_message i)) g
          else if op = ''subscribe'' then subscribeToChannel k (the_text (mq_agentId i)) (the_text (mq_channelId i)) g
          else if op = ''unsubscribe'' then unsubscribeFromChannel k (the_text (mq_agentId i)) (the_text (mq_channelId i)) g
          else (g, Inl (invalid_communication_operation op ''Unsupported operation'')))"

definition communication_execute ::
  "communication_call \<Rightarrow> communication_input option \<Rightarrow> agent_shell \<times> communication_agent
     \<Rightarrow> (agent_shell \<times> communication_agent) \<times> communication_value agent_answer option" where
  "communication_execute k =
     shell_execute ''communication-agent'' communication_op_of communication_parse (communication_run k) (mk_at k) (mk_finished k)"

definition communication_initialize :: "bool \<Rightarrow> agent_shell \<Rightarrow> agent_shell \<times> (string + unit)" where
  "communication_initialize available sh =
     shell_initialize ''communication'' (if available then None else Some ''Communication manager is not available'') sh"

definition communication_shutdown :: "agent_shell \<Rightarrow> agent_shell" where
  "communication_shutdown sh = shell_shutdown sh"

definition communication_getHealth :: "time_ms \<Rightarrow> bool \<Rightarrow> agent_shell \<times> communication_agent \<Rightarrow> shell_health" where
  "communication_getHealth now available = (\<lambda>(sh, g).
     shell_getHealth now available [(''totalMessages'', real (qa_totalMessages g))] sh)"

section \<open>Reports\<close>

record communication_agent_health =
  cah_status :: health_status
  cah_channelCount :: nat
  cah_registeredAgents :: nat
  cah_totalMessages :: nat
  cah_activeChannels :: nat
  cah_errors :: "string list"
  cah_warnings :: "string list"
  cah_lastActivity :: "time_ms option"

text \<open>Of an agent that has its manager, whose own health is asked too.\<close>

definition getCommunicationAgentHealth :: "time_ms \<Rightarrow> agent_shell \<times> communication_agent \<Rightarrow> communication_agent_health" where
  "getCommunicationAgentHealth now = (\<lambda>(sh, g).
     (let h = comm_health_of now (qa_manager g) in
      \<lparr>cah_status = shell_health_status True sh, cah_channelCount = chl_channelCount h,
       cah_registeredAgents = chl_registeredAgents h,
       cah_totalMessages = (if chl_totalMessages h = 0 then qa_totalMessages g else chl_totalMessages h),
       cah_activeChannels = length (qa_channelUsage g), cah_errors = ah_errors sh, cah_warnings = ah_warnings sh,
       cah_lastActivity = ah_lastActivity sh\<rparr>))"

record communication_agent_metrics =
  cam_shell :: shell_metrics
  cam_sendSuccessRate :: real
  cam_broadcastSuccessRate :: real
  cam_averageRecipients :: real

definition communication_getMetrics :: "time_ms \<Rightarrow> agent_shell \<times> communication_agent \<Rightarrow> communication_agent_metrics" where
  "communication_getMetrics now = (\<lambda>(sh, g).
     \<lparr>cam_shell = shell_getMetrics now sh, cam_sendSuccessRate = op_rate ''send'' sh,
      cam_broadcastSuccessRate = op_rate ''broadcast'' sh,
      cam_averageRecipients =
        (if qa_totalBroadcasts g > 0 then real (qa_broadcastRecipients g) / real (qa_totalBroadcasts g) else 0)\<rparr>)"

section \<open>The contract\<close>

interpretation communication: builtin_agent communication_operations communication_op_of communication_parse
  by unfold_locales (simp add: communication_parse_def communication_op_of_def shell_parse_known)

end
