(* ===== verification/Tools.thy ===== *)
theory Tools
  imports Mcp_Execution
begin

text \<open>
  The tools of the kernel (\<open>tools/\<close>): the registry, the two executors, and the small classes beside them. What a
  tool's own \<open>execute\<close> returns or throws is an argument (its result, or the message of the error). The telemetry
  only writes to the console and is left out.
\<close>

section \<open>Tools and their registry\<close>

datatype tool_category = CatBuiltin | CatPlugin | CatMcp | CatSkill

text \<open>A schema that is not there is \<open>JUndefined\<close>; \<open>tl_server\<close> is given for an instance of \<open>MCPToolBridge\<close>.\<close>

record tool =
  tl_id :: string
  tl_name :: string
  tl_description :: string
  tl_version :: string
  tl_enabled :: bool
  tl_category :: tool_category
  tl_permissions :: "string list"
  tl_tags :: "string list"
  tl_inputSchema :: jsval
  tl_outputSchema :: jsval
  tl_timeout :: "int option"
  tl_server :: "string option"

type_synonym tool_registry = "(string, tool) js_map"

definition tool_register :: "tool \<Rightarrow> tool_registry \<Rightarrow> tool_registry" where
  "tool_register t r = js_set (tl_name t) t r"

definition tool_get :: "string \<Rightarrow> tool_registry \<Rightarrow> tool option" where
  "tool_get n r = js_get r n"

definition tool_getAll :: "tool_registry \<Rightarrow> tool list" where
  "tool_getAll r = js_values r"

definition tool_exists :: "string \<Rightarrow> tool_registry \<Rightarrow> bool" where
  "tool_exists n r = js_has r n"

definition tool_unregister :: "string \<Rightarrow> tool_registry \<Rightarrow> tool_registry" where
  "tool_unregister n r = js_delete n r"

fun category_str :: "tool_category \<Rightarrow> string" where
  "category_str CatBuiltin = ''builtin''"
| "category_str CatPlugin = ''plugin''"
| "category_str CatMcp = ''mcp''"
| "category_str CatSkill = ''skill''"

definition texts :: "string list \<Rightarrow> jsval" where
  "texts xs = JArr (map JStr xs)"

definition tool_metadata :: "tool_registry \<Rightarrow> js_record list" where
  "tool_metadata r =
     map (\<lambda>t. [(''id'', JStr (tl_id t)), (''name'', JStr (tl_name t)), (''version'', JStr (tl_version t)),
       (''category'', JStr (category_str (tl_category t))), (''enabled'', JBool (tl_enabled t)),
       (''description'', JStr (tl_description t)), (''tags'', texts (tl_tags t))]) (js_values r)"

definition tool_definitions :: "tool_registry \<Rightarrow> jsval list" where
  "tool_definitions r =
     map (\<lambda>t. JObj [(''type'', JStr ''function''),
       (''function'', JObj [(''name'', JStr (tl_name t)), (''description'', JStr (tl_description t)),
          (''parameters'', if tl_inputSchema t = JUndefined then JObj [(''type'', JStr ''object''), (''properties'', JObj [])]
                           else tl_inputSchema t)])]) (tool_getAll r)"

section \<open>Executing\<close>

type_synonym tool_behaviour = "tool \<Rightarrow> jsval \<Rightarrow> string + jsval"

record tool_response =
  tp_success :: bool
  tp_data :: jsval
  tp_error :: "string option"
  tp_duration :: int

definition tool_answer :: "time_ms \<Rightarrow> time_ms \<Rightarrow> string + jsval \<Rightarrow> tool_response" where
  "tool_answer started ended out =
     (case out of
        Inr v \<Rightarrow> \<lparr>tp_success = True, tp_data = v, tp_error = None, tp_duration = ended - started\<rparr>
      | Inl e \<Rightarrow> \<lparr>tp_success = False, tp_data = JUndefined, tp_error = Some e, tp_duration = ended - started\<rparr>)"

text \<open>The tool that both executors look for, or the message of their exception.\<close>

definition usable_tool :: "string \<Rightarrow> tool_registry \<Rightarrow> string + tool" where
  "usable_tool n r =
     (case tool_get n r of
        None \<Rightarrow> Inl (''Tool '' @ sq n @ '' not found.'')
      | Some t \<Rightarrow> if \<not> tl_enabled t then Inl (''Tool '' @ sq n @ '' is disabled.'') else Inr t)"

record tool_request =
  tq_tool :: string
  tq_input :: jsval
  tq_requestId :: string

definition te_execute :: "tool_behaviour \<Rightarrow> time_ms \<Rightarrow> time_ms \<Rightarrow> tool_request \<Rightarrow> tool_registry \<Rightarrow> string + tool_response" where
  "te_execute run started ended q r =
     (case usable_tool (tq_tool q) r of
        Inl e \<Rightarrow> Inl e
      | Inr t \<Rightarrow> Inr (tool_answer started ended (run t (tq_input q))))"

text \<open>One request after the other; an exception ends the loop. Each request comes with its clock readings.\<close>

fun execute_many :: "(time_ms \<Rightarrow> time_ms \<Rightarrow> 'q \<Rightarrow> string + tool_response) \<Rightarrow> (time_ms \<times> time_ms \<times> 'q) list \<Rightarrow> string + tool_response list" where
  "execute_many exec [] = Inr []"
| "execute_many exec ((started, ended, q) # qs) =
     (case exec started ended q of
        Inl e \<Rightarrow> Inl e
      | Inr p \<Rightarrow> (case execute_many exec qs of Inl e \<Rightarrow> Inl e | Inr ps \<Rightarrow> Inr (p # ps)))"

definition te_executeMany :: "tool_behaviour \<Rightarrow> (time_ms \<times> time_ms \<times> tool_request) list \<Rightarrow> tool_registry \<Rightarrow> string + tool_response list" where
  "te_executeMany run qs r = execute_many (\<lambda>started ended q. te_execute run started ended q r) qs"

section \<open>The enhanced executor\<close>

text \<open>The context of a request; a text that is missing is empty, a timeout that is missing zero.\<close>

record tool_context =
  tx_workspaceId :: string
  tx_userId :: string
  tx_traceId :: string
  tx_sessionId :: string
  tx_metadata :: "js_record option"

record enhanced_request = tool_request +
  tq_context :: "tool_context option"
  tq_timeout :: int

text \<open>\<open>{...v}\<close>.\<close>

fun spread_fields :: "jsval \<Rightarrow> js_record" where
  "spread_fields (JObj fs) = fs"
| "spread_fields (JArr vs) = zip (map nat_digits [0..<length vs]) vs"
| "spread_fields (JStr s) = zip (map nat_digits [0..<length s]) (map (\<lambda>c. JStr [c]) s)"
| "spread_fields _ = []"

definition draft_context_of :: "time_ms \<Rightarrow> string \<Rightarrow> tool_context \<Rightarrow> int \<Rightarrow> mcp_context_draft" where
  "draft_context_of now request c timeout =
     (let d = xc_create\<lparr>xd_context := \<lparr>xc_requestId = request, xc_workspaceId = tx_workspaceId c, xc_userId = tx_userId c,
            xc_traceId = tx_traceId c, xc_sessionId = tx_sessionId c, xc_metadata = []\<rparr>\<rparr>;
          d1 = (case tx_metadata c of None \<Rightarrow> d | Some md \<Rightarrow> xc_with_metadata now md d)
      in if timeout \<noteq> 0 then xc_set_metadata now ''timeout'' (JNum timeout) d1 else d1)"

definition context_value :: "mcp_context \<Rightarrow> jsval" where
  "context_value c = JObj [(''requestId'', JStr (xc_requestId c)), (''workspaceId'', JStr (xc_workspaceId c)),
     (''userId'', JStr (xc_userId c)), (''traceId'', JStr (xc_traceId c)), (''sessionId'', JStr (xc_sessionId c)),
     (''metadata'', JObj (xc_metadata c))]"

definition security_value :: "mcp_context \<Rightarrow> jsval" where
  "security_value c = JObj [(''userId'', JStr (xc_userId c)), (''workspaceId'', JStr (xc_workspaceId c)),
     (''sessionId'', JStr (xc_sessionId c)), (''serverId'', JStr (xc_traceId c)), (''roles'', JArr []), (''permissions'', JArr [])]"

definition enhanceInputForMCPTool :: "time_ms \<Rightarrow> enhanced_request \<Rightarrow> jsval" where
  "enhanceInputForMCPTool now q =
     (case tq_context q of
        None \<Rightarrow> tq_input q
      | Some c \<Rightarrow>
          if tx_workspaceId c = [] \<or> tx_userId c = [] \<or> tx_traceId c = [] \<or> tx_sessionId c = [] then tq_input q
          else (case xc_build now (draft_context_of now (tq_requestId q) c (tq_timeout q)) of
                  Inl e \<Rightarrow> tq_input q
                | Inr x \<Rightarrow> JObj (js_spread (js_spread [] (spread_fields (tq_input q)))
                    [(''_security'', security_value x), (''__context'', context_value x)])))"

definition ee_execute :: "tool_behaviour \<Rightarrow> time_ms \<Rightarrow> time_ms \<Rightarrow> enhanced_request \<Rightarrow> tool_registry \<Rightarrow> string + tool_response" where
  "ee_execute run started ended q r =
     (case usable_tool (tq_tool q) r of
        Inl e \<Rightarrow> Inl e
      | Inr t \<Rightarrow> Inr (tool_answer started ended (run t
          (if tl_server t \<noteq> None then enhanceInputForMCPTool started q else tq_input q))))"

definition ee_executeMany :: "tool_behaviour \<Rightarrow> (time_ms \<times> time_ms \<times> enhanced_request) list \<Rightarrow> tool_registry \<Rightarrow> string + tool_response list" where
  "ee_executeMany run qs r = execute_many (\<lambda>started ended q. ee_execute run started ended q r) qs"

definition executeLegacy :: "tool_behaviour \<Rightarrow> time_ms \<Rightarrow> time_ms \<Rightarrow> tool_request \<Rightarrow> tool_registry \<Rightarrow> string + tool_response" where
  "executeLegacy run started ended q r =
     ee_execute run started ended (tool_request.extend q \<lparr>tq_context = None, tq_timeout = 0\<rparr>) r"

lemma executeLegacy_plain: "executeLegacy run started ended q r = te_execute run started ended q r"
  by (simp add: executeLegacy_def ee_execute_def te_execute_def enhanceInputForMCPTool_def tool_request.defs split: sum.split)

section \<open>Beside the executors\<close>

definition ts_execute :: "tool_behaviour \<Rightarrow> string \<Rightarrow> jsval \<Rightarrow> tool_registry \<Rightarrow> string + jsval" where
  "ts_execute run n v r =
     (case tool_get n r of None \<Rightarrow> Inl (''Tool '' @ n @ '' not found'') | Some t \<Rightarrow> run t v)"

text \<open>A tool without a method \<open>execute\<close> is a tool of another type; that check is left to \<open>callable\<close>.\<close>

definition validate_tool :: "bool \<Rightarrow> tool \<Rightarrow> string option" where
  "validate_tool callable t =
     (if tl_id t = [] then Some ''Tool id is required''
      else if tl_name t = [] then Some ''Tool name is required''
      else if tl_version t = [] then Some ''Tool version is required''
      else if \<not> callable then Some (tl_name t @ '' does not implement execute()'') else None)"

definition tool_permitted :: "string list \<Rightarrow> string list \<Rightarrow> bool" where
  "tool_permitted needed owned = list_all (\<lambda>p. List.member owned p) needed"

type_synonym rate_limiter = "(string, nat) js_map"

definition canExecute :: "string \<Rightarrow> int \<Rightarrow> rate_limiter \<Rightarrow> rate_limiter \<times> bool" where
  "canExecute tool limit m =
     (let n = (case js_get m tool of None \<Rightarrow> 0 | Some k \<Rightarrow> k) in
      if int n \<ge> limit then (m, False) else (js_set tool (Suc n) m, True))"

text \<open>\<open>ToolRetry\<close>: the outcomes of the calls in turn; \<open>None\<close> is the throw of \<open>undefined\<close>, without any call.\<close>

fun retry_loop :: "(nat \<Rightarrow> 'e + 'a) \<Rightarrow> nat \<Rightarrow> nat \<Rightarrow> 'e option \<Rightarrow> 'e option + 'a" where
  "retry_loop calls i 0 err = Inl err"
| "retry_loop calls i (Suc n) err =
     (case calls i of Inr v \<Rightarrow> Inr v | Inl e \<Rightarrow> retry_loop calls (Suc i) n (Some e))"

definition retry_execute :: "(nat \<Rightarrow> 'e + 'a) \<Rightarrow> int \<Rightarrow> 'e option + 'a" where
  "retry_execute calls retries = retry_loop calls 0 (nat retries) None"

end
