(* ===== verification/Tool_Agent.thy ===== *)
theory Tool_Agent
  imports Builtin_Shell Tools
begin

text \<open>
  The class \<open>ToolAgent\<close> (\<open>agents/builtin/tool-agent\<close>): a built-in agent in front of the tool registry and the
  enhanced executor. The clock readings of an execution and what its tool does are part of the call; for a batch
  that runs in parallel, so is the order in which its executions settle.
\<close>

section \<open>Requests and results\<close>

datatype batch_mode = ModeParallel | ModeSequential

record tool_execution =
  tn_toolName :: string
  tn_input :: jsval
  tn_timeout :: int

record tool_input =
  ti_operation :: "jsval option"
  ti_toolName :: jsval
  ti_input :: jsval
  ti_timeout :: int
  ti_category :: "tool_category option"
  ti_tags :: "string list"
  ti_enabled :: "bool option"
  ti_limit :: int
  ti_offset :: int
  ti_executions :: "tool_execution list option"
  ti_mode :: "batch_mode option"
  ti_failFast :: bool
  ti_maxConcurrency :: int
  ti_validateInput :: "bool option"
  ti_validateOutput :: bool

record batch_entry =
  bn_toolName :: string
  bn_input :: jsval
  bn_output :: jsval
  bn_success :: bool
  bn_error :: "string option"
  bn_duration :: int

datatype tool_value =
    ToolsDiscovered "tool list" nat "tool_category list" "string list"
  | ToolFound "tool option"
  | ToolsListed "tool list" nat int int
  | ToolExecuted string jsval jsval int time_ms
  | BatchDone batch_mode "batch_entry list" nat nat int time_ms
  | ToolValidated string jsval bool "bool option" "string list"

definition tool_operations :: "string list" where
  "tool_operations = [''discover'', ''find'', ''list'', ''execute'', ''execute_batch'', ''validate'']"

text \<open>Messages of the exceptions.\<close>

definition invalid_tool_operation :: "string \<Rightarrow> string \<Rightarrow> string" where
  "invalid_tool_operation op reason = ''Invalid tool operation '' @ sq op @ '': '' @ reason"

definition tool_not_found :: "string \<Rightarrow> string" where
  "tool_not_found n = ''Tool '' @ sq n @ '' not found in registry''"

definition tool_execution_failed :: "string \<Rightarrow> string \<Rightarrow> string" where
  "tool_execution_failed n reason = ''Tool execution failed for '' @ sq n @ '': '' @ reason"

definition tool_validation_failed :: "string \<Rightarrow> string list \<Rightarrow> string" where
  "tool_validation_failed n errors = ''Tool validation failed for '' @ sq n @ '': '' @ join_with '', '' errors"

section \<open>Parsing\<close>

definition tool_parse :: "tool_input option \<Rightarrow> string + string" where
  "tool_parse = shell_parse invalid_tool_operation tool_operations ti_operation
     (\<lambda>op i.
        [(op = ''find'' \<and> not_string (ti_toolName i), ''Tool name is required for find operation''),
         (op = ''execute'' \<and> not_string (ti_toolName i), ''Tool name is required for execute operation''),
         (op = ''execute'' \<and> ti_input i = JUndefined, ''Input is required for execute operation''),
         (op = ''execute_batch'' \<and> ti_executions i = None, ''Executions array is required for batch execute operation''),
         (op = ''execute_batch'' \<and> ti_mode i = None, ''Valid execution mode is required for batch execute operation''),
         (op = ''validate'' \<and> not_string (ti_toolName i), ''Tool name is required for validate operation''),
         (op = ''validate'' \<and> ti_input i = JUndefined, ''Input is required for validate operation'')])"

definition tool_op_of :: "tool_input option \<Rightarrow> jsval option" where
  "tool_op_of = shell_op_of ti_operation"

section \<open>State\<close>

record tool_usage =
  tu_executions :: nat
  tu_successes :: nat
  tu_failures :: nat
  tu_latencies :: "int list"

record tool_agent =
  tg_registry :: tool_registry
  tg_toolUsage :: "(string, tool_usage) js_map"

definition new_tool_agent :: "tool_registry \<Rightarrow> tool_agent" where
  "new_tool_agent r = \<lparr>tg_registry = r, tg_toolUsage = []\<rparr>"

definition tool_capabilities :: "agent_capability list" where
  "tool_capabilities =
     [\<lparr>cap_id = ''tool-discovery'', cap_name = ''Tool Discovery''\<rparr>, \<lparr>cap_id = ''tool-execution'', cap_name = ''Tool Execution''\<rparr>,
      \<lparr>cap_id = ''batch-execution'', cap_name = ''Batch Execution''\<rparr>]"

definition tool_agent_metadata :: agent where
  "tool_agent_metadata = \<lparr>ag_id = ''tool-agent'', ag_name = ''Tool Agent'', ag_version = ''1.0.0'', ag_type = ''service'',
     ag_capabilities = tool_capabilities\<rparr>"

definition usage_for :: "string \<Rightarrow> tool_agent \<Rightarrow> tool_usage" where
  "usage_for n g = (case js_get (tg_toolUsage g) n of Some u \<Rightarrow> u
     | None \<Rightarrow> \<lparr>tu_executions = 0, tu_successes = 0, tu_failures = 0, tu_latencies = []\<rparr>)"

definition recordToolUsage :: "string \<Rightarrow> bool \<Rightarrow> int \<Rightarrow> tool_agent \<Rightarrow> tool_agent" where
  "recordToolUsage n ok d g =
     (let u = usage_for n g in
      g\<lparr>tg_toolUsage := js_set n
          (u\<lparr>tu_executions := tu_executions u + 1, tu_latencies := push_latency d (tu_latencies u),
             tu_successes := tu_successes u + (if ok then 1 else 0), tu_failures := tu_failures u + (if ok then 0 else 1)\<rparr>)
          (tg_toolUsage g)\<rparr>)"

text \<open>
  The course of an execution: what its tool does, and the clock when it starts, when the executor answers, in the
  \<open>catch\<close>, and around it in a batch.
\<close>

record tool_course =
  tc_behaviour :: tool_behaviour
  tc_started :: time_ms
  tc_answered :: time_ms
  tc_caught :: time_ms
  tc_begun :: time_ms
  tc_ended :: time_ms

record tool_call =
  tk_started :: time_ms
  tk_finished :: time_ms
  tk_context :: call_context
  tk_course :: tool_course
  tk_courses :: "nat \<Rightarrow> tool_course"
  tk_order :: "nat list"

section \<open>Finding tools\<close>

definition by_category :: "tool_category option \<Rightarrow> tool list \<Rightarrow> tool list" where
  "by_category c ts = (case c of None \<Rightarrow> ts | Some x \<Rightarrow> filter (\<lambda>t. tl_category t = x) ts)"

definition by_enabled :: "bool option \<Rightarrow> tool list \<Rightarrow> tool list" where
  "by_enabled b ts = (case b of None \<Rightarrow> ts | Some x \<Rightarrow> filter (\<lambda>t. tl_enabled t = x) ts)"

definition opt_category :: "tool_category option \<Rightarrow> jsval" where
  "opt_category c = opt_text (map_option category_str c)"

definition opt_bool :: "bool option \<Rightarrow> jsval" where
  "opt_bool b = (case b of None \<Rightarrow> JUndefined | Some x \<Rightarrow> JBool x)"

definition discoverTools :: "tool_call \<Rightarrow> tool_input \<Rightarrow> tool_agent \<Rightarrow> tool_agent \<times> (string + tool_value op_result)" where
  "discoverTools k i g =
     (let ts = by_category (ti_category i) (tool_getAll (tg_registry g));
          ts1 = (if ti_tags i \<noteq> [] then filter (\<lambda>t. list_ex (\<lambda>x. List.member (tl_tags t) x) (ti_tags i)) ts else ts);
          ts2 = by_enabled (ti_enabled i) ts1
      in (g, completed_op (ToolsDiscovered ts2 (length ts2) (first_occurrences (map tl_category ts2))
               (first_occurrences (concat (map tl_tags ts2))))
             [(''filtersApplied'', JObj [(''category'', opt_category (ti_category i)), (''tags'', texts (ti_tags i)),
                 (''enabled'', opt_bool (ti_enabled i))]), (''timestamp'', JDate (tk_finished k))]))"

definition ta_findTool :: "tool_call \<Rightarrow> string \<Rightarrow> tool_agent \<Rightarrow> tool_agent \<times> (string + tool_value op_result)" where
  "ta_findTool k n g =
     (g, completed_op (ToolFound (tool_get n (tg_registry g))) [(''toolName'', JStr n), (''timestamp'', JDate (tk_finished k))])"

text \<open>\<open>xs.slice(a, b)\<close>; a negative index counts from the end.\<close>

definition slice_index :: "'a list \<Rightarrow> int \<Rightarrow> nat" where
  "slice_index xs i = nat (if i < 0 then max 0 (int (length xs) + i) else min i (int (length xs)))"

definition js_slice :: "'a list \<Rightarrow> int \<Rightarrow> int \<Rightarrow> 'a list" where
  "js_slice xs a b = take (slice_index xs b - slice_index xs a) (drop (slice_index xs a) xs)"

definition ta_listTools :: "tool_call \<Rightarrow> tool_input \<Rightarrow> tool_agent \<Rightarrow> tool_agent \<times> (string + tool_value op_result)" where
  "ta_listTools k i g =
     (let ts = by_enabled (ti_enabled i) (by_category (ti_category i) (tool_getAll (tg_registry g)));
          n = int (length ts); offset = ti_offset i; limit = (if ti_limit i = 0 then n else ti_limit i)
      in (g, completed_op (ToolsListed (js_slice ts offset (offset + limit)) (length ts) offset limit)
             [(''hasMore'', JBool (offset + limit < n)), (''timestamp'', JDate (tk_finished k))]))"

section \<open>Executing tools\<close>

definition enhanced_of :: "call_context \<Rightarrow> tool_execution \<Rightarrow> enhanced_request" where
  "enhanced_of c x =
     \<lparr>tq_tool = tn_toolName x, tq_input = tn_input x, tq_requestId = kx_requestId c,
      tq_context = Some \<lparr>tx_workspaceId = kx_workspaceId c, tx_userId = kx_userId c, tx_traceId = kx_traceId c,
        tx_sessionId = kx_sessionId c, tx_metadata = Some (kx_metadata c)\<rparr>,
      tq_timeout = tn_timeout x\<rparr>"

text \<open>A response without success is recorded, thrown, and recorded again by the \<open>catch\<close>.\<close>

definition executeTool ::
  "call_context \<Rightarrow> tool_course \<Rightarrow> tool_execution \<Rightarrow> tool_agent \<Rightarrow> tool_agent \<times> (string + tool_value op_result)" where
  "executeTool c x r g =
     (let n = tn_toolName r;
          caught = (\<lambda>e g. (recordToolUsage n False (tc_caught x - tc_started x) g, Inl (tool_execution_failed n e)))
      in case tool_get n (tg_registry g) of
           None \<Rightarrow> caught (tool_not_found n) g
         | Some t \<Rightarrow> (case ee_execute (tc_behaviour x) (tc_started x) (tc_answered x) (enhanced_of c r) (tg_registry g) of
               Inl e \<Rightarrow> caught e g
             | Inr p \<Rightarrow>
                 (let g1 = recordToolUsage n (tp_success p) (tc_answered x - tc_started x) g in
                  if \<not> tp_success p
                  then caught (tool_execution_failed n (str_or (case tp_error p of None \<Rightarrow> [] | Some e \<Rightarrow> e) ''Unknown execution error'')) g1
                  else (g1, completed_op (ToolExecuted n (tn_input r) (tp_data p) (tc_answered x - tc_started x) (tc_started x))
                         [(''toolId'', JStr (tl_id t)), (''toolVersion'', JStr (tl_version t)), (''timestamp'', JDate (tc_answered x))]))))"

text \<open>An execution in a batch.\<close>

definition entry_of :: "tool_course \<Rightarrow> tool_execution \<Rightarrow> string + tool_value op_result \<Rightarrow> batch_entry" where
  "entry_of x r res =
     (let d = tc_ended x - tc_begun x in
      case res of
        Inr v \<Rightarrow> \<lparr>bn_toolName = tn_toolName r, bn_input = tn_input r,
            bn_output = (case op_value v of ToolExecuted n inp out dur t \<Rightarrow> out | _ \<Rightarrow> JUndefined),
            bn_success = True, bn_error = None, bn_duration = d\<rparr>
      | Inl e \<Rightarrow> \<lparr>bn_toolName = tn_toolName r, bn_input = tn_input r, bn_output = JUndefined, bn_success = False,
            bn_error = Some e, bn_duration = d\<rparr>)"

definition batch_execution :: "tool_call \<Rightarrow> tool_execution list \<Rightarrow> nat \<Rightarrow> tool_agent \<Rightarrow> tool_agent \<times> batch_entry" where
  "batch_execution k rs j g =
     (case executeTool (tk_context k) (tk_courses k j) (rs ! j) g of (g1, res) \<Rightarrow> (g1, entry_of (tk_courses k j) (rs ! j) res))"

fun sequential_tools :: "tool_call \<Rightarrow> bool \<Rightarrow> tool_execution list \<Rightarrow> nat list \<Rightarrow> tool_agent \<Rightarrow> tool_agent \<times> batch_entry list" where
  "sequential_tools k ff rs [] g = (g, [])"
| "sequential_tools k ff rs (j # js) g =
     (case batch_execution k rs j g of (g1, b) \<Rightarrow>
        if ff \<and> \<not> bn_success b then (g1, [b])
        else (case sequential_tools k ff rs js g1 of (g2, bs) \<Rightarrow> (g2, b # bs)))"

text \<open>
  In parallel every execution has been started before the loop over slices of the promises begins, which only
  waits for them; with a negative limit the loop may run for ever, which is \<open>None\<close>.
\<close>

partial_function (option) slices_from :: "int \<Rightarrow> bool \<Rightarrow> batch_entry list \<Rightarrow> int \<Rightarrow> batch_entry list option" where
  "slices_from n ff bs i =
     (if i < int (length bs)
      then let part = js_slice bs i (i + n) in
           if ff \<and> list_ex (\<lambda>b. \<not> bn_success b) part then Some part
           else Option.bind (slices_from n ff bs (i + n)) (\<lambda>rest. Some (part @ rest))
      else Some [])"

definition await_entries :: "int \<Rightarrow> bool \<Rightarrow> batch_entry list \<Rightarrow> batch_entry list option" where
  "await_entries n ff bs = (if n \<noteq> 0 \<and> n < int (length bs) then slices_from n ff bs 0 else Some bs)"

text \<open>What the executions that settle while the agent waits do to it, in their order.\<close>

definition settle_tools :: "tool_call \<Rightarrow> tool_execution list \<Rightarrow> nat list \<Rightarrow> tool_agent \<Rightarrow> tool_agent" where
  "settle_tools k rs order g = fold (\<lambda>j g. fst (batch_execution k rs j g)) order g"

definition batch_value :: "tool_call \<Rightarrow> batch_mode \<Rightarrow> bool \<Rightarrow> int \<Rightarrow> batch_entry list \<Rightarrow> string + tool_value op_result" where
  "batch_value k mode ff conc bs =
     (let good = length (filter bn_success bs); bad = length (filter (\<lambda>b. \<not> bn_success b) bs) in
      Inr \<lparr>op_success = (bad = 0 \<or> (\<not> ff \<and> good > 0)), op_error = None,
           op_value = BatchDone mode bs good bad (tk_finished k - tk_started k) (tk_started k),
           op_metadata = [(''failFast'', JBool ff), (''maxConcurrency'', JNum conc), (''timestamp'', JDate (tk_finished k))]\<rparr>)"

text \<open>\<open>None\<close>: the batch does not return.\<close>

definition ta_executeBatch ::
  "tool_call \<Rightarrow> batch_mode \<Rightarrow> bool \<Rightarrow> int \<Rightarrow> tool_execution list \<Rightarrow> tool_agent \<Rightarrow> (tool_agent \<times> (string + tool_value op_result)) option" where
  "ta_executeBatch k mode ff conc rs g =
     (case mode of
        ModeSequential \<Rightarrow> (case sequential_tools k ff rs [0..<length rs] g of (g1, bs) \<Rightarrow> Some (g1, batch_value k mode ff conc bs))
      | ModeParallel \<Rightarrow>
          (case await_entries conc ff (map (\<lambda>j. snd (batch_execution k rs j g)) [0..<length rs]) of
             None \<Rightarrow> None
           | Some bs \<Rightarrow> Some (settle_tools k rs (tk_order k) g, batch_value k mode ff conc bs)))"

definition ta_validateInput :: "tool_call \<Rightarrow> string \<Rightarrow> tool_input \<Rightarrow> tool_agent \<Rightarrow> tool_agent \<times> (string + tool_value op_result)" where
  "ta_validateInput k n i g =
     (case tool_get n (tg_registry g) of
        None \<Rightarrow> (g, Inl (tool_validation_failed n [''Failed to validate tool '' @ sq n @ '': '' @ tool_not_found n]))
      | Some t \<Rightarrow>
          (let bad = ti_validateInput i \<noteq> Some False \<and> truthy (tl_inputSchema t) \<and> \<not> is_object_value (ti_input i);
               out = (if ti_validateOutput i \<and> truthy (tl_outputSchema t) then Some True else None)
           in (g, Inr \<lparr>op_success = (\<not> bad \<and> out \<noteq> Some False), op_error = None,
                 op_value = ToolValidated n (ti_input i) (\<not> bad) out (if bad then [''Input must be an object''] else []),
                 op_metadata = [(''hasInputSchema'', JBool (truthy (tl_inputSchema t))),
                   (''hasOutputSchema'', JBool (truthy (tl_outputSchema t))), (''timestamp'', JDate (tk_finished k))]\<rparr>)))"

section \<open>The agent\<close>

text \<open>The dispatch; the parser has made sure of the requests. \<open>None\<close>: the operation does not return.\<close>

definition tool_run :: "tool_call \<Rightarrow> string \<Rightarrow> tool_input option \<Rightarrow> tool_agent \<Rightarrow> (tool_agent \<times> (string + tool_value op_result)) option" where
  "tool_run k op input g =
     (case input of None \<Rightarrow> Some (g, Inl (invalid_tool_operation op ''Unsupported operation''))
      | Some i \<Rightarrow>
          if op = ''discover'' then Some (discoverTools k i g)
          else if op = ''find'' then Some (ta_findTool k (the_text (ti_toolName i)) g)
          else if op = ''list'' then Some (ta_listTools k i g)
          else if op = ''execute'' then Some (executeTool (tk_context k) (tk_course k)
                 \<lparr>tn_toolName = the_text (ti_toolName i), tn_input = ti_input i, tn_timeout = ti_timeout i\<rparr> g)
          else if op = ''execute_batch'' then ta_executeBatch k (the (ti_mode i)) (ti_failFast i) (ti_maxConcurrency i) (the (ti_executions i)) g
          else if op = ''validate'' then Some (ta_validateInput k (the_text (ti_toolName i)) i g)
          else Some (g, Inl (invalid_tool_operation op ''Unsupported operation'')))"

definition tool_execute ::
  "tool_call \<Rightarrow> tool_input option \<Rightarrow> agent_shell \<times> tool_agent \<Rightarrow> ((agent_shell \<times> tool_agent) \<times> tool_value agent_answer option) option" where
  "tool_execute k input st =
     shell_execute_partial ''tool-agent'' tool_op_of tool_parse (tool_run k) (tk_started k) (tk_finished k) input st"

definition tool_initialize :: "bool \<Rightarrow> bool \<Rightarrow> agent_shell \<Rightarrow> agent_shell \<times> (string + unit)" where
  "tool_initialize registry executor sh =
     shell_initialize ''tool'' (if \<not> registry then Some ''Tool registry is not available''
       else if \<not> executor then Some ''Tool executor is not available'' else None) sh"

definition tool_shutdown :: "agent_shell \<Rightarrow> agent_shell" where
  "tool_shutdown sh = shell_shutdown sh"

section \<open>Reports\<close>

definition enabled_tools :: "tool_agent \<Rightarrow> tool list" where
  "enabled_tools g = filter tl_enabled (tool_getAll (tg_registry g))"

definition tool_health_status :: "bool \<Rightarrow> agent_shell \<times> tool_agent \<Rightarrow> health_status" where
  "tool_health_status executor = (\<lambda>(sh, g).
     if ah_errors sh \<noteq> [] \<or> \<not> executor then Unhealthy
     else if ah_warnings sh \<noteq> [] \<or> length (enabled_tools g) = 0 then Degraded else Healthy)"

definition tool_getHealth :: "time_ms \<Rightarrow> bool \<Rightarrow> agent_shell \<times> tool_agent \<Rightarrow> shell_health" where
  "tool_getHealth now executor = (\<lambda>(sh, g).
     \<lparr>sl_status = tool_health_status executor (sh, g), sl_uptime = now - ah_startTime sh, sl_lastHeartbeat = now,
      sl_errors = ah_errors sh, sl_warnings = ah_warnings sh,
      sl_metrics = [(''totalTools'', real (length (tool_getAll (tg_registry g)))), (''enabledTools'', real (length (enabled_tools g))),
        (''totalExecutions'', real (total_count (ah_counts sh))), (''successRate'', success_rate sh)]\<rparr>)"

record tool_agent_health =
  tah_executorAvailable :: bool
  tah_registeredToolCount :: nat
  tah_enabledToolCount :: nat
  tah_status :: health_status
  tah_errors :: "string list"
  tah_warnings :: "string list"
  tah_lastActivity :: "time_ms option"
  tah_toolCategories :: "tool_category list"
  tah_toolTags :: "string list"

definition getToolAgentHealth :: "bool \<Rightarrow> agent_shell \<times> tool_agent \<Rightarrow> tool_agent_health" where
  "getToolAgentHealth executor = (\<lambda>(sh, g).
     (let ts = tool_getAll (tg_registry g) in
      \<lparr>tah_executorAvailable = executor, tah_registeredToolCount = length ts, tah_enabledToolCount = length (enabled_tools g),
       tah_status = tool_health_status executor (sh, g), tah_errors = ah_errors sh, tah_warnings = ah_warnings sh,
       tah_lastActivity = ah_lastActivity sh, tah_toolCategories = first_occurrences (map tl_category ts),
       tah_toolTags = first_occurrences (concat (map tl_tags ts))\<rparr>))"

record usage_report =
  ur_executions :: nat
  ur_successes :: nat
  ur_failures :: nat
  ur_averageLatency :: real

record tool_agent_metrics =
  tam_shell :: shell_metrics
  tam_toolUsage :: "(string, usage_report) js_map"
  tam_totalBatches :: nat
  tam_averageBatchTime :: real

definition tool_getMetrics :: "time_ms \<Rightarrow> agent_shell \<times> tool_agent \<Rightarrow> tool_agent_metrics" where
  "tool_getMetrics now = (\<lambda>(sh, g).
     (let m = shell_getMetrics now sh in
      \<lparr>tam_shell = m,
       tam_toolUsage = map (\<lambda>(n, u). (n, \<lparr>ur_executions = tu_executions u, ur_successes = tu_successes u,
          ur_failures = tu_failures u, ur_averageLatency = average_of (tu_latencies u)\<rparr>)) (tg_toolUsage g),
       tam_totalBatches = op_count (ah_counts sh) ''execute_batch'', tam_averageBatchTime = average_latency ''execute_batch'' m\<rparr>))"

section \<open>The contract\<close>

interpretation tool: builtin_agent tool_operations tool_op_of tool_parse
  by unfold_locales (simp add: tool_parse_def tool_op_of_def shell_parse_known)

end
