(* ===== verification/Plugin_Agent.thy ===== *)
theory Plugin_Agent
  imports Builtin_Shell Plugin_Loader
begin

text \<open>
  The class \<open>PluginAgent\<close> (\<open>agents/builtin/plugin-agent\<close>): a built-in agent in front of the plugin registry and
  loader. The file system and what a load meets are part of the call. A search of the file system is bounded by
  fuel; an operation that does not end within it is \<open>None\<close>.
\<close>

section \<open>Requests and results\<close>

text \<open>The search paths of a request are checked here, everything else in the options has its type.\<close>

record plugin_input =
  pn_operation :: "jsval option"
  pn_pluginId :: jsval
  pn_hasDiscoveryOptions :: bool
  pn_searchPaths :: "jsval list option"
  pn_discoveryOptions :: discovery_options
  pn_loadOptions :: load_options

datatype plugin_value =
    PluginsDiscovered "nat list" time_ms
  | PluginLoaded string nat time_ms
  | PluginUnloaded string bool time_ms
  | PluginReloaded string nat time_ms
  | PluginValidated string bool plugin_validation time_ms
  | PluginsListed "nat list" time_ms

definition plugin_operations :: "string list" where
  "plugin_operations = [''discover'', ''load'', ''unload'', ''reload'', ''validate'', ''list'']"

text \<open>The text of a message of the plugins; \<open>type_error\<close> is the language's.\<close>

fun plugin_text :: "string \<Rightarrow> plugin_message \<Rightarrow> string" where
  "plugin_text type_error (Msg s) = s"
| "plugin_text type_error (BadDependency k v) = ''Invalid dependency version for '' @ sq k @ '': '' @ property_key v"
| "plugin_text type_error (ValidationFailed es) = ''Plugin validation failed: '' @ join_with '', '' (map (plugin_text type_error) es)"
| "plugin_text type_error (DuplicateCapabilities i cs) =
     ''Plugin '' @ sq (property_key i) @ '' has duplicate capabilities: '' @ join_with '', '' (map property_key cs)"
| "plugin_text type_error (InvalidPluginText i es) =
     ''Invalid plugin '' @ sq (property_key i) @ '': '' @ join_with '', '' (map (plugin_text type_error) es)"
| "plugin_text type_error (NotFoundText i) = ''Plugin '' @ sq (property_key i) @ '' not found''"
| "plugin_text type_error (LoadFailedText i path m) =
     ''Failed to load plugin '' @ sq (property_key i) @ '' from '' @ sq path @ '': '' @ plugin_text type_error m"
| "plugin_text type_error (RegisterFailed i m) =
     ''Failed to register discovered plugin '' @ sq (property_key i) @ '': '' @ plugin_text type_error m"
| "plugin_text type_error NotReadable = type_error"

text \<open>Messages of the exceptions.\<close>

definition invalid_plugin_operation :: "string \<Rightarrow> string \<Rightarrow> string" where
  "invalid_plugin_operation op reason = ''Invalid plugin operation '' @ sq op @ '': '' @ reason"

definition plugin_discovery_failed :: "string list \<Rightarrow> string \<Rightarrow> string" where
  "plugin_discovery_failed paths reason = ''Plugin discovery failed for paths ['' @ join_with '', '' paths @ '']: '' @ reason"

definition plugin_load_failed :: "string \<Rightarrow> string \<Rightarrow> string" where
  "plugin_load_failed i reason = ''Plugin load failed for '' @ sq i @ '': '' @ reason"

definition plugin_reload_failed :: "string \<Rightarrow> string \<Rightarrow> string" where
  "plugin_reload_failed i reason = ''Plugin reload failed for '' @ sq i @ '': '' @ reason"

definition plugin_validation_failed :: "string \<Rightarrow> string list \<Rightarrow> string" where
  "plugin_validation_failed i errors = ''Plugin validation failed for '' @ sq i @ '': '' @ join_with '', '' errors"

definition invalid_discovery_options :: "string list \<Rightarrow> string" where
  "invalid_discovery_options missing = ''Invalid plugin discovery options - missing fields: '' @ join_with '', '' missing"

section \<open>Parsing and validation\<close>

definition plugin_parse :: "plugin_input option \<Rightarrow> string + string" where
  "plugin_parse = shell_parse invalid_plugin_operation plugin_operations pn_operation
     (\<lambda>op i.
        [(op = ''discover'' \<and> \<not> pn_hasDiscoveryOptions i, ''Discovery options are required for discover operation''),
         (op \<in> {''load'', ''unload'', ''reload'', ''validate''} \<and> not_string (pn_pluginId i),
            ''Plugin ID is required for plugin-specific operations'')])"

definition plugin_op_of :: "plugin_input option \<Rightarrow> jsval option" where
  "plugin_op_of = shell_op_of pn_operation"

fun is_string :: "jsval \<Rightarrow> bool" where
  "is_string (JStr s) = True"
| "is_string _ = False"

text \<open>\<open>None\<close> of the paths: they are no array.\<close>

definition validateDiscoveryOptions :: "jsval list option \<Rightarrow> string option" where
  "validateDiscoveryOptions paths =
     (case paths of
        None \<Rightarrow> Some (invalid_discovery_options [''searchPaths''])
      | Some ps \<Rightarrow>
          if ps = [] then Some (invalid_discovery_options [''searchPaths''])
          else if \<not> list_all is_string ps then Some (invalid_discovery_options [''searchPaths (must be strings)'']) else None)"

section \<open>State\<close>

record plugin_stats =
  us_usageCount :: nat
  us_lastUsed :: "time_ms option"
  us_averageLoadTime :: "real option"

record plugin_agent =
  pg_loader :: plugin_loader
  pg_totalPlugins :: nat
  pg_totalDiscoveries :: nat
  pg_totalLoads :: nat
  pg_totalUnloads :: nat
  pg_totalReloads :: nat
  pg_totalValidations :: nat
  pg_discoveryAttempts :: nat
  pg_totalPluginsDiscovered :: nat
  pg_pluginUsageStats :: "(string, plugin_stats) js_map"

definition new_plugin_agent :: "plugin_loader \<Rightarrow> plugin_agent" where
  "new_plugin_agent l = \<lparr>pg_loader = l, pg_totalPlugins = 0, pg_totalDiscoveries = 0, pg_totalLoads = 0, pg_totalUnloads = 0,
     pg_totalReloads = 0, pg_totalValidations = 0, pg_discoveryAttempts = 0, pg_totalPluginsDiscovered = 0, pg_pluginUsageStats = []\<rparr>"

definition plugin_agent_capabilities :: "agent_capability list" where
  "plugin_agent_capabilities =
     [\<lparr>cap_id = ''plugin-discovery'', cap_name = ''Plugin Discovery''\<rparr>,
      \<lparr>cap_id = ''plugin-lifecycle'', cap_name = ''Plugin Lifecycle Management''\<rparr>,
      \<lparr>cap_id = ''plugin-validation'', cap_name = ''Plugin Validation''\<rparr>,
      \<lparr>cap_id = ''plugin-management'', cap_name = ''Plugin Management''\<rparr>]"

definition plugin_agent_metadata :: agent where
  "plugin_agent_metadata = \<lparr>ag_id = ''plugin-agent'', ag_name = ''Plugin Agent'', ag_version = ''1.0.0'', ag_type = ''service'',
     ag_capabilities = plugin_agent_capabilities\<rparr>"

record plugin_call =
  pc_now :: time_ms
  pc_finished :: time_ms
  pc_fuel :: nat
  pc_files :: file_system
  pc_load :: load_env
  pc_typeError :: string

section \<open>Operations\<close>

text \<open>The text of an exception of the plugins, and the key that a text is.\<close>

definition thrown_text :: "plugin_call \<Rightarrow> plugin_error \<Rightarrow> string" where
  "thrown_text k e = plugin_text (pc_typeError k) (plugin_error_message e)"

definition pa_discoverPlugins ::
  "plugin_call \<Rightarrow> plugin_input \<Rightarrow> plugin_agent \<Rightarrow> (plugin_agent \<times> (string + plugin_value op_result)) option" where
  "pa_discoverPlugins k i g =
     (let g1 = g\<lparr>pg_discoveryAttempts := pg_discoveryAttempts g + 1\<rparr>;
          failed = (\<lambda>m. Inl (plugin_discovery_failed (map property_key (the (pn_searchPaths i))) m)) in
      case validateDiscoveryOptions (pn_searchPaths i) of
        Some m \<Rightarrow>
          (case pn_searchPaths i of
             None \<Rightarrow> Some (g1, Inl (pc_typeError k))
           | Some ps \<Rightarrow> Some (g1, failed m))
      | None \<Rightarrow>
          (let opts = (pn_discoveryOptions i)\<lparr>do_searchPaths := map the_text (the (pn_searchPaths i))\<rparr> in
           case discover_plugins (pc_fuel k) (ln_url (pc_load k)) (pc_files k) opts (pg_loader g) of
             None \<Rightarrow> None
           | Some (l, Inl e) \<Rightarrow> Some (g1\<lparr>pg_loader := l\<rparr>, failed (thrown_text k e))
           | Some (l, Inr found) \<Rightarrow>
               Some (g1\<lparr>pg_loader := l, pg_totalDiscoveries := pg_totalDiscoveries g + 1,
                        pg_totalPluginsDiscovered := pg_totalPluginsDiscovered g + length found\<rparr>,
                 completed_op (PluginsDiscovered found (pc_now k))
                   [(''discoveredCount'', JNum (int (length found))), (''searchPaths'', JArr (the (pn_searchPaths i))),
                    (''includePatterns'', case do_includePatterns opts of None \<Rightarrow> JUndefined | Some ps \<Rightarrow> JArr (map JStr ps)),
                    (''excludePatterns'', case do_excludePatterns opts of None \<Rightarrow> JUndefined | Some ps \<Rightarrow> JArr (map JStr ps)),
                    (''timestamp'', JDate (pc_now k))])))"

text \<open>The statistics of a load or reload; a load time of zero is no load time.\<close>

definition note_usage :: "time_ms \<Rightarrow> string \<Rightarrow> int option \<Rightarrow> plugin_agent \<Rightarrow> plugin_agent" where
  "note_usage now i took g =
     (let u = (case js_get (pg_pluginUsageStats g) i of Some u \<Rightarrow> u
                 | None \<Rightarrow> \<lparr>us_usageCount = 0, us_lastUsed = None, us_averageLoadTime = None\<rparr>);
          n = us_usageCount u + 1;
          avg = (case us_averageLoadTime u of None \<Rightarrow> 0 | Some x \<Rightarrow> x);
          u1 = u\<lparr>us_usageCount := n, us_lastUsed := Some now\<rparr>;
          u2 = (case took of None \<Rightarrow> u1 | Some t \<Rightarrow> if t = 0 then u1
                  else u1\<lparr>us_averageLoadTime := Some ((avg * (real n - 1) + real_of_int t) / real n)\<rparr>)
      in g\<lparr>pg_pluginUsageStats := js_set i u2 (pg_pluginUsageStats g)\<rparr>)"

definition loaded_metadata :: "plugin_call \<Rightarrow> string \<Rightarrow> plugin_descriptor \<Rightarrow> js_record" where
  "loaded_metadata k i p =
     [(''pluginId'', JStr i), (''pluginName'', pd_name p), (''pluginVersion'', pd_version p),
      (''loadTime'', case pd_loadTime p of None \<Rightarrow> JUndefined | Some t \<Rightarrow> JNum t), (''timestamp'', JDate (pc_now k))]"

definition pa_loadPlugin ::
  "plugin_call \<Rightarrow> string \<Rightarrow> load_options \<Rightarrow> plugin_agent \<Rightarrow> plugin_agent \<times> (string + plugin_value op_result)" where
  "pa_loadPlugin k i opts g =
     (case plugin_load (pc_load k) (pc_files k) opts (JStr i) (pg_loader g) of
        (l, Inl e) \<Rightarrow> (g\<lparr>pg_loader := l\<rparr>, Inl (plugin_load_failed i (thrown_text k e)))
      | (l, Inr a) \<Rightarrow>
          (let p = loaded_plugin l a in
           (note_usage (pc_now k) i (pd_loadTime p)
              (g\<lparr>pg_loader := l, pg_totalLoads := pg_totalLoads g + 1, pg_totalPlugins := pg_totalPlugins g + 1\<rparr>),
            completed_op (PluginLoaded i a (pc_now k)) (loaded_metadata k i p))))"

definition pa_unloadPlugin :: "plugin_call \<Rightarrow> string \<Rightarrow> plugin_agent \<Rightarrow> plugin_agent \<times> (string + plugin_value op_result)" where
  "pa_unloadPlugin k i g =
     (case plugin_unload (ln_start (pc_load k)) (ln_shutdown (pc_load k)) (JStr i) (pg_loader g) of (l, b) \<Rightarrow>
        (if b then g\<lparr>pg_loader := l, pg_totalUnloads := pg_totalUnloads g + 1, pg_totalPlugins := pg_totalPlugins g - 1\<rparr>
         else g\<lparr>pg_loader := l\<rparr>,
         completed_op (PluginUnloaded i b (pc_now k))
           [(''pluginId'', JStr i), (''unloaded'', JBool b), (''timestamp'', JDate (pc_now k))]))"

definition pa_reloadPlugin ::
  "plugin_call \<Rightarrow> string \<Rightarrow> load_options \<Rightarrow> plugin_agent \<Rightarrow> plugin_agent \<times> (string + plugin_value op_result)" where
  "pa_reloadPlugin k i opts g =
     (case plugin_reload (pc_load k) (pc_files k) opts (JStr i) (pg_loader g) of
        (l, Inl e) \<Rightarrow> (g\<lparr>pg_loader := l\<rparr>, Inl (plugin_reload_failed i (thrown_text k e)))
      | (l, Inr a) \<Rightarrow>
          (let p = loaded_plugin l a in
           (note_usage (pc_now k) i (pd_loadTime p) (g\<lparr>pg_loader := l, pg_totalReloads := pg_totalReloads g + 1\<rparr>),
            completed_op (PluginReloaded i a (pc_now k)) (loaded_metadata k i p))))"

definition pa_validatePlugin :: "plugin_call \<Rightarrow> string \<Rightarrow> plugin_agent \<Rightarrow> plugin_agent \<times> (string + plugin_value op_result)" where
  "pa_validatePlugin k i g =
     (let l = pg_loader g; url = ln_url (pc_load k); fail = (\<lambda>e. (g, Inl (plugin_validation_failed i [thrown_text k e]))) in
      case loader_validate url (JStr i) l of
        Inl e \<Rightarrow> fail e
      | Inr valid \<Rightarrow> (case plugin_revalidate url (JStr i) (pl_registry l) of
            Inl e \<Rightarrow> fail e
          | Inr v \<Rightarrow> (g\<lparr>pg_totalValidations := pg_totalValidations g + 1\<rparr>,
               completed_op (PluginValidated i valid v (pc_now k))
                 [(''pluginId'', JStr i), (''valid'', JBool valid), (''errorCount'', JNum (int (length (pv_errors v)))),
                  (''warningCount'', JNum (int (length (pv_warnings v)))), (''timestamp'', JDate (pc_now k))])))"

definition status_breakdown :: "plugin_descriptor list \<Rightarrow> (string, nat) js_map" where
  "status_breakdown ps =
     fold (\<lambda>p m. let s = plugin_status_str (pd_status p) in js_set s ((case js_get m s of None \<Rightarrow> 0 | Some n \<Rightarrow> n) + 1) m) ps []"

definition pa_listPlugins :: "plugin_call \<Rightarrow> plugin_agent \<Rightarrow> plugin_agent \<times> (string + plugin_value op_result)" where
  "pa_listPlugins k g =
     (let ps = plugin_list (pl_registry (pg_loader g)) in
      (g, completed_op (PluginsListed ps (pc_now k))
        [(''pluginCount'', JNum (int (length ps))),
         (''statusBreakdown'', JObj (map (\<lambda>(s, n). (s, JNum (int n))) (status_breakdown (map (loaded_plugin (pg_loader g)) ps)))),
         (''timestamp'', JDate (pc_now k))]))"

section \<open>The agent\<close>

definition plugin_run ::
  "plugin_call \<Rightarrow> string \<Rightarrow> plugin_input option \<Rightarrow> plugin_agent \<Rightarrow> (plugin_agent \<times> (string + plugin_value op_result)) option" where
  "plugin_run k op input g =
     (case input of None \<Rightarrow> Some (g, Inl (invalid_plugin_operation op ''Unsupported operation''))
      | Some i \<Rightarrow>
          (let n = the_text (pn_pluginId i) in
          if op = ''discover'' then pa_discoverPlugins k i g
          else if op = ''load'' then Some (pa_loadPlugin k n (pn_loadOptions i) g)
          else if op = ''unload'' then Some (pa_unloadPlugin k n g)
          else if op = ''reload'' then Some (pa_reloadPlugin k n (pn_loadOptions i) g)
          else if op = ''validate'' then Some (pa_validatePlugin k n g)
          else if op = ''list'' then Some (pa_listPlugins k g)
          else Some (g, Inl (invalid_plugin_operation op ''Unsupported operation''))))"

definition plugin_execute ::
  "plugin_call \<Rightarrow> plugin_input option \<Rightarrow> agent_shell \<times> plugin_agent
     \<Rightarrow> ((agent_shell \<times> plugin_agent) \<times> plugin_value agent_answer option) option" where
  "plugin_execute k input st =
     shell_execute_partial ''plugin-agent'' plugin_op_of plugin_parse (plugin_run k) (pc_now k) (pc_finished k) input st"

definition plugin_initialize :: "bool \<Rightarrow> bool \<Rightarrow> agent_shell \<Rightarrow> agent_shell \<times> (string + unit)" where
  "plugin_initialize registry loader sh =
     shell_initialize ''plugin'' (if \<not> registry then Some ''Plugin registry is not available''
       else if \<not> loader then Some ''Plugin loader is not available'' else None) sh"

definition plugin_shutdown :: "agent_shell \<Rightarrow> agent_shell" where
  "plugin_shutdown sh = shell_shutdown sh"

definition plugin_getHealth :: "time_ms \<Rightarrow> bool \<Rightarrow> agent_shell \<times> plugin_agent \<Rightarrow> shell_health" where
  "plugin_getHealth now available = (\<lambda>(sh, g).
     shell_getHealth now available [(''totalPlugins'', real (pg_totalPlugins g))] sh)"

section \<open>Reports\<close>

record plugin_agent_health =
  pah_status :: health_status
  pah_totalPlugins :: nat
  pah_loadedPlugins :: nat
  pah_activePlugins :: nat
  pah_failedPlugins :: nat
  pah_errors :: "string list"
  pah_warnings :: "string list"
  pah_lastActivity :: "time_ms option"
  pah_discoverySuccessRate :: real

definition getPluginAgentHealth :: "bool \<Rightarrow> agent_shell \<times> plugin_agent \<Rightarrow> plugin_agent_health" where
  "getPluginAgentHealth available = (\<lambda>(sh, g).
     (let ps = map (loaded_plugin (pg_loader g)) (plugin_list (pl_registry (pg_loader g)));
          with = (\<lambda>ss. length (filter (\<lambda>p. pd_status p \<in> set ss) ps)) in
      \<lparr>pah_status = shell_health_status available sh, pah_totalPlugins = length ps,
       pah_loadedPlugins = with [PlLoaded, PlActive], pah_activePlugins = with [PlActive], pah_failedPlugins = with [PlFailed],
       pah_errors = ah_errors sh, pah_warnings = ah_warnings sh, pah_lastActivity = ah_lastActivity sh,
       pah_discoverySuccessRate =
         (if pg_discoveryAttempts g > 0 then real (pg_totalDiscoveries g) / real (pg_discoveryAttempts g) else 0)\<rparr>))"

record plugin_agent_metrics =
  pam_shell :: shell_metrics
  pam_loadedPlugins :: nat
  pam_failedPlugins :: nat
  pam_averageLoadTime :: real
  pam_successRates :: "(string, real) js_map"
  pam_averagePluginsPerDiscovery :: real

definition plugin_getMetrics :: "time_ms \<Rightarrow> agent_shell \<times> plugin_agent \<Rightarrow> plugin_agent_metrics" where
  "plugin_getMetrics now = (\<lambda>(sh, g).
     (let times = filter (\<lambda>t. t > 0) (map (\<lambda>u. case us_averageLoadTime u of None \<Rightarrow> 0 | Some t \<Rightarrow> t) (js_values (pg_pluginUsageStats g))) in
      \<lparr>pam_shell = shell_getMetrics now sh, pam_loadedPlugins = op_count (ah_successes sh) ''load'',
       pam_failedPlugins = op_count (ah_failures sh) ''load'',
       pam_averageLoadTime = (if times \<noteq> [] then sum_list times / real (length times) else 0),
       pam_successRates = map (\<lambda>op. (op, op_rate op sh)) [''discover'', ''load'', ''unload'', ''reload'', ''validate''],
       pam_averagePluginsPerDiscovery =
         (if pg_totalDiscoveries g > 0 then real (pg_totalPluginsDiscovered g) / real (pg_totalDiscoveries g) else 0)\<rparr>))"

section \<open>The contract\<close>

interpretation plugin: builtin_agent plugin_operations plugin_op_of plugin_parse
  by unfold_locales (simp add: plugin_parse_def plugin_op_of_def shell_parse_known)

end
