(* ===== verification/Orchestrator.thy ===== *)
theory Orchestrator
  imports Scheduler Lifecycle Execution_Runtime Workflow_Engine Communication_Manager
begin

text \<open>
  \<open>AgentOrchestrator\<close> (\<open>agents/orchestrator/agent-orchestrator.ts\<close>) over the registry, the lifecycle manager, the
  scheduler, the workflow engine, the runtime and the communication manager, whose states it holds.

  An execution is several steps with anything in between. \<open>orch_submit\<close> is the part of \<open>execute\<close>, \<open>executeWorkflow\<close>
  and \<open>executePlan\<close> up to the first \<open>await\<close>. For an agent, \<open>orch_prepare\<close> validates and initializes it and calls the
  runtime, whose two steps \<open>orch_launch\<close> and \<open>orch_land\<close> take; \<open>orch_workflow\<close> is the rest of a workflow, which
  waits for nothing; \<open>orch_schedule\<close> schedules the tasks of a plan and \<open>orch_poll\<close> is one second of its waiting.
  \<open>orc_calls\<close> holds the suspended calls. What the memory and the agents answer is given by \<open>orch_env\<close>.
\<close>

section \<open>Data\<close>

datatype orch_state = OrchInitializing | OrchRunning | OrchPaused | OrchStopping | OrchStopped | OrchError

datatype execution_type = SingleAgent | MultipleAgents | WorkflowType | PlanType

datatype orch_status = OxPending | OxRunning | OxCompleted | OxFailed | OxCancelled | OxPaused

fun orch_state_str :: "orch_state \<Rightarrow> string" where
  "orch_state_str OrchInitializing = ''initializing''"
| "orch_state_str OrchRunning = ''running''"
| "orch_state_str OrchPaused = ''paused''"
| "orch_state_str OrchStopping = ''stopping''"
| "orch_state_str OrchStopped = ''stopped''"
| "orch_state_str OrchError = ''error''"

fun execution_type_str :: "execution_type \<Rightarrow> string" where
  "execution_type_str SingleAgent = ''single_agent''"
| "execution_type_str MultipleAgents = ''multiple_agents''"
| "execution_type_str WorkflowType = ''workflow''"
| "execution_type_str PlanType = ''plan''"

fun orch_status_str :: "orch_status \<Rightarrow> string" where
  "orch_status_str OxPending = ''pending''"
| "orch_status_str OxRunning = ''running''"
| "orch_status_str OxCompleted = ''completed''"
| "orch_status_str OxFailed = ''failed''"
| "orch_status_str OxCancelled = ''cancelled''"
| "orch_status_str OxPaused = ''paused''"

text \<open>\<open>ox_aborted\<close>: is the cancellation token of the context aborted already?\<close>

record orch_context =
  ox_requestId :: string
  ox_traceId :: string
  ox_workspaceId :: string
  ox_conversationId :: "string option"
  ox_executionId :: string
  ox_userId :: string
  ox_metadata :: js_record
  ox_aborted :: bool

record agent_run_request =
  ar_agentId :: string
  ar_input :: jsval
  ar_context :: "orch_context option"
  ar_timeout :: "int option"

record workflow_run_request =
  wr_workflowId :: string
  wr_input :: jsval
  wr_context :: "orch_context option"
  wr_variables :: "js_record option"

text \<open>The tasks of a plan are references into the store of the scheduler, which shares the task objects.\<close>

record plan_run_request =
  pr_planId :: "string option"
  pr_plan :: "(string \<times> nat list) option"
  pr_context :: "orch_context option"

datatype orch_request = AgentRun agent_run_request | WorkflowRun workflow_run_request | PlanRun plan_run_request

datatype orch_result = AgentResult execution_result | WorkflowResult run | PlanResult string "nat list"

record orch_execution =
  oe_executionId :: string
  oe_type :: execution_type
  oe_status :: orch_status
  oe_context :: orch_context
  oe_request :: orch_request
  oe_startedAt :: time_ms
  oe_completedAt :: "time_ms option"
  oe_duration :: "int option"
  oe_result :: "orch_result option"
  oe_error :: "string option"
  oe_agentsInvolved :: "string list"
  oe_stepCount :: nat

datatype orch_error =
    OrchestratorFailed string string
  | OrchestratorNotReady string "string option"
  | OrchExecutionNotFound string
  | InvalidExecutionRequest string "string list"
  | AgentNotAvailable string string
  | ComponentUnavailable string string
  | RuntimeThrew agent_error
  | EngineThrew wf_error
  | TextThrown string

fun orch_message :: "orch_error \<Rightarrow> string" where
  "orch_message (OrchestratorFailed op m) = (if m = [] then ''Orchestrator operation '' @ sq op @ '' failed'' else m)"
| "orch_message (OrchestratorNotReady s m) =
     (case m of Some t \<Rightarrow> t | None \<Rightarrow> ''Orchestrator not ready for operation (current state: '' @ s @ '')'')"
| "orch_message (OrchExecutionNotFound i) = ''Orchestrator execution '' @ sq i @ '' not found''"
| "orch_message (InvalidExecutionRequest ty es) = ''Invalid '' @ ty @ '' execution request: '' @ join_with '', '' es"
| "orch_message (AgentNotAvailable a r) = ''Agent '' @ sq a @ '' not available: '' @ r"
| "orch_message (ComponentUnavailable c r) = ''Component '' @ sq c @ '' unavailable: '' @ r"
| "orch_message (RuntimeThrew e) = err_message e"
| "orch_message (EngineThrew e) = wf_message e"
| "orch_message (TextThrown m) = m"

section \<open>State\<close>

text \<open>A suspended call: not begun with the component that does the work, with the runtime under an id of its own, or
  polling, with the number of seconds left and the time of the next timer.\<close>

datatype orch_call = Submitted | AtRuntime string | Polling nat time_ms

record orchestrator =
  orc_state :: orch_state
  orc_executions :: "(string, orch_execution) js_map"
  orc_startTime :: time_ms
  orc_errors :: "string list"
  orc_warnings :: "string list"
  orc_totalExecutions :: nat
  orc_successfulExecutions :: nat
  orc_failedExecutions :: nat
  orc_totalExecutionTime :: int
  orc_lifecycle :: lifecycle_map
  orc_scheduler :: sched
  orc_engine :: workflow_engine
  orc_workflows :: workflow_registry
  orc_runtime :: agent_runtime
  orc_comm :: comm
  orc_calls :: "(string, orch_call) js_map"

definition new_orchestrator :: "time_ms \<Rightarrow> sched \<Rightarrow> workflow_registry \<Rightarrow> agent_runtime \<Rightarrow> orchestrator" where
  "new_orchestrator now s r t = \<lparr>orc_state = OrchStopped, orc_executions = [], orc_startTime = now, orc_errors = [], orc_warnings = [],
     orc_totalExecutions = 0, orc_successfulExecutions = 0, orc_failedExecutions = 0, orc_totalExecutionTime = 0,
     orc_lifecycle = [], orc_scheduler = s, orc_engine = new_engine, orc_workflows = r, orc_runtime = t, orc_comm = new_comm now,
     orc_calls = []\<rparr>"

text \<open>
  What a step meets: the clock, the health of the agent (or what \<open>getHealth\<close> throws), whether its \<open>initialize\<close>
  throws, the answers of the memory, and the value that stands for a result in a message.
\<close>

record orch_env =
  ov_now :: time_ms
  ov_health :: "string + agent_health"
  ov_initialize :: outcome
  ov_load :: "string + jsval"
  ov_save :: outcome
  ov_value :: "orch_result \<Rightarrow> jsval"

definition put_execution :: "orch_execution \<Rightarrow> orchestrator \<Rightarrow> orchestrator" where
  "put_execution e o1 = o1\<lparr>orc_executions := js_set (oe_executionId e) e (orc_executions o1)\<rparr>"

definition put_call :: "string \<Rightarrow> orch_call \<Rightarrow> orchestrator \<Rightarrow> orchestrator" where
  "put_call i c o1 = o1\<lparr>orc_calls := js_set i c (orc_calls o1)\<rparr>"

definition end_call :: "string \<Rightarrow> orchestrator \<Rightarrow> orchestrator" where
  "end_call i o1 = o1\<lparr>orc_calls := js_delete i (orc_calls o1)\<rparr>"

definition orch_warn :: "string \<Rightarrow> orchestrator \<Rightarrow> orchestrator" where
  "orch_warn m o1 = o1\<lparr>orc_warnings := orc_warnings o1 @ [m]\<rparr>"

definition orch_blame :: "string \<Rightarrow> orchestrator \<Rightarrow> orchestrator" where
  "orch_blame m o1 = o1\<lparr>orc_errors := orc_errors o1 @ [m]\<rparr>"

text \<open>The time a finished execution took.\<close>

definition stamp_end :: "time_ms \<Rightarrow> orch_execution \<Rightarrow> orch_execution" where
  "stamp_end now e = e\<lparr>oe_completedAt := Some now, oe_duration := Some (now - oe_startedAt e)\<rparr>"

section \<open>Start\<close>

definition orch_components :: "string list" where
  "orch_components = [''agentRegistry'', ''lifecycleManager'', ''scheduler'', ''planner'', ''workflowEngine'', ''agentRuntime'',
     ''communicationManager'', ''agentMemory'']"

definition validateComponents :: "(string \<Rightarrow> bool) \<Rightarrow> orch_error option" where
  "validateComponents provided =
     (case List.find (\<lambda>c. \<not> provided c) orch_components of
        None \<Rightarrow> None | Some c \<Rightarrow> Some (ComponentUnavailable c ''Component not provided''))"

definition orch_start :: "(string \<Rightarrow> bool) \<Rightarrow> orchestrator \<Rightarrow> orchestrator \<times> (orch_error + unit)" where
  "orch_start provided o1 =
     (if orc_state o1 = OrchRunning then (o1, Inr ())
      else case validateComponents provided of
        None \<Rightarrow> (o1\<lparr>orc_state := OrchRunning\<rparr>, Inr ())
      | Some e \<Rightarrow>
          (let m = ''Failed to start orchestrator: '' @ orch_message e
           in (orch_blame m (o1\<lparr>orc_state := OrchError\<rparr>), Inl (OrchestratorFailed ''start'' m))))"

section \<open>Submitting\<close>

definition ensureRunning :: "orchestrator \<Rightarrow> orch_error option" where
  "ensureRunning o1 = (if orc_state o1 \<noteq> OrchRunning then Some (OrchestratorNotReady (orch_state_str (orc_state o1)) None) else None)"

definition validateAgentExecutionRequest :: "agent_run_request \<Rightarrow> string list" where
  "validateAgentExecutionRequest rq =
     (if ar_agentId rq = [] then [''Agent ID is required''] else [])
     @ (if ar_context rq = None then [''Execution context is required''] else [])
     @ (case ar_context rq of Some c \<Rightarrow> if ox_requestId c = [] then [''Request ID is required in context''] else [] | None \<Rightarrow> [])"

definition validateWorkflowExecutionRequest :: "workflow_run_request \<Rightarrow> string list" where
  "validateWorkflowExecutionRequest rq =
     (if wr_workflowId rq = [] then [''Workflow ID is required''] else [])
     @ (if wr_context rq = None then [''Execution context is required''] else [])"

definition given_id :: "string option \<Rightarrow> bool" where
  "given_id x = (x \<noteq> None \<and> x \<noteq> Some [])"

definition validatePlanExecutionRequest :: "plan_run_request \<Rightarrow> string list" where
  "validatePlanExecutionRequest rq =
     (if \<not> given_id (pr_planId rq) \<and> pr_plan rq = None then [''Either plan ID or plan object is required''] else [])
     @ (if pr_context rq = None then [''Execution context is required''] else [])"

fun validate_request :: "orch_request \<Rightarrow> string list" where
  "validate_request (AgentRun rq) = validateAgentExecutionRequest rq"
| "validate_request (WorkflowRun rq) = validateWorkflowExecutionRequest rq"
| "validate_request (PlanRun rq) = validatePlanExecutionRequest rq"

fun request_type :: "orch_request \<Rightarrow> execution_type" where
  "request_type (AgentRun rq) = SingleAgent"
| "request_type (WorkflowRun rq) = WorkflowType"
| "request_type (PlanRun rq) = PlanType"

fun request_name :: "orch_request \<Rightarrow> string" where
  "request_name (AgentRun rq) = ''agent''"
| "request_name (WorkflowRun rq) = ''workflow''"
| "request_name (PlanRun rq) = ''plan''"

fun extractContext :: "orch_request \<Rightarrow> orch_context option" where
  "extractContext (AgentRun rq) = ar_context rq"
| "extractContext (WorkflowRun rq) = wr_context rq"
| "extractContext (PlanRun rq) = pr_context rq"

text \<open>The context is there: the request has been validated.\<close>

definition createExecution :: "time_ms \<Rightarrow> string \<Rightarrow> orch_request \<Rightarrow> orch_execution" where
  "createExecution now i rq = \<lparr>oe_executionId = i, oe_type = request_type rq, oe_status = OxPending,
     oe_context = the (extractContext rq), oe_request = rq, oe_startedAt = now, oe_completedAt = None, oe_duration = None,
     oe_result = None, oe_error = None, oe_agentsInvolved = [], oe_stepCount = 0\<rparr>"

definition orch_submit :: "time_ms \<Rightarrow> string \<Rightarrow> orch_request \<Rightarrow> orchestrator \<Rightarrow> orchestrator \<times> (orch_error + unit)" where
  "orch_submit now i rq o1 =
     (case ensureRunning o1 of
        Some e \<Rightarrow> (o1, Inl e)
      | None \<Rightarrow>
          if validate_request rq \<noteq> [] then (o1, Inl (InvalidExecutionRequest (request_name rq) (validate_request rq)))
          else (put_call i Submitted (put_execution ((createExecution now i rq)\<lparr>oe_status := OxRunning\<rparr>) o1), Inr ()))"

section \<open>How an execution ends\<close>

definition updateMetrics :: "orch_execution \<Rightarrow> bool \<Rightarrow> orchestrator \<Rightarrow> orchestrator" where
  "updateMetrics e success o1 =
     o1\<lparr>orc_totalExecutions := orc_totalExecutions o1 + 1,
        orc_successfulExecutions := (if success then orc_successfulExecutions o1 + 1 else orc_successfulExecutions o1),
        orc_failedExecutions := (if success then orc_failedExecutions o1 else orc_failedExecutions o1 + 1),
        orc_totalExecutionTime := orc_totalExecutionTime o1 + (case oe_duration e of None \<Rightarrow> 0 | Some d \<Rightarrow> d)\<rparr>"

text \<open>The \<open>catch\<close> clauses, which throw the error on.\<close>

definition orch_fail :: "time_ms \<Rightarrow> orch_execution \<Rightarrow> orch_error \<Rightarrow> orchestrator \<Rightarrow> orchestrator \<times> (orch_error + orch_execution)" where
  "orch_fail now e err o1 =
     (let e1 = stamp_end now (e\<lparr>oe_status := OxFailed, oe_error := Some (orch_message err)\<rparr>)
      in (end_call (oe_executionId e) (updateMetrics e1 False (put_execution e1 o1)), Inl err))"

definition persistRuntimeState :: "orch_env \<Rightarrow> orchestrator \<Rightarrow> orchestrator" where
  "persistRuntimeState env o1 =
     (case ov_save env of None \<Rightarrow> o1 | Some m \<Rightarrow> orch_warn (''Failed to persist runtime state: '' @ m) o1)"

definition completion_message :: "orch_env \<Rightarrow> string \<Rightarrow> orch_execution \<Rightarrow> orch_result \<Rightarrow> agent_message" where
  "completion_message env mid e r = \<lparr>messageId = mid, senderAgentId = ''orchestrator'', receiverAgentId = None,
     conversationId = None, msg_workspaceId = ox_workspaceId (oe_context e), msg_requestId = ox_requestId (oe_context e),
     msg_traceId = ox_traceId (oe_context e), timestamp = ov_now env, msg_priority = Normal, msg_type = MsgNotification,
     msg_status = MsgSent,
     payload = JObj [(''event'', JStr ''execution_completed''), (''executionId'', JStr (oe_executionId e)),
       (''type'', JStr (execution_type_str (oe_type e))), (''status'', JStr (orch_status_str (oe_status e))),
       (''result'', ov_value env r)],
     msg_metadata = [(''source'', JStr ''orchestrator''), (''eventType'', JStr ''execution_completion'')]\<rparr>"

definition publishCompletionEvent :: "orch_env \<Rightarrow> string \<Rightarrow> orch_execution \<Rightarrow> orch_result \<Rightarrow> orchestrator \<Rightarrow> orchestrator" where
  "publishCompletionEvent env mid e r o1 =
     (case bus_broadcast (ov_now env) (completion_message env mid e r) (cm_bus (orc_comm o1)) of
        (b, Inr n) \<Rightarrow> o1\<lparr>orc_comm := (orc_comm o1)\<lparr>cm_bus := b\<rparr>\<rparr>
      | (b, Inl err) \<Rightarrow> orch_warn (''Failed to publish completion event: '' @ err_message err) (o1\<lparr>orc_comm := (orc_comm o1)\<lparr>cm_bus := b\<rparr>\<rparr>))"

text \<open>The execution is looked up in the map: the calls hold the object that is stored there.\<close>

definition orch_complete ::
  "orch_env \<Rightarrow> string \<Rightarrow> orch_execution \<Rightarrow> orch_result \<Rightarrow> orchestrator \<Rightarrow> orchestrator \<times> (orch_error + orch_execution)" where
  "orch_complete env mid e r o1 =
     (let o2 = publishCompletionEvent env mid e r (persistRuntimeState env (put_execution e o1));
          e1 = stamp_end (ov_now env) (e\<lparr>oe_status := OxCompleted, oe_result := Some r\<rparr>)
      in (end_call (oe_executionId e) (updateMetrics e1 True (put_execution e1 o2)), Inr e1))"

section \<open>An agent\<close>

definition loadMemoryContext :: "orch_env \<Rightarrow> orchestrator \<Rightarrow> orchestrator \<times> jsval" where
  "loadMemoryContext env o1 =
     (case ov_load env of Inr v \<Rightarrow> (o1, v) | Inl m \<Rightarrow> (orch_warn (''Failed to load memory context: '' @ m) o1, JNull))"

definition validateAndInitializeAgent :: "orch_env \<Rightarrow> string \<Rightarrow> orchestrator \<Rightarrow> orchestrator \<times> (orch_error + unit)" where
  "validateAndInitializeAgent env a o1 =
     (let fnd = find_agent (rt_agents (orc_runtime o1)) in
      case fnd a of
        None \<Rightarrow> (o1, Inl (AgentNotAvailable a ''Agent not found in registry''))
      | Some ag \<Rightarrow>
          (case ov_health env of
             Inl m \<Rightarrow> (o1, Inl (TextThrown m))
           | Inr h \<Rightarrow>
               if h_status h = Unhealthy then (o1, Inl (AgentNotAvailable a (''Agent unhealthy: '' @ join_with '', '' (h_errors h))))
               else case initialize fnd (ov_initialize env) a (orc_lifecycle o1) of
                 (l, Inr _) \<Rightarrow> (o1\<lparr>orc_lifecycle := l\<rparr>, Inr ())
               | (l, Inl e) \<Rightarrow> (o1\<lparr>orc_lifecycle := l\<rparr>, Inl (AgentNotAvailable a (''Failed to initialize: '' @ err_message e)))))"

definition runtime_request :: "agent_run_request \<Rightarrow> orch_context \<Rightarrow> jsval \<Rightarrow> execution_request" where
  "runtime_request rq c mem = \<lparr>xr_agentId = ar_agentId rq, xr_input = ar_input rq,
     xr_context = \<lparr>xc_requestId = ox_requestId c, xc_workspaceId = ox_workspaceId c, xc_userId = ox_userId c,
       xc_metadata = js_spread (ox_metadata c) [(''memoryContext'', mem)], xc_timeout = ar_timeout rq, xc_aborted = ox_aborted c\<rparr>,
     xr_timeout = ar_timeout rq\<rparr>"

text \<open>\<open>rid\<close> is the id that the runtime gives its own execution.\<close>

definition orch_prepare ::
  "orch_env \<Rightarrow> string \<Rightarrow> string \<Rightarrow> orchestrator \<Rightarrow> orchestrator \<times> (orch_error + orch_execution) option" where
  "orch_prepare env i rid o1 =
     (case (js_get (orc_calls o1) i, js_get (orc_executions o1) i) of
        (Some Submitted, Some e) \<Rightarrow>
          (case oe_request e of
             AgentRun rq \<Rightarrow>
               (case validateAndInitializeAgent env (ar_agentId rq) o1 of
                  (o2, Inl err) \<Rightarrow> map_prod id Some (orch_fail (ov_now env) e err o2)
                | (o2, Inr _) \<Rightarrow>
                    (case loadMemoryContext env o2 of (o3, mem) \<Rightarrow>
                       (put_call i (AtRuntime rid)
                          (o3\<lparr>orc_runtime := rt_start (ov_now env) rid (runtime_request rq (oe_context e) mem) (orc_runtime o3)\<rparr>),
                        None)))
           | _ \<Rightarrow> (o1, None))
      | _ \<Rightarrow> (o1, None))"

text \<open>What comes back from the runtime.\<close>

definition orch_settle ::
  "orch_env \<Rightarrow> string \<Rightarrow> string \<Rightarrow> (agent_error + execution_result) option \<Rightarrow> orchestrator
    \<Rightarrow> orchestrator \<times> (orch_error + orch_execution) option" where
  "orch_settle env mid i res o1 =
     (case (res, js_get (orc_executions o1) i) of
        (Some (Inr r), Some e) \<Rightarrow> map_prod id Some (orch_complete env mid e (AgentResult r) o1)
      | (Some (Inl err), Some e) \<Rightarrow> map_prod id Some (orch_fail (ov_now env) e (RuntimeThrew err) o1)
      | _ \<Rightarrow> (o1, None))"

definition orch_launch ::
  "orch_env \<Rightarrow> string \<Rightarrow> string \<Rightarrow> string \<Rightarrow> agent_health \<Rightarrow> orchestrator \<Rightarrow> orchestrator \<times> (orch_error + orch_execution) option" where
  "orch_launch env mid i eid h o1 =
     (case js_get (orc_calls o1) i of
        Some (AtRuntime rid) \<Rightarrow>
          (case rt_launch (ov_now env) rid eid h (orc_runtime o1) of
             (t, res) \<Rightarrow> orch_settle env mid i res (o1\<lparr>orc_runtime := t\<rparr>))
      | _ \<Rightarrow> (o1, None))"

definition orch_land ::
  "orch_env \<Rightarrow> string \<Rightarrow> string \<Rightarrow> orchestrator \<Rightarrow> orchestrator \<times> (orch_error + orch_execution) option" where
  "orch_land env mid i o1 =
     (case js_get (orc_calls o1) i of
        Some (AtRuntime rid) \<Rightarrow>
          (case rt_finish (ov_now env) rid (orc_runtime o1) of
             (t, res) \<Rightarrow> orch_settle env mid i res (o1\<lparr>orc_runtime := t\<rparr>))
      | _ \<Rightarrow> (o1, None))"

section \<open>A workflow\<close>

definition extractInvolvedAgents :: "run \<Rightarrow> string list" where
  "extractInvolvedAgents r = []"

text \<open>\<open>wid\<close> is the id that the engine gives its own execution.\<close>

definition orch_workflow ::
  "orch_env \<Rightarrow> engine_env \<Rightarrow> string \<Rightarrow> string \<Rightarrow> string \<Rightarrow> orchestrator \<Rightarrow> orchestrator \<times> (orch_error + orch_execution) option" where
  "orch_workflow env ee mid i wid o1 =
     (case (js_get (orc_calls o1) i, js_get (orc_executions o1) i) of
        (Some Submitted, Some e) \<Rightarrow>
          (case oe_request e of
             WorkflowRun rq \<Rightarrow>
               (case loadMemoryContext env o1 of (o2, mem) \<Rightarrow>
                  (case en_execute ee (orc_workflows o2) wid (wr_workflowId rq) (wr_input rq)
                          (case wr_variables rq of None \<Rightarrow> [] | Some vs \<Rightarrow> vs) (orc_engine o2) of
                     (en, Inl err) \<Rightarrow> map_prod id Some (orch_fail (ov_now env) e (EngineThrew err) (o2\<lparr>orc_engine := en\<rparr>))
                   | (en, Inr r) \<Rightarrow>
                       map_prod id Some (orch_complete env mid (e\<lparr>oe_agentsInvolved := extractInvolvedAgents r\<rparr>) (WorkflowResult r)
                         (o2\<lparr>orc_engine := en\<rparr>))))
           | _ \<Rightarrow> (o1, None))
      | _ \<Rightarrow> (o1, None))"

section \<open>A plan\<close>

definition poll_interval :: int where
  "poll_interval = 1000"

definition orch_schedule :: "orch_env \<Rightarrow> string \<Rightarrow> orchestrator \<Rightarrow> orchestrator \<times> (orch_error + orch_execution) option" where
  "orch_schedule env i o1 =
     (case (js_get (orc_calls o1) i, js_get (orc_executions o1) i) of
        (Some Submitted, Some e) \<Rightarrow>
          (case oe_request e of
             PlanRun rq \<Rightarrow>
               (case pr_plan rq of
                  None \<Rightarrow> map_prod id Some (orch_fail (ov_now env) e
                     (TextThrown (if given_id (pr_planId rq) then ''Plan loading by ID not implemented - provide plan directly''
                                  else ''No plan provided for execution'')) o1)
                | Some (pid, ts) \<Rightarrow>
                    (case loadMemoryContext env o1 of (o2, mem) \<Rightarrow>
                       (case enqueue ts (orc_scheduler o2) of
                          (s, Inl err) \<Rightarrow> map_prod id Some (orch_fail (ov_now env) e (RuntimeThrew err) (o2\<lparr>orc_scheduler := s\<rparr>))
                        | (s, Inr _) \<Rightarrow>
                            (put_call i (Polling (length ts) (ov_now env + poll_interval)) (o2\<lparr>orc_scheduler := s\<rparr>), None))))
           | _ \<Rightarrow> (o1, None))
      | _ \<Rightarrow> (o1, None))"

text \<open>A timer does not fire before its time. When no second is left the plan is complete.\<close>

definition plan_finished :: "(nat \<Rightarrow> agent_task) \<Rightarrow> nat list \<Rightarrow> orch_execution \<Rightarrow> orch_execution" where
  "plan_finished h ts e = e\<lparr>oe_agentsInvolved := map (\<lambda>t. task_agentId (h t)) ts, oe_stepCount := length ts\<rparr>"

definition orch_poll :: "orch_env \<Rightarrow> string \<Rightarrow> string \<Rightarrow> orchestrator \<Rightarrow> orchestrator \<times> (orch_error + orch_execution) option" where
  "orch_poll env mid i o1 =
     (case (js_get (orc_calls o1) i, js_get (orc_executions o1) i) of
        (Some (Polling n due), Some e) \<Rightarrow>
          (case oe_request e of
             PlanRun rq \<Rightarrow>
               (case pr_plan rq of
                  Some (pid, ts) \<Rightarrow>
                    if n \<noteq> 0 \<and> ov_now env < due then (o1, None)
                    else if n > 1 then (put_call i (Polling (n - 1) (ov_now env + poll_interval)) o1, None)
                    else map_prod id Some (orch_complete env mid (plan_finished (heap (orc_scheduler o1)) ts e) (PlanResult pid ts) o1)
                | None \<Rightarrow> (o1, None))
           | _ \<Rightarrow> (o1, None))
      | _ \<Rightarrow> (o1, None))"

section \<open>Control\<close>

definition orch_cancel :: "time_ms \<Rightarrow> string \<Rightarrow> orchestrator \<Rightarrow> orchestrator \<times> (orch_error + bool)" where
  "orch_cancel now i o1 =
     (case js_get (orc_executions o1) i of
        None \<Rightarrow> (o1, Inl (OrchExecutionNotFound i))
      | Some e \<Rightarrow>
          if oe_status e \<noteq> OxRunning \<and> oe_status e \<noteq> OxPaused then (o1, Inr False)
          else
            (let o2 = put_execution (stamp_end now (e\<lparr>oe_status := OxCancelled\<rparr>)) o1 in
             case oe_type e of
               SingleAgent \<Rightarrow>
                 (case cancelExecution now i (orc_runtime o2) of
                    (t, Inr _) \<Rightarrow> (o2\<lparr>orc_runtime := t\<rparr>, Inr True)
                  | (t, Inl err) \<Rightarrow>
                      (let m = ''Failed to cancel execution '' @ i @ '': '' @ err_message err
                       in (orch_blame m (o2\<lparr>orc_runtime := t\<rparr>), Inl (OrchestratorFailed ''cancel'' m))))
             | WorkflowType \<Rightarrow> (case en_cancel now i (orc_engine o2) of (en, b) \<Rightarrow> (o2\<lparr>orc_engine := en\<rparr>, Inr True))
             | _ \<Rightarrow> (o2, Inr True)))"

definition executions_in :: "orch_status \<Rightarrow> orchestrator \<Rightarrow> orch_execution list" where
  "executions_in st o1 = filter (\<lambda>e. oe_status e = st) (js_values (orc_executions o1))"

fun cancel_all :: "time_ms \<Rightarrow> string list \<Rightarrow> orchestrator \<Rightarrow> orchestrator \<times> (orch_error + unit)" where
  "cancel_all now [] o1 = (o1, Inr ())"
| "cancel_all now (i # ids) o1 =
     (case orch_cancel now i o1 of (o2, Inl e) \<Rightarrow> (o2, Inl e) | (o2, Inr b) \<Rightarrow> cancel_all now ids o2)"

definition orch_stop :: "time_ms \<Rightarrow> orchestrator \<Rightarrow> orchestrator \<times> (orch_error + unit)" where
  "orch_stop now o1 =
     (if orc_state o1 = OrchStopped then (o1, Inr ())
      else let o2 = o1\<lparr>orc_state := OrchStopping\<rparr> in
        case cancel_all now (map oe_executionId (executions_in OxRunning o2)) o2 of
          (o3, Inr _) \<Rightarrow> (o3\<lparr>orc_scheduler := sched_pause (orc_scheduler o3), orc_state := OrchStopped\<rparr>, Inr ())
        | (o3, Inl e) \<Rightarrow>
            (let m = ''Failed to stop orchestrator: '' @ orch_message e
             in (orch_blame m (o3\<lparr>orc_state := OrchError\<rparr>), Inl (OrchestratorFailed ''stop'' m))))"

definition pause_one :: "orch_execution \<Rightarrow> orchestrator \<Rightarrow> orchestrator" where
  "pause_one e o1 =
     (let o2 = put_execution (e\<lparr>oe_status := OxPaused\<rparr>) o1
      in if oe_type e = WorkflowType then o2\<lparr>orc_engine := fst (en_pause (oe_executionId e) (orc_engine o2))\<rparr> else o2)"

definition orch_pause :: "orchestrator \<Rightarrow> orchestrator \<times> (orch_error + unit)" where
  "orch_pause o1 =
     (if orc_state o1 \<noteq> OrchRunning
      then (o1, Inl (OrchestratorNotReady (orch_state_str (orc_state o1)) (Some ''Cannot pause orchestrator in current state'')))
      else let o2 = o1\<lparr>orc_scheduler := sched_pause (orc_scheduler o1)\<rparr>;
               o3 = fold pause_one (executions_in OxRunning o2) o2
           in (o3\<lparr>orc_state := OrchPaused\<rparr>, Inr ()))"

definition resume_one :: "engine_env \<Rightarrow> orch_execution \<Rightarrow> orchestrator \<Rightarrow> orchestrator" where
  "resume_one ee e o1 =
     (let o2 = put_execution (e\<lparr>oe_status := OxRunning\<rparr>) o1
      in if oe_type e = WorkflowType
         then o2\<lparr>orc_engine := fst (en_resume ee (orc_workflows o2) (oe_executionId e) (orc_engine o2))\<rparr> else o2)"

definition orch_resume :: "engine_env \<Rightarrow> orchestrator \<Rightarrow> orchestrator \<times> (orch_error + unit)" where
  "orch_resume ee o1 =
     (if orc_state o1 \<noteq> OrchPaused
      then (o1, Inl (OrchestratorNotReady (orch_state_str (orc_state o1)) (Some ''Cannot resume orchestrator in current state'')))
      else let o2 = o1\<lparr>orc_scheduler := sched_resume (orc_scheduler o1)\<rparr>;
               o3 = fold (resume_one ee) (executions_in OxPaused o2) o2
           in (o3\<lparr>orc_state := OrchRunning\<rparr>, Inr ()))"

section \<open>Health\<close>

record orch_health =
  oh_status :: health_status
  oh_state :: orch_state
  oh_uptime :: int
  oh_registeredAgents :: nat
  oh_runningAgents :: nat
  oh_queuedTasks :: nat
  oh_runningExecutions :: nat
  oh_memoryUsage :: int
  oh_totalExecutions :: nat
  oh_successfulExecutions :: nat
  oh_failedExecutions :: nat
  oh_averageExecutionTime :: real
  oh_errors :: "string list"
  oh_warnings :: "string list"
  oh_lastActivity :: time_ms

text \<open>\<open>runs\<close> tells which agents have the status \<open>running\<close>, \<open>memory\<close> is the health of the memory or what it throws.\<close>

definition orch_healthy :: "orchestrator \<Rightarrow> health_status" where
  "orch_healthy o1 =
     (if orc_state o1 = OrchError \<or> orc_errors o1 \<noteq> [] then Unhealthy
      else if orc_state o1 \<noteq> OrchRunning \<or> orc_warnings o1 \<noteq> [] then Degraded else Healthy)"

definition orch_health_report :: "time_ms \<Rightarrow> (agent \<Rightarrow> bool) \<Rightarrow> string + int \<Rightarrow> orchestrator \<Rightarrow> orchestrator \<times> orch_health" where
  "orch_health_report now runs memory o1 =
     (let agents = list_agents (rt_agents (orc_runtime o1)); q = queueSizes (orc_scheduler o1);
          o2 = (case memory of Inr n \<Rightarrow> o1 | Inl m \<Rightarrow> orch_warn (''Failed to collect health metrics: '' @ m) o1)
      in (o2, \<lparr>oh_status = orch_healthy o2, oh_state = orc_state o2, oh_uptime = now - orc_startTime o2,
            oh_registeredAgents = length agents, oh_runningAgents = length (filter runs agents),
            oh_queuedTasks = qs_priority q + qs_execution q + qs_waiting q,
            oh_runningExecutions = length (executions_in OxRunning o2),
            oh_memoryUsage = (case memory of Inr n \<Rightarrow> n | Inl m \<Rightarrow> 0),
            oh_totalExecutions = orc_totalExecutions o2, oh_successfulExecutions = orc_successfulExecutions o2,
            oh_failedExecutions = orc_failedExecutions o2,
            oh_averageExecutionTime =
              (if orc_totalExecutions o2 > 0 then real_of_int (orc_totalExecutionTime o2) / real (orc_totalExecutions o2) else 0),
            oh_errors = orc_errors o2, oh_warnings = orc_warnings o2, oh_lastActivity = now\<rparr>))"

section \<open>Whole calls\<close>

text \<open>
  A call of \<open>execute\<close>, \<open>executeWorkflow\<close> or \<open>executePlan\<close> that nothing interrupts. \<open>oq_env\<close> is what its successive steps
  meet; the ids are those of the execution, of the component's own execution, of the executor and of the message.
  \<open>None\<close>: the plan waits for a second that has not passed.
\<close>

record orch_call_env =
  oq_id :: string
  oq_inner :: string
  oq_executor :: string
  oq_message :: string
  oq_env :: "nat \<Rightarrow> orch_env"
  oq_health :: agent_health
  oq_engine :: engine_env

fun poll_times :: "orch_call_env \<Rightarrow> nat \<Rightarrow> nat \<Rightarrow> orchestrator \<Rightarrow> orchestrator \<times> (orch_error + orch_execution) option" where
  "poll_times k j 0 o1 = orch_poll (oq_env k j) (oq_message k) (oq_id k) o1"
| "poll_times k j (Suc n) o1 =
     (case orch_poll (oq_env k j) (oq_message k) (oq_id k) o1 of
        (o2, Some res) \<Rightarrow> (o2, Some res) | (o2, None) \<Rightarrow> poll_times k (Suc j) n o2)"

definition orch_execute :: "orch_call_env \<Rightarrow> orch_request \<Rightarrow> orchestrator \<Rightarrow> orchestrator \<times> (orch_error + orch_execution) option" where
  "orch_execute k rq o1 =
     (case orch_submit (ov_now (oq_env k 0)) (oq_id k) rq o1 of
        (o2, Inl e) \<Rightarrow> (o2, Some (Inl e))
      | (o2, Inr _) \<Rightarrow>
          (case rq of
             AgentRun _ \<Rightarrow>
               (case orch_prepare (oq_env k 0) (oq_id k) (oq_inner k) o2 of
                  (o3, Some res) \<Rightarrow> (o3, Some res)
                | (o3, None) \<Rightarrow>
                    (case orch_launch (oq_env k 1) (oq_message k) (oq_id k) (oq_executor k) (oq_health k) o3 of
                       (o4, Some res) \<Rightarrow> (o4, Some res)
                     | (o4, None) \<Rightarrow> orch_land (oq_env k 2) (oq_message k) (oq_id k) o4))
           | WorkflowRun _ \<Rightarrow> orch_workflow (oq_env k 0) (oq_engine k) (oq_message k) (oq_id k) (oq_inner k) o2
           | PlanRun p \<Rightarrow>
               (case orch_schedule (oq_env k 0) (oq_id k) o2 of
                  (o3, Some res) \<Rightarrow> (o3, Some res)
                | (o3, None) \<Rightarrow> poll_times k 1 (case pr_plan p of None \<Rightarrow> 0 | Some (pid, ts) \<Rightarrow> length ts - 1) o3)))"

section \<open>Runs\<close>

text \<open>The steps of the orchestrator, in any order.\<close>

datatype orch_step =
    StStart "string \<Rightarrow> bool"
  | StSubmit time_ms string orch_request
  | StPrepare orch_env string string
  | StLaunch orch_env string string string agent_health
  | StLand orch_env string string
  | StWorkflow orch_env engine_env string string string
  | StSchedule orch_env string
  | StPoll orch_env string string
  | StCancel time_ms string
  | StStop time_ms
  | StPause
  | StResume engine_env
  | StHealth time_ms "agent \<Rightarrow> bool" "string + int"

fun orch_do :: "orch_step \<Rightarrow> orchestrator \<Rightarrow> orchestrator" where
  "orch_do (StStart p) o1 = fst (orch_start p o1)"
| "orch_do (StSubmit now i rq) o1 = fst (orch_submit now i rq o1)"
| "orch_do (StPrepare env i rid) o1 = fst (orch_prepare env i rid o1)"
| "orch_do (StLaunch env mid i eid h) o1 = fst (orch_launch env mid i eid h o1)"
| "orch_do (StLand env mid i) o1 = fst (orch_land env mid i o1)"
| "orch_do (StWorkflow env ee mid i wid) o1 = fst (orch_workflow env ee mid i wid o1)"
| "orch_do (StSchedule env i) o1 = fst (orch_schedule env i o1)"
| "orch_do (StPoll env mid i) o1 = fst (orch_poll env mid i o1)"
| "orch_do (StCancel now i) o1 = fst (orch_cancel now i o1)"
| "orch_do (StStop now) o1 = fst (orch_stop now o1)"
| "orch_do StPause o1 = fst (orch_pause o1)"
| "orch_do (StResume ee) o1 = fst (orch_resume ee o1)"
| "orch_do (StHealth now runs memory) o1 = fst (orch_health_report now runs memory o1)"

definition orch_run :: "orch_step list \<Rightarrow> orchestrator \<Rightarrow> orchestrator" where
  "orch_run steps o1 = fold orch_do steps o1"

end
