(* ===== verification/Orchestrator_Agent.thy ===== *)
theory Orchestrator_Agent
  imports Builtin_Shell Orchestrator
begin

text \<open>
  The class \<open>OrchestratorAgent\<close> (\<open>agents/builtin/orchestrator-agent\<close>): a built-in agent in front of the orchestrator.
  An operation is one call of the orchestrator that nothing interrupts; \<open>None\<close> is a plan that waits for a second
  which does not pass.
\<close>

section \<open>Requests and results\<close>

text \<open>The requests as they come in: each field may be missing (\<open>undefined\<close>).\<close>

record raw_agent_run =
  rag_agentId :: "string option"
  rag_input :: jsval
  rag_context :: "orch_context option"
  rag_timeout :: "int option"

record raw_workflow_run =
  rwf_workflowId :: "string option"
  rwf_input :: jsval
  rwf_context :: "orch_context option"
  rwf_variables :: "js_record option"

record raw_plan_run =
  rpl_plan :: "(string \<times> nat list) option"
  rpl_context :: "orch_context option"

record orchestrator_input =
  on_operation :: "jsval option"
  on_agentRequest :: "raw_agent_run option"
  on_workflowRequest :: "raw_workflow_run option"
  on_planRequest :: "raw_plan_run option"
  on_executionId :: jsval

datatype orchestrator_value =
    AgentExecuted orch_execution string time_ms
  | WorkflowExecuted orch_execution string time_ms
  | PlanExecuted orch_execution string time_ms
  | ExecutionCancelledResult string bool time_ms
  | OrchestratorHealth orch_health time_ms

definition orchestrator_operations :: "string list" where
  "orchestrator_operations = [''execute'', ''execute-workflow'', ''execute-plan'', ''cancel'', ''health'']"

text \<open>Messages of the exceptions.\<close>

definition invalid_orchestrator_operation :: "string \<Rightarrow> string \<Rightarrow> string" where
  "invalid_orchestrator_operation op reason = ''Invalid orchestrator operation '' @ sq op @ '': '' @ reason"

definition orch_agent_failed :: "string \<Rightarrow> string \<Rightarrow> string" where
  "orch_agent_failed i reason = ''Agent execution failed for '' @ sq i @ '': '' @ reason"

definition orch_workflow_failed :: "string \<Rightarrow> string \<Rightarrow> string" where
  "orch_workflow_failed i reason = ''Workflow execution failed for '' @ sq i @ '': '' @ reason"

definition orch_plan_failed :: "string \<Rightarrow> string \<Rightarrow> string" where
  "orch_plan_failed i reason = ''Plan execution failed for '' @ sq i @ '': '' @ reason"

definition orch_cancellation_failed :: "string \<Rightarrow> string \<Rightarrow> string" where
  "orch_cancellation_failed i reason = ''Execution cancellation failed for '' @ sq i @ '': '' @ reason"

definition invalid_execution_fields :: "string list \<Rightarrow> string" where
  "invalid_execution_fields missing = ''Invalid execution request - missing fields: '' @ join_with '', '' missing"

section \<open>Parsing and validation\<close>

definition orchestrator_parse :: "orchestrator_input option \<Rightarrow> string + string" where
  "orchestrator_parse = shell_parse invalid_orchestrator_operation orchestrator_operations on_operation
     (\<lambda>op i.
        [(op = ''execute'' \<and> on_agentRequest i = None, ''Agent request is required for execute operation''),
         (op = ''execute-workflow'' \<and> on_workflowRequest i = None, ''Workflow request is required for execute-workflow operation''),
         (op = ''execute-plan'' \<and> on_planRequest i = None, ''Plan request is required for execute-plan operation''),
         (op = ''cancel'' \<and> not_string (on_executionId i), ''Execution ID is required for cancel operation'')])"

definition orchestrator_op_of :: "orchestrator_input option \<Rightarrow> jsval option" where
  "orchestrator_op_of = shell_op_of on_operation"

text \<open>The required fields that are missing.\<close>

definition missing_of :: "(string \<times> bool) list \<Rightarrow> string option" where
  "missing_of fs = (let missing = map fst (filter (\<lambda>(f, given). \<not> given) fs)
     in if missing = [] then None else Some (invalid_execution_fields missing))"

definition checkAgentExecution :: "raw_agent_run \<Rightarrow> string option" where
  "checkAgentExecution r = missing_of [(''agentId'', rag_agentId r \<noteq> None), (''input'', rag_input r \<noteq> JUndefined), (''context'', rag_context r \<noteq> None)]"

definition checkWorkflowExecution :: "raw_workflow_run \<Rightarrow> string option" where
  "checkWorkflowExecution r =
     missing_of [(''workflowId'', rwf_workflowId r \<noteq> None), (''input'', rwf_input r \<noteq> JUndefined), (''context'', rwf_context r \<noteq> None)]"

definition checkPlanExecution :: "raw_plan_run \<Rightarrow> string option" where
  "checkPlanExecution r =
     (case missing_of [(''plan'', rpl_plan r \<noteq> None), (''context'', rpl_context r \<noteq> None)] of
        Some m \<Rightarrow> Some m
      | None \<Rightarrow> if fst (the (rpl_plan r)) = [] then Some (invalid_execution_fields [''plan.planId'']) else None)"

section \<open>State\<close>

record orchestrator_agent =
  oga_orchestrator :: orchestrator
  oga_totalExecutions :: nat
  oga_agentExecutions :: nat
  oga_workflowExecutions :: nat
  oga_planExecutions :: nat
  oga_totalCancellations :: nat
  oga_successfulCancellations :: nat
  oga_totalHealthChecks :: nat

definition new_orchestrator_agent :: "orchestrator \<Rightarrow> orchestrator_agent" where
  "new_orchestrator_agent o1 = \<lparr>oga_orchestrator = o1, oga_totalExecutions = 0, oga_agentExecutions = 0, oga_workflowExecutions = 0,
     oga_planExecutions = 0, oga_totalCancellations = 0, oga_successfulCancellations = 0, oga_totalHealthChecks = 0\<rparr>"

definition orchestrator_capabilities :: "agent_capability list" where
  "orchestrator_capabilities =
     [\<lparr>cap_id = ''agent-execution'', cap_name = ''Agent Execution Orchestration''\<rparr>,
      \<lparr>cap_id = ''workflow-orchestration'', cap_name = ''Workflow Orchestration''\<rparr>,
      \<lparr>cap_id = ''plan-orchestration'', cap_name = ''Plan Orchestration''\<rparr>,
      \<lparr>cap_id = ''execution-control'', cap_name = ''Execution Control''\<rparr>]"

definition orchestrator_metadata :: agent where
  "orchestrator_metadata = \<lparr>ag_id = ''orchestrator-agent'', ag_name = ''Orchestrator Agent'', ag_version = ''1.0.0'', ag_type = ''service'',
     ag_capabilities = orchestrator_capabilities\<rparr>"

record orchestrator_call =
  nk_now :: time_ms
  nk_finished :: time_ms
  nk_call :: orch_call_env
  nk_runs :: "agent \<Rightarrow> bool"
  nk_memory :: "string + int"

section \<open>Operations\<close>

definition text_or_undefined :: "string option \<Rightarrow> string" where
  "text_or_undefined x = (case x of None \<Rightarrow> ''undefined'' | Some s \<Rightarrow> s)"

definition with_orchestrator :: "orchestrator \<Rightarrow> orchestrator_agent \<Rightarrow> orchestrator_agent" where
  "with_orchestrator o1 g = g\<lparr>oga_orchestrator := o1\<rparr>"

definition executed_metadata :: "orchestrator_call \<Rightarrow> string \<Rightarrow> string \<Rightarrow> orch_execution \<Rightarrow> js_record" where
  "executed_metadata k field i e =
     [(''executionId'', JStr (oe_executionId e)), (field, JStr i), (''status'', JStr (orch_status_str (oe_status e))),
      (''timestamp'', JDate (nk_now k))]"

definition oga_executeAgent ::
  "orchestrator_call \<Rightarrow> raw_agent_run \<Rightarrow> orchestrator_agent \<Rightarrow> (orchestrator_agent \<times> (string + orchestrator_value op_result)) option" where
  "oga_executeAgent k r g =
     (let i = text_or_undefined (rag_agentId r); failed = (\<lambda>m. Inl (orch_agent_failed i m)) in
      case checkAgentExecution r of
        Some m \<Rightarrow> Some (g, failed m)
      | None \<Rightarrow>
          (case orch_execute (nk_call k) (AgentRun \<lparr>ar_agentId = i, ar_input = rag_input r, ar_context = rag_context r,
                  ar_timeout = rag_timeout r\<rparr>) (oga_orchestrator g) of
             (o1, None) \<Rightarrow> None
           | (o1, Some (Inl e)) \<Rightarrow> Some (with_orchestrator o1 g, failed (orch_message e))
           | (o1, Some (Inr e)) \<Rightarrow>
               Some ((with_orchestrator o1 g)\<lparr>oga_totalExecutions := oga_totalExecutions g + 1, oga_agentExecutions := oga_agentExecutions g + 1\<rparr>,
                 completed_op (AgentExecuted e i (nk_now k)) (executed_metadata k ''agentId'' i e))))"

definition oga_executeWorkflow ::
  "orchestrator_call \<Rightarrow> raw_workflow_run \<Rightarrow> orchestrator_agent \<Rightarrow> (orchestrator_agent \<times> (string + orchestrator_value op_result)) option" where
  "oga_executeWorkflow k r g =
     (let i = text_or_undefined (rwf_workflowId r); failed = (\<lambda>m. Inl (orch_workflow_failed i m)) in
      case checkWorkflowExecution r of
        Some m \<Rightarrow> Some (g, failed m)
      | None \<Rightarrow>
          (case orch_execute (nk_call k) (WorkflowRun \<lparr>wr_workflowId = i, wr_input = rwf_input r, wr_context = rwf_context r,
                  wr_variables = rwf_variables r\<rparr>) (oga_orchestrator g) of
             (o1, None) \<Rightarrow> None
           | (o1, Some (Inl e)) \<Rightarrow> Some (with_orchestrator o1 g, failed (orch_message e))
           | (o1, Some (Inr e)) \<Rightarrow>
               Some ((with_orchestrator o1 g)\<lparr>oga_totalExecutions := oga_totalExecutions g + 1,
                   oga_workflowExecutions := oga_workflowExecutions g + 1\<rparr>,
                 completed_op (WorkflowExecuted e i (nk_now k)) (executed_metadata k ''workflowId'' i e))))"

definition oga_executePlan ::
  "orchestrator_call \<Rightarrow> raw_plan_run \<Rightarrow> orchestrator_agent \<Rightarrow> (orchestrator_agent \<times> (string + orchestrator_value op_result)) option" where
  "oga_executePlan k r g =
     (let i = (case rpl_plan r of None \<Rightarrow> ''unknown'' | Some (p, ts) \<Rightarrow> str_or p ''unknown''); failed = (\<lambda>m. Inl (orch_plan_failed i m)) in
      case checkPlanExecution r of
        Some m \<Rightarrow> Some (g, failed m)
      | None \<Rightarrow>
          (case orch_execute (nk_call k) (PlanRun \<lparr>pr_planId = None, pr_plan = rpl_plan r, pr_context = rpl_context r\<rparr>) (oga_orchestrator g) of
             (o1, None) \<Rightarrow> None
           | (o1, Some (Inl e)) \<Rightarrow> Some (with_orchestrator o1 g, failed (orch_message e))
           | (o1, Some (Inr e)) \<Rightarrow>
               Some ((with_orchestrator o1 g)\<lparr>oga_totalExecutions := oga_totalExecutions g + 1, oga_planExecutions := oga_planExecutions g + 1\<rparr>,
                 completed_op (PlanExecuted e i (nk_now k)) (executed_metadata k ''planId'' i e))))"

definition oga_cancelExecution ::
  "orchestrator_call \<Rightarrow> string \<Rightarrow> orchestrator_agent \<Rightarrow> orchestrator_agent \<times> (string + orchestrator_value op_result)" where
  "oga_cancelExecution k i g =
     (let g1 = g\<lparr>oga_totalCancellations := oga_totalCancellations g + 1\<rparr> in
      case orch_cancel (nk_now k) i (oga_orchestrator g) of
        (o1, Inl e) \<Rightarrow> (with_orchestrator o1 g1, Inl (orch_cancellation_failed i (orch_message e)))
      | (o1, Inr b) \<Rightarrow>
          ((with_orchestrator o1 g1)\<lparr>oga_successfulCancellations := oga_successfulCancellations g + (if b then 1 else 0)\<rparr>,
           completed_op (ExecutionCancelledResult i b (nk_now k))
             [(''executionId'', JStr i), (''cancelled'', JBool b), (''timestamp'', JDate (nk_now k))]))"

fun health_str :: "health_status \<Rightarrow> string" where
  "health_str Healthy = ''healthy''"
| "health_str Degraded = ''degraded''"
| "health_str Unhealthy = ''unhealthy''"

definition oga_getOrchestratorHealth ::
  "orchestrator_call \<Rightarrow> orchestrator_agent \<Rightarrow> orchestrator_agent \<times> (string + orchestrator_value op_result)" where
  "oga_getOrchestratorHealth k g =
     (case orch_health_report (nk_now k) (nk_runs k) (nk_memory k) (oga_orchestrator g) of
        (o1, h) \<Rightarrow>
          ((with_orchestrator o1 g)\<lparr>oga_totalHealthChecks := oga_totalHealthChecks g + 1\<rparr>,
           completed_op (OrchestratorHealth h (nk_now k))
             [(''status'', JStr (health_str (oh_status h))), (''state'', JStr (orch_state_str (oh_state h))),
              (''runningExecutions'', JNum (int (oh_runningExecutions h))), (''totalExecutions'', JNum (int (oh_totalExecutions h))),
              (''timestamp'', JDate (nk_now k))]))"

section \<open>The agent\<close>

definition orchestrator_run ::
  "orchestrator_call \<Rightarrow> string \<Rightarrow> orchestrator_input option \<Rightarrow> orchestrator_agent
    \<Rightarrow> (orchestrator_agent \<times> (string + orchestrator_value op_result)) option" where
  "orchestrator_run k op input g =
     (let unsupported = Some (g, Inl (invalid_orchestrator_operation op ''Unsupported operation'')) in
      case input of
        None \<Rightarrow> unsupported
      | Some i \<Rightarrow>
          if op = ''execute'' then (case on_agentRequest i of None \<Rightarrow> unsupported | Some r \<Rightarrow> oga_executeAgent k r g)
          else if op = ''execute-workflow'' then (case on_workflowRequest i of None \<Rightarrow> unsupported | Some r \<Rightarrow> oga_executeWorkflow k r g)
          else if op = ''execute-plan'' then (case on_planRequest i of None \<Rightarrow> unsupported | Some r \<Rightarrow> oga_executePlan k r g)
          else if op = ''cancel'' then Some (oga_cancelExecution k (the_text (on_executionId i)) g)
          else if op = ''health'' then Some (oga_getOrchestratorHealth k g)
          else unsupported)"

definition orchestrator_execute ::
  "orchestrator_call \<Rightarrow> orchestrator_input option \<Rightarrow> agent_shell \<times> orchestrator_agent
     \<Rightarrow> ((agent_shell \<times> orchestrator_agent) \<times> orchestrator_value agent_answer option) option" where
  "orchestrator_execute k input st =
     shell_execute_partial ''orchestrator-agent'' orchestrator_op_of orchestrator_parse (orchestrator_run k) (nk_now k) (nk_finished k) input st"

definition orchestrator_initialize :: "bool \<Rightarrow> agent_shell \<Rightarrow> agent_shell \<times> (string + unit)" where
  "orchestrator_initialize available sh =
     shell_initialize ''orchestrator'' (if available then None else Some ''Agent orchestrator is not available'') sh"

definition orchestrator_shutdown :: "agent_shell \<Rightarrow> agent_shell" where
  "orchestrator_shutdown sh = shell_shutdown sh"

definition orchestrator_getHealth :: "time_ms \<Rightarrow> bool \<Rightarrow> agent_shell \<times> orchestrator_agent \<Rightarrow> shell_health" where
  "orchestrator_getHealth now available = (\<lambda>(sh, g).
     shell_getHealth now available [(''totalExecutions'', real (oga_totalExecutions g))] sh)"

section \<open>Reports\<close>

record orchestrator_agent_health =
  ogh_status :: health_status
  ogh_state :: string
  ogh_runningExecutions :: nat
  ogh_totalExecutions :: nat
  ogh_errors :: "string list"
  ogh_warnings :: "string list"
  ogh_lastActivity :: "time_ms option"
  ogh_uptime :: int

text \<open>The report asks the orchestrator for its health, which may note a warning there.\<close>

definition getOrchestratorAgentHealth ::
  "orchestrator_call \<Rightarrow> agent_shell \<times> orchestrator_agent \<Rightarrow> (agent_shell \<times> orchestrator_agent) \<times> orchestrator_agent_health" where
  "getOrchestratorAgentHealth k = (\<lambda>(sh, g).
     case orch_health_report (nk_now k) (nk_runs k) (nk_memory k) (oga_orchestrator g) of
       (o1, h) \<Rightarrow>
         ((sh, with_orchestrator o1 g),
          \<lparr>ogh_status = shell_health_status True sh, ogh_state = orch_state_str (oh_state h), ogh_runningExecutions = oh_runningExecutions h,
           ogh_totalExecutions = (if oh_totalExecutions h = 0 then oga_totalExecutions g else oh_totalExecutions h),
           ogh_errors = ah_errors sh, ogh_warnings = ah_warnings sh, ogh_lastActivity = ah_lastActivity sh,
           ogh_uptime = nk_now k - ah_startTime sh\<rparr>))"

record orchestrator_agent_metrics =
  ogm_shell :: shell_metrics
  ogm_successfulExecutions :: nat
  ogm_failedExecutions :: nat
  ogm_averageExecutionTime :: real

definition execute_operations :: "string list" where
  "execute_operations = [''execute'', ''execute-workflow'', ''execute-plan'']"

definition orchestrator_getMetrics :: "time_ms \<Rightarrow> agent_shell \<times> orchestrator_agent \<Rightarrow> orchestrator_agent_metrics" where
  "orchestrator_getMetrics now = (\<lambda>(sh, g).
     (let m = shell_getMetrics now sh in
      \<lparr>ogm_shell = m,
       ogm_successfulExecutions = sum_list (map (op_count (ah_successes sh)) execute_operations),
       ogm_failedExecutions = sum_list (map (op_count (ah_failures sh)) execute_operations),
       ogm_averageExecutionTime = sum_list (map (\<lambda>op. average_latency op m) execute_operations) / 3\<rparr>))"

section \<open>The contract\<close>

interpretation orchestrator: builtin_agent orchestrator_operations orchestrator_op_of orchestrator_parse
  by unfold_locales (simp add: orchestrator_parse_def orchestrator_op_of_def shell_parse_known)

end
