(* ===== verification/Builtin_Props.thy ===== *)
theory Builtin_Props
  imports Planner_Agent Scheduler_Agent Coordinator_Agent Execution_Agent Memory_Agent Workflow_Agent Communication_Agent
    Tool_Agent Plugin_Agent Orchestrator_Agent Scheduler_Props
begin

text \<open>
  What holds of the built-in agents: when \<open>execute\<close> rejects and what a failure leaves in the health, from the
  contract \<open>builtin_agent\<close>; what the memory agent keeps and loses; that the scheduler agent has no operation which
  ends a task.
\<close>

section \<open>The contract of the agents\<close>


definition sample_input :: "string \<Rightarrow> jsval \<Rightarrow> jsval \<Rightarrow> memory_input" where
  "sample_input op key v = \<lparr>mi_operation = Some (JStr op), mi_type = JStr ''workspace'', mi_key = key, mi_value = v\<rparr>"

definition sample_call :: "memory_call" where
  "sample_call = \<lparr>mk_now = 5, mk_context = \<lparr>kx_requestId = ''r'', kx_traceId = ''t'', kx_workspaceId = ''w'', kx_userId = ''u'',
     kx_sessionId = ''s'', kx_conversationId = None, kx_metadata = []\<rparr>\<rparr>"

definition sample_memory :: memory_agent where
  "sample_memory = \<lparr>ma_conversation = \<lparr>bm_storage = [], bm_accessLog = [], bm_errors = [], bm_warnings = []\<rparr>,
     ma_workspace = \<lparr>bm_storage = [], bm_accessLog = [], bm_errors = [], bm_warnings = [], wm_storage = []\<rparr>,
     ma_scratchpad = \<lparr>bm_storage = [], bm_accessLog = [], bm_errors = [], bm_warnings = [], sp_storage = [], sp_timers = []\<rparr>,
     ma_shared = new_shared_memory\<rparr>"

lemma sample_context: "\<exists>c. buildMemoryContext (mk_context sample_call) = Inr c"
  by (simp add: sample_call_def buildMemoryContext_def draft_context_def context_build_def context_missing_def context_create_def
      ctx_requestId_def ctx_traceId_def ctx_workspaceId_def ctx_userId_def ctx_agentId_def ctx_executionId_def ctx_metadata_def)


section \<open>The memory agent\<close>

lemma shared_prefix_of: "mc_workspaceId c = mc_workspaceId d \<Longrightarrow> shared_prefix c = shared_prefix d"
  by (simp add: shared_prefix_def)

text \<open>A write to the shared memory: of an expected version that is stale, and seen from another key.\<close>

lemma shared_write_stale:
  "js_get (bm_storage m) (shared_key k c) = Some e \<Longrightarrow> se_version e \<noteq> expected
    \<Longrightarrow> shared_write now k v expected c m = (fst (shared_read now k c m), False)"
  by (simp add: shared_write_eq write_commit_def)

lemma shared_write_other:
  assumes "full \<noteq> shared_key k c"
  shows "js_get (bm_storage (fst (shared_write now k v expected c m))) full = js_get (bm_storage m) full"
  using assms
  by (simp add: shared_write_eq write_commit_def split: option.split)

lemma shared_write_new:
  assumes "js_get (bm_storage m) (shared_key k c) = None" "js_get (sm_locks m) (shared_key k c) = None"
  shows "js_get (bm_storage (fst (shared_write now k v expected c m))) (shared_key k c) = Some (new_version now v None c)"
  using assms by (simp add: shared_write_eq write_commit_def)

lemma saveShared_eq:
  assumes "buildMemoryContext (mk_context k) = Inr c"
  shows "ma_shared (fst (saveShared k key v g)) = fst (shared_write (mk_now k) key v 0 c (fst (shared_read (mk_now k) key c (ma_shared g))))"
    "snd (saveShared k key v g) = completed_op (MemorySaved ''shared'' key
       (map_option Entry (js_get (bm_storage (ma_shared g)) (shared_key key c)))) (stamp k)"
  using assms by (simp_all add: saveShared_def in_context_def completed_op_def case_prod_unfold)

text \<open>A save through the agent leaves an entry of another version than \<open>0\<close> alone, under any key.\<close>

lemma saveShared_keeps:
  assumes "js_get (bm_storage (ma_shared g)) full = Some e" "se_version e \<noteq> 0"
  shows "js_get (bm_storage (ma_shared (fst (saveShared k key v g)))) full = Some e"
proof (cases "buildMemoryContext (mk_context k)")
  case (Inl m)
  then show ?thesis using assms by (simp add: saveShared_def in_context_def)
next
  case (Inr c)
  then show ?thesis
    using assms shared_write_stale [of "fst (shared_read (mk_now k) key c (ma_shared g))" key c e 0]
    by (cases "full = shared_key key c") (simp_all add: saveShared_eq(1) shared_write_other)
qed

definition shared_saves :: "(memory_call \<times> string \<times> jsval) list \<Rightarrow> memory_agent \<Rightarrow> memory_agent" where
  "shared_saves = fold (\<lambda>(k, key, v) g. fst (saveShared k key v g))"

lemma shared_saves_keep:
  "js_get (bm_storage (ma_shared g)) full = Some e \<Longrightarrow> se_version e \<noteq> 0
    \<Longrightarrow> js_get (bm_storage (ma_shared (shared_saves xs g))) full = Some e"
proof (induction xs arbitrary: g)
  case (Cons x xs)
  then show ?case using saveShared_keeps [OF Cons.prems] by (cases x) (simp add: shared_saves_def)
qed (simp add: shared_saves_def)

text \<open>A value that the memory agent has saved in the shared memory under a new, unlocked key stays: whatever
  the agent saves afterwards under the same key is answered as saved and dropped, so that a load finds the first value.\<close>

theorem shared_value_saved_once:
  assumes "buildMemoryContext (mk_context k0) = Inr c0" "buildMemoryContext (mk_context k) = Inr c"
    "mc_workspaceId c = mc_workspaceId c0"
    "js_get (bm_storage (ma_shared g)) (shared_key key c0) = None" "js_get (sm_locks (ma_shared g)) (shared_key key c0) = None"
  shows "(let g1 = shared_saves later (fst (saveShared k0 key v0 g)); e = new_version (mk_now k0) v0 None c0 in
    (\<exists>md. snd (loadShared k key g1) = completed_op (MemoryLoaded ''shared'' key True (Some (Entry e))) md)
    \<and> (\<exists>md. snd (saveShared k key v g1) = completed_op (MemorySaved ''shared'' key (Some (Entry e))) md)
    \<and> snd (loadShared k key (fst (saveShared k key v g1))) = snd (loadShared k key g1))"
proof -
  let ?g1 = "shared_saves later (fst (saveShared k0 key v0 g))" and ?e = "new_version (mk_now k0) v0 None c0"
  have key: "shared_key key c = shared_key key c0" using assms(3) by (simp only: shared_key_def shared_prefix_of [OF assms(3)])
  have "js_get (bm_storage (ma_shared (fst (saveShared k0 key v0 g)))) (shared_key key c0) = Some ?e"
    using assms(4,5) by (simp add: saveShared_eq(1) [OF assms(1)] shared_write_new)
  moreover have ver: "se_version ?e \<noteq> 0" by (simp add: new_version_def)
  ultimately have e: "js_get (bm_storage (ma_shared ?g1)) (shared_key key c) = Some ?e"
    unfolding key by (rule shared_saves_keep)
  have load: "snd (loadShared k key h) = completed_op (MemoryLoaded ''shared'' key True (Some (Entry ?e))) (stamp k)"
    if "js_get (bm_storage (ma_shared h)) (shared_key key c) = Some ?e" for h
    using assms(2) that by (simp add: loadShared_def in_context_def completed_op_def case_prod_unfold)
  show ?thesis
    using load [OF e] load [OF saveShared_keeps [OF e ver]] saveShared_eq(2) [OF assms(2), of key v ?g1] e by (auto simp: Let_def)
qed

theorem shared_value_saved_once_witness:
  "snd (loadShared sample_call ''k'' (fst (saveShared sample_call ''k'' (JNum 2) (fst (saveShared sample_call ''k'' (JNum 1) sample_memory)))))
     = snd (loadShared sample_call ''k'' (fst (saveShared sample_call ''k'' (JNum 1) sample_memory)))"
proof -
  obtain c where c: "buildMemoryContext (mk_context sample_call) = Inr c" using sample_context by blast
  have "js_get (bm_storage (ma_shared sample_memory)) (shared_key ''k'' c) = None"
    "js_get (sm_locks (ma_shared sample_memory)) (shared_key ''k'' c) = None"
    by (simp_all add: sample_memory_def new_shared_memory_def)
  from shared_value_saved_once [OF c c refl this, of "[]" "JNum 1" "JNum 2"]
  show ?thesis by (simp add: Let_def shared_saves_def)
qed

text \<open>The storage of the base class and that of the class itself do not see each other.\<close>

lemma base_and_own [simp]:
  "bm_storage (ws_clear c m) = bm_storage m" "bm_storage (sp_clear c n) = bm_storage n"
  "wm_storage (mem_save now pre k v m) = wm_storage m" "sp_storage (mem_save now pre k v n) = sp_storage n"
  "wm_storage (fst (mem_load now pre k m)) = wm_storage m" "sp_storage (fst (mem_load now pre k n)) = sp_storage n"
  by (simp_all add: ws_clear_def sp_clear_def mem_save_def mem_load_def note_access_def forget_log_def Let_def split: option.split)

lemma own_size [simp]:
  "ws_size c (mem_save now pre k v m) = ws_size c m" "sp_size c (mem_save now pre k v n) = sp_size c n"
  "ws_size c (fst (mem_load now pre k m)) = ws_size c m" "sp_size c (fst (mem_load now pre k n)) = sp_size c n"
  by (simp_all add: ws_size_def sp_size_def)

text \<open>What the agent saves in the workspace or the scratchpad memory outlives a clearing: clearing answers that
  it has cleared, with the number of values of the memory's own operations, and a load still finds the value.\<close>

theorem clear_keeps_saved_values:
  assumes "buildMemoryContext (mk_context k1) = Inr c1" "buildMemoryContext (mk_context k2) = Inr c2"
    "buildMemoryContext (mk_context k3) = Inr c3" "mc_workspaceId c3 = mc_workspaceId c1" "mc_executionId c3 = mc_executionId c1"
  shows "(let cleared = clearMemory k2 ''workspace'' (fst (saveWorkspace k1 key v g)) in
      snd cleared = completed_op (MemoryCleared ''workspace'' (ws_size c2 (ma_workspace g))) (stamp k2)
      \<and> snd (loadWorkspace k3 key (fst cleared)) = completed_op (MemoryLoaded ''workspace'' key True (Some (Plain v))) (stamp k3))
    \<and> (let cleared = clearMemory k2 ''scratchpad'' (fst (saveScratchpad k1 key v g)) in
      snd cleared = completed_op (MemoryCleared ''scratchpad'' (sp_size c2 (ma_scratchpad g))) (stamp k2)
      \<and> snd (loadScratchpad k3 key (fst cleared)) = completed_op (MemoryLoaded ''scratchpad'' key True (Some (Plain v))) (stamp k3))"
proof -
  have pre: "workspace_prefix c3 = workspace_prefix c1" "scratchpad_prefix c3 = scratchpad_prefix c1"
    using assms(4,5) by (simp_all add: workspace_prefix_def scratchpad_prefix_def)
  show ?thesis
    using assms(1-3) pre
    by (simp add: saveWorkspace_def saveScratchpad_def clearMemory_def loadWorkspace_def loadScratchpad_def in_context_def
        completed_op_def case_prod_unfold Let_def)
qed

theorem clear_keeps_saved_values_witness:
  "snd (loadWorkspace sample_call ''k'' (fst (clearMemory sample_call ''workspace'' (fst (saveWorkspace sample_call ''k'' (JNum 1) sample_memory)))))
     = completed_op (MemoryLoaded ''workspace'' ''k'' True (Some (Plain (JNum 1)))) (stamp sample_call)"
proof -
  obtain c where c: "buildMemoryContext (mk_context sample_call) = Inr c" using sample_context by blast
  show ?thesis using clear_keeps_saved_values [OF c c c refl refl] by (simp add: Let_def)
qed

section \<open>The scheduler agent\<close>

lemma js_set_longer: "length m \<le> length (js_set k v m)"
  by (simp add: length_js_set)

text \<open>What a sequence of executions without a cancellation does to the running tasks: it adds to them.\<close>

lemma promote_running [simp]:
  "runningTasksMap (promoteWaitingTasks s) = runningTasksMap s" "maxConcurrency (promoteWaitingTasks s) = maxConcurrency s"
  using promote_effect [of s] by metis+

lemma dequeue_running:
  "length (runningTasksMap s) \<le> length (runningTasksMap (fst (dequeue now s)))" "maxConcurrency (fst (dequeue now s)) = maxConcurrency s"
proof -
  have "length (runningTasksMap s) \<le> length (runningTasksMap (fst (dequeue now s))) \<and> maxConcurrency (fst (dequeue now s)) = maxConcurrency s"
  proof (cases "isPaused s \<or> int (length (runningTasksMap s)) \<ge> maxConcurrency s")
    case False
    obtain t x where n: "next_by_strategy (promoteWaitingTasks s) = (t, x)" by (rule prod.exhaust)
    show ?thesis
    proof (cases x)
      case None
      then show ?thesis using n False next_by_strategy_None [of "promoteWaitingTasks s" t] by (simp add: dequeue_def)
    next
      case (Some r)
      obtain k where "t = (promoteWaitingTasks s)\<lparr>priorityQueue := splice_out k (priorityQueue (promoteWaitingTasks s))\<rparr>"
        using next_by_strategy_Some [OF n [unfolded Some]] by metis
      then show ?thesis using n False Some by (simp add: dequeue_def start_task_def Let_def js_set_longer)
    qed
  qed (simp add: dequeue_def)
  then show "length (runningTasksMap s) \<le> length (runningTasksMap (fst (dequeue now s)))" "maxConcurrency (fst (dequeue now s)) = maxConcurrency s"
    by simp_all
qed

definition starved :: "scheduler_agent \<Rightarrow> bool" where
  "starved g \<longleftrightarrow> int (length (runningTasksMap (sg_scheduler g))) \<ge> maxConcurrency (sg_scheduler g)"

lemma starved_kept:
  assumes "starved g" "op \<noteq> ''cancel''"
  shows "starved (fst (scheduler_run now op input g))"
proof (cases input)
  case None
  then show ?thesis using assms by (simp add: scheduler_run_def)
next
  case (Some i)
  have sched: "starved (fst (sa_scheduleTask now r g))" for r
    using assms(1) schedule_running [of r "sg_scheduler g"]
    by (cases "schedule r (sg_scheduler g)")
      (auto simp: sa_scheduleTask_def starved_def with_scheduler_def Let_def split: option.split sum.split)
  have enq: "starved (fst (sa_enqueueTasks now rs g))" for rs
    using assms(1) enqueue_running [of rs "sg_scheduler g"]
    by (cases "enqueue rs (sg_scheduler g)")
      (auto simp: sa_enqueueTasks_def starved_def with_scheduler_def split: option.split sum.split)
  have deq: "starved (fst (sa_dequeueTask now g))"
    using assms(1) dequeue_running [where s = "sg_scheduler g" and now = now]
    by (cases "dequeue now (sg_scheduler g)") (auto simp: sa_dequeueTask_def starved_def with_scheduler_def)
  have rest: "starved (fst (sa_pauseScheduler now g))" "starved (fst (sa_resumeScheduler now g))" "starved (fst (sa_getSchedulerMetrics now g))"
    using assms(1) by (simp_all add: sa_pauseScheduler_def sa_resumeScheduler_def sa_getSchedulerMetrics_def starved_def with_scheduler_def
        sched_pause_def sched_resume_def Let_def)
  show ?thesis using Some assms sched enq deq rest by (simp add: scheduler_run_def)
qed

definition scheduler_executions :: "(time_ms \<times> time_ms \<times> scheduler_input option) list \<Rightarrow> agent_shell \<times> scheduler_agent \<Rightarrow> agent_shell \<times> scheduler_agent" where
  "scheduler_executions = fold (\<lambda>(t0, t1, input) st. fst (scheduler_execute t0 t1 input st))"

lemma starved_executions:
  assumes "starved (snd st)" "shell_ok scheduler_operations (fst st)"
    "list_all (\<lambda>(t0, t1, input). scheduler_op_of input \<noteq> Some (JStr ''cancel'')) calls"
  shows "starved (snd (scheduler_executions calls st)) \<and> shell_ok scheduler_operations (fst (scheduler_executions calls st))"
  using assms
proof (induction calls arbitrary: st)
  case (Cons call calls)
  obtain t0 t1 input where call: "call = (t0, t1, input)" by (rule prod_cases3)
  obtain sh g where st: "st = (sh, g)" by (rule prod.exhaust)
  let ?st = "fst (scheduler_execute t0 t1 input st)"
  obtain sh1 g1 a where ex: "scheduler_execute t0 t1 input (sh, g) = ((sh1, g1), a)" by (metis prod.collapse)
  have "shell_ok scheduler_operations sh" using Cons.prems(2) st by simp
  from scheduler.execute_contract(1) [OF this ex [unfolded scheduler_execute_def]]
  have "shell_ok scheduler_operations (fst ?st)" using ex st by simp
  moreover have "starved (snd ?st)"
  proof (cases "scheduler_parse input")
    case (Inr op)
    then have "op \<noteq> ''cancel''" using scheduler.parse_known [OF Inr] Cons.prems(3) call by auto
    then show ?thesis
      using starved_kept [of g op t0 input] Cons.prems(1) st Inr by (simp add: scheduler_execute_def shell_execute_state)
  qed (use Cons.prems(1) st in \<open>simp add: scheduler_execute_def shell_execute_state\<close>)
  ultimately show ?case using Cons.IH [of ?st] Cons.prems(3) call by (simp add: scheduler_executions_def)
qed (simp add: scheduler_executions_def)

text \<open>C36: Once as many tasks run as the scheduler allows, the scheduler agent hands out no further task, whatever it is
  asked to do but cancel: no operation of it completes a task.\<close>

theorem scheduler_agent_starves:
  assumes "shell_ok scheduler_operations sh"
    "int (length (runningTasksMap (sg_scheduler g))) \<ge> maxConcurrency (sg_scheduler g)"
    "list_all (\<lambda>(t0, t1, input). scheduler_op_of input \<noteq> Some (JStr ''cancel'')) calls"
    "si_operation input = Some (JStr ''dequeue'')"
  shows "(\<exists>a. snd (scheduler_execute t0 t1 (Some input) (scheduler_executions calls (sh, g))) = Some a
    \<and> aw_success a \<and> aw_output a = Some (TaskDequeued None t0))"
proof -
  obtain sh1 g1 where st: "scheduler_executions calls (sh, g) = (sh1, g1)" by (rule prod.exhaust)
  have ok: "shell_ok scheduler_operations sh1" and full: "starved g1"
    using starved_executions [of "(sh, g)" calls] assms(1-3) st by (simp_all add: starved_def)
  have parse: "scheduler_parse (Some input) = Inr ''dequeue''"
    using assms(4) by (simp add: scheduler_parse_def shell_parse_def parse_operation_def scheduler_operations_def checked_def)
  have "dequeue t0 (sg_scheduler g1) = (sg_scheduler g1, None)" using full by (simp add: dequeue_def starved_def)
  then obtain g2 md where run: "scheduler_run t0 ''dequeue'' (Some input) g1
      = (g2, Inr \<lparr>op_success = True, op_error = None, op_value = TaskDequeued None t0, op_metadata = md\<rparr>)"
    by (auto simp: scheduler_run_def sa_dequeueTask_def completed_op_def)
  from scheduler.execute_good [where run = "scheduler_run t0" and agent = "''scheduler-agent''" and started = t0 and ended = t1,
      OF ok parse run]
  show ?thesis by (auto simp: st scheduler_execute_def good_answer_def)
qed

definition ask_scheduler :: "string \<Rightarrow> scheduler_input" where
  "ask_scheduler op = \<lparr>si_operation = Some (JStr op), si_task = None, si_tasks = None, si_taskId = JUndefined\<rparr>"

theorem scheduler_agent_starves_witness:
  "\<exists>a. snd (scheduler_execute 3 4 (Some (ask_scheduler ''dequeue''))
      (scheduler_executions [(1, 2, Some (ask_scheduler ''resume''))] (new_shell scheduler_operations 0, new_scheduler_agent demo_running))) = Some a
    \<and> aw_success a \<and> aw_output a = Some (TaskDequeued None 3)"
proof (rule scheduler_agent_starves [OF new_shell_ok])
  have "length (map fst (runningTasksMap demo_running)) = 2" using demo_running_queues by simp
  moreover have "maxConcurrency demo_running = 2"
    by (simp add: demo_running_def demo_loaded_def demo_new_def new_scheduler_def dequeue_running(2) del: enqueue.simps)
  ultimately show "maxConcurrency (sg_scheduler (new_scheduler_agent demo_running))
      \<le> int (length (runningTasksMap (sg_scheduler (new_scheduler_agent demo_running))))"
    by (simp add: new_scheduler_agent_def)
qed (simp_all add: ask_scheduler_def scheduler_op_of_def shell_op_of_def)

section \<open>A failure is final\<close>

text \<open>After an execution of the planner agent that is answered without output its health is unhealthy, whatever it
  executes afterwards.\<close>

theorem failed_execution_is_final:
  assumes "shell_ok planner_operations sh" "planner_execute k t0 t1 input (sh, g) = (st, Some a)" "aw_output a = None"
  shows "sl_status (planner_getHealth now available (shell_executions ''planner-agent'' planner_op_of planner_parse calls st)) = Unhealthy"
proof -
  obtain sh1 g1 where st: "st = (sh1, g1)" by (rule prod.exhaust)
  have ex: "shell_execute ''planner-agent'' planner_op_of planner_parse (planner_run k) t0 t1 input (sh, g) = ((sh1, g1), Some a)"
    using assms(2) st by (simp add: planner_execute_def)
  have "ah_errors sh1 \<noteq> []" and ok: "shell_ok planner_operations (fst (sh1, g1))"
    using planner.execute_contract(1,5) [OF assms(1) ex] assms(3) by auto
  then have "ah_errors (fst (shell_executions ''planner-agent'' planner_op_of planner_parse calls (sh1, g1))) \<noteq> []"
    using planner.executions_grow [OF ok] by (metis fst_conv prefix_Nil)
  then show ?thesis
    by (simp add: st planner_getHealth_def shell_getHealth_def shell_health_status_def case_prod_unfold)
qed

definition no_plan :: planner_input where
  "no_plan = \<lparr>pi_operation = Some (JStr ''validate''), pi_agentId = JUndefined, pi_workspaceId = JUndefined, pi_name = JUndefined,
     pi_description = None, pi_priority = Normal, pi_tasks = None, pi_executionMode = None, pi_maxConcurrency = None,
     pi_timeoutMs = None, pi_metadata = [], pi_existingPlan = None, pi_modifications = None, pi_reason = None, pi_plan = None,
     pi_strict = None, pi_includeTaskBreakdown = False\<rparr>"

definition sample_planner_call :: planner_call where
  "sample_planner_call = \<lparr>pk_planId = ''p'', pk_taskIds = (\<lambda>n. nat_digits n), pk_now = 1, pk_context = mk_context sample_call\<rparr>"

theorem failed_execution_is_final_witness:
  "sl_status (planner_getHealth 9 True
     (fst (planner_execute sample_planner_call 1 2 (Some no_plan) (new_shell planner_operations 0, new_planner_agent)))) = Unhealthy"
proof -
  let ?m = "invalid_planner_operation ''validate'' ''Plan is required for validate/estimate operations''"
  have parse: "planner_parse (Some no_plan) = Inl ?m"
    by (simp add: planner_parse_def shell_parse_def parse_operation_def planner_operations_def checked_def no_plan_def)
  have known: "\<not> unknown_operation planner_operations (planner_op_of (Some no_plan))"
    by (simp add: unknown_operation_def planner_op_of_def shell_op_of_def no_plan_def planner_operations_def)
  obtain sh1 where ex: "planner_execute sample_planner_call 1 2 (Some no_plan) (new_shell planner_operations 0, new_planner_agent)
      = ((sh1, new_planner_agent), Some (failed_answer ''planner-agent'' 1 2 ?m))"
    using planner.execute_refused [OF new_shell_ok parse known, of "''planner-agent''" "planner_run sample_planner_call" 1 2 0 new_planner_agent]
    unfolding planner_execute_def by (rule exE)
  have "aw_output (failed_answer ''planner-agent'' 1 2 ?m :: planner_value agent_answer) = None" by (simp add: failed_answer_def)
  from failed_execution_is_final [OF new_shell_ok ex this, of 9 True "[]"] show ?thesis
    by (simp only: ex shell_executions_def fold_Nil id_apply fst_conv)
qed

end
