(* ===== verification/Workflow_Runs.thy ===== *)
theory Workflow_Runs
  imports Workflow_Engine Workflow_Props
begin

text \<open>
  What holds of executions of the workflow engine: they end, since a registered workflow has no step inside a step of
  its own id; what a sequence of tasks gives; that a resumed execution starts over; and how a cancellation ends.
\<close>

section \<open>No step is its own ancestor\<close>

fun anc_free :: "workflow_step list \<Rightarrow> bool" where
  "anc_free [] = True"
| "anc_free (Step i ns # sts) =
     ((case ns of None \<Rightarrow> True | Some xs \<Rightarrow> stepId i \<notin> set (all_ids xs) \<and> anc_free xs) \<and> anc_free sts)"

lemma validateNested_anc_free:
  "validateNestedSteps sts parents seen = None \<Longrightarrow> anc_free sts \<and> set (all_ids sts) \<inter> set parents = {}"
proof (induction sts parents seen rule: validateNestedSteps.induct)
  case (2 i ns sts parents seen)
  then show ?case by (cases ns) (auto simp: Let_def split: if_splits option.splits)
qed simp

lemma validate_roots_anc_free: "validate_roots all seen sts = None \<Longrightarrow> anc_free sts"
proof (induction all seen sts rule: validate_roots.induct)
  case (2 all seen i ns sts)
  then show ?case
    using validateNested_anc_free by (cases ns) (fastforce simp: Let_def split: if_splits option.splits)+
qed simp

text \<open>The place of the first step of an id in postorder, counted from \<open>n\<close>.\<close>

fun locate :: "nat \<Rightarrow> string \<Rightarrow> workflow_step list \<Rightarrow> nat option" where
  "locate n k [] = None"
| "locate n k (Step i ns # sts) =
     (let m = n + (case ns of None \<Rightarrow> 0 | Some xs \<Rightarrow> countTotalSteps xs) in
      if stepId i = k then Some m
      else case (case ns of None \<Rightarrow> None | Some xs \<Rightarrow> locate n k xs) of
             Some r \<Rightarrow> Some r
           | None \<Rightarrow> locate (Suc m) k sts)"

lemma locate_range: "locate n k sts = Some r \<Longrightarrow> n \<le> r \<and> r < n + countTotalSteps sts"
proof (induction n k sts rule: locate.induct)
  case (2 n k i ns sts)
  then show ?case by (cases ns) (fastforce simp: Let_def split: if_splits option.splits)+
qed simp

lemma locate_None: "locate n k sts = None \<longleftrightarrow> k \<notin> set (all_ids sts)"
proof (induction sts arbitrary: n rule: anc_free.induct)
  case (2 i ns sts)
  have "(locate n k xs = None) = (k \<notin> set (all_ids xs))" if "ns = Some xs" for xs using "2.IH"(1) [OF that] .
  then show ?case using "2.IH"(2) by (cases ns) (auto simp: Let_def split: option.split)
qed simp

lemma step_id_all_ids: "c \<in> set sts \<Longrightarrow> step_id c \<in> set (all_ids sts)"
  by (induction sts rule: all_ids.induct) auto

text \<open>The steps inside a step come before it.\<close>

lemma nested_located_before:
  assumes "anc_free sts" "findStep k sts = Some (Step i (Some ns))" "c \<in> set ns"
  shows "\<exists>r r'. locate n k sts = Some r \<and> locate n (step_id c) sts = Some r' \<and> r' < r"
  using assms
proof (induction sts arbitrary: n rule: anc_free.induct)
  case (2 j ms sts)
  let ?m = "n + (case ms of None \<Rightarrow> 0 | Some xs \<Rightarrow> countTotalSteps xs)"
  show ?case
  proof (cases "stepId j = k")
    case True
    then have ns: "ms = Some ns" "j = i" using "2.prems"(2) by simp_all
    have c: "step_id c \<in> set (all_ids ns)" using step_id_all_ids [OF "2.prems"(3)] .
    then have ne: "stepId j \<noteq> step_id c" using "2.prems"(1) ns by auto
    obtain r' where r': "locate n (step_id c) ns = Some r'" using c locate_None by blast
    then have "r' < ?m" using locate_range [OF r'] ns by simp
    then show ?thesis using True ns ne r' by (simp add: Let_def)
  next
    case False
    show ?thesis
    proof (cases "\<exists>xs. ms = Some xs \<and> findStep k xs \<noteq> None")
      case True
      then obtain xs where xs: "ms = Some xs" "findStep k xs = Some (Step i (Some ns))" using "2.prems"(2) False by auto
      have free: "anc_free xs" "stepId j \<notin> set (all_ids xs)" using "2.prems"(1) xs(1) by simp_all
      obtain r r' where r: "locate n k xs = Some r" "locate n (step_id c) xs = Some r'" "r' < r"
        using "2.IH"(1) [OF xs(1) free(1) xs(2) "2.prems"(3)] by blast
      have "stepId j \<noteq> step_id c" using locate_None [of n "step_id c" xs] r(2) free(2) by auto
      then show ?thesis using False xs(1) r by (simp add: Let_def)
    next
      case none: False
      then have sts: "findStep k sts = Some (Step i (Some ns))" using "2.prems"(2) False by (auto split: option.splits)
      have "anc_free sts" using "2.prems"(1) by simp
      then obtain r r' where r: "locate (Suc ?m) k sts = Some r" "locate (Suc ?m) (step_id c) sts = Some r'" "r' < r"
        using "2.IH"(2) [OF _ sts "2.prems"(3)] by blast
      have "?m < r" using locate_range [OF r(1)] by simp
      moreover have "s < ?m" if "ms = Some xs" "locate n (step_id c) xs = Some s" for xs s
        using locate_range [OF that(2)] that(1) by simp
      moreover have "(case ms of None \<Rightarrow> None | Some xs \<Rightarrow> locate n k xs) = None"
        using none findStep_all_ids locate_None by (auto split: option.split)
      ultimately show ?thesis using False r by (cases ms) (fastforce simp: Let_def split: option.split)+
    qed
  qed
qed simp

section \<open>Executions end\<close>

text \<open>Two executors that agree on the steps of a run, and keep the execution's workflow, give the same run.\<close>

definition agree :: "string \<Rightarrow> string set \<Rightarrow> unit run_ext exec_fn \<Rightarrow> unit run_ext exec_fn \<Rightarrow> bool" where
  "agree wid K x y \<longleftrightarrow> (\<forall>k \<in> K. \<forall>e. we_workflowId e = wid \<longrightarrow> x k e = y k e \<and> we_workflowId (fst (x k e)) = wid)"

lemma agree_subset: "agree wid K x y \<Longrightarrow> J \<subseteq> K \<Longrightarrow> agree wid J x y"
  unfolding agree_def by blast

lemma agreeD: "agree wid K x y \<Longrightarrow> k \<in> K \<Longrightarrow> we_workflowId e = wid \<Longrightarrow> y k e = x k e \<and> we_workflowId (fst (x k e)) = wid"
  unfolding agree_def by metis

lemma run_fields [simp]:
  "we_workflowId (push_completed k e) = we_workflowId e" "we_workflowId (count_failed k e) = we_workflowId e"
  by (simp_all add: push_completed_def count_failed_def)

lemma try_step_agree:
  assumes "agree wid K x y" "k \<in> K" "we_workflowId e = wid"
  shows "try_step y k e = try_step x k e \<and> we_workflowId (fst (try_step x k e)) = wid"
proof -
  have "y k (e\<lparr>currentStepId := Some k\<rparr>) = x k (e\<lparr>currentStepId := Some k\<rparr>)"
    "we_workflowId (fst (x k (e\<lparr>currentStepId := Some k\<rparr>))) = wid"
    using agreeD [OF assms(1,2), of "e\<lparr>currentStepId := Some k\<rparr>"] assms(3) by simp_all
  then show ?thesis
    by (cases "x k (e\<lparr>currentStepId := Some k\<rparr>)") (auto simp: try_step_def Let_def split: sum.splits)
qed

lemma sequential_agree:
  assumes "agree wid (set ks) x y" "we_workflowId e = wid"
  shows "runSequential y ks e = runSequential x ks e \<and> we_workflowId (fst (runSequential x ks e)) = wid"
  using assms
proof (induction ks arbitrary: e)
  case (Cons k ks)
  have ag: "agree wid (set ks) x y" by (rule agree_subset [OF Cons.prems(1)]) auto
  obtain e1 res where t: "try_step x k e = (e1, res)" by (rule prod.exhaust)
  have eq: "try_step y k e = (e1, res)" "we_workflowId e1 = wid"
    using try_step_agree [OF Cons.prems(1) _ Cons.prems(2), of k] t by simp_all
  show ?case
    using t eq Cons.IH [OF ag, of e1] Cons.IH [OF ag, of "count_failed k e1"] Cons.prems(2)
    by (cases res) (simp_all add: Let_def)
qed simp

lemma conditional_agree:
  assumes "agree wid (set ts \<union> set es) x y" "we_workflowId e = wid"
  shows "runConditional y ev c ts es e = runConditional x ev c ts es e \<and> we_workflowId (fst (runConditional x ev c ts es e)) = wid"
proof -
  have ag: "agree wid (set ts) x y" "agree wid (set es) x y" by (rule agree_subset [OF assms(1)], simp)+
  show ?thesis
    using sequential_agree [OF ag(1) assms(2)] sequential_agree [OF ag(2) assms(2)] assms(2)
    by (auto simp: runConditional_def Let_def split: sum.splits prod.splits)
qed

lemma loop_run_agree:
  assumes "agree wid (set ks) x y" "we_workflowId e = wid"
  shows "loop_run y ev l ks m n e = loop_run x ev l ks m n e \<and> we_workflowId (fst (loop_run x ev l ks m n e)) = wid"
  using assms(2)
proof (induction n arbitrary: e)
  case (Suc n)
  let ?e = "e\<lparr>we_variables := js_spread (we_variables e) [(''loopIteration'', JNum (m - int (Suc n))), (''loopMaxIterations'', JNum m)]\<rparr>"
  have w: "we_workflowId ?e = wid" using Suc.prems by simp
  obtain e2 res where r: "runSequential x ks ?e = (e2, res)" by (rule prod.exhaust)
  have eq: "runSequential y ks ?e = (e2, res)" "we_workflowId e2 = wid"
    using sequential_agree [OF assms(1) w] unfolding r by auto
  have w2: "we_workflowId (e2\<lparr>failureCount := Suc (failureCount e2)\<rparr>) = wid" using eq(2) by simp
  show ?case
    using r eq Suc.IH [OF eq(2)] Suc.IH [OF w2] Suc.prems
    by (cases res) (simp_all add: Let_def split: sum.split bool.split)
qed simp

lemma loop_agree:
  assumes "agree wid (set ks) x y" "we_workflowId e = wid"
  shows "runLoop y ev l ks e = runLoop x ev l ks e \<and> we_workflowId (fst (runLoop x ev l ks e)) = wid"
  using loop_run_agree [OF assms, of ev l "max_iterations l" "nat (max_iterations l)"]
  by (auto simp: runLoop_def split: sum.split prod.split)

text \<open>What runs beside a parallel run does not move an execution to another workflow.\<close>

definition keeps_workflow :: "engine_env \<Rightarrow> bool" where
  "keeps_workflow env \<longleftrightarrow> (\<forall>ks e. list_all (\<lambda>(k, f, res). \<forall>e. we_workflowId (f e) = we_workflowId e) (ee_settled env ks e))"

lemma settle_workflow: "(\<forall>e. we_workflowId (f e) = we_workflowId e) \<Longrightarrow> we_workflowId (settle (k, f, res) e) = we_workflowId e"
  by (simp add: settle_def split: sum.split)

lemma parallel_workflow:
  assumes "keeps_workflow env"
  shows "we_workflowId (fst (runParallel (ee_settled env ks e0) ids e)) = we_workflowId e"
proof -
  have "we_workflowId (fold settle sets e) = we_workflowId e"
    if "list_all (\<lambda>(k, f, res). \<forall>e. we_workflowId (f e) = we_workflowId e) sets" for sets :: "unit run_ext settlement list" and e
    using that
  proof (induction sets arbitrary: e)
    case (Cons x xs)
    obtain k f res where x: "x = (k, f, res)" by (rule prod_cases3)
    show ?case using Cons.IH [of "settle x e"] Cons.prems settle_workflow [of f k res e] x by simp
  qed simp
  then show ?thesis using assms by (simp add: runParallel_def Let_def keeps_workflow_def)
qed

lemma interrupts_workflow [simp]: "we_workflowId (fold interrupt xs e) = we_workflowId e"
  by (induction xs arbitrary: e) (simp_all add: interrupt_def split: interruption.split)

lemma nested_output_agree: "we_workflowId (fst (nested_output mark r)) = we_workflowId (fst r)"
  by (simp add: nested_output_def split: prod.split sum.split)

lemma step_work_agree:
  assumes "keeps_workflow env" "we_workflowId e = wid"
    "\<And>ns. nested st = Some ns \<Longrightarrow> agree wid (step_id ` set ns) x y"
  shows "step_work env y st input e = step_work env x st input e \<and> we_workflowId (fst (step_work env x st input e)) = wid"
proof (cases "nested st")
  case None
  then show ?thesis
    using assms(2) by (auto simp: step_work_def Let_def nested_output_agree split: step_type.split option.split)
next
  case (Some ns)
  have ag: "agree wid (set (map step_id ns)) x y" "agree wid (set (on_branch ''then'' ns) \<union> set (on_branch ''else'' ns)) x y"
    using assms(3) [OF Some] by (auto intro: agree_subset simp: on_branch_def)
  have loop: "runLoop y ev l (map step_id ns) e = runLoop x ev l (map step_id ns) e
      \<and> we_workflowId (fst (runLoop x ev l (map step_id ns) e)) = wid" for ev l
    using loop_agree [OF ag(1) assms(2)] .
  have cond: "runConditional y ev c (on_branch ''then'' ns) (on_branch ''else'' ns) e = runConditional x ev c (on_branch ''then'' ns) (on_branch ''else'' ns) e
      \<and> we_workflowId (fst (runConditional x ev c (on_branch ''then'' ns) (on_branch ''else'' ns) e)) = wid" for ev c
    using conditional_agree [OF ag(2) assms(2)] .
  show ?thesis
    using assms(2) Some sequential_agree [OF ag(1) assms(2)] loop cond parallel_workflow [OF assms(1)]
    by (cases "step_type (step_info st)") (simp_all add: step_work_def Let_def nested_output_agree split: option.split)
qed

lemma findStep_nested: "findStep k sts = Some (Step i ns) \<Longrightarrow> stepId i = k"
  by (induction k sts rule: findStep.induct) (auto split: if_splits option.splits)

text \<open>An execution to a depth beyond a step's place does not depend on what is deeper.\<close>

lemma executeStep_depth:
  assumes "find_workflow r wid = Some w" "anc_free (wf_steps w)" "keeps_workflow env"
  shows "locate 0 k (wf_steps w) = Some p \<Longrightarrow> p < n \<Longrightarrow> p < m \<Longrightarrow> we_workflowId e = wid
    \<Longrightarrow> executeStep env r b m k e = executeStep env r a n k e \<and> we_workflowId (fst (executeStep env r a n k e)) = wid"
proof (induction p arbitrary: k n m e rule: less_induct)
  case (less p)
  obtain n' m' where nm: "n = Suc n'" "m = Suc m'" using less.prems(2,3) by (metis not_less_zero old.nat.exhaust)
  obtain st where st: "findStep k (wf_steps w) = Some st" using less.prems(1) findStep_all_ids locate_None by (metis not_None_eq)
  let ?x = "executeStep env r a n'" and ?y = "executeStep env r b m'"
  let ?e0 = "fold interrupt (ee_meanwhile env k e) e"
  have ag: "agree wid (step_id ` set ns) ?x ?y" if ns: "nested st = Some ns" for ns
    unfolding agree_def
  proof (intro ballI allI impI)
    fix j and f :: run
    assume j: "j \<in> step_id ` set ns" and f: "we_workflowId f = wid"
    then obtain c where c: "c \<in> set ns" "j = step_id c" by blast
    obtain i where i: "st = Step i (Some ns)" using ns by (cases st) auto
    obtain q where q: "locate 0 j (wf_steps w) = Some q" "q < p"
      using nested_located_before [OF assms(2) st [unfolded i] c(1), of 0] less.prems(1) c(2) by auto
    have "q < n'" "q < m'" using q(2) less.prems(2,3) nm by simp_all
    from less.IH [OF q(2) q(1) this f] show "?x j f = ?y j f \<and> we_workflowId (fst (?x j f)) = wid" by simp
  qed
  have "we_workflowId ?e0 = wid" using less.prems(4) by simp
  then have "step_work env ?y st (getStepInput ?e0) ?e0 = step_work env ?x st (getStepInput ?e0) ?e0
      \<and> we_workflowId (fst (step_work env ?x st (getStepInput ?e0) ?e0)) = wid"
    using ag by (rule step_work_agree [OF assms(3)])
  then show ?case
    using assms(1) less.prems(4) st by (simp add: nm step_call_def Let_def case_prod_unfold)
qed

lemma registered_valid: "wreg_reachable r \<Longrightarrow> js_get (workflows r) i = Some w \<Longrightarrow> validateWorkflowStructure w = None \<and> workflowId w = i"
proof (induction arbitrary: i w rule: wreg_reachable.induct)
  case (wr_more r s)
  from wr_more.hyps(2) show ?case
  proof cases
    case (wr_register v)
    then show ?thesis using wr_more.IH wr_more.prems
      by (auto simp: register_workflow_def Let_def split: if_splits option.splits)
  next
    case (wr_remove j)
    then show ?thesis using wr_more.IH wr_more.prems
      by (auto simp: remove_workflow_def Let_def split: option.splits if_splits)
  next
    case (wr_list cmp n)
    then show ?thesis using wr_more.IH wr_more.prems by (auto simp: listByVersion_def Let_def split: if_splits)
  next
    case wr_clear
    then show ?thesis using wr_more.prems by (simp add: clear_workflows_def)
  qed
qed (simp add: new_registry_def)

lemma registered_steps:
  assumes "wreg_reachable r" "find_workflow r wid = Some w"
  shows "anc_free (wf_steps w)" "wf_steps w \<noteq> []"
proof -
  have v: "validateWorkflowStructure w = None" using registered_valid assms by (simp add: find_workflow_def)
  then have "validate_roots (wf_steps w) [] (wf_steps w) = None"
    by (auto simp: validateWorkflowStructure_def first_some_def split: if_splits option.splits)
  then show "anc_free (wf_steps w)" by (rule validate_roots_anc_free)
  show "wf_steps w \<noteq> []" using v by (auto simp: validateWorkflowStructure_def split: if_splits)
qed


section \<open>Sequences of tasks\<close>

text \<open>A workflow whose steps are tasks, none of them with steps of its own, executed one after the other.\<close>

definition task_sequence :: "workflow_definition \<Rightarrow> bool" where
  "task_sequence w \<longleftrightarrow> wf_executionMode w \<noteq> WfParallel
     \<and> list_all (\<lambda>st. step_type (step_info st) = StTask \<and> nested st = None) (wf_steps w)"

lemma flat_findStep:
  "list_all (\<lambda>st. nested st = None) sts \<Longrightarrow> distinct (map step_id sts) \<Longrightarrow> st \<in> set sts \<Longrightarrow> findStep (step_id st) sts = Some st"
proof (induction sts)
  case (Cons a sts)
  obtain i ns where a: "a = Step i ns" by (cases a)
  show ?case using Cons a by (cases "st = a") (auto split: option.split)
qed simp

lemma validate_roots_distinct:
  "validate_roots all seen sts = None \<Longrightarrow> distinct (map step_id sts) \<and> set (map step_id sts) \<inter> set seen = {}"
proof (induction all seen sts rule: validate_roots.induct)
  case (2 all seen i ns sts)
  then show ?case by (fastforce simp: Let_def split: if_splits option.splits)
qed simp

lemma registered_distinct:
  assumes "wreg_reachable r" "find_workflow r wid = Some w"
  shows "distinct (map step_id (wf_steps w))"
proof -
  have "validateWorkflowStructure w = None" using registered_valid assms by (simp add: find_workflow_def)
  then have "validate_roots (wf_steps w) [] (wf_steps w) = None"
    by (auto simp: validateWorkflowStructure_def first_some_def split: if_splits option.splits)
  then show ?thesis using validate_roots_distinct by blast
qed

text \<open>The execution of a task, and what it leaves in the execution.\<close>

definition task_done :: "engine_env \<Rightarrow> workflow_definition \<Rightarrow> workflow_step \<Rightarrow> run \<Rightarrow> step_execution" where
  "task_done env w st e =
     \<lparr>se_stepId = step_id st, se_state = WfCompleted, se_input = getStepInput e,
      se_output = executeTaskStep (ee_started env) (step_info st) (getStepInput e), se_error = None,
      se_maxAttempts = max_attempts w (step_info st)\<rparr>"

definition after_task :: "engine_env \<Rightarrow> workflow_definition \<Rightarrow> workflow_step \<Rightarrow> run \<Rightarrow> run" where
  "after_task env w st e =
     (let e0 = fold interrupt (ee_meanwhile env (step_id st) (e\<lparr>currentStepId := Some (step_id st)\<rparr>)) (e\<lparr>currentStepId := Some (step_id st)\<rparr>)
      in push_completed (step_id st) (e0\<lparr>run_steps := js_set (step_id st) (task_done env w st e0) (run_steps e0)\<rparr>))"

lemma task_step:
  assumes "find_workflow r wid = Some w" "task_sequence w" "distinct (map step_id (wf_steps w))"
    "st \<in> set (wf_steps w)" "we_workflowId e = wid"
  shows "try_step (executeStep env r b (step_depth w)) (step_id st) e = (after_task env w st e, Inr ())"
proof -
  have "findStep (step_id st) (wf_steps w) = Some st"
    using assms(2-4) by (intro flat_findStep) (auto simp: task_sequence_def list_all_iff)
  moreover have "step_type (step_info st) = StTask" using assms(2,4) by (auto simp: task_sequence_def list_all_iff)
  ultimately show ?thesis
    using assms(1,5) by (simp add: try_step_def step_depth_def step_call_def step_work_def Let_def after_task_def task_done_def)
qed

lemma interrupts_keep [simp]:
  "completedSteps (fold interrupt xs e) = completedSteps e" "run_steps (fold interrupt xs e) = run_steps e"
  "we_input (fold interrupt xs e) = we_input e" "we_output (fold interrupt xs e) = we_output e"
  "executionId (fold interrupt xs e) = executionId e" "currentStepId (fold interrupt xs e) = currentStepId e"
  by (induction xs arbitrary: e) (simp_all add: interrupt_def split: interruption.split)

lemma after_task_fields [simp]:
  "completedSteps (after_task env w st e) = completedSteps e @ [step_id st]"
  "we_workflowId (after_task env w st e) = we_workflowId e" "we_output (after_task env w st e) = we_output e"
  "we_input (after_task env w st e) = we_input e" "executionId (after_task env w st e) = executionId e"
  by (simp_all add: after_task_def push_completed_def Let_def)

lemma after_tasks_fields:
  "completedSteps (fold (after_task env w) sts e) = completedSteps e @ map step_id sts"
  "we_workflowId (fold (after_task env w) sts e) = we_workflowId e" "we_output (fold (after_task env w) sts e) = we_output e"
  "executionId (fold (after_task env w) sts e) = executionId e"
  by (induction sts arbitrary: e) simp_all

text \<open>Nothing interrupts these steps.\<close>

definition quiet_on :: "engine_env \<Rightarrow> workflow_step list \<Rightarrow> bool" where
  "quiet_on env sts \<longleftrightarrow> list_all (\<lambda>st. \<forall>e. ee_meanwhile env (step_id st) e = []) sts"

lemma quiet_state: "quiet_on env [st] \<Longrightarrow> we_state (after_task env w st e) = we_state e"
  by (simp add: quiet_on_def after_task_def push_completed_def Let_def)

lemma quiet_states: "quiet_on env sts \<Longrightarrow> we_state (fold (after_task env w) sts e) = we_state e"
  by (induction sts arbitrary: e) (simp_all add: quiet_on_def quiet_state)

lemma tasks_run:
  assumes "find_workflow r wid = Some w" "task_sequence w" "distinct (map step_id (wf_steps w))"
    "set sts \<subseteq> set (wf_steps w)" "quiet_on env sts" "we_workflowId e = wid" "we_state e = WfRunning"
  shows "runSequential (executeStep env r b (step_depth w)) (map step_id sts @ rest) e
    = runSequential (executeStep env r b (step_depth w)) rest (fold (after_task env w) sts e)"
  using assms(4-7)
proof (induction sts arbitrary: e)
  case (Cons st sts)
  have t: "try_step (executeStep env r b (step_depth w)) (step_id st) e = (after_task env w st e, Inr ())"
    using Cons.prems by (intro task_step [OF assms(1-3)]) auto
  have "quiet_on env [st]" "quiet_on env sts" using Cons.prems(2) by (simp_all add: quiet_on_def)
  then show ?case using t Cons.IH [of "after_task env w st e"] Cons.prems quiet_state by simp
qed simp

text \<open>What each task of a sequence gives: the output of the one before is its input.\<close>

fun task_outputs :: "time_ms \<Rightarrow> jsval \<Rightarrow> workflow_step list \<Rightarrow> js_record" where
  "task_outputs now v [] = []"
| "task_outputs now v (st # sts) =
     (let out = executeTaskStep now (step_info st) v in (step_id st, out) # task_outputs now out sts)"

definition step_outputs :: "run \<Rightarrow> js_record" where
  "step_outputs e = map (\<lambda>(k, se). (k, se_output se)) (run_steps e)"

lemma getStepInput_cong:
  "completedSteps a = completedSteps b \<Longrightarrow> run_steps a = run_steps b \<Longrightarrow> we_input a = we_input b \<Longrightarrow> getStepInput a = getStepInput b"
  by (simp add: getStepInput_def split: option.split)

lemma getStepInput_interrupts [simp]: "getStepInput (fold interrupt xs (e\<lparr>currentStepId := c\<rparr>)) = getStepInput e"
  by (rule getStepInput_cong) simp_all

lemma step_input_after_task:
  "getStepInput (after_task env w st e) = executeTaskStep (ee_started env) (step_info st) (getStepInput e)"
  by (simp add: getStepInput_def [of "after_task env w st e"])
    (simp add: after_task_def push_completed_def task_done_def executeTaskStep_def Let_def)

lemma outputs_after_tasks:
  "distinct (map step_id sts) \<Longrightarrow> step_id ` set sts \<inter> fst ` set (run_steps e) = {}
    \<Longrightarrow> list_all (\<lambda>(k, se). se_state se = WfCompleted) (run_steps e)
    \<Longrightarrow> step_outputs (fold (after_task env w) sts e) = step_outputs e @ task_outputs (ee_started env) (getStepInput e) sts
      \<and> list_all (\<lambda>(k, se). se_state se = WfCompleted) (run_steps (fold (after_task env w) sts e))"
proof (induction sts arbitrary: e)
  case (Cons st sts)
  let ?e = "after_task env w st e"
  have new: "\<not> js_has (run_steps e) (step_id st)" using Cons.prems(2) by (auto simp: js_has_keys)
  have "\<exists>e0. run_steps ?e = js_set (step_id st) (task_done env w st e0) (run_steps e) \<and> getStepInput e0 = getStepInput e"
    by (simp add: after_task_def push_completed_def Let_def) (rule exI, rule conjI, rule refl, simp)
  then obtain e0 where e0: "run_steps ?e = js_set (step_id st) (task_done env w st e0) (run_steps e)" "getStepInput e0 = getStepInput e"
    by blast
  have steps: "run_steps ?e = run_steps e @ [(step_id st, task_done env w st e0)]" using e0(1) new by (simp add: js_set_new)
  show ?case
    using Cons.IH [of ?e] Cons.prems steps e0(2)
    by (auto simp: step_outputs_def step_input_after_task task_done_def Let_def)
qed (simp add: step_outputs_def)

section \<open>Executing a sequence of tasks\<close>

lemma run_tasks:
  assumes "wreg_reachable r" "find_workflow r wid = Some w" "task_sequence w" "wf_steps w = sts @ rest"
    "quiet_on env sts" "we_workflowId e = wid" "we_state e = WfRunning"
  shows "executeWorkflowSteps env r w e =
    runSequential (executeStep env r beyond_depth (step_depth w)) (map step_id rest) (fold (after_task env w) sts e)"
  using tasks_run [OF assms(2,3) registered_distinct [OF assms(1,2)], of sts env e beyond_depth "map step_id rest"] assms
  by (simp add: executeWorkflowSteps_def task_sequence_def Let_def split: workflow_mode.split)

lemma steps_completed_output:
  "run_steps e \<noteq> [] \<Longrightarrow> list_all (\<lambda>(k, se). se_state se = WfCompleted) (run_steps e) \<Longrightarrow> extractWorkflowOutput e = JObj (step_outputs e)"
proof -
  assume "run_steps e \<noteq> []" and a: "list_all (\<lambda>(k, se). se_state se = WfCompleted) (run_steps e)"
  have "filter (\<lambda>(k, se). se_state se = WfCompleted) (run_steps e) = run_steps e"
    using a by (induction "run_steps e") (auto simp: filter_id_conv list_all_iff)
  then show ?thesis using \<open>run_steps e \<noteq> []\<close> by (simp add: extractWorkflowOutput_def step_outputs_def)
qed

lemma new_execution_fields [simp]:
  "executionId (new_execution env i wid w input vars) = i" "we_workflowId (new_execution env i wid w input vars) = wid"
  "we_state (new_execution env i wid w input vars) = WfRunning" "completedSteps (new_execution env i wid w input vars) = []"
  "run_steps (new_execution env i wid w input vars) = []" "getStepInput (new_execution env i wid w input vars) = input"
  "we_output (new_execution env i wid w input vars) = JUndefined"
  by (simp_all add: new_execution_def getStepInput_def)

text \<open>C15: Executing a registered sequence of tasks without interruption completes every step in order, each step
  receiving the output of the step before it, and stores the completed execution, whose output has one entry per step.\<close>

theorem task_sequence_executes:
  assumes "wreg_reachable r" "find_workflow r wid = Some w" "task_sequence w" "quiet_on env (wf_steps w)"
  shows "\<exists>e. en_execute env r i wid input vars en = (put_run e en, Inr e)
    \<and> executionId e = i \<and> we_state e = WfCompleted \<and> completedSteps e = map step_id (wf_steps w)
    \<and> we_output e = JObj (task_outputs (ee_started env) input (wf_steps w))"
proof -
  let ?n = "new_execution env i wid w input vars" let ?e = "fold (after_task env w) (wf_steps w) ?n"
  have run: "executeWorkflowSteps env r w ?n = (?e, Inr ())" using run_tasks [OF assms(1-3), of "wf_steps w" "[]" env ?n] assms(4) by simp
  have o1: "step_outputs ?e = task_outputs (ee_started env) input (wf_steps w)"
    and o2: "list_all (\<lambda>(k, se). se_state se = WfCompleted) (run_steps ?e)"
    using outputs_after_tasks [OF registered_distinct [OF assms(1,2)], of ?n env w] by (simp_all add: step_outputs_def)
  have "task_outputs (ee_started env) input (wf_steps w) \<noteq> []"
    using registered_steps(2) [OF assms(1,2)] by (cases "wf_steps w") (simp_all add: Let_def)
  then have "run_steps ?e \<noteq> []" using o1 by (auto simp: step_outputs_def)
  then have out: "extractWorkflowOutput ?e = JObj (task_outputs (ee_started env) input (wf_steps w))"
    using steps_completed_output o1 o2 by simp
  have st: "we_state ?e = WfRunning" using quiet_states [OF assms(4)] by simp
  show ?thesis
    using run st out assms(2)
    by (intro exI [of _ "run_finished env ?e"]) (simp add: en_execute_def run_finished_def after_tasks_fields Let_def)
qed

section \<open>Resuming\<close>

text \<open>Resuming a paused execution of a sequence of tasks runs all its steps again, the completed ones included,
  and leaves the execution running for ever: its state is not completed and its output not set.\<close>

theorem resume_runs_all_again:
  assumes "wreg_reachable r" "find_workflow r (we_workflowId e) = Some w" "task_sequence w" "quiet_on env (wf_steps w)"
    "js_get (en_executions en) i = Some e" "we_state e = WfPaused"
  shows "\<exists>e'. en_resume env r i en = (put_run e' en, True)
    \<and> executionId e' = executionId e \<and> we_state e' = WfRunning \<and> we_output e' = we_output e
    \<and> completedSteps e' = completedSteps e @ map step_id (wf_steps w)"
proof -
  let ?e = "e\<lparr>we_state := WfRunning\<rparr>" let ?f = "fold (after_task env w) (wf_steps w) ?e"
  have "executeWorkflowSteps env r w ?e = (?f, Inr ())" using run_tasks [OF assms(1-3), of "wf_steps w" "[]" env ?e] assms(4) by simp
  then have "en_resume env r i en = (put_run ?f en, True)" using assms(2,5,6) by (simp add: en_resume_def Let_def)
  moreover have "we_state ?f = WfRunning" using quiet_states [OF assms(4)] by simp
  ultimately show ?thesis by (intro exI [of _ ?f]) (simp add: after_tasks_fields)
qed

section \<open>Cancelling\<close>

lemma compensate_all_keeps [simp]:
  "we_state (compensate_all e) = we_state e" "completedSteps (compensate_all e) = completedSteps e"
  "executionId (compensate_all e) = executionId e" "currentStepId (compensate_all e) = currentStepId e"
  "we_error (compensate_all e) = we_error e"
proof -
  have "we_state (fold (compensate_one (\<lambda>k e. None)) ks e) = we_state e
    \<and> completedSteps (fold (compensate_one (\<lambda>k e. None)) ks e) = completedSteps e
    \<and> executionId (fold (compensate_one (\<lambda>k e. None)) ks e) = executionId e
    \<and> currentStepId (fold (compensate_one (\<lambda>k e. None)) ks e) = currentStepId e
    \<and> we_error (fold (compensate_one (\<lambda>k e. None)) ks e) = we_error e" for ks and e :: run
    by (induction ks arbitrary: e) (simp_all add: compensate_one_def)
  then show "we_state (compensate_all e) = we_state e" "completedSteps (compensate_all e) = completedSteps e"
    "executionId (compensate_all e) = executionId e" "currentStepId (compensate_all e) = currentStepId e"
    "we_error (compensate_all e) = we_error e"
    by (simp_all add: compensate_all_def runCompensation_def)
qed

lemma run_failed_fields [simp]:
  "we_state (run_failed env w err e) = WfFailed" "completedSteps (run_failed env w err e) = completedSteps e"
  "executionId (run_failed env w err e) = executionId e" "we_error (run_failed env w err e) = Some (wf_message err)"
  by (simp_all add: run_failed_def Let_def)

text \<open>A workflow that is cancelled while a step runs that is not its last ends as failed, with the cancellation's
  message as its error, and the execution throws; the step that ran has been completed.\<close>

theorem cancelled_execution_fails:
  assumes "wreg_reachable r" "find_workflow r wid = Some w" "task_sequence w" "wf_steps w = pre @ c # d # post"
    "quiet_on env pre" "\<And>e. ee_meanwhile env (step_id c) e = [Cancelling t]"
  shows "\<exists>e. en_execute env r i wid input vars en = (set_timer env i w (put_run e en),
        Inl (WorkflowExecutionError i wid (currentStepId e) (wf_message (WorkflowCancelled i))))
    \<and> executionId e = i \<and> we_state e = WfFailed \<and> we_error e = Some (wf_message (WorkflowCancelled i))
    \<and> completedSteps e = map step_id (pre @ [c])"
proof -
  let ?n = "new_execution env i wid w input vars" let ?p = "fold (after_task env w) pre ?n" let ?c = "after_task env w c ?p"
  have p: "we_state ?p = WfRunning" "we_workflowId ?p = wid" using quiet_states [OF assms(5)] by (simp_all add: after_tasks_fields)
  have c: "we_state ?c = WfCancelled" using assms(6) p(1) by (simp add: after_task_def push_completed_def interrupt_def Let_def)
  have t: "try_step (executeStep env r beyond_depth (step_depth w)) (step_id c) ?p = (?c, Inr ())"
    using assms(4) p(2) by (intro task_step [OF assms(2,3) registered_distinct [OF assms(1,2)]]) auto
  have "executeWorkflowSteps env r w ?n = (?c, Inl (WorkflowCancelled i))"
    using run_tasks [OF assms(1-3), of pre "c # d # post" env ?n] assms(4,5) p t c by (simp add: after_tasks_fields)
  then show ?thesis
    using assms(2) by (intro exI [of _ "run_failed env w (WorkflowCancelled i) ?c"]) (simp add: en_execute_def after_tasks_fields Let_def)
qed

section \<open>An example\<close>

definition two_steps :: workflow_definition where
  "two_steps = demo_workflow ''w'' ''n'' [demo_step ''a'' None, demo_step ''b'' None]"

definition two_wreg :: workflow_registry where
  "two_wreg = fst (register_workflow two_steps new_registry)"

definition quiet_env :: engine_env where
  "quiet_env = \<lparr>ee_started = 5, ee_ended = 7, ee_eval = (\<lambda>s vs. None), ee_inherited = (\<lambda>v k. JUndefined),
     ee_meanwhile = (\<lambda>k e. []), ee_settled = (\<lambda>ks e. [])\<rparr>"

definition cancelling_env :: engine_env where
  "cancelling_env = quiet_env\<lparr>ee_meanwhile := (\<lambda>k e. if k = ''a'' then [Cancelling 6] else [])\<rparr>"

lemma two_wreg_facts: "wreg_reachable two_wreg" "find_workflow two_wreg ''w'' = Some two_steps" "task_sequence two_steps"
  "quiet_on quiet_env (wf_steps two_steps)" "step_depth two_steps = 3" "all_ids (wf_steps two_steps) = [''a'', ''b'']"
proof -
  show "wreg_reachable two_wreg" unfolding two_wreg_def by (rule wr_more [OF wr_new wr_register])
  show "find_workflow two_wreg ''w'' = Some two_steps" by code_simp
  show "task_sequence two_steps" "step_depth two_steps = 3" "all_ids (wf_steps two_steps) = [''a'', ''b'']" by code_simp+
  show "quiet_on quiet_env (wf_steps two_steps)" by (simp add: quiet_on_def quiet_env_def two_steps_def demo_workflow_def)
qed

definition fresh_run :: run where
  "fresh_run = new_execution quiet_env ''e'' ''w'' two_steps (JNum 1) []"


theorem task_sequence_executes_witness:
  "\<exists>e. en_execute quiet_env two_wreg ''e'' ''w'' (JNum 1) [] new_engine = (put_run e new_engine, Inr e)
    \<and> executionId e = ''e'' \<and> we_state e = WfCompleted \<and> completedSteps e = map step_id (wf_steps two_steps)
    \<and> we_output e = JObj (task_outputs (ee_started quiet_env) (JNum 1) (wf_steps two_steps))"
  by (rule task_sequence_executes [OF two_wreg_facts(1-4)])

definition paused_run :: run where
  "paused_run = fresh_run\<lparr>we_state := WfPaused, completedSteps := [''a'']\<rparr>"

theorem resume_runs_all_again_witness:
  "\<exists>e'. en_resume quiet_env two_wreg ''e'' (put_run paused_run new_engine) = (put_run e' (put_run paused_run new_engine), True)
    \<and> executionId e' = executionId paused_run \<and> we_state e' = WfRunning \<and> we_output e' = we_output paused_run
    \<and> completedSteps e' = completedSteps paused_run @ map step_id (wf_steps two_steps)"
  by (rule resume_runs_all_again [OF two_wreg_facts(1) _ two_wreg_facts(3,4)])
    (simp_all add: paused_run_def fresh_run_def two_wreg_facts put_run_def)

theorem cancelled_execution_fails_witness:
  "\<exists>e. en_execute cancelling_env two_wreg ''e'' ''w'' (JNum 1) [] new_engine
      = (set_timer cancelling_env ''e'' two_steps (put_run e new_engine),
        Inl (WorkflowExecutionError ''e'' ''w'' (currentStepId e) (wf_message (WorkflowCancelled ''e''))))
    \<and> executionId e = ''e'' \<and> we_state e = WfFailed \<and> we_error e = Some (wf_message (WorkflowCancelled ''e''))
    \<and> completedSteps e = map step_id ([] @ [demo_step ''a'' None])"
  by (rule cancelled_execution_fails [OF two_wreg_facts(1-3), where pre = "[]" and c = "demo_step ''a'' None"
        and d = "demo_step ''b'' None" and post = "[]" and t = 6])
    (simp_all add: two_steps_def demo_workflow_def quiet_on_def cancelling_env_def demo_step_def)

end
