(* ===== verification/Tool_Props.thy ===== *)
theory Tool_Props
  imports Tool_Agent
begin

text \<open>
  What holds of the tool agent: its counts of failures, and what the concurrency limit of a parallel batch does.
\<close>

section \<open>Waiting for a parallel batch\<close>

lemma slice_within:
  assumes "0 \<le> i" "i < int (length xs)" "0 < n"
  shows "js_slice xs i (i + n) = take (nat n) (drop (nat i) xs)"
proof -
  have i: "slice_index xs i = nat i" using assms by (simp add: slice_index_def)
  show ?thesis
  proof (cases "i + n \<le> int (length xs)")
    case True
    then have "slice_index xs (i + n) = nat i + nat n" using assms by (simp add: slice_index_def nat_add_distrib)
    then show ?thesis using i by (simp add: js_slice_def)
  next
    case False
    then have "slice_index xs (i + n) = length xs" "length (drop (nat i) xs) \<le> nat n" using assms by (simp_all add: slice_index_def)
    then show ?thesis using i by (simp add: js_slice_def)
  qed
qed

lemma slices_collect_all:
  assumes "0 < n" "0 \<le> i"
  shows "slices_from n False bs i = Some (drop (nat i) bs)"
  using assms(2)
proof (induction "nat (int (length bs) - i)" arbitrary: i rule: less_induct)
  case less
  show ?case
  proof (cases "i < int (length bs)")
    case True
    have "slices_from n False bs (i + n) = Some (drop (nat (i + n)) bs)" using less True assms(1) by simp
    then have "slices_from n False bs i = Some (take (nat n) (drop (nat i) bs) @ drop (nat (i + n)) bs)"
      using True slice_within [OF less.prems True assms(1)] by (subst slices_from.simps) simp
    moreover have "drop (nat (i + n)) bs = drop (nat n) (drop (nat i) bs)"
      using less.prems assms(1) by (simp add: nat_add_distrib add.commute)
    ultimately show ?thesis by (metis append_take_drop_id)
  next
    case False
    then show ?thesis using less.prems by (subst slices_from.simps) simp
  qed
qed

lemma slices_below_zero:
  assumes "n < 0" "i < int (length bs)"
  shows "slices_from n False bs i = None"
proof (rule ccontr)
  assume "slices_from n False bs i \<noteq> None"
  then obtain r where ret: "slices_from n False bs i = Some r" by blast
  have "n < 0 \<longrightarrow> \<not> False \<longrightarrow> \<not> i < int (length bs)"
  proof (rule slices_from.raw_induct [where P = "\<lambda>n ff bs i r. n < 0 \<longrightarrow> \<not> ff \<longrightarrow> \<not> i < int (length bs)", OF _ ret])
    fix f :: "int \<Rightarrow> bool \<Rightarrow> batch_entry list \<Rightarrow> int \<Rightarrow> batch_entry list option" and n ff bs i r
    assume IH: "\<And>n ff bs i r. f n ff bs i = Some r \<Longrightarrow> n < 0 \<longrightarrow> \<not> ff \<longrightarrow> \<not> i < int (length bs)"
      and eq: "(if i < int (length bs)
        then let part = js_slice bs i (i + n) in
             if ff \<and> list_ex (\<lambda>b. \<not> bn_success b) part then Some part
             else Option.bind (f n ff bs (i + n)) (\<lambda>rest. Some (part @ rest))
        else Some []) = Some r"
    show "n < 0 \<longrightarrow> \<not> ff \<longrightarrow> \<not> i < int (length bs)"
    proof (intro impI notI)
      assume "n < 0" "\<not> ff" "i < int (length bs)"
      then obtain rest where "f n ff bs (i + n) = Some rest" using eq by (auto simp: Let_def bind_eq_Some_conv)
      then show False using IH \<open>n < 0\<close> \<open>\<not> ff\<close> \<open>i < int (length bs)\<close> by fastforce
    qed
  qed
  then show False using assms by simp
qed

text \<open>C34: The concurrency limit of a parallel batch that does not fail fast changes neither what is executed nor
  the entries of the result, as all executions have been started before it is looked at; below zero the agent
  never answers.\<close>

theorem batch_limit_changes_nothing:
  assumes "rs \<noteq> []"
  shows "(if n < 0 then ta_executeBatch k ModeParallel False n rs g = None
    else \<exists>g1 r r0. ta_executeBatch k ModeParallel False n rs g = Some (g1, Inr r)
      \<and> ta_executeBatch k ModeParallel False 0 rs g = Some (g1, Inr r0)
      \<and> op_value r = op_value r0 \<and> op_success r = op_success r0)"
proof (cases "n < 0")
  case True
  then show ?thesis
    using assms slices_below_zero [OF True, of 0 "map (\<lambda>j. snd (batch_execution k rs j g)) [0..<length rs]"]
    by (simp add: ta_executeBatch_def await_entries_def)
next
  case False
  have "await_entries n False bs = Some bs" for bs
    using False slices_collect_all [of n 0 bs] by (simp add: await_entries_def)
  moreover have "await_entries 0 False bs = Some bs" for bs by (simp add: await_entries_def)
  ultimately show ?thesis using False by (simp add: ta_executeBatch_def batch_value_def Let_def)
qed

definition sample_tool :: tool where
  "sample_tool = \<lparr>tl_id = ''i'', tl_name = ''t'', tl_description = ''d'', tl_version = ''1'', tl_enabled = True, tl_category = CatBuiltin,
     tl_permissions = [], tl_tags = [], tl_inputSchema = JUndefined, tl_outputSchema = JUndefined, tl_timeout = None, tl_server = None\<rparr>"

definition sample_course :: tool_course where
  "sample_course = \<lparr>tc_behaviour = (\<lambda>t v. Inl ''no''), tc_started = 1, tc_answered = 2, tc_caught = 3, tc_begun = 1, tc_ended = 3\<rparr>"

definition sample_tool_call :: tool_call where
  "sample_tool_call = \<lparr>tk_started = 0, tk_finished = 9, tk_context = \<lparr>kx_requestId = ''r'', kx_traceId = ''t'', kx_workspaceId = ''w'',
     kx_userId = ''u'', kx_sessionId = ''s'', kx_conversationId = None, kx_metadata = []\<rparr>, tk_course = sample_course,
     tk_courses = (\<lambda>j. sample_course), tk_order = [0]\<rparr>"

definition sample_execution :: tool_execution where
  "sample_execution = \<lparr>tn_toolName = ''t'', tn_input = JNum 1, tn_timeout = 0\<rparr>"

definition sample_tool_agent :: tool_agent where
  "sample_tool_agent = new_tool_agent (tool_register sample_tool [])"

theorem batch_limit_changes_nothing_witness:
  "ta_executeBatch sample_tool_call ModeParallel False (- 1) [sample_execution] sample_tool_agent = None"
  using batch_limit_changes_nothing [of "[sample_execution]" "- 1" sample_tool_call sample_tool_agent] by simp

section \<open>Counting executions\<close>

text \<open>A tool that is there, is enabled and throws has its execution counted twice, as two failures, and the agent's
  exception names the failure twice; a result is counted once.\<close>

theorem failed_tool_counted_twice:
  assumes "tool_get (tn_toolName r) (tg_registry g) = Some t" "tl_enabled t"
    "\<And>v. isl (tc_behaviour x t v) = failing"
  shows "let (g1, res) = executeTool c x r g; u = usage_for (tn_toolName r) g; u1 = usage_for (tn_toolName r) g1 in
    isl res = failing
    \<and> tu_executions u1 = tu_executions u + (if failing then 2 else 1)
    \<and> tu_failures u1 = tu_failures u + (if failing then 2 else 0)
    \<and> tu_successes u1 = tu_successes u + (if failing then 0 else 1)"
proof -
  let ?q = "enhanced_of c r"
  let ?v = "if tl_server t \<noteq> None then enhanceInputForMCPTool (tc_started x) ?q else tq_input ?q"
  have "usable_tool (tq_tool ?q) (tg_registry g) = Inr t" using assms(1,2) by (simp add: usable_tool_def enhanced_of_def)
  then have ex: "ee_execute (tc_behaviour x) (tc_started x) (tc_answered x) ?q (tg_registry g)
      = Inr (tool_answer (tc_started x) (tc_answered x) (tc_behaviour x t ?v))"
    by (simp add: ee_execute_def)
  show ?thesis
  proof (cases "tc_behaviour x t ?v")
    case (Inl e)
    then have "failing" using assms(3) [of ?v] by simp
    then show ?thesis using Inl ex assms(1) by (simp add: executeTool_def tool_answer_def recordToolUsage_def usage_for_def Let_def)
  next
    case (Inr v)
    then have "\<not> failing" using assms(3) [of ?v] by simp
    then show ?thesis using Inr ex assms(1)
      by (simp add: executeTool_def tool_answer_def recordToolUsage_def usage_for_def completed_op_def Let_def)
  qed
qed

theorem failed_tool_counted_twice_witness:
  "tu_failures (usage_for ''t'' (fst (executeTool (tk_context sample_tool_call) sample_course sample_execution sample_tool_agent))) = 2"
proof -
  have "tool_get (tn_toolName sample_execution) (tg_registry sample_tool_agent) = Some sample_tool"
    by (simp add: sample_execution_def sample_tool_agent_def new_tool_agent_def tool_register_def tool_get_def sample_tool_def)
  from failed_tool_counted_twice [OF this, of sample_course True "tk_context sample_tool_call"] show ?thesis
    by (simp add: sample_tool_def sample_course_def case_prod_unfold Let_def usage_for_def sample_tool_agent_def new_tool_agent_def
        sample_execution_def)
qed

end
