(* ===== verification/Orchestrator_Props.thy ===== *)
theory Orchestrator_Props
  imports Orchestrator Scheduler_Props Runtime_Props
begin

text \<open>
  What holds of the orchestrator: the bookkeeping of its executions over every run; that an agent is executed once;
  that neither \<open>cancel\<close> nor \<open>stop\<close> reaches an agent that runs; and that a plan completes by the clock.
\<close>

section \<open>The bookkeeping\<close>

definition final :: "orch_status \<Rightarrow> bool" where
  "final st = (st = OxCompleted \<or> st = OxFailed)"

text \<open>An execution is stored under its own id, has a call exactly until it is completed or failed, and a time of completion
  from then on, or when it is cancelled.\<close>

definition execution_ok :: "orchestrator \<Rightarrow> string \<Rightarrow> orch_execution \<Rightarrow> bool" where
  "execution_ok o1 i e \<longleftrightarrow> oe_executionId e = i \<and> oe_type e = request_type (oe_request e)
     \<and> final (oe_status e) = (js_get (orc_calls o1) i = None)
     \<and> (oe_completedAt e = None \<longrightarrow> oe_status e = OxRunning \<or> oe_status e = OxPaused)"

definition orch_inv :: "orchestrator \<Rightarrow> bool" where
  "orch_inv o1 \<longleftrightarrow> orc_totalExecutions o1 = orc_successfulExecutions o1 + orc_failedExecutions o1
     \<and> js_wf (orc_executions o1)
     \<and> (\<forall>i e. js_get (orc_executions o1) i = Some e \<longrightarrow> execution_ok o1 i e)"

text \<open>Only five fields matter.\<close>

lemma orch_inv_cong:
  assumes "orc_executions p = orc_executions o1" "orc_calls p = orc_calls o1" "orc_totalExecutions p = orc_totalExecutions o1"
    "orc_successfulExecutions p = orc_successfulExecutions o1" "orc_failedExecutions p = orc_failedExecutions o1"
  shows "orch_inv p = orch_inv o1"
  using assms by (simp add: orch_inv_def execution_ok_def)

lemma orch_inv_irrelevant [simp]:
  "orch_inv (orch_warn m o1) = orch_inv o1" "orch_inv (orch_blame m o1) = orch_inv o1"
  "orch_inv (o1\<lparr>orc_state := st\<rparr>) = orch_inv o1" "orch_inv (o1\<lparr>orc_lifecycle := l\<rparr>) = orch_inv o1"
  "orch_inv (o1\<lparr>orc_scheduler := s\<rparr>) = orch_inv o1" "orch_inv (o1\<lparr>orc_engine := en\<rparr>) = orch_inv o1"
  "orch_inv (o1\<lparr>orc_runtime := t\<rparr>) = orch_inv o1" "orch_inv (o1\<lparr>orc_comm := b\<rparr>) = orch_inv o1"
  by (rule orch_inv_cong; simp add: orch_warn_def orch_blame_def)+

lemma kept_by_notes [simp]:
  "orc_executions (orch_warn m o1) = orc_executions o1" "orc_executions (orch_blame m o1) = orc_executions o1"
  "orc_calls (orch_warn m o1) = orc_calls o1" "orc_calls (orch_blame m o1) = orc_calls o1"
  "orc_runtime (orch_warn m o1) = orc_runtime o1" "orc_runtime (orch_blame m o1) = orc_runtime o1"
  "orc_lifecycle (orch_warn m o1) = orc_lifecycle o1" "orc_lifecycle (orch_blame m o1) = orc_lifecycle o1"
  "orc_scheduler (orch_warn m o1) = orc_scheduler o1" "orc_scheduler (orch_blame m o1) = orc_scheduler o1"
  "orc_state (orch_warn m o1) = orc_state o1" "orc_state (orch_blame m o1) = orc_state o1"
  "orc_successfulExecutions (orch_warn m o1) = orc_successfulExecutions o1"
  "orc_successfulExecutions (orch_blame m o1) = orc_successfulExecutions o1"
  by (simp_all add: orch_warn_def orch_blame_def)

lemma kept_by_put [simp]:
  "orc_calls (put_execution e o1) = orc_calls o1" "orc_runtime (put_execution e o1) = orc_runtime o1"
  "orc_lifecycle (put_execution e o1) = orc_lifecycle o1" "orc_scheduler (put_execution e o1) = orc_scheduler o1"
  "orc_engine (put_execution e o1) = orc_engine o1" "orc_comm (put_execution e o1) = orc_comm o1"
  "orc_state (put_execution e o1) = orc_state o1" "orc_workflows (put_execution e o1) = orc_workflows o1"
  "orc_successfulExecutions (put_execution e o1) = orc_successfulExecutions o1"
  "js_get (orc_executions (put_execution e o1)) i = (if i = oe_executionId e then Some e else js_get (orc_executions o1) i)"
  by (simp_all add: put_execution_def)

lemma kept_by_call [simp]:
  "orc_executions (put_call i c o1) = orc_executions o1" "orc_runtime (put_call i c o1) = orc_runtime o1"
  "orc_lifecycle (put_call i c o1) = orc_lifecycle o1" "orc_scheduler (put_call i c o1) = orc_scheduler o1"
  "orc_state (put_call i c o1) = orc_state o1" "orc_successfulExecutions (put_call i c o1) = orc_successfulExecutions o1"
  "js_get (orc_calls (put_call i c o1)) j = (if j = i then Some c else js_get (orc_calls o1) j)"
  "orc_executions (end_call i o1) = orc_executions o1" "orc_runtime (end_call i o1) = orc_runtime o1"
  "orc_lifecycle (end_call i o1) = orc_lifecycle o1" "orc_scheduler (end_call i o1) = orc_scheduler o1"
  "orc_state (end_call i o1) = orc_state o1" "orc_successfulExecutions (end_call i o1) = orc_successfulExecutions o1"
  "js_get (orc_calls (end_call i o1)) j = (if j = i then None else js_get (orc_calls o1) j)"
  by (simp_all add: put_call_def end_call_def)

lemma kept_by_metrics [simp]:
  "orc_executions (updateMetrics e b o1) = orc_executions o1" "orc_calls (updateMetrics e b o1) = orc_calls o1"
  "orc_runtime (updateMetrics e b o1) = orc_runtime o1" "orc_lifecycle (updateMetrics e b o1) = orc_lifecycle o1"
  "orc_scheduler (updateMetrics e b o1) = orc_scheduler o1" "orc_state (updateMetrics e b o1) = orc_state o1"
  by (simp_all add: updateMetrics_def)

lemma stamp_end_fields [simp]:
  "oe_executionId (stamp_end now e) = oe_executionId e" "oe_type (stamp_end now e) = oe_type e" "oe_request (stamp_end now e) = oe_request e"
  "oe_status (stamp_end now e) = oe_status e" "oe_completedAt (stamp_end now e) = Some now"
  "oe_duration (stamp_end now e) = Some (now - oe_startedAt e)"
  by (simp_all add: stamp_end_def)

lemma orch_execution_ok: "orch_inv o1 \<Longrightarrow> js_get (orc_executions o1) i = Some e \<Longrightarrow> execution_ok o1 i e"
  by (simp add: orch_inv_def)

text \<open>What keeps it: a call of a stored execution goes on, an execution under way is changed, an execution ends.\<close>

lemma inv_put_call:
  assumes "orch_inv o1" "js_get (orc_calls o1) i \<noteq> None"
  shows "orch_inv (put_call i c o1)"
  using assms by (auto simp: orch_inv_def execution_ok_def put_call_def)

lemma inv_put_execution:
  assumes "orch_inv o1" "js_get (orc_calls o1) (oe_executionId e) \<noteq> None" "\<not> final (oe_status e)"
    "oe_type e = request_type (oe_request e)" "oe_completedAt e = None \<longrightarrow> oe_status e = OxRunning \<or> oe_status e = OxPaused"
  shows "orch_inv (put_execution e o1)"
  using assms by (auto simp: orch_inv_def execution_ok_def put_execution_def)

lemma inv_end:
  assumes "orch_inv o1" "final (oe_status e)" "oe_completedAt e \<noteq> None" "oe_type e = request_type (oe_request e)"
  shows "orch_inv (end_call (oe_executionId e) (updateMetrics e b (put_execution e o1)))"
  using assms by (auto simp: orch_inv_def execution_ok_def updateMetrics_def end_call_def put_execution_def)

lemma publish_fields [simp]:
  "orch_inv (publishCompletionEvent env mid e r o1) = orch_inv o1" "orc_runtime (publishCompletionEvent env mid e r o1) = orc_runtime o1"
  "orc_lifecycle (publishCompletionEvent env mid e r o1) = orc_lifecycle o1"
  "orc_scheduler (publishCompletionEvent env mid e r o1) = orc_scheduler o1"
  "orc_successfulExecutions (publishCompletionEvent env mid e r o1) = orc_successfulExecutions o1"
  by (simp_all add: publishCompletionEvent_def split: prod.split sum.split)

lemma persist_fields [simp]:
  "orch_inv (persistRuntimeState env o1) = orch_inv o1" "orc_runtime (persistRuntimeState env o1) = orc_runtime o1"
  "orc_lifecycle (persistRuntimeState env o1) = orc_lifecycle o1" "orc_scheduler (persistRuntimeState env o1) = orc_scheduler o1"
  "orc_successfulExecutions (persistRuntimeState env o1) = orc_successfulExecutions o1"
  by (simp_all add: persistRuntimeState_def split: option.split)

lemma memory_fields [simp]:
  "orch_inv (fst (loadMemoryContext env o1)) = orch_inv o1" "orc_runtime (fst (loadMemoryContext env o1)) = orc_runtime o1"
  "orc_lifecycle (fst (loadMemoryContext env o1)) = orc_lifecycle o1" "orc_scheduler (fst (loadMemoryContext env o1)) = orc_scheduler o1"
  "orc_calls (fst (loadMemoryContext env o1)) = orc_calls o1" "orc_executions (fst (loadMemoryContext env o1)) = orc_executions o1"
  "orc_successfulExecutions (fst (loadMemoryContext env o1)) = orc_successfulExecutions o1"
  by (simp_all add: loadMemoryContext_def split: sum.split)

lemma fail_inv:
  assumes "orch_inv o1" "oe_type e = request_type (oe_request e)"
  shows "orch_inv (fst (orch_fail now e err o1))"
proof -
  let ?e = "stamp_end now (e\<lparr>oe_status := OxFailed, oe_error := Some (orch_message err)\<rparr>)"
  have "orch_inv (end_call (oe_executionId ?e) (updateMetrics ?e False (put_execution ?e o1)))"
    by (rule inv_end [OF assms(1)]) (simp_all add: final_def assms(2))
  then show ?thesis by (simp add: orch_fail_def Let_def)
qed

lemma complete_inv:
  assumes "orch_inv o1" "js_get (orc_executions o1) i = Some e0" "js_get (orc_calls o1) i \<noteq> None"
    "oe_executionId e = i" "oe_status e = oe_status e0" "oe_type e = oe_type e0" "oe_request e = oe_request e0" "oe_completedAt e = oe_completedAt e0"
  shows "orch_inv (fst (orch_complete env mid e r o1))"
proof -
  note ok = orch_execution_ok [OF assms(1,2)]
  let ?e = "stamp_end (ov_now env) (e\<lparr>oe_status := OxCompleted, oe_result := Some r\<rparr>)"
  let ?p = "publishCompletionEvent env mid e r (persistRuntimeState env (put_execution e o1))"
  have "orch_inv (put_execution e o1)"
    by (rule inv_put_execution) (use assms ok in \<open>auto simp: execution_ok_def\<close>)
  then have "orch_inv ?p" by simp
  then have "orch_inv (end_call (oe_executionId ?e) (updateMetrics ?e True (put_execution ?e ?p)))"
    by (rule inv_end) (use assms ok in \<open>simp_all add: final_def execution_ok_def\<close>)
  then show ?thesis by (simp add: orch_complete_def Let_def)
qed

lemma validate_fields:
  "validateAndInitializeAgent env a o1 = (o2, x) \<Longrightarrow>
     orch_inv o2 = orch_inv o1 \<and> orc_calls o2 = orc_calls o1 \<and> orc_executions o2 = orc_executions o1 \<and> orc_runtime o2 = orc_runtime o1
     \<and> orc_scheduler o2 = orc_scheduler o1"
  by (auto simp: validateAndInitializeAgent_def Let_def split: option.splits sum.splits if_splits prod.splits)

text \<open>Every step keeps it.\<close>

lemma orch_inv_put_lifecycle: "orch_inv o1 \<Longrightarrow> orch_inv (o1\<lparr>orc_runtime := t, orc_calls := c\<rparr>) = orch_inv (o1\<lparr>orc_calls := c\<rparr>)"
  by (rule orch_inv_cong) simp_all

lemma submit_inv:
  assumes "orch_inv o1"
  shows "orch_inv (fst (orch_submit now i rq o1))"
proof -
  have "orch_inv (put_call i Submitted (put_execution ((createExecution now i rq)\<lparr>oe_status := OxRunning\<rparr>) o1))"
    using assms by (auto simp: orch_inv_def execution_ok_def put_call_def put_execution_def createExecution_def final_def)
  then show ?thesis using assms by (simp add: orch_submit_def split: option.split)
qed

lemma prepare_inv:
  assumes "orch_inv o1"
  shows "orch_inv (fst (orch_prepare env i rid o1))"
proof (cases "js_get (orc_calls o1) i = Some Submitted \<and> (\<exists>e rq. js_get (orc_executions o1) i = Some e \<and> oe_request e = AgentRun rq)")
  case True
  then obtain e rq where c: "js_get (orc_calls o1) i = Some Submitted" and e: "js_get (orc_executions o1) i = Some e"
    and rq: "oe_request e = AgentRun rq" by blast
  obtain o2 x where v: "validateAndInitializeAgent env (ar_agentId rq) o1 = (o2, x)" by (rule prod.exhaust)
  note f = validate_fields [OF v]
  have ty: "oe_type e = request_type (oe_request e)" using orch_execution_ok [OF assms e] by (simp add: execution_ok_def)
  show ?thesis
  proof (cases x)
    case (Inl err)
    have "orch_inv (fst (orch_fail (ov_now env) e err o2))" using f assms ty by (simp add: fail_inv)
    then show ?thesis using c e rq v Inl by (simp add: orch_prepare_def)
  next
    case (Inr u)
    obtain o3 mem where m: "loadMemoryContext env o2 = (o3, mem)" by (rule prod.exhaust)
    have o3: "orch_inv o3" "orc_calls o3 = orc_calls o1"
      using f assms memory_fields(1,5) [of env o2] by (simp_all add: m)
    have "orch_inv (put_call i (AtRuntime rid) (o3\<lparr>orc_runtime := t\<rparr>))" for t
      by (rule inv_put_call) (simp_all add: o3 c)
    then show ?thesis using c e rq v Inr m by (simp add: orch_prepare_def)
  qed
next
  case False
  then have "fst (orch_prepare env i rid o1) = o1"
    by (auto simp: orch_prepare_def split: option.splits orch_call.splits orch_request.splits)
  then show ?thesis using assms by simp
qed

lemma settle_inv:
  assumes "orch_inv o1" "js_get (orc_calls o1) i \<noteq> None"
  shows "orch_inv (fst (orch_settle env mid i res o1))"
proof (cases "js_get (orc_executions o1) i")
  case (Some e)
  note ok = orch_execution_ok [OF assms(1) Some]
  show ?thesis
    using Some assms ok complete_inv [OF assms(1) Some assms(2), of e] fail_inv [OF assms(1)]
    by (auto simp: orch_settle_def execution_ok_def split: option.split sum.split)
qed (use assms in \<open>simp add: orch_settle_def split: option.split sum.split\<close>)

lemma launch_inv: "orch_inv o1 \<Longrightarrow> orch_inv (fst (orch_launch env mid i eid h o1))"
  by (auto simp: orch_launch_def intro!: settle_inv split: option.split orch_call.split prod.split)

lemma orch_land_inv: "orch_inv o1 \<Longrightarrow> orch_inv (fst (orch_land env mid i o1))"
  by (auto simp: orch_land_def intro!: settle_inv split: option.split orch_call.split prod.split)

lemma workflow_inv:
  assumes "orch_inv o1"
  shows "orch_inv (fst (orch_workflow env ee mid i wid o1))"
proof (cases "js_get (orc_calls o1) i = Some Submitted \<and> (\<exists>e rq. js_get (orc_executions o1) i = Some e \<and> oe_request e = WorkflowRun rq)")
  case True
  then obtain e rq where c: "js_get (orc_calls o1) i = Some Submitted" and e: "js_get (orc_executions o1) i = Some e"
    and rq: "oe_request e = WorkflowRun rq" by blast
  note ok = orch_execution_ok [OF assms e]
  obtain o2 mem where m: "loadMemoryContext env o1 = (o2, mem)" by (rule prod.exhaust)
  have o2: "orch_inv o2" "orc_calls o2 = orc_calls o1" "orc_executions o2 = orc_executions o1"
    using assms memory_fields(1,5,6) [of env o1] by (simp_all add: m)
  have "orch_inv (fst (orch_complete env mid (e\<lparr>oe_agentsInvolved := as\<rparr>) r (o2\<lparr>orc_engine := en\<rparr>)))" for as r en
  proof (rule complete_inv)
    show "orch_inv (o2\<lparr>orc_engine := en\<rparr>)" using o2(1) by simp
    show "js_get (orc_executions (o2\<lparr>orc_engine := en\<rparr>)) i = Some e" using o2(3) e by simp
    show "js_get (orc_calls (o2\<lparr>orc_engine := en\<rparr>)) i \<noteq> None" using o2(2) c by simp
  qed (use ok in \<open>simp_all add: execution_ok_def\<close>)
  moreover have "orch_inv (fst (orch_fail now e err (o2\<lparr>orc_engine := en\<rparr>)))" for now err en
    by (rule fail_inv) (use ok o2 in \<open>simp_all add: execution_ok_def\<close>)
  ultimately show ?thesis using c e rq m by (simp add: orch_workflow_def split: prod.split sum.split)
next
  case False
  then have "fst (orch_workflow env ee mid i wid o1) = o1"
    by (auto simp: orch_workflow_def split: option.splits orch_call.splits orch_request.splits)
  then show ?thesis using assms by simp
qed

lemma plan_schedule_inv:
  assumes "orch_inv o1"
  shows "orch_inv (fst (orch_schedule env i o1))"
proof (cases "js_get (orc_calls o1) i = Some Submitted \<and> (\<exists>e rq. js_get (orc_executions o1) i = Some e \<and> oe_request e = PlanRun rq)")
  case True
  then obtain e rq where c: "js_get (orc_calls o1) i = Some Submitted" and e: "js_get (orc_executions o1) i = Some e"
    and rq: "oe_request e = PlanRun rq" by blast
  have ty: "oe_type e = request_type (oe_request e)" using orch_execution_ok [OF assms e] by (simp add: execution_ok_def)
  obtain o2 mem where m: "loadMemoryContext env o1 = (o2, mem)" by (rule prod.exhaust)
  have o2: "orch_inv o2" "orc_calls o2 = orc_calls o1" using assms memory_fields(1,5) [of env o1] by (simp_all add: m)
  have "orch_inv (put_call i x (o2\<lparr>orc_scheduler := s\<rparr>))" for x s by (rule inv_put_call) (simp_all add: o2 c)
  moreover have "orch_inv (fst (orch_fail now e err (o2\<lparr>orc_scheduler := s\<rparr>)))" for now err s
    by (rule fail_inv) (simp_all add: o2 ty)
  moreover have "orch_inv (fst (orch_fail now e err o1))" for now err by (rule fail_inv [OF assms ty])
  ultimately show ?thesis using c e rq m by (simp add: orch_schedule_def split: prod.split sum.split option.split)
next
  case False
  then have "fst (orch_schedule env i o1) = o1"
    by (auto simp: orch_schedule_def split: option.splits orch_call.splits orch_request.splits)
  then show ?thesis using assms by simp
qed

lemma plan_finished_fields [simp]:
  "oe_executionId (plan_finished h ts e) = oe_executionId e" "oe_status (plan_finished h ts e) = oe_status e"
  "oe_type (plan_finished h ts e) = oe_type e" "oe_request (plan_finished h ts e) = oe_request e"
  "oe_completedAt (plan_finished h ts e) = oe_completedAt e" "oe_startedAt (plan_finished h ts e) = oe_startedAt e"
  by (simp_all add: plan_finished_def)

lemma poll_inv:
  assumes "orch_inv o1"
  shows "orch_inv (fst (orch_poll env mid i o1))"
proof (cases "\<exists>n due e. js_get (orc_calls o1) i = Some (Polling n due) \<and> js_get (orc_executions o1) i = Some e")
  case True
  then obtain n due e where c: "js_get (orc_calls o1) i = Some (Polling n due)" and e: "js_get (orc_executions o1) i = Some e" by blast
  note ok = orch_execution_ok [OF assms e]
  have "orch_inv (put_call i x o1)" for x by (rule inv_put_call) (simp_all add: assms c)
  moreover have "orch_inv (fst (orch_complete env mid (plan_finished h ts e) r o1))" for h ts r
    by (rule complete_inv [OF assms e]) (use ok c in \<open>simp_all add: execution_ok_def\<close>)
  ultimately show ?thesis using c e assms by (simp add: orch_poll_def split: orch_request.split option.split)
next
  case False
  then have "fst (orch_poll env mid i o1) = o1" by (auto simp: orch_poll_def split: option.splits orch_call.splits)
  then show ?thesis using assms by simp
qed

lemma orch_cancel_inv:
  assumes "orch_inv o1"
  shows "orch_inv (fst (orch_cancel now i o1))"
proof (cases "\<exists>e. js_get (orc_executions o1) i = Some e \<and> (oe_status e = OxRunning \<or> oe_status e = OxPaused)")
  case True
  then obtain e where e: "js_get (orc_executions o1) i = Some e" and st: "oe_status e = OxRunning \<or> oe_status e = OxPaused" by blast
  note ok = orch_execution_ok [OF assms e]
  have "orch_inv (put_execution (stamp_end now (e\<lparr>oe_status := OxCancelled\<rparr>)) o1)"
    by (rule inv_put_execution [OF assms]) (use ok st in \<open>auto simp: execution_ok_def final_def\<close>)
  moreover have "(oe_status e \<noteq> OxRunning \<and> oe_status e \<noteq> OxPaused) = False" using st by blast
  ultimately show ?thesis using e
    by (simp only: orch_cancel_def option.case if_False) (simp add: orch_cancel_def Let_def split: execution_type.split prod.split sum.split)
next
  case False
  then have "fst (orch_cancel now i o1) = o1" by (auto simp: orch_cancel_def split: option.split)
  then show ?thesis using assms by simp
qed

lemma cancel_all_inv: "orch_inv o1 \<Longrightarrow> orch_inv (fst (cancel_all now ids o1))"
proof (induction ids arbitrary: o1)
  case (Cons i ids)
  then show ?case using orch_cancel_inv [OF Cons.prems, of now i] by (auto split: prod.split sum.split)
qed simp

lemma stop_inv: "orch_inv o1 \<Longrightarrow> orch_inv (fst (orch_stop now o1))"
  using cancel_all_inv [of "o1\<lparr>orc_state := OrchStopping\<rparr>" now]
  by (auto simp: orch_stop_def Let_def split: prod.split sum.split)
     (metis (no_types, lifting) fst_conv orch_inv_irrelevant(2,3,5))+

lemma listed_execution:
  assumes "orch_inv o1" "e \<in> set (executions_in st o1)"
  shows "js_get (orc_executions o1) (oe_executionId e) = Some e" "oe_status e = st" "execution_ok o1 (oe_executionId e) e"
proof -
  obtain i where i: "(i, e) \<in> set (orc_executions o1)" using assms(2) by (auto simp: executions_in_def js_values_def)
  have "js_get (orc_executions o1) i = Some e"
    using i assms(1) by (simp add: orch_inv_def js_get_def js_wf_def)
  moreover from this have "oe_executionId e = i" using orch_execution_ok [OF assms(1)] by (simp add: execution_ok_def)
  ultimately show "js_get (orc_executions o1) (oe_executionId e) = Some e" by simp
  then show "execution_ok o1 (oe_executionId e) e" by (rule orch_execution_ok [OF assms(1)])
  show "oe_status e = st" using assms(2) by (simp add: executions_in_def)
qed

text \<open>Executions that are paused or resumed one after another: each is under way.\<close>

definition under_way :: "orchestrator \<Rightarrow> orch_execution \<Rightarrow> bool" where
  "under_way o1 e \<longleftrightarrow> js_get (orc_calls o1) (oe_executionId e) \<noteq> None \<and> oe_type e = request_type (oe_request e)"

lemma listed_under_way: "orch_inv o1 \<Longrightarrow> \<not> final st \<Longrightarrow> e \<in> set (executions_in st o1) \<Longrightarrow> under_way o1 e"
  using listed_execution [of o1 e st] by (simp add: under_way_def execution_ok_def)

lemma fold_status_inv:
  assumes "orch_inv o1" "\<forall>e \<in> set es. under_way o1 e"
    and "\<And>e p. orch_inv p \<Longrightarrow> under_way p e \<Longrightarrow> orch_inv (f e p) \<and> orc_calls (f e p) = orc_calls p"
  shows "orch_inv (fold f es o1)"
  using assms(1,2)
proof (induction es arbitrary: o1)
  case (Cons e es)
  then have "orch_inv (f e o1)" "orc_calls (f e o1) = orc_calls o1" using assms(3) by simp_all
  then show ?case using Cons by (simp add: under_way_def)
qed simp

lemma put_status_inv:
  assumes "orch_inv p" "under_way p e" "st = OxPaused \<or> st = OxRunning"
  shows "orch_inv (put_execution (e\<lparr>oe_status := st\<rparr>) p)"
  by (rule inv_put_execution [OF assms(1)]) (use assms(2,3) in \<open>auto simp: under_way_def final_def\<close>)

lemma pause_one_inv: "orch_inv p \<Longrightarrow> under_way p e \<Longrightarrow> orch_inv (pause_one e p) \<and> orc_calls (pause_one e p) = orc_calls p"
  using put_status_inv [of p e OxPaused] by (simp add: pause_one_def Let_def)

lemma resume_one_inv: "orch_inv p \<Longrightarrow> under_way p e \<Longrightarrow> orch_inv (resume_one ee e p) \<and> orc_calls (resume_one ee e p) = orc_calls p"
  using put_status_inv [of p e OxRunning] by (simp add: resume_one_def Let_def)

lemma pause_inv:
  assumes "orch_inv o1"
  shows "orch_inv (fst (orch_pause o1))"
proof -
  let ?p = "o1\<lparr>orc_scheduler := sched_pause (orc_scheduler o1)\<rparr>"
  have p: "orch_inv ?p" using assms by simp
  have "orch_inv (fold pause_one (executions_in OxRunning ?p) ?p)"
    by (rule fold_status_inv [OF p]) (use listed_under_way [OF p] pause_one_inv in \<open>auto simp: final_def\<close>)
  then show ?thesis using assms by (simp add: orch_pause_def Let_def)
qed

lemma resume_inv:
  assumes "orch_inv o1"
  shows "orch_inv (fst (orch_resume ee o1))"
proof -
  let ?p = "o1\<lparr>orc_scheduler := sched_resume (orc_scheduler o1)\<rparr>"
  have p: "orch_inv ?p" using assms by simp
  have "orch_inv (fold (resume_one ee) (executions_in OxPaused ?p) ?p)"
    by (rule fold_status_inv [OF p]) (use listed_under_way [OF p] resume_one_inv in \<open>auto simp: final_def\<close>)
  then show ?thesis using assms by (simp add: orch_resume_def Let_def)
qed

lemma start_inv: "orch_inv o1 \<Longrightarrow> orch_inv (fst (orch_start p o1))"
  by (simp add: orch_start_def Let_def split: option.split)

lemma health_inv: "orch_inv o1 \<Longrightarrow> orch_inv (fst (orch_health_report now runs memory o1))"
  by (simp add: orch_health_report_def Let_def split: sum.split)

lemma orch_do_inv: "orch_inv o1 \<Longrightarrow> orch_inv (orch_do st o1)"
  by (cases st)
    (simp_all add: start_inv submit_inv prepare_inv launch_inv orch_land_inv workflow_inv plan_schedule_inv poll_inv orch_cancel_inv stop_inv
      pause_inv resume_inv health_inv)

lemma orch_run_inv: "orch_inv o1 \<Longrightarrow> orch_inv (orch_run steps o1)"
  by (induction steps arbitrary: o1) (simp_all add: orch_run_def orch_do_inv)

lemma new_orchestrator_inv: "orch_inv (new_orchestrator now s r t)"
  by (simp add: orch_inv_def new_orchestrator_def js_wf_def)


section \<open>An agent is executed once\<close>

definition spent :: "lifecycle_map \<Rightarrow> string \<Rightarrow> bool" where
  "spent l a = (\<not> isValidTransition (getAgentState l a) Initializing)"

lemma initialize_spent:
  assumes "spent l a"
  shows "spent (fst (initialize fnd out b l)) a" "\<exists>e. snd (initialize fnd out a l) = Inl e"
proof -
  obtain y where y: "js_get l a = Some y"
    using assms by (cases "js_get l a") (auto simp: spent_def getAgentState_def isValidTransition_def)
  show "spent (fst (initialize fnd out b l)) a" "\<exists>e. snd (initialize fnd out a l) = Inl e"
    using assms y
    by (auto simp: spent_def initialize_def getAgentState_def setState_def js_has_iff isValidTransition_def Let_def
        split: sum.split option.split if_splits)
qed

lemma initialize_spends: "initialize fnd out a l = (m, Inr u) \<Longrightarrow> spent m a"
  by (auto simp: spent_def initialize_def getAgentState_def setState_def isValidTransition_def Let_def
      split: sum.splits option.splits if_splits)

lemma fail_fields [simp]:
  "orc_lifecycle (fst (orch_fail now e err o1)) = orc_lifecycle o1" "orc_runtime (fst (orch_fail now e err o1)) = orc_runtime o1"
  "orc_scheduler (fst (orch_fail now e err o1)) = orc_scheduler o1" "orc_state (fst (orch_fail now e err o1)) = orc_state o1"
  "snd (orch_fail now e err o1) = Inl err"
  by (simp_all add: orch_fail_def Let_def)

lemma complete_fields [simp]:
  "orc_lifecycle (fst (orch_complete env mid e r o1)) = orc_lifecycle o1" "orc_runtime (fst (orch_complete env mid e r o1)) = orc_runtime o1"
  "orc_scheduler (fst (orch_complete env mid e r o1)) = orc_scheduler o1"
  by (simp_all add: orch_complete_def Let_def)

lemma settle_lifecycle [simp]: "orc_lifecycle (fst (orch_settle env mid i res o1)) = orc_lifecycle o1"
  by (simp add: orch_settle_def split: option.split sum.split)

lemma loadMemory_pair: "loadMemoryContext env o1 = (o2, m) \<Longrightarrow> orc_lifecycle o2 = orc_lifecycle o1"
  using memory_fields(3) [of env o1] by simp

lemma cancel_lifecycle [simp]: "orc_lifecycle (fst (orch_cancel now i o1)) = orc_lifecycle o1"
  by (simp add: orch_cancel_def Let_def split: option.split execution_type.split prod.split sum.split)

lemma cancel_all_lifecycle: "orc_lifecycle (fst (cancel_all now ids o1)) = orc_lifecycle o1"
proof (induction ids arbitrary: o1)
  case (Cons i ids)
  obtain q x where q: "orch_cancel now i o1 = (q, x)" by (rule prod.exhaust)
  then have "orc_lifecycle q = orc_lifecycle o1" using cancel_lifecycle [of now i o1] by simp
  then show ?case using q Cons.IH by (cases x) simp_all
qed simp

lemma stop_lifecycle: "orc_lifecycle (fst (orch_stop now o1)) = orc_lifecycle o1"
proof -
  let ?p = "o1\<lparr>orc_state := OrchStopping\<rparr>"
  obtain q x where q: "cancel_all now (map oe_executionId (executions_in OxRunning ?p)) ?p = (q, x)" by (rule prod.exhaust)
  have "orc_lifecycle q = orc_lifecycle o1" using cancel_all_lifecycle [of now "map oe_executionId (executions_in OxRunning ?p)" ?p] q by simp
  then show ?thesis using q by (cases x) (simp_all add: orch_stop_def Let_def)
qed

lemma fold_lifecycle: "(\<And>e p. orc_lifecycle (f e p) = orc_lifecycle p) \<Longrightarrow> orc_lifecycle (fold f es o1) = orc_lifecycle o1"
  by (induction es arbitrary: o1) simp_all

lemma pause_lifecycle: "orc_lifecycle (fst (orch_pause o1)) = orc_lifecycle o1"
proof -
  have "orc_lifecycle (pause_one e p) = orc_lifecycle p" for e p by (simp add: pause_one_def Let_def)
  then show ?thesis by (simp add: orch_pause_def Let_def fold_lifecycle)
qed

lemma resume_lifecycle: "orc_lifecycle (fst (orch_resume ee o1)) = orc_lifecycle o1"
proof -
  have "orc_lifecycle (resume_one ee e p) = orc_lifecycle p" for e p by (simp add: resume_one_def Let_def)
  then show ?thesis by (simp add: orch_resume_def Let_def fold_lifecycle)
qed

lemma workflow_lifecycle: "orc_lifecycle (fst (orch_workflow env ee mid i wid o1)) = orc_lifecycle o1"
  by (auto simp: orch_workflow_def loadMemory_pair split: option.split orch_call.split orch_request.split prod.split sum.split)

lemma schedule_lifecycle: "orc_lifecycle (fst (orch_schedule env i o1)) = orc_lifecycle o1"
  by (auto simp: orch_schedule_def loadMemory_pair split: option.split orch_call.split orch_request.split prod.split sum.split)

lemma other_lifecycle:
  "orc_lifecycle (fst (orch_start pr o1)) = orc_lifecycle o1" "orc_lifecycle (fst (orch_submit now i rq o1)) = orc_lifecycle o1"
  "orc_lifecycle (fst (orch_launch env mid i eid h o1)) = orc_lifecycle o1" "orc_lifecycle (fst (orch_land env mid i o1)) = orc_lifecycle o1"
  "orc_lifecycle (fst (orch_poll env mid i o1)) = orc_lifecycle o1"
  "orc_lifecycle (fst (orch_health_report now runs memory o1)) = orc_lifecycle o1"
  by (simp_all add: orch_start_def orch_submit_def orch_launch_def orch_land_def orch_poll_def orch_health_report_def Let_def
      split: option.split orch_call.split prod.split orch_request.split sum.split)

lemma validate_lifecycle:
  assumes "validateAndInitializeAgent env a o1 = (o2, x)"
  shows "spent (orc_lifecycle o1) b \<Longrightarrow> spent (orc_lifecycle o2) b" "x = Inr u \<Longrightarrow> spent (orc_lifecycle o2) a"
    "spent (orc_lifecycle o1) a \<Longrightarrow> \<exists>e. x = Inl e"
proof -
  let ?f = "find_agent (rt_agents (orc_runtime o1))"
  obtain l y where l: "initialize ?f (ov_initialize env) a (orc_lifecycle o1) = (l, y)" by (rule prod.exhaust)
  show "spent (orc_lifecycle o1) b \<Longrightarrow> spent (orc_lifecycle o2) b"
    using assms l initialize_spent(1) [of "orc_lifecycle o1" b ?f "ov_initialize env" a]
    by (auto simp: validateAndInitializeAgent_def Let_def split: option.splits sum.splits if_splits)
  show "x = Inr u \<Longrightarrow> spent (orc_lifecycle o2) a"
    using assms l initialize_spends [of ?f "ov_initialize env" a "orc_lifecycle o1" l]
    by (auto simp: validateAndInitializeAgent_def Let_def split: option.splits sum.splits if_splits)
  show "spent (orc_lifecycle o1) a \<Longrightarrow> \<exists>e. x = Inl e"
    using assms l initialize_spent(2) [of "orc_lifecycle o1" a ?f "ov_initialize env"]
    by (auto simp: validateAndInitializeAgent_def Let_def split: option.splits sum.splits if_splits)
qed

lemma prepare_spent:
  assumes "spent (orc_lifecycle o1) a"
  shows "spent (orc_lifecycle (fst (orch_prepare env i rid o1))) a"
  using assms
  by (auto simp: orch_prepare_def loadMemory_pair validate_lifecycle(1)
      split: option.split orch_call.split orch_request.split prod.split sum.split)

lemma orch_do_spent: "spent (orc_lifecycle o1) a \<Longrightarrow> spent (orc_lifecycle (orch_do st o1)) a"
  by (cases st) (simp_all add: other_lifecycle workflow_lifecycle schedule_lifecycle stop_lifecycle pause_lifecycle
      resume_lifecycle prepare_spent)

lemma orch_run_spent: "spent (orc_lifecycle o1) a \<Longrightarrow> spent (orc_lifecycle (orch_run steps o1)) a"
  by (induction steps arbitrary: o1) (simp_all add: orch_run_def orch_do_spent)

lemma prepared_spent:
  assumes "snd (orch_prepare env i rid o1) = None" "js_get (orc_calls o1) i = Some Submitted"
    "js_get (orc_executions o1) i = Some e" "oe_request e = AgentRun rq"
  shows "spent (orc_lifecycle (fst (orch_prepare env i rid o1))) (ar_agentId rq)"
proof -
  obtain o2 x where v: "validateAndInitializeAgent env (ar_agentId rq) o1 = (o2, x)" by (rule prod.exhaust)
  then obtain u where x: "x = Inr u" using assms by (cases x) (simp_all add: orch_prepare_def)
  show ?thesis using assms v x validate_lifecycle(2) [OF v x] loadMemory_pair [of env o2]
    by (simp add: orch_prepare_def split: prod.split)
qed

text \<open>A submitted execution of an agent that is spent fails at once, and the runtime hears nothing of it.\<close>

lemma spent_fails:
  assumes "spent (orc_lifecycle o1) (ar_agentId rq)" "orch_inv o1" "js_get (orc_calls o1) j = Some Submitted"
    "js_get (orc_executions o1) j = Some e" "oe_request e = AgentRun rq"
  shows "\<exists>err. snd (orch_prepare env j rid o1) = Some (Inl err)
    \<and> orc_runtime (fst (orch_prepare env j rid o1)) = orc_runtime o1
    \<and> map_option oe_status (js_get (orc_executions (fst (orch_prepare env j rid o1))) j) = Some OxFailed"
proof -
  obtain o2 x where v: "validateAndInitializeAgent env (ar_agentId rq) o1 = (o2, x)" by (rule prod.exhaust)
  obtain err where x: "x = Inl err" using validate_lifecycle(3) [OF v assms(1)] by blast
  have id: "oe_executionId e = j" using orch_execution_ok [OF assms(2,4)] by (simp add: execution_ok_def)
  have "js_get (orc_executions (fst (orch_fail (ov_now env) e err o2))) j
      = Some (stamp_end (ov_now env) (e\<lparr>oe_status := OxFailed, oe_error := Some (orch_message err)\<rparr>))"
    using id by (simp add: orch_fail_def Let_def)
  then show ?thesis using assms v x validate_fields [OF v] by (simp add: orch_prepare_def)
qed

text \<open>C20: The orchestrator executes an agent at most once: after it has prepared an agent and called the runtime, every
  later execution of that agent fails and does not reach the runtime, whatever steps lie between, because
  preparing initializes the agent again and nothing of the orchestrator leads back to a state from which the
  lifecycle allows that.\<close>

theorem agent_executed_once:
  assumes "orch_inv o1" "js_get (orc_calls o1) i = Some Submitted" "js_get (orc_executions o1) i = Some e" "oe_request e = AgentRun rq"
    and "snd (orch_prepare env i rid o1) = None"
    and "js_get (orc_calls (orch_run steps (fst (orch_prepare env i rid o1)))) j = Some Submitted"
    and "js_get (orc_executions (orch_run steps (fst (orch_prepare env i rid o1)))) j = Some e'"
    and "oe_request e' = AgentRun rq'" "ar_agentId rq' = ar_agentId rq"
  shows "\<exists>err. snd (orch_prepare env' j rid' (orch_run steps (fst (orch_prepare env i rid o1)))) = Some (Inl err)
    \<and> orc_runtime (fst (orch_prepare env' j rid' (orch_run steps (fst (orch_prepare env i rid o1)))))
        = orc_runtime (orch_run steps (fst (orch_prepare env i rid o1)))
    \<and> map_option oe_status (js_get (orc_executions (fst (orch_prepare env' j rid' (orch_run steps (fst (orch_prepare env i rid o1)))))) j)
        = Some OxFailed"
proof (rule spent_fails [OF _ _ assms(6,7,8)])
  show "spent (orc_lifecycle (orch_run steps (fst (orch_prepare env i rid o1)))) (ar_agentId rq')"
    unfolding assms(9) by (rule orch_run_spent [OF prepared_spent [OF assms(5,2,3,4)]])
  show "orch_inv (orch_run steps (fst (orch_prepare env i rid o1)))" by (rule orch_run_inv [OF prepare_inv [OF assms(1)]])
qed

text \<open>A registered agent \<open>a\<close> and two requests for it.\<close>

definition demo_orch_context :: orch_context where
  "demo_orch_context = \<lparr>ox_requestId = ''q'', ox_traceId = ''t'', ox_workspaceId = ''w'', ox_conversationId = None, ox_executionId = ''c'',
     ox_userId = ''u'', ox_metadata = [], ox_aborted = False\<rparr>"

definition demo_agent_run :: orch_request where
  "demo_agent_run = AgentRun \<lparr>ar_agentId = ''a'', ar_input = JNull, ar_context = Some demo_orch_context, ar_timeout = None\<rparr>"

definition demo_orch_env :: orch_env where
  "demo_orch_env = \<lparr>ov_now = 5, ov_health = Inr demo_healthy, ov_initialize = None, ov_load = Inr JNull, ov_save = None,
     ov_value = (\<lambda>r. JNull)\<rparr>"

definition demo_orchestrator :: orchestrator where
  "demo_orchestrator = orch_run [StStart (\<lambda>c. True), StSubmit 1 ''x'' demo_agent_run]
     (new_orchestrator 0 demo_new new_registry (new_agent_runtime [(''a'', demo_exec_agent)]))"

lemmas demo_orch_simps = demo_orchestrator_def orch_run_def new_orchestrator_def orch_start_def validateComponents_def
  orch_components_def orch_submit_def ensureRunning_def demo_agent_run_def validateAgentExecutionRequest_def demo_orch_context_def
  createExecution_def put_execution_def put_call_def js_get_def js_set_def

lemma demo_orchestrator_inv: "orch_inv demo_orchestrator"
  unfolding demo_orchestrator_def by (rule orch_run_inv [OF new_orchestrator_inv])

lemma demo_submitted:
  "js_get (orc_calls demo_orchestrator) ''x'' = Some Submitted"
  "js_get (orc_executions demo_orchestrator) ''x'' = Some ((createExecution 1 ''x'' demo_agent_run)\<lparr>oe_status := OxRunning\<rparr>)"
  by (simp_all add: demo_orch_simps)

definition demo_prepared :: orchestrator where
  "demo_prepared = fst (orch_prepare demo_orch_env ''x'' ''r'' demo_orchestrator)"

lemma demo_prepare: "snd (orch_prepare demo_orch_env ''x'' ''r'' demo_orchestrator) = None"
  by code_simp

lemma demo_again:
  "js_get (orc_calls (orch_run [StSubmit 9 ''y'' demo_agent_run] demo_prepared)) ''y'' = Some Submitted"
  by code_simp

lemma demo_again_execution:
  "js_get (orc_executions (orch_run [StSubmit 9 ''y'' demo_agent_run] demo_prepared)) ''y''
     = Some ((createExecution 9 ''y'' demo_agent_run)\<lparr>oe_status := OxRunning\<rparr>)"
proof -
  have r: "orc_state demo_prepared = OrchRunning" by code_simp
  show ?thesis using r by (simp add: orch_run_def orch_submit_def ensureRunning_def demo_agent_run_def
      validateAgentExecutionRequest_def demo_orch_context_def createExecution_def)
qed

theorem agent_executed_once_witness:
  "\<exists>err. snd (orch_prepare demo_orch_env ''y'' ''s'' (orch_run [StSubmit 9 ''y'' demo_agent_run] demo_prepared)) = Some (Inl err)"
  using agent_executed_once [OF demo_orchestrator_inv demo_submitted, of _ demo_orch_env "''r''" "[StSubmit 9 ''y'' demo_agent_run]" "''y''"
      _ _ demo_orch_env "''s''"] demo_prepare demo_again demo_again_execution
  by (auto simp: demo_prepared_def demo_agent_run_def createExecution_def)

section \<open>Cancelling an agent\<close>

lemma cancel_agent:
  assumes "js_get (orc_executions o1) i = Some e" "oe_type e = SingleAgent" "oe_status e = OxRunning \<or> oe_status e = OxPaused"
    "eg_get i (rt_registry (orc_runtime o1)) = None"
  shows "orch_cancel now i o1 =
    (let m = ''Failed to cancel execution '' @ i @ '': '' @ err_message (ExecutionNotFound i)
     in (orch_blame m (put_execution (stamp_end now (e\<lparr>oe_status := OxCancelled\<rparr>)) o1), Inl (OrchestratorFailed ''cancel'' m)))"
proof -
  have "\<not> (oe_status e \<noteq> OxRunning \<and> oe_status e \<noteq> OxPaused)" using assms(3) by blast
  moreover have "o1\<lparr>orc_runtime := orc_runtime o1\<rparr> = o1" for o1 :: orchestrator by simp
  ultimately show ?thesis using assms(1,2,4)
    by (simp only: orch_cancel_def option.case if_False) (simp add: cancelExecution_def put_execution_def)
qed

lemma orch_complete_done:
  assumes "oe_executionId e = i"
  shows "map_option oe_status (js_get (orc_executions (fst (orch_complete env mid e r o1))) i) = Some OxCompleted"
    "orc_successfulExecutions (fst (orch_complete env mid e r o1)) = orc_successfulExecutions o1 + 1"
  using assms by (simp_all add: orch_complete_def Let_def) (simp_all add: end_call_def updateMetrics_def)

text \<open>C22: An agent that runs cannot be cancelled: the orchestrator knows the execution under an id that the runtime has
  never seen, so that \<open>cancel\<close> throws after it has marked the execution as cancelled, the runtime goes on, and when
  its result arrives the execution is completed and counted as a success.\<close>

theorem cancelled_agent_completes:
  assumes "orch_inv o1" "js_get (orc_executions o1) i = Some e" "oe_type e = SingleAgent" "oe_status e = OxRunning \<or> oe_status e = OxPaused"
    and "eg_get i (rt_registry (orc_runtime o1)) = None" "js_get (orc_calls o1) i = Some (AtRuntime rid)"
    and "snd (rt_finish (ov_now env) rid (orc_runtime o1)) = Some (Inr r)"
  shows "snd (orch_cancel now i o1)
      = Inl (OrchestratorFailed ''cancel'' (''Failed to cancel execution '' @ i @ '': '' @ err_message (ExecutionNotFound i)))
    \<and> map_option oe_status (js_get (orc_executions (fst (orch_cancel now i o1))) i) = Some OxCancelled
    \<and> orc_runtime (fst (orch_cancel now i o1)) = orc_runtime o1
    \<and> map_option oe_status (js_get (orc_executions (fst (orch_land env mid i (fst (orch_cancel now i o1))))) i) = Some OxCompleted
    \<and> orc_successfulExecutions (fst (orch_land env mid i (fst (orch_cancel now i o1)))) = orc_successfulExecutions o1 + 1"
proof -
  have id: "oe_executionId e = i" using orch_execution_ok [OF assms(1,2)] by (simp add: execution_ok_def)
  obtain t where t: "rt_finish (ov_now env) rid (orc_runtime o1) = (t, Some (Inr r))" using assms(7) by (metis prod.collapse)
  note c = cancel_agent [OF assms(2-5), of now, unfolded Let_def]
  let ?e = "stamp_end now (e\<lparr>oe_status := OxCancelled\<rparr>)" and ?o = "fst (orch_cancel now i o1)"
  have o2: "orc_runtime ?o = orc_runtime o1" "js_get (orc_calls ?o) i = Some (AtRuntime rid)" "js_get (orc_executions ?o) i = Some ?e"
    "orc_successfulExecutions ?o = orc_successfulExecutions o1"
    using c assms(6) id by simp_all
  have land: "fst (orch_land env mid i ?o) = fst (orch_complete env mid ?e (AgentResult r) (?o\<lparr>orc_runtime := t\<rparr>))"
    using t o2(1-3) by (simp add: orch_land_def orch_settle_def)
  show ?thesis using c o2 id land orch_complete_done [of ?e i env mid "AgentResult r" "?o\<lparr>orc_runtime := t\<rparr>"] by simp
qed

definition demo_flying :: orchestrator where
  "demo_flying = orch_run [StLaunch demo_orch_env ''m'' ''x'' ''k'' demo_healthy] demo_prepared"

lemma demo_flying_inv: "orch_inv demo_flying"
  unfolding demo_flying_def demo_prepared_def by (rule orch_run_inv [OF prepare_inv [OF demo_orchestrator_inv]])

lemma demo_flying_facts:
  "map_option (\<lambda>e. (oe_type e, oe_status e)) (js_get (orc_executions demo_flying) ''x'') = Some (SingleAgent, OxRunning)"
  "eg_get ''x'' (rt_registry (orc_runtime demo_flying)) = None"
  "js_get (orc_calls demo_flying) ''x'' = Some (AtRuntime ''r'')"
  "map_option isl (snd (rt_finish 5 ''r'' (orc_runtime demo_flying))) = Some False"
  by code_simp+

theorem cancelled_agent_completes_witness:
  "map_option oe_status (js_get (orc_executions (fst (orch_land demo_orch_env ''m'' ''x'' (fst (orch_cancel 7 ''x'' demo_flying))))) ''x'')
     = Some OxCompleted"
proof -
  obtain e where e: "js_get (orc_executions demo_flying) ''x'' = Some e" "oe_type e = SingleAgent" "oe_status e = OxRunning"
    using demo_flying_facts(1) by auto
  obtain r where r: "snd (rt_finish (ov_now demo_orch_env) ''r'' (orc_runtime demo_flying)) = Some (Inr r)"
    using demo_flying_facts(4) by (auto simp: demo_orch_env_def isl_def elim!: sum.exhaust_sel) (metis sumE)
  show ?thesis
    using cancelled_agent_completes [OF demo_flying_inv e(1,2) disjI1 [OF e(3)] demo_flying_facts(2,3) r, of 7 "''m''"] by blast
qed

section \<open>Stopping\<close>

text \<open>An execution of an agent under way, unknown to the runtime, stands in the way of a series of cancellations.\<close>

definition obstacle :: "string \<Rightarrow> orchestrator \<Rightarrow> bool" where
  "obstacle i o1 \<longleftrightarrow> eg_get i (rt_registry (orc_runtime o1)) = None
     \<and> (\<exists>e. js_get (orc_executions o1) i = Some e \<and> oe_executionId e = i \<and> oe_type e = SingleAgent \<and> oe_status e = OxRunning)"

lemma cancelExecution_unknown:
  "eg_get j (rt_registry s) = None \<Longrightarrow> eg_get j (rt_registry (fst (cancelExecution now i s))) = None"
  by (auto simp: cancelExecution_def eg_get_def eg_update_def Let_def split: option.split prod.split if_splits)

lemma cancel_kept:
  assumes "orch_cancel now i o1 = (o2, Inr b)"
  shows "orc_scheduler o2 = orc_scheduler o1 \<and> orc_state o2 = orc_state o1"
  using assms by (auto simp: orch_cancel_def Let_def split: option.splits execution_type.splits prod.splits sum.splits if_splits)

lemma cancel_error_kept:
  assumes "orch_cancel now i o1 = (o2, Inl e)"
  shows "orc_scheduler o2 = orc_scheduler o1"
  using assms by (auto simp: orch_cancel_def Let_def split: option.splits execution_type.splits prod.splits sum.splits if_splits)

lemma obstacle_stays:
  assumes "obstacle j o1" "orch_inv o1" "orch_cancel now i o1 = (o2, Inr b)" "i \<noteq> j"
  shows "obstacle j o2"
proof -
  have e: "js_get (orc_executions o2) j = js_get (orc_executions o1) j"
  proof (cases "js_get (orc_executions o1) i")
    case (Some e)
    then have "oe_executionId e = i" using orch_execution_ok [OF assms(2) Some] by (simp add: execution_ok_def)
    then show ?thesis using assms(3,4) Some
      by (auto simp: orch_cancel_def Let_def split: execution_type.splits prod.splits sum.splits if_splits)
  qed (use assms(3) in \<open>simp add: orch_cancel_def\<close>)
  have "orc_runtime o2 = orc_runtime o1 \<or> orc_runtime o2 = fst (cancelExecution now i (orc_runtime o1))"
    using assms(3) by (auto simp: orch_cancel_def Let_def split: option.splits execution_type.splits prod.splits sum.splits if_splits)
  then have "eg_get j (rt_registry (orc_runtime o2)) = None"
    using assms(1) cancelExecution_unknown unfolding obstacle_def by metis
  then show ?thesis using assms(1) e by (simp add: obstacle_def)
qed

lemma cancel_all_blocked:
  assumes "obstacle j o1" "orch_inv o1" "j \<in> set ids"
  shows "\<exists>o2 e. cancel_all now ids o1 = (o2, Inl e) \<and> orc_scheduler o2 = orc_scheduler o1"
  using assms
proof (induction ids arbitrary: o1)
  case (Cons i ids)
  obtain o2 x where c: "orch_cancel now i o1 = (o2, x)" by (rule prod.exhaust)
  show ?case
  proof (cases x)
    case (Inl e)
    then show ?thesis using c cancel_error_kept by simp
  next
    case (Inr b)
    have ij: "i \<noteq> j"
    proof
      assume "i = j"
      then obtain e where e: "js_get (orc_executions o1) i = Some e" "oe_type e = SingleAgent" "oe_status e = OxRunning"
        "eg_get i (rt_registry (orc_runtime o1)) = None" using Cons.prems(1) by (auto simp: obstacle_def)
      show False using cancel_agent [OF e(1,2) disjI1 [OF e(3)] e(4), of now] c Inr by (simp add: Let_def)
    qed
    have o2: "obstacle j o2" "orch_inv o2" "orc_scheduler o2 = orc_scheduler o1"
      using obstacle_stays [OF Cons.prems(1,2) _ ij] c Inr orch_cancel_inv [OF Cons.prems(2), of now i] cancel_kept by auto
    have "j \<in> set ids" using Cons.prems(3) ij by simp
    then show ?thesis using Cons.IH [OF o2(1,2)] c Inr o2(3) by simp
  qed
qed simp

text \<open>C21: While an agent runs the orchestrator does not stop: \<open>stop\<close> fails on the cancellation of that execution, leaves the
  orchestrator in its error state and the scheduler unpaused; \<open>start\<close> then takes it back to running as if nothing
  had happened.\<close>

theorem stop_fails_while_agent_runs:
  assumes "orch_inv o1" "orc_state o1 \<noteq> OrchStopped"
    and "js_get (orc_executions o1) i = Some e" "oe_type e = SingleAgent" "oe_status e = OxRunning"
    and "eg_get i (rt_registry (orc_runtime o1)) = None"
  shows "isl (snd (orch_stop now o1)) \<and> orc_state (fst (orch_stop now o1)) = OrchError
    \<and> isPaused (orc_scheduler (fst (orch_stop now o1))) = isPaused (orc_scheduler o1)
    \<and> orc_state (fst (orch_start (\<lambda>c. True) (fst (orch_stop now o1)))) = OrchRunning"
proof -
  let ?p = "o1\<lparr>orc_state := OrchStopping\<rparr>"
  have inv: "orch_inv ?p" using assms(1) by simp
  have id: "oe_executionId e = i" using orch_execution_ok [OF assms(1,3)] by (simp add: execution_ok_def)
  have "obstacle i ?p" using assms id by (simp add: obstacle_def)
  moreover have "(i, e) \<in> set (orc_executions ?p)"
    using assms(1,3) by (simp add: js_get_wf orch_inv_def)
  then have "i \<in> set (map oe_executionId (executions_in OxRunning ?p))"
    using id assms(5) by (force simp: executions_in_def js_values_def)
  ultimately obtain o2 err where "cancel_all now (map oe_executionId (executions_in OxRunning ?p)) ?p = (o2, Inl err)"
      "orc_scheduler o2 = orc_scheduler ?p"
    using cancel_all_blocked [OF _ inv] by blast
  then show ?thesis using assms(2)
    by (simp add: orch_stop_def Let_def orch_start_def validateComponents_def orch_components_def)
qed

theorem stop_fails_while_agent_runs_witness:
  "orc_state (fst (orch_stop 9 demo_flying)) = OrchError"
proof -
  obtain e where e: "js_get (orc_executions demo_flying) ''x'' = Some e" "oe_type e = SingleAgent" "oe_status e = OxRunning"
    using demo_flying_facts(1) by auto
  have "orc_state demo_flying \<noteq> OrchStopped" by code_simp
  then show ?thesis using stop_fails_while_agent_runs [OF demo_flying_inv _ e demo_flying_facts(2), of 9] by blast
qed

section \<open>A plan\<close>

text \<open>The polls of a plan, each at least a second after the one before.\<close>

fun spaced :: "time_ms \<Rightarrow> orch_env list \<Rightarrow> bool" where
  "spaced t [] = True"
| "spaced t (v # vs) = (t + poll_interval \<le> ov_now v \<and> spaced (ov_now v) vs)"

definition poll_all :: "string \<Rightarrow> string \<Rightarrow> orch_env list \<Rightarrow> orchestrator \<Rightarrow> orchestrator" where
  "poll_all mid i vs o1 = fold (\<lambda>v p. fst (orch_poll v mid i p)) vs o1"

lemma last_poll:
  assumes "js_get (orc_calls o1) i = Some (Polling 1 due)" "js_get (orc_executions o1) i = Some e" "oe_executionId e = i"
    "oe_request e = PlanRun rq" "pr_plan rq = Some (pid, ts)" "due \<le> ov_now v"
  shows "\<exists>f. js_get (orc_executions (fst (orch_poll v mid i o1))) i = Some f \<and> oe_status f = OxCompleted
    \<and> oe_duration f = Some (ov_now v - oe_startedAt e)"
  using assms by (simp add: orch_poll_def orch_complete_def Let_def)

lemma poll_scheduler [simp]: "orc_scheduler (fst (orch_poll v mid i o1)) = orc_scheduler o1"
  by (simp add: orch_poll_def split: option.split orch_call.split orch_request.split)

lemma poll_all_scheduler: "orc_scheduler (poll_all mid i vs o1) = orc_scheduler o1"
  by (induction vs arbitrary: o1) (simp_all add: poll_all_def)

lemma polls_complete:
  assumes "js_get (orc_calls o1) i = Some (Polling (Suc n) (t + poll_interval))" "js_get (orc_executions o1) i = Some e"
    "oe_executionId e = i" "oe_request e = PlanRun rq" "pr_plan rq = Some (pid, ts)" "length vs = Suc n" "spaced t vs"
  shows "\<exists>f d. js_get (orc_executions (poll_all mid i vs o1)) i = Some f \<and> oe_status f = OxCompleted
    \<and> oe_duration f = Some d \<and> t - oe_startedAt e + int (Suc n) * poll_interval \<le> d"
  using assms(1,2,6,7)
proof (induction n arbitrary: o1 t vs)
  case 0
  then obtain v where v: "vs = [v]" "t + poll_interval \<le> ov_now v" by (cases vs) auto
  have due: "js_get (orc_calls o1) i = Some (Polling 1 (t + poll_interval))" using "0.prems"(1) by simp
  show ?case using last_poll [OF due "0.prems"(2) assms(3-5) v(2), of mid] v by (auto simp: poll_all_def)
next
  case (Suc n)
  then obtain v ws where v: "vs = v # ws" "t + poll_interval \<le> ov_now v" "length ws = Suc n" "spaced (ov_now v) ws"
    by (cases vs) auto
  let ?p = "fst (orch_poll v mid i o1)"
  have p: "js_get (orc_calls ?p) i = Some (Polling (Suc n) (ov_now v + poll_interval))" "js_get (orc_executions ?p) i = Some e"
    using Suc.prems(1,2) assms(4,5) v(2) by (simp_all add: orch_poll_def)
  obtain f d where f: "js_get (orc_executions (poll_all mid i ws ?p)) i = Some f" "oe_status f = OxCompleted" "oe_duration f = Some d"
      "ov_now v - oe_startedAt e + int (Suc n) * poll_interval \<le> d"
    using Suc.IH [OF p v(3,4)] by blast
  have "t - oe_startedAt e + int (Suc (Suc n)) * poll_interval \<le> d"
    using f(4) v(2) by (simp add: poll_interval_def)
  then show ?case using f(1-3) v(1) by (auto simp: poll_all_def)
qed

lemma scheduled_plan:
  assumes "js_get (orc_calls o1) i = Some Submitted" "js_get (orc_executions o1) i = Some e" "oe_request e = PlanRun rq"
    "pr_plan rq = Some (pid, ts)" "snd (enqueue ts (orc_scheduler o1)) = Inr ()"
  shows "js_get (orc_calls (fst (orch_schedule env i o1))) i = Some (Polling (length ts) (ov_now env + poll_interval))
    \<and> js_get (orc_executions (fst (orch_schedule env i o1))) i = Some e
    \<and> orc_scheduler (fst (orch_schedule env i o1)) = fst (enqueue ts (orc_scheduler o1))"
proof -
  obtain o2 m where m: "loadMemoryContext env o1 = (o2, m)" by (rule prod.exhaust)
  have o2: "orc_scheduler o2 = orc_scheduler o1" "orc_executions o2 = orc_executions o1"
    using m memory_fields(4,6) [of env o1] by simp_all
  obtain s where s: "enqueue ts (orc_scheduler o1) = (s, Inr ())" using assms(5) by (metis prod.collapse)
  show ?thesis using assms(1-4) m o2 s by (simp add: orch_schedule_def)
qed

text \<open>C23: A plan whose tasks could be scheduled completes after as many seconds as it has tasks, whatever becomes of them:
  the scheduler is as the scheduling has left it, no task has begun to run, and the execution is completed with a
  duration of at least a second for each task.\<close>

theorem plan_completes_by_the_clock:
  assumes "orch_inv o1" "js_get (orc_calls o1) i = Some Submitted" "js_get (orc_executions o1) i = Some e"
    "oe_request e = PlanRun rq" "pr_plan rq = Some (pid, ts)" "ts \<noteq> []" "oe_startedAt e \<le> ov_now env"
    and "snd (enqueue ts (orc_scheduler o1)) = Inr ()" "length vs = length ts" "spaced (ov_now env) vs"
  shows "\<exists>f d. js_get (orc_executions (poll_all mid i vs (fst (orch_schedule env i o1)))) i = Some f
    \<and> oe_status f = OxCompleted \<and> oe_duration f = Some d \<and> int (length ts) * 1000 \<le> d
    \<and> orc_scheduler (poll_all mid i vs (fst (orch_schedule env i o1))) = fst (enqueue ts (orc_scheduler o1))
    \<and> runningTasksMap (orc_scheduler (poll_all mid i vs (fst (orch_schedule env i o1)))) = runningTasksMap (orc_scheduler o1)"
proof -
  let ?p = "fst (orch_schedule env i o1)"
  obtain n where n: "length ts = Suc n" using assms(6) by (cases ts) auto
  note p = scheduled_plan [OF assms(2-5,8), of env]
  have id: "oe_executionId e = i" using orch_execution_ok [OF assms(1,3)] by (simp add: execution_ok_def)
  have c: "js_get (orc_calls ?p) i = Some (Polling (Suc n) (ov_now env + poll_interval))" using p n by simp
  have e: "js_get (orc_executions ?p) i = Some e" using p by simp
  obtain f d where f: "js_get (orc_executions (poll_all mid i vs ?p)) i = Some f" "oe_status f = OxCompleted" "oe_duration f = Some d"
      "ov_now env - oe_startedAt e + int (Suc n) * poll_interval \<le> d"
    using polls_complete [OF c e id assms(4,5) assms(9) [unfolded n] assms(10)] by blast
  have "int (length ts) * 1000 \<le> d" using f(4) assms(7) n by (simp add: poll_interval_def)
  then show ?thesis using f(1-3) p poll_all_scheduler [of mid i vs ?p] by auto
qed

definition demo_plan_run :: orch_request where
  "demo_plan_run = PlanRun \<lparr>pr_planId = None, pr_plan = Some (''p'', [0, 1]), pr_context = Some demo_orch_context\<rparr>"

definition demo_planned :: orchestrator where
  "demo_planned = orch_run [StStart (\<lambda>c. True), StSubmit 1 ''x'' demo_plan_run]
     (new_orchestrator 0 demo_new new_registry (new_agent_runtime []))"

lemma demo_planned_facts:
  "js_get (orc_calls demo_planned) ''x'' = Some Submitted"
  "js_get (orc_executions demo_planned) ''x'' = Some ((createExecution 1 ''x'' demo_plan_run)\<lparr>oe_status := OxRunning\<rparr>)"
  "orc_scheduler demo_planned = demo_new"
  by (simp_all add: demo_planned_def demo_plan_run_def orch_run_def new_orchestrator_def orch_start_def validateComponents_def
      orch_components_def orch_submit_def ensureRunning_def validatePlanExecutionRequest_def createExecution_def)

definition demo_polls :: "orch_env list" where
  "demo_polls = [demo_orch_env\<lparr>ov_now := 1005\<rparr>, demo_orch_env\<lparr>ov_now := 2010\<rparr>]"

theorem plan_completes_by_the_clock_witness:
  "runningTasksMap (orc_scheduler (poll_all ''m'' ''x'' demo_polls (fst (orch_schedule demo_orch_env ''x'' demo_planned)))) = []
     \<and> map_option oe_status (js_get (orc_executions (poll_all ''m'' ''x'' demo_polls (fst (orch_schedule demo_orch_env ''x'' demo_planned)))) ''x'')
         = Some OxCompleted"
proof -
  let ?e = "(createExecution 1 ''x'' demo_plan_run)\<lparr>oe_status := OxRunning\<rparr>"
  have inv: "orch_inv demo_planned" unfolding demo_planned_def by (rule orch_run_inv [OF new_orchestrator_inv])
  have rq: "oe_request ?e = PlanRun \<lparr>pr_planId = None, pr_plan = Some (''p'', [0, 1]), pr_context = Some demo_orch_context\<rparr>"
    by (simp add: createExecution_def demo_plan_run_def)
  have q: "snd (enqueue [0, 1] (orc_scheduler demo_planned)) = Inr ()" unfolding demo_planned_facts(3) by code_simp
  have t: "oe_startedAt ?e \<le> ov_now demo_orch_env" "length demo_polls = length [0 :: nat, 1]" "spaced (ov_now demo_orch_env) demo_polls"
    by (simp_all add: createExecution_def demo_orch_env_def demo_polls_def poll_interval_def)
  have r: "runningTasksMap (orc_scheduler demo_planned) = []" unfolding demo_planned_facts(3) by code_simp
  show ?thesis
    using plan_completes_by_the_clock [OF inv demo_planned_facts(1,2) rq _ _ t(1) q t(2,3), of "''p''" "''m''"] r by auto
qed

end
