(* ===== verification/Builtin_Registry.thy ===== *)
theory Builtin_Registry
  imports Planner_Agent Scheduler_Agent Coordinator_Agent Execution_Agent Memory_Agent Workflow_Agent Communication_Agent
    Tool_Agent Plugin_Agent Orchestrator_Agent
begin

text \<open>
  The factory and the registry of the built-in agents (\<open>agents/builtin/factory\<close>) and their registration
  (\<open>agents/runtime/builtin-registration.ts\<close>). What stands for an agent is the record of its metadata; the outcomes of its
  \<open>initialize\<close> and \<open>shutdown\<close>, and its status after them, are given.
\<close>

section \<open>The factory\<close>

datatype builtin_type =
    MemoryBuiltin | ToolBuiltin | PlannerBuiltin | WorkflowBuiltin | ExecutionBuiltin | CoordinatorBuiltin | PluginBuiltin
  | CommunicationBuiltin | SchedulerBuiltin | OrchestratorBuiltin

definition builtin_types :: "builtin_type list" where
  "builtin_types = [MemoryBuiltin, ToolBuiltin, PlannerBuiltin, WorkflowBuiltin, ExecutionBuiltin, CoordinatorBuiltin, PluginBuiltin,
     CommunicationBuiltin, SchedulerBuiltin, OrchestratorBuiltin]"

fun builtin_str :: "builtin_type \<Rightarrow> string" where
  "builtin_str MemoryBuiltin = ''memory-agent''"
| "builtin_str ToolBuiltin = ''tool-agent''"
| "builtin_str PlannerBuiltin = ''planner-agent''"
| "builtin_str WorkflowBuiltin = ''workflow-agent''"
| "builtin_str ExecutionBuiltin = ''execution-agent''"
| "builtin_str CoordinatorBuiltin = ''coordinator-agent''"
| "builtin_str PluginBuiltin = ''plugin-agent''"
| "builtin_str CommunicationBuiltin = ''communication-agent''"
| "builtin_str SchedulerBuiltin = ''scheduler-agent''"
| "builtin_str OrchestratorBuiltin = ''orchestrator-agent''"

fun components_name :: "builtin_type \<Rightarrow> string" where
  "components_name MemoryBuiltin = ''memoryComponents''"
| "components_name ToolBuiltin = ''toolComponents''"
| "components_name PlannerBuiltin = ''plannerComponents''"
| "components_name WorkflowBuiltin = ''workflowComponents''"
| "components_name ExecutionBuiltin = ''executionComponents''"
| "components_name CoordinatorBuiltin = ''coordinatorComponents''"
| "components_name PluginBuiltin = ''pluginComponents''"
| "components_name CommunicationBuiltin = ''communicationComponents''"
| "components_name SchedulerBuiltin = ''schedulerComponents''"
| "components_name OrchestratorBuiltin = ''orchestratorComponents''"

fun builtin_agent_of :: "builtin_type \<Rightarrow> agent" where
  "builtin_agent_of MemoryBuiltin = memory_metadata"
| "builtin_agent_of ToolBuiltin = tool_agent_metadata"
| "builtin_agent_of PlannerBuiltin = planner_metadata"
| "builtin_agent_of WorkflowBuiltin = workflow_metadata"
| "builtin_agent_of ExecutionBuiltin = execution_agent_metadata"
| "builtin_agent_of CoordinatorBuiltin = coordinator_metadata"
| "builtin_agent_of PluginBuiltin = plugin_agent_metadata"
| "builtin_agent_of CommunicationBuiltin = communication_metadata"
| "builtin_agent_of SchedulerBuiltin = scheduler_metadata"
| "builtin_agent_of OrchestratorBuiltin = orchestrator_metadata"

type_synonym builtin_components = "builtin_type \<Rightarrow> bool"

definition missing_components :: "builtin_type \<Rightarrow> string" where
  "missing_components ty = ''Missing required components for '' @ sq (builtin_str ty) @ '': '' @ components_name ty"

definition createAgent :: "builtin_components \<Rightarrow> builtin_type \<Rightarrow> string + agent" where
  "createAgent given ty = (if given ty then Inr (builtin_agent_of ty) else Inl (missing_components ty))"

definition isAgentTypeSupported :: "string \<Rightarrow> bool" where
  "isAgentTypeSupported s = List.member (map builtin_str builtin_types) s"

section \<open>The registry\<close>

record builtin_instance =
  bi_id :: string
  bi_type :: builtin_type
  bi_agent :: agent
  bi_status :: agent_status
  bi_createdAt :: time_ms
  bi_lastUsed :: "time_ms option"
  bi_usageCount :: nat
  bi_metadata :: js_record

record builtin_registry =
  br_agents :: "(string, builtin_instance) js_map"
  br_startTime :: time_ms
  br_totalRegistrations :: nat
  br_totalUnregistrations :: nat
  br_errors :: "string list"
  br_warnings :: "string list"
  br_lastActivity :: "time_ms option"

definition new_builtin_registry :: "time_ms \<Rightarrow> builtin_registry" where
  "new_builtin_registry now = \<lparr>br_agents = [], br_startTime = now, br_totalRegistrations = 0, br_totalUnregistrations = 0,
     br_errors = [], br_warnings = [], br_lastActivity = None\<rparr>"

definition generateAgentId :: "time_ms \<Rightarrow> string \<Rightarrow> builtin_type \<Rightarrow> string" where
  "generateAgentId now random ty = builtin_str ty @ ''-'' @ int_str now @ ''-'' @ random"

definition agent_already_registered :: "string \<Rightarrow> string" where
  "agent_already_registered i = ''Agent '' @ sq i @ '' is already registered''"

definition agent_not_registered :: "string \<Rightarrow> string" where
  "agent_not_registered i = ''Agent '' @ sq i @ '' is not registered''"

definition br_fail :: "string \<Rightarrow> builtin_registry \<Rightarrow> builtin_registry \<times> (string + 'a)" where
  "br_fail m r = (r\<lparr>br_errors := br_errors r @ [m]\<rparr>, Inl m)"

definition br_registerAgent ::
  "time_ms \<Rightarrow> string \<Rightarrow> builtin_components \<Rightarrow> builtin_type \<Rightarrow> string option \<Rightarrow> js_record \<Rightarrow> builtin_registry
    \<Rightarrow> builtin_registry \<times> (string + builtin_instance)" where
  "br_registerAgent now random given ty agentId md r =
     (let i = (case agentId of None \<Rightarrow> generateAgentId now random ty
               | Some s \<Rightarrow> if s = [] then generateAgentId now random ty else s) in
      if js_has (br_agents r) i then br_fail (agent_already_registered i) r
      else case createAgent given ty of
        Inl m \<Rightarrow> br_fail m r
      | Inr a \<Rightarrow>
          (let x = \<lparr>bi_id = i, bi_type = ty, bi_agent = a, bi_status = AgIdle, bi_createdAt = now, bi_lastUsed = None,
                    bi_usageCount = 0, bi_metadata = md\<rparr>
           in (r\<lparr>br_agents := js_set i x (br_agents r), br_totalRegistrations := br_totalRegistrations r + 1,
                  br_lastActivity := Some now\<rparr>, Inr x)))"

text \<open>The instance that is removed is marked as shutting down; nobody holds it any more.\<close>

definition br_unregisterAgent :: "time_ms \<Rightarrow> string \<Rightarrow> builtin_registry \<Rightarrow> builtin_registry \<times> (string + bool)" where
  "br_unregisterAgent now i r =
     (if \<not> js_has (br_agents r) i then br_fail (agent_not_registered i) r
      else (r\<lparr>br_agents := js_delete i (br_agents r), br_totalUnregistrations := br_totalUnregistrations r + 1,
              br_lastActivity := Some now\<rparr>, Inr True))"

definition br_getAgent :: "time_ms \<Rightarrow> string \<Rightarrow> builtin_registry \<Rightarrow> builtin_registry \<times> builtin_instance option" where
  "br_getAgent now i r =
     (case js_get (br_agents r) i of
        None \<Rightarrow> (r, None)
      | Some x \<Rightarrow>
          (let y = x\<lparr>bi_lastUsed := Some now, bi_usageCount := bi_usageCount x + 1\<rparr>
           in (r\<lparr>br_agents := js_set i y (br_agents r), br_lastActivity := Some now\<rparr>, Some y)))"

definition listAllAgents :: "builtin_registry \<Rightarrow> builtin_instance list" where
  "listAllAgents r = js_values (br_agents r)"

definition findAgentsByType :: "builtin_type \<Rightarrow> builtin_registry \<Rightarrow> builtin_instance list" where
  "findAgentsByType ty r = filter (\<lambda>x. bi_type x = ty) (listAllAgents r)"

definition findAgentsByStatus :: "agent_status \<Rightarrow> builtin_registry \<Rightarrow> builtin_instance list" where
  "findAgentsByStatus st r = filter (\<lambda>x. bi_status x = st) (listAllAgents r)"

definition br_exists :: "string \<Rightarrow> builtin_registry \<Rightarrow> bool" where
  "br_exists i r = js_has (br_agents r) i"

definition br_count :: "builtin_registry \<Rightarrow> nat" where
  "br_count r = length (br_agents r)"

definition countByType :: "builtin_type \<Rightarrow> builtin_registry \<Rightarrow> nat" where
  "countByType ty r = length (findAgentsByType ty r)"

definition countByStatus :: "agent_status \<Rightarrow> builtin_registry \<Rightarrow> nat" where
  "countByStatus st r = length (findAgentsByStatus st r)"

definition updateAgentStatus :: "time_ms \<Rightarrow> string \<Rightarrow> agent_status \<Rightarrow> builtin_registry \<Rightarrow> builtin_registry \<times> (string + unit)" where
  "updateAgentStatus now i st r =
     (case js_get (br_agents r) i of
        None \<Rightarrow> (r, Inl (agent_not_registered i))
      | Some x \<Rightarrow> (r\<lparr>br_agents := js_set i (x\<lparr>bi_status := st\<rparr>) (br_agents r), br_lastActivity := Some now\<rparr>, Inr ()))"

definition updateAgentMetadata :: "time_ms \<Rightarrow> string \<Rightarrow> js_record \<Rightarrow> builtin_registry \<Rightarrow> builtin_registry \<times> (string + unit)" where
  "updateAgentMetadata now i md r =
     (case js_get (br_agents r) i of
        None \<Rightarrow> (r, Inl (agent_not_registered i))
      | Some x \<Rightarrow>
          (r\<lparr>br_agents := js_set i (x\<lparr>bi_metadata := js_spread (bi_metadata x) md\<rparr>) (br_agents r), br_lastActivity := Some now\<rparr>, Inr ()))"

definition br_clear :: "time_ms \<Rightarrow> builtin_registry \<Rightarrow> builtin_registry" where
  "br_clear now r = r\<lparr>br_agents := [], br_lastActivity := Some now\<rparr>"

record builtin_registry_health =
  brh_status :: health_status
  brh_registeredAgents :: nat
  brh_activeAgents :: nat
  brh_inactiveAgents :: int
  brh_failedAgents :: nat
  brh_totalUsage :: nat
  brh_errors :: "string list"
  brh_warnings :: "string list"
  brh_lastActivity :: "time_ms option"

definition br_health :: "builtin_registry \<Rightarrow> builtin_registry_health" where
  "br_health r =
     (let xs = listAllAgents r;
          act = length (filter (\<lambda>x. bi_status x = AgIdle \<or> bi_status x = AgInitializing) xs);
          failed = length (filter (\<lambda>x. bi_status x = AgError) xs)
      in \<lparr>brh_status = (if br_errors r \<noteq> [] \<or> failed > 0 then Unhealthy else if br_warnings r \<noteq> [] then Degraded else Healthy),
          brh_registeredAgents = length xs, brh_activeAgents = act, brh_inactiveAgents = int (length xs) - int act - int failed,
          brh_failedAgents = failed, brh_totalUsage = sum_list (map bi_usageCount xs), brh_errors = br_errors r,
          brh_warnings = br_warnings r, brh_lastActivity = br_lastActivity r\<rparr>)"

record builtin_registry_metrics =
  brm_totalRegistrations :: nat
  brm_totalUnregistrations :: nat
  brm_currentRegistrations :: nat
  brm_registrationsByType :: "(builtin_type \<times> nat) list"
  brm_usageByType :: "(builtin_type \<times> nat) list"
  brm_statusBreakdown :: "(agent_status \<times> nat) list"
  brm_averageUsagePerAgent :: real
  brm_mostUsed :: "builtin_instance option"
  brm_leastUsed :: "builtin_instance option"
  brm_uptime :: int

definition agent_statuses :: "agent_status list" where
  "agent_statuses = [AgIdle, AgRunning, AgBusy, AgPaused, AgStopped, AgError, AgInitializing, AgShuttingDown]"

text \<open>The first of the instances with the greatest (least) usage: a later one replaces it only when it is strictly better.\<close>

fun best_used :: "(nat \<Rightarrow> nat \<Rightarrow> bool) \<Rightarrow> builtin_instance option \<Rightarrow> builtin_instance list \<Rightarrow> builtin_instance option" where
  "best_used better b [] = b"
| "best_used better b (x # xs) =
     best_used better (case b of None \<Rightarrow> Some x | Some y \<Rightarrow> if better (bi_usageCount x) (bi_usageCount y) then Some x else Some y) xs"

definition br_metrics :: "time_ms \<Rightarrow> builtin_registry \<Rightarrow> builtin_registry_metrics" where
  "br_metrics now r =
     (let xs = listAllAgents r; total = sum_list (map bi_usageCount xs)
      in \<lparr>brm_totalRegistrations = br_totalRegistrations r, brm_totalUnregistrations = br_totalUnregistrations r,
          brm_currentRegistrations = length xs,
          brm_registrationsByType = map (\<lambda>ty. (ty, countByType ty r)) builtin_types,
          brm_usageByType = map (\<lambda>ty. (ty, sum_list (map bi_usageCount (findAgentsByType ty r)))) builtin_types,
          brm_statusBreakdown = map (\<lambda>st. (st, countByStatus st r)) agent_statuses,
          brm_averageUsagePerAgent = (if length xs > 0 then real total / real (length xs) else 0),
          brm_mostUsed = best_used (>) None xs, brm_leastUsed = best_used (<) None xs, brm_uptime = now - br_startTime r\<rparr>)"

section \<open>Registering the built-in agents\<close>

text \<open>What a registration meets: the clock, the random part of the id, the outcome of the agent's \<open>initialize\<close>, its status then.\<close>

record builtin_env =
  be_now :: time_ms
  be_random :: string
  be_initialize :: "string option"
  be_status :: agent_status

definition validateComponentsForAgentType :: "builtin_type \<Rightarrow> builtin_components \<Rightarrow> string option" where
  "validateComponentsForAgentType ty given =
     (if given ty then None else Some (''Missing '' @ components_name ty @ '' for '' @ builtin_str ty))"

definition registerBuiltinAgent ::
  "builtin_env \<Rightarrow> builtin_components \<Rightarrow> builtin_type \<Rightarrow> builtin_registry \<times> agent_registry
    \<Rightarrow> (builtin_registry \<times> agent_registry) \<times> string option" where
  "registerBuiltinAgent env given ty = (\<lambda>(r, reg).
     case validateComponentsForAgentType ty given of
       Some m \<Rightarrow> ((r, reg), Some m)
     | None \<Rightarrow>
         (case br_registerAgent (be_now env) (be_random env) given ty None [] r of
            (r1, Inl m) \<Rightarrow> ((r1, reg), Some m)
          | (r1, Inr x) \<Rightarrow>
              (case be_initialize env of
                 Some m \<Rightarrow> ((r1, reg), Some m)
               | None \<Rightarrow>
                   (case register_agent (bi_agent x) reg of
                      (reg1, Inl e) \<Rightarrow> ((r1, reg1), Some (err_message e))
                    | (reg1, Inr _) \<Rightarrow>
                        (case updateAgentStatus (be_now env) (bi_id x) (be_status env) r1 of
                           (r2, Inl m) \<Rightarrow> ((r2, reg1), Some m)
                         | (r2, Inr _) \<Rightarrow> ((r2, reg1), None))))))"

record builtin_registration =
  bg_success :: bool
  bg_registered :: "builtin_type list"
  bg_failed :: "(builtin_type \<times> string) list"
  bg_registry :: builtin_registry

fun register_each ::
  "(builtin_type \<Rightarrow> builtin_env) \<Rightarrow> builtin_components \<Rightarrow> builtin_type list \<Rightarrow> builtin_registry \<times> agent_registry
    \<Rightarrow> builtin_type list \<Rightarrow> (builtin_type \<times> string) list
    \<Rightarrow> (builtin_registry \<times> agent_registry) \<times> builtin_type list \<times> (builtin_type \<times> string) list" where
  "register_each env given [] s good bad = (s, good, bad)"
| "register_each env given (ty # tys) s good bad =
     (case registerBuiltinAgent (env ty) given ty s of
        (s1, None) \<Rightarrow> register_each env given tys s1 (good @ [ty]) bad
      | (s1, Some m) \<Rightarrow> register_each env given tys s1 good (bad @ [(ty, m)]))"

definition registerAllBuiltinAgents ::
  "time_ms \<Rightarrow> (builtin_type \<Rightarrow> builtin_env) \<Rightarrow> builtin_components \<Rightarrow> agent_registry \<Rightarrow> agent_registry \<times> builtin_registration" where
  "registerAllBuiltinAgents now env given reg =
     (case register_each env given builtin_types (new_builtin_registry now, reg) [] [] of
        ((r, reg1), good, bad) \<Rightarrow>
          (reg1, \<lparr>bg_success = (bad = []), bg_registered = good, bg_failed = bad, bg_registry = r\<rparr>))"

text \<open>\<open>shut\<close> is the outcome of an agent's own \<open>shutdown\<close>; an agent that throws, or is unknown to the registry of agents,
  stays where it is.\<close>

definition unregister_builtin ::
  "time_ms \<Rightarrow> (agent \<Rightarrow> string option) \<Rightarrow> builtin_instance \<Rightarrow> builtin_registry \<times> agent_registry \<Rightarrow> builtin_registry \<times> agent_registry" where
  "unregister_builtin now shut x = (\<lambda>(r, reg).
     case shut (bi_agent x) of
       Some m \<Rightarrow> (r, reg)
     | None \<Rightarrow>
         (case remove_agent (shut (bi_agent x)) (ag_id (bi_agent x)) reg of
            (reg1, Inl e) \<Rightarrow> (r, reg1)
          | (reg1, Inr _) \<Rightarrow> (fst (br_unregisterAgent now (bi_id x) r), reg1)))"

definition unregisterAllBuiltinAgents ::
  "time_ms \<Rightarrow> (agent \<Rightarrow> string option) \<Rightarrow> builtin_registry \<times> agent_registry \<Rightarrow> builtin_registry \<times> agent_registry" where
  "unregisterAllBuiltinAgents now shut s = fold (unregister_builtin now shut) (listAllAgents (fst s)) s"

end
