(* ===== verification/Bootstrap.thy ===== *)
theory Bootstrap
  imports Builtin_Registry
begin

text \<open>
  Starting and ending the runtime: \<open>RuntimeInitializer\<close> and \<open>RuntimeShutdownManager\<close> (\<open>agents/runtime\<close>) and
  \<open>RuntimeBootstrap\<close> (\<open>agents/bootstrap\<close>). The state of the orchestrator holds the components it is given; the objects
  the plugin loader shares with them are taken from there and put back. What agents and files answer is
  part of the call, whose operations nothing interrupts; the log of the console is left out.
\<close>

section \<open>Initialization\<close>

record runtime_components =
  rc_orchestrator :: orchestrator
  rc_coordinator :: coordinator
  rc_plugins :: plugin_loader
  rc_builtin :: builtin_registration

record runtime_options =
  bo_workflows :: workflow_registry
  bo_enablePlugins :: bool
  bo_pluginSearchPaths :: "string list"
  bo_autoStart :: bool
  bo_healthCheckInterval :: "int option"

text \<open>What an initialization meets: the clock, the store of task objects, the file system, and what the built-in agents do.\<close>

record boot_env =
  rv_now :: time_ms
  rv_heap :: "nat \<Rightarrow> agent_task"
  rv_fuel :: nat
  rv_url :: "string \<Rightarrow> bool"
  rv_files :: file_system
  rv_builtin :: "builtin_type \<Rightarrow> builtin_env"

datatype boot_error = RuntimeInitializationError string string | RuntimeBootstrapError string

fun boot_message :: "boot_error \<Rightarrow> string" where
  "boot_message (RuntimeInitializationError c m) = (if m = [] then ''Failed to initialize runtime component: '' @ c else m)"
| "boot_message (RuntimeBootstrapError m) = (if m = [] then ''Runtime bootstrap failed'' else m)"

definition default_scheduler :: "boot_env \<Rightarrow> sched" where
  "default_scheduler env = new_scheduler (rv_heap env) 5 ByPriority (rv_now env)"

definition rc_agents :: "runtime_components \<Rightarrow> agent_registry" where
  "rc_agents c = rt_agents (orc_runtime (rc_orchestrator c))"

definition put_agents :: "agent_registry \<Rightarrow> orchestrator \<Rightarrow> orchestrator" where
  "put_agents reg o1 = o1\<lparr>orc_runtime := (orc_runtime o1)\<lparr>rt_agents := reg\<rparr>\<rparr>"

text \<open>A discovery that throws only leaves a line in the log.\<close>

definition initializePluginLoader :: "boot_env \<Rightarrow> runtime_options \<Rightarrow> plugin_loader option" where
  "initializePluginLoader env opts =
     (let l = new_plugin_loader (Some []) in
      if \<not> bo_enablePlugins opts \<or> bo_pluginSearchPaths opts = [] then Some l
      else map_option fst (discover_plugins (rv_fuel env) (rv_url env) (rv_files env)
        \<lparr>do_searchPaths = bo_pluginSearchPaths opts, do_includePatterns = None, do_excludePatterns = None, do_recursive = Some True,
         do_maxDepth = None, do_followSymlinks = False, do_validateOnDiscovery = True\<rparr> l))"

text \<open>Every bundle of components is there, whatever is in it.\<close>

definition createBuiltinComponents :: builtin_components where
  "createBuiltinComponents = (\<lambda>ty. True)"

definition create_runtime :: "boot_env \<Rightarrow> runtime_options \<Rightarrow> plugin_loader \<Rightarrow> runtime_components" where
  "create_runtime env opts l =
     (case registerAllBuiltinAgents (rv_now env) (rv_builtin env) createBuiltinComponents [] of
        (reg, b) \<Rightarrow>
          \<lparr>rc_orchestrator = put_agents reg (new_orchestrator (rv_now env) (default_scheduler env) (bo_workflows opts) (new_agent_runtime [])),
           rc_coordinator = new_coordinator (rv_now env), rc_plugins = l, rc_builtin = b\<rparr>)"

text \<open>\<open>started\<close> is the initializer's flag. \<open>None\<close>: the discovery of the plugins does not end.\<close>

definition runtime_initialize :: "boot_env \<Rightarrow> runtime_options \<Rightarrow> bool \<Rightarrow> (boot_error + runtime_components) option" where
  "runtime_initialize env opts initialized =
     (if initialized then Some (Inl (RuntimeInitializationError ''Runtime'' ''Runtime is already initialized''))
      else map_option (\<lambda>l. Inr (create_runtime env opts l)) (initializePluginLoader env opts))"

section \<open>Shut-down\<close>

text \<open>The outcomes a shut-down meets: of an agent's own \<open>shutdown\<close> and of its \<open>updateStatus\<close>.\<close>

record shutdown_env =
  sw_now :: time_ms
  sw_shutdown :: "agent \<Rightarrow> outcome"
  sw_update :: "string \<Rightarrow> outcome"

type_synonym shutdown_step = "runtime_components \<Rightarrow> runtime_components \<times> string option"

definition on_orchestrator :: "(orchestrator \<Rightarrow> orchestrator) \<Rightarrow> runtime_components \<Rightarrow> runtime_components" where
  "on_orchestrator f c = c\<lparr>rc_orchestrator := f (rc_orchestrator c)\<rparr>"

definition shutdown_builtin :: "shutdown_env \<Rightarrow> shutdown_step" where
  "shutdown_builtin w c =
     (case unregisterAllBuiltinAgents (sw_now w) (sw_shutdown w) (bg_registry (rc_builtin c), rc_agents c) of
        (r, reg) \<Rightarrow> (on_orchestrator (put_agents reg) (c\<lparr>rc_builtin := (rc_builtin c)\<lparr>bg_registry := r\<rparr>\<rparr>), None))"

definition shutdown_orchestrator :: "shutdown_env \<Rightarrow> shutdown_step" where
  "shutdown_orchestrator w c =
     (case orch_stop (sw_now w) (rc_orchestrator c) of
        (o1, Inr _) \<Rightarrow> (c\<lparr>rc_orchestrator := o1\<rparr>, None) | (o1, Inl e) \<Rightarrow> (c\<lparr>rc_orchestrator := o1\<rparr>, Some (orch_message e)))"

definition shutdown_nothing :: "shutdown_step" where
  "shutdown_nothing c = (c, None)"

definition shutdown_scheduler :: "shutdown_step" where
  "shutdown_scheduler c = (on_orchestrator (\<lambda>o1. o1\<lparr>orc_scheduler := sched_pause (orc_scheduler o1)\<rparr>) c, None)"

definition cancel_executions :: "time_ms \<Rightarrow> agent_runtime \<Rightarrow> agent_runtime" where
  "cancel_executions now t = fold (\<lambda>e s. fst (cancelExecution now (er_executionId e) s)) (listExecutions t) t"

definition shutdown_runtime :: "shutdown_env \<Rightarrow> shutdown_step" where
  "shutdown_runtime w c =
     (on_orchestrator (\<lambda>o1. o1\<lparr>orc_runtime := fst (rt_cleanup (sw_now w) 0 (cancel_executions (sw_now w) (orc_runtime o1)))\<rparr>) c, None)"

definition shutdown_lifecycles :: "shutdown_env \<Rightarrow> agent_registry \<Rightarrow> lifecycle_map \<Rightarrow> lifecycle_map" where
  "shutdown_lifecycles w reg l =
     fold (\<lambda>a m. fst (shutdown (find_agent reg) (sw_update w (ag_id a)) (sw_shutdown w a) (ag_id a) m)) (list_agents reg) l"

definition shutdown_lifecycle :: "shutdown_env \<Rightarrow> shutdown_step" where
  "shutdown_lifecycle w c =
     (on_orchestrator (\<lambda>o1. o1\<lparr>orc_lifecycle := shutdown_lifecycles w (rc_agents c) (orc_lifecycle o1)\<rparr>) c, None)"

definition remove_channels :: "comm \<Rightarrow> comm" where
  "remove_channels m = fold (\<lambda>i k. fst (removeChannel i k)) (listChannels m) m"

definition shutdown_communication :: "shutdown_step" where
  "shutdown_communication c = (on_orchestrator (\<lambda>o1. o1\<lparr>orc_comm := remove_channels (orc_comm o1)\<rparr>) c, None)"

text \<open>The agent of a plugin is shut down by its removal from the registry of agents.\<close>

definition unload_plugin :: "shutdown_env \<Rightarrow> nat \<Rightarrow> plugin_loader \<Rightarrow> plugin_loader" where
  "unload_plugin w a l =
     (let p = loaded_plugin l a
      in fst (plugin_unload (sw_now w) (case pd_agentInstance p of None \<Rightarrow> None | Some ag \<Rightarrow> sw_shutdown w ag) (pd_id p) l))"

definition shutdown_plugins :: "shutdown_env \<Rightarrow> shutdown_step" where
  "shutdown_plugins w c =
     (let l = (rc_plugins c)\<lparr>pl_agents := Some (rc_agents c)\<rparr>;
          l1 = fold (unload_plugin w) (plugin_list (pl_registry l)) l
      in (on_orchestrator (put_agents (case pl_agents l1 of Some reg \<Rightarrow> reg | None \<Rightarrow> rc_agents c)) (c\<lparr>rc_plugins := l1\<rparr>), None))"

definition shutdown_registry :: "shutdown_env \<Rightarrow> shutdown_step" where
  "shutdown_registry w c =
     (let reg = fold (\<lambda>a r. fst (remove_agent (sw_shutdown w a) (ag_id a) r)) (list_agents (rc_agents c)) (rc_agents c)
      in (on_orchestrator (put_agents reg) c, None))"

definition shutdown_steps :: "shutdown_env \<Rightarrow> (string \<times> shutdown_step) list" where
  "shutdown_steps w =
     [(''BuiltinAgents'', shutdown_builtin w), (''Orchestrator'', shutdown_orchestrator w), (''Coordinator'', shutdown_nothing),
      (''Scheduler'', shutdown_scheduler), (''AgentRuntime'', shutdown_runtime w), (''LifecycleManager'', shutdown_lifecycle w),
      (''CommunicationManager'', shutdown_communication), (''PluginLoader'', shutdown_plugins w), (''Memory'', shutdown_nothing),
      (''AgentRegistry'', shutdown_registry w)]"

record shutdown_report =
  su_success :: bool
  su_order :: "string list"
  su_failed :: "(string \<times> string) list"

definition shutdownComponent ::
  "string \<times> shutdown_step \<Rightarrow> runtime_components \<times> string list \<times> (string \<times> string) list
    \<Rightarrow> runtime_components \<times> string list \<times> (string \<times> string) list" where
  "shutdownComponent = (\<lambda>(name, f) (c, order, failed).
     case f c of (c1, None) \<Rightarrow> (c1, order @ [name], failed) | (c1, Some m) \<Rightarrow> (c1, order, failed @ [(name, m)]))"

definition shutdown_all :: "shutdown_env \<Rightarrow> runtime_components \<Rightarrow> runtime_components \<times> shutdown_report" where
  "shutdown_all w c =
     (case fold shutdownComponent (shutdown_steps w) (c, [], []) of
        (c1, order, failed) \<Rightarrow> (c1, \<lparr>su_success = (failed = []), su_order = order, su_failed = failed\<rparr>))"

section \<open>The bootstrap\<close>

record bootstrap =
  bt_initialized :: bool
  bt_started :: bool
  bt_shutdownInProgress :: bool
  bt_healthEnabled :: bool
  bt_healthInterval :: "int option"
  bt_lastCheck :: "time_ms option"
  bt_initializerDone :: bool
  bt_components :: "runtime_components option"

definition new_bootstrap :: bootstrap where
  "new_bootstrap = \<lparr>bt_initialized = False, bt_started = False, bt_shutdownInProgress = False, bt_healthEnabled = False,
     bt_healthInterval = None, bt_lastCheck = None, bt_initializerDone = False, bt_components = None\<rparr>"

definition startHealthMonitoring :: "int \<Rightarrow> bootstrap \<Rightarrow> bootstrap" where
  "startHealthMonitoring n b = b\<lparr>bt_healthEnabled := True, bt_healthInterval := Some n\<rparr>"

definition stopHealthMonitoring :: "bootstrap \<Rightarrow> bootstrap" where
  "stopHealthMonitoring b = b\<lparr>bt_healthEnabled := False, bt_healthInterval := None\<rparr>"

text \<open>The agents are started in turn until one throws.\<close>

fun start_agents :: "(string \<Rightarrow> outcome) \<Rightarrow> builtin_instance list \<Rightarrow> orchestrator \<Rightarrow> orchestrator \<times> (agent_error + unit)" where
  "start_agents update [] o1 = (o1, Inr ())"
| "start_agents update (x # xs) o1 =
     (let i = ag_id (bi_agent x) in
      case start (find_agent (rt_agents (orc_runtime o1))) (update i) i (orc_lifecycle o1) of
        (l, Inl e) \<Rightarrow> (o1\<lparr>orc_lifecycle := l\<rparr>, Inl e)
      | (l, Inr _) \<Rightarrow> start_agents update xs (o1\<lparr>orc_lifecycle := l\<rparr>))"

definition start_failed :: "string \<Rightarrow> boot_error" where
  "start_failed m = RuntimeBootstrapError (''Failed to start runtime: '' @ m)"

text \<open>All components of the orchestrator have been provided.\<close>

definition bt_start :: "(string \<Rightarrow> outcome) \<Rightarrow> bootstrap \<Rightarrow> bootstrap \<times> (boot_error + unit)" where
  "bt_start update b =
     (case (bt_initialized b, bt_components b) of
        (True, Some c) \<Rightarrow>
          if bt_started b then (b, Inr ())
          else
            (case orch_start (\<lambda>n. True) (rc_orchestrator c) of
               (o1, Inl e) \<Rightarrow> (b\<lparr>bt_components := Some (c\<lparr>rc_orchestrator := o1\<rparr>)\<rparr>, Inl (start_failed (orch_message e)))
             | (o1, Inr _) \<Rightarrow>
                 (case start_agents update (listAllAgents (bg_registry (rc_builtin c))) o1 of
                    (o2, Inl e) \<Rightarrow> (b\<lparr>bt_components := Some (c\<lparr>rc_orchestrator := o2\<rparr>)\<rparr>, Inl (start_failed (err_message e)))
                  | (o2, Inr _) \<Rightarrow> (b\<lparr>bt_components := Some (c\<lparr>rc_orchestrator := o2\<rparr>), bt_started := True\<rparr>, Inr ())))
      | _ \<Rightarrow> (b, Inl (RuntimeBootstrapError ''Runtime must be initialized before starting'')))"

definition bt_initialize :: "runtime_options \<Rightarrow> runtime_components \<Rightarrow> bootstrap \<Rightarrow> bootstrap" where
  "bt_initialize opts c b =
     (let b1 = b\<lparr>bt_components := Some c, bt_initializerDone := True, bt_initialized := True\<rparr>
      in case bo_healthCheckInterval opts of None \<Rightarrow> b1 | Some n \<Rightarrow> if n = 0 then b1 else startHealthMonitoring n b1)"

definition bt_autoStart :: "(string \<Rightarrow> outcome) \<Rightarrow> runtime_components \<Rightarrow> bootstrap \<Rightarrow> bootstrap \<times> (boot_error + runtime_components)" where
  "bt_autoStart update c b =
     (case bt_start update b of
        (b1, Inl e) \<Rightarrow> (b1, Inl (RuntimeBootstrapError (boot_message e)))
      | (b1, Inr _) \<Rightarrow> (b1, Inr (case bt_components b1 of Some c1 \<Rightarrow> c1 | None \<Rightarrow> c)))"

definition bt_bootstrap ::
  "boot_env \<Rightarrow> (string \<Rightarrow> outcome) \<Rightarrow> runtime_options \<Rightarrow> bootstrap \<Rightarrow> (bootstrap \<times> (boot_error + runtime_components)) option" where
  "bt_bootstrap env update opts b =
     (if bt_initialized b then Some (b, Inl (RuntimeBootstrapError ''Runtime is already initialized''))
      else map_option (\<lambda>x. case x of
             Inl e \<Rightarrow> (b, Inl (RuntimeBootstrapError (boot_message e)))
           | Inr c \<Rightarrow>
               (let b1 = bt_initialize opts c b
                in if bo_autoStart opts then bt_autoStart update c b1 else (b1, Inr c)))
        (runtime_initialize env opts (bt_initializerDone b)))"

text \<open>\<open>shutdown\<close>: the shut-down manager itself never throws; the initializer keeps its flag.\<close>

definition bt_shutdown :: "shutdown_env \<Rightarrow> bootstrap \<Rightarrow> bootstrap \<times> (boot_error + shutdown_report)" where
  "bt_shutdown w b =
     (case (bt_initialized b, bt_components b) of
        (True, Some c) \<Rightarrow>
          if bt_shutdownInProgress b then (b, Inl (RuntimeBootstrapError ''Shutdown already in progress''))
          else (case shutdown_all w c of
            (c1, rep) \<Rightarrow> ((stopHealthMonitoring b)\<lparr>bt_initialized := False, bt_started := False, bt_components := None\<rparr>, Inr rep))
      | _ \<Rightarrow> (b, Inl (RuntimeBootstrapError ''Runtime is not initialized'')))"

text \<open>Whoever has the components may change them; the bootstrap only reads them.\<close>

datatype boot_step =
    BootBootstrap boot_env "string \<Rightarrow> outcome" runtime_options
  | BootStart "string \<Rightarrow> outcome"
  | BootShutdown shutdown_env
  | BootUse "runtime_components \<Rightarrow> runtime_components"

fun boot_do :: "boot_step \<Rightarrow> bootstrap \<Rightarrow> bootstrap" where
  "boot_do (BootBootstrap env update opts) b = (case bt_bootstrap env update opts b of None \<Rightarrow> b | Some (b1, res) \<Rightarrow> b1)"
| "boot_do (BootStart update) b = fst (bt_start update b)"
| "boot_do (BootShutdown w) b = fst (bt_shutdown w b)"
| "boot_do (BootUse f) b = b\<lparr>bt_components := map_option f (bt_components b)\<rparr>"

definition boot_run :: "boot_step list \<Rightarrow> bootstrap \<Rightarrow> bootstrap" where
  "boot_run steps b = fold boot_do steps b"

end
