(* ===== verification/Runtime_Health.thy ===== *)
theory Runtime_Health
  imports Bootstrap
begin

text \<open>
  \<open>RuntimeHealthAggregator\<close> (\<open>agents/bootstrap/runtime-health.ts\<close>) over the components of the runtime, and the bootstrap's
  \<open>getHealth\<close>. The reports of the scheduler and of the orchestrator may note warnings, so that a check returns the
  components. What the agents' \<open>getHealth\<close> and the memory's \<open>health\<close> answer is given.
\<close>

section \<open>Reports\<close>

datatype component_status = Reported health_status | Unavailable

record component_health =
  ch_componentName :: string
  ch_status :: component_status
  ch_details :: js_record
  ch_errors :: "string list"
  ch_warnings :: "string list"
  ch_lastCheck :: time_ms

record health_summary =
  hs_totalComponents :: nat
  hs_healthyComponents :: nat
  hs_degradedComponents :: nat
  hs_unhealthyComponents :: nat
  hs_unavailableComponents :: nat

record aggregated_health =
  gh_overallStatus :: health_status
  gh_componentHealths :: "component_health list"
  gh_summary :: health_summary
  gh_aggregatedErrors :: "string list"
  gh_aggregatedWarnings :: "string list"
  gh_lastHealthCheck :: time_ms
  gh_uptime :: int

record health_env =
  he_now :: time_ms
  he_agentHealth :: "agent \<Rightarrow> string + agent_health"
  he_memory :: "string + memory_health"
  he_runs :: "agent \<Rightarrow> bool"
  he_typeError :: string
  he_present :: "string \<Rightarrow> bool"

text \<open>A component that is not there, one whose report throws, and one that reports.\<close>

definition not_initialized :: "time_ms \<Rightarrow> string \<Rightarrow> component_health" where
  "not_initialized now n = \<lparr>ch_componentName = n, ch_status = Unavailable, ch_details = [(''reason'', JStr ''Component not initialized'')],
     ch_errors = [], ch_warnings = [], ch_lastCheck = now\<rparr>"

definition failed_check :: "time_ms \<Rightarrow> string \<Rightarrow> string \<Rightarrow> component_health" where
  "failed_check now n m = \<lparr>ch_componentName = n, ch_status = Reported Unhealthy, ch_details = [(''error'', JStr m)],
     ch_errors = [m], ch_warnings = [], ch_lastCheck = now\<rparr>"

definition reported :: "time_ms \<Rightarrow> string \<Rightarrow> health_status \<Rightarrow> js_record \<Rightarrow> string list \<Rightarrow> string list \<Rightarrow> component_health" where
  "reported now n st ds es ws = \<lparr>ch_componentName = n, ch_status = Reported st, ch_details = ds, ch_errors = es,
     ch_warnings = ws, ch_lastCheck = now\<rparr>"

section \<open>The checks\<close>

type_synonym component_check = "health_env \<Rightarrow> runtime_components \<Rightarrow> runtime_components \<times> component_health"

abbreviation jnat :: "nat \<Rightarrow> jsval" where
  "jnat n \<equiv> JNum (int n)"

definition worst_status :: "health_status list \<Rightarrow> health_status" where
  "worst_status ss = (if List.member ss Unhealthy then Unhealthy else if List.member ss Degraded then Degraded else Healthy)"

definition checkAgentRegistry :: component_check where
  "checkAgentRegistry v c =
     (let hs = js_values (registry_health (he_agentHealth v) (he_now v) (rc_agents c)); ss = map h_status hs;
          number = (\<lambda>s. jnat (length (filter (\<lambda>t. t = s) ss)))
      in (c, reported (he_now v) ''AgentRegistry'' (worst_status ss)
            [(''registeredAgents'', jnat (count_agents (rc_agents c))), (''healthyAgents'', number Healthy),
             (''degradedAgents'', number Degraded), (''unhealthyAgents'', number Unhealthy)]
            (concat (map h_errors hs)) (concat (map h_warnings hs))))"

definition checkAgentRuntime :: component_check where
  "checkAgentRuntime v c = (c, reported (he_now v) ''AgentRuntime'' Healthy
     [(''activeExecutions'', jnat (length (listExecutions (orc_runtime (rc_orchestrator c))))), (''available'', JBool True)] [] [])"

definition sizes_value :: "queue_sizes \<Rightarrow> jsval" where
  "sizes_value q = JObj [(''priority'', jnat (qs_priority q)), (''execution'', jnat (qs_execution q)), (''waiting'', jnat (qs_waiting q)),
     (''completed'', jnat (qs_completed q)), (''failed'', jnat (qs_failed q))]"

definition checkScheduler :: component_check where
  "checkScheduler v c =
     (case scheduler_health (he_now v) (orc_scheduler (rc_orchestrator c)) of (s, h) \<Rightarrow>
        (on_orchestrator (\<lambda>o1. o1\<lparr>orc_scheduler := s\<rparr>) c,
         reported (he_now v) ''Scheduler'' (sh_status h)
           [(''runningTasks'', jnat (sh_runningTasks h)), (''queueSizes'', sizes_value (sh_queueSizes h)),
            (''lastActivity'', JDate (sh_lastActivity h))]
           (sh_errors h) (sh_warnings h)))"

definition checkPlanner :: component_check where
  "checkPlanner v c = (c, reported (he_now v) ''Planner'' Healthy [(''available'', JBool True)] [] [])"

definition checkWorkflowEngine :: component_check where
  "checkWorkflowEngine v c = (c, reported (he_now v) ''WorkflowEngine'' Healthy [(''available'', JBool True)] [] [])"

definition checkCoordinator :: component_check where
  "checkCoordinator v c =
     (let h = co_health (he_now v) (rc_coordinator c)
      in (c, reported (he_now v) ''Coordinator'' (chh_status h)
            [(''activeCoordinations'', jnat (chh_active h)), (''completedCoordinations'', jnat (chh_completed h)),
             (''failedCoordinations'', jnat (chh_failed h))]
            (chh_errors h) (chh_warnings h)))"

definition checkOrchestrator :: component_check where
  "checkOrchestrator v c =
     (case orch_health_report (he_now v) (he_runs v) (case he_memory v of Inl m \<Rightarrow> Inl m | Inr h \<Rightarrow> Inr (int (mh_usedSize h))) (rc_orchestrator c) of
        (o1, h) \<Rightarrow>
          (c\<lparr>rc_orchestrator := o1\<rparr>,
           reported (he_now v) ''Orchestrator'' (oh_status h)
             [(''state'', JStr (orch_state_str (oh_state h))), (''runningExecutions'', jnat (oh_runningExecutions h)),
              (''totalExecutions'', jnat (oh_totalExecutions h))]
             (oh_errors h) (oh_warnings h)))"

definition checkPluginLoader :: component_check where
  "checkPluginLoader v c =
     (let h = loader_health (rc_plugins c); texts = map (plugin_text (he_typeError v))
      in (c, reported (he_now v) ''PluginLoader'' (ph_status h)
            [(''loadedPlugins'', jnat (ph_loadedPlugins h)), (''failedPlugins'', jnat (ph_failedPlugins h)),
             (''totalPlugins'', jnat (ph_totalPlugins h))]
            (texts (ph_recentErrors h)) (texts (ph_recentWarnings h))))"

definition checkMemory :: component_check where
  "checkMemory v c =
     (c, case he_memory v of
           Inl m \<Rightarrow> failed_check (he_now v) ''Memory'' m
         | Inr h \<Rightarrow> reported (he_now v) ''Memory'' (mh_status h)
             [(''totalSize'', jnat (mh_totalSize h)), (''usedSize'', jnat (mh_usedSize h)), (''freeSize'', jnat (mh_freeSize h)),
              (''lastAccess'', JDate (mh_lastAccess h))]
             (mh_errors h) (mh_warnings h))"

definition checkCommunicationManager :: component_check where
  "checkCommunicationManager v c =
     (let h = comm_health_of (he_now v) (orc_comm (rc_orchestrator c))
      in (c, reported (he_now v) ''CommunicationManager'' (chl_status h)
            [(''channelCount'', jnat (chl_channelCount h)), (''registeredAgents'', jnat (chl_registeredAgents h)),
             (''totalMessages'', jnat (chl_totalMessages h)), (''lastActivity'', JDate (chl_lastActivity h))]
            (chl_errors h) (chl_warnings h)))"

definition checkBuiltinRegistry :: component_check where
  "checkBuiltinRegistry v c =
     (let h = br_health (bg_registry (rc_builtin c))
      in (c, reported (he_now v) ''BuiltinRegistry'' (brh_status h)
            [(''registeredAgents'', jnat (brh_registeredAgents h)), (''activeAgents'', jnat (brh_activeAgents h)),
             (''totalUsage'', jnat (brh_totalUsage h)),
             (''lastActivity'', case brh_lastActivity h of None \<Rightarrow> JUndefined | Some t \<Rightarrow> JDate t)]
            (brh_errors h) (brh_warnings h)))"

definition health_checks :: "(string \<times> component_check) list" where
  "health_checks =
     [(''AgentRegistry'', checkAgentRegistry), (''AgentRuntime'', checkAgentRuntime), (''Scheduler'', checkScheduler),
      (''Planner'', checkPlanner), (''WorkflowEngine'', checkWorkflowEngine), (''Coordinator'', checkCoordinator),
      (''Orchestrator'', checkOrchestrator), (''PluginLoader'', checkPluginLoader), (''Memory'', checkMemory),
      (''CommunicationManager'', checkCommunicationManager), (''BuiltinRegistry'', checkBuiltinRegistry)]"

definition check_component ::
  "health_env \<Rightarrow> string \<times> component_check \<Rightarrow> runtime_components \<times> component_health list \<Rightarrow> runtime_components \<times> component_health list" where
  "check_component v = (\<lambda>(n, f) (c, hs).
     if he_present v n then (case f v c of (c1, h) \<Rightarrow> (c1, hs @ [h])) else (c, hs @ [not_initialized (he_now v) n]))"

section \<open>The aggregate\<close>

definition summarize :: "component_health list \<Rightarrow> health_summary" where
  "summarize hs =
     (let number = (\<lambda>s. length (filter (\<lambda>h. ch_status h = s) hs))
      in \<lparr>hs_totalComponents = length hs, hs_healthyComponents = number (Reported Healthy), hs_degradedComponents = number (Reported Degraded),
          hs_unhealthyComponents = number (Reported Unhealthy), hs_unavailableComponents = number Unavailable\<rparr>)"

definition aggregate_status :: "health_summary \<Rightarrow> health_status" where
  "aggregate_status s =
     (if hs_unhealthyComponents s > 0 then Unhealthy
      else if hs_degradedComponents s > 0 \<or> hs_unavailableComponents s > 0 then Degraded else Healthy)"

definition getAggregatedHealth :: "time_ms \<Rightarrow> health_env \<Rightarrow> runtime_components \<Rightarrow> runtime_components \<times> aggregated_health" where
  "getAggregatedHealth since v c =
     (case fold (check_component v) health_checks (c, []) of (c1, hs) \<Rightarrow>
        (c1, \<lparr>gh_overallStatus = aggregate_status (summarize hs), gh_componentHealths = hs, gh_summary = summarize hs,
              gh_aggregatedErrors = concat (map ch_errors hs), gh_aggregatedWarnings = concat (map ch_warnings hs),
              gh_lastHealthCheck = he_now v, gh_uptime = he_now v - since\<rparr>))"

definition bt_getHealth :: "time_ms \<Rightarrow> health_env \<Rightarrow> bootstrap \<Rightarrow> bootstrap \<times> aggregated_health option" where
  "bt_getHealth since v b =
     (case bt_components b of
        None \<Rightarrow> (b, None)
      | Some c \<Rightarrow> (case getAggregatedHealth since v c of
            (c1, h) \<Rightarrow> (b\<lparr>bt_components := Some c1, bt_lastCheck := Some (he_now v)\<rparr>, Some h)))"

section \<open>Properties\<close>

lemma fold_checks:
  "snd (fold (check_component v) fs (c, hs)) = hs @ snd (fold (check_component v) fs (c, []))"
proof (induction fs arbitrary: c hs)
  case (Cons f fs)
  obtain n g where f: "f = (n, g)" by (rule prod.exhaust)
  obtain c1 h where h: "g v c = (c1, h)" by (rule prod.exhaust)
  have 1: "snd (fold (check_component v) fs (c1, hs @ [h])) = (hs @ [h]) @ snd (fold (check_component v) fs (c1, []))" for hs
    by (rule Cons.IH)
  have 2: "snd (fold (check_component v) fs (c, hs @ [u])) = (hs @ [u]) @ snd (fold (check_component v) fs (c, []))" for hs u
    by (rule Cons.IH)
  show ?case using f h 1 [of hs] 1 [of "[]"] 2 [of hs "not_initialized (he_now v) n"] 2 [of "[]" "not_initialized (he_now v) n"]
    by (simp add: check_component_def)
qed simp

lemma length_checks: "length (snd (fold (check_component v) fs (c, hs))) = length hs + length fs"
proof (induction fs arbitrary: c hs)
  case (Cons f fs)
  then show ?case by (cases f) (simp add: check_component_def split: prod.split)
qed simp

lemma summary_total:
  "hs_healthyComponents (summarize hs) + hs_degradedComponents (summarize hs) + hs_unhealthyComponents (summarize hs)
     + hs_unavailableComponents (summarize hs) = hs_totalComponents (summarize hs)"
proof (induction hs)
  case (Cons h hs)
  then show ?case
    by (cases "ch_status h"; cases "case ch_status h of Reported s \<Rightarrow> s | Unavailable \<Rightarrow> Healthy") (simp_all add: summarize_def Let_def)
qed (simp add: summarize_def)

lemma overall_healthy: "aggregate_status (summarize hs) = Healthy \<longleftrightarrow> (\<forall>h \<in> set hs. ch_status h = Reported Healthy)"
proof -
  have s: "st = Healthy \<or> st = Degraded \<or> st = Unhealthy" for st by (cases st) simp_all
  have "aggregate_status (summarize hs) = Healthy
      \<longleftrightarrow> (\<forall>h \<in> set hs. ch_status h \<noteq> Reported Unhealthy \<and> ch_status h \<noteq> Reported Degraded \<and> ch_status h \<noteq> Unavailable)"
    by (auto simp: aggregate_status_def summarize_def Let_def filter_empty_conv)
  also have "\<dots> \<longleftrightarrow> (\<forall>h \<in> set hs. ch_status h = Reported Healthy)"
    by (metis component_status.exhaust component_status.distinct(1) component_status.inject health_status.distinct s)
  finally show ?thesis .
qed

lemma idle_scheduler:
  "runningTasksMap (orc_scheduler (rc_orchestrator c)) = [] \<Longrightarrow> ch_status (snd (checkScheduler v c)) \<noteq> Reported Healthy"
  by (simp add: checkScheduler_def scheduler_health_def reported_def Let_def)

lemma check_reads:
  assumes "fst (f v c) = c"
  shows "\<exists>h. check_component v (n, f) (c, hs) = (c, hs @ [h])"
  using assms by (cases "f v c") (simp add: check_component_def)

lemma checks_keep: "set hs \<subseteq> set (snd (fold (check_component v) fs (c, hs)))"
  by (subst fold_checks) simp

lemma third_check:
  "(if he_present v ''Scheduler'' then snd (checkScheduler v c) else not_initialized (he_now v) ''Scheduler'')
     \<in> set (snd (fold (check_component v) health_checks (c, [])))"
proof -
  let ?r = "(''AgentRegistry'', checkAgentRegistry)" and ?t = "(''AgentRuntime'', checkAgentRuntime)"
  let ?s = "(''Scheduler'', checkScheduler)"
  let ?h = "if he_present v ''Scheduler'' then snd (checkScheduler v c) else not_initialized (he_now v) ''Scheduler''"
  obtain h1 where 1: "check_component v ?r (c, []) = (c, [] @ [h1])"
    using check_reads [of checkAgentRegistry v c "''AgentRegistry''" "[]"] by (auto simp: checkAgentRegistry_def Let_def)
  obtain h2 where 2: "check_component v ?t (c, [h1]) = (c, [h1] @ [h2])"
    using check_reads [of checkAgentRuntime v c "''AgentRuntime''" "[h1]"] by (auto simp: checkAgentRuntime_def)
  obtain c3 where 3: "check_component v ?s (c, [h1, h2]) = (c3, [h1, h2] @ [?h])"
    by (cases "checkScheduler v c"; cases "he_present v ''Scheduler''") (simp_all add: check_component_def)
  obtain fs where fs: "health_checks = ?r # ?t # ?s # fs" by (simp add: health_checks_def)
  have "fold (check_component v) health_checks (c, []) = fold (check_component v) fs (c3, [h1, h2, ?h])"
    unfolding fs using 1 2 3 by simp
  then show ?thesis using checks_keep [of "[h1, h2, ?h]" v fs c3] by simp
qed

end
