(* ===== verification/Boot_Props.thy ===== *)
theory Boot_Props
  imports Runtime_Health Orchestrator_Props
begin

text \<open>
  What holds of the start of the runtime: which built-in agents it registers, that it cannot start them, that it is
  initialized once, and that it is not healthy while it is idle.
\<close>

section \<open>The registration of the built-in agents\<close>

lemma builtin_id_type: "builtin_str a @ CHR ''-'' # s = builtin_str b @ CHR ''-'' # t \<Longrightarrow> a = b"
  by (cases a; cases b; simp)

lemma builtin_str_inj: "builtin_str a = builtin_str b \<Longrightarrow> a = b"
  using builtin_id_type [of a "[]" b "[]"] by simp

lemma generateAgentId_inj: "generateAgentId t x a = generateAgentId u y b \<Longrightarrow> a = b"
  using builtin_id_type [of a "int_str t @ CHR ''-'' # x" b "int_str u @ CHR ''-'' # y"] by (simp add: generateAgentId_def)

lemma builtin_agent_valid:
  "ag_id (builtin_agent_of ty) = builtin_str ty" "validateAgent (builtin_agent_of ty) = None" "builtin_str ty \<noteq> []"
  by (cases ty; simp add: memory_metadata_def tool_agent_metadata_def planner_metadata_def workflow_metadata_def
      execution_agent_metadata_def coordinator_metadata_def plugin_agent_metadata_def communication_metadata_def
      scheduler_metadata_def orchestrator_metadata_def validateAgent_def agent_type_values_def memory_capabilities_def
      tool_capabilities_def planner_capabilities_def workflow_capabilities_def execution_capabilities_def
      coordinator_capabilities_def plugin_agent_capabilities_def communication_capabilities_def scheduler_capabilities_def
      orchestrator_capabilities_def)+

text \<open>The instances and the agents that the types \<open>done\<close> have left.\<close>

definition registered_so_far ::
  "(builtin_type \<Rightarrow> builtin_env) \<Rightarrow> builtin_components \<Rightarrow> builtin_type list \<Rightarrow> builtin_registry \<times> agent_registry \<Rightarrow> bool" where
  "registered_so_far env given before = (\<lambda>(r, reg).
     map (\<lambda>(i, x). (i, bi_type x, bi_agent x)) (br_agents r)
       = map (\<lambda>ty. (generateAgentId (be_now (env ty)) (be_random (env ty)) ty, ty, builtin_agent_of ty)) (filter given before)
     \<and> reg = map (\<lambda>ty. (builtin_str ty, builtin_agent_of ty)) (filter (\<lambda>ty. given ty \<and> be_initialize (env ty) = None) before))"

lemma map_update_same:
  assumes "js_get m i = Some x" "f y = f x"
  shows "map (\<lambda>(j, z). (j, f z)) (js_set i y m) = map (\<lambda>(j, z). (j, f z)) m"
  using assms by (induction m) (auto simp: js_set_def js_get_def)

lemma keys_of_registered:
  assumes "registered_so_far env given before (r, reg)"
  shows "js_has (br_agents r) i \<longleftrightarrow> (\<exists>ty \<in> set before. given ty \<and> i = generateAgentId (be_now (env ty)) (be_random (env ty)) ty)"
    "js_has reg j \<longleftrightarrow> (\<exists>ty \<in> set before. given ty \<and> be_initialize (env ty) = None \<and> j = builtin_str ty)"
proof -
  have "fst ` set (br_agents r) = fst ` set (map (\<lambda>(i, x). (i, bi_type x, bi_agent x)) (br_agents r))" by force
  also have "\<dots> = (\<lambda>ty. generateAgentId (be_now (env ty)) (be_random (env ty)) ty) ` set (filter given before)"
    using assms by (force simp: registered_so_far_def)
  finally show "js_has (br_agents r) i \<longleftrightarrow> (\<exists>ty \<in> set before. given ty \<and> i = generateAgentId (be_now (env ty)) (be_random (env ty)) ty)"
    by (auto simp: js_has_keys)
  show "js_has reg j \<longleftrightarrow> (\<exists>ty \<in> set before. given ty \<and> be_initialize (env ty) = None \<and> j = builtin_str ty)"
    using assms by (auto simp: registered_so_far_def js_has_keys image_iff)
qed

lemma register_one:
  assumes "registered_so_far env given before s" "ty \<notin> set before"
  shows "registered_so_far env given (before @ [ty]) (fst (registerBuiltinAgent (env ty) given ty s))
    \<and> (snd (registerBuiltinAgent (env ty) given ty s) = None) = (given ty \<and> be_initialize (env ty) = None)"
proof -
  obtain r reg where s: "s = (r, reg)" by (rule prod.exhaust)
  note ok = assms(1) [unfolded s]
  let ?i = "generateAgentId (be_now (env ty)) (be_random (env ty)) ty"
  have new: "\<not> js_has (br_agents r) ?i" "\<not> js_has reg (builtin_str ty)"
    using keys_of_registered [OF ok] assms(2) generateAgentId_inj builtin_str_inj by metis+
  let ?x = "\<lparr>bi_id = ?i, bi_type = ty, bi_agent = builtin_agent_of ty, bi_status = AgIdle, bi_createdAt = be_now (env ty),
             bi_lastUsed = None, bi_usageCount = 0, bi_metadata = []\<rparr>"
  have upd: "map (\<lambda>(j, z). (j, bi_type z, bi_agent z)) (js_set ?i (?x\<lparr>bi_status := st\<rparr>) (br_agents r @ [(?i, ?x)]))
      = map (\<lambda>(j, z). (j, bi_type z, bi_agent z)) (br_agents r @ [(?i, ?x)])" for st
  proof (rule map_update_same [of _ _ ?x "\<lambda>z. (bi_type z, bi_agent z)"])
    show "js_get (br_agents r @ [(?i, ?x)]) ?i = Some ?x" using new(1) by (simp add: js_get_def js_has_def map_add_def)
  qed simp
  have get: "js_get (br_agents r @ [(?i, ?x)]) ?i = Some ?x" using new(1) by (simp add: js_get_def js_has_def map_add_def)
  show ?thesis
  proof (cases "given ty")
    case False
    then show ?thesis using ok s by (simp add: registerBuiltinAgent_def validateComponentsForAgentType_def registered_so_far_def)
  next
    case True
    then show ?thesis using ok s new upd get
      by (cases "be_initialize (env ty)")
        (simp_all add: registerBuiltinAgent_def validateComponentsForAgentType_def br_registerAgent_def createAgent_def Let_def
          js_set_new register_agent_def builtin_agent_valid updateAgentStatus_def registered_so_far_def)
  qed
qed

lemma register_each_outcome:
  assumes "registered_so_far env given before s" "distinct (before @ tys)"
    "good = filter (\<lambda>ty. given ty \<and> be_initialize (env ty) = None) before"
    "map fst bad = filter (\<lambda>ty. \<not> (given ty \<and> be_initialize (env ty) = None)) before"
    "register_each env given tys s good bad = (s1, good1, bad1)"
  shows "registered_so_far env given (before @ tys) s1
    \<and> good1 = filter (\<lambda>ty. given ty \<and> be_initialize (env ty) = None) (before @ tys)
    \<and> map fst bad1 = filter (\<lambda>ty. \<not> (given ty \<and> be_initialize (env ty) = None)) (before @ tys)"
  using assms
proof (induction tys arbitrary: before s good bad)
  case (Cons ty tys)
  obtain s2 res where r: "registerBuiltinAgent (env ty) given ty s = (s2, res)" by (rule prod.exhaust)
  have new: "ty \<notin> set before" using Cons.prems(2) by simp
  have one: "registered_so_far env given (before @ [ty]) s2" "(res = None) = (given ty \<and> be_initialize (env ty) = None)"
    using register_one [OF Cons.prems(1) new] r by simp_all
  have d: "distinct ((before @ [ty]) @ tys)" using Cons.prems(2) by simp
  show ?case
  proof (cases res)
    case None
    have g: "good @ [ty] = filter (\<lambda>ty. given ty \<and> be_initialize (env ty) = None) (before @ [ty])"
      "map fst bad = filter (\<lambda>ty. \<not> (given ty \<and> be_initialize (env ty) = None)) (before @ [ty])"
      using one(2) None Cons.prems(3,4) by auto
    show ?thesis using Cons.IH [OF one(1) d g] Cons.prems(5) r None by simp
  next
    case (Some m)
    have g: "good = filter (\<lambda>ty. given ty \<and> be_initialize (env ty) = None) (before @ [ty])"
      "map fst (bad @ [(ty, m)]) = filter (\<lambda>ty. \<not> (given ty \<and> be_initialize (env ty) = None)) (before @ [ty])"
      using one(2) Some Cons.prems(3,4) by auto
    show ?thesis using Cons.IH [OF one(1) d g] Cons.prems(5) r Some by simp
  qed
qed simp

text \<open>C24: The registration of the built-in agents registers exactly the types whose components are given and whose agent could
  be initialized, in the order of the types, and reports the others as failed; an agent whose initialization
  failed stays in the registry of the built-in agents all the same, and the generated ids never clash.\<close>

theorem builtin_registration_outcome:
  "case registerAllBuiltinAgents now env given [] of (reg, b) \<Rightarrow>
     bg_registered b = filter (\<lambda>ty. given ty \<and> be_initialize (env ty) = None) builtin_types
     \<and> map fst (bg_failed b) = filter (\<lambda>ty. \<not> (given ty \<and> be_initialize (env ty) = None)) builtin_types
     \<and> bg_success b = (filter (\<lambda>ty. \<not> (given ty \<and> be_initialize (env ty) = None)) builtin_types = [])
     \<and> reg = map (\<lambda>ty. (builtin_str ty, builtin_agent_of ty)) (bg_registered b)
     \<and> map bi_type (listAllAgents (bg_registry b)) = filter given builtin_types"
proof -
  obtain r reg good bad where e: "register_each env given builtin_types (new_builtin_registry now, []) [] [] = ((r, reg), good, bad)"
    by (metis prod.collapse)
  have "registered_so_far env given [] (new_builtin_registry now, [])" by (simp add: registered_so_far_def new_builtin_registry_def)
  moreover have "distinct ([] @ builtin_types)" by (simp add: builtin_types_def)
  ultimately have o: "registered_so_far env given builtin_types (r, reg)"
      "good = filter (\<lambda>ty. given ty \<and> be_initialize (env ty) = None) builtin_types"
      "map fst bad = filter (\<lambda>ty. \<not> (given ty \<and> be_initialize (env ty) = None)) builtin_types"
    using register_each_outcome [OF _ _ _ _ e, of "[]"] by simp_all
  have "map (\<lambda>p. fst (snd p)) (map (\<lambda>(i, x). (i, bi_type x, bi_agent x)) (br_agents r)) = filter given builtin_types"
    using o(1) by (simp add: registered_so_far_def comp_def)
  then have "map bi_type (listAllAgents r) = filter given builtin_types"
    by (simp add: listAllAgents_def js_values_def comp_def case_prod_unfold)
  moreover have "(bad = []) = (filter (\<lambda>ty. \<not> (given ty \<and> be_initialize (env ty) = None)) builtin_types = [])"
    using o(3) by (metis list.map_disc_iff)
  ultimately show ?thesis using e o by (simp add: registerAllBuiltinAgents_def registered_so_far_def)
qed

section \<open>The start\<close>

lemma initialize_ended:
  assumes "bt_bootstrap env update opts b0 = Some (b, res)" "\<not> bt_initialized b0" "\<not> bt_initializerDone b0"
  shows "\<exists>l. (b, res) = (let c = create_runtime env opts l; b1 = bt_initialize opts c b0
     in if bo_autoStart opts then bt_autoStart update c b1 else (b1, Inr c))"
proof -
  obtain l where "initializePluginLoader env opts = Some l"
    using assms by (auto simp: bt_bootstrap_def runtime_initialize_def)
  then show ?thesis using assms by (intro exI [of _ l]) (simp add: bt_bootstrap_def runtime_initialize_def)
qed

lemma bt_initialize_fields [simp]:
  "bt_initialized (bt_initialize opts c b)" "bt_started (bt_initialize opts c b) = bt_started b"
  "bt_components (bt_initialize opts c b) = Some c" "bt_initializerDone (bt_initialize opts c b)"
  by (simp_all add: bt_initialize_def startHealthMonitoring_def Let_def split: option.split)

lemma created_runtime:
  "orc_lifecycle (rc_orchestrator (create_runtime env opts l)) = []" "orc_state (rc_orchestrator (create_runtime env opts l)) = OrchStopped"
  "listAllAgents (bg_registry (rc_builtin (create_runtime env opts l))) \<noteq> []"
proof -
  obtain reg b where r: "registerAllBuiltinAgents (rv_now env) (rv_builtin env) createBuiltinComponents [] = (reg, b)" by (rule prod.exhaust)
  then show "orc_lifecycle (rc_orchestrator (create_runtime env opts l)) = []" "orc_state (rc_orchestrator (create_runtime env opts l)) = OrchStopped"
    by (simp_all add: create_runtime_def put_agents_def new_orchestrator_def)
  have "map bi_type (listAllAgents (bg_registry b)) = filter createBuiltinComponents builtin_types"
    using builtin_registration_outcome [where now="rv_now env" and env="rv_builtin env" and given=createBuiltinComponents] r by simp
  then have "map bi_type (listAllAgents (bg_registry b)) \<noteq> []" by (simp add: createBuiltinComponents_def builtin_types_def)
  then show "listAllAgents (bg_registry (rc_builtin (create_runtime env opts l))) \<noteq> []" using r by (simp add: create_runtime_def)
qed

text \<open>Nobody has initialized the agents: the lifecycle does not let them run.\<close>

lemma start_unknown: "js_get l i = None \<Longrightarrow> \<exists>e. start fnd out i l = (l, Inl e)"
  by (simp add: start_def getAgentState_def isValidTransition_def split: sum.split)

lemma start_agents_fails:
  assumes "orc_lifecycle o1 = []" "xs \<noteq> []"
  shows "\<exists>e. start_agents update xs o1 = (o1, Inl e)"
proof -
  obtain x ys where xs: "xs = x # ys" using assms(2) by (cases xs) auto
  obtain e where "start (find_agent (rt_agents (orc_runtime o1))) (update (ag_id (bi_agent x))) (ag_id (bi_agent x)) (orc_lifecycle o1)
      = (orc_lifecycle o1, Inl e)"
    using start_unknown [of "orc_lifecycle o1" "ag_id (bi_agent x)"] assms(1) by fastforce
  then show ?thesis using xs by simp
qed

lemma bt_start_fails:
  assumes "bt_initialized b" "\<not> bt_started b" "bt_components b = Some c" "orc_lifecycle (rc_orchestrator c) = []"
    "listAllAgents (bg_registry (rc_builtin c)) \<noteq> []"
  shows "\<exists>e. bt_start update b
    = (b\<lparr>bt_components := Some (c\<lparr>rc_orchestrator := (rc_orchestrator c)\<lparr>orc_state := OrchRunning\<rparr>\<rparr>)\<rparr>, Inl e)"
proof -
  have o: "orch_start (\<lambda>n. True) (rc_orchestrator c) = ((rc_orchestrator c)\<lparr>orc_state := OrchRunning\<rparr>, Inr ())"
    by (auto simp: orch_start_def validateComponents_def orch_components_def)
  have "orc_lifecycle ((rc_orchestrator c)\<lparr>orc_state := OrchRunning\<rparr>) = []" using assms(4) by simp
  from start_agents_fails [OF this assms(5), of update] obtain e where
    "start_agents update (listAllAgents (bg_registry (rc_builtin c))) ((rc_orchestrator c)\<lparr>orc_state := OrchRunning\<rparr>)
       = ((rc_orchestrator c)\<lparr>orc_state := OrchRunning\<rparr>, Inl e)" by blast
  with o assms(1-3) show ?thesis by (simp add: bt_start_def)
qed

text \<open>C25: A bootstrap that is to start the runtime fails: the lifecycle manager is asked to start agents that it was never
  asked to initialize. It leaves a runtime that counts as initialized, with the orchestrator running, in which
  neither another bootstrap nor another start succeeds.\<close>

theorem auto_start_fails:
  assumes "bt_bootstrap env update opts new_bootstrap = Some (b, res)" "bo_autoStart opts"
  shows "isl res \<and> bt_initialized b \<and> \<not> bt_started b
    \<and> map_option (\<lambda>c. orc_state (rc_orchestrator c)) (bt_components b) = Some OrchRunning
    \<and> isl (snd (bt_start update' b))
    \<and> bt_bootstrap env' update' opts' b = Some (b, Inl (RuntimeBootstrapError ''Runtime is already initialized''))"
proof -
  obtain l where l: "(b, res) = (let c = create_runtime env opts l; b1 = bt_initialize opts c new_bootstrap
     in if bo_autoStart opts then bt_autoStart update c b1 else (b1, Inr c))"
    using initialize_ended [OF assms(1)] by (auto simp: new_bootstrap_def)
  let ?c = "create_runtime env opts l"
  let ?b2 = "bt_initialize opts ?c new_bootstrap"
  let ?c1 = "?c\<lparr>rc_orchestrator := (rc_orchestrator ?c)\<lparr>orc_state := OrchRunning\<rparr>\<rparr>"
  have n: "\<not> bt_started ?b2" by (simp add: new_bootstrap_def)
  obtain e where e: "bt_start update ?b2 = (?b2\<lparr>bt_components := Some ?c1\<rparr>, Inl e)"
    using bt_start_fails [OF bt_initialize_fields(1) n bt_initialize_fields(3) created_runtime(1,3)] by blast
  have r: "b = ?b2\<lparr>bt_components := Some ?c1\<rparr>" "isl res"
    using l e assms(2) by (simp_all add: bt_autoStart_def Let_def)
  have b: "bt_initialized b" "\<not> bt_started b" "bt_components b = Some ?c1" using r(1) n by simp_all
  have "\<exists>e. bt_start update' b
    = (b\<lparr>bt_components := Some (?c1\<lparr>rc_orchestrator := (rc_orchestrator ?c1)\<lparr>orc_state := OrchRunning\<rparr>\<rparr>)\<rparr>, Inl e)"
    by (rule bt_start_fails [OF b]) (simp_all add: created_runtime)
  then show ?thesis using r(2) b by (auto simp: bt_bootstrap_def)
qed

definition demo_files :: file_system where
  "demo_files = \<lparr>fs_resolve = (\<lambda>s. s), fs_join = (@), fs_extname = (\<lambda>s. []), fs_stat = (\<lambda>s. Inl ''ENOENT''),
     fs_readdir = (\<lambda>s. Inl ''ENOENT''), fs_realpath = Inr, fs_import = (\<lambda>s. Inl ''ENOENT''), fs_regex = (\<lambda>p s. Inr False)\<rparr>"

definition demo_boot_env :: boot_env where
  "demo_boot_env = \<lparr>rv_now = 0, rv_heap = demo_heap, rv_fuel = 0, rv_url = (\<lambda>s. False),
     rv_files = demo_files, rv_builtin = (\<lambda>ty. \<lparr>be_now = 0, be_random = ''r'', be_initialize = None, be_status = AgIdle\<rparr>)\<rparr>"

definition demo_boot_options :: runtime_options where
  "demo_boot_options = \<lparr>bo_workflows = new_registry, bo_enablePlugins = False, bo_pluginSearchPaths = [], bo_autoStart = True,
     bo_healthCheckInterval = None\<rparr>"

lemma demo_boot: "\<exists>b res. bt_bootstrap demo_boot_env (\<lambda>i. None) demo_boot_options new_bootstrap = Some (b, res)"
  by (simp add: bt_bootstrap_def new_bootstrap_def runtime_initialize_def initializePluginLoader_def demo_boot_options_def)

theorem auto_start_fails_witness:
  "map_option (\<lambda>p. isl (snd p)) (bt_bootstrap demo_boot_env (\<lambda>i. None) demo_boot_options new_bootstrap) = Some True"
proof -
  obtain b res where b: "bt_bootstrap demo_boot_env (\<lambda>i. None) demo_boot_options new_bootstrap = Some (b, res)"
    using demo_boot by blast
  have a: "bo_autoStart demo_boot_options" by (simp add: demo_boot_options_def)
  show ?thesis using auto_start_fails [OF b a, of "\<lambda>i. None" demo_boot_env demo_boot_options] b by simp
qed

section \<open>One initialization\<close>

lemma boot_do_done:
  assumes "bt_initializerDone b"
  shows "bt_initializerDone (boot_do st b)"
proof (cases st)
  case (BootBootstrap env update opts)
  then show ?thesis using assms by (simp add: bt_bootstrap_def runtime_initialize_def)
next
  case (BootStart update)
  then show ?thesis using assms by (simp add: bt_start_def split: bool.split option.split prod.split sum.split)
next
  case (BootShutdown w)
  then show ?thesis using assms
    by (simp add: bt_shutdown_def stopHealthMonitoring_def split: bool.split option.split prod.split)
next
  case (BootUse f)
  then show ?thesis using assms by simp
qed

lemma boot_run_done: "bt_initializerDone b \<Longrightarrow> bt_initializerDone (boot_run steps b)"
  by (induction steps arbitrary: b) (simp_all add: boot_run_def boot_do_done)

lemma done_refuses:
  assumes "bt_initializerDone b"
  shows "\<exists>e. bt_bootstrap env update opts b = Some (b, Inl e)"
  using assms by (simp add: bt_bootstrap_def runtime_initialize_def)

text \<open>C26: A runtime is bootstrapped once: after the first bootstrap has come to its end, well or not, every later one fails and
  changes nothing, whatever has been started, used or shut down in between, because the initializer keeps its flag
  over a shut-down.\<close>

theorem runtime_boots_once:
  assumes "bt_bootstrap env update opts new_bootstrap = Some (b, res)"
  shows "\<exists>e. bt_bootstrap env' update' opts' (boot_run steps b) = Some (boot_run steps b, Inl e)"
proof (rule done_refuses [OF boot_run_done])
  have n: "\<not> bt_initialized new_bootstrap" "\<not> bt_initializerDone new_bootstrap" by (simp_all add: new_bootstrap_def)
  obtain l where l: "(b, res) = (let c = create_runtime env opts l; b1 = bt_initialize opts c new_bootstrap
     in if bo_autoStart opts then bt_autoStart update c b1 else (b1, Inr c))"
    using initialize_ended [OF assms n] by blast
  let ?b2 = "bt_initialize opts (create_runtime env opts l) new_bootstrap"
  have "bt_initializerDone (fst (bt_start update ?b2))" using boot_do_done [of ?b2 "BootStart update"] by simp
  then have "bt_initializerDone (fst (bt_autoStart update c ?b2))" for c
    by (auto simp: bt_autoStart_def split: prod.split sum.split)
  moreover have "b = fst (b, res)" by simp
  ultimately show "bt_initializerDone b" unfolding l by (simp add: Let_def)
qed

theorem runtime_boots_once_witness:
  "\<exists>b res e. bt_bootstrap demo_boot_env (\<lambda>i. None) demo_boot_options new_bootstrap = Some (b, res)
     \<and> bt_bootstrap demo_boot_env (\<lambda>i. None) demo_boot_options
          (boot_run [BootShutdown \<lparr>sw_now = 9, sw_shutdown = (\<lambda>a. None), sw_update = (\<lambda>i. None)\<rparr>] b)
        = Some (boot_run [BootShutdown \<lparr>sw_now = 9, sw_shutdown = (\<lambda>a. None), sw_update = (\<lambda>i. None)\<rparr>] b, Inl e)"
proof -
  obtain b res where b: "bt_bootstrap demo_boot_env (\<lambda>i. None) demo_boot_options new_bootstrap = Some (b, res)"
    using demo_boot by blast
  show ?thesis using b runtime_boots_once [OF b] by blast
qed

section \<open>The health of the runtime\<close>

text \<open>C27: A runtime in which no task runs is never healthy, whatever its components report: the scheduler calls itself
  degraded while it is idle, and one degraded component degrades the whole.\<close>

theorem idle_runtime_never_healthy:
  assumes "runningTasksMap (orc_scheduler (rc_orchestrator c)) = []"
  shows "gh_overallStatus (snd (getAggregatedHealth since v c)) \<noteq> Healthy"
proof -
  let ?q = "fold (check_component v) health_checks (c, [])"
  let ?h = "if he_present v ''Scheduler'' then snd (checkScheduler v c) else not_initialized (he_now v) ''Scheduler''"
  have "?h \<in> set (snd ?q)" by (rule third_check)
  moreover have "ch_status ?h \<noteq> Reported Healthy" using idle_scheduler [OF assms] by (simp add: not_initialized_def)
  ultimately have "aggregate_status (summarize (snd ?q)) \<noteq> Healthy" using overall_healthy by blast
  then show ?thesis by (cases ?q) (simp add: getAggregatedHealth_def)
qed

definition demo_health_env :: health_env where
  "demo_health_env = \<lparr>he_now = 1, he_agentHealth = (\<lambda>a. Inr demo_healthy), he_memory = Inl ''no memory'', he_runs = (\<lambda>a. False),
     he_typeError = [], he_present = (\<lambda>n. True)\<rparr>"

definition demo_runtime :: runtime_components where
  "demo_runtime = create_runtime demo_boot_env demo_boot_options (new_plugin_loader None)"

theorem idle_runtime_never_healthy_witness:
  "gh_overallStatus (snd (getAggregatedHealth 0 demo_health_env demo_runtime)) \<noteq> Healthy"
proof -
  have "runningTasksMap (orc_scheduler (rc_orchestrator demo_runtime)) = []"
    by (simp add: demo_runtime_def create_runtime_def put_agents_def new_orchestrator_def default_scheduler_def new_scheduler_def
        split: prod.split)
  then show ?thesis by (rule idle_runtime_never_healthy)
qed

end
