(* ===== verification/Spec2Isabelle.thy ===== *)
theory Spec2Isabelle
  imports Lifecycle Scheduler_Props Planner_Plans Bus_Props Workflow_Props Permission_Props Discovery_Cache
    Memory_Props Scoped_Memory Runtime_Props Coordinator_Steps Session_Props Registry_Props
    Mcp_Execution_Props Plugin_Props Builtin_Props Workflow_Runs Tool_Props Orchestrator_Props Boot_Props
begin

text \<open>
  A model of the agent framework and of the tool-access layer of the AI kernel,
  \<open>backend/services/ai-kernel/src\<close> (paths below are relative to it), and what makes them correct.

  \<^bold>\<open>The program.\<close> Agents are registered in a registry, driven through a lifecycle by the lifecycle
  manager, and receive work in three ways: the planner turns requests into plans of tasks with
  dependencies, the scheduler queues tasks and hands them out, the runtime executes an agent call
  and records the execution, alone or in batches. Agents exchange messages over a bus with an
  inbox and an outbox each and over channels, remember values in four kinds of memory, and are
  combined into workflows and coordinations. The orchestrator drives planner, scheduler, runtime
  and workflows together; ten built-in agents offer the same services as operations of an agent;
  the bootstrap registers them, starts the runtime and reports on its health. Tools are local
  executors in a registry, or live on MCP servers: servers are registered and reached through
  sessions, what a server offers is discovered and cached, every access is authorized by the
  security layer through a permission cache, and executions are bounded, timed and measured.

  \<^bold>\<open>Theories and sources.\<close>
  \<^item> \<open>Prelude\<close>: JavaScript maps in insertion order (\<open>js_map\<close>), values (\<open>jsval\<close>), object spread,
    stable sort, joins and number texts, with the lemmas every other theory uses;
    \<open>Ttl_Store\<close>: the interface \<open>ttl_store\<close> of a cache whose entries expire.
  \<^item> \<open>Agent_Types\<close>, \<open>Agent_Registry\<close>, \<open>Lifecycle\<close>: \<open>agents/types\<close>, \<open>agents/exceptions\<close>,
    \<open>agents/registry/agent-registry.ts\<close>, \<open>agents/lifecycle/agent-lifecycle-manager.ts\<close>,
    \<open>agents/manager/agent-manager.ts\<close>. What an agent's own method does is an argument: its
    outcome, an error or none.
  \<^item> \<open>Agent_Task\<close>, \<open>Scheduler\<close>, \<open>Scheduler_Correct\<close>, \<open>Scheduler_Props\<close>:
    \<open>agents/planner/agent-task.ts\<close>, \<open>agents/scheduler/agent-scheduler.ts\<close>. Task objects are
    shared by reference in the code, so the model has a heap of tasks and queues of references.
  \<^item> \<open>Agent_Plan\<close>, \<open>Planner\<close>, \<open>Planner_Props\<close>, \<open>Planner_Plans\<close>: \<open>agents/planner/agent-plan.ts\<close>,
    \<open>agents/planner/agent-planner.ts\<close>.
  \<^item> \<open>Agent_Message\<close>, \<open>Mailboxes\<close>, \<open>Message_Bus\<close>, \<open>Communication_Manager\<close>, \<open>Bus_Props\<close>:
    \<open>agents/communication\<close>.
  \<^item> \<open>Workflow_Types\<close>, \<open>Workflow_Registry\<close>, \<open>Workflow_Runner\<close>, \<open>Workflow_Props\<close>,
    \<open>Workflow_Engine\<close>, \<open>Workflow_Runs\<close>: \<open>agents/workflow\<close>: types, registry, runner, and the engine
    with its validation and its executions.
  \<^item> \<open>Memory_Base\<close>, \<open>Shared_Memory\<close>, \<open>Scoped_Memory\<close>, \<open>Memory_Props\<close>: \<open>agents/memory\<close>; the
    interface \<open>scoped_store\<close> is what the workspace and the scratchpad memory share.
  \<^item> \<open>Execution_Runtime\<close>, \<open>Runtime_Props\<close>: \<open>agents/executor/agent-executor.ts\<close>,
    \<open>agents/runtime/execution-registry.ts\<close>, \<open>agents/runtime/agent-runtime.ts\<close>.
  \<^item> \<open>Coordinator\<close>, \<open>Coordinator_Steps\<close>, \<open>Coordinator_Props\<close>: \<open>agents/coordinator\<close>.
  \<^item> \<open>Orchestrator\<close>, \<open>Orchestrator_Props\<close>: \<open>agents/orchestrator\<close>, over the registry, planner,
    scheduler, runtime, workflow engine and memory of the theories above.
  \<^item> \<open>Builtin_Shell\<close> (the interface \<open>builtin_agent\<close> and the shell all built-in agents repeat),
    \<open>Planner_Agent\<close>, \<open>Scheduler_Agent\<close>, \<open>Coordinator_Agent\<close>, \<open>Execution_Agent\<close>, \<open>Memory_Agent\<close>,
    \<open>Workflow_Agent\<close>, \<open>Communication_Agent\<close>, \<open>Tool_Agent\<close>, \<open>Plugin_Agent\<close>, \<open>Orchestrator_Agent\<close>,
    \<open>Builtin_Props\<close>: \<open>agents/builtin\<close>, an operation of the agent per function.
  \<^item> \<open>Builtin_Registry\<close>, \<open>Bootstrap\<close>, \<open>Runtime_Health\<close>, \<open>Boot_Props\<close>: \<open>agents/builtin/factory\<close>,
    \<open>agents/runtime/builtin-registration\<close>, \<open>agents/runtime/runtime-initializer.ts\<close> and
    \<open>runtime-shutdown.ts\<close>, \<open>agents/bootstrap\<close>.
  \<^item> \<open>Plugin_Validator\<close>, \<open>Plugin_Registry\<close>, \<open>Plugin_Loader\<close>, \<open>Plugin_Props\<close>: \<open>agents/plugins\<close>.
  \<^item> \<open>Tools\<close>, \<open>Tool_Props\<close>: \<open>tools\<close>: the registry, the validation of parameters, the rate limiter,
    retries, the executors and their batches.
  \<^item> \<open>Permission_Cache\<close>, \<open>Permission_Service\<close>, \<open>Permission_Props\<close>: \<open>mcp/security\<close>;
    \<open>Discovery_Cache\<close>, \<open>Discovery_Service\<close>, \<open>Discovery_Manager\<close>: \<open>mcp/discovery\<close>;
    \<open>Server_Registry\<close>, \<open>Registry_Props\<close>: \<open>mcp/registry\<close>; \<open>Mcp_Session\<close>, \<open>Session_Manager\<close>,
    \<open>Session_Props\<close>: \<open>mcp/sessions\<close>; \<open>Mcp_Manager\<close>, \<open>Mcp_Execution\<close>, \<open>Mcp_Execution_Props\<close>,
    \<open>Execution_Metrics\<close>, \<open>Mcp_Runtime\<close>: \<open>mcp/manager\<close> and \<open>mcp/runtime\<close>.

  \<^bold>\<open>How code is translated.\<close> A class is a record of its fields, a method a function from the state
  to the new state and its result; a thrown exception is the left value of a sum. A reading of the
  clock is an argument, as is a random id, and so is what code outside the model answers (an
  agent, a tool, a transport, a file system). A JavaScript \<open>Map\<close> or \<open>Set\<close> is a list of distinct
  keys in insertion order, because loops over it and eviction depend on that order. Numbers of the
  code that only count, compare or add whole milliseconds are integers or naturals; the one
  product with a fraction (the overhead of an estimate) is computed in the arithmetic of doubles,
  and averages in metrics are exact quotients.

  \<^bold>\<open>Suspension points.\<close> JavaScript runs one piece of code at a time and can switch only at an \<open>await\<close>.
  Where nothing else can touch the state during an \<open>await\<close>, or what runs there is another object's
  code that does not, a method is one function. Where the code reads, awaits and then writes, it
  is split into a function per piece (\<open>authorize_begin\<close> and \<open>authorize_commit\<close>, \<open>shared_read\<close> and
  \<open>write_commit\<close>, \<open>rt_start\<close>, \<open>rt_launch\<close> and \<open>rt_finish\<close>, the steps of a session, the orchestrator's
  \<open>orch_submit\<close>, \<open>orch_prepare\<close>, \<open>orch_launch\<close>, \<open>orch_land\<close> and the ticks of its polling loop), and
  other operations may run between them. Reachable states are inductive predicates over these
  pieces, invariants are proved by rule induction on them.

  \<^bold>\<open>Bounds.\<close> The topological sort visits at a depth of at most \<open>length ts + 2\<close>, which is the fuel of
  \<open>visit\<close>; it is proved that the fuel never runs out. A step of a workflow is executed to the depth
  \<open>step_depth\<close>, the number of steps of the workflow, and it is proved that more is never needed. A
  loop of a workflow is \<open>loop_run\<close>, which recurses on the iterations that are left of the limit in
  the code. Where the code may not end, that is a value: the discovery of plugins gives \<open>None\<close> when
  it follows links without a limit of depth, a batch with a limit that makes no progress gives
  \<open>None\<close>, and the execution of a plan is a step per second of its polling. All other recursion is
  structural.

  \<^bold>\<open>What is proved.\<close>
  \<^item> Agents: the transition table is followed, no operation leaves an agent in a transient state,
    an agent can always be brought to running, bulk operations act on each agent alone.
  \<^item> Scheduler: a task is in one place, the limit of running tasks holds, dequeuing serves the most
    urgent ready task, completion releases exactly the waiting tasks whose dependencies are done.
  \<^item> Planner: the sort is an order of the dependencies and fails exactly on cycles; validation
    accepts exactly the sound plans; merging and creating succeed exactly when stated.
  \<^item> Communication: the inbox keeps its order and bound; a message reaches its inbox, a broadcast
    every other agent, exactly when there is room; unregistering leaves nothing behind.
  \<^item> Workflows: the outcome of a sequential run, the counted loops that never end normally, the name
    index of the registry, what validation guarantees, the execution of a sequence of tasks by the
    engine, and the depth of its recursion.
  \<^item> Memories: exclusion by locks, versions that count the writes, the lost update at the await,
    isolation of workspaces and lifetime of scratchpads.
  \<^item> Runtime: the registry of executions is consistent, cancellation and timeouts do not do what they
    say, a batch keeps its limit and ends, and does not fail fast.
  \<^item> Coordination: the outcome of a sequential coordination, the counters, and the majority vote on
    which agents never agree.
  \<^item> Orchestration: the counters and the suspended calls of every run, an agent that is executed
    only once, stopping and cancelling while an agent runs, plans that complete by the clock.
  \<^item> Built-in agents: \<open>execute\<close> rejects exactly the inputs without an operation of the agent, for all
    ten through one interface; the scheduler agent hands out nothing once the limit is reached.
  \<^item> Start-up: what the registration of the built-in agents registers and reports, why starting
    with the bootstrap fails, that a runtime is booted at most once, and why an idle runtime never
    counts as healthy.
  \<^item> Plugins and tools: how a load ends, the discovery that does not, and the batches of tools
    whose limit changes nothing in their result.
  \<^item> Security: the decision rule, the cache refines the service without one as long as requests are
    isolated, keys determine requests, and the two ways a stale or foreign answer gets out.
  \<^item> Servers and sessions: no server can be registered, what a refresh indexes, the bounds of the
    sessions and their reconnections.
  \<^item> MCP executions: their outcome, the bound of the active ones, the metrics as summaries of the
    executions they recorded.

  \<^bold>\<open>Not modelled.\<close> Everything that is only input or output: HTTP routes and gateways, clients of model
  providers and of databases, the MCP transports, and the services around the kernel (users,
  authentication, workspaces, chats, documents, prompts, agents), whose operations are queries of
  a database. The bridge from MCP tools to the tool registry, and the kernel's own pipeline with
  its execution, planner, memory and provider modules: these wrap clients of other services. Of
  \<open>tools\<close> the built-in tools, which call libraries, the telemetry, which writes to the console,
  and the timeout helper. Of \<open>mcp/runtime\<close> the parallel batch.
\<close>

end
